(* ===== verification/Keyhole_Prelude.thy ===== *)
theory Keyhole_Prelude
  imports Complex_Main "HOL-Library.AList"
begin

text \<open>
  Shared vocabulary of the development: JSON values and Python dictionaries, the Python
  string operations the sources use, decimal printing, Python floats with their
  non-finite values, and a few generic list facts. Strings are lists of bytes: a Python
  string is represented by its UTF-8 encoding, and the case and whitespace operations
  act on the ASCII characters, which is what the wire values handled here contain.
  Finite floats are represented by rationals, so rounding of the last binary digit is
  not modelled.
\<close>

named_theorems json_simps \<open>evaluation of dictionaries and of optional values\<close>

section \<open>JSON values and dictionaries\<close>

text \<open>
  A dictionary is an association list in insertion order. \<^theory_text>\<open>AList.update\<close> overwrites in place
  or appends, as Python's \<open>d[k] = v\<close> does.
\<close>

datatype json =
    JNull
  | JBool bool
  | JInt int
  | JFloat rat
  | JStr string
  | JList "json list"
  | JObj "(string \<times> json) list"

type_synonym dict = "(string \<times> json) list"
type_synonym headers = "(string \<times> string) list"

definition dict_get :: "(string \<times> 'v) list \<Rightarrow> string \<Rightarrow> 'v option" where
  "dict_get d k = map_of d k"

definition dict_get_or :: "(string \<times> 'v) list \<Rightarrow> string \<Rightarrow> 'v \<Rightarrow> 'v" where
  "dict_get_or d k v = (case dict_get d k of None \<Rightarrow> v | Some x \<Rightarrow> x)"

definition dict_set :: "string \<Rightarrow> 'v \<Rightarrow> (string \<times> 'v) list \<Rightarrow> (string \<times> 'v) list" where
  "dict_set = AList.update"

definition dict_setdefault :: "string \<Rightarrow> 'v \<Rightarrow> (string \<times> 'v) list \<Rightarrow> (string \<times> 'v) list" where
  "dict_setdefault k v d = (if dict_get d k = None then dict_set k v d else d)"

definition dict_update :: "(string \<times> 'v) list \<Rightarrow> (string \<times> 'v) list \<Rightarrow> (string \<times> 'v) list" where
  "dict_update d e = fold (\<lambda>(k, v). dict_set k v) e d"

text \<open>Python truthiness.\<close>

fun json_truthy :: "json \<Rightarrow> bool" where
  "json_truthy JNull = False"
| "json_truthy (JBool b) = b"
| "json_truthy (JInt i) = (i \<noteq> 0)"
| "json_truthy (JFloat r) = (r \<noteq> 0)"
| "json_truthy (JStr s) = (s \<noteq> [])"
| "json_truthy (JList xs) = (xs \<noteq> [])"
| "json_truthy (JObj d) = (d \<noteq> [])"

text \<open>\<open>d.get(k)\<close> where a missing key and a stored \<open>None\<close> both read as \<open>None\<close>.\<close>

definition json_get :: "dict \<Rightarrow> string \<Rightarrow> json" where
  "json_get d k = dict_get_or d k JNull"

text \<open>\<open>a or b\<close> on optional strings and on values.\<close>

definition opt_truthy :: "string option \<Rightarrow> bool" where
  "opt_truthy s = (case s of None \<Rightarrow> False | Some x \<Rightarrow> x \<noteq> [])"

definition str_or :: "string \<Rightarrow> string \<Rightarrow> string" where
  "str_or a b = (if a \<noteq> [] then a else b)"

definition json_or :: "json \<Rightarrow> json \<Rightarrow> json" where
  "json_or a b = (if json_truthy a then a else b)"

text \<open>\<open>v if isinstance(v, dict) else {}\<close>, and the same for strings.\<close>

fun as_dict :: "json \<Rightarrow> dict" where
  "as_dict (JObj d) = d"
| "as_dict _ = []"

fun as_str :: "json \<Rightarrow> string" where
  "as_str (JStr s) = s"
| "as_str _ = []"

text \<open>\<open>a or b or c\<close> on strings.\<close>

fun first_nonempty :: "string list \<Rightarrow> string" where
  "first_nonempty [] = []"
| "first_nonempty (s # ss) = (if s \<noteq> [] then s else first_nonempty ss)"

lemma dict_get_set [simp]:
  "dict_get (dict_set k v d) k' = (if k' = k then Some v else dict_get d k')"
  by (simp add: dict_get_def dict_set_def update_conv')

lemma dict_get_update:
  "dict_get (dict_update d e) k = (case map_of (rev e) k of None \<Rightarrow> dict_get d k | Some v \<Rightarrow> Some v)"
  unfolding dict_update_def
  by (induction e arbitrary: d) (auto split: option.splits simp: map_add_def)

lemma dict_get_Nil [simp]: "dict_get [] k = None"
  by (simp add: dict_get_def)

lemma dict_update_Nil [simp]: "dict_update d [] = d"
  by (simp add: dict_update_def)

lemma dict_get_Cons:
  "dict_get ((k, v) # d) k' = (if k' = k then Some v else dict_get d k')"
  by (simp add: dict_get_def)

lemmas [json_simps] = json_get_def dict_get_or_def dict_get_Cons json_or_def

lemma opt_truthy_simps [simp]:
  "opt_truthy None = False"
  "opt_truthy (Some x) = (x \<noteq> [])"
  by (simp_all add: opt_truthy_def)

lemma str_or_simps [simp]:
  "str_or [] b = b"
  "str_or (c # a) b = c # a"
  by (simp_all add: str_or_def)

section \<open>Strings\<close>

definition code_of :: "char \<Rightarrow> nat" where
  "code_of c = of_char c"

definition py_lower_char :: "char \<Rightarrow> char" where
  "py_lower_char c = (if 65 \<le> code_of c \<and> code_of c \<le> 90 then char_of (code_of c + 32) else c)"

definition py_lower :: "string \<Rightarrow> string" where
  "py_lower = map py_lower_char"

definition py_upper_char :: "char \<Rightarrow> char" where
  "py_upper_char c = (if 97 \<le> code_of c \<and> code_of c \<le> 122 then char_of (code_of c - 32) else c)"

definition py_upper :: "string \<Rightarrow> string" where
  "py_upper = map py_upper_char"

definition py_isspace :: "char \<Rightarrow> bool" where
  "py_isspace c = (let n = code_of c in (9 \<le> n \<and> n \<le> 13) \<or> (28 \<le> n \<and> n \<le> 32))"

definition py_isalnum :: "char \<Rightarrow> bool" where
  "py_isalnum c = (let n = code_of c in
     (48 \<le> n \<and> n \<le> 57) \<or> (65 \<le> n \<and> n \<le> 90) \<or> (97 \<le> n \<and> n \<le> 122))"

definition py_isdigit :: "char \<Rightarrow> bool" where
  "py_isdigit c = (48 \<le> code_of c \<and> code_of c \<le> 57)"

text \<open>The character classes on the bits of a character, for evaluation.\<close>

lemma code_of_Char: "code_of (Char b0 b1 b2 b3 b4 b5 b6 b7) =
   of_bool b0 + 2 * (of_bool b1 + 2 * (of_bool b2 + 2 * (of_bool b3 + 2 * (of_bool b4 + 2 * (of_bool b5 + 2 * (of_bool b6 + 2 * of_bool b7))))))"
  by (simp add: code_of_def)

definition letter_bits :: "bool \<Rightarrow> bool \<Rightarrow> bool \<Rightarrow> bool \<Rightarrow> bool \<Rightarrow> bool" where
  "letter_bits b0 b1 b2 b3 b4 = ((b0 \<or> b1 \<or> b2 \<or> b3 \<or> b4) \<and> \<not> (b4 \<and> b3 \<and> (b2 \<or> b1 \<and> b0)))"

lemma py_isdigit_bits [code]:
  "py_isdigit (Char b0 b1 b2 b3 b4 b5 b6 b7) = (\<not> b7 \<and> \<not> b6 \<and> b5 \<and> b4 \<and> (\<not> b3 \<or> \<not> b2 \<and> \<not> b1))"
  unfolding py_isdigit_def code_of_Char
  by (cases b0; cases b1; cases b2; cases b3; cases b4; cases b5; cases b6; cases b7) simp_all

lemma py_isspace_bits [code]:
  "py_isspace (Char b0 b1 b2 b3 b4 b5 b6 b7) =
     (\<not> b7 \<and> \<not> b6 \<and> (if b5 then \<not> b4 \<and> \<not> b3 \<and> \<not> b2 \<and> \<not> b1 \<and> \<not> b0
        else b3 \<and> (if b4 then b2 else (if b2 then \<not> b1 else b1 \<or> b0))))"
  unfolding py_isspace_def code_of_Char Let_def
  by (cases b0; cases b1; cases b2; cases b3; cases b4; cases b5; cases b6; cases b7) simp_all

lemma py_isalnum_bits [code]:
  "py_isalnum (Char b0 b1 b2 b3 b4 b5 b6 b7) =
     (\<not> b7 \<and> (if b6 then letter_bits b0 b1 b2 b3 b4 else b5 \<and> b4 \<and> (\<not> b3 \<or> \<not> b2 \<and> \<not> b1)))"
  unfolding py_isalnum_def code_of_Char Let_def letter_bits_def
  by (cases b0; cases b1; cases b2; cases b3; cases b4; cases b5; cases b6; cases b7) simp_all

lemma py_lower_char_bits [code]:
  "py_lower_char (Char b0 b1 b2 b3 b4 b5 b6 b7) =
     (if \<not> b7 \<and> b6 \<and> \<not> b5 \<and> letter_bits b0 b1 b2 b3 b4 then Char b0 b1 b2 b3 b4 True b6 b7
      else Char b0 b1 b2 b3 b4 b5 b6 b7)"
  unfolding py_lower_char_def code_of_Char letter_bits_def
  by (cases b0; cases b1; cases b2; cases b3; cases b4; cases b5; cases b6; cases b7) (simp_all add: char_of_def bit_0)

lemma py_upper_char_bits [code]:
  "py_upper_char (Char b0 b1 b2 b3 b4 b5 b6 b7) =
     (if \<not> b7 \<and> b6 \<and> b5 \<and> letter_bits b0 b1 b2 b3 b4 then Char b0 b1 b2 b3 b4 False b6 b7
      else Char b0 b1 b2 b3 b4 b5 b6 b7)"
  unfolding py_upper_char_def code_of_Char letter_bits_def
  by (cases b0; cases b1; cases b2; cases b3; cases b4; cases b5; cases b6; cases b7) (simp_all add: char_of_def bit_0)

definition py_lstrip :: "string \<Rightarrow> string" where
  "py_lstrip = dropWhile py_isspace"

definition py_strip :: "string \<Rightarrow> string" where
  "py_strip s = rev (py_lstrip (rev (py_lstrip s)))"

definition py_rstrip_char :: "char \<Rightarrow> string \<Rightarrow> string" where
  "py_rstrip_char c s = rev (dropWhile (\<lambda>x. x = c) (rev s))"

definition py_join :: "string \<Rightarrow> string list \<Rightarrow> string" where
  "py_join sep xs = (case xs of [] \<Rightarrow> [] | x # ys \<Rightarrow> x @ concat (map (\<lambda>y. sep @ y) ys))"

text \<open>The em dash of the messages, in UTF-8.\<close>

definition mdash :: string where
  "mdash = [CHR 0xE2, CHR 0x80, CHR 0x94]"

text \<open>\<open>str(n)\<close> and \<open>str(i)\<close>.\<close>

fun str_nat :: "nat \<Rightarrow> string" where
  "str_nat n = (if n < 10 then [char_of (48 + n)]
                else str_nat (n div 10) @ [char_of (48 + n mod 10)])"

declare str_nat.simps [simp del]

definition str_int :: "int \<Rightarrow> string" where
  "str_int i = (if i < 0 then ''-'' @ str_nat (nat (- i)) else str_nat (nat i))"

lemma str_nat_nonempty [simp]: "str_nat n \<noteq> []"
  by (subst str_nat.simps) simp

section \<open>Python floats\<close>

text \<open>
  A float is a finite number, an infinity or NaN. Every comparison with NaN is false,
  which decides what \<open>max\<close> and \<open>>\<close> do.
\<close>

datatype pyfloat = Finite rat | PosInf | NegInf | NaN

fun pf_less :: "pyfloat \<Rightarrow> pyfloat \<Rightarrow> bool" where
  "pf_less (Finite a) (Finite b) = (a < b)"
| "pf_less (Finite a) PosInf = True"
| "pf_less NegInf (Finite b) = True"
| "pf_less NegInf PosInf = True"
| "pf_less _ _ = False"

text \<open>\<open>max(a, b)\<close>: Python keeps \<open>a\<close> unless \<open>b > a\<close>.\<close>

definition py_max :: "pyfloat \<Rightarrow> pyfloat \<Rightarrow> pyfloat" where
  "py_max a b = (if pf_less a b then b else a)"

section \<open>Lists\<close>

lemma distinct_map_inj: "distinct xs \<Longrightarrow> inj f \<Longrightarrow> distinct (map f xs)"
  by (simp add: distinct_map inj_on_subset [of f UNIV])

end
