(* ===== verification/Operation_Registry.thy ===== *)
theory Operation_Registry
  imports Keyhole_Prelude
begin

text \<open>
  The central operation registry (\<open>transport/operation_registry.py\<close>): operation classes,
  retry policies, descriptors, the module-level dictionary \<open>_REGISTRY\<close> passed as an
  argument, and the table of built-in operations. The interface other components use is
  the locale \<open>op_registry\<close>; the module's dictionary is its interpretation.
\<close>

section \<open>Data\<close>

datatype operation_class =
    READ_ONLY
  | WRITE_IDEMPOTENT_REQUIRED
  | NATURALLY_CONVERGENT_EXEMPT
  | INTERNAL_ONLY_NOT_EXPOSED

datatype retry_policy = SAFE_READ | SAFE_WRITE_IDEMPOTENT | NO_RETRY

fun operation_class_value :: "operation_class \<Rightarrow> string" where
  "operation_class_value READ_ONLY = ''READ_ONLY''"
| "operation_class_value WRITE_IDEMPOTENT_REQUIRED = ''WRITE_IDEMPOTENT_REQUIRED''"
| "operation_class_value NATURALLY_CONVERGENT_EXEMPT = ''NATURALLY_CONVERGENT_EXEMPT''"
| "operation_class_value INTERNAL_ONLY_NOT_EXPOSED = ''INTERNAL_ONLY_NOT_EXPOSED''"

record operation_descriptor =
  op_name :: string
  op_class :: operation_class
  op_retry_policy :: retry_policy
  op_idempotency_required :: bool
  op_proof_required :: bool

type_synonym registry = "(string \<times> operation_descriptor) list"

section \<open>Registry operations\<close>

definition register_operation :: "operation_descriptor \<Rightarrow> registry \<Rightarrow> registry" where
  "register_operation desc reg = dict_set (op_name desc) desc reg"

definition get_operation :: "registry \<Rightarrow> string \<Rightarrow> operation_descriptor option" where
  "get_operation reg nm = dict_get reg nm"

definition get_all_operations :: "registry \<Rightarrow> registry" where
  "get_all_operations reg = reg"

definition is_registered :: "registry \<Rightarrow> string \<Rightarrow> bool" where
  "is_registered reg nm = (nm \<in> fst ` set reg)"

definition requires_idempotency :: "registry \<Rightarrow> string \<Rightarrow> bool" where
  "requires_idempotency reg nm =
     (case dict_get reg nm of None \<Rightarrow> False | Some desc \<Rightarrow> op_idempotency_required desc)"

section \<open>Built-in operations\<close>

text \<open>
  The four shapes of descriptor the table uses; \<open>proof_required\<close> is \<open>False\<close> unless given.
\<close>

abbreviation read_op :: "string \<Rightarrow> operation_descriptor" where
  "read_op nm \<equiv> \<lparr>op_name = nm, op_class = READ_ONLY, op_retry_policy = SAFE_READ,
     op_idempotency_required = False, op_proof_required = False\<rparr>"

abbreviation write_op :: "string \<Rightarrow> operation_descriptor" where
  "write_op nm \<equiv> \<lparr>op_name = nm, op_class = WRITE_IDEMPOTENT_REQUIRED,
     op_retry_policy = SAFE_WRITE_IDEMPOTENT,
     op_idempotency_required = True, op_proof_required = True\<rparr>"

abbreviation exempt_op :: "string \<Rightarrow> retry_policy \<Rightarrow> operation_descriptor" where
  "exempt_op nm pol \<equiv> \<lparr>op_name = nm, op_class = NATURALLY_CONVERGENT_EXEMPT,
     op_retry_policy = pol,
     op_idempotency_required = False, op_proof_required = False\<rparr>"

definition builtin_read_operations :: "operation_descriptor list" where
  "builtin_read_operations =
     [read_op ''capabilities'',
      read_op ''whoami'',
      read_op ''registration_status'',
      read_op ''health'',
      read_op ''identity'',
      read_op ''state'',
      read_op ''context.compile'',
      read_op ''context.inspect'',
      read_op ''run.status'',
      read_op ''events.query'',
      read_op ''gaps.list'',
      read_op ''lineage.get.v0_1'',
      read_op ''convergence.status.v0_1'']"

definition builtin_write_operations :: "operation_descriptor list" where
  "builtin_write_operations =
     [write_op ''register'',
      write_op ''run.start'',
      write_op ''realize'',
      write_op ''ingest.submit'',
      write_op ''repo.register'']"

definition builtin_extension_operations :: "operation_descriptor list" where
  "builtin_extension_operations =
     [read_op ''capability.search'',
      write_op ''capability.resolve'',
      read_op ''alignment.guidance'',
      read_op ''run.budget'',
      read_op ''run.explain'',
      read_op ''request.inspect'',
      write_op ''auth.remove'',
      read_op ''sdk.runtime.surface.get.v1'',
      read_op ''sdk.runtime.compatibility.check.v1'',
      exempt_op ''verify'' SAFE_READ,
      exempt_op ''login'' NO_RETRY]"

definition builtin_operations :: "operation_descriptor list" where
  "builtin_operations =
     builtin_read_operations @ builtin_write_operations @ builtin_extension_operations"

text \<open>The import-time loop that fills the registry.\<close>

definition builtin_registry :: registry where
  "builtin_registry = fold register_operation builtin_operations []"

section \<open>The registry interface\<close>

locale op_registry =
  fixes reg_empty :: "'r"
    and reg_add :: "operation_descriptor \<Rightarrow> 'r \<Rightarrow> 'r"
    and reg_lookup :: "'r \<Rightarrow> string \<Rightarrow> operation_descriptor option"
  assumes lookup_empty: "reg_lookup reg_empty nm = None"
    and lookup_add:
      "reg_lookup (reg_add d r) nm = (if nm = op_name d then Some d else reg_lookup r nm)"
begin

lemma lookup_fold_add:
  "reg_lookup (fold reg_add ds r) nm =
     (case map_of (rev (map (\<lambda>d. (op_name d, d)) ds)) nm of
        None \<Rightarrow> reg_lookup r nm | Some d \<Rightarrow> Some d)"
  by (induction ds arbitrary: r) (auto simp: lookup_add map_add_def split: option.splits)

lemma lookup_fold_add_distinct:
  assumes "distinct (map op_name ds)"
  shows "reg_lookup (fold reg_add ds reg_empty) nm = Some d \<longleftrightarrow> d \<in> set ds \<and> op_name d = nm"
proof -
  have "distinct (map fst (rev (map (\<lambda>d. (op_name d, d)) ds)))"
    using assms by (simp add: rev_map [symmetric] comp_def)
  then have "map_of (rev (map (\<lambda>d. (op_name d, d)) ds)) nm = Some d \<longleftrightarrow>
      (nm, d) \<in> set (rev (map (\<lambda>d. (op_name d, d)) ds))"
    by (rule map_of_eq_Some_iff)
  then show ?thesis
    by (auto simp: lookup_fold_add lookup_empty split: option.splits)
qed

end

interpretation breg: op_registry "[]" register_operation get_operation
  by unfold_locales (auto simp: register_operation_def get_operation_def)

lemma requires_idempotency_alt:
  "requires_idempotency reg nm \<longleftrightarrow>
     (\<exists>d. get_operation reg nm = Some d \<and> op_idempotency_required d)"
  by (simp add: requires_idempotency_def get_operation_def split: option.splits)

lemma is_registered_alt: "is_registered reg nm \<longleftrightarrow> get_operation reg nm \<noteq> None"
  by (simp add: is_registered_def get_operation_def dict_get_def map_of_eq_None_iff)

lemmas builtin_tables =
  builtin_operations_def builtin_read_operations_def builtin_write_operations_def
  builtin_extension_operations_def

lemma builtin_names_distinct: "distinct (map op_name builtin_operations)"
  by (simp add: builtin_tables)

lemma builtin_lookup:
  "get_operation builtin_registry nm = Some d \<longleftrightarrow> d \<in> set builtin_operations \<and> op_name d = nm"
  unfolding builtin_registry_def
  by (rule breg.lookup_fold_add_distinct) (rule builtin_names_distinct)

text \<open>The transport posture a descriptor must have, as a predicate.\<close>

definition descriptor_consistent :: "operation_descriptor \<Rightarrow> bool" where
  "descriptor_consistent d \<longleftrightarrow>
     (op_class d = WRITE_IDEMPOTENT_REQUIRED \<longleftrightarrow> op_idempotency_required d) \<and>
     (op_idempotency_required d \<longleftrightarrow> op_retry_policy d = SAFE_WRITE_IDEMPOTENT) \<and>
     (op_idempotency_required d \<longleftrightarrow> op_proof_required d) \<and>
     (op_class d = READ_ONLY \<longrightarrow> op_retry_policy d = SAFE_READ)"

lemma builtin_all_consistent: "list_all descriptor_consistent builtin_operations"
  by (simp add: builtin_tables descriptor_consistent_def)

lemma builtin_consistent:
  "get_operation builtin_registry nm = Some d \<Longrightarrow> descriptor_consistent d"
  using builtin_all_consistent by (auto simp: builtin_lookup list_all_iff)

end
