(* ===== verification/Retry.thy ===== *)
theory Retry
  imports Operation_Registry
begin

text \<open>
  Retry timing (\<open>transport/retry.py\<close>): the configuration, the exponential backoff with
  jitter, the status predicates, the \<open>Retry-After\<close> header and the sleep. Time is in
  seconds. The draw of \<open>random.random()\<close> is an argument; \<open>float(raw)\<close> is Python's float
  syntax, written out below.
\<close>

section \<open>Configuration\<close>

record retry_config =
  rc_enabled :: bool
  rc_max_retries :: int
  rc_backoff_base_ms :: int
  rc_backoff_max_ms :: int
  rc_respect_retry_after :: bool
  rc_jitter :: bool

definition default_retry_config :: retry_config where
  "default_retry_config = \<lparr>rc_enabled = True, rc_max_retries = 3, rc_backoff_base_ms = 250,
     rc_backoff_max_ms = 5000, rc_respect_retry_after = True, rc_jitter = True\<rparr>"

section \<open>Backoff\<close>

text \<open>
  \<open>attempt\<close> counts from 1. \<open>random.uniform(0, c)\<close> is \<open>0 + (c - 0) * u\<close> for the draw \<open>u\<close>
  in the half-open unit interval.
\<close>

definition compute_backoff_delay ::
    "nat \<Rightarrow> retry_config \<Rightarrow> pyfloat option \<Rightarrow> rat \<Rightarrow> pyfloat" where
  "compute_backoff_delay attempt config retry_after u =
     (case retry_after of
        Some ra \<Rightarrow>
          if rc_respect_retry_after config then py_max ra (Finite 0)
          else
            (let capped_ms = min (rc_backoff_base_ms config * 2 ^ (attempt - 1))
                                 (rc_backoff_max_ms config)
             in Finite ((if rc_jitter config then of_int capped_ms * u else of_int capped_ms) / 1000))
      | None \<Rightarrow>
          (let capped_ms = min (rc_backoff_base_ms config * 2 ^ (attempt - 1))
                               (rc_backoff_max_ms config)
           in Finite ((if rc_jitter config then of_int capped_ms * u else of_int capped_ms) / 1000)))"

section \<open>Status predicates\<close>

definition is_retryable_status :: "int \<Rightarrow> bool" where
  "is_retryable_status s = (s \<in> {408, 429, 502, 503, 504})"

definition is_conflict_status :: "int \<Rightarrow> bool" where
  "is_conflict_status s = (s = 409)"

definition is_rate_limited :: "int \<Rightarrow> bool" where
  "is_rate_limited s = (s = 429)"

section \<open>Retry-After\<close>

text \<open>
  Python's \<open>float(str)\<close>: surrounding whitespace is ignored; a sign; then \<open>inf\<close>,
  \<open>infinity\<close> or \<open>nan\<close> in any case, or a decimal number with an optional fraction and
  exponent, in which single underscores may separate digits. A magnitude that rounds
  beyond the largest double becomes an infinity.
\<close>

definition digit_or_us :: "char \<Rightarrow> bool" where
  "digit_or_us c = (py_isdigit c \<or> c = CHR ''_'')"

fun no_double_us :: "string \<Rightarrow> bool" where
  "no_double_us (a # b # s) = (\<not> (a = CHR ''_'' \<and> b = CHR ''_'') \<and> no_double_us (b # s))"
| "no_double_us _ = True"

definition digitpart_ok :: "string \<Rightarrow> bool" where
  "digitpart_ok s = (s \<noteq> [] \<and> hd s \<noteq> CHR ''_'' \<and> last s \<noteq> CHR ''_'' \<and> no_double_us s)"

definition digits_value :: "string \<Rightarrow> nat" where
  "digits_value s = fold (\<lambda>c n. 10 * n + (code_of c - 48)) (filter py_isdigit s) 0"

definition parse_exponent :: "string \<Rightarrow> int option" where
  "parse_exponent s =
     (case s of
        [] \<Rightarrow> Some 0
      | c # t \<Rightarrow>
          if c = CHR ''e'' \<or> c = CHR ''E'' then
            (case t of
               d # r \<Rightarrow>
                 if d = CHR ''-'' then
                   (if list_all digit_or_us r \<and> digitpart_ok r then Some (- int (digits_value r)) else None)
                 else if d = CHR ''+'' then
                   (if list_all digit_or_us r \<and> digitpart_ok r then Some (int (digits_value r)) else None)
                 else
                   (if list_all digit_or_us t \<and> digitpart_ok t then Some (int (digits_value t)) else None)
             | [] \<Rightarrow> None)
          else None)"

definition to_double :: "rat \<Rightarrow> pyfloat" where
  "to_double r = (if r \<ge> 2 ^ 1024 - 2 ^ 970 then PosInf else Finite r)"

definition parse_unsigned :: "string \<Rightarrow> pyfloat option" where
  "parse_unsigned s =
     (if s = ''inf'' \<or> s = ''infinity'' then Some PosInf
      else if s = ''nan'' then Some NaN
      else
        (let ip = takeWhile digit_or_us s;
             r = dropWhile digit_or_us s;
             (fp, r2) = (case r of [] \<Rightarrow> ([], r)
                         | c # t \<Rightarrow> if c = CHR ''.''
                                    then (takeWhile digit_or_us t, dropWhile digit_or_us t)
                                    else ([], r))
         in if (ip = [] \<or> digitpart_ok ip) \<and> (fp = [] \<or> digitpart_ok fp) \<and> (ip \<noteq> [] \<or> fp \<noteq> [])
            then (case parse_exponent r2 of
                    None \<Rightarrow> None
                  | Some e \<Rightarrow>
                      (let k = length (filter py_isdigit fp);
                           m = of_nat (digits_value (ip @ fp)) / 10 ^ k :: rat
                       in Some (to_double (if e \<ge> 0 then m * 10 ^ nat e else m / 10 ^ nat (- e)))))
            else None))"

fun pf_neg :: "pyfloat \<Rightarrow> pyfloat" where
  "pf_neg (Finite a) = Finite (- a)"
| "pf_neg PosInf = NegInf"
| "pf_neg NegInf = PosInf"
| "pf_neg NaN = NaN"

definition py_float :: "string \<Rightarrow> pyfloat option" where
  "py_float raw =
     (let s = py_lower (py_strip raw)
      in case s of
           [] \<Rightarrow> None
         | c # t \<Rightarrow>
             if c = CHR ''-'' then map_option pf_neg (parse_unsigned t)
             else if c = CHR ''+'' then parse_unsigned t
             else parse_unsigned s)"

text \<open>The argument is the header's value, \<open>None\<close> when the header is absent.\<close>

definition parse_retry_after :: "string option \<Rightarrow> pyfloat option" where
  "parse_retry_after raw = (case raw of None \<Rightarrow> None | Some s \<Rightarrow> py_float s)"

section \<open>Sleeping\<close>

text \<open>
  \<open>time.sleep\<close> keeps time as 63-bit nanoseconds and raises \<open>OverflowError\<close> beyond them;
  NaN never gets there because \<open>NaN > 0\<close> is false.
\<close>

datatype sleep_result = NoSleep | Slept pyfloat | SleepOverflow

definition sleep_overflows :: "pyfloat \<Rightarrow> bool" where
  "sleep_overflows d = (case d of Finite r \<Rightarrow> r * 10 ^ 9 > 2 ^ 63 - 1 | PosInf \<Rightarrow> True | _ \<Rightarrow> False)"

definition sleep_for_backoff :: "pyfloat \<Rightarrow> sleep_result" where
  "sleep_for_backoff delay =
     (if pf_less (Finite 0) delay
      then (if sleep_overflows delay then SleepOverflow else Slept delay)
      else NoSleep)"

section \<open>Facts\<close>

lemma backoff_bounds:
  assumes "0 \<le> u" "u \<le> 1" "0 \<le> rc_backoff_base_ms c" "0 \<le> rc_backoff_max_ms c"
    and "ra = None \<or> \<not> rc_respect_retry_after c"
  shows "\<exists>d. compute_backoff_delay n c ra u = Finite d \<and> 0 \<le> d
           \<and> d \<le> of_int (rc_backoff_max_ms c) / 1000
           \<and> d \<le> of_int (rc_backoff_base_ms c * 2 ^ (n - 1)) / 1000"
proof -
  define cap where "cap = min (rc_backoff_base_ms c * 2 ^ (n - 1)) (rc_backoff_max_ms c)"
  have cap: "0 \<le> cap" "cap \<le> rc_backoff_max_ms c" "cap \<le> rc_backoff_base_ms c * 2 ^ (n - 1)"
    using assms(3,4) by (auto simp: cap_def)
  define ms where "ms = (if rc_jitter c then of_int cap * u else (of_int cap :: rat))"
  have "(of_int cap :: rat) * u \<le> of_int cap * 1"
    using cap(1) assms(2) by (intro mult_left_mono) auto
  then have ms: "0 \<le> ms" "ms \<le> of_int cap"
    using cap(1) assms(1) by (auto simp: ms_def)
  have capr: "(of_int cap :: rat) \<le> of_int (rc_backoff_max_ms c)"
    "(of_int cap :: rat) \<le> of_int (rc_backoff_base_ms c * 2 ^ (n - 1))"
    using cap(2,3) by (simp_all only: of_int_le_iff)
  have "compute_backoff_delay n c ra u = Finite (ms / 1000)"
    using assms(5) by (auto simp: compute_backoff_delay_def cap_def ms_def Let_def split: option.splits)
  moreover have "0 \<le> ms / 1000" using ms(1) by simp
  moreover have "ms / 1000 \<le> of_int (rc_backoff_max_ms c) / 1000"
    using ms(2) capr(1) by (intro divide_right_mono) linarith+
  moreover have "ms / 1000 \<le> of_int (rc_backoff_base_ms c * 2 ^ (n - 1)) / 1000"
    using ms(2) capr(2) by (intro divide_right_mono) linarith+
  ultimately show ?thesis by blast
qed

lemma backoff_retry_after:
  "rc_respect_retry_after c \<Longrightarrow> compute_backoff_delay n c (Some ra) u = py_max ra (Finite 0)"
  by (simp add: compute_backoff_delay_def)

end
