(* ===== verification/Proof_Metadata.thy ===== *)
theory Proof_Metadata
  imports Retry
begin

text \<open>
  Replay-aware proof metadata (\<open>transport/proof_metadata.py\<close>) and the attempt identity of
  \<open>transport/idempotency.py\<close>. Timestamps are supplied by the caller.
\<close>

section \<open>Observations and attempt records\<close>

datatype client_observation =
  EXECUTED | REPLAYED | DEFERRED | CONFLICT | TRANSPORT_UNKNOWN | NOT_SENT

fun client_observation_value :: "client_observation \<Rightarrow> string" where
  "client_observation_value EXECUTED = ''executed''"
| "client_observation_value REPLAYED = ''replayed''"
| "client_observation_value DEFERRED = ''deferred''"
| "client_observation_value CONFLICT = ''conflict''"
| "client_observation_value TRANSPORT_UNKNOWN = ''transport_unknown''"
| "client_observation_value NOT_SENT = ''not_sent''"

record attempt_metadata =
  am_attempt :: nat
  am_request_id :: string
  am_timestamp :: string
  am_reason :: string
  am_delay_ms :: int

record transport_proof =
  tp_request_id :: string
  tp_idempotency_key :: "string option"
  tp_operation_class :: string
  tp_command_name :: string
  tp_attempt_count :: nat
  tp_observation :: client_observation
  tp_server_request_id :: "string option"
  tp_original_request_id :: "string option"
  tp_attempts :: "attempt_metadata list"
  tp_retry_reasons :: "string list"

definition new_transport_proof :: "string option \<Rightarrow> string \<Rightarrow> string \<Rightarrow> transport_proof" where
  "new_transport_proof key cls cmd =
     \<lparr>tp_request_id = [], tp_idempotency_key = key, tp_operation_class = cls,
      tp_command_name = cmd, tp_attempt_count = 0, tp_observation = NOT_SENT,
      tp_server_request_id = None, tp_original_request_id = None,
      tp_attempts = [], tp_retry_reasons = []\<rparr>"

definition record_attempt ::
    "nat \<Rightarrow> string \<Rightarrow> string \<Rightarrow> int \<Rightarrow> string \<Rightarrow> transport_proof \<Rightarrow> transport_proof" where
  "record_attempt attempt rid reason delay_ms now p =
     (let ats = tp_attempts p @
            [\<lparr>am_attempt = attempt, am_request_id = rid, am_timestamp = now,
              am_reason = reason, am_delay_ms = delay_ms\<rparr>]
      in p\<lparr>tp_attempts := ats,
           tp_attempt_count := length ats,
           tp_request_id := rid,
           tp_retry_reasons :=
             (if reason \<noteq> [] then tp_retry_reasons p @ [reason] else tp_retry_reasons p)\<rparr>)"

definition mark_observation :: "client_observation \<Rightarrow> transport_proof \<Rightarrow> transport_proof" where
  "mark_observation ob p = p\<lparr>tp_observation := ob\<rparr>"

fun json_opt_str :: "string option \<Rightarrow> json" where
  "json_opt_str None = JNull"
| "json_opt_str (Some s) = JStr s"

definition attempt_to_dict :: "attempt_metadata \<Rightarrow> json" where
  "attempt_to_dict a = JObj
     [(''attempt'', JInt (int (am_attempt a))),
      (''request_id'', JStr (am_request_id a)),
      (''timestamp'', JStr (am_timestamp a)),
      (''reason'', JStr (am_reason a)),
      (''delay_ms'', JInt (am_delay_ms a))]"

definition proof_to_dict :: "transport_proof \<Rightarrow> dict" where
  "proof_to_dict p =
     [(''request_id'', JStr (tp_request_id p)),
      (''idempotency_key'', json_opt_str (tp_idempotency_key p)),
      (''operation_class'', JStr (tp_operation_class p)),
      (''command_name'', JStr (tp_command_name p)),
      (''attempt_count'', JInt (int (tp_attempt_count p))),
      (''final_client_observation'', JStr (client_observation_value (tp_observation p))),
      (''server_request_id'', json_opt_str (tp_server_request_id p)),
      (''original_request_id'', json_opt_str (tp_original_request_id p)),
      (''attempts'', JList (map attempt_to_dict (tp_attempts p))),
      (''retry_reasons'', JList (map JStr (tp_retry_reasons p)))]"

text \<open>
  The counter agrees with the records, and the last record's request id is the proof's.
\<close>

definition proof_coherent :: "transport_proof \<Rightarrow> bool" where
  "proof_coherent p \<longleftrightarrow>
     tp_attempt_count p = length (tp_attempts p) \<and>
     (tp_attempts p \<noteq> [] \<longrightarrow> tp_request_id p = am_request_id (last (tp_attempts p))) \<and>
     tp_retry_reasons p = filter (\<lambda>r. r \<noteq> []) (map am_reason (tp_attempts p))"

lemma proof_coherent_new [simp]: "proof_coherent (new_transport_proof key cls cmd)"
  by (simp add: proof_coherent_def new_transport_proof_def)

lemma proof_coherent_record [simp]:
  "proof_coherent p \<Longrightarrow> proof_coherent (record_attempt a rid r d now p)"
  by (simp add: proof_coherent_def record_attempt_def Let_def)

lemma proof_coherent_mark [simp]: "proof_coherent (mark_observation ob p) = proof_coherent p"
  by (simp add: proof_coherent_def mark_observation_def)

lemma record_attempt_fields [simp]:
  "tp_attempts (record_attempt a rid r d now p) = tp_attempts p @
     [\<lparr>am_attempt = a, am_request_id = rid, am_timestamp = now, am_reason = r, am_delay_ms = d\<rparr>]"
  "tp_idempotency_key (record_attempt a rid r d now p) = tp_idempotency_key p"
  "tp_observation (record_attempt a rid r d now p) = tp_observation p"
  by (simp_all add: record_attempt_def Let_def)

lemma mark_observation_fields [simp]:
  "tp_attempts (mark_observation ob p) = tp_attempts p"
  "tp_idempotency_key (mark_observation ob p) = tp_idempotency_key p"
  "tp_observation (mark_observation ob p) = ob"
  by (simp_all add: mark_observation_def)

section \<open>Attempt identity\<close>

record operation_attempt =
  oa_operation_name :: string
  oa_idempotency_key :: string
  oa_attempt_number :: nat
  oa_created_at :: string
  oa_request_ids :: "string list"

definition new_operation_attempt :: "string \<Rightarrow> string \<Rightarrow> string \<Rightarrow> operation_attempt" where
  "new_operation_attempt nm fresh_key now =
     \<lparr>oa_operation_name = nm, oa_idempotency_key = fresh_key, oa_attempt_number = 0,
      oa_created_at = now, oa_request_ids = []\<rparr>"

definition next_request_id :: "string \<Rightarrow> operation_attempt \<Rightarrow> string \<times> operation_attempt" where
  "next_request_id fresh oa =
     (fresh, oa\<lparr>oa_attempt_number := oa_attempt_number oa + 1,
                oa_request_ids := oa_request_ids oa @ [fresh]\<rparr>)"

definition attempt_tracking_dict :: "operation_attempt \<Rightarrow> dict" where
  "attempt_tracking_dict oa =
     [(''operation_name'', JStr (oa_operation_name oa)),
      (''idempotency_key'', JStr (oa_idempotency_key oa)),
      (''attempt_number'', JInt (int (oa_attempt_number oa))),
      (''created_at'', JStr (oa_created_at oa)),
      (''request_ids'', JList (map JStr (oa_request_ids oa)))]"

lemma next_request_id_key [simp]:
  "oa_idempotency_key (snd (next_request_id f oa)) = oa_idempotency_key oa"
  by (simp add: next_request_id_def)

lemma next_request_id_count:
  "oa_attempt_number oa = length (oa_request_ids oa) \<Longrightarrow>
   oa_attempt_number (snd (next_request_id f oa)) = length (oa_request_ids (snd (next_request_id f oa)))"
  by (simp add: next_request_id_def)

end
