(* ===== verification/Transport_Client.thy ===== *)
theory Transport_Client
  imports Proof_Metadata
begin

text \<open>
  The governed transport (\<open>transport/client.py\<close>, \<open>transport/errors.py\<close>, \<open>auth.py\<close>): one
  call of \<open>GovernedTransport.execute\<close> as a state transformer over the requests sent, the
  sleeps made and the identifiers drawn. The network, \<open>uuid4\<close>, \<open>random.random\<close> and the
  clock are the environment. The network answers from the whole history of requests, so
  a server that keeps state is covered.
\<close>

section \<open>Responses, requests and errors\<close>

text \<open>
  \<open>resp_json\<close> is \<open>None\<close> when \<open>response.json()\<close> raises \<open>ValueError\<close>. \<open>SendFailed\<close> stands for
  the exceptions the client catches (\<open>ConnectionError\<close>, \<open>Timeout\<close>, \<open>OSError\<close>) and holds
  \<open>str(exc)\<close>.
\<close>

record response =
  resp_status :: int
  resp_text :: string
  resp_reason :: string
  resp_json :: "json option"
  resp_headers :: "string \<Rightarrow> string option"

datatype send_outcome = Responded response | SendFailed string

record sent_request =
  sr_method :: string
  sr_url :: string
  sr_headers :: headers

datatype last_error = NoError | NetworkError string | ServerError string

datatype transport_error =
    MissingIdempotencyKeyError string string
  | TransportUnknownError string string "string option"
  | IdempotencyConflictError string string "string option" string
  | RateLimitedError string "string option" "pyfloat option"
  | RetryExhaustedError string string "string option" nat last_error
  | RuntimeUnavailableError string
  | PublicEndpointError json int json
  | SchemaError string
  | PyAttributeError
  | PyOverflowError

text \<open>
  \<open>repair_guidance\<close> of the typed errors; \<open>str_float\<close> prints a float as an f-string does.
\<close>

fun repair_guidance :: "(pyfloat \<Rightarrow> string) \<Rightarrow> transport_error \<Rightarrow> string list" where
  "repair_guidance str_float (MissingIdempotencyKeyError op rid) =
     [''Ensure the transport client is used for this operation.'',
      ''Do not bypass the governed transport layer for write-bearing calls.'']"
| "repair_guidance str_float (IdempotencyConflictError m rid key detail) =
     [''Do not retry with the same idempotency key.'',
      ''Mint a fresh attempt with a new idempotency key if re-submission is intended.'',
      ''Inspect the original request outcome before retrying.'']"
| "repair_guidance str_float (RetryExhaustedError m rid key n le) =
     [''All '' @ str_nat n @ '' retry attempts exhausted.'',
      ''The same idempotency key is preserved '' @ mdash @ '' you may retry manually.'',
      ''Check network connectivity and server status before retrying.'']"
| "repair_guidance str_float (TransportUnknownError m rid key) =
     [''The request was sent but no response was received.'',
      ''This is NOT proof of non-execution '' @ mdash @ '' the server may have executed it.'',
      ''Retry with the SAME idempotency key to safely resolve the ambiguity.'',
      ''Do NOT mint a new idempotency key for the same logical attempt.'']"
| "repair_guidance str_float (RateLimitedError rid key ra) =
     [''The server is rate-limiting requests.'',
      (case ra of None \<Rightarrow> ''Retry after server-indicated delay.''
       | Some d \<Rightarrow> if d = Finite 0 then ''Retry after server-indicated delay.''
                  else ''Retry after '' @ str_float d @ ''s.''),
      ''The same idempotency key is preserved for safe retry.'']"
| "repair_guidance str_float _ = []"

section \<open>Authentication providers\<close>

text \<open>
  A provider is the sequence of tokens its \<open>get_token\<close> returns, by call number.
\<close>

type_synonym auth_provider = "nat \<Rightarrow> string option"

definition auth_get_headers :: "string option \<Rightarrow> headers" where
  "auth_get_headers token =
     (case token of None \<Rightarrow> []
      | Some t \<Rightarrow> if t \<noteq> [] then [(''Authorization'', ''Bearer '' @ t)] else [])"

definition bearer_token_provider :: "string \<Rightarrow> string + auth_provider" where
  "bearer_token_provider token =
     (if token = [] then Inl ''token must not be empty'' else Inr (\<lambda>_. Some token))"

definition environment_token_provider :: "(nat \<Rightarrow> string \<Rightarrow> string option) \<Rightarrow> string \<Rightarrow> auth_provider" where
  "environment_token_provider getenv env_var = (\<lambda>k. getenv k env_var)"

definition callback_token_provider :: "(nat \<Rightarrow> string option) \<Rightarrow> auth_provider" where
  "callback_token_provider callback = callback"

section \<open>The client and its environment\<close>

record transport =
  tr_base_url :: string
  tr_auth_provider :: "auth_provider option"
  tr_retry_config :: retry_config
  tr_sdk_version :: string

definition make_transport ::
    "string \<Rightarrow> auth_provider option \<Rightarrow> retry_config option \<Rightarrow> string \<Rightarrow> transport" where
  "make_transport base_url auth rc version =
     \<lparr>tr_base_url = py_rstrip_char (CHR ''/'') base_url,
      tr_auth_provider = auth,
      tr_retry_config = (case rc of None \<Rightarrow> default_retry_config | Some c \<Rightarrow> c),
      tr_sdk_version = version\<rparr>"

record transport_result =
  res_data :: json
  res_status_code :: int
  res_proof :: transport_proof
  res_headers :: "string \<Rightarrow> string option"

record transport_env =
  env_net :: "sent_request list \<Rightarrow> send_outcome"
  env_uuid :: "nat \<Rightarrow> string"
  env_random :: "nat \<Rightarrow> rat"
  env_now :: "nat \<Rightarrow> string"

record exec_state =
  st_proof :: transport_proof
  st_sent :: "sent_request list"
  st_slept :: "pyfloat list"
  st_uuids :: nat
  st_backoffs :: nat
  st_last_request_id :: string

definition max_attempts :: "transport \<Rightarrow> retry_policy \<Rightarrow> nat" where
  "max_attempts tr pol =
     (if \<not> rc_enabled (tr_retry_config tr) then 1
      else if pol = NO_RETRY then 1
      else nat (max 1 (rc_max_retries (tr_retry_config tr) + 1)))"

definition mark :: "client_observation \<Rightarrow> exec_state \<Rightarrow> exec_state" where
  "mark ob st = st\<lparr>st_proof := mark_observation ob (st_proof st)\<rparr>"

definition build_headers ::
    "transport \<Rightarrow> nat \<Rightarrow> string option \<Rightarrow> headers \<Rightarrow> string \<Rightarrow> headers" where
  "build_headers tr call key caller rid =
     (let h1 = dict_set ''X-Request-Id'' rid caller;
          h2 = (case key of None \<Rightarrow> h1
                | Some k \<Rightarrow> if k \<noteq> [] then dict_set ''X-Idempotency-Key'' k h1 else h1);
          h3 = (if tr_sdk_version tr \<noteq> []
                then dict_set ''X-Keyhole-SDK-Version'' (tr_sdk_version tr) h2 else h2)
      in case tr_auth_provider tr of None \<Rightarrow> h3
         | Some p \<Rightarrow> dict_update h3 (auth_get_headers (p call)))"

section \<open>One attempt\<close>

datatype attempt_result = Again last_error | Done "transport_error + transport_result"

text \<open>
  Compute the delay, sleep, and go on to the next attempt; an over-long sleep raises.
\<close>

definition backoff_and_continue ::
    "transport_env \<Rightarrow> transport \<Rightarrow> nat \<Rightarrow> pyfloat option \<Rightarrow> last_error \<Rightarrow> exec_state
     \<Rightarrow> attempt_result \<times> exec_state" where
  "backoff_and_continue env tr attempt ra le st =
     (let d = compute_backoff_delay attempt (tr_retry_config tr) ra (env_random env (st_backoffs st));
          st1 = st\<lparr>st_backoffs := st_backoffs st + 1\<rparr>
      in case sleep_for_backoff d of
           NoSleep \<Rightarrow> (Again le, st1)
         | Slept t \<Rightarrow> (Again le, st1\<lparr>st_slept := st_slept st @ [t]\<rparr>)
         | SleepOverflow \<Rightarrow> (Done (Inl PyOverflowError), st1))"

text \<open>
  The tail of the loop body: server errors that are not retried, client errors, an
  unparsable body, and success. \<open>body.get\<close> on a JSON value that is not an object raises
  \<open>AttributeError\<close>.
\<close>

definition finish_response ::
    "response \<Rightarrow> exec_state \<Rightarrow> (transport_error + transport_result) \<times> exec_state" where
  "finish_response r st =
     (if resp_status r \<ge> 500 then
        (Inl (RuntimeUnavailableError
           (''Runtime returned '' @ str_int (resp_status r) @ '': '' @ take 200 (resp_text r))),
         mark TRANSPORT_UNKNOWN st)
      else if resp_status r \<ge> 400 then
        (let st' = mark NOT_SENT st;
             dflt = JStr (str_or (resp_reason r) ''request failed'')
         in case (case resp_json r of None \<Rightarrow> JObj [] | Some b \<Rightarrow> b) of
              JObj body \<Rightarrow>
                (Inl (PublicEndpointError (dict_get_or body ''error'' dflt) (resp_status r)
                        (dict_get_or body ''detail'' (JStr []))), st')
            | _ \<Rightarrow> (Inl PyAttributeError, st'))
      else
        (case resp_json r of
           None \<Rightarrow> (Inl (SchemaError ''Response is not valid JSON''), mark EXECUTED st)
         | Some data \<Rightarrow>
             (let srv = resp_headers r ''X-Request-Id'';
                  orig = resp_headers r ''X-Original-Request-Id'';
                  p1 = (if opt_truthy srv
                        then (st_proof st)\<lparr>tp_server_request_id := srv\<rparr> else st_proof st);
                  p2 = (if opt_truthy orig
                        then mark_observation REPLAYED (p1\<lparr>tp_original_request_id := orig\<rparr>)
                        else mark_observation EXECUTED p1)
              in (Inr \<lparr>res_data = data, res_status_code = resp_status r, res_proof = p2,
                       res_headers = resp_headers r\<rparr>,
                  st\<lparr>st_proof := p2\<rparr>))))"

definition attempt_reason :: "nat \<Rightarrow> string" where
  "attempt_reason attempt = (if attempt = 1 then [] else ''retry #'' @ str_nat (attempt - 1))"

text \<open>What happens to the answer of the network for attempt number \<open>attempt\<close>.\<close>

definition handle_outcome ::
    "transport_env \<Rightarrow> transport \<Rightarrow> retry_policy \<Rightarrow> nat \<Rightarrow> string option \<Rightarrow> nat \<Rightarrow> string
     \<Rightarrow> send_outcome \<Rightarrow> exec_state \<Rightarrow> attempt_result \<times> exec_state" where
  "handle_outcome env tr pol max_att key attempt rid outcome st =
     (case outcome of
        SendFailed exc \<Rightarrow>
          if attempt < max_att \<and> pol \<noteq> NO_RETRY
          then backoff_and_continue env tr attempt None (NetworkError exc) st
          else (Done (Inl (TransportUnknownError
                  (''Transport failure after '' @ str_nat attempt @ '' attempt(s): '' @ exc) rid key)),
                mark TRANSPORT_UNKNOWN st)
      | Responded r \<Rightarrow>
          if is_conflict_status (resp_status r) then
            (Done (Inl (IdempotencyConflictError
               (''Idempotency conflict (HTTP 409): '' @ take 200 (resp_text r)) rid key
               (take 500 (resp_text r)))), mark CONFLICT st)
          else if is_rate_limited (resp_status r) then
            (let ra = parse_retry_after (resp_headers r ''Retry-After'')
             in if attempt < max_att \<and> pol \<noteq> NO_RETRY
                then backoff_and_continue env tr attempt ra NoError st
                else (Done (Inl (RateLimitedError rid key ra)), mark DEFERRED st))
          else if is_retryable_status (resp_status r) \<and> max_att > 1 then
            (let ra = parse_retry_after (resp_headers r ''Retry-After'');
                 le = ServerError (''Runtime returned '' @ str_int (resp_status r))
             in if attempt < max_att then backoff_and_continue env tr attempt ra le st
                else (Done (Inl (RetryExhaustedError
                        (''All '' @ str_nat attempt @ '' retry attempts exhausted. Last status: ''
                          @ str_int (resp_status r)) rid key attempt le)),
                      mark TRANSPORT_UNKNOWN st))
          else (let (res, st') = finish_response r st in (Done res, st')))"

definition send_request ::
    "transport_env \<Rightarrow> transport \<Rightarrow> string \<Rightarrow> string \<Rightarrow> string option \<Rightarrow> nat \<Rightarrow> headers
     \<Rightarrow> exec_state \<Rightarrow> exec_state" where
  "send_request env tr method path key attempt caller st =
     (let rid = env_uuid env (st_uuids st);
          hdrs = build_headers tr (length (st_sent st)) key caller rid;
          p = record_attempt attempt rid (attempt_reason attempt) 0
                (env_now env (length (st_sent st))) (st_proof st)
      in st\<lparr>st_proof := p,
            st_sent := st_sent st @ [\<lparr>sr_method = method, sr_url = tr_base_url tr @ path,
                                      sr_headers = hdrs\<rparr>],
            st_uuids := st_uuids st + 1,
            st_last_request_id := rid\<rparr>)"

definition attempt_once ::
    "transport_env \<Rightarrow> transport \<Rightarrow> retry_policy \<Rightarrow> nat \<Rightarrow> string \<Rightarrow> string \<Rightarrow> string option \<Rightarrow> nat
     \<Rightarrow> headers \<Rightarrow> exec_state \<Rightarrow> attempt_result \<times> exec_state" where
  "attempt_once env tr pol max_att method path key attempt caller st =
     (let st1 = send_request env tr method path key attempt caller st
      in handle_outcome env tr pol max_att key attempt (st_last_request_id st1)
           (env_net env (st_sent st1)) st1)"

section \<open>The retry loop and \<open>execute\<close>\<close>

text \<open>
  \<open>kwargs.pop("headers", {})\<close> sits inside the loop: the first iteration takes the caller's
  headers out of \<open>kwargs\<close>, later ones find none. A loop that runs out falls through to the
  final \<open>raise\<close>; \<open>last_error\<close> keeps its old value on a rate-limited retry.
\<close>

fun attempt_loop ::
    "transport_env \<Rightarrow> transport \<Rightarrow> retry_policy \<Rightarrow> nat \<Rightarrow> string \<Rightarrow> string \<Rightarrow> string option \<Rightarrow> nat list
     \<Rightarrow> headers \<Rightarrow> last_error \<Rightarrow> exec_state \<Rightarrow> (transport_error + transport_result) \<times> exec_state" where
  "attempt_loop env tr pol max_att method path key [] caller le st =
     (Inl (RetryExhaustedError ''All retry attempts exhausted.'' (st_last_request_id st) key max_att le),
      mark NOT_SENT st)"
| "attempt_loop env tr pol max_att method path key (a # as) caller le st =
     (case attempt_once env tr pol max_att method path key a caller st of
        (Done res, st') \<Rightarrow> (res, st')
      | (Again le', st') \<Rightarrow>
          attempt_loop env tr pol max_att method path key as []
            (if le' = NoError then le else le') st')"

definition init_exec_state :: "string option \<Rightarrow> string \<Rightarrow> string \<Rightarrow> exec_state" where
  "init_exec_state key cls op =
     \<lparr>st_proof = new_transport_proof key cls op, st_sent = [], st_slept = [],
      st_uuids = 0, st_backoffs = 0, st_last_request_id = []\<rparr>"

text \<open>Key minting: a registered operation that requires a key and got none draws one.\<close>

definition mint_key :: "transport_env \<Rightarrow> operation_descriptor option \<Rightarrow> string option
    \<Rightarrow> string option \<times> nat" where
  "mint_key env desc key =
     (case desc of
        None \<Rightarrow> (key, 0)
      | Some d \<Rightarrow> if op_idempotency_required d \<and> \<not> opt_truthy key
                 then (Some (env_uuid env 0), 1) else (key, 0))"

definition policy_of :: "registry \<Rightarrow> string \<Rightarrow> retry_policy" where
  "policy_of reg op = (case get_operation reg op of None \<Rightarrow> NO_RETRY | Some d \<Rightarrow> op_retry_policy d)"

definition class_name_of :: "registry \<Rightarrow> string \<Rightarrow> string" where
  "class_name_of reg op = (case get_operation reg op of None \<Rightarrow> ''UNREGISTERED''
     | Some d \<Rightarrow> operation_class_value (op_class d))"

definition key_missing :: "operation_descriptor option \<Rightarrow> string option \<Rightarrow> bool" where
  "key_missing desc key = (case desc of None \<Rightarrow> False
     | Some d \<Rightarrow> op_class d = WRITE_IDEMPOTENT_REQUIRED \<and> \<not> opt_truthy key)"

definition execute ::
    "transport_env \<Rightarrow> registry \<Rightarrow> transport \<Rightarrow> string \<Rightarrow> string \<Rightarrow> string \<Rightarrow> string option \<Rightarrow> headers
     \<Rightarrow> (transport_error + transport_result) \<times> exec_state" where
  "execute env reg tr method path op key caller =
     (let (key', n) = mint_key env (get_operation reg op) key;
          st0 = (init_exec_state key' (class_name_of reg op) op)\<lparr>st_uuids := n\<rparr>;
          pol = policy_of reg op;
          mx = max_attempts tr pol
      in if key_missing (get_operation reg op) key'
         then (Inl (MissingIdempotencyKeyError op ''(not yet assigned)''), st0)
         else attempt_loop env tr pol mx method path key' [1..<mx + 1] caller NoError st0)"

end
