(* ===== verification/Transport_Facts.thy ===== *)
theory Transport_Facts
  imports Transport_Client
begin

text \<open>
  What one attempt does to the state, an induction rule for the retry loop, and the
  properties of \<open>execute\<close>: bounded retries of transient outcomes only, one idempotency
  key and fresh request ids for all sends of a call, and the proof trail.
\<close>

section \<open>Frame facts\<close>

lemma mark_keep [simp]:
  "st_sent (mark ob st) = st_sent st"
  "st_slept (mark ob st) = st_slept st"
  "st_uuids (mark ob st) = st_uuids st"
  "st_last_request_id (mark ob st) = st_last_request_id st"
  "st_proof (mark ob st) = mark_observation ob (st_proof st)"
  by (simp_all add: mark_def)

lemma send_request_keep [simp]:
  "st_sent (send_request env tr m p key a caller st) = st_sent st @
     [\<lparr>sr_method = m, sr_url = tr_base_url tr @ p,
       sr_headers = build_headers tr (length (st_sent st)) key caller (env_uuid env (st_uuids st))\<rparr>]"
  "st_uuids (send_request env tr m p key a caller st) = Suc (st_uuids st)"
  "st_slept (send_request env tr m p key a caller st) = st_slept st"
  "st_last_request_id (send_request env tr m p key a caller st) = env_uuid env (st_uuids st)"
  "st_proof (send_request env tr m p key a caller st) =
     record_attempt a (env_uuid env (st_uuids st)) (attempt_reason a) 0
       (env_now env (length (st_sent st))) (st_proof st)"
  by (simp_all add: send_request_def Let_def)

lemma backoff_keep:
  assumes "backoff_and_continue env tr a ra le st = (r, st')"
  shows "st_sent st' = st_sent st" "st_uuids st' = st_uuids st" "st_proof st' = st_proof st"
    "r = Again le \<or> r = Done (Inl PyOverflowError)"
  using assms by (auto simp: backoff_and_continue_def Let_def split: sleep_result.splits)

text \<open>The parts of the proof record that only \<open>record_attempt\<close> writes.\<close>

definition proof_trail :: "transport_proof \<Rightarrow> string option \<times> attempt_metadata list \<times> string \<times> bool" where
  "proof_trail p = (tp_idempotency_key p, tp_attempts p, tp_request_id p, proof_coherent p)"

lemma proof_trail_mark [simp]: "proof_trail (mark_observation ob p) = proof_trail p"
  by (simp add: proof_trail_def) (simp add: mark_observation_def)

lemma proof_trail_server_ids [simp]:
  "proof_trail (p\<lparr>tp_server_request_id := x\<rparr>) = proof_trail p"
  "proof_trail (p\<lparr>tp_original_request_id := x\<rparr>) = proof_trail p"
  by (simp_all add: proof_trail_def proof_coherent_def)

lemma finish_response_keep:
  assumes "finish_response r st = (res, st')"
  shows "st_sent st' = st_sent st" "st_uuids st' = st_uuids st" "st_slept st' = st_slept st"
    "proof_trail (st_proof st') = proof_trail (st_proof st)"
  using assms
  by (auto simp: finish_response_def Let_def split: if_splits option.splits json.splits)

lemma handle_outcome_keep:
  assumes "handle_outcome env tr pol mx key a rid out st = (r, st')"
  shows "st_sent st' = st_sent st" "st_uuids st' = st_uuids st"
    "proof_trail (st_proof st') = proof_trail (st_proof st)"
  using assms
  by (auto simp: handle_outcome_def Let_def split: send_outcome.splits if_splits prod.splits
      dest: backoff_keep finish_response_keep)

section \<open>Transient outcomes\<close>

definition transient :: "send_outcome \<Rightarrow> bool" where
  "transient out = (case out of SendFailed _ \<Rightarrow> True
     | Responded r \<Rightarrow> resp_status r \<in> {408, 429, 502, 503, 504})"

lemma handle_outcome_Again:
  assumes "handle_outcome env tr pol mx key a rid out st = (Again le, st')"
  shows "transient out" "a < mx"
  using assms
  by (auto simp: handle_outcome_def transient_def Let_def is_rate_limited_def is_retryable_status_def
      split: send_outcome.splits if_splits prod.splits)

lemma handle_outcome_Done:
  assumes "handle_outcome env tr pol mx key a rid out st = (Done res, st')"
    and "transient out" "a < mx" "1 < mx \<longrightarrow> pol \<noteq> NO_RETRY" "1 \<le> a"
  shows "res = Inl PyOverflowError"
  using assms
  by (auto simp: handle_outcome_def transient_def Let_def is_rate_limited_def is_retryable_status_def
      is_conflict_status_def split: send_outcome.splits if_splits prod.splits dest: backoff_keep(4))

section \<open>The retry loop\<close>

text \<open>
  A loop over \<open>[a..<mx + 1]\<close> always ends in an attempt that is done: an attempt asks for
  another one only below the maximum, so the final \<open>raise\<close> is never reached.
\<close>

lemma attempt_loop_rule [consumes 3, case_names stop retry]:
  assumes "attempt_loop env tr pol mx m p key [a..<mx + 1] caller le st = (res, st')"
    and "1 \<le> a" and "a \<le> mx"
    and stop: "\<And>a caller st res st'. 1 \<le> a \<Longrightarrow> a \<le> mx \<Longrightarrow>
        attempt_once env tr pol mx m p key a caller st = (Done res, st') \<Longrightarrow> P a caller st res st'"
    and retry: "\<And>a caller st le st1 res st'. 1 \<le> a \<Longrightarrow> a < mx \<Longrightarrow>
        attempt_once env tr pol mx m p key a caller st = (Again le, st1) \<Longrightarrow>
        P (Suc a) [] st1 res st' \<Longrightarrow> P a caller st res st'"
  shows "P a caller st res st'"
  using assms(1-3)
proof (induction "mx - a" arbitrary: a caller le st)
  case 0
  then have upt: "[a..<mx + 1] = [a]" by simp
  obtain r st1 where once: "attempt_once env tr pol mx m p key a caller st = (r, st1)"
    by fastforce
  show ?case
  proof (cases r)
    case (Again le')
    with once have "a < mx"
      by (auto simp: attempt_once_def Let_def dest: handle_outcome_Again)
    with 0 show ?thesis by simp
  next
    case (Done r')
    with 0 once upt show ?thesis by (auto intro: stop)
  qed
next
  case (Suc n)
  then have upt: "[a..<mx + 1] = a # [Suc a..<mx + 1]"
    by (simp add: upt_conv_Cons del: upt_Suc)
  obtain r st1 where once: "attempt_once env tr pol mx m p key a caller st = (r, st1)"
    by fastforce
  show ?case
  proof (cases r)
    case (Again le')
    with once have lt: "a < mx"
      by (auto simp: attempt_once_def Let_def dest: handle_outcome_Again)
    from Suc.prems(1) upt once Again
    have "attempt_loop env tr pol mx m p key [Suc a..<mx + 1] []
            (if le' = NoError then le else le') st1 = (res, st')"
      by (simp del: upt_Suc)
    then have "P (Suc a) [] st1 res st'"
      using Suc.hyps(1)[of "Suc a"] Suc.hyps(2) lt by simp
    with retry [OF Suc.prems(2) lt] once Again show ?thesis by blast
  next
    case (Done r')
    with Suc.prems once upt show ?thesis by (auto intro: stop simp del: upt_Suc)
  qed
qed

lemma attempt_once_keep:
  assumes "attempt_once env tr pol mx m p key a caller st = (r, st')"
  shows "st_sent st' = st_sent (send_request env tr m p key a caller st)"
    "st_uuids st' = Suc (st_uuids st)"
    "proof_trail (st_proof st') = proof_trail (st_proof (send_request env tr m p key a caller st))"
  using assms by (auto simp: attempt_once_def Let_def dest: handle_outcome_keep)

lemma attempt_loop_discipline:
  assumes "attempt_loop env tr pol mx m p key [a..<mx + 1] caller le st = (res, st')"
    and "1 \<le> a" and "a \<le> mx" and pol: "1 < mx \<longrightarrow> pol \<noteq> NO_RETRY"
  shows "\<exists>new. st_sent st' = st_sent st @ new \<and> new \<noteq> [] \<and> length new \<le> mx + 1 - a
     \<and> (\<forall>i. Suc i < length new \<longrightarrow> transient (env_net env (st_sent st @ take (Suc i) new)))
     \<and> (length new = mx + 1 - a \<or> \<not> transient (env_net env (st_sent st')) \<or> res = Inl PyOverflowError)"
  using assms(1-3)
proof (induction rule: attempt_loop_rule)
  case (stop a caller st res st')
  from attempt_once_keep(1)[OF stop(3)]
  obtain r where sent: "st_sent st' = st_sent st @ [r]" by simp
  have "a = mx \<or> \<not> transient (env_net env (st_sent st')) \<or> res = Inl PyOverflowError"
    using stop pol sent attempt_once_keep(1)[OF stop(3)]
    by (cases "a = mx") (auto simp: attempt_once_def Let_def dest: handle_outcome_Done)
  with sent stop(1,2) show ?case by auto
next
  case (retry a caller st le st1 res st')
  from attempt_once_keep(1)[OF retry(3)]
  obtain r where sent: "st_sent st1 = st_sent st @ [r]" by simp
  have tr: "transient (env_net env (st_sent st @ [r]))"
    using retry(3) sent attempt_once_keep(1)[OF retry(3)]
    by (auto simp: attempt_once_def Let_def dest: handle_outcome_Again)
  from retry(4) sent obtain new where new: "st_sent st' = st_sent st @ r # new" "new \<noteq> []"
      "length new \<le> mx + 1 - Suc a"
      "\<forall>i. Suc i < length new \<longrightarrow> transient (env_net env (st_sent st @ r # take (Suc i) new))"
      "length new = mx + 1 - Suc a \<or> \<not> transient (env_net env (st_sent st')) \<or> res = Inl PyOverflowError"
    by auto
  have "transient (env_net env (st_sent st @ take (Suc i) (r # new)))"
    if "Suc i < length (r # new)" for i
    using that new(4) tr by (cases i) auto
  then show ?case
    using new retry(1,2) by (intro exI [of _ "r # new"]) auto
qed

text \<open>The requests of a loop and its proof trail, in closed form.\<close>

definition nth_request ::
    "transport_env \<Rightarrow> transport \<Rightarrow> string \<Rightarrow> string \<Rightarrow> string option \<Rightarrow> headers \<Rightarrow> nat \<Rightarrow> nat \<Rightarrow> nat
     \<Rightarrow> sent_request" where
  "nth_request env tr m p key caller calls ids i =
     \<lparr>sr_method = m, sr_url = tr_base_url tr @ p,
      sr_headers = build_headers tr (calls + i) key (if i = 0 then caller else [])
                     (env_uuid env (ids + i))\<rparr>"

definition nth_attempt :: "transport_env \<Rightarrow> nat \<Rightarrow> nat \<Rightarrow> nat \<Rightarrow> nat \<Rightarrow> attempt_metadata" where
  "nth_attempt env a calls ids i =
     \<lparr>am_attempt = a + i, am_request_id = env_uuid env (ids + i),
      am_timestamp = env_now env (calls + i), am_reason = attempt_reason (a + i), am_delay_ms = 0\<rparr>"

lemma map_upt_shift: "map f [0..<Suc n] = f 0 # map (\<lambda>i. f (Suc i)) [0..<n]"
  by (simp add: upt_conv_Cons map_Suc_upt [symmetric] del: upt_Suc)

lemma nth_request_Suc:
  "nth_request env tr m p key [] (Suc c) (Suc d) i = nth_request env tr m p key caller c d (Suc i)"
  by (simp add: nth_request_def)

lemma nth_attempt_Suc: "nth_attempt env (Suc a) (Suc c) (Suc d) i = nth_attempt env a c d (Suc i)"
  by (simp add: nth_attempt_def)

lemma attempt_loop_sent:
  assumes "attempt_loop env tr pol mx m p key [a..<mx + 1] caller le st = (res, st')"
    and "1 \<le> a" and "a \<le> mx"
  shows "\<exists>n. st_sent st' = st_sent st @
         map (nth_request env tr m p key caller (length (st_sent st)) (st_uuids st)) [0..<Suc n]
     \<and> st_uuids st' = st_uuids st + Suc n
     \<and> tp_attempts (st_proof st') = tp_attempts (st_proof st) @
         map (nth_attempt env a (length (st_sent st)) (st_uuids st)) [0..<Suc n]
     \<and> tp_idempotency_key (st_proof st') = tp_idempotency_key (st_proof st)
     \<and> (proof_coherent (st_proof st) \<longrightarrow> proof_coherent (st_proof st'))"
  using assms
proof (induction rule: attempt_loop_rule)
  case (stop a caller st res st')
  from attempt_once_keep [OF stop(3)] show ?case
    by (intro exI [of _ 0]) (simp add: nth_request_def nth_attempt_def proof_trail_def)
next
  case (retry a caller st le st1 res st')
  note st1 = attempt_once_keep [OF retry(3)]
  from st1 have len: "length (st_sent st1) = Suc (length (st_sent st))" by simp
  from retry(4) obtain n where IH:
    "st_sent st' = st_sent st1 @
       map (nth_request env tr m p key [] (Suc (length (st_sent st))) (Suc (st_uuids st))) [0..<Suc n]"
    "st_uuids st' = st_uuids st1 + Suc n"
    "tp_attempts (st_proof st') = tp_attempts (st_proof st1) @
       map (nth_attempt env (Suc a) (Suc (length (st_sent st))) (Suc (st_uuids st))) [0..<Suc n]"
    "tp_idempotency_key (st_proof st') = tp_idempotency_key (st_proof st1)"
    "proof_coherent (st_proof st1) \<longrightarrow> proof_coherent (st_proof st')"
    by (auto simp: len st1(2))
  have one: "st_sent st1 = st_sent st @ [nth_request env tr m p key caller (length (st_sent st)) (st_uuids st) 0]"
    "tp_attempts (st_proof st1) = tp_attempts (st_proof st) @
       [nth_attempt env a (length (st_sent st)) (st_uuids st) 0]"
    using st1 by (simp_all add: nth_request_def nth_attempt_def proof_trail_def)
  show ?case
    using IH one st1
    by (intro exI [of _ "Suc n"])
      (simp add: map_upt_shift [of _ "Suc n"] nth_request_Suc [where caller = caller] nth_attempt_Suc
        proof_trail_def del: upt_Suc)
qed

section \<open>Headers\<close>

lemma auth_headers_only_authorization:
  "k \<noteq> ''Authorization'' \<Longrightarrow> map_of (rev (auth_get_headers t)) k = None"
  by (auto simp: auth_get_headers_def split: option.splits)

lemma build_headers_get:
  assumes "k \<noteq> ''Authorization''"
  shows "dict_get (build_headers tr c key caller rid) k =
    (if k = ''X-Keyhole-SDK-Version'' \<and> tr_sdk_version tr \<noteq> [] then Some (tr_sdk_version tr)
     else if k = ''X-Idempotency-Key'' \<and> opt_truthy key then key
     else if k = ''X-Request-Id'' then Some rid
     else dict_get caller k)"
proof -
  have upd: "dict_get (dict_update h (auth_get_headers t)) k = dict_get h k" for h t
    using auth_headers_only_authorization [OF assms] by (simp add: dict_get_update)
  have "dict_get (build_headers tr c key caller rid) k =
      dict_get (build_headers (tr\<lparr>tr_auth_provider := None\<rparr>) c key caller rid) k"
    by (cases "tr_auth_provider tr") (simp_all add: build_headers_def Let_def upd)
  also have "\<dots> = (if k = ''X-Keyhole-SDK-Version'' \<and> tr_sdk_version tr \<noteq> [] then Some (tr_sdk_version tr)
     else if k = ''X-Idempotency-Key'' \<and> opt_truthy key then key
     else if k = ''X-Request-Id'' then Some rid
     else dict_get caller k)"
    by (simp add: build_headers_def Let_def split: option.split)
  finally show ?thesis .
qed

section \<open>execute\<close>

lemma max_attempts_pos [simp]: "1 \<le> max_attempts tr pol"
  by (auto simp: max_attempts_def le_nat_iff)

lemma max_attempts_pos' [simp]: "Suc 0 \<le> max_attempts tr pol"
  using max_attempts_pos [of tr pol] by simp

lemma max_attempts_NO_RETRY [simp]: "max_attempts tr NO_RETRY = 1"
  by (simp add: max_attempts_def)

lemma max_attempts_policy: "1 < max_attempts tr pol \<longrightarrow> pol \<noteq> NO_RETRY"
  by (auto simp: max_attempts_def)

definition minted_key :: "transport_env \<Rightarrow> registry \<Rightarrow> string \<Rightarrow> string option \<Rightarrow> string option" where
  "minted_key env reg op key = fst (mint_key env (get_operation reg op) key)"

lemma execute_is_loop_minted:
  assumes "\<forall>k. env_uuid env k \<noteq> []"
  shows "\<exists>n \<le> 1. execute env builtin_registry tr m p op key caller =
    attempt_loop env tr (policy_of builtin_registry op)
      (max_attempts tr (policy_of builtin_registry op)) m p (minted_key env builtin_registry op key)
      [1..<max_attempts tr (policy_of builtin_registry op) + 1] caller NoError
      ((init_exec_state (minted_key env builtin_registry op key)
          (class_name_of builtin_registry op) op)\<lparr>st_uuids := n\<rparr>)
    \<and> (minted_key env builtin_registry op key \<noteq> key \<longrightarrow> n = 1)"
proof -
  obtain key' n where mint: "mint_key env (get_operation builtin_registry op) key = (key', n)"
    by fastforce
  have n: "n \<le> 1" "key' \<noteq> key \<longrightarrow> n = 1"
    using mint by (auto simp: mint_key_def split: option.splits if_splits)
  have "\<not> key_missing (get_operation builtin_registry op) key'"
  proof (cases "get_operation builtin_registry op")
    case None
    then show ?thesis by (simp add: key_missing_def)
  next
    case (Some d)
    from builtin_consistent [OF Some]
    have "op_class d = WRITE_IDEMPOTENT_REQUIRED \<Longrightarrow> op_idempotency_required d"
      by (simp add: descriptor_consistent_def)
    then show ?thesis
      using mint assms Some by (auto simp: key_missing_def mint_key_def split: if_splits)
  qed
  with mint n show ?thesis
    by (intro exI [of _ n]) (simp add: execute_def minted_key_def Let_def del: upt_Suc)
qed

lemma execute_is_loop:
  assumes "\<forall>k. env_uuid env k \<noteq> []"
  shows "\<exists>n \<le> 1. execute env builtin_registry tr m p op key caller =
    attempt_loop env tr (policy_of builtin_registry op)
      (max_attempts tr (policy_of builtin_registry op)) m p (minted_key env builtin_registry op key)
      [1..<max_attempts tr (policy_of builtin_registry op) + 1] caller NoError
      ((init_exec_state (minted_key env builtin_registry op key)
          (class_name_of builtin_registry op) op)\<lparr>st_uuids := n\<rparr>)"
  using execute_is_loop_minted [OF assms] by blast

text \<open>Everything a call of \<open>execute\<close> sends, with its proof trail.\<close>

lemma execute_sent:
  assumes "\<forall>k. env_uuid env k \<noteq> []"
    and "execute env builtin_registry tr m p op key caller = (res, st)"
  shows "\<exists>n d. st_sent st =
       map (nth_request env tr m p (minted_key env builtin_registry op key) caller 0 d) [0..<Suc n]
     \<and> tp_attempts (st_proof st) = map (nth_attempt env 1 0 d) [0..<Suc n]
     \<and> tp_idempotency_key (st_proof st) = minted_key env builtin_registry op key
     \<and> proof_coherent (st_proof st) \<and> (minted_key env builtin_registry op key \<noteq> key \<longrightarrow> d = 1)"
proof -
  from execute_is_loop_minted [OF assms(1), of tr m p op key caller] obtain d where
    minted: "minted_key env builtin_registry op key \<noteq> key \<longrightarrow> d = 1" and
    loop: "execute env builtin_registry tr m p op key caller = attempt_loop env tr (policy_of builtin_registry op)
      (max_attempts tr (policy_of builtin_registry op)) m p (minted_key env builtin_registry op key)
      [1..<max_attempts tr (policy_of builtin_registry op) + 1] caller NoError
      ((init_exec_state (minted_key env builtin_registry op key)
          (class_name_of builtin_registry op) op)\<lparr>st_uuids := d\<rparr>)"
    by blast
  from attempt_loop_sent [OF loop [symmetric, unfolded assms(2)] order_refl max_attempts_pos] obtain n where
    "st_sent st = map (nth_request env tr m p (minted_key env builtin_registry op key) caller 0 d) [0..<Suc n]"
    "tp_attempts (st_proof st) = map (nth_attempt env 1 0 d) [0..<Suc n]"
    "tp_idempotency_key (st_proof st) = minted_key env builtin_registry op key"
    "proof_coherent (st_proof st)"
    by (auto simp: init_exec_state_def new_transport_proof_def proof_coherent_def simp del: upt_Suc)
  with minted show ?thesis by blast
qed

lemma minted_key_truthy:
  assumes "\<forall>k. env_uuid env k \<noteq> []"
    and "get_operation reg op = Some d" and "op_idempotency_required d"
  shows "opt_truthy (minted_key env reg op key)"
  using assms by (simp add: minted_key_def mint_key_def)

lemma minted_key_drawn:
  assumes "get_operation reg op = Some d" "op_idempotency_required d" "\<not> opt_truthy key"
  shows "minted_key env reg op key = Some (env_uuid env 0)"
  using assms by (simp add: minted_key_def mint_key_def)

lemma minted_key_given: "opt_truthy key \<Longrightarrow> minted_key env reg op key = key"
  by (simp add: minted_key_def mint_key_def split: option.splits)

lemma nth_request_header:
  assumes "k \<noteq> ''Authorization''"
  shows "dict_get (sr_headers (nth_request env tr m p key caller c d i)) k =
    (if k = ''X-Keyhole-SDK-Version'' \<and> tr_sdk_version tr \<noteq> [] then Some (tr_sdk_version tr)
     else if k = ''X-Idempotency-Key'' \<and> opt_truthy key then key
     else if k = ''X-Request-Id'' then Some (env_uuid env (d + i))
     else if i = 0 then dict_get caller k else None)"
  using build_headers_get [OF assms] by (simp add: nth_request_def)

section \<open>Sleeps\<close>

text \<open>A sleep the backoff schedule allows.\<close>

definition scheduled_sleep :: "retry_config \<Rightarrow> pyfloat \<Rightarrow> bool" where
  "scheduled_sleep c t \<longleftrightarrow> (\<exists>d. t = Finite d \<and> 0 < d \<and> d \<le> of_int (rc_backoff_max_ms c) / 1000)"

lemma sleep_for_backoff_Slept: "sleep_for_backoff d = Slept t \<Longrightarrow> t = d \<and> pf_less (Finite 0) t"
  by (auto simp: sleep_for_backoff_def split: if_splits)

lemma backoff_slept:
  assumes "backoff_and_continue env tr a ra le st = (r, st')"
    and c: "c = tr_retry_config tr" "\<not> rc_respect_retry_after c"
      "0 \<le> rc_backoff_base_ms c" "0 \<le> rc_backoff_max_ms c"
    and "\<forall>k. 0 \<le> env_random env k \<and> env_random env k \<le> 1"
  shows "st_slept st' = st_slept st \<or>
    (r = Again le \<and> (\<exists>t. st_slept st' = st_slept st @ [t] \<and> scheduled_sleep c t))"
proof -
  define d where "d = compute_backoff_delay a c ra (env_random env (st_backoffs st))"
  from backoff_bounds [of "env_random env (st_backoffs st)" c ra a] assms(3-6)
  obtain q where q: "d = Finite q" "q \<le> of_int (rc_backoff_max_ms c) / 1000"
    by (auto simp: d_def)
  show ?thesis
    using assms(1) q
    by (auto simp: backoff_and_continue_def c(1) [symmetric] d_def [symmetric] Let_def scheduled_sleep_def
        split: sleep_result.splits dest: sleep_for_backoff_Slept)
qed

lemma attempt_once_slept:
  assumes "attempt_once env tr pol mx m p key a caller st = (r, st')"
    and c: "c = tr_retry_config tr" "\<not> rc_respect_retry_after c"
      "0 \<le> rc_backoff_base_ms c" "0 \<le> rc_backoff_max_ms c"
    and rnd: "\<forall>k. 0 \<le> env_random env k \<and> env_random env k \<le> 1"
  shows "st_slept st' = st_slept st \<or>
    ((\<exists>le. r = Again le) \<and> (\<exists>t. st_slept st' = st_slept st @ [t] \<and> scheduled_sleep c t))"
proof -
  note bs = backoff_slept [OF _ c rnd]
  show ?thesis
    using assms(1)
    by (auto simp: attempt_once_def handle_outcome_def Let_def
        split: send_outcome.splits if_splits prod.splits dest: finish_response_keep(3) dest!: bs)
qed

lemma attempt_loop_slept:
  assumes "attempt_loop env tr pol mx m p key [a..<mx + 1] caller le st = (res, st')"
    and "1 \<le> a" and "a \<le> mx"
    and c: "c = tr_retry_config tr" "\<not> rc_respect_retry_after c"
      "0 \<le> rc_backoff_base_ms c" "0 \<le> rc_backoff_max_ms c"
    and rnd: "\<forall>k. 0 \<le> env_random env k \<and> env_random env k \<le> 1"
  shows "\<exists>new. st_slept st' = st_slept st @ new \<and> list_all (scheduled_sleep c) new
     \<and> length new + length (st_sent st) < length (st_sent st')"
  using assms(1-3)
proof (induction rule: attempt_loop_rule)
  case (stop a caller st res st')
  from attempt_once_slept [OF stop(3) c rnd] attempt_once_keep(1) [OF stop(3)] show ?case by auto
next
  case (retry a caller st le st1 res st')
  from retry(4) obtain new where new: "st_slept st' = st_slept st1 @ new"
    "list_all (scheduled_sleep c) new" "length new + length (st_sent st1) < length (st_sent st')"
    by blast
  from attempt_once_slept [OF retry(3) c rnd] obtain ts where
    "st_slept st1 = st_slept st @ ts" "list_all (scheduled_sleep c) ts" "length ts \<le> 1" by force
  with new attempt_once_keep(1) [OF retry(3)] show ?case
    by (intro exI [of _ "ts @ new"]) auto
qed

section \<open>The result and the last answer\<close>

text \<open>
  What a caller can observe of a result, and the specification of that observation: a
  function of the maximum and of the last answer alone.
\<close>

datatype verdict =
    Succeeded json client_observation
  | UnknownOutcome
  | Conflicting
  | RateLimited
  | Exhausted
  | Unavailable
  | Refused int
  | NotJson
  | Crashed

fun verdict_of :: "transport_error + transport_result \<Rightarrow> verdict" where
  "verdict_of (Inr r) = Succeeded (res_data r) (tp_observation (res_proof r))"
| "verdict_of (Inl (TransportUnknownError _ _ _)) = UnknownOutcome"
| "verdict_of (Inl (IdempotencyConflictError _ _ _ _)) = Conflicting"
| "verdict_of (Inl (RateLimitedError _ _ _)) = RateLimited"
| "verdict_of (Inl (RetryExhaustedError _ _ _ _ _)) = Exhausted"
| "verdict_of (Inl (RuntimeUnavailableError _)) = Unavailable"
| "verdict_of (Inl (PublicEndpointError _ s _)) = Refused s"
| "verdict_of (Inl (SchemaError _)) = NotJson"
| "verdict_of (Inl _) = Crashed"

fun spec_verdict :: "nat \<Rightarrow> send_outcome \<Rightarrow> verdict" where
  "spec_verdict mx (SendFailed e) = UnknownOutcome"
| "spec_verdict mx (Responded r) =
     (if resp_status r = 409 then Conflicting
      else if resp_status r = 429 then RateLimited
      else if resp_status r \<in> {408, 502, 503, 504} \<and> mx > 1 then Exhausted
      else if resp_status r \<ge> 500 then Unavailable
      else if resp_status r \<ge> 400 then
        (case resp_json r of Some (JObj _) \<Rightarrow> Refused (resp_status r) | None \<Rightarrow> Refused (resp_status r)
         | Some _ \<Rightarrow> Crashed)
      else (case resp_json r of None \<Rightarrow> NotJson
            | Some d \<Rightarrow> Succeeded d
                (if opt_truthy (resp_headers r ''X-Original-Request-Id'') then REPLAYED else EXECUTED)))"

lemma finish_response_verdict:
  "verdict_of (fst (finish_response r st)) =
     (if resp_status r \<ge> 500 then Unavailable
      else if resp_status r \<ge> 400 then
        (case resp_json r of Some (JObj _) \<Rightarrow> Refused (resp_status r) | None \<Rightarrow> Refused (resp_status r)
         | Some _ \<Rightarrow> Crashed)
      else (case resp_json r of None \<Rightarrow> NotJson
            | Some d \<Rightarrow> Succeeded d
                (if opt_truthy (resp_headers r ''X-Original-Request-Id'') then REPLAYED else EXECUTED)))"
  by (simp add: finish_response_def Let_def mark_observation_def split: option.split json.split)

lemma handle_outcome_verdict:
  assumes "handle_outcome env tr pol mx key a rid out st = (Done res, st')"
    and "a \<le> mx" "1 < mx \<longrightarrow> pol \<noteq> NO_RETRY" "res \<noteq> Inl PyOverflowError"
  shows "verdict_of res = spec_verdict mx out"
proof (cases out)
  case (SendFailed e)
  with assms show ?thesis
    by (auto simp: handle_outcome_def split: if_splits dest: backoff_keep(4))
next
  case (Responded r)
  note statuses = is_conflict_status_def is_rate_limited_def is_retryable_status_def
  consider (special) "resp_status r \<in> {409, 429} \<or> is_retryable_status (resp_status r) \<and> 1 < mx"
    | (plain) "\<not> is_conflict_status (resp_status r)" "\<not> is_rate_limited (resp_status r)"
      "\<not> (is_retryable_status (resp_status r) \<and> 1 < mx)"
    by (auto simp: statuses)
  then show ?thesis
  proof cases
    case special
    then show ?thesis
      using Responded assms
      by (elim disjE insertE emptyE conjE)
        (auto simp: handle_outcome_def Let_def statuses split: if_splits dest: backoff_keep(4))
  next
    case plain
    then have "res = fst (finish_response r st)"
      using Responded assms(1) by (simp add: handle_outcome_def split: prod.splits if_splits)
    moreover have "resp_status r \<noteq> 409" "resp_status r \<noteq> 429"
      "\<not> (resp_status r \<in> {408, 502, 503, 504} \<and> mx > 1)"
      using plain by (auto simp: statuses)
    ultimately show ?thesis
      by (simp only: Responded spec_verdict.simps finish_response_verdict if_False)
  qed
qed

lemma execute_last_answer:
  assumes "\<forall>k. env_uuid env k \<noteq> []"
    and "execute env builtin_registry tr m p op key caller = (res, st)"
  shows "res = Inl PyOverflowError \<or>
    verdict_of res = spec_verdict (max_attempts tr (policy_of builtin_registry op))
                       (env_net env (st_sent st))"
proof -
  let ?mx = "max_attempts tr (policy_of builtin_registry op)"
  from execute_is_loop [OF assms(1), of tr m p op key caller] assms(2) obtain st0 where
    "attempt_loop env tr (policy_of builtin_registry op) ?mx m p
       (minted_key env builtin_registry op key) [1..<?mx + 1] caller NoError st0 = (res, st)"
    by (auto simp del: upt_Suc)
  then show ?thesis using order_refl max_attempts_pos
  proof (induction rule: attempt_loop_rule)
    case (stop a caller st res st')
    then show ?case
      using attempt_once_keep(1) [OF stop(3)] handle_outcome_verdict max_attempts_policy
      by (fastforce simp: attempt_once_def Let_def)
  qed simp
qed

text \<open>A result holds what the last answer said, and the proof it carries is the final one.\<close>

lemma finish_response_ok:
  assumes "finish_response r st = (Inr result, st')"
  shows "resp_status r < 400" "resp_json r = Some (res_data result)" "res_status_code result = resp_status r"
    "res_proof result = st_proof st'"
  using assms by (auto simp: finish_response_def Let_def split: if_splits option.splits json.splits)

lemma handle_outcome_ok:
  assumes "handle_outcome env tr pol mx key a rid out st = (Done (Inr result), st')"
  shows "\<exists>r. out = Responded r \<and> resp_status r < 400 \<and> resp_json r = Some (res_data result) \<and>
    res_status_code result = resp_status r \<and> res_proof result = st_proof st'"
proof (cases out)
  case (SendFailed e)
  with assms show ?thesis
    by (auto simp: handle_outcome_def split: if_splits dest: backoff_keep(4))
next
  case (Responded r)
  with assms have "finish_response r st = (Inr result, st')"
    by (auto simp: handle_outcome_def Let_def split: if_splits prod.splits dest: backoff_keep(4))
  with finish_response_ok [OF this] Responded show ?thesis by simp
qed

text \<open>A built-in operation never goes out without the key it requires.\<close>

lemma handle_outcome_has_key:
  "handle_outcome env tr pol mx key a rid out st \<noteq> (Done (Inl (MissingIdempotencyKeyError op r)), st')"
  by (auto simp: handle_outcome_def finish_response_def backoff_and_continue_def Let_def
      split: send_outcome.splits prod.splits option.splits json.splits if_splits sleep_result.splits)

lemma execute_has_key:
  assumes "\<forall>k. env_uuid env k \<noteq> []"
    and "execute env builtin_registry tr m p op key caller = (res, st)"
  shows "res \<noteq> Inl (MissingIdempotencyKeyError o1 rid)"
proof -
  let ?mx = "max_attempts tr (policy_of builtin_registry op)"
  from execute_is_loop [OF assms(1), of tr m p op key caller] assms(2) obtain st0 where
    "attempt_loop env tr (policy_of builtin_registry op) ?mx m p
       (minted_key env builtin_registry op key) [1..<?mx + 1] caller NoError st0 = (res, st)"
    by (auto simp del: upt_Suc)
  then show ?thesis
    using order_refl max_attempts_pos
  proof (induction rule: attempt_loop_rule)
    case (stop a caller st res st')
    then show ?case using handle_outcome_has_key by (auto simp: attempt_once_def Let_def)
  qed
qed

lemma execute_ok_answer:
  assumes "\<forall>k. env_uuid env k \<noteq> []"
    and "execute env builtin_registry tr m p op key caller = (Inr result, st)"
  shows "\<exists>r. env_net env (st_sent st) = Responded r \<and> resp_status r < 400 \<and>
    resp_json r = Some (res_data result) \<and> res_status_code result = resp_status r \<and>
    res_proof result = st_proof st"
proof -
  let ?mx = "max_attempts tr (policy_of builtin_registry op)"
  from execute_is_loop [OF assms(1), of tr m p op key caller] assms(2) obtain st0 res where
    "attempt_loop env tr (policy_of builtin_registry op) ?mx m p
       (minted_key env builtin_registry op key) [1..<?mx + 1] caller NoError st0 = (res, st)"
    and res: "res = Inr result"
    by (auto simp del: upt_Suc)
  from this(1) have "\<forall>x. res = Inr x \<longrightarrow> (\<exists>r. env_net env (st_sent st) = Responded r \<and> resp_status r < 400 \<and>
      resp_json r = Some (res_data x) \<and> res_status_code x = resp_status r \<and> res_proof x = st_proof st)"
    using order_refl max_attempts_pos
  proof (induction rule: attempt_loop_rule)
    case (stop a caller st res st')
    show ?case
    proof (intro allI impI)
      fix x assume "res = Inr x"
      with stop(3) have "handle_outcome env tr (policy_of builtin_registry op) ?mx
          (minted_key env builtin_registry op key) a
          (st_last_request_id (send_request env tr m p (minted_key env builtin_registry op key) a caller st))
          (env_net env (st_sent (send_request env tr m p (minted_key env builtin_registry op key) a caller st)))
          (send_request env tr m p (minted_key env builtin_registry op key) a caller st) = (Done (Inr x), st')"
        by (simp add: attempt_once_def Let_def)
      from handle_outcome_ok [OF this] attempt_once_keep(1) [OF stop(3)]
      show "\<exists>r. env_net env (st_sent st') = Responded r \<and> resp_status r < 400 \<and>
          resp_json r = Some (res_data x) \<and> res_status_code x = resp_status r \<and> res_proof x = st_proof st'"
        by simp
    qed
  qed simp
  with res show ?thesis by blast
qed

end
