(* ===== verification/Transport_Properties.thy ===== *)
theory Transport_Properties
  imports Transport_Facts
begin

text \<open>
  The properties of the governed transport, over the built-in registry, with a concrete
  environment for the witnesses: a server that is unavailable twice and then answers.
\<close>

section \<open>A sample environment\<close>

definition sample_response :: "int \<Rightarrow> json option \<Rightarrow> response" where
  "sample_response s j = \<lparr>resp_status = s, resp_text = ''body'', resp_reason = ''reason'',
     resp_json = j, resp_headers = (\<lambda>_. None)\<rparr>"

definition sample_env :: transport_env where
  "sample_env =
     \<lparr>env_net = (\<lambda>h. if length h < 3 then Responded (sample_response 503 None)
                     else Responded (sample_response 200 (Some (JObj [(''ok'', JBool True)])))),
      env_uuid = (\<lambda>k. CHR ''u'' # replicate k (CHR ''x'')),
      env_random = (\<lambda>_. 0), env_now = (\<lambda>_. ''now'')\<rparr>"

definition sample_transport :: transport where
  "sample_transport = make_transport ''https://mcp.example/'' (Some (\<lambda>_. Some ''tok''))
     (Some (default_retry_config\<lparr>rc_jitter := False\<rparr>)) ''1.0''"

lemma sample_uuid: "\<forall>k. env_uuid sample_env k \<noteq> []"
  by (simp add: sample_env_def)

lemma sample_uuid_inj: "inj (env_uuid sample_env)"
  by (rule injI) (auto simp: sample_env_def dest: arg_cong [where f = length])

definition sample_run :: "(transport_error + transport_result) \<times> exec_state" where
  "sample_run = execute sample_env builtin_registry sample_transport ''POST'' ''/mcp/v1/runs/start''
     ''run.start'' None [(''X-Trace'', ''t'')]"

lemma sample_run_eq: "execute sample_env builtin_registry sample_transport ''POST'' ''/mcp/v1/runs/start''
     ''run.start'' None [(''X-Trace'', ''t'')] = (fst sample_run, snd sample_run)"
  by (simp add: sample_run_def)

lemma sample_run_length: "length (st_sent (snd sample_run)) = 3"
  by code_simp

section \<open>Retry discipline\<close>

text \<open>
  C1: A call of \<open>execute\<close> sends at least one and at most \<open>max_attempts\<close> requests. Every
  answer before the last was transient (a connection failure or status 408, 429, 502, 503,
  504), and the call stops before the maximum only on an answer that is not transient or on
  a delay too long for \<open>time.sleep\<close>.
\<close>

theorem execute_retry_discipline:
  assumes "\<forall>k. env_uuid env k \<noteq> []"
    and "execute env builtin_registry tr m p op key caller = (res, st)"
  shows "1 \<le> length (st_sent st)
    \<and> length (st_sent st) \<le> max_attempts tr (policy_of builtin_registry op)
    \<and> (\<forall>i. Suc i < length (st_sent st) \<longrightarrow> transient (env_net env (take (Suc i) (st_sent st))))
    \<and> (length (st_sent st) = max_attempts tr (policy_of builtin_registry op)
       \<or> \<not> transient (env_net env (st_sent st)) \<or> res = Inl PyOverflowError)"
proof -
  from execute_is_loop [OF assms(1), of tr m p op key caller] assms(2) obtain d where
    "attempt_loop env tr (policy_of builtin_registry op)
      (max_attempts tr (policy_of builtin_registry op)) m p (minted_key env builtin_registry op key)
      [1..<max_attempts tr (policy_of builtin_registry op) + 1] caller NoError
      ((init_exec_state (minted_key env builtin_registry op key)
          (class_name_of builtin_registry op) op)\<lparr>st_uuids := d\<rparr>) = (res, st)"
    by (auto simp del: upt_Suc)
  from attempt_loop_discipline [OF this order_refl max_attempts_pos max_attempts_policy]
  show ?thesis
    by (auto simp: init_exec_state_def Suc_le_eq)
qed

theorem execute_retry_discipline_witness:
  "length (st_sent (snd sample_run)) \<le> max_attempts sample_transport (policy_of builtin_registry ''run.start'')
   \<and> transient (env_net sample_env (take 1 (st_sent (snd sample_run))))"
  using execute_retry_discipline [OF sample_uuid sample_run_eq] sample_run_length by simp

section \<open>Identity of a call\<close>

text \<open>
  C6: An operation that requires idempotency carries one non-empty idempotency key on every
  request of the call, retries included: the caller's key when one is given, otherwise the first
  UUID drawn for this call, and when the source never repeats a UUID that key is none of the
  request ids sent; the proof metadata records that same key.
\<close>

theorem execute_one_idempotency_key:
  assumes "\<forall>k. env_uuid env k \<noteq> []"
    and "requires_idempotency builtin_registry op"
    and "execute env builtin_registry tr m p op key caller = (res, st)"
  shows "\<exists>k. k \<noteq> [] \<and> (if opt_truthy key then key = Some k else k = env_uuid env 0)
    \<and> (\<forall>r \<in> set (st_sent st). dict_get (sr_headers r) ''X-Idempotency-Key'' = Some k)
    \<and> (\<not> opt_truthy key \<and> inj (env_uuid env) \<longrightarrow>
         (\<forall>r \<in> set (st_sent st). dict_get (sr_headers r) ''X-Request-Id'' \<noteq> Some k))
    \<and> tp_idempotency_key (st_proof st) = Some k"
proof -
  from assms(2) obtain d where d: "get_operation builtin_registry op = Some d" "op_idempotency_required d"
    by (auto simp: requires_idempotency_alt)
  from minted_key_truthy [OF assms(1) this, of key] obtain k where
    k: "minted_key env builtin_registry op key = Some k" "k \<noteq> []"
    by (auto simp: opt_truthy_def split: option.splits)
  have which: "if opt_truthy key then key = Some k else k = env_uuid env 0"
    using k minted_key_given [of key] minted_key_drawn [OF d, of key env] by (cases "opt_truthy key") auto
  from execute_sent [OF assms(1,3)] k(1) obtain n j where
    sent: "st_sent st = map (nth_request env tr m p (Some k) caller 0 j) [0..<Suc n]"
    and j: "key \<noteq> Some k \<longrightarrow> j = 1" and proved: "tp_idempotency_key (st_proof st) = Some k"
    by auto
  have keyed: "\<forall>r \<in> set (st_sent st). dict_get (sr_headers r) ''X-Idempotency-Key'' = Some k"
    using k(2) by (auto simp: sent nth_request_header simp del: upt_Suc)
  have "dict_get (sr_headers r) ''X-Request-Id'' \<noteq> Some k"
    if "\<not> opt_truthy key" "inj (env_uuid env)" "r \<in> set (st_sent st)" for r
  proof -
    from that(1) k(2) have "key \<noteq> Some k" by auto
    with j have "j = 1" by simp
    with that which show ?thesis
      by (auto simp: sent nth_request_header dest: injD simp del: upt_Suc)
  qed
  with k(2) which keyed proved show ?thesis by blast
qed

theorem execute_one_idempotency_key_witness:
  "list_all (\<lambda>r. dict_get (sr_headers r) ''X-Idempotency-Key'' = Some (env_uuid sample_env 0) \<and>
     dict_get (sr_headers r) ''X-Request-Id'' \<noteq> Some (env_uuid sample_env 0)) (st_sent (snd sample_run))"
proof -
  have "requires_idempotency builtin_registry ''run.start''" by code_simp
  from execute_one_idempotency_key [OF sample_uuid this sample_run_eq] sample_uuid_inj show ?thesis by (simp add: list_all_iff)
qed

text \<open>
  With distinct UUIDs, the requests of one call carry pairwise distinct request ids, and
  the proof trail matches the wire: one record per request, numbered from 1, with the
  request ids that were sent, in order.
\<close>

theorem execute_request_ids:
  assumes "\<forall>k. env_uuid env k \<noteq> []" and "inj (env_uuid env)"
    and "execute env builtin_registry tr m p op key caller = (res, st)"
  shows "distinct (map (\<lambda>r. dict_get (sr_headers r) ''X-Request-Id'') (st_sent st))
    \<and> map (\<lambda>r. dict_get (sr_headers r) ''X-Request-Id'') (st_sent st) =
        map (Some \<circ> am_request_id) (tp_attempts (st_proof st))
    \<and> map am_attempt (tp_attempts (st_proof st)) = [1..<Suc (length (st_sent st))]
    \<and> tp_attempt_count (st_proof st) = length (st_sent st)
    \<and> proof_coherent (st_proof st)"
proof -
  from execute_sent [OF assms(1,3)] obtain n d where
    sent: "st_sent st =
       map (nth_request env tr m p (minted_key env builtin_registry op key) caller 0 d) [0..<Suc n]"
    and att: "tp_attempts (st_proof st) = map (nth_attempt env 1 0 d) [0..<Suc n]"
    and coh: "proof_coherent (st_proof st)" by blast
  have ids: "map (\<lambda>r. dict_get (sr_headers r) ''X-Request-Id'') (st_sent st) =
      map (\<lambda>i. Some (env_uuid env (d + i))) [0..<Suc n]"
    by (simp add: sent nth_request_header comp_def del: upt_Suc)
  have "inj (\<lambda>i. Some (env_uuid env (d + i)))"
    by (rule injI) (auto dest: injD [OF assms(2)])
  then have "distinct (map (\<lambda>r. dict_get (sr_headers r) ''X-Request-Id'') (st_sent st))"
    unfolding ids by (intro distinct_map_inj) simp_all
  moreover have "map (\<lambda>i. Suc i) [0..<Suc n] = [1..<Suc (Suc n)]"
    by (simp add: map_Suc_upt del: upt_Suc)
  ultimately show ?thesis
    using ids coh
    by (simp add: att sent nth_attempt_def comp_def proof_coherent_def del: upt_Suc)
qed

theorem execute_request_ids_witness:
  "distinct (map (\<lambda>r. dict_get (sr_headers r) ''X-Request-Id'') (st_sent (snd sample_run)))
   \<and> map am_attempt (tp_attempts (st_proof (snd sample_run))) = [1, 2, 3]"
proof -
  note w = execute_request_ids [OF sample_uuid sample_uuid_inj sample_run_eq]
  have "[1..<Suc 3] = [1, 2, 3 :: nat]" by (simp add: upt_rec)
  then have "map am_attempt (tp_attempts (st_proof (snd sample_run))) = [1, 2, 3]"
    using w unfolding sample_run_length by argo
  with w show ?thesis by blast
qed

text \<open>
  The caller's own headers reach the server with the first request only. The loop takes
  them out of \<open>kwargs\<close> on its first iteration, so every retry is sent without them.
\<close>

theorem execute_caller_headers_first_send_only:
  assumes "\<forall>k. env_uuid env k \<noteq> []"
    and "execute env builtin_registry tr m p op key caller = (res, st)"
    and "i < length (st_sent st)"
    and "k \<notin> {''X-Request-Id'', ''X-Idempotency-Key'', ''X-Keyhole-SDK-Version'', ''Authorization''}"
  shows "dict_get (sr_headers (st_sent st ! i)) k = (if i = 0 then dict_get caller k else None)"
proof -
  from execute_sent [OF assms(1,2)] obtain n d where
    sent: "st_sent st =
       map (nth_request env tr m p (minted_key env builtin_registry op key) caller 0 d) [0..<Suc n]"
    by blast
  then have "i < Suc n" using assms(3) by simp
  then have "st_sent st ! i = nth_request env tr m p (minted_key env builtin_registry op key) caller 0 d i"
    by (simp add: sent nth_map del: upt_Suc map_append)
  then show ?thesis
    using assms(4) by (simp add: nth_request_header)
qed

theorem execute_caller_headers_first_send_only_witness:
  "dict_get (sr_headers (st_sent (snd sample_run) ! 0)) ''X-Trace'' = Some ''t''
   \<and> dict_get (sr_headers (st_sent (snd sample_run) ! 1)) ''X-Trace'' = None"
proof -
  have lt: "0 < length (st_sent (snd sample_run))" "1 < length (st_sent (snd sample_run))"
    by (simp_all add: sample_run_length)
  have k: "''X-Trace'' \<notin> {''X-Request-Id'', ''X-Idempotency-Key'', ''X-Keyhole-SDK-Version'', ''Authorization''}"
    by simp
  show ?thesis
    using execute_caller_headers_first_send_only [OF sample_uuid sample_run_eq lt(1) k]
      execute_caller_headers_first_send_only [OF sample_uuid sample_run_eq lt(2) k]
    by (simp add: dict_get_def)
qed

section \<open>The result\<close>

text \<open>
  C15: The result of a call is the specified function of the last answer: success exactly for
  a JSON answer below 400, marked as replayed exactly when the server named an original
  request; a conflict, a rate limit, an exhausted retry, an unknown outcome or a refusal
  otherwise. The one exception is a \<open>Retry-After\<close> that \<open>time.sleep\<close> cannot represent.
\<close>

theorem execute_refines_last_answer:
  assumes "\<forall>k. env_uuid env k \<noteq> []"
    and "execute env builtin_registry tr m p op key caller = (res, st)"
  shows "res = Inl PyOverflowError \<or>
    verdict_of res = spec_verdict (max_attempts tr (policy_of builtin_registry op))
                       (env_net env (st_sent st))"
  by (rule execute_last_answer [OF assms])

theorem execute_refines_last_answer_witness:
  "verdict_of (fst sample_run) = Succeeded (JObj [(''ok'', JBool True)]) EXECUTED"
proof -
  have "verdict_of (fst sample_run) \<noteq> Crashed" by code_simp
  then have "fst sample_run \<noteq> Inl PyOverflowError" by auto
  moreover have "max_attempts sample_transport (policy_of builtin_registry ''run.start'') = 4"
    by code_simp
  ultimately show ?thesis
    using execute_refines_last_answer [OF sample_uuid sample_run_eq] sample_run_length
    by (simp add: sample_env_def sample_response_def)
qed

section \<open>Delays\<close>

text \<open>
  Without \<open>Retry-After\<close>, every sleep of a call lies within the configured maximum, and
  there are fewer sleeps than requests, so the time a call spends sleeping is bounded by
  the configuration.
\<close>

theorem execute_sleeps_bounded:
  assumes "\<forall>k. env_uuid env k \<noteq> []"
    and "execute env builtin_registry tr m p op key caller = (res, st)"
    and "\<not> rc_respect_retry_after (tr_retry_config tr)"
    and "0 \<le> rc_backoff_base_ms (tr_retry_config tr)"
    and "0 \<le> rc_backoff_max_ms (tr_retry_config tr)"
    and "\<forall>k. 0 \<le> env_random env k \<and> env_random env k \<le> 1"
  shows "length (st_slept st) < length (st_sent st)
    \<and> (\<forall>t \<in> set (st_slept st). \<exists>d. t = Finite d \<and> 0 < d
         \<and> d \<le> of_int (rc_backoff_max_ms (tr_retry_config tr)) / 1000)"
proof -
  from execute_is_loop [OF assms(1), of tr m p op key caller] assms(2) obtain d where
    "attempt_loop env tr (policy_of builtin_registry op)
      (max_attempts tr (policy_of builtin_registry op)) m p (minted_key env builtin_registry op key)
      [1..<max_attempts tr (policy_of builtin_registry op) + 1] caller NoError
      ((init_exec_state (minted_key env builtin_registry op key)
          (class_name_of builtin_registry op) op)\<lparr>st_uuids := d\<rparr>) = (res, st)"
    by (auto simp del: upt_Suc)
  from attempt_loop_slept [OF this order_refl max_attempts_pos refl assms(3-6)] show ?thesis
    by (auto simp: init_exec_state_def scheduled_sleep_def list_all_iff)
qed

definition patient_transport :: transport where
  "patient_transport = make_transport ''https://mcp.example'' None
     (Some (default_retry_config\<lparr>rc_respect_retry_after := False\<rparr>)) []"

theorem execute_sleeps_bounded_witness:
  "length (st_slept (snd (execute sample_env builtin_registry patient_transport ''GET'' ''/'' ''health'' None [])))
   < length (st_sent (snd (execute sample_env builtin_registry patient_transport ''GET'' ''/'' ''health'' None [])))"
proof -
  have c: "\<not> rc_respect_retry_after (tr_retry_config patient_transport)"
    "0 \<le> rc_backoff_base_ms (tr_retry_config patient_transport)"
    "0 \<le> rc_backoff_max_ms (tr_retry_config patient_transport)"
    "\<forall>k. 0 \<le> env_random sample_env k \<and> env_random sample_env k \<le> 1"
    by (simp_all add: patient_transport_def make_transport_def default_retry_config_def sample_env_def)
  obtain res st where "execute sample_env builtin_registry patient_transport ''GET'' ''/'' ''health'' None [] = (res, st)"
    by fastforce
  with execute_sleeps_bounded [OF sample_uuid this c] show ?thesis by simp
qed

text \<open>
  A respected \<open>Retry-After\<close> replaces the backoff instead of being its floor: a
  \<open>Retry-After\<close> of zero or less lets the client retry at once, however long the exponential
  schedule would have waited.
\<close>

theorem retry_after_replaces_backoff:
  assumes "rc_respect_retry_after c"
  shows "compute_backoff_delay n c (Some (Finite r)) u = Finite (max r 0)
    \<and> (r \<le> 0 \<longrightarrow> sleep_for_backoff (compute_backoff_delay n c (Some (Finite r)) u) = NoSleep)"
  using assms by (auto simp: backoff_retry_after py_max_def sleep_for_backoff_def max_def)

theorem retry_after_replaces_backoff_witness:
  "sleep_for_backoff (compute_backoff_delay 5 default_retry_config (Some (Finite 0)) (1 / 2)) = NoSleep
   \<and> compute_backoff_delay 5 default_retry_config None (1 / 2) = Finite 2"
proof -
  have c: "rc_respect_retry_after default_retry_config" by (simp add: default_retry_config_def)
  have "compute_backoff_delay 5 default_retry_config None (1 / 2) = Finite 2"
    by (simp add: compute_backoff_delay_def default_retry_config_def)
  moreover have "sleep_for_backoff (compute_backoff_delay 5 default_retry_config (Some (Finite 0)) (1 / 2)) = NoSleep"
    using retry_after_replaces_backoff [OF c, of 5 0 "1 / 2"] by blast
  ultimately show ?thesis by blast
qed

end
