(* ===== verification/Runtime_Service.thy ===== *)
theory Runtime_Service
  imports Keyhole_Prelude
begin

text \<open>
  The public test runtime (\<open>services/test-runtime/app\<close>): mode resolution (\<open>mode.py\<close>), the
  MCP governance bridge (\<open>bridge.py\<close>), the in-memory runtime state (\<open>state.py\<close>), the
  \<open>/realize\<close> handler (\<open>routes.py\<close>) and the published contract (\<open>contract.py\<close>). The MCP
  server's answer and the clock are arguments.
\<close>

section \<open>Configuration and mode\<close>

record runtime_config =
  cfg_mcp_url :: string
  cfg_mcp_token :: string
  cfg_run_type :: string
  cfg_timeout :: string
  cfg_runtime_version :: string
  cfg_environment :: string

text \<open>The module-level settings read from the environment; an unset variable is \<open>None\<close>.\<close>

definition load_config :: "(string \<Rightarrow> string option) \<Rightarrow> (string \<Rightarrow> string) \<Rightarrow> runtime_config" where
  "load_config getenv show_timeout =
     (let get = (\<lambda>k d. case getenv k of None \<Rightarrow> d | Some v \<Rightarrow> v)
      in \<lparr>cfg_mcp_url = py_rstrip_char (CHR ''/'') (get ''KEYHOLE_MCP_URL'' []),
          cfg_mcp_token = get ''KEYHOLE_MCP_TOKEN'' [],
          cfg_run_type = get ''KEYHOLE_MCP_RUN_TYPE'' ''convergence.status.v0_1'',
          cfg_timeout = show_timeout (get ''KEYHOLE_MCP_TIMEOUT'' ''10''),
          cfg_runtime_version = get ''RUNTIME_VERSION'' ''0.1.0'',
          cfg_environment = get ''RUNTIME_ENVIRONMENT'' ''dev''\<rparr>)"

record mode_status =
  ms_mode :: string
  ms_mcp_configured :: bool
  ms_auditable_upstream :: bool
  ms_evidence_disclaimer :: string

definition resolve_mode :: "runtime_config \<Rightarrow> mode_status" where
  "resolve_mode cfg =
     (if cfg_mcp_url cfg \<noteq> [] \<and> cfg_mcp_token cfg \<noteq> [] then
        \<lparr>ms_mode = ''governed'', ms_mcp_configured = True, ms_auditable_upstream = True,
         ms_evidence_disclaimer =
           ''Governed mode: realization requests are gated through the '' @
           ''Keyhole MCP governance surface. Upstream evidence may exist '' @
           ''when properly configured. Governed mode does NOT automatically '' @
           ''imply canonical promotion.''\<rparr>
      else if cfg_mcp_url cfg \<noteq> [] \<and> cfg_mcp_token cfg = [] then
        \<lparr>ms_mode = ''misconfigured'', ms_mcp_configured = False, ms_auditable_upstream = False,
         ms_evidence_disclaimer =
           ''Misconfigured: KEYHOLE_MCP_URL is set but KEYHOLE_MCP_TOKEN '' @
           ''is missing. Requests will be rejected.''\<rparr>
      else
        \<lparr>ms_mode = ''local-only'', ms_mcp_configured = False, ms_auditable_upstream = False,
         ms_evidence_disclaimer =
           ''Local-only mode: results are local-only. No upstream Event Spine '' @
           ''evidence is implied. Local success is valuable for development '' @
           ''but is NOT constitutional proof.''\<rparr>)"

definition governance_mode :: "runtime_config \<Rightarrow> string" where
  "governance_mode cfg =
     (if cfg_mcp_url cfg \<noteq> [] \<and> cfg_mcp_token cfg \<noteq> [] then ''governed''
      else if cfg_mcp_url cfg \<noteq> [] \<and> cfg_mcp_token cfg = [] then ''misconfigured''
      else ''local-only'')"

section \<open>The governance bridge\<close>

fun first_string :: "json list \<Rightarrow> string" where
  "first_string [] = []"
| "first_string (JStr s # vs) = (if s \<noteq> [] then s else first_string vs)"
| "first_string (v # vs) = first_string vs"

record governance_receipt =
  gr_governed :: bool
  gr_event_spine_evidence :: bool
  gr_governance_verdict :: string
  gr_drift_state :: string
  gr_governance_context_id :: string
  gr_mcp_event_id :: string
  gr_proof_id :: string
  gr_receipt_id :: string
  gr_raw_result :: dict

definition event_sources :: "dict \<Rightarrow> dict \<Rightarrow> dict \<Rightarrow> json list" where
  "event_sources result receipt evidence =
     [json_get result ''mcp_event_id'', json_get result ''event_id'',
      json_get result ''event_pointer'', json_get receipt ''mcp_event_id'',
      json_get evidence ''event_id'', json_get evidence ''event_pointer'']"

definition extract_governance_receipt :: "dict \<Rightarrow> governance_receipt" where
  "extract_governance_receipt data =
     (let result = as_dict (json_get data ''result'');
          receipt = as_dict (json_get result ''receipt'');
          evidence = as_dict (json_get result ''evidence'')
      in \<lparr>gr_governed = True,
          gr_event_spine_evidence = (first_string (event_sources result receipt evidence) \<noteq> []),
          gr_governance_verdict = first_string
            [json_get result ''governance_verdict'', json_get result ''verdict'',
             json_get receipt ''governance_verdict'', json_get receipt ''verdict'',
             JStr ''APPROVED''],
          gr_drift_state = first_string
            [json_get result ''drift_state'', json_get receipt ''drift_state'',
             JStr ''not_reported''],
          gr_governance_context_id = first_string
            [json_get result ''governance_context_id'', json_get receipt ''governance_context_id''],
          gr_mcp_event_id = first_string (event_sources result receipt evidence),
          gr_proof_id = first_string
            [json_get result ''proof_id'', json_get receipt ''proof_id'', json_get evidence ''proof_id''],
          gr_receipt_id = first_string
            [json_get result ''receipt_id'', json_get receipt ''receipt_id'', json_get data ''run_id''],
          gr_raw_result = result\<rparr>)"

definition bridge_headers :: "runtime_config \<Rightarrow> headers" where
  "bridge_headers cfg =
     (''Content-Type'', ''application/json'') #
     (if cfg_mcp_token cfg \<noteq> [] then [(''Authorization'', ''Bearer '' @ cfg_mcp_token cfg)] else [])"

text \<open>
  The answer of the MCP server: a status with a body that parses or fails to parse with a
  message, a timeout, or any other exception, with its text.
\<close>

datatype mcp_answer =
    McpResponse int "string + json"
  | McpTimeout
  | McpException string

record governance_verdict =
  gv_ok :: bool
  gv_verdict :: string
  gv_reason :: json
  gv_receipt :: "governance_receipt option"

abbreviation reject_verdict :: "json \<Rightarrow> governance_verdict" where
  "reject_verdict reason \<equiv> \<lparr>gv_ok = False, gv_verdict = ''REJECT'', gv_reason = reason, gv_receipt = None\<rparr>"

text \<open>Python's type names, for the text of an \<open>AttributeError\<close>.\<close>

fun json_type_name :: "json \<Rightarrow> string" where
  "json_type_name JNull = ''NoneType''"
| "json_type_name (JBool _) = ''bool''"
| "json_type_name (JInt _) = ''int''"
| "json_type_name (JFloat _) = ''float''"
| "json_type_name (JStr _) = ''str''"
| "json_type_name (JList _) = ''list''"
| "json_type_name (JObj _) = ''dict''"

definition no_get :: "json \<Rightarrow> string" where
  "no_get v = CHR 0x27 # json_type_name v @ [CHR 0x27] @ '' object has no attribute '' @
              [CHR 0x27] @ ''get'' @ [CHR 0x27]"

definition check_error :: "string \<Rightarrow> governance_verdict" where
  "check_error msg = reject_verdict (JStr (''Governance check error: '' @ msg))"

definition judge_answer :: "runtime_config \<Rightarrow> mcp_answer \<Rightarrow> governance_verdict" where
  "judge_answer cfg ans =
     (case ans of
        McpTimeout \<Rightarrow> reject_verdict (JStr (''Governance check timed out after '' @ cfg_timeout cfg @ ''s.''))
      | McpException e \<Rightarrow> check_error e
      | McpResponse status body \<Rightarrow>
          if status = 200 then
            (case body of
               Inl e \<Rightarrow> check_error e
             | Inr (JObj data) \<Rightarrow>
                 if json_truthy (json_get data ''ok'') then
                   \<lparr>gv_ok = True, gv_verdict = ''APPROVED'',
                    gv_reason = JStr ''Keyhole governance approved the candidate.'',
                    gv_receipt = Some (extract_governance_receipt data)\<rparr>
                 else
                   (case dict_get_or data ''error'' (JObj []) of
                      JObj err \<Rightarrow> reject_verdict
                        (dict_get_or err ''message'' (JStr ''Governance rejected the candidate.''))
                    | v \<Rightarrow> check_error (no_get v))
             | Inr v \<Rightarrow> check_error (no_get v))
          else if status = 401 \<or> status = 403 then
            reject_verdict (JStr (''Governance auth failure (HTTP '' @ str_int status @
              ''). Check KEYHOLE_MCP_TOKEN.''))
          else reject_verdict (JStr (''Governance check failed with HTTP '' @ str_int status @ ''.'')))"

text \<open>
  \<open>mcp\<close> answers the POST of the URL, body and headers the bridge builds.
\<close>

definition governance_check ::
    "runtime_config \<Rightarrow> (string \<Rightarrow> json \<Rightarrow> headers \<Rightarrow> mcp_answer) \<Rightarrow> string \<Rightarrow> dict \<Rightarrow> governance_verdict" where
  "governance_check cfg mcp candidate payload =
     (if cfg_mcp_url cfg = [] then
        \<lparr>gv_ok = True, gv_verdict = ''LOCAL_ONLY'',
         gv_reason = JStr ''No MCP governance configured. Set KEYHOLE_MCP_URL and KEYHOLE_MCP_TOKEN.'',
         gv_receipt = None\<rparr>
      else if cfg_mcp_token cfg = [] then
        reject_verdict (JStr (''Governance misconfigured: KEYHOLE_MCP_TOKEN is required '' @
          ''when KEYHOLE_MCP_URL is set.''))
      else
        judge_answer cfg
          (mcp (cfg_mcp_url cfg @ ''/mcp/v1/runs/start'')
             (JObj [(''run_type'', JStr (cfg_run_type cfg)),
                    (''parameters'', JObj [(''candidate_digest'', JStr candidate),
                                           (''payload'', JObj payload)])])
             (bridge_headers cfg)))"

section \<open>Runtime state\<close>

text \<open>\<open>None\<close> stands for the empty-string-to-\<open>None\<close> fields of a public receipt.\<close>

record public_receipt =
  pr_governed :: bool
  pr_event_spine_evidence :: bool
  pr_governance_verdict :: string
  pr_drift_state :: string
  pr_governance_context_id :: "string option"
  pr_mcp_event_id :: "string option"
  pr_proof_id :: "string option"
  pr_receipt_id :: "string option"
  pr_passport_digest :: "string option"
  pr_trust_digest :: "string option"

record stored_receipt =
  sr_digest :: string
  sr_realized_at :: string
  sr_public :: public_receipt

record runtime_state =
  rs_current_digest :: "string option"
  rs_realized_digests :: "string list"
  rs_governance_receipts :: "stored_receipt list"
  rs_updated_at :: string
  rs_pointer :: nat

record realization_receipt =
  rr_digest :: string
  rr_status :: string
  rr_message :: string
  rr_realized_at :: string
  rr_public :: public_receipt

definition new_runtime_state :: "string \<Rightarrow> runtime_state" where
  "new_runtime_state now =
     \<lparr>rs_current_digest = None, rs_realized_digests = [], rs_governance_receipts = [],
      rs_updated_at = now, rs_pointer = 0\<rparr>"

definition is_realized :: "runtime_state \<Rightarrow> string \<Rightarrow> bool" where
  "is_realized st digest = (digest \<in> set (rs_realized_digests st))"

definition none_if_empty :: "string \<Rightarrow> string option" where
  "none_if_empty s = (if s = [] then None else Some s)"

record apply_args =
  aa_governance_verdict :: string
  aa_governed :: bool
  aa_event_spine_evidence :: bool
  aa_governance_context_id :: string
  aa_drift_state :: string
  aa_mcp_event_id :: string
  aa_proof_id :: string
  aa_receipt_id :: string
  aa_passport_digest :: string
  aa_trust_digest :: string

definition build_public_receipt :: "apply_args \<Rightarrow> public_receipt" where
  "build_public_receipt a =
     \<lparr>pr_governed = aa_governed a, pr_event_spine_evidence = aa_event_spine_evidence a,
      pr_governance_verdict = aa_governance_verdict a,
      pr_drift_state = str_or (aa_drift_state a)
        (if \<not> aa_governed a then ''not_applicable'' else ''not_reported''),
      pr_governance_context_id = none_if_empty (aa_governance_context_id a),
      pr_mcp_event_id = none_if_empty (aa_mcp_event_id a),
      pr_proof_id = none_if_empty (aa_proof_id a),
      pr_receipt_id = none_if_empty (aa_receipt_id a),
      pr_passport_digest = none_if_empty (aa_passport_digest a),
      pr_trust_digest = none_if_empty (aa_trust_digest a)\<rparr>"

definition apply_digest ::
    "string \<Rightarrow> apply_args \<Rightarrow> string \<Rightarrow> runtime_state \<Rightarrow> realization_receipt \<times> runtime_state" where
  "apply_digest digest args now st =
     (let pub = build_public_receipt args
      in if is_realized st digest then
           (\<lparr>rr_digest = digest, rr_status = ''ALREADY_REALIZED'',
             rr_message = ''Digest has already been realized. No state mutation performed.'',
             rr_realized_at = now, rr_public = pub\<rparr>, st)
         else
           (\<lparr>rr_digest = digest, rr_status = ''ACCEPT'',
             rr_message = ''Digest realized successfully.'',
             rr_realized_at = now, rr_public = pub\<rparr>,
            st\<lparr>rs_realized_digests := rs_realized_digests st @ [digest],
               rs_current_digest := Some digest,
               rs_updated_at := now,
               rs_pointer := rs_pointer st + 1,
               rs_governance_receipts := rs_governance_receipts st @
                 [\<lparr>sr_digest = digest, sr_realized_at = now, sr_public = pub\<rparr>]\<rparr>))"

end
