(* ===== verification/Runtime_Routes.thy ===== *)
theory Runtime_Routes
  imports Runtime_Service
begin

text \<open>
  The HTTP handlers of the test runtime (\<open>routes.py\<close>) and the published contract
  (\<open>contract.py\<close>). \<open>realize\<close> awaits the governance check, so it is split at that point:
  \<open>realize_begin\<close> runs before, \<open>realize_finish\<close> after, and other requests may run in
  between. Each part is atomic, as an asyncio task is between two awaits.
\<close>

section \<open>Requests and responses\<close>

record realization_request =
  rq_candidate_digest :: string
  rq_payload :: "dict option"
  rq_require_governed :: bool
  rq_governance_context_id :: "string option"
  rq_local_invariant_result :: "dict option"
  rq_passport_digest :: "string option"
  rq_trust_digest :: "string option"

datatype http_response = HTTPException int dict | Receipt realization_receipt

fun opt_str :: "string option \<Rightarrow> string" where
  "opt_str None = []"
| "opt_str (Some s) = s"

definition build_payload :: "realization_request \<Rightarrow> dict" where
  "build_payload r =
     (let p0 = (case rq_payload r of None \<Rightarrow> [] | Some d \<Rightarrow> d);
          p1 = (case rq_local_invariant_result r of None \<Rightarrow> p0
                | Some d \<Rightarrow> if d \<noteq> [] then dict_set ''local_invariant_result'' (JObj d) p0 else p0);
          p2 = (if opt_truthy (rq_governance_context_id r)
                then dict_set ''governance_context_id'' (JStr (opt_str (rq_governance_context_id r))) p1 else p1);
          p3 = (if opt_truthy (rq_passport_digest r)
                then dict_set ''passport_digest'' (JStr (opt_str (rq_passport_digest r))) p2 else p2)
      in if opt_truthy (rq_trust_digest r)
         then dict_set ''trust_digest'' (JStr (opt_str (rq_trust_digest r))) p3 else p3)"

definition realize_begin :: "runtime_config \<Rightarrow> realization_request \<Rightarrow> http_response + dict" where
  "realize_begin cfg r =
     (if rq_require_governed r \<and> ms_mode (resolve_mode cfg) \<noteq> ''governed'' then
        Inl (HTTPException 412
          [(''verdict'', JStr ''REJECT''),
           (''reason'', JStr (''Governed realization requested, but KEYHOLE_MCP_URL and '' @
              ''KEYHOLE_MCP_TOKEN are not both configured.'')),
           (''candidate_digest'', JStr (rq_candidate_digest r)),
           (''governed'', JBool False),
           (''event_spine_evidence'', JBool False)])
      else Inr (build_payload r))"

text \<open>The evidence fields a governed realization needs; each is missing when empty.\<close>

definition missing_evidence :: "governance_receipt option \<Rightarrow> string list" where
  "missing_evidence g =
     map fst (filter (\<lambda>(nm, v). v = [])
       (case g of
          None \<Rightarrow> [(''governance_verdict'', []), (''drift_state'', []),
                  (''governance_context_id'', []), (''mcp_event_id'', [])]
        | Some gr \<Rightarrow> [(''governance_verdict'', gr_governance_verdict gr),
                      (''drift_state'', gr_drift_state gr),
                      (''governance_context_id'', gr_governance_context_id gr),
                      (''mcp_event_id'', gr_mcp_event_id gr)]))"

definition has_spine_evidence :: "governance_receipt option \<Rightarrow> bool" where
  "has_spine_evidence g = (case g of None \<Rightarrow> False | Some gr \<Rightarrow> gr_event_spine_evidence gr)"

definition gr_field :: "(governance_receipt \<Rightarrow> string) \<Rightarrow> governance_receipt option \<Rightarrow> string" where
  "gr_field f g = (case g of None \<Rightarrow> [] | Some gr \<Rightarrow> f gr)"

definition realize_args :: "realization_request \<Rightarrow> governance_verdict \<Rightarrow> apply_args" where
  "realize_args r v =
     (let g = gv_receipt v
      in \<lparr>aa_governance_verdict = str_or (gr_field gr_governance_verdict g) (gv_verdict v),
          aa_governed = (case g of None \<Rightarrow> False | Some gr \<Rightarrow> gr_governed gr),
          aa_event_spine_evidence = has_spine_evidence g,
          aa_governance_context_id =
            str_or (gr_field gr_governance_context_id g) (opt_str (rq_governance_context_id r)),
          aa_drift_state = gr_field gr_drift_state g,
          aa_mcp_event_id = gr_field gr_mcp_event_id g,
          aa_proof_id = gr_field gr_proof_id g,
          aa_receipt_id = gr_field gr_receipt_id g,
          aa_passport_digest = opt_str (rq_passport_digest r),
          aa_trust_digest = opt_str (rq_trust_digest r)\<rparr>)"

definition realize_finish ::
    "realization_request \<Rightarrow> governance_verdict \<Rightarrow> string \<Rightarrow> runtime_state \<Rightarrow> http_response \<times> runtime_state" where
  "realize_finish r v now st =
     (if \<not> gv_ok v then
        (HTTPException 422 [(''verdict'', JStr (gv_verdict v)), (''reason'', gv_reason v),
           (''candidate_digest'', JStr (rq_candidate_digest r))], st)
      else if rq_require_governed r \<and>
              (missing_evidence (gv_receipt v) \<noteq> [] \<or> \<not> has_spine_evidence (gv_receipt v)) then
        (HTTPException 502
          [(''verdict'', JStr ''REJECT''),
           (''reason'', JStr (''Governed realization approved by MCP but missing required '' @
              ''upstream evidence fields: '' @
              py_join '', '' (if missing_evidence (gv_receipt v) \<noteq> []
                              then missing_evidence (gv_receipt v) else [''event_spine_evidence'']))),
           (''candidate_digest'', JStr (rq_candidate_digest r)),
           (''governed'', JBool False),
           (''event_spine_evidence'', JBool False)], st)
      else
        (let (rec, st') = apply_digest (rq_candidate_digest r) (realize_args r v) now st
         in (Receipt rec, st')))"

text \<open>The handler run without interruption.\<close>

definition realize ::
    "runtime_config \<Rightarrow> (string \<Rightarrow> json \<Rightarrow> headers \<Rightarrow> mcp_answer) \<Rightarrow> realization_request \<Rightarrow> string
     \<Rightarrow> runtime_state \<Rightarrow> http_response \<times> runtime_state" where
  "realize cfg mcp r now st =
     (case realize_begin cfg r of
        Inl e \<Rightarrow> (e, st)
      | Inr payload \<Rightarrow>
          realize_finish r (governance_check cfg mcp (rq_candidate_digest r) payload) now st)"

section \<open>The other routes\<close>

definition health_route :: dict where
  "health_route = [(''status'', JStr ''ok'')]"

definition identity_route :: "runtime_config \<Rightarrow> dict" where
  "identity_route cfg =
     [(''runtime_id'', JStr ''keyhole-test-runtime''),
      (''runtime_name'', JStr ''Keyhole Test Runtime''),
      (''runtime_version'', JStr (cfg_runtime_version cfg)),
      (''environment'', JStr (cfg_environment cfg)),
      (''capabilities'', JList (map JStr [''realize'', ''state'', ''health''])),
      (''governance_mode'', JStr (ms_mode (resolve_mode cfg)))]"

definition mode_route :: "runtime_config \<Rightarrow> dict" where
  "mode_route cfg =
     (let ms = resolve_mode cfg
      in [(''mode'', JStr (ms_mode ms)),
          (''mcp_configured'', JBool (ms_mcp_configured ms)),
          (''auditable_upstream'', JBool (ms_auditable_upstream ms)),
          (''evidence_disclaimer'', JStr (ms_evidence_disclaimer ms))])"

fun json_of_opt :: "string option \<Rightarrow> json" where
  "json_of_opt None = JNull"
| "json_of_opt (Some s) = JStr s"

definition public_receipt_dict :: "public_receipt \<Rightarrow> dict" where
  "public_receipt_dict p =
     [(''governed'', JBool (pr_governed p)),
      (''event_spine_evidence'', JBool (pr_event_spine_evidence p)),
      (''governance_verdict'', JStr (pr_governance_verdict p)),
      (''drift_state'', JStr (pr_drift_state p)),
      (''governance_context_id'', json_of_opt (pr_governance_context_id p)),
      (''mcp_event_id'', json_of_opt (pr_mcp_event_id p)),
      (''proof_id'', json_of_opt (pr_proof_id p)),
      (''receipt_id'', json_of_opt (pr_receipt_id p)),
      (''passport_digest'', json_of_opt (pr_passport_digest p)),
      (''trust_digest'', json_of_opt (pr_trust_digest p))]"

definition receipt_dict :: "realization_receipt \<Rightarrow> dict" where
  "receipt_dict r =
     [(''digest'', JStr (rr_digest r)), (''status'', JStr (rr_status r)),
      (''message'', JStr (rr_message r)), (''realized_at'', JStr (rr_realized_at r))]
     @ public_receipt_dict (rr_public r)"

definition stored_receipt_dict :: "stored_receipt \<Rightarrow> dict" where
  "stored_receipt_dict r =
     [(''digest'', JStr (sr_digest r)), (''realized_at'', JStr (sr_realized_at r))]
     @ public_receipt_dict (sr_public r)"

definition state_route :: "runtime_state \<Rightarrow> dict" where
  "state_route st =
     [(''current_digest'', json_of_opt (rs_current_digest st)),
      (''realized_digests'', JList (map JStr (rs_realized_digests st))),
      (''updated_at'', JStr (rs_updated_at st)),
      (''governance_receipts'', JList (map (JObj \<circ> stored_receipt_dict) (rs_governance_receipts st)))]"

section \<open>The published contract\<close>

definition runtime_bridge_contract :: dict where
  "runtime_bridge_contract =
     [(''contract_version'', JStr ''0.1.0''),
      (''surface_version'', JStr ''s41-06''),
      (''supported_modes'', JList (map JStr [''local-only'', ''governed''])),
      (''startup_methods'', JList (map JStr [''docker-run'', ''docker-compose'', ''uvicorn-direct''])),
      (''runtime_interfaces'', JObj [(''health'', JObj [(''method'', JStr ''GET''),
              (''path'', JStr ''/healthz''),
              (''auth_required'', JBool False)]),
          (''identity'', JObj [(''method'', JStr ''GET''),
              (''path'', JStr ''/identity''),
              (''auth_required'', JBool False)]),
          (''state'', JObj [(''method'', JStr ''GET''),
              (''path'', JStr ''/state''),
              (''auth_required'', JBool False)]),
          (''realize'', JObj [(''method'', JStr ''POST''),
              (''path'', JStr ''/realize''),
              (''auth_required'', JBool False)]),
          (''mode'', JObj [(''method'', JStr ''GET''),
              (''path'', JStr ''/mode''),
              (''auth_required'', JBool False)])]),
      (''identity_contract'', JObj [(''runtime_id'', JStr ''keyhole-test-runtime''),
          (''required_fields'', JList (map JStr [''runtime_id'', ''runtime_name'', ''runtime_version'', ''environment'',
             ''capabilities'', ''governance_mode''])),
          (''capabilities'', JList (map JStr [''realize'', ''state'', ''health'']))]),
      (''state_contract'', JObj [(''required_fields'', JList (map JStr [''current_digest'', ''realized_digests'', ''updated_at'',
             ''governance_receipts''])),
          (''behavior'', JStr (''State reflects local runtime truth. In local-only mode, state '' @
             ''mutations are not auditable upstream. In governed mode, state '' @
             ''mutations occur only after governance approval.''))]),
      (''realize_contract'', JObj [(''required_fields'', JList (map JStr [''candidate_digest''])),
          (''optional_fields'', JList (map JStr [''payload'', ''require_governed'', ''governance_context_id'',
             ''local_invariant_result'', ''passport_digest'', ''trust_digest'',
             ''promotion_uuid'', ''artifact_refs'', ''expected_capabilities'',
             ''lane'', ''purpose''])),
          (''receipt_fields'', JList (map JStr [''digest'', ''status'', ''message'', ''realized_at'', ''governed'',
             ''event_spine_evidence'', ''governance_verdict'', ''drift_state'',
             ''governance_context_id'', ''mcp_event_id'', ''proof_id'',
             ''receipt_id'', ''passport_digest'', ''trust_digest''])),
          (''behavior'', JStr (''In local-only mode, realize executes immediately. In governed '' @
             ''mode, realize is gated through MCP governance. Idempotent: '' @
             ''re-submitting a realized digest returns ALREADY_REALIZED.''))]),
      (''mode_contract'', JObj [(''modes'', JObj [(''local-only'', JObj [(''mcp_configured'', JBool False),
                  (''auditable_upstream'', JBool False),
                  (''governance_gating'', JBool False),
                  (''evidence_implication'', JStr (''None '' @ mdash @ '' local results only''))]),
              (''governed'', JObj [(''mcp_configured'', JBool True),
                  (''auditable_upstream'', JBool True),
                  (''governance_gating'', JBool True),
                  (''evidence_implication'', JStr (''Upstream evidence may exist when properly configured. Does NOT '' @
                     ''automatically imply canonical promotion.''))])])]),
      (''bridge_law_reference'', JStr ''CE-V5-S40-07''),
      (''public_safety_note'', JStr (''This contract describes the public runtime bridge surface. It '' @
         ''does not expose internal production routing, controller '' @
         ''topology, or enforcement chain details. Remote target examples '' @
         ''are bounded and do not disclose internal platform architecture.''))]"

text \<open>The list of field names a section of the contract publishes under a key.\<close>

fun json_strings :: "json \<Rightarrow> string list" where
  "json_strings (JList (JStr s # vs)) = s # json_strings (JList vs)"
| "json_strings _ = []"

definition contract_fields :: "string \<Rightarrow> string \<Rightarrow> string list" where
  "contract_fields section_name key =
     json_strings (json_get (as_dict (json_get runtime_bridge_contract section_name)) key)"

definition contract_supported_modes :: "string list" where
  "contract_supported_modes = json_strings (json_get runtime_bridge_contract ''supported_modes'')"

section \<open>Facts about the bridge\<close>

lemma first_string_append_default [simp]:
  "s \<noteq> [] \<Longrightarrow> first_string (vs @ [JStr s]) \<noteq> []"
  by (induction vs rule: first_string.induct) auto

lemma extract_receipt_defaults:
  "gr_governed (extract_governance_receipt d)"
  "gr_governance_verdict (extract_governance_receipt d) \<noteq> []"
  "gr_drift_state (extract_governance_receipt d) \<noteq> []"
  "gr_event_spine_evidence (extract_governance_receipt d) \<longleftrightarrow> gr_mcp_event_id (extract_governance_receipt d) \<noteq> []"
  using first_string_append_default [of "''APPROVED''" "[a, b, c, e]" for a b c e]
    first_string_append_default [of "''not_reported''" "[a, b]" for a b]
  by (simp_all add: extract_governance_receipt_def Let_def del: first_string_append_default)

lemma judge_answer_shape:
  "gv_ok (judge_answer cfg ans) \<longleftrightarrow> gv_verdict (judge_answer cfg ans) = ''APPROVED''"
  "gv_verdict (judge_answer cfg ans) \<in> {''APPROVED'', ''REJECT''}"
  "gv_ok (judge_answer cfg ans) \<longleftrightarrow> gv_receipt (judge_answer cfg ans) \<noteq> None"
  "gv_receipt (judge_answer cfg ans) = Some g \<Longrightarrow> \<exists>d. g = extract_governance_receipt d"
  by (auto simp: judge_answer_def check_error_def split: mcp_answer.splits sum.splits json.splits if_splits)

end
