(* ===== verification/Runtime_Properties.thy ===== *)
theory Runtime_Properties
  imports Runtime_Routes
begin

text \<open>
  Properties of the test runtime: the store interface that makes realization idempotent,
  the service as a step relation over interleaved requests, its invariants, and the
  governance gate.
\<close>

section \<open>The digest store\<close>

text \<open>
  What \<open>/realize\<close> relies on: a new digest is accepted and appended, a known one changes
  nothing.
\<close>

locale digest_store =
  fixes store :: "string \<Rightarrow> 'a \<Rightarrow> string \<Rightarrow> 's \<Rightarrow> 'r \<times> 's"
    and realized :: "'s \<Rightarrow> string list"
    and accepted :: "'r \<Rightarrow> bool"
  assumes store_new: "d \<notin> set (realized s) \<Longrightarrow> store d a t s = (r, s') \<Longrightarrow>
      accepted r \<and> realized s' = realized s @ [d]"
    and store_known: "d \<in> set (realized s) \<Longrightarrow> store d a t s = (r, s') \<Longrightarrow> \<not> accepted r \<and> s' = s"
begin

lemma store_accepted_iff: "store d a t s = (r, s') \<Longrightarrow> accepted r \<longleftrightarrow> d \<notin> set (realized s)"
  using store_new store_known by blast

lemma store_ledger:
  assumes "store d a t s = (r, s')"
  shows "realized s' = realized s @ (if accepted r then [d] else [])"
proof (cases "d \<in> set (realized s)")
  case True
  from store_known [OF this assms] show ?thesis by simp
next
  case False
  from store_new [OF this assms] show ?thesis by simp
qed

lemma store_distinct:
  "store d a t s = (r, s') \<Longrightarrow> distinct (realized s) \<Longrightarrow> distinct (realized s')"
  by (simp add: store_ledger store_accepted_iff)

lemma store_records: "store d a t s = (r, s') \<Longrightarrow> d \<in> set (realized s')"
  by (simp add: store_ledger store_accepted_iff)

lemma store_replay:
  assumes "store d a t s = (r, s')" and "store d b u s' = (q, s'')"
  shows "\<not> accepted q \<and> s'' = s'"
  using store_known [OF store_records [OF assms(1)] assms(2)] .

end

definition receipt_accepted :: "realization_receipt \<Rightarrow> bool" where
  "receipt_accepted r \<longleftrightarrow> rr_status r = ''ACCEPT''"

interpretation ds: digest_store apply_digest rs_realized_digests receipt_accepted
  by unfold_locales (auto simp: apply_digest_def Let_def is_realized_def receipt_accepted_def)

section \<open>State invariant\<close>

definition runtime_inv :: "runtime_state \<Rightarrow> bool" where
  "runtime_inv st \<longleftrightarrow>
     distinct (rs_realized_digests st) \<and>
     rs_pointer st = length (rs_realized_digests st) \<and>
     rs_current_digest st =
       (if rs_realized_digests st = [] then None else Some (last (rs_realized_digests st))) \<and>
     map sr_digest (rs_governance_receipts st) = rs_realized_digests st \<and>
     (rs_governance_receipts st \<noteq> [] \<longrightarrow>
        rs_updated_at st = sr_realized_at (last (rs_governance_receipts st)))"

lemma runtime_inv_new [simp]: "runtime_inv (new_runtime_state now)"
  by (simp add: runtime_inv_def new_runtime_state_def)

lemma apply_digest_inv:
  assumes "apply_digest d a now st = (r, st')" and "runtime_inv st"
  shows "runtime_inv st'"
  using assms by (auto simp: apply_digest_def Let_def is_realized_def runtime_inv_def split: if_splits)

lemma realize_finish_cases:
  assumes "realize_finish r v now st = (resp, st')"
  obtains (refused) c d where "resp = HTTPException c d" "st' = st"
  | (applied) rec where "resp = Receipt rec" "gv_ok v"
      "apply_digest (rq_candidate_digest r) (realize_args r v) now st = (rec, st')"
      "rq_require_governed r \<Longrightarrow> missing_evidence (gv_receipt v) = [] \<and> has_spine_evidence (gv_receipt v)"
  using assms by (auto simp: realize_finish_def split: if_splits prod.splits)

section \<open>The service: interleaved requests\<close>

text \<open>
  \<open>sv_pending\<close> holds the requests suspended in the governance check, \<open>sv_log\<close> the
  responses sent, with the digest each request named.
\<close>

record service =
  sv_state :: runtime_state
  sv_pending :: "(realization_request \<times> dict) list"
  sv_log :: "(string \<times> http_response) list"

definition init_service :: "string \<Rightarrow> service" where
  "init_service now = \<lparr>sv_state = new_runtime_state now, sv_pending = [], sv_log = []\<rparr>"

inductive service_step :: "runtime_config \<Rightarrow> service \<Rightarrow> service \<Rightarrow> bool" for cfg where
  refuse: "realize_begin cfg r = Inl e \<Longrightarrow>
    service_step cfg s (s\<lparr>sv_log := sv_log s @ [(rq_candidate_digest r, e)]\<rparr>)"
| admit: "realize_begin cfg r = Inr payload \<Longrightarrow>
    service_step cfg s (s\<lparr>sv_pending := sv_pending s @ [(r, payload)]\<rparr>)"
| resume: "i < length (sv_pending s) \<Longrightarrow> sv_pending s ! i = (r, payload) \<Longrightarrow>
    realize_finish r (governance_check cfg mcp (rq_candidate_digest r) payload) now (sv_state s)
      = (resp, st') \<Longrightarrow>
    service_step cfg s
      (s\<lparr>sv_state := st',
         sv_pending := take i (sv_pending s) @ drop (Suc i) (sv_pending s),
         sv_log := sv_log s @ [(rq_candidate_digest r, resp)]\<rparr>)"


inductive service_reachable :: "runtime_config \<Rightarrow> service \<Rightarrow> bool" for cfg where
  start: "service_reachable cfg (init_service now)"
| step: "service_reachable cfg s \<Longrightarrow> service_step cfg s s' \<Longrightarrow> service_reachable cfg s'"

lemma service_step_reachable:
  "service_step cfg (init_service now) s \<Longrightarrow> service_reachable cfg s"
  by (rule service_reachable.step [OF service_reachable.start])

text \<open>An invariant of the state alone, kept by \<open>apply_digest\<close>, holds in every reachable state.\<close>

lemma reachable_state_induct [consumes 1, case_names empty store]:
  assumes "service_reachable cfg s"
    and init: "\<And>now. P (new_runtime_state now)"
    and step: "\<And>st d r v now rec st'. P st \<Longrightarrow> gv_ok v \<Longrightarrow>
        \<exists>mcp payload. v = governance_check cfg mcp d payload \<Longrightarrow>
        apply_digest d (realize_args r v) now st = (rec, st') \<Longrightarrow> P st'"
  shows "P (sv_state s)"
  using assms(1)
proof (induction rule: service_reachable.induct)
  case (start now)
  show ?case by (simp add: init_service_def init)
next
  case (step s s')
  from step.hyps(2) show ?case
  proof (cases rule: service_step.cases)
    case (resume i r payload mcp now resp st')
    from resume(4) show ?thesis
    proof (cases rule: realize_finish_cases)
      case (refused c d)
      with step.IH resume show ?thesis by simp
    next
      case (applied rec)
      with step.IH resume assms(3) show ?thesis by (simp, blast)
    qed
  qed (use step.IH in simp_all)
qed

lemma reachable_runtime_inv: "service_reachable cfg s \<Longrightarrow> runtime_inv (sv_state s)"
proof (induction rule: reachable_state_induct)
  case (store st d r v now rec st')
  then show ?case by (blast intro: apply_digest_inv)
qed simp

text \<open>
  In every reachable state of the service, whatever the interleaving of requests: the
  realized digests are distinct, the pointer counts them, the current digest is the last
  one, and the governance receipts list the same digests in order.
\<close>

theorem service_state_invariant:
  assumes "service_reachable cfg s"
  shows "runtime_inv (sv_state s)"
  using assms by (rule reachable_runtime_inv)

definition demo_config :: runtime_config where
  "demo_config = \<lparr>cfg_mcp_url = ''https://mcp'', cfg_mcp_token = ''tok'', cfg_run_type = ''rt'',
     cfg_timeout = ''10.0'', cfg_runtime_version = ''0.1.0'', cfg_environment = ''dev''\<rparr>"

definition demo_request :: realization_request where
  "demo_request = \<lparr>rq_candidate_digest = ''sha256:abc'', rq_payload = None,
     rq_require_governed = True, rq_governance_context_id = None,
     rq_local_invariant_result = None, rq_passport_digest = None, rq_trust_digest = None\<rparr>"

definition demo_mcp :: "string \<Rightarrow> json \<Rightarrow> headers \<Rightarrow> mcp_answer" where
  "demo_mcp url body hdrs = McpResponse 200 (Inr (JObj
     [(''ok'', JBool True),
      (''result'', JObj [(''mcp_event_id'', JStr ''ev-1''), (''governance_context_id'', JStr ''ctx-1'')])]))"

definition demo_service :: service where
  "demo_service =
     (let (resp, st) = realize demo_config demo_mcp demo_request ''t1'' (new_runtime_state ''t0'')
      in \<lparr>sv_state = st, sv_pending = [], sv_log = [(''sha256:abc'', resp)]\<rparr>)"

lemma demo_reachable: "service_reachable demo_config demo_service"
proof -
  define s1 where "s1 = (init_service ''t0'')\<lparr>sv_pending := sv_pending (init_service ''t0'') @ [(demo_request, [])]\<rparr>"
  have "realize_begin demo_config demo_request = Inr []"
    by (simp add: realize_begin_def demo_config_def demo_request_def resolve_mode_def build_payload_def)
  then have "service_step demo_config (init_service ''t0'') s1"
    unfolding s1_def by (rule service_step.admit)
  then have s1: "service_reachable demo_config s1"
    by (rule service_step_reachable)
  obtain resp st where fin: "realize_finish demo_request
      (governance_check demo_config demo_mcp (rq_candidate_digest demo_request) []) ''t1''
      (sv_state s1) = (resp, st)"
    by fastforce
  then have "demo_service = s1\<lparr>sv_state := st, sv_pending := take 0 (sv_pending s1) @ drop (Suc 0) (sv_pending s1),
      sv_log := sv_log s1 @ [(rq_candidate_digest demo_request, resp)]\<rparr>"
    using \<open>realize_begin demo_config demo_request = Inr []\<close>
    by (simp add: demo_service_def realize_def s1_def init_service_def demo_request_def)
  moreover have "service_step demo_config s1 \<dots>"
    by (rule service_step.resume [OF _ _ fin]) (simp_all add: s1_def init_service_def)
  ultimately show ?thesis using s1 by (auto intro: service_reachable.step)
qed

theorem service_state_invariant_witness: "runtime_inv (sv_state demo_service)"
  by (rule service_state_invariant [OF demo_reachable])

text \<open>The digests of the accepted responses, in the order they were sent.\<close>

definition accepted_digests :: "(string \<times> http_response) list \<Rightarrow> string list" where
  "accepted_digests lg = map fst (filter
     (\<lambda>(d, resp). case resp of Receipt rec \<Rightarrow> receipt_accepted rec | HTTPException _ _ \<Rightarrow> False) lg)"

lemma accepted_digests_append [simp]:
  "accepted_digests (lg @ lg') = accepted_digests lg @ accepted_digests lg'"
  by (simp add: accepted_digests_def)

text \<open>
  C2: A digest is accepted at most once: in every reachable state the accepted responses name
  pairwise distinct digests, and exactly the realized digests in order, however many
  requests for the same digest were waiting for their verdict at the same time.
\<close>

theorem service_accepts_once:
  assumes "service_reachable cfg s"
  shows "accepted_digests (sv_log s) = rs_realized_digests (sv_state s)
    \<and> distinct (accepted_digests (sv_log s))"
proof -
  have "accepted_digests (sv_log s) = rs_realized_digests (sv_state s)"
    using assms
  proof (induction rule: service_reachable.induct)
    case (start now)
    show ?case by (simp add: accepted_digests_def init_service_def new_runtime_state_def)
  next
    case (step s s')
    from step.hyps(2) show ?case
    proof (cases rule: service_step.cases)
      case (refuse r e)
      then show ?thesis
        using step.IH by (auto simp: accepted_digests_def realize_begin_def split: if_splits)
    next
      case (resume i r payload mcp now resp st')
      from resume(4) show ?thesis
      proof (cases rule: realize_finish_cases)
        case (applied rec)
        with step.IH resume ds.store_ledger [OF applied(3)] show ?thesis
          by (simp add: accepted_digests_def)
      qed (use step.IH resume in \<open>simp add: accepted_digests_def\<close>)
    qed (use step.IH in simp)
  qed
  moreover from reachable_runtime_inv [OF assms] have "distinct (rs_realized_digests (sv_state s))"
    by (simp add: runtime_inv_def)
  ultimately show ?thesis by simp
qed

theorem service_accepts_once_witness:
  "accepted_digests (sv_log demo_service) = [''sha256:abc'']"
proof -
  have "rs_realized_digests (sv_state demo_service) = [''sha256:abc'']" by code_simp
  with service_accepts_once [OF demo_reachable] show ?thesis by simp
qed

section \<open>The governance gate\<close>

definition receipt_gated :: "runtime_config \<Rightarrow> stored_receipt \<Rightarrow> bool" where
  "receipt_gated cfg rc \<longleftrightarrow>
     (if ms_mode (resolve_mode cfg) = ''governed''
      then pr_governed (sr_public rc) \<and> pr_governance_verdict (sr_public rc) \<noteq> []
           \<and> (pr_event_spine_evidence (sr_public rc) \<longleftrightarrow> pr_mcp_event_id (sr_public rc) \<noteq> None)
      else ms_mode (resolve_mode cfg) = ''local-only'' \<and> \<not> pr_governed (sr_public rc)
           \<and> \<not> pr_event_spine_evidence (sr_public rc)
           \<and> pr_governance_verdict (sr_public rc) = ''LOCAL_ONLY''
           \<and> pr_drift_state (sr_public rc) = ''not_applicable'')"

text \<open>
  The audit trail: what the governance server was asked and answered, as the protocol says and
  independently of the bridge. A request that leaves the governance check of a governed runtime
  has posted its candidate, and the trail keeps the answer to that post.
\<close>

definition consulted ::
    "runtime_config \<Rightarrow> (string \<Rightarrow> json \<Rightarrow> headers \<Rightarrow> mcp_answer) \<Rightarrow> string \<Rightarrow> dict \<Rightarrow> (string \<times> mcp_answer) list" where
  "consulted cfg mcp candidate payload =
     (if cfg_mcp_url cfg = [] \<or> cfg_mcp_token cfg = [] then []
      else [(candidate,
             mcp (cfg_mcp_url cfg @ ''/mcp/v1/runs/start'')
               (JObj [(''run_type'', JStr (cfg_run_type cfg)),
                      (''parameters'', JObj [(''candidate_digest'', JStr candidate), (''payload'', JObj payload)])])
               [(''Content-Type'', ''application/json''), (''Authorization'', ''Bearer '' @ cfg_mcp_token cfg)])])"

inductive service_audit :: "runtime_config \<Rightarrow> (string \<times> mcp_answer) list \<Rightarrow> service \<Rightarrow> bool" for cfg where
  audit_start: "service_audit cfg [] (init_service now)"
| audit_refuse: "service_audit cfg h s \<Longrightarrow> realize_begin cfg r = Inl e \<Longrightarrow>
    service_audit cfg h (s\<lparr>sv_log := sv_log s @ [(rq_candidate_digest r, e)]\<rparr>)"
| audit_admit: "service_audit cfg h s \<Longrightarrow> realize_begin cfg r = Inr payload \<Longrightarrow>
    service_audit cfg h (s\<lparr>sv_pending := sv_pending s @ [(r, payload)]\<rparr>)"
| audit_resume: "service_audit cfg h s \<Longrightarrow> i < length (sv_pending s) \<Longrightarrow> sv_pending s ! i = (r, payload) \<Longrightarrow>
    realize_finish r (governance_check cfg mcp (rq_candidate_digest r) payload) now (sv_state s)
      = (resp, st') \<Longrightarrow>
    service_audit cfg (h @ consulted cfg mcp (rq_candidate_digest r) payload)
      (s\<lparr>sv_state := st',
         sv_pending := take i (sv_pending s) @ drop (Suc i) (sv_pending s),
         sv_log := sv_log s @ [(rq_candidate_digest r, resp)]\<rparr>)"

text \<open>Every reachable state has a trail, and a state with a trail is reachable.\<close>

lemma audited_reachable: "service_audit cfg h s \<Longrightarrow> service_reachable cfg s"
  by (induction rule: service_audit.induct) (blast intro: service_reachable.intros service_step.intros)+

lemma reachable_audited: "service_reachable cfg s \<Longrightarrow> \<exists>h. service_audit cfg h s"
proof (induction rule: service_reachable.induct)
  case (start now)
  show ?case using audit_start by blast
next
  case (step s s')
  then obtain h where h: "service_audit cfg h s" by blast
  from step.hyps(2) show ?case by cases (use h in \<open>blast intro: service_audit.intros\<close>)+
qed

text \<open>
  An approval in the trail for a stored receipt: the server answered the post of that digest
  with HTTP 200 and a JSON object whose \<open>ok\<close> is true, and the receipt says what that answer says.
\<close>

definition approved_in :: "(string \<times> mcp_answer) list \<Rightarrow> stored_receipt \<Rightarrow> bool" where
  "approved_in h rc \<longleftrightarrow>
     (\<exists>data. (sr_digest rc, McpResponse 200 (Inr (JObj data))) \<in> set h \<and>
        json_truthy (json_get data ''ok'') \<and>
        pr_governance_verdict (sr_public rc) = gr_governance_verdict (extract_governance_receipt data) \<and>
        pr_mcp_event_id (sr_public rc) = none_if_empty (gr_mcp_event_id (extract_governance_receipt data)))"

lemma judge_answer_ok:
  assumes "gv_ok (judge_answer cfg ans)"
  shows "\<exists>data. ans = McpResponse 200 (Inr (JObj data)) \<and> json_truthy (json_get data ''ok'') \<and>
    gv_receipt (judge_answer cfg ans) = Some (extract_governance_receipt data)"
  using assms
  by (auto simp: judge_answer_def check_error_def split: mcp_answer.splits sum.splits json.splits if_splits)

lemma str_or_nonempty: "a \<noteq> [] \<Longrightarrow> str_or a b = a"
  by (simp add: str_or_def)

lemma none_if_empty_None [simp]: "none_if_empty s = None \<longleftrightarrow> s = []"
  by (simp add: none_if_empty_def)

lemma governance_check_ok_cases:
  assumes "gv_ok (governance_check cfg mcp d payload)"
  obtains (local) "cfg_mcp_url cfg = []" "gv_receipt (governance_check cfg mcp d payload) = None"
      "gv_verdict (governance_check cfg mcp d payload) = ''LOCAL_ONLY''"
  | (governed) data where "cfg_mcp_url cfg \<noteq> []" "cfg_mcp_token cfg \<noteq> []"
      "gv_receipt (governance_check cfg mcp d payload) = Some (extract_governance_receipt data)"
      "consulted cfg mcp d payload = [(d, McpResponse 200 (Inr (JObj data)))]" "json_truthy (json_get data ''ok'')"
proof (cases "cfg_mcp_url cfg = []")
  case True
  then show ?thesis by (intro local) (simp_all add: governance_check_def)
next
  case False
  show ?thesis
  proof (cases "cfg_mcp_token cfg = []")
    case True
    with False assms show ?thesis by (simp add: governance_check_def)
  next
    case tok: False
    from False tok obtain ans where eq: "governance_check cfg mcp d payload = judge_answer cfg ans"
      and asked: "consulted cfg mcp d payload = [(d, ans)]"
      by (simp add: governance_check_def consulted_def bridge_headers_def)
    from assms eq judge_answer_ok [of cfg ans] obtain data where "ans = McpResponse 200 (Inr (JObj data))"
      "json_truthy (json_get data ''ok'')" "gv_receipt (judge_answer cfg ans) = Some (extract_governance_receipt data)"
      by auto
    with asked eq False tok show ?thesis by (intro governed) simp_all
  qed
qed

lemma applied_receipt_gated:
  assumes "gv_ok (governance_check cfg mcp d payload)"
  assumes rc_def: "rc = \<lparr>sr_digest = d, sr_realized_at = now,
           sr_public = build_public_receipt (realize_args r (governance_check cfg mcp d payload))\<rparr>"
  shows "receipt_gated cfg rc
    \<and> (ms_mode (resolve_mode cfg) = ''governed'' \<longrightarrow> approved_in (h @ consulted cfg mcp d payload) rc)"
  using assms(1)
proof (cases rule: governance_check_ok_cases)
  case local
  then show ?thesis
    by (simp add: Let_def receipt_gated_def resolve_mode_def build_public_receipt_def realize_args_def
        gr_field_def has_spine_evidence_def str_or_def rc_def)
next
  case (governed data)
  then show ?thesis
    using extract_receipt_defaults [of data]
    by (auto simp: Let_def receipt_gated_def resolve_mode_def build_public_receipt_def realize_args_def
        gr_field_def has_spine_evidence_def str_or_nonempty rc_def approved_in_def)
qed

definition gate_inv :: "runtime_config \<Rightarrow> (string \<times> mcp_answer) list \<Rightarrow> runtime_state \<Rightarrow> bool" where
  "gate_inv cfg h st \<longleftrightarrow>
     list_all (\<lambda>rc. receipt_gated cfg rc \<and> (ms_mode (resolve_mode cfg) = ''governed'' \<longrightarrow> approved_in h rc))
       (rs_governance_receipts st)"

lemma gate_inv_mono: "gate_inv cfg h st \<Longrightarrow> gate_inv cfg (h @ h') st"
  unfolding gate_inv_def by (erule list.pred_mono_strong) (auto simp: approved_in_def)

lemma realize_finish_gate:
  assumes "gate_inv cfg h st"
    and "realize_finish r (governance_check cfg mcp (rq_candidate_digest r) payload) now st = (resp, st')"
  shows "gate_inv cfg (h @ consulted cfg mcp (rq_candidate_digest r) payload) st'"
  using assms(2)
proof (cases rule: realize_finish_cases)
  case (refused c d)
  then show ?thesis using assms(1) by (simp add: gate_inv_mono)
next
  case (applied rec)
  from applied_receipt_gated [OF applied(2) refl, of now r h] gate_inv_mono [OF assms(1)] applied(3) show ?thesis
    by (auto simp: gate_inv_def apply_digest_def Let_def split: if_splits)
qed

lemma audited_gate: "service_audit cfg h s \<Longrightarrow> gate_inv cfg h (sv_state s)"
  by (induction rule: service_audit.induct)
    (simp_all add: realize_finish_gate, simp add: gate_inv_def init_service_def new_runtime_state_def)

text \<open>
  C16: The gate is never bypassed. Whatever the interleaving of requests, each realized digest of
  a governed runtime has a governed receipt that was earned: the server answered the post of that
  digest with HTTP 200 and an object whose \<open>ok\<close> is true, the receipt's verdict and event are those
  of that answer, and it claims spine evidence exactly when it names an event. A local-only
  runtime never claims governance or evidence; a misconfigured one realizes nothing. The trail
  \<open>h\<close> of what was asked and answered exists for every reachable state (\<open>reachable_audited\<close>).
\<close>

theorem service_governance_gate:
  assumes "service_audit cfg h s"
  shows "map sr_digest (rs_governance_receipts (sv_state s)) = rs_realized_digests (sv_state s)
    \<and> list_all (\<lambda>rc. receipt_gated cfg rc \<and> (ms_mode (resolve_mode cfg) = ''governed'' \<longrightarrow> approved_in h rc))
        (rs_governance_receipts (sv_state s))
    \<and> (ms_mode (resolve_mode cfg) = ''misconfigured'' \<longrightarrow> rs_realized_digests (sv_state s) = [])"
proof -
  note gated = audited_gate [OF assms, unfolded gate_inv_def]
  have "rs_governance_receipts (sv_state s) = []" if "ms_mode (resolve_mode cfg) = ''misconfigured''"
    using gated that by (cases "rs_governance_receipts (sv_state s)") (auto simp: receipt_gated_def)
  with gated reachable_runtime_inv [OF audited_reachable [OF assms]] show ?thesis
    by (auto simp: runtime_inv_def)
qed

theorem service_governance_gate_witness:
  "\<exists>h. list_all (approved_in h) (rs_governance_receipts (sv_state demo_service))
   \<and> rs_governance_receipts (sv_state demo_service) \<noteq> []"
proof -
  have "length (rs_governance_receipts (sv_state demo_service)) = 1" by code_simp
  moreover have "ms_mode (resolve_mode demo_config) = ''governed''" by code_simp
  moreover obtain h where "service_audit demo_config h demo_service"
    using reachable_audited [OF demo_reachable] by blast
  ultimately show ?thesis
    using service_governance_gate [of demo_config h demo_service] by (auto simp: list_all_iff)
qed

section \<open>One request\<close>

lemma demo_realize:
  obtains rec st' where
    "realize demo_config demo_mcp demo_request ''t1'' (new_runtime_state ''t0'') = (Receipt rec, st')"
  by (simp add: realize_def realize_begin_def demo_config_def demo_request_def demo_mcp_def resolve_mode_def
        governance_check_def judge_answer_def realize_finish_def json_simps
        missing_evidence_def has_spine_evidence_def extract_governance_receipt_def event_sources_def
        apply_digest_def is_realized_def new_runtime_state_def Let_def)

text \<open>
  Replaying a digest is safe: after a request that returned a receipt, any later request
  for the same digest leaves the state as it is, and a receipt it gets says
  \<open>ALREADY_REALIZED\<close>.
\<close>

theorem realize_replay:
  assumes "realize cfg mcp r now st = (Receipt rec, st')"
    and "rq_candidate_digest q = rq_candidate_digest r"
    and "realize cfg' mcp' q now' st' = (resp, st'')"
  shows "st'' = st' \<and> (\<forall>rec'. resp = Receipt rec' \<longrightarrow> rr_status rec' = ''ALREADY_REALIZED'')"
proof -
  from assms(1) obtain payload where
    "realize_finish r (governance_check cfg mcp (rq_candidate_digest r) payload) now st = (Receipt rec, st')"
    by (auto simp: realize_def realize_begin_def split: sum.splits if_splits)
  then obtain v where first:
    "apply_digest (rq_candidate_digest r) (realize_args r v) now st = (rec, st')"
    by (auto elim: realize_finish_cases)
  show ?thesis
  proof (cases "realize_begin cfg' q")
    case (Inl e)
    with assms(3) show ?thesis by (auto simp: realize_def realize_begin_def split: if_splits)
  next
    case (Inr p)
    with assms(3) have
      "realize_finish q (governance_check cfg' mcp' (rq_candidate_digest q) p) now' st' = (resp, st'')"
      by (simp add: realize_def)
    then show ?thesis
    proof (cases rule: realize_finish_cases)
      case (refused c d)
      then show ?thesis by simp
    next
      case (applied rec')
      from applied(3) assms(2)
      have second: "apply_digest (rq_candidate_digest r) (realize_args q
          (governance_check cfg' mcp' (rq_candidate_digest q) p)) now' st' = (rec', st'')" by simp
      from ds.store_replay [OF first second] have "\<not> receipt_accepted rec' \<and> st'' = st'" .
      moreover from second have "rr_status rec' = ''ACCEPT'' \<or> rr_status rec' = ''ALREADY_REALIZED''"
        by (auto simp: apply_digest_def Let_def split: if_splits)
      ultimately show ?thesis using applied(1) by (auto simp: receipt_accepted_def)
    qed
  qed
qed

theorem realize_replay_witness:
  "rs_realized_digests (snd (realize demo_config demo_mcp demo_request ''t2'' (sv_state demo_service)))
   = rs_realized_digests (sv_state demo_service)"
proof -
  obtain rec st' where one: "realize demo_config demo_mcp demo_request ''t1'' (new_runtime_state ''t0'') = (Receipt rec, st')"
    by (rule demo_realize)
  obtain resp st'' where two: "realize demo_config demo_mcp demo_request ''t2'' st' = (resp, st'')"
    by fastforce
  from realize_replay [OF one refl two] one two show ?thesis
    by (simp add: demo_service_def)
qed

text \<open>
  C33: A caller that requires governance gets a receipt only with evidence: the runtime is
  in governed mode, the verdict was approved by the MCP server, and the receipt is governed
  and names an event and a governance context.
\<close>

theorem require_governed_evidence:
  assumes "rq_require_governed r" and "realize cfg mcp r now st = (Receipt rec, st')"
  shows "ms_mode (resolve_mode cfg) = ''governed'' \<and> pr_governed (rr_public rec)
    \<and> pr_event_spine_evidence (rr_public rec)
    \<and> pr_mcp_event_id (rr_public rec) \<noteq> None \<and> pr_governance_context_id (rr_public rec) \<noteq> None"
proof -
  from assms have mode: "ms_mode (resolve_mode cfg) = ''governed''"
    by (auto simp: realize_def realize_begin_def split: if_splits)
  let ?v = "\<lambda>p. governance_check cfg mcp (rq_candidate_digest r) p"
  from assms mode obtain p where fin: "realize_finish r (?v p) now st = (Receipt rec, st')"
    by (auto simp: realize_def realize_begin_def)
  then have ok: "gv_ok (?v p)"
    and app: "apply_digest (rq_candidate_digest r) (realize_args r (?v p)) now st = (rec, st')"
    and ev: "missing_evidence (gv_receipt (?v p)) = []" "has_spine_evidence (gv_receipt (?v p))"
    using assms(1) by (auto elim!: realize_finish_cases)
  from ev(2) obtain g where g: "gv_receipt (?v p) = Some g" "gr_event_spine_evidence g"
    by (auto simp: has_spine_evidence_def split: option.splits)
  from ok g(1) have "gr_governed g"
    by (cases rule: governance_check_ok_cases) (auto simp: extract_receipt_defaults)
  moreover from ev(1) g(1) have "gr_governance_context_id g \<noteq> []" "gr_mcp_event_id g \<noteq> []"
    by (auto simp: missing_evidence_def split: if_splits)
  moreover from app have "rr_public rec = build_public_receipt (realize_args r (?v p))"
    by (auto simp: apply_digest_def Let_def split: if_splits)
  ultimately show ?thesis
    using mode g by (simp add: build_public_receipt_def realize_args_def gr_field_def has_spine_evidence_def
        str_or_nonempty)
qed

theorem require_governed_evidence_witness:
  "\<exists>rec st. realize demo_config demo_mcp demo_request ''t1'' (new_runtime_state ''t0'') = (Receipt rec, st)
     \<and> pr_mcp_event_id (rr_public rec) \<noteq> None"
proof -
  obtain rec st' where one: "realize demo_config demo_mcp demo_request ''t1'' (new_runtime_state ''t0'') = (Receipt rec, st')"
    by (rule demo_realize)
  have "rq_require_governed demo_request" by (simp add: demo_request_def)
  from require_governed_evidence [OF this one] one show ?thesis by blast
qed

text \<open>
  The bridge fails closed. A candidate passes the governance check exactly when no MCP URL
  is configured (local-only), or a token is configured too and the server answered HTTP 200
  with an object whose \<open>ok\<close> is truthy: a timeout, an exception, another status, a body that
  does not parse or is not an object, and a missing token all refuse.
\<close>

theorem governance_check_fails_closed:
  "gv_ok (governance_check cfg mcp candidate payload) \<longleftrightarrow>
     cfg_mcp_url cfg = [] \<or>
     (cfg_mcp_token cfg \<noteq> [] \<and>
      (\<exists>data. mcp (cfg_mcp_url cfg @ ''/mcp/v1/runs/start'')
            (JObj [(''run_type'', JStr (cfg_run_type cfg)),
                   (''parameters'', JObj [(''candidate_digest'', JStr candidate),
                                          (''payload'', JObj payload)])])
            (bridge_headers cfg) = McpResponse 200 (Inr (JObj data))
        \<and> json_truthy (json_get data ''ok'')))"
  by (auto simp: governance_check_def judge_answer_def check_error_def
      split: mcp_answer.splits sum.splits json.splits if_splits)

section \<open>The contract and the evidence check\<close>

text \<open>
  The routes honour the published contract: whatever the state, a realization receipt, the
  state and the identity carry exactly the fields the contract lists, in its order.
\<close>

theorem routes_answer_contract:
  "map fst (receipt_dict r) = contract_fields ''realize_contract'' ''receipt_fields''
   \<and> map fst (state_route st) = contract_fields ''state_contract'' ''required_fields''
   \<and> map fst (identity_route cfg) = contract_fields ''identity_contract'' ''required_fields''"
  by (simp add: receipt_dict_def public_receipt_dict_def state_route_def identity_route_def
      contract_fields_def runtime_bridge_contract_def json_simps)

text \<open>
  The contract announces two modes; the resolver has a third, and the bridge agrees with the
  resolver on which one it is in.
\<close>

lemma mode_agreement: "governance_mode cfg = ms_mode (resolve_mode cfg)"
  by (simp add: governance_mode_def resolve_mode_def)

lemma mode_outside_contract:
  "ms_mode (resolve_mode cfg) \<notin> set contract_supported_modes \<longleftrightarrow> cfg_mcp_url cfg \<noteq> [] \<and> cfg_mcp_token cfg = []"
proof -
  have eq: "contract_supported_modes = [''local-only'', ''governed'']"
    by (simp add: contract_supported_modes_def runtime_bridge_contract_def json_simps)
  show ?thesis by (simp add: eq resolve_mode_def)
qed

text \<open>
  Of the four fields the evidence check of \<open>/realize\<close> tests, two can never be found missing:
  the bridge has already filled them with defaults.
\<close>

lemma missing_evidence_of_bridge:
  "set (missing_evidence (Some (extract_governance_receipt d))) \<subseteq> {''governance_context_id'', ''mcp_event_id''}"
  using extract_receipt_defaults [of d] by (auto simp: missing_evidence_def)

end
