(* ===== verification/Run_Status.thy ===== *)
theory Run_Status
  imports Keyhole_Prelude
begin

text \<open>
  Observing a governed run (\<open>run_lifecycle/models.py\<close>, \<open>status.py\<close>, \<open>repair.py\<close>): the status
  families, the classification of a boundary answer, and one status query. The transport
  is a function from a call and a world to an answer and a new world; an exception that
  leaves a function is the left side of a sum, under its class name.
\<close>

section \<open>Status families\<close>

datatype run_status =
    ACCEPTED | RUNNING | DEFERRED_RUN | SUCCESS | FAILED | REJECTED | DENIED | CANCELLED | UNKNOWN

fun run_status_value :: "run_status \<Rightarrow> string" where
  "run_status_value ACCEPTED = ''accepted''"
| "run_status_value RUNNING = ''running''"
| "run_status_value DEFERRED_RUN = ''deferred''"
| "run_status_value SUCCESS = ''success''"
| "run_status_value FAILED = ''failed''"
| "run_status_value REJECTED = ''rejected''"
| "run_status_value DENIED = ''denied''"
| "run_status_value CANCELLED = ''cancelled''"
| "run_status_value UNKNOWN = ''unknown''"

definition terminal_statuses :: "run_status set" where
  "terminal_statuses = {SUCCESS, FAILED, REJECTED, DENIED, CANCELLED}"

definition is_terminal :: "run_status \<Rightarrow> bool" where
  "is_terminal s = (s \<in> terminal_statuses)"

definition is_active :: "run_status \<Rightarrow> bool" where
  "is_active s = (s \<in> {ACCEPTED, RUNNING, DEFERRED_RUN})"

definition status_map :: "(string \<times> run_status) list" where
  "status_map =
     [(''accepted'', ACCEPTED), (''pending'', ACCEPTED),
      (''running'', RUNNING), (''in_progress'', RUNNING),
      (''deferred'', DEFERRED_RUN),
      (''success'', SUCCESS), (''succeeded'', SUCCESS), (''completed'', SUCCESS), (''ok'', SUCCESS),
      (''failed'', FAILED), (''error'', FAILED),
      (''rejected'', REJECTED), (''denied'', DENIED),
      (''cancelled'', CANCELLED), (''canceled'', CANCELLED)]"

definition classify_status :: "string \<Rightarrow> run_status" where
  "classify_status raw = dict_get_or status_map (py_strip (py_lower raw)) UNKNOWN"

section \<open>Results\<close>

text \<open>
  Fields that hold whatever the boundary sent are JSON values; the others are strings the
  code has checked.
\<close>

record run_status_result =
  rs_success :: bool
  rs_run_id :: string
  rs_request_id :: string
  rs_correlation_id :: string
  rs_status :: run_status
  rs_run_type :: string
  rs_repo_name :: json
  rs_shadow :: json
  rs_ctxpack_digest :: json
  rs_last_updated :: json
  rs_summary :: json
  rs_terminal_summary :: json
  rs_resolved :: bool
  rs_server_backed :: bool
  rs_http_status_code :: int
  rs_response_data :: dict
  rs_error_class :: json
  rs_reason :: json
  rs_repair_guidance :: "string list"

definition blank_status_result :: "bool \<Rightarrow> string \<Rightarrow> run_status_result" where
  "blank_status_result ok run_id =
     \<lparr>rs_success = ok, rs_run_id = run_id, rs_request_id = [], rs_correlation_id = [],
      rs_status = UNKNOWN, rs_run_type = [], rs_repo_name = JStr [], rs_shadow = JBool False,
      rs_ctxpack_digest = JStr [], rs_last_updated = JStr [], rs_summary = JStr [],
      rs_terminal_summary = JStr [], rs_resolved = False, rs_server_backed = False,
      rs_http_status_code = 0, rs_response_data = [], rs_error_class = JStr [],
      rs_reason = JStr [], rs_repair_guidance = []\<rparr>"

text \<open>
  \<open>render_human\<close>. \<open>fstr\<close> formats a value the way an f-string does; the tick is in UTF-8.
\<close>

definition tick :: string where
  "tick = [CHR 0xE2, CHR 0x9C, CHR 0x94]"

definition optional_line :: "(json \<Rightarrow> string) \<Rightarrow> string \<Rightarrow> json \<Rightarrow> string list" where
  "optional_line fstr label v = (if json_truthy v then [''  '' @ label @ '': '' @ fstr v] else [])"

definition render_human :: "(json \<Rightarrow> string) \<Rightarrow> run_status_result \<Rightarrow> string" where
  "render_human fstr r =
     py_join [CHR 10]
       (if \<not> rs_success r then
          (''FAILED: '' @ fstr (json_or (rs_reason r) (JStr ''status retrieval failed''))) #
          (if rs_repair_guidance r \<noteq> []
           then ''Repair guidance:'' # map (\<lambda>g. ''  - '' @ g) (rs_repair_guidance r) else [])
        else
          ((if is_terminal (rs_status r) then tick else ''?'') @ '' Run '' @ rs_run_id r @ '': '' @
             py_upper (run_status_value (rs_status r))) #
          optional_line fstr ''run_type'' (JStr (rs_run_type r)) @
          optional_line fstr ''repo'' (rs_repo_name r) @
          (if json_truthy (rs_shadow r) then [''  mode: SHADOW''] else []) @
          optional_line fstr ''context'' (rs_ctxpack_digest r) @
          optional_line fstr ''last_updated'' (rs_last_updated r) @
          optional_line fstr ''result'' (rs_terminal_summary r) @
          optional_line fstr ''summary'' (rs_summary r) @
          (if \<not> is_terminal (rs_status r)
           then [''  next:'', ''    keyhole runs wait '' @ rs_run_id r,
                 ''    keyhole runs tail '' @ rs_run_id r] else []))"

section \<open>Repair guidance\<close>

definition repair_map :: "(string \<times> string list) list" where
  "repair_map =
     [(''non_terminal'',
        [''The run is accepted but not yet complete.'',
         ''Check status: keyhole runs status <run-id>'',
         ''Wait for result: keyhole runs wait <run-id>'']),
      (''observation_failed'',
        [''Status retrieval failed '' @ mdash @ '' this does NOT mean execution failed.'',
         ''Retry: keyhole runs status <run-id>'',
         ''Or wait: keyhole runs wait <run-id>'']),
      (''status_retrieval_failed'',
        [''Status retrieval failed.'',
         ''Check network connectivity to the MCP boundary.'',
         ''Retry: keyhole runs status <run-id>'',
         ''Observation failure does not mean execution failed.'']),
      (''terminal_failure'',
        [''The run completed with a failure or denial.'',
         ''Inspect local proof: proof_bundle/core/runs/<run-id>/'',
         ''Use richer explain/support surfaces when available.'']),
      (''resume_ambiguous'',
        [''Cannot determine which run to reconnect to confidently.'',
         ''Provide the exact run-id or request-id.'',
         ''List recent runs: keyhole runs list (when available)'',
         ''Check local proof: .keyhole/state/runs/'']),
      (''missing_identifier'',
        [''No run ID or request ID provided.'',
         ''Provide: keyhole runs resume <run-id>'']),
      (''protocol_error'',
        [''The boundary returned an invalid accepted/deferred envelope.'',
         ''Missing run_id in accepted response.'',
         ''Retry the run or contact support.'']),
      (''missing_run_id'',
        [''The boundary accepted the run but did not return a run_id.'',
         ''This is a protocol-level issue.'',
         ''Check local proof for the correlation_id.'']),
      (''wait_timeout'',
        [''The run did not reach terminal state within the poll limit.'',
         ''Try again: keyhole runs wait <run-id>'',
         ''Or check: keyhole runs status <run-id>'',
         ''The run may still be in progress.'']),
      (''wait_interrupted'',
        [''Wait was interrupted before terminal state.'',
         ''Resume: keyhole runs wait <run-id>'',
         ''Or check: keyhole runs status <run-id>'']),
      (''AuthenticationError'',
        [''Run: keyhole login'',
         ''Re-authenticate and try again.'']),
      (''TransportUnknownError'',
        [''Check network connectivity to the MCP boundary.'',
         ''Retry is safe for observation commands.'']),
      (''RetryExhaustedError'',
        [''The boundary is unavailable after all retry attempts.'',
         ''Wait and retry later.'']),
      (''RuntimeUnavailableError'',
        [''The runtime returned an error. It may be temporarily unavailable.'',
         ''Try again later.'']),
      (''malformed_run_id'',
        [''The run ID format is invalid.'',
         ''Check the run ID and try again.'',
         ''Run IDs are typically alphanumeric with dashes or underscores.''])]"

definition map_run_lifecycle_repair :: "string \<Rightarrow> string list" where
  "map_run_lifecycle_repair cls =
     (case dict_get repair_map cls of
        Some g \<Rightarrow> if g \<noteq> [] then g
                 else [''Unexpected error: '' @ cls, ''Check: keyhole runs status <run-id>'',
                       ''Observation failure does not mean execution failed.'']
      | None \<Rightarrow> [''Unexpected error: '' @ cls, ''Check: keyhole runs status <run-id>'',
                ''Observation failure does not mean execution failed.''])"

section \<open>One status query\<close>

text \<open>
  A call of the transport and what it gives: the exception's class name and text, or a
  status code with the parsed body.
\<close>

record transport_call =
  tc_method :: string
  tc_path :: string
  tc_operation :: string
  tc_json :: json

datatype call_answer = CallRaised string string | CallReturned int json

type_synonym 'w exec_fn = "transport_call \<Rightarrow> 'w \<Rightarrow> call_answer \<times> 'w"

definition status_call :: "string \<Rightarrow> transport_call" where
  "status_call run_id =
     \<lparr>tc_method = ''POST'', tc_path = ''/mcp/v1/runs/start'', tc_operation = ''run.status'',
      tc_json = JObj [(''run_type'', JStr ''run.status''),
                      (''params'', JObj [(''run_id'', JStr run_id)])]\<rparr>"

definition product_error :: "dict \<Rightarrow> dict \<Rightarrow> dict option" where
  "product_error data nested =
     (if json_get data ''ok'' = JBool False then
        Some (if as_dict (json_get data ''error'') \<noteq> [] then as_dict (json_get data ''error'')
              else [(''code'', JStr ''PRODUCT_ENVELOPE_INCOMPLETE''),
                    (''message'', JStr ''Product operation returned ok=false.'')])
      else if json_get nested ''ok'' = JBool False then
        Some (if as_dict (json_get nested ''error'') \<noteq> [] then as_dict (json_get nested ''error'')
              else [(''code'', JStr ''PRODUCT_ENVELOPE_INCOMPLETE''),
                    (''message'', JStr ''Product operation data returned ok=false.'')])
      else None)"

definition flatten_product_status_data :: "dict \<Rightarrow> dict \<Rightarrow> string \<Rightarrow> string \<Rightarrow> string \<Rightarrow> dict" where
  "flatten_product_status_data data nested run_id request_id correlation_id =
     (if nested = [] then data
      else
        let f1 = dict_setdefault ''run_id'' (JStr run_id) nested;
            f2 = (if request_id \<noteq> [] then dict_setdefault ''request_id'' (JStr request_id) f1 else f1);
            f3 = (if correlation_id \<noteq> []
                  then dict_setdefault ''correlation_id'' (JStr correlation_id) f2 else f2)
        in dict_set ''_raw_envelope'' (JObj data) f3)"

definition raw_status :: "dict \<Rightarrow> dict \<Rightarrow> string" where
  "raw_status data nested =
     first_nonempty
       [as_str (json_get data ''status''), as_str (json_get data ''state''),
        as_str (json_get data ''run_status''), as_str (json_get nested ''status''),
        as_str (json_get nested ''state''), as_str (json_get nested ''run_status''),
        as_str (json_get (as_dict (json_get nested ''run'')) ''status''),
        as_str (json_get (as_dict (json_get nested ''receipt'')) ''status'')]"

definition canonical_run_id :: "dict \<Rightarrow> dict \<Rightarrow> string \<Rightarrow> string" where
  "canonical_run_id data nested run_id =
     first_nonempty
       [as_str (json_get (as_dict (json_get nested ''identity_refs'')) ''run_id''),
        as_str (json_get (as_dict (json_get nested ''receipt'')) ''run_id''),
        as_str (json_get (as_dict (json_get nested ''run'')) ''run_id''),
        as_str (json_get data ''run_id''), run_id]"

definition canonical_ref :: "string \<Rightarrow> dict \<Rightarrow> dict \<Rightarrow> string" where
  "canonical_ref key data nested =
     first_nonempty
       [as_str (json_get (as_dict (json_get nested ''identity_refs'')) key),
        as_str (json_get (as_dict (json_get nested ''receipt'')) key),
        as_str (json_get nested key), as_str (json_get data key)]"

definition terminal_summary_of :: "dict \<Rightarrow> dict \<Rightarrow> json" where
  "terminal_summary_of data nested =
     (let t1 = json_get data ''terminal_summary'';
          t2 = (if t1 = JNull then json_get nested ''result'' else t1)
      in if t2 = JNull \<and> nested \<noteq> [] then JObj nested else t2)"

definition resolved_status_result :: "dict \<Rightarrow> dict \<Rightarrow> int \<Rightarrow> string \<Rightarrow> json \<Rightarrow> run_status_result" where
  "resolved_status_result data nested code run_id repo_name =
     (let refs = as_dict (json_get nested ''identity_refs'');
          receipt = as_dict (json_get nested ''receipt'');
          rid = canonical_run_id data nested run_id;
          req = canonical_ref ''request_id'' data nested;
          cor = canonical_ref ''correlation_id'' data nested
      in \<lparr>rs_success = True, rs_run_id = rid, rs_request_id = req, rs_correlation_id = cor,
          rs_status = classify_status (raw_status data nested),
          rs_run_type = first_nonempty
            [as_str (json_get data ''run_type''), as_str (json_get nested ''run_type''),
             as_str (json_get (as_dict (json_get nested ''request'')) ''run_type'')],
          rs_repo_name = dict_get_or data ''repo'' (dict_get_or nested ''repo'' repo_name),
          rs_shadow = dict_get_or data ''shadow'' (dict_get_or nested ''shadow'' (JBool False)),
          rs_ctxpack_digest =
            dict_get_or data ''ctxpack_digest'' (dict_get_or nested ''ctxpack_digest'' (JStr [])),
          rs_last_updated =
            dict_get_or data ''updated_at'' (dict_get_or data ''last_updated'' (JStr [])),
          rs_summary = dict_get_or data ''summary'' (dict_get_or nested ''summary'' (JStr [])),
          rs_terminal_summary = terminal_summary_of data nested,
          rs_resolved = (json_truthy (json_get nested ''resolved'') \<or> refs \<noteq> [] \<or> receipt \<noteq> []),
          rs_server_backed =
            (json_truthy (json_get nested ''server_backed'') \<or> refs \<noteq> [] \<or> receipt \<noteq> []),
          rs_http_status_code = code,
          rs_response_data = flatten_product_status_data data nested rid req cor,
          rs_error_class = JStr [], rs_reason = JStr [], rs_repair_guidance = []\<rparr>)"

text \<open>A body that is not an object makes \<open>data.get\<close> raise \<open>AttributeError\<close>.\<close>

definition classify_status_result ::
    "int \<Rightarrow> json \<Rightarrow> string \<Rightarrow> json \<Rightarrow> string + run_status_result" where
  "classify_status_result code body run_id repo_name =
     (case body of
        JObj data \<Rightarrow>
          if code \<ge> 400 then
            Inr ((blank_status_result False run_id)
              \<lparr>rs_error_class := dict_get_or data ''error_class'' (JStr ''status_retrieval_failed''),
               rs_reason := dict_get_or data ''reason''
                 (dict_get_or data ''message'' (JStr (''HTTP '' @ str_int code))),
               rs_repair_guidance := map_run_lifecycle_repair ''status_retrieval_failed'',
               rs_response_data := data\<rparr>)
          else
            (let nested = as_dict (json_get data ''data'')
             in case product_error data nested of
                  Some err \<Rightarrow>
                    Inr ((blank_status_result False run_id)
                      \<lparr>rs_error_class := JStr (str_or (as_str (json_get err ''code''))
                         ''PRODUCT_ENVELOPE_INCOMPLETE''),
                       rs_reason := JStr (str_or (as_str (json_get err ''message''))
                         ''Product envelope did not resolve.''),
                       rs_repair_guidance := map_run_lifecycle_repair ''status_retrieval_failed'',
                       rs_http_status_code := code,
                       rs_response_data := data\<rparr>)
                | None \<Rightarrow> Inr (resolved_status_result data nested code run_id repo_name))
      | _ \<Rightarrow> Inl ''AttributeError'')"

definition handle_status_exception :: "string \<Rightarrow> string \<Rightarrow> string \<Rightarrow> run_status_result" where
  "handle_status_exception cls txt run_id =
     (blank_status_result False run_id)
       \<lparr>rs_error_class := JStr cls, rs_reason := JStr txt,
        rs_repair_guidance := map_run_lifecycle_repair cls\<rparr>"

definition fetch_run_status ::
    "'w exec_fn \<Rightarrow> string \<Rightarrow> json \<Rightarrow> 'w \<Rightarrow> (string + run_status_result) \<times> 'w" where
  "fetch_run_status exec run_id repo_name w =
     (case exec (status_call run_id) w of
        (CallRaised cls txt, w') \<Rightarrow> (Inr (handle_status_exception cls txt run_id), w')
      | (CallReturned code body, w') \<Rightarrow> (classify_status_result code body run_id repo_name, w'))"

section \<open>Facts\<close>

lemma is_terminal_simps [simp]:
  "is_terminal SUCCESS" "is_terminal FAILED" "is_terminal REJECTED" "is_terminal DENIED"
  "is_terminal CANCELLED" "\<not> is_terminal ACCEPTED" "\<not> is_terminal RUNNING"
  "\<not> is_terminal DEFERRED_RUN" "\<not> is_terminal UNKNOWN"
  by (simp_all add: is_terminal_def terminal_statuses_def)

text \<open>A status survives being written as its value and classified again.\<close>

lemma classify_status_value: "classify_status (run_status_value s) = s"
proof -
  have "list_all (\<lambda>s. classify_status (run_status_value s) = s)
      [ACCEPTED, RUNNING, DEFERRED_RUN, SUCCESS, FAILED, REJECTED, DENIED, CANCELLED, UNKNOWN]"
    by code_simp
  then show ?thesis by (cases s) simp_all
qed

lemma run_status_value_nonempty [simp]: "run_status_value s \<noteq> []"
  by (cases s) simp_all

text \<open>Every status query is the one read-only call.\<close>

lemma fetch_run_status_world:
  "snd (fetch_run_status exec run_id repo w) = snd (exec (status_call run_id) w)"
  by (simp add: fetch_run_status_def split: prod.splits call_answer.splits)

lemma map_run_lifecycle_repair_nonempty [simp]: "map_run_lifecycle_repair cls \<noteq> []"
  by (simp add: map_run_lifecycle_repair_def split: option.splits)

end
