(* ===== verification/Run_Record.thy ===== *)
theory Run_Record
  imports Run_Status
begin

text \<open>
  The local run record store (\<open>run_lifecycle/record.py\<close>) and the proof directory of a run
  (\<open>run_lifecycle/proof.py\<close>). The directory \<open>.keyhole/state/runs\<close> is an association list from
  file names to a modification time and a content. A record file is the JSON text of a
  record; \<open>OtherFile\<close> is any file that cannot be read or holds no JSON object. The order
  in which \<open>glob\<close> lists the directory is an argument.
\<close>

section \<open>File names\<close>

text \<open>\<open>c if c.isalnum() or c in "-_." else "_"\<close>, cut to 128 characters.\<close>

definition safe_char :: "char \<Rightarrow> char" where
  "safe_char c = (if py_isalnum c \<or> c \<in> set ''-_.'' then c else CHR ''_'')"

definition safe_filename :: "string \<Rightarrow> string" where
  "safe_filename key = take 128 (map safe_char key)"

section \<open>Records\<close>

record run_record =
  rr_request_id :: string
  rr_run_id :: string
  rr_command :: string
  rr_mode :: string
  rr_run_type :: string
  rr_ctxpack_digest :: json
  rr_submitted_at :: string
  rr_last_known_status :: string
  rr_proof_path :: string
  rr_repo_name :: json
  rr_repo_path :: string
  rr_correlation_id :: string

definition default_record :: run_record where
  "default_record =
     \<lparr>rr_request_id = [], rr_run_id = [], rr_command = ''keyhole run'', rr_mode = ''regular'',
      rr_run_type = [], rr_ctxpack_digest = JStr [], rr_submitted_at = [],
      rr_last_known_status = ''accepted'', rr_proof_path = [], rr_repo_name = JStr [],
      rr_repo_path = [], rr_correlation_id = []\<rparr>"

definition record_key :: "run_record \<Rightarrow> string" where
  "record_key r = first_nonempty [rr_run_id r, rr_request_id r, rr_correlation_id r]"

datatype run_file = RecordFile run_record | OtherFile

type_synonym run_dir = "(string \<times> int \<times> run_file) list"

section \<open>The store\<close>

definition record_path :: "string \<Rightarrow> string" where
  "record_path key = safe_filename key @ ''.json''"

text \<open>\<open>save\<close> at time \<open>t\<close>: the path written, or \<open>ValueError\<close> for a record without identity.\<close>

definition save_record :: "int \<Rightarrow> run_record \<Rightarrow> run_dir \<Rightarrow> (string + string) \<times> run_dir" where
  "save_record t r fs =
     (if record_key r = [] then (Inl ''ValueError'', fs)
      else (Inr (record_path (record_key r)),
            dict_set (record_path (record_key r)) (t, RecordFile r) fs))"

fun parse_file :: "run_file \<Rightarrow> run_record option" where
  "parse_file (RecordFile r) = Some r"
| "parse_file OtherFile = None"

definition record_names :: "run_record \<Rightarrow> string \<Rightarrow> bool" where
  "record_names r ident = (rr_run_id r = ident \<or> rr_request_id r = ident \<or> rr_correlation_id r = ident)"

fun scan_files :: "string \<Rightarrow> run_file list \<Rightarrow> run_record option" where
  "scan_files ident [] = None"
| "scan_files ident (f # fs) =
     (case parse_file f of
        Some r \<Rightarrow> if record_names r ident then Some r else scan_files ident fs
      | None \<Rightarrow> scan_files ident fs)"

definition scan_for :: "(run_dir \<Rightarrow> run_dir) \<Rightarrow> string \<Rightarrow> run_dir \<Rightarrow> run_record option" where
  "scan_for glob ident fs = scan_files ident (map (snd \<circ> snd) (glob fs))"

definition load_record :: "(run_dir \<Rightarrow> run_dir) \<Rightarrow> string \<Rightarrow> run_dir \<Rightarrow> run_record option" where
  "load_record glob run_id fs =
     (case dict_get fs (record_path run_id) of
        Some (_, f) \<Rightarrow> parse_file f
      | None \<Rightarrow> scan_for glob run_id fs)"

text \<open>\<open>None\<close> when no record was found; otherwise what \<open>save\<close> gives.\<close>

definition update_status ::
    "(run_dir \<Rightarrow> run_dir) \<Rightarrow> int \<Rightarrow> string \<Rightarrow> string \<Rightarrow> run_dir \<Rightarrow> (string + string) option \<times> run_dir" where
  "update_status glob t run_id status fs =
     (case load_record glob run_id fs of
        None \<Rightarrow> (None, fs)
      | Some r \<Rightarrow>
          (let (res, fs') = save_record t (r\<lparr>rr_last_known_status := status\<rparr>) fs in (Some res, fs')))"

text \<open>Newest first; \<open>sorted(..., reverse=True)\<close> keeps the order of equal keys. A Python slice
  with a negative bound drops that many files from the end.\<close>

definition slice_to :: "int \<Rightarrow> 'a list \<Rightarrow> 'a list" where
  "slice_to n xs = (if n < 0 then take (length xs - nat (- n)) xs else take (nat n) xs)"

definition list_recent :: "(run_dir \<Rightarrow> run_dir) \<Rightarrow> int \<Rightarrow> run_dir \<Rightarrow> run_record list" where
  "list_recent glob limit fs =
     List.map_filter (parse_file \<circ> snd \<circ> snd)
       (slice_to limit (sort_key (\<lambda>(_, t, _). - t) (glob fs)))"

section \<open>Run proofs\<close>

text \<open>
  A path is the list of its components; the proof tree maps paths to what was written.
\<close>

type_synonym proof_tree = "(string list \<times> dict) list"

definition proof_run_dir :: "string \<Rightarrow> string \<Rightarrow> string \<Rightarrow> string list" where
  "proof_run_dir stage run_id correlation_id =
     (let safe_id = safe_filename (str_or run_id correlation_id)
      in if stage \<in> {''accepted'', ''latest-status'', ''outcome'', ''correlation'', ''summary''}
         then [''proof_bundle'', ''core'', ''runs'', safe_id]
         else [''proof_bundle'', ''extended'', ''runs'', safe_id])"

definition proof_artifact :: "string \<Rightarrow> string \<Rightarrow> string \<Rightarrow> string \<Rightarrow> dict \<Rightarrow> dict" where
  "proof_artifact now stage run_id correlation_id data =
     dict_update
       [(''stage'', JStr stage), (''run_id'', JStr run_id),
        (''correlation_id'', JStr correlation_id), (''written_at'', JStr now)] data"

text \<open>The proof file of a stage; the outcome's \<open>summary.md\<close> beside it is not kept.\<close>

definition emit_run_lifecycle_proof ::
    "string \<Rightarrow> string \<Rightarrow> string \<Rightarrow> string \<Rightarrow> dict \<Rightarrow> proof_tree \<Rightarrow> string list \<times> proof_tree" where
  "emit_run_lifecycle_proof now stage run_id correlation_id data tree =
     (proof_run_dir stage run_id correlation_id,
      AList.update (proof_run_dir stage run_id correlation_id @ [stage @ ''.json''])
        (proof_artifact now stage run_id correlation_id data) tree)"

definition emit_accepted_proof ::
    "string \<Rightarrow> string \<Rightarrow> string \<Rightarrow> string \<Rightarrow> bool \<Rightarrow> string \<Rightarrow> dict \<Rightarrow> proof_tree \<Rightarrow> string list \<times> proof_tree" where
  "emit_accepted_proof now run_id correlation_id run_type shadow ctxpack_digest response tree =
     emit_run_lifecycle_proof now ''accepted'' run_id correlation_id
       ([(''run_type'', JStr run_type), (''shadow'', JBool shadow),
         (''ctxpack_digest'', JStr ctxpack_digest), (''accepted_at'', JStr now)] @
        (if response \<noteq> [] then [(''response'', JObj response)] else [])) tree"

definition emit_status_proof ::
    "string \<Rightarrow> string \<Rightarrow> string \<Rightarrow> string \<Rightarrow> dict \<Rightarrow> proof_tree \<Rightarrow> string list \<times> proof_tree" where
  "emit_status_proof now run_id status correlation_id response tree =
     emit_run_lifecycle_proof now ''latest-status'' run_id correlation_id
       ([(''observed_status'', JStr status), (''observed_at'', JStr now)] @
        (if response \<noteq> [] then [(''response'', JObj response)] else [])) tree"

definition emit_outcome_proof ::
    "string \<Rightarrow> string \<Rightarrow> string \<Rightarrow> string \<Rightarrow> dict \<Rightarrow> proof_tree \<Rightarrow> string list \<times> proof_tree" where
  "emit_outcome_proof now run_id terminal_status correlation_id final_data tree =
     emit_run_lifecycle_proof now ''outcome'' run_id correlation_id
       ([(''terminal_status'', JStr terminal_status), (''resolved_at'', JStr now)] @
        (if final_data \<noteq> [] then [(''final'', JObj final_data)] else [])) tree"

text \<open>What a path denotes after \<open>.\<close> and \<open>..\<close> are resolved, as the file system does.\<close>

fun resolve_onto :: "string list \<Rightarrow> string list \<Rightarrow> string list" where
  "resolve_onto acc [] = rev acc"
| "resolve_onto acc (c # cs) =
     (if c = [] \<or> c = ''.'' then resolve_onto acc cs
      else if c = ''..'' then resolve_onto (tl acc) cs
      else resolve_onto (c # acc) cs)"

definition resolve_path :: "string list \<Rightarrow> string list" where
  "resolve_path = resolve_onto []"

end
