(* ===== verification/Run_Observation.thy ===== *)
theory Run_Observation
  imports Run_Record
begin

text \<open>
  Waiting for a run, tailing it and resuming it (\<open>run_lifecycle/wait.py\<close>, \<open>tail.py\<close>,
  \<open>resume.py\<close>). The world the transport acts on is threaded through; the clock and the
  user's callbacks are arguments. A callback answers by its call number, so one that
  keeps state is covered; it may return, raise \<open>KeyboardInterrupt\<close>, or raise another
  exception, which leaves the function.
\<close>

datatype callback_answer = CbReturn bool | CbInterrupt | CbRaise string

text \<open>\<open>time.sleep\<close> refuses a negative duration.\<close>

definition py_sleep :: "rat \<Rightarrow> string option" where
  "py_sleep d = (if d < 0 then Some ''ValueError'' else None)"

section \<open>Wait\<close>

record run_wait_result =
  wr_success :: bool
  wr_run_id :: string
  wr_terminal_status :: run_status
  wr_polls :: nat
  wr_elapsed_seconds :: rat
  wr_final_data :: dict
  wr_interrupted :: bool
  wr_error_class :: json
  wr_reason :: string
  wr_repair_guidance :: "string list"

definition wait_failed :: "(json \<Rightarrow> string) \<Rightarrow> rat \<Rightarrow> string \<Rightarrow> nat \<Rightarrow> run_status_result \<Rightarrow> run_wait_result" where
  "wait_failed fstr now run_id polls sr =
     \<lparr>wr_success = False, wr_run_id = run_id, wr_terminal_status = UNKNOWN, wr_polls = polls,
      wr_elapsed_seconds = now, wr_final_data = [], wr_interrupted = False,
      wr_error_class = json_or (rs_error_class sr) (JStr ''observation_failed''),
      wr_reason = ''Status retrieval failed: '' @ fstr (rs_reason sr),
      wr_repair_guidance =
        (if rs_repair_guidance sr \<noteq> [] then rs_repair_guidance sr
         else [''Retry: keyhole runs status '' @ run_id,
               ''Observation failure does not mean execution failed.''])\<rparr>"

definition wait_done :: "bool \<Rightarrow> rat \<Rightarrow> string \<Rightarrow> nat \<Rightarrow> run_status_result \<Rightarrow> run_wait_result" where
  "wait_done interrupted now run_id polls sr =
     \<lparr>wr_success = True, wr_run_id = run_id, wr_terminal_status = rs_status sr, wr_polls = polls,
      wr_elapsed_seconds = now, wr_final_data = rs_response_data sr,
      wr_interrupted = interrupted, wr_error_class = JStr [], wr_reason = [],
      wr_repair_guidance = []\<rparr>"

definition wait_timeout :: "rat \<Rightarrow> string \<Rightarrow> nat \<Rightarrow> run_wait_result" where
  "wait_timeout now run_id polls =
     \<lparr>wr_success = False, wr_run_id = run_id, wr_terminal_status = UNKNOWN, wr_polls = polls,
      wr_elapsed_seconds = now, wr_final_data = [], wr_interrupted = False,
      wr_error_class = JStr ''wait_timeout'',
      wr_reason = ''Run did not reach terminal state after '' @ str_nat polls @ '' polls.'',
      wr_repair_guidance =
        [''Try again: keyhole runs wait '' @ run_id, ''Check status: keyhole runs status '' @ run_id,
         ''The run may still be in progress.'']\<rparr>"

text \<open>What one poll decides: an exception, a result, or another round.\<close>

datatype 'r poll_verdict = PollRaise string | PollReturn 'r | PollAgain

definition wait_once ::
    "(json \<Rightarrow> string) \<Rightarrow> (run_status_result \<Rightarrow> nat \<Rightarrow> callback_answer) option \<Rightarrow> (nat \<Rightarrow> rat) \<Rightarrow> string
     \<Rightarrow> nat \<Rightarrow> run_status_result \<Rightarrow> run_wait_result poll_verdict" where
  "wait_once fstr on_poll elapsed run_id polls sr =
     (if \<not> rs_success sr then PollReturn (wait_failed fstr (elapsed polls) run_id polls sr)
      else case (case on_poll of None \<Rightarrow> CbReturn False | Some f \<Rightarrow> f sr polls) of
             CbReturn True \<Rightarrow> PollReturn (wait_done True (elapsed polls) run_id polls sr)
           | CbInterrupt \<Rightarrow> PollReturn (wait_done True (elapsed polls) run_id polls sr)
           | CbRaise e \<Rightarrow> PollRaise e
           | CbReturn False \<Rightarrow>
               if is_terminal (rs_status sr)
               then PollReturn (wait_done False (elapsed polls) run_id polls sr)
               else PollAgain)"

text \<open>The loop, with the number of polls still allowed and the number made.\<close>

fun wait_loop ::
    "(json \<Rightarrow> string) \<Rightarrow> 'w exec_fn \<Rightarrow> (run_status_result \<Rightarrow> nat \<Rightarrow> callback_answer) option
     \<Rightarrow> (nat \<Rightarrow> rat) \<Rightarrow> rat \<Rightarrow> string \<Rightarrow> json \<Rightarrow> nat \<Rightarrow> nat \<Rightarrow> 'w \<Rightarrow> (string + run_wait_result) \<times> 'w" where
  "wait_loop fstr exec on_poll elapsed interval run_id repo 0 polls w =
     (Inr (wait_timeout (elapsed polls) run_id polls), w)"
| "wait_loop fstr exec on_poll elapsed interval run_id repo (Suc n) polls w =
     (case fetch_run_status exec run_id repo w of
        (Inl e, w') \<Rightarrow> (Inl e, w')
      | (Inr sr, w') \<Rightarrow>
          (case wait_once fstr on_poll elapsed run_id (polls + 1) sr of
             PollRaise e \<Rightarrow> (Inl e, w')
           | PollReturn r \<Rightarrow> (Inr r, w')
           | PollAgain \<Rightarrow>
               (case py_sleep interval of
                  Some e \<Rightarrow> (Inl e, w')
                | None \<Rightarrow> wait_loop fstr exec on_poll elapsed interval run_id repo n (polls + 1) w')))"

definition wait_for_terminal ::
    "(json \<Rightarrow> string) \<Rightarrow> 'w exec_fn \<Rightarrow> (run_status_result \<Rightarrow> nat \<Rightarrow> callback_answer) option
     \<Rightarrow> (nat \<Rightarrow> rat) \<Rightarrow> string \<Rightarrow> json \<Rightarrow> rat \<Rightarrow> int \<Rightarrow> 'w \<Rightarrow> (string + run_wait_result) \<times> 'w" where
  "wait_for_terminal fstr exec on_poll elapsed run_id repo interval max_polls w =
     wait_loop fstr exec on_poll elapsed interval run_id repo (nat max_polls) 0 w"

section \<open>Tail\<close>

record run_tail_entry =
  te_timestamp :: string
  te_status :: string
  te_message :: json
  te_source :: string
  te_raw :: dict

record run_tail_result =
  tl_success :: bool
  tl_run_id :: string
  tl_observation_method :: string
  tl_entries :: "run_tail_entry list"
  tl_terminal_status :: "run_status option"
  tl_interrupted :: bool
  tl_error_class :: json
  tl_reason :: string
  tl_repair_guidance :: "string list"

definition tail_failed ::
    "(json \<Rightarrow> string) \<Rightarrow> string \<Rightarrow> string \<Rightarrow> run_tail_entry list \<Rightarrow> run_status_result \<Rightarrow> run_tail_result" where
  "tail_failed fstr now run_id entries sr =
     \<lparr>tl_success = False, tl_run_id = run_id, tl_observation_method = ''status_poll'',
      tl_entries = entries @
        [\<lparr>te_timestamp = now, te_status = ''error'',
          te_message = JStr (''Observation failed: '' @ fstr (rs_reason sr)),
          te_source = ''status_poll'', te_raw = [(''error_class'', rs_error_class sr)]\<rparr>],
      tl_terminal_status = None, tl_interrupted = False,
      tl_error_class = json_or (rs_error_class sr) (JStr ''observation_failed''),
      tl_reason = ''Tail observation failed: '' @ fstr (rs_reason sr),
      tl_repair_guidance =
        (if rs_repair_guidance sr \<noteq> [] then rs_repair_guidance sr
         else [''Retry: keyhole runs tail '' @ run_id,
               ''Observation failure does not mean execution failed.''])\<rparr>"

definition tail_done :: "string \<Rightarrow> run_tail_entry list \<Rightarrow> run_status option \<Rightarrow> bool \<Rightarrow> run_tail_result" where
  "tail_done run_id entries term interrupted =
     \<lparr>tl_success = True, tl_run_id = run_id, tl_observation_method = ''status_poll'',
      tl_entries = entries, tl_terminal_status = term, tl_interrupted = interrupted,
      tl_error_class = JStr [], tl_reason = [], tl_repair_guidance = []\<rparr>"

definition tail_entry :: "string \<Rightarrow> run_status_result \<Rightarrow> run_tail_entry" where
  "tail_entry now sr =
     \<lparr>te_timestamp = now, te_status = run_status_value (rs_status sr),
      te_message = json_or (rs_summary sr) (JStr (''Status: '' @ run_status_value (rs_status sr))),
      te_source = ''status_poll'', te_raw = rs_response_data sr\<rparr>"

text \<open>A new entry is recorded when the status changed or nothing has been recorded.\<close>

definition records_entry :: "run_status_result \<Rightarrow> string \<Rightarrow> run_tail_entry list \<Rightarrow> bool" where
  "records_entry sr last_status entries =
     (run_status_value (rs_status sr) \<noteq> last_status \<or> entries = [])"

text \<open>One poll: what it decides, with the last status and the entries it leaves.\<close>

definition tail_once ::
    "(json \<Rightarrow> string) \<Rightarrow> (run_tail_entry \<Rightarrow> nat \<Rightarrow> callback_answer) option \<Rightarrow> (nat \<Rightarrow> string) \<Rightarrow> string
     \<Rightarrow> nat \<Rightarrow> string \<Rightarrow> run_tail_entry list \<Rightarrow> run_status_result
     \<Rightarrow> run_tail_result poll_verdict \<times> string \<times> run_tail_entry list" where
  "tail_once fstr on_entry now run_id polls last_status entries sr =
     (if \<not> rs_success sr then
        (PollReturn (tail_failed fstr (now polls) run_id entries sr), last_status, entries)
      else
        (let fresh = records_entry sr last_status entries;
             entry = tail_entry (now polls) sr;
             entries' = (if fresh then entries @ [entry] else entries);
             last' = (if fresh then run_status_value (rs_status sr) else last_status);
             answer = (case on_entry of None \<Rightarrow> CbReturn False
                       | Some f \<Rightarrow> if fresh then f entry polls else CbReturn False)
         in (case answer of
               CbRaise e \<Rightarrow> PollRaise e
             | CbInterrupt \<Rightarrow> PollReturn (tail_done run_id entries' None True)
             | CbReturn True \<Rightarrow> PollReturn (tail_done run_id entries' None True)
             | CbReturn False \<Rightarrow>
                 if is_terminal (rs_status sr)
                 then PollReturn (tail_done run_id entries' (Some (rs_status sr)) False)
                 else PollAgain,
             last', entries')))"

fun tail_loop ::
    "(json \<Rightarrow> string) \<Rightarrow> 'w exec_fn \<Rightarrow> (run_tail_entry \<Rightarrow> nat \<Rightarrow> callback_answer) option
     \<Rightarrow> (nat \<Rightarrow> string) \<Rightarrow> rat \<Rightarrow> string \<Rightarrow> json \<Rightarrow> nat \<Rightarrow> nat \<Rightarrow> string \<Rightarrow> run_tail_entry list \<Rightarrow> 'w
     \<Rightarrow> (string + run_tail_result) \<times> 'w" where
  "tail_loop fstr exec on_entry now interval run_id repo 0 polls last_status entries w =
     (Inr (tail_done run_id entries None False), w)"
| "tail_loop fstr exec on_entry now interval run_id repo (Suc n) polls last_status entries w =
     (case fetch_run_status exec run_id repo w of
        (Inl e, w') \<Rightarrow> (Inl e, w')
      | (Inr sr, w') \<Rightarrow>
          (case tail_once fstr on_entry now run_id (polls + 1) last_status entries sr of
             (PollRaise e, _) \<Rightarrow> (Inl e, w')
           | (PollReturn r, _) \<Rightarrow> (Inr r, w')
           | (PollAgain, last', entries') \<Rightarrow>
               (case py_sleep interval of
                  Some e \<Rightarrow> (Inl e, w')
                | None \<Rightarrow>
                    tail_loop fstr exec on_entry now interval run_id repo n (polls + 1)
                      last' entries' w')))"

definition tail_run ::
    "(json \<Rightarrow> string) \<Rightarrow> 'w exec_fn \<Rightarrow> (run_tail_entry \<Rightarrow> nat \<Rightarrow> callback_answer) option
     \<Rightarrow> (nat \<Rightarrow> string) \<Rightarrow> string \<Rightarrow> json \<Rightarrow> rat \<Rightarrow> int \<Rightarrow> 'w \<Rightarrow> (string + run_tail_result) \<times> 'w" where
  "tail_run fstr exec on_entry now run_id repo interval max_entries w =
     tail_loop fstr exec on_entry now interval run_id repo (nat max_entries) 0 [] [] w"

section \<open>Resume\<close>

record run_resume_result =
  rm_success :: bool
  rm_run_id :: string
  rm_status :: run_status
  rm_reconnected :: bool
  rm_source :: string
  rm_error_class :: string
  rm_reason :: string
  rm_repair_guidance :: "string list"
  rm_response_data :: dict

definition resume_missing :: run_resume_result where
  "resume_missing =
     \<lparr>rm_success = False, rm_run_id = [], rm_status = UNKNOWN, rm_reconnected = False,
      rm_source = [], rm_error_class = ''missing_identifier'',
      rm_reason = ''No run ID or request ID provided.'',
      rm_repair_guidance = [''Provide a run-id or request-id to resume.'',
        ''List recent runs with: keyhole runs list''],
      rm_response_data = []\<rparr>"

definition resume_found :: "string \<Rightarrow> string \<Rightarrow> run_status_result \<Rightarrow> run_resume_result" where
  "resume_found source run_id sr =
     \<lparr>rm_success = True, rm_run_id = str_or (rs_run_id sr) run_id, rm_status = rs_status sr,
      rm_reconnected = True, rm_source = source, rm_error_class = [], rm_reason = [],
      rm_repair_guidance = [], rm_response_data = rs_response_data sr\<rparr>"

definition resume_offline :: "string \<Rightarrow> run_record \<Rightarrow> run_resume_result" where
  "resume_offline run_id r =
     \<lparr>rm_success = True, rm_run_id = run_id, rm_status = classify_status (rr_last_known_status r),
      rm_reconnected = True, rm_source = ''local_record'', rm_error_class = [], rm_reason = [],
      rm_repair_guidance = [''Check boundary status: keyhole runs status '' @ run_id,
        ''Observation failure does not mean execution failed.''],
      rm_response_data =
        [(''note'', JStr ''Reconnected from local record. Boundary status unavailable.''),
         (''last_known_status'', JStr (rr_last_known_status r))]\<rparr>"

definition resume_lost :: "string \<Rightarrow> run_resume_result" where
  "resume_lost ident =
     \<lparr>rm_success = False, rm_run_id = ident, rm_status = UNKNOWN, rm_reconnected = False,
      rm_source = [], rm_error_class = ''resume_ambiguous'',
      rm_reason = ''Cannot locate run '' @ CHR 0x27 # ident @ CHR 0x27 # '' locally or on the boundary.'',
      rm_repair_guidance = map_run_lifecycle_repair ''resume_ambiguous'', rm_response_data = []\<rparr>"

definition fresh_record :: "string \<Rightarrow> json \<Rightarrow> run_status_result \<Rightarrow> run_record" where
  "fresh_record ident repo sr =
     default_record
       \<lparr>rr_run_id := str_or (rs_run_id sr) ident, rr_run_type := rs_run_type sr,
        rr_repo_name := json_or (rs_repo_name sr) repo,
        rr_last_known_status := run_status_value (rs_status sr),
        rr_ctxpack_digest := rs_ctxpack_digest sr\<rparr>"

definition resume_local ::
    "'w exec_fn \<Rightarrow> (run_dir \<Rightarrow> run_dir) \<Rightarrow> int \<Rightarrow> string \<Rightarrow> json \<Rightarrow> run_record \<Rightarrow> run_dir \<Rightarrow> 'w
     \<Rightarrow> (string + run_resume_result) \<times> run_dir \<times> 'w" where
  "resume_local exec glob t ident repo r fs w =
     (let run_id = str_or (rr_run_id r) ident
      in case fetch_run_status exec run_id (json_or (rr_repo_name r) repo) w of
           (Inl e, w') \<Rightarrow> (Inl e, fs, w')
         | (Inr sr, w') \<Rightarrow>
             if rs_success sr then
               (case update_status glob t (record_key r) (run_status_value (rs_status sr)) fs of
                  (Some (Inl e), fs') \<Rightarrow> (Inl e, fs', w')
                | (_, fs') \<Rightarrow> (Inr (resume_found ''local_record'' run_id sr), fs', w'))
             else (Inr (resume_offline run_id r), fs, w'))"

definition resume_boundary ::
    "'w exec_fn \<Rightarrow> int \<Rightarrow> string \<Rightarrow> json \<Rightarrow> run_dir \<Rightarrow> 'w
     \<Rightarrow> (string + run_resume_result) \<times> run_dir \<times> 'w" where
  "resume_boundary exec t ident repo fs w =
     (case fetch_run_status exec ident repo w of
        (Inl e, w') \<Rightarrow> (Inl e, fs, w')
      | (Inr sr, w') \<Rightarrow>
          if rs_success sr then
            (Inr (resume_found ''boundary_lookup'' ident sr),
             snd (save_record t (fresh_record ident repo sr) fs), w')
          else (Inr (resume_lost ident), fs, w'))"

definition resume_run ::
    "'w exec_fn \<Rightarrow> (run_dir \<Rightarrow> run_dir) \<Rightarrow> int \<Rightarrow> string \<Rightarrow> json \<Rightarrow> run_dir \<Rightarrow> 'w
     \<Rightarrow> (string + run_resume_result) \<times> run_dir \<times> 'w" where
  "resume_run exec glob t identifier repo fs w =
     (if py_strip identifier = [] then (Inr resume_missing, fs, w)
      else
        (case load_record glob (py_strip identifier) fs of
           Some r \<Rightarrow> resume_local exec glob t (py_strip identifier) repo r fs w
         | None \<Rightarrow> resume_boundary exec t (py_strip identifier) repo fs w))"

end
