(* ===== verification/Run_Facts.thy ===== *)
theory Run_Facts
  imports Run_Observation Transport_Facts
begin

text \<open>
  What the run commands need from a transport, as locales: \<open>observed_exec\<close> keeps the calls in
  order, \<open>bounded_exec\<close> also bounds the requests behind one status query. Both are interpreted
  on the governed transport of the SDK, the first also on a recorder around any transport.
  Then closed forms of the polling loops and the laws of the record store.
\<close>

section \<open>The transport the run commands use\<close>

locale observed_exec =
  fixes exec :: "'w exec_fn"
    and calls :: "'w \<Rightarrow> transport_call list"
  assumes exec_logs: "exec c w = (a, w') \<Longrightarrow> calls w' = calls w @ [c]"
begin

lemma fetch_logs:
  assumes "fetch_run_status exec rid repo w = (r, w')"
  shows "calls w' = calls w @ [status_call rid]"
proof -
  from assms fetch_run_status_world [of exec rid repo w]
  have "exec (status_call rid) w = (fst (exec (status_call rid) w), w')"
    by (simp add: prod_eq_iff)
  then show ?thesis by (rule exec_logs)
qed

lemma wait_logs:
  assumes "wait_loop fstr exec cb el iv rid repo n polls w = (res, w')"
  shows "\<exists>k \<le> n. calls w' = calls w @ replicate k (status_call rid)
     \<and> (\<forall>r. res = Inr r \<longrightarrow> wr_polls r = polls + k)"
  using assms
proof (induction n arbitrary: polls w)
  case 0
  then show ?case by (auto simp: wait_timeout_def)
next
  case (Suc n)
  obtain o1 w1 where f: "fetch_run_status exec rid repo w = (o1, w1)" by fastforce
  note log = fetch_logs [OF f]
  show ?case
  proof (cases "\<exists>sr. o1 = Inr sr \<and> wait_once fstr cb el rid (polls + 1) sr = PollAgain \<and> py_sleep iv = None")
    case True
    with Suc.prems f have "wait_loop fstr exec cb el iv rid repo n (polls + 1) w1 = (res, w')" by auto
    from Suc.IH [OF this] obtain k where k: "k \<le> n" "calls w' = calls w1 @ replicate k (status_call rid)"
      "\<forall>r. res = Inr r \<longrightarrow> wr_polls r = polls + 1 + k" by blast
    then show ?thesis using log by (intro exI [of _ "Suc k"]) auto
  next
    case False
    with Suc.prems f have w': "w' = w1"
      by (auto split: sum.splits poll_verdict.splits option.splits)
    have "wr_polls r = polls + 1" if "res = Inr r" for r
      using False Suc.prems f that
      by (auto split: sum.splits poll_verdict.splits option.splits callback_answer.splits bool.splits if_splits
          simp: wait_once_def wait_done_def wait_failed_def)
    with w' log show ?thesis by (intro exI [of _ 1]) simp
  qed
qed

lemma tail_logs:
  assumes "tail_loop fstr exec cb now iv rid repo n polls ls es w = (res, w')"
  shows "\<exists>k \<le> n. calls w' = calls w @ replicate k (status_call rid)"
  using assms
proof (induction n arbitrary: polls ls es w)
  case 0
  then show ?case by simp
next
  case (Suc n)
  obtain o1 w1 where f: "fetch_run_status exec rid repo w = (o1, w1)" by fastforce
  note log = fetch_logs [OF f]
  have "w' = w1 \<or> (\<exists>p l e. tail_loop fstr exec cb now iv rid repo n p l e w1 = (res, w'))"
    using Suc.prems f by (auto split: sum.splits prod.splits poll_verdict.splits option.splits)
  then show ?case
  proof
    assume "w' = w1"
    with log show ?thesis by (intro exI [of _ 1]) simp
  next
    assume "\<exists>p l e. tail_loop fstr exec cb now iv rid repo n p l e w1 = (res, w')"
    with Suc.IH obtain k where "k \<le> n" "calls w' = calls w1 @ replicate k (status_call rid)" by blast
    with log show ?thesis by (intro exI [of _ "Suc k"]) simp
  qed
qed

lemma resume_logs:
  assumes "resume_run exec glob t ident repo fs w = (res, fs', w')"
  shows "\<exists>cs. calls w' = calls w @ cs \<and> length cs \<le> 1 \<and> (\<forall>c \<in> set cs. \<exists>rid. c = status_call rid)"
proof -
  have "w' = w \<or> (\<exists>rid rp o1. fetch_run_status exec rid rp w = (o1, w'))"
    using assms
    by (auto simp: resume_run_def resume_local_def resume_boundary_def Let_def
        split: if_splits option.splits prod.splits sum.splits)
  then show ?thesis
  proof
    assume "\<exists>rid rp o1. fetch_run_status exec rid rp w = (o1, w')"
    then obtain rid where "calls w' = calls w @ [status_call rid]" using fetch_logs by blast
    then show ?thesis by (intro exI [of _ "[status_call rid]"]) auto
  qed (intro exI [of _ "[]"], simp)
qed

end

locale bounded_exec = observed_exec +
  fixes sends :: "'w \<Rightarrow> nat" and bound :: nat
  assumes exec_sends: "exec (status_call rid) w = (a, w') \<Longrightarrow> sends w' \<le> sends w + bound"
begin

text \<open>The requests made never exceed \<open>bound\<close> for each call made.\<close>

definition within_budget :: "'w \<Rightarrow> 'w \<Rightarrow> bool" where
  "within_budget w w' \<longleftrightarrow> sends w' + length (calls w) * bound \<le> sends w + length (calls w') * bound"

lemma fetch_budget:
  assumes "fetch_run_status exec rid repo w = (r, w')"
  shows "within_budget w w'"
proof -
  from assms fetch_run_status_world [of exec rid repo w]
  have "exec (status_call rid) w = (fst (exec (status_call rid) w), w')"
    by (simp add: prod_eq_iff)
  from exec_sends [OF this] exec_logs [OF this] show ?thesis
    by (simp add: within_budget_def)
qed

lemma budget_trans: "within_budget w w1 \<Longrightarrow> within_budget w1 w' \<Longrightarrow> within_budget w w'"
  by (simp add: within_budget_def)

lemma budget_refl [simp]: "within_budget w w"
  by (simp add: within_budget_def)

lemma wait_budget:
  assumes "wait_loop fstr exec cb el iv rid repo n polls w = (res, w')"
  shows "within_budget w w'"
  using assms
proof (induction n arbitrary: polls w)
  case (Suc n)
  obtain o1 w1 where f: "fetch_run_status exec rid repo w = (o1, w1)" by fastforce
  have "w' = w1 \<or> (\<exists>p. wait_loop fstr exec cb el iv rid repo n p w1 = (res, w'))"
    using Suc.prems f by (auto split: sum.splits poll_verdict.splits option.splits)
  with fetch_budget [OF f] Suc.IH budget_trans show ?case by blast
qed simp

lemma tail_budget:
  assumes "tail_loop fstr exec cb now iv rid repo n polls ls es w = (res, w')"
  shows "within_budget w w'"
  using assms
proof (induction n arbitrary: polls ls es w)
  case (Suc n)
  obtain o1 w1 where f: "fetch_run_status exec rid repo w = (o1, w1)" by fastforce
  have "w' = w1 \<or> (\<exists>p l e. tail_loop fstr exec cb now iv rid repo n p l e w1 = (res, w'))"
    using Suc.prems f by (auto split: sum.splits prod.splits poll_verdict.splits option.splits)
  with fetch_budget [OF f] Suc.IH budget_trans show ?case by blast
qed simp

end

section \<open>Interpretations\<close>

text \<open>A recorder around any transport.\<close>

definition recording :: "'w exec_fn \<Rightarrow> (transport_call list \<times> 'w) exec_fn" where
  "recording exec c cw = (case exec c (snd cw) of (a, w') \<Rightarrow> (a, fst cw @ [c], w'))"

interpretation rec: observed_exec "recording exec" fst for exec :: "'w exec_fn"
  by unfold_locales (auto simp: recording_def split: prod.splits)

text \<open>
  The SDK's transport: a call is one \<open>execute\<close>, over the requests sent so far. The network,
  the identifiers and the clock go on from there. \<open>sx\<close> prints an exception.
\<close>

fun transport_error_name :: "transport_error \<Rightarrow> string" where
  "transport_error_name (MissingIdempotencyKeyError _ _) = ''MissingIdempotencyKeyError''"
| "transport_error_name (TransportUnknownError _ _ _) = ''TransportUnknownError''"
| "transport_error_name (IdempotencyConflictError _ _ _ _) = ''IdempotencyConflictError''"
| "transport_error_name (RateLimitedError _ _ _) = ''RateLimitedError''"
| "transport_error_name (RetryExhaustedError _ _ _ _ _) = ''RetryExhaustedError''"
| "transport_error_name (RuntimeUnavailableError _) = ''RuntimeUnavailableError''"
| "transport_error_name (PublicEndpointError _ _ _) = ''PublicEndpointError''"
| "transport_error_name (SchemaError _) = ''SchemaError''"
| "transport_error_name PyAttributeError = ''AttributeError''"
| "transport_error_name PyOverflowError = ''OverflowError''"

definition env_after :: "sent_request list \<Rightarrow> transport_env \<Rightarrow> transport_env" where
  "env_after h env =
     \<lparr>env_net = (\<lambda>new. env_net env (h @ new)), env_uuid = (\<lambda>k. env_uuid env (length h + k)),
      env_random = (\<lambda>k. env_random env (length h + k)), env_now = (\<lambda>k. env_now env (length h + k))\<rparr>"

definition sdk_exec ::
    "(transport_error \<Rightarrow> string) \<Rightarrow> transport_env \<Rightarrow> transport
     \<Rightarrow> (transport_call list \<times> sent_request list) exec_fn" where
  "sdk_exec sx env tr c cw =
     (case execute (env_after (snd cw) env) builtin_registry tr (tc_method c) (tc_path c)
             (tc_operation c) None [] of
        (Inl e, st) \<Rightarrow> (CallRaised (transport_error_name e) (sx e), fst cw @ [c], snd cw @ st_sent st)
      | (Inr r, st) \<Rightarrow> (CallReturned (res_status_code r) (res_data r), fst cw @ [c], snd cw @ st_sent st))"

lemma run_status_descriptor:
  "\<exists>d. get_operation builtin_registry ''run.status'' = Some d \<and> \<not> op_idempotency_required d
     \<and> op_class d = READ_ONLY \<and> op_retry_policy d = SAFE_READ"
proof -
  have "case get_operation builtin_registry ''run.status'' of None \<Rightarrow> False
    | Some d \<Rightarrow> \<not> op_idempotency_required d \<and> op_class d = READ_ONLY \<and> op_retry_policy d = SAFE_READ"
    by code_simp
  then show ?thesis by (auto split: option.splits)
qed

lemma execute_run_status_sends:
  assumes "execute env builtin_registry tr m p ''run.status'' None [] = (res, st)"
  shows "1 \<le> length (st_sent st) \<and> length (st_sent st) \<le> max_attempts tr SAFE_READ"
proof -
  from run_status_descriptor obtain d where d: "get_operation builtin_registry ''run.status'' = Some d"
    "\<not> op_idempotency_required d" "op_class d = READ_ONLY" "op_retry_policy d = SAFE_READ" by blast
  define st0 where "st0 = (init_exec_state None (class_name_of builtin_registry ''run.status'') ''run.status'')\<lparr>st_uuids := 0\<rparr>"
  from assms d have loop: "attempt_loop env tr SAFE_READ (max_attempts tr SAFE_READ) m p None
      [1..<max_attempts tr SAFE_READ + 1] [] NoError st0 = (res, st)"
    by (simp add: execute_def mint_key_def key_missing_def policy_of_def st0_def Let_def del: upt_Suc)
  from attempt_loop_discipline [OF loop order_refl max_attempts_pos] obtain new where
    "st_sent st = st_sent st0 @ new" "new \<noteq> []" "length new \<le> max_attempts tr SAFE_READ"
    by auto
  then show ?thesis
    by (cases new) (simp_all add: st0_def init_exec_state_def)
qed

interpretation sdk: bounded_exec "sdk_exec sx env tr" fst "\<lambda>cw. length (snd cw)" "max_attempts tr SAFE_READ"
  for sx env tr
proof unfold_locales
  show "fst w' = fst w @ [c]" if "sdk_exec sx env tr c w = (a, w')" for c w a w'
    using that by (auto simp: sdk_exec_def split: prod.splits sum.splits)
next
  show "length (snd w') \<le> length (snd w) + max_attempts tr SAFE_READ"
    if "sdk_exec sx env tr (status_call rid) w = (a, w')" for rid w a w'
  proof -
    obtain res st where ex: "execute (env_after (snd w) env) builtin_registry tr ''POST'' ''/mcp/v1/runs/start''
        ''run.status'' None [] = (res, st)" by fastforce
    with that have "snd w' = snd w @ st_sent st"
      by (auto simp: sdk_exec_def status_call_def split: sum.splits)
    with execute_run_status_sends [OF ex] show ?thesis by simp
  qed
qed

section \<open>The polling loops in closed form\<close>

text \<open>The worlds a sequence of status queries goes through, and what each query gives.\<close>

fun nth_world :: "'w exec_fn \<Rightarrow> string \<Rightarrow> 'w \<Rightarrow> nat \<Rightarrow> 'w" where
  "nth_world exec rid w 0 = w"
| "nth_world exec rid w (Suc k) = snd (exec (status_call rid) (nth_world exec rid w k))"

definition nth_fetch :: "'w exec_fn \<Rightarrow> string \<Rightarrow> json \<Rightarrow> 'w \<Rightarrow> nat \<Rightarrow> string + run_status_result" where
  "nth_fetch exec rid repo w k = fst (fetch_run_status exec rid repo (nth_world exec rid w k))"

lemma nth_world_shift:
  "nth_world exec rid (snd (exec (status_call rid) w)) k = nth_world exec rid w (Suc k)"
  by (induction k) simp_all

lemma nth_fetch_shift:
  "nth_fetch exec rid repo (snd (exec (status_call rid) w)) k = nth_fetch exec rid repo w (Suc k)"
  unfolding nth_fetch_def nth_world_shift ..

lemma nth_fetch_0:
  "fetch_run_status exec rid repo w = (nth_fetch exec rid repo w 0, snd (exec (status_call rid) w))"
  by (simp add: nth_fetch_def prod_eq_iff fetch_run_status_world)

text \<open>
  The specification of waiting, written from the contract of the command and not from the loop:
  what a query means on its own, and the answer when no query decides. A query that failed ends
  the wait as an observation failure of unknown outcome; one the callback stops ends it as
  interrupted, at whatever status; a status from which no run moves on ends it as reached. The
  first query that decides gives the result; if none of the allowed ones does, the wait times out.
\<close>

definition callback_stops ::
    "(run_status_result \<Rightarrow> nat \<Rightarrow> callback_answer) option \<Rightarrow> run_status_result \<Rightarrow> nat \<Rightarrow> bool" where
  "callback_stops cb sr polls \<longleftrightarrow>
     (\<exists>f. cb = Some f \<and> (f sr polls = CbReturn True \<or> f sr polls = CbInterrupt))"

definition poll_decision ::
    "(json \<Rightarrow> string) \<Rightarrow> (run_status_result \<Rightarrow> nat \<Rightarrow> callback_answer) option \<Rightarrow> (nat \<Rightarrow> rat) \<Rightarrow> string
     \<Rightarrow> nat \<Rightarrow> string + run_status_result \<Rightarrow> (string + run_wait_result) option" where
  "poll_decision fstr cb el rid polls o1 =
     (case o1 of
        Inl e \<Rightarrow> Some (Inl e)
      | Inr sr \<Rightarrow>
          if \<not> rs_success sr then
            Some (Inr \<lparr>wr_success = False, wr_run_id = rid, wr_terminal_status = UNKNOWN, wr_polls = polls,
              wr_elapsed_seconds = el polls, wr_final_data = [], wr_interrupted = False,
              wr_error_class = (if json_truthy (rs_error_class sr) then rs_error_class sr
                                else JStr ''observation_failed''),
              wr_reason = ''Status retrieval failed: '' @ fstr (rs_reason sr),
              wr_repair_guidance =
                (case rs_repair_guidance sr of
                   [] \<Rightarrow> [''Retry: keyhole runs status '' @ rid,
                         ''Observation failure does not mean execution failed.'']
                 | _ \<Rightarrow> rs_repair_guidance sr)\<rparr>)
          else if callback_stops cb sr polls \<or>
                  (\<forall>f e. cb = Some f \<longrightarrow> f sr polls \<noteq> CbRaise e) \<and>
                  rs_status sr \<in> {SUCCESS, FAILED, REJECTED, DENIED, CANCELLED} then
            Some (Inr \<lparr>wr_success = True, wr_run_id = rid, wr_terminal_status = rs_status sr, wr_polls = polls,
              wr_elapsed_seconds = el polls, wr_final_data = rs_response_data sr,
              wr_interrupted = callback_stops cb sr polls, wr_error_class = JStr [], wr_reason = [],
              wr_repair_guidance = []\<rparr>)
          else (case cb of
                  None \<Rightarrow> None
                | Some f \<Rightarrow> (case f sr polls of CbRaise e \<Rightarrow> Some (Inl e) | _ \<Rightarrow> None)))"

definition no_decision :: "(nat \<Rightarrow> rat) \<Rightarrow> string \<Rightarrow> nat \<Rightarrow> string + run_wait_result" where
  "no_decision el rid n =
     Inr \<lparr>wr_success = False, wr_run_id = rid, wr_terminal_status = UNKNOWN, wr_polls = n,
          wr_elapsed_seconds = el n, wr_final_data = [], wr_interrupted = False,
          wr_error_class = JStr ''wait_timeout'',
          wr_reason = ''Run did not reach terminal state after '' @ str_nat n @ '' polls.'',
          wr_repair_guidance =
            [''Try again: keyhole runs wait '' @ rid, ''Check status: keyhole runs status '' @ rid,
             ''The run may still be in progress.'']\<rparr>"

text \<open>One round of the loop decides as the specification does.\<close>

lemma wait_once_decides:
  "poll_decision fstr cb el rid polls (Inr sr) =
     (case wait_once fstr cb el rid polls sr of
        PollRaise e \<Rightarrow> Some (Inl e) | PollReturn r \<Rightarrow> Some (Inr r) | PollAgain \<Rightarrow> None)"
proof (cases "rs_success sr")
  case False
  then show ?thesis
    by (simp add: poll_decision_def wait_once_def wait_failed_def json_or_def split: list.split)
next
  case True
  have ended: "is_terminal (rs_status sr) \<longleftrightarrow> rs_status sr \<in> {SUCCESS, FAILED, REJECTED, DENIED, CANCELLED}"
    by (cases "rs_status sr") (simp_all add: is_terminal_def terminal_statuses_def)
  show ?thesis
  proof (cases cb)
    case None
    with True show ?thesis
      by (simp add: poll_decision_def wait_once_def wait_done_def callback_stops_def ended split: bool.split)
  next
    case (Some f)
    with True show ?thesis
      by (cases "f sr polls") (auto simp: poll_decision_def wait_once_def wait_done_def callback_stops_def ended split: bool.split)
  qed
qed

fun first_decision :: "(nat \<Rightarrow> 'r option) \<Rightarrow> nat \<Rightarrow> nat \<Rightarrow> 'r \<Rightarrow> 'r" where
  "first_decision d k 0 dflt = dflt"
| "first_decision d k (Suc n) dflt = (case d k of Some r \<Rightarrow> r | None \<Rightarrow> first_decision d (Suc k) n dflt)"

lemma first_decision_shift: "first_decision d (Suc k) n dflt = first_decision (\<lambda>i. d (Suc i)) k n dflt"
  by (induction n arbitrary: k) (auto split: option.splits)

lemma wait_loop_step:
  assumes "0 \<le> iv"
  shows "fst (wait_loop fstr exec cb el iv rid repo (Suc n) polls w) =
    (case poll_decision fstr cb el rid (Suc polls) (nth_fetch exec rid repo w 0) of
       Some r \<Rightarrow> r
     | None \<Rightarrow> fst (wait_loop fstr exec cb el iv rid repo n (Suc polls) (snd (exec (status_call rid) w))))"
proof (cases "nth_fetch exec rid repo w 0")
  case (Inl e)
  then show ?thesis by (simp add: nth_fetch_0 poll_decision_def)
next
  case (Inr sr)
  with assms show ?thesis
    by (simp add: nth_fetch_0 wait_once_decides py_sleep_def split: poll_verdict.splits)
qed

lemma wait_loop_spec:
  assumes "0 \<le> iv"
  shows "fst (wait_loop fstr exec cb el iv rid repo n polls w) =
    first_decision (\<lambda>k. poll_decision fstr cb el rid (polls + Suc k) (nth_fetch exec rid repo w k))
      0 n (no_decision el rid (polls + n))"
proof (induction n arbitrary: polls w)
  case 0
  then show ?case by (simp add: no_decision_def wait_timeout_def)
next
  case (Suc n)
  show ?case
    unfolding wait_loop_step [OF assms] Suc.IH
    by (simp add: nth_fetch_shift first_decision_shift split: option.splits)
qed

text \<open>
  Tailing keeps one entry per change of status: the statuses of the entries are the
  observed ones with adjacent repetitions removed. \<open>observed\<close> lists what the first \<open>m\<close>
  queries gave.
\<close>

definition observed :: "'w exec_fn \<Rightarrow> string \<Rightarrow> json \<Rightarrow> 'w \<Rightarrow> nat \<Rightarrow> run_status_result list" where
  "observed exec rid repo w m = map (\<lambda>k. projr (nth_fetch exec rid repo w k)) [0..<m]"

lemma observed_Suc:
  "observed exec rid repo w (Suc m) =
   projr (nth_fetch exec rid repo w 0) # observed exec rid repo (snd (exec (status_call rid) w)) m"
  by (simp add: observed_def map_upt_shift nth_fetch_shift del: upt_Suc)

lemma observed_0 [simp]: "observed exec rid repo w 0 = []"
  by (simp add: observed_def)

definition status_text :: "run_status_result \<Rightarrow> string" where
  "status_text sr = run_status_value (rs_status sr)"

lemma remdups_adj_snoc:
  "remdups_adj (xs @ [x]) = (if xs \<noteq> [] \<and> last xs = x then remdups_adj xs else remdups_adj xs @ [x])"
  by (induction xs rule: remdups_adj.induct) auto

text \<open>What the loop has recorded after the statuses \<open>S\<close>.\<close>

definition tail_inv :: "string list \<Rightarrow> string \<Rightarrow> run_tail_entry list \<Rightarrow> bool" where
  "tail_inv S ls es \<longleftrightarrow> map te_status es = remdups_adj S \<and> (S \<noteq> [] \<longrightarrow> ls = last S)"

lemma tail_once_ok:
  assumes "rs_success sr" and "tail_inv S ls es"
    and "tail_once fstr cb now rid polls ls es sr = (v, ls', es')"
  shows "tail_inv (S @ [status_text sr]) ls' es'"
    and "v = PollReturn r \<Longrightarrow> tl_entries r = es' \<and> tl_success r \<and>
           (\<forall>s. tl_terminal_status r = Some s \<longrightarrow> s = rs_status sr \<and> is_terminal s)"
proof -
  have "(es = []) = (S = [])" using assms(2) by (metis map_is_Nil_conv remdups_adj_Nil_iff tail_inv_def)
  then have "records_entry sr ls es \<longleftrightarrow> \<not> (S \<noteq> [] \<and> last S = status_text sr)"
    using assms(2) by (auto simp: records_entry_def tail_inv_def status_text_def)
  then show "tail_inv (S @ [status_text sr]) ls' es'"
    using assms by (auto simp: tail_once_def Let_def tail_inv_def remdups_adj_snoc tail_entry_def status_text_def)
  show "v = PollReturn r \<Longrightarrow> tl_entries r = es' \<and> tl_success r \<and>
           (\<forall>s. tl_terminal_status r = Some s \<longrightarrow> s = rs_status sr \<and> is_terminal s)"
    using assms(1,3) by (auto simp: tail_once_def Let_def tail_done_def
        split: callback_answer.splits bool.splits if_splits)
qed

lemma tail_once_failed:
  "\<not> rs_success sr \<Longrightarrow> tail_once fstr cb now rid polls ls es sr = (PollReturn r, x) \<Longrightarrow> \<not> tl_success r"
  by (auto simp: tail_once_def tail_failed_def)

lemma tail_loop_spec:
  assumes "tail_loop fstr exec cb now iv rid repo n polls ls es w = (Inr r, w')"
    and "tail_inv S ls es" and "tl_success r"
  shows "\<exists>m \<le> n. map te_status (tl_entries r) =
           remdups_adj (S @ map status_text (observed exec rid repo w m))
     \<and> (\<forall>s. tl_terminal_status r = Some s \<longrightarrow> is_terminal s \<and> m > 0
           \<and> rs_status (last (observed exec rid repo w m)) = s)"
  using assms
proof (induction n arbitrary: polls ls es w S)
  case 0
  then show ?case by (auto simp: tail_done_def tail_inv_def)
next
  case (Suc n)
  let ?w1 = "snd (exec (status_call rid) w)"
  from Suc.prems(1) obtain sr where sr: "nth_fetch exec rid repo w 0 = Inr sr"
    by (auto simp: nth_fetch_0 split: sum.splits)
  obtain v ls' es' where once: "tail_once fstr cb now rid (polls + 1) ls es sr = (v, ls', es')"
    by (metis prod_cases3)
  from Suc.prems(1) sr once have go: "v = PollReturn r \<or>
      v = PollAgain \<and> tail_loop fstr exec cb now iv rid repo n (polls + 1) ls' es' ?w1 = (Inr r, w')"
    by (auto simp: nth_fetch_0 split: poll_verdict.splits option.splits)
  have ok: "rs_success sr"
  proof (rule ccontr)
    assume bad: "\<not> rs_success sr"
    then have "v \<noteq> PollAgain" using once by (auto simp: tail_once_def)
    with go once tail_once_failed [OF bad] Suc.prems(3) show False by auto
  qed
  note kept = tail_once_ok [OF ok Suc.prems(2) once]
  from go show ?case
  proof
    assume "v = PollReturn r"
    with kept sr show ?thesis
      by (intro exI [of _ 1]) (auto simp: tail_inv_def observed_Suc [of _ _ _ _ 0, simplified])
  next
    assume "v = PollAgain \<and> tail_loop fstr exec cb now iv rid repo n (polls + 1) ls' es' ?w1 = (Inr r, w')"
    with Suc.IH [OF _ kept(1) Suc.prems(3)] obtain m where m: "m \<le> n"
      "map te_status (tl_entries r) =
         remdups_adj ((S @ [status_text sr]) @ map status_text (observed exec rid repo ?w1 m))"
      "\<forall>s. tl_terminal_status r = Some s \<longrightarrow> is_terminal s \<and> m > 0
           \<and> rs_status (last (observed exec rid repo ?w1 m)) = s" by blast
    have "observed exec rid repo ?w1 m \<noteq> []" if "m > 0" using that by (simp add: observed_def)
    with m sr show ?thesis by (intro exI [of _ "Suc m"]) (auto simp: observed_Suc)
  qed
qed

section \<open>The record store\<close>

text \<open>
  What the commands rely on: a record saved under its identity is the one found under that
  identity. \<open>load_updated\<close> is what an update of the status needs.
\<close>

locale record_store =
  fixes save :: "'r \<Rightarrow> 's \<Rightarrow> 's"
    and load :: "string \<Rightarrow> 's \<Rightarrow> 'r option"
    and key :: "'r \<Rightarrow> string"
  assumes load_saved: "key r \<noteq> [] \<Longrightarrow> load (key r) (save r s) = Some r"
    and save_keyless: "key r = [] \<Longrightarrow> save r s = s"
begin

lemma load_updated:
  assumes "load k s = Some r" and "key (f r) = key r" and "key r \<noteq> []"
  shows "load (key r) (save (f r) s) = Some (f r)"
  using load_saved [of "f r" s] assms by simp

end

interpretation rst: record_store "\<lambda>r fs. snd (save_record t r fs)" "load_record glob" record_key
  for t glob
  by unfold_locales (simp_all add: save_record_def load_record_def)

text \<open>Every record file lies under the name its record's identity gives.\<close>

definition run_store_inv :: "run_dir \<Rightarrow> bool" where
  "run_store_inv fs \<longleftrightarrow> distinct (map fst fs) \<and>
     (\<forall>(p, t, f) \<in> set fs. \<forall>r. f = RecordFile r \<longrightarrow> record_key r \<noteq> [] \<and> p = record_path (record_key r))"

lemma run_store_inv_Nil [simp]: "run_store_inv []"
  by (simp add: run_store_inv_def)

lemma save_record_inv: "run_store_inv fs \<Longrightarrow> run_store_inv (snd (save_record t r fs))"
proof (cases "record_key r = []")
  case False
  assume inv: "run_store_inv fs"
  then have d: "distinct (map fst fs)" by (simp add: run_store_inv_def)
  have "set (AList.update p v fs) \<subseteq> insert (p, v) (set fs)" for p v
    by (induction fs) auto
  with inv d False show ?thesis
    by (fastforce simp: run_store_inv_def save_record_def dict_set_def distinct_update)
qed (simp add: save_record_def)

lemma update_status_inv: "run_store_inv fs \<Longrightarrow> run_store_inv (snd (update_status glob t k s fs))"
  by (simp add: update_status_def Let_def case_prod_beta save_record_inv split: option.splits)

lemma scan_files_Some: "scan_files k fs = Some r \<Longrightarrow> RecordFile r \<in> set fs \<and> record_names r k"
proof (induction fs)
  case (Cons f fs)
  then show ?case by (cases f) (auto split: if_splits)
qed simp

lemma record_path_eq [simp]: "record_path a = record_path b \<longleftrightarrow> safe_filename a = safe_filename b"
  by (simp add: record_path_def)

end
