(* ===== verification/Run_Properties.thy ===== *)
theory Run_Properties
  imports Run_Facts
begin

text \<open>
  Properties of the run lifecycle commands: what waiting, tailing and resuming send and
  report, what the record store gives back, and where run proofs are written. A sample
  boundary that reports a run as pending, running, running and completed serves the
  witnesses.
\<close>

section \<open>A sample boundary\<close>

definition sample_boundary :: "nat exec_fn" where
  "sample_boundary c k =
     (CallReturned 200 (JObj [(''status'', JStr
        (if k = 0 then ''pending'' else if k < 3 then ''running'' else ''Completed''))]), Suc k)"

definition sample_wait :: "(string + run_wait_result) \<times> transport_call list \<times> nat" where
  "sample_wait = wait_for_terminal (\<lambda>_. []) (recording sample_boundary) None (\<lambda>_. 0) ''r1'' (JStr []) 3 200 ([], 0)"

lemma sample_wait_ok: "\<exists>r. fst sample_wait = Inr r \<and> wr_polls r = 4 \<and> wr_terminal_status r = SUCCESS"
proof -
  have "case fst sample_wait of Inl _ \<Rightarrow> False | Inr r \<Rightarrow> wr_polls r = 4 \<and> wr_terminal_status r = SUCCESS"
    by code_simp
  then show ?thesis by (auto split: sum.splits)
qed

section \<open>Waiting\<close>

text \<open>
  Waiting only observes. Over any transport, the calls a wait makes are exactly as many
  status queries of the run as the polls it reports, never more than \<open>max_polls\<close>, whatever
  the callback does; nothing else is called.
\<close>

theorem wait_only_observes:
  assumes "wait_for_terminal fstr (recording exec) cb el rid repo iv mx ([], w) = (Inr r, cs, w')"
  shows "cs = replicate (wr_polls r) (status_call rid) \<and> wr_polls r \<le> nat mx"
proof -
  from assms rec.wait_logs [of fstr exec cb el iv rid repo "nat mx" 0 "([], w)" "Inr r" "(cs, w')"]
  obtain k where "k \<le> nat mx" "cs = replicate k (status_call rid)" "wr_polls r = k"
    by (auto simp: wait_for_terminal_def)
  then show ?thesis by simp
qed

theorem wait_only_observes_witness:
  "fst (snd sample_wait) = replicate 4 (status_call ''r1'')"
proof -
  from sample_wait_ok obtain r where r: "fst sample_wait = Inr r" "wr_polls r = 4" by blast
  have "wait_for_terminal (\<lambda>_. []) (recording sample_boundary) None (\<lambda>_. 0) ''r1'' (JStr []) 3 200 ([], 0)
      = (Inr r, fst (snd sample_wait), snd (snd sample_wait))"
    using r(1) by (simp add: sample_wait_def prod_eq_iff)
  from wait_only_observes [OF this] r(2) show ?thesis by simp
qed

text \<open>
  C4: Waiting returns what the first deciding poll says: a query that fails is an observation
  failure of unknown outcome, one the callback stops is reported as interrupted with the status
  it saw, one in a terminal status (success, failed, rejected, denied, cancelled) is reported
  with that status and its data, and what the query or the callback raises is raised; if none of
  the \<open>max_polls\<close> queries decides, the result is the timeout after \<open>max_polls\<close> polls. The
  specification \<open>poll_decision\<close> names none of the functions of the loop. The interval is one
  \<open>time.sleep\<close> accepts, so not negative.
\<close>

theorem wait_refines_first_decision:
  assumes "0 \<le> iv"
  shows "fst (wait_for_terminal fstr exec cb el rid repo iv mx w) =
    first_decision (\<lambda>k. poll_decision fstr cb el rid (Suc k) (nth_fetch exec rid repo w k))
      0 (nat mx) (no_decision el rid (nat mx))"
  using wait_loop_spec [OF assms, of fstr exec cb el rid repo "nat mx" 0 w]
  by (simp add: wait_for_terminal_def)

theorem wait_refines_first_decision_witness:
  "first_decision (\<lambda>k. poll_decision (\<lambda>_. []) None (\<lambda>_. 0) ''r1'' (Suc k)
      (nth_fetch (recording sample_boundary) ''r1'' (JStr []) ([], 0) k))
      0 200 (no_decision (\<lambda>_. 0) ''r1'' 200) = fst sample_wait"
  using wait_refines_first_decision [of 3 "\<lambda>_. []" "recording sample_boundary" None "\<lambda>_. 0" "''r1''" "JStr []" 200 "([], 0)"]
  by (simp add: sample_wait_def)

lemma wait_once_return:
  assumes "wait_once fstr cb el rid polls sr = PollReturn r"
  shows "if wr_success r
    then rs_success sr \<and> wr_terminal_status r = rs_status sr \<and> (is_terminal (rs_status sr) \<or> wr_interrupted r)
      \<and> (cb = None \<longrightarrow> \<not> wr_interrupted r)
    else \<not> rs_success sr \<and> wr_terminal_status r = UNKNOWN \<and> \<not> wr_interrupted r \<and> json_truthy (wr_error_class r)"
  using assms
  by (auto simp: wait_once_def wait_failed_def wait_done_def json_or_def
      split: if_splits callback_answer.splits bool.splits option.splits)

text \<open>
  A wait never reports an outcome the boundary did not give. It succeeds only on a
  terminal status or because the callback stopped it, with the status of its last query; a
  wait that fails reports \<open>UNKNOWN\<close> with an error class.
\<close>

theorem wait_reports_honestly:
  assumes "wait_for_terminal fstr exec cb el rid repo iv mx w = (Inr r, w')"
  shows "if wr_success r
    then (is_terminal (wr_terminal_status r) \<or> wr_interrupted r) \<and> (cb = None \<longrightarrow> \<not> wr_interrupted r)
      \<and> (\<exists>k sr. nth_fetch exec rid repo w k = Inr sr \<and> rs_success sr \<and> rs_status sr = wr_terminal_status r)
    else wr_terminal_status r = UNKNOWN \<and> \<not> wr_interrupted r \<and> json_truthy (wr_error_class r)"
proof -
  have "if wr_success r
    then (is_terminal (wr_terminal_status r) \<or> wr_interrupted r) \<and> (cb = None \<longrightarrow> \<not> wr_interrupted r)
      \<and> (\<exists>k sr. nth_fetch exec rid repo w k = Inr sr \<and> rs_success sr \<and> rs_status sr = wr_terminal_status r)
    else wr_terminal_status r = UNKNOWN \<and> \<not> wr_interrupted r \<and> json_truthy (wr_error_class r)"
    if "wait_loop fstr exec cb el iv rid repo n polls w = (Inr r, w')" for n polls
    using that
  proof (induction n arbitrary: polls w)
    case 0
    then show ?case by (auto simp: wait_timeout_def)
  next
    case (Suc n)
    let ?w1 = "snd (exec (status_call rid) w)"
    from Suc.prems obtain sr where sr: "nth_fetch exec rid repo w 0 = Inr sr"
      by (auto simp: nth_fetch_0 split: sum.splits)
    from Suc.prems sr have "wait_once fstr cb el rid (polls + 1) sr = PollReturn r
        \<or> wait_loop fstr exec cb el iv rid repo n (polls + 1) ?w1 = (Inr r, w')"
      by (auto simp: nth_fetch_0 split: poll_verdict.splits option.splits)
    then show ?case
    proof
      assume "wait_once fstr cb el rid (polls + 1) sr = PollReturn r"
      from wait_once_return [OF this] sr show ?thesis by (auto split: if_splits)
    next
      assume "wait_loop fstr exec cb el iv rid repo n (polls + 1) ?w1 = (Inr r, w')"
      from Suc.IH [OF this] show ?thesis
        by (auto simp: nth_fetch_shift split: if_splits)
    qed
  qed
  with assms show ?thesis unfolding wait_for_terminal_def by blast
qed

theorem wait_reports_honestly_witness:
  "\<exists>r. fst sample_wait = Inr r \<and> is_terminal (wr_terminal_status r)"
proof -
  from sample_wait_ok obtain r where r: "fst sample_wait = Inr r" "wr_terminal_status r = SUCCESS" by blast
  have "wait_for_terminal (\<lambda>_. []) (recording sample_boundary) None (\<lambda>_. 0) ''r1'' (JStr []) 3 200 ([], 0)
      = (Inr r, snd sample_wait)"
    using r(1) by (simp add: sample_wait_def prod_eq_iff)
  from wait_reports_honestly [OF this] r show ?thesis by (auto split: if_splits)
qed

text \<open>
  Over the SDK's own transport a wait stays within its budget: it sends at most
  \<open>max_attempts\<close> requests for each of its at most \<open>max_polls\<close> polls, whatever the network
  answers.
\<close>

theorem wait_requests_bounded:
  assumes "wait_for_terminal fstr (sdk_exec sx env tr) cb el rid repo iv mx ([], []) = (res, cs, sent)"
  shows "length cs \<le> nat mx \<and> length sent \<le> length cs * max_attempts tr SAFE_READ"
proof -
  from assms have loop: "wait_loop fstr (sdk_exec sx env tr) cb el iv rid repo (nat mx) 0 ([], []) = (res, cs, sent)"
    by (simp add: wait_for_terminal_def)
  from sdk.wait_logs [OF loop] sdk.wait_budget [OF loop] show ?thesis
    by (auto simp: sdk.within_budget_def)
qed

definition offline_env :: transport_env where
  "offline_env = \<lparr>env_net = (\<lambda>_. SendFailed ''down''), env_uuid = (\<lambda>k. CHR ''u'' # replicate k (CHR ''x'')),
     env_random = (\<lambda>_. 0), env_now = (\<lambda>_. ''now'')\<rparr>"

definition offline_wait :: "(string + run_wait_result) \<times> transport_call list \<times> sent_request list" where
  "offline_wait = wait_for_terminal (\<lambda>_. []) (sdk_exec transport_error_name offline_env
     (make_transport ''https://mcp'' None None [])) None (\<lambda>_. 0) ''r1'' (JStr []) 3 200 ([], [])"

theorem wait_requests_bounded_witness:
  "length (snd (snd offline_wait)) \<le>
     length (fst (snd offline_wait)) * max_attempts (make_transport ''https://mcp'' None None []) SAFE_READ"
proof -
  have "wait_for_terminal (\<lambda>_. []) (sdk_exec transport_error_name offline_env
     (make_transport ''https://mcp'' None None [])) None (\<lambda>_. 0) ''r1'' (JStr []) 3 200 ([], [])
     = (fst offline_wait, fst (snd offline_wait), snd (snd offline_wait))"
    by (simp add: offline_wait_def)
  from wait_requests_bounded [OF this] show ?thesis by blast
qed

section \<open>Tailing\<close>

text \<open>
  A tail that ends well shows each change of status once: the statuses of its entries are
  the observed statuses with adjacent repetitions removed, at most \<open>max_entries\<close> queries were
  made, and a terminal status it reports is the one observed last.
\<close>

theorem tail_refines_status_changes:
  assumes "tail_run fstr exec cb now rid repo iv mx w = (Inr r, w')" and "tl_success r"
  shows "\<exists>m \<le> nat mx. map te_status (tl_entries r) =
           remdups_adj (map status_text (observed exec rid repo w m))
     \<and> (\<forall>s. tl_terminal_status r = Some s \<longrightarrow> is_terminal s \<and> m > 0
           \<and> rs_status (last (observed exec rid repo w m)) = s)"
proof -
  have inv: "tail_inv [] [] []" by (simp add: tail_inv_def)
  from assms(1) have loop: "tail_loop fstr exec cb now iv rid repo (nat mx) 0 [] [] w = (Inr r, w')"
    by (simp only: tail_run_def)
  from tail_loop_spec [OF loop inv assms(2)] show ?thesis by (simp only: append_Nil)
qed

definition sample_tail :: "(string + run_tail_result) \<times> nat" where
  "sample_tail = tail_run (\<lambda>_. []) sample_boundary None (\<lambda>_. ''now'') ''r1'' (JStr []) 2 100 0"

theorem tail_refines_status_changes_witness:
  "\<exists>m \<le> 100. [''accepted'', ''running'', ''success''] =
     remdups_adj (map status_text (observed sample_boundary ''r1'' (JStr []) 0 m))"
proof -
  have "case fst sample_tail of Inl _ \<Rightarrow> False | Inr r \<Rightarrow> tl_success r \<and>
      map te_status (tl_entries r) = [''accepted'', ''running'', ''success'']"
    by code_simp
  then obtain r where r: "fst sample_tail = Inr r" "tl_success r"
    "map te_status (tl_entries r) = [''accepted'', ''running'', ''success'']"
    by (auto split: sum.splits)
  have "tail_run (\<lambda>_. []) sample_boundary None (\<lambda>_. ''now'') ''r1'' (JStr []) 2 100 0 = (Inr r, snd sample_tail)"
    using r(1) by (simp add: sample_tail_def prod_eq_iff)
  from tail_refines_status_changes [OF this r(2)] r(3) show ?thesis by auto
qed

section \<open>Resuming\<close>

lemma resume_store_inv:
  assumes "resume_run exec glob t ident repo fs w = (res, fs', w')" and "run_store_inv fs"
  shows "run_store_inv fs'"
  using assms save_record_inv [OF assms(2)] update_status_inv [OF assms(2)]
  by (auto simp: resume_run_def resume_local_def resume_boundary_def Let_def
      split: if_splits option.splits prod.splits sum.splits) (metis snd_conv)+

text \<open>
  Resuming never runs again. Over any transport a resume makes at most one call, and that
  call is a status query; it leaves the record store well formed.
\<close>

theorem resume_never_reruns:
  assumes "resume_run (recording exec) glob t ident repo fs ([], w) = (res, fs', cs, w')"
    and "run_store_inv fs"
  shows "length cs \<le> 1 \<and> (\<forall>c \<in> set cs. \<exists>rid. c = status_call rid) \<and> run_store_inv fs'"
proof -
  from rec.resume_logs [OF assms(1)] resume_store_inv [OF assms] show ?thesis by auto
qed

theorem resume_never_reruns_witness:
  "run_store_inv (fst (snd (resume_run (recording sample_boundary) id 5 ''r1'' (JStr []) [] ([], 0))))"
proof -
  obtain res fs' cs w' where
    "resume_run (recording sample_boundary) id 5 ''r1'' (JStr []) [] ([], 0) = (res, fs', cs, w')"
    by (metis prod.collapse)
  from resume_never_reruns [OF this run_store_inv_Nil] this show ?thesis by simp
qed

text \<open>
  A run found on the boundary is remembered: the local record saved under the run id the
  resume returned gives the status it returned, which is what an offline resume reports.
\<close>

theorem boundary_resume_remembered:
  assumes "resume_run exec glob t ident repo fs w = (Inr r, fs', w')"
    and "rm_success r" and "rm_source r = ''boundary_lookup''"
  shows "\<exists>rec. load_record glob' (rm_run_id r) fs' = Some rec \<and> rr_run_id rec = rm_run_id r
    \<and> rm_status (resume_offline (rm_run_id r) rec) = rm_status r"
proof -
  from assms obtain sr where
    r: "r = resume_found ''boundary_lookup'' (py_strip ident) sr" and
    fs': "fs' = snd (save_record t (fresh_record (py_strip ident) repo sr) fs)" and
    ne: "py_strip ident \<noteq> []"
    by (auto simp: resume_run_def resume_local_def resume_boundary_def Let_def resume_missing_def
        resume_lost_def resume_offline_def resume_found_def
        split: if_splits option.splits prod.splits sum.splits)
  let ?rec = "fresh_record (py_strip ident) repo sr"
  from ne have rid: "str_or (rs_run_id sr) (py_strip ident) \<noteq> []" by (simp add: str_or_def)
  then have key: "record_key ?rec = rm_run_id r" "rm_run_id r \<noteq> []"
    by (simp_all add: record_key_def fresh_record_def r resume_found_def)
  from key have "load_record glob' (rm_run_id r) fs' = Some ?rec"
    using rst.load_saved [of ?rec glob' t fs] by (simp add: fs')
  then show ?thesis
    by (simp add: fresh_record_def r resume_found_def resume_offline_def classify_status_value)
qed

theorem boundary_resume_remembered_witness:
  "\<exists>rec. load_record id ''r1'' (fst (snd (resume_run sample_boundary id 5 '' r1 '' (JStr []) [] 0))) = Some rec
     \<and> rr_last_known_status rec = ''accepted''"
proof -
  have "case fst (resume_run sample_boundary id 5 '' r1 '' (JStr []) [] 0) of Inl _ \<Rightarrow> False
    | Inr r \<Rightarrow> rm_success r \<and> rm_source r = ''boundary_lookup'' \<and> rm_run_id r = ''r1'' \<and> rm_status r = ACCEPTED"
    by code_simp
  then obtain r where r: "fst (resume_run sample_boundary id 5 '' r1 '' (JStr []) [] 0) = Inr r"
    "rm_success r" "rm_source r = ''boundary_lookup''" "rm_run_id r = ''r1''" "rm_status r = ACCEPTED"
    by (auto split: sum.splits)
  then have "resume_run sample_boundary id 5 '' r1 '' (JStr []) [] 0 =
      (Inr r, fst (snd (resume_run sample_boundary id 5 '' r1 '' (JStr []) [] 0)),
       snd (snd (resume_run sample_boundary id 5 '' r1 '' (JStr []) [] 0)))"
    by (simp add: prod_eq_iff)
  from boundary_resume_remembered [OF this r(2,3), of id] r(4,5) obtain rec where
    rec: "load_record id ''r1'' (fst (snd (resume_run sample_boundary id 5 '' r1 '' (JStr []) [] 0))) = Some rec"
    by auto
  moreover have "case load_record id ''r1'' (fst (snd (resume_run sample_boundary id 5 '' r1 '' (JStr []) [] 0)))
      of None \<Rightarrow> False | Some rec \<Rightarrow> rr_last_known_status rec = ''accepted''"
    by code_simp
  ultimately show ?thesis by simp
qed

text \<open>
  The record of a boundary lookup keeps neither the request id nor the correlation id, so a
  run looked up by one of those is not found again by it.
\<close>

lemma boundary_resume_forgets_identifier:
  "rr_request_id (fresh_record ident repo sr) = [] \<and> rr_correlation_id (fresh_record ident repo sr) = []"
  by (simp add: fresh_record_def default_record_def)

section \<open>The record store\<close>

text \<open>
  A lookup answers for the right run up to the file name: in a well-formed store the
  record found for an identifier either names it (as run, request or correlation id) or its
  own identity sanitizes to the same file name.
\<close>

theorem load_record_sound:
  assumes "run_store_inv fs" and "set (glob fs) = set fs" and "load_record glob k fs = Some r"
  shows "record_names r k \<or> safe_filename (record_key r) = safe_filename k"
proof (cases "dict_get fs (record_path k)")
  case None
  with assms(3) have "scan_files k (map (snd \<circ> snd) (glob fs)) = Some r"
    by (simp add: load_record_def scan_for_def)
  from scan_files_Some [OF this] show ?thesis by simp
next
  case (Some tf)
  with assms(3) obtain t where "dict_get fs (record_path k) = Some (t, RecordFile r)"
    by (cases tf; cases "snd tf") (auto simp: load_record_def)
  then have "(record_path k, t, RecordFile r) \<in> set fs"
    by (simp add: dict_get_def map_of_SomeD)
  with assms(1) have "record_path k = record_path (record_key r)"
    by (auto simp: run_store_inv_def)
  then show ?thesis by simp
qed

definition slash_record :: run_record where
  "slash_record = default_record\<lparr>rr_run_id := ''run/1''\<rparr>"

theorem load_record_sound_witness:
  "load_record id ''run/1'' (snd (save_record 0 slash_record [])) = Some slash_record
   \<and> (record_names slash_record ''run/1'' \<or> safe_filename (record_key slash_record) = safe_filename ''run/1'')"
proof -
  have key: "record_key slash_record = ''run/1''"
    by (simp add: slash_record_def record_key_def)
  then have load: "load_record id ''run/1'' (snd (save_record 0 slash_record [])) = Some slash_record"
    using rst.load_saved [of slash_record id 0 "[]"] by simp
  have "run_store_inv (snd (save_record 0 slash_record []))" by (rule save_record_inv) simp
  from load_record_sound [OF this _ load] load show ?thesis by simp
qed

text \<open>
  The file name is not injective: the record of run \<open>run/1\<close> answers for the identifier
  \<open>run_1\<close>, which it does not name, and saving one overwrites the other.
\<close>

lemma load_record_foreign:
  "load_record glob ''run_1'' (snd (save_record 0 slash_record [])) = Some slash_record
   \<and> \<not> record_names slash_record ''run_1''"
proof -
  have "record_path ''run_1'' = record_path ''run/1''" by (simp only: record_path_eq) code_simp
  then show ?thesis
    by (simp add: load_record_def save_record_def slash_record_def record_key_def record_names_def
        default_record_def)
qed

section \<open>Status queries and proofs\<close>

text \<open>
  A status query raises only on a body that is not a JSON object: exceptions of the
  transport and error statuses become failed results with guidance, and a result is a
  success exactly for a status below 400 without a product error.
\<close>

theorem fetch_run_status_outcome:
  "case fetch_run_status exec rid repo w of
     (Inl e, w') \<Rightarrow> e = ''AttributeError'' \<and>
        (\<exists>code body. exec (status_call rid) w = (CallReturned code body, w') \<and> (\<forall>d. body \<noteq> JObj d))
   | (Inr sr, w') \<Rightarrow>
        (rs_success sr \<longleftrightarrow> (\<exists>code d. exec (status_call rid) w = (CallReturned code (JObj d), w')
           \<and> code < 400 \<and> product_error d (as_dict (json_get d ''data'')) = None))
        \<and> (rs_success sr \<or> rs_status sr = UNKNOWN \<and> rs_repair_guidance sr \<noteq> [])"
  by (auto simp: fetch_run_status_def classify_status_result_def handle_status_exception_def
      blank_status_result_def resolved_status_result_def Let_def
      split: prod.splits call_answer.splits sum.splits json.splits option.splits if_splits)

lemma resolve_onto_append:
  "list_all (\<lambda>c. c \<notin> {[], ''.'', ''..''}) ds \<Longrightarrow> resolve_onto acc (ds @ cs) = resolve_onto (rev ds @ acc) cs"
  by (induction ds arbitrary: acc) auto

text \<open>
  Where a run's proof goes: below a repository path without dot components, the proof
  directory is a direct child of \<open>runs\<close> exactly when the sanitized identity is not empty,
  \<open>.\<close> or \<open>..\<close>.
\<close>

theorem proof_run_dir_confined:
  assumes "list_all (\<lambda>c. c \<notin> {[], ''.'', ''..''}) base"
  shows "(\<exists>tier \<in> {''core'', ''extended''}. \<exists>x. resolve_path (base @ proof_run_dir stage rid cor) =
            base @ [''proof_bundle'', tier, ''runs'', x])
     \<longleftrightarrow> safe_filename (str_or rid cor) \<notin> {[], ''.'', ''..''}"
  using assms
  by (auto simp: resolve_path_def resolve_onto_append proof_run_dir_def Let_def)

theorem proof_run_dir_confined_witness:
  "\<not> (\<exists>tier \<in> {''core'', ''extended''}. \<exists>x. resolve_path ([''repo''] @ proof_run_dir ''outcome'' ''..'' []) =
            [''repo''] @ [''proof_bundle'', tier, ''runs'', x])"
proof -
  have "safe_filename (str_or ''..'' []) = ''..''" by code_simp
  with proof_run_dir_confined [of "[''repo'']" "''outcome''" "''..''" "[]"] show ?thesis by simp
qed

end
