(* ===== verification/Device_Flow.thy ===== *)
theory Device_Flow
  imports Keyhole_Prelude
begin

text \<open>
  The OAuth device authorization client (\<open>sdk_client_25/device_flow.py\<close>): parsing the device
  response, one poll of the token endpoint, and the polling loop. The HTTP answers, the
  token model's validation, the clock, the cancel token and the supersession test are
  given by cycle number. The loop has no bound of its own, so it is a partial function:
  not returning is \<open>None\<close>.
\<close>

section \<open>The device authorization response\<close>

record device_response =
  dv_device_code :: string
  dv_user_code :: string
  dv_verification_uri :: string
  dv_verification_uri_complete :: "string option"
  dv_expires_in :: int
  dv_interval :: int

text \<open>
  \<open>int(v)\<close>: truncation of a float; a string is stripped and may have a sign and single
  underscores between digits. \<open>None\<close> is \<open>TypeError\<close> or \<open>ValueError\<close>.
\<close>

fun digits_value :: "bool \<Rightarrow> int \<Rightarrow> string \<Rightarrow> int option" where
  "digits_value after_digit acc [] = (if after_digit then Some acc else None)"
| "digits_value after_digit acc (c # cs) =
     (if py_isdigit c then digits_value True (acc * 10 + int (code_of c - 48)) cs
      else if c = CHR ''_'' \<and> after_digit then digits_value False acc cs
      else None)"

definition int_of_string :: "string \<Rightarrow> int option" where
  "int_of_string s =
     (case py_strip s of
        [] \<Rightarrow> None
      | c # cs \<Rightarrow>
          if c = CHR ''-'' then map_option uminus (digits_value False 0 cs)
          else if c = CHR ''+'' then digits_value False 0 cs
          else digits_value False 0 (c # cs))"

fun py_int :: "json \<Rightarrow> int option" where
  "py_int (JBool b) = Some (if b then 1 else 0)"
| "py_int (JInt i) = Some i"
| "py_int (JFloat r) = Some (if r < 0 then - \<lfloor>- r\<rfloor> else \<lfloor>r\<rfloor>)"
| "py_int (JStr s) = int_of_string s"
| "py_int _ = None"

definition int_or :: "json \<Rightarrow> int \<Rightarrow> int" where
  "int_or v dflt = (case py_int v of None \<Rightarrow> dflt | Some i \<Rightarrow> i)"

definition device_from_dict :: "json \<Rightarrow> string + device_response" where
  "device_from_dict v =
     (case v of
        JObj data \<Rightarrow>
          if as_str (json_get data ''device_code'') = [] then
            Inl ''device_code missing from device authorization response''
          else if as_str (json_get data ''user_code'') = [] then
            Inl ''user_code missing from device authorization response''
          else if as_str (json_get data ''verification_uri'') = [] then
            Inl ''verification_uri missing from device authorization response''
          else
            Inr \<lparr>dv_device_code = as_str (json_get data ''device_code''),
                 dv_user_code = as_str (json_get data ''user_code''),
                 dv_verification_uri = as_str (json_get data ''verification_uri''),
                 dv_verification_uri_complete =
                   (case json_get data ''verification_uri_complete'' of JStr s \<Rightarrow> Some s | _ \<Rightarrow> None),
                 dv_expires_in = max 60 (int_or (dict_get_or data ''expires_in'' (JInt 900)) 900),
                 dv_interval = max 1 (int_or (dict_get_or data ''interval'' (JInt 5)) 5)\<rparr>
      | _ \<Rightarrow> Inl ''device authorization response must be a JSON object'')"

definition device_safe_summary :: "device_response \<Rightarrow> dict" where
  "device_safe_summary d =
     [(''user_code'', JStr (dv_user_code d)),
      (''verification_uri'', JStr (dv_verification_uri d)),
      (''has_verification_uri_complete'', JBool (dv_verification_uri_complete d \<noteq> None)),
      (''expires_in'', JInt (dv_expires_in d)),
      (''interval'', JInt (dv_interval d))]"

section \<open>HTTP and outcomes\<close>

text \<open>
  An answer to a POST: a connection error or a timeout, another exception of the session
  with its class name, or a response with its status, whether it has content, and its body
  when that parses.
\<close>

datatype http_answer =
    HttpNetworkError string
  | HttpOtherError string
  | HttpResponse int bool "json option"

datatype device_error =
    DeviceExpired string
  | DeviceDenied string
  | DeviceCancelled string
  | DeviceNetworkError string
  | DeviceAuthError string
  | DeviceValueError string
  | OtherException string

definition request_device_authorization ::
    "(json \<Rightarrow> string) \<Rightarrow> http_answer \<Rightarrow> device_error + device_response" where
  "request_device_authorization fstr ans =
     (case ans of
        HttpNetworkError e \<Rightarrow> Inl (DeviceNetworkError (''Cannot reach device authorization endpoint: '' @ e))
      | HttpOtherError cls \<Rightarrow> Inl (OtherException cls)
      | HttpResponse status _ body \<Rightarrow>
          if status \<noteq> 200 then
            (case body of
               None \<Rightarrow> Inl (DeviceAuthError (''device authorization request failed (HTTP '' @
                        str_int status @ '', error=unknown)''))
             | Some (JObj d) \<Rightarrow> Inl (DeviceAuthError (''device authorization request failed (HTTP '' @
                        str_int status @ '', error='' @
                        fstr (json_or (dict_get_or d ''error'' (JStr [])) (JStr ''unknown'')) @ '')''))
             | Some _ \<Rightarrow> Inl (OtherException ''AttributeError''))
          else
            (case body of
               None \<Rightarrow> Inl (DeviceAuthError ''device authorization response is not valid JSON'')
             | Some v \<Rightarrow> (case device_from_dict v of Inl e \<Rightarrow> Inl (DeviceValueError e) | Inr d \<Rightarrow> Inr d)))"

datatype device_poll_status =
    Pending | Slow_down | Approved | Expired_token | Access_denied | Network_error

record 'tok poll_outcome =
  po_status :: device_poll_status
  po_token :: "'tok option"
  po_detail :: string

definition outcome_of :: "device_poll_status \<Rightarrow> string \<Rightarrow> 'tok poll_outcome" where
  "outcome_of s detail = \<lparr>po_status = s, po_token = None, po_detail = detail\<rparr>"

text \<open>The OAuth error code of a body; \<open>strip\<close> on a truthy non-string raises.\<close>

definition oauth_error :: "bool \<Rightarrow> json option \<Rightarrow> string option" where
  "oauth_error has_content body =
     (case (if has_content then body else Some (JObj [])) of
        Some (JObj d) \<Rightarrow>
          (case json_or (json_get d ''error'') (JStr []) of JStr s \<Rightarrow> Some (py_strip s) | _ \<Rightarrow> None)
      | _ \<Rightarrow> Some [])"

definition poll_once ::
    "(json \<Rightarrow> string + 'tok) \<Rightarrow> http_answer \<Rightarrow> string + 'tok poll_outcome" where
  "poll_once validate ans =
     (case ans of
        HttpNetworkError e \<Rightarrow> Inr (outcome_of Network_error e)
      | HttpOtherError cls \<Rightarrow> Inl cls
      | HttpResponse status has_content body \<Rightarrow>
          if status = 200 then
            (case body of
               None \<Rightarrow> Inr (outcome_of Network_error ''token response is not valid JSON'')
             | Some data \<Rightarrow>
                 (case validate data of
                    Inl e \<Rightarrow> Inr (outcome_of Network_error (''unparseable token response: '' @ e))
                  | Inr tok \<Rightarrow> Inr \<lparr>po_status = Approved, po_token = Some tok, po_detail = []\<rparr>))
          else
            (case oauth_error has_content body of
               None \<Rightarrow> Inl ''AttributeError''
             | Some error \<Rightarrow>
                 Inr (if error = ''authorization_pending'' then outcome_of Pending ''authorization_pending''
                      else if error = ''slow_down'' then outcome_of Slow_down ''slow_down''
                      else if error = ''access_denied'' then outcome_of Access_denied ''access_denied''
                      else if error = ''expired_token'' \<or> error = ''expired_device_code''
                      then outcome_of Expired_token error
                      else if 500 \<le> status \<and> status < 600
                      then outcome_of Network_error (''server error '' @ str_int status)
                      else outcome_of Network_error
                        (''unexpected token endpoint response (HTTP '' @ str_int status @
                         '', error='' @ str_or error ''none'' @ '')''))))"

section \<open>Polling\<close>

text \<open>
  What a polling run meets, by cycle number: the answer to its poll, the reason of the
  cancel token when it is set as the cycle starts, the supersession test before and after
  the poll, the observer's exception if it raises, the time the poll takes, and the time a
  sleep really takes.
\<close>

record 'tok flow_env =
  fe_answer :: "nat \<Rightarrow> http_answer"
  fe_validate :: "json \<Rightarrow> string + 'tok"
  fe_cancel :: "nat \<Rightarrow> string option"
  fe_superseded_before :: "nat \<Rightarrow> bool"
  fe_superseded_after :: "nat \<Rightarrow> bool"
  fe_on_status :: "nat \<Rightarrow> 'tok poll_outcome \<Rightarrow> string option"
  fe_poll_time :: "nat \<Rightarrow> rat"
  fe_sleep_time :: "nat \<Rightarrow> rat \<Rightarrow> rat"

text \<open>What the loop keeps between two cycles.\<close>

record poll_state =
  ps_cycle :: nat
  ps_interval :: int
  ps_failures :: nat
  ps_now :: rat
  ps_sleeps :: "rat list"

datatype 'tok cycle_result = Stop "device_error + 'tok" | Sleep poll_state

definition slow_down_increment :: int where "slow_down_increment = 5"

definition max_network_failures :: nat where "max_network_failures = 3"

definition next_interval :: "device_poll_status \<Rightarrow> int \<Rightarrow> int" where
  "next_interval s interval =
     (if s = Slow_down then min (interval + slow_down_increment) 60 else interval)"

definition next_failures :: "device_poll_status \<Rightarrow> nat \<Rightarrow> nat" where
  "next_failures s failures = (if s = Network_error then failures + 1 else 0)"

text \<open>The end of a cycle that neither approved nor refused: the deadline and the sleep.\<close>

definition wait_for_next :: "'tok flow_env \<Rightarrow> rat \<Rightarrow> device_poll_status \<Rightarrow> string \<Rightarrow> poll_state \<Rightarrow> 'tok cycle_result" where
  "wait_for_next env deadline s detail st =
     (let interval = next_interval s (ps_interval st);
          failures = next_failures s (ps_failures st);
          now = ps_now st + fe_poll_time env (ps_cycle st);
          sleep_for = min (of_int interval) (max 0 (deadline - now))
      in if s = Network_error \<and> failures \<ge> max_network_failures then
           Stop (Inl (DeviceNetworkError (str_or detail ''network error during polling'')))
         else if now \<ge> deadline then Stop (Inl (DeviceExpired ''device code expired''))
         else Sleep \<lparr>ps_cycle = ps_cycle st + 1, ps_interval = interval, ps_failures = failures,
                     ps_now = now + (if sleep_for > 0 then fe_sleep_time env (ps_cycle st) sleep_for else 0),
                     ps_sleeps = ps_sleeps st @ (if sleep_for > 0 then [sleep_for] else [])\<rparr>)"

definition poll_cycle :: "'tok flow_env \<Rightarrow> rat \<Rightarrow> poll_state \<Rightarrow> 'tok cycle_result" where
  "poll_cycle env deadline st =
     (case fe_cancel env (ps_cycle st) of
        Some reason \<Rightarrow> Stop (Inl (DeviceCancelled (str_or reason ''cancelled'')))
      | None \<Rightarrow>
          if fe_superseded_before env (ps_cycle st) then Stop (Inl (DeviceCancelled ''superseded''))
          else
            (case poll_once (fe_validate env) (fe_answer env (ps_cycle st)) of
               Inl cls \<Rightarrow> Stop (Inl (OtherException cls))
             | Inr o1 \<Rightarrow>
                 (case fe_on_status env (ps_cycle st) o1 of
                    Some cls \<Rightarrow> Stop (Inl (OtherException cls))
                  | None \<Rightarrow>
                      (case po_status o1 of
                         Approved \<Rightarrow>
                           if fe_superseded_after env (ps_cycle st)
                           then Stop (Inl (DeviceCancelled ''superseded''))
                           else (case po_token o1 of
                                   None \<Rightarrow> Stop (Inl (OtherException ''AssertionError''))
                                 | Some tok \<Rightarrow> Stop (Inr tok))
                       | Access_denied \<Rightarrow> Stop (Inl (DeviceDenied (str_or (po_detail o1) ''access_denied'')))
                       | Expired_token \<Rightarrow> Stop (Inl (DeviceExpired (str_or (po_detail o1) ''expired_token'')))
                       | s \<Rightarrow> wait_for_next env deadline s (po_detail o1) st))))"

partial_function (option) poll_loop ::
    "'tok flow_env \<Rightarrow> rat \<Rightarrow> poll_state \<Rightarrow> ((device_error + 'tok) \<times> poll_state) option" where
  "poll_loop env deadline st =
     (case poll_cycle env deadline st of
        Stop r \<Rightarrow> Some (r, st)
      | Sleep st' \<Rightarrow> poll_loop env deadline st')"

definition start_polling :: "device_response \<Rightarrow> rat \<Rightarrow> poll_state" where
  "start_polling dev t0 =
     \<lparr>ps_cycle = 0, ps_interval = dv_interval dev, ps_failures = 0, ps_now = t0, ps_sleeps = []\<rparr>"

definition poll_for_token ::
    "'tok flow_env \<Rightarrow> device_response \<Rightarrow> rat \<Rightarrow> ((device_error + 'tok) \<times> poll_state) option" where
  "poll_for_token env dev t0 = poll_loop env (t0 + of_int (dv_expires_in dev)) (start_polling dev t0)"

section \<open>Facts\<close>

lemma device_from_dict_bounds:
  "device_from_dict v = Inr d \<Longrightarrow> 60 \<le> dv_expires_in d \<and> 1 \<le> dv_interval d
     \<and> dv_device_code d \<noteq> [] \<and> dv_user_code d \<noteq> [] \<and> dv_verification_uri d \<noteq> []"
  by (auto simp: device_from_dict_def split: json.splits if_splits)

lemma next_interval_pos [simp]: "1 \<le> i \<Longrightarrow> 1 \<le> next_interval s i"
  by (simp add: next_interval_def slow_down_increment_def)

text \<open>A cycle that sleeps, seen from outside.\<close>

lemma wait_for_next_Sleep:
  assumes "wait_for_next env deadline s detail st = Sleep st'"
  obtains now sleep_for where
    "now = ps_now st + fe_poll_time env (ps_cycle st)" "now < deadline"
    "sleep_for = min (of_int (next_interval s (ps_interval st))) (deadline - now)"
    "st' = \<lparr>ps_cycle = ps_cycle st + 1, ps_interval = next_interval s (ps_interval st),
            ps_failures = next_failures s (ps_failures st),
            ps_now = now + (if sleep_for > 0 then fe_sleep_time env (ps_cycle st) sleep_for else 0),
            ps_sleeps = ps_sleeps st @ (if sleep_for > 0 then [sleep_for] else [])\<rparr>"
    "s = Network_error \<longrightarrow> next_failures s (ps_failures st) < max_network_failures"
proof -
  define now where "now = ps_now st + fe_poll_time env (ps_cycle st)"
  from assms have lt: "now < deadline"
    by (auto simp: wait_for_next_def Let_def now_def split: if_splits)
  then have mx: "max 0 (deadline - now) = deadline - now" by simp
  from assms lt have "st' = \<lparr>ps_cycle = ps_cycle st + 1, ps_interval = next_interval s (ps_interval st),
            ps_failures = next_failures s (ps_failures st),
            ps_now = now + (if min (of_int (next_interval s (ps_interval st))) (deadline - now) > 0
              then fe_sleep_time env (ps_cycle st) (min (of_int (next_interval s (ps_interval st))) (deadline - now)) else 0),
            ps_sleeps = ps_sleeps st @ (if min (of_int (next_interval s (ps_interval st))) (deadline - now) > 0
              then [min (of_int (next_interval s (ps_interval st))) (deadline - now)] else [])\<rparr>"
    and "s = Network_error \<longrightarrow> next_failures s (ps_failures st) < max_network_failures"
    unfolding wait_for_next_def Let_def now_def [symmetric] mx by (auto split: if_splits)
  with that [OF now_def lt refl] show ?thesis by blast
qed

lemma poll_cycle_Sleep:
  assumes "poll_cycle env deadline st = Sleep st'"
  obtains o1 where "fe_cancel env (ps_cycle st) = None" "\<not> fe_superseded_before env (ps_cycle st)"
    "poll_once (fe_validate env) (fe_answer env (ps_cycle st)) = Inr o1"
    "po_status o1 \<in> {Pending, Slow_down, Network_error}"
    "wait_for_next env deadline (po_status o1) (po_detail o1) st = Sleep st'"
  using assms
  by (auto simp: poll_cycle_def split: option.splits if_splits sum.splits device_poll_status.splits)

lemma wait_for_next_no_token [simp]: "wait_for_next env deadline s detail st \<noteq> Stop (Inr tok)"
  by (simp add: wait_for_next_def Let_def)

lemma poll_once_approved:
  assumes "poll_once v a = Inr o1" and "po_status o1 = Approved" and "po_token o1 = Some tok"
  shows "\<exists>body c. a = HttpResponse 200 c (Some body) \<and> v body = Inr tok"
proof (cases a)
  case (HttpResponse status c body)
  show ?thesis
  proof (cases "status = 200")
    case True
    with assms HttpResponse show ?thesis
      by (cases body) (auto simp: poll_once_def outcome_of_def split: sum.splits)
  next
    case False
    have "po_status o1 \<noteq> Approved"
    proof (cases "oauth_error c body")
      case None
      with assms(1) HttpResponse False show ?thesis by (simp add: poll_once_def)
    next
      case (Some e)
      with assms(1) HttpResponse False have "o1 =
          (if e = ''authorization_pending'' then outcome_of Pending ''authorization_pending''
           else if e = ''slow_down'' then outcome_of Slow_down ''slow_down''
           else if e = ''access_denied'' then outcome_of Access_denied ''access_denied''
           else if e = ''expired_token'' \<or> e = ''expired_device_code'' then outcome_of Expired_token e
           else if 500 \<le> status \<and> status < 600 then outcome_of Network_error (''server error '' @ str_int status)
           else outcome_of Network_error
             (''unexpected token endpoint response (HTTP '' @ str_int status @
              '', error='' @ str_or e ''none'' @ '')''))"
        by (simp only: poll_once_def http_answer.case option.case sum.inject if_False)
      then show ?thesis by (simp only: outcome_of_def split: if_split) simp
    qed
    with assms(2) show ?thesis by simp
  qed
qed (use assms in \<open>auto simp: poll_once_def outcome_of_def\<close>)

lemma poll_cycle_token:
  assumes "poll_cycle env deadline st = Stop (Inr tok)"
  shows "fe_cancel env (ps_cycle st) = None \<and> \<not> fe_superseded_before env (ps_cycle st)
    \<and> \<not> fe_superseded_after env (ps_cycle st)
    \<and> (\<exists>body c. fe_answer env (ps_cycle st) = HttpResponse 200 c (Some body) \<and> fe_validate env body = Inr tok)"
proof -
  from assms obtain o1 where
    o1: "poll_once (fe_validate env) (fe_answer env (ps_cycle st)) = Inr o1"
      "po_status o1 = Approved" "po_token o1 = Some tok"
    and gates: "fe_cancel env (ps_cycle st) = None" "\<not> fe_superseded_before env (ps_cycle st)"
      "\<not> fe_superseded_after env (ps_cycle st)"
    by (auto simp: poll_cycle_def split: option.splits if_splits sum.splits device_poll_status.splits)
  from poll_once_approved [OF o1] gates show ?thesis by blast
qed

end
