(* ===== verification/Device_Properties.thy ===== *)
theory Device_Properties
  imports Device_Flow
begin

text \<open>
  Properties of the device flow: polling ends before the device code has expired, sleeps
  stay within the interval and the deadline, a token is returned only by a live attempt,
  and transient failures are bounded.
\<close>

section \<open>Induction over the cycles\<close>

text \<open>Partial correctness of the loop: what holds of a last cycle and is kept by the others.\<close>

lemma poll_loop_rule [consumes 1, case_names stop sleep]:
  assumes "poll_loop env deadline st = Some (r, st')"
    and stop: "\<And>st r. poll_cycle env deadline st = Stop r \<Longrightarrow> P st r st"
    and sleep: "\<And>st st1 r st'. poll_cycle env deadline st = Sleep st1 \<Longrightarrow> P st1 r st' \<Longrightarrow> P st r st'"
  shows "P st r st'"
proof -
  have "env' = env \<longrightarrow> deadline' = deadline \<longrightarrow> P st (fst y) (snd y)"
    if "poll_loop env' deadline' st = Some y" for env' deadline' st y
    using that
  proof (rule poll_loop.raw_induct [rotated])
    fix f e d s z
    assume IH: "\<And>e' d' s' z'. f e' d' s' = Some z' \<Longrightarrow> e' = env \<longrightarrow> d' = deadline \<longrightarrow> P s' (fst z') (snd z')"
      and body: "(case poll_cycle e d s of Stop r \<Rightarrow> Some (r, s) | Sleep st1 \<Rightarrow> f e d st1) = Some z"
    show "e = env \<longrightarrow> d = deadline \<longrightarrow> P s (fst z) (snd z)"
    proof (intro impI)
      assume eq: "e = env" "d = deadline"
      show "P s (fst z) (snd z)"
      proof (cases "poll_cycle e d s")
        case (Stop r)
        with body eq show ?thesis by (auto intro: stop)
      next
        case (Sleep st1)
        with body IH eq have "P st1 (fst z) (snd z)" by simp
        with Sleep eq show ?thesis by (auto intro: sleep)
      qed
    qed
  qed
  from this [OF assms(1)] show ?thesis by simp
qed

text \<open>What a cycle that goes on does to the state.\<close>

lemma poll_cycle_keeps:
  fixes env :: "'tok flow_env"
  assumes "poll_cycle env deadline st = Sleep st'" and "1 \<le> ps_interval st"
    and "0 \<le> fe_poll_time env (ps_cycle st)"
    and "\<And>d. 0 < d \<Longrightarrow> d \<le> fe_sleep_time env (ps_cycle st) d"
  shows "ps_cycle st' = Suc (ps_cycle st)" "1 \<le> ps_interval st'" "ps_failures st' < max_network_failures"
    "ps_now st < deadline" "ps_interval st' \<le> max (ps_interval st) 60"
    "ps_now st + 1 \<le> ps_now st' \<or> deadline \<le> ps_now st'"
    "\<exists>d. ps_sleeps st' = ps_sleeps st @ [d] \<and> 0 < d \<and> d \<le> of_int (ps_interval st')
       \<and> ps_now st + d \<le> deadline \<and> ps_now st + d \<le> ps_now st'"
proof -
  from assms(1) obtain o1 :: "'tok poll_outcome" where o1: "po_status o1 \<in> {Pending, Slow_down, Network_error}"
    and w: "wait_for_next env deadline (po_status o1) (po_detail o1) st = Sleep st'"
    by (rule poll_cycle_Sleep) blast
  from w obtain now d where now: "now = ps_now st + fe_poll_time env (ps_cycle st)" "now < deadline"
    and d: "d = min (of_int (next_interval (po_status o1) (ps_interval st))) (deadline - now)"
    and st': "st' = \<lparr>ps_cycle = ps_cycle st + 1, ps_interval = next_interval (po_status o1) (ps_interval st),
            ps_failures = next_failures (po_status o1) (ps_failures st),
            ps_now = now + (if d > 0 then fe_sleep_time env (ps_cycle st) d else 0),
            ps_sleeps = ps_sleeps st @ (if d > 0 then [d] else [])\<rparr>"
    and f: "po_status o1 = Network_error \<longrightarrow> next_failures (po_status o1) (ps_failures st) < max_network_failures"
    by (rule wait_for_next_Sleep) blast
  have i: "1 \<le> next_interval (po_status o1) (ps_interval st)" using assms(2) by simp
  then have ri: "(1 :: rat) \<le> of_int (next_interval (po_status o1) (ps_interval st))" by simp
  with now(2) d have pos: "0 < d" by auto
  show "ps_cycle st' = Suc (ps_cycle st)" "1 \<le> ps_interval st'" using i st' by simp_all
  show "ps_failures st' < max_network_failures"
    using f st' by (cases "po_status o1 = Network_error") (simp_all add: next_failures_def max_network_failures_def)
  show "ps_now st < deadline" using now assms(3) by simp
  show "ps_interval st' \<le> max (ps_interval st) 60"
    using st' by (simp add: next_interval_def min_le_iff_disj)
  have slept: "d \<le> fe_sleep_time env (ps_cycle st) d" using assms(4) pos by simp
  show "ps_now st + 1 \<le> ps_now st' \<or> deadline \<le> ps_now st'"
    using slept pos now assms(3) d ri st' by (auto simp: min_def split: if_splits)
  show "\<exists>d. ps_sleeps st' = ps_sleeps st @ [d] \<and> 0 < d \<and> d \<le> of_int (ps_interval st')
       \<and> ps_now st + d \<le> deadline \<and> ps_now st + d \<le> ps_now st'"
    using pos st' d now assms(3) slept by auto
qed

text \<open>A clock that moves: polls take no negative time, sleeps at least what was asked.\<close>

definition clock_ok :: "'tok flow_env \<Rightarrow> bool" where
  "clock_ok env \<longleftrightarrow> (\<forall>k. 0 \<le> fe_poll_time env k) \<and> (\<forall>k d. 0 < d \<longrightarrow> d \<le> fe_sleep_time env k d)"

lemma poll_loop_returns:
  assumes "clock_ok env" and "1 \<le> ps_interval st" and "deadline - ps_now st \<le> of_nat n"
  shows "\<exists>r st'. poll_loop env deadline st = Some (r, st') \<and> ps_cycle st' \<le> ps_cycle st + n"
  using assms(2,3)
proof (induction n arbitrary: st)
  case 0
  show ?case
  proof (cases "poll_cycle env deadline st")
    case (Stop r)
    then show ?thesis by (subst poll_loop.simps) simp
  next
    case (Sleep st1)
    from poll_cycle_keeps(4) [OF Sleep 0(1)] assms(1) 0(2) show ?thesis by (simp add: clock_ok_def)
  qed
next
  case (Suc n)
  show ?case
  proof (cases "poll_cycle env deadline st")
    case (Stop r)
    then show ?thesis by (subst poll_loop.simps) simp
  next
    case (Sleep st1)
    note keep = poll_cycle_keeps [OF Sleep Suc.prems(1)]
    from assms(1) keep have st1: "1 \<le> ps_interval st1" "ps_cycle st1 = Suc (ps_cycle st)"
      "deadline - ps_now st1 \<le> of_nat n"
      using Suc.prems(2) by (auto simp: clock_ok_def)
    from Suc.IH [OF st1(1,3)] obtain r st' where
      "poll_loop env deadline st1 = Some (r, st')" "ps_cycle st' \<le> ps_cycle st1 + n" by blast
    with Sleep st1(2) show ?thesis by (subst poll_loop.simps) auto
  qed
qed

section \<open>A sample flow\<close>

definition sample_device :: json where
  "sample_device = JObj [(''device_code'', JStr ''dc''), (''user_code'', JStr ''UC''),
     (''verification_uri'', JStr ''https://kc/device''), (''expires_in'', JInt 90), (''interval'', JStr ''7'')]"

definition sample_flow :: "string flow_env" where
  "sample_flow =
     \<lparr>fe_answer = (\<lambda>k. if k = 0 then HttpNetworkError ''reset''
        else if k = 1 then HttpResponse 400 True (Some (JObj [(''error'', JStr ''slow_down'')]))
        else if k = 2 then HttpResponse 400 True (Some (JObj [(''error'', JStr ''authorization_pending'')]))
        else HttpResponse 200 True (Some (JStr ''token''))),
      fe_validate = (\<lambda>v. case v of JStr s \<Rightarrow> Inr s | _ \<Rightarrow> Inl ''invalid''),
      fe_cancel = (\<lambda>_. None), fe_superseded_before = (\<lambda>_. False), fe_superseded_after = (\<lambda>_. False),
      fe_on_status = (\<lambda>_ _. None), fe_poll_time = (\<lambda>_. 1), fe_sleep_time = (\<lambda>_ d. d)\<rparr>"

definition dead_flow :: "string flow_env" where
  "dead_flow = sample_flow\<lparr>fe_answer := (\<lambda>_. HttpNetworkError ''down'')\<rparr>"

definition sample_dev :: device_response where
  "sample_dev = \<lparr>dv_device_code = ''dc'', dv_user_code = ''UC'', dv_verification_uri = ''https://kc/device'',
     dv_verification_uri_complete = None, dv_expires_in = 90, dv_interval = 7\<rparr>"

lemma sample_device_parses: "device_from_dict sample_device = Inr sample_dev"
  by code_simp

lemma sample_clock: "clock_ok sample_flow" "clock_ok dead_flow"
  by (simp_all add: clock_ok_def sample_flow_def dead_flow_def)

section \<open>Termination and bounds\<close>

text \<open>
  C30: Polling ends. For every device response the parser accepts and a clock on which polls
  take no negative time and sleeps at least what was asked, \<open>poll_for_token\<close> returns, after at
  most \<open>expires_in + 1\<close> polls, whatever the server answers.
\<close>

theorem poll_for_token_returns:
  assumes "device_from_dict v = Inr dev" and "clock_ok env"
  shows "\<exists>r st. poll_for_token env dev t0 = Some (r, st) \<and> int (ps_cycle st) \<le> dv_expires_in dev"
proof -
  from device_from_dict_bounds [OF assms(1)] have b: "60 \<le> dv_expires_in dev" "1 \<le> dv_interval dev" by simp_all
  then have left: "t0 + of_int (dv_expires_in dev) - ps_now (start_polling dev t0) \<le> of_nat (nat (dv_expires_in dev))"
    by (simp add: start_polling_def)
  have i: "1 \<le> ps_interval (start_polling dev t0)" using b by (simp add: start_polling_def)
  from poll_loop_returns [OF assms(2) i left] obtain r st where
    "poll_for_token env dev t0 = Some (r, st)" "ps_cycle st \<le> nat (dv_expires_in dev)"
    by (auto simp: poll_for_token_def start_polling_def)
  then show ?thesis using b by (intro exI conjI) auto
qed

theorem poll_for_token_returns_witness:
  "\<exists>r st. poll_for_token dead_flow sample_dev 0 = Some (r, st)"
  using poll_for_token_returns [OF sample_device_parses sample_clock(2)] by blast

text \<open>
  Sleeps are within bounds: each is positive and at most the larger of the server's
  interval and 60 seconds, one follows every poll but the last, and together they do not
  pass the deadline.
\<close>

theorem poll_sleeps_bounded:
  assumes "poll_for_token env dev t0 = Some (r, st)" and "clock_ok env"
    and "1 \<le> dv_interval dev" and "0 \<le> dv_expires_in dev"
  shows "list_all (\<lambda>d. 0 < d \<and> d \<le> of_int (max (dv_interval dev) 60)) (ps_sleeps st)
    \<and> length (ps_sleeps st) = ps_cycle st \<and> sum_list (ps_sleeps st) \<le> of_int (dv_expires_in dev)"
proof -
  have "1 \<le> ps_interval s \<longrightarrow> (\<exists>ds. ps_sleeps s' = ps_sleeps s @ ds
      \<and> list_all (\<lambda>d. 0 < d \<and> d \<le> of_int (max (ps_interval s) 60)) ds
      \<and> ps_cycle s' = ps_cycle s + length ds \<and> sum_list ds \<le> max 0 (deadline - ps_now s))"
    if "poll_loop env deadline s = Some (q, s')" for deadline s q s'
    using that
  proof (induction rule: poll_loop_rule)
    case (stop s q)
    then show ?case by (intro impI exI [of _ "[]"]) simp
  next
    case (sleep s s1 q s')
    show ?case
    proof
      assume i: "1 \<le> ps_interval s"
      note keep = poll_cycle_keeps [OF sleep(1) i]
      from keep(7) assms(2) obtain d where d: "ps_sleeps s1 = ps_sleeps s @ [d]" "0 < d"
        "d \<le> of_int (ps_interval s1)" "ps_now s + d \<le> deadline" "ps_now s + d \<le> ps_now s1"
        by (auto simp: clock_ok_def)
      from keep(1,2,5) assms(2) have k: "ps_cycle s1 = Suc (ps_cycle s)" "1 \<le> ps_interval s1"
        "ps_interval s1 \<le> max (ps_interval s) 60" by (simp_all add: clock_ok_def)
      from sleep(2) k(2) obtain ds where ds: "ps_sleeps s' = ps_sleeps s1 @ ds"
        "list_all (\<lambda>d. 0 < d \<and> d \<le> of_int (max (ps_interval s1) 60)) ds"
        "ps_cycle s' = ps_cycle s1 + length ds" "sum_list ds \<le> max 0 (deadline - ps_now s1)" by blast
      have mono: "(of_int (max (ps_interval s1) 60) :: rat) \<le> of_int (max (ps_interval s) 60)"
        using k(3) by (simp only: of_int_le_iff)
      have "(of_int (ps_interval s1) :: rat) \<le> of_int (max (ps_interval s) 60)"
        using k(3) by (simp only: of_int_le_iff)
      with d(3) have "d \<le> of_int (max (ps_interval s) 60)" by (rule order_trans)
      with ds d k mono show "\<exists>ds. ps_sleeps s' = ps_sleeps s @ ds
          \<and> list_all (\<lambda>d. 0 < d \<and> d \<le> of_int (max (ps_interval s) 60)) ds
          \<and> ps_cycle s' = ps_cycle s + length ds \<and> sum_list ds \<le> max 0 (deadline - ps_now s)"
        by (intro exI [of _ "d # ds"]) (auto simp: list_all_iff intro: order_trans)
    qed
  qed
  from this [OF assms(1) [unfolded poll_for_token_def]] assms(3,4) show ?thesis
    by (auto simp: start_polling_def)
qed

theorem poll_sleeps_bounded_witness:
  "\<exists>r st. poll_for_token sample_flow sample_dev 0 = Some (r, st) \<and> sum_list (ps_sleeps st) \<le> 90"
proof -
  from poll_for_token_returns [OF sample_device_parses sample_clock(1)] obtain r st where
    "poll_for_token sample_flow sample_dev 0 = Some (r, st)" by blast
  with poll_sleeps_bounded [OF this sample_clock(1)] show ?thesis by (simp add: sample_dev_def)
qed

section \<open>Tokens and failures\<close>

lemma poll_loop_token_live:
  assumes "poll_for_token env dev t0 = Some (Inr tok, st)"
  shows "(\<forall>k \<le> ps_cycle st. fe_cancel env k = None \<and> \<not> fe_superseded_before env k)
    \<and> \<not> fe_superseded_after env (ps_cycle st)
    \<and> (\<exists>body c. fe_answer env (ps_cycle st) = HttpResponse 200 c (Some body) \<and> fe_validate env body = Inr tok)"
proof -
  have "ps_cycle s \<le> ps_cycle s' \<and> (q = Inr tok \<longrightarrow>
      (\<forall>k \<in> {ps_cycle s..ps_cycle s'}. fe_cancel env k = None \<and> \<not> fe_superseded_before env k)
      \<and> \<not> fe_superseded_after env (ps_cycle s')
      \<and> (\<exists>body c. fe_answer env (ps_cycle s') = HttpResponse 200 c (Some body) \<and> fe_validate env body = Inr tok))"
    if "poll_loop env deadline s = Some (q, s')" for deadline s q s'
    using that
  proof (induction rule: poll_loop_rule)
    case (stop s q)
    then show ?case using poll_cycle_token by fastforce
  next
    case (sleep s s1 q s')
    from sleep(1) have here: "fe_cancel env (ps_cycle s) = None" "\<not> fe_superseded_before env (ps_cycle s)"
      by (auto elim: poll_cycle_Sleep)
    have next1: "ps_cycle s1 = Suc (ps_cycle s)"
      using sleep(1) by (auto elim!: poll_cycle_Sleep wait_for_next_Sleep)
    have "{ps_cycle s..ps_cycle s'} = insert (ps_cycle s) {ps_cycle s1..ps_cycle s'}"
      using sleep(2) next1 by auto
    with sleep(2) here next1 show ?case by auto
  qed
  from this [OF assms [unfolded poll_for_token_def]] show ?thesis by (simp add: start_polling_def)
qed

text \<open>
  A token is returned only by a live attempt: in the cycle that returns it the cancel
  token was not set and the attempt not superseded, before or after the poll, and the
  token is the validated body of an HTTP 200; in no earlier cycle was the attempt cancelled
  or superseded as the cycle started.
\<close>

theorem poll_token_safe:
  assumes "poll_for_token env dev t0 = Some (Inr tok, st)"
  shows "(\<forall>k \<le> ps_cycle st. fe_cancel env k = None \<and> \<not> fe_superseded_before env k)
    \<and> \<not> fe_superseded_after env (ps_cycle st)
    \<and> (\<exists>body c. fe_answer env (ps_cycle st) = HttpResponse 200 c (Some body) \<and> fe_validate env body = Inr tok)"
  using poll_loop_token_live [OF assms] .

theorem poll_token_safe_witness:
  "\<exists>st. poll_for_token sample_flow sample_dev 0 = Some (Inr ''token'', st)
     \<and> (\<forall>k \<le> ps_cycle st. fe_cancel sample_flow k = None)"
proof -
  have "\<exists>st. poll_for_token sample_flow sample_dev 0 = Some (Inr ''token'', st)"
    unfolding poll_for_token_def
    by (subst poll_loop.simps, simp add: sample_flow_def sample_dev_def start_polling_def poll_cycle_def
        poll_once_def outcome_of_def wait_for_next_def next_interval_def next_failures_def oauth_error_def
        max_network_failures_def slow_down_increment_def json_simps py_strip_def py_lstrip_def py_isspace_def code_of_def Let_def)+
  then obtain st where tok: "poll_for_token sample_flow sample_dev 0 = Some (Inr ''token'', st)" by blast
  from poll_token_safe [OF this] tok show ?thesis by blast
qed

text \<open>The poll of a cycle was a transient failure.\<close>

definition network_poll :: "'tok flow_env \<Rightarrow> nat \<Rightarrow> bool" where
  "network_poll env k =
     (case poll_once (fe_validate env) (fe_answer env k) of
        Inr o1 \<Rightarrow> po_status o1 = Network_error | Inl _ \<Rightarrow> False)"

lemma poll_cycle_network:
  assumes "poll_cycle env deadline st = Stop (Inl (DeviceNetworkError d))"
  shows "network_poll env (ps_cycle st) \<and> max_network_failures \<le> ps_failures st + 1"
proof -
  have w: "s = Network_error \<and> max_network_failures \<le> ps_failures st + 1"
    if "wait_for_next env deadline s detail st = Stop (Inl (DeviceNetworkError d))" for s detail
    using that by (auto simp: wait_for_next_def Let_def next_failures_def split: if_splits)
  from assms show ?thesis
    by (auto simp: poll_cycle_def network_poll_def
        split: option.splits if_splits sum.splits device_poll_status.splits dest!: w)
qed

text \<open>
  Transient failures are bounded: polling gives up with a network error only after three
  polls in a row failed, the last one included.
\<close>

theorem poll_network_failures:
  assumes "poll_for_token env dev t0 = Some (Inl (DeviceNetworkError d), st)"
  shows "2 \<le> ps_cycle st \<and> (\<forall>k. ps_cycle st \<le> k + 2 \<and> k \<le> ps_cycle st \<longrightarrow> network_poll env k)"
proof -
  let ?tail = "\<lambda>s. ps_failures s \<le> ps_cycle s \<and>
    (\<forall>k. ps_cycle s \<le> k + ps_failures s \<and> k < ps_cycle s \<longrightarrow> network_poll env k)"
  have "?tail s \<longrightarrow> q = Inl (DeviceNetworkError d) \<longrightarrow>
      2 \<le> ps_cycle s' \<and> (\<forall>k. ps_cycle s' \<le> k + 2 \<and> k \<le> ps_cycle s' \<longrightarrow> network_poll env k)"
    if "poll_loop env deadline s = Some (q, s')" for deadline s q s'
    using that
  proof (induction rule: poll_loop_rule)
    case (stop s q)
    show ?case
    proof (intro impI)
      assume tail: "?tail s" and "q = Inl (DeviceNetworkError d)"
      with stop have *: "network_poll env (ps_cycle s)" "2 \<le> ps_failures s"
        using poll_cycle_network [of env deadline s d] by (simp_all add: max_network_failures_def)
      with tail show "2 \<le> ps_cycle s \<and> (\<forall>k. ps_cycle s \<le> k + 2 \<and> k \<le> ps_cycle s \<longrightarrow> network_poll env k)"
        by (auto simp: le_less)
    qed
  next
    case (sleep s s1 q s')
    from sleep(1) obtain o1 :: "'a poll_outcome" where o1:
      "poll_once (fe_validate env) (fe_answer env (ps_cycle s)) = Inr o1"
      "wait_for_next env deadline (po_status o1) (po_detail o1) s = Sleep s1"
      by (rule poll_cycle_Sleep) blast
    from o1(2) have s1: "ps_cycle s1 = Suc (ps_cycle s)" "ps_failures s1 = next_failures (po_status o1) (ps_failures s)"
      by (auto elim!: wait_for_next_Sleep)
    have "?tail s \<longrightarrow> ?tail s1"
      using o1(1) s1 by (auto simp: next_failures_def network_poll_def less_Suc_eq)
    with sleep(2) show ?case by blast
  qed
  from this [OF assms [unfolded poll_for_token_def]] show ?thesis by (simp add: start_polling_def)
qed

theorem poll_network_failures_witness:
  "\<exists>d st. poll_for_token dead_flow sample_dev 0 = Some (Inl (DeviceNetworkError d), st)
     \<and> network_poll dead_flow (ps_cycle st)"
proof -
  have "\<exists>d st. poll_for_token dead_flow sample_dev 0 = Some (Inl (DeviceNetworkError d), st)"
    unfolding poll_for_token_def
    by (subst poll_loop.simps, simp add: dead_flow_def sample_flow_def sample_dev_def start_polling_def
        poll_cycle_def poll_once_def outcome_of_def wait_for_next_def next_interval_def next_failures_def
        max_network_failures_def slow_down_increment_def Let_def)+
  then obtain d st where stop: "poll_for_token dead_flow sample_dev 0 = Some (Inl (DeviceNetworkError d), st)" by blast
  from poll_network_failures [OF this] stop show ?thesis by (intro exI [of _ d] exI [of _ st]) simp
qed

text \<open>
  \<open>slow_down\<close> adds five seconds only up to an interval of 55: the cap of 60 makes the
  interval of a slower server shorter.
\<close>

lemma slow_down_interval:
  "i + 5 \<le> next_interval Slow_down i \<longleftrightarrow> i \<le> 55"
  "next_interval Slow_down i < i \<longleftrightarrow> 60 < i"
  by (auto simp: next_interval_def slow_down_increment_def)

end
