(* ===== verification/Auth_State.thy ===== *)
theory Auth_State
  imports Device_Flow
begin

text \<open>
  Login attempts and sign-out (\<open>sdk_client_25/auth_state.py\<close>). Every registry method runs
  under its lock, so it is one step on the registry. Sign-out acts on a world of the stored
  session, the registry and the extra paths, a small file tree.
\<close>

section \<open>The attempt registry\<close>

record auth_attempt =
  at_attempt_id :: string
  at_flow :: string
  at_created_at :: string
  at_superseded :: bool
  at_completed :: bool

record attempt_registry =
  ar_attempts :: "(string \<times> auth_attempt) list"
  ar_active :: "string option"

definition attempt_safe_summary :: "auth_attempt \<Rightarrow> dict" where
  "attempt_safe_summary a =
     [(''attempt_id'', JStr (at_attempt_id a)), (''flow'', JStr (at_flow a)),
      (''created_at'', JStr (at_created_at a)), (''superseded'', JBool (at_superseded a)),
      (''completed'', JBool (at_completed a))]"

definition new_registry :: attempt_registry where
  "new_registry = \<lparr>ar_attempts = [], ar_active = None\<rparr>"

definition supersede :: "auth_attempt \<Rightarrow> auth_attempt" where
  "supersede a = (if at_completed a then a else a\<lparr>at_superseded := True\<rparr>)"

text \<open>\<open>start\<close> with the id \<open>uuid4\<close> draws and the current time.\<close>

definition start_attempt ::
    "string \<Rightarrow> string \<Rightarrow> string \<Rightarrow> attempt_registry \<Rightarrow> auth_attempt \<times> attempt_registry" where
  "start_attempt uid now flow reg =
     (let attempt = \<lparr>at_attempt_id = uid, at_flow = flow, at_created_at = now,
                     at_superseded = False, at_completed = False\<rparr>
      in (attempt,
          \<lparr>ar_attempts = dict_set uid attempt (map (\<lambda>(k, a). (k, supersede a)) (ar_attempts reg)),
           ar_active = Some uid\<rparr>))"

definition is_superseded :: "attempt_registry \<Rightarrow> string \<Rightarrow> bool" where
  "is_superseded reg aid =
     (case dict_get (ar_attempts reg) aid of None \<Rightarrow> True | Some a \<Rightarrow> at_superseded a)"

text \<open>\<open>KeyError\<close> if the active attempt is not in the dictionary.\<close>

definition is_active_attempt :: "attempt_registry \<Rightarrow> string \<Rightarrow> string + bool" where
  "is_active_attempt reg aid =
     (if ar_active reg \<noteq> Some aid then Inr False
      else (case dict_get (ar_attempts reg) aid of
              None \<Rightarrow> Inl ''KeyError'' | Some a \<Rightarrow> Inr (\<not> at_superseded a)))"

definition modify_attempt :: "(auth_attempt \<Rightarrow> auth_attempt) \<Rightarrow> string \<Rightarrow> attempt_registry \<Rightarrow> attempt_registry" where
  "modify_attempt f aid reg =
     (case dict_get (ar_attempts reg) aid of
        None \<Rightarrow> reg
      | Some a \<Rightarrow> reg\<lparr>ar_attempts := dict_set aid (f a) (ar_attempts reg)\<rparr>)"

definition complete_attempt :: "string \<Rightarrow> attempt_registry \<Rightarrow> attempt_registry" where
  "complete_attempt = modify_attempt (\<lambda>a. a\<lparr>at_completed := True\<rparr>)"

definition cancel_attempt :: "string \<Rightarrow> attempt_registry \<Rightarrow> attempt_registry" where
  "cancel_attempt = modify_attempt (\<lambda>a. a\<lparr>at_superseded := True, at_completed := True\<rparr>)"

definition cancel_one :: "auth_attempt \<Rightarrow> auth_attempt" where
  "cancel_one a = (if at_completed a then a else a\<lparr>at_superseded := True, at_completed := True\<rparr>)"

definition cancel_all :: "attempt_registry \<Rightarrow> string list \<times> attempt_registry" where
  "cancel_all reg =
     (map (at_attempt_id \<circ> snd) (filter (\<lambda>(k, a). \<not> at_completed a) (ar_attempts reg)),
      \<lparr>ar_attempts = map (\<lambda>(k, a). (k, cancel_one a)) (ar_attempts reg), ar_active = None\<rparr>)"

section \<open>Extra paths\<close>

text \<open>
  A file may refuse to be unlinked; a directory may refuse to be listed or to be removed.
\<close>

datatype fs_node = FileNode bool | DirNode bool bool "(string \<times> fs_node) list"

text \<open>\<open>_rm_tree\<close>: what is left of a child, each failure swallowed.\<close>

fun rm_node :: "fs_node \<Rightarrow> fs_node option" and
    rm_children :: "(string \<times> fs_node) list \<Rightarrow> (string \<times> fs_node) list" where
  "rm_node (FileNode deletable) = (if deletable then None else Some (FileNode deletable))"
| "rm_node (DirNode listable removable cs) =
     (if \<not> listable then Some (DirNode listable removable cs)
      else (case rm_children cs of
              [] \<Rightarrow> if removable then None else Some (DirNode listable removable [])
            | c # cs' \<Rightarrow> Some (DirNode listable removable (c # cs'))))"
| "rm_children [] = []"
| "rm_children ((nm, c) # cs) =
     (case rm_node c of None \<Rightarrow> rm_children cs | Some c' \<Rightarrow> (nm, c') # rm_children cs)"

text \<open>
  The cleanup of one extra path: whether it is reported as cleared, and what is left.
\<close>

definition clear_path :: "fs_node option \<Rightarrow> bool \<times> fs_node option" where
  "clear_path nd =
     (case nd of
        None \<Rightarrow> (False, None)
      | Some (FileNode deletable) \<Rightarrow> if deletable then (True, None) else (False, nd)
      | Some (DirNode listable removable cs) \<Rightarrow>
          if listable then (True, rm_node (DirNode listable removable cs)) else (False, nd))"

section \<open>Sign-out\<close>

record login_session =
  se_access_token :: string
  se_refresh_token :: "string option"

record auth_world =
  aw_session :: "login_session option"
  aw_registry :: attempt_registry
  aw_paths :: "(string \<times> fs_node option) list"

text \<open>
  What sign-out meets: whether loading the store raises, whether clearing it raises and with
  which text, and the answer to a revocation by token type.
\<close>

record signout_env =
  so_load_raises :: bool
  so_clear_raises :: "string option"
  so_revocation_endpoint :: "string option"
  so_client_id :: "string option"
  so_answer :: "string \<Rightarrow> string \<Rightarrow> http_answer"

record logout_result =
  lo_success :: bool
  lo_revoked_refresh_token :: bool
  lo_revoked_access_token :: bool
  lo_cleared_credential_store :: bool
  lo_cleared_pending_attempts :: "string list"
  lo_cleared_extra_paths :: "string list"
  lo_error_message :: "string option"
  lo_correlation_id :: string

definition revoke :: "signout_env \<Rightarrow> string \<Rightarrow> string \<Rightarrow> string + (bool \<times> string option)" where
  "revoke env token hint =
     (if \<not> opt_truthy (so_revocation_endpoint env) \<or> \<not> opt_truthy (so_client_id env)
      then Inr (False, None)
      else
        (case so_answer env token hint of
           HttpNetworkError e \<Rightarrow> Inr (False, Some (''revocation network error: '' @ e))
         | HttpOtherError cls \<Rightarrow> Inl cls
         | HttpResponse status _ _ \<Rightarrow>
             if status = 200 \<or> status = 204 then Inr (True, None)
             else Inr (False, Some (''revocation HTTP '' @ str_int status))))"

text \<open>
  Step 1 of \<open>sign_out\<close>: the refresh token, then the access token; the first error is kept.
  The result is whether each was revoked and the error.
\<close>

definition first_error :: "string option \<Rightarrow> bool \<Rightarrow> string option \<Rightarrow> string option" where
  "first_error old ok err = (if \<not> ok \<and> opt_truthy err \<and> \<not> opt_truthy old then err else old)"

definition revoke_tokens ::
    "signout_env \<Rightarrow> login_session option \<Rightarrow> string + (bool \<times> bool \<times> string option)" where
  "revoke_tokens env session =
     (case session of
        None \<Rightarrow> Inr (False, False, None)
      | Some s \<Rightarrow>
          if \<not> opt_truthy (so_revocation_endpoint env) \<or> \<not> opt_truthy (so_client_id env)
          then Inr (False, False, None)
          else
            (case (if opt_truthy (se_refresh_token s)
                   then revoke env (the (se_refresh_token s)) ''refresh_token''
                   else Inr (False, None)) of
               Inl cls \<Rightarrow> Inl cls
             | Inr (ok1, err1) \<Rightarrow>
                 let e1 = first_error None ok1 err1
                 in (case (if se_access_token s \<noteq> [] then revoke env (se_access_token s) ''access_token''
                           else Inr (False, None)) of
                       Inl cls \<Rightarrow> Inl cls
                     | Inr (ok2, err2) \<Rightarrow> Inr (ok1, ok2, first_error e1 ok2 err2))))"

definition loaded_session :: "signout_env \<Rightarrow> auth_world \<Rightarrow> login_session option" where
  "loaded_session env w = (if so_load_raises env then None else aw_session w)"

definition sign_out :: "signout_env \<Rightarrow> string \<Rightarrow> auth_world \<Rightarrow> (string + logout_result) \<times> auth_world" where
  "sign_out env cid w =
     (case revoke_tokens env (loaded_session env w) of
        Inl cls \<Rightarrow> (Inl cls, w)
      | Inr (refresh, access, err) \<Rightarrow>
          (let (cancelled, reg') = cancel_all (aw_registry w);
               cleared = (so_clear_raises env = None);
               session' = (if cleared then None else aw_session w);
               err' = (case so_clear_raises env of
                         Some e \<Rightarrow> if \<not> opt_truthy err then Some (''credential clear failed: '' @ e) else err
                       | None \<Rightarrow> err);
               paths = map (\<lambda>(p, nd). (p, clear_path nd)) (aw_paths w)
           in (Inr \<lparr>lo_success = (cleared \<and> err' = None), lo_revoked_refresh_token = refresh,
                    lo_revoked_access_token = access, lo_cleared_credential_store = cleared,
                    lo_cleared_pending_attempts = cancelled,
                    lo_cleared_extra_paths = map fst (filter (\<lambda>(p, ok, left). ok) paths),
                    lo_error_message = err', lo_correlation_id = cid\<rparr>,
               \<lparr>aw_session = session', aw_registry = reg',
                aw_paths = map (\<lambda>(p, ok, left). (p, left)) paths\<rparr>)))"

definition logout_safe_dict :: "logout_result \<Rightarrow> dict" where
  "logout_safe_dict r =
     (let str = (\<lambda>v. case v of None \<Rightarrow> JNull | Some s \<Rightarrow> JStr s)
      in [(''success'', JBool (lo_success r)),
          (''revoked_refresh_token'', JBool (lo_revoked_refresh_token r)),
          (''revoked_access_token'', JBool (lo_revoked_access_token r)),
          (''cleared_credential_store'', JBool (lo_cleared_credential_store r)),
          (''cleared_pending_attempts'', JList (map JStr (lo_cleared_pending_attempts r))),
          (''cleared_extra_paths'', JList (map JStr (lo_cleared_extra_paths r))),
          (''error_message'', str (lo_error_message r)),
          (''correlation_id'', JStr (lo_correlation_id r))])"

end
