(* ===== verification/Auth_Selection.thy ===== *)
theory Auth_Selection
  imports Keyhole_Prelude
begin

text \<open>
  The choice of an interactive login flow (\<open>sdk_client_25/flow_selection.py\<close>) and the
  comparison of two server-resolved identities (\<open>identity_match.py\<close>).
\<close>

section \<open>Flow selection\<close>

datatype auth_flow_name = DEVICE_AUTHORIZATION | AUTHORIZATION_CODE_PKCE

fun auth_flow_value :: "auth_flow_name \<Rightarrow> string" where
  "auth_flow_value DEVICE_AUTHORIZATION = ''device_authorization''"
| "auth_flow_value AUTHORIZATION_CODE_PKCE = ''authorization_code_pkce''"

definition forbidden_flows :: "string set" where
  "forbidden_flows =
     {''custom_magic_link_queue'', ''magic_link_queue'', ''mcp_magic_link'', ''password'', ''ropc''}"

record auth_flow_decision =
  fd_flow :: auth_flow_name
  fd_reason :: string
  fd_considered :: "string list"
  fd_preferred :: string

record unsupported_flow =
  uf_message :: string
  uf_advertised :: "string list"
  uf_repair_suggestions :: "string list"

definition flow_safe_dict :: "auth_flow_decision \<Rightarrow> dict" where
  "flow_safe_dict d =
     [(''flow'', JStr (auth_flow_value (fd_flow d))), (''reason'', JStr (fd_reason d)),
      (''considered'', JList (map JStr (fd_considered d))), (''preferred'', JStr (fd_preferred d))]"

text \<open>The advertised flows and the preferred one; each may be missing.\<close>

definition select_auth_flow ::
    "string list option \<Rightarrow> string option \<Rightarrow> bool \<Rightarrow> unsupported_flow + auth_flow_decision" where
  "select_auth_flow supported preferred_flow allow_pkce =
     (let advertised = (case supported of None \<Rightarrow> [] | Some fs \<Rightarrow> fs);
          preferred = py_strip (case preferred_flow of None \<Rightarrow> [] | Some p \<Rightarrow> p);
          safe_flows = filter (\<lambda>f. f \<notin> forbidden_flows) advertised;
          decide = (\<lambda>flow reason. Inr \<lparr>fd_flow = flow, fd_reason = reason,
                                        fd_considered = advertised, fd_preferred = preferred\<rparr>)
      in if preferred = auth_flow_value DEVICE_AUTHORIZATION
            \<and> auth_flow_value DEVICE_AUTHORIZATION \<in> set safe_flows
         then decide DEVICE_AUTHORIZATION ''server_preferred_device_authorization''
         else if auth_flow_value DEVICE_AUTHORIZATION \<in> set safe_flows
         then decide DEVICE_AUTHORIZATION ''device_authorization_advertised''
         else if auth_flow_value AUTHORIZATION_CODE_PKCE \<in> set safe_flows
         then decide AUTHORIZATION_CODE_PKCE ''pkce_fallback_advertised''
         else if advertised = [] \<and> allow_pkce
         then decide AUTHORIZATION_CODE_PKCE ''pkce_fallback_capabilities_unavailable''
         else Inl \<lparr>uf_message = ''No supported interactive auth flow is advertised by the boundary.'',
                   uf_advertised = advertised,
                   uf_repair_suggestions =
                     [''Re-discover capabilities: GET /mcp/v1/capabilities'',
                      ''Ensure the server advertises '' @ [CHR 0x27] @ ''device_authorization'' @ [CHR 0x27] @ '' or '' @
                        [CHR 0x27] @ ''authorization_code_pkce'' @ [CHR 0x27] @ '' in auth.supported_flows.'',
                      ''Contact your Keyhole administrator if the boundary is '' @
                        ''configured for an unsupported auth model.'']\<rparr>)"

section \<open>Identity comparison\<close>

text \<open>
  \<open>==\<close> on JSON values: numbers and booleans compare by value, objects by their entries.
\<close>

fun num_value :: "json \<Rightarrow> rat option" where
  "num_value (JBool b) = Some (if b then 1 else 0)"
| "num_value (JInt i) = Some (of_int i)"
| "num_value (JFloat r) = Some r"
| "num_value _ = None"

fun scalar_eq :: "json \<Rightarrow> json \<Rightarrow> bool" where
  "scalar_eq (JStr s) (JStr t) = (s = t)"
| "scalar_eq JNull JNull = True"
| "scalar_eq a b = (case num_value a of None \<Rightarrow> False | Some x \<Rightarrow> num_value b = Some x)"

lemma size_member: "x \<in> set xs \<Longrightarrow> size x < Suc (size_list size xs)"
  by (simp add: le_imp_less_Suc size_list_estimation')

lemma size_entry: "(k, v) \<in> set d \<Longrightarrow> size v < Suc (size_list (size_prod (\<lambda>x. 0) size) d)"
  by (rule le_imp_less_Suc) (auto intro!: size_list_estimation' [where x = "(k, v)"])

function (sequential) json_eq :: "json \<Rightarrow> json \<Rightarrow> bool" where
  "json_eq (JList xs) (JList ys) =
     (length xs = length ys \<and> (\<forall>(x, y) \<in> set (zip xs ys). json_eq x y))"
| "json_eq (JObj d) (JObj e) =
     (length d = length e \<and>
      (\<forall>(k, v) \<in> set d. case map_of e k of None \<Rightarrow> False | Some v' \<Rightarrow> json_eq v v'))"
| "json_eq a b = scalar_eq a b"
  by pat_completeness auto

termination
  by (relation "measure (size \<circ> fst)") (auto dest!: set_zip_leftD intro: size_member size_entry)

definition compare_fields :: "string list" where
  "compare_fields = [''user_id'', ''tenant_id'', ''org_id'']"

text \<open>A whoami response or its dictionary, projected; \<open>None\<close> gives the empty dictionary.\<close>

definition coerce_whoami :: "dict option \<Rightarrow> dict" where
  "coerce_whoami w =
     (case w of None \<Rightarrow> [] | Some data \<Rightarrow> map (\<lambda>f. (f, json_get data f)) compare_fields)"

record identity_match_result =
  im_matched :: bool
  im_differing_fields :: "string list"
  im_a_summary :: dict
  im_b_summary :: dict
  im_a_label :: string
  im_b_label :: string

definition identity_safe_dict :: "identity_match_result \<Rightarrow> dict" where
  "identity_safe_dict r =
     [(''matched'', JBool (im_matched r)),
      (''differing_fields'', JList (map JStr (im_differing_fields r))),
      (''a_label'', JStr (im_a_label r)), (''b_label'', JStr (im_b_label r)),
      (''a_summary'', JObj (im_a_summary r)), (''b_summary'', JObj (im_b_summary r))]"

definition warning_text :: "(json \<Rightarrow> string) \<Rightarrow> identity_match_result \<Rightarrow> string" where
  "warning_text fstr r =
     (if im_matched r then []
      else
        let nl = [CHR 10];
            a = fstr (json_or (json_get (im_a_summary r) ''user_id'') (JStr ''<unknown>''));
            b = fstr (json_or (json_get (im_b_summary r) ''user_id'') (JStr ''<unknown>''))
        in ''Detected Keyhole identity mismatch.'' @ nl @ nl @
           im_a_label r @ '' is connected as: '' @ a @ nl @
           im_b_label r @ '' appears connected as: '' @ b @ nl @ nl @
           ''Choose one:'' @ nl @
           ''- Use '' @ im_a_label r @ '' identity'' @ nl @
           ''- Re-authenticate '' @ im_a_label r @ nl @
           ''- Re-authenticate '' @ im_b_label r @ nl)"

definition differs_on :: "dict \<Rightarrow> dict \<Rightarrow> string \<Rightarrow> bool" where
  "differs_on a b f =
     (json_truthy (json_get a f) \<and> json_truthy (json_get b f) \<and> \<not> json_eq (json_get a f) (json_get b f))"

text \<open>\<open>Inl\<close> is \<open>IdentityMismatchError\<close> with its text.\<close>

definition detect_identity_mismatch ::
    "(json \<Rightarrow> string) \<Rightarrow> dict option \<Rightarrow> dict option \<Rightarrow> string \<Rightarrow> string \<Rightarrow> bool \<Rightarrow> string + identity_match_result" where
  "detect_identity_mismatch fstr a b a_label b_label raise_on_mismatch =
     (let sa = coerce_whoami a; sb = coerce_whoami b
      in if sa = [] \<or> sb = [] then
           Inr \<lparr>im_matched = True, im_differing_fields = [], im_a_summary = sa, im_b_summary = sb,
                im_a_label = a_label, im_b_label = b_label\<rparr>
         else
           (let differing = filter (differs_on sa sb) compare_fields;
                r = \<lparr>im_matched = (differing = []), im_differing_fields = differing,
                     im_a_summary = sa, im_b_summary = sb, im_a_label = a_label, im_b_label = b_label\<rparr>
            in if \<not> im_matched r \<and> raise_on_mismatch then Inl (warning_text fstr r) else Inr r))"

end
