(* ===== verification/Diagnostics.thy ===== *)
theory Diagnostics
  imports Keyhole_Prelude
begin

text \<open>
  Redaction and the diagnostic recorder (\<open>sdk_client_25/diagnostics.py\<close>). The three regular
  expressions have no ambiguity (each class excludes the character that must follow it), so
  a match is a chain of greedy spans; \<open>\w\<close> is read on ASCII characters.
\<close>

section \<open>Field tables\<close>

definition redacted :: string where "redacted = ''***redacted***''"

definition secret_fields :: "string list" where
  "secret_fields =
     [''access_token'', ''refresh_token'', ''id_token'', ''device_code'', ''authorization'',
      ''Authorization'', ''client_secret'', ''password'', ''code_verifier'']"

definition link_fields :: "string list" where
  "link_fields = [''verification_uri_complete'', ''magic_link'', ''login_url'']"

definition email_fields :: "string list" where
  "email_fields = [''email'', ''user_email'']"

section \<open>Strings\<close>

text \<open>\<open>value.partition(c)\<close> when the character occurs; \<open>split(c, 1)[0]\<close> is the first part.\<close>

definition until_char :: "char \<Rightarrow> string \<Rightarrow> string" where
  "until_char c = takeWhile (\<lambda>x. x \<noteq> c)"

definition after_char :: "char \<Rightarrow> string \<Rightarrow> string" where
  "after_char c s = tl (dropWhile (\<lambda>x. x \<noteq> c) s)"

definition redact_email :: "string \<Rightarrow> string" where
  "redact_email v =
     (if v = [] \<or> CHR ''@'' \<notin> set v then redacted
      else (if until_char (CHR ''@'') v \<noteq> [] then take 1 (until_char (CHR ''@'') v) @ ''***'' else ''***'')
           @ ''@'' @ after_char (CHR ''@'') v)"

text \<open>\<open>value.index("://")\<close>, as the text before and after the first occurrence.\<close>

fun split_scheme :: "string \<Rightarrow> (string \<times> string) option" where
  "split_scheme [] = None"
| "split_scheme (c # cs) =
     (if take 3 (c # cs) = ''://'' then Some ([], drop 3 (c # cs))
      else map_option (\<lambda>(a, b). (c # a, b)) (split_scheme cs))"

definition redact_link :: "string \<Rightarrow> string" where
  "redact_link v =
     (case split_scheme v of
        None \<Rightarrow> redacted
      | Some (scheme, rest) \<Rightarrow> scheme @ ''://'' @ until_char (CHR ''/'') rest @ ''/<redacted>'')"

section \<open>Regular expressions\<close>

text \<open>
  A matcher gives the matched text and the rest; \<open>re_sub\<close> replaces the leftmost matches.
\<close>

type_synonym matcher = "string \<Rightarrow> (string \<times> string) option"

function re_sub :: "matcher \<Rightarrow> (string \<Rightarrow> string) \<Rightarrow> string \<Rightarrow> string" where
  "re_sub m f [] = []"
| "re_sub m f (c # cs) =
     (case m (c # cs) of
        None \<Rightarrow> c # re_sub m f cs
      | Some (txt, rest) \<Rightarrow>
          if length rest < length (c # cs) then f txt @ re_sub m f rest else c # re_sub m f cs)"
  by pat_completeness auto
termination
  by (relation "measure (\<lambda>(m, f, s). length s)") auto

text \<open>A span of at least \<open>n\<close> characters of a class, and a literal.\<close>

definition m_span :: "(char \<Rightarrow> bool) \<Rightarrow> nat \<Rightarrow> matcher" where
  "m_span p n s = (if n \<le> length (takeWhile p s) then Some (takeWhile p s, dropWhile p s) else None)"

definition m_lit :: "string \<Rightarrow> matcher" where
  "m_lit l s = (if take (length l) s = l then Some (l, drop (length l) s) else None)"

definition m_seq :: "matcher \<Rightarrow> matcher \<Rightarrow> matcher" where
  "m_seq a b s =
     (case a s of None \<Rightarrow> None
      | Some (x, r) \<Rightarrow> (case b r of None \<Rightarrow> None | Some (y, r') \<Rightarrow> Some (x @ y, r')))"

definition word_char :: "char \<Rightarrow> bool" where
  "word_char c = (py_isalnum c \<or> c = CHR ''_'')"

definition token_like_re :: matcher where
  "token_like_re = m_seq (m_seq (m_lit ''Bearer'') (m_span py_isspace 1))
     (m_span (\<lambda>c. py_isalnum c \<or> c \<in> set ''._-='') 20)"

definition jwt_part :: matcher where
  "jwt_part = m_span (\<lambda>c. py_isalnum c \<or> c \<in> set ''_-'') 5"

definition jwt_like_re :: matcher where
  "jwt_like_re = m_seq (m_lit ''eyJ'') (m_seq jwt_part (m_seq (m_lit ''.'') (m_seq jwt_part
     (m_seq (m_lit ''.'') jwt_part))))"

definition email_re :: matcher where
  "email_re = m_seq (m_span (\<lambda>c. word_char c \<or> c \<in> set ''.+-'') 1) (m_seq (m_lit ''@'')
     (m_seq (m_span (\<lambda>c. word_char c \<or> c = CHR ''-'') 1) (m_seq (m_lit ''.'')
       (m_span (\<lambda>c. word_char c \<or> c \<in> set ''.-'') 1))))"

text \<open>The scheme group of the bearer match: \<open>Bearer\<close> and the white space after it.\<close>

definition bearer_scheme :: "string \<Rightarrow> string" where
  "bearer_scheme txt = ''Bearer'' @ takeWhile py_isspace (drop 6 txt)"

definition redact_text :: "string \<Rightarrow> string" where
  "redact_text t =
     re_sub email_re redact_email
       (re_sub jwt_like_re (\<lambda>_. redacted)
         (re_sub token_like_re (\<lambda>txt. bearer_scheme txt @ redacted) t))"

section \<open>Values\<close>

fun redact_value :: "string \<Rightarrow> json \<Rightarrow> json" where
  "redact_value f (JObj d) = JObj (map (\<lambda>(k, v). (k, redact_value k v)) d)"
| "redact_value f (JList vs) = JList (map (redact_value f) vs)"
| "redact_value f v =
     (if f \<in> set secret_fields then JStr redacted
      else (case v of
              JStr s \<Rightarrow>
                if f \<in> set link_fields then JStr (redact_link s)
                else if f \<in> set email_fields then JStr (redact_email s)
                else JStr (redact_text s)
            | _ \<Rightarrow> v))"

section \<open>Events\<close>

record diagnostic_event =
  de_event :: string
  de_payload :: dict
  de_timestamp :: string
  de_correlation_id :: "string option"

definition event_safe_dict :: "diagnostic_event \<Rightarrow> dict" where
  "event_safe_dict ev =
     [(''event'', JStr (de_event ev)), (''timestamp'', JStr (de_timestamp ev)),
      (''correlation_id'', case de_correlation_id ev of None \<Rightarrow> JNull | Some c \<Rightarrow> JStr c),
      (''payload'', JObj (map (\<lambda>(k, v). (k, redact_value k v)) (de_payload ev)))]"

text \<open>
  The recorder: the buffer, and the lines of the log file when there is one. A line that
  cannot be written is dropped.
\<close>

record diagnostic_recorder =
  dr_has_log :: bool
  dr_correlation_id :: string
  dr_buffer :: "diagnostic_event list"
  dr_log :: "dict list"

definition new_recorder :: "bool \<Rightarrow> string option \<Rightarrow> string \<Rightarrow> diagnostic_recorder" where
  "new_recorder has_log cid uid =
     \<lparr>dr_has_log = has_log, dr_correlation_id = (if opt_truthy cid then the cid else uid),
      dr_buffer = [], dr_log = []\<rparr>"

definition record_event ::
    "bool \<Rightarrow> string \<Rightarrow> string \<Rightarrow> dict option \<Rightarrow> diagnostic_recorder \<Rightarrow> diagnostic_event \<times> diagnostic_recorder" where
  "record_event writable now event payload rc =
     (let ev = \<lparr>de_event = event, de_payload = (case payload of None \<Rightarrow> [] | Some p \<Rightarrow> p),
                de_timestamp = now, de_correlation_id = Some (dr_correlation_id rc)\<rparr>
      in (ev, rc\<lparr>dr_buffer := dr_buffer rc @ [ev],
                 dr_log := dr_log rc @ (if dr_has_log rc \<and> writable then [event_safe_dict ev] else [])\<rparr>))"

definition export_safe :: "diagnostic_recorder \<Rightarrow> dict list" where
  "export_safe rc = map event_safe_dict (dr_buffer rc)"

section \<open>Blanking secrets\<close>

text \<open>
  \<open>blank\<close> replaces every scalar under a secret field by \<open>None\<close>; two values with the same
  blanked form differ in secrets only.
\<close>

fun blank :: "string \<Rightarrow> json \<Rightarrow> json" where
  "blank f (JObj d) = JObj (map (\<lambda>(k, v). (k, blank k v)) d)"
| "blank f (JList vs) = JList (map (blank f) vs)"
| "blank f v = (if f \<in> set secret_fields then JNull else v)"

lemma redact_blank: "redact_value f (blank f v) = redact_value f v"
  by (induction f v rule: redact_value.induct) (auto simp: split_def)

definition blank_payload :: "dict \<Rightarrow> dict" where
  "blank_payload p = map (\<lambda>(k, v). (k, blank k v)) p"

lemma event_safe_blank:
  "event_safe_dict (ev\<lparr>de_payload := blank_payload (de_payload ev)\<rparr>) = event_safe_dict ev"
  by (simp add: event_safe_dict_def blank_payload_def redact_blank split_def)

end
