(* ===== verification/Auth_Properties.thy ===== *)
theory Auth_Properties
  imports Device_Properties Auth_State Auth_Selection Diagnostics
begin

text \<open>
  Properties of the login state: the attempt registry as a state machine and its use by the
  device flow, sign-out, flow selection, identity comparison and redaction.
\<close>

section \<open>The registry as a state machine\<close>

inductive registry_step :: "attempt_registry \<Rightarrow> attempt_registry \<Rightarrow> bool" where
  start: "dict_get (ar_attempts reg) uid = None \<Longrightarrow>
    registry_step reg (snd (start_attempt uid now flow reg))"
| complete: "registry_step reg (complete_attempt aid reg)"
| cancel: "registry_step reg (cancel_attempt aid reg)"
| cancel_all: "registry_step reg (snd (cancel_all reg))"

inductive registry_steps :: "attempt_registry \<Rightarrow> attempt_registry \<Rightarrow> bool" where
  refl: "registry_steps reg reg"
| step: "registry_steps reg reg1 \<Longrightarrow> registry_step reg1 reg2 \<Longrightarrow> registry_steps reg reg2"

inductive_cases registry_stepE: "registry_step reg reg'"

lemma dict_get_map [simp]:
  "dict_get (map (\<lambda>(k, a). (k, f a)) xs) k = map_option f (dict_get xs k)"
  by (simp add: dict_get_def map_of_map)

lemma start_get:
  "dict_get (ar_attempts (snd (start_attempt uid now flow reg))) k =
   (if k = uid then Some (fst (start_attempt uid now flow reg))
    else map_option supersede (dict_get (ar_attempts reg) k))"
  by (simp add: start_attempt_def Let_def)

lemma modify_get:
  "dict_get (ar_attempts (modify_attempt f aid reg)) k =
   (if k = aid then map_option f (dict_get (ar_attempts reg) k) else dict_get (ar_attempts reg) k)"
  by (simp add: modify_attempt_def split: option.splits)

lemma modify_active [simp]: "ar_active (modify_attempt f aid reg) = ar_active reg"
  by (simp add: modify_attempt_def split: option.splits)

lemma cancel_all_get:
  "dict_get (ar_attempts (snd (cancel_all reg))) k = map_option cancel_one (dict_get (ar_attempts reg) k)"
  by (simp add: cancel_all_def)

lemmas registry_gets = start_get modify_get cancel_all_get complete_attempt_def cancel_attempt_def

definition pending :: "auth_attempt \<Rightarrow> bool" where
  "pending a = (\<not> at_completed a \<and> \<not> at_superseded a)"

lemma attempt_simps [simp]:
  "at_attempt_id (supersede a) = at_attempt_id a" "\<not> pending (supersede a)"
  "at_attempt_id (cancel_one a) = at_attempt_id a" "\<not> pending (cancel_one a)"
  by (simp_all add: supersede_def cancel_one_def pending_def)

lemma start_simps [simp]:
  "ar_active (snd (start_attempt uid now flow reg)) = Some uid"
  "at_attempt_id (fst (start_attempt uid now flow reg)) = uid"
  "ar_active (snd (cancel_all reg)) = None"
  by (simp_all add: start_attempt_def cancel_all_def Let_def)

definition registry_inv :: "attempt_registry \<Rightarrow> bool" where
  "registry_inv reg \<longleftrightarrow>
     (\<forall>k a. dict_get (ar_attempts reg) k = Some a \<longrightarrow>
        at_attempt_id a = k \<and> (pending a \<longrightarrow> ar_active reg = Some k)) \<and>
     (\<forall>k. ar_active reg = Some k \<longrightarrow> dict_get (ar_attempts reg) k \<noteq> None)"

lemma registry_inv_new [simp]: "registry_inv new_registry"
  by (simp add: registry_inv_def new_registry_def)

lemma registry_step_inv:
  assumes "registry_step reg reg'" and "registry_inv reg"
  shows "registry_inv reg'"
  using assms
proof (cases rule: registry_step.cases)
  case (start uid now flow)
  with assms(2) show ?thesis by (auto simp: registry_inv_def start_get)
next
  case (complete aid)
  with assms(2) show ?thesis
    by (auto simp: registry_inv_def registry_gets pending_def split: if_splits)
next
  case (cancel aid)
  with assms(2) show ?thesis
    by (auto simp: registry_inv_def registry_gets pending_def split: if_splits)
next
  case cancel_all
  with assms(2) show ?thesis by (auto simp: registry_inv_def cancel_all_get)
qed

lemma registry_steps_inv:
  "registry_steps reg reg' \<Longrightarrow> registry_inv reg \<Longrightarrow> registry_inv reg'"
  by (induction rule: registry_steps.induct) (auto intro: registry_step_inv)

text \<open>
  One live login. In every registry reachable from the empty one at most one attempt is
  neither completed nor superseded; it is the active attempt, and the active attempt is
  always known, so \<open>is_active\<close> never raises.
\<close>

theorem registry_one_live_attempt:
  assumes "registry_steps new_registry reg"
  shows "(\<forall>k j a b. dict_get (ar_attempts reg) k = Some a \<and> dict_get (ar_attempts reg) j = Some b
      \<and> pending a \<and> pending b \<longrightarrow> k = j \<and> ar_active reg = Some k)
    \<and> (\<forall>k. is_active_attempt reg k \<noteq> Inl ''KeyError'')"
proof -
  from registry_steps_inv [OF assms] have inv: "registry_inv reg" by simp
  then have "k = j \<and> ar_active reg = Some k"
    if "dict_get (ar_attempts reg) k = Some a" "dict_get (ar_attempts reg) j = Some b" "pending a" "pending b"
    for k j a b
    using that unfolding registry_inv_def by (metis option.inject)
  moreover from inv have "is_active_attempt reg k \<noteq> Inl ''KeyError''" for k
    by (auto simp: is_active_attempt_def registry_inv_def split: option.splits)
  ultimately show ?thesis by blast
qed

definition two_logins :: attempt_registry where
  "two_logins = snd (start_attempt ''b'' ''t2'' ''device'' (snd (start_attempt ''a'' ''t1'' ''device'' new_registry)))"

lemma two_logins_steps: "registry_steps new_registry two_logins"
proof -
  have "registry_step new_registry (snd (start_attempt ''a'' ''t1'' ''device'' new_registry))"
    by (rule registry_step.start) (simp add: new_registry_def)
  moreover have "registry_step (snd (start_attempt ''a'' ''t1'' ''device'' new_registry)) two_logins"
    unfolding two_logins_def by (rule registry_step.start) (simp add: start_get new_registry_def)
  ultimately show ?thesis by (blast intro: registry_steps.intros)
qed

theorem registry_one_live_attempt_witness:
  "ar_active two_logins = Some ''b'' \<and> is_active_attempt two_logins ''b'' \<noteq> Inl ''KeyError''"
  using registry_one_live_attempt [OF two_logins_steps]
  by (simp add: two_logins_def start_attempt_def Let_def)

section \<open>Late approvals\<close>

text \<open>
  What the device flow relies on: an attempt that was dropped stays dropped, and its test
  says so. The lemma of the client: once dropped, no token is returned.
\<close>

locale supersession =
  fixes steps :: "'r \<Rightarrow> 'r \<Rightarrow> bool"
    and dropped :: "'r \<Rightarrow> string \<Rightarrow> bool"
    and test :: "'r \<Rightarrow> string \<Rightarrow> bool"
  assumes dropped_stays: "dropped r aid \<Longrightarrow> steps r r' \<Longrightarrow> dropped r' aid"
    and dropped_test: "dropped r aid \<Longrightarrow> test r aid"
begin

lemma dropped_later:
  assumes "\<forall>k. steps (before k) (after k) \<and> steps (after k) (before (Suc k))"
    and "dropped (before j) aid" and "j \<le> k"
  shows "dropped (before k) aid \<and> dropped (after k) aid"
proof -
  have "dropped (before k) aid"
    using assms(3)
  proof (induction k rule: dec_induct)
    case base
    show ?case by (rule assms(2))
  next
    case (step n)
    then show ?case using assms(1) dropped_stays by blast
  qed
  then show ?thesis using assms(1) dropped_stays by blast
qed

lemma no_late_token:
  assumes "\<forall>k. steps (before k) (after k) \<and> steps (after k) (before (Suc k))"
    and "dropped (before j) aid \<or> dropped (after j) aid"
    and "\<forall>k. fe_superseded_before env k = test (before k) aid \<and> fe_superseded_after env k = test (after k) aid"
    and "\<not> fe_superseded_after env c" and "\<forall>k \<le> c. \<not> fe_superseded_before env k"
  shows "c < j"
proof (rule ccontr)
  assume "\<not> c < j"
  then have "j \<le> c" by simp
  from assms(2) have "dropped (after c) aid"
  proof
    assume "dropped (before j) aid"
    from dropped_later [OF assms(1) this \<open>j \<le> c\<close>] show ?thesis by blast
  next
    assume drop: "dropped (after j) aid"
    show ?thesis
    proof (cases "c = j")
      case False
      from drop assms(1) have "dropped (before (Suc j)) aid" using dropped_stays by blast
      from dropped_later [OF assms(1) this] False \<open>j \<le> c\<close> show ?thesis by simp
    qed (use drop in simp)
  qed
  with assms(3,4) dropped_test show False by blast
qed

end

definition dropped_attempt :: "attempt_registry \<Rightarrow> string \<Rightarrow> bool" where
  "dropped_attempt reg aid \<longleftrightarrow> (\<exists>a. dict_get (ar_attempts reg) aid = Some a \<and> at_superseded a)"

lemma dropped_step:
  assumes "registry_step reg reg'" and "dropped_attempt reg aid"
  shows "dropped_attempt reg' aid"
  using assms
  by (cases rule: registry_stepE)
    (auto simp: dropped_attempt_def registry_gets supersede_def cancel_one_def)

interpretation late: supersession registry_steps dropped_attempt is_superseded
proof unfold_locales
  show "dropped_attempt r' aid" if "dropped_attempt r aid" "registry_steps r r'" for r aid r'
    using that(2,1) by (induction rule: registry_steps.induct) (auto intro: dropped_step)
qed (auto simp: dropped_attempt_def is_superseded_def)

text \<open>
  C3: Late approvals are dropped. When the supersession tests of a device flow read a
  registry that other logins and sign-outs keep stepping, and the flow's attempt was
  superseded or cancelled by the first or second test of some cycle, then a token can only
  have been returned in an earlier cycle.
\<close>

theorem late_approval_dropped:
  assumes "poll_for_token env dev t0 = Some (Inr tok, st)"
    and "\<forall>k. registry_steps (before k) (after k) \<and> registry_steps (after k) (before (Suc k))"
    and "\<forall>k. fe_superseded_before env k = is_superseded (before k) aid
           \<and> fe_superseded_after env k = is_superseded (after k) aid"
    and "dropped_attempt (before j) aid \<or> dropped_attempt (after j) aid"
  shows "ps_cycle st < j"
proof -
  have live: "\<not> fe_superseded_after env (ps_cycle st)" "\<forall>k \<le> ps_cycle st. \<not> fe_superseded_before env k"
    using poll_loop_token_live [OF assms(1)] by simp_all
  from late.no_late_token [OF assms(2,4,3) live] show ?thesis .
qed

definition one_login :: attempt_registry where
  "one_login = snd (start_attempt ''a'' ''t1'' ''device'' new_registry)"

definition login_history :: "nat \<Rightarrow> attempt_registry" where
  "login_history k = (if k < 4 then one_login else two_logins)"

definition live_flow :: "string flow_env" where
  "live_flow = sample_flow
     \<lparr>fe_superseded_before := (\<lambda>k. is_superseded (login_history k) ''a''),
      fe_superseded_after := (\<lambda>k. is_superseded (login_history k) ''a'')\<rparr>"

lemma one_login_live: "\<not> is_superseded one_login ''a''"
  by code_simp

lemma live_flow_token: "\<exists>st. poll_for_token live_flow sample_dev 0 = Some (Inr ''token'', st)"
  unfolding poll_for_token_def
  by (subst poll_loop.simps, simp add: live_flow_def login_history_def one_login_live sample_flow_def
      sample_dev_def start_polling_def poll_cycle_def poll_once_def outcome_of_def wait_for_next_def
      next_interval_def next_failures_def oauth_error_def max_network_failures_def slow_down_increment_def
      json_simps py_strip_def py_lstrip_def py_isspace_def
      code_of_def Let_def)+

theorem late_approval_dropped_witness:
  "\<exists>st. poll_for_token live_flow sample_dev 0 = Some (Inr ''token'', st) \<and> ps_cycle st < 4"
proof -
  from live_flow_token obtain st where st: "poll_for_token live_flow sample_dev 0 = Some (Inr ''token'', st)"
    by blast
  have "registry_step one_login two_logins"
    unfolding one_login_def two_logins_def by (rule registry_step.start) (simp add: start_get new_registry_def)
  then have steps: "registry_steps (login_history k) (login_history (Suc k))" for k
    by (auto simp: login_history_def intro: registry_steps.intros)
  have "dropped_attempt (login_history 4) ''a''"
    by (simp add: login_history_def dropped_attempt_def two_logins_def start_get supersede_def start_attempt_def
        Let_def dict_get_Cons)
  with late_approval_dropped [OF st, of login_history login_history "''a''" 4] steps st show ?thesis
    by (auto simp: live_flow_def intro: registry_steps.refl)
qed

section \<open>Sign-out\<close>

lemma revoke_other:
  "revoke env tok hint = Inl cls \<Longrightarrow> so_answer env tok hint = HttpOtherError cls"
  by (auto simp: revoke_def split: if_splits http_answer.splits)

lemma revoke_tokens_other:
  assumes "revoke_tokens env s = Inl cls"
  shows "\<exists>tok hint. so_answer env tok hint = HttpOtherError cls"
  using assms revoke_other
  by (fastforce simp: revoke_tokens_def Let_def split: option.splits if_splits sum.splits prod.splits)

text \<open>
  Sign-out leaves a clean state. If the revocation endpoint fails only in the ways the
  code catches, sign-out returns; then the stored session is gone unless clearing it raised,
  which it reports; no attempt is pending and every attempt that was is superseded; success
  means the store was cleared and no error was seen.
\<close>

theorem sign_out_clears:
  assumes "\<forall>tok hint cls. so_answer env tok hint \<noteq> HttpOtherError cls"
  shows "\<exists>res w'. sign_out env cid w = (Inr res, w')
    \<and> (lo_cleared_credential_store res \<longleftrightarrow> so_clear_raises env = None)
    \<and> (aw_session w' = None \<or> so_clear_raises env \<noteq> None \<and> lo_error_message res \<noteq> None)
    \<and> (lo_success res \<longleftrightarrow> lo_cleared_credential_store res \<and> lo_error_message res = None)
    \<and> ar_active (aw_registry w') = None
    \<and> (\<forall>k a. dict_get (ar_attempts (aw_registry w)) k = Some a \<longrightarrow>
         (\<exists>b. dict_get (ar_attempts (aw_registry w')) k = Some b \<and> at_completed b
            \<and> (\<not> at_completed a \<longrightarrow> at_superseded b)))"
proof -
  from assms obtain q where q: "revoke_tokens env (loaded_session env w) = Inr q"
    by (cases "revoke_tokens env (loaded_session env w)") (auto dest: revoke_tokens_other)
  obtain refresh access err where q3: "q = (refresh, access, err)" by (cases q)
  define res where "res = projr (fst (sign_out env cid w))"
  define w' where "w' = snd (sign_out env cid w)"
  have so: "sign_out env cid w = (Inr res, w')"
    by (simp add: sign_out_def q q3 Let_def case_prod_beta res_def w'_def)
  have reg: "aw_registry w' = snd (cancel_all (aw_registry w))"
    by (simp add: sign_out_def q q3 Let_def case_prod_beta w'_def)
  have rest: "lo_cleared_credential_store res \<longleftrightarrow> so_clear_raises env = None"
    "aw_session w' = None \<or> so_clear_raises env \<noteq> None \<and> lo_error_message res \<noteq> None"
    "lo_success res \<longleftrightarrow> lo_cleared_credential_store res \<and> lo_error_message res = None"
    by (auto simp: sign_out_def q q3 Let_def case_prod_beta res_def w'_def split: option.splits)
  have "\<exists>b. dict_get (ar_attempts (aw_registry w')) k = Some b \<and> at_completed b \<and> (\<not> at_completed a \<longrightarrow> at_superseded b)"
    if "dict_get (ar_attempts (aw_registry w)) k = Some a" for k a
    using that by (simp add: reg cancel_all_get cancel_one_def)
  with so rest reg show ?thesis by simp
qed

definition signed_in :: auth_world where
  "signed_in = \<lparr>aw_session = Some \<lparr>se_access_token = ''at'', se_refresh_token = Some ''rt''\<rparr>,
     aw_registry = one_login, aw_paths = []\<rparr>"

definition down_env :: signout_env where
  "down_env = \<lparr>so_load_raises = False, so_clear_raises = None, so_revocation_endpoint = Some ''https://kc/revoke'',
     so_client_id = Some ''cli'', so_answer = (\<lambda>_ _. HttpNetworkError ''down'')\<rparr>"

theorem sign_out_clears_witness:
  "\<exists>res w'. sign_out down_env ''c1'' signed_in = (Inr res, w') \<and> aw_session w' = None"
proof -
  have "\<forall>tok hint cls. so_answer down_env tok hint \<noteq> HttpOtherError cls" by (simp add: down_env_def)
  from sign_out_clears [OF this, of "''c1''" signed_in] show ?thesis by (auto simp: down_env_def)
qed

text \<open>
  Sign-out raises exactly when revocation meets an exception it does not catch, and then
  nothing was cleared: session, attempts and paths are as before.
\<close>

theorem sign_out_raises_untouched:
  "(\<exists>cls. fst (sign_out env cid w) = Inl cls \<and> snd (sign_out env cid w) = w) \<longleftrightarrow>
   (\<exists>s. loaded_session env w = Some s \<and> opt_truthy (so_revocation_endpoint env) \<and> opt_truthy (so_client_id env)
      \<and> (\<exists>cls. opt_truthy (se_refresh_token s)
               \<and> so_answer env (the (se_refresh_token s)) ''refresh_token'' = HttpOtherError cls
            \<or> se_access_token s \<noteq> [] \<and> so_answer env (se_access_token s) ''access_token'' = HttpOtherError cls))"
proof -
  have rv: "(\<exists>cls. revoke env tok hint = Inl cls) \<longleftrightarrow> (\<exists>cls. so_answer env tok hint = HttpOtherError cls)"
    if "opt_truthy (so_revocation_endpoint env)" "opt_truthy (so_client_id env)" for tok hint
    using that by (cases "so_answer env tok hint") (auto simp: revoke_def)
  have "(\<exists>cls. fst (sign_out env cid w) = Inl cls \<and> snd (sign_out env cid w) = w) \<longleftrightarrow>
      (\<exists>cls. revoke_tokens env (loaded_session env w) = Inl cls)"
    by (auto simp: sign_out_def Let_def split: sum.splits prod.splits)
  also have "\<dots> \<longleftrightarrow> (\<exists>s. loaded_session env w = Some s \<and> opt_truthy (so_revocation_endpoint env) \<and> opt_truthy (so_client_id env)
      \<and> (\<exists>cls. opt_truthy (se_refresh_token s) \<and> revoke env (the (se_refresh_token s)) ''refresh_token'' = Inl cls
            \<or> se_access_token s \<noteq> [] \<and> revoke env (se_access_token s) ''access_token'' = Inl cls))"
    by (auto simp: revoke_tokens_def Let_def split: option.splits if_splits sum.splits prod.splits)
  finally show ?thesis using rv by (simp add: ex_disj_distrib) blast
qed

section \<open>Flow selection and identities\<close>

text \<open>
  The selected flow is always permitted: the device flow only when advertised; PKCE only
  when advertised without the device flow, or when nothing is advertised and the caller
  allowed it; otherwise, and only then, selection fails. Forbidden flows and the server's
  preference never decide.
\<close>

theorem select_auth_flow_permitted:
  "case select_auth_flow supported preferred allow of
     Inr d \<Rightarrow> fd_considered d = (case supported of None \<Rightarrow> [] | Some fs \<Rightarrow> fs) \<and>
       (fd_flow d = DEVICE_AUTHORIZATION \<longleftrightarrow> ''device_authorization'' \<in> set (fd_considered d)) \<and>
       (fd_flow d = AUTHORIZATION_CODE_PKCE \<longleftrightarrow> ''device_authorization'' \<notin> set (fd_considered d) \<and>
          (''authorization_code_pkce'' \<in> set (fd_considered d) \<or> fd_considered d = [] \<and> allow))
   | Inl e \<Rightarrow> uf_advertised e = (case supported of None \<Rightarrow> [] | Some fs \<Rightarrow> fs) \<and>
       ''device_authorization'' \<notin> set (uf_advertised e) \<and> ''authorization_code_pkce'' \<notin> set (uf_advertised e) \<and>
       \<not> (uf_advertised e = [] \<and> allow)"
proof -
  have ok: "''device_authorization'' \<notin> forbidden_flows" "''authorization_code_pkce'' \<notin> forbidden_flows"
    by (simp_all add: forbidden_flows_def)
  define adv where "adv = (case supported of None \<Rightarrow> [] | Some fs \<Rightarrow> fs)"
  show ?thesis
    unfolding select_auth_flow_def adv_def [symmetric]
    using ok by (auto simp: Let_def)
qed

text \<open>The server's preference has no effect on the flow, even among permitted flows.\<close>

lemma select_ignores_preference:
  "map_sum id fd_flow (select_auth_flow supported p allow) = map_sum id fd_flow (select_auth_flow supported q allow)"
proof -
  define adv where "adv = (case supported of None \<Rightarrow> [] | Some fs \<Rightarrow> fs)"
  show ?thesis
    unfolding select_auth_flow_def adv_def [symmetric] by (auto simp: Let_def)
qed

text \<open>
  Two identities mismatch exactly on the compared fields that both assert with different
  values; a surface that is not signed in never mismatches, the check raises exactly on a
  mismatch it was asked to raise on, and swapping the surfaces gives the same fields.
\<close>

theorem identity_mismatch_fields:
  "case detect_identity_mismatch fstr a b la lb strict of
     Inr r \<Rightarrow> (im_matched r \<longleftrightarrow> im_differing_fields r = [])
       \<and> im_differing_fields r = filter (\<lambda>f. a \<noteq> None \<and> b \<noteq> None
            \<and> differs_on (coerce_whoami a) (coerce_whoami b) f) compare_fields
       \<and> \<not> (strict \<and> \<not> im_matched r)
   | Inl txt \<Rightarrow> strict \<and> (\<exists>f \<in> set compare_fields. differs_on (coerce_whoami a) (coerce_whoami b) f)
       \<and> a \<noteq> None \<and> b \<noteq> None"
proof -
  have ne: "coerce_whoami w = [] \<longleftrightarrow> w = None" for w
    by (simp add: coerce_whoami_def compare_fields_def split: option.splits)
  show ?thesis
    by (auto simp: detect_identity_mismatch_def Let_def ne filter_empty_conv)
qed

section \<open>Redaction\<close>

text \<open>
  Recorded diagnostics do not depend on secrets: replacing every scalar under a secret
  field of the payload leaves the exported event, and the log line, unchanged.
\<close>

theorem diagnostics_hide_secrets:
  "export_safe (snd (record_event wr now ev (Some (blank_payload p)) rc)) =
     export_safe (snd (record_event wr now ev (Some p) rc))
   \<and> dr_log (snd (record_event wr now ev (Some (blank_payload p)) rc)) =
     dr_log (snd (record_event wr now ev (Some p) rc))"
proof -
  have "event_safe_dict \<lparr>de_event = ev, de_payload = blank_payload p, de_timestamp = now, de_correlation_id = c\<rparr> =
      event_safe_dict \<lparr>de_event = ev, de_payload = p, de_timestamp = now, de_correlation_id = c\<rparr>" for c
    using event_safe_blank [of "\<lparr>de_event = ev, de_payload = p, de_timestamp = now, de_correlation_id = c\<rparr>"] by simp
  then show ?thesis by (simp add: record_event_def export_safe_def Let_def)
qed

lemma split_scheme_append:
  assumes "CHR '':'' \<notin> set s"
  shows "split_scheme (s @ ''://'' @ r) = Some (s, r)"
  using assms by (induction s) auto

text \<open>
  A redacted link keeps the scheme and everything up to the first slash after it: a path is
  dropped, but a query that follows the host without a path survives.
\<close>

theorem redact_link_host:
  assumes "CHR '':'' \<notin> set scheme" and "CHR ''/'' \<notin> set host"
  shows "redact_link (scheme @ ''://'' @ host @ ''/'' @ rest) = scheme @ ''://'' @ host @ ''/<redacted>''
    \<and> redact_link (scheme @ ''://'' @ host) = scheme @ ''://'' @ host @ ''/<redacted>''"
proof -
  have "until_char (CHR ''/'') (host @ ''/'' @ rest) = host" "until_char (CHR ''/'') host = host"
    using assms(2) by (induction host) (auto simp: until_char_def)
  with split_scheme_append [OF assms(1)] show ?thesis by (simp add: redact_link_def)
qed

theorem redact_link_host_witness:
  "redact_link ''https://kc?user_code=ABCD'' = ''https://kc?user_code=ABCD/<redacted>''"
  using redact_link_host [of "''https''" "''kc?user_code=ABCD''" "[]"] by simp

text \<open>A secret kept inside an object under a secret field is not redacted.\<close>

lemma nested_secret_survives:
  "redact_value ''access_token'' (JObj [(''value'', JStr ''opaque'')]) = JObj [(''value'', JStr ''opaque'')]"
  by code_simp

end
