(* ===== verification/Negotiation.thy ===== *)
theory Negotiation
  imports Keyhole_Prelude
begin

text \<open>
  Surface negotiation (\<open>negotiation/models.py\<close>, \<open>classifier.py\<close>, \<open>negotiator.py\<close>,
  \<open>evaluator.py\<close>, \<open>repair.py\<close>, \<open>artifact.py\<close>) and the run types it reads from a capabilities
  answer (\<open>discovery/models.py\<close>). The result of a negotiation decides which commands run,
  run degraded, or are blocked.
\<close>

section \<open>Capabilities\<close>

text \<open>
  The parts of \<open>CapabilitiesResult\<close> negotiation reads. An entry of \<open>operations\<close> is an object
  with an \<open>identifiers\<close> method, given by its result, or a JSON value.
\<close>

datatype cap_operation = OpIdentifiers "string list" | OpValue json

record connection_run_type =
  ct_run_type :: string
  ct_implemented :: bool

record capabilities =
  cap_contract :: string
  cap_operations_implemented :: int
  cap_identity_endpoint :: string
  cap_run_dispatch_endpoint :: string
  cap_flags :: "(string \<times> bool) list"
  cap_implemented_surfaces :: "string list"
  cap_connection_run_types :: "connection_run_type list"
  cap_digest :: string
  cap_operations :: "cap_operation list"
  cap_raw :: dict

definition nonempty_strings :: "json \<Rightarrow> string list" where
  "nonempty_strings v =
     (case v of JList vs \<Rightarrow> filter (\<lambda>s. s \<noteq> []) (map as_str vs) | _ \<Rightarrow> [])"

definition named_values :: "string list \<Rightarrow> dict \<Rightarrow> string list" where
  "named_values keys d = filter (\<lambda>s. s \<noteq> []) (map (\<lambda>k. as_str (json_get d k)) keys)"

definition operation_names :: "string list \<Rightarrow> json \<Rightarrow> string list" where
  "operation_names keys v =
     (case v of
        JStr s \<Rightarrow> if s \<noteq> [] then [s] else []
      | JObj d \<Rightarrow> named_values keys d @ nonempty_strings (json_get d ''aliases'')
      | _ \<Rightarrow> [])"

fun operation_identifiers :: "cap_operation \<Rightarrow> string list" where
  "operation_identifiers (OpIdentifiers names) = names"
| "operation_identifiers (OpValue v) =
     operation_names [''operation_name'', ''operation_id'', ''name'', ''canonical_run_type'', ''run_type''] v"

fun extract_nested_run_types :: "json \<Rightarrow> string list" where
  "extract_nested_run_types (JObj d) =
     concat (map (\<lambda>(k, v).
       if k \<in> {''run_type'', ''canonical_run_type'', ''compatibility_check_run_type''}
       then (case v of JStr s \<Rightarrow> if s \<noteq> [] then [s] else [] | _ \<Rightarrow> [])
       else if k \<in> {''logical_aliases'', ''aliases''} \<and> (case v of JList _ \<Rightarrow> True | _ \<Rightarrow> False)
       then nonempty_strings v
       else extract_nested_run_types v) d)"
| "extract_nested_run_types (JList vs) = concat (map extract_nested_run_types vs)"
| "extract_nested_run_types _ = []"

definition raw_body :: "dict \<Rightarrow> dict" where
  "raw_body raw = (case json_get raw ''data'' of JObj d \<Rightarrow> d | _ \<Rightarrow> raw)"

text \<open>\<open>merged\<close>: the first occurrence of each name, in order.\<close>

definition dedup :: "string list \<Rightarrow> string list" where
  "dedup xs = fold (\<lambda>x acc. if x \<in> set acc then acc else acc @ [x]) xs []"

definition get_run_type_names :: "capabilities \<Rightarrow> string list" where
  "get_run_type_names caps = filter (\<lambda>s. s \<noteq> []) (map ct_run_type (cap_connection_run_types caps))"

definition get_all_run_types :: "capabilities \<Rightarrow> string list" where
  "get_all_run_types caps =
     (let body = raw_body (cap_raw caps)
      in dedup
        (concat (map operation_identifiers (cap_operations caps)) @
         (case json_get body ''operations'' of
            JList ops \<Rightarrow> concat (map (operation_names [''operation_id'', ''name'', ''canonical_run_type'']) ops)
          | _ \<Rightarrow> []) @
         extract_nested_run_types (json_get body ''governed_worker_sdk'') @
         cap_implemented_surfaces caps @
         get_run_type_names caps))"

section \<open>Surfaces\<close>

datatype surface_class = REQUIRED | OPTIONAL | TRANSITIONAL

datatype negotiation_status = COMPATIBLE | NDEGRADED | NBLOCKED

fun negotiation_status_value :: "negotiation_status \<Rightarrow> string" where
  "negotiation_status_value COMPATIBLE = ''compatible''"
| "negotiation_status_value NDEGRADED = ''degraded''"
| "negotiation_status_value NBLOCKED = ''blocked''"

record surface_entry =
  su_name :: string
  su_class :: surface_class
  su_present :: bool
  su_description :: string

record features =
  ft_authenticated_identity :: bool
  ft_run_dispatch :: bool
  ft_run_async_accept :: bool
  ft_context_compile :: bool
  ft_explainability :: bool
  ft_support_bundle :: bool
  ft_run_tail :: bool
  ft_budget_visibility :: bool
  ft_context_required_for_runs :: bool
  ft_idempotency_required :: bool

definition features_to_dict :: "features \<Rightarrow> (string \<times> bool) list" where
  "features_to_dict f =
     [(''authenticated_identity'', ft_authenticated_identity f),
      (''run_dispatch'', ft_run_dispatch f),
      (''run_async_accept'', ft_run_async_accept f),
      (''context_compile'', ft_context_compile f),
      (''context_required_for_runs'', ft_context_required_for_runs f),
      (''idempotency_required'', ft_idempotency_required f),
      (''explainability'', ft_explainability f),
      (''support_bundle'', ft_support_bundle f),
      (''run_tail'', ft_run_tail f),
      (''budget_visibility'', ft_budget_visibility f)]"

text \<open>\<open>bool(getattr(features, name, False))\<close> for a surface name.\<close>

definition has_surface :: "features \<Rightarrow> string \<Rightarrow> bool" where
  "has_surface f nm = dict_get_or (features_to_dict f) nm False"

definition surface_taxonomy :: "(string \<times> surface_class \<times> string) list" where
  "surface_taxonomy =
     [(''authenticated_identity'', REQUIRED, ''Identity/whoami endpoint declared by the boundary.''),
      (''run_dispatch'', REQUIRED, ''Stable run dispatch contract declared by the boundary.''),
      (''run_async_accept'', OPTIONAL, ''Accepted/deferred async run semantics (SDK-CLIENT-17).''),
      (''context_compile'', OPTIONAL, ''Context compile and inspect surfaces (SDK-CLIENT-16).''),
      (''explainability'', OPTIONAL, ''Run explainability and inspection surfaces (SDK-CLIENT-20).''),
      (''support_bundle'', OPTIONAL, ''Support bundle retrieval surface (SDK-CLIENT-20).''),
      (''run_tail'', OPTIONAL, ''Run tail/follow observation surface (SDK-CLIENT-17).''),
      (''budget_visibility'', OPTIONAL, ''Budget and limit visibility surface (SDK-CLIENT-19).''),
      (''context_required_for_runs'', TRANSITIONAL, ''Server enforces context binding for governed runs (transitional).''),
      (''idempotency_required'', TRANSITIONAL, ''Server declares idempotency required for write-bearing commands (transitional).'')]"

definition classify_features :: "capabilities \<Rightarrow> features" where
  "classify_features caps =
     (let flag = (\<lambda>k. dict_get_or (cap_flags caps) k False);
          operations = get_all_run_types caps
      in \<lparr>ft_authenticated_identity = (cap_identity_endpoint caps \<noteq> []),
          ft_run_dispatch = (cap_run_dispatch_endpoint caps \<noteq> [] \<or> cap_operations_implemented caps > 0),
          ft_run_async_accept = flag ''run_async_accept'',
          ft_context_compile = (''context.compile'' \<in> set (cap_implemented_surfaces caps)
            \<or> ''context.compile'' \<in> set operations \<or> flag ''context_compile''),
          ft_explainability = flag ''explainability'',
          ft_support_bundle = flag ''support_bundle'',
          ft_run_tail = flag ''run_tail'',
          ft_budget_visibility = flag ''budget_visibility'',
          ft_context_required_for_runs = flag ''context_required_for_runs'',
          ft_idempotency_required = flag ''idempotency_required''\<rparr>)"

definition surface_entries :: "features \<Rightarrow> surface_entry list" where
  "surface_entries f =
     map (\<lambda>(nm, cls, desc). \<lparr>su_name = nm, su_class = cls, su_present = has_surface f nm,
                              su_description = desc\<rparr>) surface_taxonomy"

definition classify_surfaces :: "capabilities \<Rightarrow> features \<times> surface_entry list" where
  "classify_surfaces caps = (classify_features caps, surface_entries (classify_features caps))"

section \<open>Negotiation\<close>

record compatibility_summary =
  cs_status :: negotiation_status
  cs_required_missing :: "string list"
  cs_optional_missing :: "string list"
  cs_transitional :: "string list"

record negotiation_result =
  ng_server_version :: string
  ng_surface_fingerprint :: string
  ng_operations :: "string list"
  ng_features :: features
  ng_compatibility :: compatibility_summary
  ng_negotiated_at :: string

definition collect_by_class :: "surface_entry list \<Rightarrow> surface_class \<Rightarrow> bool option \<Rightarrow> string list" where
  "collect_by_class entries cls present =
     map su_name (filter (\<lambda>e. su_class e = cls \<and>
       (case present of None \<Rightarrow> True | Some p \<Rightarrow> su_present e = p)) entries)"

definition negotiate :: "string \<Rightarrow> capabilities \<Rightarrow> negotiation_result" where
  "negotiate now caps =
     (let (features, entries) = classify_surfaces caps;
          required_missing = collect_by_class entries REQUIRED (Some False);
          optional_missing = collect_by_class entries OPTIONAL (Some False);
          transitional = collect_by_class entries TRANSITIONAL None
      in \<lparr>ng_server_version = cap_contract caps, ng_surface_fingerprint = cap_digest caps,
          ng_operations = get_all_run_types caps, ng_features = features,
          ng_compatibility =
            \<lparr>cs_status = (if required_missing \<noteq> [] then NBLOCKED
                          else if optional_missing \<noteq> [] then NDEGRADED else COMPATIBLE),
             cs_required_missing = required_missing, cs_optional_missing = optional_missing,
             cs_transitional = transitional\<rparr>,
          ng_negotiated_at = now\<rparr>)"

definition negotiation_dict :: "negotiation_result \<Rightarrow> dict" where
  "negotiation_dict r =
     (let strs = (\<lambda>xs. JList (map JStr xs)); c = ng_compatibility r
      in [(''server_version'', JStr (ng_server_version r)),
          (''surface_fingerprint'', JStr (ng_surface_fingerprint r)),
          (''operations'', strs (ng_operations r)),
          (''features'', JObj (map (\<lambda>(k, b). (k, JBool b)) (features_to_dict (ng_features r)))),
          (''compatibility'', JObj
            [(''status'', JStr (negotiation_status_value (cs_status c))),
             (''required_missing'', strs (cs_required_missing c)),
             (''optional_missing'', strs (cs_optional_missing c)),
             (''transitional'', strs (cs_transitional c))]),
          (''negotiated_at'', JStr (ng_negotiated_at r))])"

section \<open>Repair guidance\<close>

definition negotiation_repair :: "(string \<times> string list) list" where
  "negotiation_repair =
     [(''authenticated_identity'',
        [''The boundary has not declared an identity endpoint.'',
         ''Verify you are connecting to the correct MCP URL: keyhole doctor'',
         ''Try: keyhole login to establish an authenticated session.'',
         ''Check that the MCP server is running and reachable.'']),
      (''run_dispatch'',
        [''The boundary has not declared a run dispatch endpoint.'',
         ''Verify the MCP URL and contract version: keyhole doctor'',
         ''This boundary may not support governed run dispatch at this contract version.'',
         ''Check that the server is provisioned and accessible.'']),
      (''run_async_accept'',
        [''Accepted/deferred async run semantics are not available on this boundary.'',
         ''Runs may execute synchronously or return inline results instead.'',
         ''Check server capabilities: keyhole surfaces'',
         ''Refer to server upgrade notes if async acceptance is expected.'']),
      (''context_compile'',
        [''Context compile/inspect surfaces are not available on this boundary.'',
         ''Context-bound commands (keyhole context compile, keyhole context inspect) will not function.'',
         ''Check surface posture: keyhole surfaces'',
         ''Contact the boundary operator if context surfaces are expected.'']),
      (''explainability'',
        [''Run explainability surface is not available on this boundary.'',
         (''keyhole explain run will return a '' @ [CHR 0x27] @ ''surface unavailable'' @ [CHR 0x27] @ '' response.''),
         ''Core run commands may still be available.'',
         ''Check: keyhole surfaces to inspect current posture.'']),
      (''support_bundle'',
        [''Support bundle retrieval is not available on this boundary.'',
         ''Local support artifacts can still be generated.'',
         ''Server-enriched bundle behavior is unavailable.'',
         ''Check: keyhole surfaces --json for current posture.'']),
      (''run_tail'',
        [''Run tail/follow observation is not available on this boundary.'',
         ''Use keyhole runs status <run-id> to poll run state instead.'',
         ''Check: keyhole surfaces for current observation capabilities.'']),
      (''budget_visibility'',
        [''Budget and limit visibility is not available on this boundary.'',
         ''Run budget inspection (keyhole runs budget) will not return server data.'',
         ''Check: keyhole surfaces to inspect current posture.'']),
      (''context_required_for_runs'',
        [''The server declares that context binding is required for governed runs.'',
         ''Ensure context is compiled before dispatching runs: keyhole context compile'',
         ''Check context state: keyhole context inspect'']),
      (''idempotency_required'',
        [''The server declares that idempotency keys are required for write-bearing commands.'',
         ''All write-bearing SDK calls automatically include idempotency keys (SDK-CLIENT-15).'',
         ''Ensure you are using the GovernedTransport for all write operations.'']),
      (''transport_failure'',
        [''Could not reach the MCP boundary to fetch surface declarations.'',
         ''Check your network connection and MCP URL configuration.'',
         ''Try: keyhole doctor to run connectivity diagnostics.'',
         ''If operating offline, some commands may not be available.'']),
      (''malformed_capabilities'',
        [''The capabilities response from the server could not be parsed.'',
         ''This may indicate a version mismatch or a misconfigured server.'',
         ''Try: keyhole doctor'',
         ''Ensure the server is running a compatible contract version.'']),
      (''command_blocked'',
        [''This command requires a surface that the live boundary does not declare.'',
         ''Run: keyhole surfaces to inspect which surfaces are missing.'',
         ''Contact the boundary operator if the surface is expected.'']),
      (''command_degraded'',
        [''This command will proceed with reduced capability.'',
         ''Some optional features will not be available.'',
         ''Run: keyhole surfaces --json to see the full negotiated posture.''])]"

definition fallback_repair :: "string list" where
  "fallback_repair =
     [''Run: keyhole surfaces to inspect current surface negotiation posture.'',
      ''Run: keyhole doctor to check connectivity and configuration.'']"

definition map_negotiation_repair :: "string \<Rightarrow> string list" where
  "map_negotiation_repair reason = dict_get_or negotiation_repair reason fallback_repair"

section \<open>Commands\<close>

datatype command_status = ALLOWED | DEGRADED | BLOCKED

fun command_status_value :: "command_status \<Rightarrow> string" where
  "command_status_value ALLOWED = ''allowed''"
| "command_status_value DEGRADED = ''degraded''"
| "command_status_value BLOCKED = ''blocked''"

definition command_requirements :: "(string \<times> string list) list" where
  "command_requirements =
     [(''keyhole whoami'', [''authenticated_identity'']),
      (''keyhole login'', []),
      (''keyhole run'', [''authenticated_identity'', ''run_dispatch'']),
      (''keyhole repo register'', [''authenticated_identity'', ''run_dispatch'']),
      (''keyhole context compile'', [''authenticated_identity'', ''context_compile'']),
      (''keyhole context inspect'', [''authenticated_identity'', ''context_compile'']),
      (''keyhole explain run'', [''authenticated_identity'', ''explainability'']),
      (''keyhole inspect'', [''authenticated_identity'', ''explainability'']),
      (''keyhole support-bundle'', [''authenticated_identity'', ''support_bundle'']),
      (''keyhole runs status'', [''authenticated_identity'']),
      (''keyhole runs wait'', [''authenticated_identity'']),
      (''keyhole runs tail'', [''authenticated_identity'', ''run_tail'']),
      (''keyhole runs list'', [''authenticated_identity'']),
      (''keyhole runs resume'', [''authenticated_identity'']),
      (''keyhole runs budget'', [''authenticated_identity'', ''budget_visibility'']),
      (''keyhole deregister'', [''authenticated_identity'', ''run_dispatch'']),
      (''keyhole surfaces'', []),
      (''keyhole doctor'', []),
      (''keyhole validate'', [])]"

definition command_optional_surfaces :: "(string \<times> string list) list" where
  "command_optional_surfaces =
     [(''keyhole run'', [''run_async_accept'']),
      (''keyhole runs wait'', [''run_async_accept'']),
      (''keyhole runs resume'', [''run_async_accept'']),
      (''keyhole explain run'', [''support_bundle'']),
      (''keyhole inspect'', [''support_bundle'']),
      (''keyhole deregister'', [''explainability'', ''support_bundle''])]"

record command_result =
  cr_command :: string
  cr_status :: command_status
  cr_required_missing :: "string list"
  cr_optional_missing :: "string list"
  cr_reason :: string
  cr_repair :: "string list"

text \<open>Steps of several reasons, each kept once, in order.\<close>

definition add_steps :: "string list \<Rightarrow> string list \<Rightarrow> string list" where
  "add_steps new acc = fold (\<lambda>s acc. if s \<in> set acc then acc else acc @ [s]) new acc"

definition collect_repair :: "string list \<Rightarrow> bool \<Rightarrow> string list" where
  "collect_repair surfaces blocked =
     add_steps (map_negotiation_repair (if blocked then ''command_blocked'' else ''command_degraded''))
       (fold (\<lambda>s. add_steps (map_negotiation_repair s)) surfaces [])"

definition required_for :: "string \<Rightarrow> string list" where
  "required_for command = dict_get_or command_requirements command []"

definition optional_for :: "string \<Rightarrow> string list" where
  "optional_for command = dict_get_or command_optional_surfaces command []"

definition evaluate_command :: "string \<Rightarrow> features \<Rightarrow> command_result" where
  "evaluate_command command f =
     (let missing_required = filter (\<lambda>s. \<not> has_surface f s) (required_for command);
          missing_optional = filter (\<lambda>s. \<not> has_surface f s) (optional_for command);
          quoted = [CHR 0x27] @ command @ [CHR 0x27] @ '': ''
      in if missing_required \<noteq> [] then
           \<lparr>cr_command = command, cr_status = BLOCKED, cr_required_missing = missing_required,
            cr_optional_missing = [],
            cr_reason = ''Required surface(s) missing for '' @ quoted @ py_join '', '' missing_required,
            cr_repair = collect_repair missing_required True\<rparr>
         else if missing_optional \<noteq> [] then
           \<lparr>cr_command = command, cr_status = DEGRADED, cr_required_missing = [],
            cr_optional_missing = missing_optional,
            cr_reason = ''Optional surface(s) missing for '' @ quoted @ py_join '', '' missing_optional @
              '' '' @ mdash @ '' proceeding with reduced capability.'',
            cr_repair = collect_repair missing_optional False\<rparr>
         else
           \<lparr>cr_command = command, cr_status = ALLOWED, cr_required_missing = [], cr_optional_missing = [],
            cr_reason = [], cr_repair = []\<rparr>)"

definition evaluate_all_commands :: "features \<Rightarrow> (string \<times> command_result) list" where
  "evaluate_all_commands f = map (\<lambda>(cmd, _). (cmd, evaluate_command cmd f)) command_requirements"

definition command_result_dict :: "command_result \<Rightarrow> dict" where
  "command_result_dict r =
     [(''command'', JStr (cr_command r)), (''status'', JStr (command_status_value (cr_status r))),
      (''required_missing'', JList (map JStr (cr_required_missing r))),
      (''optional_missing'', JList (map JStr (cr_optional_missing r))),
      (''reason'', JStr (cr_reason r)), (''repair'', JList (map JStr (cr_repair r)))]"

section \<open>The summary artifact\<close>

definition missing_section :: "string \<Rightarrow> string \<Rightarrow> string list \<Rightarrow> string list" where
  "missing_section title note names =
     (if names = [] then []
      else [title, []] @ map (\<lambda>s. ''- `'' @ s @ ''` '' @ mdash @ '' '' @ note) names @ [[]])"

definition posture_section :: "negotiation_status \<Rightarrow> string list" where
  "posture_section s =
     (case s of
        COMPATIBLE \<Rightarrow>
          [''## Result: COMPATIBLE'', [],
           ''All required surfaces are present. All optional surfaces are present.'',
           ''The client can operate at full capability.'', []]
      | NDEGRADED \<Rightarrow>
          [''## Result: DEGRADED'', [],
           ''All required surfaces are present, but one or more optional surfaces are absent.'',
           ''Core governed participation is available with reduced capability.'', []]
      | NBLOCKED \<Rightarrow>
          [''## Result: BLOCKED'', [],
           ''One or more required surfaces are absent.'',
           ''Affected workflows are fail-closed until the boundary declares these surfaces.'', []])"

definition build_summary_md :: "negotiation_result \<Rightarrow> string" where
  "build_summary_md r =
     (let c = ng_compatibility r
      in py_join [CHR 10]
        ([''# Surface Negotiation Summary'', [],
          ''**Server version:** '' @ str_or (ng_server_version r) ''(unknown)'',
          ''**Surface fingerprint:** '' @ str_or (ng_surface_fingerprint r) ''(none)'',
          ''**Negotiated at:** '' @ ng_negotiated_at r,
          ''**Posture:** '' @ py_upper (negotiation_status_value (cs_status c)), []] @
         posture_section (cs_status c) @
         missing_section ''## Required Surfaces Missing''
           ''required; commands depending on this surface are blocked'' (cs_required_missing c) @
         missing_section ''## Optional Surfaces Missing''
           ''optional; affected commands will degrade gracefully'' (cs_optional_missing c) @
         missing_section ''## Transitional Surfaces''
           ''transitional; present but may vary by environment'' (cs_transitional c) @
         [''## Features'', []] @
         map (\<lambda>(nm, present). ''- '' @
             (if present then [CHR 0xE2, CHR 0x9C, CHR 0x93] else [CHR 0xE2, CHR 0x9C, CHR 0x97]) @
             '' `'' @ nm @ ''`: '' @ (if present then ''present'' else ''absent''))
           (features_to_dict (ng_features r)) @ [[]] @
         (if ng_operations r \<noteq> []
          then [''## Implemented Operations'', []] @ map (\<lambda>op. ''- `'' @ op @ ''`'') (ng_operations r) @ [[]]
          else []) @
         [''---'', ''_Generated by keyhole-sdk negotiation (SDK-CLIENT-21)_'']) @ [CHR 10])"

end
