(* ===== verification/Negotiation_Properties.thy ===== *)
theory Negotiation_Properties
  imports Negotiation
begin

text \<open>
  Properties of negotiation: what the overall posture says about the commands, that more
  surfaces never make a command worse, and that the repair guidance is complete.
\<close>

section \<open>Severity\<close>

text \<open>Command statuses ordered from allowed to blocked.\<close>

fun severity :: "command_status \<Rightarrow> nat" where
  "severity ALLOWED = 0"
| "severity DEGRADED = 1"
| "severity BLOCKED = 2"

instantiation command_status :: linorder
begin

definition less_eq_command_status :: "command_status \<Rightarrow> command_status \<Rightarrow> bool" where
  "less_eq_command_status a b \<longleftrightarrow> severity a \<le> severity b"

definition less_command_status :: "command_status \<Rightarrow> command_status \<Rightarrow> bool" where
  "less_command_status a b \<longleftrightarrow> severity a < severity b"

instance
proof
  have inj: "severity a = severity b \<Longrightarrow> a = b" for a b by (cases a; cases b) simp_all
  fix a b c :: command_status
  show "a < b \<longleftrightarrow> a \<le> b \<and> \<not> b \<le> a"
    by (auto simp: less_eq_command_status_def less_command_status_def)
  show "a \<le> a" by (simp add: less_eq_command_status_def)
  show "a \<le> b \<Longrightarrow> b \<le> c \<Longrightarrow> a \<le> c" by (simp add: less_eq_command_status_def)
  show "a \<le> b \<Longrightarrow> b \<le> a \<Longrightarrow> a = b" by (simp add: less_eq_command_status_def inj)
  show "a \<le> b \<or> b \<le> a" by (auto simp: less_eq_command_status_def)
qed

end

lemma severity_simps [simp]:
  "ALLOWED \<le> s" "s \<le> BLOCKED" "DEGRADED \<le> DEGRADED" "\<not> BLOCKED \<le> DEGRADED" "\<not> DEGRADED \<le> ALLOWED" "\<not> BLOCKED \<le> ALLOWED"
  by (cases s; simp add: less_eq_command_status_def)+

section \<open>A gate over surfaces\<close>

text \<open>
  What a caller of a command gate may rely on: it blocks exactly when a required surface is
  absent and allows exactly when nothing is. Then more surfaces never hurt.
\<close>

locale command_gate =
  fixes present :: "'f \<Rightarrow> string \<Rightarrow> bool"
    and required :: "string \<Rightarrow> string list"
    and optional :: "string \<Rightarrow> string list"
    and status :: "string \<Rightarrow> 'f \<Rightarrow> command_status"
  assumes blocked_iff: "status c f = BLOCKED \<longleftrightarrow> (\<exists>s \<in> set (required c). \<not> present f s)"
    and allowed_iff: "status c f = ALLOWED \<longleftrightarrow>
      (\<forall>s \<in> set (required c). present f s) \<and> (\<forall>s \<in> set (optional c). present f s)"
begin

lemma status_mono:
  assumes "\<And>s. present f s \<Longrightarrow> present g s"
  shows "status c g \<le> status c f"
proof (cases "status c g")
  case ALLOWED
  then show ?thesis by simp
next
  case DEGRADED
  with allowed_iff [of c g] blocked_iff [of c g] obtain s where "s \<in> set (optional c)" "\<not> present g s"
    by auto
  with assms have "status c f \<noteq> ALLOWED" by (auto simp: allowed_iff)
  with DEGRADED show ?thesis by (cases "status c f") simp_all
next
  case BLOCKED
  with assms have "status c f = BLOCKED" by (auto simp: blocked_iff)
  then show ?thesis by simp
qed

lemma all_present_allowed:
  "(\<And>s. s \<in> set (required c) \<union> set (optional c) \<Longrightarrow> present f s) \<Longrightarrow> status c f = ALLOWED"
  by (simp add: allowed_iff)

end

interpretation gate: command_gate has_surface required_for optional_for "\<lambda>c f. cr_status (evaluate_command c f)"
  by unfold_locales (auto simp: evaluate_command_def Let_def filter_empty_conv)

section \<open>Tables\<close>

lemma table_range:
  assumes "list_all (\<lambda>(_, ss). list_all (\<lambda>s. s \<in> A) ss) t"
  shows "set (dict_get_or t c []) \<subseteq> A"
proof (cases "dict_get t c")
  case (Some ss)
  then have "(c, ss) \<in> set t" by (simp add: dict_get_def map_of_SomeD)
  with assms Some show ?thesis by (auto simp: list_all_iff dict_get_or_def)
qed (simp add: dict_get_or_def)

text \<open>The surfaces commands name are known, and none is transitional.\<close>

definition command_surfaces :: "string list" where
  "command_surfaces = [''authenticated_identity'', ''run_dispatch'', ''run_async_accept'', ''context_compile'',
     ''explainability'', ''support_bundle'', ''run_tail'', ''budget_visibility'']"

lemma command_surfaces_known:
  "set (required_for c) \<subseteq> set command_surfaces" "set (optional_for c) \<subseteq> set command_surfaces"
proof -
  have "list_all (\<lambda>(_, ss). list_all (\<lambda>s. s \<in> set command_surfaces) ss) command_requirements"
    "list_all (\<lambda>(_, ss). list_all (\<lambda>s. s \<in> set command_surfaces) ss) command_optional_surfaces"
    by code_simp+
  then show "set (required_for c) \<subseteq> set command_surfaces" "set (optional_for c) \<subseteq> set command_surfaces"
    unfolding required_for_def optional_for_def by (simp_all add: table_range)
qed

section \<open>Posture and commands\<close>

lemma negotiated_features: "ng_features (negotiate now caps) = classify_features caps"
  by (simp add: negotiate_def classify_surfaces_def Let_def)

lemma has_surface_simps:
  "has_surface f ''authenticated_identity'' = ft_authenticated_identity f"
  "has_surface f ''run_dispatch'' = ft_run_dispatch f"
  "has_surface f ''run_async_accept'' = ft_run_async_accept f"
  "has_surface f ''context_compile'' = ft_context_compile f"
  "has_surface f ''explainability'' = ft_explainability f"
  "has_surface f ''support_bundle'' = ft_support_bundle f"
  "has_surface f ''run_tail'' = ft_run_tail f"
  "has_surface f ''budget_visibility'' = ft_budget_visibility f"
  by (simp_all add: has_surface_def features_to_dict_def json_simps)

lemma negotiated_status:
  "cs_status (ng_compatibility (negotiate now caps)) =
     (if \<not> has_surface (classify_features caps) ''authenticated_identity''
         \<or> \<not> has_surface (classify_features caps) ''run_dispatch'' then NBLOCKED
      else if \<exists>s \<in> set command_surfaces. \<not> has_surface (classify_features caps) s then NDEGRADED
      else COMPATIBLE)"
proof -
  let ?f = "classify_features caps"
  have missing: "collect_by_class (surface_entries ?f) c (Some False) \<noteq> [] \<longleftrightarrow>
      list_ex (\<lambda>(n, cl, d). cl = c \<and> \<not> has_surface ?f n) surface_taxonomy" for c
  proof -
    have "filter (\<lambda>e. su_class e = c \<and> su_present e = False)
        (map (\<lambda>(nm, cls, desc). \<lparr>su_name = nm, su_class = cls, su_present = has_surface ?f nm,
           su_description = desc\<rparr>) xs) \<noteq> [] \<longleftrightarrow>
      list_ex (\<lambda>(n, cl, d). cl = c \<and> \<not> has_surface ?f n) xs" for xs
      by (induction xs) (auto split: prod.splits)
    then show ?thesis by (simp add: collect_by_class_def surface_entries_def)
  qed
  have required: "list_ex (\<lambda>(n, cl, d). cl = REQUIRED \<and> \<not> has_surface ?f n) surface_taxonomy \<longleftrightarrow>
      \<not> has_surface ?f ''authenticated_identity'' \<or> \<not> has_surface ?f ''run_dispatch''"
    by (simp add: surface_taxonomy_def)
  have optional: "list_ex (\<lambda>(n, cl, d). cl = REQUIRED \<and> \<not> has_surface ?f n) surface_taxonomy \<or>
      list_ex (\<lambda>(n, cl, d). cl = OPTIONAL \<and> \<not> has_surface ?f n) surface_taxonomy \<longleftrightarrow>
      (\<exists>s \<in> set command_surfaces. \<not> has_surface ?f s)"
    by (simp add: surface_taxonomy_def command_surfaces_def; blast)
  have "cs_status (ng_compatibility (negotiate now caps)) =
      (if collect_by_class (surface_entries ?f) REQUIRED (Some False) \<noteq> [] then NBLOCKED
       else if collect_by_class (surface_entries ?f) OPTIONAL (Some False) \<noteq> [] then NDEGRADED else COMPATIBLE)"
    by (simp add: negotiate_def classify_surfaces_def Let_def)
  then show ?thesis unfolding missing using required optional by auto
qed

text \<open>
  The posture is a promise about the commands. A boundary negotiates as blocked exactly
  when it declares no identity or no run dispatch; under a compatible posture every command,
  registered or not, is allowed; unless the posture is blocked, no command is blocked that
  needs nothing but identity and run dispatch.
\<close>

theorem negotiated_posture_and_commands:
  assumes "r = negotiate now caps"
  shows "(cs_status (ng_compatibility r) = NBLOCKED \<longleftrightarrow> cap_identity_endpoint caps = [] \<or>
           (cap_run_dispatch_endpoint caps = [] \<and> cap_operations_implemented caps \<le> 0))
     \<and> (cs_status (ng_compatibility r) = COMPATIBLE \<longrightarrow>
           (\<forall>c. cr_status (evaluate_command c (ng_features r)) = ALLOWED))
     \<and> (cs_status (ng_compatibility r) \<noteq> NBLOCKED \<longrightarrow>
           (\<forall>c. set (required_for c) \<subseteq> {''authenticated_identity'', ''run_dispatch''} \<longrightarrow>
                cr_status (evaluate_command c (ng_features r)) \<noteq> BLOCKED))"
proof -
  let ?f = "classify_features caps"
  note st = negotiated_status [of now caps]
  have r: "ng_features r = ?f" "cs_status (ng_compatibility r) = cs_status (ng_compatibility (negotiate now caps))"
    by (simp_all add: assms negotiated_features)
  have "has_surface ?f ''authenticated_identity'' = (cap_identity_endpoint caps \<noteq> [])"
    "has_surface ?f ''run_dispatch'' = (cap_run_dispatch_endpoint caps \<noteq> [] \<or> cap_operations_implemented caps > 0)"
    by (simp_all add: has_surface_simps classify_features_def Let_def)
  then have blocked: "cs_status (ng_compatibility (negotiate now caps)) = NBLOCKED \<longleftrightarrow> cap_identity_endpoint caps = [] \<or>
      (cap_run_dispatch_endpoint caps = [] \<and> cap_operations_implemented caps \<le> 0)"
    by (auto simp: st)
  have allowed: "cr_status (evaluate_command c ?f) = ALLOWED"
    if "cs_status (ng_compatibility (negotiate now caps)) = COMPATIBLE" for c
  proof (rule gate.all_present_allowed)
    fix s assume "s \<in> set (required_for c) \<union> set (optional_for c)"
    with command_surfaces_known [of c] have "s \<in> set command_surfaces" by blast
    with that st show "has_surface ?f s" by (auto split: if_splits)
  qed
  have unblocked: "cr_status (evaluate_command c ?f) \<noteq> BLOCKED"
    if "cs_status (ng_compatibility (negotiate now caps)) \<noteq> NBLOCKED"
      "set (required_for c) \<subseteq> {''authenticated_identity'', ''run_dispatch''}" for c
    using that st gate.blocked_iff [of c ?f] by (auto split: if_splits)
  show ?thesis unfolding r using blocked allowed unblocked by blast
qed

definition sample_caps :: capabilities where
  "sample_caps =
     \<lparr>cap_contract = ''v5'', cap_operations_implemented = 3, cap_identity_endpoint = ''/whoami'',
      cap_run_dispatch_endpoint = [], cap_flags = [(''run_async_accept'', True), (''support_bundle'', True)],
      cap_implemented_surfaces = [], cap_connection_run_types =
        [\<lparr>ct_run_type = ''context.compile'', ct_implemented = False\<rparr>],
      cap_digest = ''d'', cap_operations = [], cap_raw = []\<rparr>"

theorem negotiated_posture_and_commands_witness:
  "cr_status (evaluate_command ''keyhole run'' (ng_features (negotiate ''now'' sample_caps))) \<noteq> BLOCKED"
proof -
  have "set (required_for ''keyhole run'') \<subseteq> {''authenticated_identity'', ''run_dispatch''}"
    by (simp add: required_for_def command_requirements_def json_simps)
  with negotiated_posture_and_commands [OF refl, of "''now''" sample_caps] show ?thesis
    by (simp add: sample_caps_def)
qed

text \<open>
  More surfaces never make a command worse: when a boundary declares every surface
  another one declares, each command's status under it is at most as severe.
\<close>

theorem evaluate_command_monotone:
  assumes "\<forall>s. has_surface f s \<longrightarrow> has_surface g s"
  shows "cr_status (evaluate_command c g) \<le> cr_status (evaluate_command c f)"
  using gate.status_mono [of f g c] assms by blast

theorem evaluate_command_monotone_witness:
  "cr_status (evaluate_command ''keyhole runs wait'' (classify_features sample_caps))
     \<le> cr_status (evaluate_command ''keyhole runs wait''
         ((classify_features sample_caps)\<lparr>ft_run_async_accept := False\<rparr>))"
proof (rule evaluate_command_monotone, intro allI impI)
  fix s
  assume "has_surface ((classify_features sample_caps)\<lparr>ft_run_async_accept := False\<rparr>) s"
  then show "has_surface (classify_features sample_caps) s"
    by (auto simp: has_surface_def features_to_dict_def json_simps split: if_splits)
qed

section \<open>Guidance\<close>

lemma add_steps_set: "set (add_steps new acc) = set new \<union> set acc"
  unfolding add_steps_def by (induction new arbitrary: acc) auto

lemma add_steps_distinct: "distinct acc \<Longrightarrow> distinct (add_steps new acc)"
  unfolding add_steps_def by (induction new arbitrary: acc) auto

lemma collect_repair_spec:
  "distinct (collect_repair ss b)"
  "set (collect_repair ss b) = (\<Union>s \<in> set ss. set (map_negotiation_repair s)) \<union>
     set (map_negotiation_repair (if b then ''command_blocked'' else ''command_degraded''))"
proof -
  have fold: "distinct acc \<Longrightarrow> distinct (fold (\<lambda>s. add_steps (map_negotiation_repair s)) ss acc)"
    "set (fold (\<lambda>s. add_steps (map_negotiation_repair s)) ss acc) =
       set acc \<union> (\<Union>s \<in> set ss. set (map_negotiation_repair s))" for acc
    by (induction ss arbitrary: acc) (auto simp: add_steps_set add_steps_distinct)
  show "distinct (collect_repair ss b)"
    by (simp add: collect_repair_def add_steps_distinct fold)
  show "set (collect_repair ss b) = (\<Union>s \<in> set ss. set (map_negotiation_repair s)) \<union>
     set (map_negotiation_repair (if b then ''command_blocked'' else ''command_degraded''))"
    by (auto simp: collect_repair_def add_steps_set fold)
qed

lemma surfaces_have_repair: "list_all (\<lambda>s. dict_get negotiation_repair s \<noteq> None) command_surfaces"
  by code_simp

text \<open>
  A command that is not allowed says why and how to recover: it names exactly the absent
  surfaces it needs (or would like), and its repair steps are distinct and are exactly the
  steps of those surfaces, each of which has guidance of its own, and of its status.
\<close>

theorem command_guidance_complete:
  assumes "r = evaluate_command c f"
  shows "distinct (cr_repair r)
    \<and> (cr_status r = BLOCKED \<longrightarrow>
        cr_required_missing r = filter (\<lambda>s. \<not> has_surface f s) (required_for c)
        \<and> set (cr_repair r) = (\<Union>s \<in> set (cr_required_missing r). set (the (dict_get negotiation_repair s)))
            \<union> set (map_negotiation_repair ''command_blocked''))
    \<and> (cr_status r = DEGRADED \<longrightarrow>
        cr_required_missing r = []
        \<and> cr_optional_missing r = filter (\<lambda>s. \<not> has_surface f s) (optional_for c)
        \<and> set (cr_repair r) = (\<Union>s \<in> set (cr_optional_missing r). set (the (dict_get negotiation_repair s)))
            \<union> set (map_negotiation_repair ''command_degraded''))"
proof -
  have own: "map_negotiation_repair s = the (dict_get negotiation_repair s)" if "s \<in> set command_surfaces" for s
    using surfaces_have_repair that by (auto simp: list_all_iff map_negotiation_repair_def dict_get_or_def)
  have "(\<Union>s \<in> {s \<in> set ss. P s}. set (map_negotiation_repair s)) =
      (\<Union>s \<in> {s \<in> set ss. P s}. set (the (dict_get negotiation_repair s)))"
    if "set ss \<subseteq> set command_surfaces" for P ss
    using that own by (intro SUP_cong) auto
  note own_steps = this [OF command_surfaces_known(1)] this [OF command_surfaces_known(2)]
  show ?thesis
    unfolding assms
    by (simp add: evaluate_command_def Let_def collect_repair_spec own_steps)
qed

theorem command_guidance_complete_witness:
  "distinct (cr_repair (evaluate_command ''keyhole runs tail'' (classify_features sample_caps)))"
  using command_guidance_complete [OF refl] by blast

text \<open>
  An optional surface can block. The class of a surface does not bound its effect on a
  command: a boundary that negotiates as degraded, with all required surfaces, blocks
  \<open>keyhole runs tail\<close>; and a connection run type advertised as not implemented counts as
  an implemented context surface.
\<close>

theorem degraded_boundary_blocks:
  "cs_status (ng_compatibility (negotiate ''now'' sample_caps)) = NDEGRADED
   \<and> cs_required_missing (ng_compatibility (negotiate ''now'' sample_caps)) = []
   \<and> cr_status (evaluate_command ''keyhole runs tail'' (ng_features (negotiate ''now'' sample_caps))) = BLOCKED
   \<and> ft_context_compile (ng_features (negotiate ''now'' sample_caps))"
  by code_simp

end
