(* ===== verification/Context_Client.thy ===== *)
theory Context_Client
  imports Keyhole_Prelude
begin

text \<open>
  Governed context retrieval (\<open>context/client.py\<close>, \<open>context/models.py\<close>): the read-only run
  types, one \<open>POST /mcp/v1/runs/start\<close> with its error classes, and the normalisation of a
  \<open>context.compile\<close> answer into a snapshot. The HTTP session is a function from a URL and
  a payload to an answer; \<open>fstr\<close> is Python's \<open>str\<close> on a JSON value and \<open>repr\<close> its \<open>repr\<close> on
  a string. Model construction by pydantic fails (\<open>CtxInvalid\<close>) when a list or a dictionary
  of strings holds something else.
\<close>

section \<open>Calls and answers\<close>

text \<open>
  \<open>PostRaises\<close> is an exception of \<open>requests\<close> (all of them are \<open>OSError\<close>s) with its message;
  \<open>PostAnswer\<close> a status code, the text, and the body when it is JSON.
\<close>

datatype post_answer =
    PostRaises string
  | PostAnswer int string "json option"

datatype ctx_error =
    CtxTransportError string
  | CtxAuthenticationError string
  | CtxSchemaError string
  | CtxValueError string
  | CtxInvalid string

fun ctx_error_text :: "ctx_error \<Rightarrow> string" where
  "ctx_error_text (CtxTransportError m) = m"
| "ctx_error_text (CtxAuthenticationError m) = m"
| "ctx_error_text (CtxSchemaError m) = m"
| "ctx_error_text (CtxValueError m) = m"
| "ctx_error_text (CtxInvalid m) = m"

record run_start_response =
  rsr_run_type :: string
  rsr_status :: string
  rsr_data :: dict
  rsr_raw :: dict

definition context_run_types :: "string list" where
  "context_run_types =
     [''context.compile'', ''gaps.list'', ''lineage.get.v0_1'', ''convergence.status.v0_1'']"

definition runs_start_path :: string where
  "runs_start_path = ''/mcp/v1/runs/start''"

definition safe_str :: "(json \<Rightarrow> string) \<Rightarrow> dict \<Rightarrow> string \<Rightarrow> string" where
  "safe_str fstr d k = (case json_get d k of JNull \<Rightarrow> [] | v \<Rightarrow> fstr v)"

definition safe_int :: "dict \<Rightarrow> string \<Rightarrow> int" where
  "safe_int d k = (case json_get d k of JInt i \<Rightarrow> i | JBool b \<Rightarrow> (if b then 1 else 0) | _ \<Rightarrow> 0)"

definition safe_list :: "dict \<Rightarrow> string \<Rightarrow> json list" where
  "safe_list d k = (case json_get d k of JList xs \<Rightarrow> xs | _ \<Rightarrow> [])"

definition safe_dict :: "dict \<Rightarrow> string \<Rightarrow> dict" where
  "safe_dict d k = as_dict (json_get d k)"

text \<open>\<open>ContextClient._invoke\<close>.\<close>

definition start_response :: "(json \<Rightarrow> string) \<Rightarrow> string \<Rightarrow> dict \<Rightarrow> run_start_response" where
  "start_response fstr run_type data =
     \<lparr>rsr_run_type = run_type, rsr_status = safe_str fstr data ''status'',
      rsr_data = safe_dict data ''data'', rsr_raw = data\<rparr>"

definition context_invoke ::
  "(json \<Rightarrow> string) \<Rightarrow> (string \<Rightarrow> dict \<Rightarrow> post_answer) \<Rightarrow> string \<Rightarrow> string \<Rightarrow> dict
     \<Rightarrow> ctx_error + run_start_response" where
  "context_invoke fstr post base_url run_type params =
     (case post (py_rstrip_char (CHR ''/'') base_url @ runs_start_path)
             [(''run_type'', JStr run_type), (''params'', JObj params)] of
        PostRaises m \<Rightarrow>
          Inl (CtxTransportError (''Context retrieval failed for '' @ run_type @ '': '' @ m))
      | PostAnswer code txt body \<Rightarrow>
          if code = 401 then
            Inl (CtxAuthenticationError (''Authentication required for '' @ run_type @
              ''. Ensure a valid bearer token is provided.''))
          else if code = 403 then
            Inl (CtxAuthenticationError (''Insufficient authority for '' @ run_type @
              ''. Check participant identity and charter posture.''))
          else if code \<notin> {200, 201, 202} then
            Inl (CtxTransportError (''Context retrieval returned '' @ str_int code @ '' for '' @
              run_type @ '': '' @ take 200 txt))
          else
            (case body of
               None \<Rightarrow> Inl (CtxSchemaError
                 (''Context response for '' @ run_type @ '' is not valid JSON''))
             | Some (JObj data) \<Rightarrow> Inr (start_response fstr run_type data)
             | Some _ \<Rightarrow> Inl (CtxSchemaError
                 (''Context response for '' @ run_type @ '' is not a JSON object''))))"

text \<open>\<open>list_gaps\<close>, \<open>get_lineage\<close>, \<open>get_convergence_status\<close> and the generic \<open>invoke\<close>.\<close>

definition list_gaps ::
  "(json \<Rightarrow> string) \<Rightarrow> (string \<Rightarrow> dict \<Rightarrow> post_answer) \<Rightarrow> string \<Rightarrow> dict
     \<Rightarrow> ctx_error + run_start_response" where
  "list_gaps fstr post base_url params = context_invoke fstr post base_url ''gaps.list'' params"

definition get_lineage ::
  "(json \<Rightarrow> string) \<Rightarrow> (string \<Rightarrow> dict \<Rightarrow> post_answer) \<Rightarrow> string \<Rightarrow> string \<Rightarrow> dict
     \<Rightarrow> ctx_error + run_start_response" where
  "get_lineage fstr post base_url target params =
     context_invoke fstr post base_url ''lineage.get.v0_1'' (dict_set ''target'' (JStr target) params)"

definition get_convergence_status ::
  "(json \<Rightarrow> string) \<Rightarrow> (string \<Rightarrow> dict \<Rightarrow> post_answer) \<Rightarrow> string \<Rightarrow> dict
     \<Rightarrow> ctx_error + run_start_response" where
  "get_convergence_status fstr post base_url params =
     context_invoke fstr post base_url ''convergence.status.v0_1'' params"

definition context_client_invoke ::
  "(string \<Rightarrow> string) \<Rightarrow> (json \<Rightarrow> string) \<Rightarrow> (string \<Rightarrow> dict \<Rightarrow> post_answer) \<Rightarrow> string \<Rightarrow> string
     \<Rightarrow> dict option \<Rightarrow> ctx_error + run_start_response" where
  "context_client_invoke repr fstr post base_url run_type params =
     (if run_type \<notin> set context_run_types then
        Inl (CtxValueError (''Unknown context-access run type: '' @ repr run_type @
          ''. Supported: ['' @ py_join '', '' (map repr
            [''context.compile'', ''convergence.status.v0_1'', ''gaps.list'', ''lineage.get.v0_1'']) @ '']''))
      else context_invoke fstr post base_url run_type (case params of None \<Rightarrow> [] | Some d \<Rightarrow> d))"

section \<open>The snapshot\<close>

record topology_info =
  tp_platform_name :: string
  tp_governance_model :: string
  tp_primary_surfaces :: "string list"
  tp_runtime_model :: string
  tp_deployment_model :: string

record contract_info =
  ct_mcp_contract :: string
  ct_envelope_schema :: string
  ct_passport_schema :: string
  ct_event_schema :: string
  ct_identity_model :: string
  ct_charter_model :: string
  ct_workspace_model :: string

record context_access_info =
  ca_implemented_surfaces :: "string list"
  ca_declared_count :: int
  ca_implemented_count :: int

record guidance_info =
  gd_run_type_discipline :: string
  gd_discovery_guidance :: string
  gd_gap_workflow_guidance :: string
  gd_event_query_guidance :: string

record retrieval_metadata =
  md_run_type :: string
  md_retrieved_at :: string
  md_generated_at :: string
  md_digest :: string
  md_ctx_ref_sha256 :: string
  md_correlation_id :: string
  md_server_time :: string

record context_snapshot =
  cs_topology :: topology_info
  cs_contracts :: contract_info
  cs_interfaces :: "(string \<times> string) list"
  cs_context_access :: context_access_info
  cs_guidance :: guidance_info
  cs_retrieval :: retrieval_metadata
  cs_raw :: dict

text \<open>Pydantic's \<open>List[str]\<close> and \<open>Dict[str, str]\<close>.\<close>

fun str_list :: "json list \<Rightarrow> string list option" where
  "str_list [] = Some []"
| "str_list (JStr s # xs) = map_option ((#) s) (str_list xs)"
| "str_list (_ # xs) = None"

fun str_dict :: "dict \<Rightarrow> (string \<times> string) list option" where
  "str_dict [] = Some []"
| "str_dict ((k, JStr s) # d) = map_option ((#) (k, s)) (str_dict d)"
| "str_dict (_ # d) = None"

definition list_or :: "json list \<Rightarrow> json list \<Rightarrow> json list" where
  "list_or a b = (if a \<noteq> [] then a else b)"

definition extract_topology :: "(json \<Rightarrow> string) \<Rightarrow> dict \<Rightarrow> topology_info option" where
  "extract_topology fstr data =
     (let topo = (if safe_dict data ''topology'' = [] then safe_dict data ''platform''
                  else safe_dict data ''topology'')
      in map_option
           (\<lambda>surfaces. \<lparr>tp_platform_name = str_or (safe_str fstr topo ''platform_name'') (safe_str fstr topo ''name''),
              tp_governance_model = str_or (safe_str fstr topo ''governance_model'') (safe_str fstr topo ''model''),
              tp_primary_surfaces = surfaces,
              tp_runtime_model = safe_str fstr topo ''runtime_model'',
              tp_deployment_model = safe_str fstr topo ''deployment_model''\<rparr>)
           (str_list (list_or (safe_list topo ''primary_surfaces'') (safe_list topo ''surfaces''))))"

definition extract_contracts :: "(json \<Rightarrow> string) \<Rightarrow> dict \<Rightarrow> contract_info" where
  "extract_contracts fstr data =
     (let ct = safe_dict data ''contracts''
      in \<lparr>ct_mcp_contract = str_or (safe_str fstr ct ''mcp_contract'') (safe_str fstr ct ''contract''),
          ct_envelope_schema = safe_str fstr ct ''envelope_schema'',
          ct_passport_schema = safe_str fstr ct ''passport_schema'',
          ct_event_schema = safe_str fstr ct ''event_schema'',
          ct_identity_model = safe_str fstr ct ''identity_model'',
          ct_charter_model = safe_str fstr ct ''charter_model'',
          ct_workspace_model = safe_str fstr ct ''workspace_model''\<rparr>)"

definition extract_interfaces :: "dict \<Rightarrow> (string \<times> string) list option" where
  "extract_interfaces data = str_dict (safe_dict data ''interfaces'')"

definition extract_context_access :: "dict \<Rightarrow> context_access_info option" where
  "extract_context_access data =
     (let ca = safe_dict data ''context_access''
      in map_option
           (\<lambda>surfaces. \<lparr>ca_implemented_surfaces = surfaces,
              ca_declared_count = safe_int ca ''declared_count'',
              ca_implemented_count = safe_int ca ''implemented_count''\<rparr>)
           (str_list (list_or (safe_list ca ''implemented_surfaces'') (safe_list ca ''surfaces''))))"

definition extract_guidance :: "(json \<Rightarrow> string) \<Rightarrow> dict \<Rightarrow> guidance_info" where
  "extract_guidance fstr data =
     (let g = safe_dict data ''guidance''
      in \<lparr>gd_run_type_discipline = str_or (safe_str fstr g ''run_type_discipline'') (safe_str fstr g ''run_type_rule''),
          gd_discovery_guidance = safe_str fstr g ''discovery_guidance'',
          gd_gap_workflow_guidance = safe_str fstr g ''gap_workflow_guidance'',
          gd_event_query_guidance = safe_str fstr g ''event_query_guidance''\<rparr>)"

definition extract_retrieval_metadata :: "(json \<Rightarrow> string) \<Rightarrow> dict \<Rightarrow> string \<Rightarrow> string \<Rightarrow> retrieval_metadata" where
  "extract_retrieval_metadata fstr data run_type retrieved_at =
     (let meta = safe_dict data ''metadata''
      in \<lparr>md_run_type = run_type, md_retrieved_at = retrieved_at,
          md_generated_at = safe_str fstr meta ''generated_at'',
          md_digest = safe_str fstr meta ''digest'',
          md_ctx_ref_sha256 = safe_str fstr meta ''ctx_ref_sha256'',
          md_correlation_id = safe_str fstr meta ''correlation_id'',
          md_server_time = safe_str fstr meta ''server_time''\<rparr>)"

definition normalize_context ::
  "(json \<Rightarrow> string) \<Rightarrow> string \<Rightarrow> run_start_response \<Rightarrow> ctx_error + context_snapshot" where
  "normalize_context fstr now r =
     (let data = rsr_data r
      in case extract_topology fstr data of
           None \<Rightarrow> Inl (CtxInvalid ''TopologyInfo'')
         | Some topo \<Rightarrow>
             (case extract_interfaces data of
                None \<Rightarrow> Inl (CtxInvalid ''InterfaceInfo'')
              | Some ifs \<Rightarrow>
                  (case extract_context_access data of
                     None \<Rightarrow> Inl (CtxInvalid ''ContextAccessInfo'')
                   | Some access \<Rightarrow>
                       Inr \<lparr>cs_topology = topo, cs_contracts = extract_contracts fstr data,
                            cs_interfaces = ifs, cs_context_access = access,
                            cs_guidance = extract_guidance fstr data,
                            cs_retrieval = extract_retrieval_metadata fstr data (rsr_run_type r) now,
                            cs_raw = rsr_raw r\<rparr>)))"

definition compile_context ::
  "(json \<Rightarrow> string) \<Rightarrow> (string \<Rightarrow> dict \<Rightarrow> post_answer) \<Rightarrow> string \<Rightarrow> string \<Rightarrow> dict
     \<Rightarrow> ctx_error + context_snapshot" where
  "compile_context fstr post now base_url params =
     (case context_invoke fstr post base_url ''context.compile'' params of
        Inl e \<Rightarrow> Inl e
      | Inr r \<Rightarrow> normalize_context fstr now r)"

definition get_digest :: "context_snapshot \<Rightarrow> string" where
  "get_digest s = md_digest (cs_retrieval s)"

definition get_mcp_contract :: "context_snapshot \<Rightarrow> string" where
  "get_mcp_contract s = ct_mcp_contract (cs_contracts s)"

definition get_correlation_id :: "context_snapshot \<Rightarrow> string" where
  "get_correlation_id s = md_correlation_id (cs_retrieval s)"

section \<open>Facts\<close>

lemma safe_str_cases:
  "safe_str fstr d k = (if json_get d k = JNull then [] else fstr (json_get d k))"
  by (simp add: safe_str_def split: json.split)

lemma str_list_Some: "str_list xs = Some ys \<longleftrightarrow> xs = map JStr ys"
proof (induction xs arbitrary: ys rule: str_list.induct)
  case (2 s xs)
  then show ?case by (cases ys) auto
qed auto

lemma str_dict_Some: "str_dict d = Some e \<longleftrightarrow> d = map (\<lambda>(k, s). (k, JStr s)) e"
proof (induction d arbitrary: e rule: str_dict.induct)
  case (2 k s d)
  then show ?case by (cases e) auto
qed auto

text \<open>What a successful invocation says about the answer.\<close>

lemma context_invoke_Inr:
  "context_invoke fstr post base_url run_type params = Inr r \<longleftrightarrow>
     (\<exists>code txt data.
        post (py_rstrip_char (CHR ''/'') base_url @ runs_start_path)
          [(''run_type'', JStr run_type), (''params'', JObj params)] = PostAnswer code txt (Some (JObj data)) \<and>
        code \<in> {200, 201, 202} \<and> r = start_response fstr run_type data)"
  by (auto simp: context_invoke_def split: post_answer.split option.split json.split)

end
