(* ===== verification/Proof_Bundle.thy ===== *)
theory Proof_Bundle
  imports Keyhole_Prelude
begin

text \<open>
  Local proof assembly (\<open>proof/models.py\<close>, \<open>proof/runner.py\<close>, \<open>proof/adapters.py\<close>): the
  participant contract, verification outputs and the bundle, the verification runner with
  its registered collectors, and the adapters for platform calls. A collector is the
  outcome of its one call; the answers of \<open>git\<close> and the readings of the clock are given.
\<close>

section \<open>Models\<close>

datatype support_status = SUPPORTED_SURFACE | SCAFFOLDED | NOT_YET_AVAILABLE

record participant_contract =
  pc_support_status :: support_status
  pc_participant_name :: string
  pc_participant_type :: string
  pc_repository_url :: string
  pc_verification_classes :: "string list"
  pc_supported_environments :: "string list"
  pc_supported_python_versions :: "string list"
  pc_scope_hint :: string
  pc_compatibility_posture :: string
  pc_notes :: string

definition contract_placeholder :: participant_contract where
  "contract_placeholder =
     \<lparr>pc_support_status = SCAFFOLDED,
      pc_participant_name = ''keyhole-developer-kit'',
      pc_participant_type = ''external-developer-kit'',
      pc_repository_url = ''https://github.com/Keyhole-Solution/keyhole-developer-kit'',
      pc_verification_classes = [''unit-tests'', ''contract-surface-tests'', ''boundary-smoke-tests''],
      pc_supported_environments = [''local-only'', ''governed''],
      pc_supported_python_versions = [''3.9'', ''3.10'', ''3.11'', ''3.12''],
      pc_scope_hint = ''public-sdk-and-cli'',
      pc_compatibility_posture = ''boundary-consuming'',
      pc_notes = ''This is a provisional participant contract placeholder. '' @
        ''It will be replaced by a live contract registration payload '' @
        ''when platform-side DEV-UX-03 surfaces stabilize.''\<rparr>"

record verification_output =
  vo_verification_class :: string
  vo_passed :: bool
  vo_total_tests :: int
  vo_passed_tests :: int
  vo_failed_tests :: int
  vo_skipped_tests :: int
  vo_error_summary :: string
  vo_executed_at :: "string option"
  vo_duration_seconds :: "rat option"
  vo_metadata :: dict

definition blank_output :: verification_output where
  "blank_output =
     \<lparr>vo_verification_class = [], vo_passed = False, vo_total_tests = 0, vo_passed_tests = 0,
      vo_failed_tests = 0, vo_skipped_tests = 0, vo_error_summary = [], vo_executed_at = None,
      vo_duration_seconds = None, vo_metadata = []\<rparr>"

record proof_bundle =
  pb_participant_name :: string
  pb_participant_type :: string
  pb_source_repository :: string
  pb_source_commit :: string
  pb_source_ref :: string
  pb_verification_outputs :: "verification_output list"
  pb_environment :: string
  pb_python_version :: string
  pb_sdk_version :: string
  pb_platform_info :: string
  pb_context_digest :: string
  pb_capabilities_contract_version :: string
  pb_assembled_at :: "string option"

definition add_verification :: "verification_output \<Rightarrow> proof_bundle \<Rightarrow> proof_bundle" where
  "add_verification v b = b\<lparr>pb_verification_outputs := pb_verification_outputs b @ [v]\<rparr>"

definition bundle_all_passed :: "proof_bundle \<Rightarrow> bool" where
  "bundle_all_passed b =
     (0 < length (pb_verification_outputs b) \<and> (\<forall>v \<in> set (pb_verification_outputs b). vo_passed v))"

definition count_passed :: "verification_output list \<Rightarrow> nat" where
  "count_passed vs = length (filter vo_passed vs)"

definition verification_summary :: "proof_bundle \<Rightarrow> dict" where
  "verification_summary b =
     (let total = length (pb_verification_outputs b);
          passed = count_passed (pb_verification_outputs b)
      in [(''total_verifications'', JInt (int total)), (''passed'', JInt (int passed)),
          (''failed'', JInt (int total - int passed)), (''all_passed'', JBool (bundle_all_passed b))])"

section \<open>The verification runner\<close>

text \<open>
  What a collector does when called: it returns a \<open>VerificationOutput\<close>, it returns something
  else, or it raises. Collectors are kept in a dictionary by class.
\<close>

datatype collector =
    Collects verification_output
  | CollectsOther
  | CollectorRaises string

type_synonym collectors = "(string \<times> collector) list"

definition register_collector :: "string \<Rightarrow> collector \<Rightarrow> collectors \<Rightarrow> collectors" where
  "register_collector cls c cs = dict_set cls c cs"

text \<open>
  \<open>subprocess.run\<close> of \<open>git\<close>: a return code with the output, no executable, a timeout, or any
  other exception, which is not caught.
\<close>

datatype git_answer =
    GitDone int string
  | GitMissing
  | GitTimeout
  | GitOtherError string

definition git_text :: "git_answer \<Rightarrow> string + string" where
  "git_text a =
     (case a of
        GitDone rc out \<Rightarrow> Inr (if rc = 0 then py_strip out else [])
      | GitOtherError m \<Rightarrow> Inl m
      | _ \<Rightarrow> Inr [])"

definition capture_source_info :: "git_answer \<Rightarrow> git_answer \<Rightarrow> string + (string \<times> string)" where
  "capture_source_info head abbrev =
     (case git_text head of
        Inl e \<Rightarrow> Inl e
      | Inr commit \<Rightarrow>
          (case git_text abbrev of
             Inl e \<Rightarrow> Inl e
           | Inr ref \<Rightarrow> Inr (commit, ref)))"

record environment_info =
  ei_python_version :: string
  ei_platform_info :: string
  ei_sdk_version :: string

record verification_runner =
  vr_participant_name :: string
  vr_participant_type :: string
  vr_source_repository :: string
  vr_environment :: string
  vr_collectors :: collectors

definition collect_one :: "string \<Rightarrow> string \<Rightarrow> collector \<Rightarrow> verification_output list" where
  "collect_one now cls c =
     (case c of
        Collects v \<Rightarrow> [if vo_verification_class v = [] then v\<lparr>vo_verification_class := cls\<rparr> else v]
      | CollectsOther \<Rightarrow> []
      | CollectorRaises m \<Rightarrow>
          [blank_output\<lparr>vo_verification_class := cls, vo_passed := False,
             vo_error_summary := ''Collector raised: '' @ m, vo_executed_at := Some now\<rparr>])"

fun collect_all :: "(string \<Rightarrow> string) \<Rightarrow> collectors \<Rightarrow> verification_output list" where
  "collect_all clock [] = []"
| "collect_all clock ((cls, c) # cs) = collect_one (clock cls) cls c @ collect_all clock cs"

definition run_verification ::
  "(string \<Rightarrow> string) \<Rightarrow> environment_info \<Rightarrow> git_answer \<Rightarrow> git_answer \<Rightarrow> verification_runner
     \<Rightarrow> string \<Rightarrow> string \<Rightarrow> string + proof_bundle" where
  "run_verification clock env head abbrev r context_digest contract_version =
     (case capture_source_info head abbrev of
        Inl e \<Rightarrow> Inl e
      | Inr (commit, ref) \<Rightarrow>
          Inr \<lparr>pb_participant_name = vr_participant_name r,
               pb_participant_type = vr_participant_type r,
               pb_source_repository = vr_source_repository r,
               pb_source_commit = commit, pb_source_ref = ref,
               pb_verification_outputs = collect_all clock (vr_collectors r),
               pb_environment = vr_environment r,
               pb_python_version = ei_python_version env,
               pb_sdk_version = ei_sdk_version env,
               pb_platform_info = ei_platform_info env,
               pb_context_digest = context_digest,
               pb_capabilities_contract_version = contract_version,
               pb_assembled_at = Some (clock ''assembled'')\<rparr>)"

section \<open>Adapters\<close>

record adapter_result =
  ar_supported :: bool
  ar_success :: bool
  ar_reason :: string
  ar_data :: dict

definition not_yet_available :: "string \<Rightarrow> adapter_result" where
  "not_yet_available operation =
     \<lparr>ar_supported = False, ar_success = False,
      ar_reason = operation @ '' is not yet available. '' @
        ''Platform-side surfaces are still stabilizing. '' @
        ''This adapter is scaffolded for future integration '' @ ''(CE-V5-S42-08).'',
      ar_data = []\<rparr>"

definition local_register :: "participant_contract \<Rightarrow> adapter_result" where
  "local_register _ = not_yet_available ''Contract registration''"

definition local_submit :: "proof_bundle \<Rightarrow> adapter_result" where
  "local_submit _ = not_yet_available ''Proof submission''"

definition local_retrieve_verdict :: "string \<Rightarrow> adapter_result" where
  "local_retrieve_verdict _ = not_yet_available ''Verdict retrieval''"

definition local_repair_guidance :: "string \<Rightarrow> adapter_result" where
  "local_repair_guidance _ = not_yet_available ''Repair guidance retrieval''"

section \<open>Facts\<close>

lemma collect_all_append [simp]:
  "collect_all clock (cs @ ds) = collect_all clock cs @ collect_all clock ds"
  by (induction cs) auto

lemma length_collect_all:
  "length (collect_all clock cs) = length (filter (\<lambda>(cls, c). c \<noteq> CollectsOther) cs)"
  by (induction cs) (auto simp: collect_one_def split: collector.split)

definition collector_ok :: "collector \<Rightarrow> bool" where
  "collector_ok c = (case c of Collects v \<Rightarrow> vo_passed v | CollectsOther \<Rightarrow> True | CollectorRaises m \<Rightarrow> False)"

lemma collect_one_passed: "(\<forall>v \<in> set (collect_one now cls c). vo_passed v) = collector_ok c"
  by (simp add: collect_one_def collector_ok_def split: collector.split)

lemma collect_all_passed:
  "(\<forall>v \<in> set (collect_all clock cs). vo_passed v) = (\<forall>(cls, c) \<in> set cs. collector_ok c)"
  by (induction cs) (simp_all add: ball_Un collect_one_passed split: prod.splits)

lemma collect_all_named:
  assumes "\<forall>(cls, c) \<in> set cs. cls \<noteq> []" "v \<in> set (collect_all clock cs)"
  shows "vo_verification_class v \<noteq> []"
  using assms by (induction cs) (auto simp: collect_one_def split: collector.splits if_splits)

lemma count_passed_le: "count_passed vs \<le> length vs"
  by (simp add: count_passed_def)

lemma count_passed_all: "count_passed vs = length vs \<longleftrightarrow> (\<forall>v \<in> set vs. vo_passed v)"
  by (simp add: count_passed_def filter_id_conv) (metis filter_id_conv length_filter_less nless_le)

end
