(* ===== verification/Governance.thy ===== *)
theory Governance
  imports Context_Client Proof_Bundle "HOL-Library.List_Lexorder" "HOL-Library.Char_ord"
begin

text \<open>
  The governance proof protocol (\<open>governance/models.py\<close>, \<open>runner.py\<close>, \<open>trace.py\<close>): seven
  phases run in order over the context client, the verification runner and the platform
  adapters; the aggregated result; and the causal trace built from its events. An exception
  that leaves \<open>run\<close> is the left side of a sum. SHA-256 in hexadecimal is the argument
  \<open>gw_sha\<close>.
\<close>

section \<open>Phases, events and results\<close>

datatype governance_phase =
    REGISTRATION | CONTEXT_PHASE | IMPLEMENTATION | VERIFICATION | SUBMISSION | EVALUATION | PROMOTION

fun phase_value :: "governance_phase \<Rightarrow> string" where
  "phase_value REGISTRATION = ''registration''"
| "phase_value CONTEXT_PHASE = ''context''"
| "phase_value IMPLEMENTATION = ''implementation''"
| "phase_value VERIFICATION = ''verification''"
| "phase_value SUBMISSION = ''submission''"
| "phase_value EVALUATION = ''evaluation''"
| "phase_value PROMOTION = ''promotion''"

definition expected_events :: "(governance_phase \<times> string) list" where
  "expected_events =
     [(REGISTRATION, ''participant.contract.registered''),
      (CONTEXT_PHASE, ''context.compile.resolved''),
      (IMPLEMENTATION, ''implementation.commit.captured''),
      (SUBMISSION, ''proof.bundle.submitted''),
      (EVALUATION, ''governance.verdict''),
      (PROMOTION, ''promotion.executed'')]"

record governance_event =
  ge_event_type :: string
  ge_phase :: governance_phase
  ge_participant_id :: string
  ge_correlation_id :: string
  ge_event_digest :: string
  ge_contract_digest :: string
  ge_timestamp :: string
  ge_data :: dict
  ge_scaffolded :: bool

record phase_result =
  ph_phase :: governance_phase
  ph_success :: bool
  ph_scaffolded :: bool
  ph_event :: "governance_event option"
  ph_data :: dict
  ph_error :: string
  ph_suggestion :: string

definition blank_phase :: "governance_phase \<Rightarrow> phase_result" where
  "blank_phase p =
     \<lparr>ph_phase = p, ph_success = False, ph_scaffolded = False, ph_event = None, ph_data = [],
      ph_error = [], ph_suggestion = []\<rparr>"

record governance_result =
  gv_test_id :: string
  gv_participant :: string
  gv_phases :: "phase_result list"
  gv_proof_bundle :: "proof_bundle option"
  gv_correlation_id :: string
  gv_started_at :: string
  gv_completed_at :: string

definition all_supported_passed :: "governance_result \<Rightarrow> bool" where
  "all_supported_passed r = (\<forall>p \<in> set (filter (\<lambda>p. \<not> ph_scaffolded p) (gv_phases r)). ph_success p)"

definition governance_all_passed :: "governance_result \<Rightarrow> bool" where
  "governance_all_passed r = (\<forall>p \<in> set (gv_phases r). ph_success p)"

definition phase_events :: "phase_result list \<Rightarrow> governance_event list" where
  "phase_events ps = concat (map (\<lambda>p. case ph_event p of None \<Rightarrow> [] | Some e \<Rightarrow> [e]) ps)"

definition result_events :: "governance_result \<Rightarrow> string list" where
  "result_events r = map ge_event_type (phase_events (gv_phases r))"

record phase_counts =
  pn_total_phases :: int
  pn_passed :: int
  pn_failed :: int
  pn_scaffolded :: int
  pn_supported_passed :: int
  pn_supported_total :: int
  pn_all_supported_passed :: bool

definition count_phases :: "(phase_result \<Rightarrow> bool) \<Rightarrow> phase_result list \<Rightarrow> int" where
  "count_phases P ps = int (length (filter P ps))"

definition phase_summary :: "governance_result \<Rightarrow> phase_counts" where
  "phase_summary r =
     (let total = int (length (gv_phases r));
          passed = count_phases ph_success (gv_phases r);
          scaffolded = count_phases ph_scaffolded (gv_phases r)
      in \<lparr>pn_total_phases = total, pn_passed = passed, pn_failed = total - passed,
          pn_scaffolded = scaffolded,
          pn_supported_passed = count_phases (\<lambda>p. ph_success p \<and> \<not> ph_scaffolded p) (gv_phases r),
          pn_supported_total = total - scaffolded,
          pn_all_supported_passed = all_supported_passed r\<rparr>)"

fun find_phase :: "governance_phase \<Rightarrow> phase_result list \<Rightarrow> phase_result" where
  "find_phase p [] = (blank_phase p)\<lparr>ph_error := ''Phase not executed''\<rparr>"
| "find_phase p (q # qs) = (if ph_phase q = p then q else find_phase p qs)"

definition get_phase :: "governance_result \<Rightarrow> governance_phase \<Rightarrow> phase_result" where
  "get_phase r p = find_phase p (gv_phases r)"

definition evidence_result :: "governance_result \<Rightarrow> string" where
  "evidence_result r =
     (let has_scaffolded = (\<exists>p \<in> set (gv_phases r). ph_scaffolded p)
      in if \<not> (\<exists>p \<in> set (gv_phases r). ph_success p) then ''FAILURE''
         else if has_scaffolded then ''PARTIAL''
         else if all_supported_passed r then ''SUCCESS''
         else ''PARTIAL'')"

record evidence_bundle =
  eb_test_id :: string
  eb_participant :: string
  eb_events :: "string list"
  eb_correlation_id :: string
  eb_result :: string
  eb_phase_summary :: phase_counts
  eb_scaffolded_phases :: "string list"
  eb_supported_phases :: "string list"
  eb_completed_at :: string

definition to_evidence_bundle :: "governance_result \<Rightarrow> evidence_bundle" where
  "to_evidence_bundle r =
     \<lparr>eb_test_id = gv_test_id r, eb_participant = gv_participant r, eb_events = result_events r,
      eb_correlation_id = gv_correlation_id r, eb_result = evidence_result r,
      eb_phase_summary = phase_summary r,
      eb_scaffolded_phases = map (phase_value \<circ> ph_phase) (filter ph_scaffolded (gv_phases r)),
      eb_supported_phases = map (phase_value \<circ> ph_phase) (filter (\<lambda>p. \<not> ph_scaffolded p) (gv_phases r)),
      eb_completed_at = gv_completed_at r\<rparr>"

definition py_ljust :: "nat \<Rightarrow> string \<Rightarrow> string" where
  "py_ljust n s = s @ replicate (n - length s) (CHR '' '')"

definition phase_lines :: "phase_result \<Rightarrow> string list" where
  "phase_lines p =
     (''  Phase '' @ py_ljust 16 (phase_value (ph_phase p)) @ '' '' @
        (if ph_success p then ''PASS'' else if ph_scaffolded p then ''SKIP'' else ''FAIL'') @
        (if ph_scaffolded p then '' [scaffolded]'' else [])) #
     (if ph_error p \<noteq> [] then [''    error: '' @ ph_error p] else [])"

definition governance_summary :: "governance_result \<Rightarrow> string" where
  "governance_summary r =
     (let ps = phase_summary r
      in py_join [CHR 10]
           ([''=== Recursive Governance Proof '' @ mdash @ '' '' @ gv_test_id r @ '' ==='',
             ''Participant: '' @ gv_participant r,
             ''Correlation: '' @ str_or (gv_correlation_id r) ''(local)'', []] @
            concat (map phase_lines (gv_phases r)) @
            [[], ''Supported: '' @ str_int (pn_supported_passed ps) @ ''/'' @
               str_int (pn_supported_total ps) @ '' passed'',
             ''Scaffolded: '' @ str_int (pn_scaffolded ps) @ '' phases awaiting platform surfaces'',
             ''Verdict: '' @ (if all_supported_passed r then ''LAUNCH-READY'' else ''NOT READY'')]))"

section \<open>The runner\<close>

text \<open>
  What the runner is given: the session, \<open>git\<close>, the clock and the hash. \<open>gw_git\<close> answers the
  four calls of \<open>git\<close> in order, two in phase 3 and two in phase 4.
\<close>

record governance_world =
  gw_fstr :: "json \<Rightarrow> string"
  gw_post :: "string \<Rightarrow> dict \<Rightarrow> post_answer"
  gw_git :: "nat \<Rightarrow> git_answer"
  gw_environment :: environment_info
  gw_clock :: "string \<Rightarrow> string"
  gw_sha :: "string \<Rightarrow> string"

text \<open>An adapter returns a result or raises; the default ones are the local ones.\<close>

record governance_runner =
  gr_base_url :: string
  gr_correlation_id :: string
  gr_registration :: "participant_contract \<Rightarrow> string + adapter_result"
  gr_submission :: "proof_bundle \<Rightarrow> string + adapter_result"
  gr_verdict :: "string \<Rightarrow> string + adapter_result"
  gr_verification_runner :: verification_runner
  gr_contract :: participant_contract

definition new_verification_runner :: verification_runner where
  "new_verification_runner =
     \<lparr>vr_participant_name = ''keyhole-developer-kit'', vr_participant_type = ''external-developer-kit'',
      vr_source_repository = [], vr_environment = ''local-only'', vr_collectors = []\<rparr>"

definition new_governance_runner :: "string \<Rightarrow> string \<Rightarrow> governance_runner" where
  "new_governance_runner base_url uuid =
     \<lparr>gr_base_url = base_url, gr_correlation_id = uuid,
      gr_registration = (\<lambda>c. Inr (local_register c)),
      gr_submission = (\<lambda>b. Inr (local_submit b)),
      gr_verdict = (\<lambda>s. Inr (local_retrieve_verdict s)),
      gr_verification_runner = new_verification_runner,
      gr_contract = contract_placeholder\<rparr>"

definition governance_register_collector ::
  "string \<Rightarrow> collector \<Rightarrow> governance_runner \<Rightarrow> governance_runner" where
  "governance_register_collector cls c r =
     r\<lparr>gr_verification_runner := (gr_verification_runner r)
         \<lparr>vr_collectors := register_collector cls c (vr_collectors (gr_verification_runner r))\<rparr>\<rparr>"

definition scaffolded_phases :: "governance_phase list" where
  "scaffolded_phases = [REGISTRATION, SUBMISSION, EVALUATION, PROMOTION]"

definition make_event ::
  "governance_world \<Rightarrow> governance_runner \<Rightarrow> governance_phase \<Rightarrow> dict \<Rightarrow> governance_event" where
  "make_event w r p data =
     (let event_type = (case map_of expected_events p of
                          None \<Rightarrow> phase_value p @ ''.completed''
                        | Some t \<Rightarrow> t);
          content = event_type @ '':'' @ gr_correlation_id r @ '':'' @ phase_value p
      in \<lparr>ge_event_type = event_type, ge_phase = p, ge_participant_id = ''keyhole-developer-kit'',
          ge_correlation_id = gr_correlation_id r, ge_event_digest = take 16 (gw_sha w content),
          ge_contract_digest = pc_participant_name (gr_contract r),
          ge_timestamp = gw_clock w (phase_value p), ge_data = data,
          ge_scaffolded = (p \<in> set scaffolded_phases)\<rparr>)"

text \<open>A phase with its event, and the answer of a scaffolded phase.\<close>

definition phase_done ::
  "governance_world \<Rightarrow> governance_runner \<Rightarrow> governance_phase \<Rightarrow> dict \<Rightarrow> dict \<Rightarrow> phase_result" where
  "phase_done w r p event_data data =
     (blank_phase p)\<lparr>ph_success := True, ph_event := Some (make_event w r p event_data),
        ph_data := data\<rparr>"

definition phase_waiting :: "governance_phase \<Rightarrow> adapter_result \<Rightarrow> string \<Rightarrow> phase_result" where
  "phase_waiting p a suggestion =
     (blank_phase p)\<lparr>ph_scaffolded := True, ph_error := ar_reason a, ph_suggestion := suggestion,
        ph_data := [(''adapter_supported'', JBool (ar_supported a))]\<rparr>"

definition phase_registration ::
  "governance_world \<Rightarrow> governance_runner \<Rightarrow> string + phase_result" where
  "phase_registration w r =
     (case gr_registration r (gr_contract r) of
        Inl e \<Rightarrow> Inl e
      | Inr a \<Rightarrow> Inr
          (if ar_supported a \<and> ar_success a then
             phase_done w r REGISTRATION
               [(''contract_digest'', dict_get_or (ar_data a) ''contract_digest'' (JStr [])),
                (''source_repo'', JStr ''keyhole-developer-kit'')] (ar_data a)
           else phase_waiting REGISTRATION a
             (''Contract registration requires platform-side DEV-UX-03 '' @
              ''stabilization. This phase is scaffolded.'')))"

definition local_only :: dict where
  "local_only = [(''mode'', JStr ''local-only''), (''run_type'', JStr ''context.compile'')]"

definition phase_context :: "governance_world \<Rightarrow> governance_runner \<Rightarrow> phase_result" where
  "phase_context w r =
     (if gr_base_url r = [] then phase_done w r CONTEXT_PHASE local_only local_only
      else
        (case compile_context (gw_fstr w) (gw_post w) (gw_clock w ''compiled'') (gr_base_url r) [] of
           Inl e \<Rightarrow>
             (blank_phase CONTEXT_PHASE)\<lparr>ph_error := ctx_error_text e,
                ph_suggestion := ''Verify MCP boundary is reachable and token is valid.''\<rparr>
         | Inr snapshot \<Rightarrow>
             phase_done w r CONTEXT_PHASE
               [(''context_digest'', JStr (get_digest snapshot)),
                (''surface_version'', JStr (get_mcp_contract snapshot)),
                (''run_type'', JStr ''context.compile'')]
               [(''context_digest'', JStr (get_digest snapshot)),
                (''correlation_id'', JStr (get_correlation_id snapshot))]))"

definition phase_implementation ::
  "governance_world \<Rightarrow> governance_runner \<Rightarrow> string + phase_result" where
  "phase_implementation w r =
     (case capture_source_info (gw_git w 0) (gw_git w 1) of
        Inl e \<Rightarrow> Inl e
      | Inr (commit, ref) \<Rightarrow>
          Inr (phase_done w r IMPLEMENTATION
                 [(''commit_digest'', JStr commit), (''source_ref'', JStr ref),
                  (''source_repo'', JStr ''keyhole-developer-kit'')]
                 [(''commit_digest'', JStr commit), (''source_ref'', JStr ref)]))"

definition phase_verification ::
  "governance_world \<Rightarrow> governance_runner \<Rightarrow> phase_result \<times> proof_bundle option" where
  "phase_verification w r =
     (case run_verification (gw_clock w) (gw_environment w) (gw_git w 2) (gw_git w 3)
             (gr_verification_runner r) [] [] of
        Inl e \<Rightarrow>
          ((blank_phase VERIFICATION)\<lparr>ph_error := e,
             ph_suggestion := ''Check verification collectors are correctly registered.''\<rparr>, None)
      | Inr bundle \<Rightarrow>
          (let summary = verification_summary bundle;
               passed = (bundle_all_passed bundle \<or>
                         dict_get_or summary ''total_verifications'' (JInt 0) = JInt 0);
               shared = [(''all_passed'', JBool (bundle_all_passed bundle)), (''summary'', JObj summary)]
           in ((blank_phase VERIFICATION)\<lparr>ph_success := passed,
                  ph_event := Some (make_event w r VERIFICATION shared),
                  ph_data := shared @ [(''commit_digest'', JStr (pb_source_commit bundle))]\<rparr>,
               Some bundle)))"

definition phase_submission ::
  "governance_world \<Rightarrow> governance_runner \<Rightarrow> proof_bundle option \<Rightarrow> string + phase_result" where
  "phase_submission w r bundle =
     (case bundle of
        None \<Rightarrow> Inr ((blank_phase SUBMISSION)\<lparr>ph_scaffolded := True,
                      ph_error := ''No proof bundle available (Phase 4 did not produce one).''\<rparr>)
      | Some b \<Rightarrow>
          (case gr_submission r b of
             Inl e \<Rightarrow> Inl e
           | Inr a \<Rightarrow> Inr
               (if ar_supported a \<and> ar_success a then
                  phase_done w r SUBMISSION
                    [(''proof_digest'', dict_get_or (ar_data a) ''proof_digest'' (JStr [])),
                     (''source_commit'', JStr (pb_source_commit b))] (ar_data a)
                else phase_waiting SUBMISSION a
                  (''Proof submission requires platform-side DEV-UX-04 '' @
                   ''stabilization. This phase is scaffolded.''))))"

definition phase_evaluation ::
  "governance_world \<Rightarrow> governance_runner \<Rightarrow> string + phase_result" where
  "phase_evaluation w r =
     (case gr_verdict r (gr_correlation_id r) of
        Inl e \<Rightarrow> Inl e
      | Inr a \<Rightarrow> Inr
          (if ar_supported a \<and> ar_success a then
             phase_done w r EVALUATION
               [(''verdict'', dict_get_or (ar_data a) ''verdict'' (JStr [])),
                (''reason'', dict_get_or (ar_data a) ''reason'' (JStr []))] (ar_data a)
           else phase_waiting EVALUATION a
             (''Verdict retrieval requires platform-side DEV-UX-06 '' @
              ''stabilization. This phase is scaffolded.'')))"

definition phase_promotion :: phase_result where
  "phase_promotion =
     (blank_phase PROMOTION)\<lparr>ph_scaffolded := True,
        ph_error := ''Promotion requires governance verdict (Phase 6) and '' @
          ''platform-side promotion pipeline. This phase is scaffolded.'',
        ph_suggestion := ''Promotion will execute automatically when verdict '' @
          ''and promotion pipeline are stable.'',
        ph_data := [(''promotion_model'', JStr ''one-mint'')]\<rparr>"

text \<open>
  \<open>run\<close>, and the bundle that the object keeps. A runner that has run before still holds the
  bundle of that run when phase 4 fails, so the bundle is an argument.
\<close>

definition run_governance ::
  "governance_world \<Rightarrow> governance_runner \<Rightarrow> proof_bundle option
     \<Rightarrow> (string + governance_result) \<times> proof_bundle option" where
  "run_governance w r held =
     (case phase_registration w r of
        Inl e \<Rightarrow> (Inl e, held)
      | Inr p1 \<Rightarrow>
          (case phase_implementation w r of
             Inl e \<Rightarrow> (Inl e, held)
           | Inr p3 \<Rightarrow>
               (let (p4, produced) = phase_verification w r;
                    bundle = (case produced of None \<Rightarrow> held | Some b \<Rightarrow> Some b)
                in case phase_submission w r bundle of
                     Inl e \<Rightarrow> (Inl e, bundle)
                   | Inr p5 \<Rightarrow>
                       (case phase_evaluation w r of
                          Inl e \<Rightarrow> (Inl e, bundle)
                        | Inr p6 \<Rightarrow>
                            (Inr \<lparr>gv_test_id = ''RG-01'', gv_participant = ''keyhole-developer-kit'',
                                  gv_phases = [p1, phase_context w r, p3, p4, p5, p6, phase_promotion],
                                  gv_proof_bundle = bundle,
                                  gv_correlation_id = gr_correlation_id r,
                                  gv_started_at = gw_clock w ''started'',
                                  gv_completed_at = gw_clock w ''completed''\<rparr>,
                             bundle)))))"

section \<open>The trace\<close>

definition trace_events :: "governance_result \<Rightarrow> governance_event list" where
  "trace_events r = phase_events (gv_phases r)"

definition event_types :: "governance_event list \<Rightarrow> string list" where
  "event_types es = map ge_event_type es"

definition validate_chain :: "governance_result \<Rightarrow> bool" where
  "validate_chain r = (set (map snd expected_events) \<subseteq> set (event_types (trace_events r)))"

definition validate_supported_chain :: "governance_result \<Rightarrow> bool" where
  "validate_supported_chain r =
     ({''context.compile.resolved'', ''implementation.commit.captured''} \<subseteq>
        set (event_types (filter (\<lambda>e. \<not> ge_scaffolded e) (trace_events r))))"

definition missing_events :: "governance_result \<Rightarrow> string list" where
  "missing_events r =
     sort (filter (\<lambda>t. t \<notin> set (event_types (trace_events r))) (map snd expected_events))"

record trace_entry =
  te_sequence :: nat
  te_event_type :: string
  te_phase :: string
  te_participant_id :: string
  te_correlation_id :: string
  te_event_digest :: string
  te_timestamp :: string
  te_scaffolded :: bool

record governance_trace =
  gt_trace_id :: string
  gt_participant :: string
  gt_event_count :: nat
  gt_events :: "trace_entry list"
  gt_chain_complete :: bool
  gt_supported_chain_complete :: bool

definition trace_entry_of :: "nat \<Rightarrow> governance_event \<Rightarrow> trace_entry" where
  "trace_entry_of i e =
     \<lparr>te_sequence = i, te_event_type = ge_event_type e, te_phase = phase_value (ge_phase e),
      te_participant_id = ge_participant_id e, te_correlation_id = ge_correlation_id e,
      te_event_digest = ge_event_digest e, te_timestamp = ge_timestamp e,
      te_scaffolded = ge_scaffolded e\<rparr>"

fun number_events :: "nat \<Rightarrow> governance_event list \<Rightarrow> trace_entry list" where
  "number_events i [] = []"
| "number_events i (e # es) = trace_entry_of i e # number_events (Suc i) es"

definition build_trace :: "governance_result \<Rightarrow> governance_trace" where
  "build_trace r =
     (let entries = number_events 1 (trace_events r)
      in \<lparr>gt_trace_id = gv_correlation_id r, gt_participant = gv_participant r,
          gt_event_count = length entries, gt_events = entries,
          gt_chain_complete = validate_chain r,
          gt_supported_chain_complete = validate_supported_chain r\<rparr>)"

fun graph_lines :: "governance_event list \<Rightarrow> string list" where
  "graph_lines [] = []"
| "graph_lines (e # es) =
     (''  '' @ ge_event_type e @ '' '' @
        (if ge_scaffolded e then ''[scaffolded]'' else ''[supported]'')) #
     (if es = [] then [] else [''      |'', ''      v'']) @ graph_lines es"

definition graph_arrow :: string where
  "graph_arrow = [CHR 0xE2, CHR 0x86, CHR 0x92]"

definition build_graph :: "governance_result \<Rightarrow> string" where
  "build_graph r =
     (let header = [''=== Governance Trace Graph ==='', ''Trace ID: '' @ gv_correlation_id r,
                    ''Participant: '' @ gv_participant r, []]
      in if trace_events r = [] then py_join [CHR 10] (header @ [''(no events recorded)''])
         else py_join [CHR 10]
           (header @ graph_lines (trace_events r) @
            [[], ''Causal chain:'',
             ''  '' @ py_join ('' '' @ graph_arrow @ '' '') (event_types (trace_events r))]))"

end
