(* ===== verification/Governance_Properties.thy ===== *)
theory Governance_Properties
  imports Governance
begin

text \<open>
  What a governance proof run can show: the shape and the verdict of its result, the
  honesty of its trace, and what makes the supported phases pass.
\<close>

section \<open>The phases of a result\<close>

lemma run_governance_Inr:
  assumes "run_governance w r held = (Inr res, b)"
  obtains p1 p3 p5 p6 where
    "phase_registration w r = Inr p1" "phase_implementation w r = Inr p3"
    "phase_submission w r b = Inr p5" "phase_evaluation w r = Inr p6"
    "gv_phases res = [p1, phase_context w r, p3, fst (phase_verification w r), p5, p6, phase_promotion]"
    "gv_correlation_id res = gr_correlation_id r"
  using assms
  by (auto simp: run_governance_def Let_def split: sum.splits prod.splits option.splits)

text \<open>
  The contract of one phase: a success has an event, an event belongs to its phase and to
  the run and is only there without success in phase 4, and a scaffolded answer claims
  nothing.
\<close>

definition honest_phase :: "string \<Rightarrow> governance_phase \<Rightarrow> phase_result \<Rightarrow> bool" where
  "honest_phase cid q p =
     (ph_phase p = q \<and> (ph_success p \<longrightarrow> ph_event p \<noteq> None) \<and>
      (\<forall>e. ph_event p = Some e \<longrightarrow> ge_phase e = q \<and> ge_correlation_id e = cid \<and>
             (ph_success p \<or> q = VERIFICATION)) \<and>
      (ph_scaffolded p \<longrightarrow> ph_event p = None \<and> \<not> ph_success p))"

lemma make_event_simps [simp]:
  "ge_phase (make_event w r p d) = p"
  "ge_correlation_id (make_event w r p d) = gr_correlation_id r"
  "ge_data (make_event w r p d) = d"
  "ge_scaffolded (make_event w r p d) = (p \<in> set scaffolded_phases)"
  by (simp_all add: make_event_def Let_def)

lemma make_event_type:
  "ge_event_type (make_event w r p d) =
     (case map_of expected_events p of None \<Rightarrow> phase_value p @ ''.completed'' | Some t \<Rightarrow> t)"
  by (simp add: make_event_def Let_def)

lemma honest_done [simp]: "honest_phase (gr_correlation_id r) p (phase_done w r p ed d)"
  by (simp add: honest_phase_def phase_done_def blank_phase_def)

lemma honest_waiting [simp]: "honest_phase cid p (phase_waiting p a s)"
  by (simp add: honest_phase_def phase_waiting_def blank_phase_def)

lemma honest_blank [simp]:
  "honest_phase cid p ((blank_phase p)\<lparr>ph_error := e, ph_suggestion := s\<rparr>)"
  "honest_phase cid p ((blank_phase p)\<lparr>ph_scaffolded := True, ph_error := e\<rparr>)"
  by (simp_all add: honest_phase_def blank_phase_def)

lemma honest_registration: "phase_registration w r = Inr p \<Longrightarrow> honest_phase (gr_correlation_id r) REGISTRATION p"
  by (auto simp: phase_registration_def split: sum.splits)

lemma honest_context: "honest_phase (gr_correlation_id r) CONTEXT_PHASE (phase_context w r)"
  by (auto simp: phase_context_def split: sum.splits)

lemma honest_implementation: "phase_implementation w r = Inr p \<Longrightarrow> honest_phase (gr_correlation_id r) IMPLEMENTATION p"
  by (auto simp: phase_implementation_def split: sum.splits prod.splits)

lemma honest_verification: "honest_phase (gr_correlation_id r) VERIFICATION (fst (phase_verification w r))"
  by (auto simp: phase_verification_def Let_def split: sum.splits)
    (simp add: honest_phase_def blank_phase_def)

lemma honest_submission: "phase_submission w r b = Inr p \<Longrightarrow> honest_phase (gr_correlation_id r) SUBMISSION p"
  by (auto simp: phase_submission_def split: sum.splits option.splits)

lemma honest_evaluation: "phase_evaluation w r = Inr p \<Longrightarrow> honest_phase (gr_correlation_id r) EVALUATION p"
  by (auto simp: phase_evaluation_def split: sum.splits)

lemma honest_promotion: "honest_phase cid PROMOTION phase_promotion"
  by (simp add: honest_phase_def phase_promotion_def blank_phase_def)

lemmas honest_phases = honest_registration honest_context honest_implementation
  honest_verification honest_submission honest_evaluation honest_promotion

lemma implementation_succeeds: "phase_implementation w r = Inr p \<Longrightarrow> ph_success p"
  by (auto simp: phase_implementation_def phase_done_def split: sum.splits prod.splits)

lemma verification_not_scaffolded [simp]: "\<not> ph_scaffolded (fst (phase_verification w r))"
  by (simp add: phase_verification_def blank_phase_def Let_def split: sum.split)

lemma context_not_scaffolded [simp]: "\<not> ph_scaffolded (phase_context w r)"
  by (simp add: phase_context_def phase_done_def blank_phase_def split: sum.split)

lemma implementation_not_scaffolded: "phase_implementation w r = Inr p \<Longrightarrow> \<not> ph_scaffolded p"
  by (auto simp: phase_implementation_def phase_done_def blank_phase_def split: sum.splits prod.splits)

lemma promotion_simps [simp]:
  "ph_phase phase_promotion = PROMOTION" "\<not> ph_success phase_promotion"
  "ph_scaffolded phase_promotion" "ph_event phase_promotion = None"
  by (simp_all add: phase_promotion_def blank_phase_def)

text \<open>An event type of another phase is never that of promotion.\<close>

lemma promotion_type_other:
  "q \<noteq> PROMOTION \<Longrightarrow> ge_event_type (make_event w r q d) \<noteq> ''promotion.executed''"
  by (cases q) (simp_all add: make_event_type expected_events_def)

lemma set_phase_events: "e \<in> set (phase_events ps) \<longleftrightarrow> (\<exists>p \<in> set ps. ph_event p = Some e)"
  by (force simp: phase_events_def split: option.splits)

lemma map_number_events: "map te_sequence (number_events i es) = [i..<i + length es]"
  by (induction es arbitrary: i) (simp_all add: trace_entry_of_def upt_conv_Cons del: upt_Suc)

lemma length_number_events [simp]: "length (number_events i es) = length es"
  by (induction es arbitrary: i) simp_all

text \<open>Events are made by \<open>make_event\<close> for their own phase.\<close>

lemma event_made:
  assumes "run_governance w r held = (Inr res, b)" "e \<in> set (trace_events res)"
  shows "\<exists>q d. q \<noteq> PROMOTION \<and> e = make_event w r q d"
proof -
  obtain p1 p3 p5 p6 where ps:
    "phase_registration w r = Inr p1" "phase_implementation w r = Inr p3"
    "phase_submission w r b = Inr p5" "phase_evaluation w r = Inr p6"
    "gv_phases res = [p1, phase_context w r, p3, fst (phase_verification w r), p5, p6, phase_promotion]"
    using run_governance_Inr [OF assms(1)] by metis
  have made: "ph_event p = Some e \<Longrightarrow> \<exists>d. e = make_event w r q d"
    if "p = phase_done w r q x y \<or> p = phase_waiting q a s" for p q x y a s
    using that by (auto simp: phase_done_def phase_waiting_def blank_phase_def)
  have reg: "ph_event p1 = Some e \<Longrightarrow> \<exists>d. e = make_event w r REGISTRATION d"
    using ps(1) by (auto simp: phase_registration_def phase_done_def phase_waiting_def blank_phase_def
        split: sum.splits if_splits)
  have ctx: "ph_event (phase_context w r) = Some e \<Longrightarrow> \<exists>d. e = make_event w r CONTEXT_PHASE d"
    by (auto simp: phase_context_def phase_done_def blank_phase_def split: sum.splits if_splits)
  have imp: "ph_event p3 = Some e \<Longrightarrow> \<exists>d. e = make_event w r IMPLEMENTATION d"
    using ps(2) by (auto simp: phase_implementation_def phase_done_def blank_phase_def
        split: sum.splits prod.splits)
  have ver: "ph_event (fst (phase_verification w r)) = Some e \<Longrightarrow> \<exists>d. e = make_event w r VERIFICATION d"
    by (auto simp: phase_verification_def Let_def blank_phase_def split: sum.splits)
  have sub: "ph_event p5 = Some e \<Longrightarrow> \<exists>d. e = make_event w r SUBMISSION d"
    using ps(3) by (auto simp: phase_submission_def phase_done_def phase_waiting_def blank_phase_def
        split: sum.splits option.splits if_splits)
  have evl: "ph_event p6 = Some e \<Longrightarrow> \<exists>d. e = make_event w r EVALUATION d"
    using ps(4) by (auto simp: phase_evaluation_def phase_done_def phase_waiting_def blank_phase_def
        split: sum.splits if_splits)
  from assms(2) obtain p where "p \<in> set (gv_phases res)" "ph_event p = Some e"
    by (auto simp: trace_events_def set_phase_events)
  then consider "ph_event p1 = Some e" | "ph_event (phase_context w r) = Some e"
    | "ph_event p3 = Some e" | "ph_event (fst (phase_verification w r)) = Some e"
    | "ph_event p5 = Some e" | "ph_event p6 = Some e"
    unfolding ps(5) by auto
  then show ?thesis using reg ctx imp ver sub evl by cases blast+
qed

section \<open>Scaffolded adapters\<close>

text \<open>
  The adapters of the default runner answer every call and never claim success: then phases
  1, 5, 6 and 7 are scaffolded and only the supported phases decide.
\<close>

locale scaffolded_adapters =
  fixes register :: "participant_contract \<Rightarrow> string + adapter_result"
    and submit :: "proof_bundle \<Rightarrow> string + adapter_result"
    and verdict :: "string \<Rightarrow> string + adapter_result"
  assumes register_waits: "\<exists>a. register c = Inr a \<and> \<not> (ar_supported a \<and> ar_success a)"
    and submit_waits: "\<exists>a. submit p = Inr a \<and> \<not> (ar_supported a \<and> ar_success a)"
    and verdict_waits: "\<exists>a. verdict s = Inr a \<and> \<not> (ar_supported a \<and> ar_success a)"
begin

lemma platform_phases_wait:
  assumes "gr_registration r = register" "gr_submission r = submit" "gr_verdict r = verdict"
  shows "\<exists>p. phase_registration w r = Inr p \<and> ph_scaffolded p"
    "\<exists>p. phase_submission w r b = Inr p \<and> ph_scaffolded p"
    "\<exists>p. phase_evaluation w r = Inr p \<and> ph_scaffolded p"
proof -
  show "\<exists>p. phase_registration w r = Inr p \<and> ph_scaffolded p"
    using register_waits [of "gr_contract r"] assms
    by (auto simp: phase_registration_def phase_waiting_def)
  show "\<exists>p. phase_evaluation w r = Inr p \<and> ph_scaffolded p"
    using verdict_waits [of "gr_correlation_id r"] assms
    by (auto simp: phase_evaluation_def phase_waiting_def)
  show "\<exists>p. phase_submission w r b = Inr p \<and> ph_scaffolded p"
  proof (cases b)
    case None
    then show ?thesis by (simp add: phase_submission_def)
  next
    case (Some pb)
    then show ?thesis using submit_waits [of pb] assms
      by (auto simp: phase_submission_def phase_waiting_def)
  qed
qed

lemma supported_phases_decide:
  assumes "gr_registration r = register" "gr_submission r = submit" "gr_verdict r = verdict"
    and git: "phase_implementation w r = Inr p3"
  shows "\<exists>res b. run_governance w r held = (Inr res, b) \<and>
           map ph_phase (filter ph_scaffolded (gv_phases res)) = scaffolded_phases \<and>
           all_supported_passed res =
             (ph_success (phase_context w r) \<and> ph_success (fst (phase_verification w r)))"
proof -
  obtain p4 produced where ver: "phase_verification w r = (p4, produced)" by force
  define b where "b = (case produced of None \<Rightarrow> held | Some x \<Rightarrow> Some x)"
  obtain p1 p5 p6 where p: "phase_registration w r = Inr p1" "ph_scaffolded p1"
    "phase_submission w r b = Inr p5" "ph_scaffolded p5"
    "phase_evaluation w r = Inr p6" "ph_scaffolded p6"
    using platform_phases_wait [OF assms(1-3)] by metis
  have phs: "ph_phase p1 = REGISTRATION" "ph_phase p5 = SUBMISSION" "ph_phase p6 = EVALUATION"
    using honest_registration [OF p(1)] honest_submission [OF p(3)] honest_evaluation [OF p(5)]
    by (simp_all add: honest_phase_def)
  have sup: "\<not> ph_scaffolded p4" "\<not> ph_scaffolded p3" "ph_success p3"
    using ver verification_not_scaffolded [of w r] implementation_not_scaffolded [OF git]
      implementation_succeeds [OF git] by simp_all
  define res where "res = \<lparr>gv_test_id = ''RG-01'', gv_participant = ''keyhole-developer-kit'',
            gv_phases = [p1, phase_context w r, p3, p4, p5, p6, phase_promotion],
            gv_proof_bundle = b, gv_correlation_id = gr_correlation_id r,
            gv_started_at = gw_clock w ''started'', gv_completed_at = gw_clock w ''completed''\<rparr>"
  have run: "run_governance w r held = (Inr res, b)"
    using p git ver by (simp add: run_governance_def Let_def b_def [symmetric] res_def)
  have f: "filter (\<lambda>p. \<not> ph_scaffolded p) (gv_phases res) = [phase_context w r, p3, p4]"
    using p sup by (simp add: res_def)
  have g: "map ph_phase (filter ph_scaffolded (gv_phases res)) = scaffolded_phases"
    using p sup phs by (simp add: res_def scaffolded_phases_def)
  have "all_supported_passed res = (ph_success (phase_context w r) \<and> ph_success p4)"
    unfolding all_supported_passed_def f using sup by simp
  then show ?thesis using run g ver by auto
qed

end

interpretation local_adapters: scaffolded_adapters
  "\<lambda>c. Inr (local_register c)" "\<lambda>b. Inr (local_submit b)" "\<lambda>s. Inr (local_retrieve_verdict s)"
  by unfold_locales
    (simp_all add: local_register_def local_submit_def local_retrieve_verdict_def not_yet_available_def)

lemma verification_phase_success:
  "ph_success (fst (phase_verification w r)) \<longleftrightarrow>
     (\<exists>c. capture_source_info (gw_git w 2) (gw_git w 3) = Inr c) \<and>
     (\<forall>(cls, c) \<in> set (vr_collectors (gr_verification_runner r)). collector_ok c)"
proof (cases "capture_source_info (gw_git w 2) (gw_git w 3)")
  case (Inl e)
  then show ?thesis by (simp add: phase_verification_def run_verification_def blank_phase_def)
next
  case (Inr c)
  let ?out = "collect_all (gw_clock w) (vr_collectors (gr_verification_runner r))"
  obtain commit ref where c: "c = (commit, ref)" by force
  have "ph_success (fst (phase_verification w r)) \<longleftrightarrow> (\<forall>v \<in> set ?out. vo_passed v)"
    using Inr c
    by (auto simp: phase_verification_def run_verification_def Let_def bundle_all_passed_def
        verification_summary_def dict_get_or_def dict_get_Cons)
  then show ?thesis using Inr by (simp add: collect_all_passed)
qed

lemma context_phase_success:
  "ph_success (phase_context w r) \<longleftrightarrow>
     gr_base_url r = [] \<or>
     (\<exists>s. compile_context (gw_fstr w) (gw_post w) (gw_clock w ''compiled'') (gr_base_url r) [] = Inr s)"
  by (simp add: phase_context_def phase_done_def blank_phase_def split: sum.split)

definition demo_governance_world :: governance_world where
  "demo_governance_world =
     \<lparr>gw_fstr = as_str, gw_post = (\<lambda>u p. PostRaises ''refused''),
      gw_git = (\<lambda>n. if n mod 2 = 0 then GitDone 0 ''abc123 '' else GitMissing),
      gw_environment = \<lparr>ei_python_version = ''3.11.0'', ei_platform_info = ''Linux'', ei_sdk_version = ''0.3.0''\<rparr>,
      gw_clock = (\<lambda>p. ''t''), gw_sha = (\<lambda>s. s)\<rparr>"

definition demo_governance_runner :: governance_runner where
  "demo_governance_runner =
     governance_register_collector ''unit-tests'' (Collects (blank_output\<lparr>vo_passed := True\<rparr>))
       (new_governance_runner [] ''run-1'')"

section \<open>Properties\<close>

text \<open>
  A governance run that returns always reports the seven phases in order, never succeeds in
  phase 7 and never completes the causal chain, whatever the adapters answer: the promotion
  event is missing and the evidence is "PARTIAL", neither a success nor a failure.
\<close>

theorem governance_always_partial:
  assumes "run_governance w r held = (Inr res, b)"
  shows "map ph_phase (gv_phases res) =
           [REGISTRATION, CONTEXT_PHASE, IMPLEMENTATION, VERIFICATION, SUBMISSION, EVALUATION, PROMOTION] \<and>
         eb_result (to_evidence_bundle res) = ''PARTIAL'' \<and> \<not> gt_chain_complete (build_trace res) \<and>
         ''promotion.executed'' \<in> set (missing_events res) \<and> \<not> governance_all_passed res"
proof -
  obtain p1 p3 p5 p6 where ps:
    "phase_registration w r = Inr p1" "phase_implementation w r = Inr p3"
    "phase_submission w r b = Inr p5" "phase_evaluation w r = Inr p6"
    "gv_phases res = [p1, phase_context w r, p3, fst (phase_verification w r), p5, p6, phase_promotion]"
    using run_governance_Inr [OF assms] by metis
  have missing: "''promotion.executed'' \<notin> set (event_types (trace_events res))"
    using event_made [OF assms] promotion_type_other by (auto simp: event_types_def) metis
  moreover have "map ph_phase (gv_phases res) =
      [REGISTRATION, CONTEXT_PHASE, IMPLEMENTATION, VERIFICATION, SUBMISSION, EVALUATION, PROMOTION]"
    using honest_registration [OF ps(1)] honest_context [of r w] honest_implementation [OF ps(2)]
      honest_verification [of r w] honest_submission [OF ps(3)] honest_evaluation [OF ps(4)]
    by (simp add: ps(5) honest_phase_def)
  moreover have "evidence_result res = ''PARTIAL''"
    using implementation_succeeds [OF ps(2)] by (simp add: evidence_result_def ps(5))
  ultimately show ?thesis
    by (auto simp: to_evidence_bundle_def build_trace_def Let_def validate_chain_def
        missing_events_def expected_events_def governance_all_passed_def ps(5))
qed

theorem governance_always_partial_witness:
  "\<exists>res b. run_governance demo_governance_world demo_governance_runner None = (Inr res, b) \<and>
     eb_result (to_evidence_bundle res) = ''PARTIAL'' \<and>
     result_events res = [''context.compile.resolved'', ''implementation.commit.captured'',
       ''verification.completed'']"
proof -
  have run: "run_governance demo_governance_world demo_governance_runner None =
      (Inr (projr (fst (run_governance demo_governance_world demo_governance_runner None))),
       snd (run_governance demo_governance_world demo_governance_runner None))"
    by code_simp
  have "map ge_event_type (phase_events (gv_phases
      (projr (fst (run_governance demo_governance_world demo_governance_runner None))))) =
      [''context.compile.resolved'', ''implementation.commit.captured'', ''verification.completed'']"
    by code_simp
  then show ?thesis
    using governance_always_partial [OF run] run by (auto simp: result_events_def)
qed

text \<open>
  The trace claims only what happened. In a run that returns, a phase that succeeded has an
  event; an event carries its phase and the correlation id of the run, and belongs to a phase
  that succeeded, except that of verification, which also reports a failure; a scaffolded phase
  has neither event nor success; and the entries of the trace are numbered from 1.
\<close>

theorem governance_trace_honest:
  assumes "run_governance w r held = (Inr res, b)"
  shows "(\<forall>p \<in> set (gv_phases res). honest_phase (gr_correlation_id r) (ph_phase p) p) \<and>
         gt_trace_id (build_trace res) = gr_correlation_id r \<and>
         map te_sequence (gt_events (build_trace res)) = [1..<1 + gt_event_count (build_trace res)] \<and>
         gt_event_count (build_trace res) = length (result_events res)"
proof -
  obtain p1 p3 p5 p6 where ps:
    "phase_registration w r = Inr p1" "phase_implementation w r = Inr p3"
    "phase_submission w r b = Inr p5" "phase_evaluation w r = Inr p6"
    "gv_phases res = [p1, phase_context w r, p3, fst (phase_verification w r), p5, p6, phase_promotion]"
    "gv_correlation_id res = gr_correlation_id r"
    using run_governance_Inr [OF assms] by metis
  have own: "honest_phase cid q p \<Longrightarrow> honest_phase cid (ph_phase p) p" for cid q p
    by (simp add: honest_phase_def)
  have "\<forall>p \<in> set (gv_phases res). honest_phase (gr_correlation_id r) (ph_phase p) p"
    unfolding ps(5)
    using honest_phases(1) [OF ps(1)] honest_phases(3) [OF ps(2)] honest_phases(5) [OF ps(3)]
      honest_phases(6) [OF ps(4)] honest_phases(2) [of r w] honest_phases(4) [of r w]
      honest_promotion [of "gr_correlation_id r"]
    by (auto intro: own)
  then show ?thesis
    by (simp add: build_trace_def Let_def map_number_events ps(6) trace_events_def result_events_def)
qed

theorem governance_trace_honest_witness:
  "\<exists>res b. run_governance demo_governance_world demo_governance_runner None = (Inr res, b) \<and>
     map te_sequence (gt_events (build_trace res)) = [1..<1 + gt_event_count (build_trace res)]"
proof -
  have run: "run_governance demo_governance_world demo_governance_runner None =
      (Inr (projr (fst (run_governance demo_governance_world demo_governance_runner None))),
       snd (run_governance demo_governance_world demo_governance_runner None))"
    by code_simp
  then show ?thesis using governance_trace_honest [OF run] by blast
qed

text \<open>
  C37: With the default adapters a run returns unless \<open>git\<close> raises something unexpected in phase 3,
  exactly the four platform phases are scaffolded, and the verdict is "LAUNCH-READY" exactly when
  the context was compiled (or no boundary is configured), \<open>git\<close> raises nothing unexpected in
  phase 4 and every registered collector that returned an output reported a pass. A collector that returns something else is ignored.
\<close>

theorem launch_ready_iff:
  assumes "capture_source_info (gw_git w 0) (gw_git w 1) = Inr src"
    and "r = (new_governance_runner base_url uuid)\<lparr>gr_verification_runner :=
               new_verification_runner\<lparr>vr_collectors := cs\<rparr>\<rparr>"
  shows "\<exists>res b. run_governance w r held = (Inr res, b) \<and>
    map ph_phase (filter ph_scaffolded (gv_phases res)) = scaffolded_phases \<and>
    (all_supported_passed res \<longleftrightarrow>
      (base_url = [] \<or>
       (\<exists>s. compile_context (gw_fstr w) (gw_post w) (gw_clock w ''compiled'') base_url [] = Inr s)) \<and>
      (\<exists>c. capture_source_info (gw_git w 2) (gw_git w 3) = Inr c) \<and>
      (\<forall>(cls, c) \<in> set cs. collector_ok c))"
proof -
  obtain p3 where p3: "phase_implementation w r = Inr p3"
    using assms(1) by (cases src) (simp add: phase_implementation_def)
  have adapters: "gr_registration r = (\<lambda>c. Inr (local_register c))"
    "gr_submission r = (\<lambda>b. Inr (local_submit b))" "gr_verdict r = (\<lambda>s. Inr (local_retrieve_verdict s))"
    "gr_base_url r = base_url" "vr_collectors (gr_verification_runner r) = cs"
    by (simp_all add: assms(2) new_governance_runner_def)
  show ?thesis
    using local_adapters.supported_phases_decide [OF adapters(1-3) p3, of held]
    by (simp add: verification_phase_success context_phase_success adapters(4,5))
qed

theorem launch_ready_iff_witness:
  "\<exists>res b. run_governance demo_governance_world demo_governance_runner None = (Inr res, b) \<and>
     all_supported_passed res"
proof -
  have src: "capture_source_info (gw_git demo_governance_world 0) (gw_git demo_governance_world 1) =
      Inr (''abc123'', [])" by code_simp
  have r: "demo_governance_runner = (new_governance_runner [] ''run-1'')\<lparr>gr_verification_runner :=
      new_verification_runner\<lparr>vr_collectors := [(''unit-tests'', Collects (blank_output\<lparr>vo_passed := True\<rparr>))]\<rparr>\<rparr>"
    by (simp add: demo_governance_runner_def governance_register_collector_def register_collector_def
        new_governance_runner_def new_verification_runner_def dict_set_def)
  have git: "\<exists>c. capture_source_info (gw_git demo_governance_world 2) (gw_git demo_governance_world 3) = Inr c"
  proof
    show "capture_source_info (gw_git demo_governance_world 2) (gw_git demo_governance_world 3) =
      Inr (''abc123'', [])" by code_simp
  qed
  show ?thesis
    using launch_ready_iff [OF src r, of None] git by (auto simp: collector_ok_def)
qed

end
