(* ===== verification/Text_Ops.thy ===== *)
theory Text_Ops
  imports Keyhole_Prelude
begin

text \<open>
  Further Python string operations, shared by the components that read paths, URLs and
  identifiers: \<open>startswith\<close>, \<open>endswith\<close>, \<open>in\<close>, \<open>replace\<close>, \<open>split\<close> and quoting.
\<close>

definition starts_with :: "string \<Rightarrow> string \<Rightarrow> bool" where
  "starts_with p s = (take (length p) s = p)"

definition ends_with :: "string \<Rightarrow> string \<Rightarrow> bool" where
  "ends_with p s = starts_with (rev p) (rev s)"

fun py_in :: "string \<Rightarrow> string \<Rightarrow> bool" where
  "py_in p [] = (p = [])"
| "py_in p (c # cs) = (starts_with p (c # cs) \<or> py_in p cs)"

text \<open>\<open>s.replace(p, q)\<close> for a non-empty \<open>p\<close>: the leftmost matches that do not overlap.\<close>

function py_replace :: "string \<Rightarrow> string \<Rightarrow> string \<Rightarrow> string" where
  "py_replace p q [] = []"
| "py_replace p q (c # cs) =
     (if p \<noteq> [] \<and> starts_with p (c # cs) then q @ py_replace p q (drop (length p) (c # cs))
      else c # py_replace p q cs)"
  by pat_completeness auto
termination by (relation "measure (\<lambda>(p, q, s). length s)") auto

text \<open>\<open>s.split(c)\<close> for one character: always at least one part.\<close>

fun py_split :: "char \<Rightarrow> string \<Rightarrow> string list" where
  "py_split c [] = [[]]"
| "py_split c (x # xs) =
     (if x = c then [] # py_split c xs
      else (case py_split c xs of [] \<Rightarrow> [[x]] | w # ws \<Rightarrow> (x # w) # ws))"

definition quoted :: "string \<Rightarrow> string" where
  "quoted s = CHR 0x27 # s @ [CHR 0x27]"

lemma starts_with_iff: "starts_with p s \<longleftrightarrow> (\<exists>t. s = p @ t)"
  unfolding starts_with_def by (metis append_eq_conv_conj append_take_drop_id)

lemma starts_with_append [simp]: "starts_with p (p @ t)"
  by (simp add: starts_with_def)

lemma ends_with_iff: "ends_with p s \<longleftrightarrow> (\<exists>t. s = t @ p)"
  unfolding ends_with_def starts_with_iff by (metis rev_append rev_rev_ident)

lemma ends_with_append [simp]: "ends_with p (t @ p)"
  by (auto simp: ends_with_iff)

lemma py_in_iff: "py_in p s \<longleftrightarrow> (\<exists>a b. s = a @ p @ b)"
proof (induction s)
  case step: (Cons c s)
  show ?case
  proof
    assume "py_in p (c # s)"
    then consider "starts_with p (c # s)" | "py_in p s" by auto
    then show "\<exists>a b. c # s = a @ p @ b"
    proof cases
      case 1
      then show ?thesis by (metis append_Nil starts_with_iff)
    next
      case 2
      then show ?thesis using step by (metis append_Cons)
    qed
  next
    assume "\<exists>a b. c # s = a @ p @ b"
    then obtain a b where "c # s = a @ p @ b" by blast
    then show "py_in p (c # s)"
    proof (cases a)
      case Nil
      then have "starts_with p (c # s)" using \<open>c # s = a @ p @ b\<close> by (auto simp: starts_with_iff)
      then show ?thesis by simp
    next
      case (Cons x xs)
      then have "\<exists>a b. s = a @ p @ b" using \<open>c # s = a @ p @ b\<close> by auto
      then show ?thesis using step by simp
    qed
  qed
qed auto

lemma py_in_append [simp]: "py_in p (a @ p @ b)"
  by (auto simp: py_in_iff)

lemma py_split_nonempty [simp]: "py_split c s \<noteq> []"
  by (induction s) (auto split: list.split)

lemma py_split_no_sep: "w \<in> set (py_split c s) \<Longrightarrow> c \<notin> set w"
proof (induction s arbitrary: w)
  case (Cons x s)
  then show ?case by (cases "py_split c s") (auto split: if_splits)
qed simp

lemma py_join_split: "py_join [c] (py_split c s) = s"
proof (induction s)
  case (Cons x s)
  then show ?case by (cases "py_split c s") (auto simp: py_join_def)
qed (simp add: py_join_def)

text \<open>A replacement by text without the character removes it.\<close>

lemma py_replace_char:
  assumes "c \<notin> set q"
  shows "c \<notin> set (py_replace [c] q s)"
  using assms by (induction "[c]" q s rule: py_replace.induct) (auto simp: starts_with_def)

lemma py_replace_map:
  "py_replace [c] [d] s = map (\<lambda>x. if x = c then d else x) s"
  by (induction s) (auto simp: starts_with_def)

text \<open>
  \<open>for x in v\<close> on a JSON value: a string iterates over its characters, a dictionary over its
  keys, and anything else that is not a list raises (\<open>None\<close>).
\<close>

definition iterate_json :: "json \<Rightarrow> json list option" where
  "iterate_json v =
     (case v of
        JList xs \<Rightarrow> Some xs
      | JObj d \<Rightarrow> Some (map (\<lambda>(k, x). JStr k) d)
      | JStr s \<Rightarrow> Some (map (\<lambda>c. JStr [c]) s)
      | _ \<Rightarrow> None)"

text \<open>\<open>str(v or "")\<close>; the strings among some values; the first occurrence of each element.\<close>

definition str_or_empty :: "(json \<Rightarrow> string) \<Rightarrow> json \<Rightarrow> string" where
  "str_or_empty fstr v = (if json_truthy v then fstr v else [])"

fun only_strings :: "json list \<Rightarrow> string list" where
  "only_strings [] = []"
| "only_strings (JStr s # xs) = s # only_strings xs"
| "only_strings (_ # xs) = only_strings xs"

definition keep_first :: "'a list \<Rightarrow> 'a list" where
  "keep_first xs = rev (remdups (rev xs))"

lemma set_keep_first [simp]: "set (keep_first xs) = set xs"
  by (simp add: keep_first_def)

lemma distinct_keep_first [simp]: "distinct (keep_first xs)"
  by (simp add: keep_first_def)

text \<open>\<open>s.split(sep, 1)\<close> when \<open>sep\<close> occurs: what is before and after its first occurrence.\<close>

fun split_once :: "string \<Rightarrow> string \<Rightarrow> (string \<times> string) option" where
  "split_once sep [] = (if sep = [] then Some ([], []) else None)"
| "split_once sep (c # cs) =
     (if starts_with sep (c # cs) then Some ([], drop (length sep) (c # cs))
      else map_option (\<lambda>(a, b). (c # a, b)) (split_once sep cs))"

lemma split_once_Some: "split_once sep s = Some (a, b) \<Longrightarrow> s = a @ sep @ b"
proof (induction s arbitrary: a)
  case (Cons c s)
  then show ?case by (auto simp: starts_with_iff split: if_splits)
qed (simp split: if_splits)

lemma split_once_None: "split_once sep s = None \<longleftrightarrow> \<not> py_in sep s"
  by (induction s) auto

text \<open>\<open>s.splitlines()\<close>: the ASCII line boundaries, a carriage return before a line feed counting once.\<close>

definition is_line_break :: "char \<Rightarrow> bool" where
  "is_line_break c = (code_of c \<in> {10, 11, 12, 13, 28, 29, 30})"

lemma is_line_break_bits [code]:
  "is_line_break (Char b0 b1 b2 b3 b4 b5 b6 b7) =
     (\<not> b7 \<and> \<not> b6 \<and> \<not> b5 \<and> b3 \<and> (if b4 then b2 \<and> \<not> (b1 \<and> b0) else if b2 then \<not> b1 else b1))"
  unfolding is_line_break_def code_of_Char
  by (cases b0; cases b1; cases b2; cases b3; cases b4; cases b5; cases b6; cases b7) simp_all

function py_splitlines :: "string \<Rightarrow> string list" where
  "py_splitlines s =
     (if s = [] then []
      else takeWhile (\<lambda>c. \<not> is_line_break c) s #
        (case dropWhile (\<lambda>c. \<not> is_line_break c) s of
           [] \<Rightarrow> []
         | c # cs \<Rightarrow> py_splitlines (if code_of c = 13 \<and> starts_with [CHR 10] cs then tl cs else cs)))"
  by pat_completeness auto
termination
proof (relation "measure length", simp)
  fix s :: string and c cs
  assume "dropWhile (\<lambda>c. \<not> is_line_break c) s = c # cs"
  moreover have "length (dropWhile (\<lambda>c. \<not> is_line_break c) s) \<le> length s" by (rule length_dropWhile_le)
  ultimately have "Suc (length cs) \<le> length s" by simp
  moreover have "length (tl cs) \<le> length cs" by simp
  ultimately show "((if code_of c = 13 \<and> starts_with [CHR 10] cs then tl cs else cs), s) \<in> measure length"
    by (simp del: length_tl)
qed

declare py_splitlines.simps [simp del]

end
