(* ===== verification/Host_Models.thy ===== *)
theory Host_Models
  imports Text_Ops
begin

text \<open>
  Models of the host inspection (\<open>doctor/models.py\<close>): the enumerations, the record of a
  discovered host, the doctor report, and the attestations of \<open>SDK-CLIENT-23\<close> with their
  freshness. Time stamps are read by \<open>fromiso\<close>, Python's \<open>datetime.fromisoformat\<close>: \<open>None\<close> is a
  \<open>ValueError\<close>, and a value is naive or has an offset from UTC.
\<close>

section \<open>Enumerations\<close>

datatype host_type = IDE_MCP_CLIENT | SDK_RUNTIME | UNKNOWN_TYPE

datatype host_family = VSCODE | JETBRAINS | CLOUD_CODE | SDK_LOCAL | UNKNOWN_FAMILY

fun host_family_value :: "host_family \<Rightarrow> string" where
  "host_family_value VSCODE = ''vscode''"
| "host_family_value JETBRAINS = ''jetbrains''"
| "host_family_value CLOUD_CODE = ''cloud_code''"
| "host_family_value SDK_LOCAL = ''sdk_local''"
| "host_family_value UNKNOWN_FAMILY = ''unknown''"

datatype host_support = HOST_SUPPORTED | HOST_PARTIAL | HOST_UNSUPPORTED | HOST_SUPPORT_UNKNOWN

datatype staleness_state = FRESH | STALE_CONFIRMED | STALENESS_UNKNOWN

datatype host_diagnosis =
    ALIGNED | SPLIT_IDENTITY | STALE_CONNECTION | STALE_HOST_AUTH | HOST_NOT_CONFIGURED
  | HOST_CONFIG_UNREADABLE | LIVE_CONNECTION_MISSING | RECONNECT_REQUIRED | UNSUPPORTED_HOST
  | SURFACE_UNAVAILABLE | SCOPE_DENIED | AMBIGUOUS_CONNECTION | NOT_DETECTED

datatype reconciliation_mode = LOCAL_ONLY | HOST_INVENTORY | LIVE_RECONCILIATION

datatype doctor_summary_status = DOCTOR_OK | ATTENTION_REQUIRED | DOCTOR_DEGRADED

datatype recommended_action =
    REBIND | INVALIDATE_RECONNECT | KEEP_AS_IS | UPGRADE_SERVER | USE_GENERIC_WHOAMI
  | INSTALL_HOST_ENTRY | INSTALL_HOST_CREDENTIALS | REPAIR_HOST_CONFIG | REFRESH_HOST
  | RESTART_HOST | RELOAD_MCP_EXTENSION | RERUN_DOCTOR

datatype reconnect_requirement =
    RECONNECT_NONE | RELOAD_WINDOW | RESTART_IDE | RESTART_EXTENSION | MANUAL

section \<open>Hosts and the doctor report\<close>

record host_record =
  hr_host_id :: string
  hr_host_type :: host_type
  hr_host_family :: host_family
  hr_display_name :: string
  hr_detected :: bool
  hr_config_detected :: bool
  hr_config_path :: string
  hr_keyhole_server_entry_detected :: bool
  hr_server_url :: json
  hr_local_auth_hints_present :: bool
  hr_auth_source_mode :: string
  hr_configured_principal_source :: json
  hr_connection_visible_from_server :: bool
  hr_connection_id :: json
  hr_server_principal_user_id :: json
  hr_server_principal_label :: json
  hr_staleness_state :: staleness_state
  hr_supports_rebind :: json
  hr_supports_invalidate :: json
  hr_support_status :: host_support
  hr_reconnect_requirement :: reconnect_requirement
  hr_diagnosis :: host_diagnosis

definition blank_host :: "string \<Rightarrow> host_record" where
  "blank_host host_id =
     \<lparr>hr_host_id = host_id, hr_host_type = UNKNOWN_TYPE, hr_host_family = UNKNOWN_FAMILY,
      hr_display_name = [], hr_detected = False, hr_config_detected = False, hr_config_path = [],
      hr_keyhole_server_entry_detected = False, hr_server_url = JStr [],
      hr_local_auth_hints_present = False, hr_auth_source_mode = [],
      hr_configured_principal_source = JStr [], hr_connection_visible_from_server = False,
      hr_connection_id = JStr [], hr_server_principal_user_id = JStr [],
      hr_server_principal_label = JStr [], hr_staleness_state = STALENESS_UNKNOWN,
      hr_supports_rebind = JBool False, hr_supports_invalidate = JBool False,
      hr_support_status = HOST_SUPPORT_UNKNOWN, hr_reconnect_requirement = RECONNECT_NONE,
      hr_diagnosis = NOT_DETECTED\<rparr>"

record host_entry =
  he_host_id :: string
  he_diagnosis :: host_diagnosis
  he_current_connection_principal :: json
  he_recommended_actions :: "recommended_action list"

record doctor_report =
  dr_cli_active_profile :: string
  dr_cli_user_id :: string
  dr_reconciliation_mode :: reconciliation_mode
  dr_hosts :: "host_entry list"
  dr_host_records :: "host_record list"
  dr_summary_status :: doctor_summary_status
  dr_negotiation_available :: bool
  dr_connection_surfaces_available :: bool
  dr_correlation_id :: string

definition has_split_identity :: "doctor_report \<Rightarrow> bool" where
  "has_split_identity r = (\<exists>h \<in> set (dr_hosts r). he_diagnosis h = SPLIT_IDENTITY)"

definition has_attention_required :: "doctor_report \<Rightarrow> bool" where
  "has_attention_required r = (dr_summary_status r \<noteq> DOCTOR_OK)"

record host_repair_guidance =
  rg_host_id :: string
  rg_diagnosis :: host_diagnosis
  rg_actions :: "recommended_action list"
  rg_descriptions :: "string list"
  rg_commands :: "string list"

section \<open>Attestations\<close>

text \<open>
  Times in microseconds: \<open>Naive\<close> without a zone, \<open>Aware\<close> local time with its offset. A naive
  time takes the zone of the one it is compared with; an aware one cannot be compared with
  a naive one (\<open>TypeError\<close>, \<open>None\<close>).
\<close>

datatype iso_time = Naive int | Aware int int

definition time_le :: "iso_time \<Rightarrow> iso_time \<Rightarrow> bool option" where
  "time_le now e =
     (case (now, e) of
        (Naive n, Naive x) \<Rightarrow> Some (n \<le> x)
      | (Naive n, Aware x off) \<Rightarrow> Some (n - off \<le> x - off)
      | (Aware n o1, Aware x o2) \<Rightarrow> Some (n - o1 \<le> x - o2)
      | (Aware n o1, Naive x) \<Rightarrow> None)"

definition zulu :: "string \<Rightarrow> string" where
  "zulu s = py_replace ''Z'' ''+00:00'' s"

datatype attestation_confidence = CONFIRMED | PROBABLE | CONFIDENCE_UNKNOWN

record attestation =
  at_schema_version :: string
  at_host_kind :: string
  at_host_display_name :: string
  at_integration_name :: string
  at_server_url :: string
  at_realm :: string
  at_effective_principal :: string
  at_effective_subject :: string
  at_proof_method :: string
  at_confidence :: attestation_confidence
  at_observed_at :: string
  at_expires_at :: string
  at_machine_scope :: string
  at_workspace_scope :: "string option"
  at_correlation_id :: string
  at_notes :: string
  at_tool_version :: string

definition is_fresh :: "(string \<Rightarrow> iso_time option) \<Rightarrow> iso_time \<Rightarrow> attestation \<Rightarrow> bool" where
  "is_fresh fromiso now a =
     (case fromiso (zulu (at_expires_at a)) of
        None \<Rightarrow> False
      | Some e \<Rightarrow> (case time_le now e of None \<Rightarrow> False | Some b \<Rightarrow> b))"

definition is_confirmed :: "attestation \<Rightarrow> bool" where
  "is_confirmed a = (at_confidence a = CONFIRMED)"

record identity_override =
  io_override_type :: string
  io_created_at :: string
  io_target_principal :: string
  io_conflicting_host_principal :: string
  io_host_kind :: string
  io_reason :: string
  io_expiry :: "string option"

definition is_expired :: "(string \<Rightarrow> iso_time option) \<Rightarrow> iso_time \<Rightarrow> identity_override \<Rightarrow> bool" where
  "is_expired fromiso now ov =
     (if \<not> opt_truthy (io_expiry ov) then False
      else
        (case fromiso (zulu (the (io_expiry ov))) of
           None \<Rightarrow> False
         | Some e \<Rightarrow> (case time_le now e of None \<Rightarrow> False | Some b \<Rightarrow> \<not> b)))"

end
