(* ===== verification/Host_Identity.thy ===== *)
theory Host_Identity
  imports Host_Models
begin

text \<open>
  Comparison of the identities of the command line, the hosts and the server: the coherence
  verdict over attestations (\<open>host/coherence_engine.py\<close>), the three-layer reconciler
  (\<open>host/reconciler.py\<close>), and the doctor's classification, repair guidance and report
  (\<open>doctor/diagnostics.py\<close>, \<open>doctor/reconciliation.py\<close>).
\<close>

section \<open>Coherence\<close>

datatype coherence_verdict =
    ACCEPT_MATCH | WARNING_NO_HOST_ATTESTATION | WARNING_STALE_HOST_ATTESTATION
  | WARNING_UNKNOWN_HOST_IDENTITY | REJECT_HOST_CONFLICT | ACCEPT_INTENTIONAL_SPLIT

record coherence_result =
  co_verdict :: coherence_verdict
  co_cli_principal :: string
  co_conflicting :: "attestation list"
  co_matching :: "attestation list"
  co_stale :: "attestation list"
  co_unknown :: "attestation list"
  co_override :: "identity_override option"
  co_description :: string
  co_fix_steps :: "string list"

definition coherence_of :: "coherence_verdict \<Rightarrow> string \<Rightarrow> string \<Rightarrow> string list \<Rightarrow> coherence_result" where
  "coherence_of v cli_principal description steps =
     \<lparr>co_verdict = v, co_cli_principal = cli_principal, co_conflicting = [], co_matching = [],
      co_stale = [], co_unknown = [], co_override = None, co_description = description,
      co_fix_steps = steps\<rparr>"

definition principals_match :: "string \<Rightarrow> string \<Rightarrow> bool" where
  "principals_match a b = (py_lower (py_strip a) = py_lower (py_strip b))"

text \<open>The four lists of the classification loop, in order of appearance.\<close>

record attestation_sort =
  as_matching :: "attestation list"
  as_conflicting :: "attestation list"
  as_stale :: "attestation list"
  as_unknown :: "attestation list"

fun sort_attestations ::
  "(string \<Rightarrow> iso_time option) \<Rightarrow> iso_time \<Rightarrow> string \<Rightarrow> attestation list \<Rightarrow> attestation_sort
     \<Rightarrow> attestation_sort" where
  "sort_attestations fromiso now cli_principal [] acc = acc"
| "sort_attestations fromiso now cli_principal (a # rest) acc =
     sort_attestations fromiso now cli_principal rest
       (if \<not> is_fresh fromiso now a then acc\<lparr>as_stale := as_stale acc @ [a]\<rparr>
        else if at_confidence a \<noteq> CONFIRMED then acc\<lparr>as_unknown := as_unknown acc @ [a]\<rparr>
        else if principals_match (at_effective_principal a) cli_principal
        then acc\<lparr>as_matching := as_matching acc @ [a]\<rparr>
        else acc\<lparr>as_conflicting := as_conflicting acc @ [a]\<rparr>)"

definition empty_sort :: attestation_sort where
  "empty_sort = \<lparr>as_matching = [], as_conflicting = [], as_stale = [], as_unknown = []\<rparr>"

definition host_label :: "attestation \<Rightarrow> string" where
  "host_label a = str_or (at_host_display_name a) (at_host_kind a) @ '' ('' @ at_effective_principal a @ '')''"

definition conflict_steps :: "string list" where
  "conflict_steps =
     [''Open VS Code where the Keyhole host is installed.'',
      ''Confirm the host is acting as the intended user.'',
      ''If the host is bound to the wrong user, sign out of the Keyhole host connection in VS Code.'',
      ''Re-authenticate VS Code as the intended user.'',
      ''Re-run the host attestation helper.'',
      ''Re-run: keyhole doctor'',
      ''Retry: keyhole login'',
      ''Or use: keyhole login --allow-split-identity'']"

definition classify_coherence ::
  "(string \<Rightarrow> iso_time option) \<Rightarrow> iso_time \<Rightarrow> string \<Rightarrow> attestation list \<Rightarrow> identity_override option
     \<Rightarrow> coherence_result" where
  "classify_coherence fromiso now cli_principal attestations override =
     (if cli_principal = [] then
        (if attestations = [] then
           coherence_of WARNING_NO_HOST_ATTESTATION []
             (''CLI identity is not verified. '' @ ''No host attestations found.'')
             [''Run: keyhole whoami'', ''Run: keyhole host attest'', ''Re-run: keyhole doctor'']
         else
           coherence_of WARNING_NO_HOST_ATTESTATION []
             (''CLI identity is not verified. '' @ ''Cannot compare against host attestations.'')
             [''Run: keyhole whoami'', ''Re-run: keyhole doctor''])
      else if attestations = [] then
        coherence_of WARNING_NO_HOST_ATTESTATION cli_principal
          ''No host identity attestations found. Host environments have not been inspected.''
          [''Open VS Code where the Keyhole host is installed.'',
           ''Run the Keyhole host identity attestation helper.'',
           ''Re-run: keyhole doctor'']
      else
        (let s = sort_attestations fromiso now cli_principal attestations empty_sort
         in if as_conflicting s \<noteq> [] then
              (let allowed = (case override of None \<Rightarrow> False | Some ov \<Rightarrow> \<not> is_expired fromiso now ov)
               in if allowed then
                    (coherence_of ACCEPT_INTENTIONAL_SPLIT cli_principal
                       (''Identity split allowed by override. '' @ ''CLI: '' @ cli_principal @ '', '' @
                        ''Host: '' @ at_effective_principal (hd (as_conflicting s))) [])
                      \<lparr>co_conflicting := as_conflicting s, co_matching := as_matching s,
                       co_stale := as_stale s, co_unknown := as_unknown s, co_override := override\<rparr>
                  else
                    (coherence_of REJECT_HOST_CONFLICT cli_principal
                       (''Fresh confirmed host conflict detected. '' @ ''CLI: '' @ cli_principal @ '', '' @
                        ''Hosts: '' @ py_join '', '' (map host_label (as_conflicting s))) conflict_steps)
                      \<lparr>co_conflicting := as_conflicting s, co_matching := as_matching s,
                       co_stale := as_stale s, co_unknown := as_unknown s\<rparr>)
            else if as_matching s \<noteq> [] then
              (coherence_of ACCEPT_MATCH cli_principal (''CLI and host identities match: '' @ cli_principal) [])
                \<lparr>co_matching := as_matching s, co_stale := as_stale s, co_unknown := as_unknown s\<rparr>
            else if as_stale s \<noteq> [] then
              (coherence_of WARNING_STALE_HOST_ATTESTATION cli_principal
                 (''Host attestation(s) are stale. '' @ ''Refresh attestation for strong coherence checks.'')
                 [''Open VS Code where the Keyhole host is installed.'',
                  ''Re-run the Keyhole host identity attestation helper.'',
                  ''Re-run: keyhole doctor''])
                \<lparr>co_stale := as_stale s, co_unknown := as_unknown s\<rparr>
            else
              (coherence_of WARNING_UNKNOWN_HOST_IDENTITY cli_principal
                 (''Host identity could not be confirmed. '' @ ''Proof method may be degraded.'')
                 [''Open VS Code where the Keyhole host is installed.'',
                  ''Run the Keyhole host identity attestation helper with live whoami.'',
                  ''Re-run: keyhole doctor''])
                \<lparr>co_unknown := as_unknown s\<rparr>))"

section \<open>The three-layer reconciler\<close>

record three_layer =
  tl_host_id :: string
  tl_host_family :: host_family
  tl_cli_user_id :: string
  tl_cli_profile_label :: string
  tl_host_configured_principal :: json
  tl_host_auth_mode :: string
  tl_server_user_id :: json
  tl_server_principal_label :: json
  tl_server_connection_id :: json
  tl_server_staleness :: staleness_state
  tl_diagnosis :: host_diagnosis
  tl_recommended_actions :: "recommended_action list"
  tl_description :: string

definition three_layer_of :: "string \<Rightarrow> string \<Rightarrow> host_record \<Rightarrow> three_layer" where
  "three_layer_of user label h =
     \<lparr>tl_host_id = hr_host_id h, tl_host_family = hr_host_family h, tl_cli_user_id = user,
      tl_cli_profile_label = label,
      tl_host_configured_principal = hr_configured_principal_source h,
      tl_host_auth_mode = hr_auth_source_mode h,
      tl_server_user_id = hr_server_principal_user_id h,
      tl_server_principal_label = hr_server_principal_label h,
      tl_server_connection_id = hr_connection_id h,
      tl_server_staleness = hr_staleness_state h,
      tl_diagnosis = NOT_DETECTED, tl_recommended_actions = [], tl_description = []\<rparr>"

definition reconcile_three_layer ::
  "(json \<Rightarrow> string) \<Rightarrow> string \<Rightarrow> string \<Rightarrow> host_record \<Rightarrow> bool \<Rightarrow> three_layer" where
  "reconcile_three_layer fstr user label h surfaces =
     (let i = three_layer_of user label h
      in if \<not> hr_detected h then
           i\<lparr>tl_diagnosis := NOT_DETECTED, tl_description := ''Host not detected on this machine.''\<rparr>
         else if \<not> hr_config_detected h then
           i\<lparr>tl_diagnosis := HOST_CONFIG_UNREADABLE, tl_recommended_actions := [REPAIR_HOST_CONFIG],
             tl_description := ''Host detected but config is unreadable.''\<rparr>
         else if \<not> hr_keyhole_server_entry_detected h then
           i\<lparr>tl_diagnosis := HOST_NOT_CONFIGURED, tl_recommended_actions := [INSTALL_HOST_CREDENTIALS],
             tl_description := ''Host detected but no Keyhole MCP server entry configured.''\<rparr>
         else if \<not> surfaces then
           i\<lparr>tl_diagnosis := SURFACE_UNAVAILABLE, tl_recommended_actions := [UPGRADE_SERVER],
             tl_description := ''Connection surfaces not available. '' @
               ''Cannot verify live identity alignment.''\<rparr>
         else if \<not> hr_connection_visible_from_server h then
           i\<lparr>tl_diagnosis := LIVE_CONNECTION_MISSING,
             tl_recommended_actions := [REFRESH_HOST, RESTART_HOST],
             tl_description := ''Host has Keyhole entry but no live connection visible from server.''\<rparr>
         else if \<not> json_truthy (hr_server_principal_user_id h) then
           i\<lparr>tl_diagnosis := AMBIGUOUS_CONNECTION, tl_recommended_actions := [RERUN_DOCTOR],
             tl_description := ''Server returned ambiguous connection identity.''\<rparr>
         else if hr_server_principal_user_id h = JStr user then
           (if hr_staleness_state h = STALE_CONFIRMED then
              i\<lparr>tl_diagnosis := STALE_HOST_AUTH, tl_recommended_actions := [REFRESH_HOST],
                tl_description := ''Identity aligned but host auth may be stale.''\<rparr>
            else
              i\<lparr>tl_diagnosis := ALIGNED, tl_description := ''All three identity layers are aligned.''\<rparr>)
         else
           i\<lparr>tl_diagnosis := SPLIT_IDENTITY,
             tl_recommended_actions := [KEEP_AS_IS, REBIND, INVALIDATE_RECONNECT],
             tl_description := ''CLI profile ('' @ user @ '') and server connection '' @ ''('' @
               fstr (hr_server_principal_user_id h) @ '') are different principals.''\<rparr>)"

section \<open>The doctor\<close>

definition classify_host_diagnosis :: "string \<Rightarrow> host_record \<Rightarrow> bool \<Rightarrow> host_diagnosis" where
  "classify_host_diagnosis user h surfaces =
     (if \<not> hr_detected h then NOT_DETECTED
      else if \<not> hr_config_detected h then HOST_CONFIG_UNREADABLE
      else if \<not> hr_keyhole_server_entry_detected h then HOST_NOT_CONFIGURED
      else if \<not> surfaces then SURFACE_UNAVAILABLE
      else if \<not> hr_connection_visible_from_server h then LIVE_CONNECTION_MISSING
      else if \<not> json_truthy (hr_server_principal_user_id h) then AMBIGUOUS_CONNECTION
      else if hr_server_principal_user_id h \<noteq> JStr user then SPLIT_IDENTITY
      else if hr_staleness_state h = STALE_CONFIRMED then STALE_HOST_AUTH
      else ALIGNED)"

definition reconnect_hint :: "reconnect_requirement \<Rightarrow> string" where
  "reconnect_hint q =
     (case q of
        RELOAD_WINDOW \<Rightarrow> ''Reload the VS Code window (Ctrl+Shift+P '' @ [CHR 0xE2, CHR 0x86, CHR 0x92] @
          '' '' @ quoted ''Reload Window'' @ '').''
      | RESTART_IDE \<Rightarrow> ''Restart the IDE to pick up config changes.''
      | RESTART_EXTENSION \<Rightarrow> ''Restart the MCP extension.''
      | MANUAL \<Rightarrow> ''Follow host documentation for reconnection steps.''
      | RECONNECT_NONE \<Rightarrow> [])"

text \<open>\<open>build_repair_guidance\<close>: actions, descriptions and commands of each diagnosis.\<close>

definition repair_actions :: "host_diagnosis \<Rightarrow> recommended_action list" where
  "repair_actions d =
     (case d of
        NOT_DETECTED \<Rightarrow> [INSTALL_HOST_ENTRY, RERUN_DOCTOR]
      | UNSUPPORTED_HOST \<Rightarrow> [RERUN_DOCTOR]
      | HOST_CONFIG_UNREADABLE \<Rightarrow> [REPAIR_HOST_CONFIG, RERUN_DOCTOR]
      | HOST_NOT_CONFIGURED \<Rightarrow> [INSTALL_HOST_CREDENTIALS, RERUN_DOCTOR]
      | SURFACE_UNAVAILABLE \<Rightarrow> [UPGRADE_SERVER, USE_GENERIC_WHOAMI]
      | STALE_CONNECTION \<Rightarrow> [REFRESH_HOST, INVALIDATE_RECONNECT]
      | LIVE_CONNECTION_MISSING \<Rightarrow> [REFRESH_HOST, RESTART_HOST]
      | STALE_HOST_AUTH \<Rightarrow> [REFRESH_HOST, INSTALL_HOST_CREDENTIALS]
      | RECONNECT_REQUIRED \<Rightarrow> [RESTART_HOST, RELOAD_MCP_EXTENSION]
      | SCOPE_DENIED \<Rightarrow> [RERUN_DOCTOR]
      | SPLIT_IDENTITY \<Rightarrow> [KEEP_AS_IS, REBIND, INVALIDATE_RECONNECT]
      | AMBIGUOUS_CONNECTION \<Rightarrow> [RERUN_DOCTOR]
      | ALIGNED \<Rightarrow> [])"

definition repair_descriptions :: "string \<Rightarrow> string \<Rightarrow> host_diagnosis \<Rightarrow> string list" where
  "repair_descriptions hid hint d =
     (case d of
        NOT_DETECTED \<Rightarrow>
          [''Verify the host is installed.'',
           ''Add a Keyhole MCP server entry to the host configuration.'',
           ''Rerun '' @ quoted ''keyhole doctor'' @ '' to verify.'']
      | UNSUPPORTED_HOST \<Rightarrow>
          [''Host '' @ quoted hid @ '' was detected but is not supported for automated setup.'',
           ''Check host documentation for MCP server configuration.'']
      | HOST_CONFIG_UNREADABLE \<Rightarrow>
          [''Host '' @ quoted hid @ '' was detected but its configuration is unreadable.'',
           ''Check file permissions and JSON validity of the host config.'']
      | HOST_NOT_CONFIGURED \<Rightarrow>
          [''Host '' @ quoted hid @ '' is installed but has no Keyhole MCP server entry.'',
           ''Install credentials to connect the host to the MCP boundary.'', hint]
      | SURFACE_UNAVAILABLE \<Rightarrow>
          [''The server does not support connection-truth surfaces.'',
           ''Upgrade the server or use '' @ quoted ''keyhole whoami'' @ '' for generic identity.'',
           ''Do not assume host alignment without server confirmation.'']
      | STALE_CONNECTION \<Rightarrow>
          [''The host connection is not visible from the server.'',
           ''Ensure the host has opened a Keyhole connection.'',
           ''Refresh the host or invalidate and reconnect.'', hint]
      | LIVE_CONNECTION_MISSING \<Rightarrow>
          [''Host has Keyhole entry but no live connection is visible from the server.'',
           ''The host may need to reconnect.'', hint]
      | STALE_HOST_AUTH \<Rightarrow>
          [''Host identity is aligned but the auth token may be stale.'',
           ''Refresh or reinstall credentials.'', hint]
      | RECONNECT_REQUIRED \<Rightarrow>
          [''Credentials were updated but the host needs to reconnect.'', hint]
      | SCOPE_DENIED \<Rightarrow>
          [''The host connection was rejected by the server due to scope.'',
           ''Check the host'' @ [CHR 0x27] @ ''s charter and workspace configuration.'']
      | SPLIT_IDENTITY \<Rightarrow>
          [''CLI profile and host '' @ quoted hid @ '' are executing as different principals.'',
           ''Keep the current host identity, rebind to the active profile, '' @
           ''or invalidate the connection and reconnect.'']
      | AMBIGUOUS_CONNECTION \<Rightarrow>
          [''The server returned an ambiguous connection identity.'',
           ''Retry the doctor scan or inspect the connection directly.'']
      | ALIGNED \<Rightarrow> [''No action required '' @ mdash @ '' host identity is aligned.''])"

definition repair_commands :: "string \<Rightarrow> host_diagnosis \<Rightarrow> string list" where
  "repair_commands hid d =
     (case d of
        NOT_DETECTED \<Rightarrow> [''keyhole host install --host '' @ hid, ''keyhole doctor'']
      | UNSUPPORTED_HOST \<Rightarrow> [''keyhole doctor'']
      | HOST_CONFIG_UNREADABLE \<Rightarrow> [''keyhole host inspect --host '' @ hid, ''keyhole doctor'']
      | HOST_NOT_CONFIGURED \<Rightarrow> [''keyhole host install --host '' @ hid, ''keyhole doctor'']
      | SURFACE_UNAVAILABLE \<Rightarrow> [''keyhole whoami'']
      | STALE_CONNECTION \<Rightarrow>
          [''keyhole connections list'', ''keyhole connection invalidate --host '' @ hid @ '' --yes'']
      | LIVE_CONNECTION_MISSING \<Rightarrow>
          [''keyhole host inspect --host '' @ hid, ''keyhole connections list'']
      | STALE_HOST_AUTH \<Rightarrow> [''keyhole host install --host '' @ hid @ '' --force'']
      | RECONNECT_REQUIRED \<Rightarrow> []
      | SCOPE_DENIED \<Rightarrow> [''keyhole doctor'']
      | SPLIT_IDENTITY \<Rightarrow>
          [''keyhole connection rebind --host '' @ hid @ '' --profile <profile>'',
           ''keyhole connection invalidate --host '' @ hid @ '' --yes'']
      | AMBIGUOUS_CONNECTION \<Rightarrow> [''keyhole connection inspect --host '' @ hid, ''keyhole doctor'']
      | ALIGNED \<Rightarrow> [])"

definition build_repair_guidance :: "host_record \<Rightarrow> host_repair_guidance" where
  "build_repair_guidance h =
     \<lparr>rg_host_id = hr_host_id h, rg_diagnosis = hr_diagnosis h,
      rg_actions = repair_actions (hr_diagnosis h),
      rg_descriptions = repair_descriptions (hr_host_id h)
        (reconnect_hint (hr_reconnect_requirement h)) (hr_diagnosis h),
      rg_commands = repair_commands (hr_host_id h) (hr_diagnosis h)\<rparr>"

text \<open>\<open>build_doctor_report\<close>: classify what is not diagnosed, collect the entries, summarise.\<close>

definition diagnose_again :: "string \<Rightarrow> bool \<Rightarrow> host_record \<Rightarrow> host_record" where
  "diagnose_again user surfaces h =
     (if hr_diagnosis h = NOT_DETECTED \<and> hr_detected h
      then h\<lparr>hr_diagnosis := classify_host_diagnosis user h surfaces\<rparr> else h)"

definition host_entry_of :: "host_record \<Rightarrow> host_entry" where
  "host_entry_of h =
     \<lparr>he_host_id = hr_host_id h, he_diagnosis = hr_diagnosis h,
      he_current_connection_principal = hr_server_principal_label h,
      he_recommended_actions = rg_actions (build_repair_guidance h)\<rparr>"

definition degraded_diagnoses :: "host_diagnosis list" where
  "degraded_diagnoses =
     [STALE_CONNECTION, STALE_HOST_AUTH, LIVE_CONNECTION_MISSING, HOST_NOT_CONFIGURED,
      HOST_CONFIG_UNREADABLE, RECONNECT_REQUIRED, AMBIGUOUS_CONNECTION, SURFACE_UNAVAILABLE]"

definition summary_of :: "host_diagnosis list \<Rightarrow> doctor_summary_status" where
  "summary_of ds =
     (if SPLIT_IDENTITY \<in> set ds then ATTENTION_REQUIRED
      else if \<exists>d \<in> set ds. d \<in> set degraded_diagnoses then DOCTOR_DEGRADED
      else DOCTOR_OK)"

definition build_doctor_report ::
  "string \<Rightarrow> string \<Rightarrow> host_record list \<Rightarrow> bool \<Rightarrow> bool \<Rightarrow> reconciliation_mode \<Rightarrow> string
     \<Rightarrow> doctor_report" where
  "build_doctor_report profile user hosts surfaces negotiation mode cid =
     (let hs = map (diagnose_again user surfaces) hosts;
          entries = map host_entry_of hs
      in \<lparr>dr_cli_active_profile = profile, dr_cli_user_id = user, dr_reconciliation_mode = mode,
          dr_hosts = entries, dr_host_records = hs,
          dr_summary_status = summary_of (map he_diagnosis entries),
          dr_negotiation_available = negotiation, dr_connection_surfaces_available = surfaces,
          dr_correlation_id = cid\<rparr>)"

text \<open>
  \<open>reconcile\<close>. The connection surfaces are what the capabilities body holds; a \<open>run_types\<close>
  that cannot be iterated, or a truthy \<open>run_type\<close> that cannot be hashed, raises (\<open>None\<close>).
\<close>

definition inspect_run_type :: string where
  "inspect_run_type = ''connection.identity.inspect''"

fun run_type_names :: "json list \<Rightarrow> string list option" where
  "run_type_names [] = Some []"
| "run_type_names (JObj d # xs) =
     (case dict_get_or d ''run_type'' (JStr []) of
        JStr s \<Rightarrow> map_option (\<lambda>ys. if s \<noteq> [] then s # ys else ys) (run_type_names xs)
      | JList ys \<Rightarrow> if ys = [] then run_type_names xs else None
      | JObj e \<Rightarrow> if e = [] then run_type_names xs else None
      | _ \<Rightarrow> run_type_names xs)"
| "run_type_names (JStr s # xs) = map_option ((#) s) (run_type_names xs)"
| "run_type_names (_ # xs) = run_type_names xs"

definition connection_surfaces_available :: "string list \<Rightarrow> json \<Rightarrow> bool option" where
  "connection_surfaces_available ops surfaces =
     (case surfaces of
        JObj d \<Rightarrow>
          (if d = [] then Some (inspect_run_type \<in> set ops)
           else
             (case iterate_json (dict_get_or d ''run_types'' (JList [])) of
                None \<Rightarrow> None
              | Some xs \<Rightarrow>
                  map_option (\<lambda>names. inspect_run_type \<in> set (ops @ names)) (run_type_names xs)))
      | _ \<Rightarrow> Some (inspect_run_type \<in> set ops))"

definition enrich_host :: "string \<Rightarrow> dict \<Rightarrow> host_record \<Rightarrow> host_record" where
  "enrich_host user truth h =
     (if truth = [] then h
      else
        (let uid = dict_get_or truth ''user_id'' (JStr [])
         in h\<lparr>hr_connection_visible_from_server := True,
              hr_connection_id := dict_get_or truth ''connection_id'' (JStr []),
              hr_server_principal_user_id := uid,
              hr_server_principal_label := dict_get_or truth ''principal'' (JStr []),
              hr_supports_rebind := dict_get_or truth ''supports_rebind'' (JBool False),
              hr_supports_invalidate := dict_get_or truth ''supports_invalidate'' (JBool False),
              hr_staleness_state :=
                (if uid = JStr user then FRESH
                 else if json_truthy uid then STALE_CONFIRMED else STALENESS_UNKNOWN)\<rparr>))"

definition reconcile_host ::
  "string \<Rightarrow> bool \<Rightarrow> (string \<times> dict) list \<Rightarrow> host_record \<Rightarrow> host_record" where
  "reconcile_host user surfaces truth h =
     (if \<not> hr_detected h then h
      else
        (let h' = enrich_host user (dict_get_or truth (hr_host_id h) []) h
         in h'\<lparr>hr_diagnosis := classify_host_diagnosis user h' surfaces\<rparr>))"

definition reconcile ::
  "string \<Rightarrow> string \<Rightarrow> string \<Rightarrow> host_record list \<Rightarrow> string list \<Rightarrow> json \<Rightarrow> (string \<times> dict) list
     \<Rightarrow> reconciliation_mode \<Rightarrow> string option \<Rightarrow> doctor_report option" where
  "reconcile uuid profile user hosts ops surfaces truth mode cid =
     (case connection_surfaces_available ops surfaces of
        None \<Rightarrow> None
      | Some avail \<Rightarrow>
          Some (build_doctor_report profile user (map (reconcile_host user avail truth) hosts) avail
                  (0 < length ops) mode (if opt_truthy cid then the cid else uuid)))"

end
