(* ===== verification/Host_Config.thy ===== *)
theory Host_Config
  imports Host_Models "HOL-Library.List_Lexorder" "HOL-Library.Char_ord"
begin

text \<open>
  Host configuration files: the detectors (\<open>doctor/host_inventory.py\<close>) and the installers of
  Keyhole entries (\<open>host/installer.py\<close>). The file system gives for each path a JSON value,
  or the error of reading it; \<open>NotUtf8\<close> is a \<open>UnicodeDecodeError\<close>, which no reader here
  catches. Writing a file stores the JSON value that was dumped; a write that fails gives its error and,
  when the file had been opened and so emptied, what is left in it.
\<close>

section \<open>Files\<close>

datatype file_content = FileJson json | FileError string | NotUtf8 string

record host_fs =
  fs_files :: "(string \<times> file_content) list"
  fs_is_dir :: "string \<Rightarrow> bool"
  fs_glob :: "string \<Rightarrow> string list"
  fs_home :: string
  fs_keyhole_home :: "string option"
  fs_copy_fails :: "string \<Rightarrow> bool"
  fs_write_error :: "string \<Rightarrow> (string \<times> file_content option) option"

definition is_file :: "host_fs \<Rightarrow> string \<Rightarrow> bool" where
  "is_file fs p = (dict_get (fs_files fs) p \<noteq> None)"

definition put_file :: "string \<Rightarrow> file_content \<Rightarrow> host_fs \<Rightarrow> host_fs" where
  "put_file p c fs = fs\<lparr>fs_files := dict_set p c (fs_files fs)\<rparr>"

definition leave_file :: "string \<Rightarrow> file_content option \<Rightarrow> host_fs \<Rightarrow> host_fs" where
  "leave_file p left fs = (case left of None \<Rightarrow> fs | Some c \<Rightarrow> put_file p c fs)"

text \<open>\<open>os.path.expanduser\<close> on a path that starts with a tilde, \<open>Path.parent\<close> and \<open>/\<close>.\<close>

definition expanduser :: "host_fs \<Rightarrow> string \<Rightarrow> string" where
  "expanduser fs p = (case p of [] \<Rightarrow> [] | c # rest \<Rightarrow> if c = CHR ''~'' then fs_home fs @ rest else p)"

definition path_parent :: "string \<Rightarrow> string" where
  "path_parent p = rev (tl (dropWhile (\<lambda>c. c \<noteq> CHR ''/'') (rev p)))"

definition path_join :: "string \<Rightarrow> string \<Rightarrow> string" where
  "path_join base name = py_rstrip_char (CHR ''/'') base @ ''/'' @ name"

text \<open>The first path of a list that satisfies a test.\<close>

definition first_path :: "(string \<Rightarrow> bool) \<Rightarrow> string list \<Rightarrow> string option" where
  "first_path P ps = List.find P ps"

text \<open>A file read as JSON: an exception, unreadable, or a value.\<close>

definition read_json :: "host_fs \<Rightarrow> string \<Rightarrow> string + (string + json)" where
  "read_json fs p =
     (case dict_get (fs_files fs) p of
        None \<Rightarrow> Inr (Inl ''No such file or directory'')
      | Some (FileJson v) \<Rightarrow> Inr (Inr v)
      | Some (FileError e) \<Rightarrow> Inr (Inl e)
      | Some (NotUtf8 e) \<Rightarrow> Inl e)"

section \<open>The detectors\<close>

definition vscode_settings_paths :: "string list" where
  "vscode_settings_paths =
     [''~/.config/Code/User/settings.json'',
      ''~/.vscode-server/data/User/settings.json'',
      ''~/Library/Application Support/Code/User/settings.json'',
      ''~/.config/Code - Insiders/User/settings.json'',
      ''~/.vscode-server-insiders/data/User/settings.json'']"

definition vscode_mcp_paths :: "string list" where
  "vscode_mcp_paths =
     [''~/.config/Code/User/globalStorage/mcp.json'',
      ''~/.vscode-server/data/User/globalStorage/mcp.json'']"

text \<open>\<open>base_url\<close> is \<open>DEFAULT_BASE_URL\<close>.\<close>

definition is_indicated :: "string \<Rightarrow> string \<Rightarrow> bool" where
  "is_indicated base_url s = (py_in ''keyhole'' s \<or> py_in base_url s)"

definition is_keyhole_entry :: "(json \<Rightarrow> string) \<Rightarrow> string \<Rightarrow> string \<Rightarrow> json \<Rightarrow> bool" where
  "is_keyhole_entry fstr base_url name entry =
     (if is_indicated base_url (py_lower name) then True
      else
        (case entry of
           JObj d \<Rightarrow>
             is_indicated base_url (py_lower (fstr (dict_get_or d ''url'' (JStr [])))) \<or>
             is_indicated base_url (py_lower (fstr (dict_get_or d ''command'' (JStr []))))
         | _ \<Rightarrow> False))"

definition entry_dict :: "string \<Rightarrow> json \<Rightarrow> dict" where
  "entry_dict name entry = (case entry of JObj d \<Rightarrow> d | _ \<Rightarrow> [(''name'', JStr name)])"

fun find_entry :: "(string \<Rightarrow> json \<Rightarrow> bool) \<Rightarrow> dict \<Rightarrow> dict option" where
  "find_entry P [] = None"
| "find_entry P ((name, entry) # d) = (if P name entry then Some (entry_dict name entry) else find_entry P d)"

text \<open>\<open>VSCodeHostDetector._find_keyhole_entry\<close>: \<open>data.get\<close> raises on anything but an object.\<close>

fun find_under :: "(string \<Rightarrow> json \<Rightarrow> bool) \<Rightarrow> dict \<Rightarrow> string list \<Rightarrow> dict option" where
  "find_under P data [] = None"
| "find_under P data (k # ks) =
     (case json_get data k of
        JObj servers \<Rightarrow>
          (case find_entry P servers of None \<Rightarrow> find_under P data ks | Some e \<Rightarrow> Some e)
      | _ \<Rightarrow> find_under P data ks)"

definition vscode_find_entry ::
  "(json \<Rightarrow> string) \<Rightarrow> string \<Rightarrow> host_fs \<Rightarrow> string \<Rightarrow> string + dict option" where
  "vscode_find_entry fstr base_url fs p =
     (case read_json fs p of
        Inl e \<Rightarrow> Inl e
      | Inr (Inl e) \<Rightarrow> Inr None
      | Inr (Inr (JObj data)) \<Rightarrow>
          Inr (find_under (is_keyhole_entry fstr base_url) data [''mcp.servers'', ''mcpServers'', ''mcp''])
      | Inr (Inr v) \<Rightarrow> Inl ''object has no attribute get'')"

fun check_mcp_files ::
  "(json \<Rightarrow> string) \<Rightarrow> string \<Rightarrow> host_fs \<Rightarrow> string list \<Rightarrow> string + (string \<times> dict) option" where
  "check_mcp_files fstr base_url fs [] = Inr None"
| "check_mcp_files fstr base_url fs (raw # rest) =
     (let p = expanduser fs raw
      in if \<not> is_file fs p then check_mcp_files fstr base_url fs rest
         else
           (case read_json fs p of
              Inl e \<Rightarrow> Inl e
            | Inr (Inr (JObj data)) \<Rightarrow>
                (case dict_get_or data ''servers'' (JObj data) of
                   JObj servers \<Rightarrow>
                     (case find_entry (is_keyhole_entry fstr base_url) servers of
                        Some e \<Rightarrow> Inr (Some (p, e))
                      | None \<Rightarrow> check_mcp_files fstr base_url fs rest)
                 | _ \<Rightarrow> check_mcp_files fstr base_url fs rest)
            | Inr _ \<Rightarrow> check_mcp_files fstr base_url fs rest))"

definition token_key :: "string \<Rightarrow> bool" where
  "token_key k = (py_in ''token'' (py_lower k) \<or> py_in ''auth'' (py_lower k))"

definition detect_auth_mode :: "dict \<Rightarrow> string" where
  "detect_auth_mode entry =
     (if (case dict_get_or entry ''env'' (JObj []) of JObj d \<Rightarrow> (\<exists>k \<in> set (map fst d). token_key k) | _ \<Rightarrow> False)
      then ''env_bearer_token''
      else if (case dict_get_or entry ''headers'' (JObj []) of
                 JObj d \<Rightarrow> (\<exists>k \<in> set (map fst d). py_in ''authorization'' (py_lower k)) | _ \<Rightarrow> False)
      then ''header_token''
      else if json_truthy (json_get entry ''oauth'') \<or> json_truthy (json_get entry ''auth'')
      then ''oauth_session''
      else ''unknown'')"

fun principal_hint_of :: "(json \<Rightarrow> string) \<Rightarrow> dict \<Rightarrow> string" where
  "principal_hint_of fstr [] = []"
| "principal_hint_of fstr ((k, v) # d) =
     (if token_key k then
        (let s = fstr v
         in if starts_with ''${'' s \<or> starts_with ''$'' s then ''env:'' @ s
            else if py_in ''/'' s \<or> py_in [CHR 0x5C] s then ''file:'' @ s
            else ''env:'' @ k)
      else principal_hint_of fstr d)"

definition detect_principal_source :: "(json \<Rightarrow> string) \<Rightarrow> dict \<Rightarrow> string" where
  "detect_principal_source fstr entry =
     (case dict_get_or entry ''env'' (JObj []) of JObj d \<Rightarrow> principal_hint_of fstr d | _ \<Rightarrow> [])"

definition with_entry :: "(json \<Rightarrow> string) \<Rightarrow> dict \<Rightarrow> host_record \<Rightarrow> host_record" where
  "with_entry fstr entry h =
     h\<lparr>hr_keyhole_server_entry_detected := True,
       hr_server_url := dict_get_or entry ''url'' (JStr []),
       hr_auth_source_mode := detect_auth_mode entry,
       hr_configured_principal_source := JStr (detect_principal_source fstr entry)\<rparr>"

definition vscode_record :: host_record where
  "vscode_record =
     (blank_host ''vscode'')\<lparr>hr_host_type := IDE_MCP_CLIENT, hr_host_family := VSCODE,
        hr_display_name := ''Visual Studio Code'', hr_support_status := HOST_SUPPORTED,
        hr_reconnect_requirement := RELOAD_WINDOW\<rparr>"

definition vscode_detect :: "(json \<Rightarrow> string) \<Rightarrow> string \<Rightarrow> host_fs \<Rightarrow> string + host_record" where
  "vscode_detect fstr base_url fs =
     (case first_path (is_file fs) (map (expanduser fs) vscode_settings_paths) of
        None \<Rightarrow> Inr vscode_record
      | Some p \<Rightarrow>
          (let h = vscode_record\<lparr>hr_detected := True, hr_config_detected := True, hr_config_path := p\<rparr>
           in case vscode_find_entry fstr base_url fs p of
                Inl e \<Rightarrow> Inl e
              | Inr (Some entry) \<Rightarrow> Inr (with_entry fstr entry h)
              | Inr None \<Rightarrow>
                  (case check_mcp_files fstr base_url fs vscode_mcp_paths of
                     Inl e \<Rightarrow> Inl e
                   | Inr None \<Rightarrow> Inr h
                   | Inr (Some (mp, entry)) \<Rightarrow> Inr (with_entry fstr entry (h\<lparr>hr_config_path := mp\<rparr>)))))"

text \<open>JetBrains and Cloud Code.\<close>

definition jetbrains_config_dirs :: "string list" where
  "jetbrains_config_dirs =
     [''~/.config/JetBrains/IntelliJIdea*/'', ''~/.config/JetBrains/PyCharm*/'',
      ''~/.config/JetBrains/WebStorm*/'', ''~/.config/JetBrains/GoLand*/'', ''~/.config/JetBrains/*/'']"

fun find_config_dir :: "host_fs \<Rightarrow> string list \<Rightarrow> string option" where
  "find_config_dir fs [] = None"
| "find_config_dir fs (pat # pats) =
     (case first_path (fs_is_dir fs)
             (map (py_rstrip_char (CHR ''/'')) (rev (sort (fs_glob fs (expanduser fs pat))))) of
        Some d \<Rightarrow> Some d
      | None \<Rightarrow> find_config_dir fs pats)"

definition servers_of :: "dict \<Rightarrow> json" where
  "servers_of data = dict_get_or data ''mcpServers'' (dict_get_or data ''servers'' (JObj data))"

definition jetbrains_entry :: "(json \<Rightarrow> string) \<Rightarrow> string \<Rightarrow> string \<Rightarrow> json \<Rightarrow> bool" where
  "jetbrains_entry fstr base_url name entry =
     (is_indicated base_url (py_lower name) \<or>
      (case entry of
         JObj d \<Rightarrow> is_indicated base_url (py_lower (fstr (dict_get_or d ''url'' (JStr []))))
       | _ \<Rightarrow> False))"

definition cloud_code_entry :: "string \<Rightarrow> string \<Rightarrow> json \<Rightarrow> bool" where
  "cloud_code_entry base_url name entry = is_indicated base_url (py_lower name)"

definition mcp_file_entry ::
  "(string \<Rightarrow> json \<Rightarrow> bool) \<Rightarrow> host_fs \<Rightarrow> string \<Rightarrow> string + dict option" where
  "mcp_file_entry P fs p =
     (case read_json fs p of
        Inl e \<Rightarrow> Inl e
      | Inr (Inr (JObj data)) \<Rightarrow>
          (case servers_of data of JObj servers \<Rightarrow> Inr (find_entry P servers) | _ \<Rightarrow> Inr None)
      | Inr _ \<Rightarrow> Inr None)"

definition add_url :: "dict option \<Rightarrow> host_record \<Rightarrow> host_record" where
  "add_url entry h =
     (case entry of
        None \<Rightarrow> h
      | Some e \<Rightarrow> h\<lparr>hr_keyhole_server_entry_detected := True,
                   hr_server_url := dict_get_or e ''url'' (JStr [])\<rparr>)"

definition jetbrains_record :: host_record where
  "jetbrains_record =
     (blank_host ''jetbrains'')\<lparr>hr_host_type := IDE_MCP_CLIENT, hr_host_family := JETBRAINS,
        hr_display_name := ''JetBrains IDE'', hr_support_status := HOST_PARTIAL,
        hr_reconnect_requirement := RESTART_IDE\<rparr>"

definition jetbrains_detect :: "(json \<Rightarrow> string) \<Rightarrow> string \<Rightarrow> host_fs \<Rightarrow> string + host_record" where
  "jetbrains_detect fstr base_url fs =
     (case find_config_dir fs jetbrains_config_dirs of
        None \<Rightarrow> Inr jetbrains_record
      | Some d \<Rightarrow>
          (let h = jetbrains_record\<lparr>hr_detected := True, hr_config_detected := True, hr_config_path := d\<rparr>;
               f = path_join d ''mcp.json''
           in if \<not> is_file fs f then Inr h
              else (case mcp_file_entry (jetbrains_entry fstr base_url) fs f of
                      Inl e \<Rightarrow> Inl e
                    | Inr entry \<Rightarrow> Inr (add_url entry h))))"

definition cloud_code_config_paths :: "string list" where
  "cloud_code_config_paths =
     [''~/.config/cloud-code/mcp.json'', ''~/.config/google-cloud-tools-java/mcp.json'']"

definition cloud_code_record :: host_record where
  "cloud_code_record =
     (blank_host ''cloud_code'')\<lparr>hr_host_type := IDE_MCP_CLIENT, hr_host_family := CLOUD_CODE,
        hr_display_name := ''Cloud Code'', hr_support_status := HOST_PARTIAL,
        hr_reconnect_requirement := MANUAL\<rparr>"

definition cloud_code_detect :: "string \<Rightarrow> host_fs \<Rightarrow> string + host_record" where
  "cloud_code_detect base_url fs =
     (case first_path (is_file fs) (map (expanduser fs) cloud_code_config_paths) of
        None \<Rightarrow> Inr cloud_code_record
      | Some p \<Rightarrow>
          (let h = cloud_code_record\<lparr>hr_detected := True, hr_config_detected := True, hr_config_path := p\<rparr>
           in case mcp_file_entry (cloud_code_entry base_url) fs p of
                Inl e \<Rightarrow> Inl e
              | Inr entry \<Rightarrow> Inr (add_url entry h)))"

text \<open>The credential file of the SDK.\<close>

definition credential_path :: "host_fs \<Rightarrow> string" where
  "credential_path fs =
     (if opt_truthy (fs_keyhole_home fs) then path_join (the (fs_keyhole_home fs)) ''credentials.json''
      else path_join (path_join (fs_home fs) ''.keyhole'') ''credentials.json'')"

definition extract_principal :: "host_fs \<Rightarrow> string \<Rightarrow> string + json" where
  "extract_principal fs p =
     (case read_json fs p of
        Inl e \<Rightarrow> Inl e
      | Inr (Inr (JObj d)) \<Rightarrow> Inr (dict_get_or d ''user_id'' (JStr []))
      | Inr _ \<Rightarrow> Inr (JStr []))"

definition sdk_record :: host_record where
  "sdk_record =
     (blank_host ''sdk_local'')\<lparr>hr_host_type := SDK_RUNTIME, hr_host_family := SDK_LOCAL,
        hr_display_name := ''Keyhole SDK (local credentials)'', hr_detected := True,
        hr_support_status := HOST_SUPPORTED, hr_reconnect_requirement := RECONNECT_NONE\<rparr>"

definition sdk_detect :: "host_fs \<Rightarrow> string + host_record" where
  "sdk_detect fs =
     (let p = credential_path fs
      in if is_file fs p then
           (case extract_principal fs p of
              Inl e \<Rightarrow> Inl e
            | Inr v \<Rightarrow> Inr (sdk_record\<lparr>hr_config_detected := True, hr_config_path := p,
                             hr_local_auth_hints_present := True, hr_configured_principal_source := v\<rparr>))
         else Inr (sdk_record\<lparr>hr_config_detected := False\<rparr>))"

text \<open>
  \<open>detect_hosts\<close>: a detector is its class name and its outcome; an exception becomes an
  unsupported host.
\<close>

definition unsupported_record :: "string \<Rightarrow> host_record" where
  "unsupported_record cls =
     (blank_host cls)\<lparr>hr_display_name := ''Unknown ('' @ cls @ '')'', hr_detected := False,
        hr_diagnosis := UNSUPPORTED_HOST, hr_support_status := HOST_UNSUPPORTED\<rparr>"

fun detect_hosts :: "(string \<times> (string + host_record option)) list \<Rightarrow> host_record list" where
  "detect_hosts [] = []"
| "detect_hosts ((cls, outcome) # ds) =
     (case outcome of
        Inl e \<Rightarrow> unsupported_record cls # detect_hosts ds
      | Inr None \<Rightarrow> detect_hosts ds
      | Inr (Some h) \<Rightarrow> h # detect_hosts ds)"

definition default_detectors ::
  "(json \<Rightarrow> string) \<Rightarrow> string \<Rightarrow> host_fs \<Rightarrow> (string \<times> (string + host_record option)) list" where
  "default_detectors fstr base_url fs =
     [(''VSCodeHostDetector'', map_sum id Some (vscode_detect fstr base_url fs)),
      (''JetBrainsHostDetector'', map_sum id Some (jetbrains_detect fstr base_url fs)),
      (''CloudCodeHostDetector'', map_sum id Some (cloud_code_detect base_url fs)),
      (''SDKCredentialDetector'', map_sum id Some (sdk_detect fs))]"

section \<open>The installers\<close>

record install_result =
  ir_host_family :: host_family
  ir_success :: bool
  ir_config_path :: string
  ir_action_taken :: string
  ir_reconnect_requirement :: reconnect_requirement
  ir_previous_entry_existed :: bool
  ir_previous_url :: json
  ir_error :: string
  ir_warnings :: "string list"

definition install_failed :: "host_family \<Rightarrow> string \<Rightarrow> install_result" where
  "install_failed family err =
     \<lparr>ir_host_family = family, ir_success = False, ir_config_path = [], ir_action_taken = [],
      ir_reconnect_requirement = RECONNECT_NONE, ir_previous_entry_existed = False,
      ir_previous_url = JStr [], ir_error = err, ir_warnings = []\<rparr>"

definition vscode_settings_candidates :: "string list" where
  "vscode_settings_candidates =
     [''~/.vscode-server/data/User/settings.json'',
      ''~/.config/Code/User/settings.json'',
      ''~/Library/Application Support/Code/User/settings.json'',
      ''~/.config/Code - Insiders/User/settings.json'',
      ''~/.vscode-server-insiders/data/User/settings.json'']"

definition find_vscode_settings :: "host_fs \<Rightarrow> string option" where
  "find_vscode_settings fs =
     (case first_path (is_file fs) (map (expanduser fs) vscode_settings_candidates) of
        Some p \<Rightarrow> Some p
      | None \<Rightarrow> first_path (\<lambda>p. fs_is_dir fs (path_parent p)) (map (expanduser fs) vscode_settings_candidates))"

definition token_reference :: dict where
  "token_reference = [(''KEYHOLE_MCP_TOKEN'', JStr ''${env:KEYHOLE_MCP_TOKEN}'')]"

definition boundary_url :: "string \<Rightarrow> string" where
  "boundary_url mcp_url = py_rstrip_char (CHR ''/'') mcp_url @ ''/mcp/v1''"

definition build_keyhole_server_entry :: "string \<Rightarrow> dict" where
  "build_keyhole_server_entry mcp_url =
     [(''type'', JStr ''sse''), (''url'', JStr (boundary_url mcp_url)), (''env'', JObj token_reference)]"

definition build_jetbrains_entry :: "string \<Rightarrow> dict" where
  "build_jetbrains_entry mcp_url = [(''url'', JStr (boundary_url mcp_url)), (''env'', JObj token_reference)]"

text \<open>
  What both installers do with the settings they have read: refuse, keep the entry that is
  there, or give the new settings with the entry. A stored \<open>null\<close> counts as no entry.
\<close>

datatype merge = MergeRefused string | MergeKept json | MergeWrite bool json dict

definition previous_url :: "json \<Rightarrow> json" where
  "previous_url existing = (case existing of JObj d \<Rightarrow> dict_get_or d ''url'' (JStr []) | _ \<Rightarrow> JStr [])"

definition merge_server ::
  "string \<Rightarrow> string \<Rightarrow> string \<Rightarrow> dict \<Rightarrow> bool \<Rightarrow> json \<Rightarrow> merge" where
  "merge_server file key server_name entry force settings =
     (case settings of
        JObj data \<Rightarrow>
          (case dict_get_or data key (JObj []) of
             JObj servers \<Rightarrow>
               (let existing = json_get servers server_name;
                    data' = dict_set key (JObj (dict_set server_name (JObj entry) servers)) data
                in if existing \<noteq> JNull \<and> \<not> force then MergeKept (previous_url existing)
                   else MergeWrite (existing \<noteq> JNull) (previous_url existing) data')
           | _ \<Rightarrow> MergeRefused (quoted key @ '' exists but is not a JSON object.''))
      | _ \<Rightarrow> MergeRefused (file @ '' is not a JSON object.''))"

definition kept_warning :: "string \<Rightarrow> string" where
  "kept_warning server_name =
     ''Existing '' @ quoted server_name @ '' entry preserved. Use --force to overwrite.''"

definition read_settings :: "host_fs \<Rightarrow> string \<Rightarrow> string + (string + json)" where
  "read_settings fs p = (if is_file fs p then read_json fs p else Inr (Inr (JObj [])))"

definition backup_settings :: "string \<Rightarrow> host_fs \<Rightarrow> string list \<times> host_fs" where
  "backup_settings p fs =
     (case dict_get (fs_files fs) p of
        None \<Rightarrow> ([], fs)
      | Some c \<Rightarrow>
          if fs_copy_fails fs p then ([''Could not create backup of settings.json.''], fs)
          else ([], put_file (p @ ''.keyhole-backup'') c fs))"

text \<open>An exception that leaves the installer is the left side.\<close>

definition install_vscode ::
  "string \<Rightarrow> string \<Rightarrow> bool \<Rightarrow> host_fs \<Rightarrow> (string + install_result) \<times> host_fs" where
  "install_vscode mcp_url server_name force fs =
     (case find_vscode_settings fs of
        None \<Rightarrow> (Inr (install_failed VSCODE ''No VS Code settings directory found.''), fs)
      | Some p \<Rightarrow>
          (let r = (install_failed VSCODE [])\<lparr>ir_config_path := p, ir_reconnect_requirement := RELOAD_WINDOW\<rparr>
           in case read_settings fs p of
                Inl e \<Rightarrow> (Inl e, fs)
              | Inr (Inl e) \<Rightarrow> (Inr (r\<lparr>ir_error := ''Cannot parse settings: '' @ e\<rparr>), fs)
              | Inr (Inr settings) \<Rightarrow>
                  (case merge_server ''settings.json'' ''mcp.servers'' server_name
                          (build_keyhole_server_entry mcp_url) force settings of
                     MergeRefused e \<Rightarrow> (Inr (r\<lparr>ir_error := e\<rparr>), fs)
                   | MergeKept url \<Rightarrow>
                       (Inr (r\<lparr>ir_previous_entry_existed := True, ir_previous_url := url,
                               ir_action_taken := ''skipped'', ir_success := True,
                               ir_warnings := [kept_warning server_name]\<rparr>), fs)
                   | MergeWrite existed url data \<Rightarrow>
                       (let (warnings, fs1) = backup_settings p fs;
                            r1 = r\<lparr>ir_previous_entry_existed := existed, ir_previous_url := url,
                                   ir_warnings := warnings\<rparr>
                        in case fs_write_error fs p of
                             Some (e, left) \<Rightarrow>
                               (Inr (r1\<lparr>ir_error := ''Failed to write settings: '' @ e\<rparr>), leave_file p left fs1)
                           | None \<Rightarrow>
                               (Inr (r1\<lparr>ir_success := True,
                                        ir_action_taken := (if existed then ''updated'' else ''created'')\<rparr>),
                                put_file p (FileJson (JObj data)) fs1)))))"

definition jetbrains_patterns :: "string list" where
  "jetbrains_patterns =
     [''~/.config/JetBrains/IntelliJIdea*/'', ''~/.config/JetBrains/PyCharm*/'',
      ''~/.config/JetBrains/WebStorm*/'', ''~/.config/JetBrains/GoLand*/'']"

definition install_jetbrains ::
  "string \<Rightarrow> string \<Rightarrow> bool \<Rightarrow> host_fs \<Rightarrow> (string + install_result) \<times> host_fs" where
  "install_jetbrains mcp_url server_name force fs =
     (case find_config_dir fs jetbrains_patterns of
        None \<Rightarrow> (Inr (install_failed JETBRAINS ''No JetBrains config directory found.''), fs)
      | Some d \<Rightarrow>
          (let p = path_join d ''mcp.json'';
               r = (install_failed JETBRAINS [])\<lparr>ir_config_path := p, ir_reconnect_requirement := RESTART_IDE\<rparr>
           in case read_settings fs p of
                Inl e \<Rightarrow> (Inl e, fs)
              | Inr (Inl e) \<Rightarrow> (Inr (r\<lparr>ir_error := ''Cannot parse mcp.json: '' @ e\<rparr>), fs)
              | Inr (Inr settings) \<Rightarrow>
                  (case merge_server ''mcp.json'' ''mcpServers'' server_name
                          (build_jetbrains_entry mcp_url) force settings of
                     MergeRefused e \<Rightarrow> (Inr (r\<lparr>ir_error := e\<rparr>), fs)
                   | MergeKept url \<Rightarrow>
                       (Inr (r\<lparr>ir_previous_entry_existed := True, ir_previous_url := url,
                               ir_action_taken := ''skipped'', ir_success := True,
                               ir_warnings := [kept_warning server_name]\<rparr>), fs)
                   | MergeWrite existed url data \<Rightarrow>
                       (let r1 = r\<lparr>ir_previous_entry_existed := existed, ir_previous_url := url\<rparr>
                        in case fs_write_error fs p of
                             Some (e, left) \<Rightarrow>
                               (Inr (r1\<lparr>ir_error := ''Failed to write mcp.json: '' @ e\<rparr>), leave_file p left fs)
                           | None \<Rightarrow>
                               (Inr (r1\<lparr>ir_success := True,
                                        ir_action_taken := (if existed then ''updated'' else ''created'')\<rparr>),
                                put_file p (FileJson (JObj data)) fs)))))"

definition install_host_credentials ::
  "host_family \<Rightarrow> string \<Rightarrow> string \<Rightarrow> bool \<Rightarrow> host_fs \<Rightarrow> (string + install_result) \<times> host_fs" where
  "install_host_credentials family mcp_url server_name force fs =
     (case family of
        VSCODE \<Rightarrow> install_vscode mcp_url server_name force fs
      | JETBRAINS \<Rightarrow> install_jetbrains mcp_url server_name force fs
      | _ \<Rightarrow> (Inr (install_failed family
              (''No installer available for host family '' @ quoted (host_family_value family) @ ''.'')), fs))"

end
