(* ===== verification/Model_Fields.thy ===== *)
theory Model_Fields
  imports Text_Ops "HOL-Library.Monad_Syntax"
begin

text \<open>
  Fields of a model built by pydantic from a dictionary: a string that is required or has a
  default, an optional string, a list of strings, an optional dictionary and a JSON object as a
  whole. \<open>None\<close> is a validation error. Numbers, booleans and dates, which pydantic converts,
  are left to the models that have them.
\<close>

definition str_field :: "dict \<Rightarrow> string \<Rightarrow> string option \<Rightarrow> string option" where
  "str_field d k dflt =
     (case dict_get d k of
        None \<Rightarrow> dflt
      | Some (JStr s) \<Rightarrow> Some s
      | Some _ \<Rightarrow> None)"

fun opt_str_value :: "json \<Rightarrow> string option option" where
  "opt_str_value JNull = Some None"
| "opt_str_value (JStr s) = Some (Some s)"
| "opt_str_value _ = None"

definition opt_str_field :: "dict \<Rightarrow> string \<Rightarrow> string option option" where
  "opt_str_field d k =
     (case dict_get d k of None \<Rightarrow> Some None | Some v \<Rightarrow> opt_str_value v)"

fun all_str_values :: "json list \<Rightarrow> string list option" where
  "all_str_values [] = Some []"
| "all_str_values (JStr s # vs) = map_option ((#) s) (all_str_values vs)"
| "all_str_values (_ # vs) = None"

fun str_list_value :: "json \<Rightarrow> string list option" where
  "str_list_value (JList vs) = all_str_values vs"
| "str_list_value _ = None"

definition str_list_field :: "dict \<Rightarrow> string \<Rightarrow> string list option" where
  "str_list_field d k =
     (case dict_get d k of None \<Rightarrow> Some [] | Some v \<Rightarrow> str_list_value v)"

definition opt_dict_field :: "dict \<Rightarrow> string \<Rightarrow> dict option option" where
  "opt_dict_field d k =
     (case dict_get d k of
        None \<Rightarrow> Some None
      | Some JNull \<Rightarrow> Some None
      | Some (JObj e) \<Rightarrow> Some (Some e)
      | Some _ \<Rightarrow> None)"

text \<open>A string or \<open>None\<close> as a JSON value, as \<open>model_dump\<close> writes it.\<close>

definition opt_str_json :: "string option \<Rightarrow> json" where
  "opt_str_json v = (case v of None \<Rightarrow> JNull | Some s \<Rightarrow> JStr s)"

lemma opt_str_value_json [simp]: "opt_str_value (opt_str_json v) = Some v"
  by (cases v) (simp_all add: opt_str_json_def)

lemma all_str_values_map [simp]: "all_str_values (map JStr xs) = Some xs"
  by (induction xs) simp_all

end
