(* ===== verification/Host_Attestations.thy ===== *)
theory Host_Attestations
  imports Host_Models Model_Fields "HOL-Library.List_Lexorder" "HOL-Library.Char_ord"
begin

text \<open>
  The local store of host attestations, the identity policy override and the principal hint
  (\<open>host/attestation_store.py\<close>) under the Keyhole home. A directory is an association list
  from file names to JSON values, \<open>None\<close> for a file that cannot be read as JSON. Every
  write is a rename of a complete temporary file, so it happens as a whole or, when an
  operation of the system up to the rename fails, not at all and raises.
\<close>

record keyhole_home =
  kh_attestations :: "(string \<times> json option) list option"
  kh_policy :: "json option option"
  kh_hint :: "json option option"

section \<open>Serialisation\<close>

fun confidence_value :: "attestation_confidence \<Rightarrow> string" where
  "confidence_value CONFIRMED = ''confirmed''"
| "confidence_value PROBABLE = ''probable''"
| "confidence_value CONFIDENCE_UNKNOWN = ''unknown''"

definition confidence_of :: "string \<Rightarrow> attestation_confidence option" where
  "confidence_of s =
     map_of [(''confirmed'', CONFIRMED), (''probable'', PROBABLE), (''unknown'', CONFIDENCE_UNKNOWN)] s"

definition attestation_to_dict :: "attestation \<Rightarrow> dict" where
  "attestation_to_dict a =
     [(''schema_version'', JStr (at_schema_version a)),
      (''host_kind'', JStr (at_host_kind a)),
      (''host_display_name'', JStr (at_host_display_name a)),
      (''integration_name'', JStr (at_integration_name a)),
      (''server_url'', JStr (at_server_url a)),
      (''realm'', JStr (at_realm a)),
      (''effective_principal'', JStr (at_effective_principal a)),
      (''effective_subject'', JStr (at_effective_subject a)),
      (''proof_method'', JStr (at_proof_method a)),
      (''confidence'', JStr (confidence_value (at_confidence a))),
      (''observed_at'', JStr (at_observed_at a)),
      (''expires_at'', JStr (at_expires_at a)),
      (''machine_scope'', JStr (at_machine_scope a)),
      (''workspace_scope'', opt_str_json (at_workspace_scope a)),
      (''correlation_id'', JStr (at_correlation_id a)),
      (''notes'', JStr (at_notes a)),
      (''tool_version'', JStr (at_tool_version a))]"

definition confidence_field :: "dict \<Rightarrow> attestation_confidence option" where
  "confidence_field d =
     (case dict_get d ''confidence'' of
        None \<Rightarrow> Some CONFIRMED
      | Some (JStr s) \<Rightarrow> confidence_of s
      | Some _ \<Rightarrow> None)"

definition attestation_of_dict :: "dict \<Rightarrow> attestation option" where
  "attestation_of_dict d =
     do {
       schema_version \<leftarrow> str_field d ''schema_version'' (Some ''1'');
       host_kind \<leftarrow> str_field d ''host_kind'' None;
       host_display_name \<leftarrow> str_field d ''host_display_name'' (Some []);
       integration_name \<leftarrow> str_field d ''integration_name'' (Some ''keyhole'');
       server_url \<leftarrow> str_field d ''server_url'' (Some []);
       realm \<leftarrow> str_field d ''realm'' (Some []);
       effective_principal \<leftarrow> str_field d ''effective_principal'' None;
       effective_subject \<leftarrow> str_field d ''effective_subject'' (Some []);
       proof_method \<leftarrow> str_field d ''proof_method'' (Some ''live_whoami'');
       confidence \<leftarrow> confidence_field d;
       observed_at \<leftarrow> str_field d ''observed_at'' None;
       expires_at \<leftarrow> str_field d ''expires_at'' None;
       machine_scope \<leftarrow> str_field d ''machine_scope'' (Some []);
       workspace_scope \<leftarrow> opt_str_field d ''workspace_scope'';
       correlation_id \<leftarrow> str_field d ''correlation_id'' (Some []);
       notes \<leftarrow> str_field d ''notes'' (Some []);
       tool_version \<leftarrow> str_field d ''tool_version'' (Some []);
       Some \<lparr>at_schema_version = schema_version, at_host_kind = host_kind,
             at_host_display_name = host_display_name, at_integration_name = integration_name,
             at_server_url = server_url, at_realm = realm,
             at_effective_principal = effective_principal, at_effective_subject = effective_subject,
             at_proof_method = proof_method, at_confidence = confidence,
             at_observed_at = observed_at, at_expires_at = expires_at,
             at_machine_scope = machine_scope, at_workspace_scope = workspace_scope,
             at_correlation_id = correlation_id, at_notes = notes, at_tool_version = tool_version\<rparr>
     }"

definition attestation_of_json :: "json \<Rightarrow> attestation option" where
  "attestation_of_json v = (case v of JObj d \<Rightarrow> attestation_of_dict d | _ \<Rightarrow> None)"

definition override_to_dict :: "identity_override \<Rightarrow> dict" where
  "override_to_dict ov =
     [(''override_type'', JStr (io_override_type ov)),
      (''created_at'', JStr (io_created_at ov)),
      (''target_principal'', JStr (io_target_principal ov)),
      (''conflicting_host_principal'', JStr (io_conflicting_host_principal ov)),
      (''host_kind'', JStr (io_host_kind ov)),
      (''reason'', JStr (io_reason ov)),
      (''expiry'', opt_str_json (io_expiry ov))]"

definition override_of_json :: "json \<Rightarrow> identity_override option" where
  "override_of_json v =
     (case v of
        JObj d \<Rightarrow>
          do {
            override_type \<leftarrow> str_field d ''override_type'' (Some ''allow_split_identity'');
            created_at \<leftarrow> str_field d ''created_at'' None;
            target_principal \<leftarrow> str_field d ''target_principal'' None;
            conflicting \<leftarrow> str_field d ''conflicting_host_principal'' None;
            host_kind \<leftarrow> str_field d ''host_kind'' None;
            reason \<leftarrow> str_field d ''reason'' (Some []);
            expiry \<leftarrow> opt_str_field d ''expiry'';
            Some \<lparr>io_override_type = override_type, io_created_at = created_at,
                  io_target_principal = target_principal,
                  io_conflicting_host_principal = conflicting, io_host_kind = host_kind,
                  io_reason = reason, io_expiry = expiry\<rparr>
          }
      | _ \<Rightarrow> None)"

section \<open>The store\<close>

definition safe_component :: "string \<Rightarrow> string" where
  "safe_component s = py_replace ''..'' ''_'' (py_replace [CHR 0x5C] ''_'' (py_replace ''/'' ''_'' s))"

definition attestation_filename :: "attestation \<Rightarrow> string" where
  "attestation_filename a =
     safe_component (str_or (at_host_kind a) ''unknown'') @ ''__'' @
     safe_component (str_or (at_integration_name a) ''keyhole'') @ ''__'' @
     safe_component (str_or (at_machine_scope a) ''default'') @ ''.json''"

text \<open>\<open>io_error\<close> is the exception of a file operation, if one fails.\<close>

definition write_attestation ::
  "string option \<Rightarrow> attestation \<Rightarrow> keyhole_home \<Rightarrow> (string + string) \<times> keyhole_home" where
  "write_attestation io_error a home =
     (let files = (case kh_attestations home of None \<Rightarrow> [] | Some fs \<Rightarrow> fs);
          name = attestation_filename a
      in case io_error of
           Some e \<Rightarrow> (Inl e, home\<lparr>kh_attestations := Some files\<rparr>)
         | None \<Rightarrow>
             (Inr name,
              home\<lparr>kh_attestations := Some (dict_set name (Some (JObj (attestation_to_dict a))) files)\<rparr>))"

definition load_file :: "string \<times> json option \<Rightarrow> attestation list" where
  "load_file f =
     (if ends_with ''.json'' (fst f) then
        (case snd f of
           None \<Rightarrow> []
         | Some v \<Rightarrow> (case attestation_of_json v of None \<Rightarrow> [] | Some a \<Rightarrow> [a]))
      else [])"

definition load_attestations :: "keyhole_home \<Rightarrow> attestation list" where
  "load_attestations home =
     (case kh_attestations home of
        None \<Rightarrow> []
      | Some files \<Rightarrow> concat (map load_file (sort_key fst files)))"

definition load_identity_policy :: "keyhole_home \<Rightarrow> identity_override option" where
  "load_identity_policy home =
     (case kh_policy home of Some (Some v) \<Rightarrow> override_of_json v | _ \<Rightarrow> None)"

definition save_identity_policy ::
  "string option \<Rightarrow> identity_override \<Rightarrow> keyhole_home \<Rightarrow> string option \<times> keyhole_home" where
  "save_identity_policy io_error ov home =
     (case io_error of
        Some e \<Rightarrow> (Some e, home)
      | None \<Rightarrow> (None, home\<lparr>kh_policy := Some (Some (JObj (override_to_dict ov)))\<rparr>))"

definition clear_identity_policy :: "keyhole_home \<Rightarrow> bool \<times> keyhole_home" where
  "clear_identity_policy home =
     (if kh_policy home = None then (False, home) else (True, home\<lparr>kh_policy := None\<rparr>))"

definition save_principal_hint ::
  "string option \<Rightarrow> string \<Rightarrow> string \<Rightarrow> string \<Rightarrow> keyhole_home \<Rightarrow> string option \<times> keyhole_home" where
  "save_principal_hint io_error cli_principal user_id realm home =
     (case io_error of
        Some e \<Rightarrow> (Some e, home)
      | None \<Rightarrow>
          (None, home\<lparr>kh_hint := Some (Some (JObj
             [(''principal'', JStr cli_principal), (''user_id'', JStr user_id), (''realm'', JStr realm)]))\<rparr>))"

definition load_principal_hint :: "keyhole_home \<Rightarrow> json" where
  "load_principal_hint home =
     (case kh_hint home of
        Some (Some (JObj d)) \<Rightarrow> dict_get_or d ''principal'' (JStr [])
      | _ \<Rightarrow> JStr [])"

section \<open>Facts\<close>

lemma confidence_of_value [simp]: "confidence_of (confidence_value c) = Some c"
  by (cases c) (simp_all add: confidence_of_def)

lemma attestation_roundtrip [simp]: "attestation_of_dict (attestation_to_dict a) = Some a"
  by (simp add: attestation_of_dict_def attestation_to_dict_def str_field_def opt_str_field_def
      confidence_field_def dict_get_Cons)

lemma override_roundtrip [simp]: "override_of_json (JObj (override_to_dict ov)) = Some ov"
  by (simp add: override_of_json_def override_to_dict_def str_field_def opt_str_field_def dict_get_Cons)

end
