(* ===== verification/Host_Properties.thy ===== *)
theory Host_Properties
  imports Host_Identity Host_Config Host_Attestations "HOL-Library.Multiset"
begin

text \<open>
  Host inspection: the two classifications agree, the coherence verdict is exactly what the
  attestations say, attestations survive the store, the installers touch one entry only and
  what they write is detected, and what the doctor can report.
\<close>

section \<open>Classification of attestations\<close>

definition conflicts :: "(string \<Rightarrow> iso_time option) \<Rightarrow> iso_time \<Rightarrow> string \<Rightarrow> attestation \<Rightarrow> bool" where
  "conflicts fromiso now p a =
     (is_fresh fromiso now a \<and> at_confidence a = CONFIRMED \<and> \<not> principals_match (at_effective_principal a) p)"

definition confirms :: "(string \<Rightarrow> iso_time option) \<Rightarrow> iso_time \<Rightarrow> string \<Rightarrow> attestation \<Rightarrow> bool" where
  "confirms fromiso now p a =
     (is_fresh fromiso now a \<and> at_confidence a = CONFIRMED \<and> principals_match (at_effective_principal a) p)"

definition override_allows :: "(string \<Rightarrow> iso_time option) \<Rightarrow> iso_time \<Rightarrow> identity_override option \<Rightarrow> bool" where
  "override_allows fromiso now v = (case v of None \<Rightarrow> False | Some ov \<Rightarrow> \<not> is_expired fromiso now ov)"

lemma sort_attestations_filter:
  "sort_attestations fromiso now p as acc =
     acc\<lparr>as_matching := as_matching acc @ filter (confirms fromiso now p) as,
         as_conflicting := as_conflicting acc @ filter (conflicts fromiso now p) as,
         as_stale := as_stale acc @ filter (\<lambda>a. \<not> is_fresh fromiso now a) as,
         as_unknown := as_unknown acc @
           filter (\<lambda>a. is_fresh fromiso now a \<and> at_confidence a \<noteq> CONFIRMED) as\<rparr>"
  by (induction as arbitrary: acc) (simp_all add: confirms_def conflicts_def)

lemma sort_attestations_empty:
  "sort_attestations fromiso now p as empty_sort =
     \<lparr>as_matching = filter (confirms fromiso now p) as,
      as_conflicting = filter (conflicts fromiso now p) as,
      as_stale = filter (\<lambda>a. \<not> is_fresh fromiso now a) as,
      as_unknown = filter (\<lambda>a. is_fresh fromiso now a \<and> at_confidence a \<noteq> CONFIRMED) as\<rparr>"
  by (simp add: sort_attestations_filter empty_sort_def)

text \<open>The verdict, by cases in the order of the code.\<close>

lemma classify_coherence_verdict:
  "co_verdict (classify_coherence fromiso now p as v) =
     (if p = [] \<or> as = [] then WARNING_NO_HOST_ATTESTATION
      else if \<exists>a \<in> set as. conflicts fromiso now p a then
        (if override_allows fromiso now v then ACCEPT_INTENTIONAL_SPLIT else REJECT_HOST_CONFLICT)
      else if \<exists>a \<in> set as. confirms fromiso now p a then ACCEPT_MATCH
      else if \<exists>a \<in> set as. \<not> is_fresh fromiso now a then WARNING_STALE_HOST_ATTESTATION
      else WARNING_UNKNOWN_HOST_IDENTITY)"
  by (simp add: classify_coherence_def sort_attestations_empty Let_def coherence_of_def
      filter_empty_conv override_allows_def)

lemma four_way_partition:
  "mset (filter (confirms fromiso now p) as) + mset (filter (conflicts fromiso now p) as) +
     mset (filter (\<lambda>a. \<not> is_fresh fromiso now a) as) +
     mset (filter (\<lambda>a. is_fresh fromiso now a \<and> at_confidence a \<noteq> CONFIRMED) as) = mset as"
  by (induction as) (auto simp: confirms_def conflicts_def)

lemma filter_none: "\<not> (\<exists>a \<in> set as. P a) \<Longrightarrow> filter P as = []"
  by (simp add: filter_empty_conv)

lemma classify_coherence_lists:
  assumes "p \<noteq> []" "as \<noteq> []"
  shows "mset (co_matching (classify_coherence fromiso now p as v)) +
         mset (co_conflicting (classify_coherence fromiso now p as v)) +
         mset (co_stale (classify_coherence fromiso now p as v)) +
         mset (co_unknown (classify_coherence fromiso now p as v)) = mset as"
proof -
  obtain m c s u where srt: "sort_attestations fromiso now p as empty_sort =
      \<lparr>as_matching = m, as_conflicting = c, as_stale = s, as_unknown = u\<rparr>"
    and parts: "mset m + mset c + mset s + mset u = mset as"
    using four_way_partition sort_attestations_empty by blast
  show ?thesis
    using assms parts
    by (cases "c = []"; cases "m = []"; cases "s = []")
      (simp_all add: classify_coherence_def srt Let_def coherence_of_def add_ac)
qed

section \<open>Diagnosis and report\<close>

lemma enrich_host_keeps [simp]:
  "hr_detected (enrich_host user t h) = hr_detected h"
  "hr_config_detected (enrich_host user t h) = hr_config_detected h"
  "hr_keyhole_server_entry_detected (enrich_host user t h) = hr_keyhole_server_entry_detected h"
  "hr_host_id (enrich_host user t h) = hr_host_id h"
  by (simp_all add: enrich_host_def Let_def)

lemma classify_stale_only:
  "classify_host_diagnosis user h s = STALE_HOST_AUTH \<Longrightarrow>
     hr_staleness_state h = STALE_CONFIRMED \<and> hr_server_principal_user_id h = JStr user"
  by (simp add: classify_host_diagnosis_def split: if_splits)

lemma enrich_never_stale_match:
  "hr_staleness_state h \<noteq> STALE_CONFIRMED \<Longrightarrow>
     \<not> (hr_staleness_state (enrich_host user t h) = STALE_CONFIRMED \<and>
        hr_server_principal_user_id (enrich_host user t h) = JStr user)"
  by (simp add: enrich_host_def Let_def)

lemma reconcile_host_not_stale:
  assumes "hr_staleness_state h \<noteq> STALE_CONFIRMED" "hr_diagnosis h \<noteq> STALE_HOST_AUTH"
  shows "hr_diagnosis (reconcile_host user s t h) \<noteq> STALE_HOST_AUTH"
  using assms enrich_never_stale_match [OF assms(1)]
  by (auto simp: reconcile_host_def Let_def dest: classify_stale_only)

lemma diagnose_again_reconciled:
  "hr_diagnosis (diagnose_again user s (reconcile_host user s t h)) =
     hr_diagnosis (reconcile_host user s t h)"
proof (cases "hr_detected h")
  case True
  have "classify_host_diagnosis user g s \<noteq> NOT_DETECTED" if "hr_detected g" for g
    using that by (simp add: classify_host_diagnosis_def)
  then show ?thesis using True by (simp add: diagnose_again_def reconcile_host_def Let_def)
qed (simp add: diagnose_again_def reconcile_host_def)

lemma reconcile_diagnoses:
  assumes "reconcile uuid profile user hosts ops surfaces truth mode cid = Some rep"
    and "connection_surfaces_available ops surfaces = Some avail"
  shows "map he_diagnosis (dr_hosts rep) = map (\<lambda>h. hr_diagnosis (reconcile_host user avail truth h)) hosts"
    and "dr_summary_status rep = summary_of (map he_diagnosis (dr_hosts rep))"
    and "dr_connection_surfaces_available rep = avail"
  using assms
  by (auto simp: reconcile_def build_doctor_report_def Let_def host_entry_of_def
      diagnose_again_reconciled o_def)

lemma summary_of_attention: "summary_of ds = ATTENTION_REQUIRED \<longleftrightarrow> SPLIT_IDENTITY \<in> set ds"
  by (simp add: summary_of_def)

lemma detect_hosts_found: "(cls, Inr (Some h)) \<in> set ds \<Longrightarrow> h \<in> set (detect_hosts ds)"
  by (induction ds rule: detect_hosts.induct) (auto split: sum.splits option.splits)

lemma sdk_detect_diagnosis:
  assumes "sdk_detect fs = Inr h"
  shows "hr_diagnosis (reconcile_host user s t h) \<in> {HOST_CONFIG_UNREADABLE, HOST_NOT_CONFIGURED}"
proof -
  have "hr_detected h" "\<not> hr_keyhole_server_entry_detected h"
    using assms by (auto simp: sdk_detect_def sdk_record_def blank_host_def Let_def
        split: if_splits sum.splits)
  then show ?thesis
    by (simp add: reconcile_host_def Let_def classify_host_diagnosis_def)
qed

section \<open>Installing and detecting\<close>

lemma dict_get_put [simp]:
  "dict_get (fs_files (put_file p c fs)) q = (if q = p then Some c else dict_get (fs_files fs) q)"
  by (simp add: put_file_def)

lemma put_file_other [simp]:
  "fs_home (put_file p c fs) = fs_home fs" "fs_is_dir (put_file p c fs) = fs_is_dir fs"
  "fs_glob (put_file p c fs) = fs_glob fs"
  by (simp_all add: put_file_def)

lemma backup_other:
  "backup_settings p fs = (ws, fs1) \<Longrightarrow> q \<noteq> p @ ''.keyhole-backup'' \<Longrightarrow>
     dict_get (fs_files fs1) q = dict_get (fs_files fs) q"
  by (auto simp: backup_settings_def split: option.splits if_splits)

lemma merge_server_cases:
  assumes "merge_server file key name entry force settings = MergeWrite existed url data"
  obtains d servers where "settings = JObj d" "dict_get_or d key (JObj []) = JObj servers"
    "data = dict_set key (JObj (dict_set name (JObj entry) servers)) d"
    "existed \<longleftrightarrow> json_get servers name \<noteq> JNull" "existed \<longrightarrow> force"
  using assms by (auto simp: merge_server_def Let_def split: json.splits if_splits)

lemma find_entry_set:
  assumes "\<forall>(k, v) \<in> set servers. k \<noteq> name \<longrightarrow> \<not> P k v" and "P name e"
  shows "find_entry P (dict_set name e servers) = Some (entry_dict name e)"
  using assms by (induction servers) (auto simp: dict_set_def)

lemma find_entry_exists:
  assumes "P name e"
  shows "find_entry P (dict_set name e servers) \<noteq> None"
  using assms by (induction servers) (auto simp: dict_set_def)

lemma keyhole_name: "py_in ''keyhole'' (py_lower name) \<Longrightarrow> is_keyhole_entry fstr base name e"
  by (simp add: is_keyhole_entry_def is_indicated_def)

text \<open>
  The file an installer leaves: the settings with one entry set under the server name, or
  the file as it was.
\<close>

definition installed_settings :: "string \<Rightarrow> string \<Rightarrow> dict \<Rightarrow> json \<Rightarrow> json \<Rightarrow> bool" where
  "installed_settings key name entry old new =
     (\<exists>d servers. old = JObj d \<and> dict_get_or d key (JObj []) = JObj servers \<and>
        new = JObj (dict_set key (JObj (dict_set name (JObj entry) servers)) d))"

definition settings_written :: "install_result \<Rightarrow> bool" where
  "settings_written r = (ir_action_taken r = ''created'' \<or> ir_action_taken r = ''updated'')"

text \<open>What a result that wrote nothing leaves: the settings, or what a write that failed left of them.\<close>

definition settings_left :: "host_fs \<Rightarrow> host_fs \<Rightarrow> string \<Rightarrow> bool" where
  "settings_left fs fs' p \<longleftrightarrow>
     dict_get (fs_files fs') p = dict_get (fs_files fs) p \<or>
     (\<exists>e c. fs_write_error fs p = Some (e, Some c) \<and> dict_get (fs_files fs') p = Some c)"

text \<open>An entry of that name in the settings; a stored \<open>null\<close> is none.\<close>

definition had_entry :: "string \<Rightarrow> string \<Rightarrow> host_fs \<Rightarrow> string \<Rightarrow> bool" where
  "had_entry key name fs p \<longleftrightarrow>
     (\<exists>d servers v. read_settings fs p = Inr (Inr (JObj d)) \<and> dict_get d key = Some (JObj servers) \<and>
        dict_get servers name = Some v \<and> v \<noteq> JNull)"

lemma install_vscode_cases:
  assumes "install_vscode url name force fs = (Inr r, fs')"
  shows "(\<not> settings_written r \<and> settings_left fs fs' (ir_config_path r) \<and>
            (\<forall>q. q \<noteq> ir_config_path r \<and> q \<noteq> ir_config_path r @ ''.keyhole-backup'' \<longrightarrow>
               dict_get (fs_files fs') q = dict_get (fs_files fs) q)) \<or>
         (\<exists>old new. settings_written r \<and> find_vscode_settings fs = Some (ir_config_path r) \<and>
            read_settings fs (ir_config_path r) = Inr (Inr old) \<and>
            installed_settings ''mcp.servers'' name (build_keyhole_server_entry url) old new \<and>
            dict_get (fs_files fs') (ir_config_path r) = Some (FileJson new) \<and>
            fs_home fs' = fs_home fs \<and>
            (\<forall>q. q \<noteq> ir_config_path r \<and> q \<noteq> ir_config_path r @ ''.keyhole-backup'' \<longrightarrow>
               dict_get (fs_files fs') q = dict_get (fs_files fs) q))"
proof (cases "find_vscode_settings fs")
  case None
  then show ?thesis using assms by (auto simp: install_vscode_def install_failed_def settings_written_def settings_left_def leave_file_def)
next
  case (Some p)
  note p = this
  show ?thesis
  proof (cases "read_settings fs p")
    case (Inl e)
    then show ?thesis using assms p by (simp add: install_vscode_def Let_def)
  next
    case (Inr x)
    note x = this
    show ?thesis
    proof (cases x)
      case (Inl e)
      then show ?thesis using assms p x
        by (auto simp: install_vscode_def Let_def install_failed_def settings_written_def settings_left_def leave_file_def)
    next
      case (Inr settings)
      note s = this
      show ?thesis
      proof (cases "merge_server ''settings.json'' ''mcp.servers'' name
                      (build_keyhole_server_entry url) force settings")
        case (MergeWrite existed prev data)
        obtain ws fs1 where b: "backup_settings p fs = (ws, fs1)" by force
        obtain d servers where m: "settings = JObj d" "dict_get_or d ''mcp.servers'' (JObj []) = JObj servers"
          "data = dict_set ''mcp.servers'' (JObj (dict_set name (JObj (build_keyhole_server_entry url)) servers)) d"
          using merge_server_cases [OF MergeWrite] by metis
        have home: "fs_home fs1 = fs_home fs"
          using b by (auto simp: backup_settings_def split: option.splits if_splits)
        have inst: "installed_settings ''mcp.servers'' name (build_keyhole_server_entry url) settings (JObj data)"
          using m by (auto simp: installed_settings_def)
        show ?thesis
          using assms p x s MergeWrite b inst home backup_other [OF b]
          by (cases existed) (auto simp: install_vscode_def Let_def install_failed_def settings_written_def settings_left_def leave_file_def
              split: option.splits prod.splits)
      qed (use assms p x s in \<open>auto simp: install_vscode_def Let_def install_failed_def settings_written_def settings_left_def leave_file_def\<close>)
    qed
  qed
qed

lemma install_jetbrains_cases:
  assumes "install_jetbrains url name force fs = (Inr r, fs')"
  shows "(\<not> settings_written r \<and> settings_left fs fs' (ir_config_path r) \<and>
            (\<forall>q. q \<noteq> ir_config_path r \<longrightarrow> dict_get (fs_files fs') q = dict_get (fs_files fs) q)) \<or>
         (\<exists>old new. settings_written r \<and>
            read_settings fs (ir_config_path r) = Inr (Inr old) \<and>
            installed_settings ''mcpServers'' name (build_jetbrains_entry url) old new \<and>
            fs' = put_file (ir_config_path r) (FileJson new) fs)"
proof (cases "find_config_dir fs jetbrains_patterns")
  case None
  then show ?thesis using assms by (auto simp: install_jetbrains_def install_failed_def settings_written_def settings_left_def leave_file_def)
next
  case (Some d)
  define p where "p = path_join d ''mcp.json''"
  note p = Some p_def [symmetric]
  show ?thesis
  proof (cases "read_settings fs p")
    case (Inl e)
    then show ?thesis using assms p by (simp add: install_jetbrains_def Let_def)
  next
    case (Inr x)
    note x = this
    show ?thesis
    proof (cases x)
      case (Inl e)
      then show ?thesis using assms p x
        by (auto simp: install_jetbrains_def Let_def install_failed_def settings_written_def settings_left_def leave_file_def)
    next
      case (Inr settings)
      note s = this
      show ?thesis
      proof (cases "merge_server ''mcp.json'' ''mcpServers'' name
                      (build_jetbrains_entry url) force settings")
        case (MergeWrite existed prev data)
        obtain e servers where m: "settings = JObj e" "dict_get_or e ''mcpServers'' (JObj []) = JObj servers"
          "data = dict_set ''mcpServers'' (JObj (dict_set name (JObj (build_jetbrains_entry url)) servers)) e"
          using merge_server_cases [OF MergeWrite] by metis
        have inst: "installed_settings ''mcpServers'' name (build_jetbrains_entry url) settings (JObj data)"
          using m by (auto simp: installed_settings_def)
        show ?thesis
          using assms p x s MergeWrite inst
          by (cases existed) (auto simp: install_jetbrains_def Let_def install_failed_def settings_written_def settings_left_def leave_file_def
              split: option.splits prod.splits)
      qed (use assms p x s in \<open>auto simp: install_jetbrains_def Let_def install_failed_def settings_written_def settings_left_def leave_file_def\<close>)
    qed
  qed
qed

lemma merge_had_entry:
  assumes "dict_get d key = Some (JObj servers)" "dict_get servers name = Some v" "v \<noteq> JNull"
  shows "\<exists>u. merge_server f key name e False (JObj d) = MergeKept u"
  using assms by (simp add: merge_server_def dict_get_or_def json_get_def)

lemma install_vscode_had_entry:
  assumes "install_vscode url name False fs = (Inr r, fs')" "had_entry ''mcp.servers'' name fs (ir_config_path r)"
  shows "fs' = fs \<and> \<not> settings_written r"
proof (cases "find_vscode_settings fs")
  case None
  then show ?thesis using assms(1) by (auto simp: install_vscode_def install_failed_def settings_written_def)
next
  case (Some p)
  have "ir_config_path r = p"
    using assms(1) Some
    by (auto simp: install_vscode_def Let_def case_prod_beta split: sum.splits merge.splits option.splits)
  with assms(2) obtain d where d: "read_settings fs p = Inr (Inr (JObj d))"
    "\<And>f e. \<exists>u. merge_server f ''mcp.servers'' name e False (JObj d) = MergeKept u"
    unfolding had_entry_def using merge_had_entry by blast
  from d(2) obtain u where "merge_server ''settings.json'' ''mcp.servers'' name (build_keyhole_server_entry url) False (JObj d) =
      MergeKept u" by blast
  then show ?thesis
    using assms(1) Some d(1) by (auto simp: install_vscode_def Let_def settings_written_def)
qed

lemma install_jetbrains_had_entry:
  assumes "install_jetbrains url name False fs = (Inr r, fs')" "had_entry ''mcpServers'' name fs (ir_config_path r)"
  shows "fs' = fs \<and> \<not> settings_written r"
proof (cases "find_config_dir fs jetbrains_patterns")
  case None
  then show ?thesis using assms(1) by (auto simp: install_jetbrains_def install_failed_def settings_written_def)
next
  case (Some c)
  define p where "p = path_join c ''mcp.json''"
  have "ir_config_path r = p"
    using assms(1) Some
    by (auto simp: install_jetbrains_def Let_def p_def case_prod_beta split: sum.splits merge.splits option.splits)
  with assms(2) obtain d where d: "read_settings fs p = Inr (Inr (JObj d))"
    "\<And>f e. \<exists>u. merge_server f ''mcpServers'' name e False (JObj d) = MergeKept u"
    unfolding had_entry_def using merge_had_entry by blast
  from d(2) obtain u where "merge_server ''mcp.json'' ''mcpServers'' name (build_jetbrains_entry url) False (JObj d) =
      MergeKept u" by blast
  then show ?thesis
    using assms(1) Some d(1) by (auto simp: install_jetbrains_def Let_def settings_written_def p_def [symmetric])
qed

lemma install_vscode_backup:
  assumes "install_vscode url name force fs = (Inr r, fs')"
  shows "dict_get (fs_files fs') (ir_config_path r @ ''.keyhole-backup'') \<in>
    {dict_get (fs_files fs) (ir_config_path r @ ''.keyhole-backup''), dict_get (fs_files fs) (ir_config_path r)}"
proof (cases "find_vscode_settings fs")
  case None
  then show ?thesis using assms by (auto simp: install_vscode_def install_failed_def)
next
  case (Some p)
  obtain ws fs1 where b: "backup_settings p fs = (ws, fs1)" by fastforce
  have path: "ir_config_path r = p"
    using assms Some
    by (auto simp: install_vscode_def Let_def case_prod_beta split: sum.splits merge.splits option.splits)
  have one: "dict_get (fs_files fs1) (p @ ''.keyhole-backup'') \<in>
      {dict_get (fs_files fs) (p @ ''.keyhole-backup''), dict_get (fs_files fs) p}"
    using b by (auto simp: backup_settings_def put_file_def split: option.splits if_splits)
  have "\<exists>c. fs' \<in> {fs, fs1, put_file p c fs1}"
    using assms Some b
    by (auto simp: install_vscode_def Let_def leave_file_def split: sum.splits merge.splits option.splits prod.splits)
  then show ?thesis using one by (auto simp: path put_file_def)
qed

section \<open>The attestation store\<close>

lemma concat_load_set: "a \<in> set (load_attestations h) \<longleftrightarrow>
    (\<exists>files f. kh_attestations h = Some files \<and> f \<in> set files \<and> a \<in> set (load_file f))"
  by (cases "kh_attestations h") (auto simp: load_attestations_def)

lemma dict_set_mem: "(k, v) \<in> set (dict_set k v d)"
  by (induction d) (auto simp: dict_set_def)

lemma dict_set_mem_other: "k' \<noteq> k \<Longrightarrow> (k', v') \<in> set (dict_set k v d) \<longleftrightarrow> (k', v') \<in> set d"
  by (induction d) (auto simp: dict_set_def)

lemma load_written: "a \<in> set (load_file (attestation_filename a, Some (JObj (attestation_to_dict a))))"
proof -
  have "\<exists>t. attestation_filename a = t @ ''.json''"
    unfolding attestation_filename_def by (metis append_assoc)
  then have "ends_with ''.json'' (attestation_filename a)" by (simp only: ends_with_iff)
  then show ?thesis by (simp add: load_file_def attestation_of_json_def)
qed

lemma py_replace_keeps:
  "x \<notin> set s \<Longrightarrow> x \<notin> set q \<Longrightarrow> x \<notin> set (py_replace p q s)"
proof (induction p q s rule: py_replace.induct)
  case (2 p q c cs)
  then show ?case using in_set_dropD [of x "length p" "c # cs"] by auto
qed simp

lemma safe_component_separators:
  "CHR ''/'' \<notin> set (safe_component s)" "CHR 0x5C \<notin> set (safe_component s)"
  unfolding safe_component_def
  by (rule py_replace_keeps, rule py_replace_keeps, rule py_replace_char, simp_all)
    (rule py_replace_keeps, rule py_replace_char, simp_all)

lemma filename_confined:
  "CHR ''/'' \<notin> set (attestation_filename a)" "CHR 0x5C \<notin> set (attestation_filename a)"
  using safe_component_separators by (auto simp: attestation_filename_def)

definition demo_attestation :: attestation where
  "demo_attestation =
     \<lparr>at_schema_version = ''1'', at_host_kind = ''vscode'', at_host_display_name = ''VS Code'',
      at_integration_name = ''keyhole'', at_server_url = [], at_realm = [],
      at_effective_principal = ''bob'', at_effective_subject = [], at_proof_method = ''live_whoami'',
      at_confidence = CONFIRMED, at_observed_at = ''t0'', at_expires_at = ''t9'',
      at_machine_scope = ''../m'', at_workspace_scope = None, at_correlation_id = [],
      at_notes = [], at_tool_version = []\<rparr>"

definition demo_iso :: "string \<Rightarrow> iso_time option" where
  "demo_iso s = (if s = ''t0'' then Some (Aware 0 0) else if s = ''t9'' then Some (Aware 9 0) else None)"

definition demo_override :: identity_override where
  "demo_override =
     \<lparr>io_override_type = ''allow_split_identity'', io_created_at = ''t0'', io_target_principal = ''alice'',
      io_conflicting_host_principal = ''carol'', io_host_kind = ''jetbrains'', io_reason = [],
      io_expiry = None\<rparr>"

definition demo_fs :: "(string \<times> file_content) list \<Rightarrow> host_fs" where
  "demo_fs files =
     \<lparr>fs_files = files, fs_is_dir = (\<lambda>p. True), fs_glob = (\<lambda>p. []), fs_home = ''/h'',
      fs_keyhole_home = None, fs_copy_fails = (\<lambda>p. False), fs_write_error = (\<lambda>p. None)\<rparr>"

text \<open>
  The installer looks for the settings of the remote server first and the detector for those of
  the desktop: with both files the entry that was installed is not seen.
\<close>

lemma installed_entry_unseen:
  "let fs = demo_fs [(''/h/.config/Code/User/settings.json'', FileJson (JObj [])),
                     (''/h/.vscode-server/data/User/settings.json'', FileJson (JObj []))];
       (r, fs') = install_vscode ''https://mcp.example.com'' ''keyhole'' False fs
   in map_sum id ir_action_taken r = Inr ''created'' \<and>
      map_sum id hr_keyhole_server_entry_detected (vscode_detect as_str ''https://mcp.example.com'' fs') = Inr False"
  by code_simp

section \<open>Properties\<close>

text \<open>
  C36: The two implementations of the identity comparison agree on every host: the three-layer
  reconciler and the doctor's classification give the same diagnosis, and the actions the
  reconciler recommends are the first actions of the doctor's repair guidance for it, or none.
\<close>

theorem reconcilers_agree:
  "tl_diagnosis (reconcile_three_layer fstr user label h surfaces) = classify_host_diagnosis user h surfaces \<and>
   (\<exists>rest. rg_actions (build_repair_guidance (h\<lparr>hr_diagnosis := classify_host_diagnosis user h surfaces\<rparr>)) =
             tl_recommended_actions (reconcile_three_layer fstr user label h surfaces) @ rest)"
proof
  show "tl_diagnosis (reconcile_three_layer fstr user label h surfaces) = classify_host_diagnosis user h surfaces"
    by (simp add: reconcile_three_layer_def classify_host_diagnosis_def Let_def)
  show "\<exists>rest. rg_actions (build_repair_guidance (h\<lparr>hr_diagnosis := classify_host_diagnosis user h surfaces\<rparr>)) =
             tl_recommended_actions (reconcile_three_layer fstr user label h surfaces) @ rest"
    by (simp add: reconcile_three_layer_def classify_host_diagnosis_def Let_def
        build_repair_guidance_def repair_actions_def three_layer_of_def)
qed

text \<open>
  The coherence verdict. A login is rejected exactly when some attestation is fresh, confirmed
  and of another principal and no unexpired override exists; only the expiry of an override counts,
  not the principals or the host it names; and with a verified principal the four lists of
  the result hold every attestation exactly once.
\<close>

theorem coherence_verdict_exact:
  "(co_verdict (classify_coherence fromiso now p as v) = REJECT_HOST_CONFLICT \<longleftrightarrow>
      p \<noteq> [] \<and> (\<exists>a \<in> set as. conflicts fromiso now p a) \<and> \<not> override_allows fromiso now v) \<and>
   (\<forall>ov ov'. io_expiry ov = io_expiry ov' \<longrightarrow>
      co_verdict (classify_coherence fromiso now p as (Some ov)) =
      co_verdict (classify_coherence fromiso now p as (Some ov'))) \<and>
   (p \<noteq> [] \<and> as \<noteq> [] \<longrightarrow>
      mset (co_matching (classify_coherence fromiso now p as v)) +
      mset (co_conflicting (classify_coherence fromiso now p as v)) +
      mset (co_stale (classify_coherence fromiso now p as v)) +
      mset (co_unknown (classify_coherence fromiso now p as v)) = mset as)"
  by (auto simp: classify_coherence_verdict override_allows_def is_expired_def classify_coherence_lists)

theorem coherence_verdict_exact_witness:
  "co_verdict (classify_coherence demo_iso (Aware 5 0) ''alice'' [demo_attestation] None) = REJECT_HOST_CONFLICT \<and>
   co_verdict (classify_coherence demo_iso (Aware 5 0) ''alice'' [demo_attestation] (Some demo_override)) =
   co_verdict (classify_coherence demo_iso (Aware 5 0) ''alice'' [demo_attestation]
     (Some (demo_override\<lparr>io_conflicting_host_principal := ''bob''\<rparr>)))"
proof
  show "co_verdict (classify_coherence demo_iso (Aware 5 0) ''alice'' [demo_attestation] None) = REJECT_HOST_CONFLICT"
    by code_simp
  have "io_expiry demo_override = io_expiry (demo_override\<lparr>io_conflicting_host_principal := ''bob''\<rparr>)"
    by simp
  then show "co_verdict (classify_coherence demo_iso (Aware 5 0) ''alice'' [demo_attestation] (Some demo_override)) =
   co_verdict (classify_coherence demo_iso (Aware 5 0) ''alice'' [demo_attestation]
     (Some (demo_override\<lparr>io_conflicting_host_principal := ''bob''\<rparr>)))"
    using coherence_verdict_exact [of demo_iso "Aware 5 0" "''alice''" "[demo_attestation]" None] by blast
qed

text \<open>
  A written attestation is loaded again, whole, from a file name without separators; the
  other files are loaded as before; a failed write changes nothing that is loaded. So a fresh
  confirmed attestation of another principal, once written, rejects a login without an override.
\<close>

theorem attestation_store_roundtrip:
  assumes "write_attestation err a home = (out, home')"
  shows "(err = None \<longrightarrow> a \<in> set (load_attestations home') \<and> out = Inr (attestation_filename a)) \<and>
         CHR ''/'' \<notin> set (attestation_filename a) \<and> CHR 0x5C \<notin> set (attestation_filename a) \<and>
         (\<forall>files f. kh_attestations home = Some files \<and> f \<in> set files \<and> fst f \<noteq> attestation_filename a \<longrightarrow>
            set (load_file f) \<subseteq> set (load_attestations home')) \<and>
         (err \<noteq> None \<longrightarrow> set (load_attestations home') = set (load_attestations home)) \<and>
         (err = None \<and> p \<noteq> [] \<and> conflicts fromiso now p a \<longrightarrow>
            co_verdict (classify_coherence fromiso now p (load_attestations home') None) = REJECT_HOST_CONFLICT)"
proof -
  have loaded: "a \<in> set (load_attestations home')" if none: "err = None"
  proof -
    obtain files where "kh_attestations home' =
        Some (dict_set (attestation_filename a) (Some (JObj (attestation_to_dict a))) files)"
      using assms none by (auto simp: write_attestation_def Let_def)
    moreover have "(attestation_filename a, Some (JObj (attestation_to_dict a)))
        \<in> set (dict_set (attestation_filename a) (Some (JObj (attestation_to_dict a))) files)"
      by (rule dict_set_mem)
    ultimately show ?thesis using load_written [of a] unfolding concat_load_set by blast
  qed
  have other: "set (load_file f) \<subseteq> set (load_attestations home')"
    if "kh_attestations home = Some files" "f \<in> set files" "fst f \<noteq> attestation_filename a" for files f
  proof -
    have "f \<in> set (dict_set (attestation_filename a) v files)" for v
      using that dict_set_mem_other [of "fst f" "attestation_filename a" "snd f" v files] by simp
    then have "\<exists>files'. kh_attestations home' = Some files' \<and> f \<in> set files'"
      using assms that by (cases err) (auto simp: write_attestation_def Let_def)
    then show ?thesis unfolding subset_iff concat_load_set by blast
  qed
  have reject: "co_verdict (classify_coherence fromiso now p (load_attestations home') None) = REJECT_HOST_CONFLICT"
    if "err = None" "p \<noteq> []" "conflicts fromiso now p a"
    using loaded [OF that(1)] that by (auto simp: classify_coherence_verdict override_allows_def)
  have failed: "set (load_attestations home') = set (load_attestations home)" if "err \<noteq> None"
    using assms that
    by (auto simp: write_attestation_def Let_def load_attestations_def split: option.splits)
  have out: "out = Inr (attestation_filename a)" if "err = None"
    using assms that by (simp add: write_attestation_def Let_def)
  show ?thesis using loaded other reject failed out filename_confined by blast
qed

theorem attestation_store_roundtrip_witness:
  "\<exists>out home'. write_attestation None demo_attestation
      \<lparr>kh_attestations = Some [(''old.json'', None)], kh_policy = None, kh_hint = None\<rparr> = (out, home') \<and>
    out = Inr ''vscode__keyhole____m.json'' \<and> demo_attestation \<in> set (load_attestations home') \<and>
    co_verdict (classify_coherence demo_iso (Aware 5 0) ''alice'' (load_attestations home') None) =
      REJECT_HOST_CONFLICT"
proof -
  let ?home = "\<lparr>kh_attestations = Some [(''old.json'', None)], kh_policy = None, kh_hint = None\<rparr>"
  obtain out home' where w: "write_attestation None demo_attestation ?home = (out, home')" by force
  have name: "attestation_filename demo_attestation = ''vscode__keyhole____m.json''" by code_simp
  have "conflicts demo_iso (Aware 5 0) ''alice'' demo_attestation" by code_simp
  then show ?thesis
    using attestation_store_roundtrip [OF w, of "''alice''" demo_iso "Aware 5 0"] w name by auto
qed

text \<open>
  C38: Installing into VS Code or JetBrains sets exactly one entry. When the result says "created" or
  "updated" the settings file is the old one with the entry set under the server name; the entry has the
  address, a reference to the environment variable of the token and, in VS Code, its type, and nothing else,
  so it embeds no token. Without force, settings that have an entry of that name stay, and so does every
  file. Otherwise the settings are as before, but for a write that failed after the file was opened: then
  what it left is all there is, in JetBrains without a backup. No other file than the settings and their
  backup changes, and the backup is only ever a copy of the settings.
\<close>

theorem install_sets_one_entry:
  assumes "install_host_credentials family url name force fs = (Inr r, fs')"
  defines "p \<equiv> ir_config_path r"
    and "key \<equiv> (if family = VSCODE then ''mcp.servers'' else ''mcpServers'')"
    and "entry \<equiv> (if family = VSCODE then [(''type'', JStr ''sse'')] else []) @
           [(''url'', JStr (boundary_url url)),
            (''env'', JObj [(''KEYHOLE_MCP_TOKEN'', JStr ''${env:KEYHOLE_MCP_TOKEN}'')])]"
  shows "(\<forall>q. q \<noteq> p \<and> q \<noteq> p @ ''.keyhole-backup'' \<longrightarrow> dict_get (fs_files fs') q = dict_get (fs_files fs) q) \<and>
         dict_get (fs_files fs') (p @ ''.keyhole-backup'') \<in>
           {dict_get (fs_files fs) (p @ ''.keyhole-backup''), dict_get (fs_files fs) p} \<and>
         (settings_written r \<longrightarrow>
            (\<exists>d servers. read_settings fs p = Inr (Inr (JObj d)) \<and> dict_get_or d key (JObj []) = JObj servers \<and>
               dict_get (fs_files fs') p =
                 Some (FileJson (JObj (dict_set key (JObj (dict_set name (JObj entry) servers)) d))))) \<and>
         (\<not> settings_written r \<longrightarrow> settings_left fs fs' p) \<and>
         (\<not> force \<and> had_entry key name fs p \<longrightarrow> fs' = fs \<and> \<not> settings_written r)"
proof -
  consider (vs) "family = VSCODE" "install_vscode url name force fs = (Inr r, fs')"
    | (jb) "family = JETBRAINS" "install_jetbrains url name force fs = (Inr r, fs')"
    | (no) "fs' = fs" "\<not> settings_written r"
    using assms(1)
    by (cases family) (auto simp: install_host_credentials_def install_failed_def settings_written_def)
  then show ?thesis
  proof cases
    case vs
    have k: "key = ''mcp.servers''" "entry = build_keyhole_server_entry url"
      using vs(1) by (simp_all add: key_def entry_def build_keyhole_server_entry_def token_reference_def)
    have "fs' = fs \<and> \<not> settings_written r" if "\<not> force" "had_entry key name fs p"
      using install_vscode_had_entry [of url name fs r fs'] vs(2) that unfolding k(1) p_def by simp
    moreover note install_vscode_backup [OF vs(2)]
    ultimately show ?thesis
      using install_vscode_cases [OF vs(2)] unfolding installed_settings_def k p_def by blast
  next
    case jb
    have k: "key = ''mcpServers''" "entry = build_jetbrains_entry url"
      using jb(1) by (simp_all add: key_def entry_def build_jetbrains_entry_def token_reference_def)
    have "fs' = fs \<and> \<not> settings_written r" if "\<not> force" "had_entry key name fs p"
      using install_jetbrains_had_entry [of url name fs r fs'] jb(2) that unfolding k(1) p_def by simp
    then show ?thesis
      using install_jetbrains_cases [OF jb(2)] unfolding installed_settings_def k p_def
      by (auto simp: put_file_def)
  next
    case no
    then show ?thesis by (simp add: settings_left_def)
  qed
qed

theorem install_sets_one_entry_witness:
  "\<exists>r fs'. install_host_credentials VSCODE ''https://mcp.example.com/'' ''keyhole'' False
       (demo_fs [(''/h/.config/Code/User/settings.json'', FileJson (JObj [(''a'', JInt 1)]))]) = (Inr r, fs') \<and>
     settings_written r \<and>
     dict_get (fs_files fs') ''/h/.ssh/id'' = None"
proof -
  let ?fs = "demo_fs [(''/h/.config/Code/User/settings.json'', FileJson (JObj [(''a'', JInt 1)]))]"
  obtain x fs' where run: "install_host_credentials VSCODE ''https://mcp.example.com/'' ''keyhole'' False ?fs = (x, fs')"
    by force
  have ok: "case fst (install_host_credentials VSCODE ''https://mcp.example.com/'' ''keyhole'' False ?fs) of
      Inr r \<Rightarrow> settings_written r \<and> ir_config_path r = ''/h/.config/Code/User/settings.json'' | Inl e \<Rightarrow> False"
    by code_simp
  then obtain r where r: "x = Inr r" "settings_written r"
      "ir_config_path r = ''/h/.config/Code/User/settings.json''"
    using run by (auto split: sum.splits)
  have "dict_get (fs_files fs') ''/h/.ssh/id'' = dict_get (fs_files ?fs) ''/h/.ssh/id''"
    using install_sets_one_entry [OF run [unfolded r(1)]] r(3) by simp
  moreover have "dict_get (fs_files ?fs) ''/h/.ssh/id'' = None" by code_simp
  ultimately show ?thesis using run r by auto
qed

text \<open>
  What is installed is detected. After the installer has written the entry of a server whose
  name contains "keyhole" into the settings file the detector reads, VS Code is detected as
  configured; if no other server of that file looks like Keyhole, with the boundary address
  that was installed and a token from the environment.
\<close>

theorem install_then_detect:
  assumes run: "install_vscode url name force fs = (Inr r, fs')" and "settings_written r"
    and name: "py_in ''keyhole'' (py_lower name)"
    and same: "first_path (is_file fs') (map (expanduser fs') vscode_settings_paths) = Some (ir_config_path r)"
  shows "\<exists>h. vscode_detect fstr base fs' = Inr h \<and> hr_detected h \<and> hr_keyhole_server_entry_detected h \<and>
           hr_config_path h = ir_config_path r \<and>
           (\<forall>d servers. read_settings fs (ir_config_path r) = Inr (Inr (JObj d)) \<and>
              dict_get_or d ''mcp.servers'' (JObj []) = JObj servers \<and>
              (\<forall>(k, v) \<in> set servers. k \<noteq> name \<longrightarrow> \<not> is_keyhole_entry fstr base k v) \<longrightarrow>
              hr_server_url h = JStr (boundary_url url) \<and> hr_auth_source_mode h = ''env_bearer_token'')"
proof -
  let ?e = "build_keyhole_server_entry url"
  let ?P = "is_keyhole_entry fstr base"
  obtain old new where io: "read_settings fs (ir_config_path r) = Inr (Inr old)"
    "installed_settings ''mcp.servers'' name ?e old new"
    "dict_get (fs_files fs') (ir_config_path r) = Some (FileJson new)"
    using install_vscode_cases [OF run] assms(2) by blast
  then obtain d servers where d: "old = JObj d" "dict_get_or d ''mcp.servers'' (JObj []) = JObj servers"
    "new = JObj (dict_set ''mcp.servers'' (JObj (dict_set name (JObj ?e) servers)) d)"
    by (auto simp: installed_settings_def)
  obtain x where x: "find_entry ?P (dict_set name (JObj ?e) servers) = Some x"
    using find_entry_exists [of ?P name "JObj ?e" servers, OF keyhole_name [OF name]] by auto
  have entry: "vscode_find_entry fstr base fs' (ir_config_path r) = Inr (Some x)"
    using io(3) d(3) x by (simp add: vscode_find_entry_def read_json_def json_get_def dict_get_or_def)
  let ?h = "with_entry fstr x (vscode_record\<lparr>hr_detected := True, hr_config_detected := True,
      hr_config_path := ir_config_path r\<rparr>)"
  have det: "vscode_detect fstr base fs' = Inr ?h"
    using same entry by (simp add: vscode_detect_def Let_def)
  have only: "x = ?e" if "\<forall>(k, v) \<in> set servers. k \<noteq> name \<longrightarrow> \<not> ?P k v"
    using find_entry_set [of servers name ?P "JObj ?e", OF that keyhole_name [OF name]] x
    by (simp add: entry_dict_def)
  have url: "dict_get_or ?e ''url'' (JStr []) = JStr (boundary_url url)"
    by (simp add: build_keyhole_server_entry_def json_simps)
  have auth: "detect_auth_mode ?e = ''env_bearer_token''"
    by (simp add: detect_auth_mode_def build_keyhole_server_entry_def json_simps token_reference_def) code_simp
  show ?thesis
    using det only url auth io(1) d(1,2) by (auto simp: with_entry_def)
qed

theorem install_then_detect_witness:
  "let fs = demo_fs [(''/h/.config/Code/User/settings.json'', FileJson (JObj [(''a'', JInt 1)]))]
   in \<exists>r fs' h. install_vscode ''https://mcp.example.com/'' ''keyhole'' False fs = (Inr r, fs') \<and>
        vscode_detect as_str ''https://mcp.example.com'' fs' = Inr h \<and> hr_keyhole_server_entry_detected h"
proof -
  let ?fs = "demo_fs [(''/h/.config/Code/User/settings.json'', FileJson (JObj [(''a'', JInt 1)]))]"
  obtain y fs' where run: "install_vscode ''https://mcp.example.com/'' ''keyhole'' False ?fs = (y, fs')" by force
  have ok: "case install_vscode ''https://mcp.example.com/'' ''keyhole'' False ?fs of
      (Inr r, fs') \<Rightarrow> settings_written r \<and>
        first_path (is_file fs') (map (expanduser fs') vscode_settings_paths) = Some (ir_config_path r)
    | _ \<Rightarrow> False" by code_simp
  then obtain r where r: "y = Inr r" "settings_written r"
      "first_path (is_file fs') (map (expanduser fs') vscode_settings_paths) = Some (ir_config_path r)"
    using run by (auto split: sum.splits)
  have "py_in ''keyhole'' (py_lower ''keyhole'')" by code_simp
  from install_then_detect [OF run [unfolded r(1)] r(2) this r(3), of as_str "''https://mcp.example.com''"]
  show ?thesis using run r(1) by auto
qed

text \<open>
  With the built-in detectors the doctor never reports that all is well: whatever is installed and
  whatever the server answers, if the credential file does not break its detector, the report
  requires attention, because the detector of the local SDK never finds a server entry.
\<close>

theorem doctor_never_ok:
  assumes "sdk_detect fs = Inr h"
    and "reconcile uuid profile user (detect_hosts (default_detectors fstr base fs)) ops surfaces truth mode cid
           = Some rep"
  shows "has_attention_required rep"
proof -
  obtain avail where avail: "connection_surfaces_available ops surfaces = Some avail"
    using assms(2) by (cases "connection_surfaces_available ops surfaces") (auto simp: reconcile_def)
  have mem: "h \<in> set (detect_hosts (default_detectors fstr base fs))"
    using assms(1) by (intro detect_hosts_found [of "''SDKCredentialDetector''"]) (simp add: default_detectors_def)
  let ?d = "hr_diagnosis (reconcile_host user avail truth h)"
  have "?d \<in> set (map he_diagnosis (dr_hosts rep))"
    unfolding reconcile_diagnoses(1) [OF assms(2) avail] using mem by simp
  moreover have "?d \<in> {HOST_CONFIG_UNREADABLE, HOST_NOT_CONFIGURED}"
    by (rule sdk_detect_diagnosis [OF assms(1)])
  ultimately have "summary_of (map he_diagnosis (dr_hosts rep)) \<noteq> DOCTOR_OK"
    by (auto simp: summary_of_def degraded_diagnoses_def)
  then show ?thesis
    by (simp add: has_attention_required_def reconcile_diagnoses(2) [OF assms(2) avail])
qed

theorem doctor_never_ok_witness:
  "\<exists>rep. reconcile ''id'' ''dev'' ''alice'' (detect_hosts (default_detectors as_str ''https://mcp.example.com''
      (demo_fs [(''/h/.keyhole/credentials.json'', FileJson (JObj [(''user_id'', JStr ''alice'')]))])))
      [inspect_run_type] JNull [(''sdk_local'', [(''user_id'', JStr ''alice'')])] LIVE_RECONCILIATION None = Some rep \<and>
    has_attention_required rep"
proof -
  let ?fs = "demo_fs [(''/h/.keyhole/credentials.json'', FileJson (JObj [(''user_id'', JStr ''alice'')]))]"
  have "case sdk_detect ?fs of Inr h \<Rightarrow> True | Inl e \<Rightarrow> False" by code_simp
  then obtain h where h: "sdk_detect ?fs = Inr h" by (auto split: sum.splits)
  obtain rep where "reconcile ''id'' ''dev'' ''alice''
      (detect_hosts (default_detectors as_str ''https://mcp.example.com'' ?fs))
      [inspect_run_type] JNull [(''sdk_local'', [(''user_id'', JStr ''alice'')])] LIVE_RECONCILIATION None = Some rep"
    by (auto simp: reconcile_def connection_surfaces_available_def)
  then show ?thesis using doctor_never_ok [OF h] by blast
qed

text \<open>
  The doctor's report on hosts that carry no stale mark: one entry per host with its diagnosis, attention
  exactly when some host has a split identity, and never the diagnosis of stale host
  authentication, since the reconciliation marks only the connections of other principals as stale.
\<close>

theorem doctor_report_sound:
  assumes "reconcile uuid profile user hosts ops surfaces truth mode cid = Some rep"
    and "\<forall>h \<in> set hosts. hr_staleness_state h \<noteq> STALE_CONFIRMED \<and> hr_diagnosis h \<noteq> STALE_HOST_AUTH"
  shows "length (dr_hosts rep) = length hosts \<and>
         (has_split_identity rep \<longleftrightarrow> dr_summary_status rep = ATTENTION_REQUIRED) \<and>
         (\<forall>e \<in> set (dr_hosts rep). he_diagnosis e \<noteq> STALE_HOST_AUTH)"
proof -
  obtain avail where avail: "connection_surfaces_available ops surfaces = Some avail"
    using assms(1) by (cases "connection_surfaces_available ops surfaces") (auto simp: reconcile_def)
  note d = reconcile_diagnoses [OF assms(1) avail]
  have "length (dr_hosts rep) = length hosts"
    using arg_cong [OF d(1), of length] by simp
  moreover have "has_split_identity rep \<longleftrightarrow> dr_summary_status rep = ATTENTION_REQUIRED"
    by (simp add: d(2) summary_of_attention has_split_identity_def image_iff) metis
  moreover have "x \<noteq> STALE_HOST_AUTH" if "x \<in> set (map he_diagnosis (dr_hosts rep))" for x
    using that assms(2) reconcile_host_not_stale unfolding d(1) by auto
  ultimately show ?thesis by auto
qed

theorem doctor_report_sound_witness:
  "\<exists>rep. reconcile ''id'' ''dev'' ''alice'' [vscode_record\<lparr>hr_detected := True, hr_config_detected := True,
       hr_keyhole_server_entry_detected := True\<rparr>] [inspect_run_type] JNull
       [(''vscode'', [(''user_id'', JStr ''bob'')])] LIVE_RECONCILIATION None = Some rep \<and>
     has_split_identity rep \<and> dr_summary_status rep = ATTENTION_REQUIRED"
proof -
  let ?hosts = "[vscode_record\<lparr>hr_detected := True, hr_config_detected := True, hr_keyhole_server_entry_detected := True\<rparr>]"
  let ?rec = "reconcile ''id'' ''dev'' ''alice'' ?hosts [inspect_run_type] JNull
       [(''vscode'', [(''user_id'', JStr ''bob'')])] LIVE_RECONCILIATION None"
  have split: "case ?rec of Some rep \<Rightarrow> has_split_identity rep | None \<Rightarrow> False" by code_simp
  then obtain rep where rep: "?rec = Some rep" "has_split_identity rep" by (auto split: option.splits)
  have "\<forall>h \<in> set ?hosts. hr_staleness_state h \<noteq> STALE_CONFIRMED \<and> hr_diagnosis h \<noteq> STALE_HOST_AUTH"
    by (simp add: vscode_record_def blank_host_def)
  from doctor_report_sound [OF rep(1) this] show ?thesis using rep by auto
qed

end
