(* ===== verification/Operation_Discovery.thy ===== *)
theory Operation_Discovery
  imports Text_Ops
begin

text \<open>
  Operations of the live capability contract (\<open>discovery/operations.py\<close>): their normal form
  and the registry that resolves a name, a canonical run type or an alias. \<open>fstr\<close> is Python's
  \<open>str\<close> on a JSON value and \<open>repr\<close> its \<open>repr\<close> on a string; \<open>None\<close> is an exception while
  iterating over the aliases. Operations at different positions are different objects.
\<close>

record op_definition =
  od_operation_name :: string
  od_canonical_run_type :: string
  od_aliases :: "string list"
  od_status :: string
  od_method :: string
  od_path :: string
  od_canonical_endpoint :: dict
  od_governed :: bool
  od_event_spine_evidence :: bool
  od_required_authorization :: dict
  od_input_schema :: dict
  od_output_schema :: dict
  od_capability_metadata :: dict
  od_raw :: dict

definition plain_operation :: "string \<Rightarrow> op_definition" where
  "plain_operation name =
     \<lparr>od_operation_name = name, od_canonical_run_type = name, od_aliases = [], od_status = [],
      od_method = [], od_path = [], od_canonical_endpoint = [], od_governed = False,
      od_event_spine_evidence = False, od_required_authorization = [], od_input_schema = [],
      od_output_schema = [], od_capability_metadata = [], od_raw = []\<rparr>"

fun first_seen :: "string list \<Rightarrow> string list \<Rightarrow> string list" where
  "first_seen seen [] = []"
| "first_seen seen (x # xs) =
     (if x \<noteq> [] \<and> x \<notin> set seen then x # first_seen (x # seen) xs else first_seen seen xs)"

definition identifiers :: "op_definition \<Rightarrow> string list" where
  "identifiers d = first_seen [] (od_operation_name d # od_canonical_run_type d # od_aliases d)"

definition op_to_dict :: "op_definition \<Rightarrow> dict" where
  "op_to_dict d =
     [(''operation_name'', JStr (od_operation_name d)),
      (''canonical_run_type'', JStr (od_canonical_run_type d)),
      (''aliases'', JList (map JStr (od_aliases d))),
      (''status'', JStr (od_status d)),
      (''method'', JStr (od_method d)),
      (''path'', JStr (od_path d)),
      (''canonical_endpoint'', JObj (od_canonical_endpoint d)),
      (''governed'', JBool (od_governed d)),
      (''event_spine_evidence'', JBool (od_event_spine_evidence d)),
      (''required_authorization'', JObj (od_required_authorization d)),
      (''input_schema'', JObj (od_input_schema d)),
      (''output_schema'', JObj (od_output_schema d)),
      (''capability_metadata'', JObj (od_capability_metadata d)),
      (''raw'', JObj (od_raw d))]"

definition op_from_dict :: "(json \<Rightarrow> string) \<Rightarrow> dict \<Rightarrow> op_definition option" where
  "op_from_dict fstr d =
     map_option
       (\<lambda>aliases. \<lparr>od_operation_name = str_or_empty fstr (json_get d ''operation_name''),
          od_canonical_run_type = str_or_empty fstr (json_get d ''canonical_run_type''),
          od_aliases = only_strings aliases,
          od_status = str_or_empty fstr (json_get d ''status''),
          od_method = str_or_empty fstr (json_get d ''method''),
          od_path = str_or_empty fstr (json_get d ''path''),
          od_canonical_endpoint = as_dict (json_get d ''canonical_endpoint''),
          od_governed = json_truthy (json_get d ''governed''),
          od_event_spine_evidence = json_truthy (json_get d ''event_spine_evidence''),
          od_required_authorization = as_dict (json_get d ''required_authorization''),
          od_input_schema = as_dict (json_get d ''input_schema''),
          od_output_schema = as_dict (json_get d ''output_schema''),
          od_capability_metadata = as_dict (json_get d ''capability_metadata''),
          od_raw = as_dict (json_get d ''raw'')\<rparr>)
       (iterate_json (dict_get_or d ''aliases'' (JList [])))"

section \<open>Normalisation\<close>

text \<open>\<open>a or b or c\<close> on values, and \<open>_safe_dict(a) or _safe_dict(b)\<close>.\<close>

fun first_truthy :: "json list \<Rightarrow> json" where
  "first_truthy [] = JStr []"
| "first_truthy (v # vs) = (if json_truthy v then v else first_truthy vs)"

fun first_dict :: "json list \<Rightarrow> dict" where
  "first_dict [] = []"
| "first_dict (v # vs) = (if as_dict v \<noteq> [] then as_dict v else first_dict vs)"

definition normalize_operation ::
  "(json \<Rightarrow> string) \<Rightarrow> string \<Rightarrow> dict \<Rightarrow> op_definition option" where
  "normalize_operation fstr name_hint item =
     (let endpoint = as_dict (json_get item ''canonical_endpoint'');
          method = fstr (first_truthy [json_get item ''method'', json_get endpoint ''method''])
      in map_option
           (\<lambda>aliases. \<lparr>od_operation_name = fstr (first_truthy
                [json_get item ''operation_name'', json_get item ''operation_id'', json_get item ''name'',
                 json_get item ''operation'', JStr name_hint]),
              od_canonical_run_type = fstr (first_truthy
                [json_get item ''canonical_run_type'', json_get item ''run_type'', json_get item ''canonical'']),
              od_aliases = filter (\<lambda>s. s \<noteq> []) (only_strings aliases),
              od_status = str_or_empty fstr (json_get item ''status''),
              od_method = py_upper method,
              od_path = fstr (first_truthy [json_get item ''path'', json_get endpoint ''path'']),
              od_canonical_endpoint = endpoint,
              od_governed = json_truthy (json_get item ''governed''),
              od_event_spine_evidence = json_truthy (json_get item ''event_spine_evidence''),
              od_required_authorization = first_dict
                [json_get item ''required_authorization'', json_get item ''authorization'', json_get item ''auth''],
              od_input_schema = as_dict (json_get item ''input_schema''),
              od_output_schema = as_dict (json_get item ''output_schema''),
              od_capability_metadata = first_dict [json_get item ''capability'', json_get item ''metadata''],
              od_raw = item\<rparr>)
           (iterate_json (dict_get_or item ''aliases'' (JList []))))"

fun normalize_named :: "(json \<Rightarrow> string) \<Rightarrow> dict \<Rightarrow> op_definition list option" where
  "normalize_named fstr [] = Some []"
| "normalize_named fstr ((name, spec) # rest) =
     (case spec of
        JObj item \<Rightarrow>
          (case normalize_operation fstr name item of
             None \<Rightarrow> None
           | Some d \<Rightarrow> map_option ((#) d) (normalize_named fstr rest))
      | _ \<Rightarrow>
          (if json_truthy spec then map_option ((#) (plain_operation name)) (normalize_named fstr rest)
           else normalize_named fstr rest))"

fun normalize_listed :: "(json \<Rightarrow> string) \<Rightarrow> json list \<Rightarrow> op_definition list option" where
  "normalize_listed fstr [] = Some []"
| "normalize_listed fstr (JStr name # rest) =
     map_option ((#) (plain_operation name)) (normalize_listed fstr rest)"
| "normalize_listed fstr (JObj item # rest) =
     (case normalize_operation fstr [] item of
        None \<Rightarrow> None
      | Some d \<Rightarrow> map_option ((#) d) (normalize_listed fstr rest))"
| "normalize_listed fstr (_ # rest) = normalize_listed fstr rest"

definition normalize_operations_from_capabilities ::
  "(json \<Rightarrow> string) \<Rightarrow> dict \<Rightarrow> op_definition list option" where
  "normalize_operations_from_capabilities fstr raw =
     (let body = (case json_get raw ''data'' of JObj d \<Rightarrow> d | _ \<Rightarrow> raw)
      in case dict_get_or body ''operations'' (JList []) of
           JObj ops \<Rightarrow> normalize_named fstr ops
         | JList ops \<Rightarrow> normalize_listed fstr ops
         | _ \<Rightarrow> Some [])"

section \<open>The registry\<close>

type_synonym op_index = "(string \<times> nat \<times> op_definition) list"

record op_registry =
  og_operations :: "op_definition list"
  og_by_identifier :: op_index

definition ambiguous_alias :: "(string \<Rightarrow> string) \<Rightarrow> string \<Rightarrow> op_definition \<Rightarrow> op_definition \<Rightarrow> string" where
  "ambiguous_alias repr ident existing d =
     ''Identifier '' @ repr ident @ '' is advertised by both '' @
     repr (od_operation_name existing) @ '' and '' @ repr (od_operation_name d) @ ''.''"

fun index_operation ::
  "(string \<Rightarrow> string) \<Rightarrow> nat \<Rightarrow> op_definition \<Rightarrow> string list \<Rightarrow> op_index \<Rightarrow> string + op_index" where
  "index_operation repr i d [] idx = Inr idx"
| "index_operation repr i d (ident # rest) idx =
     (case map_of idx ident of
        Some (j, existing) \<Rightarrow>
          (if j \<noteq> i then Inl (ambiguous_alias repr ident existing d)
           else index_operation repr i d rest (AList.update ident (i, d) idx))
      | None \<Rightarrow> index_operation repr i d rest (AList.update ident (i, d) idx))"

fun build_indexes ::
  "(string \<Rightarrow> string) \<Rightarrow> nat \<Rightarrow> op_definition list \<Rightarrow> op_index \<Rightarrow> string + op_index" where
  "build_indexes repr i [] idx = Inr idx"
| "build_indexes repr i (d # ds) idx =
     (case index_operation repr i d (identifiers d) idx of
        Inl e \<Rightarrow> Inl e
      | Inr idx' \<Rightarrow> build_indexes repr (Suc i) ds idx')"

definition build_registry :: "(string \<Rightarrow> string) \<Rightarrow> op_definition list \<Rightarrow> string + op_registry" where
  "build_registry repr ops =
     (case build_indexes repr 0 ops [] of
        Inl e \<Rightarrow> Inl e
      | Inr idx \<Rightarrow> Inr \<lparr>og_operations = ops, og_by_identifier = idx\<rparr>)"

definition resolve_operation :: "op_registry \<Rightarrow> string \<Rightarrow> op_definition option" where
  "resolve_operation g ident = map_option snd (map_of (og_by_identifier g) (py_strip ident))"

text \<open>
  An entry of \<open>CapabilitiesResult.operations\<close>. \<open>None\<close> is an exception that is not the one for
  ambiguous aliases.
\<close>

datatype cap_item = CapOperation op_definition | CapDict dict | CapStr string | CapOther

fun collect_operations :: "(json \<Rightarrow> string) \<Rightarrow> cap_item list \<Rightarrow> op_definition list option" where
  "collect_operations fstr [] = Some []"
| "collect_operations fstr (CapOperation d # rest) =
     (if od_canonical_run_type d \<noteq> [] then map_option ((#) d) (collect_operations fstr rest)
      else collect_operations fstr rest)"
| "collect_operations fstr (CapDict item # rest) =
     (case op_from_dict fstr item of
        None \<Rightarrow> None
      | Some d \<Rightarrow>
          (if od_canonical_run_type d \<noteq> [] then map_option ((#) d) (collect_operations fstr rest)
           else collect_operations fstr rest))"
| "collect_operations fstr (CapStr s # rest) = collect_operations fstr rest"
| "collect_operations fstr (CapOther # rest) = collect_operations fstr rest"

definition registry_from_capabilities ::
  "(json \<Rightarrow> string) \<Rightarrow> (string \<Rightarrow> string) \<Rightarrow> cap_item list \<Rightarrow> (string + op_registry) option" where
  "registry_from_capabilities fstr repr items =
     map_option (build_registry repr) (collect_operations fstr items)"

section \<open>Facts\<close>

lemma set_first_seen: "set (first_seen seen xs) = {x \<in> set xs. x \<noteq> [] \<and> x \<notin> set seen}"
  by (induction xs arbitrary: seen) auto

lemma distinct_first_seen: "distinct (first_seen seen xs)"
  by (induction xs arbitrary: seen) (auto simp: set_first_seen)

lemma set_identifiers:
  "set (identifiers d) = {x. x \<noteq> [] \<and> (x = od_operation_name d \<or> x = od_canonical_run_type d \<or> x \<in> set (od_aliases d))}"
  unfolding identifiers_def set_first_seen by auto

lemma distinct_identifiers [simp]: "distinct (identifiers d)"
  unfolding identifiers_def by (rule distinct_first_seen)

lemma index_operation_spec:
  assumes "distinct ids"
  shows "(case index_operation repr i d ids idx of
      Inl e \<Rightarrow> \<exists>x \<in> set ids. \<exists>j e'. map_of idx x = Some (j, e') \<and> j \<noteq> i
    | Inr idx' \<Rightarrow> (\<forall>x \<in> set ids. \<forall>j e'. map_of idx x = Some (j, e') \<longrightarrow> j = i) \<and>
        map_of idx' = (\<lambda>x. if x \<in> set ids then Some (i, d) else map_of idx x))"
  using assms
proof (induction ids arbitrary: idx)
  case (Cons x ids)
  show ?case
  proof (cases "\<exists>j e'. map_of idx x = Some (j, e') \<and> j \<noteq> i")
    case True
    then obtain j e' where x: "map_of idx x = Some (j, e')" "j \<noteq> i" by blast
    then show ?thesis by simp
  next
    case False
    then have step: "index_operation repr i d (x # ids) idx =
        index_operation repr i d ids (AList.update x (i, d) idx)"
      by (auto split: option.split)
    have upd: "map_of (AList.update x (i, d) idx) = (map_of idx)(x \<mapsto> (i, d))"
      by (rule update_conv')
    have "x \<notin> set ids" "distinct ids" using Cons.prems by simp_all
    with Cons.IH [of "AList.update x (i, d) idx"] False show ?thesis
      unfolding step upd by (force split: sum.splits if_splits)
  qed
qed simp

text \<open>
  The index of a whole list: it exists exactly when no identifier belongs to two positions,
  and then maps each identifier to the one operation that has it.
\<close>

definition identifiers_at :: "op_definition list \<Rightarrow> nat \<Rightarrow> string set" where
  "identifiers_at ops i = (if i < length ops then set (identifiers (ops ! i)) else {})"

definition index_of :: "op_definition list \<Rightarrow> op_index \<Rightarrow> bool" where
  "index_of ops idx =
     (\<forall>x i d. map_of idx x = Some (i, d) \<longleftrightarrow> i < length ops \<and> d = ops ! i \<and> x \<in> set (identifiers d))"

lemma identifiers_at_append:
  "i < length ops \<Longrightarrow> identifiers_at (ops @ ds) i = identifiers_at ops i"
  by (simp add: identifiers_at_def nth_append)

lemma build_indexes_spec:
  assumes "index_of pre idx"
  shows "case build_indexes repr (length pre) ops idx of
      Inl e \<Rightarrow> \<exists>i j x. i < j \<and> j < length (pre @ ops) \<and> x \<in> identifiers_at (pre @ ops) i \<and>
                 x \<in> identifiers_at (pre @ ops) j
    | Inr idx' \<Rightarrow> index_of (pre @ ops) idx'"
  using assms
proof (induction ops arbitrary: pre idx)
  case (Cons d ops)
  note spec = index_operation_spec [where ids = "identifiers d" and repr = repr and i = "length pre" and d = d and idx = idx, OF distinct_identifiers]
  show ?case
  proof (cases "index_operation repr (length pre) d (identifiers d) idx")
    case (Inl e)
    with spec obtain x j e' where x: "x \<in> set (identifiers d)" "map_of idx x = Some (j, e')" "j \<noteq> length pre"
      by auto
    with Cons.prems have j: "j < length pre" "x \<in> set (identifiers (pre ! j))"
      by (auto simp: index_of_def)
    have "x \<in> identifiers_at (pre @ d # ops) j" "x \<in> identifiers_at (pre @ d # ops) (length pre)"
      using x j by (simp_all add: identifiers_at_def nth_append)
    then show ?thesis using Inl j(1) by (simp add: exI [of _ j]) (metis length_append less_add_Suc1 list.size(4) add_Suc_right)
  next
    case (Inr idx1)
    with spec have one: "map_of idx1 = (\<lambda>x. if x \<in> set (identifiers d) then Some (length pre, d) else map_of idx x)"
      and fresh: "\<forall>x \<in> set (identifiers d). \<forall>j e'. map_of idx x = Some (j, e') \<longrightarrow> j = length pre"
      by auto
    have none: "map_of idx x = None" if "x \<in> set (identifiers d)" for x
    proof (cases "map_of idx x")
      case (Some p)
      obtain j e' where "p = (j, e')" by force
      with Some fresh that Cons.prems show ?thesis by (auto simp: index_of_def)
    qed
    have "index_of (pre @ [d]) idx1"
      unfolding index_of_def one
    proof (intro allI)
      fix x i e
      show "((if x \<in> set (identifiers d) then Some (length pre, d) else map_of idx x) = Some (i, e)) =
            (i < length (pre @ [d]) \<and> e = (pre @ [d]) ! i \<and> x \<in> set (identifiers e))"
      proof (cases "x \<in> set (identifiers d)")
        case True
        have "\<not> (i < length pre \<and> x \<in> set (identifiers (pre ! i)))"
          using none [OF True] Cons.prems unfolding index_of_def by (metis option.distinct(1))
        then show ?thesis using True by (auto simp: nth_append less_Suc_eq)
      next
        case False
        then show ?thesis using Cons.prems unfolding index_of_def by (auto simp: nth_append less_Suc_eq)
      qed
    qed
    from Cons.IH [OF this] show ?thesis
      unfolding append_assoc append_Cons append_Nil by (simp add: Inr)
  qed
qed (simp add: index_of_def)

lemma index_of_disjoint:
  assumes "index_of ops idx" "x \<in> identifiers_at ops i" "x \<in> identifiers_at ops j"
  shows "i = j"
  using assms by (auto simp: index_of_def identifiers_at_def split: if_splits) (metis option.inject prod.inject)

lemma build_registry_spec:
  "case build_registry repr ops of
     Inl e \<Rightarrow> \<exists>i j x. i < j \<and> j < length ops \<and> x \<in> identifiers_at ops i \<and> x \<in> identifiers_at ops j
   | Inr g \<Rightarrow> og_operations g = ops \<and> index_of ops (og_by_identifier g)"
  using build_indexes_spec [of "[]" "[]" ops repr]
  by (auto simp: build_registry_def index_of_def split: sum.splits)

end
