(* ===== verification/Dispatch_Tables.thy ===== *)
theory Dispatch_Tables
  imports Text_Ops
begin

text \<open>
  The static tables of the dispatch helpers: the canonical run types and the known mistakes
  (\<open>dispatch/validator.py\<close>) and the schema hint of every run type (\<open>dispatch/schema.py\<close>).
\<close>

section \<open>Schema hints\<close>

record schema_hint =
  sh_run_type :: string
  sh_available :: bool
  sh_required_params :: "string list"
  sh_optional_params :: "string list"
  sh_example :: dict
  sh_notes :: string
  sh_input_schema :: dict
  sh_output_schema :: dict
  sh_schema_source :: string
  sh_canonical_run_type :: string
  sh_operation_name :: string

definition blank_hint :: "string \<Rightarrow> schema_hint" where
  "blank_hint run_type =
     \<lparr>sh_run_type = run_type, sh_available = False, sh_required_params = [], sh_optional_params = [],
      sh_example = [], sh_notes = [], sh_input_schema = [], sh_output_schema = [], sh_schema_source = [],
      sh_canonical_run_type = [], sh_operation_name = []\<rparr>"

text \<open>An entry of the table: the key is the hint's run type, and the example sends the parameters.\<close>

definition known_hint ::
  "string \<Rightarrow> string list \<Rightarrow> string list \<Rightarrow> dict \<Rightarrow> string \<Rightarrow> string \<times> schema_hint" where
  "known_hint key required optional params notes =
     (key, (blank_hint key)
        \<lparr>sh_available := True, sh_required_params := required, sh_optional_params := optional,
         sh_example := [(''run_type'', JStr key), (''params'', JObj params)], sh_notes := notes\<rparr>)"

type_synonym schemas = "(string \<times> schema_hint) list"

definition known_schemas_1 :: schemas where
  "known_schemas_1 =
     [
      known_hint ''context.compile'' [] []
        []
        ''Primary context bootstrap surface. No required parameters.'',
      known_hint ''gaps.list'' [] []
        []
        ''Browse current gaps. No required parameters.'',
      known_hint ''gaps.status'' [] []
        []
        ''Current gap status posture.'',
      known_hint ''gaps.next_open_canonical'' [] []
        []
        ''Next open canonical gap.'',
      known_hint ''lineage.get.v0_1'' [''target''] []
        [(''target'', JStr ''<target-identifier>'')]
        (''Causal lineage for a specific target. Requires '' @ [CHR 0x27] @ ''target'' @ [CHR 0x27] @ '' parameter.''),
      known_hint ''convergence.status.v0_1'' [] []
        []
        ''Current convergence posture. No required parameters.'',
      known_hint ''convergence.constraints.check'' [] [''target'', ''scope'']
        []
        (''Check convergence constraints. Optional: '' @ [CHR 0x27] @ ''target'' @ [CHR 0x27] @ '' and '' @ [CHR 0x27] @ ''scope'' @ [CHR 0x27] @ '' parameters.''),
      known_hint ''promotion.submit'' [''repo_name''] [''ctxpack_digest'']
        [(''repo_name'', JStr ''<repo>'')]
        ''Submit a promotion request. Re-discover capabilities for current shape.'',
      known_hint ''gaps.resolve'' [''gap_id''] []
        [(''gap_id'', JStr ''<gap_id>'')]
        ''Resolve (close) an open gap.'',
      known_hint ''gaps.claim'' [''gap_id'', ''repo_name''] [''ctxpack_digest'']
        [(''gap_id'', JStr ''<gap_id>''), (''repo_name'', JStr ''<repo>'')]
        ''Claim an open gap for a repo.'',
      known_hint ''gaps.submit'' [''capability'', ''repo_name''] [''ctxpack_digest'', ''description'']
        [(''capability'', JStr ''<cap>''), (''repo_name'', JStr ''<repo>'')]
        ''Submit a new gap for a capability.'',
      known_hint ''gaps.get'' [''gap_id''] []
        [(''gap_id'', JStr ''<gap_id>'')]
        ''Retrieve a specific gap by ID.'',
      known_hint ''gaps.evidence.submit'' [''gap_id'', ''evidence''] []
        [(''gap_id'', JStr ''<gap_id>''), (''evidence'', JObj [])]
        ''Submit evidence for an open gap.'',
      known_hint ''convergence.candidate'' [] []
        []
        ''Current convergence candidate. Re-discover for exact shape.'',
      known_hint ''convergence.closure'' [] []
        []
        ''Convergence closure posture.'',
      known_hint ''convergence.frontier.next'' [] []
        []
        ''Next convergence frontier item.'']"

definition known_schemas_2 :: schemas where
  "known_schemas_2 =
     [
      known_hint ''convergence.verdict'' [] []
        []
        ''Current convergence verdict.'',
      known_hint ''convergence.gap.validate'' [''gap_id''] []
        [(''gap_id'', JStr ''<gap_id>'')]
        ''Validate a gap against convergence constraints.'',
      known_hint ''convergence.gap.resolve'' [''gap_id''] []
        [(''gap_id'', JStr ''<gap_id>'')]
        ''Resolve a gap through the convergence path.'',
      known_hint ''convergence.gap.explain'' [''gap_id''] []
        [(''gap_id'', JStr ''<gap_id>'')]
        ''Explain the current state of a gap.'',
      known_hint ''convergence.loop'' [] []
        []
        ''Convergence loop execution.'',
      known_hint ''convergence.execute'' [] []
        []
        ''Execute a convergence cycle.'',
      known_hint ''convergence.operator_view'' [] []
        []
        ''Operator view of current convergence state.'',
      known_hint ''convergence.status'' [] []
        []
        ''Convergence status. Prefer convergence.status.v0_1 for versioned contract.'',
      known_hint ''promotion.candidate.from_verdict.v0_1'' [] []
        []
        ''Build a promotion candidate from a convergence verdict.'',
      known_hint ''ops.pattern.acknowledge'' [''pattern_id''] []
        [(''pattern_id'', JStr ''<id>'')]
        ''Acknowledge an ops pattern.'',
      known_hint ''ops.pattern.get'' [''pattern_id''] []
        [(''pattern_id'', JStr ''<id>'')]
        ''Get a specific ops pattern.'',
      known_hint ''ops.pattern.list'' [] []
        []
        ''List all ops patterns.'',
      known_hint ''connection.identity.inspect'' [] []
        []
        ''Inspect current connection identity.'',
      known_hint ''connection.status.inspect'' [] []
        []
        ''Inspect current connection status.'',
      known_hint ''connection.list.inspect'' [] []
        []
        ''List and inspect current connections.'',
      known_hint ''connection.lineage.inspect'' [] []
        []
        ''Inspect connection lineage.'',
      known_hint ''connection.rebind'' [] []
        []
        ''Rebind the current connection.'']"

definition known_schemas_3 :: schemas where
  "known_schemas_3 =
     [
      known_hint ''connection.invalidate'' [] []
        []
        ''Invalidate the current connection.'',
      known_hint ''flightcheck.v3'' [] []
        []
        ''Pre-flight readiness check v3.'',
      known_hint ''auth.login_request'' [] []
        []
        ''Initiate auth login request.'',
      known_hint ''auth.login_complete'' [] []
        []
        ''Complete auth login flow.'',
      known_hint ''auth.register'' [] []
        []
        ''Register a new auth identity.'',
      known_hint ''auth.verify'' [] []
        []
        ''Verify current auth identity.'',
      known_hint ''auth.status'' [] []
        []
        ''Check current auth status.'',
      known_hint ''auth.remove'' [] []
        []
        ''Remove an auth identity.'',
      known_hint ''context.constraints.build'' [] []
        []
        ''Build context constraints.'',
      known_hint ''tool.patch.apply'' [''patch''] []
        [(''patch'', JStr ''<patch-content>'')]
        ''Apply a patch via the tool surface.'',
      known_hint ''tool.git.commit_push_pr'' [''message''] [''branch'', ''title'']
        [(''message'', JStr ''<commit-msg>'')]
        ''Commit, push, and open a PR via the tool surface.'',
      known_hint ''events.replay'' [] [''from_cursor'', ''limit'']
        []
        ''Replay events from the Event Spine.'',
      known_hint ''proofs.e2e.harness'' [] []
        []
        ''Run the end-to-end proof harness.'',
      known_hint ''intent.compile'' [] []
        []
        ''Compile current intent context.'',
      known_hint ''intent.submit'' [] [''intent_ref'']
        []
        ''Submit a governed intent for dispatch.'',
      known_hint ''workspace.provision'' [''repo_name'', ''gap_id'', ''claim_token''] []
        [(''repo_name'', JStr ''<repo>''), (''gap_id'', JStr ''<gap_id>''), (''claim_token'', JStr ''<token>'')]
        ''Provision a governed workspace for a claimed gap.'',
      known_hint ''workspace.close'' [''workspace_id''] []
        [(''workspace_id'', JStr ''<ws_id>'')]
        ''Close a provisioned workspace.'']"

definition known_schemas_4 :: schemas where
  "known_schemas_4 =
     [
      known_hint ''readiness.explain'' [] []
        []
        ''Explain current platform readiness state and invariant results.'',
      known_hint ''proof.bundle.emit'' [''workspace_id''] []
        [(''workspace_id'', JStr ''<ws_id>'')]
        ''Emit a proof bundle for a workspace.'',
      known_hint ''proofbundle.build'' [] []
        []
        ''Build a proof bundle.'',
      known_hint ''run.status'' [] [''run_id'', ''request_id'', ''correlation_id'']
        [(''run_id'', JStr ''<run-id>'')]
        ''Server-backed run status for a durable run, request, or correlation identifier.'',
      known_hint ''run.explain'' [] [''run_id'', ''request_id'', ''correlation_id'']
        [(''run_id'', JStr ''<run-id>'')]
        ''Server-backed run explanation for a durable run, request, or correlation identifier.'',
      known_hint ''request.inspect'' [] [''request_id'', ''run_id'', ''correlation_id'']
        [(''request_id'', JStr ''<request-id>'')]
        ''Server-backed request inspection linked to run, context, proof, and receipt evidence.'',
      known_hint ''support.bundle'' [] [''run_id'', ''request_id'', ''correlation_id'']
        [(''run_id'', JStr ''<run-id>'')]
        ''Server-backed support bundle or manifest for a durable run/request chain.'',
      known_hint ''run.tail'' [] [''run_id'', ''request_id'', ''correlation_id'', ''cursor'', ''limit'']
        [(''run_id'', JStr ''<run-id>'')]
        ''Server-backed ordered run observations for a durable run/request chain.'',
      known_hint ''run.budget'' [] [''run_id'', ''request_id'', ''correlation_id'']
        [(''run_id'', JStr ''<run-id>'')]
        ''Run-level budget and limit posture for a durable run/request chain.'',
      known_hint ''bindings.cohort.get'' [] [''cohort_id'']
        []
        ''Get cohort binding information.'',
      known_hint ''bindings.cohort.upsert'' [''cohort_id''] []
        [(''cohort_id'', JStr ''<cohort_id>'')]
        ''Upsert a cohort binding.'',
      known_hint ''digest.register'' [''digest''] []
        [(''digest'', JStr ''<sha256-digest>'')]
        ''Register a canonical digest.'',
      known_hint ''identity.binding.provision'' [] []
        []
        ''Provision an identity binding.'',
      known_hint ''eventvault.subject_stats.v1'' [] [''subject'']
        []
        ''Get Event Vault subject statistics.'',
      known_hint ''eventvault.verdicts.list'' [] [''cursor'', ''limit'']
        []
        ''List verdicts from the Event Vault.'']"

definition known_schemas :: schemas where
  "known_schemas = known_schemas_1 @ known_schemas_2 @ known_schemas_3 @ known_schemas_4"

section \<open>Run types and known mistakes\<close>

definition canonical_run_types :: "string list" where
  "canonical_run_types =
     [
      ''auth.login_complete'', ''auth.login_request'', ''auth.register'', ''auth.remove'',
      ''auth.status'', ''auth.verify'', ''bindings.cohort.get'', ''bindings.cohort.upsert'',
      ''connection.identity.inspect'', ''connection.invalidate'',
      ''connection.lineage.inspect'', ''connection.list.inspect'', ''connection.rebind'',
      ''connection.status.inspect'', ''context.compile'', ''context.constraints.build'',
      ''convergence.candidate'', ''convergence.closure'', ''convergence.constraints.check'',
      ''convergence.execute'', ''convergence.frontier.next'', ''convergence.gap.explain'',
      ''convergence.gap.resolve'', ''convergence.gap.validate'', ''convergence.loop'',
      ''convergence.operator_view'', ''convergence.status'', ''convergence.status.v0_1'',
      ''convergence.verdict'', ''digest.register'', ''events.replay'',
      ''eventvault.subject_stats.v1'', ''eventvault.verdicts.list'', ''flightcheck.v3'',
      ''gaps.claim'', ''gaps.evidence.submit'', ''gaps.get'', ''gaps.list'',
      ''gaps.next_open_canonical'', ''gaps.resolve'', ''gaps.status'', ''gaps.submit'',
      ''identity.binding.provision'', ''intent.compile'', ''intent.submit'',
      ''lineage.get.v0_1'', ''ops.pattern.acknowledge'', ''ops.pattern.get'',
      ''ops.pattern.list'', ''promotion.candidate.from_verdict.v0_1'', ''promotion.submit'',
      ''proof.bundle.emit'', ''proofbundle.build'', ''proofs.e2e.harness'', ''request.inspect'',
      ''run.budget'', ''run.explain'', ''run.status'', ''run.tail'', ''support.bundle'',
      ''readiness.explain'', ''tool.git.commit_push_pr'', ''tool.patch.apply'',
      ''workspace.close'', ''workspace.provision'']"

definition known_mistakes :: "(string \<times> string list) list" where
  "known_mistakes =
     [
      (''gaps.states'', [''gaps.status'']), (''gaps.next'', [''gaps.next_open_canonical'']),
      (''gap.status'', [''gaps.status'']), (''gap.list'', [''gaps.list'']),
      (''gap.states'', [''gaps.status'']), (''context.get'', [''context.compile'']),
      (''context.fetch'', [''context.compile'']), (''context.retrieve'', [''context.compile'']),
      (''convergence.statuses'', [''convergence.status.v0_1'']),
      (''lineage.get'', [''lineage.get.v0_1''])]"

end
