(* ===== verification/Run_Type_Validator.thy ===== *)
theory Run_Type_Validator
  imports Operation_Discovery Dispatch_Tables "HOL-Library.List_Lexorder" "HOL-Library.Char_ord"
begin

text \<open>
  Validation of an intended run type (\<open>dispatch/validator.py\<close>, \<open>dispatch/models.py\<close>). The
  suggestion lists of the module's table \<open>KNOWN_MISTAKES\<close> are shared: \<open>dict(KNOWN_MISTAKES)\<close>
  copies the dictionary and not the lists, so the table is a state that the operations read
  and that \<open>from_capabilities\<close> may change.
\<close>

section \<open>Results\<close>

datatype run_type_status = TypeValid | TypeInvalid | TypeUnknown | TypeAmbiguous | DiscoveryUnavailable

record type_check =
  tk_run_type :: string
  tk_status :: run_type_status
  tk_suggestions :: "string list"
  tk_reason :: string
  tk_source :: string
  tk_supplied_identifier :: string
  tk_canonical_run_type :: string
  tk_operation_name :: string

definition blank_check :: "string \<Rightarrow> run_type_status \<Rightarrow> string \<Rightarrow> type_check" where
  "blank_check run_type status reason =
     \<lparr>tk_run_type = run_type, tk_status = status, tk_suggestions = [], tk_reason = reason, tk_source = [],
      tk_supplied_identifier = [], tk_canonical_run_type = [], tk_operation_name = []\<rparr>"

section \<open>The suggestion lists\<close>

text \<open>A list a validator refers to: the table's list under the same key, or one of its own.\<close>

datatype mistake_list = Shared | Own "string list"

type_synonym mistake_table = "(string \<times> string list) list"
type_synonym mistakes = "(string \<times> mistake_list) list"

definition copy_table :: "mistake_table \<Rightarrow> mistakes" where
  "copy_table table = map (\<lambda>(k, xs). (k, Shared)) table"

definition suggestions_in :: "mistake_table \<Rightarrow> mistakes \<Rightarrow> string \<Rightarrow> string list option" where
  "suggestions_in table ms key =
     (case dict_get ms key of
        None \<Rightarrow> None
      | Some Shared \<Rightarrow> Some (dict_get_or table key [])
      | Some (Own xs) \<Rightarrow> Some xs)"

definition append_new :: "string \<Rightarrow> string list \<Rightarrow> string list" where
  "append_new x xs = (if x \<in> set xs then xs else xs @ [x])"

definition add_suggestion ::
  "string list \<Rightarrow> string \<Rightarrow> string \<Rightarrow> mistakes \<times> mistake_table \<Rightarrow> mistakes \<times> mistake_table" where
  "add_suggestion canonical bad good st =
     (case st of (ms, table) \<Rightarrow>
        (if bad = [] \<or> good = [] \<or> bad \<in> set canonical then st
         else
           (let ms' = dict_setdefault bad (Own []) ms
            in case dict_get ms' bad of
                 Some (Own xs) \<Rightarrow> (dict_set bad (Own (append_new good xs)) ms', table)
               | _ \<Rightarrow> (ms', dict_set bad (append_new good (dict_get_or table bad [])) table))))"

section \<open>Reading a published mistake\<close>

text \<open>\<open>s.index(c)\<close> for a character that occurs, and \<open>s[a:b]\<close>.\<close>

definition py_index :: "char \<Rightarrow> string \<Rightarrow> nat" where
  "py_index c s = length (takeWhile (\<lambda>x. x \<noteq> c) s)"

definition py_slice :: "nat \<Rightarrow> nat \<Rightarrow> string \<Rightarrow> string" where
  "py_slice a b s = take (b - a) (drop a s)"

definition arrow :: string where
  "arrow = [CHR 0xE2, CHR 0x86, CHR 0x92]"

fun split_at_first :: "string list \<Rightarrow> string \<Rightarrow> (string \<times> string) option" where
  "split_at_first [] s = None"
| "split_at_first (sep # seps) s =
     (case split_once sep s of Some p \<Rightarrow> Some p | None \<Rightarrow> split_at_first seps s)"

text \<open>The incorrect name and the correction an entry states, where it states one.\<close>

definition parse_mistake :: "string \<Rightarrow> (string \<times> string) option" where
  "parse_mistake item =
     (if CHR ''('' \<in> set item \<and> CHR '')'' \<in> set item then
        (let i = py_index (CHR ''('') item
         in Some (py_strip (take i item),
                  py_strip (py_replace ''use '' [] (py_slice (i + 1) (py_index (CHR '')'') item) item))))
      else map_option (\<lambda>(a, b). (py_strip a, py_strip b)) (split_at_first [arrow, ''->'', ''=>''] item))"

definition incorporate_mistake ::
  "string list \<Rightarrow> string \<Rightarrow> mistakes \<times> mistake_table \<Rightarrow> mistakes \<times> mistake_table" where
  "incorporate_mistake canonical item st =
     (case parse_mistake item of
        Some (bad, good) \<Rightarrow> add_suggestion canonical bad good st
      | None \<Rightarrow> st)"

section \<open>The validator\<close>

record validator =
  rv_canonical :: "string list"
  rv_mistakes :: mistakes
  rv_registry :: "op_registry option"
  rv_attempted :: bool
  rv_ambiguous_reason :: string
  rv_unavailable :: bool

text \<open>The constructor, where an empty or missing argument means the module's table.\<close>

definition new_validator ::
  "mistake_table \<Rightarrow> string list option \<Rightarrow> mistakes option \<Rightarrow> op_registry option \<Rightarrow> bool \<Rightarrow> string \<Rightarrow> bool \<Rightarrow>
   validator" where
  "new_validator table canonical ms registry attempted ambiguous unavailable =
     \<lparr>rv_canonical = (case canonical of Some (c # cs) \<Rightarrow> c # cs | _ \<Rightarrow> canonical_run_types),
      rv_mistakes = (case ms of Some (x # xs) \<Rightarrow> x # xs | _ \<Rightarrow> copy_table table),
      rv_registry = registry, rv_attempted = attempted, rv_ambiguous_reason = ambiguous,
      rv_unavailable = unavailable\<rparr>"

definition default_validator :: "mistake_table \<Rightarrow> validator" where
  "default_validator table = new_validator table None None None False [] False"

text \<open>What the dispatch helpers read of a capabilities result.\<close>

record cap_view =
  cv_surfaces :: json
  cv_mistakes :: json
  cv_operations :: "cap_item list"

definition list_strings :: "json \<Rightarrow> string list" where
  "list_strings v = (case v of JList xs \<Rightarrow> only_strings xs | _ \<Rightarrow> [])"

definition with_surfaces :: "cap_view \<Rightarrow> string list" where
  "with_surfaces caps =
     fold List.insert (filter (\<lambda>s. s \<noteq> []) (list_strings (cv_surfaces caps))) canonical_run_types"

text \<open>
  \<open>from_capabilities\<close>: the new table comes with the validator, and stays changed when the
  operations raise (\<open>None\<close>).
\<close>

definition validator_from_capabilities ::
  "(json \<Rightarrow> string) \<Rightarrow> (string \<Rightarrow> string) \<Rightarrow> mistake_table \<Rightarrow> cap_view \<Rightarrow> validator option \<times> mistake_table" where
  "validator_from_capabilities fstr repr table caps =
     (let canonical = with_surfaces caps;
          (ms, table') = fold (incorporate_mistake canonical) (list_strings (cv_mistakes caps))
                           (copy_table table, table)
      in (map_option
            (\<lambda>registry. case registry of
               Inl reason \<Rightarrow> new_validator table' (Some canonical) (Some ms) None True reason False
             | Inr g \<Rightarrow> new_validator table' (Some canonical) (Some ms) (Some g) True [] False)
            (registry_from_capabilities fstr repr (cv_operations caps)),
          table'))"

definition add_canonical :: "string \<Rightarrow> validator \<Rightarrow> validator" where
  "add_canonical run_type v = v\<lparr>rv_canonical := List.insert run_type (rv_canonical v)\<rparr>"

section \<open>The check\<close>

definition first_part :: "string \<Rightarrow> string" where
  "first_part s = hd (py_split (CHR ''.'') s)"

definition close_match :: "string \<Rightarrow> string \<Rightarrow> bool" where
  "close_match run_type canonical =
     (let rt = py_lower run_type;
          prefix = (if CHR ''.'' \<in> set rt then first_part rt else rt);
          c = py_lower canonical
      in starts_with (prefix @ ''.'') c \<or> starts_with (first_part c @ ''.'') rt)"

fun limit_matches :: "string list \<Rightarrow> string list \<Rightarrow> string list" where
  "limit_matches result [] = result"
| "limit_matches result (c # cs) =
     (let result' = (if c \<notin> set result then result @ [c] else result)
      in if 3 \<le> length result' then result' else limit_matches result' cs)"

definition find_close_matches :: "validator \<Rightarrow> string \<Rightarrow> string list" where
  "find_close_matches v run_type =
     limit_matches [] (filter (close_match run_type) (sort (remdups (rv_canonical v))))"

definition mistake_reason :: "string \<Rightarrow> string list \<Rightarrow> string" where
  "mistake_reason run_type suggestions =
     (case suggestions of
        [s] \<Rightarrow> quoted run_type @ '' is not canonical. Use '' @ quoted s @ '' instead.''
      | _ \<Rightarrow> quoted run_type @ '' is not canonical. Consider: '' @ py_join '', '' suggestions @ ''.'')"

definition unrecognised :: "validator \<Rightarrow> string \<Rightarrow> type_check" where
  "unrecognised v run_type =
     (if rv_ambiguous_reason v \<noteq> [] then
        (blank_check run_type TypeAmbiguous
           (''The refreshed server capability contract contains ambiguous operation aliases: '' @
            rv_ambiguous_reason v))\<lparr>tk_supplied_identifier := run_type\<rparr>
      else
        (blank_check run_type (if rv_unavailable v then DiscoveryUnavailable else TypeUnknown)
           (if rv_unavailable v then quoted run_type @ '' is not recognized and live discovery is unavailable.''
            else if rv_attempted v
            then ''Operation was not found in the static registry or the refreshed server capability contract.''
            else quoted run_type @ '' is not recognized.''))\<lparr>tk_supplied_identifier := run_type\<rparr>)"

definition static_check :: "mistake_table \<Rightarrow> validator \<Rightarrow> string \<Rightarrow> type_check" where
  "static_check table v run_type =
     (if run_type \<in> set (rv_canonical v) then
        (blank_check run_type TypeValid ''Canonical run type.'')
          \<lparr>tk_source := ''known_static'', tk_supplied_identifier := run_type,
           tk_canonical_run_type := run_type, tk_operation_name := run_type\<rparr>
      else
        (case suggestions_in table (rv_mistakes v) run_type of
           Some suggestions \<Rightarrow>
             (blank_check run_type TypeInvalid (mistake_reason run_type suggestions))
               \<lparr>tk_suggestions := suggestions\<rparr>
         | None \<Rightarrow>
             (let close = find_close_matches v run_type
              in if close \<noteq> [] then
                   (blank_check run_type TypeInvalid
                      (quoted run_type @ '' is not a canonical run type. Did you mean: '' @
                       py_join '', '' close @ ''?''))\<lparr>tk_suggestions := close\<rparr>
                 else unrecognised v run_type)))"

definition discovered_check :: "string \<Rightarrow> op_definition \<Rightarrow> type_check" where
  "discovered_check run_type d =
     (blank_check (od_canonical_run_type d) TypeValid ''Discovered from live capability contract.'')
       \<lparr>tk_source := ''known_discovered'', tk_supplied_identifier := run_type,
        tk_canonical_run_type := od_canonical_run_type d, tk_operation_name := od_operation_name d\<rparr>"

definition registry_lookup :: "op_registry option \<Rightarrow> string \<Rightarrow> op_definition option" where
  "registry_lookup registry ident =
     (case registry of None \<Rightarrow> None | Some g \<Rightarrow> resolve_operation g ident)"

definition check_name :: "mistake_table \<Rightarrow> validator \<Rightarrow> string \<Rightarrow> type_check" where
  "check_name table v run_type =
     (case registry_lookup (rv_registry v) run_type of
        Some d \<Rightarrow> discovered_check run_type d
      | None \<Rightarrow> static_check table v run_type)"

definition not_a_name :: "string \<Rightarrow> type_check" where
  "not_a_name shown = blank_check shown TypeInvalid ''Run type must be a non-empty string.''"

fun check_run_type :: "(json \<Rightarrow> string) \<Rightarrow> mistake_table \<Rightarrow> validator \<Rightarrow> json \<Rightarrow> type_check" where
  "check_run_type fstr table v (JStr s) =
     (if py_strip s = [] then not_a_name s else check_name table v (py_strip s))"
| "check_run_type fstr table v JNull = not_a_name []"
| "check_run_type fstr table v x = not_a_name (fstr x)"

end
