(* ===== verification/Dispatch_Preflight.thy ===== *)
theory Dispatch_Preflight
  imports Run_Type_Validator
begin

text \<open>
  Schema hints and the preflight gate before a dispatch (\<open>dispatch/schema.py\<close>,
  \<open>dispatch/preflight.py\<close>): which hint a run type gets, which parameters it misses, and
  whether the dispatch proceeds, proceeds with warnings or is rejected.
\<close>

section \<open>Schema helper\<close>

record schema_helper =
  sc_schemas :: schemas
  sc_registry :: "op_registry option"

definition default_helper :: schema_helper where
  "default_helper = \<lparr>sc_schemas = known_schemas, sc_registry = None\<rparr>"

definition add_surface :: "string \<Rightarrow> schemas \<Rightarrow> schemas" where
  "add_surface s schemas =
     (if s \<noteq> [] \<and> dict_get schemas s = None then
        dict_set s ((blank_hint s)
          \<lparr>sh_available := True,
           sh_notes := ''Discovered via capabilities. Consult schema discovery for parameter details.''\<rparr>) schemas
      else schemas)"

definition helper_from_capabilities ::
  "(json \<Rightarrow> string) \<Rightarrow> (string \<Rightarrow> string) \<Rightarrow> cap_view \<Rightarrow> schema_helper option" where
  "helper_from_capabilities fstr repr caps =
     (let schemas = fold add_surface (list_strings (cv_surfaces caps)) known_schemas
      in map_option
           (\<lambda>registry. \<lparr>sc_schemas = schemas,
              sc_registry = (case registry of Inl e \<Rightarrow> None | Inr g \<Rightarrow> Some g)\<rparr>)
           (registry_from_capabilities fstr repr (cv_operations caps)))"

definition discovered_hint :: "schemas \<Rightarrow> op_definition \<Rightarrow> schema_hint" where
  "discovered_hint schemas d =
     (if od_input_schema d \<noteq> [] then
        (blank_hint (od_canonical_run_type d))
          \<lparr>sh_available := True,
           sh_example := [(''run_type'', JStr (od_canonical_run_type d)), (''params'', JObj [])],
           sh_notes := ''Schema discovered from live capability contract.'',
           sh_input_schema := od_input_schema d, sh_output_schema := od_output_schema d,
           sh_schema_source := ''live_capabilities'', sh_canonical_run_type := od_canonical_run_type d,
           sh_operation_name := od_operation_name d\<rparr>
      else
        (case dict_get schemas (od_canonical_run_type d) of
           Some hint \<Rightarrow>
             hint\<lparr>sh_canonical_run_type := od_canonical_run_type d, sh_operation_name := od_operation_name d,
                  sh_schema_source := ''static_fallback''\<rparr>
         | None \<Rightarrow>
             (blank_hint (od_canonical_run_type d))
               \<lparr>sh_notes := ''No live or static schema available for '' @ quoted (od_canonical_run_type d) @ ''.'',
                sh_schema_source := ''unavailable'', sh_canonical_run_type := od_canonical_run_type d,
                sh_operation_name := od_operation_name d\<rparr>))"

definition static_hint :: "schemas \<Rightarrow> string \<Rightarrow> schema_hint" where
  "static_hint schemas run_type =
     (case dict_get schemas run_type of
        Some hint \<Rightarrow>
          hint\<lparr>sh_schema_source := str_or (sh_schema_source hint) ''static'',
               sh_canonical_run_type := str_or (sh_canonical_run_type hint) run_type,
               sh_operation_name := str_or (sh_operation_name hint) run_type\<rparr>
      | None \<Rightarrow>
          (blank_hint run_type)
            \<lparr>sh_notes := ''No schema available for '' @ quoted run_type @ ''. Re-discover via GET '' @
               ''/mcp/v1/capabilities or consult published guidance before assuming request shape.''\<rparr>)"

definition get_hint :: "schema_helper \<Rightarrow> string \<Rightarrow> schema_hint" where
  "get_hint h run_type =
     (case registry_lookup (sc_registry h) run_type of
        Some d \<Rightarrow> discovered_hint (sc_schemas h) d
      | None \<Rightarrow> static_hint (sc_schemas h) run_type)"

definition required_of :: "schema_hint \<Rightarrow> string list" where
  "required_of hint =
     (if sh_required_params hint = []
      then list_strings (json_get (sh_input_schema hint) ''required'')
      else sh_required_params hint)"

definition missing_warning :: "string \<Rightarrow> string \<Rightarrow> string" where
  "missing_warning run_type req =
     ''Required parameter '' @ quoted req @ '' is missing for '' @ quoted run_type @ ''.''"

definition schema_unavailable :: "string \<Rightarrow> string" where
  "schema_unavailable run_type =
     ''Schema unavailable for '' @ quoted run_type @ ''. Cannot validate parameters. Re-discover first.''"

definition validate_params :: "schema_helper \<Rightarrow> string \<Rightarrow> dict option \<Rightarrow> string list" where
  "validate_params h run_type params =
     (let hint = get_hint h run_type
      in if \<not> sh_available hint then [schema_unavailable run_type]
         else (case params of
                 None \<Rightarrow> []
               | Some actual \<Rightarrow>
                   map (missing_warning run_type)
                     (filter (\<lambda>req. dict_get actual req = None) (required_of hint))))"

definition known_run_types :: "schema_helper \<Rightarrow> string list" where
  "known_run_types h = sort (map fst (sc_schemas h))"

section \<open>The gate\<close>

datatype preflight_status = PreflightPass | PreflightWarn | PreflightReject

record preflight_result =
  pf_status :: preflight_status
  pf_run_type :: string
  pf_reason :: string
  pf_suggested_next_step :: string
  pf_warnings :: "string list"

definition should_proceed :: "preflight_result \<Rightarrow> bool" where
  "should_proceed r = (pf_status r \<in> {PreflightPass, PreflightWarn})"

record dispatch_preflight =
  dp_validator :: validator
  dp_schema :: schema_helper

definition default_preflight :: "mistake_table \<Rightarrow> dispatch_preflight" where
  "default_preflight table = \<lparr>dp_validator = default_validator table, dp_schema = default_helper\<rparr>"

definition preflight_from_capabilities ::
  "(json \<Rightarrow> string) \<Rightarrow> (string \<Rightarrow> string) \<Rightarrow> mistake_table \<Rightarrow> cap_view \<Rightarrow>
   dispatch_preflight option \<times> mistake_table" where
  "preflight_from_capabilities fstr repr table caps =
     (case validator_from_capabilities fstr repr table caps of
        (None, table') \<Rightarrow> (None, table')
      | (Some v, table') \<Rightarrow>
          (map_option (\<lambda>h. \<lparr>dp_validator = v, dp_schema = h\<rparr>) (helper_from_capabilities fstr repr caps), table'))"

definition rejection :: "string \<Rightarrow> string \<Rightarrow> string \<Rightarrow> preflight_result" where
  "rejection run_type reason step =
     \<lparr>pf_status = PreflightReject, pf_run_type = run_type, pf_reason = reason,
      pf_suggested_next_step = step, pf_warnings = []\<rparr>"

definition names_missing :: "string \<Rightarrow> bool" where
  "names_missing w = (py_in ''Required parameter'' w \<and> py_in ''is missing'' w)"

definition params_verdict :: "schema_helper \<Rightarrow> string \<Rightarrow> string \<Rightarrow> string list \<Rightarrow> preflight_result" where
  "params_verdict h run_type effective warnings =
     (if warnings \<noteq> [] then
        (if list_ex names_missing warnings then
           (rejection effective ''Required parameters are missing.''
              (''Consult schema for required parameters. Hint: '' @ sh_notes (get_hint h run_type)))
             \<lparr>pf_warnings := warnings\<rparr>
         else \<lparr>pf_status = PreflightWarn, pf_run_type = effective, pf_reason = ''Preflight passed with warnings.'',
               pf_suggested_next_step = ''Review warnings before dispatch.'', pf_warnings = warnings\<rparr>)
      else \<lparr>pf_status = PreflightPass, pf_run_type = effective,
            pf_reason = ''Run type is canonical and parameters are valid.'', pf_suggested_next_step = [],
            pf_warnings = []\<rparr>)"

definition preflight_check :: "mistake_table \<Rightarrow> dispatch_preflight \<Rightarrow> string \<Rightarrow> dict option \<Rightarrow> preflight_result" where
  "preflight_check table p run_type params =
     (let r = check_run_type as_str table (dp_validator p) (JStr run_type)
      in case tk_status r of
           TypeInvalid \<Rightarrow>
             rejection run_type (tk_reason r)
               (if tk_suggestions r \<noteq> [] then ''Use the exact canonical name: '' @ py_join '', '' (tk_suggestions r)
                else ''Re-check capabilities via GET /mcp/v1/capabilities.'')
         | TypeUnknown \<Rightarrow>
             rejection run_type (tk_reason r)
               ''Re-check capabilities via GET /mcp/v1/capabilities. Do not guess run-type names.''
         | DiscoveryUnavailable \<Rightarrow>
             rejection run_type (tk_reason r)
               ''Refresh capabilities or use a valid cache before dispatching server-added operations.''
         | TypeAmbiguous \<Rightarrow>
             rejection run_type (tk_reason r)
               (''The server capability contract advertises an ambiguous operation alias. '' @
                ''Refresh capabilities or contact the operator.'')
         | TypeValid \<Rightarrow>
             params_verdict (dp_schema p) run_type (str_or (tk_canonical_run_type r) run_type)
               (validate_params (dp_schema p) run_type params))"

definition resolve_run_type :: "mistake_table \<Rightarrow> dispatch_preflight \<Rightarrow> string \<Rightarrow> string" where
  "resolve_run_type table p run_type =
     str_or (tk_canonical_run_type (check_run_type as_str table (dp_validator p) (JStr run_type))) run_type"

section \<open>Recovery guidance\<close>

type_synonym recovery_action = "string \<times> string"

record recovery_guidance =
  rg_error_class :: string
  rg_run_type :: string
  rg_message :: string
  rg_actions :: "recovery_action list"

definition infer_error_class :: "run_type_status \<Rightarrow> string \<Rightarrow> string" where
  "infer_error_class status run_type =
     (case status of
        TypeInvalid \<Rightarrow>
          (if list_ex (\<lambda>suffix. ends_with suffix run_type) [''s'', ''es'', ''ies'']
           then ''guessed_pluralization'' else ''invalid_run_type'')
      | TypeUnknown \<Rightarrow> ''unknown_run_type''
      | _ \<Rightarrow> ''dispatch_error'')"

definition recovery_message :: "run_type_status \<Rightarrow> string \<Rightarrow> string" where
  "recovery_message status run_type =
     (case status of
        TypeInvalid \<Rightarrow> quoted run_type @ '' is not a canonical run type. Exact canonical names are required.''
      | TypeUnknown \<Rightarrow> quoted run_type @ '' is not recognized. The developer kit has no guidance for this name.''
      | TypeValid \<Rightarrow>
          quoted run_type @ '' is a valid canonical run type. Check request parameters or connectivity.''
      | _ \<Rightarrow> [])"

definition recovery_actions :: "schema_helper \<Rightarrow> type_check \<Rightarrow> string \<Rightarrow> recovery_action list" where
  "recovery_actions h r run_type =
     (case tk_status r of
        TypeInvalid \<Rightarrow>
          (if tk_suggestions r \<noteq> []
           then [(''Use exact canonical name'', ''Try: '' @ py_join '', '' (tk_suggestions r))] else []) @
          [(''Re-check capabilities'', ''GET /mcp/v1/capabilities for published guidance.''),
           (''Stop guessing'',
            ''Run types are exact keys, not REST resource guesses. Do not pluralize, singularize, or improvise.'')]
      | TypeUnknown \<Rightarrow>
          [(''Re-check capabilities'', ''GET /mcp/v1/capabilities for current guidance.''),
           (''Retrieve schema'', ''Consult schema discovery for valid run types.''),
           (''Do not dispatch blindly'',
            ''Server rejection should not be the primary teacher. Discover first, then dispatch.'')]
      | TypeValid \<Rightarrow>
          (let hint = get_hint h run_type
           in if sh_available hint \<and> sh_required_params hint \<noteq> []
              then [(''Check required parameters'', ''Required: '' @ py_join '', '' (sh_required_params hint))] else []) @
          [(''Verify connectivity'', ''Ensure the boundary is reachable and token is valid.'')]
      | _ \<Rightarrow> [])"

definition get_recovery_guidance ::
  "mistake_table \<Rightarrow> dispatch_preflight \<Rightarrow> string \<Rightarrow> string \<Rightarrow> recovery_guidance" where
  "get_recovery_guidance table p run_type error_class =
     (let r = check_run_type as_str table (dp_validator p) (JStr run_type)
      in \<lparr>rg_error_class = str_or error_class (infer_error_class (tk_status r) run_type),
          rg_run_type = run_type, rg_message = recovery_message (tk_status r) run_type,
          rg_actions = recovery_actions (dp_schema p) r run_type\<rparr>)"

end
