(* ===== verification/Dispatch_Facts.thy ===== *)
theory Dispatch_Facts
  imports Dispatch_Preflight
begin

text \<open>
  Facts about the dispatch helpers: the consistency of the static tables, what the registry
  resolves, where suggestions come from, and the two ways a hint arises.
\<close>

section \<open>The tables\<close>

lemma schema_keys_canonical: "list_all (\<lambda>(k, h). k \<in> set canonical_run_types) known_schemas"
  by code_simp

text \<open>What the tables hold, evaluated once.\<close>

lemma table_facts:
  "length known_schemas = length canonical_run_types \<and>
   (distinct (map fst known_schemas)) \<and>
   (list_all (\<lambda>(k, h). list_all (\<lambda>r. dict_get (as_dict (json_get (sh_example h) ''params'')) r \<noteq> None)
     (sh_required_params h)) known_schemas) \<and>
   (list_all (\<lambda>(k, xs). k \<notin> set canonical_run_types \<and> xs \<noteq> [] \<and> list_all (\<lambda>x. x \<in> set canonical_run_types) xs)
     known_mistakes) \<and>
   (list_all (\<lambda>k. k \<noteq> [] \<and> py_strip k = k) canonical_run_types)"
  by code_simp

lemma schema_keys_distinct: "distinct (map fst known_schemas)"
  using table_facts by blast

text \<open>Distinct keys, all canonical and as many as there are canonical names, are all of them.\<close>

lemma canonical_have_schema: "list_all (\<lambda>k. k \<in> fst ` set known_schemas) canonical_run_types"
proof -
  have "set (map fst known_schemas) \<subseteq> set canonical_run_types"
    using schema_keys_canonical by (auto simp: list_all_iff)
  moreover have "card (set canonical_run_types) \<le> card (set (map fst known_schemas))"
    using distinct_card [OF schema_keys_distinct] table_facts card_length [of canonical_run_types] by simp
  ultimately have "set (map fst known_schemas) = set canonical_run_types" by (intro card_seteq) simp_all
  then show ?thesis by (simp add: list_all_iff)
qed

lemma schema_examples_complete:
  "list_all (\<lambda>(k, h). list_all (\<lambda>r. dict_get (as_dict (json_get (sh_example h) ''params'')) r \<noteq> None)
     (sh_required_params h)) known_schemas"
  using table_facts by blast

lemma mistakes_not_canonical:
  "list_all (\<lambda>(k, xs). k \<notin> set canonical_run_types \<and> xs \<noteq> [] \<and> list_all (\<lambda>x. x \<in> set canonical_run_types) xs)
     known_mistakes"
  using table_facts by blast

lemma canonical_stripped: "list_all (\<lambda>k. k \<noteq> [] \<and> py_strip k = k) canonical_run_types"
  using table_facts by blast

lemma known_hint_fields:
  "list_all (\<lambda>(k, h). sh_available h \<and> sh_run_type h = k \<and> sh_input_schema h = [] \<and> sh_output_schema h = [] \<and>
     sh_schema_source h = [] \<and> sh_canonical_run_type h = [] \<and> sh_operation_name h = []) known_schemas"
  by (simp add: known_schemas_def known_schemas_1_def known_schemas_2_def known_schemas_3_def
      known_schemas_4_def known_hint_def blank_hint_def)

lemma canonical_schema:
  assumes "k \<in> set canonical_run_types"
  obtains h where "dict_get known_schemas k = Some h" "(k, h) \<in> set known_schemas"
proof -
  have "k \<in> fst ` set known_schemas" using canonical_have_schema assms by (simp add: list_all_iff)
  then obtain h where kh: "(k, h) \<in> set known_schemas" by auto
  then have "dict_get known_schemas k = Some h"
    unfolding dict_get_def using schema_keys_distinct by simp
  with kh that show thesis by blast
qed

section \<open>The registry\<close>

lemma index_of_lookup:
  assumes "index_of ops idx"
  shows "map_option snd (map_of idx x) = Some d \<longleftrightarrow> d \<in> set ops \<and> x \<in> set (identifiers d)"
proof
  assume "map_option snd (map_of idx x) = Some d"
  then obtain i where "map_of idx x = Some (i, d)" by auto
  with assms show "d \<in> set ops \<and> x \<in> set (identifiers d)" by (auto simp: index_of_def)
next
  assume "d \<in> set ops \<and> x \<in> set (identifiers d)"
  then obtain i where "i < length ops" "d = ops ! i" "x \<in> set (identifiers d)"
    by (auto simp: in_set_conv_nth)
  with assms have "map_of idx x = Some (i, d)" by (simp add: index_of_def)
  then show "map_option snd (map_of idx x) = Some d" by simp
qed

lemma ambiguous_reason_nonempty: "build_indexes repr i ops idx = Inl e \<Longrightarrow> e \<noteq> []"
proof (induction ops arbitrary: i idx)
  case (Cons d ops)
  have "index_operation repr i d ids x = Inl e \<Longrightarrow> e \<noteq> []" for ids x
    by (induction ids arbitrary: x) (auto simp: ambiguous_alias_def split: option.splits if_splits)
  with Cons show ?case by (auto split: sum.splits)
qed simp

text \<open>The operations of a registry built from capabilities name a canonical run type.\<close>

lemma collect_operations_named:
  "collect_operations fstr items = Some ops \<Longrightarrow> d \<in> set ops \<Longrightarrow> od_canonical_run_type d \<noteq> []"
proof (induction fstr items arbitrary: ops rule: collect_operations.induct)
  case (2 fstr e rest)
  then show ?case by (cases "od_canonical_run_type e = []") auto
next
  case (3 fstr item rest)
  from 3(3) show ?case
  proof (cases "op_from_dict fstr item")
    case (Some e)
    show ?thesis
    proof (cases "od_canonical_run_type e = []")
      case True
      with 3 Some show ?thesis by simp
    next
      case False
      with 3(3) Some obtain z where "collect_operations fstr rest = Some z" "ops = e # z" by auto
      with 3(1) [OF Some False] 3(4) False show ?thesis by auto
    qed
  qed simp
qed auto

lemma registry_from_capabilities_named:
  assumes "registry_from_capabilities fstr repr items = Some (Inr g)" "resolve_operation g s = Some d"
  shows "od_canonical_run_type d \<noteq> []"
proof -
  from assms(1) obtain ops where ops: "collect_operations fstr items = Some ops" "build_registry repr ops = Inr g"
    by (auto simp: registry_from_capabilities_def)
  from build_registry_spec [of ops repr] ops(2) have idx: "index_of ops (og_by_identifier g)" by simp
  from assms(2) have "map_option snd (map_of (og_by_identifier g) (py_strip s)) = Some d"
    by (simp add: resolve_operation_def)
  then have "d \<in> set ops" using index_of_lookup [OF idx] by blast
  with collect_operations_named [OF ops(1)] show ?thesis by blast
qed

section \<open>Close matches\<close>

lemma limit_matches_sound:
  "length result \<le> 2 \<Longrightarrow>
   set (limit_matches result cs) \<subseteq> set result \<union> set cs \<and> length (limit_matches result cs) \<le> 3"
  by (induction result cs rule: limit_matches.induct) (auto simp: Let_def)

lemma close_matches_sound:
  "set (find_close_matches v s) \<subseteq> {c \<in> set (rv_canonical v). close_match s c}"
  "length (find_close_matches v s) \<le> 3"
  using limit_matches_sound [of "[]" "filter (close_match s) (sort (remdups (rv_canonical v)))"]
  by (auto simp: find_close_matches_def)

section \<open>Checks\<close>

lemma blank_check_fields [simp]:
  "tk_status (blank_check s t r) = t" "tk_canonical_run_type (blank_check s t r) = []"
  "tk_suggestions (blank_check s t r) = []" "tk_run_type (blank_check s t r) = s"
  by (simp_all add: blank_check_def)

lemma unrecognised_status:
  "tk_status (unrecognised v s) \<in> {TypeAmbiguous, TypeUnknown, DiscoveryUnavailable}"
  "tk_status (unrecognised v s) \<noteq> TypeInvalid" "tk_status (unrecognised v s) \<noteq> TypeValid"
  "tk_canonical_run_type (unrecognised v s) = []"
  by (simp_all add: unrecognised_def)

lemma static_check_valid:
  "tk_status (static_check table v s) = TypeValid \<longleftrightarrow> s \<in> set (rv_canonical v)"
  "tk_canonical_run_type (static_check table v s) = (if s \<in> set (rv_canonical v) then s else [])"
  by (auto simp: static_check_def Let_def unrecognised_status split: option.split)

lemma check_name_valid:
  "tk_status (check_name table v s) = TypeValid \<longleftrightarrow>
     registry_lookup (rv_registry v) s \<noteq> None \<or> s \<in> set (rv_canonical v)"
  "tk_canonical_run_type (check_name table v s) =
     (case registry_lookup (rv_registry v) s of
        Some d \<Rightarrow> od_canonical_run_type d
      | None \<Rightarrow> (if s \<in> set (rv_canonical v) then s else []))"
  by (auto simp: check_name_def discovered_check_def static_check_valid split: option.split)

text \<open>Suggestions are what the boundary or the table published, or close canonical names.\<close>

lemma check_name_suggestions:
  assumes "tk_status (check_name table v s) = TypeInvalid"
  shows "suggestions_in table (rv_mistakes v) s = Some (tk_suggestions (check_name table v s)) \<or>
    (suggestions_in table (rv_mistakes v) s = None \<and> tk_suggestions (check_name table v s) \<noteq> [] \<and>
     tk_suggestions (check_name table v s) = find_close_matches v s)"
  using assms
  by (auto simp: check_name_def discovered_check_def static_check_def Let_def unrecognised_status
      split: option.splits if_splits)

section \<open>Hints\<close>

lemma blank_hint_fields [simp]:
  "sh_available (blank_hint k) = False" "sh_required_params (blank_hint k) = []"
  "sh_optional_params (blank_hint k) = []" "sh_example (blank_hint k) = []"
  "sh_input_schema (blank_hint k) = []" "sh_output_schema (blank_hint k) = []"
  "sh_schema_source (blank_hint k) = []" "sh_canonical_run_type (blank_hint k) = []"
  "sh_operation_name (blank_hint k) = []" "sh_run_type (blank_hint k) = k"
  by (simp_all add: blank_hint_def)

lemma default_static_hint:
  assumes "k \<in> set canonical_run_types"
  shows "\<exists>h. (k, h) \<in> set known_schemas \<and>
    get_hint default_helper k =
      h\<lparr>sh_schema_source := ''static'', sh_canonical_run_type := k, sh_operation_name := k\<rparr>"
proof -
  obtain h where h: "dict_get known_schemas k = Some h" "(k, h) \<in> set known_schemas"
    using assms by (rule canonical_schema)
  have "sh_schema_source h = []" "sh_canonical_run_type h = []" "sh_operation_name h = []"
    using known_hint_fields h(2) by (auto simp: list_all_iff)
  with h show ?thesis
    by (auto simp: get_hint_def default_helper_def registry_lookup_def static_hint_def)
qed

text \<open>Entries of a helper's table: available, without live schemas, and not yet resolved.\<close>

definition table_hint :: "schema_hint \<Rightarrow> bool" where
  "table_hint h \<longleftrightarrow> sh_available h \<and> sh_input_schema h = [] \<and> sh_output_schema h = [] \<and> sh_schema_source h = [] \<and>
     sh_canonical_run_type h = [] \<and> sh_operation_name h = []"

lemma known_schemas_table: "list_all (\<lambda>(k, h). table_hint h \<and> k \<noteq> []) known_schemas"
  using known_hint_fields schema_keys_canonical canonical_stripped
  by (fastforce simp: table_hint_def list_all_iff)

lemma dict_set_new: "dict_get d k = None \<Longrightarrow> dict_set k v d = d @ [(k, v)]"
  unfolding dict_get_def dict_set_def by (induction d) (auto split: if_splits)

lemma add_surface_table:
  "list_all (\<lambda>(k, h). table_hint h \<and> k \<noteq> []) schemas \<Longrightarrow>
   list_all (\<lambda>(k, h). table_hint h \<and> k \<noteq> []) (add_surface s schemas)"
  by (auto simp: add_surface_def dict_set_new table_hint_def)

lemma fold_add_surface_table:
  "list_all (\<lambda>(k, h). table_hint h \<and> k \<noteq> []) schemas \<Longrightarrow>
   list_all (\<lambda>(k, h). table_hint h \<and> k \<noteq> []) (fold add_surface ss schemas)"
  by (induction ss arbitrary: schemas) (simp_all add: add_surface_table)

text \<open>A hint that claims no more than it knows.\<close>

definition honest_hint :: "schema_hint \<Rightarrow> bool" where
  "honest_hint hint =
     (if sh_available hint
      then sh_canonical_run_type hint \<noteq> [] \<and>
           sh_schema_source hint \<in> {''static'', ''static_fallback'', ''live_capabilities''} \<and>
           (sh_schema_source hint = ''live_capabilities'' \<longleftrightarrow> sh_input_schema hint \<noteq> [])
      else sh_required_params hint = [] \<and> sh_optional_params hint = [] \<and> sh_example hint = [] \<and>
           sh_input_schema hint = [] \<and> sh_output_schema hint = [])"

lemma honest_static:
  assumes "\<And>e. dict_get schemas s = Some e \<Longrightarrow> table_hint e \<and> s \<noteq> []"
  shows "honest_hint (static_hint schemas s)"
proof (cases "dict_get schemas s")
  case None
  then show ?thesis by (simp add: static_hint_def honest_hint_def)
next
  case (Some e)
  with assms show ?thesis by (simp add: static_hint_def honest_hint_def table_hint_def)
qed

lemma honest_discovered:
  assumes "\<And>k e. dict_get schemas k = Some e \<Longrightarrow> table_hint e \<and> k \<noteq> []"
    and "od_canonical_run_type d \<noteq> []"
  shows "honest_hint (discovered_hint schemas d)"
proof (cases "od_input_schema d = []")
  case False
  with assms(2) show ?thesis by (simp add: discovered_hint_def honest_hint_def)
next
  case True
  show ?thesis
  proof (cases "dict_get schemas (od_canonical_run_type d)")
    case None
    with True show ?thesis by (simp add: discovered_hint_def honest_hint_def)
  next
    case (Some e)
    with True assms(1) [OF Some] show ?thesis by (simp add: discovered_hint_def honest_hint_def table_hint_def)
  qed
qed

section \<open>The gate\<close>

lemma preflight_check_valid:
  assumes "tk_status (check_run_type as_str table (dp_validator p) (JStr s)) = TypeValid"
  shows "preflight_check table p s params =
    params_verdict (dp_schema p) s
      (str_or (tk_canonical_run_type (check_run_type as_str table (dp_validator p) (JStr s))) s)
      (validate_params (dp_schema p) s params)"
  unfolding preflight_check_def Let_def assms by simp

lemma preflight_check_invalid:
  assumes "tk_status (check_run_type as_str table (dp_validator p) (JStr s)) \<noteq> TypeValid"
  shows "pf_status (preflight_check table p s params) = PreflightReject"
    "pf_run_type (preflight_check table p s params) = s"
    "pf_warnings (preflight_check table p s params) = []"
  using assms unfolding preflight_check_def Let_def
  by (cases "tk_status (check_run_type as_str table (dp_validator p) (JStr s))"; simp add: rejection_def)+

lemma params_verdict_proceeds:
  "should_proceed (params_verdict h s e ws) \<longleftrightarrow> \<not> list_ex names_missing ws"
  by (simp add: params_verdict_def should_proceed_def rejection_def)

lemma params_verdict_run_type [simp]:
  "pf_run_type (params_verdict h s e ws) = e" "pf_warnings (params_verdict h s e ws) = ws"
  by (simp_all add: params_verdict_def rejection_def)

lemma names_missing_warning: "names_missing (missing_warning s req)"
proof -
  have "missing_warning s req = [] @ ''Required parameter'' @ ('' '' @ quoted req @ '' is missing for '' @ quoted s @ ''.'')"
    by (simp add: missing_warning_def)
  then have a: "py_in ''Required parameter'' (missing_warning s req)" by (metis py_in_append)
  have "missing_warning s req = (''Required parameter '' @ quoted req @ '' '') @ ''is missing'' @ ('' for '' @ quoted s @ ''.'')"
    by (simp add: missing_warning_def)
  then have "py_in ''is missing'' (missing_warning s req)" by (metis py_in_append)
  with a show ?thesis by (simp add: names_missing_def)
qed

lemma default_check_canonical:
  assumes "k \<in> set canonical_run_types" "py_strip s = k"
  shows "tk_status (check_run_type as_str table (default_validator table) (JStr s)) = TypeValid"
    "tk_canonical_run_type (check_run_type as_str table (default_validator table) (JStr s)) = k"
proof -
  have "k \<noteq> []" using canonical_stripped assms(1) by (auto simp: list_all_iff)
  then have "check_run_type as_str table (default_validator table) (JStr s) = check_name table (default_validator table) k"
    using assms(2) by simp
  with assms(1) show "tk_status (check_run_type as_str table (default_validator table) (JStr s)) = TypeValid"
    "tk_canonical_run_type (check_run_type as_str table (default_validator table) (JStr s)) = k"
    by (simp_all add: check_name_valid default_validator_def new_validator_def registry_lookup_def)
qed

end
