(* ===== verification/Dispatch_Properties.thy ===== *)
theory Dispatch_Properties
  imports Dispatch_Facts
begin

text \<open>
  Properties of the dispatch helpers: the registry of discovered operations, the validation of
  a run type, the schema hints, the preflight gate, and what publishing a mistake changes.
\<close>

section \<open>The registry\<close>

text \<open>
  The registry implements the relation "this identifier names this operation": building it
  fails exactly when two operations share an identifier, and a registry resolves a name, up to
  surrounding whitespace, to exactly the operation that advertises it.
\<close>

theorem registry_refines_advertised:
  "case build_registry repr ops of
     Inl e \<Rightarrow> \<exists>i j x. i < j \<and> j < length ops \<and> x \<in> set (identifiers (ops ! i)) \<and> x \<in> set (identifiers (ops ! j))
   | Inr g \<Rightarrow> og_operations g = ops \<and>
       \<not> (\<exists>i j x. i < j \<and> j < length ops \<and> x \<in> set (identifiers (ops ! i)) \<and> x \<in> set (identifiers (ops ! j))) \<and>
       (\<forall>s d. resolve_operation g s = Some d \<longleftrightarrow> d \<in> set ops \<and> py_strip s \<in> set (identifiers d))"
proof (cases "build_registry repr ops")
  case (Inl e)
  with build_registry_spec [of ops repr] show ?thesis
    by (auto simp: identifiers_at_def split: if_splits)
next
  case (Inr g)
  with build_registry_spec [of ops repr] have g: "og_operations g = ops" "index_of ops (og_by_identifier g)"
    by simp_all
  have unique: "\<not> (\<exists>i j x. i < j \<and> j < length ops \<and> x \<in> set (identifiers (ops ! i)) \<and> x \<in> set (identifiers (ops ! j)))"
  proof
    assume "\<exists>i j x. i < j \<and> j < length ops \<and> x \<in> set (identifiers (ops ! i)) \<and> x \<in> set (identifiers (ops ! j))"
    then obtain i j x where "i < j" "j < length ops" "x \<in> set (identifiers (ops ! i))" "x \<in> set (identifiers (ops ! j))"
      by blast
    then have "x \<in> identifiers_at ops i" "x \<in> identifiers_at ops j" by (simp_all add: identifiers_at_def)
    from index_of_disjoint [OF g(2) this] \<open>i < j\<close> show False by simp
  qed
  show ?thesis using Inr g(1) unique index_of_lookup [OF g(2)] by (simp add: resolve_operation_def)
qed

section \<open>Validation\<close>

text \<open>
  A run type is accepted exactly when its stripped form is a discovered identifier or a
  canonical name, and then stands for the discovered canonical type or for itself. A rejected
  name is never replaced: it resolves to itself as given. Suggestions of a rejected name are
  the published ones, or at most three canonical names of the same family.
\<close>

theorem check_never_autocorrects:
  fixes fstr :: "json \<Rightarrow> string" and table v s
  defines "r \<equiv> check_run_type fstr table v (JStr s)"
  shows "(tk_status r = TypeValid \<longleftrightarrow>
           py_strip s \<noteq> [] \<and> (registry_lookup (rv_registry v) (py_strip s) \<noteq> None \<or> py_strip s \<in> set (rv_canonical v)))
    \<and> (tk_status r = TypeValid \<longrightarrow>
         tk_canonical_run_type r =
           (case registry_lookup (rv_registry v) (py_strip s) of
              Some d \<Rightarrow> od_canonical_run_type d | None \<Rightarrow> py_strip s))
    \<and> (tk_status r \<noteq> TypeValid \<longrightarrow>
         resolve_run_type table \<lparr>dp_validator = v, dp_schema = h\<rparr> s = s)
    \<and> (tk_status r = TypeInvalid \<and> py_strip s \<noteq> [] \<longrightarrow>
         suggestions_in table (rv_mistakes v) (py_strip s) = Some (tk_suggestions r)
         \<or> (set (tk_suggestions r) \<subseteq> {c \<in> set (rv_canonical v). close_match (py_strip s) c}
            \<and> length (tk_suggestions r) \<le> 3 \<and> tk_suggestions r \<noteq> []))"
proof (cases "py_strip s = []")
  case True
  then show ?thesis by (simp add: r_def resolve_run_type_def not_a_name_def)
next
  case False
  then have r: "r = check_name table v (py_strip s)" by (simp add: r_def)
  have sugg: "suggestions_in table (rv_mistakes v) (py_strip s) = Some (tk_suggestions r)
      \<or> (set (tk_suggestions r) \<subseteq> {c \<in> set (rv_canonical v). close_match (py_strip s) c}
         \<and> length (tk_suggestions r) \<le> 3 \<and> tk_suggestions r \<noteq> [])" if "tk_status r = TypeInvalid"
    using check_name_suggestions [OF that [unfolded r]] close_matches_sound [of v "py_strip s"]
    unfolding r by auto
  show ?thesis
    using False sugg unfolding r
    by (auto simp: check_name_valid resolve_run_type_def split: option.splits)
qed

theorem check_never_autocorrects_witness:
  "tk_status (check_run_type as_str known_mistakes (default_validator known_mistakes) (JStr ''gaps.states'')) = TypeInvalid
   \<and> tk_suggestions (check_run_type as_str known_mistakes (default_validator known_mistakes) (JStr ''gaps.states''))
       = [''gaps.status'']
   \<and> resolve_run_type known_mistakes \<lparr>dp_validator = default_validator known_mistakes, dp_schema = default_helper\<rparr>
       ''gaps.states'' = ''gaps.states''"
proof -
  let ?v = "default_validator known_mistakes"
  have st: "tk_status (check_run_type as_str known_mistakes ?v (JStr ''gaps.states'')) = TypeInvalid"
    by code_simp
  have su: "tk_suggestions (check_run_type as_str known_mistakes ?v (JStr ''gaps.states'')) = [''gaps.status'']"
    by code_simp
  note p = check_never_autocorrects [of as_str known_mistakes ?v "''gaps.states''" default_helper]
  from p [THEN conjunct2, THEN conjunct2, THEN conjunct1] st su show ?thesis by simp
qed

section \<open>Schema hints\<close>

text \<open>
  The hint for any name, from a helper built from any capabilities: an unavailable hint
  states no parameters, no example and no schema; an available one names its canonical run
  type and its source, which is the live contract exactly when it carries an input schema.
\<close>

theorem hint_never_fabricated:
  fixes run_type :: string
  assumes "helper_from_capabilities fstr repr caps = Some h"
  defines "hint \<equiv> get_hint h run_type"
  shows "if sh_available hint
    then sh_canonical_run_type hint \<noteq> [] \<and>
         sh_schema_source hint \<in> {''static'', ''static_fallback'', ''live_capabilities''} \<and>
         (sh_schema_source hint = ''live_capabilities'' \<longleftrightarrow> sh_input_schema hint \<noteq> [])
    else sh_required_params hint = [] \<and> sh_optional_params hint = [] \<and> sh_example hint = [] \<and>
         sh_input_schema hint = [] \<and> sh_output_schema hint = []"
proof -
  from assms(1) obtain reg where reg: "registry_from_capabilities fstr repr (cv_operations caps) = Some reg"
    and h: "h = \<lparr>sc_schemas = fold add_surface (list_strings (cv_surfaces caps)) known_schemas,
                 sc_registry = (case reg of Inl e \<Rightarrow> None | Inr g \<Rightarrow> Some g)\<rparr>"
    by (auto simp: helper_from_capabilities_def Let_def)
  have table: "list_all (\<lambda>(k, h). table_hint h \<and> k \<noteq> []) (sc_schemas h)"
    using fold_add_surface_table [OF known_schemas_table] by (simp add: h)
  have entry: "table_hint e \<and> k \<noteq> []" if "dict_get (sc_schemas h) k = Some e" for k e
    using table map_of_SomeD [OF that [unfolded dict_get_def]] by (auto simp: list_all_iff)
  have "honest_hint hint"
  proof (cases "registry_lookup (sc_registry h) run_type")
    case None
    then show ?thesis using honest_static [OF entry] by (simp add: hint_def get_hint_def)
  next
    case (Some d)
    then obtain g where "reg = Inr g" "resolve_operation g run_type = Some d"
      by (auto simp: registry_lookup_def h split: sum.splits)
    with reg registry_from_capabilities_named have "od_canonical_run_type d \<noteq> []" by blast
    from honest_discovered [OF entry this] Some show ?thesis by (simp add: hint_def get_hint_def)
  qed
  then show ?thesis by (simp add: honest_hint_def)
qed

theorem hint_never_fabricated_witness:
  "sh_example (get_hint \<lparr>sc_schemas = known_schemas, sc_registry = Some \<lparr>og_operations = [], og_by_identifier = []\<rparr>\<rparr>
     ''gaps.unheard'') = []"
proof -
  let ?caps = "\<lparr>cv_surfaces = JNull, cv_mistakes = JNull, cv_operations = []\<rparr>"
  let ?h = "\<lparr>sc_schemas = known_schemas, sc_registry = Some \<lparr>og_operations = [], og_by_identifier = []\<rparr>\<rparr>"
  have h: "helper_from_capabilities as_str (\<lambda>s. s) ?caps = Some ?h"
    by (simp add: helper_from_capabilities_def list_strings_def registry_from_capabilities_def build_registry_def)
  have "\<not> sh_available (get_hint ?h ''gaps.unheard'')" by code_simp
  with hint_never_fabricated [OF h, of "''gaps.unheard''"] show ?thesis by simp
qed

text \<open>
  The static tables agree: every canonical run type has an available schema whose example
  names that run type and whose parameters pass the preflight, with the same run type.
\<close>

theorem canonical_examples_pass:
  assumes "k \<in> set canonical_run_types"
  defines "hint \<equiv> get_hint default_helper k"
  shows "sh_available hint \<and> sh_canonical_run_type hint = k \<and>
    preflight_check table (default_preflight table) k (Some (as_dict (json_get (sh_example hint) ''params''))) =
      \<lparr>pf_status = PreflightPass, pf_run_type = k,
       pf_reason = ''Run type is canonical and parameters are valid.'', pf_suggested_next_step = [],
       pf_warnings = []\<rparr>"
proof -
  from default_static_hint [OF assms(1)] obtain e where e: "(k, e) \<in> set known_schemas"
    "hint = e\<lparr>sh_schema_source := ''static'', sh_canonical_run_type := k, sh_operation_name := k\<rparr>"
    by (auto simp: hint_def)
  let ?params = "as_dict (json_get (sh_example hint) ''params'')"
  have fields: "sh_available e" "sh_input_schema e = []"
    using known_hint_fields e(1) by (auto simp: list_all_iff)
  have given: "list_all (\<lambda>r. dict_get ?params r \<noteq> None) (sh_required_params e)"
    using schema_examples_complete e by (auto simp: list_all_iff)
  have required: "required_of hint = sh_required_params e"
    by (simp add: required_of_def e(2) fields json_get_def dict_get_or_def list_strings_def)
  have params: "validate_params default_helper k (Some ?params) = []"
    unfolding validate_params_def hint_def [symmetric] Let_def required
    using given by (simp add: e(2) fields filter_empty_conv list_all_iff)
  have k: "k \<noteq> []" "py_strip k = k" using canonical_stripped assms(1) by (simp_all add: list_all_iff)
  note check = default_check_canonical [OF assms(1) k(2), of table]
  have "preflight_check table (default_preflight table) k (Some ?params) =
      params_verdict default_helper k k (validate_params default_helper k (Some ?params))"
    using preflight_check_valid [of table "default_preflight table" k "Some ?params"] check k(1)
    by (simp add: default_preflight_def str_or_def)
  with params show ?thesis by (simp add: e(2) fields params_verdict_def)
qed

theorem canonical_examples_pass_witness:
  "sh_canonical_run_type (get_hint default_helper ''gaps.claim'') = ''gaps.claim''"
proof -
  have "''gaps.claim'' \<in> set canonical_run_types" by (simp add: canonical_run_types_def)
  from canonical_examples_pass [OF this] show ?thesis by simp
qed

section \<open>The gate\<close>

text \<open>
  C22: A dispatch proceeds exactly when its run type is valid and no required parameter is
  reported missing; it then carries the canonical run type and the schema warnings, and a
  rejection keeps the name as supplied. Parameters are checked under the unstripped name: the
  padded name of a canonical type proceeds with any parameters, which the plain name does not.
\<close>

theorem preflight_gate_exact:
  "(let r = check_run_type as_str table (dp_validator p) (JStr s);
        q = preflight_check table p s params
    in (should_proceed q \<longleftrightarrow>
          tk_status r = TypeValid \<and> \<not> list_ex names_missing (validate_params (dp_schema p) s params)) \<and>
       (if tk_status r = TypeValid
        then pf_run_type q = str_or (tk_canonical_run_type r) s \<and> pf_warnings q = validate_params (dp_schema p) s params
        else pf_run_type q = s \<and> pf_warnings q = []))
   \<and> should_proceed (preflight_check table (default_preflight table) '' gaps.claim '' (Some params'))
   \<and> pf_run_type (preflight_check table (default_preflight table) '' gaps.claim '' (Some params')) = ''gaps.claim''
   \<and> \<not> should_proceed (preflight_check table (default_preflight table) ''gaps.claim'' (Some []))"
proof (intro conjI)
  let ?r = "check_run_type as_str table (dp_validator p) (JStr s)"
  show "let r = ?r; q = preflight_check table p s params
    in (should_proceed q \<longleftrightarrow>
          tk_status r = TypeValid \<and> \<not> list_ex names_missing (validate_params (dp_schema p) s params)) \<and>
       (if tk_status r = TypeValid
        then pf_run_type q = str_or (tk_canonical_run_type r) s \<and> pf_warnings q = validate_params (dp_schema p) s params
        else pf_run_type q = s \<and> pf_warnings q = [])"
  proof (cases "tk_status ?r = TypeValid")
    case True
    note valid = preflight_check_valid [OF True, of params]
    show ?thesis unfolding Let_def valid params_verdict_proceeds using True by simp
  next
    case False
    from preflight_check_invalid [OF False, of params] False show ?thesis
      unfolding Let_def by (simp add: should_proceed_def)
  qed
  have claim: "''gaps.claim'' \<in> set canonical_run_types" by (simp add: canonical_run_types_def)
  have strip: "py_strip '' gaps.claim '' = ''gaps.claim''" "py_strip ''gaps.claim'' = ''gaps.claim''" by code_simp+
  have padded: "preflight_check table (default_preflight table) '' gaps.claim '' (Some params') =
      params_verdict default_helper '' gaps.claim '' ''gaps.claim''
        (validate_params default_helper '' gaps.claim '' (Some params'))"
    using preflight_check_valid [of table "default_preflight table" "'' gaps.claim ''" "Some params'"]
      default_check_canonical [OF claim strip(1), of table]
    by (simp add: default_preflight_def)
  have unknown: "sh_available (get_hint default_helper '' gaps.claim '') = False" by code_simp
  have warn: "validate_params default_helper '' gaps.claim '' (Some params') = [schema_unavailable '' gaps.claim '']"
    by (simp add: validate_params_def unknown)
  have harmless: "names_missing (schema_unavailable '' gaps.claim '') = False" by code_simp
  show "should_proceed (preflight_check table (default_preflight table) '' gaps.claim '' (Some params'))"
    unfolding padded params_verdict_proceeds warn by (simp add: harmless)
  show "pf_run_type (preflight_check table (default_preflight table) '' gaps.claim '' (Some params')) = ''gaps.claim''"
    unfolding padded by simp
  have plain: "preflight_check table (default_preflight table) ''gaps.claim'' (Some []) =
      params_verdict default_helper ''gaps.claim'' ''gaps.claim''
        (validate_params default_helper ''gaps.claim'' (Some []))"
    using preflight_check_valid [of table "default_preflight table" "''gaps.claim''" "Some []"]
      default_check_canonical [OF claim strip(2), of table]
    by (simp add: default_preflight_def)
  have "validate_params default_helper ''gaps.claim'' (Some []) =
      [missing_warning ''gaps.claim'' ''gap_id'', missing_warning ''gaps.claim'' ''repo_name'']"
    by code_simp
  then show "\<not> should_proceed (preflight_check table (default_preflight table) ''gaps.claim'' (Some []))"
    unfolding plain params_verdict_proceeds by (simp add: names_missing_warning)
qed

section \<open>Published mistakes\<close>

text \<open>
  A validator built from capabilities shares the suggestion lists of the module's table: a
  correction that the boundary publishes for a known mistake is appended to the table itself,
  so that every validator already built, which knew nothing of it, suggests it too.
\<close>

theorem published_mistake_leaks:
  assumes "dict_get table bad = Some xs"
    and "parse_mistake item = Some (bad, good)" "bad \<noteq> []" "good \<noteq> []" "good \<notin> set xs"
    and "py_strip bad = bad" "bad \<notin> set (with_surfaces caps)" "cv_mistakes caps = JList [JStr item]"
  shows "case validator_from_capabilities fstr repr table caps of
    (v, table') \<Rightarrow>
      tk_suggestions (check_run_type fstr table (default_validator table) (JStr bad)) = xs \<and>
      tk_suggestions (check_run_type fstr table' (default_validator table) (JStr bad)) = xs @ [good]"
proof -
  have canon: "bad \<notin> set canonical_run_types"
  proof
    assume "bad \<in> set canonical_run_types"
    moreover have "set ys \<subseteq> set (fold List.insert ss ys)" for ss ys :: "string list"
      by (induction ss arbitrary: ys) (auto, metis List.set_insert insertCI subsetD)
    ultimately show False using assms(7) by (auto simp: with_surfaces_def)
  qed
  have known: "dict_get (copy_table table) bad = Some Shared" using assms(1) map_of_map [of "\<lambda>_. Shared" table]
    by (simp add: copy_table_def dict_get_def)
  then have same: "dict_setdefault bad (Own []) (copy_table table) = copy_table table"
    by (simp add: dict_setdefault_def)
  have step: "incorporate_mistake (with_surfaces caps) item (copy_table table, table) =
      (copy_table table, dict_set bad (xs @ [good]) table)"
    using assms same known
    by (simp add: incorporate_mistake_def add_suggestion_def Let_def append_new_def dict_get_or_def)
  have table': "snd (validator_from_capabilities fstr repr table caps) = dict_set bad (xs @ [good]) table"
    unfolding validator_from_capabilities_def Let_def
    by (simp add: assms(8) list_strings_def step)
  have default: "tk_suggestions (check_run_type fstr t (default_validator table) (JStr bad)) = ys"
    if "dict_get t bad = Some ys" for t ys
    using assms(3,6) canon known that
    by (cases "copy_table table")
      (auto simp: check_name_def default_validator_def new_validator_def registry_lookup_def static_check_def
        suggestions_in_def dict_get_or_def)
  obtain v where "validator_from_capabilities fstr repr table caps = (v, dict_set bad (xs @ [good]) table)"
    using table' by (metis prod.collapse)
  with default [OF assms(1)] default [of "dict_set bad (xs @ [good]) table"] show ?thesis by simp
qed

theorem published_mistake_leaks_witness:
  "tk_suggestions (check_run_type as_str
      (snd (validator_from_capabilities as_str (\<lambda>s. s) known_mistakes
        \<lparr>cv_surfaces = JNull, cv_mistakes = JList [JStr ''gaps.next (use gaps.list)''], cv_operations = []\<rparr>))
      (default_validator known_mistakes) (JStr ''gaps.next'')) = [''gaps.next_open_canonical'', ''gaps.list'']"
proof -
  let ?caps = "\<lparr>cv_surfaces = JNull, cv_mistakes = JList [JStr ''gaps.next (use gaps.list)''], cv_operations = []\<rparr>"
  have a: "dict_get known_mistakes ''gaps.next'' = Some [''gaps.next_open_canonical'']" by code_simp
  have c: "parse_mistake ''gaps.next (use gaps.list)'' = Some (''gaps.next'', ''gaps.list'')" by code_simp
  have d: "py_strip ''gaps.next'' = ''gaps.next''" by code_simp
  have e: "''gaps.next'' \<notin> set (with_surfaces ?caps)" by code_simp
  from published_mistake_leaks [OF a c _ _ _ d e, of as_str "\<lambda>s. s"] show ?thesis
    by (simp del: check_run_type.simps split: prod.splits)
qed

end
