(* ===== verification/Command_Result.thy ===== *)
theory Command_Result
  imports Keyhole_Prelude
begin

text \<open>
  What a command returns (\<open>keyhole_cli/result.py\<close>): its exit code, data and texts.
\<close>

definition exit_success :: int where "exit_success = 0"
definition exit_failure :: int where "exit_failure = 1"
definition exit_runtime_unavailable :: int where "exit_runtime_unavailable = 3"
definition exit_invalid_input :: int where "exit_invalid_input = 4"

record cli_result =
  cm_command :: string
  cm_success :: bool
  cm_exit_code :: int
  cm_data :: dict
  cm_warnings :: "string list"
  cm_next_steps :: "string list"
  cm_summary :: string

definition command_result_of ::
  "string \<Rightarrow> bool \<Rightarrow> int \<Rightarrow> dict \<Rightarrow> string list \<Rightarrow> string \<Rightarrow> cli_result" where
  "command_result_of command ok code data next_steps summary =
     \<lparr>cm_command = command, cm_success = ok, cm_exit_code = code, cm_data = data, cm_warnings = [],
      cm_next_steps = next_steps, cm_summary = summary\<rparr>"

definition result_to_dict :: "string \<Rightarrow> cli_result \<Rightarrow> dict" where
  "result_to_dict timestamp r =
     (let base = dict_update [(''command'', JStr (cm_command r)), (''success'', JBool (cm_success r))] (cm_data r);
          d1 = (if cm_warnings r \<noteq> [] then dict_set ''warnings'' (JList (map JStr (cm_warnings r))) base else base);
          d2 = (if cm_next_steps r \<noteq> [] then dict_set ''next_steps'' (JList (map JStr (cm_next_steps r))) d1 else d1);
          d3 = (if cm_summary r \<noteq> [] then dict_set ''summary'' (JStr (cm_summary r)) d2 else d2)
      in dict_set ''timestamp'' (JStr timestamp) d3)"

end
