(* ===== verification/Run_Dispatch.thy ===== *)
theory Run_Dispatch
  imports Dispatch_Preflight Run_Facts
begin

text \<open>
  Governed run dispatch (\<open>run_dispatch/\<close>): the request, the preflight of the run command, the
  dispatch through the governed transport with the classification of its answer, and the
  proof files. \<open>sx\<close> gives \<open>str(exc)\<close>, \<open>fstr\<close> is \<open>str\<close> on a JSON value.
\<close>

section \<open>The request\<close>

record run_request =
  rq_run_type :: string
  rq_repo_name :: json
  rq_shadow :: bool
  rq_context_ref :: "string option"
  rq_input_data :: json
  rq_correlation_id :: string
  rq_identity_fingerprint :: string
  rq_timestamp :: string

definition build_run_request ::
  "string \<Rightarrow> string \<Rightarrow> json \<Rightarrow> bool \<Rightarrow> string option \<Rightarrow> json \<Rightarrow> string \<Rightarrow> string \<Rightarrow> run_request" where
  "build_run_request now run_type repo_name shadow context_ref input_data correlation_id fingerprint =
     \<lparr>rq_run_type = run_type, rq_repo_name = repo_name, rq_shadow = shadow, rq_context_ref = context_ref,
      rq_input_data = input_data, rq_correlation_id = correlation_id,
      rq_identity_fingerprint = fingerprint, rq_timestamp = now\<rparr>"

definition to_payload :: "run_request \<Rightarrow> dict" where
  "to_payload q =
     [(''run_type'', JStr (rq_run_type q)), (''repo'', rq_repo_name q), (''shadow'', JBool (rq_shadow q))] @
     (if opt_truthy (rq_context_ref q)
      then [(''ctxpack_digest'', json_opt_str (rq_context_ref q)),
            (''context_ref'', json_opt_str (rq_context_ref q))] else []) @
     (if json_truthy (rq_input_data q) then [(''input'', rq_input_data q)] else []) @
     (if rq_correlation_id q \<noteq> [] then [(''correlation_id'', JStr (rq_correlation_id q))] else [])"

definition request_proof_dict :: "run_request \<Rightarrow> dict" where
  "request_proof_dict q =
     [(''run_type'', JStr (rq_run_type q)), (''repo'', rq_repo_name q), (''shadow'', JBool (rq_shadow q)),
      (''correlation_id'', JStr (rq_correlation_id q)),
      (''identity_fingerprint'', JStr (rq_identity_fingerprint q)), (''timestamp'', JStr (rq_timestamp q))] @
     (if opt_truthy (rq_context_ref q) then [(''context_ref'', json_opt_str (rq_context_ref q))] else []) @
     (if json_truthy (rq_input_data q) then [(''has_input'', JBool True)] else [])"

section \<open>Repair guidance\<close>

definition dispatch_repair_map :: "(string \<times> string list) list" where
  "dispatch_repair_map =
     [(''AuthenticationError'', [''Run: keyhole login'', ''Re-authenticate and try again.'']),
      (''TransportUnknownError'',
        [''Check network connectivity to the MCP boundary.'',
         ''Retry is safe '' @ mdash @ '' the operation has idempotency protection.'']),
      (''RetryExhaustedError'',
        [''The boundary is unavailable after all retry attempts.'',
         ''Wait and retry later. The operation preserved its idempotency key.'']),
      (''RuntimeUnavailableError'',
        [''The runtime returned an error. It may be temporarily unavailable.'', ''Try again later.'']),
      (''IdempotencyConflictError'',
        [''A different payload was sent with the same idempotency key.'',
         ''If this is a new operation, use a fresh idempotency key.'']),
      (''MissingIdempotencyKeyError'',
        [''This is an SDK-internal error. The write operation requires an idempotency key.'',
         ''Update the SDK to the latest version.'']),
      (''RateLimitedError'',
        [''You are being rate-limited by the boundary.'',
         ''Wait for the Retry-After period and try again.'']),
      (''PublicEndpointError'',
        [''The boundary rejected the request.'', ''Check the error detail for the specific reason.'',
         ''Run: keyhole validate '' @ mdash @ '' to check local declaration files.'']),
      (''ScaffoldMissing'',
        [''Run: keyhole init vertical'', ''Ensure you are in a governed repo directory.'']),
      (''InvalidRunType'',
        [''Choose a valid run-type from capabilities.'', ''Run: keyhole run --run-type <valid-type>'',
         ''Do not guess run-type names.'']),
      (''PreflightFailure'',
        [''Preflight checks failed before dispatch.'',
         ''Review the error reason and follow the repair guidance above.''])]"

definition map_repair_guidance :: "string \<Rightarrow> string list" where
  "map_repair_guidance error_class =
     (case dict_get dispatch_repair_map error_class of
        Some (g # gs) \<Rightarrow> g # gs
      | _ \<Rightarrow>
          [''Unexpected error: '' @ error_class,
           ''Try: keyhole run --shadow '' @ mdash @ '' for a low-risk first pass.'',
           ''Try: keyhole validate '' @ mdash @ '' to check local declaration files.''])"

section \<open>The outcome\<close>

datatype outcome_status =
  OutcomeSuccess | OutcomeAccepted | OutcomeDeferred | OutcomeRejected | OutcomeFailed | OutcomeTransportError

fun outcome_status_value :: "outcome_status \<Rightarrow> string" where
  "outcome_status_value OutcomeSuccess = ''success''"
| "outcome_status_value OutcomeAccepted = ''accepted''"
| "outcome_status_value OutcomeDeferred = ''deferred''"
| "outcome_status_value OutcomeRejected = ''rejected''"
| "outcome_status_value OutcomeFailed = ''failed''"
| "outcome_status_value OutcomeTransportError = ''transport_error''"

text \<open>Fields that repeat what the boundary sent are JSON values.\<close>

record run_outcome =
  ro_status :: outcome_status
  ro_run_type :: string
  ro_repo_name :: json
  ro_shadow :: bool
  ro_correlation_id :: string
  ro_run_id :: json
  ro_http_status :: int
  ro_response_data :: dict
  ro_proof :: "transport_proof option"
  ro_error_class :: json
  ro_reason :: json
  ro_repair_guidance :: "string list"
  ro_is_local_failure :: bool

definition run_outcome_of :: "outcome_status \<Rightarrow> run_request \<Rightarrow> int \<Rightarrow> run_outcome" where
  "run_outcome_of status q http =
     \<lparr>ro_status = status, ro_run_type = rq_run_type q, ro_repo_name = rq_repo_name q,
      ro_shadow = rq_shadow q, ro_correlation_id = rq_correlation_id q, ro_run_id = JNull,
      ro_http_status = http, ro_response_data = [], ro_proof = None, ro_error_class = JStr [],
      ro_reason = JStr [], ro_repair_guidance = [], ro_is_local_failure = False\<rparr>"

definition outcome_proof_dict :: "run_outcome \<Rightarrow> dict" where
  "outcome_proof_dict r =
     [(''status'', JStr (outcome_status_value (ro_status r))), (''run_type'', JStr (ro_run_type r)),
      (''repo'', ro_repo_name r), (''shadow'', JBool (ro_shadow r)),
      (''correlation_id'', JStr (ro_correlation_id r)), (''http_status'', JInt (ro_http_status r))] @
     (if json_truthy (ro_run_id r) then [(''run_id'', ro_run_id r)] else []) @
     (if json_truthy (ro_error_class r) then [(''error_class'', ro_error_class r)] else []) @
     (if json_truthy (ro_reason r) then [(''reason'', ro_reason r)] else []) @
     (if ro_repair_guidance r \<noteq> []
      then [(''repair_guidance'', JList (map JStr (ro_repair_guidance r)))] else []) @
     (case ro_proof r of None \<Rightarrow> [] | Some p \<Rightarrow> [(''transport_proof'', JObj (proof_to_dict p))])"

section \<open>Classification of an answer\<close>

definition extract_server_guidance :: "(json \<Rightarrow> string) \<Rightarrow> dict \<Rightarrow> string list" where
  "extract_server_guidance fstr data =
     (case dict_get data ''repair_guidance'' of Some (JList gs) \<Rightarrow> map fstr gs | _ \<Rightarrow> []) @
     (case dict_get data ''suggested_next_step'' of Some v \<Rightarrow> [fstr v] | None \<Rightarrow> []) @
     (case dict_get data ''hint'' of Some v \<Rightarrow> [fstr v] | None \<Rightarrow> [])"

text \<open>
  \<open>inner_data.get(k) if isinstance(inner_data, dict) else None\<close>, where \<open>inner_data\<close> is
  \<open>data.get("data") or {}\<close>.
\<close>

definition inner_get :: "dict \<Rightarrow> string \<Rightarrow> json" where
  "inner_get data k = json_get (as_dict (json_get data ''data'')) k"

definition answered_run_id :: "dict \<Rightarrow> json" where
  "answered_run_id data =
     json_or (json_get data ''run_id'') (json_or (json_get data ''id'') (inner_get data ''run_id''))"

definition answered_status :: "dict \<Rightarrow> json" where
  "answered_status data =
     json_or (json_get data ''status'') (json_or (inner_get data ''status'') (JStr []))"

definition outcome_family :: "int \<Rightarrow> string \<Rightarrow> outcome_status" where
  "outcome_family http server_status =
     (if http = 202 \<or> server_status \<in> {''accepted'', ''pending''} then OutcomeAccepted
      else if server_status = ''deferred'' then OutcomeDeferred
      else if server_status \<in> {''rejected'', ''error'', ''failed''} then OutcomeRejected
      else OutcomeSuccess)"

text \<open>A body that is no object, or a status that is no string, raises \<open>AttributeError\<close> (\<open>None\<close>).\<close>

definition classify_outcome :: "(json \<Rightarrow> string) \<Rightarrow> transport_result \<Rightarrow> run_request \<Rightarrow> run_outcome option" where
  "classify_outcome fstr result q =
     (case res_data result of
        JObj data \<Rightarrow>
          (case answered_status data of
             JStr s \<Rightarrow>
               (let status = outcome_family (res_status_code result) (py_lower s);
                    r = (run_outcome_of status q (res_status_code result))
                          \<lparr>ro_run_id := answered_run_id data, ro_response_data := data,
                           ro_proof := Some (res_proof result)\<rparr>
                in Some (if status = OutcomeRejected then
                           r\<lparr>ro_error_class := dict_get_or data ''error_class'' (JStr ''server_rejection''),
                             ro_reason := dict_get_or data ''reason'' (dict_get_or data ''message'' (JStr [])),
                             ro_repair_guidance := extract_server_guidance fstr data\<rparr>
                         else r))
           | _ \<Rightarrow> None)
      | _ \<Rightarrow> None)"

section \<open>Transport exceptions\<close>

text \<open>The request id and the key an exception carries, for the errors about idempotency.\<close>

fun attempt_identity :: "transport_error \<Rightarrow> (string \<times> string option) option" where
  "attempt_identity (MissingIdempotencyKeyError op rid) = Some (rid, None)"
| "attempt_identity (TransportUnknownError m rid key) = Some (rid, key)"
| "attempt_identity (IdempotencyConflictError m rid key d) = Some (rid, key)"
| "attempt_identity (RateLimitedError rid key ra) = Some (rid, key)"
| "attempt_identity (RetryExhaustedError m rid key n le) = Some (rid, key)"
| "attempt_identity _ = None"

fun error_status_code :: "transport_error \<Rightarrow> int" where
  "error_status_code (PublicEndpointError m code d) = code"
| "error_status_code _ = 0"

definition outcome_unknown :: "transport_error \<Rightarrow> bool" where
  "outcome_unknown e =
     (case e of
        TransportUnknownError m rid key \<Rightarrow> True
      | RetryExhaustedError m rid key n le \<Rightarrow> True
      | RuntimeUnavailableError m \<Rightarrow> True
      | _ \<Rightarrow> False)"

definition handle_transport_exception ::
  "(transport_error \<Rightarrow> string) \<Rightarrow> transport_error \<Rightarrow> run_request \<Rightarrow> run_outcome" where
  "handle_transport_exception sx e q =
     (run_outcome_of (if outcome_unknown e then OutcomeTransportError else OutcomeFailed) q (error_status_code e))
       \<lparr>ro_proof := map_option
          (\<lambda>(rid, key). (new_transport_proof key [] ''run.start'')\<lparr>tp_request_id := rid\<rparr>) (attempt_identity e),
        ro_error_class := JStr (transport_error_name e), ro_reason := JStr (sx e),
        ro_repair_guidance := map_repair_guidance (transport_error_name e)\<rparr>"

text \<open>One dispatch, with what the transport did.\<close>

definition dispatch_run ::
  "(json \<Rightarrow> string) \<Rightarrow> (transport_error \<Rightarrow> string) \<Rightarrow> transport_env \<Rightarrow> transport \<Rightarrow> run_request \<Rightarrow>
   run_outcome option \<times> exec_state" where
  "dispatch_run fstr sx env tr q =
     (case execute env builtin_registry tr ''POST'' ''/mcp/v1/runs/start'' ''run.start'' None [] of
        (Inl e, st) \<Rightarrow> (Some (handle_transport_exception sx e q), st)
      | (Inr result, st) \<Rightarrow> (classify_outcome fstr result q, st))"

section \<open>Preflight of the run command\<close>

record preflight_failure =
  pl_reason :: string
  pl_repair_guidance :: "string list"
  pl_is_local :: bool

definition failure_of :: "string \<Rightarrow> string list \<Rightarrow> preflight_failure" where
  "failure_of reason guidance = \<lparr>pl_reason = reason, pl_repair_guidance = guidance, pl_is_local = True\<rparr>"

definition run_preflight ::
  "bool \<Rightarrow> bool \<Rightarrow> mistake_table \<Rightarrow> dispatch_preflight \<Rightarrow> string \<Rightarrow> preflight_failure option" where
  "run_preflight authenticated scaffolded table p run_type =
     (if \<not> authenticated then
        Some (failure_of ''Not authenticated. Active credentials are missing or expired.''
          [''Run: keyhole login'', ''Re-authenticate and try again.''])
      else if \<not> scaffolded then
        Some (failure_of (''Missing keyhole.yaml '' @ mdash @ '' canonical scaffold not found.'')
          [''Run: keyhole init vertical'', ''Ensure you are in a governed repo directory.''])
      else
        (let r = preflight_check table p run_type None
         in if \<not> should_proceed r then
              Some (failure_of (''Run-type preflight rejected: '' @ pf_reason r)
                ((if pf_suggested_next_step r \<noteq> [] then [pf_suggested_next_step r] else []) @
                 [''Run: keyhole run --run-type <valid-type>'']))
            else if get_operation builtin_registry ''run.start'' = None then
              Some (failure_of (''Operation '' @ quoted ''run.start'' @ '' is not registered in the transport registry.'')
                [''This is an internal SDK error. Update the SDK.''])
            else None))"

text \<open>
  \<open>keyhole.yaml\<close> as the program sees it. \<open>safe_load\<close> is the YAML parser, \<open>None\<close> when it raises
  or is not installed.
\<close>

datatype yaml_file = NoYaml | UnreadableYaml | YamlText string

fun named_line :: "string list \<Rightarrow> string option" where
  "named_line [] = None"
| "named_line (l # ls) =
     (if starts_with ''name:'' (py_strip l)
      then map_option (\<lambda>(a, b). py_strip b) (split_once '':'' (py_strip l)) else named_line ls)"

definition yaml_repo_name :: "json option \<Rightarrow> json option" where
  "yaml_repo_name parsed =
     (case parsed of
        Some (JObj data) \<Rightarrow>
          (case dict_get_or data ''repo'' (JObj []) of
             JObj repo \<Rightarrow> Some (json_get repo ''name'')
           | _ \<Rightarrow> None)
      | _ \<Rightarrow> None)"

definition load_repo_name :: "(string \<Rightarrow> json option) \<Rightarrow> yaml_file \<Rightarrow> string \<Rightarrow> json" where
  "load_repo_name safe_load yaml dirname =
     (case yaml of
        NoYaml \<Rightarrow> JNull
      | UnreadableYaml \<Rightarrow> JStr dirname
      | YamlText t \<Rightarrow>
          (case yaml_repo_name (safe_load t) of
             Some v \<Rightarrow> v
           | None \<Rightarrow> (case named_line (py_splitlines t) of Some n \<Rightarrow> JStr n | None \<Rightarrow> JStr dirname)))"

section \<open>Proof files\<close>

text \<open>A path is the list of its components below the repository.\<close>

datatype proof_content = ProofJson dict | ProofText string

type_synonym proof_writes = "(string list \<times> proof_content) list"

definition dispatch_dirname :: "string \<Rightarrow> string" where
  "dispatch_dirname correlation_id = str_or (map safe_char correlation_id) ''unknown''"

definition summary_row :: "(json \<Rightarrow> string) \<Rightarrow> dict \<Rightarrow> string \<Rightarrow> string \<Rightarrow> bool \<Rightarrow> string list" where
  "summary_row fstr d key label ticked =
     (if json_truthy (json_get d key)
      then [''| '' @ label @ '' | '' @ (if ticked then ''`'' @ fstr (json_get d key) @ ''`'' else fstr (json_get d key)) @ '' |'']
      else [])"

text \<open>\<open>for g in outcome_dict["repair_guidance"]\<close>: the dispatcher always stores a list.\<close>

definition run_summary_lines :: "(json \<Rightarrow> string) \<Rightarrow> run_request \<Rightarrow> dict \<Rightarrow> string \<Rightarrow> string list" where
  "run_summary_lines fstr q d correlation_id =
     [''# Run Proof '' @ mdash @ '' '' @ correlation_id, [], ''| Field | Value |'', ''|-------|-------|'',
      ''| Run Type | `'' @ rq_run_type q @ ''` |'',
      ''| Repo | `'' @ fstr (rq_repo_name q) @ ''` |'',
      ''| Mode | '' @ (if rq_shadow q then ''SHADOW'' else ''GOVERNED'') @ '' |'',
      ''| Status | '' @ fstr (dict_get_or d ''status'' (JStr ''unknown'')) @ '' |'',
      ''| Correlation ID | `'' @ correlation_id @ ''` |'',
      ''| Timestamp | '' @ rq_timestamp q @ '' |''] @
     summary_row fstr d ''run_id'' ''Run ID'' True @
     summary_row fstr d ''error_class'' ''Error Class'' False @
     summary_row fstr d ''reason'' ''Reason'' False @
     (case json_get d ''repair_guidance'' of
        JList gs \<Rightarrow> if gs \<noteq> [] then [[], ''## Repair Guidance'', []] @ map (\<lambda>g. ''- '' @ fstr g) gs else []
      | _ \<Rightarrow> []) @
     [[]]"

definition render_run_summary :: "(json \<Rightarrow> string) \<Rightarrow> run_request \<Rightarrow> dict \<Rightarrow> string \<Rightarrow> string" where
  "render_run_summary fstr q d correlation_id = py_join [CHR 10] (run_summary_lines fstr q d correlation_id)"

definition core_run_dir :: "string \<Rightarrow> string list" where
  "core_run_dir correlation_id = [''proof_bundle'', ''core'', ''runs'', dispatch_dirname correlation_id]"

definition extended_run_dir :: "string \<Rightarrow> string list" where
  "extended_run_dir correlation_id = [''proof_bundle'', ''extended'', ''runs'', dispatch_dirname correlation_id]"

definition emit_run_proof ::
  "(json \<Rightarrow> string) \<Rightarrow> string \<Rightarrow> run_request \<Rightarrow> dict \<Rightarrow> string \<Rightarrow> dict option \<Rightarrow> string list \<times> proof_writes" where
  "emit_run_proof fstr now q outcome_dict correlation_id transport_proof =
     (let core = core_run_dir correlation_id;
          tp = (case transport_proof of None \<Rightarrow> [] | Some d \<Rightarrow> d)
      in (core,
          [(core @ [''request.json''], ProofJson (request_proof_dict q)),
           (core @ [''response.json''], ProofJson outcome_dict),
           (core @ [''correlation.json''], ProofJson
              ([(''correlation_id'', JStr correlation_id), (''run_type'', JStr (rq_run_type q)),
                (''repo'', rq_repo_name q), (''shadow'', JBool (rq_shadow q)),
                (''identity_fingerprint'', JStr (rq_identity_fingerprint q)),
                (''timestamp'', JStr (rq_timestamp q))] @
               (if tp \<noteq> [] then [(''transport'', JObj tp)] else []))),
           (core @ [''summary.md''], ProofText (render_run_summary fstr q outcome_dict correlation_id)),
           (extended_run_dir correlation_id @ [''debug.json''], ProofJson
              ([(''proof_written_at'', JStr now), (''correlation_id'', JStr correlation_id)] @
               (if tp \<noteq> [] then [(''transport_proof'', JObj tp)] else [])))]))"

end
