(* ===== verification/Context_Lifecycle.thy ===== *)
theory Context_Lifecycle
  imports Run_Dispatch
begin

text \<open>
  The context lifecycle (\<open>context_lifecycle/\<close>): digest shapes, the preflight checks, compile
  and inspect through the governed transport, the proof files and the local pointer to the
  last compiled context.
\<close>

section \<open>Digests\<close>

text \<open>
  \<open>re.match\<close> of \<open>^[class]{lo,hi}$\<close>: Python's \<open>$\<close> also matches before a final line feed, which
  is in none of the classes.
\<close>

definition class_match :: "(char \<Rightarrow> bool) \<Rightarrow> nat \<Rightarrow> nat \<Rightarrow> string \<Rightarrow> bool" where
  "class_match p lo hi s =
     (let b = (if s \<noteq> [] \<and> last s = CHR 10 then butlast s else s)
      in list_all p b \<and> lo \<le> length b \<and> length b \<le> hi)"

definition is_hex :: "char \<Rightarrow> bool" where
  "is_hex c = (let n = code_of c in
     (48 \<le> n \<and> n \<le> 57) \<or> (97 \<le> n \<and> n \<le> 102) \<or> (65 \<le> n \<and> n \<le> 70))"

definition is_lower_alnum :: "char \<Rightarrow> bool" where
  "is_lower_alnum c = (let n = code_of c in (97 \<le> n \<and> n \<le> 122) \<or> (48 \<le> n \<and> n \<le> 57))"

lemma is_hex_bits [code]:
  "is_hex (Char b0 b1 b2 b3 b4 b5 b6 b7) =
     (\<not> b7 \<and> (if b6 then \<not> b4 \<and> \<not> b3 \<and> (b0 \<or> b1 \<or> b2) \<and> \<not> (b0 \<and> b1 \<and> b2)
        else b5 \<and> b4 \<and> (\<not> b3 \<or> \<not> b2 \<and> \<not> b1)))"
  unfolding is_hex_def code_of_Char Let_def
  by (cases b0; cases b1; cases b2; cases b3; cases b4; cases b5; cases b6; cases b7) simp_all

lemma is_lower_alnum_bits [code]:
  "is_lower_alnum (Char b0 b1 b2 b3 b4 b5 b6 b7) =
     (\<not> b7 \<and> (if b6 then b5 \<and> letter_bits b0 b1 b2 b3 b4 else b5 \<and> b4 \<and> (\<not> b3 \<or> \<not> b2 \<and> \<not> b1)))"
  unfolding is_lower_alnum_def code_of_Char Let_def letter_bits_def
  by (cases b0; cases b1; cases b2; cases b3; cases b4; cases b5; cases b6; cases b7) simp_all

definition is_url_safe :: "char \<Rightarrow> bool" where
  "is_url_safe c = (py_isalnum c \<or> c = CHR ''_'' \<or> c = CHR ''-'')"

definition hex_digest :: "string \<Rightarrow> bool" where
  "hex_digest = class_match is_hex 16 128"

definition prefixed_digest :: "string \<Rightarrow> bool" where
  "prefixed_digest s =
     (case split_once '':'' s of
        None \<Rightarrow> False
      | Some (a, b) \<Rightarrow> a \<noteq> [] \<and> list_all is_lower_alnum a \<and> class_match is_hex 16 128 b)"

definition en_dash :: string where
  "en_dash = [CHR 0xE2, CHR 0x80, CHR 0x93]"

definition validate_digest :: "(string \<Rightarrow> string) \<Rightarrow> string \<Rightarrow> string option" where
  "validate_digest repr digest =
     (if digest = [] then Some ''Digest is empty.''
      else if digest = ''auto'' then None
      else if hex_digest digest \<or> prefixed_digest digest then None
      else if class_match is_url_safe 16 128 digest then None
      else Some (''Malformed digest: '' @ repr digest @ ''. Expected a hex string (32'' @ en_dash @
                 ''128 chars) or prefixed format (e.g. sha256:<hex>).''))"

definition is_auto :: "string \<Rightarrow> bool" where
  "is_auto digest = (py_lower (py_strip digest) = ''auto'')"

section \<open>Repair guidance\<close>

definition context_repair_map :: "(string \<times> string list) list" where
  "context_repair_map =
     [(''AuthenticationError'', [''Run: keyhole login'', ''Re-authenticate and try again.'']),
      (''TransportUnknownError'',
        [''Check network connectivity to the MCP boundary.'',
         ''Retry is safe for context compile (read-only operation).'']),
      (''RetryExhaustedError'',
        [''The boundary is unavailable after all retry attempts.'', ''Wait and retry later.'']),
      (''RuntimeUnavailableError'',
        [''The runtime returned an error. It may be temporarily unavailable.'', ''Try again later.'']),
      (''RateLimitedError'',
        [''You are being rate-limited by the boundary.'',
         ''Wait for the Retry-After period and try again.'']),
      (''unknown_digest'',
        [''The requested digest is not known to the boundary.'',
         ''Run: keyhole context compile '' @ mdash @ '' to compile a fresh context.'',
         ''Run: keyhole context inspect --digest <digest> '' @ mdash @ '' to verify a known digest.'']),
      (''stale_digest'',
        [''The requested digest is stale or expired.'',
         ''Run: keyhole context compile '' @ mdash @ '' to compile a fresh context.'']),
      (''malformed_digest'',
        [''The digest format is invalid.'',
         ''Expected a hex string (32'' @ en_dash @ ''128 chars) or prefixed format (e.g. sha256:<hex>).'']),
      (''compile_rejected'',
        [''The boundary rejected the context compile request.'',
         ''Check that the repo scaffold and declarations are valid.'',
         ''Run: keyhole init vertical '' @ mdash @ '' if the scaffold is missing.'']),
      (''missing_context'',
        [''Governed runs require explicit context binding.'',
         ''Run: keyhole context compile '' @ mdash @ '' to compile context first.'',
         ''Or use: keyhole run --context auto '' @ mdash @ '' to compile and bind automatically.'']),
      (''incompatible_context'',
        [''The context digest is incompatible with the requested run type.'',
         ''Run: keyhole context compile '' @ mdash @ '' to compile a fresh, compatible context.'']),
      (''ScaffoldMissing'',
        [''Run: keyhole init vertical'', ''Ensure you are in a governed repo directory.'']),
      (''ContextPreflightFailure'',
        [''Preflight checks failed before context operation.'',
         ''Review the error reason and follow the repair guidance above.'']),
      (''inspect_failed'',
        [''Context inspection failed.'', ''Verify the digest is correct.'',
         ''Run: keyhole context compile '' @ mdash @ '' to get a valid digest.'']),
      (''PublicEndpointError'',
        [''The boundary rejected the request.'', ''Check the error detail for the specific reason.'']),
      (''IdempotencyConflictError'',
        [''A different payload was sent with the same idempotency key.'',
         ''Retry the operation '' @ mdash @ '' a fresh key will be generated.''])]"

definition map_context_repair :: "string \<Rightarrow> string list" where
  "map_context_repair error_class =
     (case dict_get context_repair_map error_class of
        Some (g # gs) \<Rightarrow> g # gs
      | _ \<Rightarrow>
          [''Unexpected context error: '' @ error_class,
           ''Run: keyhole context compile '' @ mdash @ '' to compile context.'',
           ''Run: keyhole context inspect --digest <digest> '' @ mdash @ '' to inspect a known digest.''])"

section \<open>Preflight\<close>

definition not_authenticated :: preflight_failure where
  "not_authenticated =
     failure_of ''Not authenticated. Active credentials are missing or expired.''
       [''Run: keyhole login'', ''Re-authenticate and try again.'']"

definition check_compile :: "bool \<Rightarrow> bool \<Rightarrow> preflight_failure option" where
  "check_compile authenticated scaffolded =
     (if \<not> authenticated then Some not_authenticated
      else if \<not> scaffolded then
        Some (failure_of (''Missing keyhole.yaml '' @ mdash @ '' canonical scaffold not found.'')
          [''Run: keyhole init vertical'', ''Ensure you are in a governed repo directory.''])
      else None)"

definition check_inspect :: "(string \<Rightarrow> string) \<Rightarrow> bool \<Rightarrow> string \<Rightarrow> preflight_failure option" where
  "check_inspect repr authenticated digest =
     (if \<not> authenticated then Some not_authenticated
      else if digest = [] then
        Some (failure_of ''No digest provided for inspection.''
          [''Run: keyhole context compile '' @ mdash @ '' to get a digest first.'',
           ''Or provide a known digest: keyhole context inspect --digest <digest>''])
      else map_option (\<lambda>error. failure_of error
          [''Provide a valid digest string.'',
           ''Run: keyhole context compile '' @ mdash @ '' to compile and get a valid digest.''])
        (validate_digest repr digest))"

definition check_run_context :: "(string \<Rightarrow> string) \<Rightarrow> string \<Rightarrow> preflight_failure option" where
  "check_run_context repr context =
     (if context = [] then
        Some (failure_of ''Governed runs require explicit context. No --context provided.''
          [''Run: keyhole context compile '' @ mdash @ '' to compile context first.'',
           ''Then: keyhole run --context <digest> --run-type <type>'',
           ''Or: keyhole run --context auto --run-type <type>''])
      else if is_auto context then None
      else map_option (\<lambda>error. failure_of error
          [''Provide a valid digest or use --context auto.'',
           ''Run: keyhole context compile '' @ mdash @ '' to get a valid digest.''])
        (validate_digest repr context))"

section \<open>Compile\<close>

record compile_request =
  cq_repo_name :: json
  cq_identity_fingerprint :: string
  cq_correlation_id :: string
  cq_timestamp :: string
  cq_mode :: string
  cq_origin :: string
  cq_purpose :: string
  cq_repo_metadata :: dict

definition build_compile_request ::
  "string \<Rightarrow> json \<Rightarrow> string \<Rightarrow> string \<Rightarrow> string \<Rightarrow> string \<Rightarrow> string \<Rightarrow> dict \<Rightarrow> compile_request" where
  "build_compile_request now repo_name fingerprint correlation_id mode origin purpose metadata =
     \<lparr>cq_repo_name = repo_name, cq_identity_fingerprint = fingerprint, cq_correlation_id = correlation_id,
      cq_timestamp = now, cq_mode = mode, cq_origin = origin, cq_purpose = purpose,
      cq_repo_metadata = metadata\<rparr>"

definition optional_str :: "string \<Rightarrow> string \<Rightarrow> dict" where
  "optional_str key v = (if v \<noteq> [] then [(key, JStr v)] else [])"

definition compile_payload :: "compile_request \<Rightarrow> dict" where
  "compile_payload q =
     [(''run_type'', JStr ''context.compile''),
      (''params'', JObj
        ([(''repo'', cq_repo_name q)] @
         optional_str ''mode'' (cq_mode q) @ optional_str ''origin'' (cq_origin q) @
         optional_str ''purpose'' (cq_purpose q) @ optional_str ''correlation_id'' (cq_correlation_id q) @
         (if cq_repo_metadata q \<noteq> [] then [(''repo_metadata'', JObj (cq_repo_metadata q))] else [])))]"

definition compile_proof_dict :: "compile_request \<Rightarrow> dict" where
  "compile_proof_dict q =
     [(''run_type'', JStr ''context.compile''), (''repo'', cq_repo_name q),
      (''identity_fingerprint'', JStr (cq_identity_fingerprint q)),
      (''correlation_id'', JStr (cq_correlation_id q)), (''timestamp'', JStr (cq_timestamp q)),
      (''mode'', JStr (cq_mode q)), (''origin'', JStr (cq_origin q)), (''purpose'', JStr (cq_purpose q))]"

record compile_result =
  cr_success :: bool
  cr_ctxpack_digest :: json
  cr_repo_name :: json
  cr_summary :: json
  cr_metadata :: dict
  cr_http_status :: int
  cr_response_data :: dict
  cr_proof :: "transport_proof option"
  cr_error_class :: json
  cr_reason :: json
  cr_repair_guidance :: "string list"
  cr_correlation_id :: string

definition compile_result_of :: "bool \<Rightarrow> compile_request \<Rightarrow> int \<Rightarrow> compile_result" where
  "compile_result_of ok q http =
     \<lparr>cr_success = ok, cr_ctxpack_digest = JStr [], cr_repo_name = cq_repo_name q, cr_summary = JStr [],
      cr_metadata = [], cr_http_status = http, cr_response_data = [], cr_proof = None,
      cr_error_class = JStr [], cr_reason = JStr [], cr_repair_guidance = [],
      cr_correlation_id = cq_correlation_id q\<rparr>"

text \<open>\<open>data.get("status", "").lower()\<close>: \<open>None\<close> when the value is no string.\<close>

definition status_lower :: "dict \<Rightarrow> string option" where
  "status_lower data =
     (case dict_get_or data ''status'' (JStr []) of JStr s \<Rightarrow> Some (py_lower s) | _ \<Rightarrow> None)"

text \<open>The digest at the top level, then in the passport envelope, which must then be an object.\<close>

definition top_digest :: "dict \<Rightarrow> json option" where
  "top_digest data =
     (let v = first_truthy [json_get data ''ctxpack_digest'', json_get data ''digest'',
                            json_get data ''ctx_ref_sha256'']
      in if json_truthy v then Some v
         else (case json_or (json_get data ''keyhole'') (JObj []) of
                 JObj k \<Rightarrow> Some (first_truthy [json_get k ''ctx_ref_sha256''])
               | _ \<Rightarrow> None))"

definition pick_keys :: "string list \<Rightarrow> dict \<Rightarrow> dict \<Rightarrow> dict" where
  "pick_keys keys from into =
     fold (\<lambda>k m. case dict_get from k of Some v \<Rightarrow> dict_set k v m | None \<Rightarrow> m) keys into"

definition pick_new_keys :: "string list \<Rightarrow> dict \<Rightarrow> dict \<Rightarrow> dict" where
  "pick_new_keys keys from into =
     fold (\<lambda>k m. case dict_get from k of Some v \<Rightarrow> dict_setdefault k v m | None \<Rightarrow> m) keys into"

definition compile_metadata :: "dict \<Rightarrow> dict" where
  "compile_metadata data =
     (let m = pick_keys [''lane'', ''lens'', ''tenant'', ''org'', ''workspace'', ''generated_at'',
                         ''retrieved_at'', ''server_time''] data []
      in pick_new_keys [''lane'', ''lens'', ''tenant'', ''org'', ''workspace'', ''generated_at'', ''summary'']
           (as_dict (json_get data ''data'')) m)"

definition inner_digest :: "dict \<Rightarrow> json \<Rightarrow> json" where
  "inner_digest data found =
     (case json_get data ''data'' of
        JObj inner \<Rightarrow>
          (if json_truthy found then found
           else first_truthy [json_get inner ''ctxpack_digest'', json_get inner ''digest'',
                              json_get inner ''ctx_ref_sha256''])
      | _ \<Rightarrow> found)"

definition compiled_result ::
  "(json \<Rightarrow> string) \<Rightarrow> dict \<Rightarrow> json \<Rightarrow> string \<Rightarrow> transport_result \<Rightarrow> compile_request \<Rightarrow> compile_result" where
  "compiled_result fstr data found status result q =
     (if status \<in> {''rejected'', ''error'', ''failed''} then
        (compile_result_of False q (res_status_code result))
          \<lparr>cr_response_data := data, cr_proof := Some (res_proof result),
           cr_error_class := dict_get_or data ''error_class'' (JStr ''compile_rejected''),
           cr_reason := dict_get_or data ''reason'' (dict_get_or data ''message'' (JStr [])),
           cr_repair_guidance := extract_server_guidance fstr data\<rparr>
      else
        (compile_result_of True q (res_status_code result))
          \<lparr>cr_ctxpack_digest := inner_digest data found,
           cr_summary := json_or (json_get data ''summary'')
             (dict_get_or (compile_metadata data) ''summary'' (JStr [])),
           cr_metadata := compile_metadata data, cr_response_data := data,
           cr_proof := Some (res_proof result)\<rparr>)"

definition classify_compile_result ::
  "(json \<Rightarrow> string) \<Rightarrow> transport_result \<Rightarrow> compile_request \<Rightarrow> compile_result option" where
  "classify_compile_result fstr result q =
     (case res_data result of
        JObj data \<Rightarrow>
          (case (status_lower data, top_digest data) of
             (Some status, Some found) \<Rightarrow> Some (compiled_result fstr data found status result q)
           | _ \<Rightarrow> None)
      | _ \<Rightarrow> None)"

definition error_proof :: "string \<Rightarrow> transport_error \<Rightarrow> transport_proof option" where
  "error_proof command e =
     map_option (\<lambda>(rid, key). (new_transport_proof key [] command)\<lparr>tp_request_id := rid\<rparr>) (attempt_identity e)"

definition handle_compile_exception ::
  "(transport_error \<Rightarrow> string) \<Rightarrow> transport_error \<Rightarrow> compile_request \<Rightarrow> compile_result" where
  "handle_compile_exception sx e q =
     (compile_result_of False q (error_status_code e))
       \<lparr>cr_proof := error_proof ''context.compile'' e,
        cr_error_class := JStr (transport_error_name e), cr_reason := JStr (sx e),
        cr_repair_guidance := map_context_repair (transport_error_name e)\<rparr>"

definition compile_context_pack ::
  "(json \<Rightarrow> string) \<Rightarrow> (transport_error \<Rightarrow> string) \<Rightarrow> transport_env \<Rightarrow> transport \<Rightarrow> compile_request \<Rightarrow>
   compile_result option \<times> exec_state" where
  "compile_context_pack fstr sx env tr q =
     (case execute env builtin_registry tr ''POST'' ''/mcp/v1/runs/start'' ''context.compile'' None [] of
        (Inl e, st) \<Rightarrow> (Some (handle_compile_exception sx e q), st)
      | (Inr result, st) \<Rightarrow> (classify_compile_result fstr result q, st))"

section \<open>Inspect\<close>

record inspect_result =
  ir_success :: bool
  ir_ctxpack_digest :: json
  ir_summary :: json
  ir_repo_name :: json
  ir_tenant :: json
  ir_org :: json
  ir_workspace :: json
  ir_lane :: json
  ir_lens :: json
  ir_generated_at :: json
  ir_observed_at :: string
  ir_is_recent :: bool
  ir_is_run_bound :: bool
  ir_metadata :: dict
  ir_http_status :: int
  ir_response_data :: dict
  ir_proof :: "transport_proof option"
  ir_error_class :: json
  ir_reason :: json
  ir_repair_guidance :: "string list"

definition inspect_result_of :: "bool \<Rightarrow> json \<Rightarrow> int \<Rightarrow> inspect_result" where
  "inspect_result_of ok digest http =
     \<lparr>ir_success = ok, ir_ctxpack_digest = digest, ir_summary = JStr [], ir_repo_name = JStr [],
      ir_tenant = JStr [], ir_org = JStr [], ir_workspace = JStr [], ir_lane = JStr [], ir_lens = JStr [],
      ir_generated_at = JStr [], ir_observed_at = [], ir_is_recent = False, ir_is_run_bound = False,
      ir_metadata = [], ir_http_status = http, ir_response_data = [], ir_proof = None,
      ir_error_class = JStr [], ir_reason = JStr [], ir_repair_guidance = []\<rparr>"

definition inspect_line :: "(json \<Rightarrow> string) \<Rightarrow> string \<Rightarrow> json \<Rightarrow> string list" where
  "inspect_line fstr label v = (if json_truthy v then [''  '' @ label @ fstr v] else [])"

definition render_inspect :: "(json \<Rightarrow> string) \<Rightarrow> inspect_result \<Rightarrow> string" where
  "render_inspect fstr r =
     py_join [CHR 10]
       (if \<not> ir_success r then
          [''Context Inspect '' @ mdash @ '' FAILED'',
           ''  Digest: '' @ fstr (json_or (ir_ctxpack_digest r) (JStr ''(unknown)'')),
           ''  Error: '' @ fstr (ir_reason r)] @
          (if ir_repair_guidance r \<noteq> []
           then ''  Repair:'' # map (\<lambda>g. ''    - '' @ g) (ir_repair_guidance r) else [])
        else
          [''Context Inspect '' @ mdash @ '' OK'', ''  Digest:      '' @ fstr (ir_ctxpack_digest r)] @
          inspect_line fstr ''Summary:     '' (ir_summary r) @
          inspect_line fstr ''Repo:        '' (ir_repo_name r) @
          inspect_line fstr ''Tenant:      '' (ir_tenant r) @
          inspect_line fstr ''Org:         '' (ir_org r) @
          inspect_line fstr ''Workspace:   '' (ir_workspace r) @
          inspect_line fstr ''Lane:        '' (ir_lane r) @
          inspect_line fstr ''Lens:        '' (ir_lens r) @
          inspect_line fstr ''Generated:   '' (ir_generated_at r) @
          inspect_line fstr ''Observed:    '' (JStr (ir_observed_at r)) @
          (if ir_is_recent r then [''  Recent:      yes (most recently compiled)''] else []) @
          (if ir_is_run_bound r then [''  Run-bound:   yes''] else []))"

definition inspect_payload :: "string \<Rightarrow> json \<Rightarrow> dict" where
  "inspect_payload digest repo_name =
     [(''run_type'', JStr ''context.compile''),
      (''params'', JObj ([(''digest'', JStr digest), (''intent'', JStr ''inspect'')] @
                         (if json_truthy repo_name then [(''repo'', repo_name)] else [])))]"

text \<open>Here the guidance leaves out the hint.\<close>

definition inspect_guidance :: "(json \<Rightarrow> string) \<Rightarrow> dict \<Rightarrow> string list" where
  "inspect_guidance fstr data =
     (let g = (case dict_get data ''repair_guidance'' of Some (JList gs) \<Rightarrow> map fstr gs | _ \<Rightarrow> []) @
              (case dict_get data ''suggested_next_step'' of Some v \<Rightarrow> [fstr v] | None \<Rightarrow> [])
      in if g = [] then map_context_repair ''unknown_digest'' else g)"

definition inspected_keys :: "string list" where
  "inspected_keys =
     [''ctxpack_digest'', ''digest'', ''ctx_ref_sha256'', ''summary'', ''repo'', ''repo_name'', ''tenant'',
      ''org'', ''workspace'', ''lane'', ''lens'', ''generated_at'', ''status'']"

definition inspected_result ::
  "(json \<Rightarrow> string) \<Rightarrow> string \<Rightarrow> dict \<Rightarrow> string \<Rightarrow> transport_result \<Rightarrow> string \<Rightarrow> inspect_result" where
  "inspected_result fstr now data status result requested =
     (if status \<in> {''rejected'', ''error'', ''failed'', ''not_found''} then
        (inspect_result_of False (JStr requested) (res_status_code result))
          \<lparr>ir_response_data := data, ir_proof := Some (res_proof result),
           ir_error_class := dict_get_or data ''error_class'' (JStr ''inspect_failed''),
           ir_reason := dict_get_or data ''reason''
             (dict_get_or data ''message'' (JStr ''Unknown digest or inspect failure.'')),
           ir_repair_guidance := inspect_guidance fstr data\<rparr>
      else
        (let merged = dict_update data (as_dict (json_get data ''data''));
             field = (\<lambda>k. dict_get_or merged k (JStr []))
         in (inspect_result_of True
               (json_or (first_truthy [json_get merged ''ctxpack_digest'', json_get merged ''digest'',
                                       json_get merged ''ctx_ref_sha256'']) (JStr requested))
               (res_status_code result))
              \<lparr>ir_summary := field ''summary'',
               ir_repo_name := dict_get_or merged ''repo'' (field ''repo_name''),
               ir_tenant := field ''tenant'', ir_org := field ''org'', ir_workspace := field ''workspace'',
               ir_lane := field ''lane'', ir_lens := field ''lens'', ir_generated_at := field ''generated_at'',
               ir_observed_at := now,
               ir_metadata := filter (\<lambda>(k, v). k \<notin> set inspected_keys) merged,
               ir_response_data := data, ir_proof := Some (res_proof result)\<rparr>))"

definition classify_inspect_result ::
  "(json \<Rightarrow> string) \<Rightarrow> string \<Rightarrow> transport_result \<Rightarrow> string \<Rightarrow> inspect_result option" where
  "classify_inspect_result fstr now result requested =
     (case res_data result of
        JObj data \<Rightarrow>
          map_option (\<lambda>status. inspected_result fstr now data status result requested) (status_lower data)
      | _ \<Rightarrow> None)"

definition handle_inspect_exception ::
  "(transport_error \<Rightarrow> string) \<Rightarrow> transport_error \<Rightarrow> string \<Rightarrow> inspect_result" where
  "handle_inspect_exception sx e requested =
     (inspect_result_of False (JStr requested) (error_status_code e))
       \<lparr>ir_proof := error_proof ''context.inspect'' e,
        ir_error_class := JStr (transport_error_name e), ir_reason := JStr (sx e),
        ir_repair_guidance := map_context_repair (transport_error_name e)\<rparr>"

definition inspect_context ::
  "(json \<Rightarrow> string) \<Rightarrow> (transport_error \<Rightarrow> string) \<Rightarrow> string \<Rightarrow> transport_env \<Rightarrow> transport \<Rightarrow> string \<Rightarrow>
   inspect_result option \<times> exec_state" where
  "inspect_context fstr sx now env tr digest =
     (case execute env builtin_registry tr ''POST'' ''/mcp/v1/runs/start'' ''context.compile'' None [] of
        (Inl e, st) \<Rightarrow> (Some (handle_inspect_exception sx e digest), st)
      | (Inr result, st) \<Rightarrow> (classify_inspect_result fstr now result digest, st))"

section \<open>The recent context\<close>

text \<open>The pointer file: missing, unreadable, or a JSON value.\<close>

datatype recent_file = NoRecent | UnreadableRecent | RecentJson json

definition save_recent :: "string \<Rightarrow> string \<Rightarrow> json \<Rightarrow> string \<Rightarrow> recent_file" where
  "save_recent now digest repo_name correlation_id =
     RecentJson (JObj [(''ctxpack_digest'', JStr digest), (''repo_name'', repo_name),
                       (''correlation_id'', JStr correlation_id), (''observed_at'', JStr now)])"

definition load_recent :: "recent_file \<Rightarrow> dict option" where
  "load_recent f =
     (case f of
        RecentJson (JObj d) \<Rightarrow> if json_truthy (json_get d ''ctxpack_digest'') then Some d else None
      | _ \<Rightarrow> None)"

definition get_recent_digest :: "recent_file \<Rightarrow> json" where
  "get_recent_digest f =
     (case load_recent f of Some (kv # d) \<Rightarrow> json_get (kv # d) ''ctxpack_digest'' | _ \<Rightarrow> JNull)"

section \<open>Proof files\<close>

text \<open>
  \<open>_safe_dirname\<close> on whatever the boundary sent as a digest: iteration over a string, a list or
  the keys of an object, where an element that is no string raises (\<open>None\<close>).
\<close>

definition safe_part :: "string \<Rightarrow> string" where
  "safe_part c = (if (c \<noteq> [] \<and> list_all py_isalnum c) \<or> py_in c ''-_.'' then c else ''_'')"

fun all_strings :: "json list \<Rightarrow> string list option" where
  "all_strings [] = Some []"
| "all_strings (JStr s # xs) = map_option ((#) s) (all_strings xs)"
| "all_strings (_ # xs) = None"

definition context_dirname :: "json \<Rightarrow> string \<Rightarrow> string option" where
  "context_dirname digest correlation_id =
     (case iterate_json (first_truthy [digest, JStr correlation_id, JStr ''unknown'']) of
        None \<Rightarrow> None
      | Some cs \<Rightarrow> map_option (\<lambda>ws. str_or (concat (map safe_part ws)) ''unknown'') (all_strings cs))"

definition compile_response_proof :: "compile_result \<Rightarrow> dict" where
  "compile_response_proof r =
     [(''success'', JBool (cr_success r)), (''ctxpack_digest'', cr_ctxpack_digest r),
      (''http_status'', JInt (cr_http_status r)), (''correlation_id'', JStr (cr_correlation_id r))] @
     (if json_truthy (cr_error_class r) then [(''error_class'', cr_error_class r)] else []) @
     (if json_truthy (cr_reason r) then [(''reason'', cr_reason r)] else []) @
     (if cr_metadata r \<noteq> [] then [(''metadata'', JObj (cr_metadata r))] else [])"

definition table_row :: "(json \<Rightarrow> string) \<Rightarrow> string \<Rightarrow> json \<Rightarrow> string list" where
  "table_row fstr label v = (if json_truthy v then [''| '' @ label @ '' | '' @ fstr v @ '' |''] else [])"

definition compile_summary :: "(json \<Rightarrow> string) \<Rightarrow> compile_request \<Rightarrow> compile_result \<Rightarrow> string" where
  "compile_summary fstr q r =
     (let digest = fstr (json_or (cr_ctxpack_digest r) (JStr ''(none)''))
      in py_join [CHR 10]
        ([''# Context Compile Proof '' @ mdash @ '' '' @ digest, [], ''| Field | Value |'', ''|-------|-------|'',
          ''| Status | '' @ (if cr_success r then ''SUCCESS'' else ''FAILED'') @ '' |'',
          ''| Repo | `'' @ fstr (cq_repo_name q) @ ''` |'', ''| Digest | `'' @ digest @ ''` |'',
          ''| Correlation ID | `'' @ cr_correlation_id r @ ''` |'', ''| Timestamp | '' @ cq_timestamp q @ '' |'',
          ''| HTTP Status | '' @ str_int (cr_http_status r) @ '' |''] @
         table_row fstr ''Summary'' (cr_summary r) @ table_row fstr ''Error Class'' (cr_error_class r) @
         table_row fstr ''Reason'' (cr_reason r) @
         (if cr_repair_guidance r \<noteq> []
          then [[], ''## Repair Guidance'', []] @ map (\<lambda>g. ''- '' @ g) (cr_repair_guidance r) else []) @
         [[]] @
         (if cr_success r \<and> json_truthy (cr_ctxpack_digest r)
          then [''## Next Steps'', [], ''- Inspect: `keyhole context inspect --digest '' @ fstr (cr_ctxpack_digest r) @ ''`'',
                ''- Run: `keyhole run --context '' @ fstr (cr_ctxpack_digest r) @ '' --run-type <type>`'', []]
          else [])))"

definition emit_context_proof ::
  "(json \<Rightarrow> string) \<Rightarrow> string \<Rightarrow> compile_request \<Rightarrow> compile_result \<Rightarrow> (string list \<times> proof_writes) option" where
  "emit_context_proof fstr now q r =
     map_option
       (\<lambda>name.
         let core = [''proof_bundle'', ''core'', ''context'', name];
             extended = [''proof_bundle'', ''extended'', ''context'', name]
         in (core,
             [(core @ [''compile-request.json''], ProofJson (compile_proof_dict q)),
              (core @ [''compile-response.json''], ProofJson (compile_response_proof r)),
              (core @ [''summary.md''], ProofText (compile_summary fstr q r)),
              (extended @ [''debug.json''], ProofJson
                 ([(''proof_written_at'', JStr now), (''correlation_id'', JStr (cr_correlation_id r)),
                   (''repo'', cq_repo_name q)] @
                  (case cr_proof r of None \<Rightarrow> [] | Some p \<Rightarrow> [(''transport_proof'', JObj (proof_to_dict p))])))]))
       (context_dirname (cr_ctxpack_digest r) (cr_correlation_id r))"

definition emit_inspect_proof :: "string \<Rightarrow> dict \<Rightarrow> string list \<times> proof_writes" where
  "emit_inspect_proof digest inspect_data =
     (let dir = [''proof_bundle'', ''extended'', ''context'', dispatch_dirname (str_or digest ''unknown'')]
      in (dir, [(dir @ [''inspect-output.json''], ProofJson inspect_data)]))"

definition emit_context_binding_proof ::
  "string \<Rightarrow> string \<Rightarrow> string \<Rightarrow> string \<Rightarrow> bool \<Rightarrow> bool \<Rightarrow> string list \<times> proof_writes" where
  "emit_context_binding_proof now correlation_id digest run_type shadow auto_compiled =
     (core_run_dir correlation_id,
      [(core_run_dir correlation_id @ [''context-binding.json''], ProofJson
         [(''ctxpack_digest'', JStr digest), (''run_type'', JStr run_type),
          (''correlation_id'', JStr correlation_id), (''shadow'', JBool shadow),
          (''auto_compiled'', JBool auto_compiled), (''bound_at'', JStr now)])])"

end
