(* ===== verification/Capabilities.thy ===== *)
theory Capabilities
  imports Run_Type_Validator Transport_Client
begin

text \<open>
  The capabilities document (\<open>discovery/client.py\<close>, \<open>discovery/models.py\<close>): the fetch, the
  normalisation of each section, and the accessors. \<open>fstr\<close> is \<open>str\<close> on a JSON value. Building
  a section validates its types, as the model classes do; a failure is a \<open>ValidationError\<close>.
\<close>

section \<open>Sections\<close>

record contract_identity =
  ci_contract :: string
  ci_schema_versions :: "(string \<times> string) list"
  ci_operations_declared :: int
  ci_operations_implemented :: int

record compatibility_posture =
  cp_min_sdk_version :: string
  cp_envelope_version :: string
  cp_passport_version :: string
  cp_charter_required :: bool
  cp_workspace_supported :: bool

record transport_posture =
  tt_transport :: string
  tt_tombstoned_transports :: "string list"

record auth_posture =
  ap_auth_flow :: string
  ap_auth_realm :: string
  ap_discovery_endpoint :: string
  ap_identity_endpoint :: string
  ap_run_dispatch_endpoint :: string
  ap_event_query_endpoint :: string
  ap_supported_flows :: "string list"
  ap_preferred_interactive_flow :: string

definition supports_device_authorization :: "auth_posture \<Rightarrow> bool" where
  "supports_device_authorization a = (''device_authorization'' \<in> set (ap_supported_flows a))"

definition supports_pkce :: "auth_posture \<Rightarrow> bool" where
  "supports_pkce a = (''authorization_code_pkce'' \<in> set (ap_supported_flows a))"

record context_access =
  ca_implemented_surfaces :: "string list"
  ca_declared_count :: int
  ca_implemented_count :: int

definition all_implemented :: "context_access \<Rightarrow> bool" where
  "all_implemented c = (0 < ca_declared_count c \<and> ca_declared_count c = ca_implemented_count c)"

record client_guidance =
  gd_run_type_rule :: string
  gd_run_type_mistakes :: "string list"
  gd_gap_workflow_guidance :: string
  gd_event_query_guidance :: string

record surface_run_type =
  su_run_type :: string
  su_implemented :: bool
  su_read_only :: bool
  su_auth_required :: bool
  su_scope :: string
  su_description :: string

record surface_contract =
  sf_schema_version :: string
  sf_story_id :: string
  sf_required_scopes :: "(string \<times> string) list"
  sf_run_types :: "surface_run_type list"

definition no_surfaces :: surface_contract where
  "no_surfaces = \<lparr>sf_schema_version = [], sf_story_id = [], sf_required_scopes = [], sf_run_types = []\<rparr>"

definition surface_run_type_names :: "surface_contract \<Rightarrow> string list" where
  "surface_run_type_names s = filter (\<lambda>n. n \<noteq> []) (map su_run_type (sf_run_types s))"

record discovery_metadata =
  dm_generated_at :: string
  dm_digest :: string
  dm_ctx_ref_sha256 :: string
  dm_correlation_id :: string
  dm_server_time :: string

record capabilities_result =
  cb_contract :: contract_identity
  cb_compatibility :: compatibility_posture
  cb_transport :: transport_posture
  cb_auth :: auth_posture
  cb_features :: "(string \<times> bool) list"
  cb_context_access :: context_access
  cb_guidance :: client_guidance
  cb_metadata :: discovery_metadata
  cb_connection_surfaces :: surface_contract
  cb_operations :: "cap_item list"
  cb_raw :: dict

section \<open>Safe extraction\<close>

definition cap_str :: "(json \<Rightarrow> string) \<Rightarrow> dict \<Rightarrow> string \<Rightarrow> string" where
  "cap_str fstr d key = (case json_get d key of JNull \<Rightarrow> [] | v \<Rightarrow> fstr v)"

text \<open>A Boolean is an integer in Python.\<close>

definition cap_int :: "dict \<Rightarrow> string \<Rightarrow> int" where
  "cap_int d key =
     (case json_get d key of JInt i \<Rightarrow> i | JBool b \<Rightarrow> (if b then 1 else 0) | _ \<Rightarrow> 0)"

definition cap_bool :: "dict \<Rightarrow> string \<Rightarrow> bool" where
  "cap_bool d key = json_truthy (json_get d key)"

definition cap_list :: "dict \<Rightarrow> string \<Rightarrow> json list" where
  "cap_list d key = (case json_get d key of JList xs \<Rightarrow> xs | _ \<Rightarrow> [])"

definition cap_dict :: "dict \<Rightarrow> string \<Rightarrow> dict" where
  "cap_dict d key = as_dict (json_get d key)"

text \<open>Validation of \<open>List[str]\<close> and \<open>Dict[str, str]\<close>.\<close>

fun cap_str_list :: "json list \<Rightarrow> string list option" where
  "cap_str_list [] = Some []"
| "cap_str_list (JStr s # xs) = map_option ((#) s) (cap_str_list xs)"
| "cap_str_list (_ # xs) = None"

fun cap_str_dict :: "dict \<Rightarrow> (string \<times> string) list option" where
  "cap_str_dict [] = Some []"
| "cap_str_dict ((k, JStr s) # d) = map_option ((#) (k, s)) (cap_str_dict d)"
| "cap_str_dict (_ # d) = None"

section \<open>One extraction per section\<close>

definition capabilities_body :: "dict \<Rightarrow> dict" where
  "capabilities_body raw = (case json_get raw ''data'' of JObj d \<Rightarrow> d | _ \<Rightarrow> raw)"

definition extract_contract :: "(json \<Rightarrow> string) \<Rightarrow> dict \<Rightarrow> contract_identity option" where
  "extract_contract fstr raw =
     map_option
       (\<lambda>versions. \<lparr>ci_contract = cap_str fstr raw ''contract'', ci_schema_versions = versions,
          ci_operations_declared = cap_int raw ''operations_declared'',
          ci_operations_implemented =
            (if cap_int raw ''operations_implemented'' \<noteq> 0 then cap_int raw ''operations_implemented''
             else cap_int raw ''implemented_ops_count'')\<rparr>)
       (cap_str_dict (cap_dict raw ''schema_versions''))"

definition extract_compatibility :: "(json \<Rightarrow> string) \<Rightarrow> dict \<Rightarrow> compatibility_posture" where
  "extract_compatibility fstr raw =
     (let compat = cap_dict raw ''compatibility''
      in \<lparr>cp_min_sdk_version = cap_str fstr compat ''min_sdk_version'',
          cp_envelope_version = cap_str fstr compat ''envelope_version'',
          cp_passport_version = cap_str fstr compat ''passport_version'',
          cp_charter_required = cap_bool compat ''charter_required'',
          cp_workspace_supported = cap_bool compat ''workspace_supported''\<rparr>)"

definition extract_transport :: "(json \<Rightarrow> string) \<Rightarrow> dict \<Rightarrow> transport_posture option" where
  "extract_transport fstr raw =
     (let tp = cap_dict raw ''transport''
      in map_option
           (\<lambda>dead. \<lparr>tt_transport = str_or (cap_str fstr tp ''type'') (cap_str fstr raw ''transport''),
                   tt_tombstoned_transports = dead\<rparr>)
           (cap_str_list (cap_list tp ''tombstoned'')))"

fun first_run_dispatch :: "(json \<Rightarrow> string) \<Rightarrow> json list \<Rightarrow> string" where
  "first_run_dispatch fstr [] = []"
| "first_run_dispatch fstr (JObj op # ops) =
     (if cap_str fstr op ''path'' = ''/mcp/v1/runs/start'' \<or>
         cap_str fstr (cap_dict op ''canonical_endpoint'') ''path'' = ''/mcp/v1/runs/start''
      then ''/mcp/v1/runs/start'' else first_run_dispatch fstr ops)"
| "first_run_dispatch fstr (_ # ops) = first_run_dispatch fstr ops"

definition extract_auth :: "(json \<Rightarrow> string) \<Rightarrow> dict \<Rightarrow> auth_posture" where
  "extract_auth fstr raw =
     (let auth = cap_dict raw ''auth'';
          endpoints = cap_dict raw ''endpoints'';
          preflight = cap_dict (cap_dict raw ''governed_worker_sdk'') ''preflight''
      in \<lparr>ap_auth_flow = str_or (cap_str fstr auth ''flow'') (cap_str fstr auth ''auth_flow''),
          ap_auth_realm = str_or (cap_str fstr auth ''realm'') (cap_str fstr auth ''auth_realm''),
          ap_discovery_endpoint = str_or (cap_str fstr endpoints ''discovery'')
            (cap_str fstr (cap_dict preflight ''capabilities'') ''path''),
          ap_identity_endpoint = str_or (cap_str fstr endpoints ''identity'')
            (cap_str fstr (cap_dict preflight ''whoami'') ''path''),
          ap_run_dispatch_endpoint = str_or (cap_str fstr endpoints ''run_dispatch'')
            (first_run_dispatch fstr (cap_list raw ''operations'')),
          ap_event_query_endpoint = cap_str fstr endpoints ''event_query'',
          ap_supported_flows = filter (\<lambda>s. s \<noteq> []) (only_strings (cap_list auth ''supported_flows'')),
          ap_preferred_interactive_flow = cap_str fstr auth ''preferred_interactive_flow''\<rparr>)"

fun bool_flags :: "dict \<Rightarrow> (string \<times> bool) list" where
  "bool_flags [] = []"
| "bool_flags ((k, JBool b) # d) = (k, b) # bool_flags d"
| "bool_flags (_ # d) = bool_flags d"

definition extract_features :: "dict \<Rightarrow> (string \<times> bool) list" where
  "extract_features raw = bool_flags (cap_dict raw ''feature_flags'')"

definition extract_access_contract :: "dict \<Rightarrow> context_access option" where
  "extract_access_contract raw =
     (let ctx = cap_dict raw ''context_access''
      in map_option
           (\<lambda>surfaces. \<lparr>ca_implemented_surfaces = surfaces,
              ca_declared_count = cap_int ctx ''declared_count'',
              ca_implemented_count = cap_int ctx ''implemented_count''\<rparr>)
           (cap_str_list (cap_list ctx ''implemented'')))"

definition extract_client_guidance :: "(json \<Rightarrow> string) \<Rightarrow> dict \<Rightarrow> client_guidance option" where
  "extract_client_guidance fstr raw =
     (let guide = cap_dict raw ''client_guidance''
      in map_option
           (\<lambda>bad. \<lparr>gd_run_type_rule = cap_str fstr guide ''run_type_rule'', gd_run_type_mistakes = bad,
              gd_gap_workflow_guidance = cap_str fstr guide ''gap_workflow_guidance'',
              gd_event_query_guidance = cap_str fstr guide ''event_query_guidance''\<rparr>)
           (cap_str_list (cap_list guide ''run_type_mistakes'')))"

text \<open>\<open>envelope or raw\<close>: an empty envelope is the body itself.\<close>

definition metadata_field :: "(json \<Rightarrow> string) \<Rightarrow> dict \<Rightarrow> dict \<Rightarrow> string \<Rightarrow> string" where
  "metadata_field fstr raw envelope key =
     first_nonempty
       [cap_str fstr (cap_dict raw ''meta'') key, cap_str fstr (cap_dict envelope ''meta'') key,
        cap_str fstr raw key, cap_str fstr envelope key]"

definition extract_metadata :: "(json \<Rightarrow> string) \<Rightarrow> dict \<Rightarrow> dict \<Rightarrow> discovery_metadata" where
  "extract_metadata fstr raw envelope =
     (let env = (if envelope \<noteq> [] then envelope else raw)
      in \<lparr>dm_generated_at = metadata_field fstr raw env ''generated_at'',
          dm_digest = metadata_field fstr raw env ''digest'',
          dm_ctx_ref_sha256 = metadata_field fstr raw env ''ctx_ref_sha256'',
          dm_correlation_id = metadata_field fstr raw env ''correlation_id'',
          dm_server_time = metadata_field fstr raw env ''server_time''\<rparr>)"

definition surface_run_type_entry :: "(json \<Rightarrow> string) \<Rightarrow> dict \<Rightarrow> surface_run_type" where
  "surface_run_type_entry fstr rt =
     \<lparr>su_run_type = cap_str fstr rt ''run_type'', su_implemented = cap_bool rt ''implemented'',
      su_read_only = cap_bool rt ''read_only'', su_auth_required = cap_bool rt ''auth_required'',
      su_scope = cap_str fstr rt ''scope'', su_description = cap_str fstr rt ''description''\<rparr>"

fun surface_run_type_entries :: "(json \<Rightarrow> string) \<Rightarrow> json list \<Rightarrow> surface_run_type list" where
  "surface_run_type_entries fstr [] = []"
| "surface_run_type_entries fstr (JObj rt # rts) = surface_run_type_entry fstr rt # surface_run_type_entries fstr rts"
| "surface_run_type_entries fstr (_ # rts) = surface_run_type_entries fstr rts"

definition extract_connection_surfaces :: "(json \<Rightarrow> string) \<Rightarrow> dict \<Rightarrow> surface_contract option" where
  "extract_connection_surfaces fstr raw =
     (let own = cap_dict raw ''connection_surfaces'';
          cs = (if own \<noteq> [] then own else cap_dict (cap_dict raw ''data'') ''connection_surfaces'')
      in if cs = [] then Some no_surfaces
         else map_option
           (\<lambda>scopes. \<lparr>sf_schema_version = cap_str fstr cs ''schema_version'',
              sf_story_id = cap_str fstr cs ''story_id'', sf_required_scopes = scopes,
              sf_run_types = surface_run_type_entries fstr (cap_list cs ''run_types'')\<rparr>)
           (cap_str_dict (cap_dict cs ''required_scopes'')))"

section \<open>The fetch\<close>

datatype discovery_error =
  DiscoveryTransportError string | DiscoverySchemaError string | DiscoveryValidationError | DiscoveryTypeError

text \<open>
  Normalisation: a section of the wrong type is a validation error; the iteration over
  the aliases of an operation may raise \<open>TypeError\<close>.
\<close>

definition normalize_capabilities ::
  "(json \<Rightarrow> string) \<Rightarrow> dict \<Rightarrow> discovery_error + capabilities_result" where
  "normalize_capabilities fstr raw =
     (let body = capabilities_body raw
      in case (extract_contract fstr body, extract_transport fstr body, extract_access_contract body,
               extract_client_guidance fstr body, extract_connection_surfaces fstr body) of
           (Some contract, Some transport, Some access, Some guidance, Some surfaces) \<Rightarrow>
             (case normalize_operations_from_capabilities fstr raw of
                None \<Rightarrow> Inl DiscoveryTypeError
              | Some ops \<Rightarrow>
                  Inr \<lparr>cb_contract = contract, cb_compatibility = extract_compatibility fstr body,
                       cb_transport = transport, cb_auth = extract_auth fstr body,
                       cb_features = extract_features body, cb_context_access = access,
                       cb_guidance = guidance, cb_metadata = extract_metadata fstr body raw,
                       cb_connection_surfaces = surfaces, cb_operations = map CapOperation ops,
                       cb_raw = raw\<rparr>)
         | _ \<Rightarrow> Inl DiscoveryValidationError)"

definition fetch_raw :: "send_outcome \<Rightarrow> discovery_error + dict" where
  "fetch_raw answer =
     (case answer of
        SendFailed exc \<Rightarrow> Inl (DiscoveryTransportError (''Capabilities discovery failed: '' @ exc))
      | Responded r \<Rightarrow>
          (if resp_status r \<noteq> 200 then
             Inl (DiscoveryTransportError (''Capabilities endpoint returned '' @ str_int (resp_status r) @ '': '' @
                    take 200 (resp_text r)))
           else
             (case resp_json r of
                None \<Rightarrow> Inl (DiscoverySchemaError ''Capabilities response is not valid JSON'')
              | Some (JObj d) \<Rightarrow> Inr d
              | Some _ \<Rightarrow> Inl (DiscoverySchemaError ''Capabilities response is not a JSON object''))))"

definition fetch_capabilities :: "(json \<Rightarrow> string) \<Rightarrow> send_outcome \<Rightarrow> discovery_error + capabilities_result" where
  "fetch_capabilities fstr answer =
     (case fetch_raw answer of Inl e \<Rightarrow> Inl e | Inr raw \<Rightarrow> normalize_capabilities fstr raw)"

section \<open>Accessors\<close>

definition get_feature_flag :: "capabilities_result \<Rightarrow> string \<Rightarrow> bool option" where
  "get_feature_flag c name = map_of (cb_features c) name"

definition implemented_context_surfaces :: "capabilities_result \<Rightarrow> string list" where
  "implemented_context_surfaces c = ca_implemented_surfaces (cb_context_access c)"

definition contract_version :: "capabilities_result \<Rightarrow> string" where
  "contract_version c = ci_contract (cb_contract c)"

text \<open>The non-empty strings under some keys, and the non-empty aliases.\<close>

definition strings_under :: "string list \<Rightarrow> dict \<Rightarrow> string list" where
  "strings_under keys d = filter (\<lambda>s. s \<noteq> []) (only_strings (map (json_get d) keys))"

definition alias_strings :: "dict \<Rightarrow> string list" where
  "alias_strings d = filter (\<lambda>s. s \<noteq> []) (list_strings (json_get d ''aliases''))"

fun item_identifiers :: "cap_item \<Rightarrow> string list" where
  "item_identifiers (CapOperation d) = identifiers d"
| "item_identifiers (CapDict d) =
     strings_under [''operation_name'', ''operation_id'', ''name'', ''canonical_run_type'', ''run_type''] d @
     alias_strings d"
| "item_identifiers (CapStr s) = (if s \<noteq> [] then [s] else [])"
| "item_identifiers CapOther = []"

fun raw_identifiers :: "json list \<Rightarrow> string list" where
  "raw_identifiers [] = []"
| "raw_identifiers (JStr s # ops) = (if s \<noteq> [] then [s] else []) @ raw_identifiers ops"
| "raw_identifiers (JObj d # ops) =
     strings_under [''operation_id'', ''name'', ''canonical_run_type''] d @ alias_strings d @ raw_identifiers ops"
| "raw_identifiers (_ # ops) = raw_identifiers ops"

text \<open>\<open>_extract_nested_run_types\<close>: the declarations anywhere below the worker section.\<close>

fun nested_run_types :: "json \<Rightarrow> string list"
  and nested_in_items :: "(string \<times> json) list \<Rightarrow> string list"
  and nested_in_list :: "json list \<Rightarrow> string list" where
  "nested_run_types (JObj d) = nested_in_items d"
| "nested_run_types (JList xs) = nested_in_list xs"
| "nested_run_types _ = []"
| "nested_in_items [] = []"
| "nested_in_items ((key, item) # d) =
     (if key \<in> {''run_type'', ''canonical_run_type'', ''compatibility_check_run_type''}
      then (case item of JStr s \<Rightarrow> (if s \<noteq> [] then [s] else []) | _ \<Rightarrow> [])
      else if key \<in> {''logical_aliases'', ''aliases''}
      then (case item of JList xs \<Rightarrow> filter (\<lambda>s. s \<noteq> []) (only_strings xs) | _ \<Rightarrow> nested_run_types item)
      else nested_run_types item) @ nested_in_items d"
| "nested_in_list [] = []"
| "nested_in_list (x # xs) = nested_run_types x @ nested_in_list xs"

definition get_all_run_types_of :: "capabilities_result \<Rightarrow> string list" where
  "get_all_run_types_of c =
     (let body = capabilities_body (cb_raw c)
      in keep_first
           (concat (map item_identifiers (cb_operations c)) @
            (case dict_get_or body ''operations'' (JList []) of JList ops \<Rightarrow> raw_identifiers ops | _ \<Rightarrow> []) @
            nested_run_types (json_get body ''governed_worker_sdk'') @
            implemented_context_surfaces c @
            surface_run_type_names (cb_connection_surfaces c)))"

text \<open>What the dispatch helpers read of a result.\<close>

definition cap_view_of :: "capabilities_result \<Rightarrow> cap_view" where
  "cap_view_of c =
     \<lparr>cv_surfaces = JList (map JStr (ca_implemented_surfaces (cb_context_access c))),
      cv_mistakes = JList (map JStr (gd_run_type_mistakes (cb_guidance c))),
      cv_operations = cb_operations c\<rparr>"

end
