(* ===== verification/Capabilities_Cache.thy ===== *)
theory Capabilities_Cache
  imports Capabilities
begin

text \<open>
  The advisory cache of a capabilities result (\<open>discovery/cache.py\<close>). The clock, SHA-256, the
  JSON text of the raw response, the dump and the validation of the result model and the two
  directions of ISO timestamps are arguments; times are seconds.
\<close>

section \<open>The store\<close>

text \<open>What the cache file holds: nothing, text that is no JSON or cannot be read, or a JSON value.\<close>

datatype cache_file = NoCacheFile | UnreadableCache | CacheJson json

record cache_settings =
  cc_base_url :: string
  cc_ttl_seconds :: int
  cc_file :: string

definition new_cache :: "(string \<Rightarrow> string) \<Rightarrow> string \<Rightarrow> string \<Rightarrow> int \<Rightarrow> cache_settings" where
  "new_cache sha256 cache_file base_url ttl =
     (let url = py_rstrip_char (CHR ''/'') base_url
      in \<lparr>cc_base_url = url, cc_ttl_seconds = ttl,
          cc_file = (if base_url \<noteq> [] \<and> cache_file = ''capabilities_cache.json''
                     then ''capabilities_cache_'' @ take 16 (sha256 url) @ ''.json'' else cache_file)\<rparr>)"

text \<open>
  \<open>datetime.fromisoformat\<close> and \<open>isoformat\<close>: a parsed time without a zone is read as UTC, so both
  are functions between text and seconds.
\<close>

record cache_env =
  ce_sha256 :: "string \<Rightarrow> string"
  ce_raw_text :: "dict \<Rightarrow> string"
  ce_isoformat :: "rat \<Rightarrow> string"
  ce_fromisoformat :: "string \<Rightarrow> rat option"

definition expires_at :: "cache_settings \<Rightarrow> rat \<Rightarrow> rat" where
  "expires_at c now = now + of_int (max (cc_ttl_seconds c) 0)"

definition cache_envelope ::
  "cache_env \<Rightarrow> cache_settings \<Rightarrow> rat \<Rightarrow> (capabilities_result \<Rightarrow> dict) \<Rightarrow> capabilities_result \<Rightarrow> dict" where
  "cache_envelope env c now dump result =
     [(''base_url'', JStr (cc_base_url c)),
      (''server_identity'', JStr (contract_version result)),
      (''capability_contract_version'', JStr (contract_version result)),
      (''runtime_digest'', JStr (str_or (dm_digest (cb_metadata result)) (dm_ctx_ref_sha256 (cb_metadata result)))),
      (''raw_response_digest'', JStr (''sha256:'' @ ce_sha256 env (ce_raw_text env (cb_raw result)))),
      (''cached_at'', JStr (ce_isoformat env now)),
      (''fetched_at'', JStr (ce_isoformat env now)),
      (''expires_at'', JStr (ce_isoformat env (expires_at c now))),
      (''advisory'', JBool True),
      (''result'', JObj (dump result))]"

definition store_cache ::
  "cache_env \<Rightarrow> cache_settings \<Rightarrow> rat \<Rightarrow> (capabilities_result \<Rightarrow> dict) \<Rightarrow> capabilities_result \<Rightarrow> cache_file" where
  "store_cache env c now dump result = CacheJson (JObj (cache_envelope env c now dump result))"

section \<open>Reading it back\<close>

text \<open>
  The outer \<open>None\<close> is the \<open>AttributeError\<close> of \<open>envelope.get\<close> on JSON that is no object, which no
  handler catches.
\<close>

definition load_cache ::
  "(dict \<Rightarrow> capabilities_result option) \<Rightarrow> cache_file \<Rightarrow> capabilities_result option option" where
  "load_cache validate f =
     (case f of
        NoCacheFile \<Rightarrow> Some None
      | UnreadableCache \<Rightarrow> Some None
      | CacheJson (JObj envelope) \<Rightarrow>
          Some (case json_get envelope ''result'' of JObj d \<Rightarrow> validate d | _ \<Rightarrow> None)
      | CacheJson _ \<Rightarrow> None)"

definition expired :: "cache_env \<Rightarrow> rat \<Rightarrow> json \<Rightarrow> bool" where
  "expired env now v =
     (case v of
        JStr (c # s) \<Rightarrow> (case ce_fromisoformat env (c # s) of None \<Rightarrow> True | Some t \<Rightarrow> t \<le> now)
      | _ \<Rightarrow> False)"

definition load_valid ::
  "cache_env \<Rightarrow> cache_settings \<Rightarrow> rat \<Rightarrow> (dict \<Rightarrow> capabilities_result option) \<Rightarrow> cache_file \<Rightarrow>
   capabilities_result option option" where
  "load_valid env c now validate f =
     (case f of
        NoCacheFile \<Rightarrow> Some None
      | UnreadableCache \<Rightarrow> Some None
      | CacheJson (JObj envelope) \<Rightarrow>
          (if cc_base_url c \<noteq> [] \<and> json_get envelope ''base_url'' \<noteq> JStr (cc_base_url c) then Some None
           else if expired env now (json_get envelope ''expires_at'') then Some None
           else load_cache validate f)
      | CacheJson _ \<Rightarrow> None)"

definition cache_exists :: "cache_file \<Rightarrow> bool" where
  "cache_exists f = (f \<noteq> NoCacheFile)"

definition cached_at :: "cache_file \<Rightarrow> json option" where
  "cached_at f =
     (case f of
        NoCacheFile \<Rightarrow> Some JNull
      | UnreadableCache \<Rightarrow> Some JNull
      | CacheJson (JObj envelope) \<Rightarrow> Some (json_get envelope ''cached_at'')
      | CacheJson _ \<Rightarrow> None)"

definition clear_cache :: "cache_file \<Rightarrow> cache_file" where
  "clear_cache f = NoCacheFile"

section \<open>Facts\<close>

lemma load_cache_store [simp]:
  "load_cache validate (store_cache env c now dump result) = Some (validate (dump result))"
  by (simp add: load_cache_def store_cache_def cache_envelope_def json_simps)

text \<open>What a stored snapshot gives at a later time, for a cache with its own settings.\<close>

lemma load_valid_store:
  assumes iso: "ce_fromisoformat env (ce_isoformat env (expires_at c now)) = Some (expires_at c now)"
    and nonempty: "ce_isoformat env (expires_at c now) \<noteq> []"
  shows "load_valid env c' now' validate (store_cache env c now dump result) =
    (if (cc_base_url c' = [] \<or> cc_base_url c' = cc_base_url c) \<and> now' < expires_at c now
     then Some (validate (dump result)) else Some None)"
proof -
  obtain x xs where shown: "ce_isoformat env (expires_at c now) = x # xs"
    using nonempty by (cases "ce_isoformat env (expires_at c now)") auto
  have loaded: "load_cache validate (CacheJson (JObj (cache_envelope env c now dump result))) =
      Some (validate (dump result))"
    using load_cache_store [of validate env c now dump result] by (simp add: store_cache_def)
  have base: "json_get (cache_envelope env c now dump result) ''base_url'' = JStr (cc_base_url c)"
    and expiry: "json_get (cache_envelope env c now dump result) ''expires_at'' = JStr (x # xs)"
    by (simp_all add: cache_envelope_def json_simps shown)
  have late: "expired env now' (JStr (x # xs)) \<longleftrightarrow> expires_at c now \<le> now'"
    using iso shown by (simp add: expired_def)
  show ?thesis
    by (auto simp: load_valid_def store_cache_def base expiry late loaded)
qed

end
