(* ===== verification/Run_Command.thy ===== *)
theory Run_Command
  imports Command_Result Context_Lifecycle Capabilities_Cache Run_Record
begin

text \<open>
  The command \<open>keyhole run\<close> (\<open>commands/run_cmd.py\<close>): the components it calls,
  composed in its order over what they change: the capabilities cache, the table of known
  mistakes, the requests sent, the recent context, the run records and the proof files.
\<close>

section \<open>The world of the command\<close>

text \<open>
  Stored credentials as the store reads them; \<open>CredsUnreadable\<close> makes it raise. The session
  carries the token, its fingerprint and whether it has expired.
\<close>

datatype credentials = CredsUnreadable | NoCreds | Creds string string bool

text \<open>
  A dispatch that was sent: its payload and what the transport did. \<open>rw_writable\<close> tells whether
  files below the repository can be written; if not, every write raises \<open>OSError\<close>.
\<close>

record run_world =
  rw_table :: mistake_table
  rw_cache :: cache_file
  rw_recent :: recent_file
  rw_records :: run_dir
  rw_proofs :: proof_writes
  rw_calls :: "(dict \<times> exec_state) list"
  rw_writable :: bool

text \<open>
  Everything else: the texts of values, exceptions and names, the files read, the answer of the
  capabilities endpoint, the environments of the two transports, the identifiers drawn and the
  clock. \<open>rc_input\<close> is the input file: absent, not JSON (with the text of the exception), or JSON.
\<close>

datatype input_file = NoInput | InvalidInput string | InputJson json

record run_config =
  rc_fstr :: "json \<Rightarrow> string"
  rc_repr :: "string \<Rightarrow> string"
  rc_sx :: "transport_error \<Rightarrow> string"
  rc_credentials :: credentials
  rc_yaml :: yaml_file
  rc_safe_load :: "string \<Rightarrow> json option"
  rc_dirname :: string
  rc_repo_path :: string
  rc_cache_env :: cache_env
  rc_cache_settings :: cache_settings
  rc_dump :: "capabilities_result \<Rightarrow> dict"
  rc_validate :: "dict \<Rightarrow> capabilities_result option"
  rc_capabilities :: send_outcome
  rc_base_url :: string
  rc_version :: string
  rc_compile_env :: transport_env
  rc_dispatch_env :: transport_env
  rc_compile_id :: string
  rc_correlation_id :: string
  rc_cache_time :: rat
  rc_mtime :: int
  rc_now :: string
  rc_input_path :: string
  rc_input :: input_file

section \<open>The preflight checker\<close>

text \<open>
  \<open>None\<close> is an exception no handler of the command catches. The handler of the fetch catches
  \<open>KeyholeSDKError\<close>, \<open>OSError\<close> and \<open>ValueError\<close>, so not \<open>TypeError\<close>.
\<close>

definition fallback_preflight ::
  "run_config \<Rightarrow> capabilities_result option \<Rightarrow> run_world \<Rightarrow> dispatch_preflight option \<times> run_world" where
  "fallback_preflight cf cached w =
     (case cached of
        Some c \<Rightarrow>
          (case preflight_from_capabilities (rc_fstr cf) (rc_repr cf) (rw_table w) (cap_view_of c) of
             (p, table) \<Rightarrow> (p, w\<lparr>rw_table := table\<rparr>))
      | None \<Rightarrow>
          (Some \<lparr>dp_validator = new_validator (rw_table w) None None None False [] True,
                dp_schema = default_helper\<rparr>, w))"

definition live_preflight ::
  "run_config \<Rightarrow> capabilities_result option \<Rightarrow> run_world \<Rightarrow> dispatch_preflight option \<times> run_world" where
  "live_preflight cf cached w =
     (case fetch_capabilities (rc_fstr cf) (rc_capabilities cf) of
        Inl DiscoveryTypeError \<Rightarrow> (None, w)
      | Inl _ \<Rightarrow> fallback_preflight cf cached w
      | Inr discovered \<Rightarrow>
          (if \<not> rw_writable w then fallback_preflight cf cached w
           else
             (case preflight_from_capabilities (rc_fstr cf) (rc_repr cf) (rw_table w) (cap_view_of discovered) of
                (p, table) \<Rightarrow>
                  (p, w\<lparr>rw_cache := store_cache (rc_cache_env cf) (rc_cache_settings cf) (rc_cache_time cf)
                          (rc_dump cf) discovered, rw_table := table\<rparr>))))"

definition build_dispatch_preflight ::
  "run_config \<Rightarrow> string \<Rightarrow> run_world \<Rightarrow> dispatch_preflight option \<times> run_world" where
  "build_dispatch_preflight cf run_type w =
     (case load_valid (rc_cache_env cf) (rc_cache_settings cf) (rc_cache_time cf) (rc_validate cf) (rw_cache w) of
        None \<Rightarrow> (None, w)
      | Some None \<Rightarrow> live_preflight cf None w
      | Some (Some c) \<Rightarrow>
          (case preflight_from_capabilities (rc_fstr cf) (rc_repr cf) (rw_table w) (cap_view_of c) of
             (None, table) \<Rightarrow> (None, w\<lparr>rw_table := table\<rparr>)
           | (Some p, table) \<Rightarrow>
               (if should_proceed (preflight_check table p run_type None)
                then (Some p, w\<lparr>rw_table := table\<rparr>)
                else live_preflight cf (Some c) (w\<lparr>rw_table := table\<rparr>))))"

section \<open>Identity and context\<close>

definition is_authenticated :: "credentials \<Rightarrow> bool option" where
  "is_authenticated c =
     (case c of CredsUnreadable \<Rightarrow> None | NoCreds \<Rightarrow> Some False | Creds token fp ended \<Rightarrow> Some (\<not> ended))"

fun creds_token :: "credentials \<Rightarrow> string" where
  "creds_token (Creds token fp ended) = token"
| "creds_token _ = []"

fun creds_fingerprint :: "credentials \<Rightarrow> string" where
  "creds_fingerprint (Creds token fp ended) = fp"
| "creds_fingerprint _ = []"

definition run_transport :: "run_config \<Rightarrow> transport" where
  "run_transport cf =
     make_transport (rc_base_url cf)
       (if creds_token (rc_credentials cf) \<noteq> [] then Some (\<lambda>_. Some (creds_token (rc_credentials cf))) else None)
       None (rc_version cf)"

definition repo_name_of :: "run_config \<Rightarrow> json" where
  "repo_name_of cf =
     json_or (load_repo_name (rc_safe_load cf) (rc_yaml cf) (rc_dirname cf)) (JStr (rc_dirname cf))"

definition write_proofs :: "proof_writes \<Rightarrow> run_world \<Rightarrow> run_world" where
  "write_proofs ws w = (if rw_writable w then w\<lparr>rw_proofs := rw_proofs w @ ws\<rparr> else w)"

text \<open>\<open>v[:120]\<close> in an f-string: a string or a list; another truthy value raises.\<close>

definition prefix_120 :: "(json \<Rightarrow> string) \<Rightarrow> json \<Rightarrow> string option" where
  "prefix_120 fstr v =
     (case v of JStr s \<Rightarrow> Some (take 120 s) | JList xs \<Rightarrow> Some (fstr (JList (take 120 xs))) | _ \<Rightarrow> None)"

definition failed_summary :: "(json \<Rightarrow> string) \<Rightarrow> string \<Rightarrow> string \<Rightarrow> json \<Rightarrow> string option" where
  "failed_summary fstr with_reason without v =
     (if json_truthy v then map_option (\<lambda>s. with_reason @ s) (prefix_120 fstr v) else Some without)"

text \<open>The outcome of resolving \<open>--context\<close>: a digest, or the result the command ends with.\<close>

datatype context_choice = BoundContext string | ContextFailed cli_result

definition compile_failed_result :: "run_config \<Rightarrow> compile_result \<Rightarrow> cli_result option" where
  "compile_failed_result cf r =
     map_option
       (command_result_of ''keyhole run --context auto'' False exit_failure
          [(''error_class'', json_or (cr_error_class r) (JStr ''auto_compile_failed'')),
           (''reason'', cr_reason r), (''is_local'', JBool False)]
          (if cr_repair_guidance r \<noteq> [] then cr_repair_guidance r
           else [''Run: keyhole context compile '' @ mdash @ '' to debug.'']))
       (failed_summary (rc_fstr cf) ''--context auto: compile failed: '' ''--context auto: compile failed.''
          (cr_reason r))"

definition no_digest_result :: "string \<Rightarrow> cli_result" where
  "no_digest_result label =
     command_result_of label False exit_failure
       [(''error_class'', JStr ''auto_compile_failed''), (''is_local'', JBool False)]
       [''Run: keyhole context compile '' @ mdash @ '' to debug.'',
        ''Then: keyhole run --context <digest> --run-type <type>'']
       ''--context auto: context compile failed.''"

text \<open>
  \<open>_auto_compile_context\<close>: the compile, its proof, the recent pointer. A digest that is no
  string is outside the model and counts as an exception, as does a name the proof cannot use.
\<close>

definition auto_compile ::
  "run_config \<Rightarrow> string \<Rightarrow> run_world \<Rightarrow> context_choice option \<times> run_world" where
  "auto_compile cf label w =
     (let q = build_compile_request (rc_now cf) (repo_name_of cf) (creds_fingerprint (rc_credentials cf))
                (rc_compile_id cf) [] [] [] [];
          (res, st) = compile_context_pack (rc_fstr cf) (rc_sx cf) (rc_compile_env cf) (run_transport cf) q;
          w1 = w\<lparr>rw_calls := rw_calls w @ [(compile_payload q, st)]\<rparr>
      in case res of
           None \<Rightarrow> (None, w1)
         | Some r \<Rightarrow>
             (case emit_context_proof (rc_fstr cf) (rc_now cf) q r of
                None \<Rightarrow> (None, w1)
              | Some (dir, ws) \<Rightarrow>
                  (let w2 = write_proofs ws w1
                   in if cr_success r \<and> json_truthy (cr_ctxpack_digest r) then
                        (case cr_ctxpack_digest r of
                           JStr digest \<Rightarrow>
                             (Some (BoundContext digest),
                              if rw_writable w2
                              then w2\<lparr>rw_recent := save_recent (rc_now cf) digest (repo_name_of cf) (rc_compile_id cf)\<rparr>
                              else w2)
                         | _ \<Rightarrow> (None, w2))
                      else if \<not> cr_success r then (map_option ContextFailed (compile_failed_result cf r), w2)
                      else (Some (ContextFailed (no_digest_result label)), w2))))"

definition malformed_result :: "string \<Rightarrow> string \<Rightarrow> cli_result" where
  "malformed_result label msg =
     command_result_of label False exit_invalid_input
       [(''error_class'', JStr ''malformed_digest''), (''is_local'', JBool True)]
       [''Provide a valid digest or use --context auto.'',
        ''Run: keyhole context compile '' @ mdash @ '' to get a valid digest.''] msg"

definition resolve_context ::
  "run_config \<Rightarrow> string \<Rightarrow> string \<Rightarrow> run_world \<Rightarrow> context_choice option \<times> run_world" where
  "resolve_context cf label context w =
     (if is_auto context then auto_compile cf label w
      else (case validate_digest (rc_repr cf) context of
              Some msg \<Rightarrow> (Some (ContextFailed (malformed_result label msg)), w)
            | None \<Rightarrow> (Some (BoundContext context), w)))"

section \<open>The outcome as a result\<close>

definition proof_location :: "run_config \<Rightarrow> string list option \<Rightarrow> string" where
  "proof_location cf dir =
     (case dir of None \<Rightarrow> ''(proof not written)'' | Some ps \<Rightarrow> py_join ''/'' (rc_repo_path cf # ps))"

definition outcome_base :: "run_outcome \<Rightarrow> dict" where
  "outcome_base r =
     [(''status'', JStr (outcome_status_value (ro_status r))), (''run_type'', JStr (ro_run_type r)),
      (''repo'', ro_repo_name r), (''shadow'', JBool (ro_shadow r)),
      (''correlation_id'', JStr (ro_correlation_id r))]"

definition outcome_extras :: "run_outcome \<Rightarrow> string \<Rightarrow> bool \<Rightarrow> string \<Rightarrow> dict" where
  "outcome_extras r digest auto supplied =
     (if digest \<noteq> [] then [(''ctxpack_digest'', JStr digest)] else []) @
     (if auto then [(''context_auto_compiled'', JBool True)] else []) @
     (if json_truthy (ro_run_id r) then [(''run_id'', ro_run_id r)] else []) @
     (if supplied \<noteq> [] \<and> supplied \<noteq> ro_run_type r then [(''supplied_run_type'', JStr supplied)] else [])"

definition run_ident :: "run_config \<Rightarrow> run_outcome \<Rightarrow> string" where
  "run_ident cf r = rc_fstr cf (json_or (ro_run_id r) (JStr (ro_correlation_id r)))"

definition success_result ::
  "run_config \<Rightarrow> run_outcome \<Rightarrow> string \<Rightarrow> string list option \<Rightarrow> string \<Rightarrow> bool \<Rightarrow> string \<Rightarrow> cli_result" where
  "success_result cf r label dir digest auto supplied =
     command_result_of label True exit_success
       (outcome_base r @ [(''proof'', JStr (proof_location cf dir))] @ outcome_extras r digest auto supplied @
        (if ro_response_data r \<noteq> [] then [(''result'', JObj (ro_response_data r))] else []))
       (if ro_shadow r then [''This was a shadow run '' @ mdash @ '' no canonical consequences.''] else [])
       (''Run completed: '' @ ro_run_type r)"

definition accepted_result ::
  "run_config \<Rightarrow> run_outcome \<Rightarrow> string \<Rightarrow> string list option \<Rightarrow> string \<Rightarrow> bool \<Rightarrow> string \<Rightarrow> cli_result" where
  "accepted_result cf r label dir digest auto supplied =
     command_result_of label True exit_success
       (outcome_base r @ [(''proof'', JStr (proof_location cf dir))] @ outcome_extras r digest auto supplied)
       [''The run is in progress. Final result is not yet available.'',
        ''Check status: keyhole runs status '' @ run_ident cf r,
        ''Wait for result: keyhole runs wait '' @ run_ident cf r,
        ''Follow: keyhole runs tail '' @ run_ident cf r]
       (''Run accepted (async): '' @ ro_run_type r)"

definition deferred_result ::
  "run_config \<Rightarrow> run_outcome \<Rightarrow> string \<Rightarrow> string list option \<Rightarrow> string \<Rightarrow> bool \<Rightarrow> string \<Rightarrow> cli_result" where
  "deferred_result cf r label dir digest auto supplied =
     command_result_of label True exit_success
       (outcome_base r @ [(''proof'', JStr (proof_location cf dir))] @ outcome_extras r digest auto supplied)
       [''The run has been deferred by the boundary.'',
        ''This is not a rejection '' @ mdash @ '' it may be processed later.'',
        ''Check status: keyhole runs status '' @ run_ident cf r,
        ''Wait for result: keyhole runs wait '' @ run_ident cf r]
       (''Run deferred: '' @ ro_run_type r)"

text \<open>\<open>map_repair_guidance\<close> of an error class that cannot be a dictionary key raises.\<close>

definition guidance_of :: "run_config \<Rightarrow> run_outcome \<Rightarrow> string list option" where
  "guidance_of cf r =
     (if ro_repair_guidance r \<noteq> [] then Some (ro_repair_guidance r)
      else (case ro_error_class r of
              JStr s \<Rightarrow> Some (map_repair_guidance s)
            | JList xs \<Rightarrow> None
            | JObj d \<Rightarrow> None
            | v \<Rightarrow> Some (map_repair_guidance (rc_fstr cf v))))"

definition failed_result ::
  "run_config \<Rightarrow> run_outcome \<Rightarrow> string \<Rightarrow> string list option \<Rightarrow> string \<Rightarrow> cli_result option" where
  "failed_result cf r label dir supplied =
     (case (failed_summary (rc_fstr cf) ''Run failed: '' ''Run failed.'' (ro_reason r), guidance_of cf r) of
        (Some summary, Some steps) \<Rightarrow>
          Some (command_result_of label False
            (if ro_status r = OutcomeTransportError then exit_runtime_unavailable else exit_failure)
            (outcome_base r @
             [(''error_class'', ro_error_class r), (''reason'', ro_reason r),
              (''proof'', JStr (proof_location cf dir)),
              (''retry_safe'', JBool (ro_status r = OutcomeTransportError))] @
             (if json_truthy (ro_run_id r) then [(''run_id'', ro_run_id r)] else []) @
             (if supplied \<noteq> [] \<and> supplied \<noteq> ro_run_type r then [(''supplied_run_type'', JStr supplied)] else []))
            steps summary)
      | _ \<Rightarrow> None)"

definition outcome_to_result ::
  "run_config \<Rightarrow> run_outcome \<Rightarrow> string \<Rightarrow> string list option \<Rightarrow> string \<Rightarrow> bool \<Rightarrow> string \<Rightarrow> cli_result option" where
  "outcome_to_result cf r label dir digest auto supplied =
     (case ro_status r of
        OutcomeSuccess \<Rightarrow> Some (success_result cf r label dir digest auto supplied)
      | OutcomeAccepted \<Rightarrow> Some (accepted_result cf r label dir digest auto supplied)
      | OutcomeDeferred \<Rightarrow> Some (deferred_result cf r label dir digest auto supplied)
      | _ \<Rightarrow> failed_result cf r label dir supplied)"

section \<open>Records of accepted runs\<close>

definition accepted_record :: "run_config \<Rightarrow> run_outcome \<Rightarrow> run_request \<Rightarrow> string \<Rightarrow> string list option \<Rightarrow> string \<Rightarrow> run_record" where
  "accepted_record cf r q digest dir run_id =
     \<lparr>rr_request_id = (case ro_proof r of None \<Rightarrow> [] | Some p \<Rightarrow> tp_request_id p), rr_run_id = run_id,
      rr_command = ''keyhole run'', rr_mode = (if ro_shadow r then ''shadow'' else ''regular''),
      rr_run_type = ro_run_type r, rr_ctxpack_digest = JStr digest, rr_submitted_at = rq_timestamp q,
      rr_last_known_status = outcome_status_value (ro_status r),
      rr_proof_path = (case dir of None \<Rightarrow> [] | Some ps \<Rightarrow> proof_location cf (Some ps)),
      rr_repo_name = ro_repo_name r, rr_repo_path = rc_repo_path cf,
      rr_correlation_id = ro_correlation_id r\<rparr>"

text \<open>
  The record and the accepted-stage proof. A run id that is neither a string nor empty is
  outside the model (\<open>None\<close>): the store takes it apart as a string.
\<close>

definition run_id_text :: "run_outcome \<Rightarrow> string option" where
  "run_id_text r =
     (if json_truthy (ro_run_id r) then (case ro_run_id r of JStr s \<Rightarrow> Some s | _ \<Rightarrow> None) else Some [])"

definition persist_record ::
  "run_config \<Rightarrow> run_outcome \<Rightarrow> run_request \<Rightarrow> string \<Rightarrow> string list option \<Rightarrow> run_world \<Rightarrow> run_world option" where
  "persist_record cf r q digest dir w =
     map_option
       (\<lambda>run_id.
         if \<not> rw_writable w then w
         else
           (let saved = snd (save_record (rc_mtime cf) (accepted_record cf r q digest dir run_id) (rw_records w));
                proof = snd (emit_accepted_proof (rc_now cf) (str_or run_id (ro_correlation_id r))
                               (ro_correlation_id r) (ro_run_type r) (ro_shadow r) digest (ro_response_data r) [])
            in write_proofs (map (\<lambda>(p, d). (p, ProofJson d)) proof) (w\<lparr>rw_records := saved\<rparr>)))
       (run_id_text r)"

section \<open>The command\<close>

definition command_label :: "bool \<Rightarrow> string" where
  "command_label shadow = (if shadow then ''keyhole run --shadow'' else ''keyhole run'')"

definition preflight_result_of :: "string \<Rightarrow> preflight_failure \<Rightarrow> cli_result" where
  "preflight_result_of label f =
     command_result_of label False exit_invalid_input
       [(''error_class'', JStr ''PreflightFailure''), (''is_local'', JBool (pl_is_local f))]
       (pl_repair_guidance f) (pl_reason f)"

definition missing_context_result :: "string \<Rightarrow> cli_result" where
  "missing_context_result label =
     command_result_of label False exit_invalid_input
       [(''error_class'', JStr ''missing_context''), (''is_local'', JBool True)]
       [''Run: keyhole context compile '' @ mdash @ '' to compile context first.'',
        ''Then: keyhole run --context <digest> --run-type <type>'',
        ''Or: keyhole run --context auto --run-type <type>'']
       ''Governed runs require explicit context. No --context provided.''"

text \<open>\<open>--input\<close>: the data, or the result the command ends with.\<close>

definition resolve_input :: "run_config \<Rightarrow> string \<Rightarrow> cli_result + json" where
  "resolve_input cf label =
     (if rc_input_path cf = [] then Inr JNull
      else (case rc_input cf of
              NoInput \<Rightarrow>
                Inl (command_result_of label False exit_invalid_input [] [''Check the --input path and try again.'']
                  (''Input file not found: '' @ rc_input_path cf))
            | InvalidInput exc \<Rightarrow>
                Inl (command_result_of label False exit_invalid_input [] [''Ensure --input file is valid JSON.'']
                  (''Invalid input file: '' @ exc))
            | InputJson v \<Rightarrow> Inr v))"

text \<open>From a bound context on: build the request, dispatch, write proofs and records, render.\<close>

definition dispatch_bound ::
  "run_config \<Rightarrow> string \<Rightarrow> bool \<Rightarrow> string \<Rightarrow> bool \<Rightarrow> string \<Rightarrow> string \<Rightarrow> json \<Rightarrow> run_world \<Rightarrow>
   cli_result option \<times> run_world" where
  "dispatch_bound cf label shadow digest auto supplied run_type input w =
     (let q = build_run_request (rc_now cf) run_type (repo_name_of cf) shadow (Some digest) input
                (rc_correlation_id cf) (creds_fingerprint (rc_credentials cf));
          (res, st) = dispatch_run (rc_fstr cf) (rc_sx cf) (rc_dispatch_env cf) (run_transport cf) q;
          w1 = w\<lparr>rw_calls := rw_calls w @ [(to_payload q, st)]\<rparr>
      in case res of
           None \<Rightarrow> (None, w1)
         | Some r \<Rightarrow>
             (let (dir, ws) = emit_run_proof (rc_fstr cf) (rc_now cf) q (outcome_proof_dict r) (rc_correlation_id cf)
                                (map_option proof_to_dict (ro_proof r));
                  written = (if rw_writable w1 then Some dir else None);
                  w2 = write_proofs ws w1;
                  w3 = (if digest \<noteq> [] then
                          write_proofs (snd (emit_context_binding_proof (rc_now cf) (rc_correlation_id cf) digest
                                               run_type shadow auto)) w2
                        else w2)
              in case (if ro_status r \<in> {OutcomeAccepted, OutcomeDeferred}
                       then persist_record cf r q digest written w3 else Some w3) of
                   None \<Rightarrow> (None, w3)
                 | Some w4 \<Rightarrow> (outcome_to_result cf r label written digest auto supplied, w4)))"

definition run_run ::
  "run_config \<Rightarrow> string \<Rightarrow> bool \<Rightarrow> string \<Rightarrow> run_world \<Rightarrow> cli_result option \<times> run_world" where
  "run_run cf run_type shadow context w =
     (let label = command_label shadow
      in case build_dispatch_preflight cf run_type w of
           (None, w1) \<Rightarrow> (None, w1)
         | (Some p, w1) \<Rightarrow>
             (case is_authenticated (rc_credentials cf) of
                None \<Rightarrow> (None, w1)
              | Some authed \<Rightarrow>
                  (case run_preflight authed (rc_yaml cf \<noteq> NoYaml) (rw_table w1) p run_type of
                     Some f \<Rightarrow> (Some (preflight_result_of label f), w1)
                   | None \<Rightarrow>
                       (if context = [] then (Some (missing_context_result label), w1)
                        else
                          (case resolve_context cf label context w1 of
                             (None, w2) \<Rightarrow> (None, w2)
                           | (Some (ContextFailed r), w2) \<Rightarrow> (Some r, w2)
                           | (Some (BoundContext digest), w2) \<Rightarrow>
                               (case resolve_input cf label of
                                  Inl r \<Rightarrow> (Some r, w2)
                                | Inr input \<Rightarrow>
                                    dispatch_bound cf label shadow digest (is_auto context) run_type
                                      (resolve_run_type (rw_table w1) p run_type) input w2))))))"

end
