(* ===== verification/Run_Command_Facts.thy ===== *)
theory Run_Command_Facts
  imports Run_Command Transport_Facts
begin

text \<open>
  Facts about a dispatch and about the run command: what the last answer of the boundary means
  for the outcome, the idempotency key a dispatch sends, and which part of the world each step
  of the command may change.
\<close>

section \<open>One dispatch\<close>

text \<open>
  What a dispatch tells its caller about the answer, and the specification of it as a function of
  the last answer alone, with the families of reported statuses written out: the status, the
  error class, the run id, the data kept and the HTTP status. \<open>None\<close> is an exception.
\<close>

type_synonym outcome_view = "outcome_status \<times> json \<times> json \<times> dict \<times> int"

definition outcome_view :: "run_outcome \<Rightarrow> outcome_view" where
  "outcome_view r =
     (ro_status r, ro_error_class r, ro_run_id r, ro_response_data r, ro_http_status r)"

fun first_given :: "json list \<Rightarrow> json \<Rightarrow> json" where
  "first_given [] dflt = dflt"
| "first_given (v # vs) dflt = (if json_truthy v then v else first_given vs dflt)"

definition reported_family :: "int \<Rightarrow> string \<Rightarrow> outcome_status" where
  "reported_family http s =
     (if http = 202 then OutcomeAccepted
      else if s = ''deferred'' then OutcomeDeferred
      else if s = ''rejected'' \<or> s = ''error'' \<or> s = ''failed'' then OutcomeRejected
      else if s = ''accepted'' \<or> s = ''pending'' then OutcomeAccepted
      else OutcomeSuccess)"

definition answered_view :: "int \<Rightarrow> json \<Rightarrow> outcome_view option" where
  "answered_view http body =
     (case body of
        JObj data \<Rightarrow>
          (let inner = as_dict (json_get data ''data'') in
           case first_given [json_get data ''status'', json_get inner ''status''] (JStr []) of
             JStr s \<Rightarrow>
               Some (reported_family http (py_lower s),
                     (if reported_family http (py_lower s) = OutcomeRejected
                      then dict_get_or data ''error_class'' (JStr ''server_rejection'') else JStr []),
                     first_given [json_get data ''run_id'', json_get data ''id''] (json_get inner ''run_id''),
                     data, http)
           | _ \<Rightarrow> None)
      | _ \<Rightarrow> None)"

definition error_view :: "outcome_status \<Rightarrow> string \<Rightarrow> int \<Rightarrow> outcome_view" where
  "error_view status name http = (status, JStr name, JNull, [], http)"

definition spec_dispatch :: "nat \<Rightarrow> send_outcome \<Rightarrow> outcome_view option" where
  "spec_dispatch mx answer =
     (case spec_verdict mx answer of
        Succeeded d ob \<Rightarrow>
          (case answer of Responded r \<Rightarrow> answered_view (resp_status r) d | SendFailed e \<Rightarrow> None)
      | UnknownOutcome \<Rightarrow> Some (error_view OutcomeTransportError ''TransportUnknownError'' 0)
      | Exhausted \<Rightarrow> Some (error_view OutcomeTransportError ''RetryExhaustedError'' 0)
      | Unavailable \<Rightarrow> Some (error_view OutcomeTransportError ''RuntimeUnavailableError'' 0)
      | Conflicting \<Rightarrow> Some (error_view OutcomeFailed ''IdempotencyConflictError'' 0)
      | RateLimited \<Rightarrow> Some (error_view OutcomeFailed ''RateLimitedError'' 0)
      | Refused code \<Rightarrow> Some (error_view OutcomeFailed ''PublicEndpointError'' code)
      | NotJson \<Rightarrow> Some (error_view OutcomeFailed ''SchemaError'' 0)
      | Crashed \<Rightarrow> Some (error_view OutcomeFailed ''AttributeError'' 0))"

lemma family_reported: "outcome_family http s = reported_family http s"
  by (auto simp: outcome_family_def reported_family_def)

lemma classify_outcome_view:
  "map_option outcome_view (classify_outcome fstr result q) =
     (case answered_view (res_status_code result) (res_data result) of
        None \<Rightarrow> None | Some (s, e, i, d, h) \<Rightarrow> Some (s, e, i, d, res_status_code result))"
proof (cases "res_data result")
  case (JObj data)
  have "first_given [json_get data ''status'', json_get (as_dict (json_get data ''data'')) ''status''] (JStr []) =
      answered_status data"
    by (simp add: answered_status_def json_or_def inner_get_def)
  with JObj show ?thesis
    by (cases "answered_status data")
      (simp_all add: classify_outcome_def answered_view_def outcome_view_def run_outcome_of_def Let_def
        family_reported answered_run_id_def json_or_def inner_get_def)
qed (simp_all add: classify_outcome_def answered_view_def)

lemma answered_view_http: "answered_view http body = Some (s, e, i, d, h) \<Longrightarrow> h = http"
  by (auto simp: answered_view_def Let_def split: json.splits)

lemma handled_view:
  "outcome_view (handle_transport_exception sx e q) =
     error_view (if outcome_unknown e then OutcomeTransportError else OutcomeFailed)
       (transport_error_name e) (error_status_code e)"
  by (simp add: handle_transport_exception_def run_outcome_of_def outcome_view_def error_view_def)

lemma dispatch_view:
  assumes "\<forall>k. env_uuid env k \<noteq> []" "dispatch_run fstr sx env tr q = (res, st)"
    and "fst (execute env builtin_registry tr ''POST'' ''/mcp/v1/runs/start'' ''run.start'' None []) \<noteq> Inl PyOverflowError"
  shows "map_option outcome_view res =
    spec_dispatch (max_attempts tr (policy_of builtin_registry ''run.start'')) (env_net env (st_sent st))"
proof (cases "execute env builtin_registry tr ''POST'' ''/mcp/v1/runs/start'' ''run.start'' None []")
  case (Pair x st')
  with assms(2) have st: "st' = st" by (auto simp: dispatch_run_def split: sum.splits)
  from execute_last_answer [OF assms(1) Pair] assms(3) Pair st
  have verdict: "verdict_of x =
      spec_verdict (max_attempts tr (policy_of builtin_registry ''run.start'')) (env_net env (st_sent st))"
    by simp
  show ?thesis
  proof (cases x)
    case (Inl e)
    with Pair assms(2) have "res = Some (handle_transport_exception sx e q)" by (simp add: dispatch_run_def)
    moreover have "\<forall>op rid. e \<noteq> MissingIdempotencyKeyError op rid"
      using execute_has_key [OF assms(1) Pair] Inl by simp
    ultimately show ?thesis
      using verdict [symmetric] Inl assms(3) Pair
      by (cases e) (simp_all add: spec_dispatch_def handled_view outcome_unknown_def)
  next
    case (Inr result)
    with Pair assms(2) have res: "res = classify_outcome fstr result q" by (simp add: dispatch_run_def)
    from execute_ok_answer [OF assms(1)] Pair Inr st obtain r where
      "env_net env (st_sent st) = Responded r" "res_status_code result = resp_status r"
      by blast
    then show ?thesis
      using verdict [symmetric] Inr
      by (auto simp: spec_dispatch_def res classify_outcome_view dest: answered_view_http split: option.split)
  qed
qed

text \<open>The fields every outcome copies from its request.\<close>

lemma classify_outcome_fields:
  assumes "classify_outcome fstr result q = Some r"
  shows "ro_run_type r = rq_run_type q" "ro_repo_name r = rq_repo_name q" "ro_shadow r = rq_shadow q"
    "ro_correlation_id r = rq_correlation_id q" "ro_proof r = Some (res_proof result)"
    "ro_http_status r = res_status_code result"
  using assms
  by (auto simp: classify_outcome_def run_outcome_of_def Let_def split: json.splits if_splits)

lemma handled_fields [simp]:
  "ro_run_type (handle_transport_exception sx e q) = rq_run_type q"
  "ro_repo_name (handle_transport_exception sx e q) = rq_repo_name q"
  "ro_shadow (handle_transport_exception sx e q) = rq_shadow q"
  "ro_correlation_id (handle_transport_exception sx e q) = rq_correlation_id q"
  by (simp_all add: handle_transport_exception_def run_outcome_of_def)

lemma dispatch_fields:
  assumes "dispatch_run fstr sx env tr q = (Some r, st)"
  shows "ro_run_type r = rq_run_type q" "ro_repo_name r = rq_repo_name q" "ro_shadow r = rq_shadow q"
    "ro_correlation_id r = rq_correlation_id q"
  using assms classify_outcome_fields
  by (auto simp: dispatch_run_def split: prod.splits sum.splits)

lemma run_start_requires_key:
  "\<exists>d. get_operation builtin_registry ''run.start'' = Some d \<and> op_idempotency_required d"
proof -
  have "case get_operation builtin_registry ''run.start'' of None \<Rightarrow> False | Some d \<Rightarrow> op_idempotency_required d"
    by code_simp
  then show ?thesis by (auto split: option.splits)
qed

text \<open>A dispatch always sends, and every request carries the key drawn first.\<close>

lemma dispatch_sends_key:
  assumes "\<forall>k. env_uuid env k \<noteq> []" "dispatch_run fstr sx env tr q = (res, st)"
  shows "st_sent st \<noteq> []"
    "list_all (\<lambda>s. dict_get (sr_headers s) ''X-Idempotency-Key'' = Some (env_uuid env 0)) (st_sent st)"
    "tp_attempt_count (st_proof st) = length (st_sent st)"
proof -
  obtain x where ex: "execute env builtin_registry tr ''POST'' ''/mcp/v1/runs/start'' ''run.start'' None [] = (x, st)"
    using assms(2) by (auto simp: dispatch_run_def split: prod.splits sum.splits)
  obtain d where d: "get_operation builtin_registry ''run.start'' = Some d" "op_idempotency_required d"
    using run_start_requires_key by blast
  then have key: "minted_key env builtin_registry ''run.start'' None = Some (env_uuid env 0)"
    by (simp add: minted_key_def mint_key_def)
  from execute_sent [OF assms(1) ex] obtain n j where
    sent: "st_sent st = map (nth_request env tr ''POST'' ''/mcp/v1/runs/start'' (Some (env_uuid env 0)) [] 0 j) [0..<Suc n]"
    and att: "tp_attempts (st_proof st) = map (nth_attempt env 1 0 j) [0..<Suc n]"
    and coh: "proof_coherent (st_proof st)"
    unfolding key by blast
  show "st_sent st \<noteq> []" by (simp add: sent)
  have k: "opt_truthy (Some (env_uuid env 0))" using assms(1) by simp
  show "list_all (\<lambda>s. dict_get (sr_headers s) ''X-Idempotency-Key'' = Some (env_uuid env 0)) (st_sent st)"
    unfolding sent list_all_iff using k by (auto simp: nth_request_header simp del: upt_Suc opt_truthy_simps)
  show "tp_attempt_count (st_proof st) = length (st_sent st)"
    using coh unfolding proof_coherent_def sent att by simp
qed

section \<open>Which step changes what\<close>

lemma preflight_keeps:
  assumes "build_dispatch_preflight cf run_type w = (p, w')"
  shows "rw_calls w' = rw_calls w" "rw_recent w' = rw_recent w" "rw_records w' = rw_records w"
    "rw_proofs w' = rw_proofs w" "rw_writable w' = rw_writable w"
  using assms
  by (auto simp: build_dispatch_preflight_def live_preflight_def fallback_preflight_def
      split: option.splits prod.splits sum.splits discovery_error.splits if_splits)

lemma write_proofs_keeps [simp]:
  "rw_calls (write_proofs ws w) = rw_calls w" "rw_recent (write_proofs ws w) = rw_recent w"
  "rw_records (write_proofs ws w) = rw_records w" "rw_writable (write_proofs ws w) = rw_writable w"
  by (simp_all add: write_proofs_def)

text \<open>The one call of a context compile.\<close>

definition compile_call :: "dict \<times> exec_state \<Rightarrow> bool" where
  "compile_call c \<longleftrightarrow> dict_get (fst c) ''run_type'' = Some (JStr ''context.compile'')"

lemma auto_compile_calls:
  assumes "auto_compile cf label w = (res, w')"
  shows "\<exists>c. rw_calls w' = rw_calls w @ [c] \<and> compile_call c"
    "res = Some (BoundContext digest) \<Longrightarrow> digest \<noteq> []" "rw_writable w' = rw_writable w" "rw_records w' = rw_records w"
proof -
  obtain r st where c: "compile_context_pack (rc_fstr cf) (rc_sx cf) (rc_compile_env cf) (run_transport cf)
      (build_compile_request (rc_now cf) (repo_name_of cf) (creds_fingerprint (rc_credentials cf))
         (rc_compile_id cf) [] [] [] []) = (r, st)" by fastforce
  show "\<exists>c. rw_calls w' = rw_calls w @ [c] \<and> compile_call c"
    "res = Some (BoundContext digest) \<Longrightarrow> digest \<noteq> []" "rw_writable w' = rw_writable w" "rw_records w' = rw_records w"
    using assms c
    by (auto simp: auto_compile_def Let_def compile_call_def compile_payload_def dict_get_Cons
        split: option.splits prod.splits if_splits json.splits)
qed

lemma resolve_context_calls:
  assumes "resolve_context cf label context w = (res, w')"
  shows "\<exists>cs. rw_calls w' = rw_calls w @ cs \<and> length cs = (if is_auto context then 1 else 0) \<and> list_all compile_call cs"
    "res = Some (BoundContext digest) \<Longrightarrow> context \<noteq> [] \<Longrightarrow> digest \<noteq> [] \<and>
       (\<not> is_auto context \<longrightarrow> digest = context \<and> validate_digest (rc_repr cf) context = None)"
    "rw_writable w' = rw_writable w" "rw_records w' = rw_records w"
proof -
  show "\<exists>cs. rw_calls w' = rw_calls w @ cs \<and> length cs = (if is_auto context then 1 else 0) \<and> list_all compile_call cs"
  proof (cases "is_auto context")
    case True
    with assms auto_compile_calls(1) obtain c where "rw_calls w' = rw_calls w @ [c]" "compile_call c"
      by (fastforce simp: resolve_context_def)
    then show ?thesis using True by (intro exI [of _ "[c]"]) simp
  next
    case False
    with assms show ?thesis by (intro exI [of _ "[]"]) (auto simp: resolve_context_def split: option.splits)
  qed
  show "res = Some (BoundContext digest) \<Longrightarrow> context \<noteq> [] \<Longrightarrow> digest \<noteq> [] \<and>
       (\<not> is_auto context \<longrightarrow> digest = context \<and> validate_digest (rc_repr cf) context = None)"
    using assms auto_compile_calls(2) by (fastforce simp: resolve_context_def split: if_splits option.splits)
  show "rw_writable w' = rw_writable w" "rw_records w' = rw_records w"
    using assms auto_compile_calls(3,4) by (fastforce simp: resolve_context_def split: if_splits option.splits)+
qed

section \<open>From a bound context on\<close>

definition bound_request :: "run_config \<Rightarrow> bool \<Rightarrow> string \<Rightarrow> string \<Rightarrow> json \<Rightarrow> run_request" where
  "bound_request cf shadow digest run_type input =
     build_run_request (rc_now cf) run_type (repo_name_of cf) shadow (Some digest) input
       (rc_correlation_id cf) (creds_fingerprint (rc_credentials cf))"

lemma persist_keeps_calls:
  "persist_record cf r q digest dir w = Some w' \<Longrightarrow> rw_calls w' = rw_calls w"
  by (auto simp: persist_record_def split: option.splits if_splits)

lemma dispatch_bound_calls:
  assumes "dispatch_bound cf label shadow digest auto supplied run_type input w = (res, w')"
  shows "\<exists>st. rw_calls w' = rw_calls w @ [(to_payload (bound_request cf shadow digest run_type input), st)] \<and>
    snd (dispatch_run (rc_fstr cf) (rc_sx cf) (rc_dispatch_env cf) (run_transport cf)
           (bound_request cf shadow digest run_type input)) = st"
proof -
  obtain r st where d: "dispatch_run (rc_fstr cf) (rc_sx cf) (rc_dispatch_env cf) (run_transport cf)
      (bound_request cf shadow digest run_type input) = (r, st)" by fastforce
  show ?thesis
    using assms d
    by (auto simp: dispatch_bound_def bound_request_def [symmetric] Let_def emit_run_proof_def
        split: option.splits if_splits dest: persist_keeps_calls)
qed

lemma payload_fields:
  "dict_get (to_payload (bound_request cf shadow digest run_type input)) ''run_type'' = Some (JStr run_type)"
  "dict_get (to_payload (bound_request cf shadow digest run_type input)) ''shadow'' = Some (JBool shadow)"
  "digest \<noteq> [] \<Longrightarrow>
   dict_get (to_payload (bound_request cf shadow digest run_type input)) ''ctxpack_digest'' = Some (JStr digest)"
  by (simp_all add: to_payload_def bound_request_def build_run_request_def dict_get_Cons)

text \<open>The status a result reports, and the exit code that goes with it.\<close>

definition reported :: "cli_result \<Rightarrow> json" where
  "reported r = json_get (cm_data r) ''status''"

lemma dict_get_append:
  "dict_get (a @ b) k = (case dict_get a k of None \<Rightarrow> dict_get b k | Some v \<Rightarrow> Some v)"
  by (induction a) (auto simp: dict_get_def)

lemma outcome_to_result_report:
  assumes "outcome_to_result cf o1 label dir digest auto supplied = Some r"
  shows "reported r = JStr (outcome_status_value (ro_status o1))"
    "cm_success r \<longleftrightarrow> ro_status o1 \<in> {OutcomeSuccess, OutcomeAccepted, OutcomeDeferred}"
    "cm_exit_code r = (if cm_success r then exit_success
       else if ro_status o1 = OutcomeTransportError then exit_runtime_unavailable else exit_failure)"
  using assms
  by (auto simp: outcome_to_result_def success_result_def accepted_result_def deferred_result_def
      failed_result_def command_result_of_def outcome_base_def outcome_extras_def reported_def json_simps
      exit_success_def exit_failure_def exit_runtime_unavailable_def
      split: outcome_status.splits option.splits)

lemma outcome_to_result_run_id:
  assumes "outcome_to_result cf o1 label dir digest auto supplied = Some r"
    and "ro_status o1 \<in> {OutcomeAccepted, OutcomeDeferred}"
  shows "json_get (cm_data r) ''run_id'' = (if json_truthy (ro_run_id o1) then ro_run_id o1 else JNull)"
proof -
  have base: "dict_get (outcome_base o1) ''run_id'' = None"
    by (simp add: outcome_base_def dict_get_Cons)
  have extras: "dict_get (outcome_extras o1 digest auto supplied) ''run_id'' =
      (if json_truthy (ro_run_id o1) then Some (ro_run_id o1) else None)"
    by (simp add: outcome_extras_def dict_get_append dict_get_Cons)
  from assms have "cm_data r = outcome_base o1 @ [(''proof'', JStr (proof_location cf dir))] @
      outcome_extras o1 digest auto supplied"
    by (auto simp: outcome_to_result_def accepted_result_def deferred_result_def command_result_of_def)
  then show ?thesis
    by (simp add: json_get_def dict_get_or_def dict_get_append dict_get_Cons base extras)
qed

lemma outcome_value_inj: "outcome_status_value a = outcome_status_value b \<longleftrightarrow> a = b"
  by (cases a; cases b; simp)

text \<open>An accepted or deferred run leaves a record under its run id.\<close>

lemma dispatch_bound_writable:
  assumes d: "dispatch_run (rc_fstr cf) (rc_sx cf) (rc_dispatch_env cf) (run_transport cf)
      (bound_request cf shadow digest run_type input) = (Some x, st)"
    and w: "rw_writable w"
  shows "\<exists>w3. rw_writable w3 \<and> rw_records w3 = rw_records w \<and>
    dispatch_bound cf label shadow digest auto supplied run_type input w =
      (case (if ro_status x \<in> {OutcomeAccepted, OutcomeDeferred}
             then persist_record cf x (bound_request cf shadow digest run_type input) digest
                    (Some (core_run_dir (rc_correlation_id cf))) w3 else Some w3) of
         None \<Rightarrow> (None, w3)
       | Some w4 \<Rightarrow>
           (outcome_to_result cf x label (Some (core_run_dir (rc_correlation_id cf))) digest auto supplied, w4))"
proof -
  let ?q = "bound_request cf shadow digest run_type input"
  let ?w1 = "w\<lparr>rw_calls := rw_calls w @ [(to_payload ?q, st)]\<rparr>"
  let ?w2 = "write_proofs (snd (emit_run_proof (rc_fstr cf) (rc_now cf) ?q (outcome_proof_dict x)
      (rc_correlation_id cf) (map_option proof_to_dict (ro_proof x)))) ?w1"
  obtain dir ws where emit: "emit_run_proof (rc_fstr cf) (rc_now cf) ?q (outcome_proof_dict x)
      (rc_correlation_id cf) (map_option proof_to_dict (ro_proof x)) = (dir, ws)" by fastforce
  then have dir: "dir = core_run_dir (rc_correlation_id cf)" by (simp add: emit_run_proof_def Let_def)
  let ?w3 = "write_proofs (snd (emit_context_binding_proof (rc_now cf) (rc_correlation_id cf)
      digest run_type shadow auto)) ?w2"
  show ?thesis
  proof (cases "digest = []")
    case True
    note eqs = d [unfolded True] emit [unfolded True] dir w
    show ?thesis
      unfolding True
      by (rule exI [of _ "write_proofs ws (w\<lparr>rw_calls := rw_calls w @ [(to_payload (bound_request cf shadow [] run_type input), st)]\<rparr>)"],
          cases "ro_status x \<in> {OutcomeAccepted, OutcomeDeferred}")
        (simp_all add: dispatch_bound_def bound_request_def [symmetric] Let_def eqs split: option.split)
  next
    case False
    show ?thesis
      by (rule exI [of _ ?w3], cases "ro_status x \<in> {OutcomeAccepted, OutcomeDeferred}")
        (simp_all add: dispatch_bound_def bound_request_def [symmetric] Let_def d emit dir w False split: option.split)
  qed
qed

lemma dispatch_bound_record:
  assumes "dispatch_bound cf label shadow digest auto supplied run_type input w = (Some r, w')"
    and "rw_writable w" "reported r \<in> {JStr ''accepted'', JStr ''deferred''}"
    and "json_get (cm_data r) ''run_id'' = JStr s" "s \<noteq> []"
  shows "\<exists>rec. dict_get (rw_records w') (record_path s) = Some (rc_mtime cf, RecordFile rec) \<and> rr_run_id rec = s \<and>
    rr_run_type rec = run_type \<and> rr_correlation_id rec = rc_correlation_id cf \<and>
    rr_ctxpack_digest rec = JStr digest \<and> JStr (rr_last_known_status rec) = reported r"
proof -
  let ?q = "bound_request cf shadow digest run_type input"
  obtain o1 st where d: "dispatch_run (rc_fstr cf) (rc_sx cf) (rc_dispatch_env cf) (run_transport cf) ?q = (o1, st)"
    by fastforce
  from assms(1) d obtain x where x: "o1 = Some x"
    by (cases o1) (auto simp: dispatch_bound_def bound_request_def [symmetric] Let_def)
  define dir where "dir = core_run_dir (rc_correlation_id cf)"
  from dispatch_bound_writable [OF d [unfolded x] assms(2), of label auto supplied] assms(1) obtain w3
    where w3: "rw_writable w3" "rw_records w3 = rw_records w"
    and rest: "(case (if ro_status x \<in> {OutcomeAccepted, OutcomeDeferred}
                      then persist_record cf x ?q digest (Some dir) w3 else Some w3) of
                 None \<Rightarrow> (None, w3)
               | Some w4 \<Rightarrow> (outcome_to_result cf x label (Some dir) digest auto supplied, w4)) = (Some r, w')"
    unfolding dir_def by metis
  then obtain w4 where res: "outcome_to_result cf x label (Some dir) digest auto supplied = Some r" "w' = w4"
    and saved: "(if ro_status x \<in> {OutcomeAccepted, OutcomeDeferred}
                 then persist_record cf x ?q digest (Some dir) w3 else Some w3) = Some w4"
    by (auto split: option.splits if_splits)
  note report = outcome_to_result_report [OF res(1)]
  have status: "ro_status x \<in> {OutcomeAccepted, OutcomeDeferred}"
    using assms(3) report(1) by (cases "ro_status x") auto
  from assms(4,5) outcome_to_result_run_id [OF res(1) status] have run_id: "ro_run_id x = JStr s" "run_id_text x = Some s"
    by (auto simp: run_id_text_def split: if_splits)
  have fields: "ro_run_type x = run_type" "ro_correlation_id x = rc_correlation_id cf"
    using dispatch_fields [OF d [unfolded x]] by (simp_all add: bound_request_def build_run_request_def)
  let ?rec = "accepted_record cf x ?q digest (Some dir) s"
  have key: "record_key ?rec = s" using assms(5) by (simp add: accepted_record_def record_key_def)
  from saved status run_id w3 have "rw_records w4 = snd (save_record (rc_mtime cf) ?rec (rw_records w))"
    by (auto simp: persist_record_def Let_def)
  then have "dict_get (rw_records w') (record_path s) = Some (rc_mtime cf, RecordFile ?rec)"
    using key assms(5) res(2) by (simp add: save_record_def)
  then show ?thesis
    using fields report(1) by (intro exI [of _ ?rec]) (simp add: accepted_record_def)
qed

section \<open>The whole command\<close>

text \<open>The ways the command ends: before a dispatch, or in one.\<close>

lemma run_run_cases:
  assumes "run_run cf run_type shadow context w = (res, w')"
  obtains (stopped) cs where "rw_calls w' = rw_calls w @ cs" "rw_records w' = rw_records w"
      "length cs \<le> (if is_auto context then 1 else 0)" "list_all compile_call cs"
      "cs \<noteq> [] \<Longrightarrow> is_authenticated (rc_credentials cf) = Some True \<and> rc_yaml cf \<noteq> NoYaml \<and> context \<noteq> [] \<and>
         (\<exists>p w1. build_dispatch_preflight cf run_type w = (Some p, w1) \<and>
                 should_proceed (preflight_check (rw_table w1) p run_type None))"
      "case res of None \<Rightarrow> True | Some r \<Rightarrow> reported r = JNull \<and> \<not> cm_success r \<and>
         cm_exit_code r \<in> {exit_invalid_input, exit_failure}"
    | (dispatched) p w1 w2 digest input where
      "build_dispatch_preflight cf run_type w = (Some p, w1)"
      "is_authenticated (rc_credentials cf) = Some True" "rc_yaml cf \<noteq> NoYaml" "context \<noteq> []"
      "should_proceed (preflight_check (rw_table w1) p run_type None)"
      "resolve_context cf (command_label shadow) context w1 = (Some (BoundContext digest), w2)"
      "dispatch_bound cf (command_label shadow) shadow digest (is_auto context) run_type
         (resolve_run_type (rw_table w1) p run_type) input w2 = (res, w')"
proof -
  obtain op w1 where pre: "build_dispatch_preflight cf run_type w = (op, w1)" by fastforce
  note keep = preflight_keeps [OF pre]
  show thesis
  proof (cases "op = None \<or> is_authenticated (rc_credentials cf) = None")
    case True
    with assms pre have "res = None" "w' = w1" by (auto simp: run_run_def Let_def split: option.splits)
    with keep show thesis by (intro stopped [of "[]"]) simp_all
  next
    case False
    then obtain p authed where p: "op = Some p" "is_authenticated (rc_credentials cf) = Some authed" by auto
    show thesis
    proof (cases "run_preflight authed (rc_yaml cf \<noteq> NoYaml) (rw_table w1) p run_type")
      case (Some f)
      with assms pre p have "res = Some (preflight_result_of (command_label shadow) f)" "w' = w1"
        by (simp_all add: run_run_def Let_def)
      with keep show thesis
        by (intro stopped [of "[]"]) (simp_all add: preflight_result_of_def command_result_of_def reported_def json_simps)
    next
      case None
      then have ok: "authed" "rc_yaml cf \<noteq> NoYaml" "should_proceed (preflight_check (rw_table w1) p run_type None)"
        by (auto simp: run_preflight_def Let_def split: if_splits)
      show thesis
      proof (cases "context = []")
        case True
        with assms pre p None have "res = Some (missing_context_result (command_label shadow))" "w' = w1"
          by (simp_all add: run_run_def Let_def)
        with keep show thesis
          by (intro stopped [of "[]"])
            (simp_all add: missing_context_result_def command_result_of_def reported_def json_simps)
      next
        case nonempty: False
        obtain choice w2 where rc: "resolve_context cf (command_label shadow) context w1 = (choice, w2)" by fastforce
        from resolve_context_calls(1) [OF rc] obtain cs where
          cs: "rw_calls w2 = rw_calls w1 @ cs" "length cs = (if is_auto context then 1 else 0)" "list_all compile_call cs"
          by blast
        have gate: "is_authenticated (rc_credentials cf) = Some True \<and> rc_yaml cf \<noteq> NoYaml \<and> context \<noteq> [] \<and>
            (\<exists>p w1. build_dispatch_preflight cf run_type w = (Some p, w1) \<and>
                    should_proceed (preflight_check (rw_table w1) p run_type None))"
          using pre p ok nonempty by auto
        note stop = stopped [of cs]
        show thesis
        proof (cases "\<exists>digest. choice = Some (BoundContext digest)")
          case False
          then have "choice = None \<or> (\<exists>r. choice = Some (ContextFailed r))"
            by (cases choice) (auto intro: context_choice.exhaust)
          with assms pre p None nonempty rc have w': "w' = w2"
            and r: "res = None \<or> (\<exists>r. choice = Some (ContextFailed r) \<and> res = Some r)"
            by (auto simp: run_run_def Let_def)
          have failed: "reported r = JNull \<and> \<not> cm_success r \<and> cm_exit_code r \<in> {exit_invalid_input, exit_failure}"
            if "choice = Some (ContextFailed r)" for r
            using rc that
            by (auto simp: resolve_context_def auto_compile_def Let_def malformed_result_def no_digest_result_def
                compile_failed_result_def command_result_of_def reported_def json_simps
                split: if_splits option.splits prod.splits json.splits)
          show thesis
            by (rule stop) (use w' cs keep gate failed r resolve_context_calls(4) [OF rc] in auto)
        next
          case True
          then obtain digest where digest: "choice = Some (BoundContext digest)" by blast
          show thesis
          proof (cases "resolve_input cf (command_label shadow)")
            case (Inl r)
            with assms pre p None nonempty rc digest have "res = Some r" "w' = w2"
              by (simp_all add: run_run_def Let_def)
            moreover have "reported r = JNull \<and> \<not> cm_success r \<and> cm_exit_code r = exit_invalid_input"
              using Inl by (auto simp: resolve_input_def command_result_of_def reported_def json_simps
                  split: if_splits input_file.splits)
            ultimately show thesis
              by (intro stop) (use cs keep gate resolve_context_calls(4) [OF rc] in auto)
          next
            case (Inr input)
            with assms pre p None nonempty rc digest ok show thesis
              by (intro dispatched [of p w1 digest w2 input]) (simp_all add: run_run_def Let_def)
          qed
        qed
      qed
    qed
  qed
qed

section \<open>A sample configuration\<close>

definition run_answer :: "int \<Rightarrow> string \<Rightarrow> send_outcome" where
  "run_answer code status =
     Responded \<lparr>resp_status = code, resp_text = [], resp_reason = [],
       resp_json = Some (JObj [(''status'', JStr status), (''run_id'', JStr ''r-1'')]),
       resp_headers = (\<lambda>_. None)\<rparr>"

definition env_with :: "send_outcome \<Rightarrow> transport_env" where
  "env_with answer =
     \<lparr>env_net = (\<lambda>h. answer), env_uuid = (\<lambda>k. CHR ''u'' # replicate k (CHR ''x'')), env_random = (\<lambda>_. 0),
      env_now = (\<lambda>_. ''now'')\<rparr>"

definition run_sample :: "send_outcome \<Rightarrow> run_config" where
  "run_sample answer =
     \<lparr>rc_fstr = as_str, rc_repr = quoted, rc_sx = transport_error_name,
      rc_credentials = Creds ''tok'' ''abcd1234'' False, rc_yaml = YamlText ''name: demo'',
      rc_safe_load = (\<lambda>_. None), rc_dirname = ''demo'', rc_repo_path = ''/repo'',
      rc_cache_env = \<lparr>ce_sha256 = (\<lambda>s. s), ce_raw_text = (\<lambda>_. []), ce_isoformat = (\<lambda>_. ''t''),
        ce_fromisoformat = (\<lambda>_. Some 0)\<rparr>,
      rc_cache_settings = new_cache (\<lambda>s. s) ''capabilities_cache.json'' ''https://b'' 3600,
      rc_dump = (\<lambda>_. []), rc_validate = (\<lambda>_. None), rc_capabilities = SendFailed ''no route'',
      rc_base_url = ''https://b'', rc_version = ''1'', rc_compile_env = env_with answer,
      rc_dispatch_env = env_with answer, rc_compile_id = ''c-0'', rc_correlation_id = ''c-1'',
      rc_cache_time = 0, rc_mtime = 7, rc_now = ''now'', rc_input_path = [], rc_input = NoInput\<rparr>"

definition run_start_world :: run_world where
  "run_start_world =
     \<lparr>rw_table = known_mistakes, rw_cache = NoCacheFile, rw_recent = NoRecent, rw_records = [],
      rw_proofs = [], rw_calls = [], rw_writable = True\<rparr>"

end
