(* ===== verification/Discovery_Properties.thy ===== *)
theory Discovery_Properties
  imports Run_Command_Facts Dispatch_Facts
begin

text \<open>
  Properties of discovery: what the cache gives back and for how long, what the command makes of
  a capabilities document it cannot store, and that what the boundary advertises can be
  dispatched.
\<close>

section \<open>The cache\<close>

text \<open>
  A stored snapshot is loaded back whole as long as the cache exists. As valid it is loaded
  exactly by a cache for the same server, or for none, and before its time to live has passed,
  so never when that is not positive. Clearing leaves nothing.
\<close>

theorem cache_valid_until_expiry:
  assumes "ce_fromisoformat env (ce_isoformat env (expires_at c now)) = Some (expires_at c now)"
    and "ce_isoformat env (expires_at c now) \<noteq> []"
    and "validate (dump result) = Some result" "now \<le> now'"
  defines "f \<equiv> store_cache env c now dump result"
  shows "load_cache validate f = Some (Some result) \<and>
    load_valid env c' now' validate f =
      Some (if (cc_base_url c' = [] \<or> cc_base_url c' = cc_base_url c) \<and>
               now' - now < of_int (cc_ttl_seconds c) then Some result else None) \<and>
    load_valid env c' now' validate (clear_cache f) = Some None"
proof -
  have "now' < expires_at c now \<longleftrightarrow> now' - now < of_int (cc_ttl_seconds c)"
    using assms(4) by (auto simp: expires_at_def max_def)
  then show ?thesis
    using assms(3) load_valid_store [OF assms(1,2), of c' now' validate dump result]
    by (simp add: f_def clear_cache_def load_valid_def)
qed

theorem cache_valid_until_expiry_witness:
  "\<forall>result. case \<lparr>ce_sha256 = (\<lambda>s. s), ce_raw_text = (\<lambda>_. []), ce_isoformat = (\<lambda>_. ''T''),
                 ce_fromisoformat = (\<lambda>_. Some 3600)\<rparr> of env \<Rightarrow>
     case new_cache (\<lambda>s. s) ''capabilities_cache.json'' ''https://b/'' 3600 of c \<Rightarrow>
       load_valid env c 3599 (\<lambda>_. Some result) (store_cache env c 0 (\<lambda>_. []) result) = Some (Some result) \<and>
       load_valid env c 3600 (\<lambda>_. Some result) (store_cache env c 0 (\<lambda>_. []) result) = Some None"
proof
  fix result
  let ?env = "\<lparr>ce_sha256 = (\<lambda>s. s), ce_raw_text = (\<lambda>_. []), ce_isoformat = (\<lambda>_. ''T''),
     ce_fromisoformat = (\<lambda>_. Some 3600)\<rparr> :: cache_env"
  let ?c = "new_cache (\<lambda>s. s) ''capabilities_cache.json'' ''https://b/'' 3600"
  have ttl: "expires_at ?c 0 = 3600" "cc_ttl_seconds ?c = 3600"
    by (simp_all add: expires_at_def new_cache_def Let_def)
  have iso: "ce_fromisoformat ?env (ce_isoformat ?env (expires_at ?c 0)) = Some (expires_at ?c 0)"
    "ce_isoformat ?env (expires_at ?c 0) \<noteq> []" by (simp_all add: ttl)
  note at = cache_valid_until_expiry [OF iso, of "\<lambda>_. Some result" "\<lambda>_. []" result, OF refl, of _ ?c]
  from at [of 3599] at [of 3600] show "case ?env of env \<Rightarrow> case ?c of c \<Rightarrow>
       load_valid env c 3599 (\<lambda>_. Some result) (store_cache env c 0 (\<lambda>_. []) result) = Some (Some result) \<and>
       load_valid env c 3600 (\<lambda>_. Some result) (store_cache env c 0 (\<lambda>_. []) result) = Some None"
    by (simp add: ttl)
qed

text \<open>
  Discovery that cannot be cached is thrown away. When no valid snapshot is stored and the
  repository cannot be written, the command goes on as if discovery had failed, whatever the
  boundary answered: no operation but the static ones is recognised, and the others are
  rejected as "live discovery is unavailable".
\<close>

theorem uncached_discovery_discarded:
  assumes "load_valid (rc_cache_env cf) (rc_cache_settings cf) (rc_cache_time cf) (rc_validate cf) (rw_cache w) =
      Some None"
    and "fetch_capabilities (rc_fstr cf) (rc_capabilities cf) = Inr discovered" "\<not> rw_writable w"
    and "py_strip run_type = name" "name \<noteq> []" "name \<notin> set canonical_run_types"
    and "dict_get (rw_table w) name = None"
    and "list_all (\<lambda>c. \<not> close_match name c) canonical_run_types"
  shows "\<exists>p. build_dispatch_preflight cf run_type w = (Some p, w) \<and>
    tk_status (check_run_type as_str (rw_table w) (dp_validator p) (JStr run_type)) = DiscoveryUnavailable \<and>
    \<not> should_proceed (preflight_check (rw_table w) p run_type None)"
proof -
  let ?v = "new_validator (rw_table w) None None None False [] True"
  have p: "build_dispatch_preflight cf run_type w = (Some \<lparr>dp_validator = ?v, dp_schema = default_helper\<rparr>, w)"
    using assms(1-3) by (simp add: build_dispatch_preflight_def live_preflight_def fallback_preflight_def)
  have far: "find_close_matches ?v name = []"
  proof -
    have "filter (close_match name) (sort (remdups (rv_canonical ?v))) = []"
      using assms(8) by (simp add: new_validator_def filter_empty_conv list_all_iff)
    then show ?thesis by (simp add: find_close_matches_def)
  qed
  have none: "dict_get (copy_table (rw_table w)) name = None"
    using assms(7) map_of_map [of "\<lambda>_. Shared" "rw_table w"] by (simp add: copy_table_def dict_get_def)
  have status: "tk_status (check_run_type as_str (rw_table w) ?v (JStr run_type)) = DiscoveryUnavailable"
    using assms(4-6) far none
    by (simp add: check_name_def registry_lookup_def static_check_def suggestions_in_def unrecognised_def
        new_validator_def)
  then show ?thesis
    using p preflight_check_invalid(1) [of "rw_table w" "\<lparr>dp_validator = ?v, dp_schema = default_helper\<rparr>" run_type None]
    by (simp add: should_proceed_def del: check_run_type.simps)
qed

definition fresh_capabilities :: send_outcome where
  "fresh_capabilities =
     Responded \<lparr>resp_status = 200, resp_text = [], resp_reason = [],
       resp_json = Some (JObj [(''operations'', JList [JStr ''fresh.op''])]), resp_headers = (\<lambda>_. None)\<rparr>"

theorem uncached_discovery_discarded_witness:
  "\<not> should_proceed (case build_dispatch_preflight ((run_sample (SendFailed []))\<lparr>rc_capabilities := fresh_capabilities\<rparr>)
       ''fresh.op'' (run_start_world\<lparr>rw_writable := False\<rparr>) of
     (Some p, w) \<Rightarrow> preflight_check (rw_table w) p ''fresh.op'' None)"
proof -
  let ?cf = "(run_sample (SendFailed []))\<lparr>rc_capabilities := fresh_capabilities\<rparr>"
  let ?w = "run_start_world\<lparr>rw_writable := False\<rparr>"
  have load: "load_valid (rc_cache_env ?cf) (rc_cache_settings ?cf) (rc_cache_time ?cf) (rc_validate ?cf) (rw_cache ?w) =
      Some None" by (simp add: run_start_world_def load_valid_def)
  have facts: "(case fetch_capabilities (rc_fstr ?cf) (rc_capabilities ?cf) of Inl e \<Rightarrow> False | Inr d \<Rightarrow> True) \<and>
    py_strip ''fresh.op'' = ''fresh.op'' \<and> ''fresh.op'' \<notin> set canonical_run_types \<and>
    dict_get (rw_table ?w) ''fresh.op'' = None \<and>
    list_all (\<lambda>c. \<not> close_match ''fresh.op'' c) canonical_run_types"
    by code_simp
  then obtain d where fetch: "fetch_capabilities (rc_fstr ?cf) (rc_capabilities ?cf) = Inr d"
    by (auto split: sum.splits)
  from facts have name: "py_strip ''fresh.op'' = ''fresh.op''" "''fresh.op'' \<notin> set canonical_run_types"
    "dict_get (rw_table ?w) ''fresh.op'' = None"
    "list_all (\<lambda>c. \<not> close_match ''fresh.op'' c) canonical_run_types" by blast+
  from uncached_discovery_discarded [OF load fetch _ name(1) _ name(2-4)]
  show ?thesis by (auto simp: run_start_world_def)
qed

section \<open>From discovery to dispatch\<close>

lemma normalize_listed_names:
  "normalize_listed fstr ops = Some ds \<Longrightarrow> JStr name \<in> set ops \<Longrightarrow> plain_operation name \<in> set ds"
  by (induction fstr ops arbitrary: ds rule: normalize_listed.induct) (auto split: option.splits)

lemma collect_plain:
  "plain_operation name \<in> set ds \<Longrightarrow> name \<noteq> [] \<Longrightarrow> collect_operations fstr (map CapOperation ds) = Some es \<Longrightarrow>
   plain_operation name \<in> set es"
proof (induction ds arbitrary: es)
  case (Cons d ds)
  then show ?case
    by (cases "od_canonical_run_type d = []") (auto simp: plain_operation_def)
qed simp

lemma validator_registry:
  assumes "validator_from_capabilities fstr repr table caps = (Some v, table')"
  obtains reg where "registry_from_capabilities fstr repr (cv_operations caps) = Some reg"
    "rv_registry v = (case reg of Inl e \<Rightarrow> None | Inr g \<Rightarrow> Some g)"
    "rv_ambiguous_reason v = (case reg of Inl e \<Rightarrow> e | Inr g \<Rightarrow> [])"
proof -
  obtain ms t where "fold (incorporate_mistake (with_surfaces caps)) (list_strings (cv_mistakes caps))
      (copy_table table, table) = (ms, t)" by fastforce
  with assms obtain reg where reg: "registry_from_capabilities fstr repr (cv_operations caps) = Some reg"
    and v: "v = (case reg of
      Inl reason \<Rightarrow> new_validator t (Some (with_surfaces caps)) (Some ms) None True reason False
    | Inr g \<Rightarrow> new_validator t (Some (with_surfaces caps)) (Some ms) (Some g) True [] False)"
    by (auto simp: validator_from_capabilities_def Let_def)
  show thesis by (rule that [OF reg]) (cases reg; simp add: v new_validator_def)+
qed

text \<open>
  What the boundary advertises can be dispatched. If a capabilities document lists an
  operation by name and the command's preflight is built from it, then, unless two operations
  of the document share an identifier, that name is accepted, and as itself.
\<close>

theorem advertised_operation_accepted:
  assumes "fetch_capabilities fstr answer = Inr c"
    and "json_get (capabilities_body (cb_raw c)) ''operations'' = JList ops" "JStr name \<in> set ops"
    and "name \<noteq> []" "py_strip name = name"
    and "preflight_from_capabilities fstr repr table (cap_view_of c) = (Some p, table')"
  shows "case rv_registry (dp_validator p) of
      None \<Rightarrow> rv_ambiguous_reason (dp_validator p) \<noteq> []
    | Some g \<Rightarrow>
        tk_status (check_run_type as_str table' (dp_validator p) (JStr name)) = TypeValid \<and>
        resolve_run_type table' p name = name \<and>
        pf_run_type (preflight_check table' p name params) = name"
proof -
  from assms(1) obtain raw ds where raw: "cb_raw c = raw"
    and ds: "normalize_operations_from_capabilities fstr raw = Some ds" "cb_operations c = map CapOperation ds"
    by (auto simp: fetch_capabilities_def normalize_capabilities_def Let_def
        split: sum.splits option.splits prod.splits)
  have "normalize_listed fstr ops = Some ds"
    using ds(1) assms(2)
    by (auto simp: normalize_operations_from_capabilities_def capabilities_body_def raw Let_def json_get_def
        dict_get_or_def split: option.splits json.splits)
  then have plain: "plain_operation name \<in> set ds" using assms(3) by (rule normalize_listed_names)
  from assms(6) obtain v h where v: "validator_from_capabilities fstr repr table (cap_view_of c) = (Some v, table')"
    and p: "p = \<lparr>dp_validator = v, dp_schema = h\<rparr>"
    by (auto simp: preflight_from_capabilities_def split: prod.splits option.splits)
  from validator_registry [OF v] obtain reg where
    reg: "registry_from_capabilities fstr repr (map CapOperation ds) = Some reg"
    and fields: "rv_registry v = (case reg of Inl e \<Rightarrow> None | Inr g \<Rightarrow> Some g)"
      "rv_ambiguous_reason v = (case reg of Inl e \<Rightarrow> e | Inr g \<Rightarrow> [])"
    by (auto simp: cap_view_of_def ds(2))
  from reg obtain es where es: "collect_operations fstr (map CapOperation ds) = Some es" "reg = build_registry repr es"
    by (auto simp: registry_from_capabilities_def)
  show ?thesis
  proof (cases reg)
    case (Inl e)
    have "e \<noteq> []" using es(2) Inl by (auto simp: build_registry_def dest: ambiguous_reason_nonempty split: sum.splits)
    with Inl fields show ?thesis by (simp add: p)
  next
    case (Inr g)
    with es(2) have "build_registry repr es = Inr g" by simp
    with build_registry_spec [of es repr] have idx: "index_of es (og_by_identifier g)" by simp
    have "plain_operation name \<in> set es" using collect_plain [OF plain assms(4) es(1)] .
    moreover have "name \<in> set (identifiers (plain_operation name))"
      using assms(4) by (simp add: identifiers_def plain_operation_def)
    ultimately have "resolve_operation g name = Some (plain_operation name)"
      using index_of_lookup [OF idx, of name] assms(5) by (simp add: resolve_operation_def)
    then have look: "registry_lookup (rv_registry v) name = Some (plain_operation name)"
      using Inr fields by (simp add: registry_lookup_def)
    have check: "check_run_type as_str table' v (JStr name) = discovered_check name (plain_operation name)"
      using assms(4,5) look by (simp add: check_name_def)
    have status: "tk_status (check_run_type as_str table' v (JStr name)) = TypeValid"
      "tk_canonical_run_type (check_run_type as_str table' v (JStr name)) = name"
      unfolding check by (simp_all add: discovered_check_def plain_operation_def)
    have "pf_run_type (preflight_check table' p name params) = name"
      using preflight_check_valid [of table' p name params] status assms(4)
      by (simp add: p str_or_def del: check_run_type.simps)
    then show ?thesis
      using Inr fields status assms(4) by (simp add: p resolve_run_type_def str_or_def del: check_run_type.simps)
  qed
qed

theorem advertised_operation_accepted_witness:
  "\<exists>p. preflight_from_capabilities as_str (\<lambda>s. s) known_mistakes
      (cap_view_of (projr (fetch_capabilities as_str fresh_capabilities))) = (Some p, known_mistakes) \<and>
    resolve_run_type known_mistakes p ''fresh.op'' = ''fresh.op''"
proof -
  have "case fetch_capabilities as_str fresh_capabilities of Inl e \<Rightarrow> False
    | Inr c \<Rightarrow> json_get (capabilities_body (cb_raw c)) ''operations'' = JList [JStr ''fresh.op'']" by code_simp
  then obtain c where c: "fetch_capabilities as_str fresh_capabilities = Inr c"
    "json_get (capabilities_body (cb_raw c)) ''operations'' = JList [JStr ''fresh.op'']"
    by (auto split: sum.splits)
  have "case preflight_from_capabilities as_str (\<lambda>s. s) known_mistakes (cap_view_of (projr (fetch_capabilities as_str fresh_capabilities)))
    of (None, t) \<Rightarrow> False | (Some p, t) \<Rightarrow> t = known_mistakes \<and> rv_registry (dp_validator p) \<noteq> None" by code_simp
  then obtain p where p: "preflight_from_capabilities as_str (\<lambda>s. s) known_mistakes (cap_view_of c) = (Some p, known_mistakes)"
    "rv_registry (dp_validator p) \<noteq> None"
    by (auto simp: c split: prod.splits option.splits)
  have strip: "py_strip ''fresh.op'' = ''fresh.op''" by code_simp
  from advertised_operation_accepted [OF c _ _ strip p(1)] p show ?thesis by (auto simp: c split: option.splits)
qed

end
