(* ===== verification/Run_Command_Properties.thy ===== *)
theory Run_Command_Properties
  imports Run_Command_Facts Run_Facts Dispatch_Facts
begin

text \<open>
  Properties of a governed dispatch and of the command \<open>keyhole run\<close>, with a concrete
  configuration for the witnesses: a boundary that cannot tell its capabilities and accepts
  the run.
\<close>

section \<open>A sample run\<close>

definition accepted_run :: "cli_result option \<times> run_world" where
  "accepted_run = run_run (run_sample (run_answer 202 ''accepted'')) ''gaps.list'' False ''0123456789abcdef'' run_start_world"

lemma some_pair: "map_option f (fst x) = Some s \<Longrightarrow> \<exists>r st. x = (Some r, st) \<and> f r = s"
  by (cases x) auto

lemma env_with_uuid: "\<forall>k. env_uuid (env_with answer) k \<noteq> []"
  by (simp add: env_with_def)

section \<open>One dispatch\<close>

text \<open>
  C11: What a dispatch reports is a function of the last answer of the boundary: its status, error
  class, run id, data and HTTP status. A transport error exactly when no answer came or the
  server was unavailable, failed under the class of the refusal when it refused or answered no
  JSON; otherwise accepted for HTTP 202 or a reported \<open>accepted\<close> or \<open>pending\<close>, deferred for
  \<open>deferred\<close>, rejected for \<open>rejected\<close>, \<open>error\<close> and \<open>failed\<close>, success for any other status, with the
  run id and the body of that answer; or an exception when the body is no object or its status
  no string. A \<open>Retry-After\<close> no sleep can represent aside.
\<close>

theorem dispatch_refines_last_answer:
  assumes "\<forall>k. env_uuid env k \<noteq> []" "dispatch_run fstr sx env tr q = (res, st)"
    and "fst (execute env builtin_registry tr ''POST'' ''/mcp/v1/runs/start'' ''run.start'' None []) \<noteq> Inl PyOverflowError"
  shows "map_option outcome_view res =
    spec_dispatch (max_attempts tr (policy_of builtin_registry ''run.start'')) (env_net env (st_sent st))"
  using assms by (rule dispatch_view)

theorem dispatch_refines_last_answer_witness:
  "map_option outcome_view (fst (dispatch_run as_str transport_error_name (env_with (run_answer 200 ''failed''))
      (run_transport (run_sample (run_answer 200 ''failed'')))
      (bound_request (run_sample (run_answer 200 ''failed'')) False ''0123456789abcdef'' ''gaps.list'' JNull)))
   = Some (OutcomeRejected, JStr ''server_rejection'', JStr ''r-1'',
           [(''status'', JStr ''failed''), (''run_id'', JStr ''r-1'')], 200)"
proof -
  let ?env = "env_with (run_answer 200 ''failed'')"
  let ?cf = "run_sample (run_answer 200 ''failed'')"
  let ?q = "bound_request ?cf False ''0123456789abcdef'' ''gaps.list'' JNull"
  have no: "case fst (execute ?env builtin_registry (run_transport ?cf) ''POST'' ''/mcp/v1/runs/start'' ''run.start'' None [])
      of Inl e \<Rightarrow> False | Inr r \<Rightarrow> True" by code_simp
  then have "fst (execute ?env builtin_registry (run_transport ?cf) ''POST'' ''/mcp/v1/runs/start'' ''run.start'' None [])
      \<noteq> Inl PyOverflowError" by (auto split: sum.splits)
  from dispatch_refines_last_answer [OF env_with_uuid surjective_pairing this, of as_str transport_error_name ?q]
  have "map_option outcome_view (fst (dispatch_run as_str transport_error_name ?env (run_transport ?cf) ?q)) =
      spec_dispatch (max_attempts (run_transport ?cf) (policy_of builtin_registry ''run.start''))
        (run_answer 200 ''failed'')" by (simp add: env_with_def)
  also have "\<dots> = Some (OutcomeRejected, JStr ''server_rejection'', JStr ''r-1'',
           [(''status'', JStr ''failed''), (''run_id'', JStr ''r-1'')], 200)" by code_simp
  finally show ?thesis .
qed

text \<open>
  Dispatch and status observation classify the same reported status: away from HTTP 202
  the outcome of a dispatch is this function of the family the lifecycle commands read. The
  families \<open>RUNNING\<close>, \<open>DENIED\<close> and \<open>CANCELLED\<close> all come out as a completed success.
\<close>

theorem dispatch_family_of_status:
  assumes "http \<noteq> 202" "py_strip (py_lower s) = py_lower s"
  shows "outcome_family http (py_lower s) =
    (case classify_status s of
       ACCEPTED \<Rightarrow> OutcomeAccepted
     | DEFERRED_RUN \<Rightarrow> OutcomeDeferred
     | FAILED \<Rightarrow> OutcomeRejected
     | REJECTED \<Rightarrow> OutcomeRejected
     | _ \<Rightarrow> OutcomeSuccess)"
  using assms
  by (simp add: outcome_family_def classify_status_def status_map_def dict_get_or_def dict_get_Cons)

theorem dispatch_family_of_status_witness:
  "outcome_family 200 ''denied'' = OutcomeSuccess \<and> classify_status ''denied'' = DENIED"
proof -
  have strip: "py_lower ''denied'' = ''denied''" "py_strip (py_lower ''denied'') = py_lower ''denied''" by code_simp+
  have denied: "classify_status ''denied'' = DENIED" by code_simp
  from dispatch_family_of_status [OF _ strip(2), of 200] denied show ?thesis by (simp add: strip(1))
qed

text \<open>
  What a dispatch that ends in a transport error leaves to the builder. Requests were sent,
  all under one key drawn for this dispatch; yet the proof it returns, rebuilt from the
  exception, counts no attempt and says that nothing was sent, and a second dispatch draws
  another key, so that repeating the command repeats the operation.
\<close>

theorem transport_error_report:
  assumes "\<forall>k. env_uuid env k \<noteq> []" "\<forall>k. env_uuid env' k \<noteq> []"
    and "dispatch_run fstr sx env tr q = (Some r, st)" "dispatch_run fstr sx env' tr q = (Some r', st')"
    and "ro_status r = OutcomeTransportError" "env_uuid env 0 \<noteq> env_uuid env' 0"
  shows "st_sent st \<noteq> [] \<and> tp_attempt_count (st_proof st) = length (st_sent st) \<and>
    (case ro_proof r of None \<Rightarrow> True | Some p \<Rightarrow> tp_attempt_count p = 0 \<and> tp_observation p = NOT_SENT) \<and>
    list_all (\<lambda>s. list_all (\<lambda>s'. dict_get (sr_headers s) ''X-Idempotency-Key'' \<noteq>
            dict_get (sr_headers s') ''X-Idempotency-Key'') (st_sent st')) (st_sent st)"
proof (intro conjI)
  note sent = dispatch_sends_key [OF assms(1,3)] and sent' = dispatch_sends_key [OF assms(2,4)]
  show "st_sent st \<noteq> []" "tp_attempt_count (st_proof st) = length (st_sent st)" using sent by simp_all
  from assms(3,5) have "\<exists>e. r = handle_transport_exception sx e q"
    by (auto simp: dispatch_run_def classify_outcome_def outcome_family_def run_outcome_of_def Let_def
        split: prod.splits sum.splits json.splits if_splits)
  then show "case ro_proof r of None \<Rightarrow> True | Some p \<Rightarrow> tp_attempt_count p = 0 \<and> tp_observation p = NOT_SENT"
    by (auto simp: handle_transport_exception_def new_transport_proof_def split: option.splits)
  show "list_all (\<lambda>s. list_all (\<lambda>s'. dict_get (sr_headers s) ''X-Idempotency-Key'' \<noteq>
            dict_get (sr_headers s') ''X-Idempotency-Key'') (st_sent st')) (st_sent st)"
    using sent(2) sent'(2) assms(6) by (simp add: list_all_iff)
qed

theorem transport_error_report_witness:
  "case fst (dispatch_run as_str transport_error_name (env_with (SendFailed ''reset''))
        (make_transport ''https://b'' None (Some (default_retry_config\<lparr>rc_enabled := False\<rparr>)) ''1'')
        (bound_request (run_sample (SendFailed ''reset'')) False ''0123456789abcdef'' ''gaps.list'' JNull)) of
     None \<Rightarrow> False
   | Some r \<Rightarrow> ro_status r = OutcomeTransportError \<and>
       (case ro_proof r of None \<Rightarrow> True | Some p \<Rightarrow> tp_observation p = NOT_SENT)"
proof -
  let ?env = "env_with (SendFailed ''reset'')"
  let ?env' = "?env\<lparr>env_uuid := (\<lambda>k. CHR ''v'' # replicate k (CHR ''x''))\<rparr>"
  let ?tr = "make_transport ''https://b'' None (Some (default_retry_config\<lparr>rc_enabled := False\<rparr>)) ''1''"
  let ?q = "bound_request (run_sample (SendFailed ''reset'')) False ''0123456789abcdef'' ''gaps.list'' JNull"
  have s: "map_option ro_status (fst (dispatch_run as_str transport_error_name ?env ?tr ?q)) = Some OutcomeTransportError"
    "map_option ro_status (fst (dispatch_run as_str transport_error_name ?env' ?tr ?q)) = Some OutcomeTransportError"
    by code_simp+
  from some_pair [OF s(1)] obtain r st where d1: "dispatch_run as_str transport_error_name ?env ?tr ?q = (Some r, st)"
    and status: "ro_status r = OutcomeTransportError" by blast
  from some_pair [OF s(2)] obtain r' st' where d2: "dispatch_run as_str transport_error_name ?env' ?tr ?q = (Some r', st')"
    by blast
  have "\<forall>k. env_uuid ?env' k \<noteq> []" "env_uuid ?env 0 \<noteq> env_uuid ?env' 0" by (simp_all add: env_with_def)
  from transport_error_report [OF env_with_uuid this(1) d1 d2 status this(2)] d1 status show ?thesis
    by (auto split: option.splits)
qed

section \<open>The command\<close>

text \<open>
  C7: No run floats. Whatever the command does, it makes at most one dispatch, and at most one
  context compile before it, which only \<open>--context auto\<close> makes. It makes either only for a
  stored session that has not expired, in a scaffolded repository, with a context and a run
  type the preflight let through; and a dispatch carries the canonical run type and a
  non-empty digest, which without \<open>auto\<close> is the given one in a valid shape.
\<close>

theorem run_never_floats:
  assumes "run_run cf run_type shadow context w = (res, w')"
  shows "\<exists>compiles dispatches. rw_calls w' = rw_calls w @ compiles @ dispatches \<and>
    length compiles \<le> (if is_auto context then 1 else 0) \<and> length dispatches \<le> 1 \<and>
    list_all compile_call compiles \<and>
    (compiles @ dispatches \<noteq> [] \<longrightarrow>
       is_authenticated (rc_credentials cf) = Some True \<and> rc_yaml cf \<noteq> NoYaml \<and> context \<noteq> [] \<and>
       (\<exists>p w1. build_dispatch_preflight cf run_type w = (Some p, w1) \<and>
          should_proceed (preflight_check (rw_table w1) p run_type None) \<and>
          list_all (\<lambda>c. dict_get (fst c) ''run_type'' = Some (JStr (resolve_run_type (rw_table w1) p run_type)) \<and>
             dict_get (fst c) ''shadow'' = Some (JBool shadow) \<and>
             (\<exists>digest. digest \<noteq> [] \<and> dict_get (fst c) ''ctxpack_digest'' = Some (JStr digest) \<and>
                (\<not> is_auto context \<longrightarrow> digest = context \<and> validate_digest (rc_repr cf) context = None)))
            dispatches))"
  using assms
proof (cases rule: run_run_cases)
  case (stopped cs)
  then show ?thesis by (intro exI [of _ cs] exI [of _ "[]"]) auto
next
  case (dispatched p w1 w2 digest input)
  from resolve_context_calls(1) [OF dispatched(6)] preflight_keeps(1) [OF dispatched(1)] obtain cs where
    cs: "rw_calls w2 = rw_calls w @ cs" "length cs = (if is_auto context then 1 else 0)" "list_all compile_call cs"
    by auto
  from resolve_context_calls(2) [OF dispatched(6) refl dispatched(4)] have
    digest: "digest \<noteq> []" "\<not> is_auto context \<longrightarrow> digest = context \<and> validate_digest (rc_repr cf) context = None"
    by simp_all
  from dispatch_bound_calls [OF dispatched(7)] obtain st where
    "rw_calls w' = rw_calls w2 @ [(to_payload (bound_request cf shadow digest
       (resolve_run_type (rw_table w1) p run_type) input), st)]" by blast
  with cs digest dispatched(1-5) show ?thesis
    by (intro exI [of _ cs] exI [of _ "[(to_payload (bound_request cf shadow digest
       (resolve_run_type (rw_table w1) p run_type) input), st)]"] conjI impI)
      (auto simp: payload_fields)
qed

lemma accepted_run_facts:
  "map_option reported (fst accepted_run) = Some (JStr ''accepted'') \<and>
   map_option (\<lambda>r. json_get (cm_data r) ''run_id'') (fst accepted_run) = Some (JStr ''r-1'') \<and>
   length (rw_calls (snd accepted_run)) = 1 \<and> \<not> is_auto ''0123456789abcdef''"
  by code_simp

theorem run_never_floats_witness:
  "\<exists>compiles dispatches. rw_calls (snd accepted_run) = compiles @ dispatches \<and> compiles = [] \<and>
     length dispatches = 1"
proof -
  have "accepted_run = run_run (run_sample (run_answer 202 ''accepted'')) ''gaps.list'' False ''0123456789abcdef'' run_start_world"
    by (simp add: accepted_run_def)
  then have run: "run_run (run_sample (run_answer 202 ''accepted'')) ''gaps.list'' False ''0123456789abcdef'' run_start_world =
      (fst accepted_run, snd accepted_run)" by simp
  from run_never_floats [OF run] accepted_run_facts show ?thesis by (auto simp: run_start_world_def)
qed

text \<open>
  The exit code is honest. A result without a reported status comes from a command that
  made no dispatch, and fails with an input or a failure code. Otherwise the code is 0 exactly
  for the reports \<open>success\<close>, \<open>accepted\<close> and \<open>deferred\<close>, 3 exactly for \<open>transport_error\<close>, and 1
  for \<open>rejected\<close> and \<open>failed\<close>.
\<close>

theorem run_exit_codes:
  assumes "run_run cf run_type shadow context w = (Some r, w')"
  shows "case reported r of
      JNull \<Rightarrow> \<not> cm_success r \<and> cm_exit_code r \<in> {exit_invalid_input, exit_failure} \<and>
        (\<exists>cs. rw_calls w' = rw_calls w @ cs \<and> list_all compile_call cs)
    | JStr s \<Rightarrow>
        cm_success r = (s \<in> {''success'', ''accepted'', ''deferred''}) \<and>
        cm_exit_code r = (if s \<in> {''success'', ''accepted'', ''deferred''} then exit_success
                          else if s = ''transport_error'' then exit_runtime_unavailable else exit_failure) \<and>
        s \<in> {''success'', ''accepted'', ''deferred'', ''rejected'', ''failed'', ''transport_error''}
    | _ \<Rightarrow> False"
  using assms
proof (cases rule: run_run_cases)
  case (stopped cs)
  then show ?thesis by auto
next
  case (dispatched p w1 w2 digest input)
  obtain o1 st where d: "dispatch_run (rc_fstr cf) (rc_sx cf) (rc_dispatch_env cf) (run_transport cf)
      (bound_request cf shadow digest (resolve_run_type (rw_table w1) p run_type) input) = (o1, st)" by fastforce
  from dispatched(7) d obtain x dir where
    "outcome_to_result cf x (command_label shadow) dir digest (is_auto context) run_type = Some r"
    by (auto simp: dispatch_bound_def bound_request_def [symmetric] Let_def split: option.splits prod.splits)
  note report = outcome_to_result_report [OF this]
  show ?thesis using report by (cases "ro_status x") simp_all
qed

theorem run_exit_codes_witness:
  "(case fst accepted_run of None \<Rightarrow> False | Some r \<Rightarrow> cm_exit_code r = exit_success \<and> cm_success r)"
proof -
  have s: "map_option reported (fst accepted_run) = Some (JStr ''accepted'')" using accepted_run_facts by blast
  from some_pair [OF s] obtain r w' where r: "accepted_run = (Some r, w')" "reported r = JStr ''accepted''" by blast
  from run_exit_codes [OF r(1) [unfolded accepted_run_def]] r(2) show ?thesis unfolding r(1) by simp
qed

section \<open>From the run to its result\<close>

lemma first_decision_at:
  assumes "k < n" "d (j + k) = Some r" "\<forall>i < k. d (j + i) = None"
  shows "first_decision d j n dflt = r"
  using assms
proof (induction n arbitrary: j k)
  case (Suc n)
  show ?case
  proof (cases k)
    case 0
    with Suc show ?thesis by simp
  next
    case (Suc k')
    have "d j = None" using Suc.prems(3) Suc by (metis Suc.prems(3) add.right_neutral zero_less_Suc)
    moreover have "first_decision d (Suc j) n dflt = r"
    proof (rule Suc.IH)
      show "k' < n" "d (Suc j + k') = Some r" using Suc.prems \<open>k = Suc k'\<close> by simp_all
      show "\<forall>i < k'. d (Suc j + i) = None"
      proof (intro allI impI)
        fix i assume "i < k'"
        with Suc.prems(3) \<open>k = Suc k'\<close> have "d (j + Suc i) = None" by blast
        then show "d (Suc j + i) = None" by simp
      qed
    qed
    ultimately show ?thesis by simp
  qed
qed simp

text \<open>
  C9: An accepted run is not lost, where the record store can be written (the command swallows the
  error of a store that cannot, and the run then has no record). If the command reports a run as
  accepted or deferred under a run id, the record store has a record of that id, with the run type
  its preflight resolved, the status reported and its correlation id; and if the boundary, asked
  for that id, first reports a terminal status in the answer to query \<open>k\<close>, then waiting for the run
  with an allowance of more than \<open>k\<close> polls returns that status.
\<close>

theorem accepted_run_completes:
  assumes "run_run cf run_type shadow context w = (Some r, w')" "rw_writable w"
    and "reported r \<in> {JStr ''accepted'', JStr ''deferred''}"
    and "json_get (cm_data r) ''run_id'' = JStr s" "s \<noteq> []"
    and "0 \<le> iv" "k < nat mx"
    and "nth_fetch exec s repo v k = Inr sr" "rs_success sr" "is_terminal (rs_status sr)"
    and "\<forall>i < k. \<exists>si. nth_fetch exec s repo v i = Inr si \<and> rs_success si \<and> \<not> is_terminal (rs_status si)"
  shows "(\<exists>rec p w1. load_record glob s (rw_records w') = Some rec \<and> rr_run_id rec = s \<and>
            build_dispatch_preflight cf run_type w = (Some p, w1) \<and>
            rr_run_type rec = resolve_run_type (rw_table w1) p run_type \<and>
            JStr (rr_last_known_status rec) = reported r \<and> rr_correlation_id rec = rc_correlation_id cf) \<and>
    (\<exists>wr. fst (wait_for_terminal fstr exec None el s repo iv mx v) = Inr wr \<and>
          wr_success wr \<and> wr_terminal_status wr = rs_status sr \<and> wr_polls wr = Suc k)"
proof
  from assms(1) show "\<exists>rec p w1. load_record glob s (rw_records w') = Some rec \<and> rr_run_id rec = s \<and>
      build_dispatch_preflight cf run_type w = (Some p, w1) \<and>
      rr_run_type rec = resolve_run_type (rw_table w1) p run_type \<and>
      JStr (rr_last_known_status rec) = reported r \<and> rr_correlation_id rec = rc_correlation_id cf"
  proof (cases rule: run_run_cases)
    case (stopped cs)
    with assms(3) show ?thesis by auto
  next
    case (dispatched p w1 w2 digest input)
    have "rw_writable w2"
      using assms(2) preflight_keeps(5) [OF dispatched(1)] resolve_context_calls(3) [OF dispatched(6)] by simp
    from dispatch_bound_record [OF dispatched(7) this assms(3-5)] dispatched(1) show ?thesis
      by (fastforce simp: load_record_def)
  qed
  have decide: "poll_decision fstr None el s (Suc k) (nth_fetch exec s repo v k) =
      Some (Inr (wait_done False (el (Suc k)) s (Suc k) sr))"
    using assms(8-10) by (simp add: wait_once_decides wait_once_def)
  have again: "\<forall>i < k. poll_decision fstr None el s (Suc i) (nth_fetch exec s repo v i) = None"
    using assms(11) by (fastforce simp: wait_once_decides wait_once_def)
  have "fst (wait_for_terminal fstr exec None el s repo iv mx v) =
      Inr (wait_done False (el (Suc k)) s (Suc k) sr)"
    unfolding wait_for_terminal_def
    using wait_loop_spec [OF assms(6), of fstr exec None el s repo "nat mx" 0 v]
      first_decision_at [OF assms(7), of "\<lambda>k. poll_decision fstr None el s (0 + Suc k) (nth_fetch exec s repo v k)" 0] decide again
    by simp
  then show "\<exists>wr. fst (wait_for_terminal fstr exec None el s repo iv mx v) = Inr wr \<and>
          wr_success wr \<and> wr_terminal_status wr = rs_status sr \<and> wr_polls wr = Suc k"
    by (simp add: wait_done_def)
qed

definition finishing_boundary :: "nat exec_fn" where
  "finishing_boundary c n =
     (CallReturned 200 (JObj [(''status'', JStr (if n < 2 then ''running'' else ''success''))]), Suc n)"

theorem accepted_run_completes_witness:
  "\<exists>wr. fst (wait_for_terminal as_str finishing_boundary None (\<lambda>_. 0) ''r-1'' (JStr []) 3 200 0) = Inr wr \<and>
     wr_terminal_status wr = SUCCESS \<and> wr_polls wr = 3"
proof -
  have s: "map_option reported (fst accepted_run) = Some (JStr ''accepted'')"
    and i: "map_option (\<lambda>r. json_get (cm_data r) ''run_id'') (fst accepted_run) = Some (JStr ''r-1'')" using accepted_run_facts by blast+
  from some_pair [OF s] obtain r w' where r: "accepted_run = (Some r, w')" "reported r = JStr ''accepted''" by blast
  have fetch: "nth_fetch finishing_boundary ''r-1'' (JStr []) 0 n =
      classify_status_result 200 (JObj [(''status'', JStr (if n < 2 then ''running'' else ''success''))]) ''r-1'' (JStr [])"
    for n
  proof -
    have w: "nth_world finishing_boundary ''r-1'' 0 n = n" by (induction n) (simp_all add: finishing_boundary_def)
    show ?thesis by (simp add: nth_fetch_def w fetch_run_status_def finishing_boundary_def)
  qed
  obtain sr where sr: "nth_fetch finishing_boundary ''r-1'' (JStr []) 0 2 = Inr sr" "rs_success sr" "rs_status sr = SUCCESS"
    unfolding fetch by (simp add: classify_status_result_def product_error_def resolved_status_result_def Let_def json_simps
        raw_status_def classify_status_def status_map_def py_lower_def py_lower_char_def code_of_def py_strip_def
        py_lstrip_def py_isspace_def)
  have early: "\<forall>i < 2. \<exists>si. nth_fetch finishing_boundary ''r-1'' (JStr []) 0 i = Inr si \<and> rs_success si \<and>
      \<not> is_terminal (rs_status si)"
    unfolding fetch by (simp add: classify_status_result_def product_error_def resolved_status_result_def Let_def json_simps
        raw_status_def classify_status_def status_map_def py_lower_def py_lower_char_def code_of_def py_strip_def
        py_lstrip_def py_isspace_def is_terminal_def terminal_statuses_def)
  have w: "rw_writable run_start_world" by (simp add: run_start_world_def)
  have rep: "reported r \<in> {JStr ''accepted'', JStr ''deferred''}" using r(2) by simp
  have rid: "json_get (cm_data r) ''run_id'' = JStr ''r-1''" using i unfolding r(1) by simp
  have final: "is_terminal (rs_status sr)" by (simp add: sr is_terminal_def terminal_statuses_def)
  from accepted_run_completes [OF r(1) [unfolded accepted_run_def] w rep rid, of 3 2 200, OF _ _ _ sr(1,2) final early,
      of "\<lambda>fs. fs" as_str "\<lambda>_. 0"] sr(3)
  show ?thesis by auto
qed

end
