(* ===== verification/Path_Glob.thy ===== *)
theory Path_Glob
  imports Text_Ops "HOL-Library.Char_ord" "HOL-Library.List_Lexorder"
begin

text \<open>
  Paths and shell patterns of the standard library: \<open>PurePosixPath.parts\<close> and \<open>.name\<close>,
  \<open>os.path.splitext\<close>, and \<open>fnmatch.fnmatch\<close> on a POSIX system, where \<open>*\<close> also matches a slash.
  Characters are bytes, as everywhere in this development.
\<close>

section \<open>Paths\<close>

definition path_root :: "string \<Rightarrow> string" where
  "path_root s =
     (if starts_with ''//'' s \<and> \<not> starts_with ''///'' s then ''//''
      else if starts_with ''/'' s then ''/'' else [])"

definition path_components :: "string \<Rightarrow> string list" where
  "path_components s = filter (\<lambda>w. w \<noteq> [] \<and> w \<noteq> ''.'') (py_split CHR ''/'' s)"

definition path_parts :: "string \<Rightarrow> string list" where
  "path_parts s = (if path_root s = [] then [] else [path_root s]) @ path_components s"

definition path_name :: "string \<Rightarrow> string" where
  "path_name s = (if path_components s = [] then [] else last (path_components s))"

text \<open>\<open>os.path.splitext(p)[1]\<close>: the last dot of the last component, unless only dots precede it.\<close>

definition base_name :: "string \<Rightarrow> string" where
  "base_name s = last (py_split CHR ''/'' s)"

definition split_ext :: "string \<Rightarrow> string" where
  "split_ext s =
     (let b = base_name s;
          ext = rev (takeWhile (\<lambda>c. c \<noteq> CHR ''.'') (rev b));
          stem = take (length b - length ext - 1) b
      in if CHR ''.'' \<in> set b \<and> (\<exists>c \<in> set stem. c \<noteq> CHR ''.'') then CHR ''.'' # ext else [])"

section \<open>Patterns\<close>

datatype glob_item = GStar | GAny | GChar char | GClass bool "(char \<times> char) list"

text \<open>
  The inside of a bracket, read from left to right: \<open>x-y\<close> is a range, empty when its ends are
  reversed, and any other character stands for itself.
\<close>

fun class_ranges :: "string \<Rightarrow> (char \<times> char) list" where
  "class_ranges (x # d # y # s) =
     (if d = CHR ''-'' then (x, y) # class_ranges s else (x, x) # class_ranges (d # y # s))"
| "class_ranges [x, d] = [(x, x), (d, d)]"
| "class_ranges [x] = [(x, x)]"
| "class_ranges [] = []"

text \<open>
  \<open>class_end\<close> finds the closing bracket, which is not one that comes first in the class or right
  after its negation; without one the opening bracket is an ordinary character.
\<close>

definition class_lead :: "string \<Rightarrow> string" where
  "class_lead s =
     (let neg = (if starts_with ''!'' s then ''!'' else []);
          rest = drop (length neg) s
      in if starts_with '']'' rest then neg @ '']'' else neg)"

definition class_split :: "string \<Rightarrow> (string \<times> string) option" where
  "class_split s =
     (let lead = class_lead s; rest = drop (length lead) s
      in case dropWhile (\<lambda>c. c \<noteq> CHR '']'') rest of
           [] \<Rightarrow> None
         | c # tail \<Rightarrow> Some (lead @ takeWhile (\<lambda>c. c \<noteq> CHR '']'') rest, tail))"

definition glob_class :: "string \<Rightarrow> glob_item" where
  "glob_class stuff =
     (if starts_with ''!'' stuff then GClass True (class_ranges (tl stuff))
      else GClass False (class_ranges stuff))"

lemma class_split_shorter: "class_split s = Some (a, b) \<Longrightarrow> length b < length s"
proof -
  assume a: "class_split s = Some (a, b)"
  define rest where "rest = drop (length (class_lead s)) s"
  from a obtain c where "dropWhile (\<lambda>c. c \<noteq> CHR '']'') rest = c # b"
    by (auto simp: class_split_def Let_def rest_def split: list.splits)
  then have "length (c # b) \<le> length rest" by (metis length_dropWhile_le)
  moreover have "length rest \<le> length s" by (simp add: rest_def)
  ultimately show "length b < length s" by simp
qed

function glob_parse :: "string \<Rightarrow> glob_item list" where
  "glob_parse [] = []"
| "glob_parse (c # s) =
     (if c = CHR ''*'' then GStar # glob_parse s
      else if c = CHR ''?'' then GAny # glob_parse s
      else if c = CHR ''['' then
        (case class_split s of
           None \<Rightarrow> GChar c # glob_parse s
         | Some (stuff, rest) \<Rightarrow> glob_class stuff # glob_parse rest)
      else GChar c # glob_parse s)"
  by pat_completeness auto
termination
  by (relation "measure length") (auto dest: class_split_shorter)

definition class_matches :: "bool \<Rightarrow> (char \<times> char) list \<Rightarrow> char \<Rightarrow> bool" where
  "class_matches neg ranges c = (list_ex (\<lambda>(lo, hi). lo \<le> c \<and> c \<le> hi) ranges \<noteq> neg)"

fun glob_match :: "glob_item list \<Rightarrow> string \<Rightarrow> bool" where
  "glob_match [] s = (s = [])"
| "glob_match (GStar # ps) s =
     (glob_match ps s \<or> (case s of [] \<Rightarrow> False | _ # t \<Rightarrow> glob_match (GStar # ps) t))"
| "glob_match (GAny # ps) s = (case s of [] \<Rightarrow> False | _ # t \<Rightarrow> glob_match ps t)"
| "glob_match (GChar d # ps) s = (case s of [] \<Rightarrow> False | c # t \<Rightarrow> c = d \<and> glob_match ps t)"
| "glob_match (GClass neg rs # ps) s =
     (case s of [] \<Rightarrow> False | c # t \<Rightarrow> class_matches neg rs c \<and> glob_match ps t)"

definition fnmatch :: "string \<Rightarrow> string \<Rightarrow> bool" where
  "fnmatch s pattern = glob_match (glob_parse pattern) s"

section \<open>Facts\<close>

lemma py_split_append:
  "py_split c (a @ c # b) = py_split c a @ py_split c b"
  by (induction a) (auto split: list.split)

lemma py_split_single: "c \<notin> set w \<Longrightarrow> py_split c w = [w]"
  by (induction w) auto

lemma glob_match_star_Cons:
  "glob_match (GStar # ps) (x # s) \<longleftrightarrow> glob_match ps (x # s) \<or> glob_match (GStar # ps) s"
  "glob_match (GStar # ps) [] \<longleftrightarrow> glob_match ps []"
  by simp_all

declare glob_match.simps(2) [simp del]

lemma glob_match_star: "glob_match (GStar # ps) s \<longleftrightarrow> (\<exists>a b. s = a @ b \<and> glob_match ps b)"
proof (induction s)
  case (Cons x s)
  have "(\<exists>a b. x # s = a @ b \<and> glob_match ps b) \<longleftrightarrow>
      glob_match ps (x # s) \<or> (\<exists>a b. s = a @ b \<and> glob_match ps b)"
    by (auto simp: Cons_eq_append_conv)
  then show ?case using Cons by (simp add: glob_match_star_Cons)
qed (simp add: glob_match_star_Cons)

definition plain_pattern :: "string \<Rightarrow> bool" where
  "plain_pattern p = (set p \<inter> {CHR ''*'', CHR ''?'', CHR ''[''} = {})"

lemma glob_parse_plain: "plain_pattern p \<Longrightarrow> glob_parse p = map GChar p"
  by (induction p) (auto simp: plain_pattern_def)

lemma glob_match_plain: "glob_match (map GChar p) s \<longleftrightarrow> s = p"
  by (induction p arbitrary: s) (auto split: list.split)

lemma fnmatch_plain: "plain_pattern p \<Longrightarrow> fnmatch s p \<longleftrightarrow> s = p"
  by (simp add: fnmatch_def glob_parse_plain glob_match_plain)

lemma fnmatch_suffix: "plain_pattern p \<Longrightarrow> fnmatch s (CHR ''*'' # p) \<longleftrightarrow> ends_with p s"
  by (simp add: fnmatch_def glob_parse_plain glob_match_plain glob_match_star ends_with_iff)

end
