(* ===== verification/Ingest_Scan.thy ===== *)
theory Ingest_Scan
  imports Path_Glob "HOL-Library.Product_Lexorder"
begin

chapter \<open>Filters\<close>

text \<open>
  The include/exclude filter of the repository scan (\<open>ingest/filter.py\<close>): the default rules, the
  match of one rule, and the classification of a relative path.
\<close>

definition default_excludes :: "string list" where
  "default_excludes =
     [''.git'', ''.git/**'', ''.hg'', ''.hg/**'', ''.svn'', ''.svn/**'', ''.env'', ''.env.*'',
      ''*.pem'', ''*.key'', ''*.p12'', ''*.pfx'', ''*.jks'', ''*.keystore'', ''venv/**'',
      ''.venv/**'', ''env/**'', ''.tox/**'', ''.nox/**'', ''node_modules/**'',
      ''bower_components/**'', ''__pycache__/**'', ''*.pyc'', ''*.pyo'', ''.eggs/**'',
      ''*.egg-info/**'', ''build/**'', ''dist/**'', ''out/**'', ''target/**'', ''bin/**'',
      ''.idea/**'', ''.vscode/**'', ''*.swp'', ''*.swo'', ''*~'', ''.DS_Store'', ''Thumbs.db'',
      ''.coverage'', ''htmlcov/**'', ''.pytest_cache/**'', ''.mypy_cache/**'', ''.ruff_cache/**'',
      ''*.iso'', ''*.dmg'', ''*.tar.gz'', ''*.tar.bz2'', ''*.zip'', ''*.rar'', ''*.7z'', ''*.jar'',
      ''*.war'', ''*.ear'', ''*.whl'', ''.docker/**'']"

definition default_includes :: "string list" where
  "default_includes =
     [''*.py'', ''*.js'', ''*.ts'', ''*.jsx'', ''*.tsx'', ''*.java'', ''*.go'', ''*.rs'', ''*.rb'',
      ''*.c'', ''*.cpp'', ''*.h'', ''*.hpp'', ''*.cs'', ''*.swift'', ''*.kt'', ''*.scala'',
      ''*.sh'', ''*.bash'', ''*.zsh'', ''*.sql'', ''*.html'', ''*.css'', ''*.scss'', ''*.less'',
      ''*.vue'', ''*.svelte'', ''*.md'', ''*.rst'', ''*.txt'', ''*.adoc'', ''*.json'', ''*.yaml'',
      ''*.yml'', ''*.toml'', ''*.cfg'', ''*.ini'', ''*.xml'', ''*.gradle'', ''*.properties'',
      ''Makefile'', ''Dockerfile'', ''docker-compose*.yml'', ''docker-compose*.yaml'',
      ''Jenkinsfile'', ''Vagrantfile'', ''Procfile'', ''.github/**'', ''.gitlab-ci.yml'',
      ''*.lock'', ''package-lock.json'', ''yarn.lock'', ''Pipfile.lock'', ''poetry.lock'',
      ''Cargo.lock'', ''go.sum'']"

record path_filter =
  pt_excludes :: "string list"
  pt_includes :: "string list"

definition new_filter :: "string list \<Rightarrow> string list \<Rightarrow> path_filter" where
  "new_filter extra_includes extra_excludes =
     \<lparr>pt_excludes = default_excludes @ extra_excludes, pt_includes = default_includes @ extra_includes\<rparr>"

text \<open>The directory rules \<open>dir/**\<close> and the rules that name a whole component.\<close>

definition dir_rule :: "string \<Rightarrow> string option" where
  "dir_rule pattern =
     (if ends_with ''/**'' pattern then Some (take (length pattern - 3) pattern) else None)"

definition name_rule :: "string \<Rightarrow> bool" where
  "name_rule pattern =
     (\<not> ends_with ''/**'' pattern \<and> \<not> py_in ''/'' pattern \<and> \<not> py_in ''*'' pattern)"

definition rule_matches :: "string \<Rightarrow> string \<Rightarrow> bool" where
  "rule_matches path pattern =
     (let parts = path_parts path
      in if fnmatch (path_name path) pattern then True
         else if fnmatch path pattern then True
         else if name_rule pattern \<and> pattern \<in> set parts then True
         else (case dir_rule pattern of
                 None \<Rightarrow> False
               | Some prefix \<Rightarrow> starts_with (prefix @ ''/'') path \<or> path = prefix \<or> prefix \<in> set parts))"

definition to_posix :: "string \<Rightarrow> string" where
  "to_posix = map (\<lambda>c. if c = CHR 0x5C then CHR ''/'' else c)"

definition classify_path :: "path_filter \<Rightarrow> string \<Rightarrow> bool \<times> string" where
  "classify_path f rel_path =
     (let norm = to_posix rel_path
      in case find (rule_matches norm) (pt_excludes f) of
           Some pattern \<Rightarrow> (False, ''exclude:'' @ pattern)
         | None \<Rightarrow>
             (if list_ex (rule_matches norm) (pt_includes f) then (True, ''include'')
              else (False, ''exclude:no_matching_include'')))"

section \<open>Facts\<close>

lemma classify_path_included:
  "fst (classify_path f p) \<longleftrightarrow>
     (\<forall>pattern \<in> set (pt_excludes f). \<not> rule_matches (to_posix p) pattern) \<and>
     (\<exists>pattern \<in> set (pt_includes f). rule_matches (to_posix p) pattern)"
proof (cases "find (rule_matches (to_posix p)) (pt_excludes f)")
  case None
  then have "\<forall>pattern \<in> set (pt_excludes f). \<not> rule_matches (to_posix p) pattern"
    by (auto simp: find_None_iff)
  with None show ?thesis by (simp add: classify_path_def Let_def list_ex_iff)
next
  case (Some pattern)
  then have "pattern \<in> set (pt_excludes f)" "rule_matches (to_posix p) pattern"
    by (auto simp: find_Some_iff)
  then show ?thesis using Some by (auto simp: classify_path_def Let_def)
qed

lemma path_root_to_posix_Nil [simp]: "to_posix [] = []"
  by (simp add: to_posix_def)

lemma to_posix_id: "CHR 0x5C \<notin> set s \<Longrightarrow> to_posix s = s"
  by (induction s) (auto simp: to_posix_def)

chapter \<open>Scanning\<close>

text \<open>
  The repository scan (\<open>ingest/scanner.py\<close>) over a directory tree: the walk that prunes excluded
  directories, and what is collected of every file it meets. The order in which the operating
  system lists a directory is the order of the lists. A file whose size cannot be read has
  none; \<open>OtherDir\<close> is a directory the walk does not enter: a link to one, or one that cannot
  be listed.
\<close>

section \<open>Signals and classes\<close>

datatype confidence_level = CONFIDENCE_HIGH | CONFIDENCE_MEDIUM | CONFIDENCE_LOW

fun confidence_level_value :: "confidence_level \<Rightarrow> string" where
  "confidence_level_value CONFIDENCE_HIGH = ''high''"
| "confidence_level_value CONFIDENCE_MEDIUM = ''medium''"
| "confidence_level_value CONFIDENCE_LOW = ''low''"

datatype file_class =
  CLASS_SOURCE | CLASS_TEST | CLASS_DOC | CLASS_MANIFEST | CLASS_BUILD | CLASS_CI | CLASS_CONFIG
| CLASS_DEPENDENCY | CLASS_INFRA | CLASS_OTHER

record scan_signal =
  sg_kind :: string
  sg_path :: string
  sg_value :: string
  sg_confidence :: confidence_level

definition manifest_signals :: "(string \<times> string \<times> string) list" where
  "manifest_signals =
     [(''pyproject.toml'', (''python'', [])), (''setup.py'', (''python'', [])),
      (''setup.cfg'', (''python'', [])), (''requirements.txt'', (''python'', [])),
      (''Pipfile'', (''python'', [])), (''poetry.lock'', (''python'', [])),
      (''package.json'', (''javascript'', [])), (''tsconfig.json'', (''typescript'', [])),
      (''pom.xml'', (''java'', ''maven'')), (''build.gradle'', (''java'', ''gradle'')),
      (''build.gradle.kts'', (''kotlin'', ''gradle'')), (''go.mod'', (''go'', [])),
      (''Cargo.toml'', (''rust'', ''cargo'')), (''Gemfile'', (''ruby'', [])),
      (''composer.json'', (''php'', [])), (''mix.exs'', (''elixir'', [])),
      (''Package.swift'', (''swift'', [])), (''*.csproj'', (''csharp'', ''dotnet'')),
      (''*.fsproj'', (''fsharp'', ''dotnet'')), (''CMakeLists.txt'', (''c/cpp'', ''cmake'')),
      (''Makefile'', ([], ''make''))]"

definition framework_hints :: "(string \<times> string) list" where
  "framework_hints =
     [(''manage.py'', ''django''), (''next.config.js'', ''nextjs''),
      (''next.config.ts'', ''nextjs''), (''nuxt.config.js'', ''nuxt''),
      (''nuxt.config.ts'', ''nuxt''), (''angular.json'', ''angular''),
      (''svelte.config.js'', ''svelte''), (''astro.config.mjs'', ''astro''),
      (''vite.config.ts'', ''vite''), (''vite.config.js'', ''vite''),
      (''webpack.config.js'', ''webpack''), (''tailwind.config.js'', ''tailwind''),
      (''Dockerfile'', ''docker''), (''docker-compose.yml'', ''docker-compose''),
      (''docker-compose.yaml'', ''docker-compose'')]"

definition ext_languages :: "(string \<times> string) list" where
  "ext_languages =
     [(''.py'', ''python''), (''.js'', ''javascript''), (''.ts'', ''typescript''),
      (''.jsx'', ''javascript''), (''.tsx'', ''typescript''), (''.java'', ''java''),
      (''.go'', ''go''), (''.rs'', ''rust''), (''.rb'', ''ruby''), (''.c'', ''c''),
      (''.cpp'', ''c++''), (''.cs'', ''csharp''), (''.swift'', ''swift''), (''.kt'', ''kotlin''),
      (''.scala'', ''scala''), (''.php'', ''php''), (''.sh'', ''shell''), (''.sql'', ''sql'')]"

definition source_dir_names :: "string list" where
  "source_dir_names = [''api'', ''app'', ''backend'', ''cmd'', ''core'', ''frontend'', ''internal'', ''lib'',
      ''pkg'', ''src'']"

definition test_dir_names :: "string list" where
  "test_dir_names = [''__tests__'', ''spec'', ''specs'', ''test'', ''test_utils'', ''testing'', ''tests'']"

definition keyhole_markers :: "string list" where
  "keyhole_markers = [''capability_passport.yaml'', ''governance_contract.yaml'', ''keyhole.yaml'']"

definition ends_with_any :: "string list \<Rightarrow> string \<Rightarrow> bool" where
  "ends_with_any suffixes s = list_ex (\<lambda>p. ends_with p s) suffixes"

definition classify_file :: "string \<Rightarrow> string \<Rightarrow> file_class" where
  "classify_file rel_path filename =
     (let lower = py_lower filename
      in if lower \<in> {''readme.md'', ''readme.rst'', ''readme.txt'', ''readme'', ''changelog.md'',
            ''contributing.md'', ''license'', ''license.md'', ''license.txt''} then CLASS_DOC
         else if ends_with_any [''.md'', ''.rst'', ''.adoc''] lower \<and> py_in ''doc'' (py_lower rel_path) then CLASS_DOC
         else if lower \<in> {''dockerfile'', ''makefile'', ''jenkinsfile'', ''vagrantfile'', ''procfile''} then CLASS_BUILD
         else if starts_with ''docker-compose'' lower then CLASS_BUILD
         else if py_in ''.github/'' rel_path \<or> py_in ''.gitlab-ci'' lower then CLASS_CI
         else if dict_get manifest_signals lower \<noteq> None then CLASS_MANIFEST
         else if ends_with_any [''.yaml'', ''.yml'', ''.toml'', ''.cfg'', ''.ini'', ''.json''] lower
             \<and> py_in ''config'' lower then CLASS_CONFIG
         else if list_ex (\<lambda>part. part \<in> set test_dir_names) (py_split CHR ''/'' rel_path) then CLASS_TEST
         else if starts_with ''test_'' lower \<or> ends_with ''_test.py'' lower \<or> ends_with ''.test.js'' lower then CLASS_TEST
         else if ends_with_any [''.py'', ''.js'', ''.ts'', ''.java'', ''.go'', ''.rs'', ''.rb'', ''.c'', ''.cpp'',
             ''.h'', ''.hpp'', ''.cs'', ''.swift'', ''.kt''] lower then CLASS_SOURCE
         else CLASS_OTHER)"

section \<open>The walk\<close>

datatype repo_node = FileNode "nat option" | DirNode "(string \<times> repo_node) list" | OtherDir

type_synonym repo_entry = "string \<times> repo_node"

fun is_file_node :: "repo_node \<Rightarrow> bool" where
  "is_file_node (FileNode _) = True"
| "is_file_node _ = False"

fun node_children :: "repo_node \<Rightarrow> repo_entry list" where
  "node_children (DirNode cs) = cs"
| "node_children _ = []"

fun file_size :: "repo_node \<Rightarrow> nat option" where
  "file_size (FileNode sz) = sz"
| "file_size _ = None"

definition child_path :: "string \<Rightarrow> string \<Rightarrow> string" where
  "child_path rel_dir name = (if rel_dir \<noteq> [] then rel_dir @ ''/'' @ name else name)"

definition dir_excluded :: "string list \<Rightarrow> string \<Rightarrow> bool" where
  "dir_excluded rules dir_rel =
     list_ex (\<lambda>pattern. rule_matches dir_rel pattern \<or> rule_matches (dir_rel @ ''/'') pattern) rules"

text \<open>One round of the loop over \<open>os.walk\<close>: the path of the directory, its name and its files.\<close>

record walk_visit =
  wv_rel_dir :: string
  wv_dir_name :: string
  wv_files :: "(string \<times> nat option) list"

definition dir_files :: "repo_entry list \<Rightarrow> (string \<times> nat option) list" where
  "dir_files cs = map (\<lambda>(n, c). (n, file_size c)) (filter (\<lambda>(n, c). is_file_node c) cs)"

definition kept_dirs :: "string list \<Rightarrow> string \<Rightarrow> repo_entry list \<Rightarrow> repo_entry list" where
  "kept_dirs rules rel_dir cs =
     sort_key fst (filter (\<lambda>(n, c). \<not> is_file_node c \<and> \<not> dir_excluded rules (child_path rel_dir n)) cs)"

lemma kept_dir_smaller:
  assumes "(n, DirNode ds) \<in> set (kept_dirs rules rel_dir cs)"
  shows "size_list (\<lambda>p. size (snd p)) ds < size_list (\<lambda>p. size (snd p)) cs"
proof -
  from assms have "(n, DirNode ds) \<in> set cs" by (auto simp: kept_dirs_def)
  then have "size (DirNode ds) \<le> size_list (\<lambda>p. size (snd p)) cs"
    by (intro size_list_estimation' [where x = "(n, DirNode ds)"]) auto
  moreover have "size_list (\<lambda>p. size (snd p)) ds \<le> size_list (size_prod (\<lambda>x. 0) size) ds"
    by (induction ds) auto
  ultimately show ?thesis by simp
qed

function walk_tree :: "string list \<Rightarrow> string \<Rightarrow> string \<Rightarrow> repo_entry list \<Rightarrow> walk_visit list" where
  "walk_tree rules rel_dir name cs =
     \<lparr>wv_rel_dir = rel_dir, wv_dir_name = name, wv_files = dir_files cs\<rparr> #
     concat (map (\<lambda>(n, c). case c of DirNode ds \<Rightarrow> walk_tree rules (child_path rel_dir n) n ds | _ \<Rightarrow> [])
       (kept_dirs rules rel_dir cs))"
  by pat_completeness auto
termination
  by (relation "measure (\<lambda>(rules, rel, n, cs). size_list (\<lambda>p. size (snd p)) cs)")
    (use kept_dir_smaller in auto)

declare walk_tree.simps [simp del]

section \<open>What is collected\<close>

record scan_state =
  sn_languages :: "string list"
  sn_frameworks :: "string list"
  sn_manifests :: "string list"
  sn_source_dirs :: "string list"
  sn_test_dirs :: "string list"
  sn_doc_files :: "string list"
  sn_build_files :: "string list"
  sn_included :: "string list"
  sn_excluded :: "string list"
  sn_signals :: "scan_signal list"
  sn_total_files :: nat
  sn_bytes :: nat
  sn_has_keyhole :: bool

definition scan_start :: scan_state where
  "scan_start =
     \<lparr>sn_languages = [], sn_frameworks = [], sn_manifests = [], sn_source_dirs = [], sn_test_dirs = [],
      sn_doc_files = [], sn_build_files = [], sn_included = [], sn_excluded = [], sn_signals = [],
      sn_total_files = 0, sn_bytes = 0, sn_has_keyhole = False\<rparr>"

definition set_add :: "string \<Rightarrow> string list \<Rightarrow> string list" where
  "set_add x xs = (if x \<in> set xs then xs else xs @ [x])"

definition note_language :: "string \<Rightarrow> string \<Rightarrow> confidence_level \<Rightarrow> scan_state \<Rightarrow> scan_state" where
  "note_language path lang conf st =
     st\<lparr>sn_languages := set_add lang (sn_languages st),
        sn_signals := sn_signals st @
          [\<lparr>sg_kind = ''language'', sg_path = path, sg_value = lang, sg_confidence = conf\<rparr>]\<rparr>"

definition note_framework :: "string \<Rightarrow> string \<Rightarrow> confidence_level \<Rightarrow> scan_state \<Rightarrow> scan_state" where
  "note_framework path fw conf st =
     st\<lparr>sn_frameworks := set_add fw (sn_frameworks st),
        sn_signals := sn_signals st @
          [\<lparr>sg_kind = ''framework'', sg_path = path, sg_value = fw, sg_confidence = conf\<rparr>]\<rparr>"

definition note_manifest :: "string \<Rightarrow> string \<Rightarrow> scan_state \<Rightarrow> scan_state" where
  "note_manifest path filename st =
     (case dict_get manifest_signals filename of
        None \<Rightarrow> st
      | Some (lang, fw) \<Rightarrow>
          (let st1 = st\<lparr>sn_manifests := sn_manifests st @ [path]\<rparr>;
               st2 = (if lang \<noteq> [] then note_language path lang CONFIDENCE_HIGH st1 else st1)
           in if fw \<noteq> [] then note_framework path fw CONFIDENCE_HIGH st2 else st2))"

definition note_hint :: "string \<Rightarrow> string \<Rightarrow> scan_state \<Rightarrow> scan_state" where
  "note_hint path filename st =
     (case dict_get framework_hints filename of
        None \<Rightarrow> st
      | Some fw \<Rightarrow> note_framework path fw CONFIDENCE_MEDIUM st)"

definition note_class :: "string \<Rightarrow> string \<Rightarrow> scan_state \<Rightarrow> scan_state" where
  "note_class path filename st =
     (case classify_file path filename of
        CLASS_DOC \<Rightarrow> st\<lparr>sn_doc_files := sn_doc_files st @ [path]\<rparr>
      | CLASS_BUILD \<Rightarrow> st\<lparr>sn_build_files := sn_build_files st @ [path]\<rparr>
      | CLASS_CI \<Rightarrow> st\<lparr>sn_build_files := sn_build_files st @ [path]\<rparr>
      | _ \<Rightarrow> st)"

definition scan_file ::
  "path_filter \<Rightarrow> int \<Rightarrow> string \<Rightarrow> string \<times> nat option \<Rightarrow> scan_state \<Rightarrow> scan_state" where
  "scan_file f max_bytes rel_dir entry st =
     (case entry of (filename, sz) \<Rightarrow>
       (let path = child_path rel_dir filename;
            st = st\<lparr>sn_total_files := sn_total_files st + 1\<rparr>;
            bytes = (case sz of None \<Rightarrow> 0 | Some n \<Rightarrow> n)
        in if \<not> fst (classify_path f path) then st\<lparr>sn_excluded := sn_excluded st @ [path]\<rparr>
           else if max_bytes > 0 \<and> int (sn_bytes st + bytes) > max_bytes
           then st\<lparr>sn_excluded := sn_excluded st @ [path]\<rparr>
           else
             note_class path filename (note_hint path filename (note_manifest path filename
               (st\<lparr>sn_bytes := sn_bytes st + bytes, sn_included := sn_included st @ [path],
                   sn_has_keyhole := (sn_has_keyhole st \<or> filename \<in> set keyhole_markers)\<rparr>)))))"

definition note_dir :: "walk_visit \<Rightarrow> scan_state \<Rightarrow> scan_state" where
  "note_dir v st =
     (let st1 = (if wv_dir_name v \<in> set source_dir_names \<and> wv_rel_dir v \<noteq> []
                 then st\<lparr>sn_source_dirs := set_add (wv_rel_dir v) (sn_source_dirs st)\<rparr> else st)
      in if wv_dir_name v \<in> set test_dir_names \<and> wv_rel_dir v \<noteq> []
         then st1\<lparr>sn_test_dirs := set_add (wv_rel_dir v) (sn_test_dirs st1)\<rparr> else st1)"

definition scan_visit :: "path_filter \<Rightarrow> int \<Rightarrow> walk_visit \<Rightarrow> scan_state \<Rightarrow> scan_state" where
  "scan_visit f max_bytes v st =
     fold (scan_file f max_bytes (wv_rel_dir v)) (sort_key fst (wv_files v)) (note_dir v st)"

text \<open>The fallback by extension.\<close>

fun infer_languages :: "string list \<Rightarrow> string list \<Rightarrow> scan_state \<Rightarrow> scan_state" where
  "infer_languages seen [] st = st"
| "infer_languages seen (path # paths) st =
     (case dict_get ext_languages (py_lower (split_ext path)) of
        None \<Rightarrow> infer_languages seen paths st
      | Some lang \<Rightarrow>
          (if lang \<noteq> [] \<and> lang \<notin> set (sn_languages st) \<and> lang \<notin> set seen
           then infer_languages (lang # seen) paths (note_language path lang CONFIDENCE_LOW st)
           else infer_languages seen paths st))"

record repo_scan =
  rp_repo_root :: string
  rp_languages :: "string list"
  rp_frameworks :: "string list"
  rp_manifests :: "string list"
  rp_source_dirs :: "string list"
  rp_test_dirs :: "string list"
  rp_doc_files :: "string list"
  rp_build_files :: "string list"
  rp_included_files :: "string list"
  rp_excluded_files :: "string list"
  rp_signals :: "scan_signal list"
  rp_total_files :: nat
  rp_total_included_bytes :: nat
  rp_has_keyhole_scaffold :: bool
  rp_scan_timestamp :: string

definition scan_result :: "string \<Rightarrow> string \<Rightarrow> scan_state \<Rightarrow> repo_scan" where
  "scan_result now repo_root st =
     \<lparr>rp_repo_root = repo_root, rp_languages = sort (sn_languages st), rp_frameworks = sort (sn_frameworks st),
      rp_manifests = sort (sn_manifests st), rp_source_dirs = sort (sn_source_dirs st),
      rp_test_dirs = sort (sn_test_dirs st), rp_doc_files = sort (sn_doc_files st),
      rp_build_files = sort (sn_build_files st), rp_included_files = sort (sn_included st),
      rp_excluded_files = sort (sn_excluded st),
      rp_signals = sort_key (\<lambda>s. (sg_kind s, sg_path s)) (sn_signals st),
      rp_total_files = sn_total_files st, rp_total_included_bytes = sn_bytes st,
      rp_has_keyhole_scaffold = sn_has_keyhole st, rp_scan_timestamp = now\<rparr>"

definition scan_tree :: "path_filter \<Rightarrow> int \<Rightarrow> walk_visit list \<Rightarrow> scan_state" where
  "scan_tree f max_bytes visits =
     (let st = fold (scan_visit f max_bytes) visits scan_start
      in infer_languages [] (sn_included st) st)"

definition scan_repo ::
  "string \<Rightarrow> string \<Rightarrow> repo_node option \<Rightarrow> path_filter \<Rightarrow> int \<Rightarrow> string + repo_scan" where
  "scan_repo now repo_root node f max_bytes =
     (case node of
        Some (DirNode cs) \<Rightarrow>
          Inr (scan_result now repo_root (scan_tree f max_bytes (walk_tree (pt_excludes f) [] (base_name repo_root) cs)))
      | Some OtherDir \<Rightarrow> Inr (scan_result now repo_root (scan_tree f max_bytes []))
      | _ \<Rightarrow> Inl (''Repository path does not exist or is not a directory: '' @ repo_root))"

end
