(* ===== verification/Ingest_Facts.thy ===== *)
theory Ingest_Facts
  imports Ingest_Scan "HOL-Library.Multiset"
begin

text \<open>
  Facts about the scan: which files the walk reaches, what one file adds to the state, and that
  neither depends on the order in which directories are listed.
\<close>

section \<open>What the walk reaches\<close>

text \<open>
  \<open>kept_file rules rel cs comps sz\<close>: the components lead from the entries \<open>cs\<close> of the directory
  \<open>rel\<close> to a file of size \<open>sz\<close>, through directories that no rule excludes.
\<close>

fun kept_file :: "string list \<Rightarrow> string \<Rightarrow> repo_entry list \<Rightarrow> string list \<Rightarrow> nat option \<Rightarrow> bool" where
  "kept_file rules rel cs [] sz = False"
| "kept_file rules rel cs (n # ns) sz =
     (if ns = [] then (n, FileNode sz) \<in> set cs
      else (\<exists>ds. (n, DirNode ds) \<in> set cs \<and> \<not> dir_excluded rules (child_path rel n) \<and>
              kept_file rules (child_path rel n) ds ns sz))"

definition path_of :: "string \<Rightarrow> string list \<Rightarrow> string" where
  "path_of rel comps = foldl child_path rel comps"

definition visited_files :: "walk_visit \<Rightarrow> (string \<times> nat option) list" where
  "visited_files v = map (\<lambda>(n, sz). (child_path (wv_rel_dir v) n, sz)) (sort_key fst (wv_files v))"

definition walk_files :: "walk_visit list \<Rightarrow> (string \<times> nat option) list" where
  "walk_files vs = concat (map visited_files vs)"

lemma walk_files_simps [simp]:
  "walk_files [] = []"
  "walk_files (v # vs) = visited_files v @ walk_files vs"
  "walk_files (us @ vs) = walk_files us @ walk_files vs"
  by (simp_all add: walk_files_def)

lemma walk_files_concat: "walk_files (concat vss) = concat (map walk_files vss)"
  by (induction vss) auto

lemma set_visited_files:
  "(p, sz) \<in> set (visited_files \<lparr>wv_rel_dir = rel, wv_dir_name = name, wv_files = dir_files cs\<rparr>) \<longleftrightarrow>
     (\<exists>n. (n, FileNode sz) \<in> set cs \<and> p = child_path rel n)"
proof -
  have "(n, FileNode sz) \<in> set cs \<longleftrightarrow> (n, sz) \<in> set (dir_files cs)" for n
  proof
    assume "(n, sz) \<in> set (dir_files cs)"
    then obtain c where "(n, c) \<in> set cs" "is_file_node c" "sz = file_size c"
      by (auto simp: dir_files_def)
    then show "(n, FileNode sz) \<in> set cs" by (cases c) auto
  next
    assume "(n, FileNode sz) \<in> set cs"
    then have "(n, FileNode sz) \<in> set (filter (\<lambda>(n, c). is_file_node c) cs)" by simp
    then have "(\<lambda>(n, c). (n, file_size c)) (n, FileNode sz) \<in> set (dir_files cs)"
      unfolding dir_files_def set_map by (rule imageI)
    then show "(n, sz) \<in> set (dir_files cs)" by simp
  qed
  then show ?thesis by (auto simp: visited_files_def)
qed

lemma walk_reaches:
  "(p, sz) \<in> set (walk_files (walk_tree rules rel name cs)) \<longleftrightarrow>
     (\<exists>comps. kept_file rules rel cs comps sz \<and> p = path_of rel comps)"
proof (induction rules rel name cs arbitrary: p sz rule: walk_tree.induct)
  case (1 rules rel name cs)
  have sub: "(p, sz) \<in> set (walk_files (case c of DirNode ds \<Rightarrow> walk_tree rules (child_path rel n) n ds | _ \<Rightarrow> [])) \<longleftrightarrow>
      (\<exists>ds comps. c = DirNode ds \<and> kept_file rules (child_path rel n) ds comps sz \<and>
         p = path_of (child_path rel n) comps)"
    if "(n, c) \<in> set (kept_dirs rules rel cs)" for n c
    using that 1 [of "(n, c)" n c] by (cases c) auto
  have dirs: "(n, DirNode ds) \<in> set (kept_dirs rules rel cs) \<longleftrightarrow>
      (n, DirNode ds) \<in> set cs \<and> \<not> dir_excluded rules (child_path rel n)" for n ds
    by (auto simp: kept_dirs_def)
  have "(p, sz) \<in> set (walk_files (walk_tree rules rel name cs)) \<longleftrightarrow>
      (\<exists>n. (n, FileNode sz) \<in> set cs \<and> p = child_path rel n) \<or>
      (\<exists>n c. (n, c) \<in> set (kept_dirs rules rel cs) \<and>
         (p, sz) \<in> set (walk_files (case c of DirNode ds \<Rightarrow> walk_tree rules (child_path rel n) n ds | _ \<Rightarrow> [])))"
    by (subst walk_tree.simps) (auto simp: set_visited_files walk_files_concat)
  also have "\<dots> \<longleftrightarrow> (\<exists>n. (n, FileNode sz) \<in> set cs \<and> p = child_path rel n) \<or>
      (\<exists>n ds comps. (n, DirNode ds) \<in> set cs \<and> \<not> dir_excluded rules (child_path rel n) \<and>
         kept_file rules (child_path rel n) ds comps sz \<and> p = path_of (child_path rel n) comps)"
    using sub dirs by blast
  also have "\<dots> \<longleftrightarrow> (\<exists>comps. kept_file rules rel cs comps sz \<and> p = path_of rel comps)"
  proof
    assume "(\<exists>n. (n, FileNode sz) \<in> set cs \<and> p = child_path rel n) \<or>
      (\<exists>n ds comps. (n, DirNode ds) \<in> set cs \<and> \<not> dir_excluded rules (child_path rel n) \<and>
         kept_file rules (child_path rel n) ds comps sz \<and> p = path_of (child_path rel n) comps)"
    then show "\<exists>comps. kept_file rules rel cs comps sz \<and> p = path_of rel comps"
    proof
      assume "\<exists>n. (n, FileNode sz) \<in> set cs \<and> p = child_path rel n"
      then obtain n where "(n, FileNode sz) \<in> set cs" "p = child_path rel n" by blast
      then have "kept_file rules rel cs [n] sz \<and> p = path_of rel [n]" by (simp add: path_of_def)
      then show ?thesis by blast
    next
      assume "\<exists>n ds comps. (n, DirNode ds) \<in> set cs \<and> \<not> dir_excluded rules (child_path rel n) \<and>
         kept_file rules (child_path rel n) ds comps sz \<and> p = path_of (child_path rel n) comps"
      then obtain n ds comps where r: "(n, DirNode ds) \<in> set cs" "\<not> dir_excluded rules (child_path rel n)"
        "kept_file rules (child_path rel n) ds comps sz" "p = path_of (child_path rel n) comps" by blast
      then have "kept_file rules rel cs (n # comps) sz \<and> p = path_of rel (n # comps)"
        by (cases comps) (auto simp: path_of_def)
      then show ?thesis by blast
    qed
  next
    assume "\<exists>comps. kept_file rules rel cs comps sz \<and> p = path_of rel comps"
    then obtain n ns where "kept_file rules rel cs (n # ns) sz" "p = path_of rel (n # ns)"
      by (metis kept_file.simps(1) list.exhaust)
    then show "(\<exists>n. (n, FileNode sz) \<in> set cs \<and> p = child_path rel n) \<or>
      (\<exists>n ds comps. (n, DirNode ds) \<in> set cs \<and> \<not> dir_excluded rules (child_path rel n) \<and>
         kept_file rules (child_path rel n) ds comps sz \<and> p = path_of (child_path rel n) comps)"
      by (cases "ns = []") (auto simp: path_of_def)
  qed
  finally show ?case .
qed

section \<open>What one file adds\<close>

definition entry_bytes :: "string \<times> nat option \<Rightarrow> nat" where
  "entry_bytes e = (case snd e of None \<Rightarrow> 0 | Some n \<Rightarrow> n)"

lemma note_simps [simp]:
  "sn_included (note_language p l c st) = sn_included st" "sn_excluded (note_language p l c st) = sn_excluded st"
  "sn_total_files (note_language p l c st) = sn_total_files st" "sn_bytes (note_language p l c st) = sn_bytes st"
  "sn_included (note_framework p l c st) = sn_included st" "sn_excluded (note_framework p l c st) = sn_excluded st"
  "sn_total_files (note_framework p l c st) = sn_total_files st" "sn_bytes (note_framework p l c st) = sn_bytes st"
  "sn_included (note_manifest p n st) = sn_included st" "sn_excluded (note_manifest p n st) = sn_excluded st"
  "sn_total_files (note_manifest p n st) = sn_total_files st" "sn_bytes (note_manifest p n st) = sn_bytes st"
  "sn_included (note_hint p n st) = sn_included st" "sn_excluded (note_hint p n st) = sn_excluded st"
  "sn_total_files (note_hint p n st) = sn_total_files st" "sn_bytes (note_hint p n st) = sn_bytes st"
  "sn_included (note_class p n st) = sn_included st" "sn_excluded (note_class p n st) = sn_excluded st"
  "sn_total_files (note_class p n st) = sn_total_files st" "sn_bytes (note_class p n st) = sn_bytes st"
  "sn_included (note_dir v st) = sn_included st" "sn_excluded (note_dir v st) = sn_excluded st"
  "sn_total_files (note_dir v st) = sn_total_files st" "sn_bytes (note_dir v st) = sn_bytes st"
  by (auto simp: note_language_def note_framework_def note_manifest_def note_hint_def note_class_def
      note_dir_def Let_def split: option.split file_class.split prod.split)

lemma infer_languages_simps [simp]:
  "sn_included (infer_languages seen ps st) = sn_included st"
  "sn_excluded (infer_languages seen ps st) = sn_excluded st"
  "sn_total_files (infer_languages seen ps st) = sn_total_files st"
  "sn_bytes (infer_languages seen ps st) = sn_bytes st"
  by (induction seen ps st rule: infer_languages.induct) (auto split: option.split)

text \<open>The files met so far and what is known about them.\<close>

definition scan_inv :: "path_filter \<Rightarrow> int \<Rightarrow> (string \<times> nat option) list \<Rightarrow> scan_state \<Rightarrow> bool" where
  "scan_inv f max_bytes met st \<longleftrightarrow>
     sn_total_files st = length met \<and> length (sn_included st) + length (sn_excluded st) = length met
     \<and> set (sn_included st) \<union> set (sn_excluded st) = fst ` set met
     \<and> (\<forall>p \<in> set (sn_included st). fst (classify_path f p))
     \<and> (max_bytes \<le> 0 \<longrightarrow> (\<forall>p \<in> set (sn_excluded st). \<not> fst (classify_path f p)))
     \<and> (max_bytes > 0 \<longrightarrow> int (sn_bytes st) \<le> max_bytes)
     \<and> (\<exists>ks. sn_included st = map fst ks \<and> set ks \<subseteq> set met \<and> sn_bytes st = sum_list (map entry_bytes ks))"

lemma scan_file_step:
  fixes f max_bytes rel n sz st
  defines "p \<equiv> child_path rel n" and "st' \<equiv> scan_file f max_bytes rel (n, sz) st"
  shows "sn_total_files st' = Suc (sn_total_files st)
    \<and> (if fst (classify_path f p) \<and> \<not> (max_bytes > 0 \<and> int (sn_bytes st + entry_bytes (p, sz)) > max_bytes)
       then sn_included st' = sn_included st @ [p] \<and> sn_excluded st' = sn_excluded st
         \<and> sn_bytes st' = sn_bytes st + entry_bytes (p, sz)
       else sn_included st' = sn_included st \<and> sn_excluded st' = sn_excluded st @ [p] \<and> sn_bytes st' = sn_bytes st)"
  by (simp add: scan_file_def Let_def entry_bytes_def p_def st'_def split: option.split)

lemma scan_inv_file:
  assumes "scan_inv f mb met st"
  shows "scan_inv f mb (met @ [(child_path rel n, sz)]) (scan_file f mb rel (n, sz) st)"
proof -
  define p where "p = child_path rel n"
  define st' where "st' = scan_file f mb rel (n, sz) st"
  note step = scan_file_step [of f mb rel n sz st, folded p_def st'_def]
  from assms obtain ks where ks: "sn_included st = map fst ks" "set ks \<subseteq> set met"
    "sn_bytes st = sum_list (map entry_bytes ks)" unfolding scan_inv_def by blast
  show ?thesis
  proof (cases "fst (classify_path f p) \<and> \<not> (mb > 0 \<and> int (sn_bytes st + entry_bytes (p, sz)) > mb)")
    case True
    with step have s: "sn_total_files st' = Suc (sn_total_files st)" "sn_included st' = sn_included st @ [p]"
      "sn_excluded st' = sn_excluded st" "sn_bytes st' = sn_bytes st + entry_bytes (p, sz)" by auto
    have "\<exists>ks. sn_included st' = map fst ks \<and> set ks \<subseteq> set (met @ [(p, sz)])
        \<and> sn_bytes st' = sum_list (map entry_bytes ks)"
      using ks s by (intro exI [of _ "ks @ [(p, sz)]"]) auto
    then show ?thesis using assms True s unfolding scan_inv_def p_def [symmetric] st'_def [symmetric]
      by auto
  next
    case False
    with step have s: "sn_total_files st' = Suc (sn_total_files st)" "sn_included st' = sn_included st"
      "sn_excluded st' = sn_excluded st @ [p]" "sn_bytes st' = sn_bytes st"
      by (auto split: if_splits)
    have "\<exists>ks. sn_included st' = map fst ks \<and> set ks \<subseteq> set (met @ [(p, sz)])
        \<and> sn_bytes st' = sum_list (map entry_bytes ks)"
      using ks s by (intro exI [of _ ks]) auto
    then show ?thesis using assms False s unfolding scan_inv_def p_def [symmetric] st'_def [symmetric]
      by auto
  qed
qed

lemma scan_inv_files:
  assumes "scan_inv f mb met st"
  shows "scan_inv f mb (met @ map (\<lambda>(n, sz). (child_path rel n, sz)) es) (fold (scan_file f mb rel) es st)"
  using assms
proof (induction es arbitrary: met st)
  case (Cons e es)
  then show ?case
    using Cons.IH [OF scan_inv_file [where n = "fst e" and sz = "snd e" and rel = rel, OF Cons.prems]]
    by (simp add: case_prod_beta)
qed simp

lemma scan_inv_visits:
  assumes "scan_inv f mb met st"
  shows "scan_inv f mb (met @ walk_files vs) (fold (scan_visit f mb) vs st)"
  using assms
proof (induction vs arbitrary: met st)
  case (Cons v vs)
  have "scan_inv f mb met (note_dir v st)" using Cons.prems by (simp add: scan_inv_def)
  then have "scan_inv f mb (met @ visited_files v) (scan_visit f mb v st)"
    unfolding scan_visit_def visited_files_def by (rule scan_inv_files)
  from Cons.IH [OF this] show ?case by simp
qed simp

lemma scan_tree_inv: "scan_inv f mb (walk_files vs) (scan_tree f mb vs)"
proof -
  have "scan_inv f mb ([] @ walk_files vs) (fold (scan_visit f mb) vs scan_start)"
    by (rule scan_inv_visits) (simp add: scan_inv_def scan_start_def)
  then show ?thesis by (simp add: scan_tree_def Let_def scan_inv_def)
qed

text \<open>
  Which of the files met a package takes, as a specification: one after the other, each that the
  rules keep and whose size still fits; the size of a file that cannot be read counts as nothing.
\<close>

fun taken :: "(string \<Rightarrow> bool) \<Rightarrow> int \<Rightarrow> nat \<Rightarrow> (string \<times> nat option) list \<Rightarrow> (string \<times> nat option) list" where
  "taken keep limit used [] = []"
| "taken keep limit used (e # es) =
     (if keep (fst e) \<and> (limit \<le> 0 \<or> int used + int (entry_bytes e) \<le> limit)
      then e # taken keep limit (used + entry_bytes e) es
      else taken keep limit used es)"

definition bytes_of :: "(string \<times> nat option) list \<Rightarrow> nat" where
  "bytes_of es = sum_list (map entry_bytes es)"

lemma taken_append:
  "taken keep limit used (es @ fs) =
     taken keep limit used es @ taken keep limit (used + bytes_of (taken keep limit used es)) fs"
  by (induction es arbitrary: used) (auto simp: bytes_of_def add.assoc)

definition scan_takes :: "path_filter \<Rightarrow> int \<Rightarrow> (string \<times> nat option) list \<Rightarrow> scan_state \<Rightarrow> bool" where
  "scan_takes f limit met st \<longleftrightarrow>
     sn_included st = map fst (taken (\<lambda>p. fst (classify_path f p)) limit 0 met)
     \<and> sn_bytes st = bytes_of (taken (\<lambda>p. fst (classify_path f p)) limit 0 met)
     \<and> mset (sn_included st) + mset (sn_excluded st) = mset (map fst met)"

lemma scan_takes_file:
  assumes "scan_takes f limit met st"
  shows "scan_takes f limit (met @ [(child_path rel n, sz)]) (scan_file f limit rel (n, sz) st)"
  using assms scan_file_step [of f limit rel n sz st]
  by (auto simp: scan_takes_def taken_append bytes_of_def not_less split: if_splits)

lemma scan_takes_files:
  assumes "scan_takes f limit met st"
  shows "scan_takes f limit (met @ map (\<lambda>(n, sz). (child_path rel n, sz)) es) (fold (scan_file f limit rel) es st)"
  using assms
proof (induction es arbitrary: met st)
  case (Cons e es)
  then show ?case
    using Cons.IH [OF scan_takes_file [where n = "fst e" and sz = "snd e" and rel = rel, OF Cons.prems]]
    by (simp add: case_prod_beta)
qed simp

lemma scan_takes_visits:
  assumes "scan_takes f limit met st"
  shows "scan_takes f limit (met @ walk_files vs) (fold (scan_visit f limit) vs st)"
  using assms
proof (induction vs arbitrary: met st)
  case (Cons v vs)
  have "scan_takes f limit met (note_dir v st)" using Cons.prems unfolding scan_takes_def note_simps .
  then have "scan_takes f limit (met @ visited_files v) (scan_visit f limit v st)"
    unfolding scan_visit_def visited_files_def by (rule scan_takes_files)
  from Cons.IH [OF this] show ?case by simp
qed simp

lemma scan_tree_takes: "scan_takes f limit (walk_files vs) (scan_tree f limit vs)"
proof -
  have "scan_takes f limit ([] @ walk_files vs) (fold (scan_visit f limit) vs scan_start)"
    by (rule scan_takes_visits) (simp add: scan_takes_def scan_start_def bytes_of_def)
  then show ?thesis unfolding scan_tree_def Let_def scan_takes_def infer_languages_simps append_Nil .
qed

end
