(* ===== verification/Ingest_Properties.thy ===== *)
theory Ingest_Properties
  imports Ingest_Facts "HOL-Library.Multiset"
begin

text \<open>
  What the repository scan promises: which files a package contains, that the default rules
  cannot be overridden, that the byte limit holds, and that the result does not depend on the
  order in which the operating system lists directories.
\<close>

section \<open>The files of a scan\<close>

lemma scan_repo_Inr:
  assumes "scan_repo now repo_root (Some (DirNode cs)) f mb = Inr r"
  defines "st \<equiv> scan_tree f mb (walk_tree (pt_excludes f) [] (base_name repo_root) cs)"
  shows "r = scan_result now repo_root st"
    and "scan_inv f mb (walk_files (walk_tree (pt_excludes f) [] (base_name repo_root) cs)) st"
  using assms(1) by (simp_all add: scan_repo_def st_def scan_tree_inv)

text \<open>
  C10: The scan is exact. The files it meets are those of the tree reached through directories no
  rule excludes. It includes exactly those that \<open>taken\<close> takes from them in the order of the walk:
  every file the filter keeps whose size, added to that of the files taken before, stays within
  the limit (each file it keeps, when there is no limit). Every other file met is listed as
  excluded, each file met is counted, and the reported bytes are the sizes of the included files,
  which never exceed the limit.
\<close>

theorem scan_exact:
  assumes "scan_repo now repo_root (Some (DirNode cs)) f max_bytes = Inr r"
  defines "met \<equiv> walk_files (walk_tree (pt_excludes f) [] (base_name repo_root) cs)"
  defines "took \<equiv> taken (\<lambda>p. fst (classify_path f p)) max_bytes 0 met"
  shows "(\<forall>p sz. (p, sz) \<in> set met \<longleftrightarrow> (\<exists>comps. kept_file (pt_excludes f) [] cs comps sz \<and> p = path_of [] comps))
    \<and> rp_included_files r = sort (map fst took)
    \<and> mset (rp_included_files r) + mset (rp_excluded_files r) = mset (map fst met)
    \<and> rp_total_files r = length met
    \<and> rp_total_included_bytes r = sum_list (map entry_bytes took)
    \<and> (max_bytes \<le> 0 \<longrightarrow> took = filter (\<lambda>(p, sz). fst (classify_path f p)) met)
    \<and> (max_bytes > 0 \<longrightarrow> int (rp_total_included_bytes r) \<le> max_bytes)"
proof -
  define st where "st = scan_tree f max_bytes (walk_tree (pt_excludes f) [] (base_name repo_root) cs)"
  from scan_repo_Inr [OF assms(1)] have r: "r = scan_result now repo_root st"
    and inv: "scan_inv f max_bytes met st" by (simp_all add: st_def met_def)
  have "scan_takes f max_bytes met st" unfolding st_def met_def by (rule scan_tree_takes)
  then have took: "sn_included st = map fst took" "sn_bytes st = sum_list (map entry_bytes took)"
    "mset (sn_included st) + mset (sn_excluded st) = mset (map fst met)"
    unfolding scan_takes_def took_def bytes_of_def by blast+
  have counts: "sn_total_files st = length met" "max_bytes > 0 \<longrightarrow> int (sn_bytes st) \<le> max_bytes"
    using inv unfolding scan_inv_def by blast+
  have "taken keep limit used es = filter (\<lambda>(p, sz). keep p) es" if "limit \<le> 0" for keep limit used es
    using that by (induction es arbitrary: used) auto
  then have "max_bytes \<le> 0 \<longrightarrow> took = filter (\<lambda>(p, sz). fst (classify_path f p)) met"
    unfolding took_def by blast
  moreover have "\<forall>p sz. (p, sz) \<in> set met \<longleftrightarrow>
      (\<exists>comps. kept_file (pt_excludes f) [] cs comps sz \<and> p = path_of [] comps)"
    unfolding met_def using walk_reaches by blast
  moreover have "rp_included_files r = sort (map fst took)" "rp_total_files r = length met"
    "mset (rp_included_files r) + mset (rp_excluded_files r) = mset (map fst met)"
    "rp_total_included_bytes r = sum_list (map entry_bytes took)"
    "max_bytes > 0 \<longrightarrow> int (rp_total_included_bytes r) \<le> max_bytes"
    unfolding r scan_result_def repo_scan.simps mset_sort took(1,2) [symmetric] using took(1,3) counts by argo+
  ultimately show ?thesis by blast
qed

definition sample_entries :: "repo_entry list" where
  "sample_entries =
     [(''src'', DirNode [(''b.py'', FileNode (Some 7)), (''a.py'', FileNode (Some 5))]),
      (''.git'', DirNode [(''x.py'', FileNode (Some 1))]), (''k.pem'', FileNode (Some 2)),
      (''README.md'', FileNode (Some 3))]"

definition sample_scan :: repo_scan where
  "sample_scan =
     scan_result ''t'' ''/r'' (scan_tree (new_filter [''*''] []) 10
       (walk_tree (pt_excludes (new_filter [''*''] [])) [] (base_name ''/r'') sample_entries))"

lemma sample_scan_ok:
  "scan_repo ''t'' ''/r'' (Some (DirNode sample_entries)) (new_filter [''*''] []) 10 = Inr sample_scan"
  by (simp add: scan_repo_def sample_scan_def)

lemma sample_scan_included: "rp_included_files sample_scan = [''README.md'', ''src/a.py'']"
  by code_simp

theorem scan_exact_witness:
  "int (rp_total_included_bytes sample_scan) \<le> 10 \<and> rp_total_files sample_scan = 4 \<and>
   rp_included_files sample_scan = [''README.md'', ''src/a.py'']"
proof -
  have "length (walk_files (walk_tree (pt_excludes (new_filter [''*''] [])) [] (base_name ''/r'') sample_entries)) = 4"
    by code_simp
  with scan_exact [OF sample_scan_ok] sample_scan_included show ?thesis by simp
qed

section \<open>Listing order\<close>

text \<open>Two trees with the same files and directories, whose listings come in any order.\<close>

inductive same_node :: "repo_node \<Rightarrow> repo_node \<Rightarrow> bool" where
  same_file: "same_node (FileNode sz) (FileNode sz)"
| same_other: "same_node OtherDir OtherDir"
| same_dir: "list_all2 (\<lambda>p q. fst p = fst q \<and> same_node (snd p) (snd q)) cs es \<Longrightarrow> mset es = mset ds \<Longrightarrow>
    same_node (DirNode cs) (DirNode ds)"

inductive_cases same_node_DirE: "same_node (DirNode cs) y"

inductive_simps same_node_simps [simp]:
  "same_node (FileNode sz) y" "same_node OtherDir y" "same_node x (FileNode sz)" "same_node x OtherDir"

fun names_distinct :: "repo_node \<Rightarrow> bool" where
  "names_distinct (DirNode cs) = (distinct (map fst cs) \<and> (\<forall>p \<in> set cs. names_distinct (snd p)))"
| "names_distinct _ = True"

abbreviation same_entry :: "repo_entry \<Rightarrow> repo_entry \<Rightarrow> bool" where
  "same_entry p q \<equiv> fst p = fst q \<and> same_node (snd p) (snd q)"

lemma insort_key_rel:
  fixes x y :: "string \<times> 'b"
  assumes "list_all2 R xs ys" and "R x y" and "\<And>a b. R a b \<Longrightarrow> fst a = fst b"
  shows "list_all2 R (insort_key fst x xs) (insort_key fst y ys)"
  using assms(1)
proof (induction rule: list_all2_induct)
  case (Cons a as b bs)
  have "fst x = fst y" "fst a = fst b" using assms(2,3) Cons.hyps by blast+
  then show ?case using assms(2) Cons by (cases "fst x \<le> fst a") auto
qed (simp add: assms)

lemma sort_key_rel:
  fixes xs ys :: "(string \<times> 'b) list"
  assumes "list_all2 R xs ys" and "\<And>a b. R a b \<Longrightarrow> fst a = fst b"
  shows "list_all2 R (sort_key fst xs) (sort_key fst ys)"
  using assms(1)
  by (induction rule: list_all2_induct) (auto intro: insort_key_rel assms(2))

lemma sort_key_perm:
  fixes xs ys :: "(string \<times> 'b) list"
  assumes "mset xs = mset ys" and "distinct (map fst xs)"
  shows "sort_key fst xs = sort_key fst ys"
proof (rule properties_for_sort_key)
  show "mset (sort_key fst ys) = mset xs" using assms(1) by simp
  fix k assume k: "k \<in> set (sort_key fst ys)"
  show "filter (\<lambda>x. fst k = fst x) (sort_key fst ys) = filter (\<lambda>x. fst k = fst x) xs"
  proof -
    have one: "filter (\<lambda>x. fst k = fst x) zs = [k]" if "distinct (map fst zs)" "k \<in> set zs" for zs :: "(string \<times> 'b) list"
      using that by (induction zs) (auto simp: filter_empty_conv)
    have "mset (map fst (sort_key fst ys)) = mset (map fst xs)" using assms(1) by simp
    then have "distinct (map fst (sort_key fst ys))" using assms(2) by (metis mset_eq_imp_distinct_iff)
    moreover have "k \<in> set xs" using k assms(1) by (metis set_sort set_mset_mset)
    ultimately show ?thesis using one assms(2) k by metis
  qed
qed simp

lemma same_node_kind: "same_node a b \<Longrightarrow> is_file_node a = is_file_node b \<and> file_size a = file_size b"
  by (auto elim: same_node.cases)

definition visit_key :: "walk_visit \<Rightarrow> string \<times> string \<times> (string \<times> nat option) list" where
  "visit_key v = (wv_rel_dir v, wv_dir_name v, sort_key fst (wv_files v))"

lemma scan_visit_key: "visit_key v = visit_key w \<Longrightarrow> scan_visit f mb v = scan_visit f mb w"
  by (rule ext) (simp add: visit_key_def scan_visit_def note_dir_def Let_def)

lemma fold_scan_visit_key:
  "map visit_key vs = map visit_key ws \<Longrightarrow> fold (scan_visit f mb) vs st = fold (scan_visit f mb) ws st"
proof (induction vs arbitrary: ws st)
  case (Cons v vs)
  then obtain w ws' where ws: "ws = w # ws'" "visit_key v = visit_key w" "map visit_key vs = map visit_key ws'"
    by (cases ws) simp_all
  show ?case unfolding ws(1) fold_Cons o_apply scan_visit_key [OF ws(2)] by (rule Cons.IH [OF ws(3)])
qed simp

lemma walk_same:
  assumes "same_node (DirNode cs) (DirNode ds)" and "names_distinct (DirNode cs)"
  shows "map visit_key (walk_tree rules rel name cs) = map visit_key (walk_tree rules rel name ds)"
  using assms
proof (induction rules rel name cs arbitrary: ds rule: walk_tree.induct)
  case (1 rules rel name cs)
  from 1(2) obtain es where es: "list_all2 same_entry cs es" "mset es = mset ds"
    by (auto elim: same_node_DirE)
  have names: "map fst es = map fst cs"
    using es(1) by (induction rule: list_all2_induct) auto
  then have dist: "distinct (map fst es)" using 1(3) by simp
  have sorted_eq: "sort_key fst (g es) = sort_key fst (g ds)"
    if "mset (g es) = mset (g ds)" "set (map fst (g es)) \<subseteq> set (map fst es)" "distinct (map fst (g es))"
    for g :: "repo_entry list \<Rightarrow> (string \<times> 'x) list"
    by (rule sort_key_perm) (use that in auto)
  have files: "sort_key fst (dir_files cs) = sort_key fst (dir_files ds)"
  proof -
    have "dir_files cs = dir_files es"
      using es(1) unfolding dir_files_def
      by (induction rule: list_all2_induct) (auto dest: same_node_kind)
    moreover have "mset (dir_files es) = mset (dir_files ds)"
      using es(2) by (simp add: dir_files_def)
    moreover have "distinct (map fst (dir_files es))"
      using dist unfolding dir_files_def
      by (induction es) (auto simp: case_prod_beta)
    ultimately show ?thesis by (metis sort_key_perm)
  qed
  have dirs: "list_all2 same_entry (kept_dirs rules rel cs) (kept_dirs rules rel ds)"
  proof -
    define P where "P = (\<lambda>(n, c). \<not> is_file_node c \<and> \<not> dir_excluded rules (child_path rel n))"
    have "list_all2 same_entry (filter P cs) (filter P es)"
      using es(1) by (induction rule: list_all2_induct) (auto simp: P_def dest: same_node_kind)
    then have "list_all2 same_entry (sort_key fst (filter P cs)) (sort_key fst (filter P es))"
      by (rule sort_key_rel) simp
    moreover have "sort_key fst (filter P es) = sort_key fst (filter P ds)"
      by (rule sort_key_perm) (use es(2) dist distinct_map_filter in auto)
    ultimately show ?thesis by (simp add: kept_dirs_def P_def)
  qed
  define sub where "sub = (\<lambda>p. case snd p of DirNode ds \<Rightarrow> walk_tree rules (child_path rel (fst p)) (fst p) ds | _ \<Rightarrow> [])"
  have wf: "\<forall>p \<in> set cs. names_distinct (snd p)" using 1(3) by simp
  have subs: "map visit_key (concat (map sub (kept_dirs rules rel cs))) =
      map visit_key (concat (map sub (kept_dirs rules rel ds)))"
  proof -
    have "map (map visit_key \<circ> sub) (kept_dirs rules rel cs) = map (map visit_key \<circ> sub) (kept_dirs rules rel ds)"
    proof (rule nth_equalityI)
      show len: "length (map (map visit_key \<circ> sub) (kept_dirs rules rel cs)) =
          length (map (map visit_key \<circ> sub) (kept_dirs rules rel ds))"
        using list_all2_lengthD [OF dirs] by simp
      fix i assume "i < length (map (map visit_key \<circ> sub) (kept_dirs rules rel cs))"
      then have i: "i < length (kept_dirs rules rel cs)" "i < length (kept_dirs rules rel ds)"
        using len by simp_all
      define p q where "p = kept_dirs rules rel cs ! i" and "q = kept_dirs rules rel ds ! i"
      have pq: "same_entry p q" using list_all2_nthD [OF dirs i(1)] by (simp add: p_def q_def)
      have p: "p \<in> set (kept_dirs rules rel cs)" using i by (simp add: p_def)
      then have "names_distinct (snd p)" using wf by (auto simp: kept_dirs_def)
      have "map visit_key (sub p) = map visit_key (sub q)"
      proof (cases "snd p")
        case (DirNode xs)
        with pq obtain ys where ys: "snd q = DirNode ys" by (auto elim: same_node_DirE)
        have "map visit_key (walk_tree rules (child_path rel (fst p)) (fst p) xs) =
            map visit_key (walk_tree rules (child_path rel (fst p)) (fst p) ys)"
          by (rule 1(1) [of p "fst p" "snd p"])
            (use p DirNode pq ys \<open>names_distinct (snd p)\<close> prod.collapse [of p] in auto)
        then show ?thesis using DirNode ys pq by (simp add: sub_def)
      qed (use pq in \<open>auto simp: sub_def\<close>)
      then show "map (map visit_key \<circ> sub) (kept_dirs rules rel cs) ! i =
          map (map visit_key \<circ> sub) (kept_dirs rules rel ds) ! i"
        using i by (simp add: p_def q_def)
    qed
    then show ?thesis by (simp add: map_concat comp_def)
  qed
  have unfold: "walk_tree rules rel name xs =
      \<lparr>wv_rel_dir = rel, wv_dir_name = name, wv_files = dir_files xs\<rparr> #
      concat (map sub (kept_dirs rules rel xs))" for xs
    by (subst walk_tree.simps) (simp add: sub_def case_prod_beta')
  have "visit_key \<lparr>wv_rel_dir = rel, wv_dir_name = name, wv_files = dir_files cs\<rparr> =
      visit_key \<lparr>wv_rel_dir = rel, wv_dir_name = name, wv_files = dir_files ds\<rparr>"
    using files by (simp add: visit_key_def)
  then show ?case unfolding unfold list.map subs by simp
qed

text \<open>
  The scan is deterministic. Two listings of the same tree, in whatever order the operating
  system gives the entries of each directory, have the same scan result, byte limit or not.
\<close>

theorem scan_order_independent:
  assumes "same_node (DirNode cs) (DirNode ds)" and "names_distinct (DirNode cs)"
  shows "scan_repo now repo_root (Some (DirNode cs)) f max_bytes = scan_repo now repo_root (Some (DirNode ds)) f max_bytes"
  using fold_scan_visit_key [OF walk_same [OF assms]]
  by (simp add: scan_repo_def scan_tree_def)

lemma same_node_refl: "same_node x x"
proof (induction x)
  case (DirNode cs)
  have "list_all2 same_entry cs cs"
    unfolding list_all2_same using DirNode by (auto intro: snds.intros)
  then show ?case by (rule same_dir) simp
qed simp_all

theorem scan_order_independent_witness:
  "scan_repo ''t'' ''/r'' (Some (DirNode sample_entries)) (new_filter [''*''] []) 10
   = scan_repo ''t'' ''/r'' (Some (DirNode (rev sample_entries))) (new_filter [''*''] []) 10"
proof (rule scan_order_independent)
  have "list_all2 same_entry sample_entries sample_entries"
    by (simp add: list_all2_same same_node_refl)
  then show "same_node (DirNode sample_entries) (DirNode (rev sample_entries))"
    by (rule same_dir) simp
  show "names_distinct (DirNode sample_entries)" by (simp add: sample_entries_def)
qed

section \<open>The default rules\<close>

definition valid_name :: "string \<Rightarrow> bool" where
  "valid_name n = (n \<noteq> [] \<and> n \<noteq> ''.'' \<and> CHR ''/'' \<notin> set n \<and> CHR 0x5C \<notin> set n)"

fun names_valid :: "repo_node \<Rightarrow> bool" where
  "names_valid (DirNode cs) = (\<forall>p \<in> set cs. valid_name (fst p) \<and> names_valid (snd p))"
| "names_valid _ = True"

lemma kept_file_valid:
  "kept_file rules rel cs comps sz \<Longrightarrow> names_valid (DirNode cs) \<Longrightarrow> comps \<noteq> [] \<and> (\<forall>n \<in> set comps. valid_name n)"
proof (induction rules rel cs comps sz rule: kept_file.induct)
  case (2 rules rel cs n ns sz)
  then show ?case by (cases "ns = []") fastforce+
qed simp

lemma append_single: "(@) [c] = (#) c"
  by (rule ext) simp

lemma foldl_child_path:
  "rel \<noteq> [] \<Longrightarrow> foldl child_path rel ns = rel @ concat (map (\<lambda>n. ''/'' @ n) ns)"
  by (induction ns arbitrary: rel) (simp_all add: child_path_def)

lemma path_of_join: "comps \<noteq> [] \<Longrightarrow> \<forall>n \<in> set comps. valid_name n \<Longrightarrow> path_of [] comps = py_join ''/'' comps"
  by (cases comps) (simp_all add: path_of_def child_path_def foldl_child_path py_join_def valid_name_def append_single)

lemma py_split_join:
  "comps \<noteq> [] \<Longrightarrow> \<forall>n \<in> set comps. c \<notin> set n \<Longrightarrow> py_split c (py_join [c] comps) = comps"
proof (induction comps)
  case (Cons n ns)
  show ?case
  proof (cases ns)
    case Nil
    then show ?thesis using Cons.prems by (simp add: py_join_def py_split_single)
  next
    case (Cons m ms)
    have "py_join [c] (n # ns) = n @ c # py_join [c] ns" using Cons by (simp add: py_join_def)
    then show ?thesis using Cons.IH Cons.prems Cons by (simp add: py_split_append py_split_single)
  qed
qed simp

lemma path_parts_join:
  assumes "comps \<noteq> []" and "\<forall>n \<in> set comps. valid_name n"
  shows "path_parts (py_join ''/'' comps) = comps" and "path_name (py_join ''/'' comps) = last comps"
proof -
  have "py_split CHR ''/'' (py_join ''/'' comps) = comps"
    using py_split_join [of comps "CHR ''/''"] assms by (auto simp: valid_name_def)
  moreover have "filter (\<lambda>w. w \<noteq> [] \<and> w \<noteq> ''.'') comps = comps"
    using assms(2) by (induction comps) (auto simp: valid_name_def)
  ultimately have comps: "path_components (py_join ''/'' comps) = comps" by (simp add: path_components_def)
  have "\<not> starts_with ''/'' (py_join ''/'' comps)"
    using assms by (cases comps; cases "hd comps") (auto simp: py_join_def starts_with_def valid_name_def)
  moreover have "starts_with ''/'' s" if "starts_with ''//'' s" for s
    using that by (auto simp: starts_with_iff)
  ultimately have "path_root (py_join ''/'' comps) = []" by (auto simp: path_root_def)
  with comps show "path_parts (py_join ''/'' comps) = comps" "path_name (py_join ''/'' comps) = last comps"
    using assms(1) by (simp_all add: path_parts_def path_name_def)
qed

lemma set_py_join: "set (py_join sep xs) \<subseteq> set sep \<union> \<Union> (set ` set xs)"
  by (cases xs) (auto simp: py_join_def)

lemma to_posix_join:
  assumes "\<forall>n \<in> set comps. valid_name n"
  shows "to_posix (py_join ''/'' comps) = py_join ''/'' comps"
proof (rule to_posix_id)
  have "CHR 0x5C \<notin> \<Union> (set ` set comps)" using assms by (simp add: valid_name_def)
  moreover have "CHR 0x5C \<notin> set ''/''" by simp
  ultimately show "CHR 0x5C \<notin> set (py_join ''/'' comps)" using set_py_join by blast
qed

lemma glob_prefix_match: "glob_match (map GChar p @ ps) s \<longleftrightarrow> (\<exists>t. s = p @ t \<and> glob_match ps t)"
  by (induction p arbitrary: s) (auto split: list.split)

lemma rule_matches_suffix: "plain_pattern x \<Longrightarrow> ends_with x (path_name p) \<Longrightarrow> rule_matches p (CHR ''*'' # x)"
  by (simp add: rule_matches_def fnmatch_suffix)

lemma rule_matches_component: "name_rule x \<Longrightarrow> x \<in> set (path_parts p) \<Longrightarrow> rule_matches p x"
  by (simp add: rule_matches_def)

lemma rule_matches_dir: "x \<in> set (path_parts p) \<Longrightarrow> rule_matches p (x @ ''/**'')"
  by (simp add: rule_matches_def dir_rule_def)

lemma rule_matches_env: "starts_with ''.env.'' (path_name p) \<Longrightarrow> rule_matches p ''.env.*''"
proof -
  assume "starts_with ''.env.'' (path_name p)"
  then obtain t where "path_name p = ''.env.'' @ t" by (auto simp: starts_with_iff)
  moreover have "glob_parse ''.env.*'' = map GChar ''.env.'' @ [GStar]" by simp
  ultimately have "fnmatch (path_name p) ''.env.*''"
    unfolding fnmatch_def by (simp only: glob_prefix_match) (auto simp: glob_match_star)
  then show ?thesis by (simp add: rule_matches_def)
qed

lemma rule_matches_egg_info:
  assumes "\<forall>n \<in> set comps. valid_name n" "d \<in> set (butlast comps)" "ends_with ''.egg-info'' d"
  shows "rule_matches (py_join ''/'' comps) ''*.egg-info/**''"
proof -
  from assms(2) obtain us vs where split: "butlast comps = us @ d # vs" by (auto dest: split_list)
  then have "comps \<noteq> []" by auto
  then have comps: "comps = us @ d # vs @ [last comps]" using split by (metis append.assoc append_Cons append_butlast_last_id)
  obtain e where d: "d = e @ ''.egg-info''" using assms(3) by (auto simp: ends_with_iff)
  define pre where "pre = (case us of [] \<Rightarrow> [] | _ \<Rightarrow> py_join ''/'' us @ ''/'')"
  have pre: "py_join ''/'' (us @ xs) = pre @ py_join ''/'' xs" if "xs \<noteq> []" for xs
    using that by (cases us; cases xs) (simp_all add: pre_def py_join_def)
  have "py_join ''/'' (d # vs @ [last comps]) = d @ ''/'' @ py_join ''/'' (vs @ [last comps])"
    by (cases vs) (simp_all add: py_join_def)
  with pre [of "d # vs @ [last comps]"] comps d
  have path: "py_join ''/'' comps = (pre @ e) @ ''.egg-info/'' @ py_join ''/'' (vs @ [last comps])" by simp
  have "glob_parse ''*.egg-info/**'' = GStar # map GChar ''.egg-info/'' @ [GStar, GStar]" by simp
  moreover have "glob_match [GStar, GStar] s" for s by (auto simp: glob_match_star)
  then have "glob_match (map GChar ''.egg-info/'' @ [GStar, GStar]) (''.egg-info/'' @ py_join ''/'' (vs @ [last comps]))"
    unfolding glob_prefix_match by blast
  then have "glob_match (GStar # map GChar ''.egg-info/'' @ [GStar, GStar]) (py_join ''/'' comps)"
    unfolding path glob_match_star by blast
  ultimately have "fnmatch (py_join ''/'' comps) ''*.egg-info/**''" unfolding fnmatch_def by simp
  then show ?thesis by (simp add: rule_matches_def)
qed

text \<open>The default rules by kind: whole components, directories, and endings of a file name.\<close>

definition excluded_names :: "string list" where
  "excluded_names = [''.git'', ''.hg'', ''.svn'', ''.env'', ''.DS_Store'', ''Thumbs.db'', ''.coverage'']"

definition excluded_dirs :: "string list" where
  "excluded_dirs =
     [''venv'', ''.venv'', ''env'', ''.tox'', ''.nox'', ''node_modules'', ''bower_components'', ''__pycache__'',
      ''.eggs'', ''build'', ''dist'', ''out'', ''target'', ''bin'', ''.idea'', ''.vscode'', ''htmlcov'',
      ''.pytest_cache'', ''.mypy_cache'', ''.ruff_cache'', ''.docker'']"

definition excluded_endings :: "string list" where
  "excluded_endings =
     [''.pem'', ''.key'', ''.p12'', ''.pfx'', ''.jks'', ''.keystore'', ''.pyc'', ''.pyo'', ''.swp'', ''.swo'', ''~'',
      ''.iso'', ''.dmg'', ''.tar.gz'', ''.tar.bz2'', ''.zip'', ''.rar'', ''.7z'', ''.jar'', ''.war'', ''.ear'', ''.whl'']"

lemma default_rule_kinds:
  "list_all (\<lambda>x. x \<in> set default_excludes \<and> name_rule x) excluded_names"
  "list_all (\<lambda>x. x @ ''/**'' \<in> set default_excludes) excluded_dirs"
  "list_all (\<lambda>x. CHR ''*'' # x \<in> set default_excludes \<and> plain_pattern x) excluded_endings"
  "''.env.*'' \<in> set default_excludes" "''*.egg-info/**'' \<in> set default_excludes"
  by code_simp+

text \<open>
  C39: No rule given by the builder lets a default-excluded file into a package. Whatever is added
  to the rules, an included file has no component that names a version store, an environment file,
  a virtual environment, a package store, a build, cache or editor directory or one of the other
  names excluded by default, no directory of package metadata, and its own name does not end as a
  key, a compiled or editor file or an archive, nor is it that of an environment file. The
  components are spelled as the rules are; the tree is one a file system can hold.
\<close>

theorem secrets_never_included:
  assumes "scan_repo now repo_root (Some (DirNode cs)) (new_filter inc exc) max_bytes = Inr r"
    and "names_valid (DirNode cs)" and "p \<in> set (rp_included_files r)"
  shows "\<exists>comps. p = py_join ''/'' comps \<and> comps \<noteq> []
    \<and> set comps \<inter> (set excluded_names \<union> set excluded_dirs) = {}
    \<and> \<not> list_ex (\<lambda>d. ends_with ''.egg-info'' d) (butlast comps)
    \<and> \<not> list_ex (\<lambda>x. ends_with x (last comps)) excluded_endings
    \<and> \<not> starts_with ''.env.'' (last comps)"
proof -
  define f where "f = new_filter inc exc"
  define st where "st = scan_tree f max_bytes (walk_tree (pt_excludes f) [] (base_name repo_root) cs)"
  define met where "met = walk_files (walk_tree (pt_excludes f) [] (base_name repo_root) cs)"
  from scan_repo_Inr [OF assms(1)] have r: "r = scan_result now repo_root st" and inv: "scan_inv f max_bytes met st"
    by (simp_all add: st_def met_def f_def)
  have p: "p \<in> set (sn_included st)" using assms(3) by (simp add: r scan_result_def)
  have "\<forall>p \<in> set (sn_included st). fst (classify_path f p)" and
    cover: "set (sn_included st) \<union> set (sn_excluded st) = fst ` set met"
    using inv by (simp_all add: scan_inv_def)
  with p have pass: "fst (classify_path f p)" by blast
  from p cover have "p \<in> fst ` set met" by blast
  then have "\<exists>sz. (p, sz) \<in> set met" by force
  then obtain comps sz where kept: "kept_file (pt_excludes f) [] cs comps sz" and "p = path_of [] comps"
    unfolding met_def walk_reaches by blast
  from kept_file_valid [OF kept assms(2)] have v: "comps \<noteq> []" "\<forall>n \<in> set comps. valid_name n" by blast+
  with \<open>p = path_of [] comps\<close> have pj: "p = py_join ''/'' comps" by (simp add: path_of_join)
  note parts = path_parts_join [OF v, folded pj]
  have no: "\<not> rule_matches p x" if "x \<in> set default_excludes" for x
    using pass that unfolding classify_path_included f_def new_filter_def
    by (auto simp: pj to_posix_join [OF v(2)])
  have "x \<notin> set comps" if "x \<in> set excluded_names" for x
    using no [of x] default_rule_kinds(1) that rule_matches_component [of x p] unfolding parts list_all_iff by blast
  moreover have "x \<notin> set comps" if "x \<in> set excluded_dirs" for x
    using no [of "x @ ''/**''"] default_rule_kinds(2) that rule_matches_dir [of x p] unfolding parts list_all_iff by blast
  moreover have "\<not> ends_with x (last comps)" if "x \<in> set excluded_endings" for x
    using no [of "CHR ''*'' # x"] default_rule_kinds(3) that rule_matches_suffix [of x p] unfolding parts list_all_iff by blast
  moreover have "\<not> ends_with ''.egg-info'' d" if "d \<in> set (butlast comps)" for d
    using no [of "''*.egg-info/**''"] default_rule_kinds(5) rule_matches_egg_info [OF v(2) that] pj by blast
  moreover have "\<not> starts_with ''.env.'' (last comps)"
    using no [of "''.env.*''"] default_rule_kinds(4) rule_matches_env [of p] unfolding parts by blast
  ultimately show ?thesis using pj v(1) by (intro exI [of _ comps]) (auto simp: list_ex_iff)
qed

theorem secrets_never_included_witness:
  "\<exists>comps. ''src/a.py'' = py_join ''/'' comps \<and> comps \<noteq> [] \<and> ''.git'' \<notin> set comps \<and> ''build'' \<notin> set comps"
proof -
  have "names_valid (DirNode sample_entries)" by (simp add: sample_entries_def valid_name_def)
  from secrets_never_included [OF sample_scan_ok this, of "''src/a.py''"] sample_scan_included
  show ?thesis by (auto simp: excluded_names_def excluded_dirs_def)
qed

text \<open>
  Pruning also drops what the filter would take: a directory named like an archive is left out
  with its sources, which the totals do not count. And a manifest whose name no include rule
  matches is never seen, so the languages it stands for are not detected with certainty.
\<close>

lemma pruned_but_included:
  "dir_excluded default_excludes ''libs.zip'' \<and> fst (classify_path (new_filter [] []) ''libs.zip/a.py'')"
  by code_simp

lemma go_manifest_excluded:
  "dict_get manifest_signals ''go.mod'' = Some (''go'', []) \<and> \<not> fst (classify_path (new_filter [] []) ''go.mod'')"
  by code_simp

end
