(* ===== verification/Repo_Identity.thy ===== *)
theory Repo_Identity
  imports Model_Fields
begin

text \<open>
  The identity of the git repository that a command works on (\<open>repo_identity/__init__.py\<close>) and the
  guard against the platform's own repository. What git answers is given.
\<close>

definition platform_owner :: string where
  "platform_owner = ''Keyhole-Solution''"

definition platform_repo :: string where
  "platform_repo = ''keyhole_platform''"

definition slug_of :: "string \<Rightarrow> string \<Rightarrow> string" where
  "slug_of owner repo = owner @ ''/'' @ repo"

definition forbidden_patterns :: "string list" where
  "forbidden_patterns =
     [slug_of platform_owner platform_repo, slug_of ''keyhole-solution'' platform_repo]"

definition is_platform_control_repo :: "string \<Rightarrow> string \<Rightarrow> bool" where
  "is_platform_control_repo owner repo =
     list_ex (\<lambda>pat. py_lower pat = py_lower (slug_of owner repo)) forbidden_patterns"

record repo_identity =
  gi_repo_remote :: string
  gi_owner :: string
  gi_repo :: string
  gi_current_branch :: string
  gi_commit_sha :: string
  gi_dirty_worktree :: bool
  gi_repo_binding_id :: json

definition identity_slug :: "repo_identity \<Rightarrow> string" where
  "identity_slug i = (if gi_owner i \<noteq> [] then slug_of (gi_owner i) (gi_repo i) else gi_repo i)"

definition identity_to_dict :: "repo_identity \<Rightarrow> dict" where
  "identity_to_dict i =
     [(''repo_remote'', JStr (gi_repo_remote i)), (''owner'', JStr (gi_owner i)), (''repo'', JStr (gi_repo i)),
      (''slug'', JStr (identity_slug i)), (''current_branch'', JStr (gi_current_branch i)),
      (''commit_sha'', JStr (gi_commit_sha i)), (''dirty_worktree'', JBool (gi_dirty_worktree i))] @
     (if json_truthy (gi_repo_binding_id i) then [(''repo_binding_id'', gi_repo_binding_id i)] else [])"

section \<open>Git\<close>

text \<open>The output of a command, stripped; what it wrote to its error output when it failed.\<close>

datatype git_reply = GitOutput string | GitFailed string | GitMissing | GitTimeout

record repo_identity_error =
  ge_message :: string
  ge_code :: string

definition run_git :: "(string list \<Rightarrow> git_reply) \<Rightarrow> string list \<Rightarrow> repo_identity_error + string" where
  "run_git git args =
     (case git args of
        GitOutput out \<Rightarrow> Inr (py_strip out)
      | GitFailed err \<Rightarrow>
          Inl \<lparr>ge_message = ''git '' @ py_join '' '' args @ '' failed: '' @ py_strip err,
               ge_code = ''GIT_COMMAND_FAILED''\<rparr>
      | GitMissing \<Rightarrow>
          Inl \<lparr>ge_message = ''git not found. Install git to use governed repo attachment.'',
               ge_code = ''GIT_NOT_FOUND''\<rparr>
      | GitTimeout \<Rightarrow> Inl \<lparr>ge_message = ''git command timed out.'', ge_code = ''GIT_TIMEOUT''\<rparr>)"

section \<open>The remote\<close>

text \<open>
  The two patterns, on a text without a line feed at its end: \<open>git@host:owner/repo\<close> and
  \<open>http(s)://host/owner/repo\<close>, each with an optional \<open>.git\<close>, which the lazy group leaves out of the
  name when something is left.
\<close>

definition drop_git :: "string \<Rightarrow> string" where
  "drop_git repo =
     (if ends_with ''.git'' repo \<and> 4 < length repo then take (length repo - 4) repo else repo)"

definition owner_repo :: "string list \<Rightarrow> (string \<times> string) option" where
  "owner_repo parts =
     (case parts of
        [owner, repo] \<Rightarrow> if owner \<noteq> [] \<and> repo \<noteq> [] then Some (owner, drop_git repo) else None
      | _ \<Rightarrow> None)"

definition parse_ssh :: "string \<Rightarrow> (string \<times> string) option" where
  "parse_ssh url =
     (if starts_with ''git@'' url then
        (case split_once '':'' (drop 4 url) of
           Some (host, path) \<Rightarrow> if host \<noteq> [] then owner_repo (py_split CHR ''/'' path) else None
         | None \<Rightarrow> None)
      else None)"

definition parse_https :: "string \<Rightarrow> (string \<times> string) option" where
  "parse_https url =
     (let rest = (if starts_with ''https://'' url then Some (drop 8 url)
                  else if starts_with ''http://'' url then Some (drop 7 url) else None)
      in case rest of
           None \<Rightarrow> None
         | Some path \<Rightarrow>
             (case py_split CHR ''/'' path of
                host # parts \<Rightarrow> if host \<noteq> [] then owner_repo parts else None
              | [] \<Rightarrow> None))"

definition parse_owner_repo :: "string \<Rightarrow> string \<times> string" where
  "parse_owner_repo url =
     (case parse_ssh url of
        Some p \<Rightarrow> p
      | None \<Rightarrow> (case parse_https url of Some p \<Rightarrow> p | None \<Rightarrow> ([], [])))"

section \<open>Detection\<close>

text \<open>\<open>binding\<close> is the value of \<open>.keyhole/repo-binding.json\<close>, if it can be read.\<close>

definition load_repo_binding_id :: "json option \<Rightarrow> json" where
  "load_repo_binding_id binding =
     (case binding of
        Some (JObj d) \<Rightarrow> json_or (json_get d ''repo_binding_id'') JNull
      | _ \<Rightarrow> JNull)"

definition platform_forbidden :: "string \<Rightarrow> string \<Rightarrow> repo_identity_error" where
  "platform_forbidden owner repo =
     \<lparr>ge_message = ''PLATFORM_REPO_TARGET_FORBIDDEN: the subject repo resolves to '' @
        quoted (slug_of owner repo) @ '', which is the Keyhole platform control repo. '' @
        ''SDK/customer workflows must not target the platform control repo. '' @
        ''Use your own forked or customer repository.'',
      ge_code = ''PLATFORM_REPO_TARGET_FORBIDDEN''\<rparr>"

definition git_or :: "(string list \<Rightarrow> git_reply) \<Rightarrow> string list \<Rightarrow> string \<Rightarrow> string" where
  "git_or git args dflt = (case run_git git args of Inl _ \<Rightarrow> dflt | Inr out \<Rightarrow> out)"

definition detect_repo_identity ::
  "(string list \<Rightarrow> git_reply) \<Rightarrow> json option \<Rightarrow> bool \<Rightarrow> string \<Rightarrow> repo_identity_error + repo_identity" where
  "detect_repo_identity git binding path_exists cwd =
     (if \<not> path_exists then
        Inl \<lparr>ge_message = ''Repository path does not exist: '' @ cwd, ge_code = ''REPO_PATH_NOT_FOUND''\<rparr>
      else
        (case run_git git [''rev-parse'', ''--git-dir''] of
           Inl _ \<Rightarrow> Inl \<lparr>ge_message = ''Not a git repository: '' @ cwd, ge_code = ''NOT_A_GIT_REPO''\<rparr>
         | Inr _ \<Rightarrow>
             (case run_git git [''remote'', ''get-url'', ''origin''] of
                Inl _ \<Rightarrow>
                  Inl \<lparr>ge_message = ''No '' @ quoted ''origin'' @ '' remote configured. Run: git remote add origin <url>'',
                       ge_code = ''NO_ORIGIN_REMOTE''\<rparr>
              | Inr remote \<Rightarrow>
                  (let (owner, repo) = parse_owner_repo remote
                   in if owner \<noteq> [] \<and> repo \<noteq> [] \<and> is_platform_control_repo owner repo
                      then Inl (platform_forbidden owner repo)
                      else Inr
                        \<lparr>gi_repo_remote = remote, gi_owner = owner, gi_repo = repo,
                         gi_current_branch = git_or git [''rev-parse'', ''--abbrev-ref'', ''HEAD''] ''unknown'',
                         gi_commit_sha = git_or git [''rev-parse'', ''HEAD''] ''unknown'',
                         gi_dirty_worktree = git_or git [''status'', ''--porcelain''] [] \<noteq> [],
                         gi_repo_binding_id = load_repo_binding_id binding\<rparr>))))"

section \<open>What is guarded\<close>

lemma owner_repo_Some:
  "owner_repo parts = Some (owner, repo) \<longleftrightarrow>
   (\<exists>r. parts = [owner, r] \<and> owner \<noteq> [] \<and> r \<noteq> [] \<and> repo = drop_git r)"
  by (auto simp: owner_repo_def split: list.splits)

lemma drop_git_nonempty: "r \<noteq> [] \<Longrightarrow> drop_git r \<noteq> []"
  by (auto simp: drop_git_def)

lemma parse_owner_repo_cases:
  "(fst (parse_owner_repo url) = [] \<and> snd (parse_owner_repo url) = []) \<or>
   (fst (parse_owner_repo url) \<noteq> [] \<and> snd (parse_owner_repo url) \<noteq> [])"
  by (auto simp: parse_owner_repo_def parse_ssh_def parse_https_def Let_def owner_repo_Some drop_git_nonempty
      split: option.splits if_splits list.splits prod.splits)

text \<open>A pair without slashes is what the usual remotes of it are read as.\<close>

definition plain_part :: "string \<Rightarrow> bool" where
  "plain_part s \<longleftrightarrow> s \<noteq> [] \<and> CHR ''/'' \<notin> set s"

lemma py_split_two: "CHR ''/'' \<notin> set a \<Longrightarrow> CHR ''/'' \<notin> set b \<Longrightarrow> py_split CHR ''/'' (a @ CHR ''/'' # b) = [a, b]"
proof -
  have plain: "py_split c s = [s]" if "c \<notin> set s" for c s
    using that by (induction s) auto
  show "CHR ''/'' \<notin> set a \<Longrightarrow> CHR ''/'' \<notin> set b \<Longrightarrow> ?thesis"
    by (induction a) (auto simp: plain)
qed

lemma drop_git_append: "r \<noteq> [] \<Longrightarrow> drop_git (r @ ''.git'') = r"
  by (simp add: drop_git_def)

lemma split_host: "CHR '':'' \<notin> set host \<Longrightarrow> split_once '':'' (host @ CHR '':'' # p) = Some (host, p)"
  by (induction host) (auto simp: starts_with_def)

lemma parse_ssh_remote:
  assumes "plain_part owner" "plain_part repo" "host \<noteq> []" "CHR '':'' \<notin> set host"
  shows "parse_owner_repo (''git@'' @ host @ '':'' @ owner @ ''/'' @ repo @ ''.git'') = (owner, repo)"
proof -
  have "py_split CHR ''/'' (owner @ CHR ''/'' # (repo @ ''.git'')) = [owner, repo @ ''.git'']"
    using assms(1,2) by (intro py_split_two) (auto simp: plain_part_def)
  then show ?thesis
    using assms split_host [OF assms(4), of "owner @ ''/'' @ repo @ ''.git''"]
    by (simp add: parse_owner_repo_def parse_ssh_def owner_repo_def drop_git_append plain_part_def starts_with_def)
qed

lemma parse_https_remote:
  assumes "plain_part owner" "plain_part repo" "plain_part host"
  shows "parse_owner_repo (''https://'' @ host @ ''/'' @ owner @ ''/'' @ repo @ ''.git'') = (owner, repo)"
proof -
  have two: "py_split CHR ''/'' (owner @ CHR ''/'' # (repo @ ''.git'')) = [owner, repo @ ''.git'']"
    using assms(1,2) by (intro py_split_two) (auto simp: plain_part_def)
  have host: "CHR ''/'' \<notin> set h \<Longrightarrow> py_split CHR ''/'' (h @ CHR ''/'' # s) = h # py_split CHR ''/'' s" for h s
    by (induction h) auto
  have "py_split CHR ''/'' (host @ CHR ''/'' # owner @ CHR ''/'' # repo @ ''.git'') = [host, owner, repo @ ''.git'']"
    using assms(3) host two by (simp add: plain_part_def)
  then show ?thesis
    using assms
    by (simp add: parse_owner_repo_def parse_ssh_def parse_https_def Let_def owner_repo_def drop_git_append
        plain_part_def starts_with_def)
qed

lemma platform_repo_iff:
  "is_platform_control_repo owner repo \<longleftrightarrow>
     py_lower (slug_of owner repo) = ''keyhole-solution/keyhole_platform''"
proof -
  have "py_lower (slug_of platform_owner platform_repo) = ''keyhole-solution/keyhole_platform''"
    and "py_lower (slug_of ''keyhole-solution'' platform_repo) = ''keyhole-solution/keyhole_platform''"
    by code_simp+
  then show ?thesis
    by (auto simp: is_platform_control_repo_def forbidden_patterns_def)
qed

lemma detected_not_platform:
  assumes "detect_repo_identity git binding path_exists cwd = Inr i"
  shows "parse_owner_repo (gi_repo_remote i) = (gi_owner i, gi_repo i)"
    and "py_lower (slug_of (gi_owner i) (gi_repo i)) \<noteq> ''keyhole-solution/keyhole_platform''"
proof -
  from assms have r: "parse_owner_repo (gi_repo_remote i) = (gi_owner i, gi_repo i)"
    "\<not> (gi_owner i \<noteq> [] \<and> gi_repo i \<noteq> [] \<and> is_platform_control_repo (gi_owner i) (gi_repo i))"
    by (auto simp: detect_repo_identity_def Let_def split: if_splits sum.splits prod.splits)
  show "parse_owner_repo (gi_repo_remote i) = (gi_owner i, gi_repo i)" by (rule r(1))
  show "py_lower (slug_of (gi_owner i) (gi_repo i)) \<noteq> ''keyhole-solution/keyhole_platform''"
  proof (cases "gi_owner i = [] \<and> gi_repo i = []")
    case True
    then show ?thesis by (simp add: slug_of_def py_lower_def py_lower_char_def)
  next
    case False
    then have "gi_owner i \<noteq> []" "gi_repo i \<noteq> []"
      using parse_owner_repo_cases [of "gi_repo_remote i"] r(1) by auto
    then show ?thesis using r(2) by (simp add: platform_repo_iff)
  qed
qed

definition platform_remote :: "string \<Rightarrow> string \<Rightarrow> string \<Rightarrow> string \<Rightarrow> bool" where
  "platform_remote url host owner repo \<longleftrightarrow>
     (url = ''git@'' @ host @ '':'' @ owner @ ''/'' @ repo @ ''.git'' \<or>
      url = ''https://'' @ host @ ''/'' @ owner @ ''/'' @ repo @ ''.git'') \<and>
     plain_part host \<and> CHR '':'' \<notin> set host \<and> plain_part owner \<and> plain_part repo"

text \<open>
  A repository identity is never that of the platform's own repository, as far as its remote is
  read: no detected identity has that owner and name in any case of letters, and a clone of it with
  one of the two usual remotes, from any host, is refused with the code of the guard.
\<close>

theorem platform_repo_refused:
  "(\<forall>i. detect_repo_identity git binding path_exists cwd = Inr i \<longrightarrow>
      py_lower (slug_of (gi_owner i) (gi_repo i)) \<noteq> ''keyhole-solution/keyhole_platform'') \<and>
   (platform_remote url host owner repo \<longrightarrow>
      py_lower (slug_of owner repo) = ''keyhole-solution/keyhole_platform'' \<longrightarrow>
      run_git git [''rev-parse'', ''--git-dir''] = Inr dir \<longrightarrow>
      run_git git [''remote'', ''get-url'', ''origin''] = Inr url \<longrightarrow>
      detect_repo_identity git binding True cwd = Inl (platform_forbidden owner repo))"
proof (intro conjI allI impI)
  fix i
  assume "detect_repo_identity git binding path_exists cwd = Inr i"
  then show "py_lower (slug_of (gi_owner i) (gi_repo i)) \<noteq> ''keyhole-solution/keyhole_platform''"
    by (rule detected_not_platform)
next
  assume "platform_remote url host owner repo"
    and lower: "py_lower (slug_of owner repo) = ''keyhole-solution/keyhole_platform''"
    and git: "run_git git [''rev-parse'', ''--git-dir''] = Inr dir"
      "run_git git [''remote'', ''get-url'', ''origin''] = Inr url"
  then have "parse_owner_repo url = (owner, repo)" "owner \<noteq> []" "repo \<noteq> []"
    using parse_ssh_remote [of owner repo host] parse_https_remote [of owner repo host]
    by (auto simp: platform_remote_def plain_part_def)
  then show "detect_repo_identity git binding True cwd = Inl (platform_forbidden owner repo)"
    using git lower by (simp add: detect_repo_identity_def platform_repo_iff)
qed

definition clone_of :: "string \<Rightarrow> string list \<Rightarrow> git_reply" where
  "clone_of url args =
     (if args = [''remote'', ''get-url'', ''origin''] then GitOutput (url @ [CHR 10]) else GitOutput ''x'')"

lemma platform_repo_refused_witness:
  "detect_repo_identity (clone_of ''git@github.com:Keyhole-Solution/Keyhole_Platform.git'') None True ''/r'' =
     Inl (platform_forbidden ''Keyhole-Solution'' ''Keyhole_Platform'')"
proof -
  let ?url = "''git@github.com:Keyhole-Solution/Keyhole_Platform.git''"
  have "platform_remote ?url ''github.com'' ''Keyhole-Solution'' ''Keyhole_Platform''" by code_simp
  moreover have "py_lower (slug_of ''Keyhole-Solution'' ''Keyhole_Platform'') = ''keyhole-solution/keyhole_platform''"
    by code_simp
  moreover have "run_git (clone_of ?url) [''rev-parse'', ''--git-dir''] = Inr ''x''" by code_simp
  moreover have "run_git (clone_of ?url) [''remote'', ''get-url'', ''origin''] = Inr ?url" by code_simp
  ultimately show ?thesis
    using platform_repo_refused [of "clone_of ?url" None True "''/r''" ?url "''github.com''"
        "''Keyhole-Solution''" "''Keyhole_Platform''" "''x''"] by blast
qed

text \<open>The guard does not see the same repository behind an \<open>ssh://\<close> remote or a slash at the end.\<close>

lemma guard_bypassed:
  "case detect_repo_identity (clone_of ''ssh://git@github.com/Keyhole-Solution/keyhole_platform.git'') None True ''/r'' of
     Inr i \<Rightarrow> gi_owner i = [] | Inl _ \<Rightarrow> False"
  "case detect_repo_identity (clone_of ''https://github.com/Keyhole-Solution/keyhole_platform/'') None True ''/r'' of
     Inr i \<Rightarrow> gi_owner i = [] | Inl _ \<Rightarrow> False"
  by code_simp+

end
