(* ===== verification/Auth_Session.thy ===== *)
theory Auth_Session
  imports Model_Fields Device_Flow
begin

text \<open>
  The stored login (\<open>auth_bootstrap/models.py\<close>, \<open>errors.py\<close>, \<open>credential_store.py\<close>) and its renewal
  (\<open>token_refresh.py\<close>). What the libraries do is given: \<open>me_int\<close> and \<open>me_time\<close> are pydantic's
  conversions to an integer and to a date, \<open>me_iso\<close> the ISO text of a date with a zone, and
  \<open>me_decode\<close> decodes base64 text to JSON. Times are seconds.
\<close>

section \<open>Errors\<close>

text \<open>
  \<open>AuthRaised\<close> is an \<open>AuthBootstrapError\<close>, which the login turns into a result; \<open>Crashed\<close> is any
  other exception, by its class; \<open>Blocked\<close> is a call that never returns.
\<close>

record auth_error =
  ae_class :: string
  ae_message :: string
  ae_repair :: "string list"

datatype 'a raised = Returned 'a | AuthRaised auth_error | Crashed string | Blocked

primrec and_then :: "'a raised \<Rightarrow> ('a \<Rightarrow> 'b raised) \<Rightarrow> 'b raised" where
  "and_then (Returned x) f = f x"
| "and_then (AuthRaised e) f = AuthRaised e"
| "and_then (Crashed c) f = Crashed c"
| "and_then Blocked f = Blocked"

lemma and_then_Returned:
  "and_then r f = Returned y \<longleftrightarrow> (\<exists>x. r = Returned x \<and> f x = Returned y)"
  by (cases r) auto

definition or_crash :: "string \<Rightarrow> 'a option \<Rightarrow> 'a raised" where
  "or_crash cls v = (case v of None \<Rightarrow> Crashed cls | Some x \<Rightarrow> Returned x)"

definition network_error :: "string \<Rightarrow> auth_error" where
  "network_error message =
     \<lparr>ae_class = ''network_error'', ae_message = message,
      ae_repair = [''Check network connectivity.'', ''Verify the auth server URL is correct.'',
        ''Try again in a few moments.'']\<rparr>"

definition browser_launch_error :: auth_error where
  "browser_launch_error =
     \<lparr>ae_class = ''browser_launch_error'', ae_message = ''Could not open browser for login'',
      ae_repair = [''Use device flow instead: keyhole login --flow device'',
        ''Open the displayed URL manually in a browser.'',
        ''Set BROWSER environment variable to your browser path.'']\<rparr>"

definition expired_challenge_error :: auth_error where
  "expired_challenge_error =
     \<lparr>ae_class = ''expired_challenge'', ae_message = ''Authentication challenge expired'',
      ae_repair = [''Retry login: keyhole login'', ''Complete the browser step more quickly.'']\<rparr>"

definition invalid_token_error :: "string \<Rightarrow> auth_error" where
  "invalid_token_error message =
     \<lparr>ae_class = ''invalid_token'', ae_message = message,
      ae_repair = [''Retry login: keyhole login'', ''Ensure you completed the correct browser window.'',
        ''Clear local session and retry: keyhole login --force'']\<rparr>"

definition login_denied_error :: auth_error where
  "login_denied_error =
     \<lparr>ae_class = ''login_denied'', ae_message = ''Login denied by authentication server'',
      ae_repair = [''Verify your account credentials.'',
        ''Contact your organization admin if access was revoked.'']\<rparr>"

definition credential_store_error :: "string \<Rightarrow> auth_error" where
  "credential_store_error message =
     \<lparr>ae_class = ''credential_store_error'', ae_message = message,
      ae_repair = [''Check file permissions in ~/.keyhole/'',
        ''Clear the credential store: rm -rf ~/.keyhole/credentials.json'', ''Retry login: keyhole login'']\<rparr>"

definition whoami_error :: "string \<Rightarrow> auth_error" where
  "whoami_error message =
     \<lparr>ae_class = ''whoami_verification_error'', ae_message = message,
      ae_repair = [''Retry login: keyhole login'', ''Check that the MCP server is reachable.'',
        ''Clear local session and retry: keyhole login --force'']\<rparr>"

definition bootstrap_error :: "string \<Rightarrow> string list \<Rightarrow> auth_error" where
  "bootstrap_error message repair =
     \<lparr>ae_class = ''auth_bootstrap_error'', ae_message = message, ae_repair = repair\<rparr>"

section \<open>Models\<close>

datatype auth_flow_type = FLOW_PKCE | FLOW_DEVICE | FLOW_PASSWORD | FLOW_PASSWORDLESS

fun flow_type_value :: "auth_flow_type \<Rightarrow> string" where
  "flow_type_value FLOW_PKCE = ''pkce''"
| "flow_type_value FLOW_DEVICE = ''device''"
| "flow_type_value FLOW_PASSWORD = ''password''"
| "flow_type_value FLOW_PASSWORDLESS = ''passwordless''"

definition flow_type_of :: "string \<Rightarrow> auth_flow_type option" where
  "flow_type_of s =
     map_of [(''pkce'', FLOW_PKCE), (''device'', FLOW_DEVICE), (''password'', FLOW_PASSWORD),
             (''passwordless'', FLOW_PASSWORDLESS)] s"

datatype auth_mode = MODE_SHADOW | MODE_REAL

fun auth_mode_value :: "auth_mode \<Rightarrow> string" where
  "auth_mode_value MODE_SHADOW = ''shadow''"
| "auth_mode_value MODE_REAL = ''real''"

definition auth_mode_of :: "string \<Rightarrow> auth_mode option" where
  "auth_mode_of s = map_of [(''shadow'', MODE_SHADOW), (''real'', MODE_REAL)] s"

text \<open>A date with a zone, as its time, or without one. Comparing the two kinds raises \<open>TypeError\<close>.\<close>

datatype py_time = Zoned rat | Unzoned rat

record model_env =
  me_int :: "json \<Rightarrow> int option"
  me_time :: "json \<Rightarrow> py_time option"
  me_iso :: "rat \<Rightarrow> string"
  me_decode :: "string \<Rightarrow> json option"

record token_response =
  tr_access_token :: string
  tr_token_type :: string
  tr_expires_in :: "int option"
  tr_refresh_token :: "string option"
  tr_scope :: "string option"
  tr_id_token :: "string option"

definition opt_int_field :: "model_env \<Rightarrow> dict \<Rightarrow> string \<Rightarrow> int option option" where
  "opt_int_field me d k =
     (case dict_get d k of
        None \<Rightarrow> Some None
      | Some JNull \<Rightarrow> Some None
      | Some v \<Rightarrow> map_option Some (me_int me v))"

definition token_response_of :: "model_env \<Rightarrow> json \<Rightarrow> token_response option" where
  "token_response_of me v =
     (case v of
        JObj d \<Rightarrow>
          do {
            access \<leftarrow> str_field d ''access_token'' None;
            typ \<leftarrow> str_field d ''token_type'' (Some ''Bearer'');
            expires \<leftarrow> opt_int_field me d ''expires_in'';
            refresh \<leftarrow> opt_str_field d ''refresh_token'';
            scope \<leftarrow> opt_str_field d ''scope'';
            id_token \<leftarrow> opt_str_field d ''id_token'';
            Some \<lparr>tr_access_token = access, tr_token_type = typ, tr_expires_in = expires,
                  tr_refresh_token = refresh, tr_scope = scope, tr_id_token = id_token\<rparr>
          }
      | _ \<Rightarrow> None)"

record auth_session =
  ss_access_token :: string
  ss_token_type :: string
  ss_refresh_token :: "string option"
  ss_expires_at :: "py_time option"
  ss_scope :: "string option"
  ss_flow_type :: auth_flow_type
  ss_mode :: auth_mode
  ss_realm :: string
  ss_auth_server_url :: "string option"
  ss_created_at :: py_time
  ss_last_verified_at :: "py_time option"

text \<open>\<open>is_expired\<close>: \<open>None\<close> when the comparison raises.\<close>

definition session_expired :: "rat \<Rightarrow> auth_session \<Rightarrow> bool option" where
  "session_expired now s =
     (case ss_expires_at s of
        None \<Rightarrow> Some False
      | Some (Zoned t) \<Rightarrow> Some (now \<ge> t)
      | Some (Unzoned t) \<Rightarrow> None)"

text \<open>The text of a date without a zone is that of its time, without the zone.\<close>

definition time_json :: "(rat \<Rightarrow> string) \<Rightarrow> (rat \<Rightarrow> string) \<Rightarrow> py_time \<Rightarrow> json" where
  "time_json zone_iso naive_iso t = JStr (case t of Zoned r \<Rightarrow> zone_iso r | Unzoned r \<Rightarrow> naive_iso r)"

definition opt_time_json :: "(rat \<Rightarrow> string) \<Rightarrow> (rat \<Rightarrow> string) \<Rightarrow> py_time option \<Rightarrow> json" where
  "opt_time_json zone_iso naive_iso t = (case t of None \<Rightarrow> JNull | Some x \<Rightarrow> time_json zone_iso naive_iso x)"

definition session_to_dict :: "(rat \<Rightarrow> string) \<Rightarrow> (rat \<Rightarrow> string) \<Rightarrow> auth_session \<Rightarrow> dict" where
  "session_to_dict zone_iso naive_iso s =
     [(''access_token'', JStr (ss_access_token s)),
      (''token_type'', JStr (ss_token_type s)),
      (''refresh_token'', opt_str_json (ss_refresh_token s)),
      (''expires_at'', opt_time_json zone_iso naive_iso (ss_expires_at s)),
      (''scope'', opt_str_json (ss_scope s)),
      (''flow_type'', JStr (flow_type_value (ss_flow_type s))),
      (''mode'', JStr (auth_mode_value (ss_mode s))),
      (''realm'', JStr (ss_realm s)),
      (''auth_server_url'', opt_str_json (ss_auth_server_url s)),
      (''created_at'', time_json zone_iso naive_iso (ss_created_at s)),
      (''last_verified_at'', opt_time_json zone_iso naive_iso (ss_last_verified_at s))]"

definition opt_time_field :: "model_env \<Rightarrow> dict \<Rightarrow> string \<Rightarrow> py_time option option" where
  "opt_time_field me d k =
     (case dict_get d k of
        None \<Rightarrow> Some None
      | Some JNull \<Rightarrow> Some None
      | Some v \<Rightarrow> map_option Some (me_time me v))"

definition default_realm :: string where
  "default_realm = ''kh-prod''"

definition session_of_dict :: "model_env \<Rightarrow> rat \<Rightarrow> dict \<Rightarrow> auth_session option" where
  "session_of_dict me now d =
     do {
       access \<leftarrow> str_field d ''access_token'' None;
       typ \<leftarrow> str_field d ''token_type'' (Some ''Bearer'');
       refresh \<leftarrow> opt_str_field d ''refresh_token'';
       expires \<leftarrow> opt_time_field me d ''expires_at'';
       scope \<leftarrow> opt_str_field d ''scope'';
       flow_text \<leftarrow> str_field d ''flow_type'' None;
       flow \<leftarrow> flow_type_of flow_text;
       mode_text \<leftarrow> str_field d ''mode'' (Some ''real'');
       mode \<leftarrow> auth_mode_of mode_text;
       realm \<leftarrow> str_field d ''realm'' (Some default_realm);
       server \<leftarrow> opt_str_field d ''auth_server_url'';
       created \<leftarrow> (case dict_get d ''created_at'' of None \<Rightarrow> Some (Zoned now) | Some v \<Rightarrow> me_time me v);
       verified \<leftarrow> opt_time_field me d ''last_verified_at'';
       Some \<lparr>ss_access_token = access, ss_token_type = typ, ss_refresh_token = refresh,
             ss_expires_at = expires, ss_scope = scope, ss_flow_type = flow, ss_mode = mode,
             ss_realm = realm, ss_auth_server_url = server, ss_created_at = created,
             ss_last_verified_at = verified\<rparr>
     }"

section \<open>The store\<close>

text \<open>
  The credentials file: absent, unreadable or not JSON (with the text of the exception), or a
  value. Writing goes through a temporary file and a rename, so it happens as a whole or not at
  all; the first argument of \<open>save_session\<close> is the text of the \<open>OSError\<close> of preparing the directory,
  the second that of writing.
\<close>

datatype cred_file = FileAbsent | FileUnreadable string | FileJson json

definition load_session :: "model_env \<Rightarrow> rat \<Rightarrow> cred_file \<Rightarrow> auth_session option raised" where
  "load_session me now file =
     (case file of
        FileAbsent \<Rightarrow> Returned None
      | FileUnreadable e \<Rightarrow> AuthRaised (credential_store_error (''Could not read credentials: '' @ e))
      | FileJson (JObj d) \<Rightarrow>
          (case session_of_dict me now d of
             None \<Rightarrow> Crashed ''ValidationError''
           | Some s \<Rightarrow> Returned (Some s))
      | FileJson _ \<Rightarrow> Crashed ''ValidationError'')"

record save_errors =
  se_dir :: "string option"
  se_write :: "string option"

definition save_session ::
  "(rat \<Rightarrow> string) \<Rightarrow> (rat \<Rightarrow> string) \<Rightarrow> save_errors \<Rightarrow> auth_session \<Rightarrow> cred_file \<Rightarrow> unit raised \<times> cred_file" where
  "save_session zone_iso naive_iso errs s file =
     (case se_dir errs of
        Some e \<Rightarrow> (AuthRaised (credential_store_error (''Could not create credential store directory: '' @ e)), file)
      | None \<Rightarrow>
          (case se_write errs of
             Some e \<Rightarrow> (AuthRaised (credential_store_error (''Could not write credentials: '' @ e)), file)
           | None \<Rightarrow> (Returned (), FileJson (JObj (session_to_dict zone_iso naive_iso s)))))"

definition clear_credentials :: "string option \<Rightarrow> cred_file \<Rightarrow> unit raised \<times> cred_file" where
  "clear_credentials err file =
     (case file of
        FileAbsent \<Rightarrow> (Returned (), FileAbsent)
      | _ \<Rightarrow>
          (case err of
             Some e \<Rightarrow> (AuthRaised (credential_store_error (''Could not clear credentials: '' @ e)), file)
           | None \<Rightarrow> (Returned (), FileAbsent)))"

definition credentials_exist :: "cred_file \<Rightarrow> bool" where
  "credentials_exist file = (file \<noteq> FileAbsent)"

definition store_authenticated :: "model_env \<Rightarrow> rat \<Rightarrow> cred_file \<Rightarrow> bool raised" where
  "store_authenticated me now file =
     and_then (load_session me now file)
       (\<lambda>s. case s of
              None \<Rightarrow> Returned False
            | Some s \<Rightarrow> and_then (or_crash ''TypeError'' (session_expired now s)) (\<lambda>b. Returned (\<not> b)))"

section \<open>Renewal\<close>

definition expiry_buffer :: rat where
  "expiry_buffer = 60"

definition default_auth_server :: string where
  "default_auth_server = ''https://auth.keyholesolution.com/realms/kh-prod''"

definition token_suffix :: string where
  "token_suffix = ''/protocol/openid-connect/token''"

text \<open>The \<open>exp\<close> claim: the second part of the token, padded and decoded.\<close>

definition jwt_exp :: "model_env \<Rightarrow> json \<Rightarrow> int option" where
  "jwt_exp me token =
     (case token of
        JStr t \<Rightarrow>
          (case py_split CHR ''.'' t of
             _ # payload # _ \<Rightarrow>
               (case me_decode me (payload @ replicate ((4 - length payload mod 4) mod 4) CHR ''='') of
                  Some (JObj d) \<Rightarrow> (case dict_get d ''exp'' of Some v \<Rightarrow> py_int v | None \<Rightarrow> None)
                | _ \<Rightarrow> None)
           | _ \<Rightarrow> None)
      | _ \<Rightarrow> None)"

definition token_is_valid :: "model_env \<Rightarrow> rat \<Rightarrow> json \<Rightarrow> bool" where
  "token_is_valid me now token =
     (case jwt_exp me token of
        None \<Rightarrow> False
      | Some e \<Rightarrow> now < of_int e - expiry_buffer)"

text \<open>
  The answer to the renewal: an exception of the session by its class, or a status with the body
  when it parses. \<open>later\<close> is the date after a number of seconds, \<open>None\<close> when the number or the
  date is none that \<open>timedelta\<close> and \<open>datetime\<close> take.
\<close>

datatype refresh_answer = RefreshFailed string | RefreshAnswer int "json option"

record refresh_env =
  fr_now :: rat
  fr_client_id :: string
  fr_post :: "string \<Rightarrow> (string \<times> json) list \<Rightarrow> refresh_answer"
  fr_later :: "json \<Rightarrow> string option"
  fr_save_error :: "string option"

definition refreshed_creds :: "refresh_env \<Rightarrow> dict \<Rightarrow> dict \<Rightarrow> dict raised" where
  "refreshed_creds env data creds =
     (case dict_get data ''access_token'' of
        None \<Rightarrow> Crashed ''KeyError''
      | Some token \<Rightarrow>
          (case fr_later env (dict_get_or data ''expires_in'' (JInt 300)) of
             None \<Rightarrow> Crashed ''TypeError''
           | Some expires \<Rightarrow>
               (let c1 = dict_set ''access_token'' token creds;
                    c2 = dict_set ''token_type'' (dict_get_or data ''token_type'' (JStr ''Bearer'')) c1;
                    c3 = dict_set ''expires_at'' (JStr expires) c2
                in Returned (case dict_get data ''refresh_token'' of
                     None \<Rightarrow> c3
                   | Some r \<Rightarrow> dict_set ''refresh_token'' r c3))))"

definition do_refresh :: "refresh_env \<Rightarrow> dict \<Rightarrow> dict raised" where
  "do_refresh env creds =
     (case dict_get_or creds ''auth_server_url'' (JStr default_auth_server) of
        JStr server \<Rightarrow>
          (case fr_post env (py_rstrip_char CHR ''/'' server @ token_suffix)
                  [(''grant_type'', JStr ''refresh_token''), (''client_id'', JStr (fr_client_id env)),
                   (''refresh_token'', json_get creds ''refresh_token'')] of
             RefreshFailed cls \<Rightarrow> Crashed cls
           | RefreshAnswer status body \<Rightarrow>
               (if 400 \<le> status \<and> status < 600 then Crashed ''HTTPError''
                else (case body of
                        None \<Rightarrow> Crashed ''JSONDecodeError''
                      | Some (JObj data) \<Rightarrow> refreshed_creds env data creds
                      | Some _ \<Rightarrow> Crashed ''AttributeError'')))
      | _ \<Rightarrow> Crashed ''AttributeError'')"

definition get_fresh_token :: "model_env \<Rightarrow> refresh_env \<Rightarrow> cred_file \<Rightarrow> json raised \<times> cred_file" where
  "get_fresh_token me env file =
     (case file of
        FileAbsent \<Rightarrow> (Crashed ''FileNotFoundError'', file)
      | FileUnreadable e \<Rightarrow> (Crashed ''JSONDecodeError'', file)
      | FileJson (JObj creds) \<Rightarrow>
          (let token = dict_get_or creds ''access_token'' (JStr [])
           in if token_is_valid me (fr_now env) token then (Returned token, file)
              else if \<not> json_truthy (json_get creds ''refresh_token'') then (Crashed ''RuntimeError'', file)
              else (case do_refresh env creds of
                      Returned creds' \<Rightarrow>
                        (case fr_save_error env of
                           Some e \<Rightarrow> (Crashed ''OSError'', file)
                         | None \<Rightarrow> (Returned (json_get creds' ''access_token''), FileJson (JObj creds')))
                    | AuthRaised e \<Rightarrow> (AuthRaised e, file)
                    | Crashed c \<Rightarrow> (Crashed c, file)
                    | Blocked \<Rightarrow> (Blocked, file)))
      | FileJson _ \<Rightarrow> (Crashed ''AttributeError'', file))"

end
