(* ===== verification/Ingest_Submission.thy ===== *)
theory Ingest_Submission
  imports Ingest_Scan Run_Dispatch Repo_Identity Auth_Session
begin

text \<open>
  From a scan to an outcome: the package (\<open>ingest/packager.py\<close>), the request and the answer's models
  (\<open>ingest/models.py\<close>), the submission over the governed transport (\<open>submitter.py\<close>), its guidance
  (\<open>repair.py\<close>) and its proof (\<open>proof.py\<close>). Times, identifiers and the text of a JSON value are given.
\<close>

section \<open>The package\<close>

datatype posture = FOREIGN | PARTIALLY_ALIGNED | KEYHOLE_READY

fun posture_value :: "posture \<Rightarrow> string" where
  "posture_value FOREIGN = ''foreign''"
| "posture_value PARTIALLY_ALIGNED = ''partially_aligned''"
| "posture_value KEYHOLE_READY = ''keyhole_ready''"

definition assessed_posture :: "repo_scan \<Rightarrow> posture" where
  "assessed_posture scan =
     (if rp_has_keyhole_scaffold scan then KEYHOLE_READY
      else if rp_manifests scan \<noteq> [] \<and> rp_source_dirs scan \<noteq> [] then PARTIALLY_ALIGNED
      else FOREIGN)"

definition compatibility_inputs :: "repo_scan \<Rightarrow> dict" where
  "compatibility_inputs scan =
     [(''client_assessed_posture'', JStr (posture_value (assessed_posture scan))),
      (''has_keyhole_scaffold'', JBool (rp_has_keyhole_scaffold scan)),
      (''has_manifests'', JBool (rp_manifests scan \<noteq> [])),
      (''has_source_dirs'', JBool (rp_source_dirs scan \<noteq> [])),
      (''has_test_dirs'', JBool (rp_test_dirs scan \<noteq> [])),
      (''has_docs'', JBool (rp_doc_files scan \<noteq> [])),
      (''language_count'', JInt (int (length (rp_languages scan)))),
      (''framework_count'', JInt (int (length (rp_frameworks scan))))]"

definition scan_summary_dict :: "repo_scan \<Rightarrow> dict" where
  "scan_summary_dict scan =
     [(''total_files'', JInt (int (rp_total_files scan))),
      (''included_files'', JInt (int (length (rp_included_files scan)))),
      (''excluded_files'', JInt (int (length (rp_excluded_files scan)))),
      (''total_included_bytes'', JInt (int (rp_total_included_bytes scan))),
      (''has_keyhole_scaffold'', JBool (rp_has_keyhole_scaffold scan)),
      (''scan_timestamp'', JStr (rp_scan_timestamp scan))]"

definition dependency_summaries :: "string list \<Rightarrow> dict" where
  "dependency_summaries manifests =
     fold (\<lambda>m. dict_set (path_name m) (JObj [(''path'', JStr m)])) manifests []"

definition signal_dict :: "scan_signal \<Rightarrow> json" where
  "signal_dict s =
     JObj [(''kind'', JStr (sg_kind s)), (''path'', JStr (sg_path s)), (''value'', JStr (sg_value s)),
           (''confidence'', JStr (confidence_level_value (sg_confidence s)))]"

record ingestion_package =
  ip_repo_identity :: string
  ip_local_path :: string
  ip_scan :: repo_scan
  ip_exclusion_rules :: "string list"
  ip_shadow :: bool
  ip_correlation_id :: string
  ip_gap_id :: string
  ip_repo_remote :: string
  ip_commit_sha :: string
  ip_current_branch :: string
  ip_builder_hints :: dict
  ip_package_timestamp :: string

text \<open>The fields that are copies or functions of the scan are read from it.\<close>

definition build_ingestion_package ::
  "repo_scan \<Rightarrow> bool \<Rightarrow> string \<Rightarrow> string \<Rightarrow> string \<Rightarrow> string \<Rightarrow> string \<Rightarrow> dict \<Rightarrow> string list \<Rightarrow> string \<Rightarrow> string \<Rightarrow>
   ingestion_package" where
  "build_ingestion_package scan shadow cid gap remote sha branch hints rules fresh_id now =
     \<lparr>ip_repo_identity = path_name (rp_repo_root scan), ip_local_path = rp_repo_root scan, ip_scan = scan,
      ip_exclusion_rules = rules, ip_shadow = shadow, ip_correlation_id = str_or cid fresh_id,
      ip_gap_id = gap, ip_repo_remote = remote, ip_commit_sha = sha, ip_current_branch = branch,
      ip_builder_hints = hints, ip_package_timestamp = now\<rparr>"

definition str_json_list :: "string list \<Rightarrow> json" where
  "str_json_list xs = JList (map JStr xs)"

definition package_payload :: "ingestion_package \<Rightarrow> dict" where
  "package_payload p =
     (let s = ip_scan p
      in [(''repo_identity'', JStr (ip_repo_identity p)), (''local_path'', JStr (ip_local_path p)),
          (''languages'', str_json_list (rp_languages s)), (''frameworks'', str_json_list (rp_frameworks s)),
          (''manifests'', str_json_list (rp_manifests s)), (''source_dirs'', str_json_list (rp_source_dirs s)),
          (''test_dirs'', str_json_list (rp_test_dirs s)), (''doc_files'', str_json_list (rp_doc_files s)),
          (''build_files'', str_json_list (rp_build_files s)),
          (''included_file_manifest'', str_json_list (rp_included_files s)),
          (''exclusion_rules'', str_json_list (ip_exclusion_rules p)),
          (''dependency_summaries'', JObj (dependency_summaries (rp_manifests s))),
          (''signals'', JList (map signal_dict (rp_signals s))),
          (''scan_summary'', JObj (scan_summary_dict s)),
          (''compatibility_inputs'', JObj (compatibility_inputs s)),
          (''shadow'', JBool (ip_shadow p)), (''correlation_id'', JStr (ip_correlation_id p)),
          (''gap_id'', JStr (ip_gap_id p)), (''repo_remote'', JStr (ip_repo_remote p)),
          (''commit_sha'', JStr (ip_commit_sha p)), (''current_branch'', JStr (ip_current_branch p)),
          (''builder_hints'', JObj (ip_builder_hints p)),
          (''package_timestamp'', JStr (ip_package_timestamp p))])"

definition package_proof_dict :: "ingestion_package \<Rightarrow> dict" where
  "package_proof_dict p = filter (\<lambda>(k, v). k \<noteq> ''local_path'') (package_payload p)"

section \<open>The request\<close>

record ingestion_request =
  iq_package :: ingestion_package
  iq_identity_fingerprint :: string
  iq_gap_id :: string
  iq_repo_remote :: string
  iq_commit_sha :: string
  iq_timestamp :: string

definition request_subject :: "ingestion_request \<Rightarrow> dict" where
  "request_subject q =
     (let p = iq_package q
      in [(''gap_id'', JStr (str_or (iq_gap_id q) (ip_gap_id p))),
          (''repo_remote'', JStr (str_or (iq_repo_remote q) (ip_repo_remote p))),
          (''commit_sha'', JStr (str_or (iq_commit_sha q) (ip_commit_sha p)))])"

definition ingest_payload :: "ingestion_request \<Rightarrow> dict" where
  "ingest_payload q =
     [(''package'', JObj (package_payload (iq_package q))),
      (''identity_fingerprint'', JStr (iq_identity_fingerprint q))] @ request_subject q @
     [(''timestamp'', JStr (iq_timestamp q))]"

definition ingest_request_proof :: "ingestion_request \<Rightarrow> dict" where
  "ingest_request_proof q =
     (let p = iq_package q
      in [(''package_summary'', JObj
            ([(''repo_identity'', JStr (ip_repo_identity p)),
              (''languages'', str_json_list (rp_languages (ip_scan p))),
              (''frameworks'', str_json_list (rp_frameworks (ip_scan p))),
              (''total_included'', JInt (int (length (rp_included_files (ip_scan p))))),
              (''shadow'', JBool (ip_shadow p)), (''correlation_id'', JStr (ip_correlation_id p))] @
             request_subject q)),
          (''identity_fingerprint'', JStr (iq_identity_fingerprint q)),
          (''timestamp'', JStr (iq_timestamp q))])"

section \<open>The outcome\<close>

record inferred_capability =
  ic_name :: string
  ic_confidence :: confidence_level
  ic_basis :: string
  ic_category :: string

record graph_summary =
  gs_node_count :: int
  gs_edge_count :: int
  gs_components :: int
  gs_primary_language :: string
  gs_topology_notes :: "string list"

record ingestion_outcome =
  ig_status :: outcome_status
  ig_ingestion_id :: "string option"
  ig_package :: ingestion_package
  ig_compatibility :: posture
  ig_graph :: "graph_summary option"
  ig_capabilities :: "inferred_capability list"
  ig_warnings :: "string list"
  ig_actions :: "string list"
  ig_http_status :: int
  ig_response_data :: dict
  ig_error_class :: string
  ig_reason :: string
  ig_repair :: "string list"
  ig_is_local :: bool

definition outcome_for :: "outcome_status \<Rightarrow> ingestion_package \<Rightarrow> ingestion_outcome" where
  "outcome_for status p =
     \<lparr>ig_status = status, ig_ingestion_id = None, ig_package = p, ig_compatibility = FOREIGN,
      ig_graph = None, ig_capabilities = [], ig_warnings = [], ig_actions = [], ig_http_status = 0,
      ig_response_data = [], ig_error_class = [], ig_reason = [], ig_repair = [], ig_is_local = False\<rparr>"

definition graph_dict :: "graph_summary \<Rightarrow> json" where
  "graph_dict g =
     JObj [(''node_count'', JInt (gs_node_count g)), (''edge_count'', JInt (gs_edge_count g)),
           (''components'', JInt (gs_components g)), (''primary_language'', JStr (gs_primary_language g)),
           (''topology_notes'', str_json_list (gs_topology_notes g))]"

definition capability_fields :: "inferred_capability \<Rightarrow> dict" where
  "capability_fields c =
     [(''name'', JStr (ic_name c)), (''confidence'', JStr (confidence_level_value (ic_confidence c))),
      (''basis'', JStr (ic_basis c)), (''category'', JStr (ic_category c))]"

definition ingest_outcome_proof :: "ingestion_outcome \<Rightarrow> dict" where
  "ingest_outcome_proof r =
     [(''status'', JStr (outcome_status_value (ig_status r))),
      (''repo_identity'', JStr (ip_repo_identity (ig_package r))),
      (''shadow'', JBool (ip_shadow (ig_package r))),
      (''correlation_id'', JStr (ip_correlation_id (ig_package r))),
      (''compatibility'', JStr (posture_value (ig_compatibility r))),
      (''http_status'', JInt (ig_http_status r))] @
     (if opt_truthy (ig_ingestion_id r) then [(''ingestion_id'', opt_str_json (ig_ingestion_id r))] else []) @
     (case ig_graph r of None \<Rightarrow> [] | Some g \<Rightarrow> [(''graph_summary'', graph_dict g)]) @
     (if ig_capabilities r \<noteq> []
      then [(''inferred_capabilities'', JList (map (JObj \<circ> capability_fields) (ig_capabilities r)))] else []) @
     (if ig_warnings r \<noteq> [] then [(''warnings'', str_json_list (ig_warnings r))] else []) @
     (if ig_actions r \<noteq> [] then [(''suggested_actions'', str_json_list (ig_actions r))] else []) @
     (if ig_error_class r \<noteq> [] then [(''error_class'', JStr (ig_error_class r))] else []) @
     (if ig_reason r \<noteq> [] then [(''reason'', JStr (ig_reason r))] else []) @
     (if ig_repair r \<noteq> [] then [(''repair_guidance'', str_json_list (ig_repair r))] else [])"

section \<open>Guidance\<close>

definition ingest_repair_map :: "(string \<times> string list) list" where
  "ingest_repair_map =
     [(''AuthenticationError'', [''Run: keyhole login'', ''Re-authenticate and try again.'']),
      (''TransportUnknownError'',
        [''Check network connectivity to the MCP boundary.'',
         ''Retry is safe '' @ mdash @ '' the operation has idempotency protection.'']),
      (''RetryExhaustedError'',
        [''The boundary is unavailable after all retry attempts.'',
         ''Wait and retry later. The operation preserved its idempotency key.'']),
      (''RuntimeUnavailableError'',
        [''The ingestion service is temporarily unavailable.'', ''Try again later.'']),
      (''IdempotencyConflictError'',
        [''A different payload was sent with the same idempotency key.'',
         ''If this is a new ingestion, retry with --shadow for a fresh attempt.'']),
      (''RateLimitedError'',
        [''You are being rate-limited by the boundary.'',
         ''Wait for the Retry-After period and try again.'']),
      (''InvalidRepoPath'',
        [''The specified repository path does not exist or is not a directory.'',
         ''Check the path and try again: keyhole ingest <valid-path>'']),
      (''EmptyPackage'',
        [''No files were included after filtering.'', ''Check your --include and --exclude patterns.'',
         ''Try: keyhole ingest <path> --include '' @ quoted ''*.py'' @ '' '' @ mdash @ '' to include specific files.'']),
      (''PackageTooLarge'',
        [''The ingestion package exceeds the size limit.'', ''Use --max-bytes to constrain package size.'',
         ''Use --exclude to skip large directories.'']),
      (''ServerRejection'',
        [''The ingestion boundary rejected the request.'', ''Check the error reason for details.'',
         ''Try: keyhole ingest --shadow '' @ mdash @ '' for a low-risk exploratory pass.'']),
      (''PublicEndpointError'',
        [''The boundary rejected the request payload.'', ''Check error details for the specific reason.''])]"

definition map_ingestion_repair :: "string \<Rightarrow> string list" where
  "map_ingestion_repair error_class =
     (case dict_get ingest_repair_map error_class of
        Some (g # gs) \<Rightarrow> g # gs
      | _ \<Rightarrow>
          [''Unexpected error: '' @ error_class,
           ''Try: keyhole ingest --shadow '' @ mdash @ '' for a low-risk exploratory pass.'',
           ''Try: keyhole doctor '' @ mdash @ '' to diagnose your environment.''])"

section \<open>Reading the answer\<close>

text \<open>Each gives \<open>None\<close> when its model does not validate.\<close>

definition get_or_get :: "dict \<Rightarrow> string \<Rightarrow> string \<Rightarrow> json \<Rightarrow> json" where
  "get_or_get d k k' dflt = dict_get_or d k (dict_get_or d k' dflt)"

definition str_value :: "json \<Rightarrow> string option" where
  "str_value v = (case v of JStr s \<Rightarrow> Some s | _ \<Rightarrow> None)"

definition extract_graph :: "model_env \<Rightarrow> dict \<Rightarrow> graph_summary option option" where
  "extract_graph me data =
     (case json_or (json_get data ''graph_summary'') (json_get data ''graph'') of
        JObj (kv # kvs) \<Rightarrow>
          (let g = kv # kvs
           in do {
                nodes \<leftarrow> me_int me (get_or_get g ''node_count'' ''nodes'' (JInt 0));
                edges \<leftarrow> me_int me (get_or_get g ''edge_count'' ''edges'' (JInt 0));
                comps \<leftarrow> me_int me (dict_get_or g ''components'' (JInt 0));
                lang \<leftarrow> str_value (dict_get_or g ''primary_language'' (JStr []));
                notes \<leftarrow> str_list_value (dict_get_or g ''topology_notes'' (JList []));
                Some (Some \<lparr>gs_node_count = nodes, gs_edge_count = edges, gs_components = comps,
                            gs_primary_language = lang, gs_topology_notes = notes\<rparr>)
              })
      | _ \<Rightarrow> Some None)"

definition confidence_or_low :: "json \<Rightarrow> confidence_level" where
  "confidence_or_low v =
     (if v = JStr ''high'' then CONFIDENCE_HIGH
      else if v = JStr ''medium'' then CONFIDENCE_MEDIUM
      else CONFIDENCE_LOW)"

fun extract_capability :: "json \<Rightarrow> inferred_capability list option" where
  "extract_capability (JObj d) =
     do {
       name \<leftarrow> str_value (dict_get_or d ''name'' (JStr []));
       basis \<leftarrow> str_value (dict_get_or d ''basis'' (JStr []));
       category \<leftarrow> str_value (dict_get_or d ''category'' (JStr []));
       Some [\<lparr>ic_name = name, ic_confidence = confidence_or_low (dict_get_or d ''confidence'' (JStr ''low'')),
              ic_basis = basis, ic_category = category\<rparr>]
     }"
| "extract_capability (JStr s) =
     Some [\<lparr>ic_name = s, ic_confidence = CONFIDENCE_LOW, ic_basis = [], ic_category = []\<rparr>]"
| "extract_capability _ = Some []"

definition extract_capabilities :: "dict \<Rightarrow> inferred_capability list option" where
  "extract_capabilities data =
     (case get_or_get data ''inferred_capabilities'' ''capabilities'' (JList []) of
        JList items \<Rightarrow> map_option concat (those (map extract_capability items))
      | _ \<Rightarrow> Some [])"

definition extract_posture :: "dict \<Rightarrow> posture" where
  "extract_posture data =
     (let v = get_or_get data ''compatibility'' ''compatibility_posture'' (JStr ''foreign'')
      in if v = JStr ''partially_aligned'' then PARTIALLY_ALIGNED
         else if v = JStr ''keyhole_ready'' then KEYHOLE_READY
         else FOREIGN)"

definition ingestion_id_of :: "dict \<Rightarrow> string option option" where
  "ingestion_id_of data =
     opt_str_value (json_or (json_get data ''ingestion_id'')
       (json_or (json_get data ''run_id'') (json_get data ''id'')))"

text \<open>
  The branches of \<open>_classify_outcome\<close>: a rejection keeps the guidance of the answer and drops its
  inferences; the others keep the inferences.
\<close>

definition kept_outcome ::
  "model_env \<Rightarrow> outcome_status \<Rightarrow> dict \<Rightarrow> int \<Rightarrow> ingestion_package \<Rightarrow> ingestion_outcome option" where
  "kept_outcome me status data http p =
     do {
       graph \<leftarrow> extract_graph me data;
       caps \<leftarrow> extract_capabilities data;
       ident \<leftarrow> ingestion_id_of data;
       warnings \<leftarrow> str_list_value (dict_get_or data ''warnings'' (JList []));
       actions \<leftarrow> str_list_value (get_or_get data ''suggested_actions'' ''next_steps'' (JList []));
       Some ((outcome_for status p)
         \<lparr>ig_ingestion_id := ident, ig_compatibility := extract_posture data, ig_graph := graph,
          ig_capabilities := caps, ig_warnings := warnings, ig_actions := actions,
          ig_http_status := http, ig_response_data := data\<rparr>)
     }"

definition rejected_outcome ::
  "model_env \<Rightarrow> dict \<Rightarrow> int \<Rightarrow> ingestion_package \<Rightarrow> ingestion_outcome option" where
  "rejected_outcome me data http p =
     do {
       _ \<leftarrow> extract_graph me data;
       _ \<leftarrow> extract_capabilities data;
       ident \<leftarrow> ingestion_id_of data;
       cls \<leftarrow> str_value (dict_get_or data ''error_class'' (JStr ''server_rejection''));
       reason \<leftarrow> str_value (get_or_get data ''reason'' ''message'' (JStr []));
       guidance \<leftarrow> str_list_value (dict_get_or data ''repair_guidance'' (JList []));
       Some ((outcome_for OutcomeRejected p)
         \<lparr>ig_ingestion_id := ident, ig_compatibility := extract_posture data, ig_http_status := http,
          ig_response_data := data, ig_error_class := cls, ig_reason := reason, ig_repair := guidance\<rparr>)
     }"

definition classify_ingestion ::
  "model_env \<Rightarrow> transport_result \<Rightarrow> ingestion_request \<Rightarrow> ingestion_outcome raised" where
  "classify_ingestion me result q =
     (case res_data result of
        JObj data \<Rightarrow>
          (case dict_get_or data ''status'' (JStr []) of
             JStr status \<Rightarrow>
               or_crash ''ValidationError''
                 (case outcome_family (res_status_code result) (py_lower status) of
                    OutcomeRejected \<Rightarrow> rejected_outcome me data (res_status_code result) (iq_package q)
                  | family \<Rightarrow> kept_outcome me family data (res_status_code result) (iq_package q))
           | _ \<Rightarrow> Crashed ''AttributeError'')
      | _ \<Rightarrow> Crashed ''AttributeError'')"

definition failed_ingestion ::
  "(transport_error \<Rightarrow> string) \<Rightarrow> transport_error \<Rightarrow> ingestion_request \<Rightarrow> ingestion_outcome" where
  "failed_ingestion sx e q =
     (outcome_for OutcomeFailed (iq_package q))
       \<lparr>ig_error_class := transport_error_name e, ig_reason := sx e,
        ig_repair := map_ingestion_repair (transport_error_name e), ig_is_local := True\<rparr>"

definition submit_ingestion ::
  "model_env \<Rightarrow> (transport_error \<Rightarrow> string) \<Rightarrow> transport_env \<Rightarrow> transport \<Rightarrow> ingestion_request \<Rightarrow>
   ingestion_outcome raised \<times> exec_state" where
  "submit_ingestion me sx env tr q =
     (case execute env builtin_registry tr ''POST'' ''/mcp/v1/ingest'' ''ingest.submit'' None [] of
        (Inl e, st) \<Rightarrow> (Returned (failed_ingestion sx e q), st)
      | (Inr result, st) \<Rightarrow> (classify_ingestion me result q, st))"

section \<open>The proof\<close>

definition ingest_dir :: "string \<Rightarrow> string list" where
  "ingest_dir cid = [''ingest'', dispatch_dirname cid]"

definition summary_keys :: "string list" where
  "summary_keys = [''repo_identity'', ''shadow'', ''correlation_id'', ''identity_fingerprint'', ''timestamp'']"

definition bullet_lines :: "(json \<Rightarrow> string) \<Rightarrow> string \<Rightarrow> json \<Rightarrow> string list" where
  "bullet_lines fstr heading v =
     (case v of
        JList (x # xs) \<Rightarrow> [[], heading, []] @ map (\<lambda>g. ''- '' @ fstr g) (x # xs)
      | _ \<Rightarrow> [])"

definition ingest_summary_lines :: "(json \<Rightarrow> string) \<Rightarrow> string \<Rightarrow> dict \<Rightarrow> dict \<Rightarrow> string list" where
  "ingest_summary_lines fstr cid request outcome =
     (let pkg = (case dict_get_or request ''package_summary'' (JObj request) of JObj d \<Rightarrow> d | _ \<Rightarrow> []);
          shadow = dict_get_or pkg ''shadow'' (JBool False)
      in [''# Ingestion Proof '' @ mdash @ '' '' @ cid, [], ''| Field | Value |'', ''|-------|-------|'',
          ''| Repo | `'' @ fstr (dict_get_or pkg ''repo_identity'' (JStr ''unknown'')) @ ''` |'',
          ''| Mode | '' @ (if json_truthy shadow then ''SHADOW'' else ''GOVERNED'') @ '' |'',
          ''| Status | '' @ fstr (dict_get_or outcome ''status'' (JStr ''unknown'')) @ '' |'',
          ''| Compatibility | '' @ fstr (dict_get_or outcome ''compatibility'' (JStr ''unknown'')) @ '' |'',
          ''| Correlation ID | `'' @ cid @ ''` |''] @
         summary_row fstr outcome ''ingestion_id'' ''Ingestion ID'' True @
         (case json_get outcome ''graph_summary'' of
            JObj (kv # kvs) \<Rightarrow>
              [''| Graph Nodes | '' @ fstr (dict_get_or (kv # kvs) ''node_count'' (JInt 0)) @ '' |'',
               ''| Graph Edges | '' @ fstr (dict_get_or (kv # kvs) ''edge_count'' (JInt 0)) @ '' |'']
          | _ \<Rightarrow> []) @
         (case dict_get_or outcome ''inferred_capabilities'' (JList []) of
            JList (c # cs) \<Rightarrow> [''| Inferred Capabilities | '' @ str_nat (length (c # cs)) @ '' |'']
          | _ \<Rightarrow> []) @
         summary_row fstr outcome ''error_class'' ''Error Class'' False @
         summary_row fstr outcome ''reason'' ''Reason'' False @
         bullet_lines fstr ''## Repair Guidance'' (json_get outcome ''repair_guidance'') @
         bullet_lines fstr ''## Suggested Next Actions'' (json_get outcome ''suggested_actions'') @ [[]])"

definition emit_ingestion_proof ::
  "(json \<Rightarrow> string) \<Rightarrow> string \<Rightarrow> string \<Rightarrow> dict \<Rightarrow> dict \<Rightarrow> dict \<Rightarrow> string list \<times> proof_writes" where
  "emit_ingestion_proof fstr now cid request manifest outcome =
     (let dir = ingest_dir cid
      in (dir,
          [(dir @ [''request.json''], ProofJson request),
           (dir @ [''package_manifest.json''], ProofJson manifest),
           (dir @ [''response.json''], ProofJson outcome),
           (dir @ [''correlation.json''], ProofJson
              [(''correlation_id'', JStr cid), (''proof_written_at'', JStr now),
               (''request_summary'', JObj (filter (\<lambda>(k, v). k \<in> set summary_keys) request))]),
           (dir @ [''summary.md''], ProofText (py_join [CHR 10] (ingest_summary_lines fstr cid request outcome)))]))"

end
