(* ===== verification/Ingest_Command.thy ===== *)
theory Ingest_Command
  imports Ingest_Submission Command_Result
begin

text \<open>
  \<open>keyhole ingest\<close> (\<open>keyhole_cli/commands/ingest_cmd.py\<close>): the scan, the package, the stored token with
  its renewal, the submission, the proof and the result, over the credentials file, the submissions
  sent and the proof files. The repository is only read.
\<close>

record ingest_world =
  iw_creds :: cred_file
  iw_sent :: "dict list"
  iw_proofs :: proof_writes

text \<open>
  \<open>ie_target\<close> is the resolved path and \<open>ie_node\<close> what is there; \<open>ie_fingerprint\<close> is the digest of a
  token and \<open>ie_transport\<close> the transport that sends it.
\<close>

record ingest_env =
  ie_target :: string
  ie_node :: "repo_node option"
  ie_gap_env :: string
  ie_fresh_id :: string
  ie_now :: string
  ie_clock :: rat
  ie_git :: "string list \<Rightarrow> git_reply"
  ie_binding :: "json option"
  ie_models :: model_env
  ie_refresh :: refresh_env
  ie_fingerprint :: "string \<Rightarrow> string"
  ie_transport :: "json \<Rightarrow> transport"
  ie_transport_env :: transport_env
  ie_error_text :: "transport_error \<Rightarrow> string"
  ie_fstr :: "json \<Rightarrow> string"
  ie_state_dir :: string
  ie_proof_fails :: bool

record ingest_args =
  ia_shadow :: bool
  ia_include :: "string list"
  ia_exclude :: "string list"
  ia_max_bytes :: int
  ia_summary_only :: bool
  ia_gap_id :: string

section \<open>Results\<close>

definition ingest_label :: "bool \<Rightarrow> string" where
  "ingest_label shadow = (if shadow then ''keyhole ingest --shadow'' else ''keyhole ingest'')"

definition local_failure :: "string \<Rightarrow> int \<Rightarrow> string \<Rightarrow> dict \<Rightarrow> string list \<Rightarrow> string \<Rightarrow> cli_result" where
  "local_failure label code error_class extra steps summary =
     command_result_of label False code
       ([(''error_class'', JStr error_class), (''is_local'', JBool True)] @ extra) steps summary"

definition unauthenticated_result :: "string \<Rightarrow> cli_result" where
  "unauthenticated_result label =
     local_failure label exit_failure ''AuthenticationError'' [] (map_ingestion_repair ''AuthenticationError'')
       (''Not authenticated. Run '' @ quoted ''keyhole login'' @ '' first.'')"

definition empty_result :: "string \<Rightarrow> repo_scan \<Rightarrow> cli_result" where
  "empty_result label scan =
     local_failure label exit_invalid_input ''EmptyPackage''
       [(''total_files'', JInt (int (rp_total_files scan))),
        (''excluded_files'', JInt (int (length (rp_excluded_files scan))))]
       (map_ingestion_repair ''EmptyPackage'') ''No files included after filtering. Nothing to ingest.''"

definition summary_only_result :: "string \<Rightarrow> ingestion_package \<Rightarrow> cli_result" where
  "summary_only_result label p =
     (let s = ip_scan p; included = length (rp_included_files s); excluded = length (rp_excluded_files s)
      in command_result_of label True exit_success
           [(''mode'', JStr ''summary_only''), (''repo_root'', JStr (rp_repo_root s)),
            (''repo_identity'', JStr (ip_repo_identity p)), (''gap_id'', JStr (ip_gap_id p)),
            (''repo_remote'', JStr (ip_repo_remote p)), (''commit_sha'', JStr (ip_commit_sha p)),
            (''languages'', str_json_list (rp_languages s)), (''frameworks'', str_json_list (rp_frameworks s)),
            (''manifests'', str_json_list (rp_manifests s)), (''source_dirs'', str_json_list (rp_source_dirs s)),
            (''test_dirs'', str_json_list (rp_test_dirs s)), (''included_files'', JInt (int included)),
            (''excluded_files'', JInt (int excluded)),
            (''total_included_bytes'', JInt (int (rp_total_included_bytes s))),
            (''has_keyhole_scaffold'', JBool (rp_has_keyhole_scaffold s)),
            (''compatibility_inputs'', JObj (compatibility_inputs s)), (''shadow'', JBool (ip_shadow p))]
           [''Run without --summary-only to submit: keyhole ingest .'',
            ''Run with --shadow for an exploratory pass: keyhole ingest --shadow .'']
           (''Scan complete: '' @ str_nat included @ '' files included, '' @ str_nat excluded @
            '' excluded. Package ready but not submitted.''))"

definition outcome_ok :: "ingestion_outcome \<Rightarrow> bool" where
  "outcome_ok r = (ig_status r = OutcomeSuccess \<or> ig_status r = OutcomeAccepted)"

definition observed_dict :: "repo_scan \<Rightarrow> dict" where
  "observed_dict s =
     [(''languages'', str_json_list (rp_languages s)), (''frameworks'', str_json_list (rp_frameworks s)),
      (''manifests'', str_json_list (rp_manifests s)), (''source_dirs'', str_json_list (rp_source_dirs s)),
      (''test_dirs'', str_json_list (rp_test_dirs s)),
      (''included_files'', JInt (int (length (rp_included_files s))))]"

definition ingest_data :: "ingestion_outcome \<Rightarrow> repo_scan \<Rightarrow> string option \<Rightarrow> dict" where
  "ingest_data r scan proof_dir =
     [(''status'', JStr (outcome_status_value (ig_status r))),
      (''repo_identity'', JStr (ip_repo_identity (ig_package r))),
      (''shadow'', JBool (ip_shadow (ig_package r))),
      (''correlation_id'', JStr (ip_correlation_id (ig_package r))),
      (''compatibility'', JStr (posture_value (ig_compatibility r))),
      (''observed'', JObj (observed_dict scan))] @
     (if opt_truthy (ig_ingestion_id r) then [(''ingestion_id'', opt_str_json (ig_ingestion_id r))] else []) @
     (case ig_graph r of None \<Rightarrow> [] | Some g \<Rightarrow> [(''graph_summary'', graph_dict g)]) @
     (if ig_capabilities r \<noteq> []
      then [(''inferred_capabilities'', JList (map (\<lambda>c. JObj (capability_fields c @ [(''source'', JStr ''inferred'')]))
              (ig_capabilities r)))] else []) @
     (if ig_warnings r \<noteq> [] then [(''warnings'', str_json_list (ig_warnings r))] else []) @
     (case proof_dir of None \<Rightarrow> [] | Some d \<Rightarrow> [(''proof_dir'', JStr d)]) @
     (if \<not> outcome_ok r \<and> ig_status r \<noteq> OutcomeDeferred \<and> ig_error_class r \<noteq> []
      then [(''error_class'', JStr (ig_error_class r))] else [])"

definition id_or_cid :: "ingestion_outcome \<Rightarrow> string" where
  "id_or_cid r =
     (case ig_ingestion_id r of
        None \<Rightarrow> ip_correlation_id (ig_package r)
      | Some i \<Rightarrow> str_or i (ip_correlation_id (ig_package r)))"

definition ingest_summary :: "ingestion_outcome \<Rightarrow> string" where
  "ingest_summary r =
     (if outcome_ok r then
        ''Ingestion'' @ (if ip_shadow (ig_package r) then '' (shadow)'' else []) @ '': '' @
        outcome_status_value (ig_status r) @ ''. Compatibility: '' @ posture_value (ig_compatibility r) @
        ''. Inferred capabilities: '' @ str_nat (length (ig_capabilities r)) @ ''.''
      else if ig_status r = OutcomeDeferred then
        ''Ingestion accepted (deferred). Check status with: keyhole runs status '' @ id_or_cid r
      else ''Ingestion failed: '' @ str_or (ig_reason r) (str_or (ig_error_class r) ''unknown error''))"

definition ingest_steps :: "ingestion_outcome \<Rightarrow> string list" where
  "ingest_steps r =
     ig_actions r @
     (if ig_status r = OutcomeAccepted \<and> opt_truthy (ig_ingestion_id r)
      then [''Run: keyhole runs status '' @ the (ig_ingestion_id r) @ '' '' @ mdash @ '' to check progress.''] else []) @
     ig_repair r @
     (if outcome_ok r \<and> \<not> ip_shadow (ig_package r)
      then [''Run: keyhole run --context auto '' @ mdash @ '' to dispatch a governed run.''] else []) @
     (if outcome_ok r \<and> ip_shadow (ig_package r)
      then [''Run: keyhole ingest . '' @ mdash @ '' without --shadow for a governed pass.''] else [])"

definition ingest_result :: "string \<Rightarrow> ingestion_outcome \<Rightarrow> repo_scan \<Rightarrow> string option \<Rightarrow> cli_result" where
  "ingest_result label r scan proof_dir =
     (command_result_of label (outcome_ok r) (if outcome_ok r then exit_success else exit_failure)
        (ingest_data r scan proof_dir) (ingest_steps r) (ingest_summary r))
     \<lparr>cm_warnings := ig_warnings r\<rparr>"

section \<open>The command\<close>

definition ingest_identity :: "ingest_env \<Rightarrow> string \<times> string \<times> string" where
  "ingest_identity g =
     (case detect_repo_identity (ie_git g) (ie_binding g) True (ie_target g) of
        Inl _ \<Rightarrow> ([], [], [])
      | Inr i \<Rightarrow> (gi_repo_remote i, gi_commit_sha i, gi_current_branch i))"

definition ingest_gap :: "ingest_env \<Rightarrow> ingest_args \<Rightarrow> string" where
  "ingest_gap g a = str_or (py_strip (ia_gap_id a)) (py_strip (ie_gap_env g))"

definition ingest_package_of :: "ingest_env \<Rightarrow> ingest_args \<Rightarrow> repo_scan \<Rightarrow> ingestion_package" where
  "ingest_package_of g a scan =
     (let (remote, sha, branch) = ingest_identity g
      in build_ingestion_package scan (ia_shadow a) (ie_fresh_id g) (ingest_gap g a) remote sha branch []
           (pt_excludes (new_filter (ia_include a) (ia_exclude a))) (ie_fresh_id g) (ie_now g))"

definition ingest_request_of :: "ingest_env \<Rightarrow> ingest_args \<Rightarrow> ingestion_package \<Rightarrow> auth_session \<Rightarrow> ingestion_request" where
  "ingest_request_of g a p s =
     (let (remote, sha, branch) = ingest_identity g
      in \<lparr>iq_package = p, iq_identity_fingerprint = ie_fingerprint g (ss_access_token s),
          iq_gap_id = ingest_gap g a, iq_repo_remote = remote, iq_commit_sha = sha, iq_timestamp = ie_now g\<rparr>)"

text \<open>The stored token, when there is none to renew; another exception of the renewal is not caught.\<close>

definition ingest_token :: "ingest_env \<Rightarrow> auth_session \<Rightarrow> cred_file \<Rightarrow> json raised \<times> cred_file" where
  "ingest_token g s file =
     (case get_fresh_token (ie_models g) (ie_refresh g) file of
        (Crashed c, file') \<Rightarrow>
          (if c = ''FileNotFoundError'' \<or> c = ''RuntimeError'' then (Returned (JStr (ss_access_token s)), file')
           else (Crashed c, file'))
      | res \<Rightarrow> res)"

definition ingest_proof_path :: "ingest_env \<Rightarrow> string list \<Rightarrow> string" where
  "ingest_proof_path g dir = py_join ''/'' (ie_state_dir g # dir)"

definition submit_and_report ::
  "ingest_env \<Rightarrow> ingest_args \<Rightarrow> ingestion_request \<Rightarrow> json \<Rightarrow> ingest_world \<Rightarrow> cli_result raised \<times> ingest_world" where
  "submit_and_report g a q token w =
     (let (outcome, st) = submit_ingestion (ie_models g) (ie_error_text g) (ie_transport_env g) (ie_transport g token) q;
          w1 = w\<lparr>iw_sent := iw_sent w @ (if st_sent st = [] then [] else [ingest_payload q])\<rparr>;
          p = iq_package q
      in case outcome of
           Returned r \<Rightarrow>
             (let (dir, writes) = emit_ingestion_proof (ie_fstr g) (ie_now g) (ip_correlation_id p)
                    (ingest_request_proof q) (package_proof_dict p) (ingest_outcome_proof r)
              in if ie_proof_fails g then (Returned (ingest_result (ingest_label (ia_shadow a)) r (ip_scan p) None), w1)
                 else (Returned (ingest_result (ingest_label (ia_shadow a)) r (ip_scan p) (Some (ingest_proof_path g dir))),
                       w1\<lparr>iw_proofs := iw_proofs w1 @ writes\<rparr>))
         | AuthRaised e \<Rightarrow> (AuthRaised e, w1)
         | Crashed c \<Rightarrow> (Crashed c, w1)
         | Blocked \<Rightarrow> (Blocked, w1))"

definition ingest_signed_in ::
  "ingest_env \<Rightarrow> ingest_args \<Rightarrow> ingestion_package \<Rightarrow> ingest_world \<Rightarrow> cli_result raised \<times> ingest_world" where
  "ingest_signed_in g a p w =
     (case load_session (ie_models g) (ie_clock g) (iw_creds w) of
        AuthRaised e \<Rightarrow> (AuthRaised e, w)
      | Crashed c \<Rightarrow> (Crashed c, w)
      | Blocked \<Rightarrow> (Blocked, w)
      | Returned None \<Rightarrow> (Returned (unauthenticated_result (ingest_label (ia_shadow a))), w)
      | Returned (Some s) \<Rightarrow>
          (case ingest_token g s (iw_creds w) of
             (Returned token, file) \<Rightarrow>
               if \<not> json_truthy token
               then (Returned (unauthenticated_result (ingest_label (ia_shadow a))), w\<lparr>iw_creds := file\<rparr>)
               else submit_and_report g a (ingest_request_of g a p s) token (w\<lparr>iw_creds := file\<rparr>)
           | (AuthRaised e, file) \<Rightarrow> (AuthRaised e, w\<lparr>iw_creds := file\<rparr>)
           | (Crashed c, file) \<Rightarrow> (Crashed c, w\<lparr>iw_creds := file\<rparr>)
           | (Blocked, file) \<Rightarrow> (Blocked, w\<lparr>iw_creds := file\<rparr>)))"

definition is_dir_node :: "repo_node option \<Rightarrow> bool" where
  "is_dir_node node = (case node of Some (DirNode _) \<Rightarrow> True | Some OtherDir \<Rightarrow> True | _ \<Rightarrow> False)"

definition run_ingest :: "ingest_env \<Rightarrow> ingest_args \<Rightarrow> ingest_world \<Rightarrow> cli_result raised \<times> ingest_world" where
  "run_ingest g a w =
     (let label = ingest_label (ia_shadow a)
      in if \<not> is_dir_node (ie_node g) then
           (Returned (local_failure label exit_invalid_input ''InvalidRepoPath'' []
              (map_ingestion_repair ''InvalidRepoPath'')
              (''Repository path does not exist or is not a directory: '' @ ie_target g)), w)
         else
           (case scan_repo (ie_now g) (ie_target g) (ie_node g) (new_filter (ia_include a) (ia_exclude a))
                   (ia_max_bytes a) of
              Inl e \<Rightarrow>
                (Returned (local_failure label exit_failure ''ScanError'' []
                   [''Ensure the path is readable.'',
                    ''Try: keyhole ingest --shadow '' @ mdash @ '' for a low-risk pass.'']
                   (''Repository scan failed: '' @ e)), w)
            | Inr scan \<Rightarrow>
                if rp_included_files scan = [] then (Returned (empty_result label scan), w)
                else if ia_summary_only a
                  then (Returned (summary_only_result label (ingest_package_of g a scan)), w)
                else ingest_signed_in g a (ingest_package_of g a scan) w))"

end
