(* ===== verification/Ingest_Command_Properties.thy ===== *)
theory Ingest_Command_Properties
  imports Ingest_Command
begin

text \<open>
  What \<open>keyhole ingest\<close> sends and when, and where it differs from \<open>keyhole run\<close>.
\<close>

lemma submit_and_report_sent:
  "iw_sent (snd (submit_and_report g a q token w)) =
     iw_sent w @ (if st_sent (snd (submit_ingestion (ie_models g) (ie_error_text g) (ie_transport_env g)
       (ie_transport g token) q)) = [] then [] else [ingest_payload q])"
  by (auto simp: submit_and_report_def Let_def split: prod.splits raised.splits)

lemma ingest_signed_in_sent:
  assumes "iw_sent (snd (ingest_signed_in g a p w)) \<noteq> iw_sent w"
  obtains s token creds where "load_session (ie_models g) (ie_clock g) (iw_creds w) = Returned (Some s)"
    "ingest_token g s (iw_creds w) = (Returned token, creds)" "json_truthy token"
    "iw_sent (snd (ingest_signed_in g a p w)) = iw_sent w @ [ingest_payload (ingest_request_of g a p s)]"
proof -
  consider (sent) s token creds where "load_session (ie_models g) (ie_clock g) (iw_creds w) = Returned (Some s)"
      "ingest_token g s (iw_creds w) = (Returned token, creds)" "json_truthy token"
      "ingest_signed_in g a p w = submit_and_report g a (ingest_request_of g a p s) token (w\<lparr>iw_creds := creds\<rparr>)"
    | (not) "iw_sent (snd (ingest_signed_in g a p w)) = iw_sent w"
  proof (cases "load_session (ie_models g) (ie_clock g) (iw_creds w)")
    case (Returned found)
    show thesis
    proof (cases found)
      case None
      then show thesis using not Returned by (simp add: ingest_signed_in_def)
    next
      case (Some s)
      obtain out creds where tok: "ingest_token g s (iw_creds w) = (out, creds)" by fastforce
      show thesis
        by (cases out; cases "\<exists>t. out = Returned t \<and> json_truthy t")
          (use Returned Some tok sent [of s] not in \<open>auto simp: ingest_signed_in_def\<close>)
    qed
  qed (use not in \<open>simp_all add: ingest_signed_in_def\<close>)
  then show thesis
  proof cases
    case sent
    then show ?thesis
      using that [OF sent(1-3)] submit_and_report_sent [of g a "ingest_request_of g a p s" token "w\<lparr>iw_creds := creds\<rparr>"] assms
      by (simp split: if_splits)
  qed (use assms in simp)
qed

lemma ingest_identity_allowed:
  assumes "ingest_identity g = (remote, sha, branch)"
  shows "py_lower (slug_of (fst (parse_owner_repo remote)) (snd (parse_owner_repo remote))) \<noteq>
    ''keyhole-solution/keyhole_platform''"
proof (cases "detect_repo_identity (ie_git g) (ie_binding g) True (ie_target g)")
  case (Inl e)
  then have "remote = []" using assms by (simp add: ingest_identity_def)
  moreover have "py_lower (slug_of (fst (parse_owner_repo [])) (snd (parse_owner_repo []))) \<noteq>
      ''keyhole-solution/keyhole_platform''"
    by code_simp
  ultimately show ?thesis by simp
next
  case (Inr i)
  then have "remote = gi_repo_remote i" using assms by (simp add: ingest_identity_def)
  then show ?thesis using detected_not_platform [OF Inr] by simp
qed

text \<open>
  C40: An ingestion sends at most one package, and only when the scan of a directory included some
  file, the call was not for a summary only, and a stored session gave a token; what it sends is the
  package of that scan, and its remote is not that of the platform's own repository, as far as the
  guard reads it. Whatever the result, the proofs written before are kept.
\<close>

theorem ingest_sends_scanned_package:
  assumes "run_ingest g a w = (out, w')"
  shows "iw_sent w' = iw_sent w \<or>
    (\<exists>scan s token creds q. iw_sent w' = iw_sent w @ [ingest_payload q] \<and>
       scan_repo (ie_now g) (ie_target g) (ie_node g) (new_filter (ia_include a) (ia_exclude a))
         (ia_max_bytes a) = Inr scan \<and>
       rp_included_files scan \<noteq> [] \<and> \<not> ia_summary_only a \<and>
       load_session (ie_models g) (ie_clock g) (iw_creds w) = Returned (Some s) \<and>
       ingest_token g s (iw_creds w) = (Returned token, creds) \<and> json_truthy token \<and>
       q = ingest_request_of g a (ingest_package_of g a scan) s \<and> ip_scan (iq_package q) = scan \<and>
       py_lower (slug_of (fst (parse_owner_repo (iq_repo_remote q))) (snd (parse_owner_repo (iq_repo_remote q)))) \<noteq>
         ''keyhole-solution/keyhole_platform'')"
proof (cases "iw_sent w' = iw_sent w")
  case False
  then obtain scan where scan: "scan_repo (ie_now g) (ie_target g) (ie_node g)
      (new_filter (ia_include a) (ia_exclude a)) (ia_max_bytes a) = Inr scan"
    "rp_included_files scan \<noteq> []" "\<not> ia_summary_only a"
    "(out, w') = ingest_signed_in g a (ingest_package_of g a scan) w"
    using assms by (auto simp: run_ingest_def Let_def split: if_splits sum.splits)
  have "iw_sent (snd (ingest_signed_in g a (ingest_package_of g a scan) w)) \<noteq> iw_sent w"
    using False scan(4) by (metis snd_conv)
  then obtain s token creds where s: "load_session (ie_models g) (ie_clock g) (iw_creds w) = Returned (Some s)"
    "ingest_token g s (iw_creds w) = (Returned token, creds)" "json_truthy token"
    "iw_sent w' = iw_sent w @ [ingest_payload (ingest_request_of g a (ingest_package_of g a scan) s)]"
    using scan(4) by (metis ingest_signed_in_sent snd_conv)
  obtain remote sha branch where ident: "ingest_identity g = (remote, sha, branch)" by (cases "ingest_identity g")
  have "iq_repo_remote (ingest_request_of g a (ingest_package_of g a scan) s) = remote"
    and "ip_scan (iq_package (ingest_request_of g a (ingest_package_of g a scan) s)) = scan"
    using ident by (simp_all add: ingest_request_of_def ingest_package_of_def build_ingestion_package_def)
  then show ?thesis
    using scan s ingest_identity_allowed [OF ident] by auto
qed simp

section \<open>An ingestion to evaluate\<close>

definition ingest_answer :: "string \<Rightarrow> transport_env" where
  "ingest_answer status =
     \<lparr>env_net = (\<lambda>h. Responded \<lparr>resp_status = 200, resp_text = [], resp_reason = [],
          resp_json = Some (JObj [(''status'', JStr status), (''ingestion_id'', JStr ''i-1'')]),
          resp_headers = (\<lambda>_. None)\<rparr>),
      env_uuid = (\<lambda>k. CHR ''u'' # replicate k (CHR ''x'')), env_random = (\<lambda>_. 0), env_now = (\<lambda>_. ''now'')\<rparr>"

definition ingest_sample :: "string \<Rightarrow> refresh_answer \<Rightarrow> ingest_env" where
  "ingest_sample status renewal =
     \<lparr>ie_target = ''/r'', ie_node = Some (DirNode [(''a.py'', FileNode (Some 5))]), ie_gap_env = [],
      ie_fresh_id = ''c-1'', ie_now = ''now'', ie_clock = 0, ie_git = (\<lambda>args. GitMissing), ie_binding = None,
      ie_models = \<lparr>me_int = (\<lambda>v. None), me_time = (\<lambda>v. None), me_iso = (\<lambda>t. []), me_decode = (\<lambda>s. None)\<rparr>,
      ie_refresh = \<lparr>fr_now = 0, fr_client_id = ''keyhole-cli'', fr_post = (\<lambda>url form. renewal),
        fr_later = (\<lambda>v. None), fr_save_error = None\<rparr>,
      ie_fingerprint = (\<lambda>s. s),
      ie_transport = (\<lambda>token. make_transport ''https://b'' (Some (\<lambda>_. Some ''tok'')) None ''1''),
      ie_transport_env = ingest_answer status, ie_error_text = transport_error_name, ie_fstr = as_str,
      ie_state_dir = ''/s'', ie_proof_fails = False\<rparr>"

definition ingest_plain_args :: ingest_args where
  "ingest_plain_args =
     \<lparr>ia_shadow = False, ia_include = [], ia_exclude = [], ia_max_bytes = 0, ia_summary_only = False,
      ia_gap_id = []\<rparr>"

definition signed_in_world :: "dict \<Rightarrow> ingest_world" where
  "signed_in_world extra =
     \<lparr>iw_creds = FileJson (JObj ([(''access_token'', JStr ''tok''), (''flow_type'', JStr ''device'')] @ extra)),
      iw_sent = [], iw_proofs = []\<rparr>"

definition deferred_ingest :: "cli_result raised \<times> ingest_world" where
  "deferred_ingest =
     run_ingest (ingest_sample ''deferred'' (RefreshFailed ''ConnectionError'')) ingest_plain_args (signed_in_world [])"

lemma deferred_ingest_evaluated:
  "case deferred_ingest of (out, w) \<Rightarrow> length (iw_sent w) = 1 \<and>
     (case out of
        Returned res \<Rightarrow> \<not> cm_success res \<and> cm_exit_code res = 1 \<and>
          cm_summary res = ''Ingestion accepted (deferred). Check status with: keyhole runs status i-1''
      | _ \<Rightarrow> False)"
  by code_simp

lemma deferred_ingest_sent: "length (iw_sent (snd deferred_ingest)) = 1"
  using deferred_ingest_evaluated unfolding case_prod_beta by blast

lemma ingest_sends_scanned_package_witness:
  "\<exists>q. iw_sent (snd deferred_ingest) = [ingest_payload q] \<and> rp_included_files (ip_scan (iq_package q)) \<noteq> []"
proof -
  have "run_ingest (ingest_sample ''deferred'' (RefreshFailed ''ConnectionError'')) ingest_plain_args
      (signed_in_world []) = (fst deferred_ingest, snd deferred_ingest)"
    by (simp add: deferred_ingest_def)
  from ingest_sends_scanned_package [OF this] show ?thesis
    using deferred_ingest_sent by (auto simp: signed_in_world_def)
qed

section \<open>What modelling showed\<close>

text \<open>A deferred ingestion is announced as accepted and exits with 1; a deferred run exits with 0.\<close>

lemma deferred_ingest_exits_with_failure:
  "case fst deferred_ingest of
     Returned res \<Rightarrow> \<not> cm_success res \<and> cm_exit_code res = 1 \<and>
       cm_summary res = ''Ingestion accepted (deferred). Check status with: keyhole runs status i-1''
   | _ \<Rightarrow> False"
  using deferred_ingest_evaluated unfolding case_prod_beta by blast

text \<open>A renewal that the server refuses ends the command with an exception.\<close>

lemma refused_renewal_raises:
  "fst (run_ingest (ingest_sample ''ok'' (RefreshAnswer 400 None)) ingest_plain_args
     (signed_in_world [(''refresh_token'', JStr ''revoked'')])) = Crashed ''HTTPError''"
  by code_simp

text \<open>Manifests of the same name in different directories collapse into one summary.\<close>

lemma dependency_summaries_collapse:
  "dependency_summaries [''api/package.json'', ''web/package.json''] =
     [(''package.json'', JObj [(''path'', JStr ''web/package.json'')])]"
  by code_simp

end
