(* ===== verification/Auth_Whoami.thy ===== *)
theory Auth_Whoami
  imports Auth_Session
begin

text \<open>
  The identity call of the login: the shared envelope parser (\<open>keyhole_sdk/envelope.py\<close>), the actor
  envelope (\<open>auth_bootstrap/actor_envelope.py\<close>), the identity model (\<open>models.py\<close>) and
  \<open>WhoamiClient\<close> (\<open>whoami.py\<close>). A model keeps the fields it does not declare.
\<close>

section \<open>The envelope\<close>

definition unwrap_mcp_envelope :: "json \<Rightarrow> json" where
  "unwrap_mcp_envelope raw =
     (case raw of
        JObj d \<Rightarrow>
          (case (dict_get d ''ok'', dict_get d ''data'') of
             (Some _, Some (JObj inner)) \<Rightarrow> JObj inner
           | _ \<Rightarrow> JObj d)
      | _ \<Rightarrow> raw)"

fun deep_get :: "json \<Rightarrow> string list \<Rightarrow> json" where
  "deep_get v [] = v"
| "deep_get (JObj d) (k # ks) = deep_get (json_get d k) ks"
| "deep_get _ (k # ks) = JNull"

definition identity_part :: "dict \<Rightarrow> dict" where
  "identity_part d = (case json_get d ''identity'' of JObj i \<Rightarrow> dict_update [] i | _ \<Rightarrow> [])"

definition with_actor :: "dict \<Rightarrow> dict \<Rightarrow> dict" where
  "with_actor d flat =
     (case json_get d ''actor_envelope'' of JObj a \<Rightarrow> dict_set ''actor_envelope'' (JObj a) flat | _ \<Rightarrow> flat)"

definition with_scalars :: "dict \<Rightarrow> dict \<Rightarrow> dict" where
  "with_scalars d flat =
     foldl (\<lambda>f k. if json_get d k = JNull then f else dict_setdefault k (json_get d k) f) flat
       [''plan'', ''limits'', ''scopes'']"

definition with_groups :: "dict \<Rightarrow> dict \<Rightarrow> dict" where
  "with_groups d flat =
     (let f1 = (case json_get d ''cohort'' of
                  JObj c \<Rightarrow> dict_setdefault ''cohort_id'' (json_get c ''cohort_id'') flat | _ \<Rightarrow> flat)
      in (case json_get d ''workspace'' of
            JObj w \<Rightarrow> dict_setdefault ''workspace_id'' (json_get w ''workspace_ref'') f1 | _ \<Rightarrow> f1))"

definition with_derived_mode :: "dict \<Rightarrow> dict \<Rightarrow> dict" where
  "with_derived_mode d flat =
     (if dict_get flat ''mode'' \<noteq> None then flat
      else (case deep_get (JObj d) [''context_overlay'', ''governance_rules''] of
              JObj g \<Rightarrow>
                dict_set ''mode'' (JStr (if json_truthy (json_get g ''noncanonical'') then ''shadow'' else ''real'')) flat
            | _ \<Rightarrow> flat))"

definition unwrap_identity :: "json \<Rightarrow> json" where
  "unwrap_identity v =
     (case v of
        JObj d \<Rightarrow>
          if dict_get d ''user_id'' \<noteq> None then JObj d
          else JObj (with_derived_mode d (with_groups d (with_scalars d (with_actor d (identity_part d)))))
      | _ \<Rightarrow> v)"

section \<open>The actor envelope\<close>

text \<open>A model whose declared fields are all optional text: what \<open>model_dump\<close> gives, when it validates.\<close>

definition text_model :: "string list \<Rightarrow> json \<Rightarrow> dict option" where
  "text_model names v =
     (case v of
        JObj d \<Rightarrow>
          map_option (\<lambda>vals. zip names (map opt_str_json vals) @ filter (\<lambda>(k, x). k \<notin> set names) d)
            (those (map (opt_str_field d) names))
      | _ \<Rightarrow> None)"

definition human_principal :: "json \<Rightarrow> dict option" where
  "human_principal =
     text_model [''realm'', ''subject_id'', ''tenant_id'', ''org_id'', ''display_name'']"

definition acting_principal :: "json \<Rightarrow> dict option" where
  "acting_principal = text_model [''realm'', ''client_id'', ''kind'', ''subject_id'']"

definition delegation :: "json \<Rightarrow> dict option" where
  "delegation = text_model [''kind'', ''assurance'']"

definition authorization :: "json \<Rightarrow> dict option" where
  "authorization v =
     (case v of
        JObj d \<Rightarrow>
          do {
            scopes \<leftarrow> str_list_field d ''effective_scopes'';
            grants \<leftarrow> str_list_field d ''tool_grants'';
            Some ([(''effective_scopes'', JList (map JStr scopes)), (''tool_grants'', JList (map JStr grants))] @
                  filter (\<lambda>(k, x). k \<notin> {''effective_scopes'', ''tool_grants''}) d)
          }
      | _ \<Rightarrow> None)"

record actor_envelope =
  ac_human :: "dict option"
  ac_acting :: "dict option"
  ac_delegation :: "dict option"
  ac_authorization :: "dict option"

definition opt_model_field :: "(json \<Rightarrow> 'a option) \<Rightarrow> dict \<Rightarrow> string \<Rightarrow> 'a option option" where
  "opt_model_field model d k =
     (case dict_get d k of
        None \<Rightarrow> Some None
      | Some JNull \<Rightarrow> Some None
      | Some v \<Rightarrow> map_option Some (model v))"

definition actor_envelope_of :: "json \<Rightarrow> actor_envelope option" where
  "actor_envelope_of v =
     (case v of
        JObj d \<Rightarrow>
          do {
            human \<leftarrow> opt_model_field human_principal d ''human_principal'';
            acting \<leftarrow> opt_model_field acting_principal d ''acting_principal'';
            deleg \<leftarrow> opt_model_field delegation d ''delegation'';
            auth \<leftarrow> opt_model_field authorization d ''authorization'';
            Some \<lparr>ac_human = human, ac_acting = acting, ac_delegation = deleg, ac_authorization = auth\<rparr>
          }
      | _ \<Rightarrow> None)"

text \<open>\<open>from_payload\<close>: no envelope when the payload is no dictionary; \<open>Inl ()\<close> when it does not validate.\<close>

definition envelope_from_payload :: "json \<Rightarrow> unit + actor_envelope option" where
  "envelope_from_payload v =
     (case v of
        JObj d \<Rightarrow> (case actor_envelope_of v of None \<Rightarrow> Inl () | Some a \<Rightarrow> Inr (Some a))
      | _ \<Rightarrow> Inr None)"

definition envelope_summary :: "actor_envelope \<Rightarrow> dict" where
  "envelope_summary a =
     (let dump = (\<lambda>m. case m of None \<Rightarrow> JNull | Some d \<Rightarrow> JObj d)
      in [(''human_principal'', dump (ac_human a)), (''acting_principal'', dump (ac_acting a)),
          (''delegation'', dump (ac_delegation a)), (''authorization'', dump (ac_authorization a))])"

section \<open>The identity\<close>

record whoami_response =
  wr_user_id :: "string option"
  wr_tenant_id :: "string option"
  wr_org_id :: "string option"
  wr_cohort_id :: "string option"
  wr_worker_id :: "string option"
  wr_workspace_id :: "string option"
  wr_plan :: "string option"
  wr_mode :: auth_mode
  wr_display_name :: "string option"
  wr_email :: "string option"
  wr_roles :: "string list"
  wr_limits :: "dict option"
  wr_actor_envelope :: "actor_envelope option"

text \<open>The mode is lower-cased before it is looked up; without the field it is the default, \<open>REAL\<close>.\<close>

definition mode_field :: "dict \<Rightarrow> auth_mode option" where
  "mode_field d =
     (case dict_get d ''mode'' of
        None \<Rightarrow> Some MODE_REAL
      | Some (JStr s) \<Rightarrow> auth_mode_of (py_lower s)
      | Some _ \<Rightarrow> None)"

definition whoami_of :: "json \<Rightarrow> whoami_response option" where
  "whoami_of v =
     (case v of
        JObj d \<Rightarrow>
          do {
            user \<leftarrow> opt_str_field d ''user_id'';
            tenant \<leftarrow> opt_str_field d ''tenant_id'';
            org \<leftarrow> opt_str_field d ''org_id'';
            cohort \<leftarrow> opt_str_field d ''cohort_id'';
            worker \<leftarrow> opt_str_field d ''worker_id'';
            workspace \<leftarrow> opt_str_field d ''workspace_id'';
            plan \<leftarrow> opt_str_field d ''plan'';
            mode \<leftarrow> mode_field d;
            name \<leftarrow> opt_str_field d ''display_name'';
            email \<leftarrow> opt_str_field d ''email'';
            roles \<leftarrow> str_list_field d ''roles'';
            limits \<leftarrow> opt_dict_field d ''limits'';
            actor \<leftarrow> opt_model_field actor_envelope_of d ''actor_envelope'';
            Some \<lparr>wr_user_id = user, wr_tenant_id = tenant, wr_org_id = org, wr_cohort_id = cohort,
                  wr_worker_id = worker, wr_workspace_id = workspace, wr_plan = plan, wr_mode = mode,
                  wr_display_name = name, wr_email = email, wr_roles = roles, wr_limits = limits,
                  wr_actor_envelope = actor\<rparr>
          }
      | _ \<Rightarrow> None)"

text \<open>
  \<open>validate_required_identity\<close>: a field is missing when it is \<open>None\<close> or blank text. The mode is an
  enum whose value is text.
\<close>

definition missing_identity :: "whoami_response \<Rightarrow> string list" where
  "missing_identity w =
     (case wr_user_id w of
        None \<Rightarrow> [''user_id'']
      | Some u \<Rightarrow> (if py_strip u = [] then [''user_id''] else [])) @
     (if py_strip (auth_mode_value (wr_mode w)) = [] then [''mode''] else [])"

definition incomplete_identity_error :: "string list \<Rightarrow> auth_error" where
  "incomplete_identity_error missing =
     \<lparr>ae_class = ''incomplete_identity'',
      ae_message =
        (if missing \<noteq> [] then ''Server returned incomplete identity: missing '' @ py_join '', '' missing
         else ''Server returned incomplete identity''),
      ae_repair = [''Retry login: keyhole login --force'',
        ''Contact your organization admin '' @ mdash @ '' your account may not be fully provisioned.'',
        ''Check that the MCP server is running a compatible version.'']\<rparr>"

section \<open>The call\<close>

text \<open>
  What \<open>requests\<close> gives: a connection error or a timeout with its text, another exception by its
  class, or an answer with its status, its text and its body when that parses.
\<close>

datatype http_reply =
  NoConnection string
| TimedOut string
| RequestFailed string
| Replied int string "json option"

text \<open>\<open>schema_error\<close> is the text of the validation error of a body.\<close>

definition whoami_of_reply :: "(json \<Rightarrow> string) \<Rightarrow> http_reply \<Rightarrow> whoami_response raised" where
  "whoami_of_reply schema_error reply =
     (case reply of
        NoConnection e \<Rightarrow> AuthRaised (network_error (''Cannot reach whoami endpoint: '' @ e))
      | TimedOut e \<Rightarrow> AuthRaised (network_error (''Whoami endpoint timed out: '' @ e))
      | RequestFailed cls \<Rightarrow> Crashed cls
      | Replied status _ body \<Rightarrow>
          if status = 401 then AuthRaised (whoami_error ''Authentication rejected by whoami endpoint (401)'')
          else if status = 403 then AuthRaised (whoami_error ''Access denied by whoami endpoint (403)'')
          else if status \<noteq> 200 then
            AuthRaised (whoami_error (''Whoami returned unexpected status: '' @ str_int status))
          else
            (case body of
               None \<Rightarrow> AuthRaised (whoami_error ''Whoami response is not valid JSON'')
             | Some v \<Rightarrow>
                 (let data = unwrap_identity (unwrap_mcp_envelope v)
                  in (case whoami_of data of
                        None \<Rightarrow> AuthRaised (whoami_error
                          (''Whoami response does not match expected schema: '' @ schema_error data))
                      | Some w \<Rightarrow> Returned w))))"

definition whoami_url :: "string \<Rightarrow> string" where
  "whoami_url base = py_rstrip_char CHR ''/'' base @ ''/mcp/v1/whoami''"

definition whoami_headers :: "string \<Rightarrow> string \<Rightarrow> (string \<times> string) list" where
  "whoami_headers token cid =
     [(''Authorization'', ''Bearer '' @ token)] @ (if cid \<noteq> [] then [(''X-Correlation-ID'', cid)] else [])"

lemma missing_identity_Nil:
  "missing_identity w = [] \<longleftrightarrow> (\<exists>u. wr_user_id w = Some u \<and> py_strip u \<noteq> [])"
proof -
  have "py_strip (auth_mode_value (wr_mode w)) \<noteq> []"
    by (cases "wr_mode w") (simp_all, code_simp+)
  then show ?thesis
    by (auto simp: missing_identity_def split: option.splits)
qed

end
