(* ===== verification/Url_Query.thy ===== *)
theory Url_Query
  imports Text_Ops
begin

text \<open>
  The part of \<open>urllib.parse\<close> that the login uses: \<open>urlencode\<close> of text parameters, the path and the
  query of a request target, and \<open>parse_qs\<close>, which drops a parameter without a value. Text is its
  UTF-8 bytes.
\<close>

definition hex_digits :: string where
  "hex_digits = ''0123456789ABCDEF''"

definition url_safe :: "char \<Rightarrow> bool" where
  "url_safe c = (py_isalnum c \<or> c \<in> set ''_.-~'')"

definition quote_char :: "char \<Rightarrow> string" where
  "quote_char c =
     (if url_safe c then [c]
      else if c = CHR '' '' then ''+''
      else [CHR ''%'', hex_digits ! (code_of c div 16), hex_digits ! (code_of c mod 16)])"

definition quote_plus :: "string \<Rightarrow> string" where
  "quote_plus s = concat (map quote_char s)"

definition urlencode :: "(string \<times> string) list \<Rightarrow> string" where
  "urlencode params = py_join ''&'' (map (\<lambda>(k, v). quote_plus k @ ''='' @ quote_plus v) params)"

definition unhex :: "char \<Rightarrow> nat option" where
  "unhex c =
     (let n = code_of c
      in if 48 \<le> n \<and> n \<le> 57 then Some (n - 48)
         else if 65 \<le> n \<and> n \<le> 70 then Some (n - 55)
         else if 97 \<le> n \<and> n \<le> 102 then Some (n - 87)
         else None)"

definition unhex_pair :: "char \<Rightarrow> char \<Rightarrow> char option" where
  "unhex_pair h l =
     (case (unhex h, unhex l) of (Some a, Some b) \<Rightarrow> Some (char_of (16 * a + b)) | _ \<Rightarrow> None)"

function unquote_plus :: "string \<Rightarrow> string" where
  "unquote_plus [] = []"
| "unquote_plus (c # cs) =
     (if c = CHR ''+'' then CHR '' '' # unquote_plus cs
      else if c = CHR ''%'' \<and> length cs \<ge> 2 \<and> unhex_pair (cs ! 0) (cs ! 1) \<noteq> None
        then the (unhex_pair (cs ! 0) (cs ! 1)) # unquote_plus (drop 2 cs)
      else c # unquote_plus cs)"
  by pat_completeness auto
termination by (relation "measure length") auto

definition parse_param :: "string \<Rightarrow> (string \<times> string) option" where
  "parse_param item =
     (case split_once ''='' item of
        None \<Rightarrow> None
      | Some (k, v) \<Rightarrow> if v = [] then None else Some (unquote_plus k, unquote_plus v))"

definition parse_qs :: "string \<Rightarrow> (string \<times> string) list" where
  "parse_qs query = List.map_filter parse_param (py_split CHR ''&'' query)"

definition query_first :: "(string \<times> string) list \<Rightarrow> string \<Rightarrow> string option" where
  "query_first params k = map_of params k"

definition before_char :: "char \<Rightarrow> string \<Rightarrow> string" where
  "before_char c s = takeWhile (\<lambda>x. x \<noteq> c) s"

definition past_char :: "char \<Rightarrow> string \<Rightarrow> string" where
  "past_char c s = drop 1 (dropWhile (\<lambda>x. x \<noteq> c) s)"

text \<open>
  The path and the query of a request target; the fragment goes first, and the parameters of the
  last segment are not part of the path.
\<close>

definition target_parts :: "string \<Rightarrow> string \<times> string" where
  "target_parts target =
     (let plain = before_char CHR ''#'' target
      in (before_char CHR '';'' (before_char CHR ''?'' plain), past_char CHR ''?'' plain))"

section \<open>Reading back what was written\<close>

lemma unhex_pair_code:
  "unhex_pair (hex_digits ! (code_of c div 16)) (hex_digits ! (code_of c mod 16)) = Some c"
proof -
  have all: "\<forall>n\<in>set [0..<16]. unhex (hex_digits ! n) = Some n"
    by code_simp
  have "code_of c < 256"
    by (simp add: code_of_def)
  then have "unhex (hex_digits ! (code_of c div 16)) = Some (code_of c div 16)"
    and "unhex (hex_digits ! (code_of c mod 16)) = Some (code_of c mod 16)"
    using all by (auto simp: less_mult_imp_div_less)
  then show ?thesis
    by (simp add: unhex_pair_def code_of_def)
qed

lemma url_safe_plain: "url_safe c \<Longrightarrow> c \<noteq> CHR ''+'' \<and> c \<noteq> CHR ''%'' \<and> c \<noteq> CHR ''&'' \<and> c \<noteq> CHR ''=''"
  by (auto simp: url_safe_def py_isalnum_def code_of_def)

lemma quote_char_unquote: "unquote_plus (quote_char c @ s) = c # unquote_plus s"
proof (cases "url_safe c")
  case True
  then show ?thesis
    using url_safe_plain [OF True] by (simp add: quote_char_def)
next
  case False
  then show ?thesis
    using unhex_pair_code [of c] by (simp add: quote_char_def)
qed

lemma unquote_quote [simp]: "unquote_plus (quote_plus s) = s"
  by (induction s) (simp_all add: quote_plus_def quote_char_unquote)

lemma hex_digit_plain: "n < 16 \<Longrightarrow> hex_digits ! n \<noteq> CHR ''&'' \<and> hex_digits ! n \<noteq> CHR ''=''"
proof -
  assume n: "n < 16"
  have "\<forall>k\<in>set [0..<16]. hex_digits ! k \<noteq> CHR ''&'' \<and> hex_digits ! k \<noteq> CHR ''=''"
    by code_simp
  with n show ?thesis by simp
qed

lemma quote_char_plain: "x \<in> set (quote_char c) \<Longrightarrow> x \<noteq> CHR ''&'' \<and> x \<noteq> CHR ''=''"
proof -
  assume x: "x \<in> set (quote_char c)"
  have "code_of c div 16 < 16"
    by (simp add: code_of_def less_mult_imp_div_less)
  then show ?thesis
    using x url_safe_plain [of c] hex_digit_plain [of "code_of c div 16"]
      hex_digit_plain [of "code_of c mod 16"]
    by (auto simp: quote_char_def split: if_splits)
qed

lemma quote_plus_plain: "x \<in> set (quote_plus s) \<Longrightarrow> x \<noteq> CHR ''&'' \<and> x \<noteq> CHR ''=''"
  using quote_char_plain by (fastforce simp: quote_plus_def)

lemma quote_plus_empty [simp]: "quote_plus s = [] \<longleftrightarrow> s = []"
  by (cases s) (auto simp: quote_plus_def quote_char_def)

lemma split_once_plain:
  "c \<notin> set a \<Longrightarrow> split_once [c] (a @ c # b) = Some (a, b)"
  by (induction a) (auto simp: starts_with_def)

lemma py_split_plain: "c \<notin> set a \<Longrightarrow> py_split c a = [a]"
  by (induction a) auto

lemma py_split_item: "c \<notin> set a \<Longrightarrow> py_split c (a @ c # b) = a # py_split c b"
  by (induction a) auto

lemma parse_param_pair:
  assumes "v \<noteq> []"
  shows "parse_param (quote_plus k @ ''='' @ quote_plus v) = Some (k, v)"
proof -
  have "CHR ''='' \<notin> set (quote_plus k)"
    using quote_plus_plain by blast
  from split_once_plain [OF this, of "quote_plus v"] assms show ?thesis
    by (simp add: parse_param_def)
qed

lemma parse_qs_urlencode:
  "params \<noteq> [] \<Longrightarrow> \<forall>(k, v) \<in> set params. v \<noteq> [] \<Longrightarrow> parse_qs (urlencode params) = params"
proof (induction params)
  case Nil
  then show ?case by simp
next
  case (Cons p ps)
  obtain k v where p: "p = (k, v)" by (cases p)
  have v: "v \<noteq> []" using Cons.prems p by auto
  have no_amp: "CHR ''&'' \<notin> set (quote_plus k @ ''='' @ quote_plus v)"
    using quote_plus_plain [of _ k] quote_plus_plain [of _ v] by auto
  show ?case
  proof (cases "ps = []")
    case True
    have "py_split CHR ''&'' (quote_plus k @ ''='' @ quote_plus v) = [quote_plus k @ ''='' @ quote_plus v]"
      by (rule py_split_plain [OF no_amp])
    then show ?thesis
      using True p parse_param_pair [OF v, of k] by (simp add: parse_qs_def urlencode_def py_join_def List.map_filter_def)
  next
    case False
    have "urlencode (p # ps) = (quote_plus k @ ''='' @ quote_plus v) @ CHR ''&'' # urlencode ps"
      using False p by (cases ps) (auto simp: urlencode_def py_join_def)
    then have "py_split CHR ''&'' (urlencode (p # ps)) =
        (quote_plus k @ ''='' @ quote_plus v) # py_split CHR ''&'' (urlencode ps)"
      using py_split_item [OF no_amp] by metis
    then show ?thesis
      using Cons p False parse_param_pair [OF v, of k] by (auto simp: parse_qs_def List.map_filter_def)
  qed
qed

end
