(* ===== verification/Auth_Flows.thy ===== *)
theory Auth_Flows
  imports Auth_Whoami Url_Query
begin

text \<open>
  The four ways to a token: browser login with a local callback server (\<open>auth_bootstrap/pkce.py\<close>),
  the device flow (\<open>device.py\<close>), the password flow (\<open>client.py\<close>) and email codes
  (\<open>passwordless.py\<close>). The network, the clock, the random texts, the hash of a verifier, the
  browser, what reaches the callback server and what the user types are given.
\<close>

section \<open>Surroundings\<close>

text \<open>
  \<open>an_post k url form\<close> is the answer to the \<open>k\<close>-th request of a polling loop, \<open>0\<close> elsewhere;
  \<open>an_cost k\<close> is the time from the \<open>k\<close>-th test of the deadline to its sleep; \<open>an_repr\<close> is the text
  of a JSON value.
\<close>

record auth_net =
  an_get :: "string \<Rightarrow> http_reply"
  an_post :: "nat \<Rightarrow> json \<Rightarrow> (string \<times> string) list \<Rightarrow> http_reply"
  an_post_json :: "string \<Rightarrow> dict \<Rightarrow> (string \<times> string) list \<Rightarrow> http_reply"
  an_cost :: "nat \<Rightarrow> rat"
  an_repr :: "json \<Rightarrow> string"

definition shown :: "auth_net \<Rightarrow> json \<Rightarrow> string" where
  "shown net v = (case v of JStr s \<Rightarrow> s | _ \<Rightarrow> an_repr net v)"

record login_config =
  lc_auth_server :: string
  lc_client_id :: string
  lc_mcp_base :: string
  lc_scope :: string

definition server_base :: "login_config \<Rightarrow> string" where
  "server_base cfg = py_rstrip_char CHR ''/'' (lc_auth_server cfg)"

definition token_of_reply :: "model_env \<Rightarrow> json option \<Rightarrow> token_response raised" where
  "token_of_reply me body =
     (case body of
        None \<Rightarrow> AuthRaised (invalid_token_error ''Token response is not valid JSON'')
      | Some v \<Rightarrow> or_crash ''ValidationError'' (token_response_of me v))"

section \<open>The callback server\<close>

text \<open>
  \<open>HTTPServer.shutdown\<close> waits for an event that \<open>serve_forever\<close> sets when it ends. A new server has
  it unset, and \<open>handle_request\<close> leaves it as it is.
\<close>

record http_server =
  hs_shut_down :: bool

definition new_http_server :: http_server where
  "new_http_server = \<lparr>hs_shut_down = False\<rparr>"

definition server_shutdown :: "http_server \<Rightarrow> unit raised" where
  "server_shutdown s = (if hs_shut_down s then Returned () else Blocked)"

record callback_state =
  cb_code :: "string option"
  cb_error :: "string option"
  cb_state :: "string option"

definition no_callback :: callback_state where
  "no_callback = \<lparr>cb_code = None, cb_error = None, cb_state = None\<rparr>"

definition callback_body :: "callback_state \<Rightarrow> string" where
  "callback_body st =
     (if opt_truthy (cb_code st) then
        ''<html><body><h2>Login successful!</h2>'' @
        ''<p>You can close this window and return to the terminal.</p></body></html>''
      else
        ''<html><body><h2>Login failed</h2><p>Error: '' @
        (case cb_error st of Some e \<Rightarrow> str_or e ''unknown'' | None \<Rightarrow> ''unknown'') @ ''</p></body></html>'')"

definition do_GET :: "string \<Rightarrow> callback_state \<Rightarrow> (int \<times> string) \<times> callback_state" where
  "do_GET target st =
     (let (path, query) = target_parts target; params = parse_qs query
      in if path = ''/callback'' then
           (let st' = \<lparr>cb_code = query_first params ''code'', cb_error = query_first params ''error'',
                       cb_state = query_first params ''state''\<rparr>
            in ((200, callback_body st'), st'))
         else ((404, []), st))"

fun serve_until_callback :: "string list \<Rightarrow> http_server \<times> callback_state \<Rightarrow> http_server \<times> callback_state" where
  "serve_until_callback [] s = s"
| "serve_until_callback (t # ts) (server, st) =
     (if cb_code st = None \<and> cb_error st = None
      then serve_until_callback ts (server, snd (do_GET t st))
      else (server, st))"

definition callback_result :: "callback_state \<Rightarrow> string \<Rightarrow> string raised" where
  "callback_result st expected =
     (if opt_truthy (cb_error st) then
        AuthRaised (invalid_token_error (''Auth server returned error: '' @ the (cb_error st)))
      else if \<not> opt_truthy (cb_code st) then AuthRaised expired_challenge_error
      else if cb_state st \<noteq> Some expected then
        AuthRaised (invalid_token_error (''State parameter mismatch '' @ mdash @ '' possible CSRF attack.''))
      else Returned (the (cb_code st)))"

section \<open>Browser login\<close>

text \<open>
  \<open>pk_targets\<close> are the targets of the requests that reach the callback server before its deadline,
  in order; \<open>pk_port_free\<close> is whether the server can be bound. \<open>pk_port\<close> is \<open>KEYHOLE_PKCE_PORT\<close> as the
  integer it was read as, when it is set; a value that is no integer already fails the import of the
  module.
\<close>

record pkce_env =
  pk_verifier :: string
  pk_state :: string
  pk_s256 :: "string \<Rightarrow> string"
  pk_browser_opens :: bool
  pk_port_free :: bool
  pk_port :: "int option"
  pk_targets :: "string list"

definition redirect_uri :: "pkce_env \<Rightarrow> string" where
  "redirect_uri pk =
     ''http://localhost:'' @ str_int (case pk_port pk of None \<Rightarrow> 9876 | Some p \<Rightarrow> p) @ ''/callback''"

record pkce_challenge =
  pc_code_verifier :: string
  pc_code_challenge :: string
  pc_state :: string
  pc_authorization_url :: string

definition challenge_params :: "login_config \<Rightarrow> pkce_env \<Rightarrow> (string \<times> string) list" where
  "challenge_params cfg pk =
     [(''response_type'', ''code''), (''client_id'', lc_client_id cfg), (''redirect_uri'', redirect_uri pk),
      (''scope'', lc_scope cfg), (''state'', pk_state pk), (''code_challenge'', pk_s256 pk (pk_verifier pk)),
      (''code_challenge_method'', ''S256'')]"

definition generate_challenge :: "login_config \<Rightarrow> pkce_env \<Rightarrow> pkce_challenge" where
  "generate_challenge cfg pk =
     \<lparr>pc_code_verifier = pk_verifier pk, pc_code_challenge = pk_s256 pk (pk_verifier pk),
      pc_state = pk_state pk,
      pc_authorization_url =
        server_base cfg @ ''/protocol/openid-connect/auth?'' @ urlencode (challenge_params cfg pk)\<rparr>"

definition wait_for_callback :: "pkce_env \<Rightarrow> string \<Rightarrow> string raised" where
  "wait_for_callback pk expected =
     (if \<not> pk_port_free pk then Crashed ''OSError''
      else (let (server, st) = serve_until_callback (pk_targets pk) (new_http_server, no_callback)
            in and_then (server_shutdown server) (\<lambda>_. callback_result st expected)))"

definition endpoint_reply :: "string \<Rightarrow> string \<Rightarrow> http_reply \<Rightarrow> (int \<times> string \<times> json option) raised" where
  "endpoint_reply unreachable timeout reply =
     (case reply of
        NoConnection e \<Rightarrow> AuthRaised (network_error (unreachable @ e))
      | TimedOut e \<Rightarrow> AuthRaised (network_error (timeout @ e))
      | RequestFailed cls \<Rightarrow> Crashed cls
      | Replied status txt body \<Rightarrow> Returned (status, txt, body))"

definition token_endpoint :: "login_config \<Rightarrow> string" where
  "token_endpoint cfg = server_base cfg @ token_suffix"

definition exchange_code ::
  "model_env \<Rightarrow> auth_net \<Rightarrow> login_config \<Rightarrow> pkce_env \<Rightarrow> string \<Rightarrow> string \<Rightarrow> token_response raised" where
  "exchange_code me net cfg pk code verifier =
     and_then
       (endpoint_reply ''Cannot reach token endpoint: '' ''Token endpoint timed out: ''
          (an_post net 0 (JStr (token_endpoint cfg))
            [(''grant_type'', ''authorization_code''), (''code'', code), (''redirect_uri'', redirect_uri pk),
             (''client_id'', lc_client_id cfg), (''code_verifier'', verifier)]))
       (\<lambda>(status, txt, body).
          if status \<noteq> 200 then
            AuthRaised (invalid_token_error (''Token exchange failed (HTTP '' @ str_int status @ ''): '' @
              (if txt \<noteq> [] then take 500 txt else ''no detail'')))
          else token_of_reply me body)"

text \<open>\<open>has_url_callback\<close>: the caller gave \<open>on_browser_url\<close>, which is shown the URL.\<close>

definition do_pkce_flow ::
  "model_env \<Rightarrow> auth_net \<Rightarrow> login_config \<Rightarrow> pkce_env \<Rightarrow> bool \<Rightarrow> token_response raised" where
  "do_pkce_flow me net cfg pk has_url_callback =
     (let ch = generate_challenge cfg pk
      in if \<not> pk_browser_opens pk \<and> \<not> has_url_callback then AuthRaised browser_launch_error
         else and_then (wait_for_callback pk (pc_state ch))
                (\<lambda>code. exchange_code me net cfg pk code (pc_code_verifier ch)))"

section \<open>Device flow\<close>

record device_code_response =
  dr_device_code :: string
  dr_user_code :: string
  dr_verification_uri :: string
  dr_verification_uri_complete :: "string option"
  dr_expires_in :: int
  dr_interval :: int

definition int_field :: "model_env \<Rightarrow> dict \<Rightarrow> string \<Rightarrow> int \<Rightarrow> int option" where
  "int_field me d k dflt = (case dict_get d k of None \<Rightarrow> Some dflt | Some v \<Rightarrow> me_int me v)"

definition device_code_of :: "model_env \<Rightarrow> json \<Rightarrow> device_code_response option" where
  "device_code_of me v =
     (case v of
        JObj d \<Rightarrow>
          do {
            code \<leftarrow> str_field d ''device_code'' None;
            user \<leftarrow> str_field d ''user_code'' None;
            uri \<leftarrow> str_field d ''verification_uri'' None;
            complete \<leftarrow> opt_str_field d ''verification_uri_complete'';
            expires \<leftarrow> int_field me d ''expires_in'' 600;
            interval \<leftarrow> int_field me d ''interval'' 5;
            Some \<lparr>dr_device_code = code, dr_user_code = user, dr_verification_uri = uri,
                  dr_verification_uri_complete = complete, dr_expires_in = expires, dr_interval = interval\<rparr>
          }
      | _ \<Rightarrow> None)"

definition discover_oidc :: "auth_net \<Rightarrow> login_config \<Rightarrow> json raised" where
  "discover_oidc net cfg =
     and_then
       (endpoint_reply ''Cannot reach OIDC discovery endpoint: '' ''OIDC discovery endpoint timed out: ''
          (an_get net (server_base cfg @ ''/.well-known/openid-configuration'')))
       (\<lambda>(status, txt, body).
          if status \<noteq> 200 then
            AuthRaised (network_error (''OIDC discovery failed (HTTP '' @ str_int status @ '')''))
          else (case body of
                  None \<Rightarrow> AuthRaised (network_error ''OIDC discovery response is not valid JSON'')
                | Some v \<Rightarrow> Returned v))"

definition oidc_endpoint :: "json \<Rightarrow> string \<Rightarrow> string \<Rightarrow> json raised" where
  "oidc_endpoint oidc key fallback =
     (case oidc of
        JObj d \<Rightarrow> Returned (json_or (json_get d key) (JStr fallback))
      | _ \<Rightarrow> Crashed ''AttributeError'')"

definition request_device_code ::
  "model_env \<Rightarrow> auth_net \<Rightarrow> login_config \<Rightarrow> json \<Rightarrow> device_code_response raised" where
  "request_device_code me net cfg oidc =
     and_then (oidc_endpoint oidc ''device_authorization_endpoint''
                 (server_base cfg @ ''/protocol/openid-connect/auth/device''))
       (\<lambda>url. and_then
          (endpoint_reply ''Cannot reach device code endpoint: '' ''Device code endpoint timed out: ''
             (an_post net 0 url [(''client_id'', lc_client_id cfg), (''scope'', lc_scope cfg)]))
          (\<lambda>(status, txt, body).
             if status \<noteq> 200 then
               AuthRaised (network_error (''Device code request failed (HTTP '' @ str_int status @ '')''))
             else (case body of
                     None \<Rightarrow> AuthRaised (network_error ''Device code response is not valid JSON'')
                   | Some v \<Rightarrow> or_crash ''ValidationError'' (device_code_of me v))))"

text \<open>
  One poll: its result, or the interval it sleeps before the next. \<open>time.sleep\<close> of a negative
  number raises.
\<close>

definition sleep_for :: "int \<Rightarrow> token_response raised + int" where
  "sleep_for interval = (if interval < 0 then Inl (Crashed ''ValueError'') else Inr interval)"

definition poll_error ::
  "auth_net \<Rightarrow> string \<Rightarrow> json \<Rightarrow> int \<Rightarrow> token_response raised + int" where
  "poll_error net txt err interval =
     (if err = JStr ''authorization_pending'' then sleep_for interval
      else if err = JStr ''slow_down'' then sleep_for (min (interval + 5) 30)
      else if err = JStr ''expired_token'' then Inl (AuthRaised expired_challenge_error)
      else if err = JStr ''access_denied'' then Inl (AuthRaised login_denied_error)
      else Inl (AuthRaised (invalid_token_error
             (''Device token exchange failed: '' @ (if json_truthy err then shown net err else take 200 txt)))))"

definition poll_step :: "model_env \<Rightarrow> auth_net \<Rightarrow> http_reply \<Rightarrow> int \<Rightarrow> token_response raised + int" where
  "poll_step me net reply interval =
     (case reply of
        NoConnection e \<Rightarrow> Inl (AuthRaised (network_error (''Cannot reach token endpoint: '' @ e)))
      | TimedOut e \<Rightarrow> sleep_for interval
      | RequestFailed cls \<Rightarrow> Inl (Crashed cls)
      | Replied status txt body \<Rightarrow>
          if status = 200 then Inl (token_of_reply me body)
          else (case (case body of None \<Rightarrow> JObj [] | Some v \<Rightarrow> v) of
                  JObj d \<Rightarrow> poll_error net txt (dict_get_or d ''error'' (JStr [])) interval
                | _ \<Rightarrow> Inl (Crashed ''AttributeError'')))"

partial_function (option) poll_device ::
  "model_env \<Rightarrow> auth_net \<Rightarrow> (nat \<Rightarrow> http_reply) \<Rightarrow> nat \<Rightarrow> rat \<Rightarrow> rat \<Rightarrow> int \<Rightarrow> token_response raised option" where
  "poll_device me net reply k now deadline interval =
     (if now \<ge> deadline then Some (AuthRaised expired_challenge_error)
      else (case poll_step me net (reply k) interval of
              Inl r \<Rightarrow> Some r
            | Inr i \<Rightarrow> poll_device me net reply (k + 1) (now + an_cost net k + of_int i) deadline i))"

declare poll_device.simps [code]

definition poll_device_token ::
  "model_env \<Rightarrow> auth_net \<Rightarrow> login_config \<Rightarrow> json \<Rightarrow> string \<Rightarrow> int \<Rightarrow> int \<Rightarrow> token_response raised" where
  "poll_device_token me net cfg oidc code interval expires =
     and_then (oidc_endpoint oidc ''token_endpoint'' (token_endpoint cfg))
       (\<lambda>url.
          case poll_device me net
                 (\<lambda>k. an_post net k url
                    [(''grant_type'', ''urn:ietf:params:oauth:grant-type:device_code''),
                     (''device_code'', code), (''client_id'', lc_client_id cfg)])
                 0 0 (of_int expires) interval of
            None \<Rightarrow> Blocked
          | Some r \<Rightarrow> r)"

definition do_device_flow :: "model_env \<Rightarrow> auth_net \<Rightarrow> login_config \<Rightarrow> token_response raised" where
  "do_device_flow me net cfg =
     and_then (discover_oidc net cfg)
       (\<lambda>oidc. and_then (request_device_code me net cfg oidc)
          (\<lambda>dr. poll_device_token me net cfg oidc (dr_device_code dr) (dr_interval dr) (dr_expires_in dr)))"

section \<open>Password flow\<close>

definition password_error :: "auth_net \<Rightarrow> string \<Rightarrow> json option \<Rightarrow> json raised" where
  "password_error net txt body =
     (case body of
        None \<Rightarrow> Returned (JStr (take 200 txt))
      | Some (JObj d) \<Rightarrow>
          Returned (json_or (json_or (json_get d ''error_description'') (json_get d ''error''))
                      (JStr (take 200 txt)))
      | Some _ \<Rightarrow> Crashed ''AttributeError'')"

definition do_password_flow ::
  "model_env \<Rightarrow> auth_net \<Rightarrow> login_config \<Rightarrow> string \<Rightarrow> string \<Rightarrow> token_response raised" where
  "do_password_flow me net cfg user pass =
     and_then (discover_oidc net cfg)
       (\<lambda>oidc. and_then (oidc_endpoint oidc ''token_endpoint'' (lc_auth_server cfg @ token_suffix))
          (\<lambda>url. and_then
             (endpoint_reply ''Cannot reach token endpoint: '' ''Token endpoint timed out: ''
                (an_post net 0 url
                   [(''grant_type'', ''password''), (''client_id'', lc_client_id cfg), (''username'', user),
                    (''password'', pass), (''scope'', lc_scope cfg)]))
             (\<lambda>(status, txt, body).
                if status \<noteq> 200 then
                  and_then (password_error net txt body)
                    (\<lambda>err. AuthRaised (invalid_token_error
                       (''Password flow failed (HTTP '' @ str_int status @ ''): '' @ shown net err)))
                else token_of_reply me body)))"

section \<open>Email codes\<close>

definition rest_error_message :: "auth_net \<Rightarrow> json \<Rightarrow> json" where
  "rest_error_message net data =
     (let err = (case data of JObj d \<Rightarrow> dict_get_or d ''error'' (JObj []) | _ \<Rightarrow> JObj []);
          detail = (case data of JObj d \<Rightarrow> dict_get_or d ''detail'' (JStr []) | _ \<Rightarrow> JStr (shown net data))
      in (case err of JObj e \<Rightarrow> dict_get_or e ''message'' detail | _ \<Rightarrow> detail))"

definition rest_headers :: "string \<Rightarrow> (string \<times> string) list" where
  "rest_headers key =
     [(''Content-Type'', ''application/json'')] @ (if key \<noteq> [] then [(''X-Idempotency-Key'', key)] else [])"

definition rest_reply :: "string \<Rightarrow> string \<Rightarrow> http_reply \<Rightarrow> (int \<times> json) raised" where
  "rest_reply endpoint Endpoint reply =
     and_then
       (endpoint_reply (''Cannot reach '' @ endpoint @ '' endpoint: '') (Endpoint @ '' endpoint timed out: '') reply)
       (\<lambda>(status, txt, body).
          case body of
            None \<Rightarrow> AuthRaised (network_error (Endpoint @ '' response is not valid JSON''))
          | Some v \<Rightarrow> Returned (status, v))"

text \<open>The answer is given as its dictionary; the flow uses its user id and shows its hint.\<close>

definition request_code ::
  "auth_net \<Rightarrow> login_config \<Rightarrow> string \<Rightarrow> string \<Rightarrow> string \<Rightarrow> dict raised" where
  "request_code net cfg email realm key =
     and_then
       (rest_reply ''login-request'' ''Login-request''
          (an_post_json net (py_rstrip_char CHR ''/'' (lc_mcp_base cfg) @ ''/auth/login-request'')
             [(''email'', JStr email), (''realm'', JStr realm)] (rest_headers key)))
       (\<lambda>(status, data).
          if status = 429 then
            (case data of
               JObj d \<Rightarrow>
                 AuthRaised (bootstrap_error
                   (''Rate limited: '' @ shown net (dict_get_or d ''detail'' (JStr ''Rate limited'')))
                   [''Wait a moment and try again.''])
             | _ \<Rightarrow> Crashed ''AttributeError'')
          else if status \<noteq> 200 then
            AuthRaised (bootstrap_error
              (shown net (json_or (rest_error_message net data)
                 (JStr (''Login request failed (HTTP '' @ str_int status @ '')''))))
              [''Ensure the email is registered and verified.'',
               ''Try: keyhole register (if not yet registered).''])
          else (case data of JObj d \<Rightarrow> Returned d | _ \<Rightarrow> Crashed ''AttributeError''))"

definition complete_login ::
  "model_env \<Rightarrow> auth_net \<Rightarrow> login_config \<Rightarrow> string \<Rightarrow> json \<Rightarrow> string \<Rightarrow> token_response raised" where
  "complete_login me net cfg code user_id key =
     and_then
       (rest_reply ''login-complete'' ''Login-complete''
          (an_post_json net (py_rstrip_char CHR ''/'' (lc_mcp_base cfg) @ ''/auth/login-complete'')
             ([(''code'', JStr code)] @ (if json_truthy user_id then [(''user_id'', user_id)] else []))
             (rest_headers key)))
       (\<lambda>(status, data).
          if status \<noteq> 200 then
            AuthRaised (invalid_token_error
              (shown net (json_or (rest_error_message net data)
                 (JStr (''Login completion failed (HTTP '' @ str_int status @ '')'')))))
          else
            (case data of
               JObj d \<Rightarrow>
                 or_crash ''ValidationError'' (token_response_of me (JObj
                   [(''access_token'', dict_get_or d ''access_token'' (JStr [])),
                    (''token_type'', dict_get_or d ''token_type'' (JStr ''Bearer'')),
                    (''expires_in'', json_get d ''expires_in''),
                    (''refresh_token'', json_get d ''refresh_token'')]))
             | _ \<Rightarrow> Crashed ''AttributeError''))"

text \<open>
  \<open>prompt\<close> is what the user types for an answer, \<open>None\<close> without a prompt callback; \<open>complete_key\<close> is
  the fresh key of the second request.
\<close>

definition do_passwordless_flow ::
  "model_env \<Rightarrow> auth_net \<Rightarrow> login_config \<Rightarrow> string \<Rightarrow> string \<Rightarrow> string \<Rightarrow> (dict \<Rightarrow> string) option \<Rightarrow> string \<Rightarrow>
   token_response raised" where
  "do_passwordless_flow me net cfg email realm cid prompt complete_key =
     and_then (request_code net cfg email realm cid)
       (\<lambda>d. case prompt of
              None \<Rightarrow>
                AuthRaised (bootstrap_error ''Passwordless flow requires a code prompt callback.''
                  [''Use the CLI: keyhole login --flow passwordless --email <email>''])
            | Some ask \<Rightarrow>
                (let code = ask d
                 in if py_strip code = [] then
                      AuthRaised (bootstrap_error ''No login code provided.''
                        [''Enter the 6-digit code from your email.''])
                    else complete_login me net cfg (py_strip code) (dict_get_or d ''user_id'' (JStr [])) complete_key))"

section \<open>What they do\<close>

text \<open>A poll sleeps at least a second when the interval is positive, so the deadline comes.\<close>

lemma poll_step_interval:
  "poll_step me net reply interval = Inr i \<Longrightarrow> 1 \<le> interval \<Longrightarrow> 1 \<le> i"
  by (auto simp: poll_step_def poll_error_def sleep_for_def split: http_reply.splits if_splits json.splits option.splits)

lemma poll_device_returns:
  assumes "1 \<le> interval" "\<forall>j. 0 \<le> an_cost net j" "deadline \<le> now + of_nat n"
  shows "\<exists>r. poll_device me net reply k now deadline interval = Some r"
  using assms
proof (induction n arbitrary: k now interval)
  case 0
  then show ?case by (subst poll_device.simps) simp
next
  case (Suc n)
  show ?case
  proof (cases "poll_step me net (reply k) interval")
    case (Inl r)
    then show ?thesis by (subst poll_device.simps) simp
  next
    case (Inr i)
    have i: "1 \<le> i" using poll_step_interval [OF Inr] Suc.prems(1) .
    then have "(1 :: rat) \<le> of_int i" by simp
    moreover have "0 \<le> an_cost net k" using Suc.prems(2) by simp
    ultimately have "deadline \<le> (now + an_cost net k + of_int i) + of_nat n"
      using Suc.prems(3) by (simp add: algebra_simps)
    from Suc.IH [OF i Suc.prems(2) this, of "k + 1"] Inr show ?thesis
      by (subst poll_device.simps) auto
  qed
qed

lemma serve_until_server: "fst (serve_until_callback ts s) = fst s"
  by (induction ts s rule: serve_until_callback.induct) auto

text \<open>The callback server is never shut down by \<open>serve_forever\<close>, so waiting for it blocks.\<close>

lemma wait_blocks: "pk_port_free pk \<Longrightarrow> wait_for_callback pk expected = Blocked"
  using serve_until_server [of "pk_targets pk" "(new_http_server, no_callback)"]
  by (auto simp: wait_for_callback_def new_http_server_def server_shutdown_def split: prod.splits)

lemma callback_result_Returned:
  "callback_result st expected = Returned code \<longleftrightarrow>
   cb_code st = Some code \<and> code \<noteq> [] \<and> \<not> opt_truthy (cb_error st) \<and> cb_state st = Some expected"
  by (cases "cb_code st") (auto simp: callback_result_def opt_truthy_def)

end
