(* ===== verification/Auth_Login.thy ===== *)
theory Auth_Login
  imports Auth_Flows
begin

text \<open>
  \<open>AuthBootstrapClient.login\<close> (\<open>auth_bootstrap/client.py\<close>) and the proof of a login
  (\<open>auth_bootstrap/proof.py\<close>).
\<close>

section \<open>Surroundings\<close>

text \<open>
  \<open>ln_whoami 0\<close> answers the check of the stored session, \<open>ln_whoami 1\<close> that of the new token;
  \<open>ln_save\<close> likewise gives the errors of the two writes. \<open>ln_clock\<close> is the time of each reading of the
  clock: of the expiry test, of the re-verification, of the new session's expiry, of its creation
  and of its verification. \<open>ln_date_ok\<close> tells whether a time is a date.
\<close>

record login_env =
  ln_models :: model_env
  ln_net :: auth_net
  ln_cfg :: login_config
  ln_pkce :: pkce_env
  ln_has_url_callback :: bool
  ln_prompt :: "(dict \<Rightarrow> string) option"
  ln_complete_key :: string
  ln_password_enabled :: bool
  ln_whoami :: "nat \<Rightarrow> string \<Rightarrow> http_reply"
  ln_schema_error :: "json \<Rightarrow> string"
  ln_clock :: "nat \<Rightarrow> rat"
  ln_date_ok :: "rat \<Rightarrow> bool"
  ln_naive_iso :: "rat \<Rightarrow> string"
  ln_save :: "nat \<Rightarrow> save_errors"

record login_request =
  lq_flow :: auth_flow_type
  lq_force :: bool
  lq_cid :: string
  lq_username :: string
  lq_password :: string
  lq_email :: string
  lq_realm :: string

record login_result =
  li_success :: bool
  li_flow :: "auth_flow_type option"
  li_mode :: "auth_mode option"
  li_whoami :: "whoami_response option"
  li_cid :: "string option"
  li_error_class :: "string option"
  li_error_message :: "string option"
  li_repair :: "string list"
  li_persisted :: bool
  li_verified :: bool
  li_identity_source :: "string option"

definition identity_source :: string where
  "identity_source = ''server/whoami''"

definition login_success :: "auth_flow_type \<Rightarrow> whoami_response \<Rightarrow> string \<Rightarrow> login_result" where
  "login_success flow w cid =
     \<lparr>li_success = True, li_flow = Some flow, li_mode = Some (wr_mode w), li_whoami = Some w,
      li_cid = Some cid, li_error_class = None, li_error_message = None, li_repair = [],
      li_persisted = True, li_verified = True, li_identity_source = Some identity_source\<rparr>"

definition login_failure :: "auth_flow_type \<Rightarrow> string \<Rightarrow> bool \<Rightarrow> auth_error \<Rightarrow> login_result" where
  "login_failure flow cid verified e =
     \<lparr>li_success = False, li_flow = Some flow, li_mode = None, li_whoami = None, li_cid = Some cid,
      li_error_class = Some (ae_class e), li_error_message = Some (ae_message e),
      li_repair = ae_repair e, li_persisted = False, li_verified = verified,
      li_identity_source = None\<rparr>"

section \<open>The login\<close>

definition verified_session :: "rat \<Rightarrow> whoami_response \<Rightarrow> auth_session \<Rightarrow> auth_session" where
  "verified_session now w s = s\<lparr>ss_mode := wr_mode w, ss_last_verified_at := Some (Zoned now)\<rparr>"

definition write_session :: "login_env \<Rightarrow> nat \<Rightarrow> auth_session \<Rightarrow> cred_file \<Rightarrow> unit raised \<times> cred_file" where
  "write_session env k s file =
     save_session (me_iso (ln_models env)) (ln_naive_iso env) (ln_save env k) s file"

text \<open>
  A stored session that is not expired is verified again. Any exception of the verification goes on
  with a fresh login (\<open>None\<close>); one of the expiry test does not.
\<close>

definition reuse_session ::
  "login_env \<Rightarrow> login_request \<Rightarrow> cred_file \<Rightarrow> login_result option raised \<times> cred_file" where
  "reuse_session env req file =
     (if lq_force req then (Returned None, file)
      else
        (case store_authenticated (ln_models env) (ln_clock env 0) file of
           Returned True \<Rightarrow>
             (case load_session (ln_models env) (ln_clock env 0) file of
                Returned (Some s) \<Rightarrow>
                  (case whoami_of_reply (ln_schema_error env) (ln_whoami env 0 (ss_access_token s)) of
                     Returned w \<Rightarrow>
                       if missing_identity w \<noteq> [] then (Returned None, file)
                       else (case write_session env 0 (verified_session (ln_clock env 1) w s) file of
                               (Returned _, file') \<Rightarrow>
                                 (Returned (Some (login_success (ss_flow_type s) w (lq_cid req))), file')
                             | (_, file') \<Rightarrow> (Returned None, file'))
                   | _ \<Rightarrow> (Returned None, file))
              | _ \<Rightarrow> (Returned None, file))
         | Returned False \<Rightarrow> (Returned None, file)
         | AuthRaised e \<Rightarrow> (AuthRaised e, file)
         | Crashed c \<Rightarrow> (Crashed c, file)
         | Blocked \<Rightarrow> (Blocked, file)))"

definition password_disabled :: auth_error where
  "password_disabled =
     bootstrap_error ''Password login is disabled in the public SDK by default.''
       [''Use: keyhole login --flow device --force'',
        ''For local/dev only: set KEYHOLE_ENABLE_DEV_PASSWORD_LOGIN=1 and retry.'']"

definition obtain_token :: "login_env \<Rightarrow> login_request \<Rightarrow> token_response raised" where
  "obtain_token env req =
     (let me = ln_models env; net = ln_net env; cfg = ln_cfg env
      in case lq_flow req of
           FLOW_PKCE \<Rightarrow> do_pkce_flow me net cfg (ln_pkce env) (ln_has_url_callback env)
         | FLOW_PASSWORD \<Rightarrow>
             if \<not> ln_password_enabled env then AuthRaised password_disabled
             else if lq_username req = [] \<or> lq_password req = [] then
               AuthRaised (invalid_token_error ''Password flow requires username and password.'')
             else do_password_flow me net cfg (lq_username req) (lq_password req)
         | FLOW_PASSWORDLESS \<Rightarrow>
             if lq_email req = [] then
               AuthRaised (bootstrap_error ''Passwordless flow requires --email.''
                 [''Use: keyhole login --flow passwordless --email you@example.com''])
             else do_passwordless_flow me net cfg (lq_email req) (lq_realm req) (lq_cid req)
                    (ln_prompt env) (ln_complete_key env)
         | FLOW_DEVICE \<Rightarrow> do_device_flow me net cfg)"

definition provisional_session :: "login_env \<Rightarrow> login_request \<Rightarrow> token_response \<Rightarrow> auth_session raised" where
  "provisional_session env req tr =
     and_then
       (case tr_expires_in tr of
          None \<Rightarrow> Returned None
        | Some n \<Rightarrow>
            if ln_date_ok env (ln_clock env 2 + of_int n) then Returned (Some (Zoned (ln_clock env 2 + of_int n)))
            else Crashed ''OverflowError'')
       (\<lambda>expires. Returned
          \<lparr>ss_access_token = tr_access_token tr, ss_token_type = tr_token_type tr,
           ss_refresh_token = tr_refresh_token tr, ss_expires_at = expires, ss_scope = tr_scope tr,
           ss_flow_type = lq_flow req, ss_mode = MODE_REAL, ss_realm = default_realm,
           ss_auth_server_url = Some (lc_auth_server (ln_cfg env)),
           ss_created_at = Zoned (ln_clock env 3), ss_last_verified_at = None\<rparr>)"

definition missing_identity_error :: "string list \<Rightarrow> auth_error" where
  "missing_identity_error missing =
     \<lparr>ae_class = ''incomplete_identity'',
      ae_message = ''Server returned incomplete identity: missing '' @ py_join '', '' missing,
      ae_repair = [''Retry login: keyhole login --force'',
        ''Contact your organization admin '' @ mdash @ '' your account may not be fully provisioned.'']\<rparr>"

text \<open>The new session: its identity first, then the write.\<close>

definition confirm_session ::
  "login_env \<Rightarrow> login_request \<Rightarrow> auth_session \<Rightarrow> cred_file \<Rightarrow> login_result raised \<times> cred_file" where
  "confirm_session env req s file =
     (case whoami_of_reply (ln_schema_error env) (ln_whoami env 1 (ss_access_token s)) of
        AuthRaised e \<Rightarrow> (Returned (login_failure (lq_flow req) (lq_cid req) False e), file)
      | Crashed c \<Rightarrow> (Crashed c, file)
      | Blocked \<Rightarrow> (Blocked, file)
      | Returned w \<Rightarrow>
          if missing_identity w \<noteq> [] then
            (Returned (login_failure (lq_flow req) (lq_cid req) False
               (missing_identity_error (missing_identity w))), file)
          else
            (case write_session env 1 (verified_session (ln_clock env 4) w s) file of
               (Returned _, file') \<Rightarrow> (Returned (login_success (lq_flow req) w (lq_cid req)), file')
             | (AuthRaised e, file') \<Rightarrow> (Returned (login_failure (lq_flow req) (lq_cid req) True e), file')
             | (Crashed c, file') \<Rightarrow> (Crashed c, file')
             | (Blocked, file') \<Rightarrow> (Blocked, file')))"

definition fresh_login ::
  "login_env \<Rightarrow> login_request \<Rightarrow> cred_file \<Rightarrow> login_result raised \<times> cred_file" where
  "fresh_login env req file =
     (case obtain_token env req of
        AuthRaised e \<Rightarrow> (Returned (login_failure (lq_flow req) (lq_cid req) False e), file)
      | Crashed c \<Rightarrow> (Crashed c, file)
      | Blocked \<Rightarrow> (Blocked, file)
      | Returned tr \<Rightarrow>
          (case provisional_session env req tr of
             Returned s \<Rightarrow> confirm_session env req s file
           | AuthRaised e \<Rightarrow> (AuthRaised e, file)
           | Crashed c \<Rightarrow> (Crashed c, file)
           | Blocked \<Rightarrow> (Blocked, file)))"

definition login :: "login_env \<Rightarrow> login_request \<Rightarrow> cred_file \<Rightarrow> login_result raised \<times> cred_file" where
  "login env req file =
     (case reuse_session env req file of
        (Returned (Some r), file') \<Rightarrow> (Returned r, file')
      | (Returned None, file') \<Rightarrow> fresh_login env req file'
      | (AuthRaised e, file') \<Rightarrow> (AuthRaised e, file')
      | (Crashed c, file') \<Rightarrow> (Crashed c, file')
      | (Blocked, file') \<Rightarrow> (Blocked, file'))"

definition login_summary :: "login_result \<Rightarrow> dict" where
  "login_summary r =
     [(''success'', JBool (li_success r)),
      (''flow_type'', opt_str_json (map_option flow_type_value (li_flow r))),
      (''mode'', opt_str_json (map_option auth_mode_value (li_mode r))),
      (''correlation_id'', opt_str_json (li_cid r)),
      (''credential_persisted'', JBool (li_persisted r)),
      (''verification_passed'', JBool (li_verified r)),
      (''identity_source'', opt_str_json (li_identity_source r)),
      (''error_class'', opt_str_json (li_error_class r)),
      (''has_whoami'', JBool (li_whoami r \<noteq> None))]"

section \<open>The proof of a login\<close>

record login_proof =
  lp_cid :: string
  lp_events :: "(string \<times> dict) list"
  lp_started :: string

definition record_login_event :: "string \<Rightarrow> dict \<Rightarrow> login_proof \<Rightarrow> login_proof" where
  "record_login_event kind detail p = p\<lparr>lp_events := lp_events p @ [(kind, detail)]\<rparr>"

definition proof_core :: "login_proof \<Rightarrow> login_result \<Rightarrow> string \<Rightarrow> dict" where
  "proof_core p r completed =
     [(''proof_type'', JStr ''auth_bootstrap''), (''story_id'', JStr ''SDK-CLIENT-01''),
      (''correlation_id'', JStr (lp_cid p)), (''success'', JBool (li_success r)),
      (''flow_type'', opt_str_json (map_option flow_type_value (li_flow r))),
      (''mode'', opt_str_json (map_option auth_mode_value (li_mode r))),
      (''credential_persisted'', JBool (li_persisted r)), (''verification_passed'', JBool (li_verified r)),
      (''identity_source'', opt_str_json (li_identity_source r)),
      (''whoami_completed'', JBool (li_whoami r \<noteq> None)), (''started_at'', JStr (lp_started p)),
      (''completed_at'', JStr completed)]"

definition proof_request :: "login_proof \<Rightarrow> login_result \<Rightarrow> dict" where
  "proof_request p r =
     [(''flow_type_requested'', opt_str_json (map_option flow_type_value (li_flow r))),
      (''initiated_at'', JStr (lp_started p))]"

definition proof_response :: "login_result \<Rightarrow> dict" where
  "proof_response r =
     [(''success'', JBool (li_success r)), (''credential_persisted'', JBool (li_persisted r)),
      (''verification_passed'', JBool (li_verified r))] @
     (if opt_truthy (li_error_class r) then
        [(''error_class'', opt_str_json (li_error_class r)), (''error_message'', opt_str_json (li_error_message r))]
      else []) @
     (case li_whoami r of
        None \<Rightarrow> []
      | Some w \<Rightarrow> [(''identity_resolved'', JBool True), (''mode'', JStr (auth_mode_value (wr_mode w)))])"

definition proof_events :: "login_proof \<Rightarrow> (nat \<Rightarrow> string) \<Rightarrow> dict" where
  "proof_events p stamp =
     [(''correlation_id'', JStr (lp_cid p)),
      (''events'', JList (map (\<lambda>(i, kind, detail). JObj
         [(''event_type'', JStr kind), (''timestamp'', JStr (stamp i)), (''detail'', JObj detail)])
         (enumerate 0 (lp_events p))))]"

definition proof_identity :: "login_result \<Rightarrow> dict" where
  "proof_identity r =
     (case li_whoami r of
        None \<Rightarrow> [(''source'', JNull), (''identity_resolved'', JBool False)]
      | Some w \<Rightarrow>
          [(''source'', JStr identity_source), (''user_id'', opt_str_json (wr_user_id w)),
           (''tenant_id'', opt_str_json (wr_tenant_id w)), (''org_id'', opt_str_json (wr_org_id w)),
           (''cohort_id'', opt_str_json (wr_cohort_id w)), (''worker_id'', opt_str_json (wr_worker_id w)),
           (''workspace_id'', opt_str_json (wr_workspace_id w)),
           (''mode'', JStr (auth_mode_value (wr_mode w))), (''plan'', opt_str_json (wr_plan w))])"

definition proof_verification :: "login_result \<Rightarrow> dict" where
  "proof_verification r =
     [(''login_completed'', JBool (li_success r)), (''credential_persisted'', JBool (li_persisted r)),
      (''whoami_verified'', JBool (li_verified r)),
      (''identity_source'', opt_str_json (li_identity_source r)),
      (''governed_identity_confirmed'', JBool (li_success r \<and> li_verified r \<and> li_whoami r \<noteq> None)),
      (''server_auth_event_confirmed'', JBool (li_success r \<and> li_verified r)),
      (''mode_visible'', JBool (li_mode r \<noteq> None)),
      (''mode_source'', if li_whoami r \<noteq> None then JStr identity_source else JNull),
      (''error_class'', opt_str_json (li_error_class r))]"

definition proof_correlation :: "login_proof \<Rightarrow> string \<Rightarrow> dict" where
  "proof_correlation p completed =
     [(''correlation_id'', JStr (lp_cid p)), (''story_id'', JStr ''SDK-CLIENT-01''),
      (''started_at'', JStr (lp_started p)), (''completed_at'', JStr completed)]"

definition yes_no :: "bool \<Rightarrow> string" where
  "yes_no b = (if b then ''True'' else ''False'')"

definition opt_text :: "string option \<Rightarrow> string" where
  "opt_text v = (case v of None \<Rightarrow> ''None'' | Some s \<Rightarrow> s)"

definition proof_summary_lines :: "login_proof \<Rightarrow> login_result \<Rightarrow> string \<Rightarrow> string list" where
  "proof_summary_lines p r completed =
     [''# Auth Bootstrap Proof Summary '' @ mdash @ '' SDK-CLIENT-01'', [],
      ''**Correlation ID:** '' @ lp_cid p, ''**Started:** '' @ lp_started p,
      ''**Completed:** '' @ completed, [], ''## Result'', [],
      ''- **Success:** '' @ yes_no (li_success r),
      ''- **Flow type:** '' @ (case li_flow r of None \<Rightarrow> ''N/A'' | Some f \<Rightarrow> flow_type_value f),
      ''- **Mode:** '' @ (case li_mode r of None \<Rightarrow> ''N/A'' | Some m \<Rightarrow> auth_mode_value m),
      ''- **Mode source:** '' @ (if li_whoami r \<noteq> None then identity_source else ''N/A''),
      ''- **Credential persisted:** '' @ yes_no (li_persisted r),
      ''- **Governed identity confirmed:** '' @ yes_no (li_verified r \<and> li_whoami r \<noteq> None)] @
     (case li_whoami r of
        None \<Rightarrow> []
      | Some w \<Rightarrow>
          [[], ''## Identity Context (from server /whoami)'', [],
           ''- **User:** '' @ opt_text (wr_user_id w), ''- **Tenant:** '' @ opt_text (wr_tenant_id w),
           ''- **Org:** '' @ opt_text (wr_org_id w), ''- **Cohort:** '' @ opt_text (wr_cohort_id w),
           ''- **Mode:** '' @ auth_mode_value (wr_mode w)]) @
     (if opt_truthy (li_error_class r) then
        [[], ''## Failure'', [], ''- **Error class:** '' @ opt_text (li_error_class r),
         ''- **Message:** '' @ opt_text (li_error_message r)] @
        (if li_repair r \<noteq> [] then [[], ''### Repair Suggestions'', []] @ map (\<lambda>s. ''- '' @ s) (li_repair r) else [])
      else []) @
     [[], ''---'', ''*Generated by keyhole-sdk auth bootstrap proof*'']"

definition line_feed :: string where
  "line_feed = [CHR 10]"

text \<open>The proof: its documents by file name, and the texts; the digest covers the core alone.\<close>

definition login_documents :: "login_proof \<Rightarrow> login_result \<Rightarrow> string \<Rightarrow> (nat \<Rightarrow> string) \<Rightarrow> (string \<times> dict) list" where
  "login_documents p r completed stamp =
     [(''core.json'', proof_core p r completed), (''request.json'', proof_request p r),
      (''response.json'', proof_response r), (''event_chain.json'', proof_events p stamp),
      (''identity_context.json'', proof_identity r), (''verification_result.json'', proof_verification r),
      (''correlation.json'', proof_correlation p completed)]"

definition login_texts ::
  "(dict \<Rightarrow> string) \<Rightarrow> login_proof \<Rightarrow> login_result \<Rightarrow> string \<Rightarrow> (string \<times> string) list" where
  "login_texts digest p r completed =
     [(''summary.md'', py_join line_feed (proof_summary_lines p r completed) @ line_feed),
      (''digest.txt'', ''sha256:'' @ digest (proof_core p r completed))]"

end
