(* ===== verification/Login_Command.thy ===== *)
theory Login_Command
  imports Auth_Login Command_Result Host_Identity Host_Attestations
begin

text \<open>
  \<open>keyhole login\<close> (\<open>keyhole_cli/commands/login.py\<close>): the choice of the flow from what is stored, the
  login, and the host identity check, over the credentials file, the host files and the proof
  directory of \<open>~/.keyhole\<close>.
\<close>

record login_world =
  lw_creds :: cred_file
  lw_home :: keyhole_home
  lw_proofs :: "(string \<times> dict) list"

text \<open>
  \<open>lg_identity\<close> is the stored \<open>identity_context.json\<close>, if it can be read; \<open>lg_policy_error\<close> and
  \<open>lg_proof_error\<close> are failures of the writes; \<open>lg_fromiso\<close>, \<open>lg_now\<close> and \<open>lg_stamp\<close> are the reading of
  a date, the current time and its text.
\<close>

record login_command_env =
  lg_login :: login_env
  lg_identity :: "json option"
  lg_policy_error :: "string option"
  lg_proof_error :: bool
  lg_fromiso :: "string \<Rightarrow> iso_time option"
  lg_now :: iso_time
  lg_stamp :: string
  lg_proof :: login_proof
  lg_completed :: string
  lg_stamps :: "nat \<Rightarrow> string"

record login_args =
  la_flow :: string
  la_force :: bool
  la_username :: string
  la_password :: string
  la_email :: string
  la_realm :: string
  la_allow_split :: bool
  la_flow_explicit :: bool
  la_cid :: string

section \<open>The flow\<close>

text \<open>A value that is no text ends the search through it.\<close>

definition email_of_identity :: "json option \<Rightarrow> string option" where
  "email_of_identity doc =
     (case doc of
        Some (JObj d) \<Rightarrow>
          (case json_get d ''email'' of
             JStr e \<Rightarrow>
               if e \<noteq> [] \<and> CHR ''@'' \<in> set e then Some e
               else (case dict_get_or d ''user_id'' (JStr []) of
                       JStr u \<Rightarrow> if u \<noteq> [] \<and> CHR ''@'' \<in> set u then Some u else None
                     | _ \<Rightarrow> None)
           | v \<Rightarrow>
               if json_truthy v then None
               else (case dict_get_or d ''user_id'' (JStr []) of
                       JStr u \<Rightarrow> if u \<noteq> [] \<and> CHR ''@'' \<in> set u then Some u else None
                     | _ \<Rightarrow> None))
      | _ \<Rightarrow> None)"

text \<open>
  The identity of the last proof bundle is the only source: the principal hint that should come
  after it is read by \<open>load_principal_hint\<close>, which the module does not import, and the \<open>NameError\<close> of
  that call is passed over like any other exception.
\<close>

definition recover_email :: "login_command_env \<Rightarrow> string option" where
  "recover_email g = email_of_identity (lg_identity g)"

definition stored_session :: "login_env \<Rightarrow> cred_file \<Rightarrow> auth_session option raised" where
  "stored_session env file = load_session (ln_models env) (ln_clock env 0) file"

definition auto_detect_flow ::
  "login_command_env \<Rightarrow> login_world \<Rightarrow> auth_flow_type \<Rightarrow> string \<Rightarrow> auth_flow_type \<times> string" where
  "auto_detect_flow g w flow email =
     (case stored_session (lg_login g) (lw_creds w) of
        Returned (Some s) \<Rightarrow>
          if ss_flow_type s = FLOW_PASSWORDLESS then
            (case (if email \<noteq> [] then Some email else recover_email g) of
               Some e \<Rightarrow> (FLOW_PASSWORDLESS, e)
             | None \<Rightarrow> (flow, email))
          else (flow, email)
      | _ \<Rightarrow> (flow, email))"

section \<open>Host identity check\<close>

definition cli_principal_of :: "whoami_response \<Rightarrow> string" where
  "cli_principal_of w =
     (let text = (\<lambda>v. case v of None \<Rightarrow> [] | Some s \<Rightarrow> s)
      in str_or (text (wr_display_name w)) (str_or (text (wr_email w)) (text (wr_user_id w))))"

definition split_policy :: "login_command_env \<Rightarrow> string \<Rightarrow> attestation list \<Rightarrow> identity_override" where
  "split_policy g who conflicting =
     \<lparr>io_override_type = ''allow_split_identity'', io_created_at = lg_stamp g,
      io_target_principal = who,
      io_conflicting_host_principal = (case conflicting of [] \<Rightarrow> [] | a # _ \<Rightarrow> at_effective_principal a),
      io_host_kind = (case conflicting of [] \<Rightarrow> ''unknown'' | a # _ \<Rightarrow> at_host_kind a),
      io_reason = ''User explicitly allowed split identity via --allow-split-identity'',
      io_expiry = None\<rparr>"

definition conflict_result :: "string \<Rightarrow> coherence_result \<Rightarrow> cli_result" where
  "conflict_result who co =
     command_result_of ''login'' False exit_failure
       [(''error_class'', JStr ''host_identity_conflict''),
        (''verdict'', JStr ''REJECT_HOST_CONFLICT''),
        (''cli_principal'', JStr who),
        (''conflicting_hosts'', JList (map (\<lambda>a. JObj
           [(''host_kind'', JStr (at_host_kind a)),
            (''effective_principal'', JStr (at_effective_principal a))]) (co_conflicting co)))]
       (co_fix_steps co) (co_description co)"

definition check_host_coherence ::
  "login_command_env \<Rightarrow> bool \<Rightarrow> login_result \<Rightarrow> keyhole_home \<Rightarrow> cli_result option \<times> keyhole_home" where
  "check_host_coherence g allow r home =
     (case li_whoami r of
        None \<Rightarrow> (None, home)
      | Some w \<Rightarrow>
          (let who = cli_principal_of w; ats = load_attestations home;
               co = classify_coherence (lg_fromiso g) (lg_now g) who ats (load_identity_policy home)
           in if who = [] \<or> ats = [] then (None, home)
              else if co_verdict co = REJECT_HOST_CONFLICT then
                (if allow then
                   (None, snd (save_identity_policy (lg_policy_error g) (split_policy g who (co_conflicting co)) home))
                 else (Some (conflict_result who co), home))
              else (None, home)))"

section \<open>Results\<close>

definition login_success_result :: "login_result \<Rightarrow> string \<Rightarrow> string \<Rightarrow> cli_result" where
  "login_success_result r cid auth_path =
     (let base =
            [(''correlation_id'', JStr cid),
             (''flow_type'', opt_str_json (map_option flow_type_value (li_flow r))),
             (''mode'', opt_str_json (map_option auth_mode_value (li_mode r))),
             (''auth_path'', JStr auth_path), (''credential_persisted'', JBool (li_persisted r)),
             (''verification_passed'', JBool (li_verified r))];
          identity = (case li_whoami r of
             None \<Rightarrow> []
           | Some w \<Rightarrow>
               [(''user_id'', opt_str_json (wr_user_id w)), (''tenant_id'', opt_str_json (wr_tenant_id w)),
                (''org_id'', opt_str_json (wr_org_id w)), (''display_name'', opt_str_json (wr_display_name w)),
                (''actor_envelope_present'', JBool (wr_actor_envelope w \<noteq> None))]);
          warnings = (case li_whoami r of
             None \<Rightarrow> []
           | Some w \<Rightarrow>
               if wr_actor_envelope w = None then
                 [''actor_envelope_missing: server did not include actor_envelope in /whoami '' @
                  ''(SDK-SERVER-29 not yet active?).'']
               else [])
      in (command_result_of ''login'' True exit_success (base @ identity)
            [''Run '' @ quoted ''keyhole whoami'' @ '' to inspect your identity.'',
             ''Run '' @ quoted ''keyhole init vertical'' @ '' to scaffold a governed repository.'',
             ''Run '' @ quoted ''keyhole ingest .'' @ '' to analyze an existing repository.'']
            (''Logged in successfully (mode: '' @
             (case li_mode r of None \<Rightarrow> ''unknown'' | Some m \<Rightarrow> auth_mode_value m) @ '')''))
         \<lparr>cm_warnings := warnings\<rparr>)"

definition account_error_classes :: "string list" where
  "account_error_classes =
     [''login_denied'', ''invalid_token'', ''expired_challenge'', ''whoami_verification_error'',
      ''incomplete_identity'']"

definition register_hint :: string where
  "register_hint =
     ''No account yet? Register first: keyhole register --email you@example.com '' @
     ''--username yourname --display-name '' @ quoted ''Your Name''"

definition login_failure_result :: "login_result \<Rightarrow> string \<Rightarrow> cli_result" where
  "login_failure_result r cid =
     (let steps = (if li_repair r \<noteq> [] then li_repair r else [''Retry: keyhole login'']);
          account = (case li_error_class r of None \<Rightarrow> False | Some c \<Rightarrow> c \<in> set account_error_classes)
      in command_result_of ''login'' False exit_failure
           [(''correlation_id'', JStr cid), (''error_class'', opt_str_json (li_error_class r)),
            (''credential_persisted'', JBool (li_persisted r)),
            (''verification_passed'', JBool (li_verified r))]
           (if account \<and> register_hint \<notin> set steps then steps @ [register_hint] else steps)
           (case li_error_message r of None \<Rightarrow> ''Login failed'' | Some m \<Rightarrow> str_or m ''Login failed''))"

definition unknown_flow_result :: "string \<Rightarrow> cli_result" where
  "unknown_flow_result flow =
     command_result_of ''login'' False exit_failure
       [(''error_class'', JStr ''invalid_flow_type''), (''flow'', JStr flow)]
       [''Use: keyhole login --flow device'',
        ''Or: keyhole login --flow passwordless --email you@example.com'']
       (''Unknown flow type: '' @ flow @ ''. Use '' @ quoted ''pkce'' @ '', '' @ quoted ''device'' @ '', '' @
        quoted ''password'' @ '', or '' @ quoted ''passwordless'' @ ''.'')"

section \<open>The command\<close>

definition login_request_of ::
  "login_args \<Rightarrow> auth_flow_type \<Rightarrow> string \<Rightarrow> login_request" where
  "login_request_of a flow email =
     \<lparr>lq_flow = flow, lq_force = la_force a, lq_cid = la_cid a, lq_username = la_username a,
      lq_password = la_password a, lq_email = email, lq_realm = la_realm a\<rparr>"

definition chosen_flow ::
  "login_command_env \<Rightarrow> login_args \<Rightarrow> login_world \<Rightarrow> auth_flow_type \<Rightarrow> auth_flow_type \<times> string" where
  "chosen_flow g a w flow =
     (if \<not> la_flow_explicit a \<and> flow = FLOW_DEVICE
      then auto_detect_flow g w flow (la_email a) else (flow, la_email a))"

definition write_login_proof :: "login_command_env \<Rightarrow> login_result \<Rightarrow> login_world \<Rightarrow> login_world" where
  "write_login_proof g r w =
     (if lg_proof_error g then w
      else w\<lparr>lw_proofs := login_documents (lg_proof g) r (lg_completed g) (lg_stamps g)\<rparr>)"

definition finish_login ::
  "login_command_env \<Rightarrow> login_args \<Rightarrow> login_result \<Rightarrow> login_world \<Rightarrow> cli_result \<times> login_world" where
  "finish_login g a r w =
     (if \<not> li_success r then (login_failure_result r (la_cid a), w)
      else
        (case check_host_coherence g (la_allow_split a) r (lw_home w) of
           (Some blocked, home) \<Rightarrow> (blocked, w\<lparr>lw_home := home\<rparr>)
         | (None, home) \<Rightarrow>
             (login_success_result r (la_cid a)
                (if \<not> la_force a \<and> li_persisted r then ''session_reuse'' else ''device_flow''),
              write_login_proof g r (w\<lparr>lw_home := home\<rparr>))))"

text \<open>Without an explicit flow the stored session is read once more, for a notice.\<close>

definition run_login ::
  "login_command_env \<Rightarrow> login_args \<Rightarrow> login_world \<Rightarrow> cli_result raised \<times> login_world" where
  "run_login g a w =
     (case flow_type_of (py_lower (la_flow a)) of
        None \<Rightarrow> (Returned (unknown_flow_result (la_flow a)), w)
      | Some flow0 \<Rightarrow>
          (let (flow, email) = chosen_flow g a w flow0
           in case (if la_flow_explicit a then Returned None else stored_session (lg_login g) (lw_creds w)) of
                AuthRaised e \<Rightarrow> (AuthRaised e, w)
              | Crashed c \<Rightarrow> (Crashed c, w)
              | Blocked \<Rightarrow> (Blocked, w)
              | Returned _ \<Rightarrow>
                  (case login (lg_login g) (login_request_of a flow email) (lw_creds w) of
                     (Returned r, creds) \<Rightarrow>
                       (let (res, w') = finish_login g a r (w\<lparr>lw_creds := creds\<rparr>) in (Returned res, w'))
                   | (AuthRaised e, creds) \<Rightarrow> (AuthRaised e, w\<lparr>lw_creds := creds\<rparr>)
                   | (Crashed c, creds) \<Rightarrow> (Crashed c, w\<lparr>lw_creds := creds\<rparr>)
                   | (Blocked, creds) \<Rightarrow> (Blocked, w\<lparr>lw_creds := creds\<rparr>))))"

end
