(* ===== verification/Login_Properties.thy ===== *)
theory Login_Properties
  imports Login_Command
begin

text \<open>
  What the login and the renewal of its token promise: what is stored was verified, a failed login
  changes nothing, what is stored reads back, and which logins come to an end.
\<close>

section \<open>The store\<close>

definition stored_as :: "login_env \<Rightarrow> auth_session \<Rightarrow> cred_file" where
  "stored_as env s = FileJson (JObj (session_to_dict (me_iso (ln_models env)) (ln_naive_iso env) s))"

lemma write_session_cases:
  "write_session env k s file = (Returned (), stored_as env s) \<or>
   (\<exists>e. write_session env k s file = (AuthRaised e, file))"
  by (cases "se_dir (ln_save env k)"; cases "se_write (ln_save env k)")
    (auto simp: write_session_def save_session_def stored_as_def)

definition session_times :: "auth_session \<Rightarrow> py_time list" where
  "session_times s =
     [ss_created_at s] @ (case ss_expires_at s of None \<Rightarrow> [] | Some t \<Rightarrow> [t]) @
     (case ss_last_verified_at s of None \<Rightarrow> [] | Some t \<Rightarrow> [t])"

lemma flow_type_of_value [simp]: "flow_type_of (flow_type_value f) = Some f"
  by (cases f) (simp_all add: flow_type_of_def)

lemma auth_mode_of_value [simp]: "auth_mode_of (auth_mode_value m) = Some m"
  by (cases m) (simp_all add: auth_mode_of_def)

lemma session_dict_roundtrip:
  assumes "\<forall>t\<in>set (session_times s). me_time me (time_json zone_iso naive_iso t) = Some t"
  shows "session_of_dict me now (session_to_dict zone_iso naive_iso s) = Some s"
proof -
  have opt: "(case opt_time_json zone_iso naive_iso t of
        JNull \<Rightarrow> Some None | v \<Rightarrow> map_option Some (me_time me v)) = Some t"
    if "\<forall>x. t = Some x \<longrightarrow> me_time me (time_json zone_iso naive_iso x) = Some x" for t
    using that by (cases t) (auto simp: opt_time_json_def time_json_def)
  have "me_time me (time_json zone_iso naive_iso (ss_created_at s)) = Some (ss_created_at s)"
    using assms by (simp add: session_times_def)
  moreover have "\<forall>x. ss_expires_at s = Some x \<longrightarrow> me_time me (time_json zone_iso naive_iso x) = Some x"
    using assms by (auto simp: session_times_def)
  moreover have "\<forall>x. ss_last_verified_at s = Some x \<longrightarrow> me_time me (time_json zone_iso naive_iso x) = Some x"
    using assms by (auto simp: session_times_def)
  ultimately show ?thesis
    by (simp add: session_of_dict_def session_to_dict_def str_field_def opt_str_field_def opt_time_field_def
        dict_get_Cons opt)
qed

section \<open>The login\<close>

lemma reuse_session_cases:
  assumes "reuse_session env req file = (out, file')"
  obtains r s w where "out = Returned (Some r)" "r = login_success (ss_flow_type s) w (lq_cid req)"
      "whoami_of_reply (ln_schema_error env) (ln_whoami env 0 (ss_access_token s)) = Returned w"
      "missing_identity w = []" "ss_mode s = wr_mode w" "file' = stored_as env s"
  | "\<forall>r. out \<noteq> Returned (Some r)" "file' = file"
proof -
  consider (no) "\<forall>r. out \<noteq> Returned (Some r)" "file' = file"
    | (yes) s w where "whoami_of_reply (ln_schema_error env) (ln_whoami env 0 (ss_access_token s)) = Returned w"
      "missing_identity w = []"
      "(out, file') = (case write_session env 0 (verified_session (ln_clock env 1) w s) file of
          (Returned _, file') \<Rightarrow> (Returned (Some (login_success (ss_flow_type s) w (lq_cid req))), file')
        | (_, file') \<Rightarrow> (Returned None, file'))"
    using assms by (auto simp: reuse_session_def split: if_splits raised.splits option.splits bool.splits)
  then show thesis
  proof cases
    case no
    then show ?thesis by (rule that(2))
  next
    case yes
    let ?s = "verified_session (ln_clock env 1) w s"
    from write_session_cases [of env 0 ?s "file"] show ?thesis
    proof
      assume "write_session env 0 ?s file = (Returned (), stored_as env ?s)"
      with yes(3) have "out = Returned (Some (login_success (ss_flow_type s) w (lq_cid req)))"
        and "file' = stored_as env ?s"
        by simp_all
      with yes(1,2) that(1) [OF _ refl, of ?s w] show ?thesis
        by (simp add: verified_session_def)
    next
      assume "\<exists>e. write_session env 0 ?s file = (AuthRaised e, file)"
      with yes(3) that(2) show ?thesis by auto
    qed
  qed
qed

lemma confirm_session_cases:
  assumes "confirm_session env req s file = (out, file')"
  obtains w where "out = Returned (login_success (lq_flow req) w (lq_cid req))"
      "whoami_of_reply (ln_schema_error env) (ln_whoami env 1 (ss_access_token s)) = Returned w"
      "missing_identity w = []" "file' = stored_as env (verified_session (ln_clock env 4) w s)"
  | b e where "out = Returned (login_failure (lq_flow req) (lq_cid req) b e)" "file' = file"
  | "\<forall>r. out \<noteq> Returned r" "file' = file"
proof (cases "whoami_of_reply (ln_schema_error env) (ln_whoami env 1 (ss_access_token s))")
  case (Returned w)
  show ?thesis
  proof (cases "missing_identity w = []")
    case True
    then show ?thesis
      using assms Returned that write_session_cases [of env 1 "verified_session (ln_clock env 4) w s" "file"]
      by (auto simp: confirm_session_def)
  next
    case False
    then show ?thesis using assms Returned that by (auto simp: confirm_session_def)
  qed
qed (use assms that in \<open>auto simp: confirm_session_def\<close>)

lemma fresh_login_cases:
  assumes "fresh_login env req file = (out, file')"
  obtains s w where "out = Returned (login_success (lq_flow req) w (lq_cid req))"
      "whoami_of_reply (ln_schema_error env) (ln_whoami env 1 (ss_access_token s)) = Returned w"
      "missing_identity w = []" "ss_mode s = wr_mode w" "file' = stored_as env s"
  | b e where "out = Returned (login_failure (lq_flow req) (lq_cid req) b e)" "file' = file"
  | "\<forall>r. out \<noteq> Returned r" "file' = file"
proof -
  consider (confirm) s where "confirm_session env req s file = (out, file')"
    | (fail) e where "out = Returned (login_failure (lq_flow req) (lq_cid req) False e)" "file' = file"
    | (none) "\<forall>r. out \<noteq> Returned r" "file' = file"
    using assms by (auto simp: fresh_login_def split: raised.splits)
  then show thesis
  proof cases
    case (confirm s)
    then show ?thesis
    proof (cases rule: confirm_session_cases)
      case (1 w)
      then show ?thesis
        using that(1) [of w "verified_session (ln_clock env 4) w s"] by (auto simp: verified_session_def)
    qed (use that in auto)
  qed (use that in auto)
qed

lemma login_cases:
  assumes "login env req file = (out, file')"
  obtains flow w k s where "out = Returned (login_success flow w (lq_cid req))"
      "whoami_of_reply (ln_schema_error env) (ln_whoami env k (ss_access_token s)) = Returned w"
      "missing_identity w = []" "ss_mode s = wr_mode w" "file' = stored_as env s"
  | b e where "out = Returned (login_failure (lq_flow req) (lq_cid req) b e)" "file' = file"
  | "\<forall>r. out \<noteq> Returned r" "file' = file"
proof -
  obtain out1 file1 where reuse: "reuse_session env req file = (out1, file1)" by fastforce
  then show thesis
  proof (cases rule: reuse_session_cases)
    case (1 r s w)
    then have "out = Returned (login_success (ss_flow_type s) w (lq_cid req))" "file' = stored_as env s"
      using assms reuse by (simp_all add: login_def)
    then show ?thesis
      using 1 that(1) by blast
  next
    case 2
    then consider "fresh_login env req file = (out, file')" | "\<forall>r. out \<noteq> Returned r" "file' = file"
      using assms reuse by (auto simp: login_def split: raised.splits option.splits)
    then show ?thesis
    proof cases
      case 1
      then show ?thesis
        by (cases rule: fresh_login_cases) (use that in blast)+
    qed (rule that(3))
  qed
qed

lemma confirmed_field:
  "dict_get (proof_verification r) ''governed_identity_confirmed'' =
     Some (JBool (li_success r \<and> li_verified r \<and> li_whoami r \<noteq> None))"
  by (simp add: proof_verification_def dict_get_Cons)

section \<open>A login to evaluate\<close>

definition plain_models :: model_env where
  "plain_models =
     \<lparr>me_int = py_int,
      me_time = (\<lambda>v. case v of JStr s \<Rightarrow> map_option (\<lambda>n. Zoned (of_int n)) (int_of_string s) | _ \<Rightarrow> None),
      me_iso = (\<lambda>t. str_int \<lfloor>t\<rfloor>), me_decode = (\<lambda>s. None)\<rparr>"

definition sample_token :: json where
  "sample_token =
     JObj [(''access_token'', JStr ''tok''), (''expires_in'', JInt 300), (''refresh_token'', JStr ''rt'')]"

definition sample_device_code :: json where
  "sample_device_code =
     JObj [(''device_code'', JStr ''dc''), (''user_code'', JStr ''UC''), (''verification_uri'', JStr ''https://v''),
           (''interval'', JInt 5), (''expires_in'', JInt 60)]"

definition pending_reply :: http_reply where
  "pending_reply = Replied 400 [] (Some (JObj [(''error'', JStr ''authorization_pending'')]))"

definition sample_net :: auth_net where
  "sample_net =
     \<lparr>an_get = (\<lambda>url. Replied 200 [] (Some (JObj [(''token_endpoint'', JStr ''https://t'')]))),
      an_post = (\<lambda>k url form. if url = JStr ''https://t'' then (if k < 2 then pending_reply
                    else Replied 200 [] (Some sample_token))
                  else Replied 200 [] (Some sample_device_code)),
      an_post_json = (\<lambda>url body headers. NoConnection []), an_cost = (\<lambda>k. 1), an_repr = (\<lambda>v. [])\<rparr>"

definition sample_whoami :: http_reply where
  "sample_whoami =
     Replied 200 [] (Some (JObj [(''ok'', JBool True), (''data'', JObj
       [(''identity'', JObj [(''user_id'', JStr ''u1'')]),
        (''context_overlay'', JObj [(''governance_rules'', JObj [(''noncanonical'', JBool True)])])])]))"

definition sample_login :: login_env where
  "sample_login =
     \<lparr>ln_models = plain_models, ln_net = sample_net,
      ln_cfg = \<lparr>lc_auth_server = ''https://a/'', lc_client_id = ''keyhole-cli'', lc_mcp_base = ''https://m'',
                lc_scope = ''openid''\<rparr>,
      ln_pkce = \<lparr>pk_verifier = ''v'', pk_state = ''st'', pk_s256 = id, pk_browser_opens = True,
                 pk_port_free = True, pk_port = None, pk_targets = [''/callback?code=c&state=st'']\<rparr>,
      ln_has_url_callback = True, ln_prompt = None, ln_complete_key = ''k'', ln_password_enabled = False,
      ln_whoami = (\<lambda>k token. if token = ''tok'' then sample_whoami else Replied 401 [] None),
      ln_schema_error = (\<lambda>v. []), ln_clock = (\<lambda>k. 1000), ln_date_ok = (\<lambda>t. True),
      ln_naive_iso = (\<lambda>t. []), ln_save = (\<lambda>k. \<lparr>se_dir = None, se_write = None\<rparr>)\<rparr>"

definition sample_request :: "auth_flow_type \<Rightarrow> login_request" where
  "sample_request flow =
     \<lparr>lq_flow = flow, lq_force = True, lq_cid = ''cid'', lq_username = [], lq_password = [],
      lq_email = [], lq_realm = ''kh-prod''\<rparr>"

section \<open>Properties of the login\<close>

text \<open>
  C8: A login that succeeds has left a session whose own token the server resolved to a complete
  identity, with that identity's mode, and its proof says that the identity is confirmed; a login
  that ends in any other way, by a result or an exception, has left the credentials as they were,
  and its proof does not say so.
\<close>

theorem login_stores_verified:
  assumes "login env req file = (out, file')"
  shows "(\<exists>r k s w. out = Returned r \<and> li_success r \<and> li_whoami r = Some w \<and> li_mode r = Some (wr_mode w) \<and>
            whoami_of_reply (ln_schema_error env) (ln_whoami env k (ss_access_token s)) = Returned w \<and>
            missing_identity w = [] \<and> ss_mode s = wr_mode w \<and> file' = stored_as env s \<and>
            dict_get (proof_verification r) ''governed_identity_confirmed'' = Some (JBool True)) \<or>
         (file' = file \<and>
            (\<forall>r. out = Returned r \<longrightarrow> \<not> li_success r \<and> \<not> li_persisted r \<and> li_whoami r = None \<and>
              dict_get (proof_verification r) ''governed_identity_confirmed'' = Some (JBool False)))"
  using assms
proof (cases rule: login_cases)
  case (1 flow w k s)
  then show ?thesis
    by (intro disjI1 exI [of _ "login_success flow w (lq_cid req)"] exI [of _ k] exI [of _ s] exI [of _ w])
      (simp add: login_success_def confirmed_field)
qed (simp_all add: login_failure_def confirmed_field)

lemma login_stores_verified_witness:
  "let (out, file') = login sample_login (sample_request FLOW_DEVICE) FileAbsent
   in file' \<noteq> FileAbsent \<and> (case out of Returned r \<Rightarrow> li_success r \<and> li_mode r = Some MODE_SHADOW | _ \<Rightarrow> False)"
proof -
  have ok: "let (out, file') = login sample_login (sample_request FLOW_DEVICE) FileAbsent
   in file' \<noteq> FileAbsent \<and> (case out of Returned r \<Rightarrow> li_success r \<and> li_mode r = Some MODE_SHADOW | _ \<Rightarrow> False)"
    by code_simp
  show ?thesis
    using ok login_stores_verified [of sample_login "sample_request FLOW_DEVICE" FileAbsent] by (auto simp: Let_def)
qed

text \<open>The default login without a session to reuse goes the way of a forced one.\<close>

definition nothing_to_reuse :: "login_env \<Rightarrow> login_request \<Rightarrow> cred_file \<Rightarrow> bool" where
  "nothing_to_reuse env req file \<longleftrightarrow>
     lq_force req \<or> store_authenticated (ln_models env) (ln_clock env 0) file = Returned False"

lemma login_fresh: "nothing_to_reuse env req file \<Longrightarrow> login env req file = fresh_login env req file"
  by (auto simp: nothing_to_reuse_def login_def reuse_session_def)

text \<open>
  C18: A browser login whose page is shown and whose callback port is free never ends, whatever
  reaches the callback server: the server is waited for in a way that only its unused serving loop
  would end, though the description of that wait says that it returns the code, or raises when its
  time is up. The credentials stay as they are. The login is a forced one, or there is no stored
  session that is still valid and could be reused instead.
\<close>

theorem browser_login_blocks:
  assumes "lq_flow req = FLOW_PKCE" "nothing_to_reuse env req file" "pk_port_free (ln_pkce env)"
    and "pk_browser_opens (ln_pkce env) \<or> ln_has_url_callback env"
  shows "login env req file = (Blocked, file)"
proof -
  have "obtain_token env req = Blocked"
    using assms by (auto simp: obtain_token_def do_pkce_flow_def wait_blocks Let_def)
  then show ?thesis
    by (simp add: login_fresh [OF assms(2)] fresh_login_def)
qed

lemma browser_login_blocks_witness:
  "login sample_login (sample_request FLOW_PKCE\<lparr>lq_force := False\<rparr>) FileAbsent = (Blocked, FileAbsent)"
proof (rule browser_login_blocks)
  show "nothing_to_reuse sample_login (sample_request FLOW_PKCE\<lparr>lq_force := False\<rparr>) FileAbsent"
    by (simp add: nothing_to_reuse_def store_authenticated_def load_session_def)
qed (simp_all add: sample_login_def sample_request_def)

text \<open>
  What a write of a session leaves is what the next reader gets: the session itself, and signed
  in exactly until it expires, provided that the dates of the session are read back as written.
\<close>

theorem stored_session_reads_back:
  assumes "save_session (me_iso me) naive_iso errs s file = (Returned (), file')"
    and "\<forall>t\<in>set (session_times s). me_time me (time_json (me_iso me) naive_iso t) = Some t"
    and "ss_expires_at s = None \<or> (\<exists>t. ss_expires_at s = Some (Zoned t))"
  shows "load_session me now file' = Returned (Some s) \<and>
    (\<exists>b. store_authenticated me now file' = Returned b \<and>
       (b \<longleftrightarrow> (\<forall>t. ss_expires_at s = Some (Zoned t) \<longrightarrow> now < t)))"
proof -
  have file': "file' = FileJson (JObj (session_to_dict (me_iso me) naive_iso s))"
    using assms(1) by (auto simp: save_session_def split: option.splits)
  then have load: "load_session me now file' = Returned (Some s)"
    using session_dict_roundtrip [OF assms(2)] by (simp add: load_session_def)
  then show ?thesis
    using assms(3) by (auto simp: store_authenticated_def session_expired_def or_crash_def)
qed

lemma stored_session_reads_back_witness:
  "let s = \<lparr>ss_access_token = ''tok'', ss_token_type = ''Bearer'', ss_refresh_token = Some ''rt'',
       ss_expires_at = Some (Zoned 1300), ss_scope = None, ss_flow_type = FLOW_DEVICE,
       ss_mode = MODE_SHADOW, ss_realm = default_realm, ss_auth_server_url = None,
       ss_created_at = Zoned 1000, ss_last_verified_at = None\<rparr>
   in load_session plain_models 1200 (FileJson (JObj (session_to_dict (me_iso plain_models) (\<lambda>t. []) s))) =
        Returned (Some s)"
proof -
  let ?s = "\<lparr>ss_access_token = ''tok'', ss_token_type = ''Bearer'', ss_refresh_token = Some ''rt'',
       ss_expires_at = Some (Zoned 1300), ss_scope = None, ss_flow_type = FLOW_DEVICE,
       ss_mode = MODE_SHADOW, ss_realm = default_realm, ss_auth_server_url = None,
       ss_created_at = Zoned 1000, ss_last_verified_at = None\<rparr>"
  have times: "list_all (\<lambda>t. me_time plain_models (time_json (me_iso plain_models) (\<lambda>t. []) t) = Some t)
      (session_times ?s)"
    by code_simp
  have save: "save_session (me_iso plain_models) (\<lambda>t. []) \<lparr>se_dir = None, se_write = None\<rparr> ?s FileAbsent =
      (Returned (), FileJson (JObj (session_to_dict (me_iso plain_models) (\<lambda>t. []) ?s)))"
    by (simp add: save_session_def)
  from stored_session_reads_back [OF save, of 1200] times show ?thesis
    by (simp add: list_all_iff)
qed

section \<open>Logins that complete\<close>








end
