(* ===== verification/Login_Command_Properties.thy ===== *)
theory Login_Command_Properties
  imports Login_Properties
begin

text \<open>
  The renewal of the stored token, and what \<open>keyhole login\<close> leaves behind: when it refuses, what its
  result says of the way it signed in, and the recovery of an email address.
\<close>

section \<open>Renewal\<close>

definition renewal_keys :: "string set" where
  "renewal_keys = {''access_token'', ''token_type'', ''expires_at'', ''refresh_token''}"

definition stored_token :: "dict \<Rightarrow> json" where
  "stored_token creds = dict_get_or creds ''access_token'' (JStr [])"

lemma dict_get_dict_set: "dict_get (dict_set k v d) k' = (if k' = k then Some v else dict_get d k')"
  by (simp add: dict_get_def dict_set_def update_conv')

lemma refreshed_creds_Returned:
  assumes "refreshed_creds env data creds = Returned creds'"
  obtains t e where "dict_get data ''access_token'' = Some t"
    "fr_later env (dict_get_or data ''expires_in'' (JInt 300)) = Some e"
    "\<And>k. dict_get creds' k =
       (if k = ''access_token'' then Some t
        else if k = ''token_type'' then Some (dict_get_or data ''token_type'' (JStr ''Bearer''))
        else if k = ''expires_at'' then Some (JStr e)
        else if k = ''refresh_token'' \<and> dict_get data ''refresh_token'' \<noteq> None then dict_get data ''refresh_token''
        else dict_get creds k)"
  using assms
  by (cases "dict_get data ''refresh_token''")
    (auto simp: refreshed_creds_def Let_def dict_get_dict_set split: option.splits)

lemma do_refresh_Returned:
  assumes "do_refresh env creds = Returned creds'"
  obtains server status data where "dict_get_or creds ''auth_server_url'' (JStr default_auth_server) = JStr server"
    "fr_post env (py_rstrip_char CHR ''/'' server @ token_suffix)
       [(''grant_type'', JStr ''refresh_token''), (''client_id'', JStr (fr_client_id env)),
        (''refresh_token'', json_get creds ''refresh_token'')] = RefreshAnswer status (Some (JObj data))"
    "\<not> (400 \<le> status \<and> status < 600)" "refreshed_creds env data creds = Returned creds'"
  using assms
  by (auto simp: do_refresh_def split: json.splits refresh_answer.splits option.splits if_splits)

lemma get_fresh_token_cases:
  assumes "get_fresh_token me env file = (out, file')"
  obtains creds where "file = FileJson (JObj creds)" "token_is_valid me (fr_now env) (stored_token creds)"
      "out = Returned (stored_token creds)" "file' = file"
  | creds creds' where "file = FileJson (JObj creds)" "\<not> token_is_valid me (fr_now env) (stored_token creds)"
      "json_truthy (json_get creds ''refresh_token'')" "do_refresh env creds = Returned creds'"
      "out = Returned (json_get creds' ''access_token'')" "file' = FileJson (JObj creds')"
  | "\<forall>t. out \<noteq> Returned t" "file' = file"
  using assms
  by (auto simp: get_fresh_token_def stored_token_def Let_def
      split: cred_file.splits json.splits if_splits raised.splits option.splits)

text \<open>
  C35: The token handed out is the stored one, when it has more than a minute left, and then nothing
  is written; or it is the one that the renewal answered, and then the file differs from before only
  in the token, its type, its expiry and the refresh token, which is the one of the answer when the
  answer has one. When no token is handed out the file is as before.
\<close>

theorem fresh_token_exact:
  assumes "get_fresh_token me env file = (out, file')"
  shows "(\<exists>creds. file = FileJson (JObj creds) \<and> token_is_valid me (fr_now env) (stored_token creds) \<and>
            out = Returned (stored_token creds) \<and> file' = file) \<or>
         (\<exists>creds creds' data t url form status. file = FileJson (JObj creds) \<and>
            \<not> token_is_valid me (fr_now env) (stored_token creds) \<and>
            (''refresh_token'', json_get creds ''refresh_token'') \<in> set form \<and>
            fr_post env url form = RefreshAnswer status (Some (JObj data)) \<and>
            dict_get data ''access_token'' = Some t \<and> out = Returned t \<and>
            file' = FileJson (JObj creds') \<and> dict_get creds' ''access_token'' = Some t \<and>
            (\<forall>k. k \<notin> renewal_keys \<longrightarrow> dict_get creds' k = dict_get creds k) \<and>
            dict_get creds' ''refresh_token'' =
              (case dict_get data ''refresh_token'' of Some r \<Rightarrow> Some r | None \<Rightarrow> dict_get creds ''refresh_token'')) \<or>
         ((\<forall>t. out \<noteq> Returned t) \<and> file' = file)"
  using assms
proof (cases rule: get_fresh_token_cases)
  case (2 creds creds')
  from 2(4) obtain server status data where post:
    "fr_post env (py_rstrip_char CHR ''/'' server @ token_suffix)
       [(''grant_type'', JStr ''refresh_token''), (''client_id'', JStr (fr_client_id env)),
        (''refresh_token'', json_get creds ''refresh_token'')] = RefreshAnswer status (Some (JObj data))"
    and new: "refreshed_creds env data creds = Returned creds'"
    by (rule do_refresh_Returned)
  from new obtain t e where t: "dict_get data ''access_token'' = Some t"
    and get: "\<And>k. dict_get creds' k =
       (if k = ''access_token'' then Some t
        else if k = ''token_type'' then Some (dict_get_or data ''token_type'' (JStr ''Bearer''))
        else if k = ''expires_at'' then Some (JStr e)
        else if k = ''refresh_token'' \<and> dict_get data ''refresh_token'' \<noteq> None then dict_get data ''refresh_token''
        else dict_get creds k)"
    by (rule refreshed_creds_Returned) blast
  have "out = Returned t"
    using 2(5) get [of "''access_token''"] by (simp add: json_get_def dict_get_or_def)
  moreover have "\<forall>k. k \<notin> renewal_keys \<longrightarrow> dict_get creds' k = dict_get creds k"
    by (simp add: get renewal_keys_def)
  moreover have "dict_get creds' ''refresh_token'' =
      (case dict_get data ''refresh_token'' of Some r \<Rightarrow> Some r | None \<Rightarrow> dict_get creds ''refresh_token'')"
    by (auto simp: get split: option.splits)
  moreover have "(''refresh_token'', json_get creds ''refresh_token'') \<in> set
      [(''grant_type'', JStr ''refresh_token''), (''client_id'', JStr (fr_client_id env)),
        (''refresh_token'', json_get creds ''refresh_token'')]"
    by simp
  moreover have "dict_get creds' ''access_token'' = Some t"
    by (simp add: get)
  ultimately have "\<exists>url form status. file = FileJson (JObj creds) \<and>
      \<not> token_is_valid me (fr_now env) (stored_token creds) \<and>
      (''refresh_token'', json_get creds ''refresh_token'') \<in> set form \<and>
      fr_post env url form = RefreshAnswer status (Some (JObj data)) \<and>
      dict_get data ''access_token'' = Some t \<and> out = Returned t \<and>
      file' = FileJson (JObj creds') \<and> dict_get creds' ''access_token'' = Some t \<and>
      (\<forall>k. k \<notin> renewal_keys \<longrightarrow> dict_get creds' k = dict_get creds k) \<and>
      dict_get creds' ''refresh_token'' =
        (case dict_get data ''refresh_token'' of Some r \<Rightarrow> Some r | None \<Rightarrow> dict_get creds ''refresh_token'')"
    using 2(1,2,6) post t
    by (intro exI [of _ "py_rstrip_char CHR ''/'' server @ token_suffix"]
        exI [of _ "[(''grant_type'', JStr ''refresh_token''), (''client_id'', JStr (fr_client_id env)),
          (''refresh_token'', json_get creds ''refresh_token'')]"] exI [of _ status] conjI) assumption+
  then show ?thesis by blast
qed blast+

definition sample_refresh :: refresh_env where
  "sample_refresh =
     \<lparr>fr_now = 5000, fr_client_id = ''keyhole-cli'',
      fr_post = (\<lambda>url form. RefreshAnswer 200 (Some (JObj
        [(''access_token'', JStr ''new''), (''expires_in'', JInt 300), (''refresh_token'', JStr ''rt2'')]))),
      fr_later = (\<lambda>v. Some ''5300''), fr_save_error = None\<rparr>"

lemma fresh_token_exact_witness:
  "let (out, file') = get_fresh_token plain_models sample_refresh
         (FileJson (JObj [(''access_token'', JStr ''a.b.c''), (''refresh_token'', JStr ''rt'')]))
   in out = Returned (JStr ''new'') \<and>
      file' = FileJson (JObj [(''access_token'', JStr ''new''), (''refresh_token'', JStr ''rt2''),
         (''token_type'', JStr ''Bearer''), (''expires_at'', JStr ''5300'')])"
proof -
  have run: "get_fresh_token plain_models sample_refresh
         (FileJson (JObj [(''access_token'', JStr ''a.b.c''), (''refresh_token'', JStr ''rt'')])) =
     (Returned (JStr ''new''), FileJson (JObj [(''access_token'', JStr ''new''), (''refresh_token'', JStr ''rt2''),
         (''token_type'', JStr ''Bearer''), (''expires_at'', JStr ''5300'')]))"
    by code_simp
  from fresh_token_exact [OF this] show ?thesis using run by simp
qed

text \<open>
  A renewed file is still a session: when the stored file was one, the answer is a token
  response and the date written is read back, the file loads as the same session with the new token,
  type and expiry, and with the refresh token of the answer when the answer names one.
\<close>

theorem renewed_file_is_session:
  assumes "session_of_dict me now creds = Some s"
    and "refreshed_creds env data creds = Returned creds'"
    and "token_response_of me (JObj data) = Some tr"
    and "\<forall>e. fr_later env (dict_get_or data ''expires_in'' (JInt 300)) = Some e \<longrightarrow> me_time me (JStr e) = Some t"
  shows "session_of_dict me now creds' =
    Some (s\<lparr>ss_access_token := tr_access_token tr, ss_token_type := tr_token_type tr,
            ss_expires_at := Some t,
            ss_refresh_token := (if dict_get data ''refresh_token'' = None then ss_refresh_token s
                                 else tr_refresh_token tr)\<rparr>)"
proof -
  from assms(2) obtain tok e where tok: "dict_get data ''access_token'' = Some tok"
    and e: "fr_later env (dict_get_or data ''expires_in'' (JInt 300)) = Some e"
    and get: "\<And>k. dict_get creds' k =
       (if k = ''access_token'' then Some tok
        else if k = ''token_type'' then Some (dict_get_or data ''token_type'' (JStr ''Bearer''))
        else if k = ''expires_at'' then Some (JStr e)
        else if k = ''refresh_token'' \<and> dict_get data ''refresh_token'' \<noteq> None then dict_get data ''refresh_token''
        else dict_get creds k)"
    by (rule refreshed_creds_Returned) blast
  have access: "str_field creds' ''access_token'' None = Some (tr_access_token tr)"
    using assms(3) tok
    by (auto simp: token_response_of_def str_field_def get Option.bind_eq_Some_conv split: json.splits)
  have token_kind: "str_field creds' ''token_type'' (Some ''Bearer'') = Some (tr_token_type tr)"
    using assms(3)
    by (auto simp: token_response_of_def str_field_def get dict_get_or_def Option.bind_eq_Some_conv
        split: json.splits option.splits)
  have refresh: "opt_str_field creds' ''refresh_token'' =
      Some (if dict_get data ''refresh_token'' = None then ss_refresh_token s else tr_refresh_token tr)"
    using assms(1,3)
    by (auto simp: token_response_of_def session_of_dict_def opt_str_field_def get Option.bind_eq_Some_conv)
  have expires: "opt_time_field me creds' ''expires_at'' = Some (Some t)"
    using assms(4) e by (simp add: opt_time_field_def get)
  have rest: "str_field creds' k v = str_field creds k v" "opt_str_field creds' k = opt_str_field creds k"
    "dict_get creds' k = dict_get creds k" "opt_time_field me creds' k = opt_time_field me creds k"
    if "k \<in> {''scope'', ''flow_type'', ''mode'', ''realm'', ''auth_server_url'', ''created_at'', ''last_verified_at''}" for k v
    using that by (auto simp: str_field_def opt_str_field_def opt_time_field_def get)
  from assms(1) show ?thesis
    by (auto simp: session_of_dict_def access token_kind refresh expires rest Option.bind_eq_Some_conv)
qed

lemma renewed_file_is_session_witness:
  "let creds = session_to_dict (me_iso plain_models) (\<lambda>t. [])
         \<lparr>ss_access_token = ''old'', ss_token_type = ''Bearer'', ss_refresh_token = Some ''rt'',
          ss_expires_at = Some (Zoned 1300), ss_scope = None, ss_flow_type = FLOW_PASSWORDLESS,
          ss_mode = MODE_SHADOW, ss_realm = default_realm, ss_auth_server_url = None,
          ss_created_at = Zoned 1000, ss_last_verified_at = None\<rparr>
   in \<exists>creds' s. refreshed_creds sample_refresh [(''access_token'', JStr ''new'')] creds = Returned creds' \<and>
      session_of_dict plain_models 0 creds' = Some s \<and> ss_access_token s = ''new'' \<and>
      ss_refresh_token s = Some ''rt'' \<and> ss_mode s = MODE_SHADOW \<and> ss_expires_at s = Some (Zoned 5300)"
proof -
  let ?s = "\<lparr>ss_access_token = ''old'', ss_token_type = ''Bearer'', ss_refresh_token = Some ''rt'',
          ss_expires_at = Some (Zoned 1300), ss_scope = None, ss_flow_type = FLOW_PASSWORDLESS,
          ss_mode = MODE_SHADOW, ss_realm = default_realm, ss_auth_server_url = None,
          ss_created_at = Zoned 1000, ss_last_verified_at = None\<rparr>"
  let ?creds = "session_to_dict (me_iso plain_models) (\<lambda>t. []) ?s"
  let ?tr = "\<lparr>tr_access_token = ''new'', tr_token_type = ''Bearer'', tr_expires_in = None,
    tr_refresh_token = None, tr_scope = None, tr_id_token = None\<rparr>"
  have old: "session_of_dict plain_models 0 ?creds = Some ?s" by code_simp
  have tr: "token_response_of plain_models (JObj [(''access_token'', JStr ''new'')]) = Some ?tr" by code_simp
  have read: "me_time plain_models (JStr ''5300'') = Some (Zoned 5300)" by code_simp
  obtain creds' where new: "refreshed_creds sample_refresh [(''access_token'', JStr ''new'')] ?creds = Returned creds'"
    by (simp add: refreshed_creds_def sample_refresh_def Let_def dict_get_Cons)
  have "session_of_dict plain_models 0 creds' = Some (?s\<lparr>ss_access_token := tr_access_token ?tr,
      ss_token_type := tr_token_type ?tr, ss_expires_at := Some (Zoned 5300),
      ss_refresh_token := (if dict_get [(''access_token'', JStr ''new'')] ''refresh_token'' = None
        then ss_refresh_token ?s else tr_refresh_token ?tr)\<rparr>)"
    by (rule renewed_file_is_session [OF old new tr]) (simp add: sample_refresh_def read)
  then show ?thesis
    using new by (simp add: Let_def dict_get_Cons)
qed

section \<open>The command\<close>

definition verified_store :: "login_env \<Rightarrow> whoami_response \<Rightarrow> cred_file \<Rightarrow> bool" where
  "verified_store env w file \<longleftrightarrow>
     (\<exists>k s. whoami_of_reply (ln_schema_error env) (ln_whoami env k (ss_access_token s)) = Returned w \<and>
        missing_identity w = [] \<and> ss_mode s = wr_mode w \<and> file = stored_as env s)"

definition host_conflict :: "login_command_env \<Rightarrow> keyhole_home \<Rightarrow> whoami_response \<Rightarrow> bool" where
  "host_conflict g home w \<longleftrightarrow>
     cli_principal_of w \<noteq> [] \<and> load_attestations home \<noteq> [] \<and>
     co_verdict (classify_coherence (lg_fromiso g) (lg_now g) (cli_principal_of w) (load_attestations home)
       (load_identity_policy home)) = REJECT_HOST_CONFLICT"

lemma run_login_Returned:
  assumes "run_login g a w = (Returned res, w')"
  obtains "res = unknown_flow_result (la_flow a)" "w' = w"
  | flow email r creds where
      "login (lg_login g) (login_request_of a flow email) (lw_creds w) = (Returned r, creds)"
      "finish_login g a r (w\<lparr>lw_creds := creds\<rparr>) = (res, w')"
  using assms
  by (auto simp: run_login_def Let_def split: option.splits prod.splits raised.splits)

lemma finish_login_success:
  assumes "li_success r" "li_whoami r = Some v" "finish_login g a r w = (res, w')"
  shows "(cm_success res \<and> cm_exit_code res = 0 \<and> lw_creds w' = lw_creds w \<and>
            (host_conflict g (lw_home w) v \<longrightarrow> la_allow_split a)) \<or>
         (\<not> cm_success res \<and> cm_exit_code res = 1 \<and> w' = w \<and> host_conflict g (lw_home w) v \<and> \<not> la_allow_split a)"
proof -
  obtain blocked home where check: "check_host_coherence g (la_allow_split a) r (lw_home w) = (blocked, home)"
    by fastforce
  show ?thesis
  proof (cases blocked)
    case None
    then have "cm_success res \<and> cm_exit_code res = 0 \<and> lw_creds w' = lw_creds w"
      using assms check
      by (auto simp: finish_login_def login_success_result_def command_result_of_def exit_success_def
          write_login_proof_def Let_def)
    moreover have "host_conflict g (lw_home w) v \<longrightarrow> la_allow_split a"
      using None check assms(2)
      by (auto simp: check_host_coherence_def host_conflict_def Let_def split: if_splits)
    ultimately show ?thesis by simp
  next
    case (Some b)
    then have "b = conflict_result (cli_principal_of v) (classify_coherence (lg_fromiso g) (lg_now g)
        (cli_principal_of v) (load_attestations (lw_home w)) (load_identity_policy (lw_home w)))"
      "home = lw_home w" "host_conflict g (lw_home w) v" "\<not> la_allow_split a"
      using check assms(2)
      by (auto simp: check_host_coherence_def host_conflict_def Let_def split: if_splits)
    then show ?thesis
      using Some check assms
      by (auto simp: finish_login_def conflict_result_def command_result_of_def exit_failure_def)
  qed
qed

text \<open>
  C17: \<open>keyhole login\<close> exits with 0 exactly when it reports success, and then the stored session was
  verified and no host is signed in as somebody else, unless that was allowed. When it exits with 1
  no proof is written, and the credentials are as before, but for one case: a refusal because of a
  host's identity comes after the new session was stored, although the module's description puts
  that check before credentials are persisted; the refused session stays in the file.
\<close>

theorem login_command_exact:
  assumes "run_login g a w = (Returned res, w')"
  shows "(cm_success res \<and> cm_exit_code res = 0 \<and>
            (\<exists>v. verified_store (lg_login g) v (lw_creds w') \<and>
               (host_conflict g (lw_home w) v \<longrightarrow> la_allow_split a))) \<or>
         (\<not> cm_success res \<and> cm_exit_code res = 1 \<and> lw_proofs w' = lw_proofs w \<and> lw_home w' = lw_home w \<and>
            (lw_creds w' = lw_creds w \<or>
             (\<exists>v. verified_store (lg_login g) v (lw_creds w') \<and> host_conflict g (lw_home w) v \<and>
                \<not> la_allow_split a)))"
  using assms
proof (cases rule: run_login_Returned)
  case 1
  then show ?thesis by (simp add: unknown_flow_result_def command_result_of_def exit_failure_def)
next
  case (2 flow email r creds)
  from 2(1) show ?thesis
  proof (cases rule: login_cases)
    case (1 fl v k s)
    have "verified_store (lg_login g) v creds"
      using 1 by (auto simp: verified_store_def)
    moreover have "li_success r" "li_whoami r = Some v"
      using 1(1) by (simp_all add: login_success_def)
    from finish_login_success [OF this 2(2)] have "(cm_success res \<and> cm_exit_code res = 0 \<and> lw_creds w' = creds \<and>
            (host_conflict g (lw_home w) v \<longrightarrow> la_allow_split a)) \<or>
         (\<not> cm_success res \<and> cm_exit_code res = 1 \<and> w' = w\<lparr>lw_creds := creds\<rparr> \<and> host_conflict g (lw_home w) v \<and>
            \<not> la_allow_split a)"
      by simp
    ultimately show ?thesis by auto
  next
    case (2 b e)
    then show ?thesis
      using \<open>finish_login g a r (w\<lparr>lw_creds := creds\<rparr>) = (res, w')\<close>
      by (auto simp: finish_login_def login_failure_def login_failure_result_def command_result_of_def
          exit_failure_def Let_def)
  qed simp
qed

section \<open>A refused login to evaluate\<close>

definition sample_attestation :: attestation where
  "sample_attestation =
     \<lparr>at_schema_version = ''1'', at_host_kind = ''vscode'', at_host_display_name = ''VS Code'',
      at_integration_name = ''keyhole'', at_server_url = [], at_realm = [], at_effective_principal = ''other'',
      at_effective_subject = [], at_proof_method = [], at_confidence = CONFIRMED, at_observed_at = ''1'',
      at_expires_at = ''9'', at_machine_scope = [], at_workspace_scope = None, at_correlation_id = [],
      at_notes = [], at_tool_version = []\<rparr>"

definition sample_command :: login_command_env where
  "sample_command =
     \<lparr>lg_login = sample_login, lg_identity = None, lg_policy_error = None, lg_proof_error = False,
      lg_fromiso = (\<lambda>s. map_option (\<lambda>n. Aware n 0) (int_of_string s)), lg_now = Aware 5 0, lg_stamp = ''5'',
      lg_proof = \<lparr>lp_cid = ''cid'', lp_events = [], lp_started = ''0''\<rparr>, lg_completed = ''5'',
      lg_stamps = (\<lambda>i. [])\<rparr>"

definition sample_args :: "bool \<Rightarrow> bool \<Rightarrow> login_args" where
  "sample_args force explicit =
     \<lparr>la_flow = ''device'', la_force = force, la_username = [], la_password = [], la_email = [],
      la_realm = ''kh-prod'', la_allow_split = False, la_flow_explicit = explicit, la_cid = ''cid''\<rparr>"

definition sample_world :: "keyhole_home \<Rightarrow> cred_file \<Rightarrow> login_world" where
  "sample_world home creds = \<lparr>lw_creds = creds, lw_home = home, lw_proofs = []\<rparr>"

definition conflict_home :: keyhole_home where
  "conflict_home =
     \<lparr>kh_attestations = Some [(''a.json'', Some (JObj (attestation_to_dict sample_attestation)))],
      kh_policy = None, kh_hint = None\<rparr>"

definition empty_home :: keyhole_home where
  "empty_home = \<lparr>kh_attestations = None, kh_policy = None, kh_hint = None\<rparr>"

lemma refused_login_evaluated:
  "case run_login sample_command (sample_args True True) (sample_world conflict_home FileAbsent) of
     (Returned res, w') \<Rightarrow> \<not> cm_success res \<and> lw_creds w' \<noteq> FileAbsent \<and> lw_proofs w' = [] \<and>
       dict_get (cm_data res) ''error_class'' = Some (JStr ''host_identity_conflict'') \<and>
       store_authenticated plain_models 1000 (lw_creds w') = Returned True
   | _ \<Rightarrow> False"
  by code_simp

lemma login_command_exact_witness:
  "case run_login sample_command (sample_args True True) (sample_world conflict_home FileAbsent) of
     (Returned res, w') \<Rightarrow> \<not> cm_success res \<and> lw_creds w' \<noteq> FileAbsent \<and> lw_proofs w' = []
   | _ \<Rightarrow> False"
proof -
  have run: "case run_login sample_command (sample_args True True) (sample_world conflict_home FileAbsent) of
     (Returned res, w') \<Rightarrow> \<not> cm_success res \<and> lw_creds w' \<noteq> FileAbsent \<and> lw_proofs w' = []
   | _ \<Rightarrow> False"
    using refused_login_evaluated by (simp split: prod.splits raised.splits)
  show ?thesis
  proof (cases "run_login sample_command (sample_args True True) (sample_world conflict_home FileAbsent)")
    case (Pair out w')
    then obtain res where "out = Returned res"
      using run by (cases out) auto
    then show ?thesis
      using run Pair login_command_exact [of sample_command "sample_args True True"
          "sample_world conflict_home FileAbsent" res w'] by auto
  qed
qed

section \<open>What modelling showed\<close>

text \<open>A login refused because of a host's identity has already replaced the stored session.\<close>

lemma refused_login_is_stored:
  "case run_login sample_command (sample_args True True) (sample_world conflict_home FileAbsent) of
     (Returned res, w') \<Rightarrow>
       dict_get (cm_data res) ''error_class'' = Some (JStr ''host_identity_conflict'') \<and>
       store_authenticated plain_models 1000 (lw_creds w') = Returned True
   | _ \<Rightarrow> False"
  using refused_login_evaluated by (simp split: prod.splits raised.splits)

text \<open>A fresh device login is reported as the reuse of a session.\<close>

lemma fresh_login_reported_as_reuse:
  "case run_login sample_command (sample_args False True) (sample_world empty_home FileAbsent) of
     (Returned res, w') \<Rightarrow>
       cm_success res \<and> dict_get (cm_data res) ''auth_path'' = Some (JStr ''session_reuse'')
   | _ \<Rightarrow> False"
  by code_simp

text \<open>A damaged credentials file makes the command raise, also with \<open>--force\<close>.\<close>

lemma damaged_store_stops_login:
  assumes "flow_type_of (py_lower (la_flow a)) \<noteq> None" "\<not> la_flow_explicit a" "lw_creds w = FileUnreadable e"
  shows "\<exists>err. run_login g a w = (AuthRaised err, w)"
  using assms by (auto simp: run_login_def stored_session_def load_session_def Let_def split: prod.splits)

text \<open>A server that asks to slow down shortens an interval above 30 seconds.\<close>

lemma slow_down_speeds_up:
  "poll_error net body (JStr ''slow_down'') 60 = Inr 30"
  by (simp add: poll_error_def sleep_for_def)

text \<open>The mode is never missing, and the stored identity has no email address.\<close>

lemma mode_never_missing: "''mode'' \<notin> set (missing_identity w)"
proof -
  have "py_strip (auth_mode_value (wr_mode w)) \<noteq> []"
    by (cases "wr_mode w") (simp_all, code_simp+)
  then show ?thesis by (auto simp: missing_identity_def split: option.splits)
qed

lemma stored_identity_without_email: "dict_get (proof_identity r) ''email'' = None"
  by (auto simp: proof_identity_def dict_get_Cons dict_get_def split: option.splits)

end
