(* ===== verification/Capability_Names.thy ===== *)
theory Capability_Names
  imports Model_Fields Run_Dispatch Device_Flow
begin

text \<open>
  The names of capabilities (\<open>capability/namespace.py\<close>): validation, safe normalisation, suggestions
  and creation, and the proof files of a validation (\<open>namespace_proof.py\<close>). Names are ASCII text.
\<close>

section \<open>Reject reasons\<close>

datatype reject_reason =
  INVALID_SEGMENT_COUNT | INVALID_VERSION_SUFFIX | UPPERCASE_NOT_ALLOWED | EMPTY_NAMESPACE_SEGMENT
| ILLEGAL_CHARACTER | LEADING_ZERO_VERSION | CONSECUTIVE_DOTS

fun reject_value :: "reject_reason \<Rightarrow> string" where
  "reject_value INVALID_SEGMENT_COUNT = ''invalid_segment_count''"
| "reject_value INVALID_VERSION_SUFFIX = ''invalid_version_suffix''"
| "reject_value UPPERCASE_NOT_ALLOWED = ''uppercase_not_allowed''"
| "reject_value EMPTY_NAMESPACE_SEGMENT = ''empty_namespace_segment''"
| "reject_value ILLEGAL_CHARACTER = ''illegal_character''"
| "reject_value LEADING_ZERO_VERSION = ''leading_zero_version''"
| "reject_value CONSECUTIVE_DOTS = ''consecutive_dots''"

fun reject_text :: "reject_reason \<Rightarrow> string" where
  "reject_text INVALID_SEGMENT_COUNT =
     ''Must have exactly 4 dot-separated segments (domain.category.capability.vN)''"
| "reject_text INVALID_VERSION_SUFFIX =
     ''Final segment must be v<N> where N is a positive integer (e.g. v1, v2, v10)''"
| "reject_text UPPERCASE_NOT_ALLOWED =
     ''All segments must be lowercase (use '' @ quoted ''stripe'' @ '' not '' @ quoted ''Stripe'' @ '')''"
| "reject_text EMPTY_NAMESPACE_SEGMENT =
     ''No segment may be empty '' @ mdash @ '' check for consecutive dots (e.g. '' @ quoted ''payment..v1'' @ '')''"
| "reject_text ILLEGAL_CHARACTER =
     ''Segments may only contain lowercase letters, digits, and internal hyphens''"
| "reject_text LEADING_ZERO_VERSION =
     ''Version major must not have a leading zero (use v1 not v01)''"
| "reject_text CONSECUTIVE_DOTS =
     ''Name contains empty segment(s) '' @ mdash @ '' consecutive dots are not allowed''"

record name_validation =
  nv_name :: string
  nv_valid :: bool
  nv_reasons :: "reject_reason list"
  nv_message :: string
  nv_suggestion :: string
  nv_normalized :: string

definition validation_to_dict :: "name_validation \<Rightarrow> dict" where
  "validation_to_dict r =
     [(''name'', JStr (nv_name r)), (''valid'', JBool (nv_valid r)),
      (''reject_reasons'', JList (map (JStr \<circ> reject_value) (nv_reasons r))),
      (''message'', JStr (nv_message r)), (''suggestion'', JStr (nv_suggestion r)),
      (''normalized'', JStr (nv_normalized r))]"

section \<open>Segments\<close>

definition is_upper :: "char \<Rightarrow> bool" where
  "is_upper c = (65 \<le> code_of c \<and> code_of c \<le> 90)"

definition name_char :: "char \<Rightarrow> bool" where
  "name_char c = (py_isdigit c \<or> (97 \<le> code_of c \<and> code_of c \<le> 122))"

lemma is_upper_bits [code]:
  "is_upper (Char b0 b1 b2 b3 b4 b5 b6 b7) = (\<not> b7 \<and> b6 \<and> \<not> b5 \<and> letter_bits b0 b1 b2 b3 b4)"
  unfolding is_upper_def code_of_Char letter_bits_def
  by (cases b0; cases b1; cases b2; cases b3; cases b4; cases b5; cases b6; cases b7) simp_all

lemma name_char_bits [code]:
  "name_char (Char b0 b1 b2 b3 b4 b5 b6 b7) =
     (\<not> b7 \<and> (if b6 then b5 \<and> letter_bits b0 b1 b2 b3 b4 else b5 \<and> b4 \<and> (\<not> b3 \<or> \<not> b2 \<and> \<not> b1)))"
  unfolding name_char_def py_isdigit_def code_of_Char letter_bits_def
  by (cases b0; cases b1; cases b2; cases b3; cases b4; cases b5; cases b6; cases b7) simp_all

text \<open>A pattern that ends in \<open>$\<close> also matches before a line feed at the end.\<close>

definition before_final_lf :: "(string \<Rightarrow> bool) \<Rightarrow> string \<Rightarrow> bool" where
  "before_final_lf ok s = (ok s \<or> (s \<noteq> [] \<and> last s = CHR 10 \<and> ok (butlast s)))"

definition segment_core :: "string \<Rightarrow> bool" where
  "segment_core s =
     (s \<noteq> [] \<and> name_char (hd s) \<and> name_char (last s) \<and> list_all (\<lambda>c. name_char c \<or> c = CHR ''-'') s)"

definition segment_re :: "string \<Rightarrow> bool" where
  "segment_re = before_final_lf segment_core"

definition version_core :: "string \<Rightarrow> bool" where
  "version_core s =
     (case s of
        v # ds \<Rightarrow> v = CHR ''v'' \<and> (ds = ''0'' \<or> (ds \<noteq> [] \<and> list_all py_isdigit ds \<and> hd ds \<noteq> CHR ''0''))
      | [] \<Rightarrow> False)"

definition version_re :: "string \<Rightarrow> bool" where
  "version_re = before_final_lf version_core"

definition leading_zero_core :: "string \<Rightarrow> bool" where
  "leading_zero_core s =
     (case s of
        v # z # ds \<Rightarrow> v = CHR ''v'' \<and> z = CHR ''0'' \<and> ds \<noteq> [] \<and> list_all py_isdigit ds
      | _ \<Rightarrow> False)"

definition has_uppercase :: "string \<Rightarrow> bool" where
  "has_uppercase s = list_ex is_upper s"

definition check_segment :: "string \<Rightarrow> reject_reason option" where
  "check_segment seg =
     (if seg = [] then Some EMPTY_NAMESPACE_SEGMENT
      else if has_uppercase seg then Some UPPERCASE_NOT_ALLOWED
      else if \<not> segment_re seg then Some ILLEGAL_CHARACTER
      else None)"

definition check_version_segment :: "string \<Rightarrow> reject_reason option" where
  "check_version_segment seg =
     (if seg = [] then Some EMPTY_NAMESPACE_SEGMENT
      else if has_uppercase seg then Some UPPERCASE_NOT_ALLOWED
      else if before_final_lf leading_zero_core seg then Some LEADING_ZERO_VERSION
      else if \<not> version_re seg then Some INVALID_VERSION_SUFFIX
      else None)"

section \<open>Validation\<close>

definition bullet_mark :: string where
  "bullet_mark = [CHR 0xE2, CHR 0x80, CHR 0xA2]"

definition build_message :: "string \<Rightarrow> reject_reason list \<Rightarrow> string" where
  "build_message name reasons =
     (if reasons = [] then quoted name @ '' is a valid capability namespace.''
      else py_join [CHR 10]
        ([''Invalid capability namespace: '' @ quoted name,
          ''Expected: <domain>.<category>.<capability>.v<major>'',
          ''Example:  payment.stripe.integration.v1'', ''Issues:''] @
         map (\<lambda>r. ''  '' @ bullet_mark @ '' '' @ reject_text r) reasons))"

definition rejected_name :: "string \<Rightarrow> reject_reason list \<Rightarrow> name_validation" where
  "rejected_name name reasons =
     \<lparr>nv_name = name, nv_valid = False, nv_reasons = reasons, nv_message = build_message name reasons,
      nv_suggestion = [], nv_normalized = []\<rparr>"

definition add_reason :: "reject_reason list \<Rightarrow> reject_reason option \<Rightarrow> reject_reason list" where
  "add_reason reasons err =
     (case err of None \<Rightarrow> reasons | Some r \<Rightarrow> if r \<in> set reasons then reasons else reasons @ [r])"

definition segment_reasons :: "string list \<Rightarrow> string \<Rightarrow> reject_reason list" where
  "segment_reasons segs version =
     add_reason (foldl (\<lambda>rs seg. add_reason rs (check_segment seg)) [] segs) (check_version_segment version)"

definition validate_raw :: "string \<Rightarrow> name_validation" where
  "validate_raw name =
     (if py_in ''..'' name then rejected_name name [CONSECUTIVE_DOTS]
      else
        (case py_split CHR ''.'' name of
           [d, c, k, v] \<Rightarrow>
             (let reasons = segment_reasons [d, c, k] v
              in if reasons = []
                 then \<lparr>nv_name = name, nv_valid = True, nv_reasons = [], nv_message = build_message name [],
                       nv_suggestion = [], nv_normalized = name\<rparr>
                 else rejected_name name reasons)
         | _ \<Rightarrow> rejected_name name [INVALID_SEGMENT_COUNT]))"

text \<open>White space at the ends and around dots goes, and letters become small.\<close>

definition safe_normalize :: "string \<Rightarrow> string" where
  "safe_normalize name =
     py_lower (py_join ''.'' (map py_strip (py_split CHR ''.'' (py_strip name))))"

definition suggest_correction :: "string \<Rightarrow> string" where
  "suggest_correction name =
     (let n = safe_normalize name
      in if n \<noteq> [] \<and> nv_valid (validate_raw n) \<and> n \<noteq> name then n else [])"

definition validate_capability_name :: "string \<Rightarrow> name_validation" where
  "validate_capability_name name =
     (let r = validate_raw name
      in if nv_valid r then r else r\<lparr>nv_suggestion := suggest_correction name, nv_normalized := []\<rparr>)"

section \<open>Creation\<close>

definition assemble_name :: "string \<Rightarrow> string \<Rightarrow> string \<Rightarrow> int \<Rightarrow> string" where
  "assemble_name domain category capability major =
     domain @ ''.'' @ category @ ''.'' @ capability @ ''.v'' @ str_int major"

definition create_capability_name ::
  "string \<Rightarrow> string \<Rightarrow> string \<Rightarrow> int \<Rightarrow> (string \<times> reject_reason list) + string" where
  "create_capability_name domain category capability major =
     (let name = assemble_name domain category capability major; r = validate_capability_name name
      in if nv_valid r then Inr name
         else Inl (''Cannot create capability name from parts: '' @ nv_message r, nv_reasons r))"

text \<open>
  The parts of a command: \<open>major\<close> as given, an integer or text. Text is shown in quotes, as Python
  shows text without quotes and control characters.
\<close>

definition normalize_part :: "string \<Rightarrow> string" where
  "normalize_part s = py_lower (py_strip s)"

definition positive_major :: "int + string \<Rightarrow> string + int" where
  "positive_major major =
     (case major of
        Inr s \<Rightarrow>
          (case int_of_string (py_strip s) of
             None \<Rightarrow> Inl (''major must be a positive integer, got: '' @ quoted (py_strip s))
           | Some i \<Rightarrow> if i < 1 then Inl (''major must be a positive integer >= 1, got: '' @ str_int i) else Inr i)
      | Inl i \<Rightarrow> if i < 1 then Inl (''major must be a positive integer >= 1, got: '' @ str_int i) else Inr i)"

definition normalize_capability_parts ::
  "string \<Rightarrow> string \<Rightarrow> string \<Rightarrow> int + string \<Rightarrow> string + (string \<times> string \<times> string \<times> int)" where
  "normalize_capability_parts domain category capability major =
     (case positive_major major of
        Inl e \<Rightarrow> Inl e
      | Inr m \<Rightarrow> Inr (normalize_part domain, normalize_part category, normalize_part capability, m))"

section \<open>Proof files\<close>

definition ref_char :: "char \<Rightarrow> char" where
  "ref_char c = (if py_isalnum c \<or> c \<in> set ''-_'' then c else CHR ''_'')"

definition safe_ref_name :: "string \<Rightarrow> string" where
  "safe_ref_name raw = (if raw = [] then ''unknown'' else take 64 (map ref_char raw))"

definition check_mark :: "bool \<Rightarrow> string" where
  "check_mark ok = (if ok then [CHR 0xE2, CHR 0x9C, CHR 0x93] @ '' Valid'' else [CHR 0xE2, CHR 0x9C, CHR 0x97] @ '' Invalid'')"

definition ticked :: "string \<Rightarrow> string" where
  "ticked s = ''`'' @ s @ ''`''"

definition namespace_summary :: "name_validation \<Rightarrow> bool \<Rightarrow> string \<Rightarrow> string \<Rightarrow> string list" where
  "namespace_summary r write_mode artifact now =
     [''# Capability Namespace Validation'', [], ''**Name:** '' @ ticked (nv_name r),
      ''**Status:** '' @ check_mark (nv_valid r)] @
     (if nv_valid r then [''**Normalized:** '' @ ticked (nv_normalized r)]
      else [[], ''## Validation Issues''] @ map (\<lambda>x. ''  - '' @ ticked (reject_value x)) (nv_reasons r) @
           (if nv_suggestion r \<noteq> [] then [[], ''**Suggestion:** '' @ ticked (nv_suggestion r)] else []) @
           [[], ''## Expected Format'', ''```'', ''<domain>.<category>.<capability>.v<major>'', ''```'',
            ''Example: '' @ ticked ''payment.stripe.integration.v1'']) @
     (if write_mode \<and> artifact \<noteq> [] then [[], ''**Written to:** '' @ ticked artifact]
      else if \<not> write_mode then
        [[], ''> Advisory mode '' @ mdash @ '' no in-repo artifacts were written. '' @
             ''This output is out-of-tree only.'']
      else []) @
     [[], ''*Emitted: '' @ now @ ''*'']"

definition names_document :: "string list \<Rightarrow> dict \<Rightarrow> string \<Rightarrow> proof_content" where
  "names_document names extra now =
     ProofJson ([(''names'', JList (map JStr names))] @ extra @ [(''emitted_at'', JStr now)])"

definition emit_namespace_proof ::
  "string \<Rightarrow> name_validation \<Rightarrow> string \<Rightarrow> bool \<Rightarrow> string \<Rightarrow> proof_writes" where
  "emit_namespace_proof now r session_ref write_mode artifact =
     (let dir = [''capability_namespace'', safe_ref_name (str_or session_ref (str_or (nv_name r) ''unknown''))];
          names = [nv_name r];
          reasons = [(''reject_reasons'', JList (map (JStr \<circ> reject_value) (nv_reasons r)))]
      in [(dir @ [''validation.json''], ProofJson (validation_to_dict r @
             [(''emitted_at'', JStr now), (''write_mode'', JBool write_mode)] @
             (if artifact \<noteq> [] then [(''artifact_path'', JStr artifact)] else []))),
          (dir @ [''accepted.json''], names_document (if nv_valid r then names else []) [] now),
          (dir @ [''rejected.json''],
             if nv_valid r then names_document [] [] now else names_document names reasons now),
          (dir @ [''summary.md''], ProofText (py_join [CHR 10] (namespace_summary r write_mode artifact now)))])"

definition rejected_entry :: "name_validation \<Rightarrow> json" where
  "rejected_entry r =
     JObj [(''name'', JStr (nv_name r)), (''reasons'', JList (map (JStr \<circ> reject_value) (nv_reasons r)))]"

definition batch_lines :: "name_validation list \<Rightarrow> string \<Rightarrow> string list" where
  "batch_lines results now =
     (let accepted = filter nv_valid results; rejected = filter (Not \<circ> nv_valid) results
      in [''# Capability Namespace Batch Validation'', [],
          ''**Total examined:** '' @ str_nat (length results), ''**Accepted:** '' @ str_nat (length accepted),
          ''**Rejected:** '' @ str_nat (length rejected), []] @
         (if accepted \<noteq> [] then [''## Accepted''] @ map (\<lambda>r. ''  - '' @ ticked (nv_name r)) accepted @ [[]] else []) @
         (if rejected \<noteq> [] then [''## Rejected''] @
            map (\<lambda>r. ''  - '' @ ticked (nv_name r) @ '': '' @ py_join '', '' (map reject_value (nv_reasons r))) rejected @ [[]]
          else []) @
         [''*Emitted: '' @ now @ ''*''])"

definition emit_batch_proof ::
  "string \<Rightarrow> name_validation list \<Rightarrow> string \<Rightarrow> proof_writes" where
  "emit_batch_proof now results session_ref =
     (let dir = [''capability_namespace'', safe_ref_name (str_or session_ref ''batch'')];
          accepted = filter nv_valid results; rejected = filter (Not \<circ> nv_valid) results
      in [(dir @ [''accepted.json''], names_document (map nv_name accepted) [] now),
          (dir @ [''rejected.json''], ProofJson
             [(''entries'', JList (map rejected_entry rejected)), (''emitted_at'', JStr now)]),
          (dir @ [''validation.json''], ProofJson
             [(''total'', JInt (int (length results))), (''accepted_count'', JInt (int (length accepted))),
              (''rejected_count'', JInt (int (length rejected))),
              (''results'', JList (map (JObj \<circ> validation_to_dict) results)), (''emitted_at'', JStr now)]),
          (dir @ [''summary.md''], ProofText (py_join [CHR 10] (batch_lines results now)))])"

section \<open>What is valid\<close>

lemma name_char_not_upper: "name_char c \<Longrightarrow> \<not> is_upper c"
  by (auto simp: name_char_def is_upper_def py_isdigit_def)

lemma segment_core_no_upper: "segment_core s \<Longrightarrow> \<not> has_uppercase s"
proof -
  assume "segment_core s"
  then have "list_all (\<lambda>c. name_char c \<or> c = CHR ''-'') s" by (simp add: segment_core_def)
  moreover have "\<not> is_upper CHR ''-''" by code_simp
  ultimately show ?thesis
    using name_char_not_upper by (auto simp: has_uppercase_def list_all_iff list_ex_iff)
qed

lemma digits_no_upper: "list_all py_isdigit ds \<Longrightarrow> \<not> list_ex is_upper ds"
  by (fastforce simp: list_all_iff list_ex_iff py_isdigit_def is_upper_def)

lemma version_core_digits:
  "version_core s \<Longrightarrow> \<exists>ds. s = CHR ''v'' # ds \<and> ds \<noteq> [] \<and> list_all py_isdigit ds"
proof -
  assume "version_core s"
  moreover have "list_all py_isdigit ''0''" by code_simp
  ultimately show ?thesis by (auto simp: version_core_def split: list.splits)
qed

lemma version_core_no_upper: "version_core s \<Longrightarrow> \<not> has_uppercase s"
proof -
  assume "version_core s"
  moreover have "\<not> is_upper CHR ''v''" by code_simp
  ultimately show ?thesis
    using version_core_digits digits_no_upper by (fastforce simp: has_uppercase_def)
qed

lemma digits_no_lf: "list_all py_isdigit ds \<Longrightarrow> CHR 10 \<notin> set ds"
proof -
  assume "list_all py_isdigit ds"
  moreover have "\<not> py_isdigit CHR 10" by code_simp
  ultimately show ?thesis by (auto simp: list_all_iff)
qed

lemma final_lf_no_upper:
  assumes "before_final_lf ok s" "\<And>t. ok t \<Longrightarrow> \<not> has_uppercase t"
  shows "\<not> has_uppercase s"
proof (cases "ok s")
  case False
  then obtain t where "s = t @ [CHR 10]" "ok t"
    using assms(1) by (auto simp: before_final_lf_def) (metis append_butlast_last_id)
  moreover have "\<not> is_upper CHR 10" by code_simp
  ultimately show ?thesis using assms(2) [of t] by (simp add: has_uppercase_def)
qed (use assms(2) in blast)

lemma check_segment_None: "check_segment s = None \<longleftrightarrow> segment_re s"
proof -
  have "segment_re s \<Longrightarrow> s \<noteq> []"
    by (auto simp: segment_re_def before_final_lf_def segment_core_def)
  moreover have "segment_re s \<Longrightarrow> \<not> has_uppercase s"
    unfolding segment_re_def by (erule final_lf_no_upper) (rule segment_core_no_upper)
  ultimately show ?thesis by (auto simp: check_segment_def)
qed

lemma version_not_leading_zero: "version_core s \<Longrightarrow> \<not> before_final_lf leading_zero_core s"
proof -
  assume s: "version_core s"
  have "\<not> leading_zero_core s"
    using s by (auto simp: version_core_def leading_zero_core_def split: list.splits)
  moreover obtain ds where ds: "s = CHR ''v'' # ds" "ds \<noteq> []" "CHR 10 \<notin> set ds"
    using version_core_digits [OF s] digits_no_lf by blast
  then have "last s = last ds" "last ds \<in> set ds" by auto
  then have "last s \<noteq> CHR 10" using ds(3) by metis
  ultimately show ?thesis by (simp add: before_final_lf_def)
qed

lemma version_re_not_leading_zero: "version_re s \<Longrightarrow> \<not> before_final_lf leading_zero_core s"
proof (cases "version_core s")
  case False
  assume "version_re s"
  then obtain t where t: "s = t @ [CHR 10]" "version_core t"
    using False by (auto simp: version_re_def before_final_lf_def) (metis append_butlast_last_id)
  have "\<not> leading_zero_core s"
  proof
    assume "leading_zero_core s"
    then obtain ds where ds: "s = ''v0'' @ ds" "ds \<noteq> []" "list_all py_isdigit ds"
      by (auto simp: leading_zero_core_def split: list.splits)
    then have "last s = last ds" "last ds \<in> set ds" by auto
    then show False using t(1) digits_no_lf [OF ds(3)] by simp
  qed
  moreover have "\<not> leading_zero_core t"
    using version_not_leading_zero [OF t(2)] by (simp add: before_final_lf_def)
  ultimately show ?thesis using t(1) by (simp add: before_final_lf_def)
qed (rule version_not_leading_zero)

lemma check_version_None: "check_version_segment s = None \<longleftrightarrow> version_re s"
proof -
  have "version_re s \<Longrightarrow> s \<noteq> []"
    by (auto simp: version_re_def before_final_lf_def version_core_def)
  moreover have "version_re s \<Longrightarrow> \<not> has_uppercase s"
    unfolding version_re_def by (erule final_lf_no_upper) (rule version_core_no_upper)
  ultimately show ?thesis
    using version_re_not_leading_zero [of s] by (auto simp: check_version_segment_def)
qed

lemma add_reason_Nil: "add_reason rs err = [] \<longleftrightarrow> rs = [] \<and> err = None"
  by (auto simp: add_reason_def split: option.splits)

lemma segment_reasons_Nil:
  "segment_reasons [d, c, k] v = [] \<longleftrightarrow> segment_re d \<and> segment_re c \<and> segment_re k \<and> version_re v"
  by (simp add: segment_reasons_def add_reason_Nil check_segment_None check_version_None)

lemma dots_empty_segment:
  assumes "py_in ''..'' s"
  shows "[] \<in> set (py_split CHR ''.'' s)"
proof -
  obtain a b where s: "s = a @ ''..'' @ b" using assms by (auto simp: py_in_iff)
  have "[] \<in> set (tl (py_split CHR ''.'' (a @ ''..'' @ b)))"
  proof (induction a)
    case (Cons x a)
    then show ?case
      by (cases "py_split CHR ''.'' (a @ ''..'' @ b)") (auto split: if_splits)
  qed simp
  then show ?thesis
    unfolding s by (cases "py_split CHR ''.'' (a @ ''..'' @ b)") auto
qed

definition canonical_name :: "string \<Rightarrow> bool" where
  "canonical_name name =
     (case py_split CHR ''.'' name of
        [d, c, k, v] \<Rightarrow> segment_re d \<and> segment_re c \<and> segment_re k \<and> version_re v
      | _ \<Rightarrow> False)"

lemma canonical_no_dots: "canonical_name name \<Longrightarrow> \<not> py_in ''..'' name"
proof
  assume c: "canonical_name name" and "py_in ''..'' name"
  then have "[] \<in> set (py_split CHR ''.'' name)" by (intro dots_empty_segment)
  moreover have "\<not> segment_re []" "\<not> version_re []"
    by (simp_all add: segment_re_def version_re_def before_final_lf_def segment_core_def version_core_def)
  ultimately show False using c by (auto simp: canonical_name_def split: list.splits)
qed

lemma validate_raw_valid: "nv_valid (validate_raw name) \<longleftrightarrow> canonical_name name"
proof (cases "canonical_name name")
  case True
  then show ?thesis
    using canonical_no_dots [OF True]
    by (auto simp: validate_raw_def canonical_name_def Let_def segment_reasons_Nil split: list.splits)
next
  case False
  then show ?thesis
    by (auto simp: validate_raw_def canonical_name_def Let_def segment_reasons_Nil rejected_name_def
        split: list.splits)
qed

end
