(* ===== verification/Capability_Client.thy ===== *)
theory Capability_Client
  imports Run_Dispatch Auth_Session
begin

text \<open>
  Searching and resolving capabilities (\<open>capability/models.py\<close>, \<open>search.py\<close>, \<open>resolver.py\<close>,
  \<open>repair.py\<close>): the requests, one governed call each, and the reading of its answer. What pydantic
  makes of a number or a truth value is given; a model that does not validate raises.
\<close>

section \<open>Models\<close>

datatype repo_posture = NATIVE | FOREIGN_REPO | INGESTION_BACKED

fun repo_posture_value :: "repo_posture \<Rightarrow> string" where
  "repo_posture_value NATIVE = ''native''"
| "repo_posture_value FOREIGN_REPO = ''foreign''"
| "repo_posture_value INGESTION_BACKED = ''ingestion_backed''"

datatype materialization_mode = ADVISORY | WRITE

fun mode_value :: "materialization_mode \<Rightarrow> string" where
  "mode_value ADVISORY = ''advisory''"
| "mode_value WRITE = ''write''"

definition str_entry :: "string \<Rightarrow> string \<Rightarrow> dict" where
  "str_entry k s = (if s \<noteq> [] then [(k, JStr s)] else [])"

record search_request =
  sq_query :: string
  sq_provider :: string
  sq_version :: string
  sq_repo_identity :: string
  sq_posture :: repo_posture
  sq_correlation_id :: string
  sq_timestamp :: string

definition repo_context :: "string \<Rightarrow> repo_posture \<Rightarrow> json" where
  "repo_context identity p =
     JObj [(''repo_identity'', JStr identity), (''repo_posture'', JStr (repo_posture_value p))]"

definition search_payload :: "search_request \<Rightarrow> dict" where
  "search_payload q =
     [(''query'', JStr (sq_query q)), (''context'', repo_context (sq_repo_identity q) (sq_posture q)),
      (''correlation_id'', JStr (sq_correlation_id q)), (''timestamp'', JStr (sq_timestamp q))] @
     str_entry ''provider'' (sq_provider q) @ str_entry ''version'' (sq_version q)"

definition search_request_proof :: "search_request \<Rightarrow> dict" where
  "search_request_proof q =
     [(''query'', JStr (sq_query q)), (''provider'', JStr (sq_provider q)),
      (''version'', JStr (sq_version q)), (''repo_posture'', JStr (repo_posture_value (sq_posture q))),
      (''correlation_id'', JStr (sq_correlation_id q)), (''timestamp'', JStr (sq_timestamp q))]"

record candidate =
  cd_capability :: string
  cd_provider :: string
  cd_version :: string
  cd_visibility :: string
  cd_summary :: string
  cd_digest :: string
  cd_inferred :: bool
  cd_pinned :: bool

definition candidate_dict :: "candidate \<Rightarrow> dict" where
  "candidate_dict c =
     [(''capability'', JStr (cd_capability c)), (''provider'', JStr (cd_provider c)),
      (''version'', JStr (cd_version c)), (''visibility'', JStr (cd_visibility c))] @
     str_entry ''summary'' (cd_summary c) @ str_entry ''digest'' (cd_digest c) @
     (if cd_inferred c then [(''matches_inferred_need'', JBool True)] else []) @
     (if cd_pinned c then [(''already_pinned_locally'', JBool True)] else [])"

record search_result =
  sx_query :: string
  sx_candidates :: "candidate list"
  sx_total :: int
  sx_correlation_id :: string
  sx_empty :: bool
  sx_next_steps :: "string list"
  sx_warnings :: "string list"
  sx_http_status :: int
  sx_error_class :: string
  sx_reason :: string

definition search_result_proof :: "search_result \<Rightarrow> dict" where
  "search_result_proof r =
     [(''query'', JStr (sx_query r)), (''total_count'', JInt (sx_total r)),
      (''is_empty'', JBool (sx_empty r)), (''correlation_id'', JStr (sx_correlation_id r)),
      (''http_status'', JInt (sx_http_status r)),
      (''candidate_count'', JInt (int (length (sx_candidates r))))]"

record resolution_request =
  xq_capability :: string
  xq_provider :: string
  xq_version :: string
  xq_repo_identity :: string
  xq_posture :: repo_posture
  xq_mode :: materialization_mode
  xq_fingerprint :: string
  xq_correlation_id :: string
  xq_timestamp :: string

definition resolution_payload :: "resolution_request \<Rightarrow> dict" where
  "resolution_payload q =
     [(''capability'', JStr (xq_capability q)), (''context'', repo_context (xq_repo_identity q) (xq_posture q)),
      (''mode'', JStr (mode_value (xq_mode q))), (''identity_fingerprint'', JStr (xq_fingerprint q)),
      (''correlation_id'', JStr (xq_correlation_id q)), (''timestamp'', JStr (xq_timestamp q))] @
     str_entry ''provider'' (xq_provider q) @ str_entry ''version'' (xq_version q)"

definition resolution_request_proof :: "resolution_request \<Rightarrow> dict" where
  "resolution_request_proof q =
     [(''capability'', JStr (xq_capability q)), (''provider'', JStr (xq_provider q)),
      (''version'', JStr (xq_version q)), (''repo_posture'', JStr (repo_posture_value (xq_posture q))),
      (''mode'', JStr (mode_value (xq_mode q))), (''correlation_id'', JStr (xq_correlation_id q)),
      (''timestamp'', JStr (xq_timestamp q))]"

record dependency =
  rd_capability :: string
  rd_provider :: string
  rd_version :: string
  rd_digest :: string
  rd_reason :: string

definition dependency_entry :: "dependency \<Rightarrow> dict" where
  "dependency_entry d =
     [(''capability'', JStr (rd_capability d)), (''provider'', JStr (rd_provider d))] @
     str_entry ''version'' (rd_version d) @ str_entry ''digest'' (rd_digest d)"

definition dependency_dict :: "dependency \<Rightarrow> dict" where
  "dependency_dict d = dependency_entry d @ str_entry ''reason'' (rd_reason d)"

record resolution =
  rs_status :: string
  rs_resolved :: "dependency option"
  rs_candidates :: "candidate list"
  rs_mode :: materialization_mode
  rs_materialized :: bool
  rs_materialized_target :: string
  rs_diff_summary :: string
  rs_correlation_id :: string
  rs_http_status :: int
  rs_replay :: bool
  rs_error_class :: string
  rs_reason :: string
  rs_repair :: "string list"
  rs_warnings :: "string list"
  rs_local :: bool
  rs_response :: dict

definition resolution_of :: "string \<Rightarrow> resolution_request \<Rightarrow> resolution" where
  "resolution_of status q =
     \<lparr>rs_status = status, rs_resolved = None, rs_candidates = [], rs_mode = xq_mode q,
      rs_materialized = False, rs_materialized_target = [], rs_diff_summary = [],
      rs_correlation_id = xq_correlation_id q, rs_http_status = 0, rs_replay = False,
      rs_error_class = [], rs_reason = [], rs_repair = [], rs_warnings = [], rs_local = False,
      rs_response = []\<rparr>"

definition is_resolved :: "resolution \<Rightarrow> bool" where
  "is_resolved r = (rs_status r = ''resolved'')"

definition resolution_proof :: "resolution \<Rightarrow> dict" where
  "resolution_proof r =
     [(''status'', JStr (rs_status r)), (''mode'', JStr (mode_value (rs_mode r))),
      (''materialized'', JBool (rs_materialized r)),
      (''materialized_target'', JStr (rs_materialized_target r)),
      (''correlation_id'', JStr (rs_correlation_id r)), (''http_status'', JInt (rs_http_status r)),
      (''is_replay'', JBool (rs_replay r))] @
     (case rs_resolved r of None \<Rightarrow> [] | Some d \<Rightarrow> [(''resolved'', JObj (dependency_dict d))]) @
     (if rs_candidates r \<noteq> [] then [(''candidate_count'', JInt (int (length (rs_candidates r))))] else []) @
     str_entry ''error_class'' (rs_error_class r) @ str_entry ''reason'' (rs_reason r) @
     (if rs_repair r \<noteq> [] then [(''repair_guidance'', JList (map JStr (rs_repair r)))] else []) @
     str_entry ''diff_summary'' (rs_diff_summary r)"

section \<open>Guidance\<close>

definition capability_repairs :: "(string \<times> string list) list" where
  "capability_repairs =
     [(''AuthenticationError'',
        [''Run: keyhole login'', ''Then retry the search or resolution command.'']),
      (''NotAuthenticated'',
        [''Run: keyhole login'', ''Then retry the search or resolution command.'']),
      (''TransportUnknownError'',
        [''Check network connectivity to the MCP boundary.'',
         ''Retry is safe '' @ mdash @ '' the operation may have idempotency protection.'']),
      (''RetryExhaustedError'',
        [''The boundary is unavailable after all retry attempts.'', ''Wait and retry later.'']),
      (''RuntimeUnavailableError'',
        [''The capability registry is temporarily unavailable.'', ''Try again later.'']),
      (''ConnectionError'',
        [''Cannot reach the MCP boundary.'', ''Check network, firewall, and MCP URL configuration.'',
         ''Retry is safe.'']),
      (''RateLimitedError'',
        [''You are being rate-limited by the boundary.'',
         ''Wait for the Retry-After period and try again.'']),
      (''IdempotencyConflictError'',
        [''A different payload was sent with the same idempotency key.'',
         ''If this is a new resolution, use a fresh attempt.'']),
      (''AmbiguousResolution'',
        [''Multiple providers satisfy the capability '' @ mdash @ '' no lawful tie-break exists.'',
         ''Specify --provider <name> to pin a provider explicitly.'',
         ''Inspect candidates: keyhole search <capability>'']),
      (''IncompatibleProviderSet'',
        [''Capability exists but no provider satisfies the requested constraints.'',
         ''Relax version or provider constraints.'',
         ''Inspect available providers: keyhole search <capability>'']),
      (''CapabilityNotFound'',
        [''The requested capability was not found in the registry.'',
         ''Check spelling of the capability name.'', ''Try: keyhole search <broader-namespace>'']),
      (''InvalidLocalDependencyState'',
        [''The local repo dependency model is malformed.'',
         ''Inspect dependencies.yaml for syntax errors.'',
         ''Run: keyhole validate '' @ mdash @ '' to diagnose.'']),
      (''UnsupportedWriteTarget'',
        [''This repo is foreign '' @ mdash @ '' in-repo write is not lawful by default.'',
         ''Use --advisory mode for foreign repos.'',
         ''Complete alignment before writing dependency state.'',
         ''Run: keyhole repo register '' @ mdash @ '' and alignment steps first.'']),
      (''ServerRejection'',
        [''The boundary rejected the request.'', ''Check the error reason for details.'',
         ''Inspect ingestion compatibility posture before materializing.'']),
      (''RegistryUnreachable'',
        [''The capability registry is unreachable.'',
         ''Check network connectivity to the MCP boundary.'',
         ''Run: keyhole doctor '' @ mdash @ '' to diagnose your environment.''])]"

definition map_capability_repair :: "string \<Rightarrow> string list" where
  "map_capability_repair error_class =
     (case dict_get capability_repairs error_class of
        Some (g # gs) \<Rightarrow> g # gs
      | _ \<Rightarrow>
          [''Unexpected error: '' @ error_class,
           ''Try: keyhole search <capability> '' @ mdash @ '' to inspect candidates.'',
           ''Try: keyhole doctor '' @ mdash @ '' to diagnose your environment.''])"

section \<open>Reading an answer\<close>

text \<open>\<open>am_int\<close> and \<open>am_bool\<close> are what pydantic makes of a value for an \<open>int\<close> or \<open>bool\<close> field.\<close>

record answer_models =
  am_int :: "json \<Rightarrow> int option"
  am_bool :: "json \<Rightarrow> bool option"

definition text_value :: "json \<Rightarrow> string option" where
  "text_value v = (case v of JStr s \<Rightarrow> Some s | _ \<Rightarrow> None)"

definition either_key :: "dict \<Rightarrow> string \<Rightarrow> string \<Rightarrow> json \<Rightarrow> json" where
  "either_key d k k' dflt = dict_get_or d k (dict_get_or d k' dflt)"

definition search_candidate :: "answer_models \<Rightarrow> dict \<Rightarrow> candidate option" where
  "search_candidate am d =
     do {
       capability \<leftarrow> text_value (either_key d ''capability'' ''name'' (JStr []));
       provider \<leftarrow> text_value (dict_get_or d ''provider'' (JStr []));
       version \<leftarrow> text_value (dict_get_or d ''version'' (JStr []));
       visibility \<leftarrow> text_value (dict_get_or d ''visibility'' (JStr ''public''));
       summary \<leftarrow> text_value (either_key d ''summary'' ''description'' (JStr []));
       digest \<leftarrow> text_value (dict_get_or d ''digest'' (JStr []));
       inferred \<leftarrow> am_bool am (dict_get_or d ''matches_inferred_need'' (JBool False));
       pinned \<leftarrow> am_bool am (dict_get_or d ''already_pinned_locally'' (JBool False));
       Some \<lparr>cd_capability = capability, cd_provider = provider, cd_version = version,
             cd_visibility = visibility, cd_summary = summary, cd_digest = digest,
             cd_inferred = inferred, cd_pinned = pinned\<rparr>
     }"

definition resolution_candidate :: "dict \<Rightarrow> candidate option" where
  "resolution_candidate d =
     do {
       capability \<leftarrow> text_value (either_key d ''capability'' ''name'' (JStr []));
       provider \<leftarrow> text_value (dict_get_or d ''provider'' (JStr []));
       version \<leftarrow> text_value (dict_get_or d ''version'' (JStr []));
       visibility \<leftarrow> text_value (dict_get_or d ''visibility'' (JStr ''public''));
       summary \<leftarrow> text_value (dict_get_or d ''summary'' (JStr []));
       digest \<leftarrow> text_value (dict_get_or d ''digest'' (JStr []));
       Some \<lparr>cd_capability = capability, cd_provider = provider, cd_version = version,
             cd_visibility = visibility, cd_summary = summary, cd_digest = digest,
             cd_inferred = False, cd_pinned = False\<rparr>
     }"

fun dict_items :: "json list \<Rightarrow> dict list" where
  "dict_items [] = []"
| "dict_items (JObj d # vs) = d # dict_items vs"
| "dict_items (_ # vs) = dict_items vs"

text \<open>Entries that are not dictionaries are passed over; one whose fields are of another type raises.\<close>

definition candidates_of :: "(dict \<Rightarrow> candidate option) \<Rightarrow> json \<Rightarrow> candidate list raised" where
  "candidates_of parse v =
     and_then (or_crash ''TypeError'' (iterate_json v))
       (\<lambda>items. or_crash ''ValidationError'' (those (map parse (dict_items items))))"

section \<open>Search\<close>

definition empty_search_steps :: "search_request \<Rightarrow> string list" where
  "empty_search_steps q =
     [''No capabilities matched '' @ quoted (sq_query q) @ ''.'', ''Check spelling and namespace prefix.''] @
     (if sq_provider q \<noteq> []
      then [''Try relaxing the --provider filter (currently '' @ quoted (sq_provider q) @ '').''] else []) @
     (if sq_version q \<noteq> []
      then [''Try relaxing the --version filter (currently '' @ quoted (sq_version q) @ '').''] else []) @
     [''Try: keyhole search <broader-namespace> '' @ mdash @ '' to discover related capabilities.'']"

definition failed_search :: "search_request \<Rightarrow> int \<Rightarrow> string \<Rightarrow> string \<Rightarrow> string list \<Rightarrow> string list \<Rightarrow> search_result" where
  "failed_search q http error_class reason steps warnings =
     \<lparr>sx_query = sq_query q, sx_candidates = [], sx_total = 0, sx_correlation_id = sq_correlation_id q,
      sx_empty = True, sx_next_steps = steps, sx_warnings = warnings, sx_http_status = http,
      sx_error_class = error_class, sx_reason = reason\<rparr>"

definition refused_search :: "dict \<Rightarrow> int \<Rightarrow> search_request \<Rightarrow> string list \<Rightarrow> search_result option" where
  "refused_search data http q steps =
     do {
       cls \<leftarrow> text_value (dict_get_or data ''error_class'' (JStr ''server_rejection''));
       reason \<leftarrow> text_value (either_key data ''reason'' ''message'' (JStr []));
       guidance \<leftarrow> str_list_value (dict_get_or data ''repair_guidance'' (JList (map JStr steps)));
       warnings \<leftarrow> str_list_value (dict_get_or data ''warnings'' (JList []));
       Some (failed_search q http cls reason guidance warnings)
     }"

definition found_search ::
  "answer_models \<Rightarrow> dict \<Rightarrow> int \<Rightarrow> search_request \<Rightarrow> candidate list \<Rightarrow> string list \<Rightarrow> search_result option" where
  "found_search am data http q cands steps =
     do {
       total \<leftarrow> am_int am (either_key data ''total_count'' ''total'' (JInt (int (length cands))));
       warnings \<leftarrow> str_list_value (dict_get_or data ''warnings'' (JList []));
       Some \<lparr>sx_query = sq_query q, sx_candidates = cands, sx_total = total,
             sx_correlation_id = sq_correlation_id q, sx_empty = (cands = []), sx_next_steps = steps,
             sx_warnings = warnings, sx_http_status = http, sx_error_class = [], sx_reason = []\<rparr>
     }"

definition classify_search :: "answer_models \<Rightarrow> transport_result \<Rightarrow> search_request \<Rightarrow> search_result raised" where
  "classify_search am result q =
     (case res_data result of
        JObj data \<Rightarrow>
          and_then (candidates_of (search_candidate am) (either_key data ''candidates'' ''results'' (JList [])))
            (\<lambda>cands.
               let http = res_status_code result; steps = (if cands = [] then empty_search_steps q else [])
               in or_crash ''ValidationError''
                    (if 400 \<le> http then refused_search data http q steps
                     else found_search am data http q cands steps))
      | _ \<Rightarrow> Crashed ''AttributeError'')"

definition submit_search ::
  "answer_models \<Rightarrow> (transport_error \<Rightarrow> string) \<Rightarrow> transport_env \<Rightarrow> transport \<Rightarrow> search_request \<Rightarrow>
   search_result raised \<times> exec_state" where
  "submit_search am text env tr q =
     (case execute env builtin_registry tr ''POST'' ''/mcp/v1/capabilities/search'' ''capability.search'' None [] of
        (Inl e, st) \<Rightarrow>
          (Returned (failed_search q 0 (transport_error_name e) (text e)
             (map_capability_repair (transport_error_name e)) []), st)
      | (Inr result, st) \<Rightarrow> (classify_search am result q, st))"

section \<open>Resolution\<close>

definition ambiguity_repair :: "resolution_request \<Rightarrow> candidate list \<Rightarrow> string list" where
  "ambiguity_repair q cands =
     (let providers = py_join '', '' (map cd_provider (filter (\<lambda>c. cd_provider c \<noteq> []) cands))
      in [''Multiple providers satisfy '' @ quoted (xq_capability q) @ '' '' @ mdash @
          '' no lawful tie-break exists.''] @
         (if providers \<noteq> [] then [''Candidates: '' @ providers] else []) @
         [''Specify --provider <name> to pin a provider explicitly.'',
          ''Inspect candidates: keyhole search '' @ xq_capability q])"

text \<open>What every branch takes from the answer, and what each of them adds.\<close>

definition base_resolution ::
  "answer_models \<Rightarrow> dict \<Rightarrow> int \<Rightarrow> resolution_request \<Rightarrow> string \<Rightarrow> resolution option" where
  "base_resolution am data http q status =
     do {
       warnings \<leftarrow> str_list_value (dict_get_or data ''warnings'' (JList []));
       replay \<leftarrow> am_bool am (either_key data ''is_replay'' ''replayed'' (JBool False));
       Some ((resolution_of status q)\<lparr>rs_http_status := http, rs_response := data,
               rs_warnings := warnings, rs_replay := replay\<rparr>)
     }"

definition ambiguous_resolution ::
  "answer_models \<Rightarrow> dict \<Rightarrow> int \<Rightarrow> resolution_request \<Rightarrow> resolution raised" where
  "ambiguous_resolution am data http q =
     and_then (candidates_of resolution_candidate (dict_get_or data ''candidates'' (JList [])))
       (\<lambda>cands. or_crash ''ValidationError''
          (map_option (\<lambda>r. r\<lparr>rs_candidates := cands, rs_repair := ambiguity_repair q cands\<rparr>)
             (base_resolution am data http q ''ambiguous'')))"

definition incompatible_resolution ::
  "answer_models \<Rightarrow> dict \<Rightarrow> int \<Rightarrow> resolution_request \<Rightarrow> resolution raised" where
  "incompatible_resolution am data http q =
     and_then (candidates_of resolution_candidate (dict_get_or data ''candidates'' (JList [])))
       (\<lambda>cands. or_crash ''ValidationError''
          (do {
             r \<leftarrow> base_resolution am data http q ''incompatible'';
             reason \<leftarrow> text_value (dict_get_or data ''reason'' (JStr ''No compatible provider found.''));
             guidance \<leftarrow> str_list_value (dict_get_or data ''repair_guidance''
               (JList [JStr (''Inspect candidate providers: keyhole search '' @ xq_capability q),
                       JStr ''Refine version or provider constraints.'']));
             Some (r\<lparr>rs_candidates := cands, rs_reason := reason, rs_repair := guidance\<rparr>)
           }))"

definition not_found_resolution ::
  "answer_models \<Rightarrow> dict \<Rightarrow> int \<Rightarrow> resolution_request \<Rightarrow> resolution option" where
  "not_found_resolution am data http q =
     do {
       r \<leftarrow> base_resolution am data http q ''not_found'';
       reason \<leftarrow> text_value (dict_get_or data ''reason''
         (JStr (''Capability '' @ quoted (xq_capability q) @ '' not found.'')));
       Some (r\<lparr>rs_reason := reason,
               rs_repair := [''Check spelling: '' @ quoted (xq_capability q) @ ''.'',
                 ''Try: keyhole search '' @ xq_capability q @ '' '' @ mdash @ '' to discover candidates.'']\<rparr>)
     }"

definition resolved_dependency :: "dict \<Rightarrow> resolution_request \<Rightarrow> dependency option" where
  "resolved_dependency d q =
     do {
       capability \<leftarrow> text_value (dict_get_or d ''capability'' (JStr (xq_capability q)));
       provider \<leftarrow> text_value (dict_get_or d ''provider'' (JStr []));
       version \<leftarrow> text_value (dict_get_or d ''version'' (JStr []));
       digest \<leftarrow> text_value (dict_get_or d ''digest'' (JStr []));
       reason \<leftarrow> text_value (either_key d ''reason'' ''selection_reason'' (JStr []));
       Some \<lparr>rd_capability = capability, rd_provider = provider, rd_version = version,
             rd_digest = digest, rd_reason = reason\<rparr>
     }"

definition resolved_resolution ::
  "answer_models \<Rightarrow> dict \<Rightarrow> int \<Rightarrow> resolution_request \<Rightarrow> resolution raised" where
  "resolved_resolution am data http q =
     (case dict_get_or data ''resolved'' (JObj data) of
        JObj d \<Rightarrow> or_crash ''ValidationError''
          (do {
             dep \<leftarrow> resolved_dependency d q;
             r \<leftarrow> base_resolution am data http q ''resolved'';
             Some (r\<lparr>rs_resolved := Some dep\<rparr>)
           })
      | _ \<Rightarrow> Crashed ''AttributeError'')"

definition rejected_resolution ::
  "answer_models \<Rightarrow> dict \<Rightarrow> int \<Rightarrow> resolution_request \<Rightarrow> resolution option" where
  "rejected_resolution am data http q =
     do {
       r \<leftarrow> base_resolution am data http q ''rejected'';
       cls \<leftarrow> text_value (dict_get_or data ''error_class'' (JStr ''server_rejection''));
       reason \<leftarrow> text_value (either_key data ''reason'' ''message'' (JStr []));
       guidance \<leftarrow> str_list_value (dict_get_or data ''repair_guidance'' (JList []));
       Some (r\<lparr>rs_error_class := cls, rs_reason := reason, rs_repair := guidance\<rparr>)
     }"

definition classify_resolution_error ::
  "answer_models \<Rightarrow> dict \<Rightarrow> int \<Rightarrow> resolution_request \<Rightarrow> resolution raised" where
  "classify_resolution_error am data http q =
     (case dict_get_or data ''status'' (JStr ''rejected'') of
        JStr status \<Rightarrow>
          if py_lower status = ''ambiguous'' then ambiguous_resolution am data http q
          else or_crash ''ValidationError'' (rejected_resolution am data http q)
      | _ \<Rightarrow> Crashed ''AttributeError'')"

definition classify_answer ::
  "answer_models \<Rightarrow> dict \<Rightarrow> int \<Rightarrow> string \<Rightarrow> resolution_request \<Rightarrow> resolution raised" where
  "classify_answer am data http status q =
     (if 400 \<le> http then classify_resolution_error am data http q
      else if http = 202 \<or> status \<in> set [''accepted'', ''pending'']
        then or_crash ''ValidationError'' (base_resolution am data http q ''accepted'')
      else if status = ''deferred'' then or_crash ''ValidationError'' (base_resolution am data http q ''deferred'')
      else if status = ''ambiguous'' then ambiguous_resolution am data http q
      else if status = ''incompatible'' then incompatible_resolution am data http q
      else if status = ''not_found'' then or_crash ''ValidationError'' (not_found_resolution am data http q)
      else resolved_resolution am data http q)"

definition classify_resolution ::
  "answer_models \<Rightarrow> transport_result \<Rightarrow> resolution_request \<Rightarrow> resolution raised" where
  "classify_resolution am result q =
     (case res_data result of
        JObj data \<Rightarrow>
          (case dict_get_or data ''status'' (JStr []) of
             JStr status \<Rightarrow> classify_answer am data (res_status_code result) (py_lower status) q
           | _ \<Rightarrow> Crashed ''AttributeError'')
      | _ \<Rightarrow> Crashed ''AttributeError'')"

definition failed_resolution :: "(transport_error \<Rightarrow> string) \<Rightarrow> transport_error \<Rightarrow> resolution_request \<Rightarrow> resolution" where
  "failed_resolution text e q =
     (resolution_of ''failed'' q)\<lparr>rs_error_class := transport_error_name e, rs_reason := text e,
       rs_repair := map_capability_repair (transport_error_name e), rs_local := True\<rparr>"

definition submit_resolution ::
  "answer_models \<Rightarrow> (transport_error \<Rightarrow> string) \<Rightarrow> transport_env \<Rightarrow> transport \<Rightarrow> resolution_request \<Rightarrow>
   resolution raised \<times> exec_state" where
  "submit_resolution am text env tr q =
     (case execute env builtin_registry tr ''POST'' ''/mcp/v1/capabilities/resolve'' ''capability.resolve'' None [] of
        (Inl e, st) \<Rightarrow> (Returned (failed_resolution text e q), st)
      | (Inr result, st) \<Rightarrow> (classify_resolution am result q, st))"

section \<open>When an answer is a resolution\<close>

lemma base_resolution_status:
  "base_resolution am data http q st = Some r \<Longrightarrow>
     rs_status r = st \<and> rs_resolved r = None \<and> rs_mode r = xq_mode q \<and> rs_correlation_id r = xq_correlation_id q"
  by (auto simp: base_resolution_def resolution_of_def Option.bind_eq_Some_conv)

lemma or_crash_Returned [simp]: "or_crash c v = Returned r \<longleftrightarrow> v = Some r"
  by (auto simp: or_crash_def split: option.splits)

lemmas branch_defs =
  ambiguous_resolution_def incompatible_resolution_def not_found_resolution_def
  rejected_resolution_def resolved_resolution_def

lemma ambiguous_status:
  "ambiguous_resolution am data http q = Returned r \<Longrightarrow>
     rs_status r = ''ambiguous'' \<and> rs_resolved r = None \<and> rs_correlation_id r = xq_correlation_id q"
  by (auto simp: branch_defs and_then_Returned dest!: base_resolution_status)

lemma incompatible_status:
  "incompatible_resolution am data http q = Returned r \<Longrightarrow>
     rs_status r = ''incompatible'' \<and> rs_resolved r = None \<and> rs_correlation_id r = xq_correlation_id q"
  by (auto simp: branch_defs and_then_Returned simp: Option.bind_eq_Some_conv dest!: base_resolution_status)

lemma not_found_status:
  "not_found_resolution am data http q = Some r \<Longrightarrow>
     rs_status r = ''not_found'' \<and> rs_resolved r = None \<and> rs_correlation_id r = xq_correlation_id q"
  by (auto simp: branch_defs simp: Option.bind_eq_Some_conv dest!: base_resolution_status)

lemma rejected_status:
  "rejected_resolution am data http q = Some r \<Longrightarrow>
     rs_status r = ''rejected'' \<and> rs_resolved r = None \<and> rs_correlation_id r = xq_correlation_id q"
  by (auto simp: branch_defs simp: Option.bind_eq_Some_conv dest!: base_resolution_status)

lemma resolved_status:
  "resolved_resolution am data http q = Returned r \<Longrightarrow>
     rs_status r = ''resolved'' \<and> rs_resolved r \<noteq> None \<and> rs_correlation_id r = xq_correlation_id q"
  by (auto simp: branch_defs simp: Option.bind_eq_Some_conv split: json.splits dest!: base_resolution_status)

lemma error_status:
  "classify_resolution_error am data http q = Returned r \<Longrightarrow>
     rs_status r \<in> {''ambiguous'', ''rejected''} \<and> rs_resolved r = None \<and>
     rs_correlation_id r = xq_correlation_id q"
  by (auto simp: classify_resolution_error_def split: json.splits if_splits
      dest!: ambiguous_status rejected_status)

end
