(* ===== verification/Dependency_Command.thy ===== *)
theory Dependency_Command
  imports Capability_Client Command_Result
begin

chapter \<open>Resolution\<close>

text \<open>
  What a resolution leaves behind: the entry in \<open>dependencies.yaml\<close> or the suggestion outside the
  repository (\<open>capability/materializer.py\<close>), and the proof files (\<open>capability/proof.py\<close>).
\<close>

section \<open>Files\<close>

text \<open>
  \<open>dependencies.yaml\<close> as text, absent, not a regular file, or a file whose reading raises. A file of
  text is read with every line ending as a line feed.
\<close>

datatype dep_file = DepAbsent | DepText string | DepUnreadable string | DepNotFile string

fun read_newlines :: "bool \<Rightarrow> string \<Rightarrow> string" where
  "read_newlines after_cr [] = []"
| "read_newlines after_cr (c # cs) =
     (if c = CHR 13 then CHR 10 # read_newlines True cs
      else if after_cr \<and> c = CHR 10 then read_newlines False cs
      else c # read_newlines False cs)"

definition read_text :: "string \<Rightarrow> string" where
  "read_text s = read_newlines False s"

section \<open>Materialisation\<close>

record materialization =
  mt_success :: bool
  mt_target :: string
  mt_diff :: string
  mt_write :: bool
  mt_error_class :: string
  mt_reason :: string
  mt_repair :: "string list"

definition materialization_dict :: "materialization \<Rightarrow> dict" where
  "materialization_dict m =
     [(''success'', JBool (mt_success m)), (''target'', JStr (mt_target m)), (''is_write'', JBool (mt_write m))] @
     str_entry ''diff_summary'' (mt_diff m) @ str_entry ''error_class'' (mt_error_class m) @
     str_entry ''reason'' (mt_reason m) @
     (if mt_repair m \<noteq> [] then [(''repair_guidance'', JList (map JStr (mt_repair m)))] else [])"

definition refused_materialization :: "string \<Rightarrow> string \<Rightarrow> string list \<Rightarrow> materialization" where
  "refused_materialization error_class reason repair =
     \<lparr>mt_success = False, mt_target = [], mt_diff = [], mt_write = False, mt_error_class = error_class,
      mt_reason = reason, mt_repair = repair\<rparr>"

definition done_materialization :: "string \<Rightarrow> string \<Rightarrow> bool \<Rightarrow> materialization" where
  "done_materialization target diff write =
     \<lparr>mt_success = True, mt_target = target, mt_diff = diff, mt_write = write, mt_error_class = [],
      mt_reason = [], mt_repair = []\<rparr>"

record local_files =
  lf_deps :: dep_file
  lf_state :: proof_writes

text \<open>
  Where the files are, and the exception that writing raises, if any: \<open>fs_deps_error\<close> in the
  repository, \<open>fs_state_error\<close> below the state directory. It is raised before a file is opened for writing; a
  device that fails in the middle of a write, and leaves the file cut short, is not modelled here.
\<close>

record file_env =
  fs_repo :: string
  fs_state_dir :: string
  fs_deps_error :: "string option"
  fs_state_error :: "string option"

definition suggested_dir :: "string \<Rightarrow> string list" where
  "suggested_dir cid = [''resolution'', map safe_char (str_or cid ''unknown'')]"

definition emit_advisory_artifact ::
  "file_env \<Rightarrow> dependency \<Rightarrow> resolution \<Rightarrow> local_files \<Rightarrow> materialization raised \<times> local_files" where
  "emit_advisory_artifact fs dep r f =
     (let path = suggested_dir (rs_correlation_id r) @ [''suggested-dependency.json''];
          suggested = dict_update (dependency_entry dep)
            [(''advisory'', JBool True), (''correlation_id'', JStr (rs_correlation_id r))]
      in case fs_state_error fs of
           Some e \<Rightarrow> (Crashed e, f)
         | None \<Rightarrow>
             (Returned (done_materialization (py_join ''/'' (fs_state_dir fs # path))
                ''Advisory artifact emitted (no repo mutation).'' False),
              f\<lparr>lf_state := lf_state f @ [(path, ProofJson suggested)]\<rparr>))"

definition right_arrow :: string where
  "right_arrow = [CHR 0xE2, CHR 0x86, CHR 0x92]"

definition dependency_block :: "dependency \<Rightarrow> string" where
  "dependency_block dep =
     py_join [CHR 10]
       ([''- capability: '' @ rd_capability dep, ''  provider: '' @ rd_provider dep] @
        (if rd_version dep \<noteq> [] then [''  version: '' @ rd_version dep] else []) @
        (if rd_digest dep \<noteq> [] then [''  digest: '' @ rd_digest dep] else [])) @ [CHR 10]"

definition dependency_present :: "dependency \<Rightarrow> string \<Rightarrow> bool" where
  "dependency_present dep existing = (py_in (rd_capability dep) existing \<and> py_in (rd_provider dep) existing)"

definition appended_dependency :: "dependency \<Rightarrow> string \<Rightarrow> string" where
  "appended_dependency dep existing =
     (if py_strip existing \<noteq> [] then py_rstrip_char (CHR 10) existing @ [CHR 10] @ dependency_block dep
      else dependency_block dep)"

definition store_dependency ::
  "file_env \<Rightarrow> dependency \<Rightarrow> string \<Rightarrow> local_files \<Rightarrow> materialization raised \<times> local_files" where
  "store_dependency fs dep existing f =
     (let target = fs_repo fs @ ''/dependencies.yaml''
      in if dependency_present dep existing
         then (Returned (done_materialization target
                 ''Dependency already present in dependencies.yaml (no change).'' False), f)
         else
           (case fs_deps_error fs of
              Some e \<Rightarrow> (Crashed e, f)
            | None \<Rightarrow>
                (Returned (done_materialization target
                   (''Added dependency: '' @ rd_capability dep @ '' '' @ right_arrow @ '' '' @ rd_provider dep @
                    (if rd_version dep \<noteq> [] then ''@'' @ rd_version dep else [])) True),
                 f\<lparr>lf_deps := DepText (appended_dependency dep existing)\<rparr>)))"

definition write_native_dependency ::
  "file_env \<Rightarrow> dependency \<Rightarrow> local_files \<Rightarrow> materialization raised \<times> local_files" where
  "write_native_dependency fs dep f =
     (case lf_deps f of
        DepAbsent \<Rightarrow> store_dependency fs dep [] f
      | DepText s \<Rightarrow> store_dependency fs dep (read_text s) f
      | DepUnreadable e \<Rightarrow> (Crashed e, f)
      | DepNotFile e \<Rightarrow>
          if dependency_present dep [] then store_dependency fs dep [] f else (Crashed e, f))"

definition materialize_resolution ::
  "file_env \<Rightarrow> resolution \<Rightarrow> repo_posture \<Rightarrow> materialization_mode \<Rightarrow> local_files \<Rightarrow>
   materialization raised \<times> local_files" where
  "materialize_resolution fs r p m f =
     (case rs_resolved r of
        Some dep \<Rightarrow>
          if \<not> is_resolved r then
            (Returned (refused_materialization ''UnresolvedOutcome''
               (''Cannot materialise: outcome status is '' @ quoted (rs_status r) @ ''.'')
               [''Resolve the capability first.'']), f)
          else if m = ADVISORY then emit_advisory_artifact fs dep r f
          else if p \<noteq> NATIVE then
            (Returned (refused_materialization ''UnsupportedWriteTarget''
               (''Repo posture is '' @ quoted (repo_posture_value p) @ '' '' @ mdash @
                '' in-repo write is not lawful for foreign repos by default.'')
               [''Use --advisory mode for foreign repos.'',
                ''Complete alignment before writing dependency state.'',
                ''Run: keyhole repo register '' @ mdash @ '' and alignment steps first.'']), f)
          else write_native_dependency fs dep f
      | None \<Rightarrow>
          (Returned (refused_materialization ''UnresolvedOutcome''
             (''Cannot materialise: outcome status is '' @ quoted (rs_status r) @ ''.'')
             [''Resolve the capability first.'']), f))"

section \<open>Proof files\<close>

definition correlation_proof :: "string \<Rightarrow> string \<Rightarrow> dict \<Rightarrow> string \<Rightarrow> dict" where
  "correlation_proof cid operation extra now =
     [(''correlation_id'', JStr cid), (''operation'', JStr operation)] @ extra @ [(''emitted_at'', JStr now)]"

definition emit_search_proof :: "string \<Rightarrow> string \<Rightarrow> dict \<Rightarrow> dict \<Rightarrow> string list \<times> proof_writes" where
  "emit_search_proof now cid request result =
     (let dir = [''search'', dispatch_dirname cid]
      in (dir,
          [(dir @ [''request.json''], ProofJson request), (dir @ [''response.json''], ProofJson result),
           (dir @ [''correlation.json''], ProofJson (correlation_proof cid ''capability.search'' [] now))]))"

definition bold_line :: "string \<Rightarrow> string \<Rightarrow> string" where
  "bold_line label v = ''**'' @ label @ '':** '' @ v"

definition py_bool_str :: "bool \<Rightarrow> string" where
  "py_bool_str b = (if b then ''True'' else ''False'')"

definition resolution_summary ::
  "resolution_request \<Rightarrow> resolution \<Rightarrow> materialization option \<Rightarrow> string \<Rightarrow> string \<Rightarrow> string list" where
  "resolution_summary q r mat p m =
     (let dep = rs_resolved r;
          provider = (case dep of None \<Rightarrow> [] | Some d \<Rightarrow> rd_provider d);
          version = (case dep of None \<Rightarrow> [] | Some d \<Rightarrow> rd_version d)
      in [''# Resolution Proof'', [], bold_line ''Capability'' (xq_capability q), bold_line ''Status'' (rs_status r),
          bold_line ''Repo Posture'' (str_or p ''unknown''), bold_line ''Mode'' (str_or m ''advisory'')] @
         (if xq_provider q \<noteq> [] then [bold_line ''Requested Provider'' (xq_provider q)] else []) @
         (if provider \<noteq> [] then [bold_line ''Resolved Provider'' provider] else []) @
         (if version \<noteq> [] then [bold_line ''Resolved Version'' version] else []) @
         (case mat of
            None \<Rightarrow> []
          | Some t \<Rightarrow>
              [[], ''## Materialization'', bold_line ''Target'' (mt_target t),
               bold_line ''Write'' (py_bool_str (mt_write t)),
               bold_line ''Diff'' (if mt_diff t \<noteq> [] then mt_diff t else ''No diff.'')]) @
         (if rs_repair r \<noteq> [] then [[], ''## Repair Guidance''] @ map (\<lambda>g. ''- '' @ g) (rs_repair r) else []) @
         [[]])"

definition emit_resolution_proof ::
  "string \<Rightarrow> string \<Rightarrow> resolution_request \<Rightarrow> resolution \<Rightarrow> materialization option \<Rightarrow> string \<Rightarrow> string \<Rightarrow>
   string list \<times> proof_writes" where
  "emit_resolution_proof now cid q r mat p m =
     (let dir = [''resolution'', dispatch_dirname cid]
      in (dir,
          [(dir @ [''request.json''], ProofJson (resolution_request_proof q)),
           (dir @ [''response.json''], ProofJson (resolution_proof r))] @
          (case mat of None \<Rightarrow> [] | Some t \<Rightarrow> [(dir @ [''diff.json''], ProofJson (materialization_dict t))]) @
          [(dir @ [''correlation.json''], ProofJson (correlation_proof cid ''capability.resolve''
              [(''repo_posture'', JStr p), (''mode'', JStr m)] now)),
           (dir @ [''summary.md''], ProofText (py_join [CHR 10] (resolution_summary q r mat p m))),
           (dir @ [''digest.txt''], ProofText (cid @ [CHR 10]))] @
          (case rs_resolved r of
             None \<Rightarrow> []
           | Some d \<Rightarrow> [(dir @ [''suggested-dependency.json''], ProofJson (dependency_dict d))])))"

chapter \<open>Command\<close>

text \<open>
  \<open>keyhole dependency resolve\<close> (\<open>keyhole_cli/commands/dependency_resolve_cmd.py\<close>) and \<open>keyhole search\<close>
  (\<open>search_cmd.py\<close>), over the credentials file, the requests sent, \<open>dependencies.yaml\<close> and the files
  below the state directory.
\<close>

record capability_world =
  vw_creds :: cred_file
  vw_sent :: "dict list"
  vw_files :: local_files

text \<open>
  \<open>ve_is_dir\<close> and \<open>ve_is_file\<close> look below the resolved path of the repository; \<open>ve_transport\<close> is the
  transport that sends a token.
\<close>

record capability_env =
  ve_is_dir :: "string list \<Rightarrow> bool"
  ve_is_file :: "string list \<Rightarrow> bool"
  ve_fresh_id :: string
  ve_now :: string
  ve_clock :: rat
  ve_models :: model_env
  ve_answers :: answer_models
  ve_refresh :: refresh_env
  ve_fingerprint :: "string \<Rightarrow> string"
  ve_transport :: "json \<Rightarrow> transport"
  ve_transport_env :: transport_env
  ve_error_text :: "transport_error \<Rightarrow> string"
  ve_files :: file_env

section \<open>The token\<close>

definition capability_failure :: "string \<Rightarrow> int \<Rightarrow> string \<Rightarrow> string \<Rightarrow> string list \<Rightarrow> cli_result" where
  "capability_failure label code summary error_class steps =
     command_result_of label False code [(''error_class'', JStr error_class), (''is_local'', JBool True)] steps summary"

definition not_signed_in :: "string \<Rightarrow> cli_result" where
  "not_signed_in label =
     capability_failure label exit_failure ''Not authenticated. Run: keyhole login'' ''NotAuthenticated''
       (map_capability_repair ''NotAuthenticated'')"

text \<open>The stored token, when there is none to renew; another exception of the renewal is not caught.\<close>

definition token_or_stored :: "capability_env \<Rightarrow> auth_session \<Rightarrow> cred_file \<Rightarrow> json raised \<times> cred_file" where
  "token_or_stored g s creds =
     (case get_fresh_token (ve_models g) (ve_refresh g) creds of
        (Crashed c, creds') \<Rightarrow>
          (if c = ''FileNotFoundError'' \<or> c = ''RuntimeError'' then (Returned (JStr (ss_access_token s)), creds')
           else (Crashed c, creds'))
      | res \<Rightarrow> res)"

text \<open>The rest of a command runs with a session and a token that is not empty.\<close>

definition with_token ::
  "capability_env \<Rightarrow> string \<Rightarrow> capability_world \<Rightarrow>
   (auth_session \<Rightarrow> json \<Rightarrow> capability_world \<Rightarrow> cli_result raised \<times> capability_world) \<Rightarrow>
   cli_result raised \<times> capability_world" where
  "with_token g label w rest =
     (case load_session (ve_models g) (ve_clock g) (vw_creds w) of
        AuthRaised e \<Rightarrow> (AuthRaised e, w)
      | Crashed c \<Rightarrow> (Crashed c, w)
      | Blocked \<Rightarrow> (Blocked, w)
      | Returned None \<Rightarrow> (Returned (not_signed_in label), w)
      | Returned (Some s) \<Rightarrow>
          (let (out, creds) = token_or_stored g s (vw_creds w); w1 = w\<lparr>vw_creds := creds\<rparr>
           in case out of
                Returned token \<Rightarrow>
                  if json_truthy token then rest s token w1 else (Returned (not_signed_in label), w1)
              | AuthRaised e \<Rightarrow> (AuthRaised e, w1)
              | Crashed c \<Rightarrow> (Crashed c, w1)
              | Blocked \<Rightarrow> (Blocked, w1)))"

definition state_path :: "capability_env \<Rightarrow> string list \<Rightarrow> string" where
  "state_path g dir = py_join ''/'' (fs_state_dir (ve_files g) # dir)"

text \<open>A proof that cannot be written is left out; its directory is named when it is written.\<close>

definition write_state :: "capability_env \<Rightarrow> string list \<times> proof_writes \<Rightarrow> local_files \<Rightarrow> string option \<times> local_files" where
  "write_state g bundle f =
     (case fs_state_error (ve_files g) of
        Some e \<Rightarrow> (None, f)
      | None \<Rightarrow> (Some (state_path g (fst bundle)), f\<lparr>lf_state := lf_state f @ snd bundle\<rparr>))"

definition record_sent :: "dict \<Rightarrow> exec_state \<Rightarrow> capability_world \<Rightarrow> capability_world" where
  "record_sent payload st w = w\<lparr>vw_sent := vw_sent w @ (if st_sent st = [] then [] else [payload])\<rparr>"

section \<open>Search\<close>

definition search_result_data :: "search_result \<Rightarrow> string option \<Rightarrow> dict" where
  "search_result_data r proof_dir =
     [(''query'', JStr (sx_query r)), (''total_count'', JInt (sx_total r)), (''is_empty'', JBool (sx_empty r)),
      (''correlation_id'', JStr (sx_correlation_id r))] @
     (if sx_candidates r \<noteq> []
      then [(''candidates'', JList (map (JObj \<circ> candidate_dict) (sx_candidates r)))] else []) @
     str_entry ''error_class'' (sx_error_class r) @ str_entry ''reason'' (sx_reason r) @
     (case proof_dir of None \<Rightarrow> [] | Some d \<Rightarrow> [(''proof_dir'', JStr d)])"

definition search_summary :: "search_result \<Rightarrow> string" where
  "search_summary r =
     (if sx_error_class r \<noteq> [] then ''Search failed: '' @ str_or (sx_reason r) (sx_error_class r)
      else if sx_empty r then ''No capabilities found for query '' @ quoted (sx_query r) @ ''.''
      else ''Found '' @ str_int (sx_total r) @ '' capability '' @
           (if sx_total r = 1 then ''candidate'' else ''candidates'') @ '' for '' @ quoted (sx_query r) @ ''.'')"

definition search_command_result :: "string \<Rightarrow> search_result \<Rightarrow> string option \<Rightarrow> cli_result" where
  "search_command_result label r proof_dir =
     (let ok = (sx_error_class r = [])
      in (command_result_of label ok (if ok then exit_success else exit_failure)
            (search_result_data r proof_dir)
            (sx_next_steps r @
             (if ok \<and> \<not> sx_empty r
              then [''Run: keyhole dependency resolve <capability> '' @ mdash @ '' to resolve a dependency.''] else []))
            (search_summary r))
         \<lparr>cm_warnings := sx_warnings r\<rparr>)"

definition search_request_of :: "capability_env \<Rightarrow> string \<Rightarrow> string \<Rightarrow> string \<Rightarrow> search_request" where
  "search_request_of g query provider version =
     \<lparr>sq_query = query, sq_provider = provider, sq_version = version, sq_repo_identity = [],
      sq_posture = NATIVE, sq_correlation_id = ve_fresh_id g, sq_timestamp = ve_now g\<rparr>"

definition search_with ::
  "capability_env \<Rightarrow> search_request \<Rightarrow> auth_session \<Rightarrow> json \<Rightarrow> capability_world \<Rightarrow> cli_result raised \<times> capability_world" where
  "search_with g q s token w =
     (let (out, st) = submit_search (ve_answers g) (ve_error_text g) (ve_transport_env g) (ve_transport g token) q;
          w1 = record_sent (search_payload q) st w
      in case out of
           Returned r \<Rightarrow>
             (let (dir, f) = write_state g (emit_search_proof (ve_now g) (sq_correlation_id q)
                    (search_request_proof q) (search_result_proof r)) (vw_files w1)
              in (Returned (search_command_result ''keyhole search'' r dir), w1\<lparr>vw_files := f\<rparr>))
         | AuthRaised e \<Rightarrow> (AuthRaised e, w1)
         | Crashed c \<Rightarrow> (Crashed c, w1)
         | Blocked \<Rightarrow> (Blocked, w1))"

definition run_search ::
  "capability_env \<Rightarrow> string \<Rightarrow> string \<Rightarrow> string \<Rightarrow> capability_world \<Rightarrow> cli_result raised \<times> capability_world" where
  "run_search g query provider version w =
     with_token g ''keyhole search'' w (search_with g (search_request_of g query provider version))"

section \<open>Resolution\<close>

definition detect_repo_posture :: "capability_env \<Rightarrow> repo_posture" where
  "detect_repo_posture g =
     (if ve_is_file g [''keyhole.yaml''] \<or> ve_is_file g [''keyhole.yml''] then NATIVE
      else if ve_is_dir g [''.keyhole''] \<and> ve_is_file g [''.keyhole'', ''ingestion.json''] then INGESTION_BACKED
      else FOREIGN_REPO)"

definition resolution_data ::
  "resolution \<Rightarrow> string option \<Rightarrow> materialization option \<Rightarrow> materialization_mode \<Rightarrow> repo_posture \<Rightarrow> dict" where
  "resolution_data r proof_dir mat m p =
     [(''status'', JStr (rs_status r)), (''mode'', JStr (mode_value m)),
      (''repo_posture'', JStr (repo_posture_value p)), (''correlation_id'', JStr (rs_correlation_id r))] @
     (case rs_resolved r of None \<Rightarrow> [] | Some d \<Rightarrow> [(''resolved'', JObj (dependency_dict d))]) @
     (if rs_candidates r \<noteq> []
      then [(''candidates'', JList (map (JObj \<circ> candidate_dict) (rs_candidates r)))] else []) @
     (case mat of None \<Rightarrow> [] | Some t \<Rightarrow> [(''materialization'', JObj (materialization_dict t))]) @
     str_entry ''error_class'' (rs_error_class r) @ str_entry ''reason'' (rs_reason r) @
     (case proof_dir of None \<Rightarrow> [] | Some d \<Rightarrow> [(''proof_dir'', JStr d)])"

definition materialized_note :: "materialization option \<Rightarrow> string" where
  "materialized_note mat =
     (case mat of
        None \<Rightarrow> []
      | Some t \<Rightarrow>
          if mt_write t then '' Written to dependencies.yaml.''
          else if mt_success t then '' Advisory artifact emitted.'' else [])"

definition resolution_summary_line :: "resolution \<Rightarrow> materialization option \<Rightarrow> string" where
  "resolution_summary_line r mat =
     (case (rs_status r = ''resolved'', rs_resolved r) of
        (True, Some d) \<Rightarrow>
          ''Resolved: '' @ rd_capability d @ '' '' @ right_arrow @ '' '' @ rd_provider d @
          (if rd_version d \<noteq> [] then ''@'' @ rd_version d else []) @ ''.'' @ materialized_note mat
      | _ \<Rightarrow>
          if rs_status r = ''ambiguous'' then
            ''Ambiguous: '' @ str_nat (length (rs_candidates r)) @ '' providers satisfy the capability '' @ mdash @
            '' no lawful tie-break. Specify --provider to pin.''
          else if rs_status r = ''incompatible'' then
            ''Incompatible: no provider satisfies constraints. '' @ rs_reason r
          else if rs_status r = ''not_found'' then
            ''Not found: '' @ str_or (rs_reason r) ''capability not in registry.'' @ ''.''
          else if rs_status r \<in> set [''accepted'', ''deferred''] then
            ''Resolution '' @ rs_status r @ ''. Check status later.''
          else ''Resolution failed: '' @ str_or (rs_reason r) (str_or (rs_error_class r) ''unknown''))"

definition resolution_steps :: "resolution \<Rightarrow> materialization option \<Rightarrow> string list" where
  "resolution_steps r mat =
     rs_repair r @
     (case mat of
        None \<Rightarrow> []
      | Some t \<Rightarrow>
          (if is_resolved r \<and> mt_success t \<and> \<not> mt_write t
           then [''Run: keyhole dependency resolve <capability> --write '' @ mdash @ '' to commit to dependencies.yaml.'']
           else []) @
          (if \<not> mt_success t then mt_repair t else []))"

definition resolution_warnings :: "resolution \<Rightarrow> materialization option \<Rightarrow> string list" where
  "resolution_warnings r mat =
     rs_warnings r @
     (case mat of
        None \<Rightarrow> []
      | Some t \<Rightarrow>
          if mt_error_class t \<noteq> []
          then [''Materialization: '' @ mt_error_class t @ '' '' @ mdash @ '' '' @ mt_reason t] else [])"

definition resolution_command_result ::
  "string \<Rightarrow> resolution \<Rightarrow> string option \<Rightarrow> materialization option \<Rightarrow> materialization_mode \<Rightarrow> repo_posture \<Rightarrow> cli_result" where
  "resolution_command_result label r proof_dir mat m p =
     (command_result_of label (is_resolved r) (if is_resolved r then exit_success else exit_failure)
        (resolution_data r proof_dir mat m p) (resolution_steps r mat) (resolution_summary_line r mat))
     \<lparr>cm_warnings := resolution_warnings r mat\<rparr>"

text \<open>\<open>vx_advisory\<close> is the flag of that name, which nothing reads.\<close>

record resolve_args =
  vx_capability :: string
  vx_provider :: string
  vx_version :: string
  vx_write :: bool
  vx_advisory :: bool

definition asked_mode :: "resolve_args \<Rightarrow> materialization_mode" where
  "asked_mode a = (if vx_write a then WRITE else ADVISORY)"

definition resolution_request_of :: "capability_env \<Rightarrow> resolve_args \<Rightarrow> auth_session \<Rightarrow> resolution_request" where
  "resolution_request_of g a s =
     \<lparr>xq_capability = vx_capability a, xq_provider = vx_provider a, xq_version = vx_version a,
      xq_repo_identity = [], xq_posture = detect_repo_posture g, xq_mode = asked_mode a,
      xq_fingerprint = ve_fingerprint g (ss_access_token s), xq_correlation_id = ve_fresh_id g,
      xq_timestamp = ve_now g\<rparr>"

definition report_resolution ::
  "capability_env \<Rightarrow> resolution_request \<Rightarrow> resolution \<Rightarrow> materialization option \<Rightarrow> capability_world \<Rightarrow>
   cli_result \<times> capability_world" where
  "report_resolution g q r mat w =
     (let p = xq_posture q; m = xq_mode q;
          (dir, f) = write_state g (emit_resolution_proof (ve_now g) (xq_correlation_id q) q r mat
            (repo_posture_value p) (mode_value m)) (vw_files w)
      in (resolution_command_result ''keyhole dependency resolve'' r dir mat m p, w\<lparr>vw_files := f\<rparr>))"

definition finish_resolution ::
  "capability_env \<Rightarrow> resolution_request \<Rightarrow> resolution \<Rightarrow> capability_world \<Rightarrow> cli_result raised \<times> capability_world" where
  "finish_resolution g q r w =
     (if \<not> is_resolved r then (let (res, w') = report_resolution g q r None w in (Returned res, w'))
      else
        (let (mat, f) = materialize_resolution (ve_files g) r (xq_posture q) (xq_mode q) (vw_files w);
             w1 = w\<lparr>vw_files := f\<rparr>
         in case mat of
              Returned t \<Rightarrow> (let (res, w') = report_resolution g q r (Some t) w1 in (Returned res, w'))
            | AuthRaised e \<Rightarrow> (AuthRaised e, w1)
            | Crashed c \<Rightarrow> (Crashed c, w1)
            | Blocked \<Rightarrow> (Blocked, w1)))"

definition resolve_with ::
  "capability_env \<Rightarrow> resolve_args \<Rightarrow> auth_session \<Rightarrow> json \<Rightarrow> capability_world \<Rightarrow> cli_result raised \<times> capability_world" where
  "resolve_with g a s token w =
     (let q = resolution_request_of g a s;
          (out, st) = submit_resolution (ve_answers g) (ve_error_text g) (ve_transport_env g) (ve_transport g token) q;
          w1 = record_sent (resolution_payload q) st w
      in case out of
           Returned r \<Rightarrow> finish_resolution g q r w1
         | AuthRaised e \<Rightarrow> (AuthRaised e, w1)
         | Crashed c \<Rightarrow> (Crashed c, w1)
         | Blocked \<Rightarrow> (Blocked, w1))"

definition run_dependency_resolve ::
  "capability_env \<Rightarrow> resolve_args \<Rightarrow> capability_world \<Rightarrow> cli_result raised \<times> capability_world" where
  "run_dependency_resolve g a w =
     (if \<not> ve_is_dir g []
      then (Returned (capability_failure ''keyhole dependency resolve'' exit_invalid_input
              (''Repository path does not exist or is not a directory: '' @ fs_repo (ve_files g)) ''InvalidRepoPath''
              (map_capability_repair ''InvalidLocalDependencyState'')), w)
      else with_token g ''keyhole dependency resolve'' w (resolve_with g a))"

end
