(* ===== verification/Capability_Command.thy ===== *)
theory Capability_Command
  imports Capability_Names Dependency_Command Path_Glob "HOL-Library.List_Lexorder" "HOL-Library.Char_ord"
begin

text \<open>
  \<open>keyhole capability create\<close>, \<open>validate\<close> and \<open>register\<close> (\<open>keyhole_cli/commands/capability_cmd.py\<close>), over
  the artifact that a created name is appended to, the files below the state directory and the
  credentials file.
\<close>

definition name_state_dir :: "string \<Rightarrow> string \<Rightarrow> string \<Rightarrow> string \<Rightarrow> string" where
  "name_state_dir state_dir keyhole_home env_dir home =
     (if state_dir \<noteq> [] then state_dir
      else if keyhole_home \<noteq> [] then keyhole_home @ ''/state''
      else if env_dir \<noteq> [] then env_dir
      else home @ ''/.keyhole/state'')"

section \<open>The artifact\<close>

text \<open>An artifact's text, or what reading it gives: an operating system error, or bytes that are not text.\<close>

datatype artifact = ArtAbsent | ArtText string | ArtUnreadable string | ArtUndecodable

record artifact_write =
  aw_written :: bool
  aw_path :: string
  aw_warning :: string

definition artifact_names :: "string list" where
  "artifact_names = [''capability_passport.yaml'', ''governance_contract.yaml'']"

definition py_rstrip :: "string \<Rightarrow> string" where
  "py_rstrip s = rev (py_lstrip (rev s))"

definition declared_name :: "string \<Rightarrow> string \<Rightarrow> string" where
  "declared_name canonical content =
     (if py_in ''capabilities:'' content then py_rstrip content @ [CHR 10] @ ''  - '' @ canonical @ [CHR 10]
      else py_rstrip content @ [CHR 10] @ ''capabilities:'' @ [CHR 10] @ ''  - '' @ canonical @ [CHR 10])"

text \<open>
  A write that fails: its error, and how much of the new text had been written when the file could be
  opened; opening it for writing has emptied it by then.
\<close>

type_synonym failed_write = "string \<times> nat option"

record name_env =
  ne_repo :: string
  ne_is_dir :: bool
  ne_write_error :: "failed_write option"
  ne_state_error :: "string option"
  ne_now :: string

definition first_artifact :: "(string \<Rightarrow> artifact) \<Rightarrow> string option" where
  "first_artifact arts = find (\<lambda>n. arts n \<noteq> ArtAbsent) artifact_names"

definition attempt_artifact_write ::
  "name_env \<Rightarrow> string \<Rightarrow> (string \<Rightarrow> artifact) \<Rightarrow> artifact_write raised \<times> (string \<Rightarrow> artifact)" where
  "attempt_artifact_write g canonical arts =
     (if \<not> ne_is_dir g
      then (Returned \<lparr>aw_written = False, aw_path = [],
              aw_warning = ''Repo path does not exist or is not a directory: '' @ ne_repo g\<rparr>, arts)
      else
        (case first_artifact arts of
           None \<Rightarrow>
             (Returned \<lparr>aw_written = False, aw_path = [],
                aw_warning = ''No governed artifact found (capability_passport.yaml or governance_contract.yaml). '' @
                  ''Advisory mode '' @ mdash @ '' no in-repo write occurred. '' @ [CHR 0xC2, CHR 0xA7] @ ''9.2''\<rparr>, arts)
         | Some n \<Rightarrow>
             (case arts n of
                ArtText raw \<Rightarrow>
                  (let content = read_text raw
                   in if py_in canonical content then
                        (Returned \<lparr>aw_written = False, aw_path = ne_repo g @ ''/'' @ n,
                           aw_warning = ''Capability '' @ quoted canonical @ '' is already declared in '' @ n @
                             ''. No duplicate was inserted.''\<rparr>, arts)
                      else
                        (case ne_write_error g of
                           Some (e, left) \<Rightarrow>
                             (Returned \<lparr>aw_written = False, aw_path = [],
                                aw_warning = ''Could not write to '' @ n @ '': '' @ e\<rparr>,
                              case left of
                                None \<Rightarrow> arts
                              | Some k \<Rightarrow> arts(n := ArtText (take k (declared_name canonical content))))
                         | None \<Rightarrow>
                             (Returned \<lparr>aw_written = True, aw_path = ne_repo g @ ''/'' @ n, aw_warning = []\<rparr>,
                              arts(n := ArtText (declared_name canonical content)))))
              | ArtUnreadable e \<Rightarrow>
                  (Returned \<lparr>aw_written = False, aw_path = [],
                     aw_warning = ''Could not write to '' @ n @ '': '' @ e\<rparr>, arts)
              | _ \<Rightarrow> (Crashed ''UnicodeDecodeError'', arts))))"

section \<open>Create\<close>

record name_args =
  na_domain :: string
  na_category :: string
  na_name :: string
  na_major :: "int + string"
  na_write :: bool

record name_world =
  nw_artifacts :: "string \<Rightarrow> artifact"
  nw_state :: proof_writes

definition invalid_input :: "string \<Rightarrow> string \<Rightarrow> string list \<Rightarrow> cli_result" where
  "invalid_input label summary steps = command_result_of label False exit_invalid_input [] steps summary"

text \<open>A proof that cannot be written is left out.\<close>

definition prove_name :: "name_env \<Rightarrow> name_validation \<Rightarrow> string \<Rightarrow> bool \<Rightarrow> string \<Rightarrow> name_world \<Rightarrow> name_world" where
  "prove_name g r session_ref write_mode artifact w =
     (case ne_state_error g of
        Some e \<Rightarrow> w
      | None \<Rightarrow> w\<lparr>nw_state := nw_state w @ emit_namespace_proof (ne_now g) r session_ref write_mode artifact\<rparr>)"

definition missing_part :: "name_args \<Rightarrow> (string \<times> string) option" where
  "missing_part a =
     (if py_strip (na_domain a) = [] then
        Some (''--domain is required.'', ''Provide a lowercase domain, e.g. --domain payment'')
      else if py_strip (na_category a) = [] then
        Some (''--category is required.'', ''Provide a lowercase category, e.g. --category stripe'')
      else if py_strip (na_name a) = [] then
        Some (''--name is required.'', ''Provide a lowercase capability name, e.g. --name integration'')
      else None)"

definition created_data ::
  "string \<Rightarrow> string \<times> string \<times> string \<times> int \<Rightarrow> bool \<Rightarrow> bool \<Rightarrow> string \<Rightarrow> dict" where
  "created_data canonical parts write written path =
     (let (d, c, n, m) = parts
      in [(''capability'', JStr canonical), (''domain'', JStr d), (''category'', JStr c), (''name'', JStr n),
          (''major'', JInt m), (''write_mode'', JBool write), (''written'', JBool written)] @
         str_entry ''artifact_path'' path)"

definition created_summary :: "string \<Rightarrow> bool \<Rightarrow> bool \<Rightarrow> string \<Rightarrow> string" where
  "created_summary canonical write written path =
     py_join '' | ''
       ([''Created: '' @ canonical] @
        (if write \<and> written then [''Written to: '' @ path]
         else if write then [''Advisory mode '' @ mdash @ '' no in-repo artifact was written.''] else []))"

definition created_result ::
  "name_env \<Rightarrow> name_args \<Rightarrow> string \<times> string \<times> string \<times> int \<Rightarrow> string \<Rightarrow> artifact_write \<Rightarrow> name_world \<Rightarrow>
   cli_result \<times> name_world" where
  "created_result g a parts canonical aw w =
     ((command_result_of ''keyhole capability create'' True exit_success
         (created_data canonical parts (na_write a) (aw_written aw) (aw_path aw)) []
         (created_summary canonical (na_write a) (aw_written aw) (aw_path aw)))
      \<lparr>cm_warnings := (if aw_warning aw \<noteq> [] then [aw_warning aw] else [])\<rparr>,
      prove_name g (validate_capability_name canonical) (''create-'' @ canonical)
        (na_write a \<and> aw_written aw) (aw_path aw) w)"

definition no_artifact_write :: artifact_write where
  "no_artifact_write = \<lparr>aw_written = False, aw_path = [], aw_warning = []\<rparr>"

definition store_created ::
  "name_env \<Rightarrow> name_args \<Rightarrow> string \<times> string \<times> string \<times> int \<Rightarrow> string \<Rightarrow> name_world \<Rightarrow> cli_result raised \<times> name_world" where
  "store_created g a parts canonical w =
     (if na_write a then
        (case attempt_artifact_write g canonical (nw_artifacts w) of
           (Returned aw, arts) \<Rightarrow>
             (let (res, w') = created_result g a parts canonical aw (w\<lparr>nw_artifacts := arts\<rparr>) in (Returned res, w'))
         | (AuthRaised e, arts) \<Rightarrow> (AuthRaised e, w)
         | (Crashed c, arts) \<Rightarrow> (Crashed c, w)
         | (Blocked, arts) \<Rightarrow> (Blocked, w))
      else (let (res, w') = created_result g a parts canonical no_artifact_write w in (Returned res, w')))"

definition refused_name ::
  "name_env \<Rightarrow> string \<times> string \<times> string \<times> int \<Rightarrow> string \<Rightarrow> reject_reason list \<Rightarrow> name_world \<Rightarrow> cli_result \<times> name_world" where
  "refused_name g parts message reasons w =
     (let (d, c, n, m) = parts
      in (invalid_input ''keyhole capability create'' (''Invalid capability name: '' @ message)
            [''Reason(s): '' @ py_join '', '' (map reject_value reasons),
             ''Format:    <domain>.<category>.<capability>.v<major>'',
             ''Example:   payment.stripe.integration.v1''],
          prove_name g (validate_capability_name (assemble_name d c n m))
            (''create-'' @ d @ ''-'' @ c @ ''-'' @ n @ ''-v'' @ str_int m) False [] w))"

definition run_capability_create :: "name_env \<Rightarrow> name_args \<Rightarrow> name_world \<Rightarrow> cli_result raised \<times> name_world" where
  "run_capability_create g a w =
     (case missing_part a of
        Some (summary, step) \<Rightarrow> (Returned (invalid_input ''keyhole capability create'' summary [step]), w)
      | None \<Rightarrow>
          (case normalize_capability_parts (na_domain a) (na_category a) (na_name a) (na_major a) of
             Inl e \<Rightarrow>
               (Returned (invalid_input ''keyhole capability create'' e
                  [''--major must be a positive integer, e.g. --major 1'']), w)
           | Inr parts \<Rightarrow>
               (case parts of (d, c, n, m) \<Rightarrow>
                  (case create_capability_name d c n m of
                     Inr canonical \<Rightarrow> store_created g a parts canonical w
                   | Inl (message, reasons) \<Rightarrow>
                       (let (res, w') = refused_name g parts message reasons w in (Returned res, w'))))))"

section \<open>Validate\<close>

definition name_format_steps :: "string list" where
  "name_format_steps =
     [''Format:   <domain>.<category>.<capability>.v<major>'', ''Example:  payment.stripe.integration.v1'']"

definition validation_steps :: "name_validation \<Rightarrow> string list" where
  "validation_steps r =
     name_format_steps @ map (\<lambda>x. ''Issue:    '' @ reject_value x) (nv_reasons r) @
     (if nv_suggestion r \<noteq> [] then [''Suggestion: '' @ nv_suggestion r] else [])"

definition run_capability_validate :: "name_env \<Rightarrow> string \<Rightarrow> name_world \<Rightarrow> cli_result \<times> name_world" where
  "run_capability_validate g name w =
     (let label = ''keyhole capability validate''; stripped = py_strip name
      in if stripped = [] then
           (invalid_input label ''No capability name provided.''
              [''Provide a capability name, e.g. keyhole capability validate payment.stripe.integration.v1''], w)
         else
           (let r = validate_capability_name stripped;
                ref = py_replace ''/'' ''_'' (py_replace ''.'' ''-'' stripped);
                w1 = prove_name g r (''validate-'' @ ref) False [] w
            in if nv_valid r
               then (command_result_of label True exit_success (validation_to_dict r) [] (nv_message r), w1)
               else (command_result_of label False exit_invalid_input (validation_to_dict r) (validation_steps r)
                       (nv_message r), w1)))"

section \<open>Register\<close>

text \<open>
  A receipt as its bytes read in the encodings \<open>utf-8-sig\<close>, \<open>utf-16\<close> and \<open>utf-8\<close>, in this order: each
  gives a JSON value, or fails in a way that the code passes over.
\<close>

datatype receipt = ReceiptUnreadable | ReceiptReadings "json option list"

definition accepted_verdicts :: "json list" where
  "accepted_verdicts = [JStr ''ACCEPT'', JStr ''ACCEPTED'', JStr ''PASS'']"

definition receipt_verdict :: "dict \<Rightarrow> json" where
  "receipt_verdict d = json_get d ''governed_verdict''"

text \<open>The first accepted reading of a receipt; a reading that is no dictionary raises.\<close>

fun accepted_reading :: "json option list \<Rightarrow> json option raised" where
  "accepted_reading [] = Returned None"
| "accepted_reading (None # rs) = accepted_reading rs"
| "accepted_reading (Some v # rs) =
     (case v of
        JObj d \<Rightarrow> if receipt_verdict d \<in> set accepted_verdicts then Returned (Some v) else accepted_reading rs
      | _ \<Rightarrow> Crashed ''AttributeError'')"

fun find_accepted :: "(string \<times> receipt) list \<Rightarrow> json option raised" where
  "find_accepted [] = Returned None"
| "find_accepted ((n, ReceiptUnreadable) # rs) = find_accepted rs"
| "find_accepted ((n, ReceiptReadings vs) # rs) =
     and_then (accepted_reading vs) (\<lambda>found. case found of Some v \<Rightarrow> Returned (Some v) | None \<Rightarrow> find_accepted rs)"

fun first_reading :: "json option list \<Rightarrow> json option" where
  "first_reading [] = None"
| "first_reading (None # rs) = first_reading rs"
| "first_reading (Some v # rs) = Some v"

text \<open>
  \<open>rg_receipt\<close> looks a path up below the receipts directory, \<open>rg_listing\<close> is what it holds when it is a
  directory.
\<close>

record register_env =
  rg_repo_name :: string
  rg_receipt :: "string \<Rightarrow> receipt option"
  rg_listing :: "(string \<times> receipt) list option"
  rg_fstr :: "json \<Rightarrow> string"

definition invariant_slug :: "string \<Rightarrow> string" where
  "invariant_slug invariant = py_replace '' '' ''-'' (py_replace ''_'' ''-'' (py_lower (py_strip invariant)))"

definition receipt_suffix :: string where
  "receipt_suffix = ''-receipt.json''"

definition chosen_receipt :: "register_env \<Rightarrow> string \<Rightarrow> json option raised" where
  "chosen_receipt rg invariant =
     (if invariant \<noteq> [] then
        (case rg_receipt rg (invariant_slug invariant @ receipt_suffix) of
           Some (ReceiptReadings vs) \<Rightarrow> Returned (first_reading vs)
         | _ \<Rightarrow> Returned None)
      else
        (case rg_listing rg of
           None \<Rightarrow> Returned None
         | Some entries \<Rightarrow> find_accepted (sort_key fst (filter (\<lambda>(n, r). ends_with receipt_suffix n) entries))))"

definition no_receipt_result :: "string \<Rightarrow> string \<Rightarrow> cli_result" where
  "no_receipt_result cap invariant =
     command_result_of ''keyhole capability register'' False exit_failure [(''capability'', JStr cap)]
       [''keyhole proof submit '' @ (if invariant \<noteq> [] then ''--invariant '' @ invariant else ''--invariant <id>'') @
          '' '' @ mdash @ '' to submit proof and receive a receipt.'',
        ''Then: keyhole capability register --capability '' @ cap,
        ''This is the public contract: \"No verified governed receipt, no registration.\"'']
       ''No accepted proof receipt found. Proof submission is required before capability registration.''"

definition bad_verdict_result :: "register_env \<Rightarrow> string \<Rightarrow> string \<Rightarrow> json \<Rightarrow> cli_result" where
  "bad_verdict_result rg cap invariant verdict =
     command_result_of ''keyhole capability register'' False exit_failure
       [(''capability'', JStr cap), (''governed_verdict'', verdict)]
       [''Fix failing invariant checks and resubmit proof.'',
        ''keyhole proof submit '' @ (if invariant \<noteq> [] then ''--invariant '' @ invariant else [])]
       (''Receipt governed_verdict is '' @ quoted (rg_fstr rg verdict) @ '' '' @ mdash @ '' only ACCEPT allows registration.'')"

definition no_session_result :: cli_result where
  "no_session_result =
     command_result_of ''keyhole capability register'' False exit_runtime_unavailable []
       [''keyhole login'', ''Then: keyhole capability register''] ''Not authenticated. Run: keyhole login''"

text \<open>
  With a receipt and a session the command names \<open>BearerTokenProvider\<close>, which its module does not
  import, so it raises \<open>NameError\<close> there: no transport and no request is ever made, and what the source
  has after this line is not reached.
\<close>

definition register_with_receipt ::
  "capability_env \<Rightarrow> capability_world \<Rightarrow> cli_result raised \<times> capability_world" where
  "register_with_receipt g w =
     (case load_session (ve_models g) (ve_clock g) (vw_creds w) of
        AuthRaised e \<Rightarrow> (AuthRaised e, w)
      | Crashed c \<Rightarrow> (Crashed c, w)
      | Blocked \<Rightarrow> (Blocked, w)
      | Returned None \<Rightarrow> (Returned no_session_result, w)
      | Returned (Some s) \<Rightarrow>
          if ss_access_token s = [] then (Returned no_session_result, w)
          else (Crashed ''NameError'', w))"

definition run_capability_register ::
  "register_env \<Rightarrow> capability_env \<Rightarrow> string \<Rightarrow> string \<Rightarrow> capability_world \<Rightarrow> cli_result raised \<times> capability_world" where
  "run_capability_register rg g name invariant w =
     (let cap = py_strip name
      in if cap = [] then
           (Returned (invalid_input ''keyhole capability register'' ''--capability is required.''
              [''keyhole capability register --capability <name> [--invariant <id>]'']), w)
         else if \<not> nv_valid (validate_capability_name cap) then
           (Returned (command_result_of ''keyhole capability register'' False exit_invalid_input
              (validation_to_dict (validate_capability_name cap)) name_format_steps
              (''Invalid capability name: '' @ cap)), w)
         else
           (case chosen_receipt rg invariant of
              Returned (Some (JObj d)) \<Rightarrow>
                (if receipt_verdict d \<in> set accepted_verdicts
                 then register_with_receipt g w
                 else (Returned (bad_verdict_result rg cap invariant (dict_get_or d ''governed_verdict'' (JStr []))), w))
            | Returned (Some JNull) \<Rightarrow> (Returned (no_receipt_result cap invariant), w)
            | Returned (Some v) \<Rightarrow> (Crashed ''AttributeError'', w)
            | Returned None \<Rightarrow> (Returned (no_receipt_result cap invariant), w)
            | AuthRaised e \<Rightarrow> (AuthRaised e, w)
            | Crashed c \<Rightarrow> (Crashed c, w)
            | Blocked \<Rightarrow> (Blocked, w)))"

end
