(* ===== verification/Capability_Name_Properties.thy ===== *)
theory Capability_Name_Properties
  imports Capability_Names
begin

text \<open>
  The grammar that \<open>validate_capability_name\<close> decides, what a suggestion is, and the parts that a
  created name has.
\<close>

section \<open>Joined and split names\<close>

lemma split_without_sep: "c \<notin> set s \<Longrightarrow> py_split c s = [s]"
  by (induction s) auto

lemma split_first_piece: "c \<notin> set a \<Longrightarrow> py_split c (a @ c # s) = a # py_split c s"
  by (induction a) auto

lemma py_join_four: "py_join ''.'' [d, c, k, v] = d @ ''.'' @ c @ ''.'' @ k @ ''.'' @ v"
  by (simp add: py_join_def)

lemma py_split_count: "length (py_split c s) = Suc (count_list s c)"
proof (induction s)
  case (Cons x s)
  then show ?case by (cases "py_split c s") auto
qed simp

lemma split_four:
  "py_split CHR ''.'' name = [d, c, k, v] \<longleftrightarrow>
     name = d @ ''.'' @ c @ ''.'' @ k @ ''.'' @ v \<and> CHR ''.'' \<notin> set d \<and> CHR ''.'' \<notin> set c \<and> CHR ''.'' \<notin> set k \<and>
     CHR ''.'' \<notin> set v"
proof
  assume s: "py_split CHR ''.'' name = [d, c, k, v]"
  show "name = d @ ''.'' @ c @ ''.'' @ k @ ''.'' @ v \<and> CHR ''.'' \<notin> set d \<and> CHR ''.'' \<notin> set c \<and>
      CHR ''.'' \<notin> set k \<and> CHR ''.'' \<notin> set v"
    using py_join_split [of "CHR ''.''" name, symmetric] py_split_no_sep [of _ "CHR ''.''" name]
    unfolding s py_join_four by simp
qed (simp add: split_first_piece split_without_sep)

lemma before_lf_set:
  "before_final_lf ok s \<Longrightarrow> (\<And>t. ok t \<Longrightarrow> x \<notin> set t) \<Longrightarrow> x \<noteq> CHR 10 \<Longrightarrow> x \<notin> set s"
  unfolding before_final_lf_def
  by (metis append_butlast_last_id butlast_append in_set_butlast_appendI set_ConsD
      Un_iff empty_iff list.set(1) set_append)

lemma segment_no_dot: "segment_re s \<Longrightarrow> CHR ''.'' \<notin> set s"
proof -
  have "\<not> name_char CHR ''.''" by code_simp
  then have "segment_core t \<Longrightarrow> CHR ''.'' \<notin> set t" for t
    by (auto simp: segment_core_def list_all_iff)
  then show "segment_re s \<Longrightarrow> CHR ''.'' \<notin> set s"
    unfolding segment_re_def by (erule_tac before_lf_set) auto
qed

lemma digits_no_dot: "list_all py_isdigit ds \<Longrightarrow> CHR ''.'' \<notin> set ds"
proof -
  have "\<not> py_isdigit CHR ''.''" by code_simp
  then show "list_all py_isdigit ds \<Longrightarrow> CHR ''.'' \<notin> set ds" by (auto simp: list_all_iff)
qed

lemma version_no_dot: "version_re s \<Longrightarrow> CHR ''.'' \<notin> set s"
proof -
  have "version_core t \<Longrightarrow> CHR ''.'' \<notin> set t" for t
    by (drule version_core_digits) (auto dest: digits_no_dot)
  then show "version_re s \<Longrightarrow> CHR ''.'' \<notin> set s"
    unfolding version_re_def by (erule_tac before_lf_set) auto
qed

section \<open>The grammar\<close>

text \<open>
  A name is canonical when it has a segment, a segment, a segment and a version, joined by dots.
\<close>

definition name_of_parts :: "string \<Rightarrow> string \<Rightarrow> string \<Rightarrow> string \<Rightarrow> string" where
  "name_of_parts d c k v = d @ ''.'' @ c @ ''.'' @ k @ ''.'' @ v"

lemma canonical_iff_parts:
  "canonical_name name \<longleftrightarrow>
     (\<exists>d c k v. name = name_of_parts d c k v \<and> segment_re d \<and> segment_re c \<and> segment_re k \<and> version_re v)"
proof
  assume "canonical_name name"
  then obtain d c k v where "py_split CHR ''.'' name = [d, c, k, v]" "segment_re d" "segment_re c"
      "segment_re k" "version_re v"
    by (auto simp: canonical_name_def split: list.splits)
  then show "\<exists>d c k v. name = name_of_parts d c k v \<and> segment_re d \<and> segment_re c \<and> segment_re k \<and> version_re v"
    unfolding name_of_parts_def by (metis split_four)
next
  assume "\<exists>d c k v. name = name_of_parts d c k v \<and> segment_re d \<and> segment_re c \<and> segment_re k \<and> version_re v"
  then obtain d c k v where p: "name = name_of_parts d c k v" "segment_re d" "segment_re c" "segment_re k"
    "version_re v" by blast
  then have "py_split CHR ''.'' name = [d, c, k, v]"
    unfolding name_of_parts_def using segment_no_dot version_no_dot by (simp add: split_first_piece split_without_sep)
  then show "canonical_name name" using p by (simp add: canonical_name_def)
qed

lemma validate_valid: "nv_valid (validate_capability_name name) = canonical_name name"
  by (simp add: validate_capability_name_def Let_def validate_raw_valid)

lemma validate_raw_reasons: "nv_reasons (validate_raw name) = [] \<longleftrightarrow> nv_valid (validate_raw name)"
  by (auto simp: validate_raw_def rejected_name_def Let_def split: list.splits)

lemma validate_raw_fields:
  "nv_normalized (validate_raw name) = (if nv_valid (validate_raw name) then name else [])"
  "nv_suggestion (validate_raw name) = []" "nv_name (validate_raw name) = name"
  by (auto simp: validate_raw_def rejected_name_def Let_def split: list.splits)

section \<open>The documented policy\<close>

text \<open>
  The character policy of the story (sections 8.2 and 8.3), written from the documents and not from the
  patterns: small letters and digits with hyphens inside, and \<open>v\<close> before a number in decimal.
\<close>

definition policy_letters :: string where
  "policy_letters = ''abcdefghijklmnopqrstuvwxyz0123456789''"

definition policy_segment :: "string \<Rightarrow> bool" where
  "policy_segment s \<longleftrightarrow>
     (\<exists>x. x \<in> set policy_letters \<and> s = [x]) \<or>
     (\<exists>x inner y. x \<in> set policy_letters \<and> y \<in> set policy_letters \<and>
        set inner \<subseteq> insert CHR ''-'' (set policy_letters) \<and> s = x # inner @ [y])"

definition policy_version :: "nat \<Rightarrow> string \<Rightarrow> bool" where
  "policy_version n s \<longleftrightarrow> s = ''v'' @ str_nat n"

definition policy_name :: "string \<Rightarrow> bool" where
  "policy_name name \<longleftrightarrow>
     (\<exists>d c k v n. name = d @ ''.'' @ c @ ''.'' @ k @ ''.'' @ v \<and> policy_segment d \<and> policy_segment c \<and>
        policy_segment k \<and> policy_version n v \<and> 1 \<le> n)"

text \<open>A piece, or a piece with one line feed after it.\<close>

definition with_lf :: "(string \<Rightarrow> bool) \<Rightarrow> string \<Rightarrow> bool" where
  "with_lf ok s \<longleftrightarrow> ok s \<or> (\<exists>u. s = u @ [CHR 10] \<and> ok u)"

lemma before_lf_with_lf: "before_final_lf ok s \<longleftrightarrow> with_lf ok s"
  unfolding before_final_lf_def with_lf_def by (cases s rule: rev_cases) auto

lemma name_char_policy: "name_char c \<longleftrightarrow> c \<in> set policy_letters"
proof (cases c)
  case (Char b0 b1 b2 b3 b4 b5 b6 b7)
  show ?thesis
    unfolding Char name_char_bits letter_bits_def policy_letters_def
    by (cases b0; cases b1; cases b2; cases b3; cases b4; cases b5; cases b6; cases b7) simp_all
qed

lemma segment_core_policy: "segment_core s \<longleftrightarrow> policy_segment s"
proof (cases s)
  case (Cons x s')
  show ?thesis
  proof (cases s' rule: rev_cases)
    case Nil
    then show ?thesis using Cons by (auto simp: segment_core_def policy_segment_def name_char_policy)
  next
    case (snoc inner y)
    have "segment_core s \<longleftrightarrow> name_char x \<and> name_char y \<and> set inner \<subseteq> {c. name_char c \<or> c = CHR ''-''}"
      using Cons snoc by (auto simp: segment_core_def list_all_iff)
    also have "\<dots> \<longleftrightarrow> policy_segment s"
      using Cons snoc by (auto simp: policy_segment_def name_char_policy)
    finally show ?thesis .
  qed
qed (simp add: segment_core_def policy_segment_def)

lemma str_nat_digits: "list_all py_isdigit (str_nat n) \<and> str_nat n \<noteq> [] \<and> (hd (str_nat n) = CHR ''0'' \<longrightarrow> n = 0)"
proof (induction n rule: str_nat.induct)
  case (1 n)
  have digit: "py_isdigit (char_of (48 + m :: nat))" if "m < 10" for m
    using that by (simp add: py_isdigit_def code_of_def)
  have zero: "char_of (48 + m :: nat) = CHR ''0'' \<Longrightarrow> m < 10 \<Longrightarrow> m = 0" for m
  proof -
    assume "char_of (48 + m :: nat) = CHR ''0''" "m < 10"
    then have "of_char (char_of (48 + m :: nat) :: char) = (of_char CHR ''0'' :: nat)" by simp
    then show "m = 0" using \<open>m < 10\<close> by simp
  qed
  show ?case
  proof (cases "n < 10")
    case True
    then have "str_nat n = [char_of (48 + n)]" by (simp add: str_nat.simps [of n])
    then show ?thesis using digit [OF True] zero [OF _ True] by auto
  next
    case False
    then have "n div 10 \<noteq> 0" by simp
    then show ?thesis using 1 False digit by (subst (1 2 3) str_nat.simps) auto
  qed
qed

lemma str_nat_zero: "str_nat 0 = ''0''"
  by code_simp

lemma digit_char: "py_isdigit c \<Longrightarrow> \<exists>m < 10. c = char_of (48 + m :: nat)"
proof -
  assume "py_isdigit c"
  then have "48 \<le> (of_char c :: nat)" "(of_char c :: nat) \<le> 57" by (simp_all add: py_isdigit_def code_of_def)
  then have "of_char c - 48 < (10 :: nat) \<and> c = char_of (48 + (of_char c - 48) :: nat)" by simp
  then show ?thesis by blast
qed

lemma decimal_of_digits:
  assumes "list_all py_isdigit ds" "ds \<noteq> []" "hd ds = CHR ''0'' \<Longrightarrow> ds = ''0''"
  shows "\<exists>n. ds = str_nat n"
  using assms
proof (induction ds rule: rev_induct)
  case (snoc c ds)
  then obtain m where m: "m < 10" "c = char_of (48 + m :: nat)" using digit_char by fastforce
  show ?case
  proof (cases "ds = []")
    case True
    then show ?thesis using m by (intro exI [of _ m]) (simp add: str_nat.simps [of m])
  next
    case False
    with snoc have "hd ds \<noteq> CHR ''0''" by (cases ds) auto
    with snoc False obtain n where n: "ds = str_nat n" by auto
    then have "n \<noteq> 0" using \<open>hd ds \<noteq> CHR ''0''\<close> str_nat_zero by (cases n) auto
    then have "str_nat (10 * n + m) = str_nat n @ [char_of (48 + m :: nat)]"
      using m(1) by (subst str_nat.simps) simp
    then show ?thesis using n m(2) by metis
  qed
qed simp

lemma version_core_policy: "version_core s \<longleftrightarrow> (\<exists>n. policy_version n s)"
proof
  assume "version_core s"
  then obtain ds where s: "s = CHR ''v'' # ds"
    and ds: "ds = ''0'' \<or> ds \<noteq> [] \<and> list_all py_isdigit ds \<and> hd ds \<noteq> CHR ''0''"
    by (auto simp: version_core_def split: list.splits)
  moreover have "py_isdigit CHR ''0''" by code_simp
  ultimately obtain n where "ds = str_nat n" using decimal_of_digits [of ds] by auto
  then show "\<exists>n. policy_version n s" using s by (auto simp: policy_version_def)
next
  assume "\<exists>n. policy_version n s"
  then obtain n where s: "s = CHR ''v'' # str_nat n" by (auto simp: policy_version_def)
  show "version_core s"
  proof (cases "n = 0")
    case True
    then show ?thesis using s by (simp add: version_core_def str_nat_zero)
  next
    case False
    then show ?thesis using s str_nat_digits [of n] by (auto simp: version_core_def)
  qed
qed

lemma canonical_policy:
  "canonical_name name \<longleftrightarrow>
     (\<exists>d c k v. name = d @ ''.'' @ c @ ''.'' @ k @ ''.'' @ v \<and> with_lf policy_segment d \<and> with_lf policy_segment c \<and>
        with_lf policy_segment k \<and> with_lf (\<lambda>s. \<exists>n. policy_version n s) v)"
  unfolding canonical_iff_parts name_of_parts_def segment_re_def version_re_def before_lf_with_lf
    segment_core_policy [abs_def] version_core_policy [abs_def] by (rule refl)

lemma canonical_agrees:
  assumes "CHR 10 \<notin> set name" "\<not> ends_with ''.v0'' name"
  shows "canonical_name name \<longleftrightarrow> policy_name name"
proof
  assume "canonical_name name"
  then obtain d c k v where name: "name = d @ ''.'' @ c @ ''.'' @ k @ ''.'' @ v" "with_lf policy_segment d"
    "with_lf policy_segment c" "with_lf policy_segment k" "with_lf (\<lambda>s. \<exists>n. policy_version n s) v"
    unfolding canonical_policy by blast
  moreover from this assms(1) obtain n where n: "policy_version n v" by (auto simp: with_lf_def)
  moreover have "n \<noteq> 0"
  proof
    assume "n = 0"
    then have "v = ''v0''" using n by (simp add: policy_version_def str_nat_zero)
    then have "name = (d @ ''.'' @ c @ ''.'' @ k) @ ''.v0''" using name(1) by simp
    then show False using assms(2) ends_with_iff by metis
  qed
  ultimately show "policy_name name"
    using assms(1) unfolding policy_name_def by (intro exI [of _ d] exI [of _ c] exI [of _ k] exI [of _ v] exI [of _ n])
      (auto simp: with_lf_def)
next
  assume "policy_name name"
  then show "canonical_name name" unfolding policy_name_def canonical_policy with_lf_def by blast
qed

text \<open>
  C24: A name is accepted exactly when it is three segments of the documented policy (small letters and
  digits, hyphens only inside) and \<open>v\<close> with a number in decimal without leading zeros, joined by dots,
  where each piece may also end in one line feed; so among the names without a line feed and not of
  version \<open>v0\<close>, which the documents do not allow and the code accepts, it accepts exactly the documented
  ones. Exactly then no reason is given and the normalised name is the name. A name that is not
  accepted is never rewritten: its normalised name is empty, and a suggestion, when there is one, is
  another name, the name without the white space at its ends and around its dots and in small
  letters, and it is itself accepted.
\<close>

theorem validation_decides_grammar:
  "(let r = validate_capability_name name
    in nv_name r = name \<and>
       nv_valid r = (\<exists>d c k v. name = d @ ''.'' @ c @ ''.'' @ k @ ''.'' @ v \<and> with_lf policy_segment d \<and>
         with_lf policy_segment c \<and> with_lf policy_segment k \<and> with_lf (\<lambda>s. \<exists>n. policy_version n s) v) \<and>
       (CHR 10 \<notin> set name \<and> \<not> ends_with ''.v0'' name \<longrightarrow> nv_valid r = policy_name name) \<and>
       nv_valid r = (nv_reasons r = []) \<and>
       nv_normalized r = (if nv_valid r then name else []) \<and>
       nv_suggestion r \<in> {[], safe_normalize name} \<and>
       (nv_suggestion r = [] \<or>
         \<not> nv_valid r \<and> nv_suggestion r \<noteq> name \<and> nv_valid (validate_capability_name (nv_suggestion r))))"
proof -
  have "nv_valid (validate_capability_name name) = (\<exists>d c k v. name = d @ ''.'' @ c @ ''.'' @ k @ ''.'' @ v \<and>
      with_lf policy_segment d \<and> with_lf policy_segment c \<and> with_lf policy_segment k \<and>
      with_lf (\<lambda>s. \<exists>n. policy_version n s) v)"
    unfolding validate_valid by (rule canonical_policy)
  moreover have "CHR 10 \<notin> set name \<and> \<not> ends_with ''.v0'' name \<longrightarrow>
      nv_valid (validate_capability_name name) = policy_name name"
    unfolding validate_valid using canonical_agrees by blast
  moreover have "nv_suggestion (validate_capability_name name) = [] \<or>
      \<not> nv_valid (validate_capability_name name) \<and> nv_suggestion (validate_capability_name name) \<noteq> name \<and>
      nv_valid (validate_capability_name (nv_suggestion (validate_capability_name name)))"
    by (auto simp: validate_capability_name_def suggest_correction_def Let_def validate_raw_fields)
  moreover have "nv_suggestion (validate_capability_name name) \<in> {[], safe_normalize name}"
    by (auto simp: validate_capability_name_def suggest_correction_def Let_def validate_raw_fields)
  moreover have "nv_name (validate_capability_name name) = name"
    "nv_valid (validate_capability_name name) = (nv_reasons (validate_capability_name name) = [])"
    "nv_normalized (validate_capability_name name) = (if nv_valid (validate_capability_name name) then name else [])"
    by (simp_all add: validate_capability_name_def Let_def validate_raw_fields validate_raw_reasons)
  ultimately show ?thesis unfolding Let_def by blast
qed

theorem validation_decides_grammar_witness:
  "nv_valid (validate_capability_name ''payment.stripe.integration.v1'') = policy_name ''payment.stripe.integration.v1''"
proof -
  have "CHR 10 \<notin> set ''payment.stripe.integration.v1'' \<and> \<not> ends_with ''.v0'' ''payment.stripe.integration.v1''"
    by code_simp
  with validation_decides_grammar [of "''payment.stripe.integration.v1''"] show ?thesis unfolding Let_def by blast
qed

section \<open>Creation\<close>

lemma version_of_nat: "version_core (CHR ''v'' # str_nat n)"
proof (cases "n = 0")
  case True
  show ?thesis unfolding True by code_simp
next
  case False
  then show ?thesis using str_nat_digits [of n] by (simp add: version_core_def)
qed

lemma version_of_int: "version_re (''v'' @ str_int m) \<longleftrightarrow> 0 \<le> m"
proof (cases "m < 0")
  case True
  then obtain ds where ds: "str_int m = CHR ''-'' # ds" by (simp add: str_int_def)
  have "\<not> py_isdigit CHR ''-''" by code_simp
  then have "\<not> version_core (CHR ''v'' # CHR ''-'' # t)" for t
    by (auto dest: version_core_digits)
  moreover have "\<not> version_core (butlast (CHR ''v'' # CHR ''-'' # t))" for t
    using calculation by (cases t) (auto dest: version_core_digits)
  ultimately show ?thesis using True by (simp add: version_re_def before_final_lf_def ds del: butlast.simps)
next
  case False
  then have "str_int m = str_nat (nat m)" by (simp add: str_int_def)
  then show ?thesis using False version_of_nat by (simp add: version_re_def before_final_lf_def)
qed

lemma canonical_segments:
  assumes "canonical_name (name_of_parts d c k v)"
  shows "segment_re d" "segment_re c" "segment_re k" "version_re v"
proof -
  have "length (py_split CHR ''.'' (name_of_parts d c k v)) = 4"
    using assms by (auto simp: canonical_name_def split: list.splits)
  then have "count_list d CHR ''.'' = 0 \<and> count_list c CHR ''.'' = 0 \<and> count_list k CHR ''.'' = 0 \<and>
      count_list v CHR ''.'' = 0"
    by (simp add: py_split_count name_of_parts_def)
  then have "py_split CHR ''.'' (name_of_parts d c k v) = [d, c, k, v]"
    unfolding name_of_parts_def by (simp add: count_list_0_iff split_first_piece split_without_sep)
  then show "segment_re d" "segment_re c" "segment_re k" "version_re v"
    using assms by (simp_all add: canonical_name_def)
qed

lemma assemble_parts: "assemble_name d c k m = name_of_parts d c k (''v'' @ str_int m)"
  by (simp add: assemble_name_def name_of_parts_def)

text \<open>
  C28: A name is created exactly from parts that are segments of the grammar and a major version that
  is not negative; it then splits at its dots into exactly these parts, and it is accepted. Otherwise
  the reasons of the error are those of the validation, and there is one.
\<close>

theorem create_name_roundtrip:
  "(case create_capability_name d c k m of
      Inr name \<Rightarrow> segment_re d \<and> segment_re c \<and> segment_re k \<and> 0 \<le> m \<and>
        py_split CHR ''.'' name = [d, c, k, ''v'' @ str_int m] \<and> nv_valid (validate_capability_name name)
    | Inl (msg, reasons) \<Rightarrow> \<not> (segment_re d \<and> segment_re c \<and> segment_re k \<and> 0 \<le> m) \<and> reasons \<noteq> [] \<and>
        reasons = nv_reasons (validate_capability_name (assemble_name d c k m)))"
proof (cases "canonical_name (assemble_name d c k m)")
  case True
  then have parts: "segment_re d" "segment_re c" "segment_re k" "version_re (''v'' @ str_int m)"
    unfolding assemble_parts by (blast dest: canonical_segments)+
  then have "py_split CHR ''.'' (assemble_name d c k m) = [d, c, k, ''v'' @ str_int m]"
    unfolding assemble_parts name_of_parts_def split_four using segment_no_dot version_no_dot by blast
  then show ?thesis
    using True parts version_of_int [of m] by (simp add: create_capability_name_def Let_def validate_valid)
next
  case False
  then have "\<not> (segment_re d \<and> segment_re c \<and> segment_re k \<and> 0 \<le> m)"
    unfolding assemble_parts canonical_iff_parts using version_of_int by blast
  moreover have "nv_reasons (validate_capability_name (assemble_name d c k m)) \<noteq> []"
    using False by (simp add: validate_capability_name_def Let_def validate_raw_reasons validate_raw_valid)
  ultimately show ?thesis
    using False by (simp add: create_capability_name_def Let_def validate_valid)
qed

section \<open>Where the code and its texts differ\<close>

text \<open>A version \<open>v0\<close> is accepted, though the reason for a bad suffix asks for a positive integer.\<close>

lemma version_zero_accepted: "nv_valid (validate_capability_name ''payment.stripe.integration.v0'')"
  by code_simp

text \<open>\<open>$\<close> matches before a final line feed, so a segment may end in one.\<close>

lemma line_feed_accepted:
  "nv_valid (validate_capability_name (''payment'' @ [CHR 10] @ ''.stripe.integration.v1'' @ [CHR 10]))"
  by code_simp

end
