(* ===== verification/Capability_Properties.thy ===== *)
theory Capability_Properties
  imports Dependency_Command Transport_Facts
begin

text \<open>
  What a resolution may write and when, what an answer resolves to, and where the commands differ
  from what their comments say.
\<close>

section \<open>Answers\<close>

definition undecided_status :: "string \<Rightarrow> bool" where
  "undecided_status s =
     (s \<in> set [''accepted'', ''pending'', ''deferred'', ''ambiguous'', ''incompatible'', ''not_found''])"

lemma classify_answer_resolved:
  assumes "classify_answer am data http status q = Returned r"
  shows "rs_resolved r \<noteq> None \<longleftrightarrow> is_resolved r"
    and "is_resolved r \<longleftrightarrow> http < 400 \<and> http \<noteq> 202 \<and> \<not> undecided_status status"
    and "rs_correlation_id r = xq_correlation_id q"
  using assms
  by (auto simp: classify_answer_def undecided_status_def is_resolved_def split: if_splits
      dest!: error_status ambiguous_status incompatible_status not_found_status resolved_status
        base_resolution_status)

lemma resolved_resolution_source:
  "resolved_resolution am data http q = Returned r \<Longrightarrow>
     \<exists>d dep. dict_get_or data ''resolved'' (JObj data) = JObj d \<and> resolved_dependency d q = Some dep \<and>
       rs_resolved r = Some dep"
  by (auto simp: resolved_resolution_def Option.bind_eq_Some_conv split: json.splits)

lemma classify_answer_source:
  assumes "classify_answer am data http status q = Returned r" "is_resolved r"
  shows "\<exists>d dep. dict_get_or data ''resolved'' (JObj data) = JObj d \<and> resolved_dependency d q = Some dep \<and>
    rs_resolved r = Some dep"
proof -
  have "http < 400 \<and> http \<noteq> 202 \<and> \<not> undecided_status status"
    using assms classify_answer_resolved(2) by blast
  then have "resolved_resolution am data http q = Returned r"
    using assms(1) by (simp add: classify_answer_def undecided_status_def)
  then show ?thesis by (rule resolved_resolution_source)
qed

lemma failed_resolution_unresolved [simp]:
  "rs_resolved (failed_resolution text e q) = None" "\<not> is_resolved (failed_resolution text e q)"
  "rs_correlation_id (failed_resolution text e q) = xq_correlation_id q"
  by (simp_all add: failed_resolution_def resolution_of_def is_resolved_def)

lemma classify_resolution_cases:
  assumes "classify_resolution am result q = Returned r"
  obtains data status where "res_data result = JObj data" "dict_get_or data ''status'' (JStr []) = JStr status"
    "classify_answer am data (res_status_code result) (py_lower status) q = Returned r"
  using assms by (auto simp: classify_resolution_def split: json.splits)

text \<open>What a key of an answer says: its text, or the default where the answer does not have the key.\<close>

definition says :: "dict \<Rightarrow> string \<Rightarrow> string \<Rightarrow> string \<Rightarrow> bool" where
  "says d k dflt s \<longleftrightarrow> (case dict_get d k of None \<Rightarrow> s = dflt | Some v \<Rightarrow> v = JStr s)"

lemma text_value_says: "text_value (dict_get_or d k (JStr dflt)) = Some s \<longleftrightarrow> says d k dflt s"
  by (auto simp: dict_get_or_def says_def text_value_def split: option.splits json.splits)

lemma resolved_dependency_says:
  "resolved_dependency d q = Some dep \<Longrightarrow>
     says d ''capability'' (xq_capability q) (rd_capability dep) \<and> says d ''provider'' [] (rd_provider dep) \<and>
     says d ''version'' [] (rd_version dep) \<and> says d ''digest'' [] (rd_digest dep)"
  by (auto simp: resolved_dependency_def text_value_says Option.bind_eq_Some_conv)

text \<open>The answers a resolution waits on or refuses; every other one resolves.\<close>

definition decided_answer :: "int \<Rightarrow> json \<Rightarrow> bool" where
  "decided_answer http body \<longleftrightarrow>
     http < 400 \<and> http \<noteq> 202 \<and>
     (\<exists>data status. body = JObj data \<and> dict_get_or data ''status'' (JStr []) = JStr status \<and>
        py_lower status \<notin> {''accepted'', ''pending'', ''deferred'', ''ambiguous'', ''incompatible'', ''not_found''})"

text \<open>
  C23: When a resolution is resolved, exactly. It is when the request was answered by a JSON object
  with a code below 400 and not 202 whose status is none of accepted, pending, deferred, ambiguous,
  incompatible and not found, in any letter case; exactly then it carries a dependency, so none is
  ever picked among the candidates of an undecided answer. The dependency is what the part
  \<open>resolved\<close> of the answer says, or the answer itself without that part: its provider, version and
  digest, each empty where the answer does not have it, of the capability it names, or the one asked
  for. The code is not fail-closed beyond that list: an answer that names nothing, or is \<open>rejected\<close>,
  resolves too (\<open>rejected_answer_is_written\<close>).
\<close>

theorem resolution_exact:
  assumes "submit_resolution am text env tr q = (Returned r, st)"
  shows "(is_resolved r \<longleftrightarrow>
       (\<exists>result. fst (execute env builtin_registry tr ''POST'' ''/mcp/v1/capabilities/resolve'' ''capability.resolve'' None []) =
            Inr result \<and> decided_answer (res_status_code result) (res_data result))) \<and>
    (rs_resolved r \<noteq> None \<longleftrightarrow> is_resolved r) \<and>
    (\<forall>dep. rs_resolved r = Some dep \<longrightarrow>
       (\<exists>result data d.
          fst (execute env builtin_registry tr ''POST'' ''/mcp/v1/capabilities/resolve'' ''capability.resolve'' None []) =
            Inr result \<and> res_data result = JObj data \<and>
          (case dict_get data ''resolved'' of None \<Rightarrow> d = data | Some v \<Rightarrow> v = JObj d) \<and>
          says d ''capability'' (xq_capability q) (rd_capability dep) \<and> says d ''provider'' [] (rd_provider dep) \<and>
          says d ''version'' [] (rd_version dep) \<and> says d ''digest'' [] (rd_digest dep)))"
proof (cases "fst (execute env builtin_registry tr ''POST'' ''/mcp/v1/capabilities/resolve''
    ''capability.resolve'' None [])")
  case (Inl e)
  then have "r = failed_resolution text e q"
    using assms by (auto simp: submit_resolution_def split: prod.splits)
  then show ?thesis using Inl by simp
next
  case (Inr result)
  then have "classify_resolution am result q = Returned r"
    using assms by (auto simp: submit_resolution_def split: prod.splits)
  then obtain data status where a: "res_data result = JObj data"
    "dict_get_or data ''status'' (JStr []) = JStr status"
    "classify_answer am data (res_status_code result) (py_lower status) q = Returned r"
    by (rule_tac classify_resolution_cases)
  note resolved = classify_answer_resolved(1,2) [OF a(3)]
  have "is_resolved r \<longleftrightarrow> decided_answer (res_status_code result) (res_data result)"
    using resolved(2) a(1,2) by (simp add: decided_answer_def undecided_status_def)
  moreover have "\<exists>d. (case dict_get data ''resolved'' of None \<Rightarrow> d = data | Some v \<Rightarrow> v = JObj d) \<and>
      says d ''capability'' (xq_capability q) (rd_capability dep) \<and> says d ''provider'' [] (rd_provider dep) \<and>
      says d ''version'' [] (rd_version dep) \<and> says d ''digest'' [] (rd_digest dep)"
    if "rs_resolved r = Some dep" for dep
  proof -
    have "is_resolved r" using that resolved(1) by simp
    from classify_answer_source [OF a(3) this] that obtain d where
      "dict_get_or data ''resolved'' (JObj data) = JObj d" "resolved_dependency d q = Some dep" by auto
    then show ?thesis
      using resolved_dependency_says
      by (intro exI [of _ d]) (auto simp: dict_get_or_def split: option.splits)
  qed
  ultimately show ?thesis using Inr a(1) resolved(1) by auto
qed

section \<open>Materialisation\<close>

lemma store_dependency_files:
  assumes "store_dependency fs dep existing f = (out, f')"
  shows "lf_state f' = lf_state f"
    and "lf_deps f' = lf_deps f \<or>
      \<not> dependency_present dep existing \<and> lf_deps f' = DepText (appended_dependency dep existing)"
  using assms by (auto simp: store_dependency_def Let_def split: if_splits option.splits)

definition readable_deps :: "dep_file \<Rightarrow> string option" where
  "readable_deps f =
     (case f of DepAbsent \<Rightarrow> Some [] | DepText s \<Rightarrow> Some (read_text s) | _ \<Rightarrow> None)"

lemma write_native_files:
  assumes "write_native_dependency fs dep f = (out, f')"
  shows "lf_state f' = lf_state f"
    and "lf_deps f' = lf_deps f \<or>
      (\<exists>existing. readable_deps (lf_deps f) = Some existing \<and> \<not> dependency_present dep existing \<and>
         lf_deps f' = DepText (appended_dependency dep existing))"
proof -
  have "lf_state f' = lf_state f \<and> (lf_deps f' = lf_deps f \<or>
      (\<exists>existing. readable_deps (lf_deps f) = Some existing \<and> \<not> dependency_present dep existing \<and>
         lf_deps f' = DepText (appended_dependency dep existing)))"
  proof (cases "lf_deps f")
    case DepAbsent
    then have "store_dependency fs dep [] f = (out, f')" using assms by (simp add: write_native_dependency_def)
    from store_dependency_files [OF this] show ?thesis using DepAbsent by (simp add: readable_deps_def)
  next
    case (DepText s)
    then have "store_dependency fs dep (read_text s) f = (out, f')"
      using assms by (simp add: write_native_dependency_def)
    from store_dependency_files [OF this] show ?thesis using DepText by (simp add: readable_deps_def)
  next
    case (DepNotFile e)
    then show ?thesis
      using assms by (auto simp: write_native_dependency_def store_dependency_def split: if_splits)
  qed (use assms in \<open>simp add: write_native_dependency_def\<close>)
  then show "lf_state f' = lf_state f" and "lf_deps f' = lf_deps f \<or>
      (\<exists>existing. readable_deps (lf_deps f) = Some existing \<and> \<not> dependency_present dep existing \<and>
         lf_deps f' = DepText (appended_dependency dep existing))"
    by simp_all
qed

lemma emit_advisory_deps:
  "emit_advisory_artifact fs dep r f = (out, f') \<Longrightarrow> lf_deps f' = lf_deps f"
  by (auto simp: emit_advisory_artifact_def Let_def split: option.splits)

lemma materialize_files:
  assumes "materialize_resolution fs r p m f = (out, f')"
  shows "lf_deps f' = lf_deps f \<or>
    (\<exists>dep existing. m = WRITE \<and> p = NATIVE \<and> is_resolved r \<and> rs_resolved r = Some dep \<and>
       readable_deps (lf_deps f) = Some existing \<and> \<not> dependency_present dep existing \<and>
       lf_deps f' = DepText (appended_dependency dep existing))"
proof (cases "m = WRITE \<and> p = NATIVE \<and> is_resolved r \<and> rs_resolved r \<noteq> None")
  case True
  then obtain dep where dep: "rs_resolved r = Some dep" by blast
  then have "write_native_dependency fs dep f = (out, f')"
    using True assms by (simp add: materialize_resolution_def)
  then show ?thesis using True dep write_native_files(2) by blast
next
  case False
  then show ?thesis
    using assms emit_advisory_deps
    by (cases m) (auto simp: materialize_resolution_def split: option.splits if_splits)
qed

lemma read_newlines_append_plain:
  "CHR 13 \<notin> set t \<Longrightarrow> \<exists>b. read_newlines after (s @ t) = read_newlines after s @ read_newlines b t"
  by (induction s arbitrary: after) auto

lemma read_newlines_plain: "CHR 13 \<notin> set s \<Longrightarrow> read_newlines False s = s"
  by (induction s) auto

lemma read_newlines_no_cr: "CHR 13 \<notin> set (read_newlines b s)"
  by (induction b s rule: read_newlines.induct) auto

lemma rstrip_set: "set (py_rstrip_char c s) \<subseteq> set s"
  unfolding py_rstrip_char_def using set_dropWhileD by force

lemma appended_kept:
  "\<exists>blank. existing = py_rstrip_char (CHR 10) existing @ blank \<and> set blank \<subseteq> {CHR 10}"
proof -
  have "existing = rev (dropWhile (\<lambda>x. x = CHR 10) (rev existing)) @ rev (takeWhile (\<lambda>x. x = CHR 10) (rev existing))"
    by (metis rev_append rev_rev_ident takeWhile_dropWhile_id)
  moreover have "set (rev (takeWhile (\<lambda>x. x = CHR 10) (rev existing))) \<subseteq> {CHR 10}"
    by (auto dest: set_takeWhileD)
  ultimately show ?thesis unfolding py_rstrip_char_def by blast
qed

definition plain_entry :: "dependency \<Rightarrow> bool" where
  "plain_entry dep =
     (CHR 13 \<notin> set (rd_capability dep @ rd_provider dep @ rd_version dep @ rd_digest dep))"

lemma block_plain: "plain_entry dep \<Longrightarrow> CHR 13 \<notin> set (dependency_block dep)"
  by (auto simp: plain_entry_def dependency_block_def py_join_def)

lemma block_names: "py_in (rd_capability dep) (dependency_block dep)" "py_in (rd_provider dep) (dependency_block dep)"
proof -
  have split: "\<exists>rest. dependency_block dep = ''- capability: '' @ rd_capability dep @
      [CHR 10] @ ''  provider: '' @ rd_provider dep @ rest"
    by (simp add: dependency_block_def py_join_def)
  then obtain rest where r: "dependency_block dep = ''- capability: '' @ rd_capability dep @
      [CHR 10] @ ''  provider: '' @ rd_provider dep @ rest" by blast
  show "py_in (rd_capability dep) (dependency_block dep)"
    unfolding py_in_iff r by (rule exI [of _ "''- capability: ''"]) simp
  show "py_in (rd_provider dep) (dependency_block dep)"
    unfolding py_in_iff r
    by (rule exI [of _ "''- capability: '' @ rd_capability dep @ [CHR 10] @ ''  provider: ''"]) simp
qed

lemma py_in_suffix: "py_in p t \<Longrightarrow> py_in p (s @ t)"
  unfolding py_in_iff by (metis append.assoc)

lemma appended_present: "dependency_present dep (appended_dependency dep existing)"
  using block_names [of dep] py_in_suffix [of _ "dependency_block dep"]
  by (auto simp: dependency_present_def appended_dependency_def) (metis append.assoc append_Cons append_Nil)+

lemma appended_plain:
  assumes "plain_entry dep" "CHR 13 \<notin> set existing"
  shows "read_text (appended_dependency dep existing) = appended_dependency dep existing"
proof -
  have "CHR 13 \<notin> set (appended_dependency dep existing)"
    using assms block_plain rstrip_set [of "CHR 10" existing] by (auto simp: appended_dependency_def)
  then show ?thesis by (simp add: read_text_def read_newlines_plain)
qed

text \<open>
  C27: Writing a resolved dependency keeps every line of \<open>dependencies.yaml\<close>: the new text is the old
  one, as it is read, without line feeds at its end, followed by the entry, unless the old one is
  blank, when it is the entry alone. Writing it again changes nothing and says so, for an entry
  without carriage returns.
\<close>

theorem native_write_appends_once:
  assumes "write_native_dependency fs dep f = (Returned t, f')" "mt_write t"
  shows "\<exists>existing. readable_deps (lf_deps f) = Some existing \<and> lf_state f' = lf_state f \<and>
      (\<exists>kept blank. existing = kept @ blank \<and> (set blank \<subseteq> {CHR 10} \<or> py_strip existing = []) \<and>
         lf_deps f' = DepText ((if py_strip existing = [] then [] else kept @ [CHR 10]) @ dependency_block dep)) \<and>
      (plain_entry dep \<longrightarrow>
         (case write_native_dependency fs dep f' of
            (Returned t', f'') \<Rightarrow> f'' = f' \<and> mt_success t' \<and> \<not> mt_write t'
          | _ \<Rightarrow> False))"
proof -
  have changed: "lf_state f' = lf_state f" "\<exists>existing. readable_deps (lf_deps f) = Some existing \<and>
      lf_deps f' = DepText (appended_dependency dep existing)"
    using assms
    by (auto simp: write_native_dependency_def store_dependency_def readable_deps_def done_materialization_def Let_def
        split: dep_file.splits if_splits option.splits)
  then obtain existing where e: "readable_deps (lf_deps f) = Some existing"
    "lf_deps f' = DepText (appended_dependency dep existing)" by blast
  have "CHR 13 \<notin> set existing"
    using e(1) read_newlines_no_cr by (auto simp: readable_deps_def read_text_def split: dep_file.splits)
  then have again: "write_native_dependency fs dep f' =
      (Returned (done_materialization (fs_repo fs @ ''/dependencies.yaml'')
         ''Dependency already present in dependencies.yaml (no change).'' False), f')" if "plain_entry dep"
    using that e(2) appended_plain appended_present
    by (simp add: write_native_dependency_def store_dependency_def)
  obtain blank where "existing = py_rstrip_char (CHR 10) existing @ blank" "set blank \<subseteq> {CHR 10}"
    using appended_kept by blast
  then have "\<exists>kept blank. existing = kept @ blank \<and> (set blank \<subseteq> {CHR 10} \<or> py_strip existing = []) \<and>
      lf_deps f' = DepText ((if py_strip existing = [] then [] else kept @ [CHR 10]) @ dependency_block dep)"
    using e(2) by (intro exI [of _ "py_rstrip_char (CHR 10) existing"] exI [of _ blank])
      (simp add: appended_dependency_def)
  then show ?thesis using changed(1) e(1) again by (auto simp: done_materialization_def)
qed

section \<open>The command\<close>

lemma write_state_deps: "write_state g bundle f = (dir, f') \<Longrightarrow> lf_deps f' = lf_deps f"
  by (auto simp: write_state_def split: option.splits)

lemma report_resolution_deps:
  assumes "report_resolution g q r mat w = (res, w')"
  shows "lf_deps (vw_files w') = lf_deps (vw_files w)"
proof -
  obtain dir f where f: "write_state g (emit_resolution_proof (ve_now g) (xq_correlation_id q) q r mat
      (repo_posture_value (xq_posture q)) (mode_value (xq_mode q))) (vw_files w) = (dir, f)" by fastforce
  then have "w' = w\<lparr>vw_files := f\<rparr>" using assms by (simp add: report_resolution_def)
  then show ?thesis using write_state_deps [OF f] by simp
qed

lemma finish_resolution_deps:
  assumes "finish_resolution g q r w = (out, w')"
  shows "lf_deps (vw_files w') = lf_deps (vw_files w) \<or>
    (\<exists>dep existing. xq_mode q = WRITE \<and> xq_posture q = NATIVE \<and> is_resolved r \<and> rs_resolved r = Some dep \<and>
       readable_deps (lf_deps (vw_files w)) = Some existing \<and> \<not> dependency_present dep existing \<and>
       lf_deps (vw_files w') = DepText (appended_dependency dep existing))"
proof (cases "is_resolved r")
  case False
  then show ?thesis
    using assms by (auto simp: finish_resolution_def split: prod.splits dest: report_resolution_deps)
next
  case True
  obtain mat f where m: "materialize_resolution (ve_files g) r (xq_posture q) (xq_mode q) (vw_files w) = (mat, f)"
    by fastforce
  have "lf_deps (vw_files w') = lf_deps f"
    using assms True m
    by (auto simp: finish_resolution_def Let_def split: raised.splits prod.splits dest: report_resolution_deps)
  then show ?thesis using materialize_files [OF m] by auto
qed

lemma with_token_cases:
  assumes "with_token g label w rest = (out, w')"
  obtains (rest) s token creds where "load_session (ve_models g) (ve_clock g) (vw_creds w) = Returned (Some s)"
      "token_or_stored g s (vw_creds w) = (Returned token, creds)" "json_truthy token"
      "rest s token (w\<lparr>vw_creds := creds\<rparr>) = (out, w')"
    | (stopped) "vw_files w' = vw_files w" "vw_sent w' = vw_sent w"
proof (cases "load_session (ve_models g) (ve_clock g) (vw_creds w)")
  case (Returned found)
  show thesis
  proof (cases found)
    case None
    then show thesis using stopped Returned assms by (simp add: with_token_def)
  next
    case (Some s)
    obtain tok creds where tok: "token_or_stored g s (vw_creds w) = (tok, creds)" by fastforce
    show thesis
      by (cases tok; cases "\<exists>t. tok = Returned t \<and> json_truthy t")
        (use Returned Some tok rest [of s] stopped assms in \<open>auto simp: with_token_def\<close>)
  qed
qed (use stopped assms in \<open>simp_all add: with_token_def\<close>)

lemma resolve_with_deps:
  assumes "resolve_with g a s token w = (out, w')"
  shows "lf_deps (vw_files w') = lf_deps (vw_files w) \<or>
    (\<exists>r st dep existing. vx_write a \<and> detect_repo_posture g = NATIVE \<and>
       submit_resolution (ve_answers g) (ve_error_text g) (ve_transport_env g) (ve_transport g token)
         (resolution_request_of g a s) = (Returned r, st) \<and>
       is_resolved r \<and> rs_resolved r = Some dep \<and>
       readable_deps (lf_deps (vw_files w)) = Some existing \<and> \<not> dependency_present dep existing \<and>
       lf_deps (vw_files w') = DepText (appended_dependency dep existing))"
proof -
  obtain res st where sub: "submit_resolution (ve_answers g) (ve_error_text g) (ve_transport_env g)
      (ve_transport g token) (resolution_request_of g a s) = (res, st)" by fastforce
  have mode: "xq_mode (resolution_request_of g a s) = WRITE \<longleftrightarrow> vx_write a"
    and posture: "xq_posture (resolution_request_of g a s) = detect_repo_posture g"
    by (simp_all add: resolution_request_of_def asked_mode_def)
  have files: "vw_files (record_sent p st w) = vw_files w" for p by (simp add: record_sent_def)
  show ?thesis
  proof (cases res)
    case (Returned r)
    then have "finish_resolution g (resolution_request_of g a s) r
        (record_sent (resolution_payload (resolution_request_of g a s)) st w) = (out, w')"
      using assms sub by (simp add: resolve_with_def Let_def)
    from finish_resolution_deps [OF this] show ?thesis
      unfolding mode posture files using sub Returned by blast
  qed (use assms sub in \<open>auto simp: resolve_with_def Let_def record_sent_def\<close>)
qed

text \<open>
  C12: \<open>keyhole dependency resolve\<close> changes \<open>dependencies.yaml\<close> only when it is asked to write, the
  repository is native by its own files, a stored session gave a token, and the boundary resolved the
  capability; what it then stores is the text that was there with the entry of that resolution
  appended, and the entry was not found in it before.
\<close>

theorem resolve_writes_only_resolved:
  assumes "run_dependency_resolve g a w = (out, w')"
  shows "lf_deps (vw_files w') = lf_deps (vw_files w) \<or>
    (\<exists>s token creds r st dep existing. vx_write a \<and> detect_repo_posture g = NATIVE \<and> ve_is_dir g [] \<and>
       load_session (ve_models g) (ve_clock g) (vw_creds w) = Returned (Some s) \<and>
       token_or_stored g s (vw_creds w) = (Returned token, creds) \<and> json_truthy token \<and>
       submit_resolution (ve_answers g) (ve_error_text g) (ve_transport_env g) (ve_transport g token)
         (resolution_request_of g a s) = (Returned r, st) \<and>
       rs_status r = ''resolved'' \<and> rs_resolved r = Some dep \<and>
       readable_deps (lf_deps (vw_files w)) = Some existing \<and> \<not> dependency_present dep existing \<and>
       lf_deps (vw_files w') = DepText (appended_dependency dep existing))"
proof (cases "ve_is_dir g []")
  case True
  then have "with_token g ''keyhole dependency resolve'' w (resolve_with g a) = (out, w')"
    using assms by (simp add: run_dependency_resolve_def)
  then show ?thesis
  proof (cases rule: with_token_cases)
    case (rest s token creds)
    from resolve_with_deps [OF rest(4)] show ?thesis
      using True rest(1-3) by (auto simp: is_resolved_def)
  qed simp
qed (use assms in \<open>simp add: run_dependency_resolve_def\<close>)

section \<open>Search\<close>

text \<open>
  \<open>keyhole search\<close> leaves \<open>dependencies.yaml\<close> as it is; below the state directory it only adds
  files, all of them in \<open>search\<close>; and it sends at most its own request.
\<close>

theorem search_reads_only:
  assumes "run_search g query provider version w = (out, w')"
  shows "lf_deps (vw_files w') = lf_deps (vw_files w) \<and>
    (\<exists>ps. lf_state (vw_files w') = lf_state (vw_files w) @ ps \<and> list_all (\<lambda>(path, c). hd path = ''search'') ps) \<and>
    vw_sent w' \<in> {vw_sent w, vw_sent w @ [search_payload (search_request_of g query provider version)]}"
proof -
  have "with_token g ''keyhole search'' w (search_with g (search_request_of g query provider version)) = (out, w')"
    using assms by (simp add: run_search_def)
  then show ?thesis
  proof (cases rule: with_token_cases)
    case (rest s token creds)
    then show ?thesis
      using rest(4)
      by (auto simp: search_with_def Let_def record_sent_def write_state_def emit_search_proof_def
          split: prod.splits raised.splits option.splits if_splits)
  qed simp
qed

section \<open>A resolution to evaluate\<close>

definition capability_answer :: "json \<Rightarrow> transport_env" where
  "capability_answer body =
     \<lparr>env_net = (\<lambda>h. Responded \<lparr>resp_status = 200, resp_text = [], resp_reason = [],
          resp_json = Some body, resp_headers = (\<lambda>_. None)\<rparr>),
      env_uuid = (\<lambda>k. CHR ''u'' # replicate k (CHR ''x'')), env_random = (\<lambda>_. 0), env_now = (\<lambda>_. ''now'')\<rparr>"

definition sample_files :: file_env where
  "sample_files = \<lparr>fs_repo = ''/r'', fs_state_dir = ''/s'', fs_deps_error = None, fs_state_error = None\<rparr>"

definition capability_sample :: "string list \<Rightarrow> json \<Rightarrow> capability_env" where
  "capability_sample files body =
     \<lparr>ve_is_dir = (\<lambda>p. p = []), ve_is_file = (\<lambda>p. p \<in> set (map (\<lambda>n. [n]) files)), ve_fresh_id = ''c-1'', ve_now = ''now'', ve_clock = 0,
      ve_models = \<lparr>me_int = (\<lambda>v. None), me_time = (\<lambda>v. None), me_iso = (\<lambda>t. []), me_decode = (\<lambda>s. None)\<rparr>,
      ve_answers = \<lparr>am_int = (\<lambda>v. case v of JInt i \<Rightarrow> Some i | _ \<Rightarrow> None),
        am_bool = (\<lambda>v. case v of JBool b \<Rightarrow> Some b | _ \<Rightarrow> None)\<rparr>,
      ve_refresh = \<lparr>fr_now = 0, fr_client_id = ''keyhole-cli'', fr_post = (\<lambda>url form. RefreshFailed ''ConnectionError''),
        fr_later = (\<lambda>v. None), fr_save_error = None\<rparr>,
      ve_fingerprint = (\<lambda>s. s),
      ve_transport = (\<lambda>token. make_transport ''https://b'' (Some (\<lambda>_. Some ''tok'')) None ''1''),
      ve_transport_env = capability_answer body, ve_error_text = transport_error_name, ve_files = sample_files\<rparr>"

definition capability_world_with :: "dep_file \<Rightarrow> capability_world" where
  "capability_world_with deps =
     \<lparr>vw_creds = FileJson (JObj [(''access_token'', JStr ''tok''), (''flow_type'', JStr ''device'')]), vw_sent = [],
      vw_files = \<lparr>lf_deps = deps, lf_state = []\<rparr>\<rparr>"

definition write_args :: resolve_args where
  "write_args =
     \<lparr>vx_capability = ''pay'', vx_provider = [], vx_version = [], vx_write = True, vx_advisory = False\<rparr>"

definition resolved_body :: json where
  "resolved_body =
     JObj [(''status'', JStr ''resolved''), (''resolved'', JObj [(''capability'', JStr ''pay''), (''provider'', JStr ''acme'')])]"

definition written_run :: "cli_result raised \<times> capability_world" where
  "written_run =
     run_dependency_resolve (capability_sample [''keyhole.yaml''] resolved_body) write_args
       (capability_world_with (DepText ''a: b''))"

lemma written_run_evaluated:
  "case written_run of (out, w) \<Rightarrow> lf_deps (vw_files (w)) =
     DepText (''a: b'' @ [CHR 10] @ ''- capability: pay'' @ [CHR 10] @ ''  provider: acme'' @ [CHR 10]) \<and>
   map (\<lambda>(path, c). case c of ProofJson d \<Rightarrow> dict_get d ''materialized'' | ProofText t \<Rightarrow> None)
     (filter (\<lambda>(path, c). last path = ''response.json'') (lf_state (vw_files (w)))) =
   [Some (JBool False)]"
  by code_simp

lemma written_run_deps:
  "lf_deps (vw_files (snd written_run)) =
     DepText (''a: b'' @ [CHR 10] @ ''- capability: pay'' @ [CHR 10] @ ''  provider: acme'' @ [CHR 10])"
  using written_run_evaluated unfolding case_prod_beta by blast

lemma resolve_writes_only_resolved_witness:
  "\<exists>dep. lf_deps (vw_files (snd written_run)) = DepText (appended_dependency dep ''a: b'') \<and>
     \<not> dependency_present dep ''a: b''"
proof -
  have "run_dependency_resolve (capability_sample [''keyhole.yaml''] resolved_body) write_args
      (capability_world_with (DepText ''a: b'')) = (fst written_run, snd written_run)"
    by (simp add: written_run_def)
  moreover have "readable_deps (lf_deps (vw_files (capability_world_with (DepText ''a: b'')))) = Some ''a: b''"
    by code_simp
  moreover have "lf_deps (vw_files (snd written_run)) \<noteq> lf_deps (vw_files (capability_world_with (DepText ''a: b'')))"
    unfolding written_run_deps by (simp add: capability_world_with_def)
  ultimately show ?thesis
    using resolve_writes_only_resolved [of "capability_sample [''keyhole.yaml''] resolved_body" write_args
      "capability_world_with (DepText ''a: b'')" "fst written_run" "snd written_run"] by auto
qed

definition acme_dependency :: dependency where
  "acme_dependency =
     \<lparr>rd_capability = ''pay'', rd_provider = ''acme'', rd_version = ''1'', rd_digest = [], rd_reason = []\<rparr>"

lemma native_write_appends_once_witness:
  "case write_native_dependency sample_files acme_dependency \<lparr>lf_deps = DepAbsent, lf_state = []\<rparr> of
     (Returned t, f') \<Rightarrow> mt_write t \<and>
       (case write_native_dependency sample_files acme_dependency f' of
          (Returned t', f'') \<Rightarrow> f'' = f' \<and> \<not> mt_write t'
        | _ \<Rightarrow> False)
   | _ \<Rightarrow> False"
proof -
  obtain t f' where w: "write_native_dependency sample_files acme_dependency \<lparr>lf_deps = DepAbsent, lf_state = []\<rparr> =
      (Returned t, f')" "mt_write t"
    by (simp add: write_native_dependency_def store_dependency_def dependency_present_def acme_dependency_def
        sample_files_def done_materialization_def)
  moreover have "plain_entry acme_dependency" by code_simp
  ultimately show ?thesis
    using native_write_appends_once [OF w] by (auto split: prod.splits raised.splits)
qed

definition searched_run :: "cli_result raised \<times> capability_world" where
  "searched_run = run_search (capability_sample [] resolved_body) ''pay'' [] [] (capability_world_with DepAbsent)"

lemma search_reads_only_witness:
  "lf_deps (vw_files (snd searched_run)) = DepAbsent \<and> length (lf_state (vw_files (snd searched_run))) = 3"
proof -
  have "run_search (capability_sample [] resolved_body) ''pay'' [] [] (capability_world_with DepAbsent) =
      (fst searched_run, snd searched_run)"
    by (simp add: searched_run_def)
  moreover have "length (lf_state (vw_files (snd searched_run))) = 3" by code_simp
  ultimately show ?thesis using search_reads_only by (fastforce simp: capability_world_with_def)
qed

definition pay_request :: resolution_request where
  "pay_request =
     \<lparr>xq_capability = ''pay'', xq_provider = [], xq_version = [], xq_repo_identity = [], xq_posture = NATIVE,
      xq_mode = WRITE, xq_fingerprint = [], xq_correlation_id = ''c-1'', xq_timestamp = ''now''\<rparr>"

definition sample_submit :: "json \<Rightarrow> resolution raised \<times> exec_state" where
  "sample_submit body =
     (let g = capability_sample [] body
      in submit_resolution (ve_answers g) (ve_error_text g) (ve_transport_env g) (ve_transport g JNull) pay_request)"

lemma resolution_exact_witness:
  "case sample_submit resolved_body of
     (Returned r, st) \<Rightarrow> is_resolved r \<and> rs_resolved r \<noteq> None
   | _ \<Rightarrow> False"
proof -
  have ok: "case sample_submit resolved_body of (Returned r, st) \<Rightarrow> is_resolved r | _ \<Rightarrow> False" by code_simp
  show ?thesis
    using ok resolution_exact [of "ve_answers (capability_sample [] resolved_body)"
        "ve_error_text (capability_sample [] resolved_body)"
        "ve_transport_env (capability_sample [] resolved_body)"
        "ve_transport (capability_sample [] resolved_body) JNull" pay_request]
    by (auto simp: sample_submit_def Let_def split: prod.splits raised.splits)
qed

section \<open>Where the code and its comments differ\<close>

text \<open>
  Only the listed statuses keep an answer from being a resolution: an answer of code 200 whose status
  is rejected, or failed, is a resolution of the requested capability with an empty provider, and it
  is written.
\<close>

definition rejected_run :: "cli_result raised \<times> capability_world" where
  "rejected_run =
     run_dependency_resolve (capability_sample [''keyhole.yaml''] (JObj [(''status'', JStr ''rejected'')])) write_args
       (capability_world_with DepAbsent)"

lemma rejected_answer_is_written:
  "(case fst rejected_run of Returned r \<Rightarrow> cm_success r \<and> cm_exit_code r = exit_success | _ \<Rightarrow> False) \<and>
   lf_deps (vw_files (snd rejected_run)) =
     DepText (''- capability: pay'' @ [CHR 10] @ ''  provider: '' @ [CHR 10])"
  by code_simp

text \<open>The branch for an error code is never reached, so no outcome is \<open>rejected\<close>.\<close>

lemma never_rejected:
  assumes "\<forall>k. env_uuid env k \<noteq> []" "submit_resolution am text env tr q = (Returned r, st)"
  shows "rs_status r \<noteq> ''rejected''"
proof (cases "fst (execute env builtin_registry tr ''POST'' ''/mcp/v1/capabilities/resolve''
    ''capability.resolve'' None [])")
  case (Inl e)
  then have "r = failed_resolution text e q"
    using assms(2) by (auto simp: submit_resolution_def split: prod.splits)
  then show ?thesis by (simp add: failed_resolution_def resolution_of_def)
next
  case (Inr result)
  then have ex: "execute env builtin_registry tr ''POST'' ''/mcp/v1/capabilities/resolve''
        ''capability.resolve'' None [] = (Inr result, st)"
    and c: "classify_resolution am result q = Returned r"
    using assms(2) by (auto simp: submit_resolution_def split: prod.splits)
  have "res_status_code result < 400" using execute_ok_answer [OF assms(1) ex] by auto
  then show ?thesis
    using c
    by (rule_tac classify_resolution_cases [OF c])
      (auto simp: classify_answer_def split: if_splits
        dest!: ambiguous_status incompatible_status not_found_status resolved_status base_resolution_status)
qed

text \<open>A write that is refused because the repository is not native leaves the command successful.\<close>

lemma refused_write_succeeds:
  assumes "is_resolved r" "rs_resolved r \<noteq> None" "xq_mode q = WRITE" "xq_posture q \<noteq> NATIVE"
  shows "\<exists>res w'. finish_resolution g q r w = (Returned res, w') \<and> cm_success res \<and> cm_exit_code res = exit_success \<and>
    lf_deps (vw_files w') = lf_deps (vw_files w)"
proof -
  obtain t where t: "materialize_resolution (ve_files g) r (xq_posture q) (xq_mode q) (vw_files w) =
      (Returned t, vw_files w)"
    using assms by (auto simp: materialize_resolution_def)
  obtain res w' where rep: "report_resolution g q r (Some t) (w\<lparr>vw_files := vw_files w\<rparr>) = (res, w')" by fastforce
  then have "finish_resolution g q r w = (Returned res, w')"
    using assms(1) t by (simp add: finish_resolution_def)
  moreover have "cm_success res \<and> cm_exit_code res = exit_success"
    using rep assms(1)
    by (auto simp: report_resolution_def resolution_command_result_def command_result_of_def Let_def split: prod.splits)
  ultimately show ?thesis using report_resolution_deps [OF rep] by auto
qed

text \<open>The flag \<open>--advisory\<close> changes nothing, with or without \<open>--write\<close>.\<close>

lemma advisory_flag_ignored:
  "run_dependency_resolve g (a\<lparr>vx_advisory := b\<rparr>) w = run_dependency_resolve g a w"
proof -
  have "resolve_with g (a\<lparr>vx_advisory := b\<rparr>) = resolve_with g a"
    by (simp add: resolve_with_def resolution_request_of_def asked_mode_def fun_eq_iff)
  then show ?thesis by (simp add: run_dependency_resolve_def)
qed

text \<open>
  The proof of the same run overwrites the advisory suggestion: the file of that name ends without
  the mark \<open>advisory\<close>. And a proof says that nothing was materialised, also after a write.
\<close>

definition advisory_run :: "cli_result raised \<times> capability_world" where
  "advisory_run =
     run_dependency_resolve (capability_sample [''keyhole.yaml''] resolved_body) (write_args\<lparr>vx_write := False\<rparr>)
       (capability_world_with DepAbsent)"

definition suggestion_path :: "string list" where
  "suggestion_path = [''resolution'', ''c-1'', ''suggested-dependency.json'']"

lemma advisory_mark_overwritten:
  "map (\<lambda>(path, c). case c of ProofJson d \<Rightarrow> dict_get d ''advisory'' | ProofText t \<Rightarrow> None)
     (filter (\<lambda>(path, c). path = suggestion_path) (lf_state (vw_files (snd advisory_run)))) =
   [Some (JBool True), None]"
  by code_simp

lemma written_not_materialized:
  "map (\<lambda>(path, c). case c of ProofJson d \<Rightarrow> dict_get d ''materialized'' | ProofText t \<Rightarrow> None)
     (filter (\<lambda>(path, c). last path = ''response.json'') (lf_state (vw_files (snd written_run)))) =
   [Some (JBool False)]"
  using written_run_evaluated unfolding case_prod_beta by blast

text \<open>A name that is part of another one counts as present, so its dependency is never added.\<close>

lemma substring_counts_as_present:
  "dependency_present \<lparr>rd_capability = ''a.b.c.v1'', rd_provider = ''acme'', rd_version = [], rd_digest = [],
       rd_reason = []\<rparr>
     (''- capability: a.b.c.v10'' @ [CHR 10] @ ''  provider: acme'')"
  by code_simp

text \<open>The entry is not escaped: a provider with a line feed adds an entry of its own.\<close>

lemma entry_not_escaped:
  "dependency_block \<lparr>rd_capability = ''pay'', rd_provider = ''x'' @ [CHR 10] @ ''- capability: other'',
       rd_version = [], rd_digest = [], rd_reason = []\<rparr> =
     ''- capability: pay'' @ [CHR 10] @ ''  provider: x'' @ [CHR 10] @ ''- capability: other'' @ [CHR 10]"
  by code_simp

end
