(* ===== verification/Capability_Command_Properties.thy ===== *)
theory Capability_Command_Properties
  imports Capability_Command Capability_Name_Properties Capability_Properties
begin

text \<open>
  Why no capability is ever registered, what creating one writes, and where these commands differ from
  their descriptions.
\<close>

section \<open>Registration\<close>

text \<open>A receipt the command accepts, and a session it would use.\<close>

definition receipt_accepted_for :: "register_env \<Rightarrow> string \<Rightarrow> bool" where
  "receipt_accepted_for rg invariant \<longleftrightarrow>
     (\<exists>d. chosen_receipt rg invariant = Returned (Some (JObj d)) \<and>
        json_get d ''governed_verdict'' \<in> {JStr ''ACCEPT'', JStr ''ACCEPTED'', JStr ''PASS''})"

definition session_with_token :: "capability_env \<Rightarrow> capability_world \<Rightarrow> bool" where
  "session_with_token g w \<longleftrightarrow>
     (\<exists>s. load_session (ve_models g) (ve_clock g) (vw_creds w) = Returned (Some s) \<and> ss_access_token s \<noteq> [])"

lemma register_with_receipt_exact:
  assumes "register_with_receipt g w = (out, w')"
  shows "w' = w \<and> (session_with_token g w \<longrightarrow> out = Crashed ''NameError'') \<and>
    (\<forall>res. out = Returned res \<longrightarrow> \<not> cm_success res \<and> cm_exit_code res = exit_runtime_unavailable)"
  using assms
  by (auto simp: register_with_receipt_def session_with_token_def no_session_result_def command_result_of_def
      split: raised.splits option.splits if_splits)

lemma receipt_verdict_accepted:
  "receipt_verdict d \<in> set accepted_verdicts \<longleftrightarrow>
     json_get d ''governed_verdict'' \<in> {JStr ''ACCEPT'', JStr ''ACCEPTED'', JStr ''PASS''}"
  by (simp add: receipt_verdict_def accepted_verdicts_def)

lemma run_register_cases:
  assumes "run_capability_register rg g name invariant w = (out, w')"
  obtains (go) "canonical_name (py_strip name)" "receipt_accepted_for rg invariant"
      "register_with_receipt g w = (out, w')"
    | (unnamed) "\<not> canonical_name (py_strip name)" "w' = w"
      "\<exists>res. out = Returned res \<and> \<not> cm_success res \<and> cm_exit_code res = exit_invalid_input"
    | (no_receipt) "canonical_name (py_strip name)" "\<not> receipt_accepted_for rg invariant" "w' = w"
      "\<forall>res. out = Returned res \<longrightarrow> \<not> cm_success res \<and> cm_exit_code res = exit_failure"
proof (cases "canonical_name (py_strip name)")
  case False
  then show thesis
    using unnamed assms
    by (cases "py_strip name = []")
      (auto simp: run_capability_register_def Let_def validate_valid invalid_input_def command_result_of_def)
next
  case named: True
  moreover have "\<not> canonical_name []" by code_simp
  ultimately have "py_strip name \<noteq> []" by metis
  with named have run: "run_capability_register rg g name invariant w =
     (case chosen_receipt rg invariant of
        Returned (Some (JObj d)) \<Rightarrow>
          (if receipt_verdict d \<in> set accepted_verdicts then register_with_receipt g w
           else (Returned (bad_verdict_result rg (py_strip name) invariant (dict_get_or d ''governed_verdict'' (JStr []))), w))
      | Returned (Some JNull) \<Rightarrow> (Returned (no_receipt_result (py_strip name) invariant), w)
      | Returned (Some v) \<Rightarrow> (Crashed ''AttributeError'', w)
      | Returned None \<Rightarrow> (Returned (no_receipt_result (py_strip name) invariant), w)
      | AuthRaised e \<Rightarrow> (AuthRaised e, w)
      | Crashed c \<Rightarrow> (Crashed c, w)
      | Blocked \<Rightarrow> (Blocked, w))"
    by (simp add: run_capability_register_def Let_def validate_valid)
  have unsuccessful: "\<not> cm_success (bad_verdict_result rg cap inv v)" "\<not> cm_success (no_receipt_result cap inv)"
    "cm_exit_code (bad_verdict_result rg cap inv v) = exit_failure" "cm_exit_code (no_receipt_result cap inv) = exit_failure"
    for cap inv v
    by (simp_all add: bad_verdict_result_def no_receipt_result_def command_result_of_def)
  show thesis
  proof (cases "receipt_accepted_for rg invariant")
    case True
    then have "register_with_receipt g w = (out, w')"
      using run assms unfolding receipt_accepted_for_def receipt_verdict_accepted [symmetric] by auto
    then show thesis using go named True by blast
  next
    case False
    then show thesis
      using run no_receipt named assms unsuccessful
      unfolding receipt_accepted_for_def receipt_verdict_accepted [symmetric]
      by (cases "chosen_receipt rg invariant"; cases "\<exists>v. chosen_receipt rg invariant = Returned (Some v)")
        (auto split: option.splits json.splits if_splits)
  qed
qed

text \<open>
  C14: \<open>keyhole capability register\<close> never registers a capability. Whatever it is given it sends nothing,
  changes nothing and reports no success. It refuses in order: a name that is not canonical as invalid
  input; no receipt whose verdict is accepted as a failure; no stored session with a token as an
  unavailable runtime. With all three it raises \<open>NameError\<close> before it would make a transport.
\<close>

theorem register_never_registers:
  assumes "run_capability_register rg g name invariant w = (out, w')"
  shows "w' = w \<and>
    (canonical_name (py_strip name) \<and> receipt_accepted_for rg invariant \<and> session_with_token g w \<longrightarrow>
       out = Crashed ''NameError'') \<and>
    (\<forall>res. out = Returned res \<longrightarrow> \<not> cm_success res \<and>
       cm_exit_code res =
         (if \<not> canonical_name (py_strip name) then exit_invalid_input
          else if receipt_accepted_for rg invariant then exit_runtime_unavailable else exit_failure))"
  using assms
proof (cases rule: run_register_cases)
  case go
  then show ?thesis using register_with_receipt_exact [OF go(3)] by simp
qed auto

section \<open>Creation\<close>

text \<open>What a write leaves: the text, or the part of it that was written before the write failed.\<close>

definition stored_text :: "name_env \<Rightarrow> string \<Rightarrow> string" where
  "stored_text g new = (case ne_write_error g of Some (e, Some k) \<Rightarrow> take k new | _ \<Rightarrow> new)"

text \<open>
  The appended text, without reference to the code: the old text without the white space at its
  end, and a new last line, under a heading when the text names no section of capabilities.
\<close>

definition appended_line :: "string \<Rightarrow> string \<Rightarrow> string \<Rightarrow> bool" where
  "appended_line canonical old new \<longleftrightarrow>
     (\<exists>kept blank. old = kept @ blank \<and> list_all py_isspace blank \<and>
        (kept = [] \<or> \<not> py_isspace (last kept)) \<and>
        new = kept @ [CHR 10] @
          (if \<exists>before after. old = before @ ''capabilities:'' @ after then [] else ''capabilities:'' @ [CHR 10]) @
          ''  - '' @ canonical @ [CHR 10])"

lemma py_rstrip_split:
  obtains blank where "s = py_rstrip s @ blank" "list_all py_isspace blank"
    "py_rstrip s = [] \<or> \<not> py_isspace (last (py_rstrip s))"
proof -
  have "rev s = takeWhile py_isspace (rev s) @ dropWhile py_isspace (rev s)" by simp
  then have "s = rev (dropWhile py_isspace (rev s)) @ rev (takeWhile py_isspace (rev s))"
    by (metis rev_append rev_rev_ident)
  moreover have "py_rstrip s = rev (dropWhile py_isspace (rev s))"
    by (simp add: py_rstrip_def py_lstrip_def)
  moreover have "dropWhile py_isspace (rev s) = [] \<or> \<not> py_isspace (hd (dropWhile py_isspace (rev s)))"
    using hd_dropWhile by blast
  ultimately show thesis
    using that [of "rev (takeWhile py_isspace (rev s))"]
    by (auto simp: list_all_iff last_rev dest: set_takeWhileD)
qed

lemma declared_name_appends: "appended_line canonical old (declared_name canonical old)"
proof -
  obtain blank where b: "old = py_rstrip old @ blank" "list_all py_isspace blank"
    "py_rstrip old = [] \<or> \<not> py_isspace (last (py_rstrip old))" by (rule py_rstrip_split)
  have "py_in ''capabilities:'' old \<longleftrightarrow> (\<exists>before after. old = before @ ''capabilities:'' @ after)"
    by (rule py_in_iff)
  then show ?thesis
    unfolding appended_line_def using b
    by (intro exI [of _ "py_rstrip old"] exI [of _ blank]) (simp add: declared_name_def)
qed

lemma artifact_write_cases:
  assumes "attempt_artifact_write g canonical arts = (Returned aw, arts')"
  shows "arts' = arts \<or>
    (\<exists>n raw. first_artifact arts = Some n \<and> arts n = ArtText raw \<and> \<not> py_in canonical (read_text raw) \<and>
       arts' = arts(n := ArtText (stored_text g (declared_name canonical (read_text raw)))) \<and>
       \<not> (\<exists>e. ne_write_error g = Some (e, None)))"
  using assms
  by (auto simp: attempt_artifact_write_def stored_text_def Let_def
      split: if_splits option.splits artifact.splits prod.splits)

lemma created_result_world:
  "created_result g a parts canonical aw w = (res, w') \<Longrightarrow>
     nw_artifacts w' = nw_artifacts w \<and> cm_success res"
  by (auto simp: created_result_def prove_name_def command_result_of_def split: option.splits)

lemma store_created_artifacts:
  assumes "store_created g a parts canonical w = (out, w')"
  shows "nw_artifacts w' = nw_artifacts w \<or>
    (\<exists>n raw. na_write a \<and> first_artifact (nw_artifacts w) = Some n \<and> nw_artifacts w n = ArtText raw \<and>
       \<not> py_in canonical (read_text raw) \<and>
       nw_artifacts w' = (nw_artifacts w)(n := ArtText (stored_text g (declared_name canonical (read_text raw)))) \<and>
       \<not> (\<exists>e. ne_write_error g = Some (e, None)))"
proof (cases "na_write a")
  case True
  obtain res arts where t: "attempt_artifact_write g canonical (nw_artifacts w) = (res, arts)" by fastforce
  show ?thesis
  proof (cases res)
    case (Returned aw)
    obtain res2 w2 where c: "created_result g a parts canonical aw (w\<lparr>nw_artifacts := arts\<rparr>) = (res2, w2)" by fastforce
    then have "w' = w2" using assms True t Returned by (simp add: store_created_def)
    then have arts: "nw_artifacts w' = arts" using created_result_world [OF c] by simp
    show ?thesis
      using artifact_write_cases [of g canonical "nw_artifacts w" aw arts] t Returned True arts by auto
  qed (use assms True t in \<open>auto simp: store_created_def\<close>)
next
  case False
  then show ?thesis
    using assms created_result_world by (fastforce simp: store_created_def split: prod.splits)
qed

lemma parts_major: "normalize_capability_parts d c n major = Inr (d', c', n', m) \<Longrightarrow>
    d' = normalize_part d \<and> c' = normalize_part c \<and> n' = normalize_part n \<and> 1 \<le> m"
  by (auto simp: normalize_capability_parts_def positive_major_def split: sum.splits option.splits if_splits)

text \<open>
  C29: \<open>keyhole capability create\<close> writes only when it is asked to, and only the name it made: an
  artifact changes only by appending that name to the first artifact there is, when its text did not
  hold the name. The new text keeps the old one, without the white space at its end, and adds one last
  line with the name, after a heading \<open>capabilities:\<close> when the text has none: the line is the last of
  the file, not the last of that section, as a comment says. Where the write fails after the file was
  opened, a beginning of the new text is all that is left. The name is of the grammar, made of the
  given parts in small letters without the white space around them and a major version of at least 1.
\<close>

theorem create_appends_new_name:
  assumes "run_capability_create g a w = (out, w')" "nw_artifacts w' \<noteq> nw_artifacts w"
  shows "\<exists>m n raw new stored. na_write a \<and> 1 \<le> m \<and>
    (let canonical = assemble_name (normalize_part (na_domain a)) (normalize_part (na_category a))
           (normalize_part (na_name a)) m
     in canonical_name canonical \<and> first_artifact (nw_artifacts w) = Some n \<and> nw_artifacts w n = ArtText raw \<and>
        \<not> py_in canonical (read_text raw) \<and>
        nw_artifacts w' = (nw_artifacts w)(n := ArtText stored) \<and>
        appended_line canonical (read_text raw) new \<and>
        (if ne_write_error g = None then stored = new
         else \<exists>e k. ne_write_error g = Some (e, Some k) \<and> stored = take k new))"
proof -
  have refused: "nw_artifacts (snd (refused_name g parts message reasons w)) = nw_artifacts w" for parts message reasons
    by (auto simp: refused_name_def prove_name_def Let_def split: prod.splits option.splits)
  have kept: "refused_name g parts message reasons w = (res, w'') \<Longrightarrow> nw_artifacts w'' = nw_artifacts w"
    for parts message reasons res w''
    using refused [of parts message reasons] by simp
  from assms obtain d c n m canonical where p:
    "normalize_capability_parts (na_domain a) (na_category a) (na_name a) (na_major a) = Inr (d, c, n, m)"
    "create_capability_name d c n m = Inr canonical" "store_created g a (d, c, n, m) canonical w = (out, w')"
    by (auto simp: run_capability_create_def dest: kept split: option.splits sum.splits prod.splits)
  have "canonical = assemble_name d c n m" "canonical_name canonical"
    using p(2) by (auto simp: create_capability_name_def Let_def validate_valid split: if_splits)
  moreover from store_created_artifacts [OF p(3)] assms(2) obtain k raw where w:
    "na_write a" "first_artifact (nw_artifacts w) = Some k" "nw_artifacts w k = ArtText raw"
    "\<not> py_in canonical (read_text raw)"
    "nw_artifacts w' = (nw_artifacts w)(k := ArtText (stored_text g (declared_name canonical (read_text raw))))"
    "\<not> (\<exists>e. ne_write_error g = Some (e, None))" by blast
  moreover have "if ne_write_error g = None
      then stored_text g (declared_name canonical (read_text raw)) = declared_name canonical (read_text raw)
      else \<exists>e j. ne_write_error g = Some (e, Some j) \<and>
             stored_text g (declared_name canonical (read_text raw)) = take j (declared_name canonical (read_text raw))"
    using w(6) by (auto simp: stored_text_def split: option.splits)
  ultimately show ?thesis
    using parts_major [OF p(1)] declared_name_appends unfolding Let_def by blast
qed

section \<open>Commands to evaluate\<close>

definition receipt_listing :: "string \<Rightarrow> (string \<times> receipt) list" where
  "receipt_listing verdict =
     [(''inv-1-receipt.json'', ReceiptReadings [Some (JObj
         [(''governed_verdict'', JStr verdict), (''submission_id'', JStr ''s-1''), (''invariant_id'', JStr ''INV-1'')])])]"

definition register_sample :: "string \<Rightarrow> register_env" where
  "register_sample verdict =
     \<lparr>rg_repo_name = ''app'', rg_receipt = (\<lambda>p. None), rg_listing = Some (receipt_listing verdict), rg_fstr = as_str\<rparr>"

definition registered_run :: "string \<Rightarrow> string \<Rightarrow> cli_result raised \<times> capability_world" where
  "registered_run verdict name =
     run_capability_register (register_sample verdict) (capability_sample [] (JObj [(''status'', JStr ''accepted'')])) name []
       (capability_world_with DepAbsent)"

lemma register_never_registers_witness:
  "fst (registered_run ''ACCEPT'' ''a.b.c.v1'') = Crashed ''NameError'' \<and>
   vw_sent (snd (registered_run ''ACCEPT'' ''a.b.c.v1'')) = []"
proof -
  let ?g = "capability_sample [] (JObj [(''status'', JStr ''accepted'')])"
  have run: "run_capability_register (register_sample ''ACCEPT'') ?g ''a.b.c.v1'' [] (capability_world_with DepAbsent) =
      (fst (registered_run ''ACCEPT'' ''a.b.c.v1''), snd (registered_run ''ACCEPT'' ''a.b.c.v1''))"
    by (simp add: registered_run_def)
  have "py_strip ''a.b.c.v1'' = ''a.b.c.v1''" "nv_valid (validate_capability_name ''a.b.c.v1'')" by code_simp+
  then have "canonical_name (py_strip ''a.b.c.v1'')" by (simp add: validate_valid)
  moreover have "case chosen_receipt (register_sample ''ACCEPT'') [] of
      Returned (Some (JObj d)) \<Rightarrow> json_get d ''governed_verdict'' = JStr ''ACCEPT'' | _ \<Rightarrow> False" by code_simp
  then have "receipt_accepted_for (register_sample ''ACCEPT'') []"
    by (auto simp: receipt_accepted_for_def split: raised.splits option.splits json.splits)
  moreover have "case load_session (ve_models ?g) (ve_clock ?g) (vw_creds (capability_world_with DepAbsent)) of
      Returned (Some s) \<Rightarrow> ss_access_token s \<noteq> [] | _ \<Rightarrow> False" by code_simp
  then have "session_with_token ?g (capability_world_with DepAbsent)"
    by (auto simp: session_with_token_def split: raised.splits option.splits)
  ultimately show ?thesis
    using register_never_registers [OF run] by (simp add: capability_world_with_def)
qed

definition name_sample :: name_env where
  "name_sample =
     \<lparr>ne_repo = ''/r'', ne_is_dir = True, ne_write_error = None, ne_state_error = None, ne_now = ''now''\<rparr>"

definition passport_world :: "string \<Rightarrow> name_world" where
  "passport_world content =
     \<lparr>nw_artifacts = (\<lambda>n. if n = ''capability_passport.yaml'' then ArtText content else ArtAbsent), nw_state = []\<rparr>"

definition create_args :: name_args where
  "create_args =
     \<lparr>na_domain = '' Payment '', na_category = ''stripe'', na_name = ''integration'', na_major = Inr ''1'', na_write = True\<rparr>"

definition created_run :: "string \<Rightarrow> cli_result raised \<times> name_world" where
  "created_run content = run_capability_create name_sample create_args (passport_world content)"

lemma created_run_text:
  "nw_artifacts (snd (created_run ''a: b'')) ''capability_passport.yaml'' =
     ArtText (''a: b'' @ [CHR 10] @ ''capabilities:'' @ [CHR 10] @ ''  - payment.stripe.integration.v1'' @ [CHR 10])"
  by code_simp

lemma create_appends_new_name_witness:
  "\<exists>canonical raw new. canonical_name canonical \<and> \<not> py_in canonical (read_text raw) \<and>
     appended_line canonical (read_text raw) new \<and>
     nw_artifacts (snd (created_run ''a: b'')) ''capability_passport.yaml'' = ArtText new"
proof -
  have run: "run_capability_create name_sample create_args (passport_world ''a: b'') =
      (fst (created_run ''a: b''), snd (created_run ''a: b''))"
    by (simp add: created_run_def)
  have "nw_artifacts (snd (created_run ''a: b'')) ''capability_passport.yaml'' \<noteq>
      nw_artifacts (passport_world ''a: b'') ''capability_passport.yaml''"
    unfolding created_run_text by (simp add: passport_world_def)
  then have "nw_artifacts (snd (created_run ''a: b'')) \<noteq> nw_artifacts (passport_world ''a: b'')" by auto
  from create_appends_new_name [OF run this] obtain canonical n raw new where
    c: "canonical_name canonical" "first_artifact (nw_artifacts (passport_world ''a: b'')) = Some n"
    "\<not> py_in canonical (read_text raw)" "appended_line canonical (read_text raw) new"
    "nw_artifacts (snd (created_run ''a: b'')) = (nw_artifacts (passport_world ''a: b''))(n := ArtText new)"
    unfolding Let_def by (auto simp: name_sample_def)
  have "n = ''capability_passport.yaml''"
    using c(2) by (simp add: first_artifact_def artifact_names_def passport_world_def)
  then show ?thesis using c(1,3-5) by (metis fun_upd_same)
qed

section \<open>Where the code and its descriptions differ\<close>

text \<open>
  The verdict \<open>PASS\<close> of a receipt is taken for an acceptance, though the contract names \<open>ACCEPT\<close> and
  \<open>ACCEPTED\<close> only.
\<close>

lemma pass_is_accepted: "fst (registered_run ''PASS'' ''a.b.c.v1'') = Crashed ''NameError''"
  by code_simp

text \<open>A write that fails once the file is open has emptied the artifact.\<close>

lemma failed_write_empties:
  "nw_artifacts (snd (run_capability_create (name_sample\<lparr>ne_write_error := Some (''No space left'', Some 0)\<rparr>) create_args
     (passport_world ''a: b''))) ''capability_passport.yaml'' = ArtText []"
  by code_simp

text \<open>A name goes to the end of an artifact that has the key \<open>capabilities\<close>, also under another key.\<close>

lemma appended_under_other_key:
  "nw_artifacts (snd (created_run (''capabilities:'' @ [CHR 10] @ ''owners:'' @ [CHR 10] @ ''  - me''))) ''capability_passport.yaml'' =
     ArtText (''capabilities:'' @ [CHR 10] @ ''owners:'' @ [CHR 10] @ ''  - me'' @ [CHR 10] @
       ''  - payment.stripe.integration.v1'' @ [CHR 10])"
  by code_simp

text \<open>A name that begins another one in the text is taken to be declared.\<close>

lemma prefix_counts_as_declared:
  "(case fst (created_run ''x: payment.stripe.integration.v12'') of
      Returned r \<Rightarrow> cm_success r \<and> cm_warnings r \<noteq> []
    | _ \<Rightarrow> False) \<and>
   nw_artifacts (snd (created_run ''x: payment.stripe.integration.v12'')) ''capability_passport.yaml'' =
     ArtText ''x: payment.stripe.integration.v12''"
  by code_simp

end
