(* ===== verification/Repo_Validation.thy ===== *)
theory Repo_Validation
  imports Capability_Names
begin

text \<open>
  Validation of the governance files of a repository (\<open>validation/\<close>): reading a YAML file, the checks
  of each file, and the checks across files. What the YAML and JSON libraries make of a text is given;
  a document is a JSON value. A file that cannot be read is given by the text of its exception.
\<close>

section \<open>Models\<close>

text \<open>\<open>_ISSUE_WARN_REASONS\<close>, and \<open>issue_is_warn_only\<close>.\<close>

definition warn_reasons :: "string list" where
  "warn_reasons =
     [''missing_optional_schema_version'', ''missing_optional_trust_metadata'', ''self_dependency_detected'',
      ''incompatible_major_version'', ''dependency_provider_missing'', ''native_governance_files_absent'',
      ''foreign_manifests_detected'']"

definition warn_only :: "bool \<Rightarrow> string \<Rightarrow> bool" where
  "warn_only strict reason = (if strict then False else reason \<in> set warn_reasons)"

datatype check_status = CheckPass | CheckWarn | CheckReject

fun check_value :: "check_status \<Rightarrow> string" where
  "check_value CheckPass = ''PASS''"
| "check_value CheckWarn = ''WARN''"
| "check_value CheckReject = ''REJECT''"

datatype contract_posture = NativeRepo | ForeignRepo | PartlyAligned

fun contract_posture_value :: "contract_posture \<Rightarrow> string" where
  "contract_posture_value NativeRepo = ''native''"
| "contract_posture_value ForeignRepo = ''foreign''"
| "contract_posture_value PartlyAligned = ''partially_aligned''"

datatype readiness = NativeReady | ReadyPartly | ReadyForeign | NotReady

fun readiness_value :: "readiness \<Rightarrow> string" where
  "readiness_value NativeReady = ''native_ready''"
| "readiness_value ReadyPartly = ''partially_aligned''"
| "readiness_value ReadyForeign = ''foreign''"
| "readiness_value NotReady = ''not_ready''"

record issue =
  vi_file :: string
  vi_field :: string
  vi_reason :: string
  vi_repair :: "string list"

definition mk_issue :: "string \<Rightarrow> string \<Rightarrow> string \<Rightarrow> string list \<Rightarrow> issue" where
  "mk_issue f fld reason repair = \<lparr>vi_file = f, vi_field = fld, vi_reason = reason, vi_repair = repair\<rparr>"

definition issue_dict :: "issue \<Rightarrow> dict" where
  "issue_dict i =
     [(''file'', JStr (vi_file i)), (''field'', JStr (vi_field i)), (''reason'', JStr (vi_reason i)),
      (''repair'', JList (map JStr (vi_repair i)))]"

record normalized_dependency =
  nd_capability :: string
  nd_provider :: string
  nd_digest :: string
  nd_normalized :: string

definition preview_dict :: "normalized_dependency list \<Rightarrow> dict" where
  "preview_dict deps =
     [(''dependencies'', JList (map (\<lambda>d. JObj
        [(''capability'', JStr (nd_capability d)), (''provider'', JStr (nd_provider d)),
         (''digest'', JStr (nd_digest d)), (''normalized_capability'', JStr (nd_normalized d))]) deps))]"

section \<open>Reading a file\<close>

datatype text_file = FileMissing | FileText string | FileFails string

record yaml_env =
  ye_installed :: bool
  ye_load :: "string \<Rightarrow> string + json"
  ye_json :: "string \<Rightarrow> string + json"

fun py_type_name :: "json \<Rightarrow> string" where
  "py_type_name JNull = ''NoneType''"
| "py_type_name (JBool b) = ''bool''"
| "py_type_name (JInt i) = ''int''"
| "py_type_name (JFloat r) = ''float''"
| "py_type_name (JStr s) = ''str''"
| "py_type_name (JList xs) = ''list''"
| "py_type_name (JObj d) = ''dict''"

definition load_json_safe :: "yaml_env \<Rightarrow> string \<Rightarrow> text_file \<Rightarrow> string + dict" where
  "load_json_safe ye name f =
     (case f of
        FileText content \<Rightarrow>
          (case ye_json ye content of
             Inr (JObj d) \<Rightarrow> Inr d
           | Inr v \<Rightarrow> Inl (''Expected a JSON object in '' @ name)
           | Inl e \<Rightarrow> Inl (''JSON parse error in '' @ name @ '': '' @ e))
      | FileFails e \<Rightarrow> Inl (''JSON parse error in '' @ name @ '': '' @ e)
      | FileMissing \<Rightarrow> Inl (''JSON parse error in '' @ name))"

definition load_yaml_safe :: "yaml_env \<Rightarrow> string \<Rightarrow> text_file \<Rightarrow> string + dict" where
  "load_yaml_safe ye name f =
     (case f of
        FileMissing \<Rightarrow> Inl (''File not found: '' @ name)
      | _ \<Rightarrow>
          if \<not> ye_installed ye then
            (if ends_with ''.json'' name then load_json_safe ye name f
             else Inl (''Cannot parse '' @ name @ '': pyyaml is not installed. Install with: pip install pyyaml''))
          else
            (case f of
               FileText content \<Rightarrow>
                 if py_strip content = [] then Inr []
                 else
                   (case ye_load ye content of
                      Inl e \<Rightarrow> Inl (''YAML parse error in '' @ name @ '': '' @ e)
                    | Inr JNull \<Rightarrow> Inr []
                    | Inr (JObj d) \<Rightarrow> Inr d
                    | Inr v \<Rightarrow>
                        Inl (''Expected a YAML mapping at top level of '' @ name @ '', got '' @ py_type_name v @
                             ''. Ensure the file is a key-value document.''))
             | FileFails e \<Rightarrow> Inl (''YAML parse error in '' @ name @ '': '' @ e)
             | FileMissing \<Rightarrow> Inl (''File not found: '' @ name)))"

definition parse_error_issue :: "string \<Rightarrow> string \<Rightarrow> issue" where
  "parse_error_issue name err =
     mk_issue name [] ''parse_error'' [''Fix the YAML syntax in '' @ name @ ''.'', err]"

section \<open>One file\<close>

definition indexed :: "string \<Rightarrow> nat \<Rightarrow> string" where
  "indexed f i = f @ ''['' @ str_nat i @ '']''"

definition name_field_issues :: "string \<Rightarrow> string \<Rightarrow> string \<Rightarrow> issue list" where
  "name_field_issues name fld cap =
     (let r = validate_capability_name cap
      in if nv_valid r then []
         else [mk_issue name fld ''invalid_capability_namespace''
                 ([quoted cap @ '' is not a valid capability namespace.'',
                   ''Expected: <domain>.<category>.<capability>.v<major>'',
                   ''Example:  payment.stripe.integration.v1''] @
                  (if nv_suggestion r \<noteq> [] then [''Did you mean: '' @ nv_suggestion r @ ''?''] else []))])"

definition repo_issues :: "string \<Rightarrow> dict \<Rightarrow> issue list \<times> string" where
  "repo_issues name d =
     (case dict_get d ''repo'' of
        None \<Rightarrow>
          ([mk_issue name ''repo'' ''missing_required_field''
              [''Add a '' @ quoted ''repo'' @ '' field to '' @ name @ '': repo: my-repo-name'']], [])
      | Some (JStr s) \<Rightarrow>
          if py_strip s = []
          then ([mk_issue name ''repo'' ''empty_or_invalid_repo_name''
                   [''The '' @ quoted ''repo'' @ '' field must be a non-empty string.'']], [])
          else ([], py_strip s)
      | Some v \<Rightarrow>
          ([mk_issue name ''repo'' ''empty_or_invalid_repo_name''
              [''The '' @ quoted ''repo'' @ '' field must be a non-empty string.'']], []))"

definition has_key :: "dict \<Rightarrow> string \<Rightarrow> bool" where
  "has_key d k = (dict_get d k \<noteq> None)"

definition validate_keyhole_yaml :: "string \<Rightarrow> string + dict \<Rightarrow> issue list \<times> string" where
  "validate_keyhole_yaml name doc =
     (case doc of
        Inl err \<Rightarrow> ([parse_error_issue name err], [])
      | Inr d \<Rightarrow>
          (let (issues, repo) = repo_issues name d
           in (issues @
               (if has_key d ''schema_version'' then []
                else [mk_issue name ''schema_version'' ''missing_optional_schema_version''
                        [''Add '' @ quoted ''schema_version: 1'' @ '' to '' @ name @ '' for future compatibility.'']]),
               repo)))"

definition required_field_issues :: "string \<Rightarrow> string list \<Rightarrow> dict \<Rightarrow> issue list" where
  "required_field_issues name keys d =
     map (\<lambda>k. mk_issue name k ''missing_required_field'' [''Add the '' @ quoted k @ '' field to '' @ name @ ''.''])
       (filter (\<lambda>k. \<not> has_key d k) keys)"

fun produces_item_issues :: "string \<Rightarrow> nat \<times> json \<Rightarrow> issue list" where
  "produces_item_issues name (i, JStr cap) = name_field_issues name (indexed ''produces'' i) cap"
| "produces_item_issues name (i, v) =
     [mk_issue name (indexed ''produces'' i) ''produces_item_must_be_string''
        [indexed ''produces'' i @ '' must be a string capability name.'']]"

definition produces_issues :: "string \<Rightarrow> dict \<Rightarrow> issue list" where
  "produces_issues name d =
     (case dict_get d ''produces'' of
        None \<Rightarrow> []
      | Some (JList vs) \<Rightarrow> concat (map (produces_item_issues name) (enumerate 0 vs))
      | Some v \<Rightarrow>
          [mk_issue name ''produces'' ''produces_must_be_list''
             [quoted ''produces'' @ '' must be a YAML list of capability names.'']])"

definition list_shape_issues :: "string \<Rightarrow> string \<Rightarrow> dict \<Rightarrow> issue list" where
  "list_shape_issues name k d =
     (case dict_get d k of
        None \<Rightarrow> []
      | Some (JList vs) \<Rightarrow> []
      | Some v \<Rightarrow> [mk_issue name k (k @ ''_must_be_list'') [quoted k @ '' must be a YAML list.'']])"

definition validate_governance_contract :: "string \<Rightarrow> string + dict \<Rightarrow> issue list" where
  "validate_governance_contract name doc =
     (case doc of
        Inl err \<Rightarrow> [parse_error_issue name err]
      | Inr d \<Rightarrow>
          required_field_issues name [''repo'', ''produces''] d @ produces_issues name d @
          list_shape_issues name ''local_invariants'' d @ list_shape_issues name ''required_tests'' d)"

fun delegated_item_issues :: "string \<Rightarrow> nat \<times> json \<Rightarrow> issue list" where
  "delegated_item_issues name (i, JStr cap) = []"
| "delegated_item_issues name (i, v) =
     [mk_issue name (indexed ''delegated_capabilities'' i) ''delegated_capability_must_be_string''
        [indexed ''delegated_capabilities'' i @ '' must be a string.'']]"

definition delegated_issues :: "string \<Rightarrow> dict \<Rightarrow> issue list" where
  "delegated_issues name d =
     (case dict_get d ''delegated_capabilities'' of
        None \<Rightarrow> []
      | Some (JList vs) \<Rightarrow> concat (map (delegated_item_issues name) (enumerate 0 vs))
      | Some v \<Rightarrow>
          [mk_issue name ''delegated_capabilities'' ''delegated_capabilities_must_be_list''
             [quoted ''delegated_capabilities'' @ '' must be a YAML list of strings.'']])"

definition passport_capability_issues :: "string \<Rightarrow> dict \<Rightarrow> issue list" where
  "passport_capability_issues name d =
     (case dict_get d ''capability'' of
        None \<Rightarrow> []
      | Some (JStr cap) \<Rightarrow> name_field_issues name ''capability'' cap
      | Some v \<Rightarrow>
          [mk_issue name ''capability'' ''capability_must_be_string''
             [quoted ''capability'' @ '' must be a canonical capability name string.'']])"

definition validate_capability_passport :: "string \<Rightarrow> string + dict \<Rightarrow> issue list" where
  "validate_capability_passport name doc =
     (case doc of
        Inl err \<Rightarrow> [parse_error_issue name err]
      | Inr d \<Rightarrow>
          required_field_issues name [''capability'', ''owner_repo''] d @ passport_capability_issues name d @
          delegated_issues name d)"

section \<open>Dependencies\<close>

fun mapping_entries :: "json list \<Rightarrow> dict list" where
  "mapping_entries [] = []"
| "mapping_entries (JObj d # vs) = d # mapping_entries vs"
| "mapping_entries (v # vs) = mapping_entries vs"

fun mapping_item_issues :: "string \<Rightarrow> nat \<times> json \<Rightarrow> issue list" where
  "mapping_item_issues name (i, JObj d) = []"
| "mapping_item_issues name (i, v) =
     [mk_issue name (indexed ''dependencies'' i) ''dependency_must_be_mapping''
        [indexed ''dependencies'' i @ '' must be a YAML mapping with at least a '' @ quoted ''capability'' @ '' key.'']]"

definition parse_dependencies_list :: "dict \<Rightarrow> string \<Rightarrow> dict list \<times> issue list" where
  "parse_dependencies_list d name =
     (case json_get d ''dependencies'' of
        JNull \<Rightarrow> ([], [])
      | JList vs \<Rightarrow> (mapping_entries vs, concat (map (mapping_item_issues name) (enumerate 0 vs)))
      | v \<Rightarrow>
          ([], [mk_issue name ''dependencies'' ''dependencies_must_be_list''
                  [''The '' @ quoted ''dependencies'' @ '' key in '' @ name @ '' must be a YAML list.'',
                   ''Example:'' @ [CHR 10] @ ''  dependencies:'' @ [CHR 10] @
                   ''    - capability: payment.stripe.integration.v1'' @ [CHR 10] @
                   ''      provider: stripe-adapter'']]))"

text \<open>\<open>str(v)\<close> of a string, or of a value that is not true.\<close>

fun plain_str :: "json \<Rightarrow> string" where
  "plain_str JNull = ''None''"
| "plain_str (JBool b) = (if b then ''True'' else ''False'')"
| "plain_str (JInt i) = str_int i"
| "plain_str (JFloat r) = ''0.0''"
| "plain_str (JStr s) = s"
| "plain_str (JList xs) = ''[]''"
| "plain_str (JObj d) = ''{}''"

definition is_str :: "json \<Rightarrow> bool" where
  "is_str v = (case v of JStr s \<Rightarrow> True | _ \<Rightarrow> False)"

definition provider_check :: "string \<Rightarrow> string \<Rightarrow> json \<Rightarrow> issue list \<times> json" where
  "provider_check name prefix v =
     (if json_truthy v \<and> \<not> is_str v
      then ([mk_issue name (prefix @ ''.provider'') ''provider_must_be_string''
               [prefix @ ''.provider must be a string.'']], JStr [])
      else ([], v))"

definition digest_prefixes :: "string list" where
  "digest_prefixes = [''sha256:'', ''sha512:'', ''sha384:'']"

definition digest_check :: "string \<Rightarrow> string \<Rightarrow> json \<Rightarrow> issue list \<times> json" where
  "digest_check name prefix v =
     (if \<not> json_truthy v then ([], v)
      else
        (case v of
           JStr s \<Rightarrow>
             if list_ex (\<lambda>p. starts_with p s) digest_prefixes then ([], v)
             else ([mk_issue name (prefix @ ''.digest'') ''unsupported_digest_format''
                      [prefix @ ''.digest must begin with sha256:, sha512:, or sha384:.'',
                       ''Got: '' @ quoted (take 40 s @ ''...'') @ '' '' @ mdash @ '' recompute or remove the digest.'']],
                   JStr [])
         | _ \<Rightarrow>
             ([mk_issue name (prefix @ ''.digest'') ''digest_must_be_string''
                 [prefix @ ''.digest must be a string prefixed with sha256:, sha512:, etc.'']], JStr [])))"

definition duplicate_issues :: "string \<Rightarrow> string \<Rightarrow> string \<Rightarrow> string list \<Rightarrow> issue list" where
  "duplicate_issues name prefix cap seen =
     (if cap \<in> set seen
      then [mk_issue name (prefix @ ''.capability'') ''duplicate_capability''
              [''Capability '' @ quoted cap @ '' is declared more than once in '' @ name @ ''.'',
               ''Remove the duplicate entry.'']]
      else [])"

definition dependency_preview :: "string \<Rightarrow> json \<Rightarrow> json \<Rightarrow> normalized_dependency" where
  "dependency_preview cap provider digest =
     (let r = validate_capability_name cap
      in \<lparr>nd_capability = cap, nd_provider = plain_str provider, nd_digest = plain_str digest,
          nd_normalized = (if nv_valid r then nv_normalized r else [])\<rparr>)"

definition named_dependency ::
  "string \<Rightarrow> string \<Rightarrow> string \<Rightarrow> string list \<Rightarrow> dict \<Rightarrow> issue list \<times> normalized_dependency" where
  "named_dependency name prefix cap seen dep =
     (let (pi, provider) = provider_check name prefix (dict_get_or dep ''provider'' (JStr []));
          (di, digest) = digest_check name prefix (dict_get_or dep ''digest'' (JStr []))
      in (name_field_issues name (prefix @ ''.capability'') cap @ duplicate_issues name prefix cap seen @ pi @ di,
          dependency_preview cap provider digest))"

fun check_dependencies ::
  "string \<Rightarrow> nat \<Rightarrow> string list \<Rightarrow> dict list \<Rightarrow> issue list \<times> normalized_dependency list" where
  "check_dependencies name i seen [] = ([], [])"
| "check_dependencies name i seen (dep # deps) =
     (let prefix = indexed ''dependencies'' i; v = dict_get_or dep ''capability'' (JStr [])
      in if \<not> json_truthy v then
           (let (is, ns) = check_dependencies name (i + 1) seen deps
            in (mk_issue name (prefix @ ''.capability'') ''missing_required_capability''
                  [''Add a '' @ quoted ''capability'' @ '' field to '' @ prefix @ ''.'',
                   ''Example: capability: payment.stripe.integration.v1''] # is, ns))
         else
           (case v of
              JStr cap \<Rightarrow>
                (let (new, n) = named_dependency name prefix cap seen dep;
                     (is, ns) = check_dependencies name (i + 1) (if cap \<in> set seen then seen else cap # seen) deps
                 in (new @ is, n # ns))
            | _ \<Rightarrow>
                (let (is, ns) = check_dependencies name (i + 1) seen deps
                 in (mk_issue name (prefix @ ''.capability'') ''capability_must_be_string''
                       [prefix @ ''.capability must be a string.''] # is, ns))))"

definition validate_dependencies :: "string \<Rightarrow> string + dict \<Rightarrow> issue list \<times> normalized_dependency list" where
  "validate_dependencies name doc =
     (case doc of
        Inl err \<Rightarrow> ([parse_error_issue name err], [])
      | Inr d \<Rightarrow>
          (let (deps, list_issues) = parse_dependencies_list d name;
               (issues, preview) = check_dependencies name 0 [] deps
           in (list_issues @ issues, preview)))"

section \<open>Across files\<close>

text \<open>\<open>^(.+)\.v(\d+)$\<close>: the name before the last \<open>.v\<close> and the number after it.\<close>

definition base_version_core :: "string \<Rightarrow> (string \<times> int) option" where
  "base_version_core s =
     (let tail = rev (takeWhile (\<lambda>c. c \<noteq> CHR ''.'') (rev s)); before = take (length s - length tail) s
      in case tail of
           v # ds \<Rightarrow>
             if v = CHR ''v'' \<and> ds \<noteq> [] \<and> list_all py_isdigit ds \<and> length before \<ge> 2 \<and>
                CHR 10 \<notin> set (butlast before)
             then map_option (\<lambda>n. (butlast before, n)) (digits_value False 0 ds) else None
         | [] \<Rightarrow> None)"

definition base_version :: "string \<Rightarrow> (string \<times> int) option" where
  "base_version s =
     (case base_version_core s of
        Some r \<Rightarrow> Some r
      | None \<Rightarrow> if s \<noteq> [] \<and> last s = CHR 10 then base_version_core (butlast s) else None)"

definition contract_file :: string where "contract_file = ''governance_contract.yaml''"
definition dependency_file :: string where "dependency_file = ''dependencies.yaml''"

fun compat_entry_issues :: "nat \<times> json \<Rightarrow> issue list" where
  "compat_entry_issues (i, JObj d) =
     (if has_key d ''capability'' then []
      else [mk_issue contract_file (indexed ''compatibility_contracts'' i @ ''.capability'')
              ''compatibility_contract_invalid''
              [''Add a '' @ quoted ''capability'' @ '' field to '' @ indexed ''compatibility_contracts'' i @ ''.'',
               ''Example: capability: payment.stripe.integration.v1'']])"
| "compat_entry_issues (i, v) =
     [mk_issue contract_file (indexed ''compatibility_contracts'' i) ''compatibility_contract_invalid''
        [indexed ''compatibility_contracts'' i @ '' must be a mapping.'',
         ''Each entry needs at least a '' @ quoted ''capability'' @ '' key.'']]"

definition compat_shape_issues :: "dict \<Rightarrow> issue list" where
  "compat_shape_issues gc =
     (case json_get gc ''compatibility_contracts'' of
        JNull \<Rightarrow> []
      | JList vs \<Rightarrow> concat (map compat_entry_issues (enumerate 0 vs))
      | v \<Rightarrow>
          [mk_issue contract_file ''compatibility_contracts'' ''compatibility_contract_invalid''
             [quoted ''compatibility_contracts'' @ '' must be a YAML list of mappings.'',
              ''Example:'' @ [CHR 10] @ ''  compatibility_contracts:'' @ [CHR 10] @
              ''    - capability: payment.stripe.integration.v1'' @ [CHR 10] @ ''      min_version: 1'']])"

text \<open>Names that are not strings are passed over; the others are looked at once.\<close>

fun self_dependencies :: "string list \<Rightarrow> string list \<Rightarrow> json list \<Rightarrow> issue list" where
  "self_dependencies produces seen [] = []"
| "self_dependencies produces seen (JStr cap # vs) =
     (if cap \<in> set produces \<and> cap \<notin> set seen then
        mk_issue dependency_file [] ''self_dependency_detected''
          [quoted cap @ '' appears in both '' @ quoted ''produces'' @ '' and dependencies.'',
           ''A repo should not declare itself as a dependency.'',
           ''Remove this capability from dependencies.yaml.''] # self_dependencies produces (cap # seen) vs
      else self_dependencies produces seen vs)"
| "self_dependencies produces seen (v # vs) = self_dependencies produces seen vs"

definition produced_bases :: "string list \<Rightarrow> (string \<times> int) list" where
  "produced_bases produces =
     fold (\<lambda>cap bases. case base_version cap of None \<Rightarrow> bases | Some (b, v) \<Rightarrow> dict_set b v bases) produces []"

definition conflict_issue :: "string \<Rightarrow> int \<Rightarrow> string \<Rightarrow> int \<Rightarrow> issue" where
  "conflict_issue base pv cap cv =
     mk_issue dependency_file [] ''incompatible_major_version''
       [''This repo produces '' @ quoted (base @ ''.v'' @ str_int pv) @ '' but consumes '' @ quoted cap @
          '' (v'' @ str_int cv @ '').'',
        ''If this cross-version dependency is intentional, add a '' @
          ''compatibility_contracts declaration in governance_contract.yaml.'',
        ''Otherwise align the version references across files.'']"

fun version_conflicts :: "(string \<times> int) list \<Rightarrow> string list \<Rightarrow> json list \<Rightarrow> issue list" where
  "version_conflicts bases seen [] = []"
| "version_conflicts bases seen (JStr cap # vs) =
     (case base_version cap of
        None \<Rightarrow> version_conflicts bases seen vs
      | Some (base, cv) \<Rightarrow>
          (case dict_get bases base of
             None \<Rightarrow> version_conflicts bases seen vs
           | Some pv \<Rightarrow>
               if pv \<noteq> cv \<and> base \<notin> set seen
               then conflict_issue base pv cap cv # version_conflicts bases (base # seen) vs
               else version_conflicts bases seen vs))"
| "version_conflicts bases seen (v # vs) = version_conflicts bases seen vs"

definition validate_compatibility :: "string list \<Rightarrow> json list \<Rightarrow> dict \<Rightarrow> issue list" where
  "validate_compatibility produces consumed gc =
     (if gc = [] then [] else compat_shape_issues gc) @ self_dependencies produces [] consumed @
     version_conflicts (produced_bases produces) [] consumed"

end
