(* ===== verification/Validation_Pipeline.thy ===== *)
theory Validation_Pipeline
  imports Repo_Validation Command_Result
begin

text \<open>
  The whole validation of a repository (\<open>validation/validator.py\<close>, \<open>detector.py\<close>), its proof files
  (\<open>proof.py\<close>), the guidance (\<open>repair.py\<close>) and \<open>keyhole validate\<close> (\<open>commands/validate_cmd.py\<close>).
\<close>

section \<open>Posture\<close>

definition native_signals :: "string list" where
  "native_signals = [''keyhole.yaml'', ''governance_contract.yaml'']"

definition partial_signals :: "string list" where
  "partial_signals = [''capability_passport.yaml'', ''dependencies.yaml'']"

definition foreign_manifest_names :: "string list" where
  "foreign_manifest_names =
     [''package.json'', ''requirements.txt'', ''pyproject.toml'', ''go.mod'', ''pom.xml'', ''Gemfile'',
      ''Cargo.toml'', ''build.gradle'', ''composer.json'']"

text \<open>A repository is its name, its path and what is at each file name of its root.\<close>

record checked_repo =
  cr_name :: string
  cr_path :: string
  cr_files :: "string \<Rightarrow> text_file"

definition file_exists :: "checked_repo \<Rightarrow> string \<Rightarrow> bool" where
  "file_exists repo n = (cr_files repo n \<noteq> FileMissing)"

definition detect_contract_posture :: "checked_repo \<Rightarrow> contract_posture" where
  "detect_contract_posture repo =
     (if list_ex (file_exists repo) native_signals then NativeRepo
      else if list_ex (file_exists repo) partial_signals then PartlyAligned
      else ForeignRepo)"

definition detect_foreign_manifests :: "checked_repo \<Rightarrow> string list" where
  "detect_foreign_manifests repo = filter (file_exists repo) foreign_manifest_names"

section \<open>Results\<close>

record validation =
  va_status :: check_status
  va_posture :: contract_posture
  va_readiness :: readiness
  va_repo :: string
  va_files :: "(string \<times> check_status) list"
  va_issues :: "issue list"
  va_preview :: "normalized_dependency list"
  va_mode :: string
  va_path :: string
  va_checks :: "(string \<times> check_status) list"
  va_proof_ref :: "string option"
  va_strict :: bool

definition statuses_dict :: "(string \<times> check_status) list \<Rightarrow> dict" where
  "statuses_dict xs = map (\<lambda>(k, s). (k, JStr (check_value s))) xs"

definition hard_issues :: "validation \<Rightarrow> issue list" where
  "hard_issues r =
     (if va_strict r then va_issues r else filter (\<lambda>i. \<not> warn_only False (vi_reason i)) (va_issues r))"

definition soft_issues :: "validation \<Rightarrow> issue list" where
  "soft_issues r = (if va_strict r then [] else filter (\<lambda>i. warn_only False (vi_reason i)) (va_issues r))"

definition validation_dict :: "validation \<Rightarrow> dict" where
  "validation_dict r =
     [(''status'', JStr (check_value (va_status r))), (''repo_posture'', JStr (contract_posture_value (va_posture r))),
      (''readiness'', JStr (readiness_value (va_readiness r))), (''repo'', JStr (va_repo r)),
      (''repo_path'', JStr (va_path r)), (''checks'', JObj (statuses_dict (va_checks r))),
      (''files'', JObj (statuses_dict (va_files r))),
      (''errors'', JList (map (JObj \<circ> issue_dict) (hard_issues r))),
      (''warnings'', JList (map (JObj \<circ> issue_dict) (soft_issues r))),
      (''issues'', JList (map (JObj \<circ> issue_dict) (va_issues r))),
      (''normalization_preview'', JObj (preview_dict (va_preview r))), (''mode'', JStr (va_mode r)),
      (''proof_ref'', opt_str_json (va_proof_ref r)), (''strict'', JBool (va_strict r))]"

definition issues_status :: "bool \<Rightarrow> issue list \<Rightarrow> check_status" where
  "issues_status strict is =
     (if is = [] then CheckPass
      else if list_ex (\<lambda>i. \<not> warn_only strict (vi_reason i)) is then CheckReject
      else CheckWarn)"

section \<open>A foreign repository\<close>

definition foreign_issues :: "checked_repo \<Rightarrow> issue list" where
  "foreign_issues repo =
     (let manifests = detect_foreign_manifests repo
      in mk_issue [] [] ''native_governance_files_absent''
           [''This repo has no Keyhole governance files.'',
            ''Run: keyhole ingest . '' @ mdash @ '' to begin alignment.'',
            ''Review alignment guidance before native registration.''] #
         (if manifests \<noteq> []
          then [mk_issue [] [] ''foreign_manifests_detected''
                  [''Detected dependency manifests: '' @ py_join '', '' manifests @ ''.'',
                   ''These can be used during ingestion to infer capabilities.'']] else []))"

definition foreign_result :: "checked_repo \<Rightarrow> string \<Rightarrow> validation" where
  "foreign_result repo mode =
     \<lparr>va_status = CheckWarn, va_posture = ForeignRepo, va_readiness = ReadyForeign, va_repo = cr_name repo,
      va_files = [], va_issues = foreign_issues repo, va_preview = [], va_mode = mode, va_path = cr_path repo,
      va_checks = [], va_proof_ref = None, va_strict = False\<rparr>"

section \<open>The pipeline\<close>

text \<open>The issues found so far, the status of each file and the name of the repository.\<close>

record pipeline =
  pl_issues :: "issue list"
  pl_files :: "(string \<times> check_status) list"
  pl_repo :: string

definition record_file_result :: "bool \<Rightarrow> string \<Rightarrow> issue list \<Rightarrow> pipeline \<Rightarrow> pipeline" where
  "record_file_result strict name is p =
     p\<lparr>pl_issues := pl_issues p @ is, pl_files := dict_set name (issues_status strict is) (pl_files p)\<rparr>"

definition missing_file_issue :: "string \<Rightarrow> issue" where
  "missing_file_issue name =
     mk_issue name [] ''missing_required_file''
       [quoted name @ '' is required for a native governed repo.'',
        ''Run: keyhole init vertical '' @ mdash @ '' to scaffold the governance files.'']"

definition require_file :: "bool \<Rightarrow> string \<Rightarrow> pipeline \<Rightarrow> pipeline" where
  "require_file required name p =
     (if required
      then p\<lparr>pl_issues := pl_issues p @ [missing_file_issue name],
             pl_files := dict_set name CheckReject (pl_files p)\<rparr>
      else p)"

definition repo_doc :: "yaml_env \<Rightarrow> checked_repo \<Rightarrow> string \<Rightarrow> string + dict" where
  "repo_doc ye repo n = load_yaml_safe ye n (cr_files repo n)"

definition keyhole_step :: "yaml_env \<Rightarrow> bool \<Rightarrow> checked_repo \<Rightarrow> contract_posture \<Rightarrow> pipeline \<Rightarrow> pipeline" where
  "keyhole_step ye strict repo posture p =
     (if file_exists repo ''keyhole.yaml'' then
        (let (is, name) = validate_keyhole_yaml ''keyhole.yaml'' (repo_doc ye repo ''keyhole.yaml'')
         in record_file_result strict ''keyhole.yaml'' is (if name \<noteq> [] then p\<lparr>pl_repo := name\<rparr> else p))
      else require_file (posture = NativeRepo) ''keyhole.yaml'' p)"

definition contract_step :: "yaml_env \<Rightarrow> bool \<Rightarrow> checked_repo \<Rightarrow> contract_posture \<Rightarrow> pipeline \<Rightarrow> pipeline" where
  "contract_step ye strict repo posture p =
     (if file_exists repo contract_file
      then record_file_result strict contract_file
             (validate_governance_contract contract_file (repo_doc ye repo contract_file)) p
      else require_file (posture = NativeRepo) contract_file p)"

definition passport_step :: "yaml_env \<Rightarrow> bool \<Rightarrow> checked_repo \<Rightarrow> pipeline \<Rightarrow> pipeline" where
  "passport_step ye strict repo p =
     (if file_exists repo ''capability_passport.yaml''
      then record_file_result strict ''capability_passport.yaml''
             (validate_capability_passport ''capability_passport.yaml''
               (repo_doc ye repo ''capability_passport.yaml'')) p
      else p)"

definition dependency_step ::
  "yaml_env \<Rightarrow> bool \<Rightarrow> checked_repo \<Rightarrow> pipeline \<Rightarrow> pipeline \<times> normalized_dependency list" where
  "dependency_step ye strict repo p =
     (if file_exists repo dependency_file then
        (let (is, preview) = validate_dependencies dependency_file (repo_doc ye repo dependency_file)
         in (record_file_result strict dependency_file is p, preview))
      else (p, []))"

text \<open>
  The checks below read the raw documents again; a value of another type raises, which is \<open>Inl\<close> the
  exception.
\<close>

definition raw_doc :: "yaml_env \<Rightarrow> checked_repo \<Rightarrow> string \<Rightarrow> dict" where
  "raw_doc ye repo n = (case repo_doc ye repo n of Inl e \<Rightarrow> [] | Inr d \<Rightarrow> d)"

definition iterated :: "json \<Rightarrow> string + json list" where
  "iterated v = (case iterate_json v of None \<Rightarrow> Inl ''TypeError'' | Some vs \<Rightarrow> Inr vs)"

definition provider_missing_issue :: "nat \<Rightarrow> issue" where
  "provider_missing_issue i =
     mk_issue dependency_file (indexed ''dependencies'' i @ ''.provider'') ''dependency_provider_missing''
       [''Add '' @ quoted ''provider'' @ '' to '' @ indexed ''dependencies'' i @ '' in dependencies.yaml.'',
        ''Example: provider: my-service-adapter'',
        ''Provider is recommended for full dependency resolution (required in strict mode).'']"

fun provider_missing :: "nat \<times> json \<Rightarrow> string + issue list" where
  "provider_missing (i, JObj d) =
     (if json_truthy (json_get d ''capability'') then
        (case json_or (json_get d ''provider'') (JStr []) of
           JStr s \<Rightarrow> Inr (if py_strip s = [] then [provider_missing_issue i] else [])
         | _ \<Rightarrow> Inl ''AttributeError'')
      else Inr [])"
| "provider_missing (i, v) = Inr []"

fun collect_issues :: "(string + issue list) list \<Rightarrow> string + issue list" where
  "collect_issues [] = Inr []"
| "collect_issues (Inl e # rs) = Inl e"
| "collect_issues (Inr is # rs) = map_sum id (\<lambda>more. is @ more) (collect_issues rs)"

definition strict_provider_issues :: "yaml_env \<Rightarrow> bool \<Rightarrow> checked_repo \<Rightarrow> string + issue list" where
  "strict_provider_issues ye strict repo =
     (if strict \<and> file_exists repo dependency_file \<and> raw_doc ye repo dependency_file \<noteq> [] then
        (case iterated (json_or (dict_get_or (raw_doc ye repo dependency_file) ''dependencies'' (JList [])) (JList [])) of
           Inl e \<Rightarrow> Inl e
         | Inr vs \<Rightarrow> collect_issues (map provider_missing (enumerate 0 vs)))
      else Inr [])"

definition existing_doc :: "yaml_env \<Rightarrow> checked_repo \<Rightarrow> string \<Rightarrow> dict" where
  "existing_doc ye repo n = (if file_exists repo n then raw_doc ye repo n else [])"

definition produced_names :: "dict \<Rightarrow> string + string list" where
  "produced_names gc =
     (case iterated (json_or (dict_get_or gc ''produces'' (JList [])) (JList [])) of
        Inl e \<Rightarrow> Inl e
      | Inr vs \<Rightarrow> Inr (only_strings vs))"

fun consumed_names :: "json list \<Rightarrow> json list" where
  "consumed_names [] = []"
| "consumed_names (JObj d # vs) =
     (if json_truthy (json_get d ''capability'') then json_get d ''capability'' # consumed_names vs
      else consumed_names vs)"
| "consumed_names (v # vs) = consumed_names vs"

definition consumed_values :: "dict \<Rightarrow> string + json list" where
  "consumed_values deps =
     (case iterated (json_or (dict_get_or deps ''dependencies'' (JList [])) (JList [])) of
        Inl e \<Rightarrow> Inl e
      | Inr vs \<Rightarrow> Inr (consumed_names vs))"

definition compatibility_issues :: "yaml_env \<Rightarrow> checked_repo \<Rightarrow> string + issue list" where
  "compatibility_issues ye repo =
     (let gc = existing_doc ye repo contract_file; deps = existing_doc ye repo dependency_file
      in case produced_names gc of
           Inl e \<Rightarrow> Inl e
         | Inr produces \<Rightarrow>
             (case consumed_values deps of
                Inl e \<Rightarrow> Inl e
              | Inr consumed \<Rightarrow> Inr (validate_compatibility produces consumed gc)))"

definition note_compat_files ::
  "bool \<Rightarrow> issue list \<Rightarrow> (string \<times> check_status) list \<Rightarrow> (string \<times> check_status) list" where
  "note_compat_files strict is files =
     fold (\<lambda>i fs. if vi_file i \<noteq> [] \<and> dict_get fs (vi_file i) = None
                  then dict_set (vi_file i) (issues_status strict is) fs else fs) is files"

definition overall_status :: "bool \<Rightarrow> (string \<times> check_status) list \<Rightarrow> issue list \<Rightarrow> check_status" where
  "overall_status strict files is =
     (if CheckReject \<in> set (map snd files) \<or> list_ex (\<lambda>i. \<not> warn_only strict (vi_reason i)) is then CheckReject
      else if CheckWarn \<in> set (map snd files) \<or> list_ex (\<lambda>i. warn_only strict (vi_reason i)) is then CheckWarn
      else CheckPass)"

definition readiness_of :: "contract_posture \<Rightarrow> check_status \<Rightarrow> readiness" where
  "readiness_of posture status =
     (if posture = PartlyAligned then ReadyPartly
      else if status = CheckPass then NativeReady
      else NotReady)"

definition schema_files :: "string list" where
  "schema_files = [''keyhole.yaml'', ''governance_contract.yaml'', ''capability_passport.yaml'']"

definition compat_reasons :: "string list" where
  "compat_reasons =
     [''compatibility_contract_invalid'', ''self_dependency_detected'', ''incompatible_major_version'',
      ''strict_mode_warning_escalated'', ''dependency_provider_missing'']"

definition namespace_reason :: string where
  "namespace_reason = ''invalid_capability_namespace''"

definition other_domain :: "issue \<Rightarrow> bool" where
  "other_domain i = (vi_reason i = namespace_reason \<or> vi_reason i \<in> set compat_reasons)"

definition domain_checks :: "bool \<Rightarrow> issue list \<Rightarrow> (string \<times> check_status) list" where
  "domain_checks strict is =
     [(''schema'', issues_status strict (filter (\<lambda>i. (vi_file i \<in> set schema_files \<or>
          vi_reason i = ''missing_required_file'') \<and> \<not> other_domain i) is)),
      (''dependencies'', issues_status strict (filter (\<lambda>i. vi_file i = dependency_file \<and> \<not> other_domain i) is)),
      (''namespace'', issues_status strict (filter (\<lambda>i. vi_reason i = namespace_reason) is)),
      (''compatibility'', issues_status strict (filter (\<lambda>i. vi_reason i \<in> set compat_reasons) is))]"

definition chosen_posture :: "checked_repo \<Rightarrow> string \<Rightarrow> contract_posture" where
  "chosen_posture repo mode =
     (if mode = ''native'' then NativeRepo
      else if mode = ''advisory'' then ForeignRepo
      else detect_contract_posture repo)"

definition file_checks ::
  "yaml_env \<Rightarrow> bool \<Rightarrow> checked_repo \<Rightarrow> contract_posture \<Rightarrow> pipeline \<times> normalized_dependency list" where
  "file_checks ye strict repo posture =
     dependency_step ye strict repo
       (passport_step ye strict repo
         (contract_step ye strict repo posture
           (keyhole_step ye strict repo posture \<lparr>pl_issues = [], pl_files = [], pl_repo = cr_name repo\<rparr>)))"

definition aligned_result ::
  "bool \<Rightarrow> checked_repo \<Rightarrow> string \<Rightarrow> contract_posture \<Rightarrow> pipeline \<Rightarrow> normalized_dependency list \<Rightarrow> issue list \<Rightarrow> issue list \<Rightarrow>
   validation" where
  "aligned_result strict repo mode posture p preview extra compis =
     (let is = pl_issues p @ extra @ compis; files = note_compat_files strict compis (pl_files p);
          status = overall_status strict files is
      in \<lparr>va_status = status, va_posture = posture, va_readiness = readiness_of posture status,
          va_repo = pl_repo p, va_files = files, va_issues = is, va_preview = preview, va_mode = mode,
          va_path = cr_path repo, va_checks = domain_checks strict is, va_proof_ref = None, va_strict = strict\<rparr>)"

definition run_validation :: "yaml_env \<Rightarrow> checked_repo \<Rightarrow> string \<Rightarrow> bool \<Rightarrow> string + validation" where
  "run_validation ye repo mode strict =
     (let posture = chosen_posture repo mode
      in if posture = ForeignRepo then Inr (foreign_result repo mode)
         else
           (let (p, preview) = file_checks ye strict repo posture
            in case strict_provider_issues ye strict repo of
                 Inl e \<Rightarrow> Inl e
               | Inr extra \<Rightarrow>
                   (case compatibility_issues ye repo of
                      Inl e \<Rightarrow> Inl e
                    | Inr compis \<Rightarrow> Inr (aligned_result strict repo mode posture p preview extra compis))))"

end
