(* ===== verification/Validation_Command.thy ===== *)
theory Validation_Command
  imports Validation_Pipeline "HOL-Library.Char_ord" "HOL-Library.List_Lexorder"
begin

text \<open>
  The guidance (\<open>validation/repair.py\<close>) and proof files (\<open>validation/proof.py\<close>) of a validation, and
  \<open>keyhole validate\<close> (\<open>commands/validate_cmd.py\<close>).
\<close>

section \<open>Guidance\<close>

definition example_block :: "string list \<Rightarrow> string" where
  "example_block ls = py_join [CHR 10] (''Example:'' # ls)"

text \<open>A key that is written twice in the source has its last value.\<close>

definition validation_repairs :: "(string \<times> string list) list" where
  "validation_repairs =
     [(''InvalidRepoPath'',
        [''Ensure the path exists and is a directory.'',
         ''Run: keyhole validate <path-to-repo> '' @ mdash @ '' with a valid directory path.'']),
      (''parse_error'',
        [''Fix the YAML syntax in the flagged file.'',
         ''Validate YAML at https://yaml-online-parser.appspot.com/ or use: python -c '' @
           quoted (''import yaml; yaml.safe_load(open('' @ [CHR 34] @ ''file.yaml'' @ [CHR 34] @ ''))'')]),
      (''missing_required_file'',
        [''Run: keyhole init vertical '' @ mdash @ '' to scaffold the governance file structure.'',
         ''Or create the file manually following the SDK documentation.'']),
      (''missing_required_field'',
        [''Add the flagged missing field to the governance file.'',
         ''Consult: keyhole validate --json for exact field paths.'']),
      (''empty_or_invalid_repo_name'',
        [''Set a non-empty string value for the '' @ quoted ''repo'' @ '' field.'',
         ''Example: repo: my-service-name'']),
      (''missing_optional_schema_version'',
        [''Add '' @ quoted ''schema_version: 1'' @ '' to keyhole.yaml for future compatibility.'',
         ''This is optional but recommended.'']),
      (''produces_must_be_list'',
        [''Ensure '' @ quoted ''produces'' @ '' is a YAML list.'',
         example_block [''  produces:'', ''    - payment.stripe.integration.v1'']]),
      (''produces_item_must_be_string'',
        [''Each item in '' @ quoted ''produces'' @ '' must be a capability name string.'']),
      (''local_invariants_must_be_list'',
        [''Ensure '' @ quoted ''local_invariants'' @ '' is a YAML list of invariant IDs.'']),
      (''required_tests_must_be_list'',
        [''Ensure '' @ quoted ''required_tests'' @ '' is a YAML list of test names or IDs.'']),
      (''capability_must_be_string'',
        [''The '' @ quoted ''capability'' @ '' field must be a string capability name.'']),
      (''delegated_capabilities_must_be_list'',
        [''Ensure '' @ quoted ''delegated_capabilities'' @ '' is a YAML list of capability names.'']),
      (''dependencies_must_be_list'',
        [''Ensure '' @ quoted ''dependencies'' @ '' is a YAML list.'',
         example_block [''  dependencies:'', ''    - capability: crm.salesforce.sync.v1'',
           ''      provider: salesforce-adapter'']]),
      (''dependency_must_be_mapping'',
        [''Each item in '' @ quoted ''dependencies'' @ '' must be a YAML mapping.'']),
      (''missing_required_capability'',
        [''Add a '' @ quoted ''capability'' @ '' field to the dependency entry.'',
         ''Example: capability: payment.stripe.integration.v1'']),
      (''provider_must_be_string'', [''The '' @ quoted ''provider'' @ '' field must be a string.'']),
      (''digest_must_be_string'',
        [''The '' @ quoted ''digest'' @ '' field must be a string prefixed with sha256:, sha512:, or sha384:.'']),
      (''unsupported_digest_format'',
        [''Recompute or remove the digest.'', ''Supported prefixes: sha256:, sha512:, sha384:.'']),
      (''duplicate_capability'',
        [''Remove the duplicate capability entry from dependencies.yaml.'',
         ''Each capability should appear at most once in the dependency list.'']),
      (''invalid_capability_namespace'',
        [''Fix the capability name to match: <domain>.<category>.<capability>.v<major>'',
         ''Example: payment.stripe.integration.v1'',
         ''Run: keyhole capability validate <name> '' @ mdash @ '' for detailed diagnostics.'']),
      (''native_governance_files_absent'',
        [''Run: keyhole ingest . '' @ mdash @ '' to begin the alignment process.'',
         ''Review alignment guidance before native registration.'']),
      (''foreign_manifests_detected'',
        [''Detected dependency manifests can be used during ingestion.'',
         ''Run: keyhole ingest . '' @ mdash @ '' to generate an analysis from these files.'']),
      (''compatibility_contract_invalid'',
        [''Fix the '' @ quoted ''compatibility_contracts'' @ '' field in governance_contract.yaml.'',
         ''It must be a list of mappings, each with at least a '' @ quoted ''capability'' @ '' key.'',
         example_block [''  compatibility_contracts:'', ''    - capability: payment.stripe.integration.v1'']]),
      (''self_dependency_detected'',
        [''Remove the self-referential entry from dependencies.yaml.'',
         ''A repo should not list its own produced capabilities as dependencies.'']),
      (''incompatible_major_version'',
        [''Align the major version references across produces and dependencies.'',
         ''Or add a '' @ quoted ''compatibility_contracts'' @ '' declaration in governance_contract.yaml'',
         ''to explicitly declare this cross-version relationship.'']),
      (''dependency_provider_missing'',
        [''Add a '' @ quoted ''provider'' @ '' field to the dependency entry in dependencies.yaml.'',
         ''Example: provider: my-service-adapter'',
         ''Provider is required in strict mode and strongly recommended in all modes.'']),
      (''strict_mode_warning_escalated'',
        [''This issue was escalated to a failure by --strict mode.'',
         ''Resolve the underlying issue or run without --strict for advisory output.'']),
      (''repo_not_native_ready'',
        [''The repo is not yet in native governed shape.'',
         ''Run: keyhole validate --mode native for a full diagnostic.'',
         ''Run: keyhole init vertical '' @ mdash @ '' to scaffold missing governance files.'']),
      (''unknown'',
        [''Run: keyhole validate --json '' @ mdash @ '' for structured diagnostics.'',
         ''Review the validation output for more details.''])]"

definition map_validation_repair :: "string \<Rightarrow> string list" where
  "map_validation_repair error_class =
     (case dict_get validation_repairs error_class of
        Some (g # gs) \<Rightarrow> g # gs
      | _ \<Rightarrow> the (dict_get validation_repairs ''unknown''))"

section \<open>Proof files\<close>

definition angle_mark :: string where
  "angle_mark = [CHR 0xE2, CHR 0x80, CHR 0xBA]"

definition issue_lines :: "issue \<Rightarrow> string list" where
  "issue_lines i =
     [''### '' @ ticked (vi_file i) @
        (if vi_field i \<noteq> [] then '' '' @ angle_mark @ '' '' @ ticked (vi_field i) else []), [],
      ''**Reason:** '' @ vi_reason i] @
     (if vi_repair i \<noteq> [] then [[], ''**Repair:**''] @ map (\<lambda>s. ''- '' @ s) (vi_repair i) else []) @ [[]]"

definition status_rows :: "(string \<times> check_status) list \<Rightarrow> string list" where
  "status_rows files =
     (if files = [] then []
      else [''## File Results'', [], ''| File | Status |'', ''|:-----|:-------|''] @
           map (\<lambda>(n, s). ''| '' @ ticked n @ '' | '' @ check_value s @ '' |'') (sort_key fst files) @ [[]])"

text \<open>
  The lines of the summary before the table of the preview. A row of that table calls \<open>get\<close> on a
  model, which has no such attribute, so a preview that is not empty raises.
\<close>

definition validation_summary_lines :: "validation \<Rightarrow> string \<Rightarrow> string list" where
  "validation_summary_lines r now =
     [''# Keyhole Validation Summary'', [], ''| Field        | Value                    |'',
      ''|:-------------|:-------------------------|'',
      ''| Repo         | '' @ ticked (str_or (va_repo r) mdash) @ ''   |'',
      ''| Status       | **'' @ check_value (va_status r) @ ''**|'',
      ''| Posture      | '' @ contract_posture_value (va_posture r) @ '' |'',
      ''| Readiness    | '' @ readiness_value (va_readiness r) @ '' |'',
      ''| Mode         | '' @ va_mode r @ ''            |'',
      ''| Emitted at   | '' @ now @ ''             |'', []] @
     status_rows (va_files r) @
     (if va_issues r \<noteq> [] then [''## Issues'', []] @ concat (map issue_lines (va_issues r))
      else (case va_status r of
              CheckPass \<Rightarrow> [''_No issues found._'']
            | CheckWarn \<Rightarrow> [''_Advisory warnings only '' @ mdash @ '' no blocking issues._'']
            | CheckReject \<Rightarrow> []) @ [[]])"

definition build_validation_summary :: "validation \<Rightarrow> string \<Rightarrow> string + string" where
  "build_validation_summary r now =
     (if va_preview r \<noteq> [] then Inl ''AttributeError''
      else Inr (py_join [CHR 10] (validation_summary_lines r now)))"

text \<open>The files written, and the exception that ends the writing, if any.\<close>

definition emit_validation_proof :: "string \<Rightarrow> validation \<Rightarrow> string \<Rightarrow> proof_writes \<times> string option" where
  "emit_validation_proof now r session_ref =
     (let dir = [''validation'', safe_ref_name (str_or session_ref (str_or (va_repo r) ''unknown''))];
          first = [(dir @ [''validation_result.json''], ProofJson (validation_dict r @ [(''emitted_at'', JStr now)])),
                   (dir @ [''normalization_preview.json''], ProofJson (preview_dict (va_preview r)))]
      in case build_validation_summary r now of
           Inl e \<Rightarrow> (first, Some e)
         | Inr text \<Rightarrow> (first @ [(dir @ [''validation_summary.md''], ProofText text)], None))"

section \<open>The command\<close>

definition exit_contract_failure :: int where "exit_contract_failure = 5"

record validate_env =
  vd_yaml :: yaml_env
  vd_repo :: checked_repo
  vd_is_dir :: bool
  vd_now :: string
  vd_state_env :: string
  vd_default_state :: string
  vd_state_error :: bool

record validate_args =
  vg_mode :: string
  vg_state_dir :: string
  vg_home :: string
  vg_strict :: bool
  vg_proof :: bool
  vg_quiet :: bool

definition validation_state_dir :: "validate_env \<Rightarrow> validate_args \<Rightarrow> string" where
  "validation_state_dir g a =
     (let found = (if vg_state_dir a \<noteq> [] then vg_state_dir a
                   else if vg_home a \<noteq> [] then vg_home a @ ''/state''
                   else py_strip (vd_state_env g))
      in if found = [] \<and> vg_proof a then vd_default_state g else found)"

definition checks_text :: "(string \<times> check_status) list \<Rightarrow> string" where
  "checks_text cs = py_join '' '' (map (\<lambda>(k, s). k @ '':'' @ check_value s) cs)"

definition human_summary :: "validation \<Rightarrow> string" where
  "human_summary r =
     py_join ''  ''
       ([''['' @ check_value (va_status r) @ '']'', ''posture='' @ contract_posture_value (va_posture r),
         ''readiness='' @ readiness_value (va_readiness r)] @
        (if va_repo r \<noteq> [] then [''repo='' @ va_repo r] else []) @
        (if va_checks r \<noteq> [] then [''checks=('' @ checks_text (va_checks r) @ '')''] else []) @
        (if va_issues r \<noteq> [] then [''issues='' @ str_nat (length (va_issues r))] else []) @
        (if va_strict r then [''strict=on''] else []))"

definition validation_next_steps :: "validation \<Rightarrow> string list" where
  "validation_next_steps r =
     (let steps = keep_first (concat (map vi_repair (va_issues r)))
      in if steps = [] \<and> va_status r = CheckReject then map_validation_repair ''missing_required_file'' else steps)"

definition validate_result :: "validate_args \<Rightarrow> validation \<Rightarrow> cli_result" where
  "validate_result a r =
     (let ok = (va_status r \<noteq> CheckReject)
      in command_result_of ''keyhole validate'' ok (if ok then exit_success else exit_contract_failure)
           (validation_dict r) (if vg_quiet a \<and> ok then [] else validation_next_steps r)
           (if vg_quiet a \<and> ok then [] else human_summary r))"

text \<open>An exception of the proof is dropped; what was written before it stays.\<close>

definition prove_validation ::
  "validate_env \<Rightarrow> validate_args \<Rightarrow> validation \<Rightarrow> proof_writes \<Rightarrow> validation \<times> proof_writes" where
  "prove_validation g a r state =
     (if validation_state_dir g a = [] \<or> vd_state_error g then (r, state)
      else
        (case emit_validation_proof (vd_now g) r (cr_name (vd_repo g)) of
           (writes, Some e) \<Rightarrow> (r, state @ writes)
         | (writes, None) \<Rightarrow>
             (r\<lparr>va_proof_ref := Some (py_join ''/'' [validation_state_dir g a, ''validation'',
                 safe_ref_name (str_or (cr_name (vd_repo g)) (str_or (va_repo r) ''unknown''))])\<rparr>, state @ writes)))"

definition run_validate :: "validate_env \<Rightarrow> validate_args \<Rightarrow> proof_writes \<Rightarrow> (string + cli_result) \<times> proof_writes" where
  "run_validate g a state =
     (if \<not> vd_is_dir g
      then (Inr (command_result_of ''keyhole validate'' False exit_invalid_input
              [(''error_class'', JStr ''InvalidRepoPath'')] (map_validation_repair ''InvalidRepoPath'')
              (''Not a directory: '' @ cr_path (vd_repo g))), state)
      else
        (case run_validation (vd_yaml g) (vd_repo g) (vg_mode a) (vg_strict a) of
           Inl e \<Rightarrow> (Inl e, state)
         | Inr r \<Rightarrow>
             (let (r', state') = prove_validation g a r state in (Inr (validate_result a r'), state'))))"

end
