(* ===== verification/Validation_Properties.thy ===== *)
theory Validation_Properties
  imports Validation_Command
begin

text \<open>
  What a validation decides: its status is that of its issues and the worst of its four checks, strict
  mode only adds to it, and a repository that passes is well formed.
\<close>

section \<open>Statuses as severities\<close>

fun check_severity :: "check_status \<Rightarrow> nat" where
  "check_severity CheckPass = 0"
| "check_severity CheckWarn = 1"
| "check_severity CheckReject = 2"

lemma check_severity_inj: "check_severity a = check_severity b \<longleftrightarrow> a = b"
  by (cases a; cases b) simp_all

lemma issues_status_simps [simp]:
  "issues_status strict [] = CheckPass"
  "issues_status strict is = CheckPass \<longleftrightarrow> is = []"
  "issues_status strict is = CheckReject \<longleftrightarrow> (\<exists>i\<in>set is. \<not> warn_only strict (vi_reason i))"
  by (auto simp: issues_status_def list_ex_iff)

lemma issues_status_bounds:
  "check_severity (issues_status strict is) \<le> n \<longleftrightarrow>
     (is = [] \<or> 1 \<le> n) \<and> ((\<exists>i\<in>set is. \<not> warn_only strict (vi_reason i)) \<longrightarrow> 2 \<le> n)"
  by (auto simp: issues_status_def list_ex_iff)

lemma severity_mono:
  assumes "set is \<subseteq> set js" "\<And>r. warn_only t r \<Longrightarrow> warn_only s r"
  shows "check_severity (issues_status s is) \<le> check_severity (issues_status t js)"
proof -
  have "js = [] \<Longrightarrow> is = []" using assms(1) by simp
  moreover have "\<exists>i\<in>set js. \<not> warn_only t (vi_reason i)" if "i \<in> set is" "\<not> warn_only s (vi_reason i)" for i
    using that assms by blast
  ultimately show ?thesis by (auto simp: issues_status_def list_ex_iff)
qed

section \<open>Issues name their file\<close>

definition issues_in :: "string \<Rightarrow> issue list \<Rightarrow> bool" where
  "issues_in name is = (\<forall>i\<in>set is. vi_file i = name)"

lemma issues_in_simps [simp]:
  "issues_in name []" "issues_in name (i # is) \<longleftrightarrow> vi_file i = name \<and> issues_in name is"
  "issues_in name (is @ js) \<longleftrightarrow> issues_in name is \<and> issues_in name js"
  "issues_in name (concat iss) \<longleftrightarrow> (\<forall>is\<in>set iss. issues_in name is)"
  by (auto simp: issues_in_def)

lemma mk_issue_file [simp]: "vi_file (mk_issue f fld r rep) = f" "vi_reason (mk_issue f fld r rep) = r"
  by (simp_all add: mk_issue_def)

lemma name_field_in [simp]: "issues_in name (name_field_issues name fld cap)"
  by (simp add: name_field_issues_def Let_def)

lemma item_issues_in [simp]:
  "issues_in name (produces_item_issues name x)" "issues_in name (delegated_item_issues name x)"
  "issues_in name (mapping_item_issues name x)" "issues_in contract_file (compat_entry_issues x)"
  by (cases x; cases "snd x"; simp)+

lemma validators_in:
  "issues_in name (fst (validate_keyhole_yaml name doc))"
  "issues_in name (validate_governance_contract name doc)"
  "issues_in name (validate_capability_passport name doc)"
proof -
  have "issues_in name (fst (repo_issues name d))" for d
    by (simp add: repo_issues_def split: option.split json.split)
  then show "issues_in name (fst (validate_keyhole_yaml name doc))"
    by (auto simp: validate_keyhole_yaml_def parse_error_issue_def Let_def split: sum.split prod.split)
      (metis fst_conv)+
  have "issues_in name (required_field_issues name ks d)" "issues_in name (produces_issues name d)"
    "issues_in name (list_shape_issues name k d)" "issues_in name (delegated_issues name d)"
    "issues_in name (passport_capability_issues name d)" for ks d k
    by (auto simp: required_field_issues_def produces_issues_def list_shape_issues_def delegated_issues_def
        passport_capability_issues_def issues_in_def [of name "map f xs" for f xs] split: option.split json.split)
  then show "issues_in name (validate_governance_contract name doc)"
    "issues_in name (validate_capability_passport name doc)"
    by (simp_all add: validate_governance_contract_def validate_capability_passport_def parse_error_issue_def
        split: sum.split)
qed

lemma named_dependency_in: "issues_in name (fst (named_dependency name prefix cap seen dep))"
  by (auto simp: named_dependency_def provider_check_def digest_check_def duplicate_issues_def Let_def
      split: json.split)

lemma check_dependencies_in: "issues_in name (fst (check_dependencies name i seen deps))"
  using named_dependency_in
  by (induction name i seen deps rule: check_dependencies.induct)
    (auto simp: Let_def split: prod.splits json.splits; metis fst_conv)+

lemma validate_dependencies_in: "issues_in name (fst (validate_dependencies name doc))"
proof -
  have "issues_in name (snd (parse_dependencies_list d name))" for d
    by (simp add: parse_dependencies_list_def split: json.split)
  then show ?thesis
    using check_dependencies_in
    by (auto simp: validate_dependencies_def parse_error_issue_def Let_def split: sum.split prod.split)
      (metis fst_conv snd_conv)+
qed

lemma compatibility_in:
  "i \<in> set (validate_compatibility produces consumed gc) \<Longrightarrow> vi_file i \<in> {contract_file, dependency_file}"
proof -
  have self: "issues_in dependency_file (self_dependencies ps seen vs)" for ps seen vs
    by (induction ps seen vs rule: self_dependencies.induct) auto
  have conflicts: "issues_in dependency_file (version_conflicts bs seen vs)" for bs seen vs
    by (induction bs seen vs rule: version_conflicts.induct)
      (auto simp: conflict_issue_def split: option.splits)
  have "issues_in contract_file (compat_shape_issues gc)"
    by (simp add: compat_shape_issues_def split: json.split)
  then show "i \<in> set (validate_compatibility produces consumed gc) \<Longrightarrow> vi_file i \<in> {contract_file, dependency_file}"
    using self conflicts by (auto simp: validate_compatibility_def issues_in_def split: if_splits)
qed

lemma provider_missing_in:
  "collect_issues (map provider_missing xs) = Inr is \<Longrightarrow>
     \<forall>i\<in>set is. vi_file i = dependency_file \<and> vi_reason i = ''dependency_provider_missing''"
proof (induction xs arbitrary: "is")
  case (Cons x xs)
  obtain n v where x: "x = (n, v)" by fastforce
  show ?case
  proof (cases "provider_missing x")
    case (Inr js)
    then obtain more where more: "collect_issues (map provider_missing xs) = Inr more" "is = js @ more"
      using Cons.prems by (cases "collect_issues (map provider_missing xs)") auto
    have "\<forall>i\<in>set js. vi_file i = dependency_file \<and> vi_reason i = ''dependency_provider_missing''"
      using Inr unfolding x
      by (cases v) (auto simp: provider_missing_issue_def split: if_splits json.splits)
    then show ?thesis using more Cons.IH by auto
  qed (use Cons.prems in simp)
qed simp

section \<open>The pipeline\<close>

definition checked_files :: "string list" where
  "checked_files = [''keyhole.yaml'', ''governance_contract.yaml'', ''capability_passport.yaml'', ''dependencies.yaml'']"

text \<open>A file's status has an issue for its reason, and every issue names a checked file.\<close>

definition pipeline_ok :: "bool \<Rightarrow> pipeline \<Rightarrow> bool" where
  "pipeline_ok strict p =
     ((\<forall>n s. (n, s) \<in> set (pl_files p) \<longrightarrow>
         (s = CheckReject \<longrightarrow> (\<exists>i\<in>set (pl_issues p). \<not> warn_only strict (vi_reason i))) \<and>
         (s = CheckWarn \<longrightarrow> pl_issues p \<noteq> [])) \<and>
      (\<forall>i\<in>set (pl_issues p). vi_file i \<in> set checked_files))"

lemma set_dict_set: "(k, v) \<in> set (dict_set n s d) \<Longrightarrow> (k, v) = (n, s) \<or> (k, v) \<in> set d"
  by (induction d) (auto simp: dict_set_def split: if_splits)

lemma record_file_ok:
  assumes "pipeline_ok strict p" "issues_in name is" "name \<in> set checked_files"
  shows "pipeline_ok strict (record_file_result strict name is p)"
  using assms
  by (fastforce simp: pipeline_ok_def record_file_result_def issues_in_def issues_status_def list_ex_iff
      dest: set_dict_set split: if_splits)

lemma require_file_ok:
  assumes "pipeline_ok strict p" "name \<in> set checked_files"
  shows "pipeline_ok strict (require_file required name p)"
proof -
  have "\<not> warn_only strict ''missing_required_file''" by (simp add: warn_only_def warn_reasons_def)
  then show ?thesis
    using assms
    by (fastforce simp: pipeline_ok_def require_file_def missing_file_issue_def dest: set_dict_set)
qed

lemma checked_file_names:
  "''keyhole.yaml'' \<in> set checked_files" "contract_file \<in> set checked_files"
  "''capability_passport.yaml'' \<in> set checked_files" "dependency_file \<in> set checked_files"
  by (simp_all add: checked_files_def contract_file_def dependency_file_def)

lemma file_checks_ok: "pipeline_ok strict (fst (file_checks ye strict repo posture))"
proof -
  have start: "pipeline_ok strict \<lparr>pl_issues = [], pl_files = [], pl_repo = cr_name repo\<rparr>"
    by (simp add: pipeline_ok_def)
  have renamed: "pipeline_ok strict p \<Longrightarrow> pipeline_ok strict (p\<lparr>pl_repo := n\<rparr>)" for p n
    by (simp add: pipeline_ok_def)
  have keyhole: "pipeline_ok strict p \<Longrightarrow> pipeline_ok strict (keyhole_step ye strict repo posture p)" for p
    using validators_in(1) [of "''keyhole.yaml''" "repo_doc ye repo ''keyhole.yaml''"] renamed
    by (auto simp: keyhole_step_def Let_def checked_file_names intro!: record_file_ok require_file_ok
        split: prod.split)
  have contract: "pipeline_ok strict p \<Longrightarrow> pipeline_ok strict (contract_step ye strict repo posture p)" for p
    by (auto simp: contract_step_def checked_file_names validators_in intro!: record_file_ok require_file_ok)
  have passport: "pipeline_ok strict p \<Longrightarrow> pipeline_ok strict (passport_step ye strict repo p)" for p
    by (auto simp: passport_step_def checked_file_names validators_in intro!: record_file_ok)
  have deps: "pipeline_ok strict p \<Longrightarrow> pipeline_ok strict (fst (dependency_step ye strict repo p))" for p
    using validate_dependencies_in [of dependency_file "repo_doc ye repo dependency_file"]
    by (auto simp: dependency_step_def Let_def checked_file_names intro!: record_file_ok split: prod.split)
  show ?thesis unfolding file_checks_def by (intro deps passport contract keyhole start)
qed


lemma compatibility_issues_in:
  assumes "compatibility_issues ye repo = Inr is" "i \<in> set is"
  shows "vi_file i \<in> {contract_file, dependency_file}"
  using assms compatibility_in
  by (fastforce simp: compatibility_issues_def Let_def split: sum.splits)

lemma strict_issues_in:
  assumes "strict_provider_issues ye strict repo = Inr is" "i \<in> set is"
  shows "vi_file i = dependency_file"
proof -
  have "is = [] \<or> (\<exists>xs. collect_issues (map provider_missing xs) = Inr is)"
    using assms(1) by (fastforce simp: strict_provider_issues_def split: if_splits sum.splits)
  then show ?thesis using assms(2) provider_missing_in by fastforce
qed

text \<open>A validation that returns is the advisory result, or one built from the four steps.\<close>

lemma run_validation_cases:
  assumes "run_validation ye repo mode strict = Inr r"
  obtains (foreign) "chosen_posture repo mode = ForeignRepo" "r = foreign_result repo mode"
  | (aligned) extra compis where "chosen_posture repo mode \<noteq> ForeignRepo"
      "strict_provider_issues ye strict repo = Inr extra" "compatibility_issues ye repo = Inr compis"
      "r = aligned_result strict repo mode (chosen_posture repo mode)
             (fst (file_checks ye strict repo (chosen_posture repo mode)))
             (snd (file_checks ye strict repo (chosen_posture repo mode))) extra compis"
proof (cases "chosen_posture repo mode = ForeignRepo")
  case True
  then show ?thesis using assms foreign by (simp add: run_validation_def Let_def)
next
  case False
  obtain p preview where p: "file_checks ye strict repo (chosen_posture repo mode) = (p, preview)" by fastforce
  obtain extra where extra: "strict_provider_issues ye strict repo = Inr extra"
    using assms False p by (cases "strict_provider_issues ye strict repo") (auto simp: run_validation_def Let_def)
  obtain compis where compis: "compatibility_issues ye repo = Inr compis"
    using assms False p extra by (cases "compatibility_issues ye repo") (auto simp: run_validation_def Let_def)
  have "r = aligned_result strict repo mode (chosen_posture repo mode) p preview extra compis"
    using assms False p extra compis by (simp add: run_validation_def Let_def)
  then show ?thesis using aligned [OF False extra compis] p by simp
qed

section \<open>The status of a validation\<close>

text \<open>The files' statuses add nothing to what the issues say.\<close>

lemma note_compat_in:
  "(n, s) \<in> set (note_compat_files strict is fs) \<Longrightarrow>
     (n, s) \<in> set fs \<or> is \<noteq> [] \<and> s = issues_status strict is"
proof -
  have "(n, s) \<in> set (fold (\<lambda>i fs. if vi_file i \<noteq> [] \<and> dict_get fs (vi_file i) = None
                  then dict_set (vi_file i) v fs else fs) js fs) \<Longrightarrow>
        (n, s) \<in> set fs \<or> js \<noteq> [] \<and> s = v" for js v
  proof (induction js arbitrary: fs)
    case (Cons j js)
    let ?fs = "if vi_file j \<noteq> [] \<and> dict_get fs (vi_file j) = None then dict_set (vi_file j) v fs else fs"
    have "(n, s) \<in> set ?fs \<or> s = v" using Cons.IH [of ?fs] Cons.prems by auto
    then show ?case using set_dict_set [of n s "vi_file j" v fs] by (auto split: if_splits)
  qed simp
  then show "(n, s) \<in> set (note_compat_files strict is fs) \<Longrightarrow>
     (n, s) \<in> set fs \<or> is \<noteq> [] \<and> s = issues_status strict is"
    unfolding note_compat_files_def by blast
qed

lemma overall_is_issues_status:
  assumes "pipeline_ok strict p" "is = pl_issues p @ extra @ compis"
  shows "overall_status strict (note_compat_files strict compis (pl_files p)) is = issues_status strict is"
proof -
  have reject: "\<exists>i\<in>set is. \<not> warn_only strict (vi_reason i)"
    if "(n, CheckReject) \<in> set (note_compat_files strict compis (pl_files p))" for n
  proof -
    have "(n, CheckReject) \<in> set (pl_files p) \<or> issues_status strict compis = CheckReject"
      using note_compat_in [OF that] by metis
    moreover have "\<exists>i\<in>set (pl_issues p). \<not> warn_only strict (vi_reason i)" if "(n, CheckReject) \<in> set (pl_files p)"
      using assms(1) that unfolding pipeline_ok_def by blast
    ultimately show ?thesis using assms(2) by auto
  qed
  have warn: "is \<noteq> []" if "(n, CheckWarn) \<in> set (note_compat_files strict compis (pl_files p))" for n
    using note_compat_in [OF that] assms by (auto simp: pipeline_ok_def)
  show ?thesis
    using reject warn by (fastforce simp: overall_status_def issues_status_def list_ex_iff)
qed

text \<open>Every issue belongs to one of the four checks.\<close>

definition issue_domains :: "(issue \<Rightarrow> bool) list" where
  "issue_domains =
     [\<lambda>i. (vi_file i \<in> set schema_files \<or> vi_reason i = ''missing_required_file'') \<and> \<not> other_domain i,
      \<lambda>i. vi_file i = dependency_file \<and> \<not> other_domain i,
      \<lambda>i. vi_reason i = namespace_reason, \<lambda>i. vi_reason i \<in> set compat_reasons]"

lemma domain_statuses:
  "map snd (domain_checks strict is) = map (\<lambda>d. issues_status strict (filter d is)) issue_domains"
  by (simp add: domain_checks_def issue_domains_def)

lemma domain_of_issue:
  "vi_file i \<in> set checked_files \<Longrightarrow> \<exists>d\<in>set issue_domains. d i"
  by (auto simp: issue_domains_def checked_files_def schema_files_def dependency_file_def other_domain_def)

lemma domains_decide:
  assumes "\<forall>i\<in>set is. vi_file i \<in> set checked_files"
  shows "check_severity (issues_status strict is) =
           Max (set (map check_severity (map snd (domain_checks strict is))))"
proof -
  let ?sev = "\<lambda>d. check_severity (issues_status strict (filter d is))"
  have below: "check_severity (issues_status strict is) \<le> n" if "\<forall>d\<in>set issue_domains. ?sev d \<le> n" for n
  proof -
    have domain: "\<exists>d\<in>set issue_domains. i \<in> set (filter d is)" if "i \<in> set is" for i
      using assms domain_of_issue that by fastforce
    have "1 \<le> n" if i: "i \<in> set is" for i
    proof -
      obtain d where "d \<in> set issue_domains" "filter d is \<noteq> []" using domain [OF i] by fastforce
      then show ?thesis using \<open>\<forall>d\<in>set issue_domains. ?sev d \<le> n\<close> unfolding issues_status_bounds by blast
    qed
    moreover have "2 \<le> n" if i: "i \<in> set is" "\<not> warn_only strict (vi_reason i)" for i
    proof -
      obtain d where "d \<in> set issue_domains" "i \<in> set (filter d is)" using domain [OF i(1)] by blast
      then show ?thesis using i(2) \<open>\<forall>d\<in>set issue_domains. ?sev d \<le> n\<close> unfolding issues_status_bounds by blast
    qed
    ultimately show ?thesis unfolding issues_status_bounds using list.set_intros(1) by (cases "is") auto
  qed
  have above: "?sev d \<le> check_severity (issues_status strict is)" for d
    by (rule severity_mono) auto
  have sevs: "map check_severity (map snd (domain_checks strict is)) = map ?sev issue_domains"
    by (simp only: domain_statuses map_map o_def)
  have max: "finite (set (map ?sev issue_domains))" "set (map ?sev issue_domains) \<noteq> {}"
    by (simp_all add: issue_domains_def)
  have "\<forall>d\<in>set issue_domains. ?sev d \<le> Max (set (map ?sev issue_domains))"
    using Max_ge [OF max(1)] by simp
  then have "check_severity (issues_status strict is) \<le> Max (set (map ?sev issue_domains))" by (rule below)
  moreover have "Max (set (map ?sev issue_domains)) \<le> check_severity (issues_status strict is)"
    unfolding Max_le_iff [OF max] using above by simp
  ultimately show ?thesis unfolding sevs by (rule antisym)
qed

lemma validation_issue_files:
  assumes "pipeline_ok strict p" "strict_provider_issues ye strict repo = Inr extra"
    "compatibility_issues ye repo = Inr compis"
  shows "\<forall>i\<in>set (pl_issues p @ extra @ compis). vi_file i \<in> set checked_files"
proof -
  have "vi_file i \<in> set checked_files" if "i \<in> set compis" for i
    using compatibility_issues_in [OF assms(3) that] checked_file_names by auto
  then show ?thesis
    using assms(1) strict_issues_in [OF assms(2)] checked_file_names unfolding pipeline_ok_def by fastforce
qed

lemma foreign_warns: "i \<in> set (foreign_issues repo) \<Longrightarrow> warn_only False (vi_reason i)"
  by (auto simp: foreign_issues_def Let_def warn_only_def warn_reasons_def split: if_splits)

lemma foreign_status: "issues_status False (foreign_issues repo) = CheckWarn"
proof -
  have "foreign_issues repo \<noteq> []" by (simp add: foreign_issues_def Let_def)
  then show ?thesis using foreign_warns by (auto simp: issues_status_def list_ex_iff)
qed

lemma status_of_issues:
  assumes "run_validation ye repo mode strict = Inr r"
  shows "va_status r = issues_status (va_strict r) (va_issues r)"
  using assms
proof (cases rule: run_validation_cases)
  case foreign
  then show ?thesis by (simp add: foreign_result_def foreign_status)
next
  case (aligned extra compis)
  then show ?thesis
    using overall_is_issues_status [OF file_checks_ok refl] by (simp add: aligned_result_def Let_def)
qed

text \<open>
  C21: The status of every validation that returns is the one its list of issues calls for, no matter
  what the files' statuses say; of a repository that is not foreign it is the worst of the four checks
  (schema, dependencies, namespace, compatibility), so no issue is outside all four. There are errors
  exactly when the status is REJECT, which is when the command fails, and the repository is called
  native-ready exactly when it is native and has no issue.
\<close>

theorem validation_status_decided:
  assumes "run_validation ye repo mode strict = Inr r"
  shows "va_status r = issues_status (va_strict r) (va_issues r) \<and>
         (va_posture r \<noteq> ForeignRepo \<longrightarrow>
            check_severity (va_status r) = Max (set (map check_severity (map snd (va_checks r))))) \<and>
         (hard_issues r \<noteq> [] \<longleftrightarrow> va_status r = CheckReject) \<and>
         (cm_exit_code (validate_result a r) = exit_success \<longleftrightarrow> va_status r \<noteq> CheckReject) \<and>
         (va_readiness r = NativeReady \<longleftrightarrow> va_posture r = NativeRepo \<and> va_issues r = [])"
proof -
  note status = status_of_issues [OF assms]
  have worst: "check_severity (va_status r) = Max (set (map check_severity (map snd (va_checks r))))"
    if "va_posture r \<noteq> ForeignRepo"
    using assms
  proof (cases rule: run_validation_cases)
    case foreign
    then show ?thesis using that by (simp add: foreign_result_def)
  next
    case (aligned extra compis)
    then have "\<forall>i\<in>set (va_issues r). vi_file i \<in> set checked_files" "va_checks r = domain_checks strict (va_issues r)"
      "va_strict r = strict"
      using validation_issue_files [OF file_checks_ok] by (simp_all add: aligned_result_def Let_def)
    then show ?thesis using domains_decide status by simp
  qed
  have errors: "hard_issues r \<noteq> [] \<longleftrightarrow> va_status r = CheckReject"
    unfolding status hard_issues_def
    by (auto simp: filter_empty_conv issues_status_def list_ex_iff warn_only_def)
  have code: "cm_exit_code (validate_result a r) = exit_success \<longleftrightarrow> va_status r \<noteq> CheckReject"
    by (simp add: validate_result_def command_result_of_def Let_def exit_success_def exit_contract_failure_def)
  have ready: "va_readiness r = NativeReady \<longleftrightarrow> va_posture r = NativeRepo \<and> va_issues r = []"
    using assms
  proof (cases rule: run_validation_cases)
    case foreign
    then show ?thesis by (simp add: foreign_result_def)
  next
    case (aligned extra compis)
    then have "va_readiness r = readiness_of (chosen_posture repo mode) (va_status r)"
      "va_posture r = chosen_posture repo mode" "chosen_posture repo mode \<noteq> ForeignRepo"
      by (simp_all add: aligned_result_def Let_def)
    then show ?thesis
      using status by (cases "chosen_posture repo mode") (auto simp: readiness_of_def)
  qed
  show ?thesis using status worst errors code ready by blast
qed

section \<open>Strict mode\<close>

lemma record_file_fields [simp]:
  "pl_issues (record_file_result strict name is p) = pl_issues p @ is"
  "pl_repo (record_file_result strict name is p) = pl_repo p"
  by (simp_all add: record_file_result_def)

lemma require_file_fields [simp]:
  "pl_issues (require_file required name p) =
     (if required then pl_issues p @ [missing_file_issue name] else pl_issues p)"
  "pl_repo (require_file required name p) = pl_repo p"
  by (simp_all add: require_file_def)

lemma file_checks_strictness:
  "pl_issues (fst (file_checks ye True repo posture)) = pl_issues (fst (file_checks ye False repo posture))"
  by (simp add: file_checks_def dependency_step_def passport_step_def contract_step_def keyhole_step_def Let_def
      split: prod.split)

text \<open>
  C34: Strict mode only adds: whenever a strict validation returns, so does the one that is not strict,
  every issue of which the strict one has too, and the strict status is at least as severe. In strict
  mode a repository that is not foreign is either free of issues or rejected.
\<close>

theorem strict_only_adds:
  assumes "run_validation ye repo mode True = Inr r"
  shows "(\<exists>r'. run_validation ye repo mode False = Inr r' \<and> set (va_issues r') \<subseteq> set (va_issues r) \<and>
              check_severity (va_status r') \<le> check_severity (va_status r)) \<and>
         (va_posture r \<noteq> ForeignRepo \<longrightarrow>
            va_status r = (if va_issues r = [] then CheckPass else CheckReject))"
  using assms
proof (cases rule: run_validation_cases)
  case foreign
  then show ?thesis by (simp add: run_validation_def foreign_result_def)
next
  case (aligned extra compis)
  obtain p preview where p: "file_checks ye False repo (chosen_posture repo mode) = (p, preview)" by fastforce
  have none: "strict_provider_issues ye False repo = Inr []" by (simp add: strict_provider_issues_def)
  let ?r = "aligned_result False repo mode (chosen_posture repo mode) p preview [] compis"
  have run: "run_validation ye repo mode False = Inr ?r"
    using aligned p none by (simp add: run_validation_def Let_def)
  have issues: "set (va_issues ?r) \<subseteq> set (va_issues r)"
    using aligned file_checks_strictness [of ye repo "chosen_posture repo mode"] p
    by (auto simp: aligned_result_def Let_def)
  have strict: "va_strict ?r = False" "va_strict r = True"
    using aligned by (simp_all add: aligned_result_def Let_def)
  have "check_severity (va_status ?r) \<le> check_severity (va_status r)"
    unfolding status_of_issues [OF run] status_of_issues [OF assms] strict
    by (rule severity_mono [OF issues]) (simp add: warn_only_def)
  moreover have "va_status r = (if va_issues r = [] then CheckPass else CheckReject)"
    unfolding status_of_issues [OF assms] strict by (simp add: issues_status_def warn_only_def list_ex_iff)
  ultimately show ?thesis using run issues by blast
qed

section \<open>What a pass means\<close>

lemma keyhole_yaml_clean:
  assumes "fst (validate_keyhole_yaml name doc) = []"
  shows "\<exists>d s. doc = Inr d \<and> dict_get d ''repo'' = Some (JStr s) \<and>
               snd (validate_keyhole_yaml name doc) = py_strip s \<and> py_strip s \<noteq> []"
proof (cases doc)
  case (Inr d)
  obtain rs n where r: "repo_issues name d = (rs, n)" by fastforce
  then have "rs = []" "snd (validate_keyhole_yaml name doc) = n"
    using assms Inr by (auto simp: validate_keyhole_yaml_def)
  then show ?thesis using r Inr by (auto simp: repo_issues_def split: option.splits json.splits if_splits)
qed (use assms in \<open>simp add: validate_keyhole_yaml_def\<close>)

lemma name_field_clean: "name_field_issues name fld cap = [] \<longleftrightarrow> nv_valid (validate_capability_name cap)"
  by (simp add: name_field_issues_def Let_def)

lemma produces_items_clean:
  "concat (map (produces_item_issues name) (enumerate k vs)) = [] \<Longrightarrow>
     \<exists>names. vs = map JStr names \<and> (\<forall>n\<in>set names. nv_valid (validate_capability_name n))"
proof (induction vs arbitrary: k)
  case (Cons v vs)
  then obtain names where names: "vs = map JStr names" "\<forall>n\<in>set names. nv_valid (validate_capability_name n)"
    by force
  obtain s where "v = JStr s" "nv_valid (validate_capability_name s)"
    using Cons.prems by (cases v) (auto simp: name_field_clean)
  then show ?case using names by (intro exI [of _ "s # names"]) simp
qed simp

lemma contract_clean:
  assumes "validate_governance_contract name doc = []"
  shows "\<exists>gc names. doc = Inr gc \<and> dict_get gc ''produces'' = Some (JList (map JStr names)) \<and>
                    (\<forall>n\<in>set names. nv_valid (validate_capability_name n))"
proof (cases doc)
  case (Inr gc)
  then have "has_key gc ''produces''" and clean: "produces_issues name gc = []"
    using assms by (auto simp: validate_governance_contract_def required_field_issues_def split: if_splits)
  then obtain v where v: "dict_get gc ''produces'' = Some v" by (auto simp: has_key_def)
  then obtain vs where vs: "v = JList vs" using clean by (cases v) (auto simp: produces_issues_def)
  then have "concat (map (produces_item_issues name) (enumerate 0 vs)) = []"
    using clean v by (simp add: produces_issues_def)
  from produces_items_clean [OF this] show ?thesis using Inr v vs by auto
qed (use assms in \<open>simp add: validate_governance_contract_def\<close>)

lemma mapping_items_clean:
  "concat (map (mapping_item_issues name) (enumerate k vs)) = [] \<Longrightarrow> vs = map JObj (mapping_entries vs)"
proof (induction vs arbitrary: k)
  case (Cons v vs)
  then show ?case by (cases v) auto
qed simp

lemma named_dependency_clean:
  assumes "named_dependency name prefix cap seen dep = ([], n)"
  shows "nd_capability n = cap \<and> cap \<notin> set seen \<and> nv_valid (validate_capability_name cap)"
proof -
  obtain pis pr where p: "provider_check name prefix (dict_get_or dep ''provider'' (JStr [])) = (pis, pr)"
    by fastforce
  obtain dis di where d: "digest_check name prefix (dict_get_or dep ''digest'' (JStr [])) = (dis, di)"
    by fastforce
  show ?thesis
    using assms p d
    by (auto simp: named_dependency_def Let_def name_field_clean duplicate_issues_def dependency_preview_def
        split: if_splits)
qed

text \<open>The entries of a list without issues name distinct canonical capabilities, and nothing was seen before.\<close>

definition named_entries :: "string list \<Rightarrow> dict list \<Rightarrow> normalized_dependency list \<Rightarrow> bool" where
  "named_entries seen deps ns =
     (map (\<lambda>e. dict_get e ''capability'') deps = map (\<lambda>n. Some (JStr (nd_capability n))) ns \<and>
      distinct (map nd_capability ns) \<and> set (map nd_capability ns) \<inter> set seen = {} \<and>
      (\<forall>n\<in>set ns. nv_valid (validate_capability_name (nd_capability n)) \<and> nd_capability n \<noteq> []))"

lemma check_dependencies_clean:
  "check_dependencies name i seen deps = ([], ns) \<Longrightarrow> named_entries seen deps ns"
proof (induction deps arbitrary: i seen ns)
  case Nil
  then show ?case by (simp add: named_entries_def)
next
  case (Cons dep deps)
  let ?v = "dict_get_or dep ''capability'' (JStr [])"
  let ?prefix = "indexed ''dependencies'' i"
  have truthy: "json_truthy ?v" using Cons.prems by (auto simp: Let_def split: prod.splits if_splits)
  obtain cap where cap: "?v = JStr cap"
    using Cons.prems truthy by (cases ?v) (auto simp: Let_def split: prod.splits)
  let ?seen = "if cap \<in> set seen then seen else cap # seen"
  obtain new n where n: "named_dependency name ?prefix cap seen dep = (new, n)" by fastforce
  obtain "is" rest where rest: "check_dependencies name (i + 1) ?seen deps = (is, rest)" by fastforce
  have eq: "check_dependencies name i seen (dep # deps) = (new @ is, n # rest)"
    using truthy rest unfolding check_dependencies.simps(2) Let_def cap by (cases "cap \<in> set seen") (simp_all add: n)
  then have empty: "new = []" "is = []" "ns = n # rest" using Cons.prems by auto
  have named: "nd_capability n = cap" "cap \<notin> set seen" "nv_valid (validate_capability_name cap)"
    using named_dependency_clean n empty(1) by auto
  have "named_entries ?seen deps rest" using Cons.IH rest empty(2) by blast
  then have more: "named_entries (cap # seen) deps rest" using named(2) by simp
  have "dict_get dep ''capability'' = Some (JStr cap)" "cap \<noteq> []"
    using cap truthy by (auto simp: dict_get_or_def split: option.splits)
  then show ?case using more named empty(3) by (auto simp: named_entries_def)
qed

lemma dependencies_clean:
  assumes "validate_dependencies name doc = ([], ns)"
  shows "\<exists>d. doc = Inr d \<and> (json_get d ''dependencies'' = JNull \<and> ns = [] \<or>
               (\<exists>entries. json_get d ''dependencies'' = JList (map JObj entries) \<and> named_entries [] entries ns))"
proof (cases doc)
  case (Inr d)
  obtain deps lis where l: "parse_dependencies_list d name = (deps, lis)" by fastforce
  obtain cis ns' where c: "check_dependencies name 0 [] deps = (cis, ns')" by fastforce
  have empty: "lis = []" "cis = []" "ns' = ns" using assms Inr l c by (auto simp: validate_dependencies_def)
  show ?thesis
  proof (cases "json_get d ''dependencies''")
    case JNull
    then show ?thesis using l c empty Inr by (auto simp: parse_dependencies_list_def)
  next
    case (JList vs)
    then have "deps = mapping_entries vs" "vs = map JObj (mapping_entries vs)"
      using l empty mapping_items_clean [of name 0 vs] by (auto simp: parse_dependencies_list_def)
    then show ?thesis using JList Inr check_dependencies_clean c empty by metis
  qed (use l empty in \<open>auto simp: parse_dependencies_list_def\<close>)
qed (use assms in \<open>simp add: validate_dependencies_def\<close>)

lemma file_checks_clean:
  assumes "pl_issues (fst (file_checks ye strict repo posture)) = []"
  shows "posture = NativeRepo \<Longrightarrow> file_exists repo ''keyhole.yaml'' \<and>
           fst (validate_keyhole_yaml ''keyhole.yaml'' (repo_doc ye repo ''keyhole.yaml'')) = []"
    "posture = NativeRepo \<Longrightarrow> file_exists repo contract_file \<and>
       validate_governance_contract contract_file (repo_doc ye repo contract_file) = []"
    "file_exists repo dependency_file \<Longrightarrow>
       fst (validate_dependencies dependency_file (repo_doc ye repo dependency_file)) = []"
proof -
  obtain p1 where p1: "p1 = keyhole_step ye strict repo posture \<lparr>pl_issues = [], pl_files = [], pl_repo = cr_name repo\<rparr>"
    by blast
  obtain p2 where p2: "p2 = contract_step ye strict repo posture p1" by blast
  obtain p3 where p3: "p3 = passport_step ye strict repo p2" by blast
  have "pl_issues (fst (dependency_step ye strict repo p3)) = []"
    using assms by (simp add: file_checks_def p1 p2 p3)
  then have deps: "pl_issues p3 = []"
    "file_exists repo dependency_file \<Longrightarrow>
       fst (validate_dependencies dependency_file (repo_doc ye repo dependency_file)) = []"
    by (auto simp: dependency_step_def Let_def split: if_splits prod.splits)
  then have "pl_issues p2 = []" by (auto simp: p3 passport_step_def split: if_splits)
  then have contract: "pl_issues p1 = []"
    "posture = NativeRepo \<Longrightarrow> file_exists repo contract_file \<and>
       validate_governance_contract contract_file (repo_doc ye repo contract_file) = []"
    by (auto simp: p2 contract_step_def split: if_splits)
  then have "posture = NativeRepo \<Longrightarrow> file_exists repo ''keyhole.yaml'' \<and>
           fst (validate_keyhole_yaml ''keyhole.yaml'' (repo_doc ye repo ''keyhole.yaml'')) = []"
    by (auto simp: p1 keyhole_step_def Let_def split: if_splits prod.splits)
  then show "posture = NativeRepo \<Longrightarrow> file_exists repo ''keyhole.yaml'' \<and>
           fst (validate_keyhole_yaml ''keyhole.yaml'' (repo_doc ye repo ''keyhole.yaml'')) = []"
    "posture = NativeRepo \<Longrightarrow> file_exists repo contract_file \<and>
       validate_governance_contract contract_file (repo_doc ye repo contract_file) = []"
    "file_exists repo dependency_file \<Longrightarrow>
       fst (validate_dependencies dependency_file (repo_doc ye repo dependency_file)) = []"
    using contract deps by blast+
qed

lemma file_checks_results:
  "snd (file_checks ye strict repo posture) =
     (if file_exists repo dependency_file
      then snd (validate_dependencies dependency_file (repo_doc ye repo dependency_file)) else [])"
  "file_exists repo ''keyhole.yaml'' \<Longrightarrow>
   snd (validate_keyhole_yaml ''keyhole.yaml'' (repo_doc ye repo ''keyhole.yaml'')) = n \<Longrightarrow> n \<noteq> [] \<Longrightarrow>
     pl_repo (fst (file_checks ye strict repo posture)) = n"
  by (auto simp: file_checks_def dependency_step_def passport_step_def contract_step_def keyhole_step_def Let_def
      split: prod.split)

lemma only_strings_JStr [simp]: "only_strings (map JStr names) = names"
  by (induction names) simp_all

lemma listed_value:
  assumes "json_get d k = JList vs"
  shows "iterated (json_or (dict_get_or d k (JList [])) (JList [])) = Inr vs"
  using assms
  by (auto simp: json_get_def dict_get_or_def json_or_def iterated_def iterate_json_def split: option.splits)

lemma consumed_of_entries:
  assumes "map (\<lambda>e. dict_get e ''capability'') deps = map (\<lambda>n. Some (JStr (nd_capability n))) ns"
    "\<forall>n\<in>set ns. nd_capability n \<noteq> []"
  shows "consumed_names (map JObj deps) = map (\<lambda>n. JStr (nd_capability n)) ns"
  using assms
proof (induction deps arbitrary: ns)
  case (Cons e deps)
  then obtain n rest where "ns = n # rest" by (cases ns) auto
  then show ?case using Cons by (simp add: json_get_def dict_get_or_def)
qed simp

lemma self_dependencies_clean:
  "self_dependencies ps seen vs = [] \<Longrightarrow> JStr c \<in> set vs \<Longrightarrow> c \<in> set ps \<Longrightarrow> c \<in> set seen"
  by (induction ps seen vs rule: self_dependencies.induct) (auto split: if_splits)

lemma compatibility_clean:
  assumes "compatibility_issues ye repo = Inr []" "file_exists repo contract_file"
    "repo_doc ye repo contract_file = Inr gc" "dict_get gc ''produces'' = Some (JList (map JStr names))"
    "file_exists repo dependency_file" "repo_doc ye repo dependency_file = Inr d"
    "json_get d ''dependencies'' = JList (map JObj entries)" "named_entries [] entries ns"
  shows "set names \<inter> set (map nd_capability ns) = {}"
proof -
  have docs: "existing_doc ye repo contract_file = gc" "existing_doc ye repo dependency_file = d"
    using assms by (simp_all add: existing_doc_def raw_doc_def)
  have "json_get gc ''produces'' = JList (map JStr names)"
    using assms(4) by (simp add: json_get_def dict_get_or_def)
  then have produced: "produced_names gc = Inr names" by (simp add: produced_names_def listed_value)
  have consumed: "consumed_values d = Inr (map (\<lambda>n. JStr (nd_capability n)) ns)"
    using assms(8) by (simp add: consumed_values_def listed_value [OF assms(7)] named_entries_def consumed_of_entries)
  have "self_dependencies names [] (map (\<lambda>n. JStr (nd_capability n)) ns) = []"
    using assms(1) by (simp add: compatibility_issues_def Let_def docs produced consumed validate_compatibility_def)
  then show ?thesis using self_dependencies_clean by fastforce
qed

text \<open>
  C26: A repository that passes is well formed: it is not foreign; if it is native its keyhole.yaml
  names it and its contract lists canonical capability names; the entries of its dependencies are
  distinct canonical names, exactly those of the preview; and it depends on nothing it produces.
\<close>

theorem pass_is_well_formed:
  assumes "run_validation ye repo mode strict = Inr r" "va_status r = CheckPass"
  shows "va_posture r \<noteq> ForeignRepo \<and>
    (va_posture r = NativeRepo \<longrightarrow>
       (\<exists>d s gc names. repo_doc ye repo ''keyhole.yaml'' = Inr d \<and> dict_get d ''repo'' = Some (JStr s) \<and>
          py_strip s \<noteq> [] \<and> va_repo r = py_strip s \<and>
          repo_doc ye repo contract_file = Inr gc \<and> dict_get gc ''produces'' = Some (JList (map JStr names)) \<and>
          (\<forall>n\<in>set names. nv_valid (validate_capability_name n)) \<and>
          set names \<inter> set (map nd_capability (va_preview r)) = {})) \<and>
    (file_exists repo dependency_file \<longrightarrow>
       (\<exists>d. repo_doc ye repo dependency_file = Inr d \<and>
          (json_get d ''dependencies'' = JNull \<and> va_preview r = [] \<or>
           (\<exists>entries. json_get d ''dependencies'' = JList (map JObj entries) \<and>
              named_entries [] entries (va_preview r)))))"
  using assms(1)
proof (cases rule: run_validation_cases)
  case foreign
  then show ?thesis using assms(2) by (simp add: foreign_result_def)
next
  case (aligned extra compis)
  let ?posture = "chosen_posture repo mode"
  let ?checks = "file_checks ye strict repo ?posture"
  have r: "va_posture r = ?posture" "va_issues r = pl_issues (fst ?checks) @ extra @ compis"
    "va_repo r = pl_repo (fst ?checks)" "va_preview r = snd ?checks"
    using aligned by (simp_all add: aligned_result_def Let_def)
  have "va_issues r = []" using status_of_issues [OF assms(1)] assms(2) issues_status_simps(2) by metis
  then have empty: "pl_issues (fst ?checks) = []" and compis: "compis = []" using r(2) by simp_all
  note clean = file_checks_clean [OF empty]
  have deps: "\<exists>d. repo_doc ye repo dependency_file = Inr d \<and>
          (json_get d ''dependencies'' = JNull \<and> va_preview r = [] \<or>
           (\<exists>entries. json_get d ''dependencies'' = JList (map JObj entries) \<and>
              named_entries [] entries (va_preview r)))" if present: "file_exists repo dependency_file"
  proof -
    have "validate_dependencies dependency_file (repo_doc ye repo dependency_file) = ([], va_preview r)"
      using clean(3) [OF present] present r(4) file_checks_results(1) by (simp add: prod_eq_iff)
    then show ?thesis by (rule dependencies_clean)
  qed
  have native: "\<exists>d s gc names. repo_doc ye repo ''keyhole.yaml'' = Inr d \<and> dict_get d ''repo'' = Some (JStr s) \<and>
          py_strip s \<noteq> [] \<and> va_repo r = py_strip s \<and>
          repo_doc ye repo contract_file = Inr gc \<and> dict_get gc ''produces'' = Some (JList (map JStr names)) \<and>
          (\<forall>n\<in>set names. nv_valid (validate_capability_name n)) \<and>
          set names \<inter> set (map nd_capability (va_preview r)) = {}" if native: "?posture = NativeRepo"
  proof -
    obtain d s where d: "repo_doc ye repo ''keyhole.yaml'' = Inr d" "dict_get d ''repo'' = Some (JStr s)"
      "snd (validate_keyhole_yaml ''keyhole.yaml'' (repo_doc ye repo ''keyhole.yaml'')) = py_strip s" "py_strip s \<noteq> []"
      using keyhole_yaml_clean clean(1) [OF native] by blast
    then have named: "va_repo r = py_strip s"
      using r(3) file_checks_results(2) clean(1) [OF native] by simp
    obtain gc names where gc: "repo_doc ye repo contract_file = Inr gc"
      "dict_get gc ''produces'' = Some (JList (map JStr names))" "\<forall>n\<in>set names. nv_valid (validate_capability_name n)"
      using contract_clean clean(2) [OF native] by blast
    have "set names \<inter> set (map nd_capability (va_preview r)) = {}"
    proof (cases "file_exists repo dependency_file")
      case True
      then obtain e where e: "repo_doc ye repo dependency_file = Inr e"
        "va_preview r = [] \<or> (\<exists>entries. json_get e ''dependencies'' = JList (map JObj entries) \<and>
              named_entries [] entries (va_preview r))" using deps by blast
      then show ?thesis
        using compatibility_clean [OF _ _ gc(1,2) True e(1)] aligned(3) compis clean(2) [OF native] by fastforce
    next
      case False
      then show ?thesis using r(4) file_checks_results(1) by simp
    qed
    then show ?thesis using d named gc by blast
  qed
  show ?thesis using aligned(1) r(1) deps native by simp
qed

section \<open>Examples\<close>

text \<open>A repository whose documents are given by the text of their files.\<close>

definition example_entry :: "string \<Rightarrow> dict \<Rightarrow> json" where
  "example_entry cap others = JObj ((''capability'', JStr cap) # others)"

definition example_docs :: "(string \<times> dict) list" where
  "example_docs =
     [(''k'', [(''repo'', JStr ''app''), (''schema_version'', JInt 1)]),
      (''c'', [(''repo'', JStr ''app''), (''produces'', JList [JStr ''billing.core.invoice.v1''])]),
      (''number'', [(''repo'', JStr ''app''), (''produces'', JInt 5)]),
      (''declared'', [(''repo'', JStr ''app''), (''produces'', JList [JStr ''billing.core.invoice.v1'']),
         (''compatibility_contracts'', JList [example_entry ''billing.core.invoice.v2'' []])]),
      (''d'', [(''dependencies'', JList [example_entry ''payment.stripe.integration.v1'' [(''provider'', JStr ''stripe'')]])]),
      (''bare'', [(''dependencies'', JList [example_entry ''payment.stripe.integration.v1'' []])]),
      (''null'', [(''dependencies'', JList [example_entry ''payment.stripe.integration.v1'' [(''provider'', JNull)]])]),
      (''seven'', [(''dependencies'', JList [example_entry ''payment.stripe.integration.v1'' [(''provider'', JInt 7)]])]),
      (''shifted'', [(''dependencies'', JList [JInt 5, example_entry ''payment'' []])]),
      (''next'', [(''dependencies'', JList [example_entry ''billing.core.invoice.v2'' [(''provider'', JStr ''x'')]])])]"

definition example_yaml :: yaml_env where
  "example_yaml =
     \<lparr>ye_installed = True,
      ye_load = (\<lambda>s. case dict_get example_docs s of None \<Rightarrow> Inl ''bad'' | Some d \<Rightarrow> Inr (JObj d)),
      ye_json = (\<lambda>s. Inl ''bad'')\<rparr>"

definition example_checked :: "string \<Rightarrow> string \<Rightarrow> checked_repo" where
  "example_checked contract deps =
     \<lparr>cr_name = ''app'', cr_path = ''/app'',
      cr_files = (\<lambda>n. if n = ''keyhole.yaml'' then FileText ''k''
                      else if n = contract_file then FileText contract
                      else if n = dependency_file then FileText deps
                      else FileMissing)\<rparr>"

definition example_validation :: "bool \<Rightarrow> string \<Rightarrow> string \<Rightarrow> string + validation" where
  "example_validation strict contract deps =
     run_validation example_yaml (example_checked contract deps) ''auto'' strict"

fun reported :: "string + validation \<Rightarrow> (check_status \<times> (string \<times> string) list \<times> (string \<times> check_status) list) option" where
  "reported (Inl e) = None"
| "reported (Inr r) = Some (va_status r, map (\<lambda>i. (vi_field i, vi_reason i)) (va_issues r), va_files r)"

lemma reported_returns: "map_option fst (reported x) = Some s \<Longrightarrow> \<exists>r. x = Inr r \<and> va_status r = s"
  by (cases x) auto

definition example_proof_env :: validate_env where
  "example_proof_env =
     \<lparr>vd_yaml = example_yaml, vd_repo = example_checked ''c'' ''d'', vd_is_dir = True, vd_now = ''now'',
      vd_state_env = [], vd_default_state = ''/s'', vd_state_error = False\<rparr>"

text \<open>The examples below, evaluated at once.\<close>

lemma examples_evaluated:
  "(map (\<lambda>strict. map_option fst (reported (example_validation strict ''c'' ''d''))) [False, True] =
     [Some CheckPass, Some CheckPass]) \<and>
   (validate_governance_contract contract_file (repo_doc example_yaml (example_checked ''number'' ''d'') contract_file) \<noteq> [] \<and>
   example_validation False ''number'' ''d'' = Inl ''TypeError'') \<and>
   (example_validation True ''c'' ''seven'' = Inl ''AttributeError'' \<and>
   reported (example_validation False ''c'' ''seven'') =
     Some (CheckReject, [(''dependencies[0].provider'', ''provider_must_be_string'')],
       [(''keyhole.yaml'', CheckPass), (contract_file, CheckPass), (dependency_file, CheckReject)])) \<and>
   (case run_validation example_yaml (example_checked ''c'' ''d'') ''advisory'' False of
     Inl e \<Rightarrow> False | Inr r \<Rightarrow> map vi_reason (va_issues r) = [''native_governance_files_absent'']) \<and>
   (reported (example_validation False ''c'' ''shifted'') =
     Some (CheckReject,
       [(''dependencies[0]'', ''dependency_must_be_mapping''),
        (''dependencies[0].capability'', ''invalid_capability_namespace'')],
       [(''keyhole.yaml'', CheckPass), (contract_file, CheckPass), (dependency_file, CheckReject)])) \<and>
   (reported (example_validation True ''c'' ''bare'') =
     Some (CheckReject, [(''dependencies[0].provider'', ''dependency_provider_missing'')],
       [(''keyhole.yaml'', CheckPass), (contract_file, CheckPass), (dependency_file, CheckPass)])) \<and>
   (reported (example_validation False ''declared'' ''next'') =
     Some (CheckWarn, [([], ''incompatible_major_version'')],
       [(''keyhole.yaml'', CheckPass), (contract_file, CheckPass), (dependency_file, CheckPass)])) \<and>
   (case example_validation False ''c'' ''null'' of
     Inl e \<Rightarrow> False | Inr r \<Rightarrow> map nd_provider (va_preview r) = [''None'']) \<and>
   (case run_validate example_proof_env
          \<lparr>vg_mode = ''auto'', vg_state_dir = [], vg_home = [], vg_strict = False, vg_proof = True, vg_quiet = False\<rparr> [] of
     (Inr c, writes) \<Rightarrow> dict_get (cm_data c) ''proof_ref'' = Some JNull \<and>
       map fst writes = [[''validation'', ''app'', ''validation_result.json''],
                         [''validation'', ''app'', ''normalization_preview.json'']]
   | _ \<Rightarrow> False)"
  by code_simp

lemma clean_example:
  "map (\<lambda>strict. map_option fst (reported (example_validation strict ''c'' ''d''))) [False, True] =
     [Some CheckPass, Some CheckPass]"
  using examples_evaluated by blast

lemma example_passes: "\<exists>r. example_validation strict ''c'' ''d'' = Inr r \<and> va_status r = CheckPass"
  using clean_example by (cases strict) (simp_all add: reported_returns)

lemma validation_status_decided_witness:
  "\<exists>r. example_validation False ''c'' ''d'' = Inr r \<and> va_status r = issues_status (va_strict r) (va_issues r)"
  using example_passes [of False]
    validation_status_decided [of example_yaml "example_checked ''c'' ''d''" "''auto''" False]
  unfolding example_validation_def by blast

lemma strict_only_adds_witness:
  "\<exists>r. example_validation False ''c'' ''d'' = Inr r \<and> check_severity (va_status r) \<le> check_severity CheckPass"
proof -
  obtain r where "example_validation True ''c'' ''d'' = Inr r" "va_status r = CheckPass"
    using example_passes [of True] by blast
  then show ?thesis using strict_only_adds unfolding example_validation_def by metis
qed

lemma pass_is_well_formed_witness:
  "\<exists>r d entries. example_validation True ''c'' ''d'' = Inr r \<and> va_posture r \<noteq> ForeignRepo \<and>
     repo_doc example_yaml (example_checked ''c'' ''d'') dependency_file = Inr d"
proof -
  obtain r where r: "run_validation example_yaml (example_checked ''c'' ''d'') ''auto'' True = Inr r"
    "va_status r = CheckPass"
    using example_passes [of True] unfolding example_validation_def by blast
  have "file_exists (example_checked ''c'' ''d'') dependency_file" by code_simp
  then show ?thesis using pass_is_well_formed [OF r] r(1) unfolding example_validation_def by blast
qed

section \<open>Where the code departs from its texts\<close>

text \<open>A \<open>produces\<close> that is not a list is reported, and then the compatibility step iterates it.\<close>

lemma produces_number_raises:
  "validate_governance_contract contract_file (repo_doc example_yaml (example_checked ''number'' ''d'') contract_file) \<noteq> [] \<and>
   example_validation False ''number'' ''d'' = Inl ''TypeError''"
  using examples_evaluated by blast

lemma provider_number_raises:
  "example_validation True ''c'' ''seven'' = Inl ''AttributeError'' \<and>
   reported (example_validation False ''c'' ''seven'') =
     Some (CheckReject, [(''dependencies[0].provider'', ''provider_must_be_string'')],
       [(''keyhole.yaml'', CheckPass), (contract_file, CheckPass), (dependency_file, CheckReject)])"
  using examples_evaluated by blast

text \<open>Strict mode is not applied to a foreign repository, and the result says that it was not strict.\<close>

lemma foreign_never_strict:
  "chosen_posture repo mode = ForeignRepo \<Longrightarrow>
     run_validation ye repo mode strict = Inr (foreign_result repo mode) \<and>
     va_status (foreign_result repo mode) = CheckWarn \<and> \<not> va_strict (foreign_result repo mode)"
  by (simp add: run_validation_def foreign_result_def)

lemma advisory_denies_files:
  "case run_validation example_yaml (example_checked ''c'' ''d'') ''advisory'' False of
     Inl e \<Rightarrow> False | Inr r \<Rightarrow> map vi_reason (va_issues r) = [''native_governance_files_absent'']"
  using examples_evaluated by blast

text \<open>Entries are numbered among the mappings, so those after another value have a smaller number.\<close>

lemma entry_numbers_shift:
  "reported (example_validation False ''c'' ''shifted'') =
     Some (CheckReject,
       [(''dependencies[0]'', ''dependency_must_be_mapping''),
        (''dependencies[0].capability'', ''invalid_capability_namespace'')],
       [(''keyhole.yaml'', CheckPass), (contract_file, CheckPass), (dependency_file, CheckReject)])"
  using examples_evaluated by blast

lemma rejected_file_passes:
  "reported (example_validation True ''c'' ''bare'') =
     Some (CheckReject, [(''dependencies[0].provider'', ''dependency_provider_missing'')],
       [(''keyhole.yaml'', CheckPass), (contract_file, CheckPass), (dependency_file, CheckPass)])"
  using examples_evaluated by blast

lemma declared_conflict_stays:
  "reported (example_validation False ''declared'' ''next'') =
     Some (CheckWarn, [([], ''incompatible_major_version'')],
       [(''keyhole.yaml'', CheckPass), (contract_file, CheckPass), (dependency_file, CheckPass)])"
  using examples_evaluated by blast

lemma null_provider_previewed:
  "case example_validation False ''c'' ''null'' of
     Inl e \<Rightarrow> False | Inr r \<Rightarrow> map nd_provider (va_preview r) = [''None'']"
  using examples_evaluated by blast

text \<open>The proof of a repository with a dependency stops after two of its three files.\<close>

lemma proof_stops_at_preview:
  "case run_validate example_proof_env
          \<lparr>vg_mode = ''auto'', vg_state_dir = [], vg_home = [], vg_strict = False, vg_proof = True, vg_quiet = False\<rparr> [] of
     (Inr c, writes) \<Rightarrow> dict_get (cm_data c) ''proof_ref'' = Some JNull \<and>
       map fst writes = [[''validation'', ''app'', ''validation_result.json''],
                         [''validation'', ''app'', ''normalization_preview.json'']]
   | _ \<Rightarrow> False"
  using examples_evaluated by (elim conjE) assumption

end
