(* ===== verification/Governed_Boundary.thy ===== *)
theory Governed_Boundary
  imports Operation_Discovery
begin

chapter \<open>Answers\<close>

text \<open>
  The helpers of the governed flow that read answers of the boundary (\<open>governed_demo.py\<close>): envelopes,
  strings found at one of several places, gaps and their choice, receipts, errors and redaction.
  \<open>dump\<close> is \<open>json.dumps(v, sort_keys=True)\<close> and \<open>fstr\<close> is \<open>str\<close> on a value.
\<close>

datatype flow_error = FlowError string | FlowCrash string | FlowStuck

definition async_terminal :: "string list" where
  "async_terminal = [''completed'', ''succeeded'', ''success'', ''failed'', ''canceled'', ''cancelled'', ''timed_out'']"

definition async_failed :: "string list" where
  "async_failed = [''failed'', ''canceled'', ''cancelled'', ''timed_out'']"

definition async_active :: "string list" where
  "async_active = [''accepted'', ''queued'', ''pending'', ''running'', ''started'']"

definition claimable_statuses :: "string list" where
  "claimable_statuses = [''open'', ''claimable'', ''actionable'']"

definition non_claimable_statuses :: "string list" where
  "non_claimable_statuses =
     [''archived'', ''blocked'', ''cancelled'', ''canceled'', ''closed'', ''done'', ''rejected'', ''resolved'', ''stale'']"

section \<open>Values\<close>

fun first_text :: "json list \<Rightarrow> string" where
  "first_text [] = []"
| "first_text (JStr s # vs) = (if s \<noteq> [] then s else first_text vs)"
| "first_text (v # vs) = first_text vs"

fun first_flag :: "json list \<Rightarrow> bool" where
  "first_flag [] = False"
| "first_flag (JBool b # vs) = b"
| "first_flag (v # vs) = first_flag vs"

text \<open>\<open>d.get(k) if isinstance(d.get(k), dict) else {}\<close>, and \<open>str(a or b or "")\<close>.\<close>

definition sub_dict :: "dict \<Rightarrow> string \<Rightarrow> dict" where
  "sub_dict d k = as_dict (json_get d k)"

definition first_str :: "(json \<Rightarrow> string) \<Rightarrow> json list \<Rightarrow> string" where
  "first_str fstr vs = (let v = first_truthy vs in if json_truthy v then fstr v else [])"

fun is_obj :: "json \<Rightarrow> bool" where
  "is_obj (JObj d) = True"
| "is_obj _ = False"

definition unwrap_envelope :: "dict \<Rightarrow> dict" where
  "unwrap_envelope d =
     (if json_get d ''ok'' = JBool True \<and> is_obj (json_get d ''data'') then sub_dict d ''data'' else d)"

definition flow_redacted :: string where "flow_redacted = ''<redacted>''"

definition secret_key :: "string \<Rightarrow> bool" where
  "secret_key k = (py_in ''token'' (py_lower k) \<or> py_in ''authorization'' (py_lower k))"

fun flow_redact :: "json \<Rightarrow> json" where
  "flow_redact (JObj d) = JObj (map (\<lambda>(k, v). (k, if secret_key k then JStr flow_redacted else flow_redact v)) d)"
| "flow_redact (JList vs) = JList (map flow_redact vs)"
| "flow_redact v = v"

definition redact_dict :: "dict \<Rightarrow> dict" where
  "redact_dict d = as_dict (flow_redact (JObj d))"

fun text_truthy :: "json \<Rightarrow> bool" where
  "text_truthy (JBool b) = b"
| "text_truthy (JStr s) = (py_lower (py_strip s) \<in> set [''1'', ''true'', ''yes'', ''y''])"
| "text_truthy _ = False"

fun text_falsey :: "json \<Rightarrow> bool" where
  "text_falsey (JBool b) = (\<not> b)"
| "text_falsey (JStr s) = (py_lower (py_strip s) \<in> set [''0'', ''false'', ''no'', ''n''])"
| "text_falsey _ = False"

definition display_bool :: "json \<Rightarrow> string" where
  "display_bool v = (if text_truthy v then ''true'' else if text_falsey v then ''false'' else ''<unknown>'')"

section \<open>Gaps\<close>

fun gap_objects :: "json \<Rightarrow> dict list" where
  "gap_objects (JObj d) =
     (if starts_with ''gap_'' (first_text [json_get d ''gap_id'', json_get d ''id'']) then [d] else []) @
     concat (map (\<lambda>(k, v). gap_objects v) d)"
| "gap_objects (JList vs) = concat (map gap_objects vs)"
| "gap_objects _ = []"

definition gap_status :: "(json \<Rightarrow> string) \<Rightarrow> dict \<Rightarrow> string" where
  "gap_status fstr gap = py_lower (first_str fstr [json_get gap ''status'', json_get gap ''state''])"

definition has_blocked_reasons :: "dict \<Rightarrow> bool" where
  "has_blocked_reasons gap =
     (case json_get gap ''blocked_reasons'' of
        JList vs \<Rightarrow> list_ex json_truthy vs
      | JObj d \<Rightarrow> d \<noteq> []
      | JStr s \<Rightarrow> py_strip s \<noteq> []
      | _ \<Rightarrow> False)"

definition is_claimable_gap :: "(json \<Rightarrow> string) \<Rightarrow> dict \<Rightarrow> bool" where
  "is_claimable_gap fstr gap =
     (if text_truthy (json_get gap ''blocked'') then False
      else if has_blocked_reasons gap then False
      else if text_truthy (json_get gap ''claimable'') then True
      else if text_falsey (json_get gap ''claimable'') then False
      else if gap_status fstr gap \<in> set non_claimable_statuses then False
      else gap_status fstr gap \<in> set claimable_statuses)"

definition gap_id_of :: "dict \<Rightarrow> string" where
  "gap_id_of gap = first_text [json_get gap ''gap_id'', json_get gap ''id'']"

definition reason_text :: "dict \<Rightarrow> string" where
  "reason_text d = first_text [json_get d ''code'', json_get d ''reason'', json_get d ''message'']"

definition reason_labels :: "(json \<Rightarrow> string) \<Rightarrow> json list \<Rightarrow> string list" where
  "reason_labels fstr vs =
     concat (map (\<lambda>v. case v of JObj d \<Rightarrow> [reason_text d] | _ \<Rightarrow> if json_truthy v then [fstr v] else []) vs)"

definition summarize_blocked_reasons :: "(json \<Rightarrow> string) \<Rightarrow> json \<Rightarrow> string" where
  "summarize_blocked_reasons fstr reasons =
     (case reasons of
        JList vs \<Rightarrow> py_join '','' (filter (\<lambda>l. l \<noteq> []) (reason_labels fstr vs))
      | JObj d \<Rightarrow> reason_text d
      | JStr s \<Rightarrow> py_strip s
      | _ \<Rightarrow> [])"

fun first_required_action :: "json list \<Rightarrow> string" where
  "first_required_action [] = []"
| "first_required_action (JObj d # vs) =
     (case json_get d ''required_action'' of
        JObj a \<Rightarrow> first_text [json_get a ''type'', json_get a ''action'', json_get a ''message'']
      | JStr s \<Rightarrow> s
      | _ \<Rightarrow> first_required_action vs)"
| "first_required_action (v # vs) = first_required_action vs"

definition summarize_required_action :: "json \<Rightarrow> string" where
  "summarize_required_action reasons =
     first_required_action (case reasons of JList vs \<Rightarrow> vs | v \<Rightarrow> [v])"

definition no_claimable_gap_message :: "(json \<Rightarrow> string) \<Rightarrow> dict \<Rightarrow> string" where
  "no_claimable_gap_message fstr gap =
     (let reasons = summarize_blocked_reasons fstr (json_get gap ''blocked_reasons'');
          action = summarize_required_action (json_get gap ''blocked_reasons'')
      in py_join '' ''
        ([''NO_CLAIMABLE_GAP: gaps.list returned matching gaps but none are claimable.'',
          ''best_gap_id='' @ str_or (gap_id_of gap) ''<unknown>'',
          ''status='' @ str_or (first_text [json_get gap ''status'', json_get gap ''state'']) ''<unknown>'',
          ''claimable='' @ display_bool (json_get gap ''claimable''),
          ''blocked='' @ display_bool (json_get gap ''blocked'')] @
         (if reasons \<noteq> [] then [''blocked_reasons='' @ reasons] else []) @
         (if action \<noteq> [] then [''required_action='' @ action] else []) @
         [''Run '' @ quoted ''keyhole gaps list --json'' @
          '' and make the gap OPEN/claimable before running governed realization.'']))"

definition gap_score :: "(json \<Rightarrow> string) \<Rightarrow> (json \<Rightarrow> string) \<Rightarrow> string \<Rightarrow> string \<Rightarrow> string \<Rightarrow> dict \<Rightarrow> int" where
  "gap_score fstr dump repo_name story_id capability_id gap =
     (let raw = py_lower (dump (JObj gap))
      in (if story_id \<noteq> [] \<and> py_in (py_lower story_id) raw then 100 else 0) +
         (if capability_id \<noteq> [] \<and> py_in (py_lower capability_id) raw then 40 else 0) +
         (if py_in (py_lower repo_name) raw then 20 else 0) +
         (if py_in ''sdk-v1'' raw then 10 else 0) +
         (if gap_status fstr gap \<in> set [''open'', ''claimable'', ''actionable'', ''claimed''] then 5 else 0))"

text \<open>Sorting by falling score keeps the order of equal scores.\<close>

definition rank_gaps :: "(dict \<Rightarrow> int) \<Rightarrow> dict list \<Rightarrow> dict list" where
  "rank_gaps score gaps = filter (\<lambda>g. score g > 0) (sort_key (\<lambda>g. - score g) gaps)"

definition multiple_gaps_message :: string where
  "multiple_gaps_message = ''MULTIPLE_GAP_CANDIDATES: server returned multiple equally ranked canonical gaps.''"

definition select_gap_id ::
  "(json \<Rightarrow> string) \<Rightarrow> (json \<Rightarrow> string) \<Rightarrow> dict \<Rightarrow> string \<Rightarrow> string \<Rightarrow> string \<Rightarrow> flow_error + string" where
  "select_gap_id fstr dump data repo_name story_id capability_id =
     (let score = gap_score fstr dump repo_name story_id capability_id;
          ranked = rank_gaps score (gap_objects (JObj data))
      in if ranked = [] then Inr []
         else
           (case filter (is_claimable_gap fstr) ranked of
              [] \<Rightarrow> Inl (FlowError (no_claimable_gap_message fstr (hd ranked)))
            | best # others \<Rightarrow>
                if length (filter (\<lambda>g. score g = score best) (best # others)) > 1
                then Inl (FlowError multiple_gaps_message)
                else Inr (gap_id_of best)))"

section \<open>Identifiers in answers\<close>

definition context_places :: "dict \<Rightarrow> dict \<times> dict \<times> dict \<times> dict \<times> dict \<times> dict \<times> dict" where
  "context_places d =
     (let inner = sub_dict d ''data''; run_result = sub_dict (sub_dict inner ''run'') ''result''
      in (sub_dict d ''result'', inner, sub_dict d ''keyhole'', run_result, sub_dict inner ''result'',
          sub_dict inner ''output'', sub_dict (sub_dict run_result ''context_card'') ''determinism''))"

definition extract_context_id :: "dict \<Rightarrow> string" where
  "extract_context_id d =
     (let (result, inner, keyhole, run_result, nested, output, determinism) = context_places d
      in first_text
           [json_get d ''governance_context_id'', json_get d ''ctxpack_digest'', json_get d ''digest'',
            json_get d ''ctx_ref_sha256'', json_get result ''governance_context_id'',
            json_get result ''ctxpack_digest'', json_get inner ''governance_context_id'',
            json_get inner ''ctxpack_digest'', json_get nested ''governance_context_id'',
            json_get nested ''ctxpack_digest'', json_get run_result ''governance_context_id'',
            json_get run_result ''ctxpack_digest'', json_get run_result ''ctx_ref_sha256'',
            json_get determinism ''digest'', json_get keyhole ''ctx_ref_sha256''])"

definition hex_char :: "char \<Rightarrow> bool" where
  "hex_char c = (c \<in> set ''0123456789abcdefABCDEF'')"

definition drop_sha_prefix :: "string \<Rightarrow> string" where
  "drop_sha_prefix t = (if starts_with ''sha256:'' t then drop 7 t else t)"

definition valid_ctxpack_digest :: "json \<Rightarrow> string" where
  "valid_ctxpack_digest v =
     (case v of
        JStr s \<Rightarrow>
          (let t = drop_sha_prefix (py_strip s) in if length t = 64 \<and> list_all hex_char t then t else [])
      | _ \<Rightarrow> [])"

fun first_ctxpack_digest :: "json list \<Rightarrow> string" where
  "first_ctxpack_digest [] = []"
| "first_ctxpack_digest (v # vs) =
     (if valid_ctxpack_digest v \<noteq> [] then valid_ctxpack_digest v else first_ctxpack_digest vs)"

definition extract_context_digest :: "dict \<Rightarrow> string" where
  "extract_context_digest d =
     (let (result, inner, keyhole, run_result, nested, output, determinism) = context_places d
      in first_ctxpack_digest
           [json_get d ''ctxpack_digest'', json_get d ''digest'', json_get d ''ctx_ref_sha256'',
            json_get result ''ctxpack_digest'', json_get inner ''ctxpack_digest'',
            json_get nested ''ctxpack_digest'', json_get output ''ctxpack_digest'',
            json_get run_result ''ctxpack_digest'', json_get run_result ''ctx_ref_sha256'',
            json_get determinism ''digest'', json_get keyhole ''ctx_ref_sha256''])"

definition extract_claim_id :: "dict \<Rightarrow> string" where
  "extract_claim_id d =
     (let inner = sub_dict d ''data''
      in first_text
           [json_get d ''claim_id'', json_get (sub_dict d ''result'') ''claim_id'', json_get inner ''claim_id'',
            json_get (sub_dict inner ''result'') ''claim_id'', json_get (sub_dict inner ''run'') ''claim_id''])"

definition extract_claim_ref :: "dict \<Rightarrow> string" where
  "extract_claim_ref d =
     (let inner = sub_dict d ''data''; result = sub_dict d ''result''; nested = sub_dict inner ''result''
      in first_text
           [json_get d ''claim_ref'', json_get d ''claim_token'', json_get result ''claim_ref'',
            json_get result ''claim_token'', json_get inner ''claim_ref'', json_get inner ''claim_token'',
            json_get nested ''claim_ref'', json_get nested ''claim_token'',
            json_get (sub_dict inner ''run'') ''claim_ref''])"

definition canonical_sections :: "dict \<Rightarrow> dict list" where
  "canonical_sections d =
     d # concat (map (\<lambda>k. case json_get d k of
            JObj child \<Rightarrow> child # (case json_get child ''result'' of JObj nested \<Rightarrow> [nested] | _ \<Rightarrow> [])
          | _ \<Rightarrow> []) [''data'', ''result''])"

definition extract_current_canonical_digest :: "dict \<Rightarrow> string" where
  "extract_current_canonical_digest d =
     drop_sha_prefix (py_strip (first_text (concat (map (\<lambda>s.
       [json_get (sub_dict s ''canonical'') ''current_canonical_digest'', json_get s ''current_canonical_digest''])
       (canonical_sections d)))))"

section \<open>Receipts\<close>

definition normalize_receipt :: "string \<Rightarrow> dict \<Rightarrow> string \<Rightarrow> dict" where
  "normalize_receipt now data candidate =
     (let n = unwrap_envelope data; result = sub_dict n ''result''; inner = sub_dict n ''data'';
          receipt = sub_dict result ''receipt''; evidence = sub_dict result ''evidence'';
          everywhere = (\<lambda>k. [json_get n k, json_get result k, json_get inner k, json_get receipt k]);
          three = (\<lambda>k. [json_get n k, json_get result k, json_get inner k]);
          carried = (\<lambda>k. [json_get n k, json_get result k, json_get receipt k])
      in [(''digest'', JStr (first_text (three ''digest'' @ [JStr candidate]))),
          (''status'', JStr (first_text (three ''status'' @ [JStr ''ACCEPT'']))),
          (''message'', JStr (first_text (three ''message''))),
          (''realized_at'', JStr (first_text (three ''realized_at'' @ [JStr now]))),
          (''governed'', JBool (first_flag (everywhere ''governed''))),
          (''event_spine_evidence'', JBool (first_flag (everywhere ''event_spine_evidence''))),
          (''governance_verdict'', JStr (first_text
             [json_get n ''governance_verdict'', json_get n ''verdict'', json_get result ''governance_verdict'',
              json_get result ''verdict'', json_get inner ''governance_verdict'',
              json_get receipt ''governance_verdict'', json_get receipt ''verdict''])),
          (''drift_state'', JStr (first_text (everywhere ''drift_state''))),
          (''governance_context_id'', JStr (first_text (everywhere ''governance_context_id''))),
          (''mcp_event_id'', JStr (first_text
             [json_get n ''mcp_event_id'', json_get n ''mcp_event_pointer'', json_get n ''event_id'',
              json_get result ''mcp_event_id'', json_get result ''mcp_event_pointer'', json_get result ''event_id'',
              json_get result ''event_pointer'', json_get inner ''mcp_event_id'', json_get inner ''mcp_event_pointer'',
              json_get receipt ''mcp_event_id'', json_get receipt ''mcp_event_pointer'',
              json_get evidence ''event_id'', json_get evidence ''event_pointer''])),
          (''proof_id'', JStr (first_text (carried ''proof_id''))),
          (''receipt_id'', JStr (first_text (carried ''receipt_id'' @ [json_get n ''run_id'']))),
          (''passport_digest'', JStr (first_text (carried ''passport_digest''))),
          (''trust_digest'', JStr (first_text (carried ''trust_digest'')))])"

text \<open>
  \<open>GovernanceReceipt.model_validate\<close> and \<open>model_dump\<close>: of the normalised values only the time can be
  refused; \<open>parse_time\<close> is the text of the parsed time.
\<close>

definition model_receipt :: "(string \<Rightarrow> string option) \<Rightarrow> dict \<Rightarrow> flow_error + dict" where
  "model_receipt parse_time d =
     (case parse_time (as_str (json_get d ''realized_at'')) of
        None \<Rightarrow> Inl (FlowCrash ''ValidationError'')
      | Some t \<Rightarrow> Inr (dict_set ''realized_at'' (JStr t) d))"

definition receipt_defect :: "dict \<Rightarrow> string" where
  "receipt_defect r =
     (if json_get r ''governed'' \<noteq> JBool True then ''runtime receipt did not report governed=true.''
      else if json_get r ''event_spine_evidence'' \<noteq> JBool True
        then ''runtime receipt missing upstream event_spine_evidence=true.''
      else if json_get r ''governance_verdict'' \<noteq> JStr ''ACCEPT''
        then ''runtime receipt missing governance_verdict=ACCEPT.''
      else if \<not> json_truthy (json_get r ''drift_state'') then ''runtime receipt missing drift_state.''
      else if \<not> json_truthy (json_get r ''governance_context_id'')
        then ''runtime receipt missing governance_context_id.''
      else if \<not> json_truthy (json_get r ''mcp_event_id'')
        then ''runtime receipt missing mcp_event_id or event pointer.''
      else [])"

definition checked_receipt ::
  "(string \<Rightarrow> string option) \<Rightarrow> string \<Rightarrow> dict \<Rightarrow> string \<Rightarrow> flow_error + dict" where
  "checked_receipt parse_time now data candidate =
     (case model_receipt parse_time (normalize_receipt now data candidate) of
        Inl e \<Rightarrow> Inl e
      | Inr r \<Rightarrow> if receipt_defect r \<noteq> [] then Inl (FlowError (receipt_defect r)) else Inr r)"

section \<open>Errors\<close>

definition detail_text :: "(json \<Rightarrow> string) \<Rightarrow> json \<Rightarrow> string option" where
  "detail_text dump v =
     (case v of
        JStr s \<Rightarrow> if py_strip s \<noteq> [] then Some (py_strip s) else None
      | JObj d \<Rightarrow> if d \<noteq> [] then Some (take 500 (dump (flow_redact v))) else None
      | JList vs \<Rightarrow> if vs \<noteq> [] then Some (take 500 (dump (flow_redact v))) else None
      | _ \<Rightarrow> None)"

fun first_detail :: "(json \<Rightarrow> string) \<Rightarrow> json list \<Rightarrow> string option" where
  "first_detail dump [] = None"
| "first_detail dump (v # vs) =
     (case detail_text dump v of Some t \<Rightarrow> Some t | None \<Rightarrow> first_detail dump vs)"

definition error_detail :: "(json \<Rightarrow> string) \<Rightarrow> dict \<Rightarrow> string" where
  "error_detail dump body =
     (let err = sub_dict body ''error''
      in case first_detail dump
           [json_get body ''reason'', json_get body ''message'', json_get body ''detail'', json_get err ''reason'',
            json_get err ''message'', json_get err ''detail'', json_get err ''code''] of
           Some t \<Rightarrow> t
         | None \<Rightarrow> take 500 (dump (flow_redact (JObj body))))"

text \<open>An answer: its code, its text and its JSON value, if it has one.\<close>

record flow_answer =
  fa_status :: int
  fa_text :: string
  fa_json :: "json option"

definition raise_for_response :: "(json \<Rightarrow> string) \<Rightarrow> flow_answer \<Rightarrow> string \<Rightarrow> flow_error option" where
  "raise_for_response dump a action =
     (if fa_status a \<ge> 400 then
        Some (FlowError (action @ '' failed with HTTP '' @ str_int (fa_status a) @ '': '' @
          (case fa_json a of
             None \<Rightarrow> take 200 (fa_text a)
           | Some (JObj body) \<Rightarrow> error_detail dump body
           | Some v \<Rightarrow> take 500 (fa_text a))))
      else None)"

definition json_object :: "flow_answer \<Rightarrow> flow_error + dict" where
  "json_object a =
     (case fa_json a of
        None \<Rightarrow> Inl (FlowCrash ''JSONDecodeError'')
      | Some (JObj d) \<Rightarrow> Inr d
      | Some v \<Rightarrow> Inl (FlowError ''upstream response was not a JSON object.''))"

definition raise_for_mcp_error :: "dict \<Rightarrow> string \<Rightarrow> flow_error option" where
  "raise_for_mcp_error data action =
     (if json_get data ''ok'' \<noteq> JBool False then None
      else
        (let err = sub_dict data ''error''; inner = sub_dict data ''data'';
             code = first_text [json_get err ''code'', json_get inner ''code''];
             message = first_text [json_get err ''message'', json_get inner ''message'', json_get data ''message''];
             detail = (if code \<noteq> [] \<and> message \<noteq> [] then code @ '': '' @ message
                       else str_or code (str_or message ''MCP returned ok=false''))
         in Some (FlowError (action @ '' rejected by MCP: '' @ detail))))"

text \<open>The three checks that every answer passes, in order.\<close>

definition read_answer :: "(json \<Rightarrow> string) \<Rightarrow> flow_answer \<Rightarrow> string \<Rightarrow> flow_error + dict" where
  "read_answer dump a action =
     (case raise_for_response dump a action of
        Some e \<Rightarrow> Inl e
      | None \<Rightarrow>
          (case json_object a of
             Inl e \<Rightarrow> Inl e
           | Inr data \<Rightarrow>
               (case raise_for_mcp_error data action of Some e \<Rightarrow> Inl e | None \<Rightarrow> Inr data)))"

definition run_status_of :: "dict \<Rightarrow> string" where
  "run_status_of data =
     py_lower (first_text [json_get (sub_dict data ''data'') ''status'', json_get data ''status''])"

definition run_field :: "dict \<Rightarrow> string \<Rightarrow> string" where
  "run_field data k = first_text [json_get (sub_dict data ''data'') k, json_get data k]"

definition run_is_terminal :: "dict \<Rightarrow> bool" where
  "run_is_terminal data =
     (run_status_of data \<in> set async_terminal \<or> json_get (sub_dict data ''data'') ''is_terminal'' = JBool True)"

chapter \<open>Operations\<close>

text \<open>
  What the governed flow reads from the capabilities of the boundary (\<open>governed_demo.py\<close>): the operations it
  may call, whether a claim is needed, the gap they name and how gaps are discovered.
\<close>

record boundary_operation =
  bo_name :: string
  bo_path :: string
  bo_method :: string
  bo_surface :: string
  bo_run_type :: string

type_synonym operations = "(string \<times> boundary_operation) list"

definition runs_start :: string where "runs_start = ''/mcp/v1/runs/start''"

definition mk_operation :: "string \<Rightarrow> string \<Rightarrow> string \<Rightarrow> string \<Rightarrow> string \<Rightarrow> boundary_operation" where
  "mk_operation name path method surface run_type =
     \<lparr>bo_name = name, bo_path = path, bo_method = method, bo_surface = surface, bo_run_type = run_type\<rparr>"

definition add_operation ::
  "string \<Rightarrow> string \<Rightarrow> string \<Rightarrow> string \<Rightarrow> string \<Rightarrow> operations \<Rightarrow> operations" where
  "add_operation name path method surface run_type found =
     (if name = [] then found
      else
        (let path' = (if path = [] \<and> (surface = ''runs.start'' \<or> run_type \<noteq> []) then runs_start else path);
             surface' = (if path' = ''/realize'' then ''runtime'' else surface);
             added = dict_set name (mk_operation name path' (py_upper method) surface' run_type) found
         in case dict_get found name of
              None \<Rightarrow> added
            | Some current \<Rightarrow>
                if bo_run_type current \<noteq> [] \<and> run_type = [] then found
                else if bo_run_type current \<noteq> [] \<and> run_type = name \<and> bo_run_type current \<noteq> run_type then found
                else added))"

definition add_run :: "string \<Rightarrow> string \<Rightarrow> operations \<Rightarrow> operations" where
  "add_run name run_type = add_operation name runs_start ''POST'' ''runs.start'' run_type"

definition register_run_types :: "string list" where
  "register_run_types =
     [''governance.context.create'', ''repo.register'', ''participant.declare'', ''worker.repo.register'']"

definition logical_name :: "string \<Rightarrow> string" where
  "logical_name rt = (if rt \<in> set register_run_types then ''repo.register'' else rt)"

section \<open>Normalised operations\<close>

definition add_normalized :: "(json \<Rightarrow> string) \<Rightarrow> op_definition \<Rightarrow> operations \<Rightarrow> operations" where
  "add_normalized fstr d found =
     (let endpoint = od_canonical_endpoint d;
          method = first_str fstr [json_get endpoint ''method'', JStr (od_method d), JStr ''POST''];
          path = first_str fstr [json_get endpoint ''path'', JStr (od_path d)];
          surface = (if path = runs_start then ''runs.start'' else ''http'')
      in fold (\<lambda>name. add_operation name path method surface (od_canonical_run_type d)) (identifiers d) found)"

section \<open>Raw operations\<close>

definition str_at :: "(json \<Rightarrow> string) \<Rightarrow> dict \<Rightarrow> string \<Rightarrow> string \<Rightarrow> string" where
  "str_at fstr d k other = fstr (dict_get_or d k (JStr other))"

definition add_named :: "(json \<Rightarrow> string) \<Rightarrow> string \<times> json \<Rightarrow> operations \<Rightarrow> operations" where
  "add_named fstr x found =
     (let (name, spec) = x
      in case spec of
           JObj d \<Rightarrow>
             add_operation name (str_at fstr d ''path'' []) (str_at fstr d ''method'' ''POST'')
               (str_at fstr d ''surface'' ''http'') (str_at fstr d ''run_type'' []) found
         | _ \<Rightarrow>
             if json_truthy spec
             then add_operation name (if ends_with ''.realize'' name then runs_start else []) ''POST'' ''http'' [] found
             else found)"

definition add_listed :: "(json \<Rightarrow> string) \<Rightarrow> json \<Rightarrow> operations \<Rightarrow> operations" where
  "add_listed fstr v found =
     (case v of
        JStr name \<Rightarrow> add_operation name [] ''POST'' ''http'' [] found
      | JObj d \<Rightarrow>
          (let path = str_at fstr d ''path'' []; method = str_at fstr d ''method'' ''POST'';
               operation_id = first_str fstr [json_get d ''operation_id'', json_get d ''name'', json_get d ''operation''];
               run_type = first_str fstr [json_get d ''run_type''];
               found' = (if operation_id \<noteq> [] \<and> \<not> json_truthy (json_get d ''run_types'')
                         then add_operation operation_id path method ''http'' run_type found else found)
           in case json_get d ''run_types'' of
                JList rts \<Rightarrow>
                  fold (\<lambda>rt. add_operation (logical_name rt) path method (str_or operation_id ''runs.start'') rt)
                    (only_strings rts) found'
              | _ \<Rightarrow> found')
      | _ \<Rightarrow> found)"

definition add_raw :: "(json \<Rightarrow> string) \<Rightarrow> json \<Rightarrow> operations \<Rightarrow> operations" where
  "add_raw fstr v found =
     (case v of
        JObj d \<Rightarrow> fold (add_named fstr) d found
      | JList vs \<Rightarrow> fold (add_listed fstr) vs found
      | _ \<Rightarrow> found)"

section \<open>The worker contract\<close>

definition add_registration :: "(json \<Rightarrow> string) \<Rightarrow> dict \<Rightarrow> operations \<Rightarrow> operations" where
  "add_registration fstr sdk found =
     (let block = sub_dict sdk ''repo_governance'';
          canonical = first_str fstr [json_get block ''canonical_run_type''];
          aliases = (case json_get block ''logical_aliases'' of JList vs \<Rightarrow> only_strings vs | _ \<Rightarrow> [''repo.register''])
      in if canonical = [] then found
         else add_run ''repo.register'' canonical (fold (\<lambda>alias. add_run alias canonical) aliases found))"

definition add_logical :: "(json \<Rightarrow> string) \<Rightarrow> string \<times> json \<Rightarrow> operations \<Rightarrow> operations" where
  "add_logical fstr x found =
     (let (key, spec) = x
      in case spec of
           JObj d \<Rightarrow>
             (let run_type = first_str fstr [json_get d ''run_type''];
                  path = first_str fstr [json_get d ''path''];
                  method = first_str fstr [json_get d ''method'', JStr ''POST''];
                  surface = first_str fstr [json_get d ''surface'', json_get d ''kind'', JStr ''runs.start''];
                  equivalents = (case json_get d ''equivalent_to'' of JList vs \<Rightarrow> only_strings vs | _ \<Rightarrow> []);
                  names = key # equivalents @ (if run_type \<noteq> [] then [logical_name run_type] else [])
              in fold (\<lambda>name. add_operation name path method surface run_type) names found)
         | _ \<Rightarrow> found)"

definition add_run_if :: "string \<Rightarrow> string \<Rightarrow> operations \<Rightarrow> operations" where
  "add_run_if name run_type found = (if run_type \<noteq> [] then add_run name run_type found else found)"

fun iter_run_types :: "json \<Rightarrow> string list" where
  "iter_run_types (JObj d) =
     concat (map (\<lambda>(k, v). case v of
         JStr s \<Rightarrow> if k \<in> set [''run_type'', ''name'', ''operation''] then [s] else []
       | _ \<Rightarrow> iter_run_types v) d)"
| "iter_run_types (JList vs) = concat (map (\<lambda>v. case v of JStr s \<Rightarrow> [s] | _ \<Rightarrow> iter_run_types v) vs)"
| "iter_run_types _ = []"

definition add_run_type :: "string \<Rightarrow> operations \<Rightarrow> operations" where
  "add_run_type rt found =
     (if rt \<in> set register_run_types then add_run ''repo.register'' rt found
      else if rt \<in> set [''context.compile'', ''governed.realize'', ''gaps.claim''] then add_run rt rt found
      else found)"

definition worker_sdk :: "dict \<Rightarrow> dict" where
  "worker_sdk capabilities = sub_dict capabilities ''governed_worker_sdk''"

definition contract_operations :: "(json \<Rightarrow> string) \<Rightarrow> dict \<Rightarrow> operations \<Rightarrow> operations" where
  "contract_operations fstr data found =
     (let sdk = worker_sdk data; logical = sub_dict sdk ''logical_operation_map'';
          found1 = fold (add_logical fstr) logical (add_registration fstr sdk found);
          found2 = add_run_if ''context.compile''
            (first_str fstr [json_get (sub_dict sdk ''governed_context_compile'') ''canonical_run_type'']) found1;
          found3 = add_run_if ''governed.realize''
            (first_str fstr [json_get (sub_dict logical ''governed_realization'') ''run_type'']) found2
      in fold add_run_type (iter_run_types (JObj data)) found3)"

definition extract_operations :: "(json \<Rightarrow> string) \<Rightarrow> dict \<Rightarrow> flow_error + operations" where
  "extract_operations fstr capabilities =
     (let data = unwrap_envelope capabilities
      in case normalize_operations_from_capabilities fstr capabilities of
           None \<Rightarrow> Inl (FlowCrash ''TypeError'')
         | Some ds \<Rightarrow>
             Inr (contract_operations fstr data
               (add_raw fstr (json_get data ''operations'')
                 (add_raw fstr (json_get capabilities ''operations'')
                   (fold (add_normalized fstr) ds [])))))"

section \<open>Claims and gaps\<close>

definition requires_active_claim :: "dict \<Rightarrow> bool" where
  "requires_active_claim capabilities =
     (json_get (sub_dict (worker_sdk capabilities) ''repo_governance'') ''requires_active_claim'' = JBool True)"

definition two_ids :: "dict \<Rightarrow> json list" where
  "two_ids d = [json_get d ''canonical_gap_id'', json_get d ''gap_id'']"

definition gap_id_candidates :: "dict \<Rightarrow> json list" where
  "gap_id_candidates sdk =
     two_ids sdk @
     concat (map (\<lambda>name. let block = sub_dict sdk name
        in two_ids block @ two_ids (sub_dict block ''gap_id_resolution'') @
           two_ids (sub_dict block ''gap_prerequisite'')) [''gap_claim'', ''repo_governance''])"

fun first_gap_id :: "json list \<Rightarrow> string" where
  "first_gap_id [] = []"
| "first_gap_id (JStr s # vs) = (if starts_with ''gap_'' s then s else first_gap_id vs)"
| "first_gap_id (v # vs) = first_gap_id vs"

definition gap_id_from_capabilities :: "dict \<Rightarrow> string" where
  "gap_id_from_capabilities capabilities = first_gap_id (gap_id_candidates (worker_sdk capabilities))"

definition gap_discovery_operation :: "(json \<Rightarrow> string) \<Rightarrow> dict \<Rightarrow> flow_error + boundary_operation" where
  "gap_discovery_operation fstr capabilities =
     (let sdk = worker_sdk capabilities; discovery = sub_dict (sub_dict sdk ''logical_operation_map'') ''gap_discovery'';
          named = first_str fstr [json_get discovery ''start_with_run_type'', json_get discovery ''run_type''];
          run_type = str_or named (first_str fstr
            [json_get (sub_dict (sub_dict sdk ''gap_claim'') ''gap_id_resolution'') ''start_here_run_type''])
      in if run_type = [] then Inl (FlowError ''MCP capabilities missing gap discovery run type.'')
         else Inr (mk_operation ''gap_discovery'' (first_str fstr [json_get discovery ''path'', JStr runs_start])
           (first_str fstr [json_get discovery ''method'', JStr ''POST''])
           (first_str fstr [json_get discovery ''surface'', JStr ''runs.start'']) run_type))"

end
