(* ===== verification/Governed_Flow.thy ===== *)
theory Governed_Flow
  imports Governed_Boundary
begin

chapter \<open>The client\<close>

text \<open>
  The client of the governed flow: its state, its requests, and the operations it calls on the boundary
  (\<open>GovernedRepoFlowClient\<close> of \<open>governed_flow.py\<close> over the methods it inherits from \<open>governed_demo.py\<close>). One
  client works on one repository, whose path is resolved. An operation is a function of the state that
  returns an error or a value, and the new state, which keeps what was done before the error.
\<close>

section \<open>Environment and state\<close>

record flow_request =
  fq_method :: string
  fq_url :: string
  fq_headers :: headers
  fq_body :: "dict option"

datatype flow_reply = Answered flow_answer | NoAnswer string

datatype gate_run = GateMissing | GateUnloadable | GateRaises string | GateResult dict

text \<open>
  The boundary answers from the requests sent so far. The texts of the current time, the keys and the
  request ids are functions of a counter. So is \<open>ge_clock\<close>, what the monotonic clock would show without the
  sleeps of the client: each sleep adds its two seconds to every later reading.
\<close>

record governed_env =
  ge_mcp_url :: string
  ge_runtime_url :: string
  ge_token :: string
  ge_timeout :: rat
  ge_operator_gap :: string
  ge_env_gap :: string
  ge_net :: "flow_request list \<Rightarrow> flow_reply"
  ge_fstr :: "json \<Rightarrow> string"
  ge_dump :: "json \<Rightarrow> string"
  ge_compact :: "json \<Rightarrow> string"
  ge_clock :: "nat \<Rightarrow> rat"
  ge_now :: "nat \<Rightarrow> string"
  ge_stamp :: "nat \<Rightarrow> string"
  ge_key :: "nat \<Rightarrow> string"
  ge_request_id :: "nat \<Rightarrow> string"
  ge_parse_time :: "string \<Rightarrow> string option"
  ge_sha :: "string \<Rightarrow> string"
  ge_repo_dir :: string
  ge_repo_name :: string
  ge_present :: "string \<Rightarrow> bool"
  ge_yaml :: "string \<Rightarrow> dict"
  ge_digest :: "string \<Rightarrow> string"
  ge_remote :: string
  ge_commit :: string
  ge_branch :: string
  ge_gate :: "string \<Rightarrow> gate_run"

record repo_declaration =
  dc_name :: string
  dc_remote :: string
  dc_commit :: string
  dc_branch :: string
  dc_class :: string
  dc_story :: string
  dc_capability :: string
  dc_digests :: dict
  dc_artifacts :: dict

datatype stored_json = StoredJson json | StoredDamaged

record flow_state =
  gs_sent :: "flow_request list"
  gs_demo :: "(string \<times> stored_json) list"
  gs_latest :: "stored_json option"
  gs_runs :: "(string \<times> dict) list"
  gs_clock :: nat
  gs_slept :: nat
  gs_nows :: nat
  gs_ops :: operations
  gs_caps :: dict
  gs_gap :: string
  gs_gap_source :: string
  gs_verified :: bool
  gs_story :: string
  gs_capability :: string
  gs_class :: string
  gs_declaration :: "repo_declaration option"
  gs_store :: bool
  gs_current :: dict

type_synonym 'a flow = "flow_state \<Rightarrow> (flow_error + 'a) \<times> flow_state"

definition flow_return :: "'a \<Rightarrow> 'a flow" where "flow_return x = (\<lambda>s. (Inr x, s))"

definition flow_lift :: "flow_error + 'a \<Rightarrow> 'a flow" where "flow_lift r = (\<lambda>s. (r, s))"

definition flow_raise :: "string \<Rightarrow> 'a flow" where "flow_raise e = (\<lambda>s. (Inl (FlowError e), s))"

definition flow_bind :: "'a flow \<Rightarrow> ('a \<Rightarrow> 'b flow) \<Rightarrow> 'b flow" where
  "flow_bind m f =
     (\<lambda>s. let (r, s') = m s in (case r of Inl e \<Rightarrow> (Inl e, s') | Inr x \<Rightarrow> f x s'))"

definition flow_get :: "(flow_state \<Rightarrow> 'a) \<Rightarrow> 'a flow" where "flow_get f = (\<lambda>s. (Inr (f s), s))"

definition flow_set :: "(flow_state \<Rightarrow> flow_state) \<Rightarrow> unit flow" where "flow_set f = (\<lambda>s. (Inr (), f s))"

text \<open>An operation that looks at the state first.\<close>

definition flow_with :: "(flow_state \<Rightarrow> 'a flow) \<Rightarrow> 'a flow" where "flow_with f = (\<lambda>s. f s s)"

text \<open>\<open>try: m except GovernedDemoError as exc: h(exc)\<close>.\<close>

definition flow_except :: "'a flow \<Rightarrow> (string \<Rightarrow> 'a flow) \<Rightarrow> 'a flow" where
  "flow_except m h =
     (\<lambda>s. let (r, s') = m s in (case r of Inl (FlowError e) \<Rightarrow> h e s' | _ \<Rightarrow> (r, s')))"

definition flow_when :: "bool \<Rightarrow> unit flow \<Rightarrow> unit flow" where
  "flow_when b m = (if b then m else flow_return ())"

definition current_text :: "governed_env \<Rightarrow> string \<Rightarrow> flow_state \<Rightarrow> string" where
  "current_text env k s = first_str (ge_fstr env) [json_get (gs_current s) k]"

section \<open>The saved state\<close>

definition forbidden_keys :: "string list" where
  "forbidden_keys = [''token'', ''access_token'', ''refresh_token'', ''authorization'']"

definition sanitize_state :: "dict \<Rightarrow> dict" where
  "sanitize_state d = filter (\<lambda>(k, v). py_lower k \<notin> set forbidden_keys) (redact_dict d)"

definition write_run :: "governed_env \<Rightarrow> dict \<Rightarrow> flow_state \<Rightarrow> dict \<times> flow_state" where
  "write_run env state s =
     (let payload = sanitize_state state;
          named = first_str (ge_fstr env) [json_get payload ''run_record_id''];
          key = (if named \<noteq> [] then named else ge_stamp env (gs_nows s));
          payload' = dict_set ''run_record_id'' (JStr key) payload
      in (payload', s\<lparr>gs_nows := gs_nows s + 1, gs_latest := Some (StoredJson (JObj payload')),
                      gs_runs := dict_set key payload' (gs_runs s)\<rparr>))"

definition persist_state :: "governed_env \<Rightarrow> dict \<Rightarrow> unit flow" where
  "persist_state env updates =
     (\<lambda>s. let now = ge_now env (gs_nows s);
              base = (if gs_current s = []
                      then [(''run_record_id'', JStr (ge_stamp env (gs_nows s))), (''created_at'', JStr now),
                            (''updated_at'', JStr now), (''terminal'', JBool False)]
                      else gs_current s);
              merged = dict_setdefault ''created_at'' (JStr now)
                (dict_set ''updated_at'' (JStr now)
                  (dict_update base (filter (\<lambda>(k, v). v \<noteq> JNull) updates)));
              s1 = s\<lparr>gs_nows := gs_nows s + 1, gs_store := gs_store s \<or> gs_declaration s \<noteq> None\<rparr>
          in if gs_store s1
             then (let (written, s2) = write_run env merged s1 in (Inr (), s2\<lparr>gs_current := written\<rparr>))
             else (Inr (), s1\<lparr>gs_current := merged\<rparr>))"

definition load_latest :: "governed_env \<Rightarrow> dict flow" where
  "load_latest env =
     (\<lambda>s. case gs_latest s of
        None \<Rightarrow>
          (Inl (FlowError (''missing governed run state: '' @ ge_repo_dir env @ ''/.keyhole/governed-runs/latest.json. Run '' @
             quoted (''keyhole governed run --repo-dir '' @ ge_repo_dir env) @ '' first.'')), s)
      | Some StoredDamaged \<Rightarrow> (Inl (FlowCrash ''JSONDecodeError''), s)
      | Some (StoredJson (JObj d)) \<Rightarrow> (Inr d, s)
      | Some (StoredJson v) \<Rightarrow>
          (Inl (FlowError (''invalid governed run state: '' @ ge_repo_dir env @ ''/.keyhole/governed-runs/latest.json'')), s))"

definition write_demo :: "string \<Rightarrow> dict \<Rightarrow> unit flow" where
  "write_demo name d = flow_set (\<lambda>s. s\<lparr>gs_demo := dict_set name (StoredJson (JObj (redact_dict d))) (gs_demo s)\<rparr>)"

definition demo_path :: "governed_env \<Rightarrow> string \<Rightarrow> string" where
  "demo_path env name = ge_repo_dir env @ ''/.keyhole/governed-demo/'' @ name"

definition read_demo :: "governed_env \<Rightarrow> string \<Rightarrow> dict flow" where
  "read_demo env name =
     (\<lambda>s. case dict_get (gs_demo s) name of
        None \<Rightarrow> (Inl (FlowError (''missing governed demo state: '' @ demo_path env name)), s)
      | Some StoredDamaged \<Rightarrow> (Inl (FlowCrash ''JSONDecodeError''), s)
      | Some (StoredJson (JObj d)) \<Rightarrow> (Inr d, s)
      | Some (StoredJson v) \<Rightarrow> (Inl (FlowError (''invalid governed demo state: '' @ demo_path env name)), s))"

section \<open>Requests\<close>

definition flow_headers :: "governed_env \<Rightarrow> bool \<Rightarrow> flow_state \<Rightarrow> headers" where
  "flow_headers env idempotent s =
     [(''Authorization'', ''Bearer '' @ ge_token env), (''Content-Type'', ''application/json'')] @
     (if idempotent
      then [(''X-Idempotency-Key'', ge_key env (length (gs_sent s))),
            (''X-Request-Id'', ge_request_id env (length (gs_sent s)))]
      else [])"

definition send_flow :: "governed_env \<Rightarrow> string \<Rightarrow> string \<Rightarrow> headers \<Rightarrow> dict option \<Rightarrow> flow_answer flow" where
  "send_flow env method url hs body =
     (\<lambda>s. let s' = s\<lparr>gs_sent := gs_sent s @ [\<lparr>fq_method = method, fq_url = url, fq_headers = hs, fq_body = body\<rparr>]\<rparr>
          in case ge_net env (gs_sent s') of
               NoAnswer e \<Rightarrow> (Inl (FlowCrash e), s')
             | Answered a \<Rightarrow> (Inr a, s'))"

definition mcp_url :: "governed_env \<Rightarrow> string" where
  "mcp_url env = py_rstrip_char (CHR ''/'') (ge_mcp_url env)"

definition request_mcp ::
  "governed_env \<Rightarrow> string \<Rightarrow> string \<Rightarrow> bool \<Rightarrow> dict option \<Rightarrow> flow_answer flow" where
  "request_mcp env method path idempotent body =
     flow_with (\<lambda>s. send_flow env method (mcp_url env @ path) (flow_headers env idempotent s) body)"

text \<open>One answer, checked; and one poll of a run.\<close>

definition answer_of :: "governed_env \<Rightarrow> string \<Rightarrow> flow_answer \<Rightarrow> dict flow" where
  "answer_of env action a = flow_lift (read_answer (ge_compact env) a action)"

definition poll_path :: "governed_env \<Rightarrow> string \<Rightarrow> string \<Rightarrow> dict flow" where
  "poll_path env action path =
     flow_bind (request_mcp env ''GET'' path False None) (answer_of env (action @ '' status poll''))"

definition run_failure :: "dict \<Rightarrow> string \<Rightarrow> string \<times> string" where
  "run_failure data other =
     (let inner = sub_dict data ''data''; err = sub_dict inner ''error'';
          code = first_text [json_get err ''code'', json_get inner ''terminal_reason'', JStr other]
      in (code, first_text [json_get err ''message'', JStr code]))"

fun poll_paths :: "governed_env \<Rightarrow> string \<Rightarrow> string list \<Rightarrow> dict \<Rightarrow> (dict + dict) flow" where
  "poll_paths env action [] latest = flow_return (Inr latest)"
| "poll_paths env action (path # paths) latest =
     flow_bind (poll_path env action path) (\<lambda>polled.
       if run_is_terminal polled then
         (if run_status_of polled \<in> set async_failed
          then flow_raise (action @ '' failed: '' @ fst (run_failure polled []) @ '': '' @ snd (run_failure polled []))
          else flow_return (Inl polled))
       else poll_paths env action paths polled)"

definition clock_reading :: "governed_env \<Rightarrow> flow_state \<Rightarrow> rat" where
  "clock_reading env s = ge_clock env (gs_clock s) + 2 * of_nat (gs_slept s)"

definition read_clock :: "governed_env \<Rightarrow> rat flow" where
  "read_clock env = (\<lambda>s. (Inr (clock_reading env s), s\<lparr>gs_clock := gs_clock s + 1\<rparr>))"

definition sleep_two :: "unit flow" where
  "sleep_two = flow_set (\<lambda>s. s\<lparr>gs_slept := gs_slept s + 1\<rparr>)"

text \<open>
  Rounds of polls until the deadline, with a sleep after each. The recursion is on fuel; \<open>await_run\<close> gives it
  one round more than the sleeps that fill the time to the deadline, and \<open>governed_commands_end\<close> proves that
  this fuel is never used up.
\<close>

fun poll_rounds :: "governed_env \<Rightarrow> string \<Rightarrow> string list \<Rightarrow> rat \<Rightarrow> nat \<Rightarrow> dict \<Rightarrow> dict flow" where
  "poll_rounds env action paths deadline 0 latest = flow_lift (Inl FlowStuck)"
| "poll_rounds env action paths deadline (Suc n) latest =
     flow_bind (read_clock env) (\<lambda>now.
       if now < deadline then
         flow_bind (poll_paths env action paths latest) (\<lambda>r.
           case r of Inl result \<Rightarrow> flow_return result
                   | Inr latest' \<Rightarrow>
                       flow_bind sleep_two (\<lambda>_. poll_rounds env action paths deadline n latest'))
       else flow_raise (action @ '' did not reach a terminal run status before timeout: '' @
              ge_fstr env (flow_redact (JObj latest))))"

definition flow_patience :: "governed_env \<Rightarrow> rat" where
  "flow_patience env = max (ge_timeout env) 120"

definition flow_deadline :: "governed_env \<Rightarrow> rat \<Rightarrow> rat" where
  "flow_deadline env now = now + flow_patience env"

definition patience_rounds :: "governed_env \<Rightarrow> nat" where
  "patience_rounds env = Suc (nat \<lceil>flow_patience env / 2\<rceil>)"

definition run_paths :: "string \<Rightarrow> string \<Rightarrow> string list" where
  "run_paths poll_url run_id =
     keep_first ((if poll_url \<noteq> [] then [poll_url] else []) @
       (if run_id \<noteq> [] then [''/mcp/v1/runs/'' @ run_id @ ''/status''] else []))"

definition await_run :: "governed_env \<Rightarrow> dict \<Rightarrow> string \<Rightarrow> dict flow" where
  "await_run env data action =
     (let run_id = run_field data ''run_id''; poll_url = run_field data ''poll_url''
      in if run_id = [] \<and> poll_url = []
         then flow_raise (action @ '' accepted asynchronously but returned no run_id or poll_url.'')
         else flow_bind (read_clock env) (\<lambda>now.
           poll_rounds env action (run_paths poll_url run_id) (flow_deadline env now) (patience_rounds env) data))"

definition state_step :: "string \<Rightarrow> string" where
  "state_step action =
     (case dict_get [(''gap discovery'', ''gap_discovery''), (''gap claim'', ''gap_claim''),
         (''repo registration'', ''context_create''), (''pre-claim context compile'', ''preclaim_context''),
         (''context compile'', ''context_compile''), (''governed runtime realization'', ''governed_realize'')] action of
        Some step \<Rightarrow> step
      | None \<Rightarrow> map (\<lambda>c. if c = CHR '' '' then CHR ''_'' else c) action)"

text \<open>An answer that is still running is saved, with the step it belongs to, before it is polled.\<close>

definition resolve_async :: "governed_env \<Rightarrow> string \<Rightarrow> dict \<Rightarrow> dict flow" where
  "resolve_async env action data =
     (if run_status_of data \<notin> set async_active then flow_return data
      else
        flow_bind (flow_get gs_current) (\<lambda>current.
        flow_bind (persist_state env
          [(''step'', JStr (state_step action)), (''status'', JStr (run_status_of data)), (''terminal'', JBool False),
           (''run_id'', JStr (run_field data ''run_id'')), (''poll_url'', JStr (run_field data ''poll_url'')),
           (''correlation_id'',
              if run_field data ''correlation_id'' \<noteq> [] then JStr (run_field data ''correlation_id'')
              else dict_get_or current ''correlation_id'' (JStr []))])
        (\<lambda>_. await_run env data action)))"

definition submit_operation ::
  "governed_env \<Rightarrow> boundary_operation \<Rightarrow> bool \<Rightarrow> dict \<Rightarrow> string \<Rightarrow> dict flow" where
  "submit_operation env op idempotent payload action =
     flow_bind (request_mcp env (bo_method op) (bo_path op) idempotent (Some payload)) (\<lambda>a.
     flow_bind (answer_of env action a) (resolve_async env action))"

section \<open>Discovery\<close>

definition require_operations :: "string list \<Rightarrow> unit flow" where
  "require_operations names =
     (\<lambda>s. let missing = filter (\<lambda>n. dict_get (gs_ops s) n = None) names
          in if missing = [] then (Inr (), s)
             else (Inl (FlowError (''MCP capabilities missing required operation(s): '' @ py_join '', '' missing)), s))"

definition require_operation :: "string \<Rightarrow> boundary_operation flow" where
  "require_operation name =
     flow_bind (require_operations [name]) (\<lambda>_. flow_get (\<lambda>s. the (dict_get (gs_ops s) name)))"

definition discover :: "governed_env \<Rightarrow> unit flow" where
  "discover env =
     flow_bind (send_flow env ''GET'' (mcp_url env @ ''/mcp/v1/capabilities'') [] None) (\<lambda>a.
     flow_bind (case raise_for_response (ge_compact env) a ''capabilities discovery'' of
         Some e \<Rightarrow> flow_lift (Inl e) | None \<Rightarrow> flow_lift (json_object a)) (\<lambda>raw.
     flow_bind (flow_set (\<lambda>s. s\<lparr>gs_caps := unwrap_envelope raw\<rparr>)) (\<lambda>_.
     flow_bind (flow_lift (extract_operations (ge_fstr env) raw)) (\<lambda>ops.
     flow_bind (flow_set (\<lambda>s. s\<lparr>gs_ops := ops\<rparr>)) (\<lambda>_.
     flow_bind (flow_when (requires_active_claim (unwrap_envelope raw)) (require_operations [''gaps.claim''])) (\<lambda>_.
     require_operations [''repo.register'', ''context.compile'', ''governed.realize'']))))))"

definition ensure_discovered :: "governed_env \<Rightarrow> unit flow" where
  "ensure_discovered env = flow_bind (flow_get gs_ops) (\<lambda>ops. flow_when (ops = []) (discover env))"

section \<open>Gaps\<close>

definition discovery_params :: "governed_env \<Rightarrow> flow_state \<Rightarrow> dict" where
  "discovery_params env s =
     [(''status'', JStr ''*''), (''limit'', JInt 50), (''order_by'', JStr ''actionable''),
      (''story_id'', JStr (gs_story s)), (''repo'', JStr (ge_repo_name env)),
      (''repo_name'', JStr (ge_repo_name env)), (''domain'', JStr (ge_repo_name env)),
      (''capability_id'', JStr (gs_capability s)), (''capability'', JStr (gs_capability s)),
      (''fingerprint_version'', JStr ''sdk-v1'')]"

definition run_gap_discovery :: "governed_env \<Rightarrow> boundary_operation \<Rightarrow> dict \<Rightarrow> string flow" where
  "run_gap_discovery env op params =
     flow_bind (submit_operation env op False
         [(''run_type'', JStr (bo_run_type op)), (''params'', JObj params)] ''gap discovery'') (\<lambda>data. flow_with (\<lambda>s.
       flow_lift (select_gap_id (ge_fstr env) (ge_dump env) data (ge_repo_name env) (gs_story s) (gs_capability s))))"

text \<open>A discovery that fails is tried again without the story; of two failures the first is raised.\<close>

definition discover_gap_id :: "governed_env \<Rightarrow> string flow" where
  "discover_gap_id env =
     flow_with (\<lambda>s0. flow_bind (flow_lift (gap_discovery_operation (ge_fstr env) (gs_caps s0))) (\<lambda>op.
       let params = discovery_params env s0; story = gs_story s0
       in flow_bind
         (flow_except
           (flow_bind (run_gap_discovery env op params) (\<lambda>g. flow_return (g, None)))
           (\<lambda>e. if story = [] then flow_raise e else flow_return ([], Some e))) (\<lambda>(found, failure).
         if found \<noteq> [] then flow_return found
         else if story \<noteq> [] then
           flow_except (run_gap_discovery env op (AList.delete ''story_id'' params))
             (\<lambda>e. flow_raise (case failure of Some first \<Rightarrow> first | None \<Rightarrow> e))
         else flow_return [])))"

definition note_gap :: "string \<Rightarrow> string \<Rightarrow> string flow" where
  "note_gap gap source =
     flow_bind (flow_set (\<lambda>s. s\<lparr>gs_gap := gap, gs_gap_source := source\<rparr>)) (\<lambda>_. flow_return gap)"

definition override_name :: string where "override_name = ''KEYHOLE_GOVERNED_GAP_ID''"

definition inherited_gap_id :: "governed_env \<Rightarrow> string flow" where
  "inherited_gap_id env =
     flow_with (\<lambda>s. let override = py_strip (ge_env_gap env); explicit = gap_id_from_capabilities (gs_caps s)
       in if gs_gap s \<noteq> [] then flow_return (gs_gap s)
          else if override \<noteq> [] then
            (if starts_with ''gap_'' override then note_gap override (''diagnostic override '' @ override_name)
             else flow_raise (override_name @ '' must be a canonical gap_* id.''))
          else if explicit \<noteq> [] then note_gap explicit ''capabilities''
          else
            flow_bind (discover_gap_id env) (\<lambda>found.
              if found \<noteq> [] then note_gap found ''gaps.list''
              else flow_raise (''cannot resolve canonical claimable gap_id for story_id='' @
                     str_or (gs_story s) ''<unspecified>'' @
                     ''; capabilities did not provide one and gaps.list returned no matching gap.'')))"

definition gap_hint :: string where
  "gap_hint = '' Run '' @ quoted ''keyhole gaps list --json'' @
     '' to inspect claimable gaps, or pass an explicit canonical gap with --gap-id gap_...''"

definition resolve_gap_id :: "governed_env \<Rightarrow> string flow" where
  "resolve_gap_id env =
     (if ge_operator_gap env \<noteq> [] then
        (if starts_with ''gap_'' (ge_operator_gap env) then
           flow_bind (flow_set (\<lambda>s. s\<lparr>gs_gap := ge_operator_gap env, gs_gap_source := ''operator --gap-id'',
               gs_verified := True\<rparr>)) (\<lambda>_. flow_return (ge_operator_gap env))
         else flow_raise ''--gap-id must be a canonical gap_* id.'')
      else
        flow_except
          (flow_bind (inherited_gap_id env) (\<lambda>gap.
           flow_bind (flow_set (\<lambda>s. s\<lparr>gs_verified := (gs_gap_source s = ''gaps.list'')\<rparr>)) (\<lambda>_. flow_return gap)))
          (\<lambda>e. flow_raise (e @ gap_hint)))"

chapter \<open>The steps\<close>

text \<open>
  The steps of the governed flow and their composition (\<open>governed_flow.py\<close>): the declaration of the
  repository, claim, registration, context, realisation, the recovery of a saved run, and the commands run,
  resume, status and receipt.
\<close>

section \<open>The declaration\<close>

definition declaration_files :: "string list" where
  "declaration_files = [''keyhole.yaml'', ''governance_contract.yaml'', ''capability_passport.yaml'', ''dependencies.yaml'']"

definition git_missing :: "governed_env \<Rightarrow> string list" where
  "git_missing env =
     (if ge_remote env = [] then [''repo_remote''] else []) @ (if ge_commit env = [] then [''commit_sha''] else [])"

definition git_metadata :: "governed_env \<Rightarrow> flow_error + unit" where
  "git_metadata env =
     (if git_missing env = [] then Inr ()
      else Inl (FlowError (''cannot build governance.context.create params; missing required git field(s): '' @
             py_join '', '' (git_missing env))))"

definition capability_name :: "(json \<Rightarrow> string) \<Rightarrow> json \<Rightarrow> string" where
  "capability_name fstr v =
     (case v of JObj d \<Rightarrow> first_str fstr [json_get d ''name'', json_get d ''capability''] | _ \<Rightarrow> [])"

definition json_items :: "dict \<Rightarrow> string \<Rightarrow> json list" where
  "json_items d k = (case json_get d k of JList vs \<Rightarrow> vs | _ \<Rightarrow> [])"

definition first_capability :: "(json \<Rightarrow> string) \<Rightarrow> dict \<Rightarrow> dict \<Rightarrow> string" where
  "first_capability fstr contract passport =
     (case json_items contract ''produces'' of
        v # vs \<Rightarrow> fstr v
      | [] \<Rightarrow> str_or (first_nonempty (map (capability_name fstr) (json_items passport ''capabilities'')))
               (first_str fstr [json_get passport ''capability'']))"

definition repo_class_of :: "(json \<Rightarrow> string) \<Rightarrow> dict \<Rightarrow> string \<Rightarrow> string" where
  "repo_class_of fstr keyhole given =
     (let found = str_or given (str_or (first_str fstr [json_get keyhole ''repo_class'', json_get keyhole ''kind''])
                    (first_str fstr [json_get (sub_dict keyhole ''repo_meta'') ''kind'']))
      in if py_lower found = ''vertical'' then ''SDK_TEMPLATE'' else found)"

definition read_repo_declaration :: "governed_env \<Rightarrow> string \<Rightarrow> string \<Rightarrow> string \<Rightarrow> flow_error + repo_declaration" where
  "read_repo_declaration env story capability class =
     (let missing = filter (\<lambda>n. \<not> ge_present env n) declaration_files;
          keyhole = ge_yaml env ''keyhole.yaml''; contract = ge_yaml env ''governance_contract.yaml'';
          passport = ge_yaml env ''capability_passport.yaml'';
          derived = str_or capability (first_capability (ge_fstr env) contract passport);
          repo_class = repo_class_of (ge_fstr env) keyhole class
      in if missing \<noteq> [] then Inl (FlowError (''missing governance declaration file(s): '' @ py_join '', '' missing))
         else
           (case git_metadata env of
              Inl e \<Rightarrow> Inl e
            | Inr u \<Rightarrow>
                if derived = []
                then Inl (FlowError ''cannot derive capability_id from declaration files; pass --capability-id.'')
                else if repo_class = []
                then Inl (FlowError ''cannot derive repo_class from declaration files; pass --repo-class.'')
                else Inr
                  \<lparr>dc_name = first_str (ge_fstr env) [json_get keyhole ''repo'', JStr (ge_repo_name env)],
                   dc_remote = ge_remote env, dc_commit = ge_commit env, dc_branch = ge_branch env,
                   dc_class = repo_class,
                   dc_story = str_or story (first_str (ge_fstr env)
                     [json_get keyhole ''story_id'', json_get contract ''story_id'']),
                   dc_capability = derived,
                   dc_digests =
                     [(''keyhole_yaml_digest'', JStr (ge_digest env ''keyhole.yaml'')),
                      (''governance_contract_digest'', JStr (ge_digest env ''governance_contract.yaml'')),
                      (''capability_passport_digest'', JStr (ge_digest env ''capability_passport.yaml'')),
                      (''dependencies_digest'', JStr (ge_digest env ''dependencies.yaml''))],
                   dc_artifacts =
                     [(''keyhole'', JObj keyhole), (''governance_contract'', JObj contract),
                      (''capability_passport'', JObj passport),
                      (''dependencies'', JObj (ge_yaml env ''dependencies.yaml''))]\<rparr>))"

definition public_declaration :: "repo_declaration \<Rightarrow> dict" where
  "public_declaration d =
     redact_dict
       [(''repo_name'', JStr (dc_name d)), (''repo_remote'', JStr (dc_remote d)), (''commit_sha'', JStr (dc_commit d)),
        (''branch'', JStr (dc_branch d)), (''repo_class'', JStr (dc_class d)), (''story_id'', JStr (dc_story d)),
        (''capability_id'', JStr (dc_capability d)), (''declaration_file_digests'', JObj (dc_digests d))]"

definition adopt_declaration :: "repo_declaration \<Rightarrow> flow_state \<Rightarrow> flow_state" where
  "adopt_declaration d s =
     s\<lparr>gs_declaration := Some d, gs_story := dc_story d, gs_capability := dc_capability d, gs_class := dc_class d\<rparr>"

definition inspect_repo :: "governed_env \<Rightarrow> bool \<Rightarrow> repo_declaration flow" where
  "inspect_repo env persist =
     flow_with (\<lambda>s. flow_bind (flow_lift (read_repo_declaration env (gs_story s) (gs_capability s) (gs_class s))) (\<lambda>d.
       flow_bind (flow_set (\<lambda>s. (adopt_declaration d s)\<lparr>gs_store := True\<rparr>)) (\<lambda>_.
       flow_bind (flow_when persist (persist_state env
         [(''repo_dir'', JStr (ge_repo_dir env)), (''repo_name'', JStr (dc_name d)),
          (''repo_remote'', JStr (dc_remote d)), (''commit_sha'', JStr (dc_commit d)), (''branch'', JStr (dc_branch d)),
          (''repo_class'', JStr (dc_class d)), (''story_id'', JStr (dc_story d)),
          (''capability_id'', JStr (dc_capability d)), (''declaration_file_digests'', JObj (dc_digests d)),
          (''status'', JStr ''initialized''), (''terminal'', JBool False)])) (\<lambda>_.
       flow_return d))))"

text \<open>Of the story, the capability and the class the saved ones are taken before the client's own.\<close>

definition load_last_state :: "governed_env \<Rightarrow> unit flow" where
  "load_last_state env =
     flow_bind (flow_set (\<lambda>s. s\<lparr>gs_store := True\<rparr>)) (\<lambda>_.
     flow_bind (load_latest env) (\<lambda>current.
     flow_bind (flow_set (\<lambda>s. s\<lparr>gs_current := current\<rparr>)) (\<lambda>_. flow_with (\<lambda>s.
       let saved = (\<lambda>k own. first_str (ge_fstr env) [json_get current k, JStr own])
        in flow_bind (flow_lift (read_repo_declaration env (saved ''story_id'' (gs_story s))
               (saved ''capability_id'' (gs_capability s)) (saved ''repo_class'' (gs_class s)))) (\<lambda>d.
           flow_bind (flow_set (adopt_declaration d)) (\<lambda>_.
           flow_when (json_truthy (json_get current ''resolved_gap_id''))
             (flow_set (\<lambda>s. s\<lparr>gs_gap := ge_fstr env (json_get current ''resolved_gap_id''),
                gs_gap_source := first_str (ge_fstr env) [json_get current ''gap_id_source''],
                gs_verified := False\<rparr>))))))))"

section \<open>Claim\<close>

definition current_canonical_digest :: "governed_env \<Rightarrow> string flow" where
  "current_canonical_digest env =
     (\<lambda>s. let (r, s') =
            flow_bind (request_mcp env ''POST'' runs_start False
              (Some [(''run_type'', JStr ''gaps.status''), (''repo'', JStr (ge_repo_name env)), (''shadow'', JBool False)])) (\<lambda>a.
            if fa_status a \<ge> 400 then flow_return []
            else flow_bind (flow_lift (json_object a)) (\<lambda>d.
              flow_return (if json_get d ''ok'' = JBool False then [] else extract_current_canonical_digest d))) s
          in (Inr (case r of Inl e \<Rightarrow> [] | Inr t \<Rightarrow> t), s'))"

definition compile_preclaim_context :: "governed_env \<Rightarrow> string flow" where
  "compile_preclaim_context env =
     flow_bind (require_operation ''context.compile'') (\<lambda>op.
     flow_bind (flow_get gs_story) (\<lambda>story.
     flow_bind (submit_operation env op True
         [(''run_type'', JStr (str_or (bo_run_type op) ''context.compile'')),
          (''params'', JObj [(''repo'', JStr (ge_repo_name env)), (''gap_id'', JStr story), (''story_id'', JStr story)])]
         ''pre-claim context compile'') (\<lambda>data.
     if extract_context_id data = [] then flow_raise ''pre-claim context.compile response missing ctxpack digest.''
     else flow_return (extract_context_id data))))"

definition claim_context_digest :: "governed_env \<Rightarrow> string flow" where
  "claim_context_digest env =
     flow_bind (current_canonical_digest env) (\<lambda>t.
       if t \<noteq> [] then flow_return t else compile_preclaim_context env)"

definition flow_purpose :: string where "flow_purpose = ''generic governed forked SDK repo flow''"

definition refresh_claimability :: "governed_env \<Rightarrow> unit flow" where
  "refresh_claimability env =
     flow_with (\<lambda>s. let cached = first_str (ge_fstr env) [json_get (gs_current s) ''resolved_gap_id'', JStr (gs_gap s)]
       in if gs_verified s \<or> ge_operator_gap env \<noteq> [] \<or> cached = [] then flow_return ()
          else
            flow_bind (flow_set (\<lambda>s. s\<lparr>gs_gap := []\<rparr>)) (\<lambda>_.
            flow_bind (flow_except (resolve_gap_id env) (\<lambda>e.
                flow_bind (flow_set (\<lambda>s. s\<lparr>gs_gap := cached\<rparr>)) (\<lambda>_.
                flow_bind (persist_state env
                  [(''status'', JStr ''no_claimable_gap''), (''step'', JStr ''gap_resolved''), (''terminal'', JBool False),
                   (''error_code'', JStr ''NO_CLAIMABLE_GAP''), (''error_message'', JStr e)]) (\<lambda>_.
                flow_raise e)))) (\<lambda>live. flow_with (\<lambda>s.
            if live \<noteq> cached then
               persist_state env
                 [(''resolved_gap_id'', JStr live), (''gap_id_source'', JStr (gs_gap_source s)),
                  (''status'', JStr ''gap_resolved''), (''step'', JStr ''gap_resolved''), (''terminal'', JBool False)]
             else flow_return ()))))"

definition claim_payload :: "governed_env \<Rightarrow> boundary_operation \<Rightarrow> string \<Rightarrow> string \<Rightarrow> string \<Rightarrow> dict" where
  "claim_payload env op digest gap story =
     [(''run_type'', JStr (str_or (bo_run_type op) ''gaps.claim'')), (''ctxpack_digest'', JStr digest),
      (''params'', JObj
        [(''gap_id'', JStr gap), (''story_id'', JStr story), (''ctxpack_digest'', JStr digest),
         (''purpose'', JStr flow_purpose), (''repo_remote'', JStr (ge_remote env)),
         (''commit_sha'', JStr (ge_commit env)), (''branch'', JStr (ge_branch env))])]"

definition claim_gap :: "governed_env \<Rightarrow> dict flow" where
  "claim_gap env =
     flow_bind (refresh_claimability env) (\<lambda>_.
     flow_bind (ensure_discovered env) (\<lambda>_.
     flow_bind (require_operation ''gaps.claim'') (\<lambda>op.
     flow_bind (flow_lift (git_metadata env)) (\<lambda>_.
     flow_bind (claim_context_digest env) (\<lambda>digest.
     flow_bind (resolve_gap_id env) (\<lambda>gap.
     flow_bind (flow_get gs_story) (\<lambda>story.
     flow_bind (submit_operation env op True (claim_payload env op digest gap story) ''gap claim'') (\<lambda>data. flow_with (\<lambda>s.
       if extract_claim_id data = [] \<and> extract_claim_ref data = []
        then flow_raise ''gap claim response missing claim_id/claim_ref.''
        else flow_return
          [(''claim_id'', JStr (extract_claim_id data)), (''claim_ref'', JStr (extract_claim_ref data)),
           (''gap_id'', JStr gap), (''gap_id_source'', JStr (gs_gap_source s)), (''ctxpack_digest'', JStr digest),
           (''upstream'', JObj (redact_dict data))])))))))))"

section \<open>Registration\<close>

definition registration_payload ::
  "governed_env \<Rightarrow> repo_declaration \<Rightarrow> boundary_operation \<Rightarrow> dict \<Rightarrow> string \<Rightarrow> dict" where
  "registration_payload env d op claim story =
     (let digest = first_str (ge_fstr env) [json_get claim ''ctxpack_digest''];
          optional = (\<lambda>k. if json_truthy (json_get claim k) then [(k, json_get claim k)] else []);
          params =
            [(''gap_id'', JStr (first_str (ge_fstr env) [json_get claim ''gap_id'', JStr story])),
             (''story_id'', JStr story), (''repo_name'', JStr (dc_name d)), (''repo_remote'', JStr (dc_remote d)),
             (''commit_sha'', JStr (dc_commit d)), (''branch'', JStr (dc_branch d)),
             (''declared_repo_class'', JStr (dc_class d)), (''purpose'', JStr flow_purpose),
             (''origin'', JStr ''keyhole-sdk''), (''declaration_files'', JObj (dc_digests d)),
             (''native_artifacts'', JObj (dc_artifacts d))] @ optional ''claim_id'' @ optional ''claim_ref''
      in if bo_run_type op = [] then
           [(''repo'', JObj [(''name'', JStr (dc_name d)), (''path_digest'', JStr (ge_digest env ''keyhole.yaml''))]),
            (''native_artifacts'', JObj (dc_artifacts d))]
         else if digest = [] then [(''run_type'', JStr (bo_run_type op)), (''params'', JObj params)]
         else
           [(''run_type'', JStr (bo_run_type op)),
            (''params'', JObj (params @ [(''ctxpack_digest'', JStr digest)])),
            (''ctxpack_digest'', JStr digest), (''context_ref'', JStr digest)])"

text \<open>A \<open>data\<close> that is neither an object nor false has no \<open>get\<close>.\<close>

definition registration_id_of :: "dict \<Rightarrow> flow_error + string" where
  "registration_id_of data =
     (let result = sub_dict data ''result''; inner = sub_dict data ''data''
      in if json_truthy (json_get data ''data'') \<and> \<not> is_obj (json_get data ''data'')
         then Inl (FlowCrash ''AttributeError'')
         else Inr (first_text
           ([json_get data ''registration_id'', json_get data ''repo_id'', json_get data ''declaration_id'',
             json_get data ''governance_context_id'', json_get data ''ctxpack_digest'', json_get data ''id'',
             json_get result ''registration_id'', json_get result ''repo_id'', json_get result ''declaration_id'',
             json_get result ''governance_context_id'', json_get inner ''registration_id'',
             json_get (sub_dict inner ''result'') ''registration_id''])))"

definition active_claim :: "governed_env \<Rightarrow> dict flow" where
  "active_claim env =
     flow_with (\<lambda>s. let claim =
             [(''claim_id'', JStr (current_text env ''claim_id'' s)), (''claim_ref'', JStr (current_text env ''claim_ref'' s)),
              (''gap_id'', JStr (first_str (ge_fstr env)
                 [json_get (gs_current s) ''resolved_gap_id'', JStr (gs_gap s), JStr (gs_story s)])),
              (''gap_id_source'', JStr (first_str (ge_fstr env)
                 [json_get (gs_current s) ''gap_id_source'', JStr (gs_gap_source s)])),
              (''ctxpack_digest'', JStr (current_text env ''claim_ctxpack_digest'' s))]
       in flow_bind
            (if current_text env ''claim_id'' s = [] \<and> current_text env ''claim_ref'' s = [] \<and>
                requires_active_claim (unwrap_envelope (gs_caps s))
             then claim_gap env else flow_return claim) (\<lambda>claim.
          if json_truthy (json_get claim ''ctxpack_digest'') then flow_return claim
          else flow_bind (current_canonical_digest env) (\<lambda>t.
            flow_return (dict_set ''ctxpack_digest'' (JStr t) claim))))"

definition declared :: "governed_env \<Rightarrow> repo_declaration flow" where
  "declared env =
     flow_with (\<lambda>s. case gs_declaration s of
        Some d \<Rightarrow> flow_return d
      | None \<Rightarrow> flow_lift (read_repo_declaration env (gs_story s) (gs_capability s) (gs_class s)))"

definition register_repo :: "governed_env \<Rightarrow> dict flow" where
  "register_repo env =
     flow_bind (ensure_discovered env) (\<lambda>_.
     flow_bind (require_operation ''repo.register'') (\<lambda>op.
     flow_bind (active_claim env) (\<lambda>claim.
     flow_bind (declared env) (\<lambda>d.
     flow_bind (flow_get gs_story) (\<lambda>story.
     flow_bind (submit_operation env op True (registration_payload env d op claim story) ''repo registration'') (\<lambda>data.
     flow_bind (flow_lift (registration_id_of data)) (\<lambda>registration_id. flow_with (\<lambda>s.
       if registration_id = []
        then flow_raise ''repo.register response missing registration_id/repo_id/declaration_id/governance_context_id.''
        else
          (let state =
             [(''registration_id'', JStr registration_id), (''claim_id'', dict_get_or claim ''claim_id'' (JStr [])),
              (''claim_ref'', dict_get_or claim ''claim_ref'' (JStr [])),
              (''claim_ctxpack_digest'', dict_get_or claim ''ctxpack_digest'' (JStr [])),
              (''gap_id'', dict_get_or claim ''gap_id'' (JStr (gs_story s))), (''story_id'', JStr (gs_story s)),
              (''gap_id_source'', dict_get_or claim ''gap_id_source'' (JStr (gs_gap_source s))),
              (''upstream'', JObj (redact_dict data))]
           in flow_bind (write_demo ''registration.json'' state) (\<lambda>_. flow_return state))))))))))"

section \<open>Context\<close>

definition context_payload ::
  "governed_env \<Rightarrow> boundary_operation \<Rightarrow> string \<Rightarrow> string \<Rightarrow> flow_state \<Rightarrow> dict" where
  "context_payload env op registration_id digest s =
     (let params =
        [(''repo'', JStr (ge_repo_name env)), (''registration_id'', JStr registration_id),
         (''gap_id'', JStr (first_str (ge_fstr env) [json_get (gs_current s) ''resolved_gap_id'', JStr (gs_story s)])),
         (''story_id'', JStr (gs_story s))]
      in (''run_type'', JStr (str_or (bo_run_type op) ''context.compile'')) #
         (if digest = [] then [(''params'', JObj params)]
          else [(''params'', JObj (params @ [(''ctxpack_digest'', JStr digest)])),
                (''ctxpack_digest'', JStr digest), (''context_ref'', JStr digest)]))"

definition known_registration :: "governed_env \<Rightarrow> string flow" where
  "known_registration env =
     flow_with (\<lambda>s. if current_text env ''registration_id'' s \<noteq> [] then flow_return (current_text env ''registration_id'' s)
           else flow_bind (read_demo env ''registration.json'') (\<lambda>d.
             flow_return (first_str (ge_fstr env) [json_get d ''registration_id''])))"

definition compile_flow_context :: "governed_env \<Rightarrow> dict flow" where
  "compile_flow_context env =
     flow_bind (ensure_discovered env) (\<lambda>_.
     flow_bind (require_operation ''context.compile'') (\<lambda>op.
     flow_bind (known_registration env) (\<lambda>registration_id.
     flow_bind (flow_get (\<lambda>s. json_get (gs_current s) ''claim_ctxpack_digest'')) (\<lambda>claimed.
     flow_bind (current_canonical_digest env) (\<lambda>canonical. flow_with (\<lambda>s.
       flow_bind (submit_operation env op True
           (context_payload env op registration_id (first_text [claimed, JStr canonical]) s) ''context compile'') (\<lambda>data.
         let context_id = extract_context_id data
         in if context_id = []
            then flow_raise ''context.compile response missing governance_context_id or context digest.''
            else
              (let state =
                 [(''governance_context_id'', JStr context_id),
                  (''ctxpack_digest'', JStr (str_or (extract_context_digest data) context_id)),
                  (''registration_id'', JStr registration_id), (''upstream'', JObj (redact_dict data))]
               in flow_bind (write_demo ''context.json'' state) (\<lambda>_. flow_return state)))))))))"

section \<open>Realisation\<close>

definition wanted_invariants :: "governed_env \<Rightarrow> string \<Rightarrow> flow_error + string list" where
  "wanted_invariants env capability =
     (if capability = [] then Inr []
      else
        fold (\<lambda>v acc. case acc of
            Inl e \<Rightarrow> Inl e
          | Inr ids \<Rightarrow>
              (case v of
                 JObj d \<Rightarrow>
                   if capability \<in> {first_str (ge_fstr env) [json_get d ''name''], first_str (ge_fstr env) [json_get d ''capability'']}
                   then (case iterate_json (dict_get_or d ''invariants'' (JList [])) of
                           None \<Rightarrow> Inl (FlowCrash ''TypeError'')
                         | Some vs \<Rightarrow> Inr (ids @ map (ge_fstr env) (filter json_truthy vs)))
                   else Inr ids
               | _ \<Rightarrow> Inr ids))
          (json_items (ge_yaml env ''capability_passport.yaml'') ''capabilities'') (Inr []))"

fun first_gate :: "(json \<Rightarrow> string) \<Rightarrow> string list \<Rightarrow> json list \<Rightarrow> string" where
  "first_gate fstr wanted [] = []"
| "first_gate fstr wanted (JObj d # vs) =
     (let gate = first_str fstr [json_get d ''gate'']
      in if wanted \<noteq> [] \<and> first_str fstr [json_get d ''id''] \<notin> set wanted \<or> gate = []
         then first_gate fstr wanted vs else gate)"
| "first_gate fstr wanted (v # vs) = first_gate fstr wanted vs"

definition declared_gate :: "governed_env \<Rightarrow> string \<Rightarrow> flow_error + string" where
  "declared_gate env capability =
     (let invariants = json_items (ge_yaml env ''governance_contract.yaml'') ''local_invariants''
      in case wanted_invariants env capability of
           Inl e \<Rightarrow> Inl e
         | Inr wanted \<Rightarrow>
             Inr (str_or (first_gate (ge_fstr env) wanted invariants)
               (str_or (case invariants of JObj d # vs \<Rightarrow> first_str (ge_fstr env) [json_get d ''gate''] | _ \<Rightarrow> [])
                  ''tests/invariants/inv_greet.py'')))"

definition run_local_invariant :: "governed_env \<Rightarrow> string \<Rightarrow> flow_error + dict" where
  "run_local_invariant env capability =
     (case declared_gate env capability of
        Inl e \<Rightarrow> Inl e
      | Inr gate \<Rightarrow>
          (case ge_gate env gate of
             GateMissing \<Rightarrow> Inl (FlowError (''local invariant gate missing: '' @ ge_repo_dir env @ ''/'' @ gate))
           | GateUnloadable \<Rightarrow> Inl (FlowError ''cannot load local invariant gate.'')
           | GateRaises e \<Rightarrow> Inl (FlowCrash e)
           | GateResult d \<Rightarrow>
               if json_get d ''verdict'' \<noteq> JStr ''ACCEPT''
               then Inl (FlowError ''local invariant proof rejected; refusing governed realization.'')
               else Inr d))"

definition candidate_digest :: "governed_env \<Rightarrow> dict \<Rightarrow> string \<Rightarrow> string" where
  "candidate_digest env invariant context_id =
     ''sha256:'' @ ge_sha env (ge_compact env (JObj
       [(''repo'', JStr (ge_repo_name env)), (''invariant'', JObj invariant),
        (''governance_context_id'', JStr context_id)]))"

definition context_state_or_empty :: "governed_env \<Rightarrow> dict flow" where
  "context_state_or_empty env = flow_except (read_demo env ''context.json'') (\<lambda>e. flow_return [])"

text \<open>The context of a realisation: its identifier and its digest, from the state or the file.\<close>

definition realization_context :: "governed_env \<Rightarrow> (string \<times> string) flow" where
  "realization_context env =
     flow_with (\<lambda>s. let saved = current_text env ''governance_context_id'' s;
               ref = valid_ctxpack_digest (json_get (gs_current s) ''ctxpack_digest'')
       in flow_bind (if saved \<noteq> [] then flow_return [] else read_demo env ''context.json'') (\<lambda>state.
          let context_id = (if saved \<noteq> [] then saved else first_str (ge_fstr env) [json_get state ''governance_context_id''])
          in if ref \<noteq> [] then flow_return (context_id, ref)
             else flow_bind (if state \<noteq> [] then flow_return state else context_state_or_empty env) (\<lambda>state.
               flow_return (context_id, first_nonempty
                 [valid_ctxpack_digest (json_get state ''ctxpack_digest''),
                  extract_context_digest (sub_dict state ''upstream''),
                  valid_ctxpack_digest (JStr context_id)]))))"

definition realize_params :: "string \<Rightarrow> dict \<Rightarrow> string \<Rightarrow> dict" where
  "realize_params candidate invariant context_id =
     [(''candidate_digest'', JStr candidate), (''require_governed'', JBool True),
      (''governance_context_id'', JStr context_id), (''local_invariant_result'', JObj invariant)]"

definition send_realization ::
  "governed_env \<Rightarrow> boundary_operation \<Rightarrow> dict \<Rightarrow> string \<Rightarrow> flow_answer flow" where
  "send_realization env op params ref =
     (if bo_surface op = ''runtime'' then
        send_flow env ''POST'' (py_rstrip_char (CHR ''/'') (ge_runtime_url env) @ ''/realize'') [] (Some params)
      else
        request_mcp env (bo_method op) (bo_path op) True
          (Some ([(''run_type'', JStr (str_or (bo_run_type op) ''governed.realize'')), (''params'', JObj params)] @
             (if ref \<noteq> [] then [(''ctxpack_digest'', JStr ref), (''context_ref'', JStr ref)] else []))))"

definition read_receipt :: "governed_env \<Rightarrow> dict \<Rightarrow> string \<Rightarrow> dict flow" where
  "read_receipt env data candidate =
     (\<lambda>s. (checked_receipt (ge_parse_time env) (ge_now env (gs_nows s)) data candidate, s\<lparr>gs_nows := gs_nows s + 1\<rparr>))"

definition run_governed_realization :: "governed_env \<Rightarrow> dict flow" where
  "run_governed_realization env =
     flow_bind (ensure_discovered env) (\<lambda>_.
     flow_bind (realization_context env) (\<lambda>(context_id, ref).
     flow_bind (flow_get gs_capability) (\<lambda>capability.
     flow_bind (flow_lift (run_local_invariant env capability)) (\<lambda>invariant.
     let candidate = candidate_digest env invariant context_id
     in flow_bind (persist_state env ((''candidate_digest'', JStr candidate) #
            (if ref \<noteq> [] then [(''ctxpack_digest'', JStr ref)] else []))) (\<lambda>_.
        flow_bind (require_operation ''governed.realize'') (\<lambda>op.
        flow_bind (send_realization env op (realize_params candidate invariant context_id) ref) (\<lambda>a.
        flow_bind (answer_of env ''governed runtime realization'' a) (\<lambda>data.
        flow_bind (resolve_async env ''governed runtime realization'' data) (\<lambda>data.
        flow_bind (read_receipt env data candidate) (\<lambda>receipt.
        flow_bind (write_demo ''receipt.json'' receipt) (\<lambda>_. flow_return receipt)))))))))))"

chapter \<open>The flow\<close>

text \<open>
  The governed flow as a whole (\<open>governed_flow.py\<close>): the recovery of a saved run, the resumption from the
  saved state, and the commands run, resume, status and receipt.
\<close>

section \<open>The state of a receipt\<close>

definition receipt_keys :: "string list" where
  "receipt_keys =
     [''digest'', ''status'', ''message'', ''realized_at'', ''governed'', ''event_spine_evidence'',
      ''governance_verdict'', ''drift_state'', ''governance_context_id'', ''mcp_event_id'', ''proof_id'',
      ''receipt_id'', ''passport_digest'', ''trust_digest'']"

definition receipt_flags :: "string list" where
  "receipt_flags = [''governed'', ''event_spine_evidence'']"

definition receipt_state :: "dict \<Rightarrow> dict" where
  "receipt_state r =
     map (\<lambda>k. (k, if k \<in> set receipt_flags then JBool (json_truthy (dict_get_or r k (JBool False)))
                  else dict_get_or r k (JStr []))) receipt_keys"

definition saved_receipt :: "dict \<Rightarrow> dict" where
  "saved_receipt current =
     map (\<lambda>k. (k, dict_get_or current k (if k \<in> set receipt_flags then JBool False else JStr []))) receipt_keys"

definition result_keys :: "string list" where
  "result_keys =
     [''resolved_gap_id'', ''gap_id_source'', ''claim_id'', ''claim_ref'', ''registration_id'', ''governance_context_id'']"

definition result_from_state :: "repo_declaration \<Rightarrow> dict \<Rightarrow> dict" where
  "result_from_state d current =
     [(''dry_run'', JBool False), (''repo'', JObj (public_declaration d))] @
     map (\<lambda>k. (k, dict_get_or current k (JStr []))) result_keys @
     [(''receipt'', JObj (saved_receipt current))]"

section \<open>Recovery of a saved run\<close>

definition recovered_gap :: "governed_env \<Rightarrow> dict \<Rightarrow> dict \<Rightarrow> dict flow" where
  "recovered_gap env data updates =
     flow_with (\<lambda>s. flow_bind (flow_lift (select_gap_id (ge_fstr env) (ge_dump env) data (ge_repo_name env) (gs_story s) (gs_capability s)))
       (\<lambda>gap. if gap = [] then flow_return updates
              else flow_bind (flow_set (\<lambda>s. s\<lparr>gs_gap := gap\<rparr>)) (\<lambda>_. flow_with (\<lambda>s.
                flow_return (dict_update updates
                   [(''resolved_gap_id'', JStr gap), (''gap_id_source'', JStr (str_or (gs_gap_source s) ''gaps.list'')),
                    (''status'', JStr ''gap_resolved''), (''step'', JStr ''gap_resolved'')])))))"

definition recovered_registration_id :: "dict \<Rightarrow> string" where
  "recovered_registration_id data =
     first_text [json_get data ''registration_id'', json_get data ''repo_id'', json_get data ''declaration_id'',
       json_get (sub_dict data ''result'') ''registration_id'']"

definition recovered_context :: "dict \<Rightarrow> string \<Rightarrow> dict" where
  "recovered_context data reached =
     [(''governance_context_id'', JStr (extract_context_id data)),
      (''ctxpack_digest'', JStr (str_or (extract_context_digest data) (extract_context_id data))),
      (''status'', JStr reached), (''step'', JStr reached)]"

definition receipt_updates :: "dict \<Rightarrow> dict" where
  "receipt_updates r =
     dict_update [(''status'', JStr ''succeeded''), (''step'', JStr ''receipt_ready''), (''terminal'', JBool True),
       (''live_confirmed'', JBool True)] (receipt_state r)"

definition update_from_result :: "governed_env \<Rightarrow> dict \<Rightarrow> unit flow" where
  "update_from_result env data =
     flow_with (\<lambda>s. let step = current_text env ''step'' s;
               cleared = [(''run_id'', JStr []), (''poll_url'', JStr []), (''terminal'', JBool False)]
       in flow_bind
         (if step = ''gap_discovery'' then recovered_gap env data cleared
          else if step = ''gap_claim'' then flow_return (dict_update cleared
            [(''claim_id'', JStr (extract_claim_id data)), (''claim_ref'', JStr (extract_claim_ref data)),
             (''status'', JStr ''claim_succeeded''), (''step'', JStr ''claim_succeeded'')])
          else if step = ''context_create'' then flow_return (dict_update cleared
            [(''registration_id'', JStr (recovered_registration_id data)), (''status'', JStr ''context_created''),
             (''step'', JStr ''context_created'')])
          else if step = ''context_compile'' then
            flow_return (dict_update cleared (recovered_context data ''context_compiled''))
          else if step = ''preclaim_context'' then
            flow_return (dict_update cleared (recovered_context data ''preclaim_context_ready''))
          else if step = ''governed_realize'' then
            flow_bind (read_receipt env data (current_text env ''candidate_digest'' s)) (\<lambda>r.
              flow_return (dict_update cleared (receipt_updates r)))
          else flow_return cleared) (persist_state env))"

definition run_not_found :: "governed_env \<Rightarrow> string \<Rightarrow> unit flow" where
  "run_not_found env name =
     flow_bind (persist_state env
       [(''status'', JStr ''RUN_NOT_FOUND''), (''error_code'', JStr ''RUN_NOT_FOUND''),
        (''error_message'', JStr (''saved MCP run was not found: '' @ name)), (''terminal'', JBool False)]) (\<lambda>_.
     flow_raise ''RUN_NOT_FOUND: saved MCP run was not found; local state was preserved.'')"

definition saved_run_failed :: "governed_env \<Rightarrow> dict \<Rightarrow> unit flow" where
  "saved_run_failed env data =
     (let (code, message) = run_failure data ''RUN_FAILED''
      in flow_bind (persist_state env
           [(''status'', JStr code), (''error_code'', JStr code), (''error_message'', JStr message),
            (''terminal'', JBool True)]) (\<lambda>_.
         flow_raise (code @ '': '' @ message)))"

fun poll_saved_paths :: "governed_env \<Rightarrow> string \<Rightarrow> string list \<Rightarrow> string \<Rightarrow> unit flow" where
  "poll_saved_paths env name [] pending =
     persist_state env [(''status'', JStr (str_or pending ''pending'')), (''terminal'', JBool False)]"
| "poll_saved_paths env name (path # paths) pending =
     flow_bind (request_mcp env ''GET'' path False None) (\<lambda>a.
       if fa_status a = 404 then run_not_found env name
       else flow_bind (answer_of env ''governed run status'' a) (\<lambda>data.
         if run_is_terminal data then
           (if run_status_of data \<in> set async_failed then saved_run_failed env data
            else update_from_result env data)
         else poll_saved_paths env name paths (str_or (run_status_of data) ''pending'')))"

definition saved_run_paths :: "string \<Rightarrow> string \<Rightarrow> string list" where
  "saved_run_paths poll_url run_id =
     keep_first ((if poll_url \<noteq> [] then [poll_url] else []) @
       (if run_id \<noteq> []
        then [''/mcp/v1/runs/'' @ run_id, ''/mcp/v1/runs/'' @ run_id @ ''/status''] else []))"

definition poll_saved_run :: "governed_env \<Rightarrow> unit flow" where
  "poll_saved_run env =
     flow_with (\<lambda>s. let run_id = current_text env ''run_id'' s; poll_url = current_text env ''poll_url'' s
       in if run_id = [] \<and> poll_url = [] then flow_return ()
          else poll_saved_paths env (str_or run_id poll_url) (saved_run_paths poll_url run_id) [])"

definition recover_pending_run :: "governed_env \<Rightarrow> unit flow" where
  "recover_pending_run env =
     flow_with (\<lambda>s. if json_get (gs_current s) ''terminal'' = JBool True then flow_return ()
           else flow_when (json_truthy (json_get (gs_current s) ''run_id'') \<or>
                           json_truthy (json_get (gs_current s) ''poll_url'')) (poll_saved_run env))"

section \<open>The steps\<close>

text \<open>A step is taken when the saved state has no result of it.\<close>

definition unless_saved :: "string list \<Rightarrow> unit flow \<Rightarrow> unit flow" where
  "unless_saved keys m =
     flow_with (\<lambda>s. flow_when (\<not> list_ex (\<lambda>k. json_truthy (json_get (gs_current s) k)) keys) m)"

definition gap_error_text :: string where "gap_error_text = ''NO_CLAIMABLE_GAP''"

definition persist_gap_error :: "governed_env \<Rightarrow> string \<Rightarrow> unit flow" where
  "persist_gap_error env e =
     persist_state env
       [(''status'', JStr (if py_in gap_error_text e then ''no_claimable_gap'' else ''gap_resolution_failed'')),
        (''step'', JStr ''gap_resolution''), (''terminal'', JBool False),
        (''error_code'', JStr (if py_in gap_error_text e then ''NO_CLAIMABLE_GAP'' else ''GAP_RESOLUTION_FAILED'')),
        (''error_message'', JStr e)]"

definition reached :: "string \<Rightarrow> dict" where
  "reached step = [(''status'', JStr step), (''step'', JStr step), (''terminal'', JBool False)]"

definition gap_step :: "governed_env \<Rightarrow> unit flow" where
  "gap_step env =
     unless_saved [''resolved_gap_id'']
       (flow_bind (flow_except (resolve_gap_id env)
            (\<lambda>e. flow_bind (persist_gap_error env e) (\<lambda>_. flow_raise e))) (\<lambda>gap. flow_with (\<lambda>s.
          persist_state env ([(''resolved_gap_id'', JStr gap), (''gap_id_source'', JStr (gs_gap_source s))] @
            reached ''gap_resolved''))))"

definition claim_step :: "governed_env \<Rightarrow> unit flow" where
  "claim_step env =
     unless_saved [''claim_id'', ''claim_ref'']
       (flow_bind (claim_gap env) (\<lambda>claim. flow_with (\<lambda>s.
          persist_state env
            ([(''claim_id'', dict_get_or claim ''claim_id'' (JStr [])),
              (''claim_ref'', dict_get_or claim ''claim_ref'' (JStr [])),
              (''claim_ctxpack_digest'', dict_get_or claim ''ctxpack_digest'' (JStr [])),
              (''resolved_gap_id'', dict_get_or claim ''gap_id'' (JStr (gs_gap s))),
              (''gap_id_source'', dict_get_or claim ''gap_id_source'' (JStr (gs_gap_source s)))] @
             reached ''claim_succeeded''))))"

definition registration_step :: "governed_env \<Rightarrow> unit flow" where
  "registration_step env =
     unless_saved [''registration_id'']
       (flow_bind (register_repo env) (\<lambda>r. flow_with (\<lambda>s.
          persist_state env
            ([(''registration_id'', dict_get_or r ''registration_id'' (JStr [])),
              (''resolved_gap_id'', dict_get_or r ''gap_id'' (JStr (gs_gap s))),
              (''gap_id_source'', dict_get_or r ''gap_id_source'' (JStr (gs_gap_source s))),
              (''claim_id'', dict_get_or r ''claim_id'' (dict_get_or (gs_current s) ''claim_id'' (JStr []))),
              (''claim_ref'', dict_get_or r ''claim_ref'' (dict_get_or (gs_current s) ''claim_ref'' (JStr []))),
              (''claim_ctxpack_digest'', dict_get_or r ''claim_ctxpack_digest''
                 (dict_get_or (gs_current s) ''claim_ctxpack_digest'' (JStr [])))] @
             reached ''context_created''))))"

definition context_step :: "governed_env \<Rightarrow> unit flow" where
  "context_step env =
     unless_saved [''governance_context_id'']
       (flow_bind (compile_flow_context env) (\<lambda>c.
          persist_state env
            ([(''governance_context_id'', dict_get_or c ''governance_context_id'' (JStr [])),
              (''ctxpack_digest'', dict_get_or c ''ctxpack_digest'' (dict_get_or c ''governance_context_id'' (JStr [])))] @
             reached ''context_compiled'')))"

definition final_updates :: "dict \<Rightarrow> dict" where
  "final_updates receipt =
     dict_update [(''status'', JStr ''succeeded''), (''step'', JStr ''receipt_ready''), (''terminal'', JBool True),
       (''live_confirmed'', JBool True), (''run_id'', JStr []), (''poll_url'', JStr [])] (receipt_state receipt)"

definition realize_step :: "governed_env \<Rightarrow> unit flow" where
  "realize_step env =
     flow_with (\<lambda>s. flow_when (\<not> (json_truthy (json_get (gs_current s) ''receipt_id'') \<and>
            json_get (gs_current s) ''terminal'' = JBool True))
        (flow_bind (run_governed_realization env) (\<lambda>receipt. persist_state env (final_updates receipt))))"

section \<open>The commands\<close>

definition start_or_load :: "governed_env \<Rightarrow> bool \<Rightarrow> unit flow" where
  "start_or_load env use_last =
     (let start = flow_bind (inspect_repo env True) (\<lambda>_. flow_return ())
      in if use_last then flow_except (load_last_state env) (\<lambda>e. start) else start)"

definition declaration_or_inspect :: "governed_env \<Rightarrow> repo_declaration flow" where
  "declaration_or_inspect env =
     flow_with (\<lambda>s. case gs_declaration s of Some d \<Rightarrow> flow_return d | None \<Rightarrow> inspect_repo env True)"

definition flow_steps :: "governed_env \<Rightarrow> unit flow" where
  "flow_steps env =
     flow_bind (gap_step env) (\<lambda>_. flow_bind (claim_step env) (\<lambda>_. flow_bind (registration_step env) (\<lambda>_.
     flow_bind (context_step env) (\<lambda>_. realize_step env))))"

definition resume_flow :: "governed_env \<Rightarrow> bool \<Rightarrow> dict flow" where
  "resume_flow env use_last =
     flow_bind (start_or_load env use_last) (\<lambda>_.
     flow_bind (discover env) (\<lambda>_.
     flow_bind (recover_pending_run env) (\<lambda>_.
     flow_bind (declaration_or_inspect env) (\<lambda>d.
     flow_bind (flow_steps env) (\<lambda>_.
     flow_get (\<lambda>s. result_from_state d (gs_current s)))))))"

definition run_flow :: "governed_env \<Rightarrow> bool \<Rightarrow> dict flow" where
  "run_flow env dry_run =
     flow_bind (inspect_repo env False) (\<lambda>d.
     flow_bind (discover env) (\<lambda>_.
     if dry_run then
       flow_bind (if ge_operator_gap env \<noteq> [] then flow_return (ge_operator_gap env) else resolve_gap_id env) (\<lambda>gap. flow_with (\<lambda>s.
         flow_return [(''dry_run'', JBool True), (''repo'', JObj (public_declaration d)), (''resolved_gap_id'', JStr gap),
               (''gap_id_source'', JStr (gs_gap_source s)), (''would_mutate_mcp'', JBool False)]))
     else resume_flow env True))"

definition status_flow :: "governed_env \<Rightarrow> dict flow" where
  "status_flow env =
     flow_bind (load_last_state env) (\<lambda>_.
     flow_bind (discover env) (\<lambda>_.
     flow_bind (recover_pending_run env) (\<lambda>_.
     flow_get (\<lambda>s. redact_dict (dict_set ''live_confirmed''
       (JBool (json_truthy (dict_get_or (gs_current s) ''live_confirmed'' (JBool False)))) (gs_current s))))))"

definition receipt_flow :: "governed_env \<Rightarrow> dict flow" where
  "receipt_flow env =
     flow_bind (load_last_state env) (\<lambda>_. flow_with (\<lambda>s.
       if \<not> json_truthy (json_get (gs_current s) ''receipt_id'') \<and> \<not> json_truthy (json_get (gs_current s) ''proof_id'')
        then flow_raise (''no governed receipt found for '' @ ge_repo_dir env @ ''. Run '' @
               quoted (''keyhole governed run --repo-dir '' @ ge_repo_dir env) @ '' first.'')
        else flow_return (redact_dict
          [(''live_confirmed'', JBool (json_truthy (dict_get_or (gs_current s) ''live_confirmed'' (JBool False)))),
           (''receipt'', JObj (saved_receipt (gs_current s)))])))"

text \<open>A new client; the files of the repository stay.\<close>

definition new_client ::
  "governed_env \<Rightarrow> string \<Rightarrow> string \<Rightarrow> string \<Rightarrow> (string \<times> stored_json) list \<Rightarrow> stored_json option \<Rightarrow> (string \<times> dict) list \<Rightarrow>
   flow_error + flow_state" where
  "new_client env story capability class demo latest runs =
     (if ge_mcp_url env = [] then Inl (FlowError ''KEYHOLE_MCP_URL is required for governed demo flow.'')
      else if ge_token env = [] then Inl (FlowError ''KEYHOLE_MCP_TOKEN is required for governed demo flow.'')
      else Inr
        \<lparr>gs_sent = [], gs_demo = demo, gs_latest = latest, gs_runs = runs, gs_clock = 0, gs_slept = 0, gs_nows = 0, gs_ops = [],
         gs_caps = [], gs_gap = [], gs_gap_source = [], gs_verified = False, gs_story = story,
         gs_capability = capability, gs_class = class, gs_declaration = None, gs_store = False, gs_current = []\<rparr>)"

end
