(* ===== verification/Governed_Flow_Properties.thy ===== *)
theory Governed_Flow_Properties
  imports Governed_Flow
begin

chapter \<open>A calculus\<close>

text \<open>
  A calculus for the operations of the governed client: which invariants of the state they keep, and which
  never get stuck.
\<close>

section \<open>Kept invariants\<close>

definition keeps :: "(flow_state \<Rightarrow> bool) \<Rightarrow> 'a flow \<Rightarrow> bool" where
  "keeps I m = (\<forall>s. I s \<longrightarrow> I (snd (m s)))"

named_theorems keeping

lemma keepsI: "(\<And>s. I s \<Longrightarrow> I (snd (m s))) \<Longrightarrow> keeps I m"
  by (simp add: keeps_def)

lemma keepsD: "keeps I m \<Longrightarrow> m s = (r, s') \<Longrightarrow> I s \<Longrightarrow> I s'"
  by (metis keeps_def snd_conv)

lemma keeps_basic [keeping]:
  "keeps I (flow_return x)" "keeps I (flow_lift r)" "keeps I (flow_raise e)" "keeps I (flow_get f)"
  by (simp_all add: keeps_def flow_return_def flow_lift_def flow_raise_def flow_get_def)

lemma keeps_bind [keeping]: "keeps I m \<Longrightarrow> (\<And>x. keeps I (f x)) \<Longrightarrow> keeps I (flow_bind m f)"
  by (simp add: keeps_def flow_bind_def split: prod.split sum.split) (metis snd_conv)

lemma keeps_bind_where:
  assumes "keeps I m" "\<And>s x s'. m s = (Inr x, s') \<Longrightarrow> keeps I (f x)"
  shows "keeps I (flow_bind m f)"
proof (rule keepsI)
  fix s assume "I s"
  obtain r s' where m: "m s = (r, s')" by fastforce
  with assms(1) \<open>I s\<close> have "I s'" by (blast dest: keepsD)
  then show "I (snd (flow_bind m f s))"
    using m assms(2) by (cases r) (auto simp: flow_bind_def keeps_def)
qed

lemma keeps_except [keeping]:
  assumes "keeps I m" "\<And>e. keeps I (h e)"
  shows "keeps I (flow_except m h)"
proof (rule keepsI)
  fix s assume "I s"
  obtain r s' where m: "m s = (r, s')" by fastforce
  with assms(1) \<open>I s\<close> have "I s'" by (blast dest: keepsD)
  then show "I (snd (flow_except m h s))"
    using m assms(2) by (auto simp: flow_except_def keeps_def split: sum.split flow_error.split)
qed

lemma keeps_when [keeping]: "(b \<Longrightarrow> keeps I m) \<Longrightarrow> keeps I (flow_when b m)"
  by (simp add: flow_when_def keeps_basic)

lemma keeps_with [keeping]: "(\<And>s. keeps I (f s)) \<Longrightarrow> keeps I (flow_with f)"
  by (simp add: keeps_def flow_with_def)

lemma keeps_if [keeping]: "(b \<Longrightarrow> keeps I m) \<Longrightarrow> (\<not> b \<Longrightarrow> keeps I n) \<Longrightarrow> keeps I (if b then m else n)"
  by simp

lemma keeps_Let [keeping]: "(\<And>x. keeps I (f x)) \<Longrightarrow> keeps I (Let v f)"
  by (simp add: Let_def)

lemma keeps_sum [keeping]:
  "(\<And>x. keeps I (f x)) \<Longrightarrow> (\<And>y. keeps I (g y)) \<Longrightarrow> keeps I (case r of Inl x \<Rightarrow> f x | Inr y \<Rightarrow> g y)"
  by (cases r) simp_all

lemma keeps_option [keeping]:
  "keeps I m \<Longrightarrow> (\<And>y. keeps I (g y)) \<Longrightarrow> keeps I (case r of None \<Rightarrow> m | Some y \<Rightarrow> g y)"
  by (cases r) simp_all

lemma keeps_prod [keeping]: "(\<And>x y. keeps I (f x y)) \<Longrightarrow> keeps I (case p of (x, y) \<Rightarrow> f x y)"
  by (cases p) simp

lemma keeps_reads [keeping]:
  "keeps I (load_latest env)" "keeps I (read_demo env name)" "keeps I (require_operations names)"
  by (simp_all add: keeps_def load_latest_def read_demo_def require_operations_def Let_def
      split: option.split stored_json.split json.split)

section \<open>Fields the client does not change\<close>

text \<open>
  An invariant that depends only on what is saved and sent: it may look at the requests, the saved state
  and the files, and not at the counters and the client's own fields.
\<close>

definition record_only :: "(flow_state \<Rightarrow> bool) \<Rightarrow> bool" where
  "record_only I =
     (\<forall>s s'. gs_sent s' = gs_sent s \<and> gs_current s' = gs_current s \<and> gs_latest s' = gs_latest s \<and>
        gs_runs s' = gs_runs s \<and> gs_demo s' = gs_demo s \<longrightarrow> I s \<longrightarrow> I s')"

lemma keeps_fields:
  assumes "record_only I"
    "\<And>s. gs_sent (f s) = gs_sent s \<and> gs_current (f s) = gs_current s \<and> gs_latest (f s) = gs_latest s \<and>
        gs_runs (f s) = gs_runs s \<and> gs_demo (f s) = gs_demo s"
  shows "keeps I (flow_set f)"
  using assms unfolding keeps_def flow_set_def record_only_def by simp

lemma keeps_counters:
  assumes "record_only I"
  shows "keeps I (read_clock env)" "keeps I (read_receipt env data candidate)" "keeps I sleep_two"
  using assms unfolding keeps_def read_clock_def read_receipt_def record_only_def sleep_two_def flow_set_def by simp_all

section \<open>Updates\<close>

definition evidence_keys :: "string list" where
  "evidence_keys =
     [''receipt_id'', ''governed'', ''event_spine_evidence'', ''governance_verdict'', ''drift_state'', ''mcp_event_id'']"

text \<open>Updates leave the evidence alone, or hold a receipt that passed the checks.\<close>

definition plain_updates :: "dict \<Rightarrow> bool" where
  "plain_updates u = (\<forall>k\<in>fst ` set u. k \<notin> set evidence_keys)"

definition certified_updates :: "dict \<Rightarrow> bool" where
  "certified_updates u =
     (distinct (map fst u) \<and> dict_get u ''governed'' = Some (JBool True) \<and>
      dict_get u ''event_spine_evidence'' = Some (JBool True) \<and>
      dict_get u ''governance_verdict'' = Some (JStr ''ACCEPT'') \<and>
      (\<exists>v. dict_get u ''drift_state'' = Some v \<and> json_truthy v) \<and>
      (\<exists>v. dict_get u ''mcp_event_id'' = Some v \<and> json_truthy v))"

lemma distinct_dict_update: "distinct (map fst d) \<Longrightarrow> distinct (map fst (dict_update d e))"
  unfolding dict_update_def
  by (induction e arbitrary: d) (auto simp: dict_set_def distinct_update)

lemma map_of_rev: "distinct (map fst xs) \<Longrightarrow> map_of (rev xs) = map_of xs"
  by (subst map_of_inject_set) (simp_all add: rev_map [symmetric])

lemma dict_update_keys: "fst ` set (dict_update d e) = fst ` set d \<union> fst ` set e"
  unfolding dict_update_def
proof (induction e arbitrary: d)
  case (Cons x e)
  have "fst ` set (dict_set k v d) = insert k (fst ` set d)" for k v
    using arg_cong [OF update_keys [of k v d], of set] by (auto simp: dict_set_def)
  with Cons show ?case by (cases x) simp
qed simp

lemma plain_dict_update: "plain_updates u \<Longrightarrow> plain_updates e \<Longrightarrow> plain_updates (dict_update u e)"
  by (auto simp: plain_updates_def dict_update_keys)

lemma receipt_state_get:
  "dict_get (receipt_state r) k =
     (if k \<in> set receipt_keys
      then Some (if k \<in> set receipt_flags then JBool (json_truthy (dict_get_or r k (JBool False)))
                 else dict_get_or r k (JStr [])) else None)"
  unfolding dict_get_def receipt_state_def map_of_map_restrict by (simp add: restrict_map_def)

lemma receipt_state_distinct: "distinct (map fst (receipt_state r))"
  by (simp add: receipt_state_def comp_def receipt_keys_def)

lemma dict_get_receipt:
  "k \<in> set receipt_keys \<Longrightarrow> dict_get (dict_update d (receipt_state r)) k = dict_get (receipt_state r) k"
  by (simp add: dict_get_update receipt_state_distinct map_of_rev flip: dict_get_def) (simp add: receipt_state_get)

lemma receipt_certified:
  assumes "receipt_defect r = []" "distinct (map fst d)"
  shows "certified_updates (dict_update d (receipt_state r))"
proof -
  have fields: "json_get r ''governed'' = JBool True" "json_get r ''event_spine_evidence'' = JBool True"
      "json_get r ''governance_verdict'' = JStr ''ACCEPT''" "json_truthy (json_get r ''drift_state'')"
      "json_truthy (json_get r ''mcp_event_id'')"
    using assms(1) by (auto simp: receipt_defect_def split: if_splits)
  note receipt = dict_get_receipt receipt_state_get receipt_keys_def receipt_flags_def json_get_def dict_get_or_def
  let ?u = "dict_update d (receipt_state r)"
  have "dict_get ?u ''governed'' = Some (JBool True)"
    using fields(1) by (simp add: receipt split: option.splits)
  moreover have "dict_get ?u ''event_spine_evidence'' = Some (JBool True)"
    using fields(2) by (simp add: receipt split: option.splits)
  moreover have "dict_get ?u ''governance_verdict'' = Some (JStr ''ACCEPT'')"
    using fields(3) by (simp add: receipt split: option.splits)
  moreover have "\<exists>v. dict_get ?u ''drift_state'' = Some v \<and> json_truthy v"
    using fields(4) by (simp add: receipt split: option.splits)
  moreover have "\<exists>v. dict_get ?u ''mcp_event_id'' = Some v \<and> json_truthy v"
    using fields(5) by (simp add: receipt split: option.splits)
  ultimately show ?thesis
    using distinct_dict_update [OF assms(2)] by (simp add: certified_updates_def)
qed

lemma final_certified: "receipt_defect r = [] \<Longrightarrow> certified_updates (final_updates r)"
  unfolding final_updates_def by (rule receipt_certified) simp_all

lemma dict_get_dict_update:
  "distinct (map fst u) \<Longrightarrow> dict_get (dict_update d u) k = (case dict_get u k of None \<Rightarrow> dict_get d k | Some v \<Rightarrow> Some v)"
  by (simp add: dict_get_update map_of_rev flip: dict_get_def)

lemma certified_dict_update: "certified_updates u \<Longrightarrow> distinct (map fst d) \<Longrightarrow> certified_updates (dict_update d u)"
  unfolding certified_updates_def by (elim conjE exE) (simp add: dict_get_dict_update distinct_dict_update)

lemma recovered_certified:
  assumes "receipt_defect r = []" "distinct (map fst d)"
  shows "certified_updates (dict_update d (receipt_updates r))"
  unfolding receipt_updates_def by (intro certified_dict_update receipt_certified assms) simp

text \<open>Which values an operation may return.\<close>

definition returns :: "('a \<Rightarrow> bool) \<Rightarrow> 'a flow \<Rightarrow> bool" where
  "returns P m = (\<forall>s x s'. m s = (Inr x, s') \<longrightarrow> P x)"

lemma returns_bind: "(\<And>x. returns P (f x)) \<Longrightarrow> returns P (flow_bind m f)"
  by (auto simp: returns_def flow_bind_def split: prod.splits sum.splits)

lemma returns_bind_where: "returns Q m \<Longrightarrow> (\<And>x. Q x \<Longrightarrow> returns P (f x)) \<Longrightarrow> returns P (flow_bind m f)"
  unfolding returns_def flow_bind_def by (simp split: prod.split sum.split) blast

lemma returns_return: "P x \<Longrightarrow> returns P (flow_return x)"
  by (simp add: returns_def flow_return_def)

lemma read_receipt_checked: "returns (\<lambda>r. receipt_defect r = []) (read_receipt env data candidate)"
  by (auto simp: returns_def read_receipt_def checked_receipt_def split: sum.splits if_splits)

lemma realization_checked: "returns (\<lambda>r. receipt_defect r = []) (run_governed_realization env)"
proof -
  have last_steps: "returns (\<lambda>r. receipt_defect r = []) (flow_bind (read_receipt env data candidate)
      (\<lambda>receipt. flow_bind (write_demo ''receipt.json'' receipt) (\<lambda>_. flow_return receipt)))" for data candidate
    by (intro returns_bind_where [OF read_receipt_checked] returns_bind returns_return)
  show ?thesis
    unfolding run_governed_realization_def Let_def case_prod_beta
    by (rule returns_bind, rule returns_bind, rule returns_bind, rule returns_bind, rule returns_bind, rule returns_bind,
        rule returns_bind, rule returns_bind, rule returns_bind, rule last_steps)
qed

section \<open>What the commands do to the record\<close>

text \<open>
  An operation sends requests with the headers of the client to the boundary, and others without; it writes
  files of the demo; it persists updates; and it takes the saved state for its own.
\<close>

locale flow_record =
  fixes I :: "flow_state \<Rightarrow> bool" and env :: governed_env
  assumes only: "record_only I"
    and sends: "keeps I (request_mcp env verb path idempotent body)"
    and sends_plain: "keeps I (send_flow env verb url [] body)"
    and demo: "keeps I (write_demo name d)"
    and persists: "plain_updates u \<or> certified_updates u \<Longrightarrow> keeps I (persist_state env u)"
    and loads: "I s \<Longrightarrow> gs_latest s = Some (StoredJson (JObj c)) \<Longrightarrow> I (s\<lparr>gs_current := c\<rparr>)"
begin

lemmas fields_kept = keeps_fields [OF only] keeps_counters [OF only]

lemma plain_persists: "plain_updates u \<Longrightarrow> keeps I (persist_state env u)"
  using persists by blast

lemmas plain_simps = plain_updates_def evidence_keys_def

lemma canonical_kept [keeping]: "keeps I (current_canonical_digest env)"
proof -
  have "keeps I (flow_bind (request_mcp env ''POST'' runs_start False
      (Some [(''run_type'', JStr ''gaps.status''), (''repo'', JStr (ge_repo_name env)), (''shadow'', JBool False)])) (\<lambda>a.
    if fa_status a \<ge> 400 then flow_return []
    else flow_bind (flow_lift (json_object a)) (\<lambda>d.
      flow_return (if json_get d ''ok'' = JBool False then [] else extract_current_canonical_digest d))))"
    by (intro keeping sends)
  then show ?thesis unfolding keeps_def current_canonical_digest_def by (simp add: case_prod_beta Let_def)
qed

lemma poll_paths_kept: "keeps I (poll_paths env action paths data)"
  by (induction paths arbitrary: data) (auto simp: poll_path_def answer_of_def intro!: keeping sends)

lemma poll_rounds_kept: "keeps I (poll_rounds env action paths deadline n data)"
  by (induction n arbitrary: data) (auto intro!: keeping fields_kept poll_paths_kept)

lemma resolve_async_kept [keeping]: "keeps I (resolve_async env action data)"
  unfolding resolve_async_def await_run_def
  by (intro keeping fields_kept poll_rounds_kept plain_persists) (simp_all add: plain_simps)

lemma submit_kept [keeping]: "keeps I (submit_operation env op idempotent payload action)"
  unfolding submit_operation_def answer_of_def by (intro keeping sends)

lemma discover_kept [keeping]: "keeps I (discover env)"
  unfolding discover_def by (intro keeping sends_plain fields_kept) simp_all

lemma ensure_kept [keeping]: "keeps I (ensure_discovered env)"
  unfolding ensure_discovered_def by (intro keeping)

lemma require_kept [keeping]: "keeps I (require_operation name)"
  unfolding require_operation_def by (intro keeping)

lemma discover_gap_kept [keeping]: "keeps I (discover_gap_id env)"
  unfolding discover_gap_id_def run_gap_discovery_def by (intro keeping)

lemma resolve_gap_kept [keeping]: "keeps I (resolve_gap_id env)"
  unfolding resolve_gap_id_def inherited_gap_id_def note_gap_def
  by (intro keeping fields_kept) simp_all

lemma claim_context_kept [keeping]: "keeps I (claim_context_digest env)"
  unfolding claim_context_digest_def compile_preclaim_context_def by (intro keeping)

lemma read_files_kept [keeping]: "keeps I (declared env)" "keeps I (known_registration env)"
  unfolding declared_def known_registration_def by (intro keeping)+

lemma compile_context_kept [keeping]: "keeps I (compile_flow_context env)"
  unfolding compile_flow_context_def by (intro keeping demo)

lemma realization_context_kept [keeping]: "keeps I (realization_context env)"
  unfolding realization_context_def context_state_or_empty_def by (intro keeping)

lemma send_realization_kept [keeping]: "keeps I (send_realization env op params ref)"
  unfolding send_realization_def by (intro keeping sends sends_plain)

lemma inspect_kept [keeping]: "keeps I (inspect_repo env persist)"
  unfolding inspect_repo_def
  by (intro keeping fields_kept plain_persists) (simp_all add: plain_simps adopt_declaration_def)

lemma load_kept:
  assumes "\<And>c. keeps I (g c)"
  shows "keeps I (flow_bind (load_latest env) (\<lambda>c. flow_bind (flow_set (\<lambda>s. s\<lparr>gs_current := c\<rparr>)) (\<lambda>_. g c)))"
proof (rule keepsI)
  fix s assume "I s"
  then show "I (snd (flow_bind (load_latest env) (\<lambda>c. flow_bind (flow_set (\<lambda>s. s\<lparr>gs_current := c\<rparr>)) (\<lambda>_. g c)) s))"
    using assms loads
    by (auto simp: flow_bind_def load_latest_def flow_set_def keeps_def split: option.split stored_json.split json.split)
qed

lemma load_last_kept [keeping]: "keeps I (load_last_state env)"
  unfolding load_last_state_def
  by (rule keeps_bind, rule fields_kept, simp, rule load_kept, intro keeping fields_kept)
    (simp_all add: adopt_declaration_def)

lemma refresh_kept [keeping]: "keeps I (refresh_claimability env)"
  unfolding refresh_claimability_def
  by (intro keeping fields_kept plain_persists) (simp_all add: plain_simps)

lemma claim_kept [keeping]: "keeps I (claim_gap env)"
  unfolding claim_gap_def by (intro keeping)

lemma register_kept [keeping]: "keeps I (register_repo env)"
  unfolding register_repo_def active_claim_def by (intro keeping demo)

lemma realization_kept [keeping]: "keeps I (run_governed_realization env)"
  unfolding run_governed_realization_def answer_of_def
  by (intro keeping fields_kept demo plain_persists) (simp_all add: plain_simps)

lemma recovered_gap_plain: "plain_updates u \<Longrightarrow> returns plain_updates (recovered_gap env data u)"
  unfolding recovered_gap_def returns_def
  by (auto simp: flow_with_def flow_bind_def flow_lift_def flow_return_def flow_set_def
      intro!: plain_dict_update split: sum.splits if_splits) (simp add: plain_simps)

lemma persists_of: "keeps I m \<Longrightarrow> returns (\<lambda>u. plain_updates u \<or> certified_updates u) m \<Longrightarrow>
    keeps I (flow_bind m (persist_state env))"
  by (erule keeps_bind_where) (auto simp: returns_def intro: persists)

lemma returns_weaken: "returns P m \<Longrightarrow> (\<And>x. P x \<Longrightarrow> Q x) \<Longrightarrow> returns Q m"
  by (auto simp: returns_def)

lemma update_kept: "keeps I (update_from_result env data)"
  unfolding update_from_result_def Let_def
proof (rule keeps_with, rule persists_of, goal_cases)
  case (1 s)
  show ?case unfolding recovered_gap_def by (intro keeping fields_kept) simp_all
next
  case (2 s)
  have "plain_updates [(''run_id'', JStr []), (''poll_url'', JStr []), (''terminal'', JBool False)]"
    by (simp add: plain_simps)
  then show ?case
    by (auto intro!: returns_return plain_dict_update returns_bind_where [OF read_receipt_checked] recovered_certified
        returns_weaken [OF recovered_gap_plain]) (simp_all add: plain_simps recovered_context_def)
qed

lemma paths_kept: "keeps I (poll_saved_paths env name paths pending)"
  by (induction paths arbitrary: pending)
    (auto simp: run_not_found_def saved_run_failed_def answer_of_def split: prod.split
      intro!: keeping sends plain_persists update_kept, simp_all add: plain_simps)

lemma recover_kept [keeping]: "keeps I (recover_pending_run env)"
  unfolding recover_pending_run_def poll_saved_run_def by (intro keeping paths_kept)

lemma gap_step_kept [keeping]: "keeps I (gap_step env)"
  unfolding gap_step_def unless_saved_def persist_gap_error_def reached_def
  by (intro keeping plain_persists) (simp_all add: plain_simps)

lemma claim_step_kept [keeping]: "keeps I (claim_step env)"
  unfolding claim_step_def unless_saved_def reached_def
  by (intro keeping plain_persists) (simp_all add: plain_simps)

lemma registration_step_kept [keeping]: "keeps I (registration_step env)"
  unfolding registration_step_def unless_saved_def reached_def
  by (intro keeping plain_persists) (simp_all add: plain_simps)

lemma context_step_kept [keeping]: "keeps I (context_step env)"
  unfolding context_step_def unless_saved_def reached_def
  by (intro keeping plain_persists) (simp_all add: plain_simps)

lemma realize_step_kept [keeping]: "keeps I (realize_step env)"
  unfolding realize_step_def
  by (intro keeping keeps_bind_where [OF realization_kept] persists)
    (use realization_checked in \<open>auto simp: returns_def intro: final_certified\<close>)

lemma start_kept [keeping]: "keeps I (start_or_load env use_last)"
  unfolding start_or_load_def Let_def by (intro keeping)

lemma resume_kept: "keeps I (resume_flow env use_last)"
  unfolding resume_flow_def flow_steps_def declaration_or_inspect_def by (intro keeping)

lemma run_kept: "keeps I (run_flow env dry_run)"
  unfolding run_flow_def by (intro keeping resume_kept)

lemma status_kept: "keeps I (status_flow env)"
  unfolding status_flow_def by (intro keeping)

lemma receipt_kept: "keeps I (receipt_flow env)"
  unfolding receipt_flow_def by (intro keeping)

end

section \<open>Operations that end\<close>

text \<open>
  The only loop waits for a run until a deadline, and sleeps in every round. All that the end of it needs of
  the clock is that \<open>time.monotonic\<close> does not go backwards and a sleep lasts as long as asked.
\<close>

definition clock_monotonic :: "governed_env \<Rightarrow> bool" where
  "clock_monotonic env = (\<forall>j k. j \<le> k \<longrightarrow> ge_clock env j \<le> ge_clock env k)"

definition ends :: "'a flow \<Rightarrow> bool" where
  "ends m = (\<forall>s. fst (m s) \<noteq> Inl FlowStuck)"

named_theorems ending

lemma ends_basic [ending]:
  "ends (flow_return x)" "ends (flow_raise e)" "ends (flow_get f)" "ends (flow_set g)"
  by (simp_all add: ends_def flow_return_def flow_raise_def flow_get_def flow_set_def)

lemma ends_lift: "r \<noteq> Inl FlowStuck \<Longrightarrow> ends (flow_lift r)"
  by (simp add: ends_def flow_lift_def)

lemma ends_bind [ending]: "ends m \<Longrightarrow> (\<And>x. ends (f x)) \<Longrightarrow> ends (flow_bind m f)"
  unfolding ends_def flow_bind_def by (simp split: prod.split sum.split) (metis fst_conv)

lemma ends_except [ending]: "ends m \<Longrightarrow> (\<And>e. ends (h e)) \<Longrightarrow> ends (flow_except m h)"
  unfolding ends_def flow_except_def
  by (simp split: prod.split sum.split flow_error.split) (metis fst_conv)

lemma ends_when [ending]: "(b \<Longrightarrow> ends m) \<Longrightarrow> ends (flow_when b m)"
  by (simp add: flow_when_def ends_basic)

lemma ends_with [ending]: "(\<And>s. ends (f s)) \<Longrightarrow> ends (flow_with f)"
  by (simp add: ends_def flow_with_def)

lemma ends_if [ending]: "(b \<Longrightarrow> ends m) \<Longrightarrow> (\<not> b \<Longrightarrow> ends n) \<Longrightarrow> ends (if b then m else n)"
  by simp

lemma ends_Let [ending]: "(\<And>x. ends (f x)) \<Longrightarrow> ends (Let v f)"
  by (simp add: Let_def)

lemma ends_option [ending]: "ends m \<Longrightarrow> (\<And>y. ends (g y)) \<Longrightarrow> ends (case r of None \<Rightarrow> m | Some y \<Rightarrow> g y)"
  by (cases r) simp_all

lemma ends_prod [ending]: "(\<And>x y. ends (f x y)) \<Longrightarrow> ends (case p of (x, y) \<Rightarrow> f x y)"
  by (cases p) simp

lemma ends_states [ending]:
  "ends (persist_state env u)" "ends (load_latest env)" "ends (read_demo env name)" "ends (write_demo name d)"
  "ends (require_operations names)" "ends (send_flow env verb url hs body)" "ends (current_canonical_digest env)"
  "ends (read_clock env)" "ends sleep_two"
  by (auto simp: ends_def persist_state_def load_latest_def read_demo_def write_demo_def flow_set_def Let_def
      require_operations_def send_flow_def current_canonical_digest_def read_clock_def sleep_two_def
      split: option.split stored_json.split json.split flow_reply.split prod.split)

lemma lifted_ends [ending]:
  "ends (flow_lift (read_answer dump a action))" "ends (flow_lift (json_object a))"
  "ends (flow_lift (extract_operations fstr raw))"
  "ends (flow_lift (select_gap_id fstr dump data repo story capability))"
  "ends (flow_lift (gap_discovery_operation fstr capabilities))" "ends (flow_lift (git_metadata env))"
  "ends (flow_lift (read_repo_declaration env st ca cl))" "ends (flow_lift (registration_id_of data))"
  by (auto simp: read_answer_def raise_for_response_def json_object_def raise_for_mcp_error_def extract_operations_def
      select_gap_id_def gap_discovery_operation_def git_metadata_def read_repo_declaration_def registration_id_of_def
      Let_def intro!: ends_lift split: option.split json.split list.split)

lemma wanted_ends: "wanted_invariants env capability \<noteq> Inl FlowStuck"
proof -
  have "fold (\<lambda>v acc. case acc of Inl e \<Rightarrow> Inl e | Inr ids \<Rightarrow> g v ids) vs r \<noteq> Inl FlowStuck"
    if "r \<noteq> Inl FlowStuck" "\<And>v ids. g v ids \<noteq> Inl FlowStuck" for g :: "json \<Rightarrow> string list \<Rightarrow> flow_error + string list" and vs r
    using that(1) by (induction vs arbitrary: r) (auto simp: that(2) split: sum.split)
  then show ?thesis unfolding wanted_invariants_def
    by (auto split: option.split json.split if_splits)
qed

lemma invariant_ends [ending]: "ends (flow_lift (run_local_invariant env capability))"
  using wanted_ends [of env capability]
  by (auto simp: run_local_invariant_def declared_gate_def Let_def intro!: ends_lift split: sum.split gate_run.split)

lemma read_receipt_ends [ending]: "ends (read_receipt env data candidate)"
  by (auto simp: ends_def read_receipt_def checked_receipt_def model_receipt_def split: option.split sum.split)

lemma requests_end [ending]: "ends (request_mcp env verb path idempotent body)"
  unfolding request_mcp_def by (intro ending)

lemma answers_end [ending]: "ends (answer_of env action a)"
  unfolding answer_of_def by (intro ending)

lemma poll_paths_clock:
  "poll_paths env action paths data s = (r, s') \<Longrightarrow> gs_clock s' = gs_clock s \<and> gs_slept s' = gs_slept s"
proof (induction paths arbitrary: data s)
  case (Cons p ps)
  then show ?case
    by (auto simp: poll_path_def request_mcp_def answer_of_def flow_bind_def flow_with_def send_flow_def flow_lift_def
        flow_return_def flow_raise_def Let_def split: prod.splits sum.splits flow_reply.splits if_splits)
qed (simp add: flow_return_def)

lemma poll_paths_end: "ends (poll_paths env action paths data)"
  by (induction paths arbitrary: data) (auto simp: poll_path_def intro!: ending)

text \<open>\<open>n\<close> more sleeps reach the deadline, so one round more than \<open>n\<close> is enough.\<close>

lemma poll_rounds_end:
  assumes "clock_monotonic env" "deadline \<le> clock_reading env s + 2 * of_nat n"
  shows "fst (poll_rounds env action paths deadline (Suc n) data s) \<noteq> Inl FlowStuck"
  using assms(2)
proof (induction n arbitrary: data s)
  case 0
  then show ?case by (simp add: flow_bind_def read_clock_def flow_raise_def)
next
  case (Suc n)
  let ?s = "s\<lparr>gs_clock := gs_clock s + 1\<rparr>"
  show ?case
  proof (cases "clock_reading env s < deadline")
    case True
    obtain r s' where paths: "poll_paths env action paths data ?s = (r, s')" by fastforce
    have clock: "gs_clock s' = Suc (gs_clock s)" "gs_slept s' = gs_slept s"
      using poll_paths_clock [OF paths] by simp_all
    let ?t = "s'\<lparr>gs_slept := gs_slept s' + 1\<rparr>"
    have "ge_clock env (gs_clock s) \<le> ge_clock env (Suc (gs_clock s))"
      using assms(1) by (simp add: clock_monotonic_def)
    then have "clock_reading env s + 2 \<le> clock_reading env ?t"
      by (simp add: clock_reading_def clock)
    then have "deadline \<le> clock_reading env ?t + 2 * of_nat n" using Suc.prems by simp
    note next_round = Suc.IH [OF this]
    have "r \<noteq> Inl FlowStuck" using poll_paths_end paths unfolding ends_def by (metis fst_conv)
    then show ?thesis
      using True paths next_round
      by (subst poll_rounds.simps)
        (auto simp: flow_bind_def read_clock_def flow_return_def sleep_two_def flow_set_def
          simp del: poll_rounds.simps split: sum.split)
  next
    case False
    then show ?thesis by (simp add: flow_bind_def read_clock_def flow_raise_def)
  qed
qed

lemma patience_enough: "flow_patience env \<le> 2 * of_nat (nat \<lceil>flow_patience env / 2\<rceil>)"
proof -
  have "0 \<le> \<lceil>flow_patience env / 2\<rceil>" by (simp add: flow_patience_def le_ceiling_iff max_def)
  then have "(of_nat (nat \<lceil>flow_patience env / 2\<rceil>) :: rat) = of_int \<lceil>flow_patience env / 2\<rceil>" by simp
  moreover have "flow_patience env / 2 \<le> of_int \<lceil>flow_patience env / 2\<rceil>" by (rule le_of_int_ceiling)
  ultimately show ?thesis by linarith
qed

lemma await_ends [ending]:
  assumes "clock_monotonic env"
  shows "ends (await_run env data action)"
proof -
  have "fst (poll_rounds env action paths (flow_deadline env (clock_reading env s)) (patience_rounds env) data
      (s\<lparr>gs_clock := gs_clock s + 1\<rparr>)) \<noteq> Inl FlowStuck" for paths s
  proof -
    have "ge_clock env (gs_clock s) \<le> ge_clock env (Suc (gs_clock s))"
      using assms by (simp add: clock_monotonic_def)
    then have "clock_reading env s \<le> clock_reading env (s\<lparr>gs_clock := gs_clock s + 1\<rparr>)"
      by (simp add: clock_reading_def)
    with patience_enough [of env] have "flow_deadline env (clock_reading env s) \<le>
        clock_reading env (s\<lparr>gs_clock := gs_clock s + 1\<rparr>) + 2 * of_nat (nat \<lceil>flow_patience env / 2\<rceil>)"
      unfolding flow_deadline_def by linarith
    then show ?thesis unfolding patience_rounds_def by (rule poll_rounds_end [OF assms])
  qed
  then show ?thesis
    by (auto simp: await_run_def ends_def flow_bind_def read_clock_def flow_raise_def Let_def)
qed

lemma resolve_async_ends [ending]: "clock_monotonic env \<Longrightarrow> ends (resolve_async env action data)"
  unfolding resolve_async_def by (intro ending)

lemma submit_ends [ending]: "clock_monotonic env \<Longrightarrow> ends (submit_operation env op idempotent payload action)"
  unfolding submit_operation_def by (intro ending)

lemma checked_capabilities_end: "ends (case raise_for_response dump a action of Some e \<Rightarrow> flow_lift (Inl e)
    | None \<Rightarrow> flow_lift (json_object a))"
  by (auto simp: raise_for_response_def intro!: ends_lift lifted_ends)

lemma discover_ends [ending]: "ends (discover env)"
  unfolding discover_def by (rule ends_bind, intro ending, rule ends_bind, rule checked_capabilities_end, intro ending)

lemma discovered_ends [ending]: "ends (ensure_discovered env)" "ends (require_operation name)"
  unfolding ensure_discovered_def require_operation_def by (intro ending)+

lemma gap_ends [ending]: "clock_monotonic env \<Longrightarrow> ends (resolve_gap_id env)"
  unfolding resolve_gap_id_def inherited_gap_id_def note_gap_def discover_gap_id_def run_gap_discovery_def
  by (intro ending)

lemma claim_ends [ending]: "clock_monotonic env \<Longrightarrow> ends (claim_gap env)"
  unfolding claim_gap_def refresh_claimability_def claim_context_digest_def compile_preclaim_context_def
  by (intro ending)

lemma declared_ends [ending]: "ends (declared env)" "ends (known_registration env)" "ends (inspect_repo env persist)"
    "ends (load_last_state env)"
  unfolding declared_def known_registration_def inspect_repo_def load_last_state_def by (intro ending)+

lemma register_ends [ending]: "clock_monotonic env \<Longrightarrow> ends (register_repo env)"
  unfolding register_repo_def active_claim_def by (intro ending)

lemma context_ends [ending]: "clock_monotonic env \<Longrightarrow> ends (compile_flow_context env)"
  unfolding compile_flow_context_def by (intro ending)

lemma realization_ends [ending]: "clock_monotonic env \<Longrightarrow> ends (run_governed_realization env)"
  unfolding run_governed_realization_def realization_context_def context_state_or_empty_def send_realization_def
  by (intro ending)

lemma update_ends [ending]: "ends (update_from_result env data)"
  unfolding update_from_result_def recovered_gap_def by (intro ending)

lemma saved_paths_end: "ends (poll_saved_paths env name paths pending)"
  by (induction paths arbitrary: pending)
    (auto simp: run_not_found_def saved_run_failed_def split: prod.split intro!: ending)

lemma recover_ends [ending]: "ends (recover_pending_run env)"
  unfolding recover_pending_run_def poll_saved_run_def by (intro ending saved_paths_end)

lemma steps_end [ending]: "clock_monotonic env \<Longrightarrow> ends (flow_steps env)"
  unfolding flow_steps_def gap_step_def claim_step_def registration_step_def context_step_def realize_step_def
    unless_saved_def persist_gap_error_def
  by (intro ending)

lemma resume_ends [ending]: "clock_monotonic env \<Longrightarrow> ends (resume_flow env use_last)"
  unfolding resume_flow_def start_or_load_def declaration_or_inspect_def Let_def by (intro ending)

lemma run_ends: "clock_monotonic env \<Longrightarrow> ends (run_flow env dry_run)"
  unfolding run_flow_def by (intro ending)

lemma reads_end: "ends (status_flow env)" "ends (receipt_flow env)"
  unfolding status_flow_def receipt_flow_def by (intro ending)+

chapter \<open>Properties\<close>

text \<open>
  What the governed flow promises: a success rests on the evidence of a receipt that passed the checks, the
  token goes to the boundary only, what is saved is redacted, a command ends, and a gap is chosen only when
  one claimable candidate is strictly the best.
\<close>

section \<open>Redaction\<close>

lemma redact_again [simp]: "flow_redact (flow_redact v) = flow_redact v"
  by (induction v rule: flow_redact.induct) (auto simp: comp_def)

lemma redact_truthy [simp]: "json_truthy (flow_redact v) = json_truthy v"
  by (cases v) auto

lemma redact_dict_again [simp]: "flow_redact (JObj (redact_dict d)) = JObj (redact_dict d)"
proof -
  have "JObj (redact_dict d) = flow_redact (JObj d)" by (simp add: redact_dict_def)
  then show ?thesis by (simp only: redact_again)
qed

lemma dict_get_redact:
  "dict_get (redact_dict d) k = map_option (\<lambda>v. if secret_key k then JStr flow_redacted else flow_redact v) (dict_get d k)"
  by (induction d) (auto simp: redact_dict_def dict_get_def)

lemma dict_get_filter_key: "dict_get (filter (\<lambda>(k, v). P k) d) k = (if P k then dict_get d k else None)"
  by (induction d) (auto simp: dict_get_def)

lemma dict_get_sanitized:
  "dict_get (sanitize_state d) k =
     (if py_lower k \<in> set forbidden_keys then None
      else map_option (\<lambda>v. if secret_key k then JStr flow_redacted else flow_redact v) (dict_get d k))"
  unfolding sanitize_state_def by (simp add: dict_get_filter_key dict_get_redact)

section \<open>Evidence\<close>

definition backed :: "dict \<Rightarrow> bool" where
  "backed c =
     (json_get c ''governed'' = JBool True \<and> json_get c ''event_spine_evidence'' = JBool True \<and>
      json_get c ''governance_verdict'' = JStr ''ACCEPT'' \<and> json_truthy (json_get c ''drift_state'') \<and>
      json_truthy (json_get c ''mcp_event_id''))"

definition backed_receipt :: "dict \<Rightarrow> bool" where
  "backed_receipt c = (json_truthy (json_get c ''receipt_id'') \<longrightarrow> backed c)"

definition backed_state :: "flow_state \<Rightarrow> bool" where
  "backed_state s =
     (backed_receipt (gs_current s) \<and>
      (case gs_latest s of Some (StoredJson (JObj c)) \<Rightarrow> backed_receipt c | _ \<Rightarrow> True))"

lemma evidence_not_secret: "k \<in> set evidence_keys \<Longrightarrow> \<not> secret_key k \<and> py_lower k \<notin> set forbidden_keys"
proof -
  have "list_all (\<lambda>k. \<not> secret_key k \<and> py_lower k \<notin> set forbidden_keys) evidence_keys" by code_simp
  then show "k \<in> set evidence_keys \<Longrightarrow> \<not> secret_key k \<and> py_lower k \<notin> set forbidden_keys"
    unfolding list_all_iff by blast
qed

definition same_evidence :: "dict \<Rightarrow> dict \<Rightarrow> bool" where
  "same_evidence c d =
     (\<forall>k\<in>set evidence_keys. json_get c k = json_get d k \<or> json_get c k = flow_redact (json_get d k))"

lemma same_evidence_backed:
  assumes "same_evidence c d"
  shows "json_truthy (json_get c ''receipt_id'') = json_truthy (json_get d ''receipt_id'')" "backed d \<Longrightarrow> backed c"
proof -
  have "json_get c k = json_get d k \<or> json_get c k = flow_redact (json_get d k)" if "k \<in> set evidence_keys" for k
    using assms that by (simp add: same_evidence_def)
  note same = this [of "''receipt_id''"] this [of "''governed''"] this [of "''event_spine_evidence''"]
    this [of "''governance_verdict''"] this [of "''drift_state''"] this [of "''mcp_event_id''"]
  show "json_truthy (json_get c ''receipt_id'') = json_truthy (json_get d ''receipt_id'')"
    using same(1) by (auto simp: evidence_keys_def)
  show "backed c" if "backed d"
    using that same(2-) unfolding backed_def by (simp add: evidence_keys_def) auto
qed

lemma same_evidence_receipt: "same_evidence c d \<Longrightarrow> backed_receipt d \<Longrightarrow> backed_receipt c"
  using same_evidence_backed by (auto simp: backed_receipt_def)

section \<open>What is persisted\<close>

definition started :: "governed_env \<Rightarrow> flow_state \<Rightarrow> dict" where
  "started env s =
     (if gs_current s = []
      then [(''run_record_id'', JStr (ge_stamp env (gs_nows s))), (''created_at'', JStr (ge_now env (gs_nows s))),
            (''updated_at'', JStr (ge_now env (gs_nows s))), (''terminal'', JBool False)]
      else gs_current s)"

definition applied :: "governed_env \<Rightarrow> dict \<Rightarrow> flow_state \<Rightarrow> dict" where
  "applied env u s = dict_update (started env s) (filter (\<lambda>(k, v). v \<noteq> JNull) u)"

definition merged :: "governed_env \<Rightarrow> dict \<Rightarrow> flow_state \<Rightarrow> dict" where
  "merged env u s =
     dict_setdefault ''created_at'' (JStr (ge_now env (gs_nows s)))
       (dict_set ''updated_at'' (JStr (ge_now env (gs_nows s))) (applied env u s))"

lemma json_get_merged: "k \<in> set evidence_keys \<Longrightarrow> json_get (merged env u s) k = json_get (applied env u s) k"
  by (auto simp: merged_def json_get_def dict_get_or_def dict_setdefault_def evidence_keys_def)

lemma json_get_sanitized: "k \<in> set evidence_keys \<Longrightarrow> json_get (sanitize_state d) k = flow_redact (json_get d k)"
  using evidence_not_secret by (auto simp: json_get_def dict_get_or_def dict_get_sanitized split: option.splits)

lemma json_get_written:
  "k \<in> set evidence_keys \<Longrightarrow> json_get (fst (write_run env d s)) k = flow_redact (json_get d k)"
proof -
  assume k: "k \<in> set evidence_keys"
  then have "k \<noteq> ''run_record_id''" by (auto simp: evidence_keys_def)
  then have "json_get (fst (write_run env d s)) k = json_get (sanitize_state d) k"
    by (simp add: write_run_def Let_def json_get_def dict_get_or_def)
  with k show ?thesis by (simp add: json_get_sanitized)
qed

lemma persist_cases:
  obtains "snd (persist_state env u s) = s\<lparr>gs_nows := gs_nows s + 1, gs_store := False, gs_current := merged env u s\<rparr>"
  | s1 where "snd (persist_state env u s) = (snd (write_run env (merged env u s) s1))\<lparr>gs_current := fst (write_run env (merged env u s) s1)\<rparr>"
      "gs_sent s1 = gs_sent s" "gs_demo s1 = gs_demo s" "gs_runs s1 = gs_runs s"
proof (cases "gs_store s \<or> gs_declaration s \<noteq> None")
  case True
  let ?s1 = "s\<lparr>gs_nows := gs_nows s + 1, gs_store := True\<rparr>"
  show thesis
    by (rule that(2) [of ?s1]) (use True in \<open>auto simp: persist_state_def merged_def applied_def started_def Let_def split: prod.split\<close>)
next
  case False
  show thesis
    by (rule that(1)) (use False in \<open>auto simp: persist_state_def merged_def applied_def started_def Let_def\<close>)
qed

lemma write_run_fields:
  "gs_latest (snd (write_run env d s)) = Some (StoredJson (JObj (fst (write_run env d s))))"
  "gs_sent (snd (write_run env d s)) = gs_sent s" "gs_demo (snd (write_run env d s)) = gs_demo s"
  "\<exists>k. gs_runs (snd (write_run env d s)) = dict_set k (fst (write_run env d s)) (gs_runs s)"
  by (auto simp: write_run_def Let_def)

lemma persisted:
  "same_evidence (gs_current (snd (persist_state env u s))) (applied env u s)"
  "gs_latest (snd (persist_state env u s)) = gs_latest s \<or>
   gs_latest (snd (persist_state env u s)) = Some (StoredJson (JObj (gs_current (snd (persist_state env u s)))))"
  by (cases env u s rule: persist_cases,
      auto simp: same_evidence_def json_get_written json_get_merged write_run_fields)+

lemma applied_plain: "plain_updates u \<Longrightarrow> k \<in> set evidence_keys \<Longrightarrow> json_get (applied env u s) k = json_get (gs_current s) k"
proof -
  assume u: "plain_updates u" and k: "k \<in> set evidence_keys"
  have "map_of (rev (filter (\<lambda>(k, v). v \<noteq> JNull) u)) k = None"
    using u k by (force simp: map_of_eq_None_iff plain_updates_def)
  then have "json_get (applied env u s) k = json_get (started env s) k"
    by (simp add: applied_def json_get_def dict_get_or_def dict_get_update)
  also have "\<dots> = json_get (gs_current s) k"
    using k by (auto simp: started_def json_get_def dict_get_or_def dict_get_Cons evidence_keys_def)
  finally show ?thesis .
qed

lemma applied_certified:
  assumes "certified_updates u"
  shows "backed (applied env u s)"
proof -
  have "map_of (rev (filter (\<lambda>(k, v). v \<noteq> JNull) u)) k = Some v" if "dict_get u k = Some v" "v \<noteq> JNull" for k v
  proof -
    have "distinct (map fst u)" using assms by (simp add: certified_updates_def)
    then have "distinct (map fst (filter (\<lambda>(k, v). v \<noteq> JNull) u))" by (simp add: distinct_map_filter)
    with that show ?thesis
      by (simp add: map_of_rev) (auto simp: dict_get_def dest: map_of_SomeD intro: map_of_is_SomeI)
  qed
  then have get: "json_get (applied env u s) k = v" if "dict_get u k = Some v" "v \<noteq> JNull" for k v
    using that by (simp add: applied_def json_get_def dict_get_or_def dict_get_update)
  obtain v w where "dict_get u ''drift_state'' = Some v" "json_truthy v" "dict_get u ''mcp_event_id'' = Some w"
      "json_truthy w"
    using assms unfolding certified_updates_def by blast
  moreover from this have "v \<noteq> JNull" "w \<noteq> JNull" by auto
  ultimately show ?thesis
    using assms by (simp add: certified_updates_def backed_def get)
qed

lemma persist_backs:
  assumes "certified_updates u"
  shows "backed (gs_current (snd (persist_state env u s)))"
  using same_evidence_backed(2) [OF persisted(1)] applied_certified [OF assms] by blast

lemma persist_backed:
  assumes "plain_updates u \<or> certified_updates u"
  shows "keeps backed_state (persist_state env u)"
proof (rule keepsI)
  fix s assume "backed_state s"
  then have s: "backed_receipt (gs_current s)" by (simp add: backed_state_def)
  let ?s = "snd (persist_state env u s)"
  have "backed_receipt (applied env u s)"
  proof (cases "certified_updates u")
    case True
    then show ?thesis by (simp add: backed_receipt_def applied_certified)
  next
    case False
    with assms have "json_get (applied env u s) k = json_get (gs_current s) k" if "k \<in> set evidence_keys" for k
      using applied_plain that by blast
    with s show ?thesis by (simp add: backed_receipt_def backed_def evidence_keys_def)
  qed
  then have "backed_receipt (gs_current ?s)" using same_evidence_receipt persisted(1) by blast
  then show "backed_state ?s"
    using \<open>backed_state s\<close> persisted(2) [of env u s] by (auto simp: backed_state_def)
qed

interpretation evidence: flow_record backed_state env for env
proof
  show "record_only backed_state" by (simp add: record_only_def backed_state_def)
  show "keeps backed_state (request_mcp env verb path idempotent body)" for verb path idempotent body
    by (auto simp: keeps_def request_mcp_def flow_with_def send_flow_def backed_state_def Let_def split: flow_reply.split)
  show "keeps backed_state (send_flow env verb url [] body)" for verb url body
    by (auto simp: keeps_def send_flow_def backed_state_def Let_def split: flow_reply.split)
  show "keeps backed_state (write_demo name d)" for name d
    by (auto simp: keeps_def write_demo_def flow_set_def backed_state_def)
  show "backed_state (s\<lparr>gs_current := c\<rparr>)" if "backed_state s" "gs_latest s = Some (StoredJson (JObj c))" for s c
    using that by (simp add: backed_state_def)
qed (rule persist_backed)

section \<open>The token\<close>

text \<open>A request that carries the token goes to an address that begins with the configured boundary.\<close>

definition token_kept :: "governed_env \<Rightarrow> flow_state \<Rightarrow> bool" where
  "token_kept env s =
     list_all (\<lambda>q. fq_headers q = [] \<or> starts_with (mcp_url env) (fq_url q)) (gs_sent s)"

lemma persist_token: "keeps (token_kept env') (persist_state env u)"
proof (rule keepsI)
  fix s assume "token_kept env' s"
  then show "token_kept env' (snd (persist_state env u s))"
    by (cases env u s rule: persist_cases) (auto simp: token_kept_def write_run_fields)
qed

interpretation token: flow_record "token_kept env" env for env
proof
  show "record_only (token_kept env)" by (simp add: record_only_def token_kept_def)
  show "keeps (token_kept env) (request_mcp env verb path idempotent body)" for verb path idempotent body
    by (auto simp: keeps_def request_mcp_def flow_with_def send_flow_def token_kept_def Let_def starts_with_def
        split: flow_reply.split)
  show "keeps (token_kept env) (send_flow env verb url [] body)" for verb url body
    by (auto simp: keeps_def send_flow_def token_kept_def Let_def split: flow_reply.split)
  show "keeps (token_kept env) (write_demo name d)" for name d
    by (auto simp: keeps_def write_demo_def flow_set_def token_kept_def)
  show "token_kept env (s\<lparr>gs_current := c\<rparr>)" if "token_kept env s" for s c
    using that by (simp add: token_kept_def)
qed (rule persist_token)

section \<open>Saved files\<close>

definition clean_key :: "string \<Rightarrow> bool" where
  "clean_key k = (\<not> secret_key k \<and> py_lower k \<notin> set forbidden_keys)"

definition clean_run :: "dict \<Rightarrow> bool" where
  "clean_run d =
     list_all (\<lambda>(k, v). py_lower k \<notin> set forbidden_keys \<and> (if secret_key k then v = JStr flow_redacted else flow_redact v = v)) d"

fun clean_file :: "stored_json \<Rightarrow> bool" where
  "clean_file (StoredJson v) = (flow_redact v = v)"
| "clean_file StoredDamaged = True"

definition clean_files :: "flow_state \<Rightarrow> bool" where
  "clean_files s =
     (list_all (\<lambda>(k, d). clean_run d) (gs_runs s) \<and> list_all (\<lambda>(n, f). clean_file f) (gs_demo s) \<and>
      (case gs_latest s of None \<Rightarrow> True | Some f \<Rightarrow> clean_file f))"

lemma clean_run_redacted: "clean_run d \<Longrightarrow> flow_redact (JObj d) = JObj d"
  by (auto simp: clean_run_def list_all_iff intro!: map_idI split: if_splits prod.splits)

lemma entries_dict_set: "set (dict_set k v d) \<subseteq> insert (k, v) (set d)"
  unfolding dict_set_def by (induction d) auto

lemma sanitized_clean: "clean_run (sanitize_state d)"
  by (auto simp: clean_run_def sanitize_state_def redact_dict_def list_all_iff)

lemma set_clean: "clean_run d \<Longrightarrow> clean_key k \<Longrightarrow> flow_redact v = v \<Longrightarrow> clean_run (dict_set k v d)"
  using entries_dict_set [of k v d] by (fastforce simp: clean_run_def clean_key_def list_all_iff)

lemma written_clean: "clean_run (fst (write_run env d s))"
proof -
  have "clean_key ''run_record_id''" by code_simp
  then show ?thesis by (simp add: write_run_def Let_def set_clean sanitized_clean)
qed

lemma persist_clean: "keeps clean_files (persist_state env u)"
proof (rule keepsI)
  fix s assume s: "clean_files s"
  show "clean_files (snd (persist_state env u s))"
  proof (cases env u s rule: persist_cases)
    case 1
    with s show ?thesis by (simp add: clean_files_def)
  next
    case (2 s1)
    obtain k where "gs_runs (snd (write_run env (merged env u s) s1)) =
        dict_set k (fst (write_run env (merged env u s) s1)) (gs_runs s)"
      using write_run_fields(4) 2(4) by metis
    then show ?thesis
      using 2 s written_clean [of env "merged env u s" s1] clean_run_redacted
        entries_dict_set [of k "fst (write_run env (merged env u s) s1)" "gs_runs s"]
      by (auto simp: clean_files_def write_run_fields list_all_iff)
  qed
qed

interpretation clean: flow_record clean_files env for env
proof
  show "record_only clean_files" by (simp add: record_only_def clean_files_def)
  show "keeps clean_files (request_mcp env verb path idempotent body)" for verb path idempotent body
    by (auto simp: keeps_def request_mcp_def flow_with_def send_flow_def clean_files_def Let_def split: flow_reply.split)
  show "keeps clean_files (send_flow env verb url [] body)" for verb url body
    by (auto simp: keeps_def send_flow_def clean_files_def Let_def split: flow_reply.split)
  show "keeps clean_files (write_demo name d)" for name d
  proof (rule keepsI)
    fix s assume s: "clean_files s"
    have "clean_file (StoredJson (JObj (redact_dict d)))" by (simp only: clean_file.simps redact_dict_again)
    with s show "clean_files (snd (write_demo name d s))"
      by (auto simp del: clean_file.simps simp: write_demo_def flow_set_def clean_files_def list_all_iff dest!: subsetD [OF entries_dict_set])
  qed
  show "clean_files (s\<lparr>gs_current := c\<rparr>)" if "clean_files s" for s c
    using that by (simp add: clean_files_def)
qed (rule persist_clean)

section \<open>What a result rests on\<close>

lemma saved_receipt_get: "json_get c k \<noteq> JNull \<Longrightarrow> k \<in> set receipt_keys \<Longrightarrow> json_get (saved_receipt c) k = json_get c k"
  unfolding json_get_def dict_get_or_def dict_get_def saved_receipt_def map_of_map_restrict
  by (auto simp: restrict_map_def dict_get_or_def dict_get_def split: option.splits)

lemma saved_receipt_backed:
  assumes "backed c"
  shows "backed (saved_receipt c)"
proof -
  have "json_get (saved_receipt c) k = json_get c k"
    if "json_get c k \<noteq> JNull" "k \<in> set [''governed'', ''event_spine_evidence'', ''governance_verdict'', ''drift_state'', ''mcp_event_id'']" for k
    by (rule saved_receipt_get) (use that in \<open>auto simp: receipt_keys_def\<close>)
  moreover have "json_get c ''drift_state'' \<noteq> JNull" "json_get c ''mcp_event_id'' \<noteq> JNull"
    using assms by (auto simp: backed_def)
  ultimately show ?thesis using assms by (simp add: backed_def)
qed

definition flow_receipt :: "dict \<Rightarrow> dict" where
  "flow_receipt result = sub_dict result ''receipt''"

lemma result_receipt: "flow_receipt (result_from_state d c) = saved_receipt c"
  by (simp add: flow_receipt_def sub_dict_def result_from_state_def result_keys_def json_simps)

lemma bind_inr:
  assumes "flow_bind m f s = (Inr y, s')"
  obtains x t where "m s = (Inr x, t)" "f x t = (Inr y, s')"
  using assms by (auto simp: flow_bind_def split: prod.splits sum.splits)

lemma realize_step_backs:
  assumes "backed_state s" "realize_step env s = (Inr (), s')"
  shows "backed (gs_current s')"
proof (cases "json_truthy (json_get (gs_current s) ''receipt_id'') \<and> json_get (gs_current s) ''terminal'' = JBool True")
  case True
  with assms show ?thesis
    by (simp add: realize_step_def flow_with_def flow_when_def flow_return_def backed_state_def backed_receipt_def)
next
  case False
  with assms(2) have "flow_bind (run_governed_realization env) (\<lambda>receipt. persist_state env (final_updates receipt)) s = (Inr (), s')"
    by (simp add: realize_step_def flow_with_def flow_when_def)
  then obtain receipt t where run: "run_governed_realization env s = (Inr receipt, t)"
      and persist: "persist_state env (final_updates receipt) t = (Inr (), s')"
    by (rule bind_inr)
  from run have "receipt_defect receipt = []"
    using realization_checked unfolding returns_def by blast
  then show ?thesis
    using persist_backs [OF final_certified, of receipt env t] persist by simp
qed

text \<open>The keyword of the file that is read when a flow starts.\<close>

definition backed_file :: "stored_json option \<Rightarrow> bool" where
  "backed_file f = (case f of Some (StoredJson (JObj c)) \<Rightarrow> backed_receipt c | _ \<Rightarrow> True)"

lemma new_client_backed:
  "new_client env story capability class demo latest runs = Inr s \<Longrightarrow> backed_file latest \<Longrightarrow> backed_state s"
  by (auto simp: new_client_def backed_state_def backed_receipt_def backed_file_def json_simps split: if_splits)

lemma flow_bind_assoc: "flow_bind (flow_bind m f) g = flow_bind m (\<lambda>x. flow_bind (f x) g)"
  by (rule ext) (simp add: flow_bind_def split: prod.split sum.split)

text \<open>What comes before the steps of a resumption, and before the last step.\<close>

definition flow_before :: "governed_env \<Rightarrow> bool \<Rightarrow> repo_declaration flow" where
  "flow_before env use_last =
     flow_bind (start_or_load env use_last) (\<lambda>_. flow_bind (discover env) (\<lambda>_.
       flow_bind (recover_pending_run env) (\<lambda>_. declaration_or_inspect env)))"

definition flow_first_steps :: "governed_env \<Rightarrow> unit flow" where
  "flow_first_steps env =
     flow_bind (gap_step env) (\<lambda>_. flow_bind (claim_step env) (\<lambda>_. flow_bind (registration_step env) (\<lambda>_. context_step env)))"

lemma resume_flow_split:
  "resume_flow env use_last = flow_bind (flow_before env use_last) (\<lambda>d. flow_bind (flow_first_steps env) (\<lambda>_.
     flow_bind (realize_step env) (\<lambda>_. flow_get (\<lambda>s. result_from_state d (gs_current s)))))"
  unfolding resume_flow_def flow_before_def flow_first_steps_def flow_steps_def flow_bind_assoc ..

lemma before_backed: "keeps backed_state (flow_before env use_last)" "keeps backed_state (flow_first_steps env)"
  unfolding flow_before_def flow_first_steps_def declaration_or_inspect_def
  by (intro evidence.start_kept evidence.discover_kept evidence.recover_kept evidence.inspect_kept evidence.gap_step_kept
      evidence.claim_step_kept evidence.registration_step_kept evidence.context_step_kept keeping)+

lemma resume_backed:
  assumes "backed_state s" "resume_flow env use_last s = (Inr result, s')"
  shows "backed (gs_current s') \<and> backed (flow_receipt result)"
proof -
  from assms(2) obtain d t where before: "flow_before env use_last s = (Inr d, t)"
      and steps: "flow_bind (flow_first_steps env) (\<lambda>_. flow_bind (realize_step env) (\<lambda>_.
        flow_get (\<lambda>s. result_from_state d (gs_current s)))) t = (Inr result, s')"
    unfolding resume_flow_split by (rule bind_inr)
  from steps obtain t1 where first: "flow_first_steps env t = (Inr (), t1)"
      and finish: "flow_bind (realize_step env) (\<lambda>_. flow_get (\<lambda>s. result_from_state d (gs_current s))) t1 = (Inr result, s')"
    by (rule bind_inr) simp
  from finish have realize: "realize_step env t1 = (Inr (), s')" and result: "result = result_from_state d (gs_current s')"
    by (auto simp: flow_get_def elim!: bind_inr)
  have "backed_state t1"
    using before_backed keepsD before first assms(1) by metis
  then have "backed (gs_current s')" using realize by (rule realize_step_backs)
  then show ?thesis by (simp add: result result_receipt saved_receipt_backed)
qed

text \<open>
  C5: A governed run that succeeds rests on evidence. When the saved state of the repository is backed (as
  everything the flow saves is), the receipt of a successful \<open>run\<close> or \<open>resume\<close> reports governed execution,
  upstream event-spine evidence, the verdict ACCEPT, a drift state and an event of the boundary; and so does
  the state that is left behind.
\<close>

theorem governed_success_needs_evidence:
  assumes "new_client env story capability class demo latest runs = Inr s" "backed_file latest"
    and "run_flow env False s = (Inr result, s') \<or> resume_flow env use_last s = (Inr result, s')"
  shows "backed (flow_receipt result) \<and> backed (gs_current s')"
proof -
  have s: "backed_state s" using assms(1,2) by (rule new_client_backed)
  show ?thesis
  proof (cases "resume_flow env use_last s = (Inr result, s')")
    case False
    with assms(3) have "run_flow env False s = (Inr result, s')" by blast
    then obtain d t t1 where "inspect_repo env False s = (Inr d, t)" "discover env t = (Inr (), t1)"
        and resume: "resume_flow env True t1 = (Inr result, s')"
      unfolding run_flow_def by (auto elim!: bind_inr)
    then have "backed_state t1"
      using s keepsD [OF evidence.inspect_kept] keepsD [OF evidence.discover_kept] by blast
    then show ?thesis using resume_backed [OF _ resume] by blast
  qed (use s resume_backed in blast)
qed

text \<open>
  C25: Every command of the governed flow ends, whatever the boundary answers: none of run, resume, status and
  receipt uses up its rounds of polling, on a clock that does not go backwards. A run that never becomes
  terminal is polled until its deadline, and the two seconds slept in each round reach it.
\<close>

theorem governed_commands_end:
  assumes "clock_monotonic env"
  shows "fst (run_flow env dry_run s) \<noteq> Inl FlowStuck \<and> fst (resume_flow env use_last s) \<noteq> Inl FlowStuck \<and>
    fst (status_flow env s) \<noteq> Inl FlowStuck \<and> fst (receipt_flow env s) \<noteq> Inl FlowStuck"
  using run_ends [OF assms] resume_ends [OF assms] reads_end by (simp_all add: ends_def)

text \<open>
  C19: The token stays with the boundary and out of the files. Every request of a run that carries headers goes to
  an address that begins with the configured boundary URL; and where the files were clean before, every
  run record and every file of the demo is clean after it: each value under a key that names a token or an
  authorization is the redaction mark, and no record has such a key of its own.
\<close>

theorem governed_run_keeps_the_token:
  assumes "new_client env story capability class demo latest runs = Inr s" "clean_files s"
  shows "token_kept env (snd (run_flow env dry_run s)) \<and> clean_files (snd (run_flow env dry_run s))"
proof -
  have "token_kept env s" using assms(1) by (auto simp: new_client_def token_kept_def split: if_splits)
  then show ?thesis
    using assms(2) token.run_kept [of env dry_run] clean.run_kept [of env dry_run] by (simp add: keeps_def)
qed

section \<open>The choice of a gap\<close>

lemma gap_objects_named: "g \<in> set (gap_objects v) \<Longrightarrow> starts_with ''gap_'' (gap_id_of g)"
  by (induction v arbitrary: g rule: gap_objects.induct) (auto simp: gap_id_of_def split: if_splits)

definition best_gap :: "(json \<Rightarrow> string) \<Rightarrow> (dict \<Rightarrow> int) \<Rightarrow> dict list \<Rightarrow> dict \<Rightarrow> bool" where
  "best_gap fstr score gaps g =
     (g \<in> set gaps \<and> is_claimable_gap fstr g \<and> 0 < score g \<and>
      length (filter (\<lambda>h. is_claimable_gap fstr h \<and> score g \<le> score h) gaps) = 1)"

lemma length_one_head: "length (filter P (x # xs)) = 1 \<Longrightarrow> P x \<Longrightarrow> y \<in> set (x # xs) \<Longrightarrow> P y \<Longrightarrow> y = x"
  by (auto simp: filter_empty_conv)

lemma ranked_candidates:
  fixes fstr gaps and score :: "dict \<Rightarrow> int"
  defines "cs \<equiv> filter (is_claimable_gap fstr) (rank_gaps score gaps)"
  shows "set cs = {g \<in> set gaps. is_claimable_gap fstr g \<and> 0 < score g}" "sorted (map (\<lambda>g. - score g) cs)"
    "0 < score g \<Longrightarrow> length (filter (\<lambda>h. is_claimable_gap fstr h \<and> score g \<le> score h) gaps) = length (filter (\<lambda>h. score g \<le> score h) cs)"
proof -
  show "set cs = {g \<in> set gaps. is_claimable_gap fstr g \<and> 0 < score g}"
    by (auto simp: cs_def rank_gaps_def)
  show "sorted (map (\<lambda>g. - score g) cs)"
    unfolding cs_def rank_gaps_def by (intro sorted_filter) simp
  assume g: "0 < score g"
  have "length (filter (\<lambda>h. is_claimable_gap fstr h \<and> score g \<le> score h) gaps) =
      length (filter (\<lambda>h. is_claimable_gap fstr h \<and> score g \<le> score h) (sort_key (\<lambda>g. - score g) gaps))"
    by (simp add: filter_sort)
  also have "filter (\<lambda>h. is_claimable_gap fstr h \<and> score g \<le> score h) (sort_key (\<lambda>g. - score g) gaps) =
      filter (\<lambda>h. score g \<le> score h) cs"
    unfolding cs_def rank_gaps_def filter_filter by (rule filter_cong) (use g in auto)
  finally show "length (filter (\<lambda>h. is_claimable_gap fstr h \<and> score g \<le> score h) gaps) = length (filter (\<lambda>h. score g \<le> score h) cs)" .
qed

lemma best_gap_head:
  fixes score :: "dict \<Rightarrow> int"
  assumes "filter (is_claimable_gap fstr) (rank_gaps score gaps) = b # bs"
  shows "length (filter (\<lambda>g. score g = score b) (b # bs)) = 1 \<longleftrightarrow> best_gap fstr score gaps b"
    "best_gap fstr score gaps g \<Longrightarrow> g = b"
proof -
  note cs = ranked_candidates [where fstr = fstr and gaps = gaps and score = score, unfolded assms]
  have b: "b \<in> set gaps" "is_claimable_gap fstr b" "0 < score b" using cs(1) by auto
  have top: "score h \<le> score b" if "h \<in> set (b # bs)" for h using cs(2) that by auto
  then have "filter (\<lambda>h. score b \<le> score h) (b # bs) = filter (\<lambda>h. score h = score b) (b # bs)"
    by (intro filter_cong) (auto dest: order_antisym)
  then show "length (filter (\<lambda>g. score g = score b) (b # bs)) = 1 \<longleftrightarrow> best_gap fstr score gaps b"
    using b cs(3) [OF b(3)] by (simp add: best_gap_def)
  assume g: "best_gap fstr score gaps g"
  then have "g \<in> set (b # bs)" "length (filter (\<lambda>h. score g \<le> score h) (b # bs)) = 1"
    using cs(1) cs(3) [of g] by (auto simp: best_gap_def)
  then show "g = b" using top by (intro length_one_head [where P = "\<lambda>h. score g \<le> score h"]) auto
qed

text \<open>
  C13: The choice of a gap, in exact form. An identifier is chosen from an answer just when it belongs to a
  gap object of the answer that is claimable, has a positive score, and that no other claimable object reaches; what is
  chosen begins with \<open>gap_\<close>. Otherwise the selection is empty or an error.
\<close>

theorem gap_choice_exact:
  "(select_gap_id fstr dump data repo_name story_id capability_id = Inr gap \<and> gap \<noteq> []) =
    (\<exists>g. best_gap fstr (gap_score fstr dump repo_name story_id capability_id) (gap_objects (JObj data)) g \<and>
       gap_id_of g = gap \<and> starts_with ''gap_'' gap)"
proof -
  define score where "score = gap_score fstr dump repo_name story_id capability_id"
  let ?gaps = "gap_objects (JObj data)"
  let ?cs = "filter (is_claimable_gap fstr) (rank_gaps score ?gaps)"
  have named: "starts_with ''gap_'' (gap_id_of g) \<and> gap_id_of g \<noteq> []" if "best_gap fstr score ?gaps g" for g
    using that gap_objects_named [of g "JObj data"] by (auto simp: best_gap_def starts_with_iff)
  have "(select_gap_id fstr dump data repo_name story_id capability_id = Inr gap \<and> gap \<noteq> []) =
    (\<exists>g. best_gap fstr score ?gaps g \<and> gap_id_of g = gap \<and> starts_with ''gap_'' gap)" (is ?exact)
  proof (cases ?cs)
    case Nil
    then have "\<not> best_gap fstr score ?gaps g" for g
      using ranked_candidates(1) [of fstr score ?gaps] by (auto simp: best_gap_def)
    then show ?exact
      using Nil by (auto simp: select_gap_id_def Let_def score_def)
  next
    case (Cons b bs)
    note best = best_gap_head [OF Cons]
    have "rank_gaps score ?gaps \<noteq> []" using Cons by auto
    then have "select_gap_id fstr dump data repo_name story_id capability_id =
        (if length (filter (\<lambda>g. score g = score b) (b # bs)) > 1 then Inl (FlowError multiple_gaps_message) else Inr (gap_id_of b))"
      using Cons by (simp add: select_gap_id_def Let_def score_def)
    moreover have "length (filter (\<lambda>g. score g = score b) (b # bs)) > 1 \<longleftrightarrow> \<not> best_gap fstr score ?gaps b"
      using best(1) by auto
    ultimately have select: "select_gap_id fstr dump data repo_name story_id capability_id =
        (if best_gap fstr score ?gaps b then Inr (gap_id_of b) else Inl (FlowError multiple_gaps_message))"
      by simp
    show ?exact
    proof (cases "best_gap fstr score ?gaps b")
      case True
      then have only: "best_gap fstr score ?gaps g \<longleftrightarrow> g = b" for g using best(2) by blast
      show ?thesis using True named [OF True] unfolding select only by auto
    next
      case False
      then have "\<not> best_gap fstr score ?gaps g" for g using best(2) by blast
      then show ?thesis unfolding select by simp
    qed
  qed
  then show ?thesis unfolding score_def .
qed

section \<open>The gate and the end of a flow\<close>

definition finished_state :: "dict \<Rightarrow> bool" where
  "finished_state c =
     (list_all (\<lambda>k. json_truthy (json_get c k)) [''resolved_gap_id'', ''registration_id'', ''governance_context_id'', ''receipt_id''] \<and>
      (json_truthy (json_get c ''claim_id'') \<or> json_truthy (json_get c ''claim_ref'')) \<and> json_get c ''terminal'' = JBool True)"

definition saved_declaration :: "governed_env \<Rightarrow> dict \<Rightarrow> flow_state \<Rightarrow> flow_error + repo_declaration" where
  "saved_declaration env c s =
     (let saved = (\<lambda>k own. first_str (ge_fstr env) [json_get c k, JStr own])
      in read_repo_declaration env (saved ''story_id'' (gs_story s)) (saved ''capability_id'' (gs_capability s))
           (saved ''repo_class'' (gs_class s)))"

definition capabilities_request :: "governed_env \<Rightarrow> flow_request" where
  "capabilities_request env =
     \<lparr>fq_method = ''GET'', fq_url = mcp_url env @ ''/mcp/v1/capabilities'', fq_headers = [], fq_body = None\<rparr>"

text \<open>What a flow reads and saves: its files, its current state and its declaration.\<close>

definition same_record :: "flow_state \<Rightarrow> flow_state \<Rightarrow> bool" where
  "same_record s s' =
     (gs_latest s' = gs_latest s \<and> gs_runs s' = gs_runs s \<and> gs_demo s' = gs_demo s \<and>
      gs_current s' = gs_current s \<and> gs_declaration s' = gs_declaration s)"

lemma discover_sends:
  assumes "discover env s = (r, s')"
  shows "gs_sent s' = gs_sent s @ [capabilities_request env]" "same_record s s'" "gs_capability s' = gs_capability s"
proof -
  define I where "I t = (gs_sent t = gs_sent s @ [capabilities_request env] \<and> same_record s t \<and>
      gs_capability t = gs_capability s)" for t
  have set_kept: "keeps I (flow_set f)" if "\<And>t. I t \<Longrightarrow> I (f t)" for f
    using that by (simp add: keeps_def flow_set_def)
  obtain rest where discover: "discover env =
      flow_bind (send_flow env ''GET'' (mcp_url env @ ''/mcp/v1/capabilities'') [] None) rest" "\<And>a. keeps I (rest a)"
    by (rule that, unfold discover_def, rule refl) (intro keeping set_kept, simp_all add: I_def same_record_def)
  let ?send = "send_flow env ''GET'' (mcp_url env @ ''/mcp/v1/capabilities'') [] None s"
  have "I (snd ?send)"
    by (simp add: I_def send_flow_def same_record_def capabilities_request_def Let_def split: flow_reply.split)
  then have "I s'"
    using assms discover(2)
    by (auto simp: discover(1) flow_bind_def keeps_def split: prod.splits sum.splits) (metis snd_conv)
  then show "gs_sent s' = gs_sent s @ [capabilities_request env]" "same_record s s'" "gs_capability s' = gs_capability s"
    by (simp_all add: I_def)
qed

text \<open>
  C32: A refused local invariant stops the flow before the boundary hears of it: when the gate of the
  repository does not accept, a realisation fails, changes none of its files, its saved state and its
  declaration, and sends nothing of the candidate. A client that knows the operations of the boundary sends
  nothing at all and is as before; one that does not, like a new client, has first asked for them, by one GET
  without the token.
\<close>

theorem refused_gate_sends_nothing:
  assumes "run_local_invariant env (gs_capability s) = Inl e"
  shows "\<exists>e' s'. run_governed_realization env s = (Inl e', s') \<and> same_record s s' \<and>
    gs_sent s' = gs_sent s @ (if gs_ops s = [] then [capabilities_request env] else []) \<and>
    (gs_ops s \<noteq> [] \<longrightarrow> s' = s)"
proof -
  obtain r t where known: "ensure_discovered env s = (r, t)" by fastforce
  have t: "same_record s t \<and> gs_capability t = gs_capability s \<and>
      gs_sent t = gs_sent s @ (if gs_ops s = [] then [capabilities_request env] else []) \<and>
      (gs_ops s \<noteq> [] \<longrightarrow> t = s \<and> r = Inr ())"
  proof (cases "gs_ops s = []")
    case True
    then have "discover env s = (r, t)"
      using known by (simp add: ensure_discovered_def flow_bind_def flow_get_def flow_when_def)
    from discover_sends [OF this] True show ?thesis by simp
  next
    case False
    then show ?thesis
      using known
      by (simp add: ensure_discovered_def flow_bind_def flow_get_def flow_when_def flow_return_def same_record_def)
  qed
  show ?thesis
  proof (cases r)
    case (Inl e')
    then show ?thesis using known t by (auto simp: run_governed_realization_def flow_bind_def)
  next
    case (Inr u)
    have "snd (read_demo env name t) = t" for name
      by (simp add: read_demo_def split: option.split stored_json.split json.split)
    then have reads: "\<exists>r. read_demo env name t = (r, t)" for name by (metis prod.collapse)
    have "\<exists>r. realization_context env t = (r, t)"
      using reads [of "''context.json''"]
      by (auto simp: realization_context_def context_state_or_empty_def flow_with_def flow_bind_def flow_return_def
          flow_except_def Let_def split: sum.split flow_error.split)
    then obtain x where "realization_context env t = (x, t)" by blast
    then have "\<exists>e'. run_governed_realization env s = (Inl e', t)"
      using known Inr assms t
      by (cases x) (auto simp: run_governed_realization_def flow_bind_def flow_get_def flow_lift_def split: prod.split)
    then show ?thesis using t by blast
  qed
qed

lemma loaded_finished:
  assumes "gs_latest s = Some (StoredJson (JObj c))" "saved_declaration env c s = Inr d"
  obtains s' where "start_or_load env True s = (Inr (), s')" "gs_current s' = c" "gs_declaration s' = Some d"
    "gs_sent s' = gs_sent s" "gs_latest s' = gs_latest s" "gs_runs s' = gs_runs s" "gs_demo s' = gs_demo s"
proof -
  have "\<exists>s'. load_last_state env s = (Inr (), s') \<and> gs_current s' = c \<and> gs_declaration s' = Some d \<and>
      gs_sent s' = gs_sent s \<and> gs_latest s' = gs_latest s \<and> gs_runs s' = gs_runs s \<and> gs_demo s' = gs_demo s"
    using assms
    by (simp add: load_last_state_def flow_bind_def flow_set_def flow_with_def load_latest_def saved_declaration_def
        flow_lift_def flow_when_def flow_return_def adopt_declaration_def Let_def)
  then show thesis
    using that by (auto simp: start_or_load_def flow_except_def Let_def)
qed

lemma finished_steps:
  assumes "finished_state (gs_current s)" "gs_declaration s = Some d"
  shows "recover_pending_run env s = (Inr (), s)" "declaration_or_inspect env s = (Inr d, s)" "flow_steps env s = (Inr (), s)"
  using assms
  by (auto simp: recover_pending_run_def declaration_or_inspect_def flow_steps_def gap_step_def claim_step_def
      registration_step_def context_step_def realize_step_def unless_saved_def flow_with_def flow_when_def flow_return_def
      flow_bind_def finished_state_def)

text \<open>
  C31: A finished flow is only reported. When the saved state has the results of every step and is terminal,
  a resumption sends one request, the read of the capabilities, whatever its answer; it writes no
  file and changes no saved state; and what it returns is the saved receipt, with the
  declaration the repository has now.
\<close>

theorem finished_flow_only_reads:
  assumes "gs_latest s = Some (StoredJson (JObj c))" "finished_state c" "saved_declaration env c s = Inr d"
    and "resume_flow env True s = (r, s')"
  shows "gs_sent s' = gs_sent s @ [capabilities_request env] \<and>
    gs_latest s' = gs_latest s \<and> gs_runs s' = gs_runs s \<and> gs_demo s' = gs_demo s \<and> gs_current s' = c \<and>
    (\<forall>result. r = Inr result \<longrightarrow> result = result_from_state d c)"
proof -
  obtain t where t: "start_or_load env True s = (Inr (), t)" "gs_current t = c" "gs_declaration t = Some d"
      "gs_sent t = gs_sent s" "gs_latest t = gs_latest s" "gs_runs t = gs_runs s" "gs_demo t = gs_demo s"
    using loaded_finished assms(1,3) by metis
  obtain q u where q: "discover env t = (q, u)" by fastforce
  note sent = discover_sends [OF q]
  then have u: "gs_current u = c" "gs_declaration u = Some d" using t by (simp_all add: same_record_def)
  with assms(2) have rest: "recover_pending_run env u = (Inr (), u)" "declaration_or_inspect env u = (Inr d, u)"
      "flow_steps env u = (Inr (), u)"
    using finished_steps by metis+
  have "resume_flow env True s =
      (case q of Inl e \<Rightarrow> (Inl e, u) | Inr x \<Rightarrow> (Inr (result_from_state d c), u))"
    using rest by (simp add: resume_flow_def flow_bind_def flow_get_def t(1) q u split: sum.split)
  with assms(4) have "s' = u" "\<forall>result. r = Inr result \<longrightarrow> result = result_from_state d c"
    by (auto split: sum.splits)
  then show ?thesis
    using sent t u by (simp_all add: same_record_def)
qed

section \<open>An example\<close>

definition reply :: "dict \<Rightarrow> flow_reply" where
  "reply d = Answered \<lparr>fa_status = 200, fa_text = [], fa_json = Some (JObj d)\<rparr>"

definition sample_boundary :: "flow_request list \<Rightarrow> flow_reply" where
  "sample_boundary sent =
     (let url = fq_url (last sent)
      in if ends_with ''/capabilities'' url then
           reply [(''operations'', JObj
             [(''gaps.claim'', JObj [(''path'', JStr ''/claim'')]), (''repo.register'', JObj [(''path'', JStr ''/register'')]),
              (''context.compile'', JObj [(''path'', JStr ''/compile'')]), (''governed.realize'', JObj [(''path'', JStr ''/govern'')])])]
         else if ends_with ''/claim'' url then reply [(''claim_id'', JStr ''c1'')]
         else if ends_with ''/register'' url then reply [(''registration_id'', JStr ''r1'')]
         else if ends_with ''/compile'' url then reply [(''governance_context_id'', JStr ''ctx'')]
         else if ends_with ''/govern'' url then
           reply [(''governed'', JBool True), (''event_spine_evidence'', JBool True), (''verdict'', JStr ''ACCEPT''),
             (''drift_state'', JStr ''none''), (''governance_context_id'', JStr ''ctx''), (''event_id'', JStr ''e1''),
             (''receipt_id'', JStr ''p1'')]
         else reply [])"

definition sample_flow_env :: governed_env where
  "sample_flow_env =
     \<lparr>ge_mcp_url = ''https://b/'', ge_runtime_url = ''http://r'', ge_token = ''t'', ge_timeout = 30,
      ge_operator_gap = ''gap_1'', ge_env_gap = [], ge_net = sample_boundary, ge_fstr = as_str, ge_dump = (\<lambda>v. []),
      ge_compact = (\<lambda>v. []), ge_clock = of_nat, ge_now = (\<lambda>k. ''now''),
      ge_stamp = (\<lambda>k. ''run1''), ge_key = (\<lambda>k. ''k''), ge_request_id = (\<lambda>k. ''q''), ge_parse_time = Some,
      ge_sha = (\<lambda>t. ''ab''), ge_repo_dir = ''/w'', ge_repo_name = ''w'', ge_present = (\<lambda>n. True),
      ge_yaml = (\<lambda>n. if n = ''keyhole.yaml'' then [(''repo'', JStr ''w''), (''kind'', JStr ''APP'')]
                     else if n = ''governance_contract.yaml'' then [(''produces'', JList [JStr ''cap''])] else []),
      ge_digest = (\<lambda>n. ''d''), ge_remote = ''git'', ge_commit = ''c'', ge_branch = ''main'',
      ge_gate = (\<lambda>g. GateResult [(''verdict'', JStr ''ACCEPT'')])\<rparr>"

definition sample_client :: flow_state where
  "sample_client =
     \<lparr>gs_sent = [], gs_demo = [], gs_latest = None, gs_runs = [], gs_clock = 0, gs_slept = 0, gs_nows = 0, gs_ops = [],
      gs_caps = [], gs_gap = [], gs_gap_source = [], gs_verified = False, gs_story = ''s'',
      gs_capability = [], gs_class = [], gs_declaration = None, gs_store = False, gs_current = []\<rparr>"

lemma sample_client_new: "new_client sample_flow_env ''s'' [] [] [] None [] = Inr sample_client"
  by (simp add: new_client_def sample_flow_env_def sample_client_def)

text \<open>A repository whose flow has everything but a receipt, and one whose flow is finished.\<close>

definition saved_progress :: dict where
  "saved_progress =
     [(''resolved_gap_id'', JStr ''gap_1''), (''claim_id'', JStr ''c1''), (''registration_id'', JStr ''r1''),
      (''governance_context_id'', JStr ''ctx'')]"

definition saved_finish :: dict where
  "saved_finish = saved_progress @ [(''receipt_id'', JStr ''p1''), (''terminal'', JBool True)]"

definition client_with :: "dict \<Rightarrow> flow_state" where
  "client_with c = sample_client\<lparr>gs_latest := Some (StoredJson (JObj c))\<rparr>"

lemma client_with_new:
  "new_client sample_flow_env ''s'' [] [] [] (Some (StoredJson (JObj c))) [] = Inr (client_with c)"
  by (simp add: new_client_def sample_flow_env_def client_with_def sample_client_def)

lemma sample_resumption:
  "(case resume_flow sample_flow_env True (client_with saved_progress) of
      (Inr result, s) \<Rightarrow> map fq_url (gs_sent s) = [''https://b/mcp/v1/capabilities'', ''https://b/govern'']
    | _ \<Rightarrow> False)"
  by code_simp

theorem governed_success_needs_evidence_witness:
  "\<exists>result s'. resume_flow sample_flow_env True (client_with saved_progress) = (Inr result, s') \<and>
     backed (flow_receipt result) \<and> backed (gs_current s')"
proof -
  obtain result s' where run: "resume_flow sample_flow_env True (client_with saved_progress) = (Inr result, s')"
    using sample_resumption by (auto split: prod.splits sum.splits)
  have "backed_file (Some (StoredJson (JObj saved_progress)))"
    by (simp add: backed_file_def backed_receipt_def saved_progress_def json_simps)
  then have "backed (flow_receipt result) \<and> backed (gs_current s')"
    using governed_success_needs_evidence [OF client_with_new _ disjI2 [OF run]] by blast
  with run show ?thesis by blast
qed

theorem governed_commands_end_witness:
  "fst (run_flow sample_flow_env False sample_client) \<noteq> Inl FlowStuck"
proof -
  have "clock_monotonic sample_flow_env" by (simp add: clock_monotonic_def sample_flow_env_def)
  then show ?thesis using governed_commands_end by blast
qed

theorem governed_run_keeps_the_token_witness:
  "token_kept sample_flow_env (snd (run_flow sample_flow_env False sample_client)) \<and>
   clean_files (snd (run_flow sample_flow_env False sample_client))"
  by (rule governed_run_keeps_the_token [OF sample_client_new])
    (simp add: clean_files_def sample_client_def)

theorem refused_gate_sends_nothing_witness:
  "\<exists>e' s'. run_governed_realization (sample_flow_env\<lparr>ge_gate := \<lambda>g. GateMissing\<rparr>) sample_client = (Inl e', s') \<and>
     map fq_url (gs_sent s') = [''https://b/mcp/v1/capabilities''] \<and> same_record sample_client s'"
proof -
  let ?env = "sample_flow_env\<lparr>ge_gate := \<lambda>g. GateMissing\<rparr>"
  have "case run_local_invariant ?env (gs_capability sample_client) of Inl e \<Rightarrow> True | Inr i \<Rightarrow> False" by code_simp
  then obtain e where "run_local_invariant ?env (gs_capability sample_client) = Inl e" by (auto split: sum.splits)
  moreover have "fq_url (capabilities_request ?env) = ''https://b/mcp/v1/capabilities''" by code_simp
  moreover have "gs_sent sample_client = []" "gs_ops sample_client = []" by (simp_all add: sample_client_def)
  ultimately show ?thesis using refused_gate_sends_nothing by fastforce
qed

theorem finished_flow_only_reads_witness:
  "gs_sent (snd (resume_flow sample_flow_env True (client_with saved_finish))) = [capabilities_request sample_flow_env]"
proof -
  have "(case saved_declaration sample_flow_env saved_finish (client_with saved_finish) of Inl e \<Rightarrow> False | Inr d \<Rightarrow> True)"
    by code_simp
  then obtain d where "saved_declaration sample_flow_env saved_finish (client_with saved_finish) = Inr d"
    by (auto split: sum.splits)
  moreover have "finished_state saved_finish" by code_simp
  moreover have "gs_latest (client_with saved_finish) = Some (StoredJson (JObj saved_finish))"
    "gs_sent (client_with saved_finish) = []" by (simp_all add: client_with_def sample_client_def)
  ultimately show ?thesis
    using finished_flow_only_reads [of "client_with saved_finish" saved_finish sample_flow_env d] by (metis append_Nil prod.collapse)
qed

section \<open>What the code does beside its documentation\<close>

text \<open>A path of the boundary is appended to its URL as it is: the token goes to another host.\<close>

lemma poll_url_reaches_other_host:
  "gs_sent (snd (request_mcp sample_flow_env ''GET'' ''@evil'' False None sample_client)) =
     [\<lparr>fq_method = ''GET'', fq_url = ''https://b@evil'',
       fq_headers = [(''Authorization'', ''Bearer t''), (''Content-Type'', ''application/json'')], fq_body = None\<rparr>]"
  by code_simp

text \<open>A claim token is saved in the clear, under a key that no redaction covers.\<close>

lemma claim_token_is_saved:
  "json_get (sanitize_state [(''claim_ref'', JStr (extract_claim_ref [(''claim_token'', JStr ''secret'')]))]) ''claim_ref'' =
     JStr ''secret''"
  by code_simp

text \<open>The status of a receipt replaces the \<open>succeeded\<close> of the flow.\<close>

lemma receipt_status_replaces: "dict_get (final_updates r) ''status'' = Some (dict_get_or r ''status'' (JStr []))"
  unfolding final_updates_def
  by (subst dict_get_receipt) (simp_all add: receipt_state_get receipt_keys_def receipt_flags_def)

text \<open>A recovered pre-claim context counts as the compiled context of the flow.\<close>

lemma recovered_preclaim_skips_compile:
  "json_truthy (json_get (recovered_context data ''preclaim_context_ready'') ''governance_context_id'') =
     (extract_context_id data \<noteq> [])"
  "json_truthy (json_get (gs_current s) ''governance_context_id'') \<Longrightarrow> context_step env s = (Inr (), s)"
  by (simp_all add: recovered_context_def context_step_def unless_saved_def flow_with_def flow_when_def flow_return_def
      json_simps)

text \<open>A registration that is recovered from an envelope has no identifier.\<close>

lemma recovered_registration_lost:
  "registration_id_of [(''data'', JObj [(''registration_id'', JStr ''r1'')])] = Inr ''r1''"
  "recovered_registration_id [(''data'', JObj [(''registration_id'', JStr ''r1'')])] = []"
  by (simp_all add: registration_id_of_def recovered_registration_id_def sub_dict_def json_simps Let_def)

end
