(* ===== verification/Spec2Isabelle.thy ===== *)
theory Spec2Isabelle
  imports Transport_Properties Runtime_Properties Run_Properties Auth_Properties Negotiation_Properties
    Governance_Properties Host_Properties Dispatch_Properties Discovery_Properties Run_Command_Properties
    Ingest_Properties Ingest_Command_Properties Login_Command_Properties Capability_Command_Properties
    Validation_Properties Governed_Flow_Properties
begin

text \<open>
  Keyhole SDK: verification library.

  The repository is the public client of the Keyhole MCP boundary. The SDK
  (\<open>packages/python/keyhole-sdk/keyhole_sdk\<close>) sends governed operations over HTTP, observes the
  runs they start, keeps a login, and decides from the boundary's capabilities which commands
  may run; the CLI prints what the SDK returns; the test runtime
  (\<open>services/test-runtime/app\<close>) is a small server that realizes digests behind a governance
  check. This library models the parts with logic of their own and proves what they promise.

  \<^bold>\<open>Parts and theories.\<close>

  Shared vocabulary. \<open>Keyhole_Prelude\<close>: JSON values, Python dictionaries in insertion order,
  truthiness, string operations, decimal printing, floats with infinities and NaN. Strings are
  bytes (UTF-8); case, white space and character classes are those of ASCII. Finite floats
  are rationals.

  Governed transport (\<open>transport/\<close>, \<open>auth.py\<close>). \<open>Operation_Registry\<close> has the descriptors, the
  registry dictionary and the built-in table, and the locale \<open>op_registry\<close>; \<open>Retry\<close> has backoff,
  Retry-After and sleeping; \<open>Proof_Metadata\<close> the attempt and proof records; \<open>Transport_Client\<close>
  one call of \<open>GovernedTransport.execute\<close>: \<open>attempt_once\<close> is the loop body, \<open>attempt_loop\<close> the
  loop over \<open>range(1, max_attempts + 1)\<close>. The network answers from the whole history of
  requests; uuids, random draws and the clock are functions of a counter. \<open>Transport_Facts\<close>
  has an induction rule for the loop and closed forms of what it sends;
  \<open>Transport_Properties\<close> bounds the attempts and sleeps, fixes the keys and ids that are sent,
  and gives the result as a function of the last answer.

  Test runtime. \<open>Runtime_Service\<close> (\<open>mode.py\<close>, \<open>bridge.py\<close>, \<open>state.py\<close>) and \<open>Runtime_Routes\<close>
  (\<open>routes.py\<close>, \<open>contract.py\<close>, \<open>models.py\<close>). \<open>realize\<close> awaits the governance check, so it is two
  atomic parts, \<open>realize_begin\<close> and \<open>realize_finish\<close>; \<open>Runtime_Properties\<close> interleaves any
  number of requests in a step relation and proves the state invariant, at-most-once
  acceptance and the governance gate for every reachable state. The locale \<open>digest_store\<close> is
  the store's contract.

  Run lifecycle (\<open>run_lifecycle/\<close>). \<open>Run_Status\<close> has the status families, the classification of
  an answer, rendering and one status query; \<open>Run_Record\<close> the record store as a directory and
  the proof artifacts; \<open>Run_Observation\<close> waiting, tailing and resuming, over any transport and
  any callbacks. \<open>Run_Facts\<close> states what these need from a transport in the locales
  \<open>observed_exec\<close> and \<open>bounded_exec\<close>, interprets them on a recorder and on the SDK's own
  \<open>execute\<close>, and gives the polling loops in closed form; \<open>record_store\<close> is the contract of the
  store. \<open>Run_Properties\<close>: waiting is the first deciding poll, tailing is the observed statuses
  without adjacent repetitions, observing never calls anything but the status query, a
  resume is remembered.

  Login (\<open>sdk_client_25/\<close>). \<open>Device_Flow\<close> is the RFC 8628 client; its polling loop has no bound of
  its own and is a partial function, where not returning is \<open>None\<close>. \<open>Device_Properties\<close> proves
  that it returns within \<open>expires_in + 1\<close> polls on a clock that moves, bounds its sleeps, and
  says when it gives a token. \<open>Auth_State\<close> is the attempt registry and sign-out with its file
  cleanup, \<open>Auth_Selection\<close> flow selection and identity comparison, \<open>Diagnostics\<close> redaction and
  the recorder. \<open>Auth_Properties\<close> treats the registry as a state machine, and the locale
  \<open>supersession\<close> connects it to the device flow: late approvals are dropped.

  Negotiation (\<open>negotiation/\<close>, parts of \<open>discovery/models.py\<close>). \<open>Negotiation\<close> has the run types of
  a capabilities answer, the surface taxonomy, the posture, the command gate, guidance and
  the summary; \<open>Negotiation_Properties\<close> orders command statuses by severity and proves the gate
  monotone (locale \<open>command_gate\<close>), the posture a promise about commands, and the guidance
  complete.

  Discovery and dispatch rules (\<open>discovery/\<close>, \<open>dispatch/\<close>). \<open>Text_Ops\<close> has the string operations these parts
  share. \<open>Operation_Discovery\<close> normalises the operations of a capabilities document and indexes
  them; \<open>Capabilities\<close> is the client with its extractors and models, \<open>Capabilities_Cache\<close> the
  snapshot on disk. \<open>Dispatch_Tables\<close> has the schema table, the canonical names and the known
  mistakes; \<open>Run_Type_Validator\<close> decides what a name stands for, where the module's table of
  mistakes is a state every validator shares; \<open>Dispatch_Preflight\<close> has schema hints, the gate
  and recovery guidance. \<open>Dispatch_Facts\<close> and \<open>Dispatch_Properties\<close>: the registry refines the
  relation "identifier names operation", names are never corrected silently, hints invent
  nothing, the gate in exact form, the aliasing of the table. \<open>Discovery_Properties\<close>: cache
  validity and round trip, what discovery failures do, advertised operations are accepted.

  Running (\<open>run_dispatch/\<close>, \<open>context_lifecycle/\<close>, \<open>keyhole_cli/commands/run_cmd.py\<close>). \<open>Run_Dispatch\<close> builds
  the request, sends it with \<open>execute\<close> and classifies the answer; \<open>Context_Lifecycle\<close> has digests,
  compile, inspect, the recent pointer and proofs; \<open>Run_Command\<close> composes all of the above into
  the whole \<open>keyhole run\<close>, from discovery to the exit code, over a world of transport state, cache,
  records, proof files and the shared table. \<open>Run_Command_Properties\<close>: no run without a session, a
  scaffold, an accepted type and a digest; the outcome as a function of the last answer; honest
  exit codes; an accepted run is recorded and can be waited for, across \<open>Run_Observation\<close>.

  Login of the CLI (\<open>auth_bootstrap/\<close>, \<open>envelope.py\<close>, \<open>keyhole_cli/commands/login.py\<close>). \<open>Auth_Session\<close> has the session record, its file
  and the calls of the server; \<open>Auth_Whoami\<close> reads an identity; \<open>Url_Query\<close> encodes and parses queries; \<open>Auth_Flows\<close>
  is the device poll and the browser callback server, \<open>Auth_Login\<close> reuse, renewal and a fresh login, \<open>Login_Command\<close>
  the command. \<open>Login_Properties\<close> and \<open>Login_Command_Properties\<close>: only a verified session is stored, what is stored
  reads back, a browser login whose page is shown never returns, a device login completes once it is approved, the
  command and the renewal in exact form.

  Ingestion (\<open>ingest/\<close>, \<open>keyhole_cli/commands/ingest_cmd.py\<close>, \<open>repo_identity/\<close>). \<open>Path_Glob\<close> is \<open>fnmatch\<close>;
  \<open>Ingest_Scan\<close> has the filter that decides a path, walks a directory tree with its budgets and builds the manifest,
  \<open>Ingest_Submission\<close> sends it, \<open>Ingest_Command\<close> is the command; \<open>Repo_Identity\<close> reads remotes. \<open>Ingest_Facts\<close>
  has the invariant of a scan and \<open>taken\<close>, the files a budget lets in. \<open>Ingest_Properties\<close> and
  \<open>Ingest_Command_Properties\<close>: the manifest holds exactly the files that were walked, kept by the filter and taken
  within the budget, in an order that does not depend on the listing, none of them excluded by default; what is sent is
  what was scanned; the platform's own repository is refused.

  Capabilities (\<open>capability/\<close>, \<open>search_cmd.py\<close>, \<open>dependency_resolve_cmd.py\<close>, \<open>capability_cmd.py\<close>). \<open>Capability_Names\<close>
  validates, suggests and creates names; \<open>Capability_Client\<close> searches and resolves over \<open>execute\<close>;
  \<open>Dependency_Command\<close> writes \<open>dependencies.yaml\<close> or an advisory file, and proofs, and has the resolve command;
  \<open>Capability_Command\<close> has the others. \<open>Capability_Name_Properties\<close>: validation decides the grammar, stated
  apart from its patterns, and creation round trips. \<open>Capability_Properties\<close>: when an answer resolves and what
  dependency it gives, exactly; only a resolved answer in a native repository is written, once.
  \<open>Capability_Command_Properties\<close>: creation appends one line to one artifact; registration never registers, since it
  raises \<open>NameError\<close> before it would send.

  Validation (\<open>validation/\<close>, \<open>validate_cmd.py\<close>). \<open>Repo_Validation\<close> reads and checks each governance file and the files
  against each other; \<open>Validation_Pipeline\<close> composes them; \<open>Validation_Command\<close> has guidance, proofs and the command.
  \<open>Validation_Properties\<close>: the status is the one the issues call for and the worst of the four checks, strict mode
  only adds, a repository that passes is well formed.

  Governed flow (\<open>governed_flow.py\<close> over \<open>governed_demo.py\<close>). \<open>Governed_Boundary\<close> reads answers of the boundary: the
  operations it offers, gaps and their choice, receipts, errors. \<open>Governed_Flow\<close> is the client: the state it saves, its
  requests and the wait for a run, the steps from a declaration to a receipt, the recovery of a saved run and the
  commands run, resume, status and receipt; an operation is a function from a state to an error or a value and a state.
  The wait has a deadline and sleeps two seconds in each round, so the rounds it can take are computed from the
  deadline (\<open>patience_rounds\<close>: half the seconds to it, and one); running out of them is an error of its own, which is
  proved never to happen on a clock that does not go backwards. \<open>Governed_Flow_Properties\<close> has a calculus
  of kept invariants, the locale \<open>flow_record\<close> with three interpretations, and the results: a success has the evidence of
  a checked receipt, the token goes to the boundary's URL only and what is saved is redacted, every command ends, the choice of
  a gap in exact form, a refused gate sends nothing of the candidate, a finished flow is only reported.

  Host coherence (\<open>doctor/\<close>, \<open>host/\<close>). \<open>Host_Models\<close>, \<open>Host_Identity\<close> (both
  reconcilers, repair guidance, the doctor report), \<open>Host_Config\<close> (installers and detectors over a
  file system), \<open>Host_Attestations\<close> (the store, freshness and the coherence verdict).
  \<open>Host_Properties\<close>: the reconcilers agree, the verdict in exact form, stored attestations load
  back, installers touch one entry, what is installed is detected.

  Governance (\<open>context/\<close>, \<open>proof/\<close>, \<open>governance/\<close>). \<open>Context_Client\<close>, \<open>Proof_Bundle\<close> (models, runner,
  adapters) and \<open>Governance\<close> (the seven phases, evidence, trace). \<open>Governance_Properties\<close>: the
  causal chain never completes, traces are honest, when a run is launch-ready.

  \<^bold>\<open>Conventions.\<close> A class becomes a record and its methods functions that return the new record;
  an exception that leaves a function is the left side of a sum (or a constructor of an error
  type), every early return a branch. Loops with a Python bound are structural recursions on
  the number of rounds left, so no fuel is used, apart from the wait of the governed flow, whose rounds its deadline
  bounds; the loop without a bound is a
  \<open>partial_function\<close> with a proof that it returns. What the code takes from outside is an
  argument: HTTP answers, the clock, uuids, random numbers, callbacks, pydantic's validation of
  a token, the order in which a directory is listed, and, as \<open>fstr\<close>, the text an f-string gives
  for a value that is not a string. Hypotheses about them are named in the theorems: uuids are
  not empty (and distinct where freshness is claimed), a clock does not run backwards and a
  sleep lasts at least what was asked, a listing has the entries of its directory.

  \<^bold>\<open>Where the code departs from its documentation\<close> the theorems state what it does: caller
  headers reach the first attempt only; a Retry-After replaces the backoff; two of the four
  evidence fields of \<open>/realize\<close> cannot be missing; record file names are not injective; a run
  proof for the identity \<open>..\<close> leaves its directory; a status answer that is not an object
  raises; sign-out raises before clearing anything on a revocation error it does not catch;
  the server's flow preference has no effect; a link without a path keeps its query; a
  \<open>slow_down\<close> can shorten the interval; optional surfaces block commands;
  a running, denied or cancelled run counts as completed when the dispatch answer says so; the
  proof of a failed dispatch says nothing was sent; parameters of a padded name are not checked;
  published corrections reach validators already built; discovery that cannot be cached is
  dropped; overrides are honoured for any pair of identities; the doctor is never ok;
  a session is stored before the identity is compared; a rejected answer with code 200 is written as a
  dependency; registering a capability raises \<open>NameError\<close>; the stored principal hint is never read; a browser login
  never returns; a write that fails can leave a file truncated; the version \<open>v0\<close> is accepted; a \<open>produces\<close> that is a number ends a validation with an
  exception; the proof of a repository with dependencies is never finished; a poll address of the boundary can name another
  host; a claim token is saved in the clear; a finished flow reports its receipt for any commit.

  \<^bold>\<open>Not modelled.\<close> Printing, argument parsing, file and socket I/O, pydantic parsing, YAML, SHA-256,
  logging, thread scheduling inside a lock: these are arguments or left out. A device that fails in the middle of a
  write is modelled for the capability artifacts and the settings of a host; elsewhere a failing write changes nothing. Whole components that are left out
  are named in the manifest: gap closure and the first-app demo repeat the governed flow with other constants; explain,
  alignment, registration, passports, budgets and connection identity assemble or forward answers of the
  boundary; the developer surface contract, the smoke tests and the build scripts are outside the client.
\<close>

end
